(* ===== verification/RP_Prelude.thy ===== *)
theory RP_Prelude
  imports Main "HOL-Library.Word"
begin

text \<open>
  The prelude of the review-protocol development: the machine integers and byte strings the
  crate carries, \<open>Result\<close> as a sum with its constructors named \<open>Ok\<close> and
  \<open>Err\<close>, Rust's question-mark operator on a computation that threads a state, and the
  one loop combinator every loop of the crate is an instance of. Two interfaces live here
  because several components share them: \<open>num_enum\<close>, the contract of an enum that is
  sent as its discriminant, and \<open>loop_variant\<close>, the contract under which a loop returns.
\<close>

subsection \<open>Machine integers, floats and bytes\<close>

type_synonym u8 = "8 word"
type_synonym u16 = "16 word"
type_synonym u32 = "32 word"
type_synonym u64 = "64 word"
type_synonym i32 = "32 word"
type_synonym i64 = "64 word"

text \<open>
  Floats are transported and never computed with, so a float is its IEEE bit pattern.
  A signed integer is its two's complement word, read with \<open>sint\<close>.
\<close>

type_synonym f32 = "32 word"
type_synonym f64 = "64 word"

type_synonym bytes = "u8 list"

subsection \<open>Results and the question-mark operator\<close>

abbreviation Ok :: "'a \<Rightarrow> 'e + 'a" where
  "Ok \<equiv> Inr"

abbreviation Err :: "'e \<Rightarrow> 'e + 'a" where
  "Err \<equiv> Inl"

text \<open>\<open>map_ok\<close> is \<open>Result::map\<close>, \<open>map_err\<close> is \<open>Result::map_err\<close>,
  \<open>res_and_then\<close> is \<open>Result::and_then\<close>.\<close>

fun map_ok :: "('a \<Rightarrow> 'b) \<Rightarrow> 'e + 'a \<Rightarrow> 'e + 'b" where
  "map_ok f (Err e) = Err e"
| "map_ok f (Ok a) = Ok (f a)"

fun map_err :: "('e \<Rightarrow> 'f) \<Rightarrow> 'e + 'a \<Rightarrow> 'f + 'a" where
  "map_err f (Err e) = Err (f e)"
| "map_err f (Ok a) = Ok a"

fun res_and_then :: "'e + 'a \<Rightarrow> ('a \<Rightarrow> 'e + 'b) \<Rightarrow> 'e + 'b" where
  "res_and_then (Err e) k = Err e"
| "res_and_then (Ok a) k = k a"

text \<open>
  A fallible operation on a state returns its result and the new state. \<open>try_with m k\<close>
  is the source's \<open>let x = m?; k\<close>: an error leaves with the state reached so far.
\<close>

fun try_with :: "('e + 'a) \<times> 's \<Rightarrow> ('a \<Rightarrow> 's \<Rightarrow> ('e + 'b) \<times> 's) \<Rightarrow> ('e + 'b) \<times> 's" where
  "try_with (Err e, s) k = (Err e, s)"
| "try_with (Ok a, s) k = k a s"

lemma map_ok_eq_Ok [simp]: "map_ok f r = Ok b \<longleftrightarrow> (\<exists>a. r = Ok a \<and> b = f a)"
  by (cases r) auto

lemma map_ok_eq_Err [simp]: "map_ok f r = Err e \<longleftrightarrow> r = Err e"
  by (cases r) auto

lemma map_err_eq_Ok [simp]: "map_err f r = Ok a \<longleftrightarrow> r = Ok a"
  by (cases r) auto

lemma map_err_eq_Err [simp]: "map_err f r = Err e' \<longleftrightarrow> (\<exists>e. r = Err e \<and> e' = f e)"
  by (cases r) auto

lemma try_with_eq_Ok:
  "try_with m k = (Ok b, t) \<longleftrightarrow> (\<exists>a s. m = (Ok a, s) \<and> k a s = (Ok b, t))"
  by (cases m; cases "fst m") auto

lemma try_with_eq_Err:
  "try_with m k = (Err e, t) \<longleftrightarrow> m = (Err e, t) \<or> (\<exists>a s. m = (Ok a, s) \<and> k a s = (Err e, t))"
  by (cases m; cases "fst m") auto

lemma try_with_cong [fundef_cong]:
  assumes "m = m'" and "\<And>a s. m' = (Ok a, s) \<Longrightarrow> k a s = k' a s"
  shows "try_with m k = try_with m' k'"
  using assms by (cases m'; cases "fst m'") auto

subsection \<open>Loops\<close>

text \<open>
  One round of a loop either goes on in a new state or leaves the loop with a result; a round
  that itself never ends is \<open>None\<close>. \<open>iterate\<close> runs rounds until one leaves;
  \<open>None\<close> is a loop that never leaves.
\<close>

datatype ('s, 'r) flow = Again 's | Leave 'r

partial_function (option) iterate :: "('s \<Rightarrow> ('s, 'r) flow option) \<Rightarrow> 's \<Rightarrow> 'r option" where
  "iterate step s =
     (case step s of
        None \<Rightarrow> None
      | Some fl \<Rightarrow> (case fl of Again s' \<Rightarrow> iterate step s' | Leave r \<Rightarrow> Some r))"

lemma iterate_Again: "step s = Some (Again s') \<Longrightarrow> iterate step s = iterate step s'"
  by (simp add: iterate.simps)

lemma iterate_Leave: "step s = Some (Leave r) \<Longrightarrow> iterate step s = Some r"
  by (simp add: iterate.simps)

text \<open>
  The induction a loop that returned gives: a property of the result follows from each
  leaving round and is passed back through each round that goes on.
\<close>

lemma iterate_induct [consumes 1, case_names Again Leave]:
  assumes ret: "iterate step s = Some r"
    and again: "\<And>s s' r. step s = Some (Again s') \<Longrightarrow> iterate step s' = Some r \<Longrightarrow> P s' r \<Longrightarrow> P s r"
    and leave: "\<And>s r. step s = Some (Leave r) \<Longrightarrow> P s r"
  shows "P s r"
proof -
  have "step = step \<longrightarrow> iterate step s = Some r \<and> P s r"
  proof (rule iterate.raw_induct
      [where P = "\<lambda>h s r. h = step \<longrightarrow> iterate step s = Some r \<and> P s r", OF _ ret])
    fix rec h s r
    assume IH: "\<And>h s r. rec h s = Some r \<Longrightarrow> h = step \<longrightarrow> iterate step s = Some r \<and> P s r"
      and eq: "(case h s of None \<Rightarrow> None
                | Some fl \<Rightarrow> (case fl of Again s' \<Rightarrow> rec h s' | Leave r \<Rightarrow> Some r)) = Some r"
    show "h = step \<longrightarrow> iterate step s = Some r \<and> P s r"
      using IH eq
      by (auto simp: iterate_Again iterate_Leave split: option.splits flow.splits
          intro: again leave)
  qed
  then show ?thesis by simp
qed

text \<open>
  Partial correctness: what every round keeps holds in the state the loop leaves from.
\<close>

lemma iterate_invariant:
  assumes "iterate step s = Some r" and "I s"
    and keep: "\<And>s s'. I s \<Longrightarrow> step s = Some (Again s') \<Longrightarrow> I s'"
  shows "\<exists>t. I t \<and> step t = Some (Leave r)"
  using assms(1,2) by (induction rule: iterate_induct) (auto dest: keep)

text \<open>
  Two loops whose rounds are related step by step return related results, on every number
  of rounds: the simulation rule behind the equivalences of the duplicated dispatch loops.
\<close>

lemma iterate_simulation:
  assumes ret: "iterate f s = Some r" and rel: "R s t"
    and again: "\<And>s t s'. R s t \<Longrightarrow> f s = Some (Again s') \<Longrightarrow> \<exists>t'. g t = Some (Again t') \<and> R s' t'"
    and leave: "\<And>s t r. R s t \<Longrightarrow> f s = Some (Leave r) \<Longrightarrow> \<exists>r'. g t = Some (Leave r') \<and> Q r r'"
  shows "\<exists>r'. iterate g t = Some r' \<and> Q r r'"
  using ret rel
proof (induction arbitrary: t rule: iterate_induct)
  case (Again s s' r)
  then obtain t' where t': "g t = Some (Again t')" "R s' t'"
    using again by blast
  with Again.IH show ?case by (simp add: iterate_Again)
next
  case (Leave s r)
  then show ?case
    using leave by (fastforce simp: iterate_Leave)
qed

text \<open>
  The contract of a loop that returns: an invariant under which each round ends, and a variant
  that every round decreases.
\<close>

locale loop_variant =
  fixes step :: "'s \<Rightarrow> ('s, 'r) flow option"
    and inv :: "'s \<Rightarrow> bool"
    and variant :: "'s \<Rightarrow> nat"
  assumes round_ends: "inv s \<Longrightarrow> step s \<noteq> None"
    and inv_step: "inv s \<Longrightarrow> step s = Some (Again s') \<Longrightarrow> inv s'"
    and decrease: "inv s \<Longrightarrow> step s = Some (Again s') \<Longrightarrow> variant s' < variant s"
begin

lemma leaves:
  "inv s \<Longrightarrow> \<exists>t r. inv t \<and> step t = Some (Leave r) \<and> iterate step s = Some r"
proof (induction s rule: measure_induct_rule [of variant])
  case (less s)
  then obtain fl where fl: "step s = Some fl"
    using round_ends by blast
  show ?case
  proof (cases fl)
    case (Again s')
    with fl less.prems have "inv s'" "variant s' < variant s"
      by (auto intro: inv_step decrease)
    with less.IH fl Again show ?thesis by (simp add: iterate_Again)
  next
    case (Leave r)
    with fl less.prems show ?thesis by (auto simp: iterate_Leave)
  qed
qed

lemma returns: "inv s \<Longrightarrow> \<exists>r. iterate step s = Some r"
  using leaves by blast

end

subsection \<open>Decimal numbers in messages\<close>

text \<open>What \<open>{}\<close> prints for an unsigned integer.\<close>

fun show_nat :: "nat \<Rightarrow> string" where
  "show_nat n =
     (if n < 10 then [char_of (48 + n)] else show_nat (n div 10) @ [char_of (48 + n mod 10)])"

declare show_nat.simps [simp del]

definition read_nat :: "string \<Rightarrow> nat" where
  "read_nat s = foldl (\<lambda>n c. n * 10 + (of_char c - 48)) 0 s"

lemma read_show_nat [simp]: "read_nat (show_nat n) = n"
proof (induction n rule: show_nat.induct)
  case (1 n)
  then show ?case
    by (cases "n < 10") (simp_all add: show_nat.simps [of n] read_nat_def)
qed

lemma show_nat_inject [simp]: "show_nat m = show_nat n \<longleftrightarrow> m = n"
  by (metis read_show_nat)

subsection \<open>Enums sent as their discriminant\<close>

text \<open>
  \<open>FromPrimitive\<close> with a default variant: the variant the table gives a number, or
  the default.
\<close>

definition from_discriminant :: "('n \<times> 'c) list \<Rightarrow> 'c \<Rightarrow> 'n \<Rightarrow> 'c" where
  "from_discriminant table def n = (case map_of table n of Some c \<Rightarrow> c | None \<Rightarrow> def)"

lemma from_discriminant_foreign:
  assumes "\<forall>(k, c) \<in> set table. k = into c" and "n \<notin> range into"
  shows "from_discriminant table def n = def"
proof (cases "map_of table n")
  case (Some c)
  then have "n = into c" using assms(1) by (auto dest: map_of_SomeD)
  with assms(2) show ?thesis by blast
qed (simp add: from_discriminant_def)

text \<open>
  The contract of \<open>num_enum\<close>'s derived \<open>IntoPrimitive\<close> and
  \<open>FromPrimitive\<close> with a \<open>default\<close> variant: a variant survives its own number, and
  every number that names no variant reads as the default one.
\<close>

locale num_enum =
  fixes into_prim :: "'c \<Rightarrow> 'n"
    and from_prim :: "'n \<Rightarrow> 'c"
    and unknown :: 'c
  assumes from_into: "from_prim (into_prim c) = c"
    and from_other: "n \<notin> range into_prim \<Longrightarrow> from_prim n = unknown"
begin

lemma inj_into: "inj into_prim"
  by (metis from_into injI)

lemma into_from: "from_prim n \<noteq> unknown \<Longrightarrow> into_prim (from_prim n) = n"
  by (metis from_into from_other imageE)

lemma from_eq_iff: "c \<noteq> unknown \<Longrightarrow> from_prim n = c \<longleftrightarrow> n = into_prim c"
  by (metis from_into into_from)

lemma from_unknown_iff:
  "from_prim n = unknown \<longleftrightarrow> n = into_prim unknown \<or> n \<notin> range into_prim"
  by (metis from_into from_other imageE)

end

subsection \<open>Word facts shared by the byte counters\<close>

lemma unat_sub_le: "b \<le> a \<Longrightarrow> unat (a - b) = unat a - unat (b :: 'a :: len word)"
  by (simp add: unat_sub)

lemma u64_bound: "unat (w :: u64) < 2 ^ 64"
  by (rule less_le_trans [OF unsigned_less]) simp

lemma unat_of_nat_u64: "n < 2 ^ 64 \<Longrightarrow> unat (of_nat n :: u64) = n"
  by (simp add: unsigned_of_nat take_bit_nat_eq_self)

lemma unat_of_nat_le: "n \<le> unat (w :: 'a :: len word) \<Longrightarrow> unat (of_nat n :: 'a word) = n"
  by (metis le_less_trans mod_less unat_of_nat unsigned_less)

end
