(* ===== verification/Protocol_Error.thy ===== *)
theory Protocol_Error
  imports RP_Prelude
begin

text \<open>
  \<open>src/src/protocol_error.rs\<close>: the semantic error taxonomy, the dispatch error that
  carries a classification inside an I/O error, and its recovery. Of \<open>std::io::Error\<close>
  the crate uses the kind, the wrapped value and the printed message, which is what
  \<open>IoError\<close> holds.
\<close>

subsection \<open>The standard library's I/O error\<close>

text \<open>The kinds the crate names; any other kind of the standard library is
  \<open>EK_Else\<close> with its description.\<close>

datatype ErrorKind =
    EK_NotFound
  | EK_PermissionDenied
  | EK_ConnectionRefused
  | EK_ConnectionReset
  | EK_ConnectionAborted
  | EK_NotConnected
  | EK_InvalidInput
  | EK_InvalidData
  | EK_TimedOut
  | EK_UnexpectedEof
  | EK_Other
  | EK_Else string

fun kind_description :: "ErrorKind \<Rightarrow> string" where
  "kind_description EK_NotFound = ''entity not found''"
| "kind_description EK_PermissionDenied = ''permission denied''"
| "kind_description EK_ConnectionRefused = ''connection refused''"
| "kind_description EK_ConnectionReset = ''connection reset''"
| "kind_description EK_ConnectionAborted = ''connection aborted''"
| "kind_description EK_NotConnected = ''not connected''"
| "kind_description EK_InvalidInput = ''invalid input parameter''"
| "kind_description EK_InvalidData = ''invalid data''"
| "kind_description EK_TimedOut = ''timed out''"
| "kind_description EK_UnexpectedEof = ''unexpected end of file''"
| "kind_description EK_Other = ''other error''"
| "kind_description (EK_Else s) = s"

subsection \<open>The taxonomy and the dispatch error\<close>

datatype ProtocolErrorKind =
    PEK_NotSupported
  | PEK_Forbidden
  | PEK_InvalidArgs
  | PEK_VersionMismatch
  | PEK_Other

fun ProtocolErrorKind_fmt :: "ProtocolErrorKind \<Rightarrow> string" where
  "ProtocolErrorKind_fmt PEK_NotSupported = ''not supported''"
| "ProtocolErrorKind_fmt PEK_Forbidden = ''forbidden''"
| "ProtocolErrorKind_fmt PEK_InvalidArgs = ''invalid arguments''"
| "ProtocolErrorKind_fmt PEK_VersionMismatch = ''version mismatch''"
| "ProtocolErrorKind_fmt PEK_Other = ''other error''"

record DispatchError =
  de_kind :: ProtocolErrorKind
  de_message :: string

definition DispatchError_new :: "ProtocolErrorKind \<Rightarrow> string \<Rightarrow> DispatchError" where
  "DispatchError_new kind message = \<lparr>de_kind = kind, de_message = message\<rparr>"

definition protocol_kind :: "DispatchError \<Rightarrow> ProtocolErrorKind" where
  "protocol_kind e = de_kind e"

definition DispatchError_fmt :: "DispatchError \<Rightarrow> string" where
  "DispatchError_fmt e = de_message e"

text \<open>What an I/O error wraps: nothing, a dispatch error, or any other value, of which
  only the printed form is ever used.\<close>

datatype io_inner = NoInner | Inner_Dispatch DispatchError | Inner_Other string

record IoError =
  io_kind :: ErrorKind
  io_inner :: io_inner

definition IoError_new :: "ErrorKind \<Rightarrow> string \<Rightarrow> IoError" where
  "IoError_new k msg = \<lparr>io_kind = k, io_inner = Inner_Other msg\<rparr>"

definition IoError_new_dispatch :: "ErrorKind \<Rightarrow> DispatchError \<Rightarrow> IoError" where
  "IoError_new_dispatch k d = \<lparr>io_kind = k, io_inner = Inner_Dispatch d\<rparr>"

definition IoError_from :: "ErrorKind \<Rightarrow> IoError" where
  "IoError_from k = \<lparr>io_kind = k, io_inner = NoInner\<rparr>"

definition IoError_other :: "string \<Rightarrow> IoError" where
  "IoError_other msg = IoError_new EK_Other msg"

definition IoError_to_string :: "IoError \<Rightarrow> string" where
  "IoError_to_string e =
     (case io_inner e of
        NoInner \<Rightarrow> kind_description (io_kind e)
      | Inner_Dispatch d \<Rightarrow> DispatchError_fmt d
      | Inner_Other msg \<Rightarrow> msg)"

definition from_io :: "ProtocolErrorKind \<Rightarrow> IoError \<Rightarrow> IoError" where
  "from_io kind err =
     IoError_new_dispatch (io_kind err) (DispatchError_new kind (IoError_to_string err))"

definition of_io_error :: "IoError \<Rightarrow> ProtocolErrorKind" where
  "of_io_error err =
     (case io_inner err of
        Inner_Dispatch inner \<Rightarrow> protocol_kind inner
      | _ \<Rightarrow>
          (case io_kind err of
             EK_PermissionDenied \<Rightarrow> PEK_Forbidden
           | EK_InvalidData \<Rightarrow> PEK_NotSupported
           | EK_InvalidInput \<Rightarrow> PEK_InvalidArgs
           | _ \<Rightarrow> PEK_Other))"

lemmas io_error_defs =
  IoError_new_def IoError_new_dispatch_def IoError_from_def IoError_other_def
  IoError_to_string_def DispatchError_new_def protocol_kind_def DispatchError_fmt_def

subsection \<open>Classification\<close>

lemma io_kind_new [simp]:
  "io_kind (IoError_new k msg) = k"
  "io_kind (IoError_new_dispatch k d) = k"
  "io_kind (IoError_from k) = k"
  "io_kind (IoError_other msg) = EK_Other"
  by (simp_all add: io_error_defs)

lemma IoError_to_string_new [simp]: "IoError_to_string (IoError_new k msg) = msg"
  by (simp add: io_error_defs)

lemma of_io_error_dispatch [simp]:
  "of_io_error (IoError_new_dispatch k (DispatchError_new kind msg)) = kind"
  by (simp add: of_io_error_def io_error_defs)

lemma from_io_keeps_kind [simp]: "io_kind (from_io kind e) = io_kind e"
  by (simp add: from_io_def)

text \<open>
  Wrapping an I/O error with a classification loses nothing a caller can read back: the
  classification is the one \<open>of_io_error\<close> recovers, whatever the error's own kind would
  have been mapped to, while the error's kind and its printed message are kept; and an error
  that was classified twice carries the last classification.
\<close>

lemma from_io_classifies:
  "of_io_error (from_io kind e) = kind
   \<and> io_kind (from_io kind e) = io_kind e
   \<and> IoError_to_string (from_io kind e) = IoError_to_string e
   \<and> of_io_error (from_io kind (from_io kind' e)) = kind"
  by (simp add: from_io_def io_error_defs of_io_error_def)

end
