(* ===== verification/Wire_Types.thy ===== *)
theory Wire_Types
  imports RP_Prelude
begin

text \<open>
  \<open>src/src/types.rs\<close> outside its module \<open>node\<close>: the data the protocol carries.
  Fields and variants stand in declaration order, which is the wire encoding. Types of
  third-party crates that are only transported (\<open>ipnet::IpNet\<close>,
  \<open>jiff::civil::DateTime\<close>, \<open>structured::ColumnStatistics\<close>) are opaque: all that
  is known of a value is which value it is. A \<open>jiff::Timestamp\<close> is its count of
  nanoseconds, which is what is sent of it. A \<open>usize\<close> has 64 bits.
\<close>

datatype IpNet = IpNet bytes
datatype CivilDateTime = CivilDateTime bytes
datatype ColumnStatistics = ColumnStatistics bytes
datatype Timestamp = Timestamp (as_nanosecond: "128 word")

subsection \<open>Addresses and durations of the standard library\<close>

datatype IpAddr = IpAddr_V4 u32 | IpAddr_V6 "128 word"

datatype SocketAddr =
    SocketAddr_V4 u32 u16
  | SocketAddr_V6 "128 word" u16 u32 u32 \<comment> \<open>address, port, flow information, scope\<close>

record Duration =
  secs :: u64
  nanos :: u32

subsection \<open>Customer-data deletion\<close>

record CustomerDataDeletionRequest =
  cdd_id :: u32
  cdd_host_fqdn :: string

datatype CustomerDataDeletionReporter = Reporter_Sensor | Reporter_SemiSupervised

datatype CustomerDataDeletionOutcome = Outcome_Succeeded | Outcome_Failed string

record CustomerDataDeletionReport =
  cdr_id :: u32
  cdr_host_fqdn :: string
  cdr_completed_at :: "i64 option"
  cdr_reporter :: CustomerDataDeletionReporter
  cdr_outcome :: CustomerDataDeletionOutcome

subsection \<open>Unsupervised Engine runs and detectors\<close>

record TrainModelRequest =
  tm_run_id :: u32
  tm_model :: string
  tm_definition :: string

record CloneModelRequest =
  cm_run_id :: u32
  cm_source :: string
  cm_target_name :: string
  cm_strip_events :: bool

datatype ReportedRunState = Run_Started | Run_Failed | Run_Cancelled

datatype DetectorState =
    Detector_Running | Detector_Disabled | Detector_NoModel | Detector_PausedForRun

datatype RoundOutcome = Round_Succeeded | Round_Failed

datatype SourceState = Source_Served | Source_ServedByNoNode | Source_Failed

record SourceStatus =
  ss_source :: string
  ss_state :: SourceState
  ss_reason :: "string option"

record DetectorStatusReport =
  ds_detector_id :: i32
  ds_state :: DetectorState
  ds_finished_at :: "i64 option"
  ds_outcome :: "RoundOutcome option"
  ds_reason :: "string option"
  ds_events :: u64
  ds_sources :: "SourceStatus list"

subsection \<open>Data sources\<close>

datatype DataSourceKey = DataSourceKey_Id u32 | DataSourceKey_Name string

datatype DataType = DataType_Csv | DataType_Log | DataType_TimeSeries

text \<open>\<open>DataType\<close> is sent as a \<open>u16\<close>; a number that names no variant is an
  error (\<open>TryFromPrimitive\<close>), not a default.\<close>

fun DataType_into :: "DataType \<Rightarrow> u16" where
  "DataType_into DataType_Csv = 0"
| "DataType_into DataType_Log = 1"
| "DataType_into DataType_TimeSeries = 2"

definition DataType_try_from :: "u16 \<Rightarrow> DataType option" where
  "DataType_try_from n =
     map_of [(0, DataType_Csv), (1, DataType_Log), (2, DataType_TimeSeries)] n"

record DataSource =
  dsrc_id :: u32
  dsrc_name :: string
  dsrc_server_name :: string
  dsrc_address :: SocketAddr
  dsrc_data_type :: DataType
  dsrc_source :: string
  dsrc_kind :: "string option"
  dsrc_description :: string

subsection \<open>Host observation, networks, sampling\<close>

record ResourceUsage =
  ru_cpu_usage :: f32
  ru_total_memory :: u64
  ru_used_memory :: u64
  ru_disk_used_bytes :: u64
  ru_disk_available_bytes :: u64

record Process =
  proc_user :: string
  proc_cpu_usage :: f32
  proc_mem_usage :: f64
  proc_start_time :: i64
  proc_command :: string

record HostNetworkGroup =
  hng_hosts :: "IpAddr list"
  hng_networks :: "IpNet list"
  hng_ip_ranges :: "(IpAddr \<times> IpAddr) list"

datatype SamplingKind = Sampling_Conn | Sampling_Dns | Sampling_Http | Sampling_Rdp

record SamplingPolicy =
  sp_id :: u32
  sp_kind :: SamplingKind
  sp_interval :: Duration
  sp_period :: Duration
  sp_offset :: i32
  sp_src_ip :: "IpAddr option"
  sp_dst_ip :: "IpAddr option"
  sp_node :: "string option"
  sp_column :: "u32 option"

type_synonym TrafficFilterRule = "IpNet \<times> u16 list option \<times> u16 list option"

subsection \<open>Label database\<close>

datatype EventCategory =
    Reconnaissance | InitialAccess | Execution | CredentialAccess | Discovery
  | LateralMovement | CommandAndControl | Exfiltration | Impact | Collection
  | DefenseEvasion | Persistence | PrivilegeEscalation | ResourceDevelopment

datatype LabelDbKind = LabelDb_Ip | LabelDb_Url | LabelDb_Token | LabelDb_Regex

text \<open>\<open>LabelDbKind\<close> is sent as its \<open>u8\<close> discriminant (\<open>Serialize_repr\<close>); a byte
  that is none is an error (\<open>Deserialize_repr\<close>).\<close>

fun LabelDbKind_into :: "LabelDbKind \<Rightarrow> u8" where
  "LabelDbKind_into LabelDb_Ip = 0"
| "LabelDbKind_into LabelDb_Url = 1"
| "LabelDbKind_into LabelDb_Token = 2"
| "LabelDbKind_into LabelDb_Regex = 3"

definition LabelDbKind_try_from :: "u8 \<Rightarrow> LabelDbKind option" where
  "LabelDbKind_try_from n =
     map_of [(0, LabelDb_Ip), (1, LabelDb_Url), (2, LabelDb_Token), (3, LabelDb_Regex)] n"

datatype RuleKind = Rule_Os | Rule_AgentSoftware

record UserAgent =
  ua_name :: string
  ua_header :: string
  ua_kind :: RuleKind
  ua_last_modification_time :: i64

record LabelDbRule =
  ldr_rule_id :: u32
  ldr_category :: "EventCategory option"
  ldr_name :: string
  ldr_kind :: "RuleKind option"
  ldr_description :: "string option"
  ldr_references :: "string list option"
  ldr_samples :: "string list option"
  ldr_signatures :: "string list option"
  ldr_confidence :: "f32 option"

record LabelDb =
  ld_id :: u32
  ld_name :: string
  ld_description :: "string option"
  ld_kind :: LabelDbKind
  ld_category :: "EventCategory option"
  ld_version :: string
  ld_patterns :: "LabelDbRule list"

subsection \<open>Agent properties\<close>

datatype Status = Status_Ready | Status_Idle

definition REGISTRAR :: string where "REGISTRAR = ''registrar''"
definition COLOCATED_REVIEW :: string where "COLOCATED_REVIEW = ''colocated:review''"
definition COLOCATED_AICE_WEB_NEXT :: string where
  "COLOCATED_AICE_WEB_NEXT = ''colocated:aice-web-next''"
definition CAP_NODE_PACKAGE :: string where "CAP_NODE_PACKAGE = ''node.package''"
definition CAP_NODE_ENROLL :: string where "CAP_NODE_ENROLL = ''node.enroll''"
definition ROLLBACK_SUPERVISOR :: string where "ROLLBACK_SUPERVISOR = ''rollback-supervisor''"

record ManifestFormatRange =
  mf_min :: u32
  mf_max :: u32

definition ManifestFormatRange_contains :: "ManifestFormatRange \<Rightarrow> u32 \<Rightarrow> bool" where
  "ManifestFormatRange_contains r format_version \<longleftrightarrow>
     mf_min r \<le> format_version \<and> format_version \<le> mf_max r"

record ProvisioningFingerprint =
  pf_components :: "string \<rightharpoonup> string"
  pf_domain :: string

record AuditHealth =
  ah_below_low_water :: bool
  ah_intent_without_outcome :: u64

subsection \<open>Statistics, clusters, events\<close>

datatype ThreatLevel = VeryLow | Low | Medium | High | VeryHigh

record ColumnStatisticsUpdate =
  csu_cluster_id :: u32
  csu_column_statistics :: "ColumnStatistics list"

record TimeCount =
  tc_time :: CivilDateTime
  tc_count :: u64

record TimeSeries =
  ts_count_index :: "u64 option"
  ts_series :: "TimeCount list"

record TimeSeriesUpdate =
  tsu_cluster_id :: u32
  tsu_time_series :: "TimeSeries list"

record UpdateClusterRequest =
  uc_cluster_id :: u32
  uc_detector_id :: i32
  uc_signature :: string
  uc_score :: "f64 option"
  uc_size :: i64
  uc_event_ids :: "(i64 \<times> string) list"
  uc_status_id :: i32
  uc_labels :: "string list option"

record OutlierInfo =
  oi_id :: i64
  oi_rank :: i64
  oi_distance :: f64
  oi_sensor :: string

datatype EventKind =
    DnsCovertChannel | HttpThreat | RdpBruteForce | RepeatedHttpSessions | ExtraThreat
  | TorConnection | DomainGenerationAlgorithm | FtpBruteForce | FtpPlainText | PortScan
  | MultiHostPortScan | NonBrowser | LdapBruteForce | LdapPlainText | ExternalDdos
  | CryptocurrencyMiningPool | BlocklistConn | BlocklistDns | BlocklistDceRpc | BlocklistFtp
  | BlocklistHttp | BlocklistKerberos | BlocklistLdap | BlocklistMqtt | BlocklistNfs
  | BlocklistNtlm | BlocklistRdp | BlocklistSmb | BlocklistSmtp | BlocklistSsh | BlocklistTls
  | WindowsThreat | NetworkThreat | LockyRansomware | SuspiciousTlsTraffic | BlocklistBootp
  | BlocklistDhcp | TorConnectionConn | BlocklistRadius | BlocklistMalformedDns
  | UnusualDestinationPattern

record EventMessage =
  em_time :: Timestamp
  em_kind :: EventKind
  em_fields :: bytes

subsection \<open>Facts\<close>

lemma DataType_try_from_into [simp]: "DataType_try_from (DataType_into d) = Some d"
  by (cases d) (simp_all add: DataType_try_from_def)

lemma DataType_try_from_Some: "DataType_try_from n = Some d \<longleftrightarrow> n = DataType_into d"
  by (cases d) (auto simp: DataType_try_from_def split: if_splits)

lemma LabelDbKind_try_from_into [simp]: "LabelDbKind_try_from (LabelDbKind_into k) = Some k"
  by (cases k) (simp_all add: LabelDbKind_try_from_def)

lemma LabelDbKind_try_from_Some: "LabelDbKind_try_from n = Some k \<longleftrightarrow> n = LabelDbKind_into k"
  by (cases k) (auto simp: LabelDbKind_try_from_def split: if_splits)

text \<open>An empty range (minimum above maximum) contains nothing, and a range of one holds it.\<close>

lemma ManifestFormatRange_empty_iff:
  "(\<forall>v. \<not> ManifestFormatRange_contains r v) \<longleftrightarrow> mf_max r < mf_min r"
  by (meson ManifestFormatRange_contains_def not_le order_refl order_trans)

end
