(* ===== verification/Agent_Info.thy ===== *)
theory Agent_Info
  imports Protocol_Error Wire_Types
begin

text \<open>
  \<open>src/src/lib.rs\<close>: the protocol versions, the handshake errors, and the agent
  information with its conditional tail. The decoder of one type is bincode's
  \<open>borrow_decode_from_slice\<close>: a function from the bytes to the value and the number of
  bytes it used, or an error. One field of \<open>agent_info_decoder\<close> stands for each type the
  crate decodes here.
\<close>

subsection \<open>Versions and handshake errors\<close>

definition PROTOCOL_VERSION :: string where
  "PROTOCOL_VERSION = ''0.49.0''"

definition MIN_PROTOCOL_VERSION_REQ :: string where
  "MIN_PROTOCOL_VERSION_REQ = ''>=0.49.0''"

text \<open>\<open>'c\<close> is quinn's connection error.\<close>

datatype 'c HandshakeError =
    HE_ConnectionClosed
  | HE_ConnectionLost 'c
  | HE_ReadError IoError
  | HE_WriteError IoError
  | HE_MessageTooLarge
  | HE_InvalidMessage
  | HE_InvalidVersionArgument string
  | HE_IncompatibleProtocol string string

definition handle_handshake_send_io_error :: "IoError \<Rightarrow> 'c HandshakeError" where
  "handle_handshake_send_io_error e =
     (if io_kind e = EK_InvalidData then HE_MessageTooLarge else HE_WriteError e)"

definition handle_handshake_recv_io_error :: "IoError \<Rightarrow> 'c HandshakeError" where
  "handle_handshake_recv_io_error e =
     (case io_kind e of
        EK_InvalidData \<Rightarrow> HE_InvalidMessage
      | EK_UnexpectedEof \<Rightarrow> HE_ConnectionClosed
      | _ \<Rightarrow> HE_ReadError e)"

text \<open>\<open>From<&HandshakeError> for ProtocolErrorKind\<close> (\<open>protocol_error.rs\<close>).\<close>

fun of_handshake_error :: "'c HandshakeError \<Rightarrow> ProtocolErrorKind" where
  "of_handshake_error (HE_IncompatibleProtocol _ _) = PEK_VersionMismatch"
| "of_handshake_error _ = PEK_Other"

subsection \<open>The agent information\<close>

record AgentInfo =
  ai_agent_name :: string
  ai_agent_version :: string
  ai_protocol_version :: string
  ai_addr :: SocketAddr
  ai_status :: Status
  ai_capabilities :: "string set"
  ai_active_trust_epoch :: "u64 option"
  ai_manifest_formats :: "ManifestFormatRange option"
  ai_provisioning_fingerprint :: "ProvisioningFingerprint option"
  ai_audit_health :: "AuditHealth option"

record AgentInfoBase =
  ab_agent_name :: string
  ab_agent_version :: string
  ab_protocol_version :: string
  ab_addr :: SocketAddr
  ab_status :: Status

datatype 'e AgentInfoDecodeError = Decode_Base 'e | Decode_Tail string 'e

type_synonym ('e, 'a) decoder = "bytes \<Rightarrow> 'e + 'a \<times> nat"

record 'e agent_info_decoder =
  dec_base :: "('e, AgentInfoBase) decoder"
  dec_capabilities :: "('e, string set) decoder"
  dec_active_trust_epoch :: "('e, u64 option) decoder"
  dec_manifest_formats :: "('e, ManifestFormatRange option) decoder"
  dec_provisioning_fingerprint :: "('e, ProvisioningFingerprint option) decoder"
  dec_audit_health :: "('e, AuditHealth option) decoder"

text \<open>
  The offset is a state. \<open>buf.get(offset..)\<close> is \<open>None\<close> beyond the end of the
  buffer, and an empty rest is filtered out: both read as an absent field.
\<close>

definition decode_tail_field ::
  "('e, 'a) decoder \<Rightarrow> bytes \<Rightarrow> string \<Rightarrow> nat \<Rightarrow> ('e AgentInfoDecodeError + 'a option) \<times> nat" where
  "decode_tail_field dec buf field offset =
     (if length buf < offset \<or> drop offset buf = [] then (Ok None, offset)
      else (case dec (drop offset buf) of
              Err source \<Rightarrow> (Err (Decode_Tail field source), offset)
            | Ok (value, consumed) \<Rightarrow> (Ok (Some value), offset + consumed)))"

definition unwrap_or_default :: "string set option \<Rightarrow> string set" where
  "unwrap_or_default c = (case c of Some s \<Rightarrow> s | None \<Rightarrow> {})"

definition option_flatten :: "'a option option \<Rightarrow> 'a option" where
  "option_flatten x = Option.bind x id"

definition decode_agent_info ::
  "'e agent_info_decoder \<Rightarrow> bytes \<Rightarrow> 'e AgentInfoDecodeError + AgentInfo" where
  "decode_agent_info d buf =
     (case dec_base d buf of
        Err e \<Rightarrow> Err (Decode_Base e)
      | Ok (base, offset) \<Rightarrow>
          fst (try_with (decode_tail_field (dec_capabilities d) buf ''capabilities'' offset)
            (\<lambda>capabilities offset.
          try_with (decode_tail_field (dec_active_trust_epoch d) buf ''active_trust_epoch'' offset)
            (\<lambda>active_trust_epoch offset.
          try_with (decode_tail_field (dec_manifest_formats d) buf ''manifest_formats'' offset)
            (\<lambda>manifest_formats offset.
          try_with (decode_tail_field (dec_provisioning_fingerprint d) buf
                      ''provisioning_fingerprint'' offset)
            (\<lambda>provisioning_fingerprint offset.
          try_with (decode_tail_field (dec_audit_health d) buf ''audit_health'' offset)
            (\<lambda>audit_health offset.
               (Ok \<lparr>ai_agent_name = ab_agent_name base,
                    ai_agent_version = ab_agent_version base,
                    ai_protocol_version = ab_protocol_version base,
                    ai_addr = ab_addr base,
                    ai_status = ab_status base,
                    ai_capabilities = unwrap_or_default capabilities,
                    ai_active_trust_epoch = option_flatten active_trust_epoch,
                    ai_manifest_formats = option_flatten manifest_formats,
                    ai_provisioning_fingerprint = option_flatten provisioning_fingerprint,
                    ai_audit_health = option_flatten audit_health\<rparr>, offset))))))))"

subsection \<open>Encodings of the agent information\<close>

text \<open>
  What bincode documents and the conditional tail relies on: a value is decoded from the front
  of any bytes that start with its encoding, and the decoder reports the encoding's length.
  A struct is encoded as its fields in order, so an agent that knows \<open>k\<close> of the tail
  fields sends the base and those \<open>k\<close> encodings.
\<close>

definition decodes_at :: "('e, 'a) decoder \<Rightarrow> ('a \<Rightarrow> bytes) \<Rightarrow> 'a \<Rightarrow> bool" where
  "decodes_at dec enc x \<longleftrightarrow> (\<forall>rest. dec (enc x @ rest) = Ok (x, length (enc x)))"

record agent_info_encoder =
  enc_base :: "AgentInfoBase \<Rightarrow> bytes"
  enc_capabilities :: "string set \<Rightarrow> bytes"
  enc_active_trust_epoch :: "u64 option \<Rightarrow> bytes"
  enc_manifest_formats :: "ManifestFormatRange option \<Rightarrow> bytes"
  enc_provisioning_fingerprint :: "ProvisioningFingerprint option \<Rightarrow> bytes"
  enc_audit_health :: "AuditHealth option \<Rightarrow> bytes"

definition base_of :: "AgentInfo \<Rightarrow> AgentInfoBase" where
  "base_of i =
     \<lparr>ab_agent_name = ai_agent_name i, ab_agent_version = ai_agent_version i,
      ab_protocol_version = ai_protocol_version i, ab_addr = ai_addr i, ab_status = ai_status i\<rparr>"

definition tail_fields :: "agent_info_encoder \<Rightarrow> AgentInfo \<Rightarrow> bytes list" where
  "tail_fields e i =
     [enc_capabilities e (ai_capabilities i),
      enc_active_trust_epoch e (ai_active_trust_epoch i),
      enc_manifest_formats e (ai_manifest_formats i),
      enc_provisioning_fingerprint e (ai_provisioning_fingerprint i),
      enc_audit_health e (ai_audit_health i)]"

definition encode_agent_info :: "agent_info_encoder \<Rightarrow> nat \<Rightarrow> AgentInfo \<Rightarrow> bytes" where
  "encode_agent_info e k i = enc_base e (base_of i) @ concat (take k (tail_fields e i))"

text \<open>The codec law at one agent's values: every field decodes, and no tail field is empty.\<close>

definition agent_info_codec ::
  "'e agent_info_decoder \<Rightarrow> agent_info_encoder \<Rightarrow> AgentInfo \<Rightarrow> bool" where
  "agent_info_codec d e i \<longleftrightarrow>
     decodes_at (dec_base d) (enc_base e) (base_of i)
     \<and> decodes_at (dec_capabilities d) (enc_capabilities e) (ai_capabilities i)
     \<and> decodes_at (dec_active_trust_epoch d) (enc_active_trust_epoch e) (ai_active_trust_epoch i)
     \<and> decodes_at (dec_manifest_formats d) (enc_manifest_formats e) (ai_manifest_formats i)
     \<and> decodes_at (dec_provisioning_fingerprint d) (enc_provisioning_fingerprint e)
         (ai_provisioning_fingerprint i)
     \<and> decodes_at (dec_audit_health d) (enc_audit_health e) (ai_audit_health i)
     \<and> (\<forall>t \<in> set (tail_fields e i). t \<noteq> [])"

text \<open>What an agent that knows only the first \<open>k\<close> tail fields reports: the others unknown.\<close>

definition known_tail :: "nat \<Rightarrow> AgentInfo \<Rightarrow> AgentInfo" where
  "known_tail k i = i
     \<lparr>ai_capabilities := (if 1 \<le> k then ai_capabilities i else {}),
      ai_active_trust_epoch := (if 2 \<le> k then ai_active_trust_epoch i else None),
      ai_manifest_formats := (if 3 \<le> k then ai_manifest_formats i else None),
      ai_provisioning_fingerprint := (if 4 \<le> k then ai_provisioning_fingerprint i else None),
      ai_audit_health := (if 5 \<le> k then ai_audit_health i else None)\<rparr>"

subsection \<open>Decoding a tail field\<close>

lemma decode_tail_field_absent [simp]:
  "length buf \<le> offset \<Longrightarrow> decode_tail_field dec buf field offset = (Ok None, offset)"
  by (simp add: decode_tail_field_def)

lemma decodes_at_front:
  "decodes_at dec enc x \<longleftrightarrow>
     dec (enc x) = Ok (x, length (enc x)) \<and> (\<forall>rest. dec (enc x @ rest) = Ok (x, length (enc x)))"
  by (metis append_Nil2 decodes_at_def)

text \<open>The decoder of the tail field at position \<open>j\<close> rejects these bytes, and that field's name.\<close>

fun tail_rejects :: "'e agent_info_decoder \<Rightarrow> nat \<Rightarrow> bytes \<Rightarrow> 'e \<Rightarrow> bool" where
  "tail_rejects d 0 rest s \<longleftrightarrow> dec_capabilities d rest = Err s"
| "tail_rejects d (Suc 0) rest s \<longleftrightarrow> dec_active_trust_epoch d rest = Err s"
| "tail_rejects d (Suc (Suc 0)) rest s \<longleftrightarrow> dec_manifest_formats d rest = Err s"
| "tail_rejects d (Suc (Suc (Suc 0))) rest s \<longleftrightarrow> dec_provisioning_fingerprint d rest = Err s"
| "tail_rejects d (Suc (Suc (Suc (Suc 0)))) rest s \<longleftrightarrow> dec_audit_health d rest = Err s"
| "tail_rejects d _ rest s \<longleftrightarrow> False"

definition tail_names :: "string list" where
  "tail_names = [''capabilities'', ''active_trust_epoch'', ''manifest_formats'',
                 ''provisioning_fingerprint'', ''audit_health'']"

lemmas agent_info_defs =
  decode_agent_info_def agent_info_codec_def encode_agent_info_def tail_fields_def
  known_tail_def base_of_def unwrap_or_default_def option_flatten_def
  decode_tail_field_def decodes_at_front

lemma le_5_cases: "k \<le> (5::nat) \<Longrightarrow> k = 0 \<or> k = 1 \<or> k = 2 \<or> k = 3 \<or> k = 4 \<or> k = 5"
  by arith

lemma decode_full_tail:
  "agent_info_codec d e i \<Longrightarrow> decode_agent_info d (encode_agent_info e 5 i) = Ok (known_tail 5 i)"
  by (simp add: agent_info_defs numeral_eq_Suc)

text \<open>
  Whatever prefix of the tail an agent knows, the manager reads the same agent: the fields
  the agent sent come back as they were, the fields it did not know read as nothing
  advertised, and bytes after a complete tail, from an agent that knows more fields than this
  version, are ignored.
\<close>

lemma tail_prefix_reads:
  assumes codec: "agent_info_codec d e i" and k: "k \<le> 5" and extra: "k < 5 \<Longrightarrow> extra = []"
  shows "decode_agent_info d (encode_agent_info e k i @ extra) = Ok (known_tail k i)"
  using le_5_cases [OF k] codec extra
  by (elim disjE) (simp_all add: agent_info_defs numeral_eq_Suc)

text \<open>
  A tail that is present but does not decode is never read as absent: at whichever field
  the bytes stop making sense, decoding fails and names that field.
\<close>

lemma tail_corrupt_refused:
  assumes codec: "agent_info_codec d e i" and j: "j < 5"
    and rest: "rest \<noteq> []" "tail_rejects d j rest s"
  shows "decode_agent_info d (encode_agent_info e j i @ rest) =
           Err (Decode_Tail (tail_names ! j) s)"
  using le_5_cases [OF less_imp_le [OF j]] codec rest j
  by (elim disjE) (simp_all add: agent_info_defs numeral_eq_Suc tail_names_def)

subsection \<open>A concrete agent\<close>

text \<open>An agent with every tail field set, and a codec that spends one byte on each value.\<close>

definition tag_decoder :: "u8 \<Rightarrow> 'a \<Rightarrow> (string, 'a) decoder" where
  "tag_decoder tag x bs =
     (case bs of [] \<Rightarrow> Err ''end of input'' | b # _ \<Rightarrow> if b = tag then Ok (x, 1) else Err ''tag'')"

definition sample_info :: AgentInfo where
  "sample_info =
     \<lparr>ai_agent_name = ''sensor'', ai_agent_version = ''1.0.0'', ai_protocol_version = ''0.49.0'',
      ai_addr = SocketAddr_V4 0 0, ai_status = Status_Ready, ai_capabilities = {CAP_NODE_PACKAGE},
      ai_active_trust_epoch = Some 42, ai_manifest_formats = Some \<lparr>mf_min = 1, mf_max = 2\<rparr>,
      ai_provisioning_fingerprint = Some \<lparr>pf_components = Map.empty, pf_domain = ''example''\<rparr>,
      ai_audit_health = Some \<lparr>ah_below_low_water = True, ah_intent_without_outcome = 3\<rparr>\<rparr>"

definition sample_encoder :: agent_info_encoder where
  "sample_encoder =
     \<lparr>enc_base = (\<lambda>_. [1]), enc_capabilities = (\<lambda>_. [2]), enc_active_trust_epoch = (\<lambda>_. [3]),
      enc_manifest_formats = (\<lambda>_. [4]), enc_provisioning_fingerprint = (\<lambda>_. [5]),
      enc_audit_health = (\<lambda>_. [6])\<rparr>"

definition sample_decoder :: "string agent_info_decoder" where
  "sample_decoder =
     \<lparr>dec_base = tag_decoder 1 (base_of sample_info),
      dec_capabilities = tag_decoder 2 (ai_capabilities sample_info),
      dec_active_trust_epoch = tag_decoder 3 (ai_active_trust_epoch sample_info),
      dec_manifest_formats = tag_decoder 4 (ai_manifest_formats sample_info),
      dec_provisioning_fingerprint = tag_decoder 5 (ai_provisioning_fingerprint sample_info),
      dec_audit_health = tag_decoder 6 (ai_audit_health sample_info)\<rparr>"

lemma sample_codec: "agent_info_codec sample_decoder sample_encoder sample_info"
  by (simp add: agent_info_codec_def decodes_at_def sample_decoder_def sample_encoder_def
      tag_decoder_def tail_fields_def)

lemma sample_rejects: "tail_rejects sample_decoder (Suc (Suc 0)) [9] ''tag''"
  by (simp add: sample_decoder_def tag_decoder_def)

lemma tail_prefix_instance:
  "agent_info_codec sample_decoder sample_encoder sample_info
   \<and> decode_agent_info sample_decoder (encode_agent_info sample_encoder 2 sample_info) =
       Ok (known_tail 2 sample_info)
   \<and> decode_agent_info sample_decoder (encode_agent_info sample_encoder 5 sample_info @ [7, 8]) =
       Ok (known_tail 5 sample_info)"
  using sample_codec tail_prefix_reads [OF sample_codec, of 2 "[]"]
    tail_prefix_reads [OF sample_codec, of 5 "[7, 8]"]
  by simp

lemma tail_corrupt_instance:
  "agent_info_codec sample_decoder sample_encoder sample_info
   \<and> decode_agent_info sample_decoder (encode_agent_info sample_encoder 2 sample_info @ [9]) =
       Err (Decode_Tail ''manifest_formats'' ''tag'')"
  using sample_codec tail_corrupt_refused [OF sample_codec _ _ sample_rejects]
  by (simp add: numeral_2_eq_2 tail_names_def)

end
