(* ===== verification/Handshake.thy ===== *)
theory Handshake
  imports Agent_Info
begin

text \<open>
  The handshake: \<open>ConnectionBuilder\<close> and its \<open>connect\<close> (\<open>src/src/client.rs\<close>)
  on the agent's side, \<open>handshake\<close> (\<open>src/src/server.rs\<close>) on the manager's. The
  versions and their requirements are the semver crate's, the streams quinn's and oinq's, the
  certificates rustls's: each is a record of the operations the crate calls.
\<close>

subsection \<open>The standard library's debug form of a string\<close>

fun hex_digit :: "nat \<Rightarrow> char" where
  "hex_digit n = (if n < 10 then char_of (48 + n) else char_of (87 + n))"

definition show_hex_byte :: "nat \<Rightarrow> string" where
  "show_hex_byte n = (if n < 16 then [hex_digit n] else [hex_digit (n div 16), hex_digit (n mod 16)])"

definition debug_char :: "char \<Rightarrow> string" where
  "debug_char c =
     (let n = of_char c :: nat; bs = char_of (92 :: nat) in
      if n = 34 then [bs, c] else if n = 92 then [bs, bs]
      else if n = 9 then bs # ''t'' else if n = 10 then bs # ''n'' else if n = 13 then bs # ''r''
      else if n = 0 then bs # ''0''
      else if n < 32 \<or> n = 127 then bs # ''u{'' @ show_hex_byte n @ ''}''
      else [c])"

definition debug_str :: "string \<Rightarrow> string" where
  "debug_str s = char_of (34 :: nat) # concat (map debug_char s) @ [char_of (34 :: nat)]"

subsection \<open>The manager's side\<close>

text \<open>\<open>semver\<close>: versions \<open>'v\<close> and requirements \<open>'q\<close>; errors by their text.\<close>

record ('v, 'q) semver =
  parse_version_req :: "string \<Rightarrow> string + 'q"
  parse_version :: "string \<Rightarrow> string + 'v"
  req_matches :: "'q \<Rightarrow> 'v \<Rightarrow> bool"
  version_le :: "'v \<Rightarrow> 'v \<Rightarrow> bool"
  show_version :: "'v \<Rightarrow> string"
  show_version_req :: "'q \<Rightarrow> string"

text \<open>
  A connection \<open>'k\<close> that accepts a stream, and the frames on it: the raw receive, the two
  sends and the finish of the sending half, whose result is discarded.
\<close>

record ('k, 'c, 's, 'r) handshake_io =
  accept_bi :: "'k \<Rightarrow> ('c + 's \<times> 'r) \<times> 'k"
  hs_recv_raw :: "'r \<Rightarrow> (IoError + bytes) \<times> 'r"
  hs_send_ok :: "'s \<Rightarrow> string \<Rightarrow> (IoError + unit) \<times> 's"
  hs_send_err :: "'s \<Rightarrow> string \<Rightarrow> (IoError + unit) \<times> 's"
  hs_finish :: "'s \<Rightarrow> 's"

text \<open>
  The manager's answer to a decoded agent: accepted when its version parses, satisfies the
  requirement and is not above the highest one.
\<close>

definition settle_handshake ::
  "('v, 'q) semver \<Rightarrow> ('k, 'c, 's, 'r) handshake_io \<Rightarrow> 'q \<Rightarrow> 'v \<Rightarrow> AgentInfo \<Rightarrow> 's
   \<Rightarrow> ('c HandshakeError + AgentInfo) \<times> 's" where
  "settle_handshake sv io version_req highest agent_info send =
     (if (case parse_version sv (ai_protocol_version agent_info) of
            Ok version \<Rightarrow> req_matches sv version_req version \<and> version_le sv version highest
          | Err _ \<Rightarrow> False)
      then (case hs_send_ok io send (show_version sv highest) of
              (Ok _, send) \<Rightarrow> (Ok agent_info, send)
            | (Err e, send) \<Rightarrow> (Err (handle_handshake_send_io_error e), send))
      else let combined_range = show_version_req sv version_req @ '', <='' @ show_version sv highest in
           (case hs_send_err io send combined_range of
              (Ok _, send) \<Rightarrow>
                (Err (HE_IncompatibleProtocol (ai_protocol_version agent_info) combined_range),
                 hs_finish io send)
            | (Err e, send) \<Rightarrow> (Err (handle_handshake_send_io_error e), send)))"

text \<open>The result, the connection and, when one was accepted, the two halves of the stream.\<close>

definition server_handshake ::
  "('v, 'q) semver \<Rightarrow> 'e agent_info_decoder \<Rightarrow> ('k, 'c, 's, 'r) handshake_io
   \<Rightarrow> 'k \<Rightarrow> SocketAddr \<Rightarrow> string \<Rightarrow> string
   \<Rightarrow> ('c HandshakeError + AgentInfo) \<times> 'k \<times> ('s \<times> 'r) option" where
  "server_handshake sv d io conn addr version_req highest_protocol_version =
     (case parse_version_req sv version_req of
        Err e \<Rightarrow> (Err (HE_InvalidVersionArgument
                       (''version_req '' @ debug_str version_req @ '': '' @ e)), conn, None)
      | Ok req \<Rightarrow>
     (case parse_version sv highest_protocol_version of
        Err e \<Rightarrow> (Err (HE_InvalidVersionArgument
                       (''highest_protocol_version '' @ debug_str highest_protocol_version
                        @ '': '' @ e)), conn, None)
      | Ok highest \<Rightarrow>
     (case accept_bi io conn of
        (Err e, conn) \<Rightarrow> (Err (HE_ConnectionLost e), conn, None)
      | (Ok (send, recv), conn) \<Rightarrow>
     (case hs_recv_raw io recv of
        (Err e, recv) \<Rightarrow> (Err (handle_handshake_recv_io_error e), conn, Some (send, recv))
      | (Ok buf, recv) \<Rightarrow>
     (case decode_agent_info d buf of
        Err _ \<Rightarrow> (Err HE_InvalidMessage, conn, Some (send, recv))
      | Ok agent_info \<Rightarrow>
          (case settle_handshake sv io req highest (agent_info\<lparr>ai_addr := addr\<rparr>) send of
             (res, send) \<Rightarrow> (res, conn, Some (send, recv))))))))"

subsection \<open>The agent's side: the builder\<close>

text \<open>
  \<open>'ct\<close> is a certificate, \<open>'ky\<close> a private key, \<open>'rt\<close> a root store.
  \<open>pem_certs\<close> is the iterator of \<open>rustls_pemfile::certs\<close>.
\<close>

record ('ct, 'ky, 'rt) tls_ops =
  pem_certs :: "bytes \<Rightarrow> (IoError + 'ct) list"
  pem_key :: "bytes \<Rightarrow> IoError + 'ky option"
  roots_empty :: 'rt
  roots_add :: "'rt \<Rightarrow> 'ct \<Rightarrow> (string + unit) \<times> 'rt"

record ('ct, 'ky, 'rt) ConnectionBuilder =
  cb_remote_name :: string
  cb_remote_addr :: SocketAddr
  cb_local_addr :: IpAddr
  cb_agent_name :: string
  cb_agent_version :: string
  cb_protocol_version :: string
  cb_status :: Status
  cb_capabilities :: "string set"
  cb_active_trust_epoch :: "u64 option"
  cb_manifest_formats :: "ManifestFormatRange option"
  cb_provisioning_fingerprint :: "ProvisioningFingerprint option"
  cb_audit_health :: "AuditHealth option"
  cb_roots :: 'rt
  cb_certs :: "'ct list"
  cb_key :: 'ky

fun is_ipv6 :: "SocketAddr \<Rightarrow> bool" where
  "is_ipv6 (SocketAddr_V6 _ _ _ _) = True"
| "is_ipv6 (SocketAddr_V4 _ _) = False"

text \<open>\<open>collect::<Result<_, _>>()\<close>: all values, or the first error.\<close>

fun collect_results :: "('e + 'a) list \<Rightarrow> 'e + 'a list" where
  "collect_results [] = Ok []"
| "collect_results (Err e # rs) = Err e"
| "collect_results (Ok a # rs) = map_ok (\<lambda>as. a # as) (collect_results rs)"

definition read_certs :: "('ct, 'ky, 'rt) tls_ops \<Rightarrow> bytes \<Rightarrow> IoError + 'ct list" where
  "read_certs tls cert =
     res_and_then (collect_results (pem_certs tls cert))
       (\<lambda>certs. if certs = [] then Err (IoError_new EK_InvalidData ''no certificate'') else Ok certs)"

definition read_key :: "('ct, 'ky, 'rt) tls_ops \<Rightarrow> bytes \<Rightarrow> IoError + 'ky" where
  "read_key tls key =
     (case pem_key tls key of
        Err e \<Rightarrow> Err (IoError_new EK_InvalidData (IoError_to_string e))
      | Ok None \<Rightarrow> Err (IoError_new EK_InvalidData ''no private key'')
      | Ok (Some k) \<Rightarrow> Ok k)"

definition ConnectionBuilder_new ::
  "('ct, 'ky, 'rt) tls_ops \<Rightarrow> string \<Rightarrow> SocketAddr \<Rightarrow> string \<Rightarrow> string \<Rightarrow> string \<Rightarrow> Status
   \<Rightarrow> bytes \<Rightarrow> bytes \<Rightarrow> IoError + ('ct, 'ky, 'rt) ConnectionBuilder" where
  "ConnectionBuilder_new tls remote_name remote_addr agent_name agent_version protocol_version
       status cert key =
     (let local_addr = (if is_ipv6 remote_addr then IpAddr_V6 0 else IpAddr_V4 0) in
      res_and_then (read_certs tls cert) (\<lambda>certs.
      res_and_then (read_key tls key) (\<lambda>key.
        Ok \<lparr>cb_remote_name = remote_name, cb_remote_addr = remote_addr, cb_local_addr = local_addr,
            cb_agent_name = agent_name, cb_agent_version = agent_version,
            cb_protocol_version = protocol_version, cb_status = status, cb_capabilities = {},
            cb_active_trust_epoch = None, cb_manifest_formats = None,
            cb_provisioning_fingerprint = None, cb_audit_health = None,
            cb_roots = roots_empty tls, cb_certs = certs, cb_key = key\<rparr>)))"

definition builder_capabilities ::
  "string list \<Rightarrow> ('ct, 'ky, 'rt) ConnectionBuilder \<Rightarrow> ('ct, 'ky, 'rt) ConnectionBuilder" where
  "builder_capabilities capabilities self = self\<lparr>cb_capabilities := set capabilities\<rparr>"

definition builder_active_trust_epoch ::
  "u64 \<Rightarrow> ('ct, 'ky, 'rt) ConnectionBuilder \<Rightarrow> ('ct, 'ky, 'rt) ConnectionBuilder" where
  "builder_active_trust_epoch epoch self = self\<lparr>cb_active_trust_epoch := Some epoch\<rparr>"

definition builder_manifest_formats ::
  "ManifestFormatRange \<Rightarrow> ('ct, 'ky, 'rt) ConnectionBuilder \<Rightarrow> ('ct, 'ky, 'rt) ConnectionBuilder" where
  "builder_manifest_formats formats self = self\<lparr>cb_manifest_formats := Some formats\<rparr>"

definition builder_provisioning_fingerprint ::
  "ProvisioningFingerprint \<Rightarrow> ('ct, 'ky, 'rt) ConnectionBuilder \<Rightarrow> ('ct, 'ky, 'rt) ConnectionBuilder" where
  "builder_provisioning_fingerprint fingerprint self =
     self\<lparr>cb_provisioning_fingerprint := Some fingerprint\<rparr>"

definition builder_audit_health ::
  "AuditHealth \<Rightarrow> ('ct, 'ky, 'rt) ConnectionBuilder \<Rightarrow> ('ct, 'ky, 'rt) ConnectionBuilder" where
  "builder_audit_health health self = self\<lparr>cb_audit_health := Some health\<rparr>"

definition builder_cert ::
  "('ct, 'ky, 'rt) tls_ops \<Rightarrow> bytes \<Rightarrow> ('ct, 'ky, 'rt) ConnectionBuilder
   \<Rightarrow> (IoError + unit) \<times> ('ct, 'ky, 'rt) ConnectionBuilder" where
  "builder_cert tls cert self =
     (case read_certs tls cert of
        Err e \<Rightarrow> (Err e, self)
      | Ok certs \<Rightarrow> (Ok (), self\<lparr>cb_certs := certs\<rparr>))"

definition builder_key ::
  "('ct, 'ky, 'rt) tls_ops \<Rightarrow> bytes \<Rightarrow> ('ct, 'ky, 'rt) ConnectionBuilder
   \<Rightarrow> (IoError + unit) \<times> ('ct, 'ky, 'rt) ConnectionBuilder" where
  "builder_key tls key self =
     (case read_key tls key of
        Err e \<Rightarrow> (Err e, self)
      | Ok k \<Rightarrow> (Ok (), self\<lparr>cb_key := k\<rparr>))"

text \<open>Each certificate is added as it is read: an error leaves the ones before it in place.\<close>

fun add_certs ::
  "('ct, 'ky, 'rt) tls_ops \<Rightarrow> (IoError + 'ct) list \<Rightarrow> 'rt \<Rightarrow> (IoError + unit) \<times> 'rt" where
  "add_certs tls [] roots = (Ok (), roots)"
| "add_certs tls (Err e # cs) roots = (Err e, roots)"
| "add_certs tls (Ok c # cs) roots =
     (case roots_add tls roots c of
        (Err e, roots) \<Rightarrow> (Err (IoError_new EK_InvalidData e), roots)
      | (Ok _, roots) \<Rightarrow> add_certs tls cs roots)"

fun add_pems ::
  "('ct, 'ky, 'rt) tls_ops \<Rightarrow> bytes list \<Rightarrow> 'rt \<Rightarrow> (IoError + unit) \<times> 'rt" where
  "add_pems tls [] roots = (Ok (), roots)"
| "add_pems tls (pem # pems) roots =
     try_with (add_certs tls (pem_certs tls pem) roots) (\<lambda>_. add_pems tls pems)"

definition builder_root_certs ::
  "('ct, 'ky, 'rt) tls_ops \<Rightarrow> bytes list \<Rightarrow> ('ct, 'ky, 'rt) ConnectionBuilder
   \<Rightarrow> (IoError + unit) \<times> ('ct, 'ky, 'rt) ConnectionBuilder" where
  "builder_root_certs tls certs self =
     (case add_pems tls certs (roots_empty tls) of (res, roots) \<Rightarrow> (res, self\<lparr>cb_roots := roots\<rparr>))"

definition builder_add_root_certs ::
  "('ct, 'ky, 'rt) tls_ops \<Rightarrow> bytes \<Rightarrow> ('ct, 'ky, 'rt) ConnectionBuilder
   \<Rightarrow> (IoError + unit) \<times> ('ct, 'ky, 'rt) ConnectionBuilder" where
  "builder_add_root_certs tls rd self =
     (case add_certs tls (pem_certs tls rd) (cb_roots self) of (res, roots) \<Rightarrow>
        (res, self\<lparr>cb_roots := roots\<rparr>))"

definition builder_local_addr ::
  "IpAddr \<Rightarrow> ('ct, 'ky, 'rt) ConnectionBuilder \<Rightarrow> ('ct, 'ky, 'rt) ConnectionBuilder" where
  "builder_local_addr addr self = self\<lparr>cb_local_addr := addr\<rparr>"

subsection \<open>The agent's side: connecting\<close>

text \<open>\<open>quinn::ConnectionError\<close>, the closing frames by their text.\<close>

datatype ConnectionError =
    CE_VersionMismatch
  | CE_TransportError string
  | CE_ConnectionClosed string
  | CE_ApplicationClosed string
  | CE_Reset
  | CE_TimedOut
  | CE_LocallyClosed
  | CE_CidsExhausted

fun connection_error_to_io :: "ConnectionError \<Rightarrow> IoError" where
  "connection_error_to_io (CE_ApplicationClosed e) = IoError_new EK_ConnectionAborted e"
| "connection_error_to_io CE_CidsExhausted = IoError_other ''connection IDs exhausted''"
| "connection_error_to_io (CE_ConnectionClosed e) = IoError_new EK_ConnectionAborted e"
| "connection_error_to_io CE_LocallyClosed = IoError_new EK_NotConnected ''locally closed''"
| "connection_error_to_io CE_Reset = IoError_from EK_ConnectionReset"
| "connection_error_to_io CE_TimedOut = IoError_from EK_TimedOut"
| "connection_error_to_io (CE_TransportError e) = IoError_new EK_InvalidData e"
| "connection_error_to_io CE_VersionMismatch = IoError_new EK_ConnectionRefused ''version mismatch''"

text \<open>
  \<open>'b\<close> is the builder, \<open>'ep\<close> an endpoint, \<open>'g\<close> a pending connection,
  \<open>'k\<close> a connection. The reply is oinq's \<open>frame::recv::<Result<&str, &str>>\<close>.
\<close>

record ('b, 'ep, 'g, 'k, 's, 'r) connect_io =
  build_endpoint :: "'b \<Rightarrow> IoError + 'ep"
  endpoint_connect :: "'ep \<Rightarrow> SocketAddr \<Rightarrow> string \<Rightarrow> string + 'g"
  await_connecting :: "'g \<Rightarrow> ConnectionError + 'k"
  remote_address :: "'k \<Rightarrow> SocketAddr"
  open_bi :: "'k \<Rightarrow> IoError + 's \<times> 'r"
  send_agent_info :: "'s \<Rightarrow> AgentInfo \<Rightarrow> (IoError + unit) \<times> 's"
  recv_reply :: "'r \<Rightarrow> (IoError + (string + string)) \<times> 'r"

definition placeholder_addr :: "SocketAddr \<Rightarrow> SocketAddr" where
  "placeholder_addr remote =
     (if is_ipv6 remote then SocketAddr_V6 0 0 0 0 else SocketAddr_V4 0 0)"

definition builder_agent_info :: "('ct, 'ky, 'rt) ConnectionBuilder \<Rightarrow> SocketAddr \<Rightarrow> AgentInfo" where
  "builder_agent_info self addr =
     \<lparr>ai_agent_name = cb_agent_name self, ai_agent_version = cb_agent_version self,
      ai_protocol_version = cb_protocol_version self, ai_addr = addr, ai_status = cb_status self,
      ai_capabilities = cb_capabilities self, ai_active_trust_epoch = cb_active_trust_epoch self,
      ai_manifest_formats = cb_manifest_formats self,
      ai_provisioning_fingerprint = cb_provisioning_fingerprint self,
      ai_audit_health = cb_audit_health self\<rparr>"

text \<open>The exchange on an open connection: the information out, the verdict in.\<close>

definition exchange_agent_info ::
  "('b, 'ep, 'g, 'k, 's, 'r) connect_io \<Rightarrow> 'k \<Rightarrow> AgentInfo \<Rightarrow> (IoError + unit) \<times> ('s \<times> 'r) option" where
  "exchange_agent_info io connection agent_info =
     (case open_bi io connection of
        Err e \<Rightarrow> (Err e, None)
      | Ok (send, recv) \<Rightarrow>
     (case send_agent_info io send agent_info of
        (Err e, send) \<Rightarrow> (Err e, Some (send, recv))
      | (Ok _, send) \<Rightarrow>
     (case recv_reply io recv of
        (Err e, recv) \<Rightarrow> (Err e, Some (send, recv))
      | (Ok (Ok _), recv) \<Rightarrow> (Ok (), Some (send, recv))
      | (Ok (Err e), recv) \<Rightarrow>
          (Err (IoError_new EK_ConnectionRefused (''server requires protocol version '' @ e)),
           Some (send, recv)))))"

record ('ep, 'k) Connection =
  conn_endpoint :: 'ep
  conn_connection :: 'k

definition connect ::
  "(('ct, 'ky, 'rt) ConnectionBuilder, 'ep, 'g, 'k, 's, 'r) connect_io
   \<Rightarrow> ('ct, 'ky, 'rt) ConnectionBuilder \<Rightarrow> (IoError + ('ep, 'k) Connection) \<times> ('s \<times> 'r) option" where
  "connect io self =
     (case build_endpoint io self of
        Err e \<Rightarrow> (Err e, None)
      | Ok endpoint \<Rightarrow>
     (case endpoint_connect io endpoint (cb_remote_addr self) (cb_remote_name self) of
        Err e \<Rightarrow> (Err (IoError_new EK_InvalidInput e), None)
      | Ok connecting \<Rightarrow>
     (case await_connecting io connecting of
        Err e \<Rightarrow> (Err (connection_error_to_io e), None)
      | Ok connection \<Rightarrow>
          let agent_info = builder_agent_info self (placeholder_addr (remote_address io connection)) in
          (case exchange_agent_info io connection agent_info of
             (res, halves) \<Rightarrow>
               (map_ok (\<lambda>_. \<lparr>conn_endpoint = endpoint, conn_connection = connection\<rparr>) res,
                halves)))))"

subsection \<open>The manager's verdict\<close>

definition acceptable :: "('v, 'q) semver \<Rightarrow> 'q \<Rightarrow> 'v \<Rightarrow> string \<Rightarrow> bool" where
  "acceptable sv req highest version \<longleftrightarrow>
     (\<exists>v. parse_version sv version = Ok v \<and> req_matches sv req v \<and> version_le sv v highest)"

lemma settle_guard:
  "(case parse_version sv w of Ok v \<Rightarrow> req_matches sv q v \<and> version_le sv v h | Err _ \<Rightarrow> False)
   \<longleftrightarrow> acceptable sv q h w"
  by (simp add: acceptable_def split: sum.split)

text \<open>
  The manager's version arguments are checked before anything else: a requirement or a
  highest version that does not parse is reported with the argument's name, the connection is
  not touched and no stream is accepted.
\<close>

lemma bad_version_argument_before_io:
  assumes "parse_version_req sv q = Err e
           \<or> (\<exists>r. parse_version_req sv q = Ok r) \<and> parse_version sv h = Err e"
  shows "\<exists>m. server_handshake sv d io conn addr q h = (Err (HE_InvalidVersionArgument m), conn, None)
           \<and> of_handshake_error (HE_InvalidVersionArgument m) = PEK_Other"
  using assms by (auto simp: server_handshake_def)

text \<open>
  C18. The manager accepts exactly the agents in its version window. On a stream whose sends
  succeed and whose first frame decodes, the handshake returns the agent's information with
  the address replaced by the one the manager observed, and tells the agent its highest
  version, when the agent's version parses, satisfies the requirement and is not above the
  highest; otherwise it tells the agent the combined range, finishes the stream and returns an
  error that carries the version and the range and classifies as a version mismatch.
\<close>

theorem handshake_accepts_version_window:
  assumes args: "parse_version_req sv q = Ok req" "parse_version sv h = Ok highest"
    and stream: "accept_bi io conn = (Ok (send, recv), conn')" "hs_recv_raw io recv = (Ok buf, recv')"
      "decode_agent_info d buf = Ok info"
    and sends: "\<And>m. fst (hs_send_ok io send m) = Ok ()" "\<And>m. fst (hs_send_err io send m) = Ok ()"
  shows "let range = show_version_req sv req @ '', <='' @ show_version sv highest in
    server_handshake sv d io conn addr q h =
      (if acceptable sv req highest (ai_protocol_version info)
       then (Ok (info\<lparr>ai_addr := addr\<rparr>), conn',
             Some (snd (hs_send_ok io send (show_version sv highest)), recv'))
       else (Err (HE_IncompatibleProtocol (ai_protocol_version info) range), conn',
             Some (hs_finish io (snd (hs_send_err io send range)), recv')))
    \<and> of_handshake_error (HE_IncompatibleProtocol (ai_protocol_version info) range)
        = PEK_VersionMismatch"
proof -
  let ?range = "show_version_req sv req @ '', <='' @ show_version sv highest"
  obtain s1 s2 where "hs_send_ok io send (show_version sv highest) = (Ok (), s1)"
      "hs_send_err io send ?range = (Ok (), s2)"
    using sends by (metis prod.collapse)
  then show ?thesis
    using args stream
    by (simp add: server_handshake_def settle_handshake_def settle_guard Let_def)
qed

subsection \<open>Both sides agree\<close>

lemma known_tail_all [simp]: "known_tail 5 i = i"
  by (simp add: known_tail_def)

text \<open>
  C17. The two sides of the handshake agree. When the agent's information reaches the manager
  as it was encoded and the manager's reply reaches the agent, the agent gets a connection
  exactly when the manager accepts it, and the manager then knows the agent as the builder
  described it, at the address it observed; otherwise the manager reports the incompatible
  version and the agent is refused with the very range the manager reported.
\<close>

theorem handshake_agreement:
  fixes io :: "('n, 'c, (string + string) list, 'm) handshake_io"
  assumes info: "info = builder_agent_info b (placeholder_addr (remote_address cio k))"
    and args: "parse_version_req sv q = Ok req" "parse_version sv h = Ok highest"
    and codec: "agent_info_codec d e info"
    and agent: "build_endpoint cio b = Ok ep"
      "endpoint_connect cio ep (cb_remote_addr b) (cb_remote_name b) = Ok g"
      "await_connecting cio g = Ok k" "open_bi cio k = Ok (s, r)"
      "send_agent_info cio s info = (Ok (), s')"
    and manager: "accept_bi io conn = (Ok ([], recv), conn')"
      "hs_recv_raw io recv = (Ok (encode_agent_info e 5 info), recv')"
      "\<And>m. hs_send_ok io [] m = (Ok (), [Ok m])" "\<And>m. hs_send_err io [] m = (Ok (), [Err m])"
      "\<And>l. hs_finish io l = l"
    and reply: "server_handshake sv d io conn addr q h = (res, conn'', Some (sent, recv''))"
      "recv_reply cio r = (Ok (hd sent), r')"
  shows "let range = show_version_req sv req @ '', <='' @ show_version sv highest in
    if acceptable sv req highest (cb_protocol_version b)
    then res = Ok (info\<lparr>ai_addr := addr\<rparr>)
         \<and> fst (connect cio b) = Ok \<lparr>conn_endpoint = ep, conn_connection = k\<rparr>
    else res = Err (HE_IncompatibleProtocol (cb_protocol_version b) range)
         \<and> fst (connect cio b) = Err (IoError_new EK_ConnectionRefused
                                        (''server requires protocol version '' @ range))"
proof -
  let ?range = "show_version_req sv req @ '', <='' @ show_version sv highest"
  have decoded: "decode_agent_info d (encode_agent_info e 5 info) = Ok info"
    using decode_full_tail [OF codec] by simp
  have version: "ai_protocol_version info = cb_protocol_version b"
    by (simp add: info builder_agent_info_def)
  have outcome: "server_handshake sv d io conn addr q h =
      (if acceptable sv req highest (cb_protocol_version b)
       then (Ok (info\<lparr>ai_addr := addr\<rparr>), conn', Some ([Ok (show_version sv highest)], recv'))
       else (Err (HE_IncompatibleProtocol (cb_protocol_version b) ?range), conn',
             Some ([Err ?range], recv')))"
    using args manager decoded version
    by (simp add: server_handshake_def settle_handshake_def settle_guard Let_def)
  show ?thesis
    using agent reply outcome
    by (auto simp: connect_def exchange_agent_info_def Let_def info split: if_splits)
qed

subsection \<open>A concrete exchange\<close>

text \<open>Versions known by their minor number, an agent that speaks 0.49.0, and a manager that
  accepts from \<open>q\<close> up to \<open>h\<close>.\<close>

definition sample_versions :: "string \<Rightarrow> string + nat" where
  "sample_versions s =
     (if s = ''0.49.0'' then Ok 49 else if s = ''0.50.0'' then Ok 50 else Err ''unexpected'')"

definition sample_semver :: "(nat, nat) semver" where
  "sample_semver =
     \<lparr>parse_version_req = (\<lambda>s. if s = [] then Err ''empty'' else sample_versions (drop 2 s)),
      parse_version = sample_versions,
      req_matches = (\<lambda>q v. q \<le> v), version_le = (\<lambda>v w. v \<le> w),
      show_version = (\<lambda>v. if v = 49 then ''0.49.0'' else ''0.50.0''),
      show_version_req = (\<lambda>q. if q = 49 then ''>=0.49.0'' else ''>=0.50.0'')\<rparr>"

definition sample_builder :: "(unit, unit, unit) ConnectionBuilder" where
  "sample_builder =
     \<lparr>cb_remote_name = ''manager'', cb_remote_addr = SocketAddr_V4 0 1, cb_local_addr = IpAddr_V4 0,
      cb_agent_name = ai_agent_name sample_info, cb_agent_version = ai_agent_version sample_info,
      cb_protocol_version = ai_protocol_version sample_info, cb_status = ai_status sample_info,
      cb_capabilities = ai_capabilities sample_info,
      cb_active_trust_epoch = ai_active_trust_epoch sample_info,
      cb_manifest_formats = ai_manifest_formats sample_info,
      cb_provisioning_fingerprint = ai_provisioning_fingerprint sample_info,
      cb_audit_health = ai_audit_health sample_info, cb_roots = (), cb_certs = [], cb_key = ()\<rparr>"

definition sample_manager :: "(unit, unit, (string + string) list, unit) handshake_io" where
  "sample_manager =
     \<lparr>accept_bi = (\<lambda>k. (Ok ([], ()), k)),
      hs_recv_raw = (\<lambda>r. (Ok (encode_agent_info sample_encoder 5 sample_info), r)),
      hs_send_ok = (\<lambda>s m. (Ok (), s @ [Ok m])), hs_send_err = (\<lambda>s m. (Ok (), s @ [Err m])),
      hs_finish = (\<lambda>s. s)\<rparr>"

definition sample_agent ::
  "string + string \<Rightarrow> ((unit, unit, unit) ConnectionBuilder, unit, unit, unit, unit, unit) connect_io" where
  "sample_agent reply =
     \<lparr>build_endpoint = (\<lambda>_. Ok ()), endpoint_connect = (\<lambda>_ _ _. Ok ()), await_connecting = (\<lambda>_. Ok ()),
      remote_address = (\<lambda>_. SocketAddr_V4 0 1), open_bi = (\<lambda>_. Ok ((), ())),
      send_agent_info = (\<lambda>s _. (Ok (), s)), recv_reply = (\<lambda>r. (Ok reply, r))\<rparr>"

lemma sample_builder_info:
  "builder_agent_info sample_builder (placeholder_addr (SocketAddr_V4 0 1)) = sample_info"
  by (simp add: builder_agent_info_def sample_builder_def sample_info_def placeholder_addr_def)

lemma sample_decoded:
  "decode_agent_info sample_decoder (encode_agent_info sample_encoder 5 sample_info) = Ok sample_info"
  using decode_full_tail [OF sample_codec] by simp

lemma bad_version_argument_before_io_instance:
  "\<exists>m. server_handshake sample_semver sample_decoder sample_manager () (SocketAddr_V4 7 8) [] ''0.49.0'' =
         (Err (HE_InvalidVersionArgument m), (), None)"
  using bad_version_argument_before_io [of sample_semver "[]" "''empty''" "''0.49.0''"
      sample_decoder sample_manager "()" "SocketAddr_V4 7 8"]
  by (auto simp: sample_semver_def)

theorem handshake_accepts_version_window_witness:
  "server_handshake sample_semver sample_decoder sample_manager () (SocketAddr_V4 7 8)
     ''>=0.49.0'' ''0.50.0'' =
   (Ok (sample_info\<lparr>ai_addr := SocketAddr_V4 7 8\<rparr>), (), Some ([Ok ''0.50.0''], ()))"
proof -
  have "acceptable sample_semver 49 50 (ai_protocol_version sample_info)"
    by (simp add: acceptable_def sample_semver_def sample_versions_def sample_info_def)
  then show ?thesis
    using handshake_accepts_version_window [of sample_semver "''>=0.49.0''" 49 "''0.50.0''" 50
        sample_manager "()" "[]" "()" "()" _ "()" sample_decoder sample_info "SocketAddr_V4 7 8",
        OF _ _ _ _ sample_decoded]
    by (simp add: sample_semver_def sample_versions_def sample_manager_def Let_def)
qed

lemma sample_refusal:
  "server_handshake sample_semver sample_decoder sample_manager () (SocketAddr_V4 7 8)
     ''>=0.50.0'' ''0.50.0'' =
   (Err (HE_IncompatibleProtocol ''0.49.0'' ''>=0.50.0, <=0.50.0''), (),
    Some ([Err ''>=0.50.0, <=0.50.0''], ()))"
  using sample_decoded
  by (simp add: server_handshake_def settle_handshake_def sample_semver_def sample_versions_def
      sample_manager_def sample_info_def Let_def)

theorem handshake_agreement_witness:
  "fst (connect (sample_agent (Err ''>=0.50.0, <=0.50.0'')) sample_builder) =
     Err (IoError_new EK_ConnectionRefused ''server requires protocol version >=0.50.0, <=0.50.0'')"
proof -
  have "\<not> acceptable sample_semver 50 50 (cb_protocol_version sample_builder)"
    by (simp add: acceptable_def sample_semver_def sample_versions_def sample_builder_def
        sample_info_def)
  moreover have "show_version_req sample_semver 50 = ''>=0.50.0''" "show_version sample_semver 50 = ''0.50.0''"
    by (simp_all add: sample_semver_def)
  ultimately show ?thesis
    using handshake_agreement [where q = "''>=0.50.0''" and h = "''0.50.0''" and sv = sample_semver
        and req = 50 and highest = 50 and e = sample_encoder and cio = "sample_agent (Err ''>=0.50.0, <=0.50.0'')"
        and b = sample_builder and k = "()" and r = "()" and s = "()",
        OF _ _ _ _ _ _ _ _ _ _ _ _ _ _ sample_refusal]
    by (simp add: sample_builder_info sample_agent_def sample_manager_def sample_codec
        sample_semver_def sample_versions_def Let_def)
qed

end
