(* ===== verification/Session.thy ===== *)
theory Session
  imports Protocol_Error
begin

text \<open>
  What both dispatchers share: a handler method as an action on the handler's state that may
  fail with a message, and a session, the handler's state with the two halves of the stream it
  is served on. \<open>delivers\<close> says what a stream holds, and \<open>finite_backlog\<close> is what the returning of a loop over a stream rests on.
\<close>

type_synonym ('h, 'a) action = "'h \<Rightarrow> (string + 'a) \<times> 'h"

definition not_supported :: "('h, 'a) action" where
  "not_supported h = (Err ''not supported'', h)"

record ('h, 's, 'r) session =
  se_handler :: 'h
  se_send :: 's
  se_recv :: 'r

definition call_handler ::
  "('h, 'a) action \<Rightarrow> ('h, 's, 'r) session \<Rightarrow> (string + 'a) \<times> ('h, 's, 'r) session" where
  "call_handler f s = (case f (se_handler s) of (result, h) \<Rightarrow> (result, s\<lparr>se_handler := h\<rparr>))"

text \<open>
  A receiving half with a finite backlog: every frame it yields is one of the finitely many
  the peer wrote before it closed the stream.
\<close>

definition finite_backlog :: "('r \<Rightarrow> (IoError + 'a) \<times> 'r) \<Rightarrow> ('r \<Rightarrow> nat) \<Rightarrow> bool" where
  "finite_backlog rr \<mu> \<longleftrightarrow>
     (\<forall>r. case rr r of (Ok _, r') \<Rightarrow> \<mu> r' < \<mu> r | (Err _, r') \<Rightarrow> \<mu> r' \<le> \<mu> r)"

text \<open>
  What a receiving half yields, in order, and the state it is left in. A peer that wrote
  these frames, and nothing that broke, is what puts the half in such a state.
\<close>

fun delivers :: "('r \<Rightarrow> (IoError + 'a) \<times> 'r) \<Rightarrow> 'r \<Rightarrow> 'a list \<Rightarrow> 'r \<Rightarrow> bool" where
  "delivers rr r [] r' \<longleftrightarrow> r = r'"
| "delivers rr r (c # cs) r' \<longleftrightarrow>
     (case rr r of (Ok c', r1) \<Rightarrow> c' = c \<and> delivers rr r1 cs r' | (Err _, _) \<Rightarrow> False)"

lemma delivers_append:
  "delivers rr r (cs @ ds) r' \<longleftrightarrow> (\<exists>r1. delivers rr r cs r1 \<and> delivers rr r1 ds r')"
  by (induction cs arbitrary: r) (auto split: prod.splits sum.splits)

lemma delivers_Cons:
  "delivers rr r (c # cs) r' \<longleftrightarrow> (\<exists>r1. rr r = (Ok c, r1) \<and> delivers rr r1 cs r')"
  by (auto split: prod.splits sum.splits)

declare delivers.simps(2) [simp del]

text \<open>What a decoder says of arguments it cannot read.\<close>

definition parse_error :: "(bytes \<Rightarrow> IoError + 'a) \<Rightarrow> bytes \<Rightarrow> IoError option" where
  "parse_error parse body = (case parse body of Ok _ \<Rightarrow> None | Err e \<Rightarrow> Some e)"

lemma parse_error_Some [simp]: "parse_error parse body = Some e \<longleftrightarrow> parse body = Err e"
  by (simp add: parse_error_def split: sum.split)

lemma parse_error_None [simp]: "parse_error parse body = None \<longleftrightarrow> (\<exists>a. parse body = Ok a)"
  by (simp add: parse_error_def split: sum.split)

lemma finite_backlogD:
  "finite_backlog rr \<mu> \<Longrightarrow> rr r = (Ok a, r') \<Longrightarrow> \<mu> r' < \<mu> r"
  "finite_backlog rr \<mu> \<Longrightarrow> rr r = (Err e, r') \<Longrightarrow> \<mu> r' \<le> \<mu> r"
  by (metis (mono_tags, lifting) finite_backlog_def old.prod.case old.sum.simps(5,6))+

end
