(* ===== verification/Node_Types.thy ===== *)
theory Node_Types
  imports Wire_Types
begin

text \<open>
  \<open>src/src/types.rs\<close>, module \<open>node\<close>: the request and response of each node
  feature family, the package and enrollment vocabularies, and the accessors callers decide
  on: the trust epoch an answer carries, whether an enrollment refusal may be retried, and
  whether it leaves an enrollment to be torn down.
\<close>

subsection \<open>Service control\<close>

datatype NodeServiceRequest =
    Service_Start string | Service_Stop string | Service_Status string | Service_Restart string

datatype NodeServiceResponse = ServiceR_Status bool | ServiceR_Done

subsection \<open>Network interfaces\<close>

record NodeNetworkInterfaceConfig =
  nic_addresses :: "string list option"
  nic_dhcp4 :: "bool option"
  nic_gateway4 :: "string option"
  nic_nameservers :: "string list option"

record NodeNetworkInterface =
  ni_device :: string
  ni_config :: NodeNetworkInterfaceConfig

datatype NodeNetworkInterfaceRequest =
    Interface_List "string option"
  | Interface_Get string
  | Interface_ResetConfig string
  | Interface_Set string NodeNetworkInterfaceConfig
  | Interface_Remove string NodeNetworkInterfaceConfig

datatype NodeNetworkInterfaceResponse =
    InterfaceR_List "string list"
  | InterfaceR_Get "NodeNetworkInterface option"
  | InterfaceR_Done

subsection \<open>Hostname, time synchronization, logging, remote access\<close>

datatype NodeHostnameRequest = Hostname_Get | Hostname_Set string

datatype NodeHostnameResponse = HostnameR_Get string | HostnameR_Done

datatype NodeTimeSyncRequest =
    TimeSync_Get | TimeSync_Set "string list" | TimeSync_Enable | TimeSync_Disable
  | TimeSync_Status

datatype NodeTimeSyncResponse =
    TimeSyncR_Get "string list option"
  | TimeSyncR_Status bool bool "string option" "i64 option"
  | TimeSyncR_Done

datatype NodeLoggingProtocol = Logging_Tcp | Logging_Udp

record NodeLoggingEndpoint =
  nle_protocol :: NodeLoggingProtocol
  nle_address :: string
  nle_port :: u16

datatype NodeLoggingRequest =
    Logging_Get | Logging_Set "NodeLoggingEndpoint list" | Logging_Clear | Logging_Restart

datatype NodeLoggingResponse = LoggingR_Get "NodeLoggingEndpoint list option" | LoggingR_Done

record NodeRemoteAccessConfig =
  nra_port :: u16

datatype NodeRemoteAccessRequest =
    RemoteAccess_Get | RemoteAccess_Set NodeRemoteAccessConfig | RemoteAccess_Restart

datatype NodeRemoteAccessResponse = RemoteAccessR_Get NodeRemoteAccessConfig | RemoteAccessR_Done

subsection \<open>Power, observation, versions\<close>

datatype NodePowerRequest =
    Power_Reboot | Power_Shutdown | Power_GracefulReboot | Power_GracefulShutdown

datatype NodePowerResponse = PowerR_Initiated

datatype NodeObservationRequest =
    Observe_ProcessList | Observe_ResourceUsage | Observe_Uptime

datatype NodeObservationResponse =
    ObserveR_ProcessList "Process list"
  | ObserveR_ResourceUsage string ResourceUsage
  | ObserveR_Uptime Duration

datatype NodeVersionRequest =
    Version_Get | Version_SetOsVersion string | Version_SetProductVersion string

datatype NodeVersionResponse = VersionR_Get string string | VersionR_Done

subsection \<open>Packages\<close>

record BootstrapMaterial =
  bm_role_id :: string
  bm_wrapped_secret_id :: string
  bm_ca_anchor :: bytes
  bm_expires_at :: Timestamp
  bm_bootstrap_artifact :: bytes

text \<open>
  What \<open>{:?}\<close> prints of the material: the debug builder is given these field names
  and values, in this order.
\<close>

datatype debug_value = Dbg_str string | Dbg_bytes bytes | Dbg_timestamp Timestamp

definition BootstrapMaterial_fmt :: "BootstrapMaterial \<Rightarrow> string \<times> (string \<times> debug_value) list" where
  "BootstrapMaterial_fmt m =
     (''BootstrapMaterial'',
      [(''role_id'', Dbg_str (bm_role_id m)),
       (''wrapped_secret_id'', Dbg_str ''<redacted>''),
       (''ca_anchor'', Dbg_bytes (bm_ca_anchor m)),
       (''expires_at'', Dbg_timestamp (bm_expires_at m)),
       (''bootstrap_artifact'', Dbg_str ''<redacted>'')])"

datatype FailurePolicy = OnFailure_Rollback | OnFailure_Hold

text \<open>The fields of the request's \<open>Install\<close> variant.\<close>

record InstallFields =
  in_target :: string
  in_instance :: "u32 option"
  in_version :: string
  in_commit :: string
  in_size :: u64
  in_idempotency_key :: string
  in_bootstrap_material :: "BootstrapMaterial option"
  in_on_failure :: FailurePolicy
  in_bind_addrs :: "(string \<rightharpoonup> SocketAddr) option"
  in_config_template :: "string option"
  in_privilege_profile :: "string option"

datatype NodePackageRequest =
    Package_Install InstallFields
  | Package_Remove string "u32 option" string
  | Package_ListInstalled
  | Package_Status string "u32 option"
  | Package_ListHostPorts

datatype InstallPreflight =
    Preflight_Proceed
  | Preflight_AlreadyApplied
  | Preflight_InsufficientDiskSpace string u64 u64
  | Preflight_BindAddrsOnUpdate
  | Preflight_NamespaceUnconfigured
  | Preflight_EnrollmentUnsupported
  | Preflight_ConfigTemplateOnUpdate
  | Preflight_UnknownConfigTemplate string

text \<open>\<open>Transport\<close> and \<open>HostPort\<close> derive their orders: TCP before UDP, and
  a host port by its transport, then by its number.\<close>

datatype Transport = Transport_Tcp | Transport_Udp

instantiation Transport :: linorder
begin

fun less_eq_Transport :: "Transport \<Rightarrow> Transport \<Rightarrow> bool" where
  "less_eq_Transport Transport_Udp Transport_Tcp \<longleftrightarrow> False"
| "less_eq_Transport _ _ \<longleftrightarrow> True"

definition less_Transport :: "Transport \<Rightarrow> Transport \<Rightarrow> bool" where
  "less_Transport a b \<longleftrightarrow> a = Transport_Tcp \<and> b = Transport_Udp"

instance
proof
  fix x y z :: Transport
  show "(x < y) = (x \<le> y \<and> \<not> y \<le> x)"
    by (cases x; cases y) (simp_all add: less_Transport_def)
  show "x \<le> x" by (cases x) simp_all
  show "x \<le> y \<Longrightarrow> y \<le> z \<Longrightarrow> x \<le> z" by (cases x; cases y; cases z) simp_all
  show "x \<le> y \<Longrightarrow> y \<le> x \<Longrightarrow> x = y" by (cases x; cases y) simp_all
  show "x \<le> y \<or> y \<le> x" by (cases x; cases y) simp_all
qed

end

record HostPort =
  hp_transport :: Transport
  hp_port :: u16

definition HostPort_le :: "HostPort \<Rightarrow> HostPort \<Rightarrow> bool" where
  "HostPort_le a b \<longleftrightarrow>
     hp_transport a < hp_transport b
     \<or> hp_transport a = hp_transport b \<and> hp_port a \<le> hp_port b"

datatype Lifecycle =
    Life_NotInstalled | Life_Installing | Life_Running | Life_Stopped | Life_Failed
  | Life_Removing | Life_Unknown

fun Lifecycle_into :: "Lifecycle \<Rightarrow> u8" where
  "Lifecycle_into Life_NotInstalled = 0"
| "Lifecycle_into Life_Installing = 1"
| "Lifecycle_into Life_Running = 2"
| "Lifecycle_into Life_Stopped = 3"
| "Lifecycle_into Life_Failed = 4"
| "Lifecycle_into Life_Removing = 5"
| "Lifecycle_into Life_Unknown = 255"

definition Lifecycle_table :: "(u8 \<times> Lifecycle) list" where
  "Lifecycle_table =
     [(0, Life_NotInstalled), (1, Life_Installing), (2, Life_Running), (3, Life_Stopped),
      (4, Life_Failed), (5, Life_Removing)]"

definition Lifecycle_from :: "u8 \<Rightarrow> Lifecycle" where
  "Lifecycle_from = from_discriminant Lifecycle_table Life_Unknown"

record BoundAddr =
  ba_name :: string
  ba_addr :: string

record PackageState =
  ps_version :: string
  ps_commit :: string
  ps_lifecycle :: Lifecycle
  ps_bound_addrs :: "BoundAddr list"
  ps_privilege_profile :: "string option"

record InstalledPackage =
  ip_target :: string
  ip_instance :: "u32 option"
  ip_state :: PackageState

record PackageIdentity =
  pi_target :: string
  pi_version :: string
  pi_commit :: string

datatype NodePackageError =
    PkgErr_TargetMismatch PackageIdentity PackageIdentity
  | PkgErr_MissingBootstrapMaterial
  | PkgErr_BootstrapMaterialExpired
  | PkgErr_InsufficientDiskSpace string u64 u64
  | PkgErr_StaleTrustSet u64
  | PkgErr_UnsupportedManifestFormat u64 ManifestFormatRange
  | PkgErr_ObservationUnavailable
  | PkgErr_UnmanagedInstancePresent
  | PkgErr_UndeclaredPrivilegeProfile string "string list"
  | PkgErr_UnexpectedPrivilegeProfile string
  | PkgErr_MissingPrivilegeProfile

datatype NodePackageResponse =
    PackageR_Done
  | PackageR_Accepted
  | PackageR_Installed "InstalledPackage list"
  | PackageR_State PackageState
  | PackageR_Failed NodePackageError
  | PackageR_TrustActive u64
  | PackageR_HostPorts "HostPort list"

fun NodePackageError_active_trust_epoch :: "NodePackageError \<Rightarrow> u64 option" where
  "NodePackageError_active_trust_epoch (PkgErr_StaleTrustSet active_epoch) = Some active_epoch"
| "NodePackageError_active_trust_epoch (PkgErr_UnsupportedManifestFormat active_epoch _) =
     Some active_epoch"
| "NodePackageError_active_trust_epoch (PkgErr_TargetMismatch _ _) = None"
| "NodePackageError_active_trust_epoch PkgErr_MissingBootstrapMaterial = None"
| "NodePackageError_active_trust_epoch PkgErr_BootstrapMaterialExpired = None"
| "NodePackageError_active_trust_epoch (PkgErr_InsufficientDiskSpace _ _ _) = None"
| "NodePackageError_active_trust_epoch PkgErr_ObservationUnavailable = None"
| "NodePackageError_active_trust_epoch PkgErr_UnmanagedInstancePresent = None"
| "NodePackageError_active_trust_epoch (PkgErr_UndeclaredPrivilegeProfile _ _) = None"
| "NodePackageError_active_trust_epoch (PkgErr_UnexpectedPrivilegeProfile _) = None"
| "NodePackageError_active_trust_epoch PkgErr_MissingPrivilegeProfile = None"

fun NodePackageResponse_active_trust_epoch :: "NodePackageResponse \<Rightarrow> u64 option" where
  "NodePackageResponse_active_trust_epoch (PackageR_TrustActive active_epoch) = Some active_epoch"
| "NodePackageResponse_active_trust_epoch (PackageR_Failed err) =
     NodePackageError_active_trust_epoch err"
| "NodePackageResponse_active_trust_epoch PackageR_Done = None"
| "NodePackageResponse_active_trust_epoch PackageR_Accepted = None"
| "NodePackageResponse_active_trust_epoch (PackageR_Installed _) = None"
| "NodePackageResponse_active_trust_epoch (PackageR_State _) = None"
| "NodePackageResponse_active_trust_epoch (PackageR_HostPorts _) = None"

subsection \<open>Enrollment\<close>

datatype ReloadHook = ReloadHook string

datatype CertGroup = CertGroup string

record ServiceSpec =
  svc_component :: string
  svc_service_name :: string
  svc_reload :: ReloadHook
  svc_cert_group :: "CertGroup option"

datatype DeliveryMode = Delivery_LocalFile | Delivery_RemoteBootstrap

text \<open>The fields of the enrollment request's \<open>Register\<close> variant.\<close>

record RegisterFields =
  rg_service_name :: string
  rg_delivery_mode :: DeliveryMode
  rg_host :: string
  rg_instance :: "u32 option"
  rg_spec :: ServiceSpec
  rg_wrap_ttl :: Duration
  rg_idempotency_key :: string

datatype NodeEnrollRequest =
    Enroll_Register RegisterFields
  | Enroll_Deregister string string "u32 option" string

datatype RegistrarUnavailableReason =
    Reason_CredentialInvalid
  | Reason_NotProvisioned
  | Reason_AuditUnwritable
  | Reason_EndpointUnreachable
  | Reason_PostMintUnrecordable
  | Reason_RegistrarUnreachable

datatype NodeEnrollError =
    EnrollErr_ServiceSpecConflict
  | EnrollErr_ServiceNameCollision
  | EnrollErr_ServiceInstanceMismatch
  | EnrollErr_ServiceHostMismatch
  | EnrollErr_RegistrarUnavailable RegistrarUnavailableReason
  | EnrollErr_RegistrarBusy Duration
  | EnrollErr_ServiceLabelInvalid

datatype NodeEnrollResponse =
    EnrollR_Material BootstrapMaterial | EnrollR_Done | EnrollR_Failed NodeEnrollError

fun NodeEnrollError_retry_after :: "NodeEnrollError \<Rightarrow> Duration option" where
  "NodeEnrollError_retry_after (EnrollErr_RegistrarBusy retry_after) = Some retry_after"
| "NodeEnrollError_retry_after EnrollErr_ServiceSpecConflict = None"
| "NodeEnrollError_retry_after EnrollErr_ServiceNameCollision = None"
| "NodeEnrollError_retry_after EnrollErr_ServiceInstanceMismatch = None"
| "NodeEnrollError_retry_after EnrollErr_ServiceHostMismatch = None"
| "NodeEnrollError_retry_after (EnrollErr_RegistrarUnavailable _) = None"
| "NodeEnrollError_retry_after EnrollErr_ServiceLabelInvalid = None"

fun NodeEnrollError_leaves_teardown_owed :: "NodeEnrollError \<Rightarrow> bool" where
  "NodeEnrollError_leaves_teardown_owed (EnrollErr_RegistrarUnavailable reason) =
     (case reason of
        Reason_PostMintUnrecordable \<Rightarrow> True
      | Reason_CredentialInvalid \<Rightarrow> False
      | Reason_NotProvisioned \<Rightarrow> False
      | Reason_AuditUnwritable \<Rightarrow> False
      | Reason_EndpointUnreachable \<Rightarrow> False
      | Reason_RegistrarUnreachable \<Rightarrow> False)"
| "NodeEnrollError_leaves_teardown_owed EnrollErr_ServiceSpecConflict = False"
| "NodeEnrollError_leaves_teardown_owed EnrollErr_ServiceNameCollision = False"
| "NodeEnrollError_leaves_teardown_owed EnrollErr_ServiceInstanceMismatch = False"
| "NodeEnrollError_leaves_teardown_owed EnrollErr_ServiceHostMismatch = False"
| "NodeEnrollError_leaves_teardown_owed (EnrollErr_RegistrarBusy _) = False"
| "NodeEnrollError_leaves_teardown_owed EnrollErr_ServiceLabelInvalid = False"

fun NodeEnrollResponse_retry_after :: "NodeEnrollResponse \<Rightarrow> Duration option" where
  "NodeEnrollResponse_retry_after (EnrollR_Failed err) = NodeEnrollError_retry_after err"
| "NodeEnrollResponse_retry_after (EnrollR_Material _) = None"
| "NodeEnrollResponse_retry_after EnrollR_Done = None"

fun NodeEnrollResponse_leaves_teardown_owed :: "NodeEnrollResponse \<Rightarrow> bool" where
  "NodeEnrollResponse_leaves_teardown_owed (EnrollR_Failed err) =
     NodeEnrollError_leaves_teardown_owed err"
| "NodeEnrollResponse_leaves_teardown_owed (EnrollR_Material _) = False"
| "NodeEnrollResponse_leaves_teardown_owed EnrollR_Done = False"

subsection \<open>Facts\<close>

text \<open>The lifecycle byte is a \<open>num_enum\<close> whose default reads every foreign byte.\<close>

interpretation lifecycle: num_enum Lifecycle_into Lifecycle_from Life_Unknown
proof
  fix c n
  show "Lifecycle_from (Lifecycle_into c) = c"
    by (cases c) (simp_all add: Lifecycle_from_def Lifecycle_table_def from_discriminant_def)
  show "n \<notin> range Lifecycle_into \<Longrightarrow> Lifecycle_from n = Life_Unknown"
    unfolding Lifecycle_from_def
    by (rule from_discriminant_foreign [where into = Lifecycle_into])
      (simp_all add: Lifecycle_table_def)
qed

lemma HostPort_le_total_order:
  "HostPort_le a a"
  "HostPort_le a b \<Longrightarrow> HostPort_le b c \<Longrightarrow> HostPort_le a c"
  "HostPort_le a b \<Longrightarrow> HostPort_le b a \<Longrightarrow> a = b"
  "HostPort_le a b \<or> HostPort_le b a"
  by (auto simp: HostPort_le_def)

end
