(* ===== verification/Agent_Transport.thy ===== *)
theory Agent_Transport
  imports Session Node_Types
begin

text \<open>
  What the agent's dispatchers call of the oinq crate and what they send through it. A stream
  half is an abstract state: \<open>'s\<close> the sending half, \<open>'r\<close> the receiving half. Each
  operation returns its result and the state it left the half in. \<open>agent_reply\<close> has one
  constructor for each payload type the dispatchers give \<open>send_response\<close>.
\<close>

datatype agent_reply =
    Reply_Unit
  | Reply_ResourceUsage string ResourceUsage
  | Reply_ProcessList "Process list"
  | Reply_NodeService NodeServiceResponse
  | Reply_NodeNetworkInterface NodeNetworkInterfaceResponse
  | Reply_NodeHostname NodeHostnameResponse
  | Reply_NodeTimeSync NodeTimeSyncResponse
  | Reply_NodeLogging NodeLoggingResponse
  | Reply_NodeRemoteAccess NodeRemoteAccessResponse
  | Reply_NodePower NodePowerResponse
  | Reply_NodeObservation NodeObservationResponse
  | Reply_NodeVersion NodeVersionResponse
  | Reply_Preflight InstallPreflight
  | Reply_NodePackage NodePackageResponse
  | Reply_NodeEnroll NodeEnrollResponse

text \<open>
  \<open>message::recv_request_raw\<close>, \<open>frame::recv_raw\<close>, \<open>request::send_response\<close>
  and \<open>message::send_err\<close>.
\<close>

record ('s, 'r) agent_io =
  recv_request_raw :: "'r \<Rightarrow> (IoError + u32 \<times> bytes) \<times> 'r"
  recv_raw :: "'r \<Rightarrow> (IoError + bytes) \<times> 'r"
  send_response :: "'s \<Rightarrow> string + agent_reply \<Rightarrow> (IoError + unit) \<times> 's"
  send_err :: "'s \<Rightarrow> string \<Rightarrow> (IoError + unit) \<times> 's"

subsection \<open>Behaviours of a stream\<close>

text \<open>A sending half whose frames all reach a log.\<close>

definition sends_logged :: "('s, 'r) agent_io \<Rightarrow> ('s \<Rightarrow> (string + agent_reply) list) \<Rightarrow> bool" where
  "sends_logged io log \<longleftrightarrow>
     (\<forall>s m. fst (send_response io s m) = Ok ()
            \<and> log (snd (send_response io s m)) = log s @ [m])
     \<and> (\<forall>s e. fst (send_err io s e) = Ok () \<and> log (snd (send_err io s e)) = log s @ [Err e])"

subsection \<open>A stream of listed frames\<close>

text \<open>
  The concrete streams the examples run on: a receiving half is the list of frames the peer
  wrote, each a request or raw bytes, and a sending half the list of answers so far.
\<close>

datatype wire_frame = Request_Frame u32 bytes | Raw_Frame bytes

fun list_recv_request :: "wire_frame list \<Rightarrow> (IoError + u32 \<times> bytes) \<times> wire_frame list" where
  "list_recv_request [] = (Err (IoError_from EK_UnexpectedEof), [])"
| "list_recv_request (Request_Frame c b # fs) = (Ok (c, b), fs)"
| "list_recv_request (Raw_Frame b # fs) = (Err (IoError_from EK_InvalidData), fs)"

fun list_recv_raw :: "wire_frame list \<Rightarrow> (IoError + bytes) \<times> wire_frame list" where
  "list_recv_raw [] = (Err (IoError_from EK_UnexpectedEof), [])"
| "list_recv_raw (Raw_Frame b # fs) = (Ok b, fs)"
| "list_recv_raw (Request_Frame c b # fs) = (Ok b, fs)"

definition list_io :: "((string + agent_reply) list, wire_frame list) agent_io" where
  "list_io =
     \<lparr>recv_request_raw = list_recv_request, recv_raw = list_recv_raw,
      send_response = (\<lambda>s m. (Ok (), s @ [m])), send_err = (\<lambda>s e. (Ok (), s @ [Err e]))\<rparr>"

lemma list_io_simps [simp]:
  "recv_request_raw list_io = list_recv_request" "recv_raw list_io = list_recv_raw"
  "send_response list_io s m = (Ok (), s @ [m])" "send_err list_io s e = (Ok (), s @ [Err e])"
  by (simp_all add: list_io_def)

lemma list_backlog_raw: "finite_backlog list_recv_raw length"
  unfolding finite_backlog_def
proof
  show "case list_recv_raw r of (Ok _, r') \<Rightarrow> length r' < length r | (Err _, r') \<Rightarrow> length r' \<le> length r"
    for r by (cases r rule: list_recv_raw.cases) simp_all
qed

lemma list_backlog_request: "finite_backlog list_recv_request length"
  unfolding finite_backlog_def
proof
  show "case list_recv_request r of (Ok _, r') \<Rightarrow> length r' < length r | (Err _, r') \<Rightarrow> length r' \<le> length r"
    for r by (cases r rule: list_recv_request.cases) simp_all
qed

lemma list_sends_logged: "sends_logged list_io id"
  by (simp add: sends_logged_def)

end
