(* ===== verification/Event_Stream.thy ===== *)
theory Event_Stream
  imports Agent_Transport
begin

text \<open>
  \<open>src/src/server/stream.rs\<close> and \<open>EventStreamHandler\<close> of \<open>src/src/server.rs\<close>:
  the manager's reading of an event stream. The stream operations and bincode are parameters,
  the handler a record of its three methods; \<open>feed\<close> is the specification the loop
  refines: the frames in order, until the handler stops.
\<close>

text \<open>\<open>quinn::ReadExactError\<close>, its read error already converted to an I/O error by quinn.\<close>

datatype ReadExactError = FinishedEarly nat | ReadExact_ReadError IoError

fun from_read_exact_error_to_io_error :: "ReadExactError \<Rightarrow> IoError" where
  "from_read_exact_error_to_io_error (FinishedEarly _) = IoError_from EK_UnexpectedEof"
| "from_read_exact_error_to_io_error (ReadExact_ReadError e) = e"

record 'r event_io =
  read_exact :: "nat \<Rightarrow> 'r \<Rightarrow> (ReadExactError + bytes) \<times> 'r"
  ev_recv_raw :: "'r \<Rightarrow> (IoError + bytes) \<times> 'r"
  decode_event :: "bytes \<Rightarrow> string + EventMessage \<times> nat"

record 'h EventStreamHandler =
  handle_event :: "EventMessage \<Rightarrow> 'h \<Rightarrow> (IoError + unit) \<times> 'h"
  on_stream_end :: "'h \<Rightarrow> (IoError + unit) \<times> 'h"
  on_error :: "string \<Rightarrow> 'h \<Rightarrow> (IoError + unit) \<times> 'h"

text \<open>The two methods with a default do nothing; \<open>handle_event\<close> has none.\<close>

definition EventStreamHandler_default ::
  "(EventMessage \<Rightarrow> 'h \<Rightarrow> (IoError + unit) \<times> 'h) \<Rightarrow> 'h EventStreamHandler" where
  "EventStreamHandler_default f =
     \<lparr>handle_event = f, on_stream_end = (\<lambda>h. (Ok (), h)), on_error = (\<lambda>_ h. (Ok (), h))\<rparr>"

definition dispatch_frame ::
  "'r event_io \<Rightarrow> 'h EventStreamHandler \<Rightarrow> bytes \<Rightarrow> 'h \<Rightarrow> (IoError + unit) \<times> 'h" where
  "dispatch_frame io H message_buf h =
     (case decode_event io message_buf of
        Ok (msg, _) \<Rightarrow> handle_event H msg h
      | Err e \<Rightarrow> on_error H (''decoding error: '' @ e) h)"

definition event_step ::
  "'r event_io \<Rightarrow> 'h EventStreamHandler \<Rightarrow> 'h \<times> 'r
   \<Rightarrow> ('h \<times> 'r, (IoError + unit) \<times> 'h \<times> 'r) flow option" where
  "event_step io H = (\<lambda>(h, recv). Some
     (case ev_recv_raw io recv of
        (Err e, recv) \<Rightarrow>
          if io_kind e = EK_UnexpectedEof
          then (case on_stream_end H h of (res, h) \<Rightarrow> Leave (res, h, recv))
          else Leave (Err e, h, recv)
      | (Ok message_buf, recv) \<Rightarrow>
          (case dispatch_frame io H message_buf h of
             (Ok _, h) \<Rightarrow> Again (h, recv)
           | (Err e, h) \<Rightarrow> Leave (Err e, h, recv))))"

definition process_event_stream ::
  "'r event_io \<Rightarrow> 'h EventStreamHandler \<Rightarrow> 'r \<Rightarrow> 'h \<Rightarrow> ((IoError + unit) \<times> 'h \<times> 'r) option" where
  "process_event_stream io H recv h =
     (case read_exact io 2 recv of
        (Err e, recv) \<Rightarrow> Some (Err (from_read_exact_error_to_io_error e), h, recv)
      | (Ok _, recv) \<Rightarrow> iterate (event_step io H) (h, recv))"

text \<open>
  \<open>Connection::handle_event_stream\<close> and \<open>Connection::accept_event_stream\<close>;
  \<open>au\<close> is \<open>accept_uni\<close>, its error already converted to an I/O error by quinn. The
  receiving half is there only when a stream was accepted.
\<close>

definition handle_event_stream ::
  "'r event_io \<Rightarrow> 'r \<Rightarrow> 'h EventStreamHandler \<Rightarrow> 'h \<Rightarrow> ((IoError + unit) \<times> 'h \<times> 'r) option" where
  "handle_event_stream io recv_stream H h = process_event_stream io H recv_stream h"

definition accept_event_stream ::
  "('k \<Rightarrow> (IoError + 'r) \<times> 'k) \<Rightarrow> 'r event_io \<Rightarrow> 'k \<Rightarrow> 'h EventStreamHandler \<Rightarrow> 'h
   \<Rightarrow> ((IoError + unit) \<times> 'h \<times> 'k \<times> 'r option) option" where
  "accept_event_stream au io conn H h =
     (case au conn of
        (Err e, conn) \<Rightarrow> Some (Err e, h, conn, None)
      | (Ok recv_stream, conn) \<Rightarrow>
          map_option (\<lambda>(res, h, recv). (res, h, conn, Some recv))
            (process_event_stream io H recv_stream h))"

subsection \<open>What the handler sees\<close>

fun feed :: "'r event_io \<Rightarrow> 'h EventStreamHandler \<Rightarrow> bytes list \<Rightarrow> 'h \<Rightarrow> (IoError + unit) \<times> 'h" where
  "feed io H [] h = (Ok (), h)"
| "feed io H (f # fs) h = try_with (dispatch_frame io H f h) (\<lambda>_. feed io H fs)"

definition finish_feed ::
  "'h EventStreamHandler \<Rightarrow> IoError \<Rightarrow> (IoError + unit) \<times> 'h \<Rightarrow> (IoError + unit) \<times> 'h" where
  "finish_feed H e out =
     (case out of
        (Err e', h) \<Rightarrow> (Err e', h)
      | (Ok _, h) \<Rightarrow> if io_kind e = EK_UnexpectedEof then on_stream_end H h else (Err e, h))"

lemma event_loop_feeds:
  assumes "delivers (ev_recv_raw io) r frames r'" and "ev_recv_raw io r' = (Err e, r'')"
  shows "\<exists>t. iterate (event_step io H) (h, r) =
           Some (case finish_feed H e (feed io H frames h) of (res, h') \<Rightarrow> (res, h', t))"
  using assms(1)
proof (induction frames arbitrary: r h)
  case Nil
  then have "event_step io H (h, r) =
      Some (Leave (case finish_feed H e (Ok (), h) of (res, h') \<Rightarrow> (res, h', r'')))"
    using assms(2) by (simp add: event_step_def finish_feed_def split: prod.split)
  then show ?case
    by (auto dest: iterate_Leave)
next
  case (Cons f fs)
  then obtain r1 where r1: "ev_recv_raw io r = (Ok f, r1)" "delivers (ev_recv_raw io) r1 fs r'"
    by (auto simp: delivers_Cons)
  obtain res h1 where d: "dispatch_frame io H f h = (res, h1)" by fastforce
  show ?case
  proof (cases res)
    case (Inl e')
    with r1 d have "event_step io H (h, r) = Some (Leave (Err e', h1, r1))"
      by (simp add: event_step_def)
    with d Inl show ?thesis
      by (auto simp: finish_feed_def dest: iterate_Leave)
  next
    case (Inr u)
    with r1 d have "event_step io H (h, r) = Some (Again (h1, r1))"
      by (simp add: event_step_def)
    then have "iterate (event_step io H) (h, r) = iterate (event_step io H) (h1, r1)"
      by (rule iterate_Again)
    with Cons.IH [OF r1(2), of h1] d Inr show ?thesis by simp
  qed
qed

lemma ended_feed:
  "io_kind e = EK_UnexpectedEof \<Longrightarrow> finish_feed H e out = try_with out (\<lambda>_. on_stream_end H)"
  by (cases out; cases "fst out") (simp_all add: finish_feed_def)

text \<open>
  C25. Processing an event stream that the agent has ended returns, and does to the handler
  exactly what the specification says: after the two header bytes every frame is given to it
  once, in order, decoded frames as events and the others as decoding errors, until a method
  fails, whose error is the result; the end of the stream is announced once, after the last
  frame and only when no method failed, and what the handler makes of it is the result.
  Accepting the stream first changes none of this.
\<close>

theorem event_stream_refines_feed:
  assumes header: "read_exact io 2 recv = (Ok b, r)"
    and frames: "delivers (ev_recv_raw io) r frames r'"
    and ended: "ev_recv_raw io r' = (Err e, r'')" "io_kind e = EK_UnexpectedEof"
    and accepted: "au conn = (Ok recv, conn')"
  shows "\<exists>t. process_event_stream io H recv h =
           Some (case try_with (feed io H frames h) (\<lambda>_. on_stream_end H) of (res, h') \<Rightarrow> (res, h', t))
         \<and> accept_event_stream au io conn H h =
           Some (case try_with (feed io H frames h) (\<lambda>_. on_stream_end H) of
                   (res, h') \<Rightarrow> (res, h', conn', Some t))"
  using event_loop_feeds [OF frames ended(1), of H h] header accepted
  by (auto simp: process_event_stream_def accept_event_stream_def ended_feed [OF ended(2)] split: prod.splits)

subsection \<open>An instance\<close>

definition logging_handler :: "string list EventStreamHandler" where
  "logging_handler =
     \<lparr>handle_event = (\<lambda>_ l. (Ok (), l @ [''event''])), on_stream_end = (\<lambda>l. (Ok (), l @ [''end''])),
      on_error = (\<lambda>m l. (Ok (), l @ [m]))\<rparr>"

definition undecodable_io :: "wire_frame list event_io" where
  "undecodable_io =
     \<lparr>read_exact = (\<lambda>n r. (Ok (replicate n 0), r)), ev_recv_raw = list_recv_raw,
      decode_event = (\<lambda>_. Err ''bad'')\<rparr>"

theorem event_stream_refines_feed_witness:
  "\<exists>t. process_event_stream undecodable_io logging_handler [Raw_Frame [1], Raw_Frame [2]] [] =
         Some (Ok (), [''decoding error: bad'', ''decoding error: bad'', ''end''], t)"
proof -
  have header: "read_exact undecodable_io 2 [Raw_Frame [1], Raw_Frame [2]] =
      (Ok (replicate 2 0), [Raw_Frame [1], Raw_Frame [2]])"
    by (simp add: undecodable_io_def)
  have frames: "delivers (ev_recv_raw undecodable_io) [Raw_Frame [1], Raw_Frame [2]] [[1], [2]] []"
    by (simp add: undecodable_io_def delivers_Cons)
  have eof: "ev_recv_raw undecodable_io [] = (Err (IoError_from EK_UnexpectedEof), [])"
    by (simp add: undecodable_io_def)
  have "try_with (feed undecodable_io logging_handler [[1], [2]] []) (\<lambda>_. on_stream_end logging_handler) =
      (Ok (), [''decoding error: bad'', ''decoding error: bad'', ''end''])"
    by (simp add: undecodable_io_def logging_handler_def dispatch_frame_def)
  moreover have "io_kind (IoError_from EK_UnexpectedEof) = EK_UnexpectedEof" by simp
  ultimately show ?thesis
    using event_stream_refines_feed [OF header frames eof,
      where au = "\<lambda>k. (Ok [Raw_Frame [1], Raw_Frame [2]], k)" and conn = "()" and conn' = "()",
      OF _ refl, of logging_handler "[]"]
    by auto
qed

end
