(* ===== verification/Request_Codes.thy ===== *)
theory Request_Codes
  imports RP_Prelude
begin

text \<open>
  The two request-code enums: \<open>src/src/client.rs\<close> \<open>RequestCode\<close>, what an agent
  is asked, and \<open>src/src/server.rs\<close> \<open>RequestCode\<close>, what the manager is asked.
  Each travels as its \<open>u32\<close> discriminant; a number of neither enum is read as
  \<open>Unknown\<close>, whose own discriminant is \<open>u32::MAX\<close>.
\<close>

subsection \<open>Requests an agent handles\<close>

datatype client_RequestCode =
    RC_DnsStart | RC_DnsStop | RC_Reboot | RC_ReloadConfig | RC_ReloadTi | RC_ResourceUsage
  | RC_TorExitNodeList | RC_SamplingPolicyList | RC_ReloadFilterRule | RC_UpdateConfig
  | RC_DeleteSamplingPolicy | RC_InternalNetworkList | RC_Allowlist | RC_Blocklist
  | RC_EchoRequest | RC_TrustedUserAgentList | RC_TrustedDomainList | RC_ProcessList
  | RC_SemiSupervisedModels | RC_Shutdown | RC_DeleteCustomerData | RC_NodeService
  | RC_NodeNetworkInterface | RC_NodeHostname | RC_NodeTimeSync | RC_NodeLogging
  | RC_NodeRemoteAccess | RC_NodePower | RC_NodeObservation | RC_NodeVersion | RC_NodePackage
  | RC_NodeEnroll | RC_TrainModel | RC_CloneModel | RC_CancelRun | RC_RunDetectorOnce
  | RC_Unknown

fun client_code_into :: "client_RequestCode \<Rightarrow> u32" where
  "client_code_into RC_DnsStart = 1"
| "client_code_into RC_DnsStop = 2"
| "client_code_into RC_Reboot = 4"
| "client_code_into RC_ReloadConfig = 6"
| "client_code_into RC_ReloadTi = 5"
| "client_code_into RC_ResourceUsage = 7"
| "client_code_into RC_TorExitNodeList = 8"
| "client_code_into RC_SamplingPolicyList = 9"
| "client_code_into RC_ReloadFilterRule = 10"
| "client_code_into RC_UpdateConfig = 12"
| "client_code_into RC_DeleteSamplingPolicy = 13"
| "client_code_into RC_InternalNetworkList = 14"
| "client_code_into RC_Allowlist = 15"
| "client_code_into RC_Blocklist = 16"
| "client_code_into RC_EchoRequest = 17"
| "client_code_into RC_TrustedUserAgentList = 18"
| "client_code_into RC_TrustedDomainList = 0"
| "client_code_into RC_ProcessList = 19"
| "client_code_into RC_SemiSupervisedModels = 20"
| "client_code_into RC_Shutdown = 21"
| "client_code_into RC_DeleteCustomerData = 22"
| "client_code_into RC_NodeService = 100"
| "client_code_into RC_NodeNetworkInterface = 101"
| "client_code_into RC_NodeHostname = 102"
| "client_code_into RC_NodeTimeSync = 103"
| "client_code_into RC_NodeLogging = 104"
| "client_code_into RC_NodeRemoteAccess = 105"
| "client_code_into RC_NodePower = 106"
| "client_code_into RC_NodeObservation = 107"
| "client_code_into RC_NodeVersion = 108"
| "client_code_into RC_NodePackage = 109"
| "client_code_into RC_NodeEnroll = 110"
| "client_code_into RC_TrainModel = 23"
| "client_code_into RC_CloneModel = 24"
| "client_code_into RC_CancelRun = 25"
| "client_code_into RC_RunDetectorOnce = 26"
| "client_code_into RC_Unknown = 4294967295"

definition client_code_table :: "(u32 \<times> client_RequestCode) list" where
  "client_code_table =
     [(1, RC_DnsStart), (2, RC_DnsStop), (4, RC_Reboot), (6, RC_ReloadConfig), (5, RC_ReloadTi)
      , (7, RC_ResourceUsage), (8, RC_TorExitNodeList), (9, RC_SamplingPolicyList)
      , (10, RC_ReloadFilterRule), (12, RC_UpdateConfig), (13, RC_DeleteSamplingPolicy)
      , (14, RC_InternalNetworkList), (15, RC_Allowlist), (16, RC_Blocklist)
      , (17, RC_EchoRequest), (18, RC_TrustedUserAgentList), (0, RC_TrustedDomainList)
      , (19, RC_ProcessList), (20, RC_SemiSupervisedModels), (21, RC_Shutdown)
      , (22, RC_DeleteCustomerData), (100, RC_NodeService), (101, RC_NodeNetworkInterface)
      , (102, RC_NodeHostname), (103, RC_NodeTimeSync), (104, RC_NodeLogging)
      , (105, RC_NodeRemoteAccess), (106, RC_NodePower), (107, RC_NodeObservation)
      , (108, RC_NodeVersion), (109, RC_NodePackage), (110, RC_NodeEnroll), (23, RC_TrainModel)
      , (24, RC_CloneModel), (25, RC_CancelRun), (26, RC_RunDetectorOnce)]"

definition client_code_from :: "u32 \<Rightarrow> client_RequestCode" where
  "client_code_from = from_discriminant client_code_table RC_Unknown"

subsection \<open>Requests the manager handles\<close>

datatype server_RequestCode =
    SC_GetDataSource | SC_GetIndicator | SC_GetMaxEventIdNum | SC_GetModel | SC_GetModelNames
  | SC_InsertColumnStatistics | SC_InsertModel | SC_InsertTimeSeries | SC_RemoveModel
  | SC_RemoveOutliers | SC_UpdateClusters | SC_UpdateModel | SC_UpdateOutliers
  | SC_InsertEventLabels | SC_GetDataSourceList | SC_GetLabelDbPatterns | SC_InsertDataSource
  | SC_RenewCertificate | SC_GetTrustedDomainList | SC_GetOutliers | SC_GetTorExitNodeList
  | SC_GetInternalNetworkList | SC_GetAllowlist | SC_GetBlocklist | SC_GetPretrainedModel
  | SC_GetTrustedUserAgentList | SC_GetConfig | SC_UpdateHostOpenedPorts
  | SC_UpdateHostOsAgents | SC_GetSamplingPolicyList | SC_ReportCustomerDataDeletion
  | SC_UploadRunModel | SC_ReportRun | SC_ReportActiveRuns | SC_ReportDetectorStatus
  | SC_Unknown

fun server_code_into :: "server_RequestCode \<Rightarrow> u32" where
  "server_code_into SC_GetDataSource = 0"
| "server_code_into SC_GetIndicator = 1"
| "server_code_into SC_GetMaxEventIdNum = 2"
| "server_code_into SC_GetModel = 3"
| "server_code_into SC_GetModelNames = 4"
| "server_code_into SC_InsertColumnStatistics = 5"
| "server_code_into SC_InsertModel = 6"
| "server_code_into SC_InsertTimeSeries = 7"
| "server_code_into SC_RemoveModel = 8"
| "server_code_into SC_RemoveOutliers = 9"
| "server_code_into SC_UpdateClusters = 10"
| "server_code_into SC_UpdateModel = 11"
| "server_code_into SC_UpdateOutliers = 12"
| "server_code_into SC_InsertEventLabels = 13"
| "server_code_into SC_GetDataSourceList = 14"
| "server_code_into SC_GetLabelDbPatterns = 15"
| "server_code_into SC_InsertDataSource = 20"
| "server_code_into SC_RenewCertificate = 23"
| "server_code_into SC_GetTrustedDomainList = 24"
| "server_code_into SC_GetOutliers = 25"
| "server_code_into SC_GetTorExitNodeList = 26"
| "server_code_into SC_GetInternalNetworkList = 31"
| "server_code_into SC_GetAllowlist = 32"
| "server_code_into SC_GetBlocklist = 33"
| "server_code_into SC_GetPretrainedModel = 34"
| "server_code_into SC_GetTrustedUserAgentList = 35"
| "server_code_into SC_GetConfig = 36"
| "server_code_into SC_UpdateHostOpenedPorts = 37"
| "server_code_into SC_UpdateHostOsAgents = 38"
| "server_code_into SC_GetSamplingPolicyList = 39"
| "server_code_into SC_ReportCustomerDataDeletion = 40"
| "server_code_into SC_UploadRunModel = 41"
| "server_code_into SC_ReportRun = 42"
| "server_code_into SC_ReportActiveRuns = 43"
| "server_code_into SC_ReportDetectorStatus = 44"
| "server_code_into SC_Unknown = 4294967295"

definition server_code_table :: "(u32 \<times> server_RequestCode) list" where
  "server_code_table =
     [(0, SC_GetDataSource), (1, SC_GetIndicator), (2, SC_GetMaxEventIdNum), (3, SC_GetModel)
      , (4, SC_GetModelNames), (5, SC_InsertColumnStatistics), (6, SC_InsertModel)
      , (7, SC_InsertTimeSeries), (8, SC_RemoveModel), (9, SC_RemoveOutliers)
      , (10, SC_UpdateClusters), (11, SC_UpdateModel), (12, SC_UpdateOutliers)
      , (13, SC_InsertEventLabels), (14, SC_GetDataSourceList), (15, SC_GetLabelDbPatterns)
      , (20, SC_InsertDataSource), (23, SC_RenewCertificate), (24, SC_GetTrustedDomainList)
      , (25, SC_GetOutliers), (26, SC_GetTorExitNodeList), (31, SC_GetInternalNetworkList)
      , (32, SC_GetAllowlist), (33, SC_GetBlocklist), (34, SC_GetPretrainedModel)
      , (35, SC_GetTrustedUserAgentList), (36, SC_GetConfig), (37, SC_UpdateHostOpenedPorts)
      , (38, SC_UpdateHostOsAgents), (39, SC_GetSamplingPolicyList)
      , (40, SC_ReportCustomerDataDeletion), (41, SC_UploadRunModel), (42, SC_ReportRun)
      , (43, SC_ReportActiveRuns), (44, SC_ReportDetectorStatus)]"

definition server_code_from :: "u32 \<Rightarrow> server_RequestCode" where
  "server_code_from = from_discriminant server_code_table SC_Unknown"

subsection \<open>Both are tolerant discriminant encodings\<close>

lemma client_code_round [simp]: "client_code_from (client_code_into c) = c"
  by (cases c) (simp_all add: client_code_from_def client_code_table_def from_discriminant_def)

lemma server_code_round [simp]: "server_code_from (server_code_into c) = c"
  by (cases c) (simp_all add: server_code_from_def server_code_table_def from_discriminant_def)

interpretation client_code: num_enum client_code_into client_code_from RC_Unknown
proof
  show "client_code_from (client_code_into c) = c" for c by simp
  show "n \<notin> range client_code_into \<Longrightarrow> client_code_from n = RC_Unknown" for n
    unfolding client_code_from_def
    by (rule from_discriminant_foreign [where into = client_code_into])
      (simp_all add: client_code_table_def)
qed

interpretation server_code: num_enum server_code_into server_code_from SC_Unknown
proof
  show "server_code_from (server_code_into c) = c" for c by simp
  show "n \<notin> range server_code_into \<Longrightarrow> server_code_from n = SC_Unknown" for n
    unfolding server_code_from_def
    by (rule from_discriminant_foreign [where into = server_code_into])
      (simp_all add: server_code_table_def)
qed

end
