(* ===== verification/Service_Id.thy ===== *)
theory Service_Id
  imports Request_Codes Node_Types
begin

text \<open>
  \<open>src/src/service_id.rs\<close>: the identifiers authorization decides on, the id of every
  typed node request, and the id of every request code. Two interfaces are stated here:
  \<open>service_table\<close>, a complete and injective naming of a code enum, which both code tables
  provide, and \<open>node_family\<close>, a family of method-level ids under one family-level id,
  which each of the eleven node request types provides.
\<close>

subsection \<open>Identifiers\<close>

record ServiceId =
  sid_family :: string
  sid_method :: string

definition ServiceId_new :: "string \<Rightarrow> string \<Rightarrow> ServiceId" where
  "ServiceId_new family_name method_name = \<lparr>sid_family = family_name, sid_method = method_name\<rparr>"

definition is_family :: "ServiceId \<Rightarrow> bool" where
  "is_family s \<longleftrightarrow> sid_method s = []"

definition ServiceId_fmt :: "ServiceId \<Rightarrow> string" where
  "ServiceId_fmt s =
     (if sid_method s = [] then sid_family s else sid_family s @ ''.'' @ sid_method s)"

named_theorems service_consts

subsection \<open>The published identifiers\<close>

definition NODE_SERVICE :: ServiceId where [service_consts]: "NODE_SERVICE = ServiceId_new ''node.service'' []"
definition NODE_NETWORK_INTERFACE :: ServiceId where [service_consts]: "NODE_NETWORK_INTERFACE = ServiceId_new ''node.network_interface'' []"
definition NODE_HOSTNAME :: ServiceId where [service_consts]: "NODE_HOSTNAME = ServiceId_new ''node.hostname'' []"
definition NODE_TIME_SYNC :: ServiceId where [service_consts]: "NODE_TIME_SYNC = ServiceId_new ''node.time_sync'' []"
definition NODE_LOGGING :: ServiceId where [service_consts]: "NODE_LOGGING = ServiceId_new ''node.logging'' []"
definition NODE_REMOTE_ACCESS :: ServiceId where [service_consts]: "NODE_REMOTE_ACCESS = ServiceId_new ''node.remote_access'' []"
definition NODE_POWER :: ServiceId where [service_consts]: "NODE_POWER = ServiceId_new ''node.power'' []"
definition NODE_OBSERVATION :: ServiceId where [service_consts]: "NODE_OBSERVATION = ServiceId_new ''node.observation'' []"
definition NODE_VERSION :: ServiceId where [service_consts]: "NODE_VERSION = ServiceId_new ''node.version'' []"
definition NODE_PACKAGE :: ServiceId where [service_consts]: "NODE_PACKAGE = ServiceId_new ''node.package'' []"
definition NODE_ENROLL :: ServiceId where [service_consts]: "NODE_ENROLL = ServiceId_new ''node.enroll'' []"
definition NODE_SERVICE_START :: ServiceId where [service_consts]: "NODE_SERVICE_START = ServiceId_new ''node.service'' ''start''"
definition NODE_SERVICE_STOP :: ServiceId where [service_consts]: "NODE_SERVICE_STOP = ServiceId_new ''node.service'' ''stop''"
definition NODE_SERVICE_STATUS :: ServiceId where [service_consts]: "NODE_SERVICE_STATUS = ServiceId_new ''node.service'' ''status''"
definition NODE_SERVICE_RESTART :: ServiceId where [service_consts]: "NODE_SERVICE_RESTART = ServiceId_new ''node.service'' ''restart''"
definition NODE_NETWORK_INTERFACE_LIST :: ServiceId where [service_consts]: "NODE_NETWORK_INTERFACE_LIST = ServiceId_new ''node.network_interface'' ''list''"
definition NODE_NETWORK_INTERFACE_GET :: ServiceId where [service_consts]: "NODE_NETWORK_INTERFACE_GET = ServiceId_new ''node.network_interface'' ''get''"
definition NODE_NETWORK_INTERFACE_SET :: ServiceId where [service_consts]: "NODE_NETWORK_INTERFACE_SET = ServiceId_new ''node.network_interface'' ''set''"
definition NODE_NETWORK_INTERFACE_RESET_CONFIG :: ServiceId where [service_consts]: "NODE_NETWORK_INTERFACE_RESET_CONFIG = ServiceId_new ''node.network_interface'' ''reset_config''"
definition NODE_NETWORK_INTERFACE_REMOVE :: ServiceId where [service_consts]: "NODE_NETWORK_INTERFACE_REMOVE = ServiceId_new ''node.network_interface'' ''remove''"
definition NODE_HOSTNAME_GET :: ServiceId where [service_consts]: "NODE_HOSTNAME_GET = ServiceId_new ''node.hostname'' ''get''"
definition NODE_HOSTNAME_SET :: ServiceId where [service_consts]: "NODE_HOSTNAME_SET = ServiceId_new ''node.hostname'' ''set''"
definition NODE_TIME_SYNC_GET :: ServiceId where [service_consts]: "NODE_TIME_SYNC_GET = ServiceId_new ''node.time_sync'' ''get''"
definition NODE_TIME_SYNC_SET :: ServiceId where [service_consts]: "NODE_TIME_SYNC_SET = ServiceId_new ''node.time_sync'' ''set''"
definition NODE_TIME_SYNC_ENABLE :: ServiceId where [service_consts]: "NODE_TIME_SYNC_ENABLE = ServiceId_new ''node.time_sync'' ''enable''"
definition NODE_TIME_SYNC_DISABLE :: ServiceId where [service_consts]: "NODE_TIME_SYNC_DISABLE = ServiceId_new ''node.time_sync'' ''disable''"
definition NODE_TIME_SYNC_STATUS :: ServiceId where [service_consts]: "NODE_TIME_SYNC_STATUS = ServiceId_new ''node.time_sync'' ''status''"
definition NODE_LOGGING_GET :: ServiceId where [service_consts]: "NODE_LOGGING_GET = ServiceId_new ''node.logging'' ''get''"
definition NODE_LOGGING_SET :: ServiceId where [service_consts]: "NODE_LOGGING_SET = ServiceId_new ''node.logging'' ''set''"
definition NODE_LOGGING_CLEAR :: ServiceId where [service_consts]: "NODE_LOGGING_CLEAR = ServiceId_new ''node.logging'' ''clear''"
definition NODE_LOGGING_RESTART :: ServiceId where [service_consts]: "NODE_LOGGING_RESTART = ServiceId_new ''node.logging'' ''restart''"
definition NODE_REMOTE_ACCESS_GET :: ServiceId where [service_consts]: "NODE_REMOTE_ACCESS_GET = ServiceId_new ''node.remote_access'' ''get''"
definition NODE_REMOTE_ACCESS_SET :: ServiceId where [service_consts]: "NODE_REMOTE_ACCESS_SET = ServiceId_new ''node.remote_access'' ''set''"
definition NODE_REMOTE_ACCESS_RESTART :: ServiceId where [service_consts]: "NODE_REMOTE_ACCESS_RESTART = ServiceId_new ''node.remote_access'' ''restart''"
definition NODE_POWER_REBOOT :: ServiceId where [service_consts]: "NODE_POWER_REBOOT = ServiceId_new ''node.power'' ''reboot''"
definition NODE_POWER_SHUTDOWN :: ServiceId where [service_consts]: "NODE_POWER_SHUTDOWN = ServiceId_new ''node.power'' ''shutdown''"
definition NODE_POWER_GRACEFUL_REBOOT :: ServiceId where [service_consts]: "NODE_POWER_GRACEFUL_REBOOT = ServiceId_new ''node.power'' ''graceful_reboot''"
definition NODE_POWER_GRACEFUL_SHUTDOWN :: ServiceId where [service_consts]: "NODE_POWER_GRACEFUL_SHUTDOWN = ServiceId_new ''node.power'' ''graceful_shutdown''"
definition NODE_OBSERVATION_PROCESS_LIST :: ServiceId where [service_consts]: "NODE_OBSERVATION_PROCESS_LIST = ServiceId_new ''node.observation'' ''process_list''"
definition NODE_OBSERVATION_RESOURCE_USAGE :: ServiceId where [service_consts]: "NODE_OBSERVATION_RESOURCE_USAGE = ServiceId_new ''node.observation'' ''resource_usage''"
definition NODE_OBSERVATION_UPTIME :: ServiceId where [service_consts]: "NODE_OBSERVATION_UPTIME = ServiceId_new ''node.observation'' ''uptime''"
definition NODE_VERSION_GET :: ServiceId where [service_consts]: "NODE_VERSION_GET = ServiceId_new ''node.version'' ''get''"
definition NODE_VERSION_SET_OS :: ServiceId where [service_consts]: "NODE_VERSION_SET_OS = ServiceId_new ''node.version'' ''set_os_version''"
definition NODE_VERSION_SET_PRODUCT :: ServiceId where [service_consts]: "NODE_VERSION_SET_PRODUCT = ServiceId_new ''node.version'' ''set_product_version''"
definition NODE_PACKAGE_INSTALL :: ServiceId where [service_consts]: "NODE_PACKAGE_INSTALL = ServiceId_new ''node.package'' ''install''"
definition NODE_PACKAGE_REMOVE :: ServiceId where [service_consts]: "NODE_PACKAGE_REMOVE = ServiceId_new ''node.package'' ''remove''"
definition NODE_PACKAGE_LIST :: ServiceId where [service_consts]: "NODE_PACKAGE_LIST = ServiceId_new ''node.package'' ''list''"
definition NODE_PACKAGE_STATUS :: ServiceId where [service_consts]: "NODE_PACKAGE_STATUS = ServiceId_new ''node.package'' ''status''"
definition NODE_PACKAGE_LIST_HOST_PORTS :: ServiceId where [service_consts]: "NODE_PACKAGE_LIST_HOST_PORTS = ServiceId_new ''node.package'' ''list_host_ports''"
definition NODE_ENROLL_REGISTER :: ServiceId where [service_consts]: "NODE_ENROLL_REGISTER = ServiceId_new ''node.enroll'' ''register''"
definition NODE_ENROLL_DEREGISTER :: ServiceId where [service_consts]: "NODE_ENROLL_DEREGISTER = ServiceId_new ''node.enroll'' ''deregister''"
definition COMMON_DNS_START :: ServiceId where [service_consts]: "COMMON_DNS_START = ServiceId_new ''common'' ''dns_start''"
definition COMMON_DNS_STOP :: ServiceId where [service_consts]: "COMMON_DNS_STOP = ServiceId_new ''common'' ''dns_stop''"
definition COMMON_RELOAD_CONFIG :: ServiceId where [service_consts]: "COMMON_RELOAD_CONFIG = ServiceId_new ''common'' ''reload_config''"
definition COMMON_UPDATE_CONFIG :: ServiceId where [service_consts]: "COMMON_UPDATE_CONFIG = ServiceId_new ''common'' ''update_config''"
definition COMMON_DELETE_CUSTOMER_DATA :: ServiceId where [service_consts]: "COMMON_DELETE_CUSTOMER_DATA = ServiceId_new ''common'' ''delete_customer_data''"
definition COMMON_RELOAD_TI :: ServiceId where [service_consts]: "COMMON_RELOAD_TI = ServiceId_new ''common'' ''reload_ti''"
definition COMMON_TOR_EXIT_NODE_LIST :: ServiceId where [service_consts]: "COMMON_TOR_EXIT_NODE_LIST = ServiceId_new ''common'' ''tor_exit_node_list''"
definition COMMON_TRUSTED_DOMAIN_LIST :: ServiceId where [service_consts]: "COMMON_TRUSTED_DOMAIN_LIST = ServiceId_new ''common'' ''trusted_domain_list''"
definition COMMON_SAMPLING_POLICY_LIST :: ServiceId where [service_consts]: "COMMON_SAMPLING_POLICY_LIST = ServiceId_new ''common'' ''sampling_policy_list''"
definition COMMON_DELETE_SAMPLING_POLICY :: ServiceId where [service_consts]: "COMMON_DELETE_SAMPLING_POLICY = ServiceId_new ''common'' ''delete_sampling_policy''"
definition COMMON_RELOAD_FILTER_RULE :: ServiceId where [service_consts]: "COMMON_RELOAD_FILTER_RULE = ServiceId_new ''common'' ''reload_filter_rule''"
definition COMMON_INTERNAL_NETWORK_LIST :: ServiceId where [service_consts]: "COMMON_INTERNAL_NETWORK_LIST = ServiceId_new ''common'' ''internal_network_list''"
definition COMMON_ALLOWLIST :: ServiceId where [service_consts]: "COMMON_ALLOWLIST = ServiceId_new ''common'' ''allowlist''"
definition COMMON_BLOCKLIST :: ServiceId where [service_consts]: "COMMON_BLOCKLIST = ServiceId_new ''common'' ''blocklist''"
definition COMMON_ECHO :: ServiceId where [service_consts]: "COMMON_ECHO = ServiceId_new ''common'' ''echo''"
definition COMMON_TRUSTED_USER_AGENT_LIST :: ServiceId where [service_consts]: "COMMON_TRUSTED_USER_AGENT_LIST = ServiceId_new ''common'' ''trusted_user_agent_list''"
definition COMMON_SEMI_SUPERVISED_MODELS :: ServiceId where [service_consts]: "COMMON_SEMI_SUPERVISED_MODELS = ServiceId_new ''common'' ''semi_supervised_models''"
definition COMMON_RENEW_CERTIFICATE :: ServiceId where [service_consts]: "COMMON_RENEW_CERTIFICATE = ServiceId_new ''common'' ''renew_certificate''"
definition ENGINE_TRAIN_MODEL :: ServiceId where [service_consts]: "ENGINE_TRAIN_MODEL = ServiceId_new ''engine'' ''train_model''"
definition ENGINE_CLONE_MODEL :: ServiceId where [service_consts]: "ENGINE_CLONE_MODEL = ServiceId_new ''engine'' ''clone_model''"
definition ENGINE_CANCEL_RUN :: ServiceId where [service_consts]: "ENGINE_CANCEL_RUN = ServiceId_new ''engine'' ''cancel_run''"
definition ENGINE_RUN_DETECTOR_ONCE :: ServiceId where [service_consts]: "ENGINE_RUN_DETECTOR_ONCE = ServiceId_new ''engine'' ''run_detector_once''"
definition SERVER_DATA_SOURCE_GET :: ServiceId where [service_consts]: "SERVER_DATA_SOURCE_GET = ServiceId_new ''server.data_source'' ''get''"
definition SERVER_DATA_SOURCE_LIST :: ServiceId where [service_consts]: "SERVER_DATA_SOURCE_LIST = ServiceId_new ''server.data_source'' ''list''"
definition SERVER_DATA_SOURCE_INSERT :: ServiceId where [service_consts]: "SERVER_DATA_SOURCE_INSERT = ServiceId_new ''server.data_source'' ''insert''"
definition SERVER_MODEL_GET :: ServiceId where [service_consts]: "SERVER_MODEL_GET = ServiceId_new ''server.model'' ''get''"
definition SERVER_MODEL_GET_NAMES :: ServiceId where [service_consts]: "SERVER_MODEL_GET_NAMES = ServiceId_new ''server.model'' ''get_names''"
definition SERVER_MODEL_INSERT :: ServiceId where [service_consts]: "SERVER_MODEL_INSERT = ServiceId_new ''server.model'' ''insert''"
definition SERVER_MODEL_REMOVE :: ServiceId where [service_consts]: "SERVER_MODEL_REMOVE = ServiceId_new ''server.model'' ''remove''"
definition SERVER_MODEL_UPDATE :: ServiceId where [service_consts]: "SERVER_MODEL_UPDATE = ServiceId_new ''server.model'' ''update''"
definition SERVER_MODEL_GET_PRETRAINED :: ServiceId where [service_consts]: "SERVER_MODEL_GET_PRETRAINED = ServiceId_new ''server.model'' ''get_pretrained''"
definition SERVER_INDICATOR_GET :: ServiceId where [service_consts]: "SERVER_INDICATOR_GET = ServiceId_new ''server.indicator'' ''get''"
definition SERVER_EVENT_GET_MAX_ID_NUM :: ServiceId where [service_consts]: "SERVER_EVENT_GET_MAX_ID_NUM = ServiceId_new ''server.event'' ''get_max_id_num''"
definition SERVER_EVENT_INSERT_LABELS :: ServiceId where [service_consts]: "SERVER_EVENT_INSERT_LABELS = ServiceId_new ''server.event'' ''insert_labels''"
definition SERVER_STATISTICS_INSERT_COLUMN :: ServiceId where [service_consts]: "SERVER_STATISTICS_INSERT_COLUMN = ServiceId_new ''server.statistics'' ''insert_column''"
definition SERVER_STATISTICS_INSERT_TIME_SERIES :: ServiceId where [service_consts]: "SERVER_STATISTICS_INSERT_TIME_SERIES = ServiceId_new ''server.statistics'' ''insert_time_series''"
definition SERVER_OUTLIER_GET :: ServiceId where [service_consts]: "SERVER_OUTLIER_GET = ServiceId_new ''server.outlier'' ''get''"
definition SERVER_OUTLIER_REMOVE :: ServiceId where [service_consts]: "SERVER_OUTLIER_REMOVE = ServiceId_new ''server.outlier'' ''remove''"
definition SERVER_OUTLIER_UPDATE :: ServiceId where [service_consts]: "SERVER_OUTLIER_UPDATE = ServiceId_new ''server.outlier'' ''update''"
definition SERVER_CLUSTER_UPDATE :: ServiceId where [service_consts]: "SERVER_CLUSTER_UPDATE = ServiceId_new ''server.cluster'' ''update''"
definition SERVER_LABEL_GET_DB_PATTERNS :: ServiceId where [service_consts]: "SERVER_LABEL_GET_DB_PATTERNS = ServiceId_new ''server.label'' ''get_db_patterns''"
definition SERVER_CERTIFICATE_RENEW :: ServiceId where [service_consts]: "SERVER_CERTIFICATE_RENEW = ServiceId_new ''server.certificate'' ''renew''"
definition SERVER_CONFIG_GET :: ServiceId where [service_consts]: "SERVER_CONFIG_GET = ServiceId_new ''server.config'' ''get''"
definition SERVER_HOST_UPDATE_OPENED_PORTS :: ServiceId where [service_consts]: "SERVER_HOST_UPDATE_OPENED_PORTS = ServiceId_new ''server.host'' ''update_opened_ports''"
definition SERVER_HOST_UPDATE_OS_AGENTS :: ServiceId where [service_consts]: "SERVER_HOST_UPDATE_OS_AGENTS = ServiceId_new ''server.host'' ''update_os_agents''"
definition SERVER_LIST_TRUSTED_DOMAIN :: ServiceId where [service_consts]: "SERVER_LIST_TRUSTED_DOMAIN = ServiceId_new ''server.list'' ''trusted_domain''"
definition SERVER_LIST_TOR_EXIT_NODE :: ServiceId where [service_consts]: "SERVER_LIST_TOR_EXIT_NODE = ServiceId_new ''server.list'' ''tor_exit_node''"
definition SERVER_LIST_INTERNAL_NETWORK :: ServiceId where [service_consts]: "SERVER_LIST_INTERNAL_NETWORK = ServiceId_new ''server.list'' ''internal_network''"
definition SERVER_LIST_ALLOWLIST :: ServiceId where [service_consts]: "SERVER_LIST_ALLOWLIST = ServiceId_new ''server.list'' ''allowlist''"
definition SERVER_LIST_BLOCKLIST :: ServiceId where [service_consts]: "SERVER_LIST_BLOCKLIST = ServiceId_new ''server.list'' ''blocklist''"
definition SERVER_LIST_TRUSTED_USER_AGENT :: ServiceId where [service_consts]: "SERVER_LIST_TRUSTED_USER_AGENT = ServiceId_new ''server.list'' ''trusted_user_agent''"
definition SERVER_LIST_SAMPLING_POLICY :: ServiceId where [service_consts]: "SERVER_LIST_SAMPLING_POLICY = ServiceId_new ''server.list'' ''sampling_policy''"
definition SERVER_CUSTOMER_DATA_DELETION_REPORT :: ServiceId where [service_consts]: "SERVER_CUSTOMER_DATA_DELETION_REPORT = ServiceId_new ''server.customer_data_deletion'' ''report''"
definition SERVER_RUN_UPLOAD_MODEL :: ServiceId where [service_consts]: "SERVER_RUN_UPLOAD_MODEL = ServiceId_new ''server.run'' ''upload_model''"
definition SERVER_RUN_REPORT :: ServiceId where [service_consts]: "SERVER_RUN_REPORT = ServiceId_new ''server.run'' ''report''"
definition SERVER_RUN_REPORT_ACTIVE :: ServiceId where [service_consts]: "SERVER_RUN_REPORT_ACTIVE = ServiceId_new ''server.run'' ''report_active''"
definition SERVER_DETECTOR_REPORT_STATUS :: ServiceId where [service_consts]: "SERVER_DETECTOR_REPORT_STATUS = ServiceId_new ''server.detector'' ''report_status''"

subsection \<open>The identifier of a typed node request\<close>

fun NodeServiceRequest_service_id :: "NodeServiceRequest \<Rightarrow> ServiceId" where
  "NodeServiceRequest_service_id (Service_Start _) = NODE_SERVICE_START"
| "NodeServiceRequest_service_id (Service_Stop _) = NODE_SERVICE_STOP"
| "NodeServiceRequest_service_id (Service_Status _) = NODE_SERVICE_STATUS"
| "NodeServiceRequest_service_id (Service_Restart _) = NODE_SERVICE_RESTART"

fun NodeNetworkInterfaceRequest_service_id :: "NodeNetworkInterfaceRequest \<Rightarrow> ServiceId" where
  "NodeNetworkInterfaceRequest_service_id (Interface_List _) = NODE_NETWORK_INTERFACE_LIST"
| "NodeNetworkInterfaceRequest_service_id (Interface_Get _) = NODE_NETWORK_INTERFACE_GET"
| "NodeNetworkInterfaceRequest_service_id (Interface_Set _ _) = NODE_NETWORK_INTERFACE_SET"
| "NodeNetworkInterfaceRequest_service_id (Interface_ResetConfig _) = NODE_NETWORK_INTERFACE_RESET_CONFIG"
| "NodeNetworkInterfaceRequest_service_id (Interface_Remove _ _) = NODE_NETWORK_INTERFACE_REMOVE"

fun NodeHostnameRequest_service_id :: "NodeHostnameRequest \<Rightarrow> ServiceId" where
  "NodeHostnameRequest_service_id Hostname_Get = NODE_HOSTNAME_GET"
| "NodeHostnameRequest_service_id (Hostname_Set _) = NODE_HOSTNAME_SET"

fun NodeTimeSyncRequest_service_id :: "NodeTimeSyncRequest \<Rightarrow> ServiceId" where
  "NodeTimeSyncRequest_service_id TimeSync_Get = NODE_TIME_SYNC_GET"
| "NodeTimeSyncRequest_service_id (TimeSync_Set _) = NODE_TIME_SYNC_SET"
| "NodeTimeSyncRequest_service_id TimeSync_Enable = NODE_TIME_SYNC_ENABLE"
| "NodeTimeSyncRequest_service_id TimeSync_Disable = NODE_TIME_SYNC_DISABLE"
| "NodeTimeSyncRequest_service_id TimeSync_Status = NODE_TIME_SYNC_STATUS"

fun NodeLoggingRequest_service_id :: "NodeLoggingRequest \<Rightarrow> ServiceId" where
  "NodeLoggingRequest_service_id Logging_Get = NODE_LOGGING_GET"
| "NodeLoggingRequest_service_id (Logging_Set _) = NODE_LOGGING_SET"
| "NodeLoggingRequest_service_id Logging_Clear = NODE_LOGGING_CLEAR"
| "NodeLoggingRequest_service_id Logging_Restart = NODE_LOGGING_RESTART"

fun NodeRemoteAccessRequest_service_id :: "NodeRemoteAccessRequest \<Rightarrow> ServiceId" where
  "NodeRemoteAccessRequest_service_id RemoteAccess_Get = NODE_REMOTE_ACCESS_GET"
| "NodeRemoteAccessRequest_service_id (RemoteAccess_Set _) = NODE_REMOTE_ACCESS_SET"
| "NodeRemoteAccessRequest_service_id RemoteAccess_Restart = NODE_REMOTE_ACCESS_RESTART"

fun NodePowerRequest_service_id :: "NodePowerRequest \<Rightarrow> ServiceId" where
  "NodePowerRequest_service_id Power_Reboot = NODE_POWER_REBOOT"
| "NodePowerRequest_service_id Power_Shutdown = NODE_POWER_SHUTDOWN"
| "NodePowerRequest_service_id Power_GracefulReboot = NODE_POWER_GRACEFUL_REBOOT"
| "NodePowerRequest_service_id Power_GracefulShutdown = NODE_POWER_GRACEFUL_SHUTDOWN"

fun NodeObservationRequest_service_id :: "NodeObservationRequest \<Rightarrow> ServiceId" where
  "NodeObservationRequest_service_id Observe_ProcessList = NODE_OBSERVATION_PROCESS_LIST"
| "NodeObservationRequest_service_id Observe_ResourceUsage = NODE_OBSERVATION_RESOURCE_USAGE"
| "NodeObservationRequest_service_id Observe_Uptime = NODE_OBSERVATION_UPTIME"

fun NodeVersionRequest_service_id :: "NodeVersionRequest \<Rightarrow> ServiceId" where
  "NodeVersionRequest_service_id Version_Get = NODE_VERSION_GET"
| "NodeVersionRequest_service_id (Version_SetOsVersion _) = NODE_VERSION_SET_OS"
| "NodeVersionRequest_service_id (Version_SetProductVersion _) = NODE_VERSION_SET_PRODUCT"

fun NodePackageRequest_service_id :: "NodePackageRequest \<Rightarrow> ServiceId" where
  "NodePackageRequest_service_id (Package_Install _) = NODE_PACKAGE_INSTALL"
| "NodePackageRequest_service_id (Package_Remove _ _ _) = NODE_PACKAGE_REMOVE"
| "NodePackageRequest_service_id Package_ListInstalled = NODE_PACKAGE_LIST"
| "NodePackageRequest_service_id (Package_Status _ _) = NODE_PACKAGE_STATUS"
| "NodePackageRequest_service_id Package_ListHostPorts = NODE_PACKAGE_LIST_HOST_PORTS"

fun NodeEnrollRequest_service_id :: "NodeEnrollRequest \<Rightarrow> ServiceId" where
  "NodeEnrollRequest_service_id (Enroll_Register _) = NODE_ENROLL_REGISTER"
| "NodeEnrollRequest_service_id (Enroll_Deregister _ _ _ _) = NODE_ENROLL_DEREGISTER"

subsection \<open>The identifier of a request code\<close>

fun from_client_request_code :: "client_RequestCode \<Rightarrow> ServiceId option" where
  "from_client_request_code RC_DnsStart = Some COMMON_DNS_START"
| "from_client_request_code RC_DnsStop = Some COMMON_DNS_STOP"
| "from_client_request_code RC_Reboot = Some NODE_POWER_REBOOT"
| "from_client_request_code RC_ReloadConfig = Some COMMON_RELOAD_CONFIG"
| "from_client_request_code RC_ReloadTi = Some COMMON_RELOAD_TI"
| "from_client_request_code RC_ResourceUsage = Some NODE_OBSERVATION_RESOURCE_USAGE"
| "from_client_request_code RC_TorExitNodeList = Some COMMON_TOR_EXIT_NODE_LIST"
| "from_client_request_code RC_SamplingPolicyList = Some COMMON_SAMPLING_POLICY_LIST"
| "from_client_request_code RC_ReloadFilterRule = Some COMMON_RELOAD_FILTER_RULE"
| "from_client_request_code RC_UpdateConfig = Some COMMON_UPDATE_CONFIG"
| "from_client_request_code RC_DeleteCustomerData = Some COMMON_DELETE_CUSTOMER_DATA"
| "from_client_request_code RC_DeleteSamplingPolicy = Some COMMON_DELETE_SAMPLING_POLICY"
| "from_client_request_code RC_InternalNetworkList = Some COMMON_INTERNAL_NETWORK_LIST"
| "from_client_request_code RC_Allowlist = Some COMMON_ALLOWLIST"
| "from_client_request_code RC_Blocklist = Some COMMON_BLOCKLIST"
| "from_client_request_code RC_EchoRequest = Some COMMON_ECHO"
| "from_client_request_code RC_TrustedUserAgentList = Some COMMON_TRUSTED_USER_AGENT_LIST"
| "from_client_request_code RC_TrustedDomainList = Some COMMON_TRUSTED_DOMAIN_LIST"
| "from_client_request_code RC_ProcessList = Some NODE_OBSERVATION_PROCESS_LIST"
| "from_client_request_code RC_SemiSupervisedModels = Some COMMON_SEMI_SUPERVISED_MODELS"
| "from_client_request_code RC_Shutdown = Some NODE_POWER_SHUTDOWN"
| "from_client_request_code RC_NodeService = Some NODE_SERVICE"
| "from_client_request_code RC_NodeNetworkInterface = Some NODE_NETWORK_INTERFACE"
| "from_client_request_code RC_NodeHostname = Some NODE_HOSTNAME"
| "from_client_request_code RC_NodeTimeSync = Some NODE_TIME_SYNC"
| "from_client_request_code RC_NodeLogging = Some NODE_LOGGING"
| "from_client_request_code RC_NodeRemoteAccess = Some NODE_REMOTE_ACCESS"
| "from_client_request_code RC_NodePower = Some NODE_POWER"
| "from_client_request_code RC_NodeObservation = Some NODE_OBSERVATION"
| "from_client_request_code RC_NodeVersion = Some NODE_VERSION"
| "from_client_request_code RC_NodePackage = Some NODE_PACKAGE"
| "from_client_request_code RC_NodeEnroll = Some NODE_ENROLL"
| "from_client_request_code RC_TrainModel = Some ENGINE_TRAIN_MODEL"
| "from_client_request_code RC_CloneModel = Some ENGINE_CLONE_MODEL"
| "from_client_request_code RC_CancelRun = Some ENGINE_CANCEL_RUN"
| "from_client_request_code RC_RunDetectorOnce = Some ENGINE_RUN_DETECTOR_ONCE"
| "from_client_request_code RC_Unknown = None"

fun from_server_request_code :: "server_RequestCode \<Rightarrow> ServiceId option" where
  "from_server_request_code SC_GetDataSource = Some SERVER_DATA_SOURCE_GET"
| "from_server_request_code SC_GetDataSourceList = Some SERVER_DATA_SOURCE_LIST"
| "from_server_request_code SC_InsertDataSource = Some SERVER_DATA_SOURCE_INSERT"
| "from_server_request_code SC_GetModel = Some SERVER_MODEL_GET"
| "from_server_request_code SC_GetModelNames = Some SERVER_MODEL_GET_NAMES"
| "from_server_request_code SC_InsertModel = Some SERVER_MODEL_INSERT"
| "from_server_request_code SC_RemoveModel = Some SERVER_MODEL_REMOVE"
| "from_server_request_code SC_UpdateModel = Some SERVER_MODEL_UPDATE"
| "from_server_request_code SC_GetPretrainedModel = Some SERVER_MODEL_GET_PRETRAINED"
| "from_server_request_code SC_GetIndicator = Some SERVER_INDICATOR_GET"
| "from_server_request_code SC_GetMaxEventIdNum = Some SERVER_EVENT_GET_MAX_ID_NUM"
| "from_server_request_code SC_InsertEventLabels = Some SERVER_EVENT_INSERT_LABELS"
| "from_server_request_code SC_InsertColumnStatistics = Some SERVER_STATISTICS_INSERT_COLUMN"
| "from_server_request_code SC_InsertTimeSeries = Some SERVER_STATISTICS_INSERT_TIME_SERIES"
| "from_server_request_code SC_RemoveOutliers = Some SERVER_OUTLIER_REMOVE"
| "from_server_request_code SC_UpdateOutliers = Some SERVER_OUTLIER_UPDATE"
| "from_server_request_code SC_GetOutliers = Some SERVER_OUTLIER_GET"
| "from_server_request_code SC_UpdateClusters = Some SERVER_CLUSTER_UPDATE"
| "from_server_request_code SC_GetLabelDbPatterns = Some SERVER_LABEL_GET_DB_PATTERNS"
| "from_server_request_code SC_RenewCertificate = Some SERVER_CERTIFICATE_RENEW"
| "from_server_request_code SC_GetConfig = Some SERVER_CONFIG_GET"
| "from_server_request_code SC_UpdateHostOpenedPorts = Some SERVER_HOST_UPDATE_OPENED_PORTS"
| "from_server_request_code SC_UpdateHostOsAgents = Some SERVER_HOST_UPDATE_OS_AGENTS"
| "from_server_request_code SC_GetTrustedDomainList = Some SERVER_LIST_TRUSTED_DOMAIN"
| "from_server_request_code SC_GetTorExitNodeList = Some SERVER_LIST_TOR_EXIT_NODE"
| "from_server_request_code SC_GetInternalNetworkList = Some SERVER_LIST_INTERNAL_NETWORK"
| "from_server_request_code SC_GetAllowlist = Some SERVER_LIST_ALLOWLIST"
| "from_server_request_code SC_GetBlocklist = Some SERVER_LIST_BLOCKLIST"
| "from_server_request_code SC_GetTrustedUserAgentList = Some SERVER_LIST_TRUSTED_USER_AGENT"
| "from_server_request_code SC_GetSamplingPolicyList = Some SERVER_LIST_SAMPLING_POLICY"
| "from_server_request_code SC_ReportCustomerDataDeletion = Some SERVER_CUSTOMER_DATA_DELETION_REPORT"
| "from_server_request_code SC_UploadRunModel = Some SERVER_RUN_UPLOAD_MODEL"
| "from_server_request_code SC_ReportRun = Some SERVER_RUN_REPORT"
| "from_server_request_code SC_ReportActiveRuns = Some SERVER_RUN_REPORT_ACTIVE"
| "from_server_request_code SC_ReportDetectorStatus = Some SERVER_DETECTOR_REPORT_STATUS"
| "from_server_request_code SC_Unknown = None"

subsection \<open>The list of all identifiers\<close>

definition all_ids :: "ServiceId list" where
  "all_ids =
     [NODE_SERVICE, NODE_NETWORK_INTERFACE, NODE_HOSTNAME, NODE_TIME_SYNC, NODE_LOGGING
      , NODE_REMOTE_ACCESS, NODE_POWER, NODE_OBSERVATION, NODE_VERSION, NODE_PACKAGE
      , NODE_ENROLL, NODE_SERVICE_START, NODE_SERVICE_STOP, NODE_SERVICE_STATUS
      , NODE_SERVICE_RESTART, NODE_NETWORK_INTERFACE_LIST, NODE_NETWORK_INTERFACE_GET
      , NODE_NETWORK_INTERFACE_SET, NODE_NETWORK_INTERFACE_RESET_CONFIG
      , NODE_NETWORK_INTERFACE_REMOVE, NODE_HOSTNAME_GET, NODE_HOSTNAME_SET, NODE_TIME_SYNC_GET
      , NODE_TIME_SYNC_SET, NODE_TIME_SYNC_ENABLE, NODE_TIME_SYNC_DISABLE, NODE_TIME_SYNC_STATUS
      , NODE_LOGGING_GET, NODE_LOGGING_SET, NODE_LOGGING_CLEAR, NODE_LOGGING_RESTART
      , NODE_REMOTE_ACCESS_GET, NODE_REMOTE_ACCESS_SET, NODE_REMOTE_ACCESS_RESTART
      , NODE_POWER_REBOOT, NODE_POWER_SHUTDOWN, NODE_POWER_GRACEFUL_REBOOT
      , NODE_POWER_GRACEFUL_SHUTDOWN, NODE_OBSERVATION_PROCESS_LIST
      , NODE_OBSERVATION_RESOURCE_USAGE, NODE_OBSERVATION_UPTIME, NODE_VERSION_GET
      , NODE_VERSION_SET_OS, NODE_VERSION_SET_PRODUCT, NODE_PACKAGE_INSTALL, NODE_PACKAGE_REMOVE
      , NODE_PACKAGE_LIST, NODE_PACKAGE_STATUS, NODE_PACKAGE_LIST_HOST_PORTS
      , NODE_ENROLL_REGISTER, NODE_ENROLL_DEREGISTER, COMMON_DNS_START, COMMON_DNS_STOP
      , COMMON_RELOAD_CONFIG, COMMON_UPDATE_CONFIG, COMMON_DELETE_CUSTOMER_DATA
      , COMMON_RELOAD_TI, COMMON_TOR_EXIT_NODE_LIST, COMMON_TRUSTED_DOMAIN_LIST
      , COMMON_SAMPLING_POLICY_LIST, COMMON_DELETE_SAMPLING_POLICY, COMMON_RELOAD_FILTER_RULE
      , COMMON_INTERNAL_NETWORK_LIST, COMMON_ALLOWLIST, COMMON_BLOCKLIST, COMMON_ECHO
      , COMMON_TRUSTED_USER_AGENT_LIST, COMMON_SEMI_SUPERVISED_MODELS, COMMON_RENEW_CERTIFICATE
      , ENGINE_TRAIN_MODEL, ENGINE_CLONE_MODEL, ENGINE_CANCEL_RUN, ENGINE_RUN_DETECTOR_ONCE
      , SERVER_CUSTOMER_DATA_DELETION_REPORT, SERVER_RUN_UPLOAD_MODEL, SERVER_RUN_REPORT
      , SERVER_RUN_REPORT_ACTIVE, SERVER_DETECTOR_REPORT_STATUS, SERVER_DATA_SOURCE_GET
      , SERVER_DATA_SOURCE_LIST, SERVER_DATA_SOURCE_INSERT, SERVER_MODEL_GET
      , SERVER_MODEL_GET_NAMES, SERVER_MODEL_INSERT, SERVER_MODEL_REMOVE, SERVER_MODEL_UPDATE
      , SERVER_MODEL_GET_PRETRAINED, SERVER_INDICATOR_GET, SERVER_EVENT_GET_MAX_ID_NUM
      , SERVER_EVENT_INSERT_LABELS, SERVER_STATISTICS_INSERT_COLUMN
      , SERVER_STATISTICS_INSERT_TIME_SERIES, SERVER_OUTLIER_GET, SERVER_OUTLIER_REMOVE
      , SERVER_OUTLIER_UPDATE, SERVER_CLUSTER_UPDATE, SERVER_LABEL_GET_DB_PATTERNS
      , SERVER_CERTIFICATE_RENEW, SERVER_CONFIG_GET, SERVER_HOST_UPDATE_OPENED_PORTS
      , SERVER_HOST_UPDATE_OS_AGENTS, SERVER_LIST_TRUSTED_DOMAIN, SERVER_LIST_TOR_EXIT_NODE
      , SERVER_LIST_INTERNAL_NETWORK, SERVER_LIST_ALLOWLIST, SERVER_LIST_BLOCKLIST
      , SERVER_LIST_TRUSTED_USER_AGENT, SERVER_LIST_SAMPLING_POLICY]"

subsection \<open>Facts about the identifiers\<close>

lemma sid_new [simp]:
  "sid_family (ServiceId_new f m) = f"
  "sid_method (ServiceId_new f m) = m"
  "ServiceId_new f m = ServiceId_new f' m' \<longleftrightarrow> f = f' \<and> m = m'"
  by (simp_all add: ServiceId_new_def)

text \<open>No two published identifiers print alike, so a printed id names one service.\<close>

lemma all_ids_print_distinct: "distinct (map ServiceId_fmt all_ids)"
  by code_simp

lemma ServiceId_fmt_inj_on: "inj_on ServiceId_fmt (set all_ids)"
  using all_ids_print_distinct by (simp add: distinct_map)

lemma all_ids_distinct: "distinct all_ids"
  using all_ids_print_distinct by (simp add: distinct_map)

lemma client_service_in_all: "from_client_request_code c = Some s \<Longrightarrow> s \<in> set all_ids"
  by (cases c) (auto simp: all_ids_def)

lemma server_service_in_all: "from_server_request_code c = Some s \<Longrightarrow> s \<in> set all_ids"
  by (cases c) (auto simp: all_ids_def)

subsection \<open>A complete naming of a code enum\<close>

text \<open>
  What authorization relies on of a code table: every code but the unknown one has an
  identifier, no two codes share one, and each is published.
\<close>

locale service_table = num_enum into_prim from_prim unknown
  for into_prim :: "'c \<Rightarrow> 'n" and from_prim :: "'n \<Rightarrow> 'c" and unknown :: 'c +
  fixes service :: "'c \<Rightarrow> ServiceId option"
  assumes service_None: "service c = None \<longleftrightarrow> c = unknown"
    and service_inj: "service c = service d \<Longrightarrow> c = d"
    and service_listed: "service c = Some s \<Longrightarrow> s \<in> set all_ids"
begin

lemma wire_unnamed: "n \<notin> range into_prim \<Longrightarrow> service (from_prim n) = None"
  by (simp add: from_other service_None)

lemma named_wire:
  "c \<noteq> unknown \<Longrightarrow> \<exists>s. service (from_prim (into_prim c)) = Some s \<and> s \<in> set all_ids"
  by (metis from_into not_None_eq service_None service_listed)

lemma printed_id_names_wire:
  assumes "service (from_prim n) = Some s" and "service (from_prim m) = Some t"
    and "ServiceId_fmt s = ServiceId_fmt t"
  shows "n = m"
proof -
  have "s = t"
    using assms service_listed ServiceId_fmt_inj_on by (blast dest: inj_onD)
  with assms have "from_prim n = from_prim m"
    using service_inj by metis
  moreover have "from_prim n \<noteq> unknown"
    using assms(1) service_None [of "from_prim n"] by auto
  ultimately show ?thesis
    using into_from by metis
qed

end

lemma distinct_map_injD:
  "distinct (map f xs) \<Longrightarrow> (\<And>x. x \<in> set xs) \<Longrightarrow> f a = f b \<Longrightarrow> a = b"
  by (simp add: distinct_map inj_on_def)

lemma client_codes_complete: "c \<in> set (RC_Unknown # map snd client_code_table)"
  by (cases c) (simp_all add: client_code_table_def)

lemma server_codes_complete: "c \<in> set (SC_Unknown # map snd server_code_table)"
  by (cases c) (simp_all add: server_code_table_def)

lemma client_services_distinct:
  "distinct (map from_client_request_code (RC_Unknown # map snd client_code_table))"
  by code_simp

lemma server_services_distinct:
  "distinct (map from_server_request_code (SC_Unknown # map snd server_code_table))"
  by code_simp

interpretation client_service: service_table client_code_into client_code_from RC_Unknown
  from_client_request_code
proof
  show "from_client_request_code c = None \<longleftrightarrow> c = RC_Unknown" for c
    by (cases c) simp_all
  show "from_client_request_code c = from_client_request_code d \<Longrightarrow> c = d" for c d
    by (rule distinct_map_injD [OF client_services_distinct client_codes_complete])
qed (rule client_service_in_all)

interpretation server_service: service_table server_code_into server_code_from SC_Unknown
  from_server_request_code
proof
  show "from_server_request_code c = None \<longleftrightarrow> c = SC_Unknown" for c
    by (cases c) simp_all
  show "from_server_request_code c = from_server_request_code d \<Longrightarrow> c = d" for c d
    by (rule distinct_map_injD [OF server_services_distinct server_codes_complete])
qed (rule server_service_in_all)

subsection \<open>The node families\<close>

text \<open>
  What a node request type promises: its wire code names the family, and each of its requests
  has a published method-level id inside that family.
\<close>

locale node_family =
  fixes service_id :: "'r \<Rightarrow> ServiceId"
    and fam :: ServiceId
    and code :: client_RequestCode
  assumes fam_of_code: "from_client_request_code code = Some fam"
    and fam_is_family: "is_family fam"
    and in_family: "sid_family (service_id r) = sid_family fam"
    and method_level: "\<not> is_family (service_id r)"
    and listed: "service_id r \<in> set all_ids"
begin

lemma prints_under_family:
  "ServiceId_fmt (service_id r) = ServiceId_fmt fam @ ''.'' @ sid_method (service_id r)"
  using fam_is_family in_family method_level by (simp add: ServiceId_fmt_def is_family_def)

lemma not_the_family: "service_id r \<noteq> fam"
  using fam_is_family method_level by metis

end

lemma NodeServiceRequest_service_id_listed: "NodeServiceRequest_service_id r \<in> set all_ids"
  by (cases r) (simp_all add: all_ids_def)

interpretation service: node_family NodeServiceRequest_service_id NODE_SERVICE RC_NodeService
proof (rule node_family.intro)
  show "sid_family (NodeServiceRequest_service_id r) = sid_family NODE_SERVICE" for r
    by (cases r) (simp_all add: service_consts)
  show "\<not> is_family (NodeServiceRequest_service_id r)" for r
    by (cases r) (simp_all add: service_consts is_family_def)
qed (simp_all add: service_consts is_family_def NodeServiceRequest_service_id_listed)

lemma NodeNetworkInterfaceRequest_service_id_listed: "NodeNetworkInterfaceRequest_service_id r \<in> set all_ids"
  by (cases r) (simp_all add: all_ids_def)

interpretation interface: node_family NodeNetworkInterfaceRequest_service_id NODE_NETWORK_INTERFACE RC_NodeNetworkInterface
proof (rule node_family.intro)
  show "sid_family (NodeNetworkInterfaceRequest_service_id r) = sid_family NODE_NETWORK_INTERFACE" for r
    by (cases r) (simp_all add: service_consts)
  show "\<not> is_family (NodeNetworkInterfaceRequest_service_id r)" for r
    by (cases r) (simp_all add: service_consts is_family_def)
qed (simp_all add: service_consts is_family_def NodeNetworkInterfaceRequest_service_id_listed)

lemma NodeHostnameRequest_service_id_listed: "NodeHostnameRequest_service_id r \<in> set all_ids"
  by (cases r) (simp_all add: all_ids_def)

interpretation hostname: node_family NodeHostnameRequest_service_id NODE_HOSTNAME RC_NodeHostname
proof (rule node_family.intro)
  show "sid_family (NodeHostnameRequest_service_id r) = sid_family NODE_HOSTNAME" for r
    by (cases r) (simp_all add: service_consts)
  show "\<not> is_family (NodeHostnameRequest_service_id r)" for r
    by (cases r) (simp_all add: service_consts is_family_def)
qed (simp_all add: service_consts is_family_def NodeHostnameRequest_service_id_listed)

lemma NodeTimeSyncRequest_service_id_listed: "NodeTimeSyncRequest_service_id r \<in> set all_ids"
  by (cases r) (simp_all add: all_ids_def)

interpretation time_sync: node_family NodeTimeSyncRequest_service_id NODE_TIME_SYNC RC_NodeTimeSync
proof (rule node_family.intro)
  show "sid_family (NodeTimeSyncRequest_service_id r) = sid_family NODE_TIME_SYNC" for r
    by (cases r) (simp_all add: service_consts)
  show "\<not> is_family (NodeTimeSyncRequest_service_id r)" for r
    by (cases r) (simp_all add: service_consts is_family_def)
qed (simp_all add: service_consts is_family_def NodeTimeSyncRequest_service_id_listed)

lemma NodeLoggingRequest_service_id_listed: "NodeLoggingRequest_service_id r \<in> set all_ids"
  by (cases r) (simp_all add: all_ids_def)

interpretation logging: node_family NodeLoggingRequest_service_id NODE_LOGGING RC_NodeLogging
proof (rule node_family.intro)
  show "sid_family (NodeLoggingRequest_service_id r) = sid_family NODE_LOGGING" for r
    by (cases r) (simp_all add: service_consts)
  show "\<not> is_family (NodeLoggingRequest_service_id r)" for r
    by (cases r) (simp_all add: service_consts is_family_def)
qed (simp_all add: service_consts is_family_def NodeLoggingRequest_service_id_listed)

lemma NodeRemoteAccessRequest_service_id_listed: "NodeRemoteAccessRequest_service_id r \<in> set all_ids"
  by (cases r) (simp_all add: all_ids_def)

interpretation remote_access: node_family NodeRemoteAccessRequest_service_id NODE_REMOTE_ACCESS RC_NodeRemoteAccess
proof (rule node_family.intro)
  show "sid_family (NodeRemoteAccessRequest_service_id r) = sid_family NODE_REMOTE_ACCESS" for r
    by (cases r) (simp_all add: service_consts)
  show "\<not> is_family (NodeRemoteAccessRequest_service_id r)" for r
    by (cases r) (simp_all add: service_consts is_family_def)
qed (simp_all add: service_consts is_family_def NodeRemoteAccessRequest_service_id_listed)

lemma NodePowerRequest_service_id_listed: "NodePowerRequest_service_id r \<in> set all_ids"
  by (cases r) (simp_all add: all_ids_def)

interpretation power: node_family NodePowerRequest_service_id NODE_POWER RC_NodePower
proof (rule node_family.intro)
  show "sid_family (NodePowerRequest_service_id r) = sid_family NODE_POWER" for r
    by (cases r) (simp_all add: service_consts)
  show "\<not> is_family (NodePowerRequest_service_id r)" for r
    by (cases r) (simp_all add: service_consts is_family_def)
qed (simp_all add: service_consts is_family_def NodePowerRequest_service_id_listed)

lemma NodeObservationRequest_service_id_listed: "NodeObservationRequest_service_id r \<in> set all_ids"
  by (cases r) (simp_all add: all_ids_def)

interpretation observation: node_family NodeObservationRequest_service_id NODE_OBSERVATION RC_NodeObservation
proof (rule node_family.intro)
  show "sid_family (NodeObservationRequest_service_id r) = sid_family NODE_OBSERVATION" for r
    by (cases r) (simp_all add: service_consts)
  show "\<not> is_family (NodeObservationRequest_service_id r)" for r
    by (cases r) (simp_all add: service_consts is_family_def)
qed (simp_all add: service_consts is_family_def NodeObservationRequest_service_id_listed)

lemma NodeVersionRequest_service_id_listed: "NodeVersionRequest_service_id r \<in> set all_ids"
  by (cases r) (simp_all add: all_ids_def)

interpretation version: node_family NodeVersionRequest_service_id NODE_VERSION RC_NodeVersion
proof (rule node_family.intro)
  show "sid_family (NodeVersionRequest_service_id r) = sid_family NODE_VERSION" for r
    by (cases r) (simp_all add: service_consts)
  show "\<not> is_family (NodeVersionRequest_service_id r)" for r
    by (cases r) (simp_all add: service_consts is_family_def)
qed (simp_all add: service_consts is_family_def NodeVersionRequest_service_id_listed)

lemma NodePackageRequest_service_id_listed: "NodePackageRequest_service_id r \<in> set all_ids"
  by (cases r) (simp_all add: all_ids_def)

interpretation package: node_family NodePackageRequest_service_id NODE_PACKAGE RC_NodePackage
proof (rule node_family.intro)
  show "sid_family (NodePackageRequest_service_id r) = sid_family NODE_PACKAGE" for r
    by (cases r) (simp_all add: service_consts)
  show "\<not> is_family (NodePackageRequest_service_id r)" for r
    by (cases r) (simp_all add: service_consts is_family_def)
qed (simp_all add: service_consts is_family_def NodePackageRequest_service_id_listed)

lemma NodeEnrollRequest_service_id_listed: "NodeEnrollRequest_service_id r \<in> set all_ids"
  by (cases r) (simp_all add: all_ids_def)

interpretation enroll: node_family NodeEnrollRequest_service_id NODE_ENROLL RC_NodeEnroll
proof (rule node_family.intro)
  show "sid_family (NodeEnrollRequest_service_id r) = sid_family NODE_ENROLL" for r
    by (cases r) (simp_all add: service_consts)
  show "\<not> is_family (NodeEnrollRequest_service_id r)" for r
    by (cases r) (simp_all add: service_consts is_family_def)
qed (simp_all add: service_consts is_family_def NodeEnrollRequest_service_id_listed)

end
