(* ===== verification/Auth.thy ===== *)
theory Auth
  imports Protocol_Error Service_Id
begin

text \<open>
  \<open>src/src/auth.rs\<close>: who the peer is, the context an authorizer decides on, the two
  authorizer traits and the adapter between them. An authorizer is the application's code and
  takes \<open>&self\<close>, so it is a function from what it is shown to its decision.
\<close>

subsection \<open>The peer\<close>

record PeerContext =
  pc_name :: string
  pc_subject :: "string option"
  pc_fingerprint :: "string option"

definition PeerContext_new :: "string \<Rightarrow> PeerContext" where
  "PeerContext_new n = \<lparr>pc_name = n, pc_subject = None, pc_fingerprint = None\<rparr>"

definition with_subject :: "string \<Rightarrow> PeerContext \<Rightarrow> PeerContext" where
  "with_subject s self = self\<lparr>pc_subject := Some s\<rparr>"

definition with_fingerprint :: "string \<Rightarrow> PeerContext \<Rightarrow> PeerContext" where
  "with_fingerprint fp self = self\<lparr>pc_fingerprint := Some fp\<rparr>"

record PeerIdentity =
  pid_name :: string
  pid_subject :: "string option"
  pid_fingerprint :: "string option"

definition PeerIdentity_from :: "PeerContext \<Rightarrow> PeerIdentity" where
  "PeerIdentity_from peer =
     \<lparr>pid_name = pc_name peer, pid_subject = pc_subject peer,
      pid_fingerprint = pc_fingerprint peer\<rparr>"

datatype AgentKind = AgentKind_Agent | AgentKind_Proxy | AgentKind_Other string

fun AgentKind_fmt :: "AgentKind \<Rightarrow> string" where
  "AgentKind_fmt AgentKind_Agent = ''agent''"
| "AgentKind_fmt AgentKind_Proxy = ''proxy''"
| "AgentKind_fmt (AgentKind_Other s) = s"

record ProtocolMetadata =
  pm_version :: "string option"
  pm_capabilities :: "string list"

subsection \<open>The authorization context\<close>

record AuthorizationContext =
  ac_peer_identity :: PeerIdentity
  ac_agent_kind :: "AgentKind option"
  ac_roles :: "string list option"
  ac_protocol_metadata :: "ProtocolMetadata option"
  ac_attributes :: "(string \<rightharpoonup> string) option"

definition from_peer_context :: "PeerContext \<Rightarrow> AuthorizationContext" where
  "from_peer_context peer =
     \<lparr>ac_peer_identity = PeerIdentity_from peer, ac_agent_kind = None, ac_roles = None,
      ac_protocol_metadata = None, ac_attributes = None\<rparr>"

definition from_authenticated_inputs ::
  "PeerContext \<Rightarrow> AgentKind option \<Rightarrow> string list option \<Rightarrow> ProtocolMetadata option
   \<Rightarrow> (string \<rightharpoonup> string) option \<Rightarrow> AuthorizationContext" where
  "from_authenticated_inputs peer agent_kind roles protocol_metadata attributes =
     \<lparr>ac_peer_identity = PeerIdentity_from peer, ac_agent_kind = agent_kind, ac_roles = roles,
      ac_protocol_metadata = protocol_metadata, ac_attributes = attributes\<rparr>"

definition to_peer_context :: "AuthorizationContext \<Rightarrow> PeerContext" where
  "to_peer_context self =
     (let ctx = PeerContext_new (pid_name (ac_peer_identity self));
          ctx = (case pid_subject (ac_peer_identity self) of
                   Some s \<Rightarrow> with_subject s ctx | None \<Rightarrow> ctx)
      in (case pid_fingerprint (ac_peer_identity self) of
            Some fp \<Rightarrow> with_fingerprint fp ctx | None \<Rightarrow> ctx))"

subsection \<open>Decisions and authorizers\<close>

record AuthorizationError =
  ae_reason :: string

definition AuthorizationError_new :: "string \<Rightarrow> AuthorizationError" where
  "AuthorizationError_new r = \<lparr>ae_reason = r\<rparr>"

definition AuthorizationError_fmt :: "AuthorizationError \<Rightarrow> string" where
  "AuthorizationError_fmt e = ''authorization denied: '' @ ae_reason e"

text \<open>\<open>From<&AuthorizationError> for ProtocolErrorKind\<close>, behind \<open>AuthorizationError::kind\<close>.\<close>

definition of_authorization_error :: "AuthorizationError \<Rightarrow> ProtocolErrorKind" where
  "of_authorization_error e = PEK_Forbidden"

definition AuthorizationError_kind :: "AuthorizationError \<Rightarrow> ProtocolErrorKind" where
  "AuthorizationError_kind e = of_authorization_error e"

type_synonym authorizer = "PeerContext \<Rightarrow> ServiceId \<Rightarrow> AuthorizationError + unit"
type_synonym authorizer_v2 = "AuthorizationContext \<Rightarrow> ServiceId \<Rightarrow> AuthorizationError + unit"

definition NoopAuthorizer :: authorizer where
  "NoopAuthorizer peer service = Ok ()"

record AuthorizerV2Adapter =
  adapter_inner :: authorizer

definition AuthorizerV2Adapter_new :: "authorizer \<Rightarrow> AuthorizerV2Adapter" where
  "AuthorizerV2Adapter_new inner = \<lparr>adapter_inner = inner\<rparr>"

definition authorize_with_context :: "AuthorizerV2Adapter \<Rightarrow> authorizer_v2" where
  "authorize_with_context self ctx service =
     (let peer = to_peer_context ctx in adapter_inner self peer service)"

subsection \<open>Contexts keep the peer\<close>

lemma to_from_peer_context [simp]: "to_peer_context (from_peer_context p) = p"
  by (cases "pc_subject p"; cases "pc_fingerprint p")
    (simp_all add: to_peer_context_def from_peer_context_def PeerIdentity_from_def
       PeerContext_new_def with_subject_def with_fingerprint_def)

lemma to_peer_context_authenticated [simp]:
  "to_peer_context (from_authenticated_inputs p k r m a) = p"
  by (cases "pc_subject p"; cases "pc_fingerprint p")
    (simp_all add: to_peer_context_def from_authenticated_inputs_def PeerIdentity_from_def
       PeerContext_new_def with_subject_def with_fingerprint_def)

lemma from_peer_context_authenticated:
  "from_peer_context p = from_authenticated_inputs p None None None None"
  by (simp add: from_peer_context_def from_authenticated_inputs_def)

subsection \<open>A context authorizer that speaks for a peer authorizer\<close>

text \<open>
  What the context-based entry points rely on when an application still has a peer-based
  authorizer: on the context of a peer, however enriched, the context authorizer decides what
  the peer authorizer decides for the peer.
\<close>

locale context_authorizer =
  fixes authorize :: authorizer
    and authorize_v2 :: authorizer_v2
  assumes decides_for_peer:
    "authorize_v2 (from_authenticated_inputs p k r m a) s = authorize p s"
begin

lemma decides_plain_context: "authorize_v2 (from_peer_context p) s = authorize p s"
  by (simp add: from_peer_context_authenticated decides_for_peer)

lemma decides_same_everywhere:
  "authorize_v2 (from_authenticated_inputs p k r m a) s
   = authorize_v2 (from_authenticated_inputs p k' r' m' a') s"
  by (simp add: decides_for_peer)

end

interpretation adapter: context_authorizer inner
  "authorize_with_context (AuthorizerV2Adapter_new inner)" for inner
  by unfold_locales (simp add: authorize_with_context_def AuthorizerV2Adapter_new_def)

end
