(* ===== verification/Manager_Api.thy ===== *)
theory Manager_Api
  imports Auth
begin

text \<open>
  \<open>src/src/server/api.rs\<close> and the outcome types of \<open>src/src/server/node.rs\<close>: what
  the manager asks of an agent. Each call opens one stream on the connection; a call returns
  its result, the connection and the stream it opened, both halves as one state, so that a call that
  fails before any I/O is one that returns the connection as it was and no stream.
\<close>

subsection \<open>Errors, payloads and the connection\<close>

text \<open>\<open>anyhow::Error\<close> by where it came from; a context is a layer around an error.\<close>

datatype AnyError =
    Any_Connection string
  | Any_Io IoError
  | Any_Encode string
  | Any_Msg string
  | Any_Auth AuthorizationError
  | Any_Context string AnyError

text \<open>One constructor for each type of payload the calls serialize.\<close>

datatype manager_payload =
    Pay_Unit
  | Pay_NetworkGroup HostNetworkGroup
  | Pay_DeleteCustomerData CustomerDataDeletionRequest
  | Pay_TrainModel TrainModelRequest
  | Pay_CloneModel CloneModelRequest
  | Pay_U32 u32
  | Pay_I32 i32
  | Pay_FilterRules "TrafficFilterRule list"
  | Pay_SamplingPolicies "SamplingPolicy list"
  | Pay_Strings "string list"
  | Pay_NodeService NodeServiceRequest
  | Pay_NodeNetworkInterface NodeNetworkInterfaceRequest
  | Pay_NodeHostname NodeHostnameRequest
  | Pay_NodeTimeSync NodeTimeSyncRequest
  | Pay_NodeLogging NodeLoggingRequest
  | Pay_NodeRemoteAccess NodeRemoteAccessRequest
  | Pay_NodePower NodePowerRequest
  | Pay_NodeObservation NodeObservationRequest
  | Pay_NodeVersion NodeVersionRequest
  | Pay_NodePackage NodePackageRequest
  | Pay_NodeEnroll NodeEnrollRequest

text \<open>
  The connection's \<open>open_bi\<close>, oinq's frames, the finish and the reset of a sending half,
  whose results are discarded, and bincode: the fixed-width encoding of a request code, which
  cannot fail, and the encoding of a payload. \<open>frame::recv::<Result<S, String>>\<close> has one
  field for each \<open>S\<close>.
\<close>

record ('k, 's) manager_io =
  mg_open :: "'k \<Rightarrow> (string + 's) \<times> 'k"
  mg_send_raw :: "'s \<Rightarrow> bytes \<Rightarrow> (IoError + unit) \<times> 's"
  mg_finish :: "'s \<Rightarrow> 's"
  mg_reset :: "'s \<Rightarrow> u32 \<Rightarrow> 's"
  mg_encode_code :: "u32 \<Rightarrow> bytes"
  mg_encode :: "manager_payload \<Rightarrow> string + bytes"
  mg_recv_unit :: "'s \<Rightarrow> (IoError + (string + unit)) \<times> 's"
  mg_recv_preflight :: "'s \<Rightarrow> (IoError + (string + InstallPreflight)) \<times> 's"
  mg_recv_service :: "'s \<Rightarrow> (IoError + (string + NodeServiceResponse)) \<times> 's"
  mg_recv_network_interface :: "'s \<Rightarrow> (IoError + (string + NodeNetworkInterfaceResponse)) \<times> 's"
  mg_recv_hostname :: "'s \<Rightarrow> (IoError + (string + NodeHostnameResponse)) \<times> 's"
  mg_recv_time_sync :: "'s \<Rightarrow> (IoError + (string + NodeTimeSyncResponse)) \<times> 's"
  mg_recv_logging :: "'s \<Rightarrow> (IoError + (string + NodeLoggingResponse)) \<times> 's"
  mg_recv_remote_access :: "'s \<Rightarrow> (IoError + (string + NodeRemoteAccessResponse)) \<times> 's"
  mg_recv_power :: "'s \<Rightarrow> (IoError + (string + NodePowerResponse)) \<times> 's"
  mg_recv_observation :: "'s \<Rightarrow> (IoError + (string + NodeObservationResponse)) \<times> 's"
  mg_recv_version :: "'s \<Rightarrow> (IoError + (string + NodeVersionResponse)) \<times> 's"
  mg_recv_package :: "'s \<Rightarrow> (IoError + (string + NodePackageResponse)) \<times> 's"
  mg_recv_enroll :: "'s \<Rightarrow> (IoError + (string + NodeEnrollResponse)) \<times> 's"

type_synonym ('k, 's, 'a) call = "'k \<Rightarrow> (AnyError + 'a) \<times> 'k \<times> 's option"

subsection \<open>Outcomes (\<open>server/node.rs\<close>)\<close>

datatype NodePowerOutcome = PowerOutcome_Sent | PowerOutcome_Response NodePowerResponse

datatype TerminalPreflight =
    Terminal_AlreadyApplied
  | Terminal_InsufficientDiskSpace string u64 u64
  | Terminal_BindAddrsOnUpdate
  | Terminal_NamespaceUnconfigured
  | Terminal_EnrollmentUnsupported
  | Terminal_ConfigTemplateOnUpdate
  | Terminal_UnknownConfigTemplate string

datatype InstallOutcome = Install_Preflight TerminalPreflight | Install_Applied NodePackageResponse

subsection \<open>Sending a request\<close>

definition encode_request ::
  "('k, 's) manager_io \<Rightarrow> client_RequestCode \<Rightarrow> manager_payload \<Rightarrow> AnyError + bytes" where
  "encode_request io request_code payload =
     (let code = client_code_into request_code; buf = mg_encode_code io code in
      case mg_encode io payload of
        Err e \<Rightarrow> Err (Any_Encode e)
      | Ok bs \<Rightarrow> Ok (buf @ bs))"

text \<open>\<open>open_bi\<close> and the request frame, shared by every call.\<close>

definition open_and_send ::
  "('k, 's) manager_io \<Rightarrow> bytes \<Rightarrow> ('s \<Rightarrow> (AnyError + 'a) \<times> 's) \<Rightarrow> ('k, 's, 'a) call" where
  "open_and_send io buf cont k =
     (case mg_open io k of
        (Err e, k) \<Rightarrow> (Err (Any_Connection e), k, None)
      | (Ok st, k) \<Rightarrow>
          (case mg_send_raw io st buf of
             (Err e, st) \<Rightarrow> (Err (Any_Io e), k, Some st)
           | (Ok _, st) \<Rightarrow> (case cont st of (res, st) \<Rightarrow> (res, k, Some st))))"

text \<open>\<open>frame::recv::<Result<S, String>>(...).await?.map_err(anyhow)\<close>.\<close>

definition await_answer ::
  "('s \<Rightarrow> (IoError + (string + 'a)) \<times> 's) \<Rightarrow> (AnyError \<Rightarrow> AnyError) \<Rightarrow> 's
   \<Rightarrow> (AnyError + 'a) \<times> 's" where
  "await_answer rcv ctx st =
     (case rcv st of
        (Err e, st) \<Rightarrow> (Err (ctx (Any_Io e)), st)
      | (Ok (Err e), st) \<Rightarrow> (Err (Any_Msg e), st)
      | (Ok (Ok a), st) \<Rightarrow> (Ok a, st))"

definition send_request ::
  "('k, 's) manager_io \<Rightarrow> ('s \<Rightarrow> (IoError + (string + 'a)) \<times> 's) \<Rightarrow> client_RequestCode
   \<Rightarrow> manager_payload \<Rightarrow> ('k, 's, 'a) call" where
  "send_request io rcv request_code payload k =
     (case encode_request io request_code payload of
        Err e \<Rightarrow> (Err e, k, None)
      | Ok buf \<Rightarrow> open_and_send io buf (await_answer rcv id) k)"

definition send_request_no_response ::
  "('k, 's) manager_io \<Rightarrow> client_RequestCode \<Rightarrow> manager_payload \<Rightarrow> ('k, 's, unit) call" where
  "send_request_no_response io request_code payload k =
     (case encode_request io request_code payload of
        Err e \<Rightarrow> (Err e, k, None)
      | Ok buf \<Rightarrow> open_and_send io buf (\<lambda>st. (Ok (), mg_finish io st)) k)"

definition send_request_authorized ::
  "('k, 's) manager_io \<Rightarrow> ('s \<Rightarrow> (IoError + (string + 'a)) \<times> 's) \<Rightarrow> client_RequestCode
   \<Rightarrow> manager_payload \<Rightarrow> ServiceId \<Rightarrow> PeerContext \<Rightarrow> authorizer \<Rightarrow> ('k, 's, 'a) call" where
  "send_request_authorized io rcv request_code payload service_id peer authorizer k =
     (case authorizer peer service_id of
        Err e \<Rightarrow> (Err (Any_Auth e), k, None)
      | Ok _ \<Rightarrow> send_request io rcv request_code payload k)"

definition send_request_authorized_with_context ::
  "('k, 's) manager_io \<Rightarrow> ('s \<Rightarrow> (IoError + (string + 'a)) \<times> 's) \<Rightarrow> client_RequestCode
   \<Rightarrow> manager_payload \<Rightarrow> ServiceId \<Rightarrow> AuthorizationContext \<Rightarrow> authorizer_v2 \<Rightarrow> ('k, 's, 'a) call" where
  "send_request_authorized_with_context io rcv request_code payload service_id auth_ctx authorizer k =
     (case authorizer auth_ctx service_id of
        Err e \<Rightarrow> (Err (Any_Auth e), k, None)
      | Ok _ \<Rightarrow> send_request io rcv request_code payload k)"

subsection \<open>The calls without a node family\<close>

definition send_allowlist :: "('k, 's) manager_io \<Rightarrow> HostNetworkGroup \<Rightarrow> ('k, 's, unit) call" where
  "send_allowlist io allowlist = send_request io (mg_recv_unit io) RC_Allowlist (Pay_NetworkGroup allowlist)"

definition send_blocklist :: "('k, 's) manager_io \<Rightarrow> HostNetworkGroup \<Rightarrow> ('k, 's, unit) call" where
  "send_blocklist io blocklist = send_request io (mg_recv_unit io) RC_Blocklist (Pay_NetworkGroup blocklist)"

definition send_config_update_cmd :: "('k, 's) manager_io \<Rightarrow> ('k, 's, unit) call" where
  "send_config_update_cmd io = send_request io (mg_recv_unit io) RC_UpdateConfig Pay_Unit"

definition send_delete_customer_data_cmd :: "('k, 's) manager_io \<Rightarrow> CustomerDataDeletionRequest \<Rightarrow> ('k, 's, unit) call" where
  "send_delete_customer_data_cmd io request = send_request io (mg_recv_unit io) RC_DeleteCustomerData (Pay_DeleteCustomerData request)"

definition send_train_model :: "('k, 's) manager_io \<Rightarrow> TrainModelRequest \<Rightarrow> ('k, 's, unit) call" where
  "send_train_model io request = send_request io (mg_recv_unit io) RC_TrainModel (Pay_TrainModel request)"

definition send_clone_model :: "('k, 's) manager_io \<Rightarrow> CloneModelRequest \<Rightarrow> ('k, 's, unit) call" where
  "send_clone_model io request = send_request io (mg_recv_unit io) RC_CloneModel (Pay_CloneModel request)"

definition send_cancel_run :: "('k, 's) manager_io \<Rightarrow> u32 \<Rightarrow> ('k, 's, unit) call" where
  "send_cancel_run io run_id = send_request io (mg_recv_unit io) RC_CancelRun (Pay_U32 run_id)"

definition send_run_detector_once :: "('k, 's) manager_io \<Rightarrow> i32 \<Rightarrow> ('k, 's, unit) call" where
  "send_run_detector_once io detector_id = send_request io (mg_recv_unit io) RC_RunDetectorOnce (Pay_I32 detector_id)"

definition send_filtering_rules :: "('k, 's) manager_io \<Rightarrow> TrafficFilterRule list \<Rightarrow> ('k, 's, unit) call" where
  "send_filtering_rules io list = send_request io (mg_recv_unit io) RC_ReloadFilterRule (Pay_FilterRules list)"

definition send_internal_network_list :: "('k, 's) manager_io \<Rightarrow> HostNetworkGroup \<Rightarrow> ('k, 's, unit) call" where
  "send_internal_network_list io list = send_request io (mg_recv_unit io) RC_InternalNetworkList (Pay_NetworkGroup list)"

definition send_ping :: "('k, 's) manager_io \<Rightarrow> ('k, 's, unit) call" where
  "send_ping io = send_request io (mg_recv_unit io) RC_EchoRequest Pay_Unit"

definition send_sampling_policies :: "('k, 's) manager_io \<Rightarrow> SamplingPolicy list \<Rightarrow> ('k, 's, unit) call" where
  "send_sampling_policies io list = send_request io (mg_recv_unit io) RC_SamplingPolicyList (Pay_SamplingPolicies list)"

definition send_tor_exit_node_list :: "('k, 's) manager_io \<Rightarrow> string list \<Rightarrow> ('k, 's, unit) call" where
  "send_tor_exit_node_list io list = send_request io (mg_recv_unit io) RC_TorExitNodeList (Pay_Strings list)"

definition send_trusted_domain_list :: "('k, 's) manager_io \<Rightarrow> string list \<Rightarrow> ('k, 's, unit) call" where
  "send_trusted_domain_list io list = send_request io (mg_recv_unit io) RC_TrustedDomainList (Pay_Strings list)"

definition send_trusted_user_agent_list :: "('k, 's) manager_io \<Rightarrow> string list \<Rightarrow> ('k, 's, unit) call" where
  "send_trusted_user_agent_list io list = send_request io (mg_recv_unit io) RC_TrustedUserAgentList (Pay_Strings list)"

text \<open>
  The free functions of \<open>src/src/server.rs\<close>: one sends the update code alone, without a
  payload, and the other is the call of the same name on a connection.
\<close>

definition notify_config_update :: "('k, 's) manager_io \<Rightarrow> ('k, 's, unit) call" where
  "notify_config_update io =
     (let code = client_code_into RC_UpdateConfig; msg = mg_encode_code io code in
      open_and_send io msg (await_answer (mg_recv_unit io) id))"

definition server_send_trusted_domain_list ::
  "('k, 's) manager_io \<Rightarrow> string list \<Rightarrow> ('k, 's, unit) call" where
  "server_send_trusted_domain_list io list = send_trusted_domain_list io list"

subsection \<open>Requests a call refuses before any I/O\<close>

fun reject_install :: "NodePackageRequest \<Rightarrow> AnyError + unit" where
  "reject_install (Package_Install _) =
     Err (Any_Msg ''an install request carries a payload; use `node_package_install`'')"
| "reject_install _ = Ok ()"

fun install_size :: "NodePackageRequest \<Rightarrow> AnyError + u64" where
  "install_size (Package_Install f) = Ok (in_size f)"
| "install_size _ =
     Err (Any_Msg ''`node_package_install` accepts only an install request; use `node_package`'')"

text \<open>\<open>let x = e?; ...\<close> before the connection is used.\<close>

definition checked :: "AnyError + 'b \<Rightarrow> ('b \<Rightarrow> ('k, 's, 'a) call) \<Rightarrow> ('k, 's, 'a) call" where
  "checked r c k = (case r of Err e \<Rightarrow> (Err e, k, None) | Ok b \<Rightarrow> c b k)"

subsection \<open>The node families\<close>

text \<open>\<open>.await?\<close> of a call, then a wrapping of its value.\<close>

definition map_call :: "('a \<Rightarrow> 'b) \<Rightarrow> ('k, 's, 'a) call \<Rightarrow> ('k, 's, 'b) call" where
  "map_call f c k = (case c k of (res, rest) \<Rightarrow> (map_ok f res, rest))"

text \<open>
  The body the three power methods share: the immediate variants are sent without waiting for
  an answer, the graceful ones wait for it.
\<close>

fun exchange_power :: "('k, 's) manager_io \<Rightarrow> NodePowerRequest \<Rightarrow> ('k, 's, NodePowerOutcome) call" where
  "exchange_power io Power_Reboot =
     map_call (\<lambda>_. PowerOutcome_Sent)
       (send_request_no_response io RC_NodePower (Pay_NodePower Power_Reboot))"
| "exchange_power io Power_Shutdown =
     map_call (\<lambda>_. PowerOutcome_Sent)
       (send_request_no_response io RC_NodePower (Pay_NodePower Power_Shutdown))"
| "exchange_power io Power_GracefulReboot =
     map_call PowerOutcome_Response
       (send_request io (mg_recv_power io) RC_NodePower (Pay_NodePower Power_GracefulReboot))"
| "exchange_power io Power_GracefulShutdown =
     map_call PowerOutcome_Response
       (send_request io (mg_recv_power io) RC_NodePower (Pay_NodePower Power_GracefulShutdown))"

definition denied_or ::
  "AuthorizationError + unit \<Rightarrow> ('k, 's, 'a) call \<Rightarrow> ('k, 's, 'a) call" where
  "denied_or decision c = checked (map_err Any_Auth decision) (\<lambda>_. c)"

definition node_service ::
  "('k, 's) manager_io \<Rightarrow> NodeServiceRequest \<Rightarrow> ('k, 's, NodeServiceResponse) call" where
  "node_service io req =
     send_request io (mg_recv_service io) RC_NodeService (Pay_NodeService req)"

definition node_service_authorized ::
  "('k, 's) manager_io \<Rightarrow> NodeServiceRequest \<Rightarrow> PeerContext \<Rightarrow> authorizer \<Rightarrow> ('k, 's, NodeServiceResponse) call" where
  "node_service_authorized io req peer authorizer =
     send_request_authorized io (mg_recv_service io) RC_NodeService (Pay_NodeService req)
       (NodeServiceRequest_service_id req) peer authorizer"

definition node_service_with_context ::
  "('k, 's) manager_io \<Rightarrow> NodeServiceRequest \<Rightarrow> AuthorizationContext \<Rightarrow> authorizer_v2 \<Rightarrow> ('k, 's, NodeServiceResponse) call" where
  "node_service_with_context io req auth_ctx authorizer =
     send_request_authorized_with_context io (mg_recv_service io) RC_NodeService (Pay_NodeService req)
       (NodeServiceRequest_service_id req) auth_ctx authorizer"

definition node_network_interface ::
  "('k, 's) manager_io \<Rightarrow> NodeNetworkInterfaceRequest \<Rightarrow> ('k, 's, NodeNetworkInterfaceResponse) call" where
  "node_network_interface io req =
     send_request io (mg_recv_network_interface io) RC_NodeNetworkInterface (Pay_NodeNetworkInterface req)"

definition node_network_interface_authorized ::
  "('k, 's) manager_io \<Rightarrow> NodeNetworkInterfaceRequest \<Rightarrow> PeerContext \<Rightarrow> authorizer \<Rightarrow> ('k, 's, NodeNetworkInterfaceResponse) call" where
  "node_network_interface_authorized io req peer authorizer =
     send_request_authorized io (mg_recv_network_interface io) RC_NodeNetworkInterface (Pay_NodeNetworkInterface req)
       (NodeNetworkInterfaceRequest_service_id req) peer authorizer"

definition node_network_interface_with_context ::
  "('k, 's) manager_io \<Rightarrow> NodeNetworkInterfaceRequest \<Rightarrow> AuthorizationContext \<Rightarrow> authorizer_v2 \<Rightarrow> ('k, 's, NodeNetworkInterfaceResponse) call" where
  "node_network_interface_with_context io req auth_ctx authorizer =
     send_request_authorized_with_context io (mg_recv_network_interface io) RC_NodeNetworkInterface (Pay_NodeNetworkInterface req)
       (NodeNetworkInterfaceRequest_service_id req) auth_ctx authorizer"

definition node_hostname ::
  "('k, 's) manager_io \<Rightarrow> NodeHostnameRequest \<Rightarrow> ('k, 's, NodeHostnameResponse) call" where
  "node_hostname io req =
     send_request io (mg_recv_hostname io) RC_NodeHostname (Pay_NodeHostname req)"

definition node_hostname_authorized ::
  "('k, 's) manager_io \<Rightarrow> NodeHostnameRequest \<Rightarrow> PeerContext \<Rightarrow> authorizer \<Rightarrow> ('k, 's, NodeHostnameResponse) call" where
  "node_hostname_authorized io req peer authorizer =
     send_request_authorized io (mg_recv_hostname io) RC_NodeHostname (Pay_NodeHostname req)
       (NodeHostnameRequest_service_id req) peer authorizer"

definition node_hostname_with_context ::
  "('k, 's) manager_io \<Rightarrow> NodeHostnameRequest \<Rightarrow> AuthorizationContext \<Rightarrow> authorizer_v2 \<Rightarrow> ('k, 's, NodeHostnameResponse) call" where
  "node_hostname_with_context io req auth_ctx authorizer =
     send_request_authorized_with_context io (mg_recv_hostname io) RC_NodeHostname (Pay_NodeHostname req)
       (NodeHostnameRequest_service_id req) auth_ctx authorizer"

definition node_time_sync ::
  "('k, 's) manager_io \<Rightarrow> NodeTimeSyncRequest \<Rightarrow> ('k, 's, NodeTimeSyncResponse) call" where
  "node_time_sync io req =
     send_request io (mg_recv_time_sync io) RC_NodeTimeSync (Pay_NodeTimeSync req)"

definition node_time_sync_authorized ::
  "('k, 's) manager_io \<Rightarrow> NodeTimeSyncRequest \<Rightarrow> PeerContext \<Rightarrow> authorizer \<Rightarrow> ('k, 's, NodeTimeSyncResponse) call" where
  "node_time_sync_authorized io req peer authorizer =
     send_request_authorized io (mg_recv_time_sync io) RC_NodeTimeSync (Pay_NodeTimeSync req)
       (NodeTimeSyncRequest_service_id req) peer authorizer"

definition node_time_sync_with_context ::
  "('k, 's) manager_io \<Rightarrow> NodeTimeSyncRequest \<Rightarrow> AuthorizationContext \<Rightarrow> authorizer_v2 \<Rightarrow> ('k, 's, NodeTimeSyncResponse) call" where
  "node_time_sync_with_context io req auth_ctx authorizer =
     send_request_authorized_with_context io (mg_recv_time_sync io) RC_NodeTimeSync (Pay_NodeTimeSync req)
       (NodeTimeSyncRequest_service_id req) auth_ctx authorizer"

definition node_logging ::
  "('k, 's) manager_io \<Rightarrow> NodeLoggingRequest \<Rightarrow> ('k, 's, NodeLoggingResponse) call" where
  "node_logging io req =
     send_request io (mg_recv_logging io) RC_NodeLogging (Pay_NodeLogging req)"

definition node_logging_authorized ::
  "('k, 's) manager_io \<Rightarrow> NodeLoggingRequest \<Rightarrow> PeerContext \<Rightarrow> authorizer \<Rightarrow> ('k, 's, NodeLoggingResponse) call" where
  "node_logging_authorized io req peer authorizer =
     send_request_authorized io (mg_recv_logging io) RC_NodeLogging (Pay_NodeLogging req)
       (NodeLoggingRequest_service_id req) peer authorizer"

definition node_logging_with_context ::
  "('k, 's) manager_io \<Rightarrow> NodeLoggingRequest \<Rightarrow> AuthorizationContext \<Rightarrow> authorizer_v2 \<Rightarrow> ('k, 's, NodeLoggingResponse) call" where
  "node_logging_with_context io req auth_ctx authorizer =
     send_request_authorized_with_context io (mg_recv_logging io) RC_NodeLogging (Pay_NodeLogging req)
       (NodeLoggingRequest_service_id req) auth_ctx authorizer"

definition node_remote_access ::
  "('k, 's) manager_io \<Rightarrow> NodeRemoteAccessRequest \<Rightarrow> ('k, 's, NodeRemoteAccessResponse) call" where
  "node_remote_access io req =
     send_request io (mg_recv_remote_access io) RC_NodeRemoteAccess (Pay_NodeRemoteAccess req)"

definition node_remote_access_authorized ::
  "('k, 's) manager_io \<Rightarrow> NodeRemoteAccessRequest \<Rightarrow> PeerContext \<Rightarrow> authorizer \<Rightarrow> ('k, 's, NodeRemoteAccessResponse) call" where
  "node_remote_access_authorized io req peer authorizer =
     send_request_authorized io (mg_recv_remote_access io) RC_NodeRemoteAccess (Pay_NodeRemoteAccess req)
       (NodeRemoteAccessRequest_service_id req) peer authorizer"

definition node_remote_access_with_context ::
  "('k, 's) manager_io \<Rightarrow> NodeRemoteAccessRequest \<Rightarrow> AuthorizationContext \<Rightarrow> authorizer_v2 \<Rightarrow> ('k, 's, NodeRemoteAccessResponse) call" where
  "node_remote_access_with_context io req auth_ctx authorizer =
     send_request_authorized_with_context io (mg_recv_remote_access io) RC_NodeRemoteAccess (Pay_NodeRemoteAccess req)
       (NodeRemoteAccessRequest_service_id req) auth_ctx authorizer"

definition node_power ::
  "('k, 's) manager_io \<Rightarrow> NodePowerRequest \<Rightarrow> ('k, 's, NodePowerOutcome) call" where
  "node_power io req =
     exchange_power io req"

definition node_power_authorized ::
  "('k, 's) manager_io \<Rightarrow> NodePowerRequest \<Rightarrow> PeerContext \<Rightarrow> authorizer \<Rightarrow> ('k, 's, NodePowerOutcome) call" where
  "node_power_authorized io req peer authorizer =
     denied_or (authorizer peer (NodePowerRequest_service_id req)) (exchange_power io req)"

definition node_power_with_context ::
  "('k, 's) manager_io \<Rightarrow> NodePowerRequest \<Rightarrow> AuthorizationContext \<Rightarrow> authorizer_v2 \<Rightarrow> ('k, 's, NodePowerOutcome) call" where
  "node_power_with_context io req auth_ctx authorizer =
     denied_or (authorizer auth_ctx (NodePowerRequest_service_id req)) (exchange_power io req)"

definition node_observation ::
  "('k, 's) manager_io \<Rightarrow> NodeObservationRequest \<Rightarrow> ('k, 's, NodeObservationResponse) call" where
  "node_observation io req =
     send_request io (mg_recv_observation io) RC_NodeObservation (Pay_NodeObservation req)"

definition node_observation_authorized ::
  "('k, 's) manager_io \<Rightarrow> NodeObservationRequest \<Rightarrow> PeerContext \<Rightarrow> authorizer \<Rightarrow> ('k, 's, NodeObservationResponse) call" where
  "node_observation_authorized io req peer authorizer =
     send_request_authorized io (mg_recv_observation io) RC_NodeObservation (Pay_NodeObservation req)
       (NodeObservationRequest_service_id req) peer authorizer"

definition node_observation_with_context ::
  "('k, 's) manager_io \<Rightarrow> NodeObservationRequest \<Rightarrow> AuthorizationContext \<Rightarrow> authorizer_v2 \<Rightarrow> ('k, 's, NodeObservationResponse) call" where
  "node_observation_with_context io req auth_ctx authorizer =
     send_request_authorized_with_context io (mg_recv_observation io) RC_NodeObservation (Pay_NodeObservation req)
       (NodeObservationRequest_service_id req) auth_ctx authorizer"

definition node_version ::
  "('k, 's) manager_io \<Rightarrow> NodeVersionRequest \<Rightarrow> ('k, 's, NodeVersionResponse) call" where
  "node_version io req =
     send_request io (mg_recv_version io) RC_NodeVersion (Pay_NodeVersion req)"

definition node_version_authorized ::
  "('k, 's) manager_io \<Rightarrow> NodeVersionRequest \<Rightarrow> PeerContext \<Rightarrow> authorizer \<Rightarrow> ('k, 's, NodeVersionResponse) call" where
  "node_version_authorized io req peer authorizer =
     send_request_authorized io (mg_recv_version io) RC_NodeVersion (Pay_NodeVersion req)
       (NodeVersionRequest_service_id req) peer authorizer"

definition node_version_with_context ::
  "('k, 's) manager_io \<Rightarrow> NodeVersionRequest \<Rightarrow> AuthorizationContext \<Rightarrow> authorizer_v2 \<Rightarrow> ('k, 's, NodeVersionResponse) call" where
  "node_version_with_context io req auth_ctx authorizer =
     send_request_authorized_with_context io (mg_recv_version io) RC_NodeVersion (Pay_NodeVersion req)
       (NodeVersionRequest_service_id req) auth_ctx authorizer"

definition node_package ::
  "('k, 's) manager_io \<Rightarrow> NodePackageRequest \<Rightarrow> ('k, 's, NodePackageResponse) call" where
  "node_package io req =
     checked (reject_install req) (\<lambda>_.
       send_request io (mg_recv_package io) RC_NodePackage (Pay_NodePackage req))"

definition node_package_authorized ::
  "('k, 's) manager_io \<Rightarrow> NodePackageRequest \<Rightarrow> PeerContext \<Rightarrow> authorizer \<Rightarrow> ('k, 's, NodePackageResponse) call" where
  "node_package_authorized io req peer authorizer =
     checked (reject_install req) (\<lambda>_.
       send_request_authorized io (mg_recv_package io) RC_NodePackage (Pay_NodePackage req)
       (NodePackageRequest_service_id req) peer authorizer)"

definition node_package_with_context ::
  "('k, 's) manager_io \<Rightarrow> NodePackageRequest \<Rightarrow> AuthorizationContext \<Rightarrow> authorizer_v2 \<Rightarrow> ('k, 's, NodePackageResponse) call" where
  "node_package_with_context io req auth_ctx authorizer =
     checked (reject_install req) (\<lambda>_.
       send_request_authorized_with_context io (mg_recv_package io) RC_NodePackage (Pay_NodePackage req)
       (NodePackageRequest_service_id req) auth_ctx authorizer)"

definition node_enroll ::
  "('k, 's) manager_io \<Rightarrow> NodeEnrollRequest \<Rightarrow> ('k, 's, NodeEnrollResponse) call" where
  "node_enroll io req =
     send_request io (mg_recv_enroll io) RC_NodeEnroll (Pay_NodeEnroll req)"

definition node_enroll_authorized ::
  "('k, 's) manager_io \<Rightarrow> NodeEnrollRequest \<Rightarrow> PeerContext \<Rightarrow> authorizer \<Rightarrow> ('k, 's, NodeEnrollResponse) call" where
  "node_enroll_authorized io req peer authorizer =
     send_request_authorized io (mg_recv_enroll io) RC_NodeEnroll (Pay_NodeEnroll req)
       (NodeEnrollRequest_service_id req) peer authorizer"

definition node_enroll_with_context ::
  "('k, 's) manager_io \<Rightarrow> NodeEnrollRequest \<Rightarrow> AuthorizationContext \<Rightarrow> authorizer_v2 \<Rightarrow> ('k, 's, NodeEnrollResponse) call" where
  "node_enroll_with_context io req auth_ctx authorizer =
     send_request_authorized_with_context io (mg_recv_enroll io) RC_NodeEnroll (Pay_NodeEnroll req)
       (NodeEnrollRequest_service_id req) auth_ctx authorizer"

subsection \<open>Streaming a package\<close>

definition PACKAGE_CHUNK_LEN :: u64 where
  "PACKAGE_CHUNK_LEN = 64 * 1024"

definition PACKAGE_TRANSFER_ABORTED :: u32 where
  "PACKAGE_TRANSFER_ABORTED = 1"

text \<open>
  The package source is the caller's \<open>AsyncRead\<close>: \<open>rd p n\<close> reads into a slice of
  \<open>n\<close> bytes, so at most \<open>n\<close> bytes are kept of what it delivers. One round of the
  loop holds the bytes still to send, the source and the stream.
\<close>

definition send_package_step ::
  "('k, 's) manager_io \<Rightarrow> ('p \<Rightarrow> nat \<Rightarrow> (IoError + bytes) \<times> 'p) \<Rightarrow> u64 \<Rightarrow> u64 \<times> 'p \<times> 's
   \<Rightarrow> (u64 \<times> 'p \<times> 's, (AnyError + unit) \<times> 'p \<times> 's) flow option" where
  "send_package_step io rd sz = (\<lambda>(remaining, pkg, st). Some
     (if remaining = 0 then Leave (Ok (), pkg, st)
      else let want = unat (min remaining PACKAGE_CHUNK_LEN) in
        (case rd pkg want of
           (Err e, pkg) \<Rightarrow>
             Leave (Err (Any_Context ''reading the package payload'' (Any_Io e)), pkg, st)
         | (Ok bs, pkg) \<Rightarrow>
             let chunk = take want bs in
             if chunk = []
             then Leave (Err (Any_Msg (''the package source ended after ''
                    @ show_nat (unat (sz - remaining)) @ '' of '' @ show_nat (unat sz)
                    @ '' bytes'')), pkg, st)
             else (case mg_send_raw io st chunk of
                     (Err e, st) \<Rightarrow> Leave (Err (Any_Io e), pkg, st)
                   | (Ok _, st) \<Rightarrow> Again (remaining - of_nat (length chunk), pkg, st)))))"

definition send_package ::
  "('k, 's) manager_io \<Rightarrow> ('p \<Rightarrow> nat \<Rightarrow> (IoError + bytes) \<times> 'p) \<Rightarrow> 's \<Rightarrow> 'p \<Rightarrow> u64
   \<Rightarrow> ((AnyError + unit) \<times> 'p \<times> 's) option" where
  "send_package io rd st pkg sz = iterate (send_package_step io rd sz) (sz, pkg, st)"

fun terminal_preflight :: "InstallPreflight \<Rightarrow> TerminalPreflight option" where
  "terminal_preflight Preflight_AlreadyApplied = Some Terminal_AlreadyApplied"
| "terminal_preflight (Preflight_InsufficientDiskSpace filesystem required available) =
     Some (Terminal_InsufficientDiskSpace filesystem required available)"
| "terminal_preflight Preflight_BindAddrsOnUpdate = Some Terminal_BindAddrsOnUpdate"
| "terminal_preflight Preflight_NamespaceUnconfigured = Some Terminal_NamespaceUnconfigured"
| "terminal_preflight Preflight_EnrollmentUnsupported = Some Terminal_EnrollmentUnsupported"
| "terminal_preflight Preflight_ConfigTemplateOnUpdate = Some Terminal_ConfigTemplateOnUpdate"
| "terminal_preflight (Preflight_UnknownConfigTemplate i) = Some (Terminal_UnknownConfigTemplate i)"
| "terminal_preflight Preflight_Proceed = None"

text \<open>The part after the verdict: payload, then the terminal answer.\<close>

definition transfer_package ::
  "('k, 's) manager_io \<Rightarrow> ('p \<Rightarrow> nat \<Rightarrow> (IoError + bytes) \<times> 'p) \<Rightarrow> u64 \<Rightarrow> 'p \<Rightarrow> 's
   \<Rightarrow> (((AnyError + InstallOutcome) \<times> 's) \<times> 'p) option" where
  "transfer_package io rd sz pkg st =
     (case send_package io rd st pkg sz of
        None \<Rightarrow> None
      | Some (Err e, pkg, st) \<Rightarrow>
          Some ((Err e, mg_reset io st PACKAGE_TRANSFER_ABORTED), pkg)
      | Some (Ok _, pkg, st) \<Rightarrow>
          Some ((case await_answer (mg_recv_package io)
                        (Any_Context ''receiving the install response'') st of
                   (res, st) \<Rightarrow> (map_ok Install_Applied res, st)), pkg))"

type_synonym ('k, 's, 'p) install =
  "'k \<Rightarrow> 'p \<Rightarrow> (((AnyError + InstallOutcome) \<times> 'k \<times> 's option) \<times> 'p) option"

definition install_exchange ::
  "('k, 's) manager_io \<Rightarrow> ('p \<Rightarrow> nat \<Rightarrow> (IoError + bytes) \<times> 'p) \<Rightarrow> NodePackageRequest \<Rightarrow> u64
   \<Rightarrow> ('k, 's, 'p) install" where
  "install_exchange io rd req sz k pkg =
     (case encode_request io RC_NodePackage (Pay_NodePackage req) of
        Err e \<Rightarrow> Some ((Err e, k, None), pkg)
      | Ok buf \<Rightarrow>
     (case mg_open io k of
        (Err e, k) \<Rightarrow> Some ((Err (Any_Connection e), k, None), pkg)
      | (Ok st, k) \<Rightarrow>
     (case mg_send_raw io st buf of
        (Err e, st) \<Rightarrow> Some ((Err (Any_Io e), k, Some st), pkg)
      | (Ok _, st) \<Rightarrow>
     (case await_answer (mg_recv_preflight io)
             (Any_Context ''receiving the install preflight verdict'') st of
        (Err e, st) \<Rightarrow> Some ((Err e, k, Some st), pkg)
      | (Ok preflight, st) \<Rightarrow>
     (case terminal_preflight preflight of
        Some verdict \<Rightarrow> Some ((Ok (Install_Preflight verdict), k, Some st), pkg)
      | None \<Rightarrow>
          map_option (\<lambda>((res, st), pkg). ((res, k, Some st), pkg))
            (transfer_package io rd sz pkg st))))))"

definition checked_install ::
  "AnyError + 'b \<Rightarrow> ('b \<Rightarrow> ('k, 's, 'p) install) \<Rightarrow> ('k, 's, 'p) install" where
  "checked_install r c k pkg = (case r of Err e \<Rightarrow> Some ((Err e, k, None), pkg) | Ok b \<Rightarrow> c b k pkg)"

definition node_package_install ::
  "('k, 's) manager_io \<Rightarrow> ('p \<Rightarrow> nat \<Rightarrow> (IoError + bytes) \<times> 'p) \<Rightarrow> NodePackageRequest
   \<Rightarrow> ('k, 's, 'p) install" where
  "node_package_install io rd req = checked_install (install_size req) (install_exchange io rd req)"

definition node_package_install_authorized ::
  "('k, 's) manager_io \<Rightarrow> ('p \<Rightarrow> nat \<Rightarrow> (IoError + bytes) \<times> 'p) \<Rightarrow> NodePackageRequest
   \<Rightarrow> PeerContext \<Rightarrow> authorizer \<Rightarrow> ('k, 's, 'p) install" where
  "node_package_install_authorized io rd req peer authorizer =
     checked_install (install_size req) (\<lambda>sz.
     checked_install (map_err Any_Auth (authorizer peer (NodePackageRequest_service_id req))) (\<lambda>_.
       install_exchange io rd req sz))"

definition node_package_install_with_context ::
  "('k, 's) manager_io \<Rightarrow> ('p \<Rightarrow> nat \<Rightarrow> (IoError + bytes) \<times> 'p) \<Rightarrow> NodePackageRequest
   \<Rightarrow> AuthorizationContext \<Rightarrow> authorizer_v2 \<Rightarrow> ('k, 's, 'p) install" where
  "node_package_install_with_context io rd req auth_ctx authorizer =
     checked_install (install_size req) (\<lambda>sz.
     checked_install (map_err Any_Auth (authorizer auth_ctx (NodePackageRequest_service_id req))) (\<lambda>_.
       install_exchange io rd req sz))"

end
