(* ===== verification/Manager_Guard.thy ===== *)
theory Manager_Guard
  imports Manager_Api
begin

text \<open>
  The contract the eleven node families of \<open>src/src/server/api.rs\<close> share. Each family has
  three calls, written out three times in the source: the plain one, one guarded by a peer
  authorizer and one guarded by a context authorizer. The locale states what the guards
  promise; each family is an interpretation of it.
\<close>

subsection \<open>The contract\<close>

text \<open>
  A guarded call, as a function of the authorizer: a denial is reported with the connection as
  it was and no stream opened, unless the plain call is itself refused that way; a grant makes
  it the plain call.
\<close>

definition guarded ::
  "('z \<Rightarrow> (AnyError + 'a) \<times> 'k \<times> 's option) \<Rightarrow> (AnyError + 'a) \<times> 'k \<times> 's option
   \<Rightarrow> ('z \<Rightarrow> AuthorizationError + unit) \<Rightarrow> 'k \<Rightarrow> bool" where
  "guarded call unguarded decision k \<longleftrightarrow>
     (\<forall>a. case decision a of
            Err d \<Rightarrow> call a = (Err (Any_Auth d), k, None)
                     \<or> (\<exists>e. unguarded = (Err e, k, None) \<and> call a = unguarded)
          | Ok _ \<Rightarrow> call a = unguarded)"

locale guarded_family =
  fixes plain :: "'q \<Rightarrow> ('k, 's, 'a) call"
    and authorized :: "'q \<Rightarrow> PeerContext \<Rightarrow> authorizer \<Rightarrow> ('k, 's, 'a) call"
    and with_ctx :: "'q \<Rightarrow> AuthorizationContext \<Rightarrow> authorizer_v2 \<Rightarrow> ('k, 's, 'a) call"
    and service_id :: "'q \<Rightarrow> ServiceId"
    and precheck :: "'q \<Rightarrow> AnyError + unit"
  assumes prechecked:
      "precheck q = Err e \<Longrightarrow> plain q k = (Err e, k, None)"
      "precheck q = Err e \<Longrightarrow> authorized q peer a k = (Err e, k, None)"
      "precheck q = Err e \<Longrightarrow> with_ctx q ctx a2 k = (Err e, k, None)"
    and authorized_guards:
      "precheck q = Ok () \<Longrightarrow> authorized q peer a k = denied_or (a peer (service_id q)) (plain q) k"
    and with_ctx_guards:
      "precheck q = Ok () \<Longrightarrow> with_ctx q ctx a2 k = denied_or (a2 ctx (service_id q)) (plain q) k"
begin

lemma same_decision:
  "a2 ctx (service_id q) = a peer (service_id q) \<Longrightarrow> with_ctx q ctx a2 k = authorized q peer a k"
  using prechecked(2,3) authorized_guards with_ctx_guards
  by (cases "precheck q") auto

lemma through_adapter:
  "with_ctx q (from_authenticated_inputs peer kind roles meta attrs)
     (authorize_with_context (AuthorizerV2Adapter_new a)) k = authorized q peer a k"
  by (rule same_decision) (simp add: adapter.decides_for_peer)

lemma guarded_authorized:
  "guarded (\<lambda>a. authorized q peer a k) (plain q k) (\<lambda>a. a peer (service_id q)) k"
  using prechecked(1,2) authorized_guards unfolding guarded_def
  by (cases "precheck q") (auto simp: denied_or_def checked_def split: sum.split)

lemma guarded_with_ctx:
  "guarded (\<lambda>a. with_ctx q ctx a k) (plain q k) (\<lambda>a. a ctx (service_id q)) k"
  using prechecked(1,3) with_ctx_guards unfolding guarded_def
  by (cases "precheck q") (auto simp: denied_or_def checked_def split: sum.split)

end

subsection \<open>The families keep it\<close>

lemma send_request_authorized_guards:
  "send_request_authorized io rcv c payload sid peer a k =
     denied_or (a peer sid) (send_request io rcv c payload) k"
  by (simp add: send_request_authorized_def denied_or_def checked_def split: sum.split)

lemma send_request_with_context_guards:
  "send_request_authorized_with_context io rcv c payload sid ctx a2 k =
     denied_or (a2 ctx sid) (send_request io rcv c payload) k"
  by (simp add: send_request_authorized_with_context_def denied_or_def checked_def split: sum.split)

lemma checked_Ok: "checked (Ok b) c = c b"
  by (simp add: checked_def fun_eq_iff)

lemma checked_Err: "checked (Err e) c k = (Err e, k, None)"
  by (simp add: checked_def)

lemmas guards = send_request_authorized_guards send_request_with_context_guards checked_Ok checked_Err

interpretation service_calls: guarded_family "node_service io" "node_service_authorized io"
  "node_service_with_context io" NodeServiceRequest_service_id "\<lambda>_. Ok ()" for io
  by unfold_locales
    (simp_all add: node_service_def node_service_authorized_def node_service_with_context_def guards)

interpretation network_interface_calls: guarded_family "node_network_interface io" "node_network_interface_authorized io"
  "node_network_interface_with_context io" NodeNetworkInterfaceRequest_service_id "\<lambda>_. Ok ()" for io
  by unfold_locales
    (simp_all add: node_network_interface_def node_network_interface_authorized_def node_network_interface_with_context_def guards)

interpretation hostname_calls: guarded_family "node_hostname io" "node_hostname_authorized io"
  "node_hostname_with_context io" NodeHostnameRequest_service_id "\<lambda>_. Ok ()" for io
  by unfold_locales
    (simp_all add: node_hostname_def node_hostname_authorized_def node_hostname_with_context_def guards)

interpretation time_sync_calls: guarded_family "node_time_sync io" "node_time_sync_authorized io"
  "node_time_sync_with_context io" NodeTimeSyncRequest_service_id "\<lambda>_. Ok ()" for io
  by unfold_locales
    (simp_all add: node_time_sync_def node_time_sync_authorized_def node_time_sync_with_context_def guards)

interpretation logging_calls: guarded_family "node_logging io" "node_logging_authorized io"
  "node_logging_with_context io" NodeLoggingRequest_service_id "\<lambda>_. Ok ()" for io
  by unfold_locales
    (simp_all add: node_logging_def node_logging_authorized_def node_logging_with_context_def guards)

interpretation remote_access_calls: guarded_family "node_remote_access io" "node_remote_access_authorized io"
  "node_remote_access_with_context io" NodeRemoteAccessRequest_service_id "\<lambda>_. Ok ()" for io
  by unfold_locales
    (simp_all add: node_remote_access_def node_remote_access_authorized_def node_remote_access_with_context_def guards)

interpretation power_calls: guarded_family "node_power io" "node_power_authorized io"
  "node_power_with_context io" NodePowerRequest_service_id "\<lambda>_. Ok ()" for io
  by unfold_locales
    (simp_all add: node_power_def node_power_authorized_def node_power_with_context_def guards)

interpretation observation_calls: guarded_family "node_observation io" "node_observation_authorized io"
  "node_observation_with_context io" NodeObservationRequest_service_id "\<lambda>_. Ok ()" for io
  by unfold_locales
    (simp_all add: node_observation_def node_observation_authorized_def node_observation_with_context_def guards)

interpretation version_calls: guarded_family "node_version io" "node_version_authorized io"
  "node_version_with_context io" NodeVersionRequest_service_id "\<lambda>_. Ok ()" for io
  by unfold_locales
    (simp_all add: node_version_def node_version_authorized_def node_version_with_context_def guards)

interpretation package_calls: guarded_family "node_package io" "node_package_authorized io"
  "node_package_with_context io" NodePackageRequest_service_id reject_install for io
  by unfold_locales
    (simp_all add: node_package_def node_package_authorized_def node_package_with_context_def guards)

interpretation enroll_calls: guarded_family "node_enroll io" "node_enroll_authorized io"
  "node_enroll_with_context io" NodeEnrollRequest_service_id "\<lambda>_. Ok ()" for io
  by unfold_locales
    (simp_all add: node_enroll_def node_enroll_authorized_def node_enroll_with_context_def guards)

subsection \<open>The properties over all families\<close>

text \<open>
  C19. Every guarded call of every node family asks the authorizer first: a denial, by either
  kind of authorizer, is reported with the connection as it was and no stream opened, unless
  the request is one the plain call refuses that way too, and a grant makes the call exactly
  the plain one. The id the authorizer is asked about is the request's own.
\<close>

theorem node_calls_guarded:
  "(guarded (\<lambda>a. node_service_authorized io q0 peer a k) (node_service io q0 k)
       (\<lambda>a. a peer (NodeServiceRequest_service_id q0)) k
    \<and> guarded (\<lambda>a. node_service_with_context io q0 ctx a k) (node_service io q0 k)
       (\<lambda>a. a ctx (NodeServiceRequest_service_id q0)) k)
   \<and> (guarded (\<lambda>a. node_network_interface_authorized io q1 peer a k) (node_network_interface io q1 k)
       (\<lambda>a. a peer (NodeNetworkInterfaceRequest_service_id q1)) k
    \<and> guarded (\<lambda>a. node_network_interface_with_context io q1 ctx a k) (node_network_interface io q1 k)
       (\<lambda>a. a ctx (NodeNetworkInterfaceRequest_service_id q1)) k)
   \<and> (guarded (\<lambda>a. node_hostname_authorized io q2 peer a k) (node_hostname io q2 k)
       (\<lambda>a. a peer (NodeHostnameRequest_service_id q2)) k
    \<and> guarded (\<lambda>a. node_hostname_with_context io q2 ctx a k) (node_hostname io q2 k)
       (\<lambda>a. a ctx (NodeHostnameRequest_service_id q2)) k)
   \<and> (guarded (\<lambda>a. node_time_sync_authorized io q3 peer a k) (node_time_sync io q3 k)
       (\<lambda>a. a peer (NodeTimeSyncRequest_service_id q3)) k
    \<and> guarded (\<lambda>a. node_time_sync_with_context io q3 ctx a k) (node_time_sync io q3 k)
       (\<lambda>a. a ctx (NodeTimeSyncRequest_service_id q3)) k)
   \<and> (guarded (\<lambda>a. node_logging_authorized io q4 peer a k) (node_logging io q4 k)
       (\<lambda>a. a peer (NodeLoggingRequest_service_id q4)) k
    \<and> guarded (\<lambda>a. node_logging_with_context io q4 ctx a k) (node_logging io q4 k)
       (\<lambda>a. a ctx (NodeLoggingRequest_service_id q4)) k)
   \<and> (guarded (\<lambda>a. node_remote_access_authorized io q5 peer a k) (node_remote_access io q5 k)
       (\<lambda>a. a peer (NodeRemoteAccessRequest_service_id q5)) k
    \<and> guarded (\<lambda>a. node_remote_access_with_context io q5 ctx a k) (node_remote_access io q5 k)
       (\<lambda>a. a ctx (NodeRemoteAccessRequest_service_id q5)) k)
   \<and> (guarded (\<lambda>a. node_power_authorized io q6 peer a k) (node_power io q6 k)
       (\<lambda>a. a peer (NodePowerRequest_service_id q6)) k
    \<and> guarded (\<lambda>a. node_power_with_context io q6 ctx a k) (node_power io q6 k)
       (\<lambda>a. a ctx (NodePowerRequest_service_id q6)) k)
   \<and> (guarded (\<lambda>a. node_observation_authorized io q7 peer a k) (node_observation io q7 k)
       (\<lambda>a. a peer (NodeObservationRequest_service_id q7)) k
    \<and> guarded (\<lambda>a. node_observation_with_context io q7 ctx a k) (node_observation io q7 k)
       (\<lambda>a. a ctx (NodeObservationRequest_service_id q7)) k)
   \<and> (guarded (\<lambda>a. node_version_authorized io q8 peer a k) (node_version io q8 k)
       (\<lambda>a. a peer (NodeVersionRequest_service_id q8)) k
    \<and> guarded (\<lambda>a. node_version_with_context io q8 ctx a k) (node_version io q8 k)
       (\<lambda>a. a ctx (NodeVersionRequest_service_id q8)) k)
   \<and> (guarded (\<lambda>a. node_package_authorized io q9 peer a k) (node_package io q9 k)
       (\<lambda>a. a peer (NodePackageRequest_service_id q9)) k
    \<and> guarded (\<lambda>a. node_package_with_context io q9 ctx a k) (node_package io q9 k)
       (\<lambda>a. a ctx (NodePackageRequest_service_id q9)) k)
   \<and> (guarded (\<lambda>a. node_enroll_authorized io q10 peer a k) (node_enroll io q10 k)
       (\<lambda>a. a peer (NodeEnrollRequest_service_id q10)) k
    \<and> guarded (\<lambda>a. node_enroll_with_context io q10 ctx a k) (node_enroll io q10 k)
       (\<lambda>a. a ctx (NodeEnrollRequest_service_id q10)) k)"
  by (intro conjI service_calls.guarded_authorized service_calls.guarded_with_ctx
      network_interface_calls.guarded_authorized network_interface_calls.guarded_with_ctx
      hostname_calls.guarded_authorized hostname_calls.guarded_with_ctx
      time_sync_calls.guarded_authorized time_sync_calls.guarded_with_ctx
      logging_calls.guarded_authorized logging_calls.guarded_with_ctx
      remote_access_calls.guarded_authorized remote_access_calls.guarded_with_ctx
      power_calls.guarded_authorized power_calls.guarded_with_ctx
      observation_calls.guarded_authorized observation_calls.guarded_with_ctx
      version_calls.guarded_authorized version_calls.guarded_with_ctx
      package_calls.guarded_authorized package_calls.guarded_with_ctx
      enroll_calls.guarded_authorized enroll_calls.guarded_with_ctx)

text \<open>
  Moving an application from the peer-based calls to the context-based ones through the
  adapter changes nothing: on the context of a peer, however enriched, each context call is the
  peer call, with the same result, connection and stream.
\<close>

lemma node_calls_through_adapter:
  "node_service_with_context io q0 (from_authenticated_inputs peer kind roles meta attrs)
       (authorize_with_context (AuthorizerV2Adapter_new a)) k = node_service_authorized io q0 peer a k
   \<and> node_network_interface_with_context io q1 (from_authenticated_inputs peer kind roles meta attrs)
       (authorize_with_context (AuthorizerV2Adapter_new a)) k = node_network_interface_authorized io q1 peer a k
   \<and> node_hostname_with_context io q2 (from_authenticated_inputs peer kind roles meta attrs)
       (authorize_with_context (AuthorizerV2Adapter_new a)) k = node_hostname_authorized io q2 peer a k
   \<and> node_time_sync_with_context io q3 (from_authenticated_inputs peer kind roles meta attrs)
       (authorize_with_context (AuthorizerV2Adapter_new a)) k = node_time_sync_authorized io q3 peer a k
   \<and> node_logging_with_context io q4 (from_authenticated_inputs peer kind roles meta attrs)
       (authorize_with_context (AuthorizerV2Adapter_new a)) k = node_logging_authorized io q4 peer a k
   \<and> node_remote_access_with_context io q5 (from_authenticated_inputs peer kind roles meta attrs)
       (authorize_with_context (AuthorizerV2Adapter_new a)) k = node_remote_access_authorized io q5 peer a k
   \<and> node_power_with_context io q6 (from_authenticated_inputs peer kind roles meta attrs)
       (authorize_with_context (AuthorizerV2Adapter_new a)) k = node_power_authorized io q6 peer a k
   \<and> node_observation_with_context io q7 (from_authenticated_inputs peer kind roles meta attrs)
       (authorize_with_context (AuthorizerV2Adapter_new a)) k = node_observation_authorized io q7 peer a k
   \<and> node_version_with_context io q8 (from_authenticated_inputs peer kind roles meta attrs)
       (authorize_with_context (AuthorizerV2Adapter_new a)) k = node_version_authorized io q8 peer a k
   \<and> node_package_with_context io q9 (from_authenticated_inputs peer kind roles meta attrs)
       (authorize_with_context (AuthorizerV2Adapter_new a)) k = node_package_authorized io q9 peer a k
   \<and> node_enroll_with_context io q10 (from_authenticated_inputs peer kind roles meta attrs)
       (authorize_with_context (AuthorizerV2Adapter_new a)) k = node_enroll_authorized io q10 peer a k"
  by (intro conjI service_calls.through_adapter
      network_interface_calls.through_adapter
      hostname_calls.through_adapter
      time_sync_calls.through_adapter
      logging_calls.through_adapter
      remote_access_calls.through_adapter
      power_calls.through_adapter
      observation_calls.through_adapter
      version_calls.through_adapter
      package_calls.through_adapter
      enroll_calls.through_adapter)

end
