(* ===== verification/Manager_Package.thy ===== *)
theory Manager_Package
  imports Manager_Api
begin

text \<open>
  The manager's side of a package transfer: the streaming loop always ends, sends exactly the
  announced bytes in chunks an agent accepts, and an install moves bytes only on a
  \<open>Proceed\<close> verdict, ending a broken transfer with a reset.
\<close>

subsection \<open>The streaming loop ends\<close>

lemma chunk_word:
  assumes "chunk = take (unat (min remaining PACKAGE_CHUNK_LEN)) bs"
  shows "length chunk \<le> unat remaining" "length chunk \<le> 65536"
    "unat (remaining - of_nat (length chunk)) = unat remaining - length chunk"
proof -
  have len: "length chunk \<le> unat (min remaining PACKAGE_CHUNK_LEN)"
    using assms by simp
  moreover have "unat (min remaining PACKAGE_CHUNK_LEN) \<le> unat remaining"
    "unat (min remaining PACKAGE_CHUNK_LEN) \<le> unat PACKAGE_CHUNK_LEN"
    by (simp_all flip: word_le_nat_alt)
  moreover have "unat PACKAGE_CHUNK_LEN = 65536"
    by (simp add: PACKAGE_CHUNK_LEN_def)
  ultimately show le: "length chunk \<le> unat remaining" and "length chunk \<le> 65536"
    by linarith+
  show "unat (remaining - of_nat (length chunk)) = unat remaining - length chunk"
    using le by (simp add: unat_of_nat_le unat_sub_le word_le_nat_alt)
qed

lemma send_package_step_Again:
  assumes "send_package_step io rd sz (remaining, pkg, send) = Some (Again (remaining', pkg', send'))"
  obtains bs chunk where "remaining \<noteq> 0"
    "rd pkg (unat (min remaining PACKAGE_CHUNK_LEN)) = (Ok bs, pkg')"
    "chunk = take (unat (min remaining PACKAGE_CHUNK_LEN)) bs" "chunk \<noteq> []"
    "mg_send_raw io send chunk = (Ok (), send')" "remaining' = remaining - of_nat (length chunk)"
  using assms
  by (auto simp: send_package_step_def Let_def split: prod.splits sum.splits if_splits)

lemma send_package_decreases:
  assumes "send_package_step io rd sz s = Some (Again s')"
  shows "unat (fst s') < unat (fst s)"
proof -
  obtain remaining pkg send remaining' pkg' send' where
    s: "s = (remaining, pkg, send)" "s' = (remaining', pkg', send')"
    by (metis prod.exhaust)
  show ?thesis
  proof (rule send_package_step_Again [OF assms [unfolded s]])
    fix bs chunk
    assume chunk: "chunk = take (unat (min remaining PACKAGE_CHUNK_LEN)) bs"
      and "chunk \<noteq> []" and rem: "remaining' = remaining - of_nat (length chunk)"
    then have "0 < length chunk" by blast
    with chunk_word(1,3) [OF chunk] have "unat remaining' < unat remaining"
      unfolding rem by linarith
    with s show ?thesis by simp
  qed
qed

interpretation package_loop: loop_variant "send_package_step io rd sz" "\<lambda>_. True"
  "\<lambda>s. unat (fst s)" for io rd sz
proof (unfold_locales, goal_cases)
  case (1 s)
  show ?case by (cases s) (simp add: send_package_step_def)
next
  case (3 s s')
  from 3(2) show ?case by (rule send_package_decreases)
qed simp

lemma send_package_keeps:
  assumes "send_package io rd st pkg sz = Some (res, pkg', st')" and "I st"
    and keep: "\<And>s b. I s \<Longrightarrow> I (snd (mg_send_raw io s b))"
  shows "I st'"
proof -
  have sent: "I s'" if "I s" "mg_send_raw io s b = (r, s')" for s b r s'
    using keep [OF that(1), of b] that(2) by simp
  have step: "I (case fl of Again s' \<Rightarrow> snd (snd s') | Leave r \<Rightarrow> snd (snd r))"
    if "send_package_step io rd sz (remaining, pkg, st) = Some fl" "I st" for remaining pkg st fl
    using that by (auto simp: send_package_step_def Let_def intro: sent
        split: prod.splits sum.splits if_splits)
  have "I (snd (snd s)) \<longrightarrow> I (snd (snd r))"
    if "iterate (send_package_step io rd sz) s = Some r" for s r
    using that
  proof (induction rule: iterate_induct)
    case (Again s s' r)
    then show ?case
      using step [of "fst s" "fst (snd s)" "snd (snd s)"] by fastforce
  next
    case (Leave s r)
    then show ?case
      using step [of "fst s" "fst (snd s)" "snd (snd s)"] by fastforce
  qed
  with assms(1,2) show ?thesis by (fastforce simp: send_package_def)
qed

subsection \<open>What the loop sends\<close>

text \<open>
  A source that delivers a byte string: a read returns the next bytes, and none only at the
  end. \<open>content\<close> is what it still holds. A sending half whose frames all reach a log.
\<close>

definition reads_from ::
  "('p \<Rightarrow> nat \<Rightarrow> (IoError + bytes) \<times> 'p) \<Rightarrow> ('p \<Rightarrow> bytes) \<Rightarrow> bool" where
  "reads_from rd content \<longleftrightarrow>
     (\<forall>p n. 0 < n \<longrightarrow>
        (case rd p n of
           (Ok bs, p') \<Rightarrow> content p = take n bs @ content p' \<and> (take n bs = [] \<longrightarrow> content p = [])
         | (Err _, _) \<Rightarrow> False))"

definition frames_logged ::
  "('k, 's) manager_io \<Rightarrow> ('s \<Rightarrow> bytes list) \<Rightarrow> bool" where
  "frames_logged io log \<longleftrightarrow>
     (\<forall>s b. fst (mg_send_raw io s b) = Ok () \<and> log (snd (mg_send_raw io s b)) = log s @ [b])"

lemma reads_fromE:
  assumes "reads_from rd content" and "0 < n"
  obtains bs p' where "rd p n = (Ok bs, p')" "content p = take n bs @ content p'"
    "take n bs = [] \<Longrightarrow> content p = []"
proof (cases "rd p n")
  case (Pair r p')
  have "case rd p n of
      (Ok bs, p') \<Rightarrow> content p = take n bs @ content p' \<and> (take n bs = [] \<longrightarrow> content p = [])
    | (Err _, _) \<Rightarrow> False"
    using assms(1) [unfolded reads_from_def, rule_format, OF assms(2), of p] .
  with Pair show ?thesis by (cases r) (auto intro: that)
qed

lemma frames_loggedE:
  assumes "frames_logged io log"
  obtains s' where "mg_send_raw io s b = (Ok (), s')" "log s' = log s @ [b]"
  using assms unfolding frames_logged_def by (metis prod.collapse)

text \<open>Chunks an agent's reader accepts: none empty, none above the chunk length.\<close>

definition good_chunks :: "bytes list \<Rightarrow> bool" where
  "good_chunks cs \<longleftrightarrow> (\<forall>c \<in> set cs. c \<noteq> [] \<and> length c \<le> 65536)"

text \<open>The error of a source that held \<open>n\<close> bytes of the announced \<open>sz\<close>.\<close>

definition ended_early :: "u64 \<Rightarrow> nat \<Rightarrow> AnyError" where
  "ended_early sz n = Any_Msg (''the package source ended after '' @ show_nat n @ '' of ''
     @ show_nat (unat sz) @ '' bytes'')"

lemma send_package_loop:
  assumes src: "reads_from rd content" and log: "frames_logged io log"
  shows "\<exists>res pkg' send' chunks.
    iterate (send_package_step io rd sz) (remaining, pkg, send) = Some (res, pkg', send')
    \<and> log send' = log send @ chunks \<and> good_chunks chunks
    \<and> concat chunks = take (unat remaining) (content pkg)
    \<and> content pkg' = drop (unat remaining) (content pkg)
    \<and> (if unat remaining \<le> length (content pkg) then res = Ok ()
       else res = Err (ended_early sz (unat (sz - (remaining - of_nat (length (content pkg)))))))"
proof (induction "unat remaining" arbitrary: remaining pkg send rule: less_induct)
  case less
  show ?case
  proof (cases "remaining = 0")
    case True
    then have "send_package_step io rd sz (remaining, pkg, send) = Some (Leave (Ok (), pkg, send))"
      by (simp add: send_package_step_def)
    from iterate_Leave [of "send_package_step io rd sz", OF this] True show ?thesis
      by (auto simp: good_chunks_def intro!: exI [of _ "[]"])
  next
    case False
    define want where "want = unat (min remaining PACKAGE_CHUNK_LEN)"
    have want: "0 < want"
      using False by (auto simp: want_def min_def unat_gt_0 PACKAGE_CHUNK_LEN_def)
    obtain bs pkg1 where rd: "rd pkg want = (Ok bs, pkg1)" "content pkg = take want bs @ content pkg1"
        "take want bs = [] \<Longrightarrow> content pkg = []"
      using reads_fromE [OF src want] by blast
    show ?thesis
    proof (cases "take want bs = []")
      case True
      then have "send_package_step io rd sz (remaining, pkg, send) =
          Some (Leave (Err (ended_early sz (unat (sz - remaining))), pkg1, send))"
        using False rd(1) by (auto simp: send_package_step_def want_def ended_early_def)
      from iterate_Leave [of "send_package_step io rd sz", OF this] show ?thesis
        using True rd False
        by (auto simp: good_chunks_def unat_eq_zero intro!: exI [of _ "[]"])
    next
      case nonempty: False
      define chunk where "chunk = take want bs"
      have cw: "length chunk \<le> unat remaining" "length chunk \<le> 65536"
          "unat (remaining - of_nat (length chunk)) = unat remaining - length chunk"
        using chunk_word [of chunk remaining bs] by (simp_all add: chunk_def want_def)
      obtain send1 where sent: "mg_send_raw io send chunk = (Ok (), send1)" "log send1 = log send @ [chunk]"
        using frames_loggedE [OF log] by blast
      let ?rem = "remaining - of_nat (length chunk)"
      have "send_package_step io rd sz (remaining, pkg, send) = Some (Again (?rem, pkg1, send1))"
        using False rd(1) nonempty sent(1) by (simp add: send_package_step_def want_def chunk_def)
      from iterate_Again [of "send_package_step io rd sz", OF this]
      have go: "iterate (send_package_step io rd sz) (remaining, pkg, send) =
          iterate (send_package_step io rd sz) (?rem, pkg1, send1)" .
      have "unat ?rem < unat remaining"
      proof -
        have "0 < length chunk" using nonempty unfolding chunk_def by blast
        with cw(1,3) show ?thesis by linarith
      qed
      from less.hyps [OF this, of pkg1 send1] obtain res pkg' send' chunks where
        IH: "iterate (send_package_step io rd sz) (?rem, pkg1, send1) = Some (res, pkg', send')"
          "log send' = log send1 @ chunks" "good_chunks chunks"
          "concat chunks = take (unat ?rem) (content pkg1)"
          "content pkg' = drop (unat ?rem) (content pkg1)"
          "if unat ?rem \<le> length (content pkg1) then res = Ok ()
           else res = Err (ended_early sz (unat (sz - (?rem - of_nat (length (content pkg1))))))"
        by blast
      have content: "content pkg = chunk @ content pkg1"
        using rd(2) by (simp add: chunk_def)
      have "chunk \<noteq> []" using nonempty by (simp add: chunk_def)
      with IH(3) cw(2) have "good_chunks (chunk # chunks)"
        by (simp add: good_chunks_def)
      moreover have "concat (chunk # chunks) = take (unat remaining) (content pkg)"
        "content pkg' = drop (unat remaining) (content pkg)"
        "unat ?rem \<le> length (content pkg1) \<longleftrightarrow> unat remaining \<le> length (content pkg)"
        using IH(4,5) content cw(1,3) by auto
      moreover have "?rem - of_nat (length (content pkg1)) = remaining - of_nat (length (content pkg))"
        using content by (simp add: algebra_simps)
      moreover have "log send' = log send @ (chunk # chunks)"
        using IH(2) sent(2) by simp
      ultimately show ?thesis
        using go IH(1,6) by metis
    qed
  qed
qed

lemma sent_so_far: "\<not> unat sz \<le> n \<Longrightarrow> unat (sz - (sz - of_nat n)) = n" for sz :: u64
  using unsigned_less [where 'a = nat, of sz] by (simp add: unsigned_of_nat take_bit_nat_eq_self)

lemma package_sent:
  assumes "reads_from rd content" and "frames_logged io log"
  shows "\<exists>res pkg' send' chunks.
    send_package io rd send pkg sz = Some (res, pkg', send')
    \<and> log send' = log send @ chunks \<and> good_chunks chunks
    \<and> concat chunks = take (unat sz) (content pkg) \<and> content pkg' = drop (unat sz) (content pkg)
    \<and> (if unat sz \<le> length (content pkg) then res = Ok ()
       else res = Err (ended_early sz (length (content pkg))))"
  unfolding send_package_def using send_package_loop [OF assms, of sz sz pkg send] sent_so_far by metis

text \<open>
  C21. Streaming a package sends the announced bytes and nothing else: from a source that holds
  at least that many, exactly its first \<open>size\<close> bytes, cut into chunks of one to 65536
  bytes, and the rest of the source is left unread; from a shorter source everything it holds,
  and the call reports how many bytes of the announced size there were.
\<close>

theorem send_package_sends_exactly_size:
  assumes "reads_from rd content" and "frames_logged io log"
  shows "\<exists>res pkg' send' chunks.
    send_package io rd send pkg sz = Some (res, pkg', send')
    \<and> log send' = log send @ chunks \<and> good_chunks chunks
    \<and> concat chunks = take (unat sz) (content pkg) \<and> content pkg' = drop (unat sz) (content pkg)
    \<and> (if unat sz \<le> length (content pkg) then res = Ok ()
       else res = Err (ended_early sz (length (content pkg))))"
  by (rule package_sent [OF assms])

text \<open>
  Streaming a package returns whatever the source and the stream do, even a source that
  hands over one byte at a time: the loop's own counter is what ends it.
\<close>

lemma send_package_returns: "\<exists>out. send_package io rd send pkg sz = Some out"
  unfolding send_package_def by (rule package_loop.returns) simp

subsection \<open>An install as a whole\<close>

lemma install_exchange_started:
  assumes "encode_request io RC_NodePackage (Pay_NodePackage req) = Ok buf"
    and "mg_open io k = (Ok st, k1)" and "mg_send_raw io st buf = (Ok (), st1)"
    and "mg_recv_preflight io st1 = (Ok (Ok v), st2)"
  shows "install_exchange io rd req sz k pkg =
    (case terminal_preflight v of
       Some verdict \<Rightarrow> Some ((Ok (Install_Preflight verdict), k1, Some st2), pkg)
     | None \<Rightarrow> map_option (\<lambda>((res, st), pkg). ((res, k1, Some st), pkg))
                 (transfer_package io rd sz pkg st2))"
  using assms by (simp add: install_exchange_def await_answer_def)

lemma transfer_package_returns: "transfer_package io rd sz pkg send \<noteq> None"
  using package_loop.returns [OF TrueI, of io rd sz "(sz, pkg, send)"]
  by (auto simp: transfer_package_def send_package_def split: sum.split prod.split)

lemma install_outcome:
  assumes src: "reads_from rd content" and log: "frames_logged io log"
    and enc: "encode_request io RC_NodePackage (Pay_NodePackage (Package_Install f)) = Ok buf"
    and opened: "mg_open io k = (Ok st, k1)" and sent: "mg_send_raw io st buf = (Ok (), st1)"
    and verdict: "mg_recv_preflight io st1 = (Ok (Ok v), st2)" "log st2 = log st1"
  shows "\<exists>res st' pkg' chunks streamed.
    node_package_install io rd (Package_Install f) k pkg = Some ((res, k1, Some st'), pkg')
    \<and> (if v \<noteq> Preflight_Proceed
       then res = Ok (Install_Preflight (the (terminal_preflight v)))
            \<and> st' = st2 \<and> log st' = log st @ [buf] \<and> pkg' = pkg
       else log streamed = log st @ buf # chunks \<and> good_chunks chunks
            \<and> concat chunks = take (unat (in_size f)) (content pkg)
            \<and> content pkg' = drop (unat (in_size f)) (content pkg)
            \<and> (if unat (in_size f) \<le> length (content pkg)
               then st' = snd (mg_recv_package io streamed)
                    \<and> (case fst (mg_recv_package io streamed) of
                         Ok ans \<Rightarrow> res = map_err Any_Msg (map_ok Install_Applied ans)
                       | Err e \<Rightarrow> res = Err (Any_Context ''receiving the install response'' (Any_Io e)))
               else st' = mg_reset io streamed PACKAGE_TRANSFER_ABORTED
                    \<and> res = Err (ended_early (in_size f) (length (content pkg)))))"
proof -
  have logged: "log st1 = log st @ [buf]"
    using frames_loggedE [OF log, of st buf] sent by auto
  note start = install_exchange_started [OF enc opened sent verdict(1), of rd "in_size f" pkg]
  show ?thesis
  proof (cases "terminal_preflight v")
    case (Some t)
    then have "v \<noteq> Preflight_Proceed" by auto
    with Some start logged verdict(2) show ?thesis
      by (simp add: node_package_install_def checked_install_def)
  next
    case None
    then have v: "v = Preflight_Proceed" by (cases v) simp_all
    obtain res pkg' streamed chunks where
      loop: "send_package io rd st2 pkg (in_size f) = Some (res, pkg', streamed)"
        "log streamed = log st2 @ chunks" "good_chunks chunks"
        "concat chunks = take (unat (in_size f)) (content pkg)"
        "content pkg' = drop (unat (in_size f)) (content pkg)"
        "if unat (in_size f) \<le> length (content pkg) then res = Ok ()
         else res = Err (ended_early (in_size f) (length (content pkg)))"
      using package_sent [OF src log, of st2 pkg "in_size f"] by blast
    from loop(2) have "log streamed = log st @ buf # chunks"
      using logged verdict(2) by simp
    moreover have "node_package_install io rd (Package_Install f) k pkg =
        map_option (\<lambda>((res, st), pkg). ((res, k1, Some st), pkg))
          (transfer_package io rd (in_size f) pkg st2)"
      using start None by (simp add: node_package_install_def checked_install_def)
    ultimately show ?thesis
      using v loop(1,3-6) by (simp add: transfer_package_def await_answer_def split: if_splits)
        (fastforce split: prod.splits sum.splits)+
  qed
qed

text \<open>The verdict a terminal outcome stands for.\<close>

fun as_preflight :: "TerminalPreflight \<Rightarrow> InstallPreflight" where
  "as_preflight Terminal_AlreadyApplied = Preflight_AlreadyApplied"
| "as_preflight (Terminal_InsufficientDiskSpace filesystem required available) =
     Preflight_InsufficientDiskSpace filesystem required available"
| "as_preflight Terminal_BindAddrsOnUpdate = Preflight_BindAddrsOnUpdate"
| "as_preflight Terminal_NamespaceUnconfigured = Preflight_NamespaceUnconfigured"
| "as_preflight Terminal_EnrollmentUnsupported = Preflight_EnrollmentUnsupported"
| "as_preflight Terminal_ConfigTemplateOnUpdate = Preflight_ConfigTemplateOnUpdate"
| "as_preflight (Terminal_UnknownConfigTemplate i) = Preflight_UnknownConfigTemplate i"

lemma terminal_stands_for:
  "v \<noteq> Preflight_Proceed \<Longrightarrow> as_preflight (the (terminal_preflight v)) = v"
  by (cases v) simp_all

text \<open>
  C15. An install whose verdict arrives does what the verdict says. On a terminal verdict the
  caller gets exactly that verdict, only the request was sent and the package source is
  untouched. On \<open>Proceed\<close> the announced bytes follow the request as chunks and the
  agent's answer is the outcome; when the source is too short, everything it held was sent, the
  sending half is reset with the abort code, the answer is not awaited and the call fails with
  how many bytes of the announced size there were.
\<close>

theorem install_follows_verdict:
  assumes src: "reads_from rd content" and log: "frames_logged io log"
    and enc: "encode_request io RC_NodePackage (Pay_NodePackage (Package_Install f)) = Ok buf"
    and opened: "mg_open io k = (Ok st, k1)" and sent: "mg_send_raw io st buf = (Ok (), st1)"
    and verdict: "mg_recv_preflight io st1 = (Ok (Ok v), st2)" "log st2 = log st1"
  shows "\<exists>res st' pkg' chunks streamed.
    node_package_install io rd (Package_Install f) k pkg = Some ((res, k1, Some st'), pkg')
    \<and> (if v \<noteq> Preflight_Proceed
       then (\<exists>t. res = Ok (Install_Preflight t) \<and> as_preflight t = v)
            \<and> st' = st2 \<and> log st' = log st @ [buf] \<and> pkg' = pkg
       else log streamed = log st @ buf # chunks \<and> good_chunks chunks
            \<and> concat chunks = take (unat (in_size f)) (content pkg)
            \<and> content pkg' = drop (unat (in_size f)) (content pkg)
            \<and> (if unat (in_size f) \<le> length (content pkg)
               then st' = snd (mg_recv_package io streamed)
                    \<and> (case fst (mg_recv_package io streamed) of
                         Ok ans \<Rightarrow> res = map_err Any_Msg (map_ok Install_Applied ans)
                       | Err e \<Rightarrow> res = Err (Any_Context ''receiving the install response'' (Any_Io e)))
               else st' = mg_reset io streamed PACKAGE_TRANSFER_ABORTED
                    \<and> res = Err (ended_early (in_size f) (length (content pkg)))))"
  using install_outcome [OF assms, of pkg] terminal_stands_for [of v] by (cases "v = Preflight_Proceed") auto

lemma install_exchange_returns: "install_exchange io rd req sz k pkg \<noteq> None"
  using transfer_package_returns [of io rd sz pkg]
  by (simp add: install_exchange_def del: not_None_eq split: sum.split prod.split option.split)

lemma checked_install_returns:
  "(\<And>b. c b k pkg \<noteq> None) \<Longrightarrow> checked_install r c k pkg \<noteq> None"
  by (cases r) (simp_all add: checked_install_def)

text \<open>
  C35. Installs and the other package requests cannot be mixed up, and no form of the call can
  hang on the package: a non-install request given to any of the three install calls, and an
  install given to any of the three plain package calls, is refused with the connection as it
  was, no stream opened and no package byte read; every install call returns.
\<close>

theorem package_calls_refuse_before_io:
  "(if (\<exists>f. req = Package_Install f)
    then (\<exists>e. node_package io req k = (Err e, k, None)
             \<and> node_package_authorized io req peer a k = (Err e, k, None)
             \<and> node_package_with_context io req ctx a2 k = (Err e, k, None))
    else (\<exists>e. node_package_install io rd req k pkg = Some ((Err e, k, None), pkg)
             \<and> node_package_install_authorized io rd req peer a k pkg = Some ((Err e, k, None), pkg)
             \<and> node_package_install_with_context io rd req ctx a2 k pkg = Some ((Err e, k, None), pkg)))
   \<and> node_package_install io rd req k pkg \<noteq> None
   \<and> node_package_install_authorized io rd req peer a k pkg \<noteq> None
   \<and> node_package_install_with_context io rd req ctx a2 k pkg \<noteq> None"
proof (intro conjI)
  show "node_package_install io rd req k pkg \<noteq> None"
    "node_package_install_authorized io rd req peer a k pkg \<noteq> None"
    "node_package_install_with_context io rd req ctx a2 k pkg \<noteq> None"
    unfolding node_package_install_def node_package_install_authorized_def
      node_package_install_with_context_def
    by (intro checked_install_returns install_exchange_returns)+
qed (cases req,
  simp_all add: node_package_def node_package_authorized_def node_package_with_context_def
    node_package_install_def node_package_install_authorized_def
    node_package_install_with_context_def checked_def checked_install_def)

text \<open>
  C36. An install needs a grant like any other request: when the authorizer denies the install's
  id, the connection is as it was, no stream is opened and the package source is untouched;
  when it grants, the call is the unauthorized one. A context authorizer decides the same way.
\<close>

theorem install_needs_grant:
  "node_package_install_authorized io rd (Package_Install f) peer a k pkg =
     (case a peer (NodePackageRequest_service_id (Package_Install f)) of
        Err e \<Rightarrow> Some ((Err (Any_Auth e), k, None), pkg)
      | Ok _ \<Rightarrow> node_package_install io rd (Package_Install f) k pkg)
   \<and> node_package_install_with_context io rd (Package_Install f)
       (from_authenticated_inputs peer kind roles meta attrs)
       (authorize_with_context (AuthorizerV2Adapter_new a)) k pkg =
     node_package_install_authorized io rd (Package_Install f) peer a k pkg"
  by (simp add: node_package_install_def node_package_install_authorized_def
      node_package_install_with_context_def checked_install_def adapter.decides_for_peer
      split: sum.split)

subsection \<open>A connection in memory, and the properties on it\<close>

text \<open>
  The connection is the answers the agent will give; a sending half is the frames sent on it
  and the code it was reset with. The source is a byte string, read one slice at a time.
\<close>

datatype manager_answer =
  Ans_Preflight "string + InstallPreflight" | Ans_Package "string + NodePackageResponse"

definition no_frame :: "'r \<Rightarrow> (IoError + 'a) \<times> 'r" where
  "no_frame r = (Err (IoError_new EK_UnexpectedEof ''no frame''), r)"

type_synonym memory_stream = "bytes list \<times> u32 option \<times> manager_answer list"

definition memory_manager :: "(manager_answer list, memory_stream) manager_io" where
  "memory_manager = \<lparr>
     mg_open = (\<lambda>k. (Ok ([], None, k), [])),
     mg_send_raw = (\<lambda>(l, c, r) b. (Ok (), l @ [b], c, r)),
     mg_finish = id,
     mg_reset = (\<lambda>(l, _, r) code. (l, Some code, r)),
     mg_encode_code = (\<lambda>c. [ucast c]),
     mg_encode = (\<lambda>_. Ok [0]),
     mg_recv_unit = no_frame,
     mg_recv_preflight = (\<lambda>(l, c, r). case r of Ans_Preflight a # r \<Rightarrow> (Ok a, l, c, r) | _ \<Rightarrow> no_frame (l, c, r)),
     mg_recv_service = no_frame, mg_recv_network_interface = no_frame,
     mg_recv_hostname = no_frame, mg_recv_time_sync = no_frame, mg_recv_logging = no_frame,
     mg_recv_remote_access = no_frame, mg_recv_power = no_frame, mg_recv_observation = no_frame,
     mg_recv_version = no_frame,
     mg_recv_package = (\<lambda>(l, c, r). case r of Ans_Package a # r \<Rightarrow> (Ok a, l, c, r) | _ \<Rightarrow> no_frame (l, c, r)),
     mg_recv_enroll = no_frame\<rparr>"

definition read_bytes :: "bytes \<Rightarrow> nat \<Rightarrow> (IoError + bytes) \<times> bytes" where
  "read_bytes p n = (Ok (take n p), drop n p)"

lemma read_bytes_reads_from: "reads_from read_bytes id"
  by (auto simp: reads_from_def read_bytes_def)

lemma memory_frames_logged: "frames_logged memory_manager fst"
  by (auto simp: frames_logged_def memory_manager_def)

definition three_byte_install :: InstallFields where
  "three_byte_install = \<lparr>in_target = ''roxy'', in_instance = None, in_version = ''1.0.0'',
     in_commit = ''abc'', in_size = 3, in_idempotency_key = ''k'', in_bootstrap_material = None,
     in_on_failure = OnFailure_Rollback, in_bind_addrs = None, in_config_template = None,
     in_privilege_profile = None\<rparr>"

theorem send_package_sends_exactly_size_witness:
  "reads_from read_bytes id \<and> frames_logged memory_manager fst
   \<and> (\<exists>pkg' send' chunks.
        send_package memory_manager read_bytes ([], None, []) [1, 2, 3, 4] 3 = Some (Ok (), pkg', send')
        \<and> fst send' = chunks \<and> concat chunks = [1, 2, 3] \<and> pkg' = [4])"
  using read_bytes_reads_from memory_frames_logged
    send_package_sends_exactly_size [OF read_bytes_reads_from memory_frames_logged,
      of "([], None, [])" "[1, 2, 3, 4]" 3]
  by auto

theorem install_follows_verdict_witness:
  "\<exists>st' buf chunks.
     node_package_install memory_manager read_bytes (Package_Install three_byte_install)
       [Ans_Preflight (Ok Preflight_Proceed), Ans_Package (Ok PackageR_Done)] [1, 2] =
     Some ((Err (ended_early 3 (length [1, 2 :: u8])), [], Some st'), [])
     \<and> concat chunks = [1, 2] \<and> fst st' = buf # chunks \<and> fst (snd st') = Some 1"
proof -
  let ?ans = "[Ans_Preflight (Ok Preflight_Proceed), Ans_Package (Ok PackageR_Done)]"
  define buf where "buf = mg_encode_code memory_manager (client_code_into RC_NodePackage) @ [0]"
  have enc: "encode_request memory_manager RC_NodePackage
      (Pay_NodePackage (Package_Install three_byte_install)) = Ok buf"
    by (simp add: encode_request_def memory_manager_def buf_def)
  have "mg_open memory_manager ?ans = (Ok ([], None, ?ans), [])"
    "mg_send_raw memory_manager ([], None, ?ans) buf = (Ok (), [buf], None, ?ans)"
    "mg_recv_preflight memory_manager ([buf], None, ?ans) =
       (Ok (Ok Preflight_Proceed), [buf], None, tl ?ans)"
    by (simp_all add: memory_manager_def)
  from install_follows_verdict [OF read_bytes_reads_from memory_frames_logged enc this, of "[1, 2]"]
  show ?thesis
    by (fastforce simp: three_byte_install_def memory_manager_def PACKAGE_TRANSFER_ABORTED_def)
qed

end
