(* ===== verification/Node_Handle.thy ===== *)
theory Node_Handle
  imports Manager_Guard Manager_Package
begin

text \<open>
  \<open>src/src/server/node.rs\<close>: the handle \<open>Node\<close>, which borrows a connection and
  offers the node families under shorter names, and the two power operations it spells out.
\<close>

record 'k Node =
  node_conn :: 'k

definition Node_new :: "'k \<Rightarrow> 'k Node" where
  "Node_new conn = \<lparr>node_conn = conn\<rparr>"

type_synonym ('k, 's, 'a) called = "(AnyError + 'a) \<times> 'k \<times> 's option"
type_synonym ('k, 's, 'p) installed = "(('k, 's, InstallOutcome) called \<times> 'p) option"

text \<open>\<open>match outcome? { Sent | Response(_) => Ok(()) }\<close>.\<close>

definition either_outcome :: "('k, 's, NodePowerOutcome) called \<Rightarrow> ('k, 's, unit) called" where
  "either_outcome c =
     (case c of (res, rest) \<Rightarrow>
        (map_ok (\<lambda>outcome. case outcome of PowerOutcome_Sent \<Rightarrow> () | PowerOutcome_Response _ \<Rightarrow> ()) res,
         rest))"

definition Node_service ::
  "('k, 's) manager_io \<Rightarrow> 'k Node \<Rightarrow> NodeServiceRequest \<Rightarrow> ('k, 's, NodeServiceResponse) called" where
  "Node_service io self req =
     node_service io req (node_conn self)"

definition Node_service_authorized ::
  "('k, 's) manager_io \<Rightarrow> 'k Node \<Rightarrow> NodeServiceRequest \<Rightarrow> PeerContext \<Rightarrow> authorizer \<Rightarrow> ('k, 's, NodeServiceResponse) called" where
  "Node_service_authorized io self req peer authorizer =
     node_service_authorized io req peer authorizer (node_conn self)"

definition Node_network_interface ::
  "('k, 's) manager_io \<Rightarrow> 'k Node \<Rightarrow> NodeNetworkInterfaceRequest \<Rightarrow> ('k, 's, NodeNetworkInterfaceResponse) called" where
  "Node_network_interface io self req =
     node_network_interface io req (node_conn self)"

definition Node_network_interface_authorized ::
  "('k, 's) manager_io \<Rightarrow> 'k Node \<Rightarrow> NodeNetworkInterfaceRequest \<Rightarrow> PeerContext \<Rightarrow> authorizer \<Rightarrow> ('k, 's, NodeNetworkInterfaceResponse) called" where
  "Node_network_interface_authorized io self req peer authorizer =
     node_network_interface_authorized io req peer authorizer (node_conn self)"

definition Node_hostname ::
  "('k, 's) manager_io \<Rightarrow> 'k Node \<Rightarrow> NodeHostnameRequest \<Rightarrow> ('k, 's, NodeHostnameResponse) called" where
  "Node_hostname io self req =
     node_hostname io req (node_conn self)"

definition Node_hostname_authorized ::
  "('k, 's) manager_io \<Rightarrow> 'k Node \<Rightarrow> NodeHostnameRequest \<Rightarrow> PeerContext \<Rightarrow> authorizer \<Rightarrow> ('k, 's, NodeHostnameResponse) called" where
  "Node_hostname_authorized io self req peer authorizer =
     node_hostname_authorized io req peer authorizer (node_conn self)"

definition Node_time_sync ::
  "('k, 's) manager_io \<Rightarrow> 'k Node \<Rightarrow> NodeTimeSyncRequest \<Rightarrow> ('k, 's, NodeTimeSyncResponse) called" where
  "Node_time_sync io self req =
     node_time_sync io req (node_conn self)"

definition Node_time_sync_authorized ::
  "('k, 's) manager_io \<Rightarrow> 'k Node \<Rightarrow> NodeTimeSyncRequest \<Rightarrow> PeerContext \<Rightarrow> authorizer \<Rightarrow> ('k, 's, NodeTimeSyncResponse) called" where
  "Node_time_sync_authorized io self req peer authorizer =
     node_time_sync_authorized io req peer authorizer (node_conn self)"

definition Node_logging ::
  "('k, 's) manager_io \<Rightarrow> 'k Node \<Rightarrow> NodeLoggingRequest \<Rightarrow> ('k, 's, NodeLoggingResponse) called" where
  "Node_logging io self req =
     node_logging io req (node_conn self)"

definition Node_logging_authorized ::
  "('k, 's) manager_io \<Rightarrow> 'k Node \<Rightarrow> NodeLoggingRequest \<Rightarrow> PeerContext \<Rightarrow> authorizer \<Rightarrow> ('k, 's, NodeLoggingResponse) called" where
  "Node_logging_authorized io self req peer authorizer =
     node_logging_authorized io req peer authorizer (node_conn self)"

definition Node_remote_access ::
  "('k, 's) manager_io \<Rightarrow> 'k Node \<Rightarrow> NodeRemoteAccessRequest \<Rightarrow> ('k, 's, NodeRemoteAccessResponse) called" where
  "Node_remote_access io self req =
     node_remote_access io req (node_conn self)"

definition Node_remote_access_authorized ::
  "('k, 's) manager_io \<Rightarrow> 'k Node \<Rightarrow> NodeRemoteAccessRequest \<Rightarrow> PeerContext \<Rightarrow> authorizer \<Rightarrow> ('k, 's, NodeRemoteAccessResponse) called" where
  "Node_remote_access_authorized io self req peer authorizer =
     node_remote_access_authorized io req peer authorizer (node_conn self)"

definition Node_power ::
  "('k, 's) manager_io \<Rightarrow> 'k Node \<Rightarrow> NodePowerRequest \<Rightarrow> ('k, 's, NodePowerOutcome) called" where
  "Node_power io self req =
     node_power io req (node_conn self)"

definition Node_power_authorized ::
  "('k, 's) manager_io \<Rightarrow> 'k Node \<Rightarrow> NodePowerRequest \<Rightarrow> PeerContext \<Rightarrow> authorizer \<Rightarrow> ('k, 's, NodePowerOutcome) called" where
  "Node_power_authorized io self req peer authorizer =
     node_power_authorized io req peer authorizer (node_conn self)"

definition Node_reboot ::
  "('k, 's) manager_io \<Rightarrow> 'k Node \<Rightarrow> ('k, 's, unit) called" where
  "Node_reboot io self =
     either_outcome (Node_power io self Power_Reboot)"

definition Node_reboot_authorized ::
  "('k, 's) manager_io \<Rightarrow> 'k Node \<Rightarrow> PeerContext \<Rightarrow> authorizer \<Rightarrow> ('k, 's, unit) called" where
  "Node_reboot_authorized io self peer authorizer =
     either_outcome (Node_power_authorized io self Power_Reboot peer authorizer)"

definition Node_shutdown ::
  "('k, 's) manager_io \<Rightarrow> 'k Node \<Rightarrow> ('k, 's, unit) called" where
  "Node_shutdown io self =
     either_outcome (Node_power io self Power_Shutdown)"

definition Node_shutdown_authorized ::
  "('k, 's) manager_io \<Rightarrow> 'k Node \<Rightarrow> PeerContext \<Rightarrow> authorizer \<Rightarrow> ('k, 's, unit) called" where
  "Node_shutdown_authorized io self peer authorizer =
     either_outcome (Node_power_authorized io self Power_Shutdown peer authorizer)"

definition Node_observation ::
  "('k, 's) manager_io \<Rightarrow> 'k Node \<Rightarrow> NodeObservationRequest \<Rightarrow> ('k, 's, NodeObservationResponse) called" where
  "Node_observation io self req =
     node_observation io req (node_conn self)"

definition Node_observation_authorized ::
  "('k, 's) manager_io \<Rightarrow> 'k Node \<Rightarrow> NodeObservationRequest \<Rightarrow> PeerContext \<Rightarrow> authorizer \<Rightarrow> ('k, 's, NodeObservationResponse) called" where
  "Node_observation_authorized io self req peer authorizer =
     node_observation_authorized io req peer authorizer (node_conn self)"

definition Node_version ::
  "('k, 's) manager_io \<Rightarrow> 'k Node \<Rightarrow> NodeVersionRequest \<Rightarrow> ('k, 's, NodeVersionResponse) called" where
  "Node_version io self req =
     node_version io req (node_conn self)"

definition Node_version_authorized ::
  "('k, 's) manager_io \<Rightarrow> 'k Node \<Rightarrow> NodeVersionRequest \<Rightarrow> PeerContext \<Rightarrow> authorizer \<Rightarrow> ('k, 's, NodeVersionResponse) called" where
  "Node_version_authorized io self req peer authorizer =
     node_version_authorized io req peer authorizer (node_conn self)"

definition Node_package ::
  "('k, 's) manager_io \<Rightarrow> 'k Node \<Rightarrow> NodePackageRequest \<Rightarrow> ('k, 's, NodePackageResponse) called" where
  "Node_package io self req =
     node_package io req (node_conn self)"

definition Node_package_authorized ::
  "('k, 's) manager_io \<Rightarrow> 'k Node \<Rightarrow> NodePackageRequest \<Rightarrow> PeerContext \<Rightarrow> authorizer \<Rightarrow> ('k, 's, NodePackageResponse) called" where
  "Node_package_authorized io self req peer authorizer =
     node_package_authorized io req peer authorizer (node_conn self)"

definition Node_package_install ::
  "('k, 's) manager_io \<Rightarrow> ('p \<Rightarrow> nat \<Rightarrow> (IoError + bytes) \<times> 'p) \<Rightarrow> 'k Node \<Rightarrow> NodePackageRequest \<Rightarrow> 'p \<Rightarrow> ('k, 's, 'p) installed" where
  "Node_package_install io rd self req pkg =
     node_package_install io rd req (node_conn self) pkg"

definition Node_package_install_authorized ::
  "('k, 's) manager_io \<Rightarrow> ('p \<Rightarrow> nat \<Rightarrow> (IoError + bytes) \<times> 'p) \<Rightarrow> 'k Node \<Rightarrow> NodePackageRequest \<Rightarrow> 'p \<Rightarrow> PeerContext \<Rightarrow> authorizer \<Rightarrow> ('k, 's, 'p) installed" where
  "Node_package_install_authorized io rd self req pkg peer authorizer =
     node_package_install_authorized io rd req peer authorizer (node_conn self) pkg"

definition Node_enroll ::
  "('k, 's) manager_io \<Rightarrow> 'k Node \<Rightarrow> NodeEnrollRequest \<Rightarrow> ('k, 's, NodeEnrollResponse) called" where
  "Node_enroll io self req =
     node_enroll io req (node_conn self)"

definition Node_enroll_authorized ::
  "('k, 's) manager_io \<Rightarrow> 'k Node \<Rightarrow> NodeEnrollRequest \<Rightarrow> PeerContext \<Rightarrow> authorizer \<Rightarrow> ('k, 's, NodeEnrollResponse) called" where
  "Node_enroll_authorized io self req peer authorizer =
     node_enroll_authorized io req peer authorizer (node_conn self)"

definition Node_service_with_context ::
  "('k, 's) manager_io \<Rightarrow> 'k Node \<Rightarrow> NodeServiceRequest \<Rightarrow> AuthorizationContext \<Rightarrow> authorizer_v2 \<Rightarrow> ('k, 's, NodeServiceResponse) called" where
  "Node_service_with_context io self req auth_ctx authorizer =
     node_service_with_context io req auth_ctx authorizer (node_conn self)"

definition Node_network_interface_with_context ::
  "('k, 's) manager_io \<Rightarrow> 'k Node \<Rightarrow> NodeNetworkInterfaceRequest \<Rightarrow> AuthorizationContext \<Rightarrow> authorizer_v2 \<Rightarrow> ('k, 's, NodeNetworkInterfaceResponse) called" where
  "Node_network_interface_with_context io self req auth_ctx authorizer =
     node_network_interface_with_context io req auth_ctx authorizer (node_conn self)"

definition Node_hostname_with_context ::
  "('k, 's) manager_io \<Rightarrow> 'k Node \<Rightarrow> NodeHostnameRequest \<Rightarrow> AuthorizationContext \<Rightarrow> authorizer_v2 \<Rightarrow> ('k, 's, NodeHostnameResponse) called" where
  "Node_hostname_with_context io self req auth_ctx authorizer =
     node_hostname_with_context io req auth_ctx authorizer (node_conn self)"

definition Node_time_sync_with_context ::
  "('k, 's) manager_io \<Rightarrow> 'k Node \<Rightarrow> NodeTimeSyncRequest \<Rightarrow> AuthorizationContext \<Rightarrow> authorizer_v2 \<Rightarrow> ('k, 's, NodeTimeSyncResponse) called" where
  "Node_time_sync_with_context io self req auth_ctx authorizer =
     node_time_sync_with_context io req auth_ctx authorizer (node_conn self)"

definition Node_logging_with_context ::
  "('k, 's) manager_io \<Rightarrow> 'k Node \<Rightarrow> NodeLoggingRequest \<Rightarrow> AuthorizationContext \<Rightarrow> authorizer_v2 \<Rightarrow> ('k, 's, NodeLoggingResponse) called" where
  "Node_logging_with_context io self req auth_ctx authorizer =
     node_logging_with_context io req auth_ctx authorizer (node_conn self)"

definition Node_remote_access_with_context ::
  "('k, 's) manager_io \<Rightarrow> 'k Node \<Rightarrow> NodeRemoteAccessRequest \<Rightarrow> AuthorizationContext \<Rightarrow> authorizer_v2 \<Rightarrow> ('k, 's, NodeRemoteAccessResponse) called" where
  "Node_remote_access_with_context io self req auth_ctx authorizer =
     node_remote_access_with_context io req auth_ctx authorizer (node_conn self)"

definition Node_power_with_context ::
  "('k, 's) manager_io \<Rightarrow> 'k Node \<Rightarrow> NodePowerRequest \<Rightarrow> AuthorizationContext \<Rightarrow> authorizer_v2 \<Rightarrow> ('k, 's, NodePowerOutcome) called" where
  "Node_power_with_context io self req auth_ctx authorizer =
     node_power_with_context io req auth_ctx authorizer (node_conn self)"

definition Node_reboot_with_context ::
  "('k, 's) manager_io \<Rightarrow> 'k Node \<Rightarrow> AuthorizationContext \<Rightarrow> authorizer_v2 \<Rightarrow> ('k, 's, unit) called" where
  "Node_reboot_with_context io self auth_ctx authorizer =
     either_outcome (Node_power_with_context io self Power_Reboot auth_ctx authorizer)"

definition Node_shutdown_with_context ::
  "('k, 's) manager_io \<Rightarrow> 'k Node \<Rightarrow> AuthorizationContext \<Rightarrow> authorizer_v2 \<Rightarrow> ('k, 's, unit) called" where
  "Node_shutdown_with_context io self auth_ctx authorizer =
     either_outcome (Node_power_with_context io self Power_Shutdown auth_ctx authorizer)"

definition Node_observation_with_context ::
  "('k, 's) manager_io \<Rightarrow> 'k Node \<Rightarrow> NodeObservationRequest \<Rightarrow> AuthorizationContext \<Rightarrow> authorizer_v2 \<Rightarrow> ('k, 's, NodeObservationResponse) called" where
  "Node_observation_with_context io self req auth_ctx authorizer =
     node_observation_with_context io req auth_ctx authorizer (node_conn self)"

definition Node_version_with_context ::
  "('k, 's) manager_io \<Rightarrow> 'k Node \<Rightarrow> NodeVersionRequest \<Rightarrow> AuthorizationContext \<Rightarrow> authorizer_v2 \<Rightarrow> ('k, 's, NodeVersionResponse) called" where
  "Node_version_with_context io self req auth_ctx authorizer =
     node_version_with_context io req auth_ctx authorizer (node_conn self)"

definition Node_package_with_context ::
  "('k, 's) manager_io \<Rightarrow> 'k Node \<Rightarrow> NodePackageRequest \<Rightarrow> AuthorizationContext \<Rightarrow> authorizer_v2 \<Rightarrow> ('k, 's, NodePackageResponse) called" where
  "Node_package_with_context io self req auth_ctx authorizer =
     node_package_with_context io req auth_ctx authorizer (node_conn self)"

definition Node_package_install_with_context ::
  "('k, 's) manager_io \<Rightarrow> ('p \<Rightarrow> nat \<Rightarrow> (IoError + bytes) \<times> 'p) \<Rightarrow> 'k Node \<Rightarrow> NodePackageRequest \<Rightarrow> 'p \<Rightarrow> AuthorizationContext \<Rightarrow> authorizer_v2 \<Rightarrow> ('k, 's, 'p) installed" where
  "Node_package_install_with_context io rd self req pkg auth_ctx authorizer =
     node_package_install_with_context io rd req auth_ctx authorizer (node_conn self) pkg"

definition Node_enroll_with_context ::
  "('k, 's) manager_io \<Rightarrow> 'k Node \<Rightarrow> NodeEnrollRequest \<Rightarrow> AuthorizationContext \<Rightarrow> authorizer_v2 \<Rightarrow> ('k, 's, NodeEnrollResponse) called" where
  "Node_enroll_with_context io self req auth_ctx authorizer =
     node_enroll_with_context io req auth_ctx authorizer (node_conn self)"

subsection \<open>What a power request waits for\<close>

text \<open>
  A call that reads nothing from the stream it opens: it fails before there is one, it cannot
  send its frame, or it sends it, finishes the sending half and succeeds. The stream has seen
  that frame and the finish and nothing else.
\<close>

inductive awaits_nothing ::
  "('k, 's) manager_io \<Rightarrow> NodePowerRequest \<Rightarrow> 'k \<Rightarrow> ('k, 's, 'a) called \<Rightarrow> bool" for io req k where
  no_stream: "awaits_nothing io req k (Err e, k', None)"
| unsent: "encode_request io RC_NodePower (Pay_NodePower req) = Ok buf \<Longrightarrow>
    mg_open io k = (Ok st, k') \<Longrightarrow> mg_send_raw io st buf = (Err e, sent) \<Longrightarrow>
    awaits_nothing io req k (Err (Any_Io e), k', Some sent)"
| finished: "encode_request io RC_NodePower (Pay_NodePower req) = Ok buf \<Longrightarrow>
    mg_open io k = (Ok st, k') \<Longrightarrow> mg_send_raw io st buf = (Ok (), sent) \<Longrightarrow>
    awaits_nothing io req k (Ok a, k', Some (mg_finish io sent))"

lemma no_response_awaits_nothing:
  "awaits_nothing io req k (send_request_no_response io RC_NodePower (Pay_NodePower req) k)"
  unfolding send_request_no_response_def open_and_send_def
  by (auto intro: awaits_nothing.intros split: sum.split prod.split)

lemma awaits_nothing_map:
  "awaits_nothing io req k (c k) \<Longrightarrow> awaits_nothing io req k (map_call f c k)"
  unfolding map_call_def by (erule awaits_nothing.cases) (auto intro: awaits_nothing.intros)

lemma awaits_nothing_either:
  "awaits_nothing io req k c \<Longrightarrow> awaits_nothing io req k (either_outcome c)"
  unfolding either_outcome_def by (erule awaits_nothing.cases) (auto intro: awaits_nothing.intros)

lemma awaits_nothing_denied:
  "awaits_nothing io req k (c k) \<Longrightarrow> awaits_nothing io req k (denied_or d c k)"
  by (cases d) (simp_all add: denied_or_def checked_def no_stream)

lemmas power_calls = Node_power_def Node_power_authorized_def Node_power_with_context_def
  node_power_def node_power_authorized_def node_power_with_context_def

lemma immediate_power:
  assumes "req = Power_Reboot \<or> req = Power_Shutdown"
  shows "awaits_nothing io req k (exchange_power io req k)"
  using assms by (auto intro!: awaits_nothing_map no_response_awaits_nothing)

lemma graceful_power:
  assumes "exchange_power io req k = (Ok outcome, k', stream)"
    and "req = Power_GracefulReboot \<or> req = Power_GracefulShutdown"
  shows "\<exists>response buf opened sent st. outcome = PowerOutcome_Response response
    \<and> mg_open io k = (Ok opened, k') \<and> mg_send_raw io opened buf = (Ok (), sent)
    \<and> mg_recv_power io sent = (Ok (Ok response), st) \<and> stream = Some st"
  using assms
  by (fastforce simp: map_call_def send_request_def open_and_send_def await_answer_def
      split: sum.splits prod.splits)

text \<open>
  C10. An immediate reboot or shutdown never waits for the agent: in all its forms, plain,
  authorized or with a context, through the handle's \<open>reboot\<close> and \<open>shutdown\<close> as
  through \<open>power\<close>, nothing is read, and once the frame is sent the sending half is finished
  and the call succeeds. A graceful one succeeds only with the answer the agent sent.
\<close>

theorem power_waits_only_when_graceful:
  "(req = Power_Reboot \<or> req = Power_Shutdown \<longrightarrow>
      awaits_nothing io req (node_conn self) (Node_power io self req)
      \<and> awaits_nothing io req (node_conn self) (Node_power_authorized io self req peer a)
      \<and> awaits_nothing io req (node_conn self) (Node_power_with_context io self req ctx a2))
   \<and> awaits_nothing io Power_Reboot (node_conn self) (Node_reboot io self)
   \<and> awaits_nothing io Power_Reboot (node_conn self) (Node_reboot_authorized io self peer a)
   \<and> awaits_nothing io Power_Reboot (node_conn self) (Node_reboot_with_context io self ctx a2)
   \<and> awaits_nothing io Power_Shutdown (node_conn self) (Node_shutdown io self)
   \<and> awaits_nothing io Power_Shutdown (node_conn self) (Node_shutdown_authorized io self peer a)
   \<and> awaits_nothing io Power_Shutdown (node_conn self) (Node_shutdown_with_context io self ctx a2)
   \<and> (req = Power_GracefulReboot \<or> req = Power_GracefulShutdown \<longrightarrow>
        (\<forall>outcome k' stream. Node_power io self req = (Ok outcome, k', stream) \<longrightarrow>
           (\<exists>response buf opened sent st. outcome = PowerOutcome_Response response
              \<and> mg_open io (node_conn self) = (Ok opened, k') \<and> mg_send_raw io opened buf = (Ok (), sent)
              \<and> mg_recv_power io sent = (Ok (Ok response), st) \<and> stream = Some st)))"
proof -
  have now: "awaits_nothing io r (node_conn self) (Node_power io self r)"
    "awaits_nothing io r (node_conn self) (Node_power_authorized io self r peer a)"
    "awaits_nothing io r (node_conn self) (Node_power_with_context io self r ctx a2)"
    if "r = Power_Reboot \<or> r = Power_Shutdown" for r
    using immediate_power [OF that, of io "node_conn self"]
    by (auto simp: power_calls intro: awaits_nothing_denied)
  have graceful: "Node_power io self req = (Ok outcome, k', stream) \<Longrightarrow>
      req = Power_GracefulReboot \<or> req = Power_GracefulShutdown \<Longrightarrow>
      \<exists>response buf opened sent st. outcome = PowerOutcome_Response response
        \<and> mg_open io (node_conn self) = (Ok opened, k') \<and> mg_send_raw io opened buf = (Ok (), sent)
        \<and> mg_recv_power io sent = (Ok (Ok response), st) \<and> stream = Some st"
    for outcome k' stream
    using graceful_power by (simp add: power_calls)
  show ?thesis
    using now graceful
    by (intro conjI impI allI)
      (auto simp: Node_reboot_def Node_reboot_authorized_def Node_reboot_with_context_def
        Node_shutdown_def Node_shutdown_authorized_def Node_shutdown_with_context_def
        intro!: awaits_nothing_either)
qed

theorem power_waits_only_when_graceful_witness:
  "awaits_nothing memory_manager Power_Shutdown [] (Node_power memory_manager (Node_new []) Power_Shutdown)
   \<and> (\<exists>st. Node_power (memory_manager\<lparr>mg_recv_power := \<lambda>r. (Ok (Ok PowerR_Initiated), r)\<rparr>)
        (Node_new []) Power_GracefulReboot =
        (Ok (PowerOutcome_Response PowerR_Initiated), [], Some st))"
proof
  show "awaits_nothing memory_manager Power_Shutdown [] (Node_power memory_manager (Node_new []) Power_Shutdown)"
    using power_waits_only_when_graceful [where self = "Node_new []" and io = memory_manager
        and req = Power_Shutdown]
    by (simp add: Node_new_def)
  let ?io = "memory_manager\<lparr>mg_recv_power := \<lambda>r. (Ok (Ok PowerR_Initiated), r)\<rparr>"
  obtain outcome k' stream where out:
      "Node_power ?io (Node_new []) Power_GracefulReboot = (Ok outcome, k', stream)" "k' = []"
    by (simp add: power_calls Node_new_def map_call_def send_request_def encode_request_def
        open_and_send_def await_answer_def memory_manager_def)
  moreover have "\<exists>response buf opened sent st. outcome = PowerOutcome_Response response
      \<and> mg_open ?io (node_conn (Node_new [])) = (Ok opened, k')
      \<and> mg_send_raw ?io opened buf = (Ok (), sent)
      \<and> mg_recv_power ?io sent = (Ok (Ok response), st) \<and> stream = Some st"
    using power_waits_only_when_graceful [where self = "Node_new []" and io = ?io
        and req = Power_GracefulReboot] out(1)
    by blast
  ultimately show "\<exists>st. Node_power ?io (Node_new []) Power_GracefulReboot =
      (Ok (PowerOutcome_Response PowerR_Initiated), [], Some st)"
    by auto
qed


end
