(* ===== verification/Client_Api.thy ===== *)
theory Client_Api
  imports Session Wire_Types Request_Codes
begin

text \<open>
  \<open>src/src/client/api.rs\<close> and \<open>unary_request\<close> of \<open>src/src/lib.rs\<close>: what an
  agent asks of the manager. Each call opens one stream, sends one request and reads one
  answer. A call returns its result and the connection.
\<close>

subsection \<open>Payloads and the connection\<close>

text \<open>One constructor for each type of payload the calls serialize.\<close>

datatype client_payload =
    CPay_Unit
  | CPay_DataSourceKey "DataSourceKey"
  | CPay_String "string"
  | CPay_NamePairs "(string \<times> string) list"
  | CPay_U32I64 "u32 \<times> i64"
  | CPay_ColumnStatistics "ColumnStatisticsUpdate list \<times> u32 \<times> i64"
  | CPay_DataSource "DataSource"
  | CPay_EventLabels "u32 \<times> u32 \<times> EventMessage list"
  | CPay_Bytes "bytes"
  | CPay_TimeSeries "TimeSeriesUpdate list \<times> u32 \<times> i64"
  | CPay_DeletionReport "CustomerDataDeletionReport"
  | CPay_Clusters "UpdateClusterRequest list \<times> u32"
  | CPay_Outliers "OutlierInfo list \<times> u32 \<times> i64"
  | CPay_HostPorts "(IpAddr \<rightharpoonup> (u16 \<times> u8 \<rightharpoonup> u32))"
  | CPay_HostAgents "(IpAddr \<times> UserAgent list \<times> string list) list"
  | CPay_RunModel "u32 \<times> bytes"
  | CPay_RunReport "u32 \<times> ReportedRunState \<times> string option"
  | CPay_U32s "u32 list"
  | CPay_DetectorStatus "DetectorStatusReport"

text \<open>
  The connection's \<open>open_bi\<close>, \<open>oinq::message::send_request\<close>, and
  \<open>oinq::frame::recv\<close> at each type of answer. The two halves of a stream are one
  state, since what arrives on one may depend on what was sent on the other.
\<close>

record ('k, 'b) client_io =
  cl_open_bi :: "'k \<Rightarrow> (IoError + 'b) \<times> 'k"
  cl_close :: "'k \<Rightarrow> 'b \<Rightarrow> 'k"
  cl_send_request :: "'b \<Rightarrow> u32 \<Rightarrow> client_payload \<Rightarrow> (IoError + unit) \<times> 'b"
  cl_recv_unit :: "'b \<Rightarrow> (IoError + (string + unit)) \<times> 'b"
  cl_recv_network_group :: "'b \<Rightarrow> (IoError + (string + HostNetworkGroup)) \<times> 'b"
  cl_recv_string :: "'b \<Rightarrow> (IoError + (string + string)) \<times> 'b"
  cl_recv_data_source :: "'b \<Rightarrow> (IoError + (string + DataSource option)) \<times> 'b"
  cl_recv_indicator :: "'b \<Rightarrow> (IoError + (string + string list set)) \<times> 'b"
  cl_recv_bytes :: "'b \<Rightarrow> (IoError + (string + bytes)) \<times> 'b"
  cl_recv_strings :: "'b \<Rightarrow> (IoError + (string + string list)) \<times> 'b"
  cl_recv_outliers :: "'b \<Rightarrow> (IoError + (string + (string \<times> i64 list) list)) \<times> 'b"
  cl_recv_sampling_policies :: "'b \<Rightarrow> (IoError + (string + SamplingPolicy list)) \<times> 'b"
  cl_recv_label_dbs :: "'b \<Rightarrow> (IoError + (string + (string \<times> LabelDb option) list)) \<times> 'b"
  cl_recv_u32 :: "'b \<Rightarrow> (IoError + (string + u32)) \<times> 'b"
  cl_recv_certificate :: "'b \<Rightarrow> (IoError + (string + (string \<times> string))) \<times> 'b"

type_synonym ('k, 'a) client_call = "'k \<Rightarrow> (IoError + 'a) \<times> 'k"

subsection \<open>One request, one answer\<close>

text \<open>
  \<open>unary_request\<close>: the answer is not read when the request could not be sent.
\<close>

definition unary_request ::
  "('k, 'b) client_io \<Rightarrow> ('b \<Rightarrow> (IoError + 'o) \<times> 'b) \<Rightarrow> 'b \<Rightarrow> u32 \<Rightarrow> client_payload
   \<Rightarrow> (IoError + 'o) \<times> 'b" where
  "unary_request io rcv stream code input =
     (case cl_send_request io stream code input of
        (Err e, stream) \<Rightarrow> (Err e, stream)
      | (Ok _, stream) \<Rightarrow> rcv stream)"

text \<open>
  \<open>request\<close> of \<open>client/api.rs\<close>; the stream is dropped when it returns, which is
  \<open>cl_close\<close>.
\<close>

definition client_request ::
  "('k, 'b) client_io \<Rightarrow> ('b \<Rightarrow> (IoError + 'o) \<times> 'b) \<Rightarrow> server_RequestCode \<Rightarrow> client_payload
   \<Rightarrow> ('k, 'o) client_call" where
  "client_request io rcv code input conn =
     (case cl_open_bi io conn of
        (Err e, conn) \<Rightarrow> (Err e, conn)
      | (Ok stream, conn) \<Rightarrow>
          (case unary_request io rcv stream (server_code_into code) input of
             (res, stream) \<Rightarrow> (res, cl_close io conn stream)))"

text \<open>\<open>let res = request(...).await?; res.map_err(io::Error::other)\<close>.\<close>

definition client_call ::
  "('k, 'b) client_io \<Rightarrow> ('b \<Rightarrow> (IoError + (string + 'a)) \<times> 'b) \<Rightarrow> server_RequestCode \<Rightarrow> client_payload
   \<Rightarrow> ('k, 'a) client_call" where
  "client_call io rcv code input conn =
     (case client_request io rcv code input conn of
        (Err e, conn) \<Rightarrow> (Err e, conn)
      | (Ok res, conn) \<Rightarrow> (map_err IoError_other res, conn))"

subsection \<open>The calls\<close>

definition client_report_customer_data_deletion ::
  "('k, 'b) client_io \<Rightarrow> CustomerDataDeletionReport \<Rightarrow> ('k, unit) client_call" where
  "client_report_customer_data_deletion io report =
     client_call io (cl_recv_unit io) SC_ReportCustomerDataDeletion (CPay_DeletionReport report)"

definition client_upload_run_model ::
  "('k, 'b) client_io \<Rightarrow> u32 \<Rightarrow> bytes \<Rightarrow> ('k, unit) client_call" where
  "client_upload_run_model io run_id model =
     client_call io (cl_recv_unit io) SC_UploadRunModel (CPay_RunModel (run_id, model))"

definition client_report_run ::
  "('k, 'b) client_io \<Rightarrow> u32 \<Rightarrow> ReportedRunState \<Rightarrow> string option \<Rightarrow> ('k, unit) client_call" where
  "client_report_run io run_id state reason =
     client_call io (cl_recv_unit io) SC_ReportRun (CPay_RunReport (run_id, state, reason))"

definition client_report_active_runs ::
  "('k, 'b) client_io \<Rightarrow> u32 list \<Rightarrow> ('k, unit) client_call" where
  "client_report_active_runs io run_ids =
     client_call io (cl_recv_unit io) SC_ReportActiveRuns (CPay_U32s run_ids)"

definition client_report_detector_status ::
  "('k, 'b) client_io \<Rightarrow> DetectorStatusReport \<Rightarrow> ('k, unit) client_call" where
  "client_report_detector_status io report =
     client_call io (cl_recv_unit io) SC_ReportDetectorStatus (CPay_DetectorStatus report)"

definition client_get_config ::
  "('k, 'b) client_io \<Rightarrow> ('k, string) client_call" where
  "client_get_config io =
     client_call io (cl_recv_string io) SC_GetConfig CPay_Unit"

definition client_get_allowlist ::
  "('k, 'b) client_io \<Rightarrow> ('k, HostNetworkGroup) client_call" where
  "client_get_allowlist io =
     client_call io (cl_recv_network_group io) SC_GetAllowlist CPay_Unit"

definition client_get_blocklist ::
  "('k, 'b) client_io \<Rightarrow> ('k, HostNetworkGroup) client_call" where
  "client_get_blocklist io =
     client_call io (cl_recv_network_group io) SC_GetBlocklist CPay_Unit"

definition client_get_data_source ::
  "('k, 'b) client_io \<Rightarrow> DataSourceKey \<Rightarrow> ('k, DataSource) client_call" where
  "client_get_data_source io key conn =
     (case client_call io (cl_recv_data_source io) SC_GetDataSource (CPay_DataSourceKey key) conn of
        (res, conn) \<Rightarrow>
          (res_and_then res (\<lambda>res. case res of
             Some data_source \<Rightarrow> Ok data_source
           | None \<Rightarrow> Err (IoError_from EK_NotFound)), conn))"

definition client_get_indicator ::
  "('k, 'b) client_io \<Rightarrow> string \<Rightarrow> ('k, string list set) client_call" where
  "client_get_indicator io name =
     client_call io (cl_recv_indicator io) SC_GetIndicator (CPay_String name)"

definition client_get_internal_network_list ::
  "('k, 'b) client_io \<Rightarrow> ('k, HostNetworkGroup) client_call" where
  "client_get_internal_network_list io =
     client_call io (cl_recv_network_group io) SC_GetInternalNetworkList CPay_Unit"

definition client_get_labeldb_patterns ::
  "('k, 'b) client_io \<Rightarrow> (string \<times> string) list \<Rightarrow> ('k, (string \<times> LabelDb option) list) client_call" where
  "client_get_labeldb_patterns io labeldbs =
     client_call io (cl_recv_label_dbs io) SC_GetLabelDbPatterns (CPay_NamePairs labeldbs)"

definition client_get_tor_exit_node_list ::
  "('k, 'b) client_io \<Rightarrow> ('k, string list) client_call" where
  "client_get_tor_exit_node_list io =
     client_call io (cl_recv_strings io) SC_GetTorExitNodeList CPay_Unit"

definition client_get_trusted_domain_list ::
  "('k, 'b) client_io \<Rightarrow> ('k, string list) client_call" where
  "client_get_trusted_domain_list io =
     client_call io (cl_recv_strings io) SC_GetTrustedDomainList CPay_Unit"

definition client_get_trusted_user_agent_list ::
  "('k, 'b) client_io \<Rightarrow> ('k, string list) client_call" where
  "client_get_trusted_user_agent_list io =
     client_call io (cl_recv_strings io) SC_GetTrustedUserAgentList CPay_Unit"

definition client_get_sampling_policy_list ::
  "('k, 'b) client_io \<Rightarrow> ('k, SamplingPolicy list) client_call" where
  "client_get_sampling_policy_list io =
     client_call io (cl_recv_sampling_policies io) SC_GetSamplingPolicyList CPay_Unit"

definition client_get_pretrained_model ::
  "('k, 'b) client_io \<Rightarrow> string \<Rightarrow> ('k, bytes) client_call" where
  "client_get_pretrained_model io name =
     client_call io (cl_recv_bytes io) SC_GetPretrainedModel (CPay_String name)"

definition client_renew_certificate ::
  "('k, 'b) client_io \<Rightarrow> ('k, (string \<times> string)) client_call" where
  "client_renew_certificate io =
     client_call io (cl_recv_certificate io) SC_RenewCertificate CPay_Unit"

definition client_get_model ::
  "('k, 'b) client_io \<Rightarrow> string \<Rightarrow> ('k, bytes) client_call" where
  "client_get_model io name =
     client_call io (cl_recv_bytes io) SC_GetModel (CPay_String name)"

definition client_get_model_names ::
  "('k, 'b) client_io \<Rightarrow> ('k, string list) client_call" where
  "client_get_model_names io =
     client_call io (cl_recv_strings io) SC_GetModelNames CPay_Unit"

definition client_insert_column_statistics ::
  "('k, 'b) client_io \<Rightarrow> ColumnStatisticsUpdate list \<Rightarrow> u32 \<Rightarrow> i64 \<Rightarrow> ('k, unit) client_call" where
  "client_insert_column_statistics io statistics model_id batch_ts =
     client_call io (cl_recv_unit io) SC_InsertColumnStatistics (CPay_ColumnStatistics (statistics, model_id, batch_ts))"

definition client_insert_model ::
  "('k, 'b) client_io \<Rightarrow> bytes \<Rightarrow> ('k, u32) client_call" where
  "client_insert_model io model =
     client_call io (cl_recv_u32 io) SC_InsertModel (CPay_Bytes model)"

definition client_insert_time_series ::
  "('k, 'b) client_io \<Rightarrow> TimeSeriesUpdate list \<Rightarrow> u32 \<Rightarrow> i64 \<Rightarrow> ('k, unit) client_call" where
  "client_insert_time_series io time_series model_id batch_ts =
     client_call io (cl_recv_unit io) SC_InsertTimeSeries (CPay_TimeSeries (time_series, model_id, batch_ts))"

definition client_remove_model ::
  "('k, 'b) client_io \<Rightarrow> string \<Rightarrow> ('k, unit) client_call" where
  "client_remove_model io name =
     client_call io (cl_recv_unit io) SC_RemoveModel (CPay_String name)"

definition client_update_clusters ::
  "('k, 'b) client_io \<Rightarrow> UpdateClusterRequest list \<Rightarrow> u32 \<Rightarrow> ('k, unit) client_call" where
  "client_update_clusters io input model_id =
     client_call io (cl_recv_unit io) SC_UpdateClusters (CPay_Clusters (input, model_id))"

definition client_update_model ::
  "('k, 'b) client_io \<Rightarrow> bytes \<Rightarrow> ('k, u32) client_call" where
  "client_update_model io model =
     client_call io (cl_recv_u32 io) SC_UpdateModel (CPay_Bytes model)"

definition client_update_outliers ::
  "('k, 'b) client_io \<Rightarrow> OutlierInfo list \<Rightarrow> u32 \<Rightarrow> i64 \<Rightarrow> ('k, unit) client_call" where
  "client_update_outliers io outliers model_id timestamp =
     client_call io (cl_recv_unit io) SC_UpdateOutliers (CPay_Outliers (outliers, model_id, timestamp))"

definition client_insert_event_labels ::
  "('k, 'b) client_io \<Rightarrow> u32 \<Rightarrow> u32 \<Rightarrow> EventMessage list \<Rightarrow> ('k, unit) client_call" where
  "client_insert_event_labels io model_id round event_labels =
     client_call io (cl_recv_unit io) SC_InsertEventLabels (CPay_EventLabels (model_id, round, event_labels))"

definition client_insert_data_source ::
  "('k, 'b) client_io \<Rightarrow> DataSource \<Rightarrow> ('k, u32) client_call" where
  "client_insert_data_source io data_source =
     client_call io (cl_recv_u32 io) SC_InsertDataSource (CPay_DataSource data_source)"

definition client_get_outliers ::
  "('k, 'b) client_io \<Rightarrow> u32 \<Rightarrow> i64 \<Rightarrow> ('k, (string \<times> i64 list) list) client_call" where
  "client_get_outliers io model_id timestamp =
     client_call io (cl_recv_outliers io) SC_GetOutliers (CPay_U32I64 (model_id, timestamp))"

definition client_update_host_ports ::
  "('k, 'b) client_io \<Rightarrow> (IpAddr \<rightharpoonup> (u16 \<times> u8 \<rightharpoonup> u32)) \<Rightarrow> ('k, unit) client_call" where
  "client_update_host_ports io hosts =
     client_call io (cl_recv_unit io) SC_UpdateHostOpenedPorts (CPay_HostPorts hosts)"

definition client_update_host_user_agents ::
  "('k, 'b) client_io \<Rightarrow> (IpAddr \<times> UserAgent list \<times> string list) list \<Rightarrow> ('k, unit) client_call" where
  "client_update_host_user_agents io hosts =
     client_call io (cl_recv_unit io) SC_UpdateHostOsAgents (CPay_HostAgents hosts)"

end
