(* ===== verification/Server_Handler.thy ===== *)
theory Server_Handler
  imports Session Wire_Types Auth
begin

text \<open>
  \<open>src/src/server/handler.rs\<close>: the manager's dispatch of what an agent asks. The source
  writes the match over the request codes twice, once for each kind of authorizer; so does
  this theory. The handler is the application's code, a record of its methods; they take
  \<open>&self\<close> but may change what the handler shares, so they are actions on a state too.
\<close>

subsection \<open>Replies, streams, arguments and the handler\<close>

datatype server_reply =
    SReply_Unit
  | SReply_NetworkGroup "HostNetworkGroup"
  | SReply_String "string"
  | SReply_DataSource "DataSource option"
  | SReply_Indicator "string list set"
  | SReply_Bytes "bytes"
  | SReply_Strings "string list"
  | SReply_Outliers "(string \<times> i64 list) list"
  | SReply_SamplingPolicies "SamplingPolicy list"
  | SReply_LabelDbs "(string \<times> LabelDb option) list"
  | SReply_U32 "u32"
  | SReply_Certificate "(string \<times> string)"

text \<open>
  \<open>message::recv_request_raw\<close>, \<open>request::send_response\<close>, and \<open>frame::send\<close>
  at the type the unknown-code answer has.
\<close>

record ('s, 'r) server_io =
  srv_recv_request :: "'r \<Rightarrow> (IoError + u32 \<times> bytes) \<times> 'r"
  srv_send_response :: "'s \<Rightarrow> string + server_reply \<Rightarrow> (IoError + unit) \<times> 's"
  srv_send_frame :: "'s \<Rightarrow> string + unit \<Rightarrow> (IoError + unit) \<times> 's"

record server_args =
  sarg_unit :: "bytes \<Rightarrow> IoError + unit"
  sarg_data_source_key :: "bytes \<Rightarrow> IoError + DataSourceKey"
  sarg_string :: "bytes \<Rightarrow> IoError + string"
  sarg_name_pairs :: "bytes \<Rightarrow> IoError + (string \<times> string) list"
  sarg_u32_i64 :: "bytes \<Rightarrow> IoError + u32 \<times> i64"
  sarg_column_statistics :: "bytes \<Rightarrow> IoError + ColumnStatisticsUpdate list \<times> u32 \<times> i64"
  sarg_data_source :: "bytes \<Rightarrow> IoError + DataSource"
  sarg_event_labels :: "bytes \<Rightarrow> IoError + u32 \<times> u32 \<times> EventMessage list"
  sarg_bytes :: "bytes \<Rightarrow> IoError + bytes"
  sarg_time_series :: "bytes \<Rightarrow> IoError + TimeSeriesUpdate list \<times> u32 \<times> i64"
  sarg_deletion_report :: "bytes \<Rightarrow> IoError + CustomerDataDeletionReport"
  sarg_clusters :: "bytes \<Rightarrow> IoError + UpdateClusterRequest list \<times> u32"
  sarg_outliers :: "bytes \<Rightarrow> IoError + OutlierInfo list \<times> u32 \<times> i64"
  sarg_host_ports :: "bytes \<Rightarrow> IoError + (IpAddr \<rightharpoonup> (u16 \<times> u8 \<rightharpoonup> u32))"
  sarg_host_agents :: "bytes \<Rightarrow> IoError + (IpAddr \<times> UserAgent list \<times> string list) list"
  sarg_run_model :: "bytes \<Rightarrow> IoError + u32 \<times> bytes"
  sarg_run_report :: "bytes \<Rightarrow> IoError + u32 \<times> ReportedRunState \<times> string option"
  sarg_u32s :: "bytes \<Rightarrow> IoError + u32 list"
  sarg_detector_status :: "bytes \<Rightarrow> IoError + DetectorStatusReport"

record 'h server_Handler =
  mh_report_customer_data_deletion :: "CustomerDataDeletionReport \<Rightarrow> ('h, unit) action"
  mh_get_allowlist :: "string \<Rightarrow> ('h, HostNetworkGroup) action"
  mh_get_blocklist :: "string \<Rightarrow> ('h, HostNetworkGroup) action"
  mh_get_config :: "string \<Rightarrow> ('h, string) action"
  mh_get_data_source :: "DataSourceKey \<Rightarrow> ('h, DataSource option) action"
  mh_get_indicator :: "string \<Rightarrow> ('h, string list set) action"
  mh_get_internal_network_list :: "string \<Rightarrow> ('h, HostNetworkGroup) action"
  mh_get_model :: "string \<Rightarrow> ('h, bytes) action"
  mh_get_model_names :: "('h, string list) action"
  mh_get_outliers :: "u32 \<Rightarrow> i64 \<Rightarrow> ('h, (string \<times> i64 list) list) action"
  mh_get_pretrained_model :: "string \<Rightarrow> ('h, bytes) action"
  mh_get_sampling_policy_list :: "string \<Rightarrow> ('h, SamplingPolicy list) action"
  mh_get_labeldb_patterns :: "(string \<times> string) list \<Rightarrow> ('h, (string \<times> LabelDb option) list) action"
  mh_get_tor_exit_node_list :: "('h, string list) action"
  mh_get_trusted_domain_list :: "('h, string list) action"
  mh_get_trusted_user_agent_list :: "('h, string list) action"
  mh_insert_column_statistics :: "ColumnStatisticsUpdate list \<Rightarrow> u32 \<Rightarrow> i64 \<Rightarrow> ('h, unit) action"
  mh_insert_data_source :: "DataSource \<Rightarrow> ('h, u32) action"
  mh_insert_event_labels :: "u32 \<Rightarrow> u32 \<Rightarrow> EventMessage list \<Rightarrow> ('h, unit) action"
  mh_insert_model :: "bytes \<Rightarrow> ('h, u32) action"
  mh_insert_time_series :: "TimeSeriesUpdate list \<Rightarrow> u32 \<Rightarrow> i64 \<Rightarrow> ('h, unit) action"
  mh_remove_model :: "string \<Rightarrow> ('h, unit) action"
  mh_renew_certificate :: "string \<Rightarrow> ('h, (string \<times> string)) action"
  mh_update_clusters :: "UpdateClusterRequest list \<Rightarrow> u32 \<Rightarrow> ('h, unit) action"
  mh_update_model :: "bytes \<Rightarrow> ('h, u32) action"
  mh_update_outliers :: "OutlierInfo list \<Rightarrow> u32 \<Rightarrow> i64 \<Rightarrow> ('h, unit) action"
  mh_update_host_ports :: "string \<Rightarrow> (IpAddr \<rightharpoonup> (u16 \<times> u8 \<rightharpoonup> u32)) \<Rightarrow> ('h, unit) action"
  mh_update_host_user_agents :: "string \<Rightarrow> (IpAddr \<times> UserAgent list \<times> string list) list \<Rightarrow> ('h, unit) action"
  mh_upload_run_model :: "string \<Rightarrow> u32 \<Rightarrow> bytes \<Rightarrow> ('h, unit) action"
  mh_report_run :: "string \<Rightarrow> u32 \<Rightarrow> ReportedRunState \<Rightarrow> string option \<Rightarrow> ('h, unit) action"
  mh_report_active_runs :: "string \<Rightarrow> u32 list \<Rightarrow> ('h, unit) action"
  mh_report_detector_status :: "string \<Rightarrow> DetectorStatusReport \<Rightarrow> ('h, unit) action"

text \<open>Every method of the trait defaults to the error \<open>not supported\<close>.\<close>

definition server_Handler_default :: "'h server_Handler" where
  "server_Handler_default =
     \<lparr>mh_report_customer_data_deletion = (\<lambda>_. not_supported),
      mh_get_allowlist = (\<lambda>_. not_supported),
      mh_get_blocklist = (\<lambda>_. not_supported),
      mh_get_config = (\<lambda>_. not_supported),
      mh_get_data_source = (\<lambda>_. not_supported),
      mh_get_indicator = (\<lambda>_. not_supported),
      mh_get_internal_network_list = (\<lambda>_. not_supported),
      mh_get_model = (\<lambda>_. not_supported),
      mh_get_model_names = not_supported,
      mh_get_outliers = (\<lambda>_ _. not_supported),
      mh_get_pretrained_model = (\<lambda>_. not_supported),
      mh_get_sampling_policy_list = (\<lambda>_. not_supported),
      mh_get_labeldb_patterns = (\<lambda>_. not_supported),
      mh_get_tor_exit_node_list = not_supported,
      mh_get_trusted_domain_list = not_supported,
      mh_get_trusted_user_agent_list = not_supported,
      mh_insert_column_statistics = (\<lambda>_ _ _. not_supported),
      mh_insert_data_source = (\<lambda>_. not_supported),
      mh_insert_event_labels = (\<lambda>_ _ _. not_supported),
      mh_insert_model = (\<lambda>_. not_supported),
      mh_insert_time_series = (\<lambda>_ _ _. not_supported),
      mh_remove_model = (\<lambda>_. not_supported),
      mh_renew_certificate = (\<lambda>_. not_supported),
      mh_update_clusters = (\<lambda>_ _. not_supported),
      mh_update_model = (\<lambda>_. not_supported),
      mh_update_outliers = (\<lambda>_ _ _. not_supported),
      mh_update_host_ports = (\<lambda>_ _. not_supported),
      mh_update_host_user_agents = (\<lambda>_ _. not_supported),
      mh_upload_run_model = (\<lambda>_ _ _. not_supported),
      mh_report_run = (\<lambda>_ _ _ _. not_supported),
      mh_report_active_runs = (\<lambda>_ _. not_supported),
      mh_report_detector_status = (\<lambda>_ _. not_supported)\<rparr>"

subsection \<open>The pieces of an arm\<close>

type_synonym ('h, 's, 'r) served =
  "(('h, 's, 'r) session, (IoError + (u32 \<times> bytes) option) \<times> ('h, 's, 'r) session) flow"

text \<open>\<open>send_response(...).await?\<close> of a handler's result.\<close>

definition sv_respond ::
  "('s, 'x) server_io \<Rightarrow> ('a \<Rightarrow> server_reply) \<Rightarrow> ('h, 'a) action \<Rightarrow> ('h, 's, 'r) session
   \<Rightarrow> ('h, 's, 'r) served" where
  "sv_respond io reply f s =
     (case call_handler f s of (result, s) \<Rightarrow>
      case srv_send_response io (se_send s) (map_ok reply result) of
        (Err e, send) \<Rightarrow> Leave (Err e, s\<lparr>se_send := send\<rparr>)
      | (Ok _, send) \<Rightarrow> Again (s\<lparr>se_send := send\<rparr>))"

text \<open>\<open>parse_args(body)?\<close>, classified where the source classifies.\<close>

definition with_args ::
  "(bytes \<Rightarrow> IoError + 'a) \<Rightarrow> ProtocolErrorKind option \<Rightarrow> bytes \<Rightarrow> ('h, 's, 'r) session
   \<Rightarrow> ('a \<Rightarrow> ('h, 's, 'r) session \<Rightarrow> ('h, 's, 'r) served) \<Rightarrow> ('h, 's, 'r) served" where
  "with_args parse classify body s k =
     (case parse body of
        Ok args \<Rightarrow> k args s
      | Err e \<Rightarrow> Leave (Err (case classify of Some kind \<Rightarrow> from_io kind e | None \<Rightarrow> e), s))"

definition refuse_unknown ::
  "('s, 'x) server_io \<Rightarrow> ('h, 's, 'r) session \<Rightarrow> ('h, 's, 'r) served" where
  "refuse_unknown io s =
     (case srv_send_frame io (se_send s) (Err ''unknown request code'') of
        (Err e, send) \<Rightarrow> Leave (Err e, s\<lparr>se_send := send\<rparr>)
      | (Ok _, send) \<Rightarrow>
          Leave (Err (IoError_new_dispatch EK_InvalidData
                   (DispatchError_new PEK_NotSupported ''unknown request code'')),
                 s\<lparr>se_send := send\<rparr>))"

definition deny ::
  "('s, 'x) server_io \<Rightarrow> AuthorizationError \<Rightarrow> ('h, 's, 'r) session \<Rightarrow> ('h, 's, 'r) served" where
  "deny io e s =
     (case srv_send_response io (se_send s) (Err ''authorization denied'') of
        (Err e', send) \<Rightarrow> Leave (Err e', s\<lparr>se_send := send\<rparr>)
      | (Ok _, send) \<Rightarrow>
          Leave (Err (IoError_new_dispatch EK_PermissionDenied
                   (DispatchError_new (AuthorizationError_kind e) (AuthorizationError_fmt e))),
                 s\<lparr>se_send := send\<rparr>))"

subsection \<open>\<open>handle_authorized_with_context\<close>\<close>

definition context_arm ::
  "('s, 'r) server_io \<Rightarrow> server_args \<Rightarrow> 'h server_Handler \<Rightarrow> string \<Rightarrow> u32 \<Rightarrow> bytes
   \<Rightarrow> ('h, 's, 'r) session \<Rightarrow> ('h, 's, 'r) served" where
  "context_arm io A H peer_name code body s =
     (case server_code_from code of
        SC_GetAllowlist \<Rightarrow>
          with_args (sarg_unit A) None body s (\<lambda>_.
            sv_respond io SReply_NetworkGroup (mh_get_allowlist H peer_name))
      | SC_GetBlocklist \<Rightarrow>
          with_args (sarg_unit A) None body s (\<lambda>_.
            sv_respond io SReply_NetworkGroup (mh_get_blocklist H peer_name))
      | SC_GetDataSource \<Rightarrow>
          with_args (sarg_data_source_key A) None body s (\<lambda>data_source_key.
            sv_respond io SReply_DataSource (mh_get_data_source H data_source_key))
      | SC_GetIndicator \<Rightarrow>
          with_args (sarg_string A) None body s (\<lambda>name.
            sv_respond io SReply_Indicator (mh_get_indicator H name))
      | SC_GetModel \<Rightarrow>
          with_args (sarg_string A) (Some PEK_InvalidArgs) body s (\<lambda>name.
            sv_respond io SReply_Bytes (mh_get_model H name))
      | SC_GetModelNames \<Rightarrow>
          with_args (sarg_unit A) None body s (\<lambda>_.
            sv_respond io SReply_Strings (mh_get_model_names H))
      | SC_GetLabelDbPatterns \<Rightarrow>
          with_args (sarg_name_pairs A) None body s (\<lambda>db_names.
            sv_respond io SReply_LabelDbs (mh_get_labeldb_patterns H db_names))
      | SC_GetTorExitNodeList \<Rightarrow>
          with_args (sarg_unit A) None body s (\<lambda>_.
            sv_respond io SReply_Strings (mh_get_tor_exit_node_list H))
      | SC_GetTrustedDomainList \<Rightarrow>
          with_args (sarg_unit A) None body s (\<lambda>_.
            sv_respond io SReply_Strings (mh_get_trusted_domain_list H))
      | SC_GetTrustedUserAgentList \<Rightarrow>
          with_args (sarg_unit A) None body s (\<lambda>_.
            sv_respond io SReply_Strings (mh_get_trusted_user_agent_list H))
      | SC_GetConfig \<Rightarrow>
          with_args (sarg_unit A) None body s (\<lambda>_.
            sv_respond io SReply_String (mh_get_config H peer_name))
      | SC_GetInternalNetworkList \<Rightarrow>
          with_args (sarg_unit A) None body s (\<lambda>_.
            sv_respond io SReply_NetworkGroup (mh_get_internal_network_list H peer_name))
      | SC_GetOutliers \<Rightarrow>
          with_args (sarg_u32_i64 A) (Some PEK_InvalidArgs) body s (\<lambda>(model_id, timestamp).
            sv_respond io SReply_Outliers (mh_get_outliers H model_id timestamp))
      | SC_GetPretrainedModel \<Rightarrow>
          with_args (sarg_string A) None body s (\<lambda>name.
            sv_respond io SReply_Bytes (mh_get_pretrained_model H name))
      | SC_GetSamplingPolicyList \<Rightarrow>
          with_args (sarg_unit A) None body s (\<lambda>_.
            sv_respond io SReply_SamplingPolicies (mh_get_sampling_policy_list H peer_name))
      | SC_InsertColumnStatistics \<Rightarrow>
          with_args (sarg_column_statistics A) None body s (\<lambda>(statistics, model_id, batch_ts).
            sv_respond io (\<lambda>_. SReply_Unit) (mh_insert_column_statistics H statistics model_id batch_ts))
      | SC_InsertDataSource \<Rightarrow>
          with_args (sarg_data_source A) None body s (\<lambda>data_source.
            sv_respond io SReply_U32 (mh_insert_data_source H data_source))
      | SC_InsertEventLabels \<Rightarrow>
          with_args (sarg_event_labels A) None body s (\<lambda>(model_id, round, event_labels).
            sv_respond io (\<lambda>_. SReply_Unit) (mh_insert_event_labels H model_id round event_labels))
      | SC_InsertModel \<Rightarrow>
          with_args (sarg_bytes A) None body s (\<lambda>body.
            sv_respond io SReply_U32 (mh_insert_model H body))
      | SC_InsertTimeSeries \<Rightarrow>
          with_args (sarg_time_series A) None body s (\<lambda>(time_series, model_id, batch_ts).
            sv_respond io (\<lambda>_. SReply_Unit) (mh_insert_time_series H time_series model_id batch_ts))
      | SC_RemoveModel \<Rightarrow>
          with_args (sarg_string A) None body s (\<lambda>name.
            sv_respond io (\<lambda>_. SReply_Unit) (mh_remove_model H name))
      | SC_RenewCertificate \<Rightarrow> sv_respond io SReply_Certificate (mh_renew_certificate H peer_name) s
      | SC_ReportCustomerDataDeletion \<Rightarrow>
          with_args (sarg_deletion_report A) None body s (\<lambda>report.
            sv_respond io (\<lambda>_. SReply_Unit) (mh_report_customer_data_deletion H report))
      | SC_UpdateClusters \<Rightarrow>
          with_args (sarg_clusters A) None body s (\<lambda>(input, model_id).
            sv_respond io (\<lambda>_. SReply_Unit) (mh_update_clusters H input model_id))
      | SC_UpdateModel \<Rightarrow>
          with_args (sarg_bytes A) None body s (\<lambda>body.
            sv_respond io SReply_U32 (mh_update_model H body))
      | SC_UpdateOutliers \<Rightarrow>
          with_args (sarg_outliers A) None body s (\<lambda>(outliers, model_id, timestamp).
            sv_respond io (\<lambda>_. SReply_Unit) (mh_update_outliers H outliers model_id timestamp))
      | SC_UpdateHostOpenedPorts \<Rightarrow>
          with_args (sarg_host_ports A) None body s (\<lambda>hosts.
            sv_respond io (\<lambda>_. SReply_Unit) (mh_update_host_ports H peer_name hosts))
      | SC_UpdateHostOsAgents \<Rightarrow>
          with_args (sarg_host_agents A) None body s (\<lambda>hosts.
            sv_respond io (\<lambda>_. SReply_Unit) (mh_update_host_user_agents H peer_name hosts))
      | SC_UploadRunModel \<Rightarrow>
          with_args (sarg_run_model A) None body s (\<lambda>(run_id, model).
            sv_respond io (\<lambda>_. SReply_Unit) (mh_upload_run_model H peer_name run_id model))
      | SC_ReportRun \<Rightarrow>
          with_args (sarg_run_report A) None body s (\<lambda>(run_id, state, reason).
            sv_respond io (\<lambda>_. SReply_Unit) (mh_report_run H peer_name run_id state reason))
      | SC_ReportActiveRuns \<Rightarrow>
          with_args (sarg_u32s A) None body s (\<lambda>run_ids.
            sv_respond io (\<lambda>_. SReply_Unit) (mh_report_active_runs H peer_name run_ids))
      | SC_ReportDetectorStatus \<Rightarrow>
          with_args (sarg_detector_status A) None body s (\<lambda>report.
            sv_respond io (\<lambda>_. SReply_Unit) (mh_report_detector_status H peer_name report))
      | SC_Unknown \<Rightarrow> refuse_unknown io s
      | _ \<Rightarrow> Leave (Ok (Some (code, body)), s))"

definition handle_authorized_with_context_step ::
  "('s, 'r) server_io \<Rightarrow> server_args \<Rightarrow> 'h server_Handler \<Rightarrow> AuthorizationContext \<Rightarrow> authorizer_v2
   \<Rightarrow> ('h, 's, 'r) session \<Rightarrow> ('h, 's, 'r) served option" where
  "handle_authorized_with_context_step io A H auth_ctx authorizer s = Some
     (case srv_recv_request io (se_recv s) of
        (Err e, recv) \<Rightarrow>
          Leave (if io_kind e = EK_UnexpectedEof then Ok None else Err e, s\<lparr>se_recv := recv\<rparr>)
      | (Ok (code, body), recv) \<Rightarrow>
          let s = s\<lparr>se_recv := recv\<rparr>;
              denied = (case from_server_request_code (server_code_from code) of
                          None \<Rightarrow> None
                        | Some service_id \<Rightarrow>
                            (case authorizer auth_ctx service_id of Err e \<Rightarrow> Some e | Ok _ \<Rightarrow> None))
          in (case denied of
                Some e \<Rightarrow> deny io e s
              | None \<Rightarrow> context_arm io A H (pid_name (ac_peer_identity auth_ctx)) code body s))"

definition handle_authorized_with_context ::
  "('s, 'r) server_io \<Rightarrow> server_args \<Rightarrow> 'h server_Handler \<Rightarrow> AuthorizationContext \<Rightarrow> authorizer_v2
   \<Rightarrow> ('h, 's, 'r) session
   \<Rightarrow> ((IoError + (u32 \<times> bytes) option) \<times> ('h, 's, 'r) session) option" where
  "handle_authorized_with_context io A H auth_ctx authorizer = iterate (handle_authorized_with_context_step io A H auth_ctx authorizer)"

subsection \<open>\<open>handle_authorized\<close>\<close>

definition authorized_arm ::
  "('s, 'r) server_io \<Rightarrow> server_args \<Rightarrow> 'h server_Handler \<Rightarrow> string \<Rightarrow> u32 \<Rightarrow> bytes
   \<Rightarrow> ('h, 's, 'r) session \<Rightarrow> ('h, 's, 'r) served" where
  "authorized_arm io A H peer_name code body s =
     (case server_code_from code of
        SC_GetAllowlist \<Rightarrow>
          with_args (sarg_unit A) None body s (\<lambda>_.
            sv_respond io SReply_NetworkGroup (mh_get_allowlist H peer_name))
      | SC_GetBlocklist \<Rightarrow>
          with_args (sarg_unit A) None body s (\<lambda>_.
            sv_respond io SReply_NetworkGroup (mh_get_blocklist H peer_name))
      | SC_GetDataSource \<Rightarrow>
          with_args (sarg_data_source_key A) None body s (\<lambda>data_source_key.
            sv_respond io SReply_DataSource (mh_get_data_source H data_source_key))
      | SC_GetIndicator \<Rightarrow>
          with_args (sarg_string A) None body s (\<lambda>name.
            sv_respond io SReply_Indicator (mh_get_indicator H name))
      | SC_GetModel \<Rightarrow>
          with_args (sarg_string A) (Some PEK_InvalidArgs) body s (\<lambda>name.
            sv_respond io SReply_Bytes (mh_get_model H name))
      | SC_GetModelNames \<Rightarrow>
          with_args (sarg_unit A) None body s (\<lambda>_.
            sv_respond io SReply_Strings (mh_get_model_names H))
      | SC_GetLabelDbPatterns \<Rightarrow>
          with_args (sarg_name_pairs A) None body s (\<lambda>db_names.
            sv_respond io SReply_LabelDbs (mh_get_labeldb_patterns H db_names))
      | SC_GetTorExitNodeList \<Rightarrow>
          with_args (sarg_unit A) None body s (\<lambda>_.
            sv_respond io SReply_Strings (mh_get_tor_exit_node_list H))
      | SC_GetTrustedDomainList \<Rightarrow>
          with_args (sarg_unit A) None body s (\<lambda>_.
            sv_respond io SReply_Strings (mh_get_trusted_domain_list H))
      | SC_GetTrustedUserAgentList \<Rightarrow>
          with_args (sarg_unit A) None body s (\<lambda>_.
            sv_respond io SReply_Strings (mh_get_trusted_user_agent_list H))
      | SC_GetConfig \<Rightarrow>
          with_args (sarg_unit A) None body s (\<lambda>_.
            sv_respond io SReply_String (mh_get_config H peer_name))
      | SC_GetInternalNetworkList \<Rightarrow>
          with_args (sarg_unit A) None body s (\<lambda>_.
            sv_respond io SReply_NetworkGroup (mh_get_internal_network_list H peer_name))
      | SC_GetOutliers \<Rightarrow>
          with_args (sarg_u32_i64 A) (Some PEK_InvalidArgs) body s (\<lambda>(model_id, timestamp).
            sv_respond io SReply_Outliers (mh_get_outliers H model_id timestamp))
      | SC_GetPretrainedModel \<Rightarrow>
          with_args (sarg_string A) None body s (\<lambda>name.
            sv_respond io SReply_Bytes (mh_get_pretrained_model H name))
      | SC_GetSamplingPolicyList \<Rightarrow>
          with_args (sarg_unit A) None body s (\<lambda>_.
            sv_respond io SReply_SamplingPolicies (mh_get_sampling_policy_list H peer_name))
      | SC_InsertColumnStatistics \<Rightarrow>
          with_args (sarg_column_statistics A) None body s (\<lambda>(statistics, model_id, batch_ts).
            sv_respond io (\<lambda>_. SReply_Unit) (mh_insert_column_statistics H statistics model_id batch_ts))
      | SC_InsertDataSource \<Rightarrow>
          with_args (sarg_data_source A) None body s (\<lambda>data_source.
            sv_respond io SReply_U32 (mh_insert_data_source H data_source))
      | SC_InsertEventLabels \<Rightarrow>
          with_args (sarg_event_labels A) None body s (\<lambda>(model_id, round, event_labels).
            sv_respond io (\<lambda>_. SReply_Unit) (mh_insert_event_labels H model_id round event_labels))
      | SC_InsertModel \<Rightarrow>
          with_args (sarg_bytes A) None body s (\<lambda>body.
            sv_respond io SReply_U32 (mh_insert_model H body))
      | SC_InsertTimeSeries \<Rightarrow>
          with_args (sarg_time_series A) None body s (\<lambda>(time_series, model_id, batch_ts).
            sv_respond io (\<lambda>_. SReply_Unit) (mh_insert_time_series H time_series model_id batch_ts))
      | SC_RemoveModel \<Rightarrow>
          with_args (sarg_string A) None body s (\<lambda>name.
            sv_respond io (\<lambda>_. SReply_Unit) (mh_remove_model H name))
      | SC_RenewCertificate \<Rightarrow> sv_respond io SReply_Certificate (mh_renew_certificate H peer_name) s
      | SC_ReportCustomerDataDeletion \<Rightarrow>
          with_args (sarg_deletion_report A) None body s (\<lambda>report.
            sv_respond io (\<lambda>_. SReply_Unit) (mh_report_customer_data_deletion H report))
      | SC_UpdateClusters \<Rightarrow>
          with_args (sarg_clusters A) None body s (\<lambda>(input, model_id).
            sv_respond io (\<lambda>_. SReply_Unit) (mh_update_clusters H input model_id))
      | SC_UpdateModel \<Rightarrow>
          with_args (sarg_bytes A) None body s (\<lambda>body.
            sv_respond io SReply_U32 (mh_update_model H body))
      | SC_UpdateOutliers \<Rightarrow>
          with_args (sarg_outliers A) None body s (\<lambda>(outliers, model_id, timestamp).
            sv_respond io (\<lambda>_. SReply_Unit) (mh_update_outliers H outliers model_id timestamp))
      | SC_UpdateHostOpenedPorts \<Rightarrow>
          with_args (sarg_host_ports A) None body s (\<lambda>hosts.
            sv_respond io (\<lambda>_. SReply_Unit) (mh_update_host_ports H peer_name hosts))
      | SC_UpdateHostOsAgents \<Rightarrow>
          with_args (sarg_host_agents A) None body s (\<lambda>hosts.
            sv_respond io (\<lambda>_. SReply_Unit) (mh_update_host_user_agents H peer_name hosts))
      | SC_UploadRunModel \<Rightarrow>
          with_args (sarg_run_model A) None body s (\<lambda>(run_id, model).
            sv_respond io (\<lambda>_. SReply_Unit) (mh_upload_run_model H peer_name run_id model))
      | SC_ReportRun \<Rightarrow>
          with_args (sarg_run_report A) None body s (\<lambda>(run_id, state, reason).
            sv_respond io (\<lambda>_. SReply_Unit) (mh_report_run H peer_name run_id state reason))
      | SC_ReportActiveRuns \<Rightarrow>
          with_args (sarg_u32s A) None body s (\<lambda>run_ids.
            sv_respond io (\<lambda>_. SReply_Unit) (mh_report_active_runs H peer_name run_ids))
      | SC_ReportDetectorStatus \<Rightarrow>
          with_args (sarg_detector_status A) None body s (\<lambda>report.
            sv_respond io (\<lambda>_. SReply_Unit) (mh_report_detector_status H peer_name report))
      | SC_Unknown \<Rightarrow> refuse_unknown io s
      | _ \<Rightarrow> Leave (Ok (Some (code, body)), s))"

definition handle_authorized_step ::
  "('s, 'r) server_io \<Rightarrow> server_args \<Rightarrow> 'h server_Handler \<Rightarrow> PeerContext \<Rightarrow> authorizer
   \<Rightarrow> ('h, 's, 'r) session \<Rightarrow> ('h, 's, 'r) served option" where
  "handle_authorized_step io A H peer authorizer s = Some
     (case srv_recv_request io (se_recv s) of
        (Err e, recv) \<Rightarrow>
          Leave (if io_kind e = EK_UnexpectedEof then Ok None else Err e, s\<lparr>se_recv := recv\<rparr>)
      | (Ok (code, body), recv) \<Rightarrow>
          let s = s\<lparr>se_recv := recv\<rparr>;
              denied = (case from_server_request_code (server_code_from code) of
                          None \<Rightarrow> None
                        | Some service_id \<Rightarrow>
                            (case authorizer peer service_id of Err e \<Rightarrow> Some e | Ok _ \<Rightarrow> None))
          in (case denied of
                Some e \<Rightarrow> deny io e s
              | None \<Rightarrow> authorized_arm io A H (pc_name peer) code body s))"

definition handle_authorized ::
  "('s, 'r) server_io \<Rightarrow> server_args \<Rightarrow> 'h server_Handler \<Rightarrow> PeerContext \<Rightarrow> authorizer
   \<Rightarrow> ('h, 's, 'r) session
   \<Rightarrow> ((IoError + (u32 \<times> bytes) option) \<times> ('h, 's, 'r) session) option" where
  "handle_authorized io A H peer authorizer = iterate (handle_authorized_step io A H peer authorizer)"

subsection \<open>\<open>handle\<close>\<close>

definition server_handle ::
  "('s, 'r) server_io \<Rightarrow> server_args \<Rightarrow> 'h server_Handler \<Rightarrow> string \<Rightarrow> ('h, 's, 'r) session
   \<Rightarrow> ((IoError + (u32 \<times> bytes) option) \<times> ('h, 's, 'r) session) option" where
  "server_handle io A H peer =
     (let peer_ctx = PeerContext_new peer in handle_authorized io A H peer_ctx NoopAuthorizer)"

end
