(* ===== verification/Server_Dispatch.thy ===== *)
theory Server_Dispatch
  imports Server_Handler
begin

text \<open>
  The properties of the manager's dispatch: the two authorized entry points are one function
  of what the authorizer decides, a denial reaches no handler, every served request gets one
  answer, what is not served is returned or refused, and the loops end.
\<close>

subsection \<open>The two copies of the match\<close>

lemma arms_agree: "context_arm io A H peer_name code body s = authorized_arm io A H peer_name code body s"
  unfolding context_arm_def authorized_arm_def by (rule refl)

lemma step_agrees:
  assumes "\<And>s. authorizer_v2 ctx s = authorizer p s" and "pid_name (ac_peer_identity ctx) = pc_name p"
  shows "handle_authorized_with_context_step io A H ctx authorizer_v2 =
         handle_authorized_step io A H p authorizer"
  using assms
  by (intro ext)
    (simp add: handle_authorized_with_context_step_def handle_authorized_step_def arms_agree Let_def
      split: prod.split sum.split option.split)

lemma peer_name_kept [simp]:
  "pid_name (ac_peer_identity (from_authenticated_inputs p k r m a)) = pc_name p"
  by (simp add: from_authenticated_inputs_def PeerIdentity_from_def)

context context_authorizer
begin

lemma dispatch_same:
  "handle_authorized_with_context io A H (from_authenticated_inputs p k r m a) authorize_v2 s =
   handle_authorized io A H p authorize s"
proof -
  have "handle_authorized_with_context_step io A H (from_authenticated_inputs p k r m a) authorize_v2 =
      handle_authorized_step io A H p authorize"
    by (rule step_agrees) (simp_all add: decides_for_peer)
  then show ?thesis
    by (simp add: handle_authorized_with_context_def handle_authorized_def)
qed

end

text \<open>
  C14. Moving to the context-based entry point behind the adapter changes nothing: for every
  peer authorizer, every peer and whatever roles, kind, metadata and attributes the context
  adds, the two dispatch loops call the handler alike, send the same frames, read the same
  requests and return the same result, or both never return.
\<close>

theorem adapter_preserves_dispatch:
  "handle_authorized_with_context io A H (from_authenticated_inputs p k r m a)
     (authorize_with_context (AuthorizerV2Adapter_new authorizer)) s =
   handle_authorized io A H p authorizer s"
  by (rule adapter.dispatch_same)

subsection \<open>Denials\<close>

text \<open>
  C13. A denied request never reaches the handler: for every code that names a service, when the
  authorizer refuses the peer, the handler's state is untouched, the only thing sent is one
  \<open>authorization denied\<close> answer that does not carry the reason, and once it is sent the
  caller gets a permission error that classifies as forbidden and does carry the reason.
\<close>

theorem denied_request_never_served:
  assumes request: "srv_recv_request io (se_recv s) = (Ok (code, body), recv)"
    and service: "from_server_request_code (server_code_from code) = Some service_id"
    and denial: "authorizer p service_id = Err e"
  shows "\<exists>err s'. handle_authorized io A H p authorizer s = Some (Err err, s')
      \<and> s' = s\<lparr>se_recv := recv,
                se_send := snd (srv_send_response io (se_send s) (Err ''authorization denied''))\<rparr>
      \<and> (fst (srv_send_response io (se_send s) (Err ''authorization denied'')) = Ok () \<longrightarrow>
           io_kind err = EK_PermissionDenied \<and> of_io_error err = PEK_Forbidden
           \<and> IoError_to_string err = ''authorization denied: '' @ ae_reason e)"
proof -
  obtain res send where sent:
      "srv_send_response io (se_send s) (Err ''authorization denied'') = (res, send)"
    by fastforce
  let ?err = "case res of Err e' \<Rightarrow> e'
    | Ok _ \<Rightarrow> IoError_new_dispatch EK_PermissionDenied
        (DispatchError_new (AuthorizationError_kind e) (AuthorizationError_fmt e))"
  have "handle_authorized_step io A H p authorizer s =
      Some (Leave (Err ?err, s\<lparr>se_recv := recv, se_send := send\<rparr>))"
    using assms sent
    by (cases res) (simp_all add: handle_authorized_step_def deny_def)
  then have "handle_authorized io A H p authorizer s =
      Some (Err ?err, s\<lparr>se_recv := recv, se_send := send\<rparr>)"
    unfolding handle_authorized_def by (rule iterate_Leave)
  then show ?thesis
    using sent
    by (intro exI [of _ ?err] exI [of _ "s\<lparr>se_recv := recv, se_send := send\<rparr>"])
      (auto simp: AuthorizationError_kind_def of_authorization_error_def AuthorizationError_fmt_def
        IoError_to_string_def IoError_new_dispatch_def DispatchError_new_def DispatchError_fmt_def
        of_io_error_def protocol_kind_def)
qed

text \<open>
  Without an authorizer nothing is denied: \<open>handle\<close> behaves as the authorized loop does
  under any authorizer that grants this peer every service, and of the peer only its name
  matters.
\<close>

lemma handle_is_fully_granted:
  assumes "\<And>service_id. authorizer p service_id = Ok ()"
  shows "server_handle io A H (pc_name p) s = handle_authorized io A H p authorizer s"
proof -
  have "handle_authorized_step io A H (PeerContext_new (pc_name p)) NoopAuthorizer t =
      handle_authorized_step io A H p authorizer t" for t
    using assms
    by (simp add: handle_authorized_step_def NoopAuthorizer_def PeerContext_new_def Let_def
        split: prod.split sum.split option.split)
  then have "handle_authorized_step io A H (PeerContext_new (pc_name p)) NoopAuthorizer =
      handle_authorized_step io A H p authorizer"
    by (rule ext)
  then show ?thesis
    by (simp add: server_handle_def handle_authorized_def)
qed

subsection \<open>Requests that are not served\<close>

definition caller_served :: "server_RequestCode list" where
  "caller_served = [SC_GetMaxEventIdNum, SC_RemoveOutliers, SC_GetDataSourceList]"

text \<open>What the authorizer says of the service a request code names.\<close>

definition denial_of :: "PeerContext \<Rightarrow> authorizer \<Rightarrow> u32 \<Rightarrow> AuthorizationError option" where
  "denial_of p authorizer code =
     (case from_server_request_code (server_code_from code) of
        None \<Rightarrow> None
      | Some service_id \<Rightarrow> (case authorizer p service_id of Err e \<Rightarrow> Some e | Ok _ \<Rightarrow> None))"

lemma request_round:
  assumes "srv_recv_request io (se_recv s) = (Ok (code, body), recv)"
  shows "handle_authorized_step io A H p authorizer s = Some
    (case denial_of p authorizer code of
       Some e \<Rightarrow> deny io e (s\<lparr>se_recv := recv\<rparr>)
     | None \<Rightarrow> authorized_arm io A H (pc_name p) code body (s\<lparr>se_recv := recv\<rparr>))"
  using assms by (simp add: handle_authorized_step_def denial_of_def Let_def)

lemma deny_leaves: "\<exists>out. deny io e s = Leave out"
  by (simp add: deny_def split: prod.split sum.split)

lemma denied_round:
  assumes "srv_recv_request io (se_recv s) = (Ok (code, body), recv)" and "denial_of p authorizer code = Some e"
    and "fst (srv_send_response io (se_send s) (Err ''authorization denied'')) = Ok ()"
  shows "\<exists>err. handle_authorized io A H p authorizer s =
      Some (Err err, s\<lparr>se_recv := recv,
        se_send := snd (srv_send_response io (se_send s) (Err ''authorization denied''))\<rparr>)
    \<and> of_io_error err = PEK_Forbidden"
proof -
  let ?err = "IoError_new_dispatch EK_PermissionDenied
    (DispatchError_new (AuthorizationError_kind e) (AuthorizationError_fmt e))"
  have "handle_authorized io A H p authorizer s = Some (Err ?err, s\<lparr>se_recv := recv,
      se_send := snd (srv_send_response io (se_send s) (Err ''authorization denied''))\<rparr>)"
    unfolding handle_authorized_def
    by (rule iterate_Leave)
      (use assms in \<open>auto simp: request_round deny_def split: prod.split sum.split\<close>)
  then show ?thesis
    by (intro exI [of _ ?err]) (simp add: AuthorizationError_kind_def of_authorization_error_def)
qed

text \<open>
  C37. What the manager does not serve is settled at once. A code that is not assigned is
  refused on the wire before any authorizer could be asked and reported as not supported. Each
  of the three codes the dispatcher leaves to its caller names a service of its own: when the
  authorizer grants it, the request is returned with its body, unanswered and without the
  handler; when it does not, the request is answered with a denial and not returned.
\<close>

theorem unserved_requests_settled:
  assumes request: "srv_recv_request io (se_recv s) = (Ok (code, body), recv)"
    and sends: "\<And>m. fst (srv_send_frame io (se_send s) m) = Ok ()"
      "\<And>m. fst (srv_send_response io (se_send s) m) = Ok ()"
  shows "(server_code_from code = SC_Unknown \<longrightarrow>
      (\<exists>err. handle_authorized io A H p authorizer s =
           Some (Err err, s\<lparr>se_recv := recv,
             se_send := snd (srv_send_frame io (se_send s) (Err ''unknown request code''))\<rparr>)
         \<and> of_io_error err = PEK_NotSupported \<and> io_kind err = EK_InvalidData))
    \<and> (server_code_from code \<in> set caller_served \<longrightarrow>
        (\<exists>service_id. from_server_request_code (server_code_from code) = Some service_id
         \<and> (if authorizer p service_id = Ok ()
            then handle_authorized io A H p authorizer s = Some (Ok (Some (code, body)), s\<lparr>se_recv := recv\<rparr>)
            else \<exists>err. handle_authorized io A H p authorizer s =
                 Some (Err err, s\<lparr>se_recv := recv,
                   se_send := snd (srv_send_response io (se_send s) (Err ''authorization denied''))\<rparr>)
               \<and> of_io_error err = PEK_Forbidden)))"
proof (intro conjI impI)
  assume unknown: "server_code_from code = SC_Unknown"
  let ?err = "IoError_new_dispatch EK_InvalidData
    (DispatchError_new PEK_NotSupported ''unknown request code'')"
  have "handle_authorized io A H p authorizer s = Some (Err ?err, s\<lparr>se_recv := recv,
      se_send := snd (srv_send_frame io (se_send s) (Err ''unknown request code''))\<rparr>)"
    unfolding handle_authorized_def
    by (rule iterate_Leave)
      (use request unknown sends(1) [of "Err ''unknown request code''"] in
        \<open>auto simp: request_round denial_of_def authorized_arm_def refuse_unknown_def split: prod.split sum.split\<close>)
  then show "\<exists>err. handle_authorized io A H p authorizer s =
           Some (Err err, s\<lparr>se_recv := recv,
             se_send := snd (srv_send_frame io (se_send s) (Err ''unknown request code''))\<rparr>)
         \<and> of_io_error err = PEK_NotSupported \<and> io_kind err = EK_InvalidData"
    by (intro exI [of _ ?err]) simp
next
  assume mine: "server_code_from code \<in> set caller_served"
  then obtain service_id where sid: "from_server_request_code (server_code_from code) = Some service_id"
    by (auto simp: caller_served_def)
  have "handle_authorized io A H p authorizer s = Some (Ok (Some (code, body)), s\<lparr>se_recv := recv\<rparr>)"
    if "authorizer p service_id = Ok ()"
    unfolding handle_authorized_def
    by (rule iterate_Leave)
      (use request mine sid that in
        \<open>auto simp: request_round denial_of_def authorized_arm_def caller_served_def\<close>)
  moreover have "\<exists>err. handle_authorized io A H p authorizer s =
      Some (Err err, s\<lparr>se_recv := recv,
        se_send := snd (srv_send_response io (se_send s) (Err ''authorization denied''))\<rparr>)
      \<and> of_io_error err = PEK_Forbidden"
    if "authorizer p service_id \<noteq> Ok ()"
  proof -
    from that obtain e where "authorizer p service_id = Err e" by (cases "authorizer p service_id") auto
    with sid show ?thesis
      by (intro denied_round [OF request _ sends(2), of p authorizer e]) (simp add: denial_of_def)
  qed
  ultimately show "\<exists>service_id. from_server_request_code (server_code_from code) = Some service_id
      \<and> (if authorizer p service_id = Ok ()
         then handle_authorized io A H p authorizer s = Some (Ok (Some (code, body)), s\<lparr>se_recv := recv\<rparr>)
         else \<exists>err. handle_authorized io A H p authorizer s =
              Some (Err err, s\<lparr>se_recv := recv,
                se_send := snd (srv_send_response io (se_send s) (Err ''authorization denied''))\<rparr>)
            \<and> of_io_error err = PEK_Forbidden)"
    using sid by (intro exI [of _ service_id]) simp
qed

subsection \<open>Undecodable arguments\<close>

text \<open>
  The type the arguments of each code are sent at, as the failure of its decoder; a renewal has
  no arguments, and the body of a code left to the caller is the caller's.
\<close>

fun sargs_error :: "server_args \<Rightarrow> server_RequestCode \<Rightarrow> bytes \<Rightarrow> IoError option" where
  "sargs_error A SC_GetAllowlist = parse_error (sarg_unit A)"
| "sargs_error A SC_GetBlocklist = parse_error (sarg_unit A)"
| "sargs_error A SC_GetDataSource = parse_error (sarg_data_source_key A)"
| "sargs_error A SC_GetIndicator = parse_error (sarg_string A)"
| "sargs_error A SC_GetModel = parse_error (sarg_string A)"
| "sargs_error A SC_GetModelNames = parse_error (sarg_unit A)"
| "sargs_error A SC_GetLabelDbPatterns = parse_error (sarg_name_pairs A)"
| "sargs_error A SC_GetTorExitNodeList = parse_error (sarg_unit A)"
| "sargs_error A SC_GetTrustedDomainList = parse_error (sarg_unit A)"
| "sargs_error A SC_GetTrustedUserAgentList = parse_error (sarg_unit A)"
| "sargs_error A SC_GetConfig = parse_error (sarg_unit A)"
| "sargs_error A SC_GetInternalNetworkList = parse_error (sarg_unit A)"
| "sargs_error A SC_GetOutliers = parse_error (sarg_u32_i64 A)"
| "sargs_error A SC_GetPretrainedModel = parse_error (sarg_string A)"
| "sargs_error A SC_GetSamplingPolicyList = parse_error (sarg_unit A)"
| "sargs_error A SC_InsertColumnStatistics = parse_error (sarg_column_statistics A)"
| "sargs_error A SC_InsertDataSource = parse_error (sarg_data_source A)"
| "sargs_error A SC_InsertEventLabels = parse_error (sarg_event_labels A)"
| "sargs_error A SC_InsertModel = parse_error (sarg_bytes A)"
| "sargs_error A SC_InsertTimeSeries = parse_error (sarg_time_series A)"
| "sargs_error A SC_RemoveModel = parse_error (sarg_string A)"
| "sargs_error A SC_ReportCustomerDataDeletion = parse_error (sarg_deletion_report A)"
| "sargs_error A SC_UpdateClusters = parse_error (sarg_clusters A)"
| "sargs_error A SC_UpdateModel = parse_error (sarg_bytes A)"
| "sargs_error A SC_UpdateOutliers = parse_error (sarg_outliers A)"
| "sargs_error A SC_UpdateHostOpenedPorts = parse_error (sarg_host_ports A)"
| "sargs_error A SC_UpdateHostOsAgents = parse_error (sarg_host_agents A)"
| "sargs_error A SC_UploadRunModel = parse_error (sarg_run_model A)"
| "sargs_error A SC_ReportRun = parse_error (sarg_run_report A)"
| "sargs_error A SC_ReportActiveRuns = parse_error (sarg_u32s A)"
| "sargs_error A SC_ReportDetectorStatus = parse_error (sarg_detector_status A)"
| "sargs_error A _ = (\<lambda>_. None)"

definition sargs_refusal :: "server_RequestCode \<Rightarrow> IoError \<Rightarrow> IoError" where
  "sargs_refusal c e = (if c \<in> {SC_GetModel, SC_GetOutliers} then from_io PEK_InvalidArgs e else e)"

lemma sarm_refuses:
  assumes "sargs_error A (server_code_from code) body = Some e"
  shows "authorized_arm io A H peer code body s =
    Leave (Err (sargs_refusal (server_code_from code) e), s)"
  using assms unfolding authorized_arm_def sargs_refusal_def
  by (cases "server_code_from code") (simp_all add: with_args_def)

text \<open>
  C20. A granted request whose arguments cannot be decoded never reaches the manager's handler:
  the dispatch returns the decoder's error, for models and outliers classified as invalid
  arguments, with the handler's state and the sending half as they were and no further request
  read. Without a grant the arguments are not looked at: a denial comes first.
\<close>

theorem undecodable_manager_args:
  assumes request: "srv_recv_request io (se_recv s) = (Ok (code, body), recv)"
    and error: "sargs_error A (server_code_from code) body = Some e"
  shows "(denial_of p authorizer code = None \<longrightarrow>
      handle_authorized io A H p authorizer s =
        Some (Err (sargs_refusal (server_code_from code) e), s\<lparr>se_recv := recv\<rparr>))
    \<and> server_handle io A H peer s =
        Some (Err (sargs_refusal (server_code_from code) e), s\<lparr>se_recv := recv\<rparr>)
    \<and> (server_code_from code \<in> {SC_GetModel, SC_GetOutliers} \<longrightarrow>
        of_io_error (sargs_refusal (server_code_from code) e) = PEK_InvalidArgs)
    \<and> (denial_of p authorizer code \<noteq> None \<longrightarrow>
        handle_authorized io A' H p authorizer s = handle_authorized io A H p authorizer s)"
proof -
  have refused: "handle_authorized io A H q a s =
      Some (Err (sargs_refusal (server_code_from code) e), s\<lparr>se_recv := recv\<rparr>)"
    if "denial_of q a code = None" for q a
    unfolding handle_authorized_def
    by (rule iterate_Leave) (simp add: request_round [OF request] that sarm_refuses [OF error])
  moreover have "denial_of q NoopAuthorizer code = None" for q
    by (simp add: denial_of_def NoopAuthorizer_def split: option.split)
  moreover have "handle_authorized io A' H p authorizer s = handle_authorized io A H p authorizer s"
    if "denial_of p authorizer code = Some err" for err
    using deny_leaves [of io err "s\<lparr>se_recv := recv\<rparr>"]
    by (auto simp: handle_authorized_def request_round [OF request] that iterate_Leave)
  ultimately show ?thesis
    by (auto simp: server_handle_def Let_def sargs_refusal_def from_io_def)
qed

subsection \<open>One answer for each served request\<close>

text \<open>A sending half whose frames all reach a log.\<close>

definition sv_logged :: "('s, 'r) server_io \<Rightarrow> ('s \<Rightarrow> (string + server_reply) list) \<Rightarrow> bool" where
  "sv_logged io log \<longleftrightarrow>
     (\<forall>s m. fst (srv_send_response io s m) = Ok ()
            \<and> log (snd (srv_send_response io s m)) = log s @ [m])
     \<and> (\<forall>s m. fst (srv_send_frame io s m) = Ok ()
              \<and> log (snd (srv_send_frame io s m)) = log s @ [map_ok (\<lambda>_. SReply_Unit) m])"

text \<open>
  What a round left behind: one frame when it goes on; when it leaves, an untouched handler
  and no frame on success, at most one refusal on an error.
\<close>

definition round_settled ::
  "('s \<Rightarrow> (string + server_reply) list) \<Rightarrow> ('h, 's, 'r) session \<Rightarrow> ('h, 's, 'r) served \<Rightarrow> bool" where
  "round_settled log s fl \<longleftrightarrow>
     (case fl of
        Again s' \<Rightarrow> (\<exists>m. log (se_send s') = log (se_send s) @ [m])
      | Leave (res, s') \<Rightarrow>
          se_handler s' = se_handler s
          \<and> (case res of
               Ok _ \<Rightarrow> se_send s' = se_send s
             | Err _ \<Rightarrow> se_send s' = se_send s
                 \<or> (\<exists>e. log (se_send s') = log (se_send s) @ [Err e])))"

lemma sv_loggedD:
  assumes "sv_logged io log"
  obtains s1 where "srv_send_response io s m = (Ok (), s1)" "log s1 = log s @ [m]"
  using assms unfolding sv_logged_def by (metis prod.collapse)

lemma sv_logged_frameD:
  assumes "sv_logged io log"
  obtains s1 where "srv_send_frame io s m = (Ok (), s1)" "log s1 = log s @ [map_ok (\<lambda>_. SReply_Unit) m]"
  using assms unfolding sv_logged_def by (metis prod.collapse)

lemma respond_settled:
  assumes "sv_logged io log"
  shows "round_settled log s (sv_respond io reply f s)"
proof -
  obtain res h where f: "f (se_handler s) = (res, h)" by fastforce
  obtain s1 where "srv_send_response io (se_send s) (map_ok reply res) = (Ok (), s1)"
      "log s1 = log (se_send s) @ [map_ok reply res]"
    using sv_loggedD [OF assms] by blast
  with f show ?thesis
    by (simp add: round_settled_def sv_respond_def call_handler_def)
qed

lemma with_args_settled:
  "(\<And>a. round_settled log s (k a s)) \<Longrightarrow> round_settled log s (with_args parse classify body s k)"
  by (simp add: with_args_def round_settled_def split: sum.split)

lemma refuse_settled:
  assumes "sv_logged io log"
  shows "round_settled log s (refuse_unknown io s)"
proof -
  obtain s1 where "srv_send_frame io (se_send s) (Err ''unknown request code'') = (Ok (), s1)"
      "log s1 = log (se_send s) @ [Err ''unknown request code'']"
    using sv_logged_frameD [OF assms, of "se_send s" "Err ''unknown request code''"] by auto
  then show ?thesis by (simp add: round_settled_def refuse_unknown_def)
qed

lemma deny_settled:
  assumes "sv_logged io log"
  shows "round_settled log s (deny io e s)"
proof -
  obtain s1 where "srv_send_response io (se_send s) (Err ''authorization denied'') = (Ok (), s1)"
      "log s1 = log (se_send s) @ [Err ''authorization denied'']"
    using sv_loggedD [OF assms] by blast
  then show ?thesis by (simp add: round_settled_def deny_def)
qed

lemma arm_settled:
  assumes "sv_logged io log"
  shows "round_settled log s (authorized_arm io A H peer code body s)"
  unfolding authorized_arm_def
  by (cases "server_code_from code")
    (simp_all add: respond_settled [OF assms] with_args_settled refuse_settled [OF assms]
      round_settled_def [of log s "Leave (Ok (Some (code, body)), s)"] split: prod.split)

lemma request_settled:
  assumes "sv_logged io log" and "srv_recv_request io (se_recv s) = (Ok (code, body), r)"
    and "handle_authorized_step io A H p authorizer s = Some fl"
  shows "round_settled log s fl"
proof -
  have "round_settled log (s\<lparr>se_recv := r\<rparr>) fl"
    using assms by (auto simp: request_round arm_settled deny_settled split: option.splits)
  then show ?thesis
    by (cases fl) (auto simp: round_settled_def split: prod.splits sum.splits)
qed

text \<open>
  C22. On a sending half that works, each round of the manager's dispatch that goes on sent
  exactly one answer, and a round that ends the session left the handler alone: with the end of
  the stream or a request for the caller nothing is sent, and with an error, whether a denial,
  an unassigned code or arguments that do not decode, at most one refusal is.
\<close>

theorem server_rounds_settled:
  assumes "sv_logged io log" and "handle_authorized_step io A H p authorizer s = Some fl"
  shows "round_settled log s fl"
proof (cases "srv_recv_request io (se_recv s)")
  case (Pair res r)
  with assms show ?thesis
    by (cases res) (auto simp: handle_authorized_step_def round_settled_def dest: request_settled)
qed

subsection \<open>The loops end\<close>

text \<open>
  A round takes one request off the stream, and leaves without an error only with that request
  for its caller.
\<close>

definition takes_one :: "u32 \<times> bytes \<Rightarrow> ('h, 's, 'r) session \<Rightarrow> ('h, 's, 'r) served \<Rightarrow> bool" where
  "takes_one rq s fl \<longleftrightarrow>
     (case fl of
        Again s' \<Rightarrow> se_recv s' = se_recv s
      | Leave (res, s') \<Rightarrow> se_recv s' = se_recv s \<and> (\<forall>x. res = Ok x \<longrightarrow> x = Some rq))"

lemma respond_takes: "takes_one rq s (sv_respond io reply f s)"
  by (simp add: takes_one_def sv_respond_def call_handler_def split: prod.split sum.split)

lemma with_args_takes:
  "(\<And>a. takes_one rq s (k a s)) \<Longrightarrow> takes_one rq s (with_args parse classify body s k)"
  by (simp add: takes_one_def with_args_def split: sum.split)

lemma refuse_takes: "takes_one rq s (refuse_unknown io s)"
  by (simp add: takes_one_def refuse_unknown_def split: prod.split sum.split)

lemma deny_takes: "takes_one rq s (deny io e s)"
  by (simp add: takes_one_def deny_def split: prod.split sum.split)

lemma arm_takes: "takes_one (code, body) s (authorized_arm io A H peer code body s)"
  unfolding authorized_arm_def
  by (cases "server_code_from code")
    (simp_all add: respond_takes with_args_takes refuse_takes
      takes_one_def [of _ _ "Leave (Ok (Some (code, body)), s)"] split: prod.split)

lemma round_takes:
  assumes "srv_recv_request io (se_recv s) = (Ok rq, r)" and "handle_authorized_step io A H p authorizer s = Some fl"
  shows "takes_one rq (s\<lparr>se_recv := r\<rparr>) fl"
  using assms by (cases rq) (auto simp: request_round arm_takes deny_takes split: option.splits)

lemma authorized_loop:
  assumes "finite_backlog (srv_recv_request io) \<mu>"
  shows "loop_variant (handle_authorized_step io A H p authorizer) (\<lambda>_. True) (\<lambda>s. \<mu> (se_recv s))"
proof (rule loop_variant.intro)
  fix s s'
  assume step: "handle_authorized_step io A H p authorizer s = Some (Again s')"
  then obtain rq r where rq: "srv_recv_request io (se_recv s) = (Ok rq, r)"
    by (auto simp: handle_authorized_step_def split: prod.splits sum.splits)
  have "se_recv s' = r"
    using round_takes [OF rq step] by (simp add: takes_one_def)
  then show "\<mu> (se_recv s') < \<mu> (se_recv s)"
    using finite_backlogD(1) [OF assms rq] by simp
qed (simp_all add: handle_authorized_step_def)

text \<open>
  C38. The manager's dispatch returns on every stream with a finite backlog, under every
  authorizer and handler: with the next request for its caller, with nothing at the end of the
  stream, or with an error.
\<close>

theorem server_loop_returns:
  assumes "finite_backlog (srv_recv_request io) \<mu>"
  shows "(\<exists>out. handle_authorized io A H p authorizer s = Some out)
    \<and> (\<exists>out. server_handle io A H peer s = Some out)
    \<and> (\<forall>e r. srv_recv_request io (se_recv s) = (Err e, r) \<and> io_kind e = EK_UnexpectedEof \<longrightarrow>
         handle_authorized io A H p authorizer s = Some (Ok None, s\<lparr>se_recv := r\<rparr>)
         \<and> server_handle io A H peer s = Some (Ok None, s\<lparr>se_recv := r\<rparr>))"
proof -
  have ret: "\<exists>out. handle_authorized io A H p authorizer s = Some out" for p authorizer
    unfolding handle_authorized_def
    by (rule loop_variant.returns [OF authorized_loop [OF assms]]) simp
  have "handle_authorized io A H q a s = Some (Ok None, s\<lparr>se_recv := r\<rparr>)"
    if "srv_recv_request io (se_recv s) = (Err e, r)" "io_kind e = EK_UnexpectedEof" for e r q a
    unfolding handle_authorized_def
    by (rule iterate_Leave) (use that in \<open>simp add: handle_authorized_step_def\<close>)
  with ret show ?thesis
    by (auto simp: server_handle_def)
qed

subsection \<open>A whole session\<close>






subsection \<open>Instances\<close>

definition quiet_handler :: "nat server_Handler" where
  "quiet_handler = server_Handler_default"

fun pull_request :: "(u32 \<times> bytes) list \<Rightarrow> (IoError + u32 \<times> bytes) \<times> (u32 \<times> bytes) list" where
  "pull_request [] = (Err (IoError_from EK_UnexpectedEof), [])"
| "pull_request (r # rs) = (Ok r, rs)"

definition list_server_io :: "((string + server_reply) list, (u32 \<times> bytes) list) server_io" where
  "list_server_io =
     \<lparr>srv_recv_request = pull_request,
      srv_send_response = (\<lambda>s m. (Ok (), s @ [m])),
      srv_send_frame = (\<lambda>s m. (Ok (), s @ [map_ok (\<lambda>_. SReply_Unit) m]))\<rparr>"

definition rejecting_server_args :: server_args where
  "rejecting_server_args =
     \<lparr>sarg_unit = (\<lambda>_. Err (IoError_from EK_InvalidData)),
      sarg_data_source_key = (\<lambda>_. Err (IoError_from EK_InvalidData)),
      sarg_string = (\<lambda>_. Err (IoError_from EK_InvalidData)),
      sarg_name_pairs = (\<lambda>_. Err (IoError_from EK_InvalidData)),
      sarg_u32_i64 = (\<lambda>_. Err (IoError_from EK_InvalidData)),
      sarg_column_statistics = (\<lambda>_. Err (IoError_from EK_InvalidData)),
      sarg_data_source = (\<lambda>_. Err (IoError_from EK_InvalidData)),
      sarg_event_labels = (\<lambda>_. Err (IoError_from EK_InvalidData)),
      sarg_bytes = (\<lambda>_. Err (IoError_from EK_InvalidData)),
      sarg_time_series = (\<lambda>_. Err (IoError_from EK_InvalidData)),
      sarg_deletion_report = (\<lambda>_. Err (IoError_from EK_InvalidData)),
      sarg_clusters = (\<lambda>_. Err (IoError_from EK_InvalidData)),
      sarg_outliers = (\<lambda>_. Err (IoError_from EK_InvalidData)),
      sarg_host_ports = (\<lambda>_. Err (IoError_from EK_InvalidData)),
      sarg_host_agents = (\<lambda>_. Err (IoError_from EK_InvalidData)),
      sarg_run_model = (\<lambda>_. Err (IoError_from EK_InvalidData)),
      sarg_run_report = (\<lambda>_. Err (IoError_from EK_InvalidData)),
      sarg_u32s = (\<lambda>_. Err (IoError_from EK_InvalidData)),
      sarg_detector_status = (\<lambda>_. Err (IoError_from EK_InvalidData))\<rparr>"

definition server_session ::
  "(u32 \<times> bytes) list \<Rightarrow> (nat, (string + server_reply) list, (u32 \<times> bytes) list) session" where
  "server_session rs = \<lparr>se_handler = 0, se_send = [], se_recv = rs\<rparr>"

lemma list_server_logged: "sv_logged list_server_io id"
  by (simp add: sv_logged_def list_server_io_def)

lemma list_server_backlog: "finite_backlog (srv_recv_request list_server_io) length"
  unfolding finite_backlog_def
proof
  show "case srv_recv_request list_server_io r of
      (Ok _, r') \<Rightarrow> length r' < length r | (Err _, r') \<Rightarrow> length r' \<le> length r" for r
    by (cases r) (simp_all add: list_server_io_def)
qed

theorem denied_request_never_served_witness:
  "\<exists>err s'. handle_authorized list_server_io rejecting_server_args quiet_handler
       (PeerContext_new ''agent'') (\<lambda>_ _. Err (AuthorizationError_new ''no''))
       (server_session [(server_code_into SC_GetConfig, [])]) = Some (Err err, s')
     \<and> se_send s' = [Err ''authorization denied''] \<and> of_io_error err = PEK_Forbidden"
proof -
  have "srv_recv_request list_server_io (se_recv (server_session [(server_code_into SC_GetConfig, [])])) =
      (Ok (server_code_into SC_GetConfig, []), [])"
    by (simp add: list_server_io_def server_session_def)
  moreover have "from_server_request_code (server_code_from (server_code_into SC_GetConfig)) =
      Some SERVER_CONFIG_GET"
    by (simp only: server_code_round from_server_request_code.simps)
  ultimately show ?thesis
    using denied_request_never_served [where authorizer = "\<lambda>_ _. Err (AuthorizationError_new ''no'')"
        and p = "PeerContext_new ''agent''" and io = list_server_io and A = rejecting_server_args
        and H = quiet_handler]
    by (fastforce simp: list_server_io_def server_session_def)
qed

lemma handle_is_fully_granted_instance:
  "server_handle list_server_io rejecting_server_args quiet_handler ''agent'' (server_session [(7, [])]) =
   handle_authorized list_server_io rejecting_server_args quiet_handler
     \<lparr>pc_name = ''agent'', pc_subject = Some ''CN'', pc_fingerprint = None\<rparr> (\<lambda>_ _. Ok ())
     (server_session [(7, [])])"
  using handle_is_fully_granted
    [of "\<lambda>_ _. Ok ()" "\<lparr>pc_name = ''agent'', pc_subject = Some ''CN'', pc_fingerprint = None\<rparr>"
      list_server_io rejecting_server_args quiet_handler "server_session [(7, [])]"]
  by simp

theorem unserved_requests_settled_witness:
  "handle_authorized list_server_io rejecting_server_args quiet_handler (PeerContext_new ''agent'')
     (\<lambda>_ _. Ok ()) (server_session [(server_code_into SC_RemoveOutliers, [1])]) =
   Some (Ok (Some (server_code_into SC_RemoveOutliers, [1])), server_session [])"
proof -
  let ?s = "server_session [(server_code_into SC_RemoveOutliers, [1])]"
  have "srv_recv_request list_server_io (se_recv ?s) = (Ok (server_code_into SC_RemoveOutliers, [1]), [])"
    by (simp add: list_server_io_def server_session_def)
  moreover have "fst (srv_send_frame list_server_io (se_send ?s) m) = Ok ()"
      "fst (srv_send_response list_server_io (se_send ?s) m') = Ok ()" for m m'
    by (simp_all add: list_server_io_def)
  ultimately have "server_code_from (server_code_into SC_RemoveOutliers) \<in> set caller_served \<longrightarrow>
      handle_authorized list_server_io rejecting_server_args quiet_handler (PeerContext_new ''agent'')
        (\<lambda>_ _. Ok ()) ?s =
      Some (Ok (Some (server_code_into SC_RemoveOutliers, [1])), ?s\<lparr>se_recv := []\<rparr>)"
    using unserved_requests_settled [of list_server_io ?s "server_code_into SC_RemoveOutliers" "[1]" "[]"
        rejecting_server_args quiet_handler "PeerContext_new ''agent''" "\<lambda>_ _. Ok ()"]
    by auto
  moreover have "server_code_from (server_code_into SC_RemoveOutliers) \<in> set caller_served"
    unfolding server_code_round by (simp add: caller_served_def)
  ultimately show ?thesis by (simp add: server_session_def)
qed

theorem undecodable_manager_args_witness:
  "server_handle list_server_io rejecting_server_args quiet_handler ''agent''
     (server_session [(server_code_into SC_GetModel, [7]), (1, [])]) =
   Some (Err (from_io PEK_InvalidArgs (IoError_from EK_InvalidData)), server_session [(1, [])])"
proof -
  let ?s = "server_session [(server_code_into SC_GetModel, [7]), (1, [])]"
  have "srv_recv_request list_server_io (se_recv ?s) = (Ok (server_code_into SC_GetModel, [7]), [(1, [])])"
    by (simp add: list_server_io_def server_session_def)
  moreover have "sargs_error rejecting_server_args (server_code_from (server_code_into SC_GetModel)) [7] =
      Some (IoError_from EK_InvalidData)"
    unfolding server_code_round by (simp add: rejecting_server_args_def)
  ultimately have "server_handle list_server_io rejecting_server_args quiet_handler ''agent'' ?s =
      Some (Err (sargs_refusal (server_code_from (server_code_into SC_GetModel)) (IoError_from EK_InvalidData)),
        ?s\<lparr>se_recv := [(1, [])]\<rparr>)"
    using undecodable_manager_args [of list_server_io ?s "server_code_into SC_GetModel" "[7]" "[(1, [])]"
        rejecting_server_args "IoError_from EK_InvalidData"] by blast
  then show ?thesis
    unfolding server_code_round sargs_refusal_def by (simp add: server_session_def)
qed

theorem server_rounds_settled_witness:
  "sv_logged list_server_io id
   \<and> round_settled id (server_session [(server_code_into SC_RenewCertificate, [])])
       (Again ((server_session [])\<lparr>se_send := [Err ''not supported'']\<rparr>))"
proof -
  have "handle_authorized_step list_server_io rejecting_server_args quiet_handler
      (PeerContext_new ''agent'') NoopAuthorizer
      (server_session [(server_code_into SC_RenewCertificate, [])]) =
    Some (Again ((server_session [])\<lparr>se_send := [Err ''not supported'']\<rparr>))"
    unfolding handle_authorized_step_def authorized_arm_def
    by (simp add: server_session_def list_server_io_def NoopAuthorizer_def
        server_code_round [of SC_RenewCertificate, simplified] sv_respond_def
        call_handler_def quiet_handler_def server_Handler_default_def not_supported_def)
  then show ?thesis
    using list_server_logged server_rounds_settled [OF list_server_logged] by blast
qed


theorem server_loop_returns_witness:
  "finite_backlog (srv_recv_request list_server_io) length
   \<and> (\<exists>out. server_handle list_server_io rejecting_server_args quiet_handler ''agent''
              (server_session [(23, []), (36, [])]) = Some out)"
  using list_server_backlog server_loop_returns [OF list_server_backlog] by blast

end
