(* ===== verification/Manager_Connection.thy ===== *)
theory Manager_Connection
  imports Client_Api Server_Dispatch
begin

text \<open>
  The agent's calls of \<open>src/src/client/api.rs\<close> joined to the manager's dispatch of
  \<open>src/src/server/handler.rs\<close>: a connection on which each stream is served by
  \<open>handle_authorized\<close>. What the calls rely on of such a connection is the locale
  \<open>manager_connection\<close>: a request is sent as a frame the manager takes apart, and an answer
  the manager sent is received at its type. In it every call is a call of the manager's method.
\<close>

subsection \<open>A connection served by the manager\<close>

text \<open>The manager reads the frames the agent sent; at their end it sees the end of the stream.\<close>

definition frame_server_io ::
  "('f \<Rightarrow> (u32 \<times> bytes) option) \<Rightarrow> ((string + server_reply) list, 'f list) server_io" where
  "frame_server_io sp =
     \<lparr>srv_recv_request = (\<lambda>fs. case fs of
        [] \<Rightarrow> (Err (IoError_from EK_UnexpectedEof), fs)
      | f # fs \<Rightarrow> (case sp f of
           Some request \<Rightarrow> (Ok request, fs)
         | None \<Rightarrow> (Err (IoError_from EK_InvalidData), fs))),
      srv_send_response = (\<lambda>s m. (Ok (), s @ [m])),
      srv_send_frame = (\<lambda>s m. (Ok (), s @ [map_ok (\<lambda>_. SReply_Unit) m]))\<rparr>"

text \<open>
  The connection is the state of the manager's handler; a stream is that state and the requests
  sent on it. What the manager did is its run over those requests.
\<close>

definition manager_run ::
  "('f \<Rightarrow> (u32 \<times> bytes) option) \<Rightarrow> server_args \<Rightarrow> 'h server_Handler \<Rightarrow> PeerContext \<Rightarrow> authorizer
   \<Rightarrow> 'h \<times> 'f list
   \<Rightarrow> ((IoError + (u32 \<times> bytes) option) \<times> ('h, (string + server_reply) list, 'f list) session) option" where
  "manager_run sp A H p authorizer st =
     handle_authorized (frame_server_io sp) A H p authorizer
       \<lparr>se_handler = fst st, se_send = [], se_recv = snd st\<rparr>"

text \<open>
  A receiver reads the manager's answer, when it is one the connection can carry, at the type
  of \<open>reply\<close>.
\<close>

definition answers_as ::
  "('f \<Rightarrow> (u32 \<times> bytes) option) \<Rightarrow> server_args \<Rightarrow> 'h server_Handler \<Rightarrow> PeerContext \<Rightarrow> authorizer
   \<Rightarrow> (string + server_reply \<Rightarrow> bool) \<Rightarrow> ('a \<Rightarrow> server_reply)
   \<Rightarrow> ('h \<times> 'f list \<Rightarrow> (IoError + (string + 'a)) \<times> 'h \<times> 'f list) \<Rightarrow> bool" where
  "answers_as sp A H p authorizer good reply rd \<longleftrightarrow>
     (\<forall>st out s m. manager_run sp A H p authorizer st = Some (out, s)
        \<and> se_send s = [map_ok reply m] \<and> good (map_ok reply m)
        \<longrightarrow> rd st = (Ok m, se_handler s, se_recv s))"

lemma answers_asD:
  "answers_as sp A H p authorizer good reply rd \<Longrightarrow> manager_run sp A H p authorizer st = Some (out, s) \<Longrightarrow>
     se_send s = [map_ok reply m] \<Longrightarrow> good (map_ok reply m) \<Longrightarrow> rd st = (Ok m, se_handler s, se_recv s)"
  unfolding answers_as_def by blast

text \<open>The manager decodes a payload to what the agent encoded: bincode's round trip.\<close>

fun decodes :: "(client_payload \<Rightarrow> bytes) \<Rightarrow> server_args \<Rightarrow> client_payload \<Rightarrow> bool" where
  "decodes enc A CPay_Unit \<longleftrightarrow> sarg_unit A (enc CPay_Unit) = Ok ()"
| "decodes enc A (CPay_DataSourceKey x) \<longleftrightarrow> sarg_data_source_key A (enc (CPay_DataSourceKey x)) = Ok x"
| "decodes enc A (CPay_String x) \<longleftrightarrow> sarg_string A (enc (CPay_String x)) = Ok x"
| "decodes enc A (CPay_NamePairs x) \<longleftrightarrow> sarg_name_pairs A (enc (CPay_NamePairs x)) = Ok x"
| "decodes enc A (CPay_U32I64 x) \<longleftrightarrow> sarg_u32_i64 A (enc (CPay_U32I64 x)) = Ok x"
| "decodes enc A (CPay_ColumnStatistics x) \<longleftrightarrow> sarg_column_statistics A (enc (CPay_ColumnStatistics x)) = Ok x"
| "decodes enc A (CPay_DataSource x) \<longleftrightarrow> sarg_data_source A (enc (CPay_DataSource x)) = Ok x"
| "decodes enc A (CPay_EventLabels x) \<longleftrightarrow> sarg_event_labels A (enc (CPay_EventLabels x)) = Ok x"
| "decodes enc A (CPay_Bytes x) \<longleftrightarrow> sarg_bytes A (enc (CPay_Bytes x)) = Ok x"
| "decodes enc A (CPay_TimeSeries x) \<longleftrightarrow> sarg_time_series A (enc (CPay_TimeSeries x)) = Ok x"
| "decodes enc A (CPay_DeletionReport x) \<longleftrightarrow> sarg_deletion_report A (enc (CPay_DeletionReport x)) = Ok x"
| "decodes enc A (CPay_Clusters x) \<longleftrightarrow> sarg_clusters A (enc (CPay_Clusters x)) = Ok x"
| "decodes enc A (CPay_Outliers x) \<longleftrightarrow> sarg_outliers A (enc (CPay_Outliers x)) = Ok x"
| "decodes enc A (CPay_HostPorts x) \<longleftrightarrow> sarg_host_ports A (enc (CPay_HostPorts x)) = Ok x"
| "decodes enc A (CPay_HostAgents x) \<longleftrightarrow> sarg_host_agents A (enc (CPay_HostAgents x)) = Ok x"
| "decodes enc A (CPay_RunModel x) \<longleftrightarrow> sarg_run_model A (enc (CPay_RunModel x)) = Ok x"
| "decodes enc A (CPay_RunReport x) \<longleftrightarrow> sarg_run_report A (enc (CPay_RunReport x)) = Ok x"
| "decodes enc A (CPay_U32s x) \<longleftrightarrow> sarg_u32s A (enc (CPay_U32s x)) = Ok x"
| "decodes enc A (CPay_DetectorStatus x) \<longleftrightarrow> sarg_detector_status A (enc (CPay_DetectorStatus x)) = Ok x"

text \<open>
  What a call should amount to: the handler's method, run once, with its error as an I/O error;
  on a denial, the denial and the handler untouched.
\<close>

definition remote ::
  "AuthorizationError + unit \<Rightarrow> ('h, 'a) action \<Rightarrow> 'h \<Rightarrow> (IoError + 'a) \<times> 'h" where
  "remote decision f h =
     (case decision of
        Err _ \<Rightarrow> (Err (IoError_other ''authorization denied''), h)
      | Ok _ \<Rightarrow> (case f h of (res, h) \<Rightarrow> (map_err IoError_other res, h)))"

subsection \<open>One request\<close>

declare server_code_into.simps [simp del]

lemma frame_server_io_simps [simp]:
  "srv_recv_request (frame_server_io sp) [] = (Err (IoError_from EK_UnexpectedEof), [])"
  "sp f = Some request \<Longrightarrow> srv_recv_request (frame_server_io sp) (f # fs) = (Ok request, fs)"
  "srv_send_response (frame_server_io sp) sent m = (Ok (), sent @ [m])"
  "srv_send_frame (frame_server_io sp) sent m' = (Ok (), sent @ [map_ok (\<lambda>_. SReply_Unit) m'])"
  by (simp_all add: frame_server_io_def)

lemma granted_step:
  assumes "from_server_request_code c = Some sid" and "authorizer p sid = Ok u"
    and "sp frame = Some (server_code_into c, body)"
    and "\<And>s. authorized_arm (frame_server_io sp) A H (pc_name p) (server_code_into c) body s =
              sv_respond (frame_server_io sp) reply f s"
  shows "handle_authorized_step (frame_server_io sp) A H p authorizer
      \<lparr>se_handler = h, se_send = sent, se_recv = frame # rest\<rparr> =
    Some (Again \<lparr>se_handler = snd (f h), se_send = sent @ [map_ok reply (fst (f h))], se_recv = rest\<rparr>)"
  using assms by (simp add: handle_authorized_step_def sv_respond_def call_handler_def split: prod.split)

lemma denied_step:
  assumes "from_server_request_code c = Some sid" and "authorizer p sid = Err e"
    and "sp frame = Some (server_code_into c, body)"
  shows "handle_authorized_step (frame_server_io sp) A H p authorizer
      \<lparr>se_handler = h, se_send = sent, se_recv = frame # rest\<rparr> =
    Some (Leave (Err (IoError_new_dispatch EK_PermissionDenied
                   (DispatchError_new (AuthorizationError_kind e) (AuthorizationError_fmt e))),
      \<lparr>se_handler = h, se_send = sent @ [Err ''authorization denied''], se_recv = rest\<rparr>))"
  using assms by (simp add: handle_authorized_step_def deny_def)

lemma ended_step:
  "handle_authorized_step (frame_server_io sp) A H p authorizer
      \<lparr>se_handler = h, se_send = sent, se_recv = []\<rparr> =
    Some (Leave (Ok None, \<lparr>se_handler = h, se_send = sent, se_recv = []\<rparr>))"
  by (simp add: handle_authorized_step_def IoError_from_def)

lemma served_once:
  assumes "from_server_request_code c = Some sid" and "sp frame = Some (server_code_into c, body)"
    and "\<And>s. authorized_arm (frame_server_io sp) A H (pc_name p) (server_code_into c) body s =
              sv_respond (frame_server_io sp) reply f s"
  shows "manager_run sp A H p authorizer (h, [frame]) =
    Some (case authorizer p sid of
        Err e \<Rightarrow> (Err (IoError_new_dispatch EK_PermissionDenied
                    (DispatchError_new (AuthorizationError_kind e) (AuthorizationError_fmt e))),
                 \<lparr>se_handler = h, se_send = [Err ''authorization denied''], se_recv = []\<rparr>)
      | Ok _ \<Rightarrow> (Ok None, \<lparr>se_handler = snd (f h), se_send = [map_ok reply (fst (f h))], se_recv = []\<rparr>))"
proof (cases "authorizer p sid")
  case (Inl e)
  from iterate_Leave [of "handle_authorized_step (frame_server_io sp) A H p authorizer", OF
      denied_step [where sp = sp and authorizer = authorizer and p = p, OF assms(1) Inl assms(2)]] Inl
  show ?thesis by (simp add: manager_run_def handle_authorized_def)
next
  case (Inr u)
  let ?step = "handle_authorized_step (frame_server_io sp) A H p authorizer"
  note again = iterate_Again [of ?step, OF granted_step [where sp = sp and authorizer = authorizer
      and p = p and f = f and reply = reply, OF assms(1) Inr assms(2,3)], of h "[]" "[]"]
  show ?thesis
    using Inr iterate_Leave [of ?step, OF ended_step [where sp = sp and authorizer = authorizer]]
    by (simp add: manager_run_def handle_authorized_def again)
qed

subsection \<open>What a call relies on\<close>

lemmas arm_opened = authorized_arm_def server_code_round with_args_def

locale manager_connection =
  fixes io :: "('h, 'h \<times> 'f list) client_io"
    and frame :: "u32 \<Rightarrow> bytes \<Rightarrow> 'f"
    and sp :: "'f \<Rightarrow> (u32 \<times> bytes) option"
    and enc :: "client_payload \<Rightarrow> bytes"
    and A :: server_args
    and H :: "'h server_Handler"
    and p :: PeerContext
    and authorizer :: authorizer
    and good :: "string + server_reply \<Rightarrow> bool"
  assumes opens: "cl_open_bi io h = (Ok (h, []), h)"
    and closes: "cl_close io h st = fst st"
    and sends: "cl_send_request io st code payload = (Ok (), fst st, snd st @ [frame code (enc payload)])"
    and splits: "sp (frame code b) = Some (code, b)"
    and denial: "good (Err ''authorization denied'')"
    and recv_unit: "answers_as sp A H p authorizer good (\<lambda>_. SReply_Unit) (cl_recv_unit io)"
    and recv_network_group: "answers_as sp A H p authorizer good SReply_NetworkGroup (cl_recv_network_group io)"
    and recv_string: "answers_as sp A H p authorizer good SReply_String (cl_recv_string io)"
    and recv_data_source: "answers_as sp A H p authorizer good SReply_DataSource (cl_recv_data_source io)"
    and recv_indicator: "answers_as sp A H p authorizer good SReply_Indicator (cl_recv_indicator io)"
    and recv_bytes: "answers_as sp A H p authorizer good SReply_Bytes (cl_recv_bytes io)"
    and recv_strings: "answers_as sp A H p authorizer good SReply_Strings (cl_recv_strings io)"
    and recv_outliers: "answers_as sp A H p authorizer good SReply_Outliers (cl_recv_outliers io)"
    and recv_sampling_policies: "answers_as sp A H p authorizer good SReply_SamplingPolicies (cl_recv_sampling_policies io)"
    and recv_label_dbs: "answers_as sp A H p authorizer good SReply_LabelDbs (cl_recv_label_dbs io)"
    and recv_u32: "answers_as sp A H p authorizer good SReply_U32 (cl_recv_u32 io)"
    and recv_certificate: "answers_as sp A H p authorizer good SReply_Certificate (cl_recv_certificate io)"
begin

lemma remote_call:
  assumes sid: "from_server_request_code c = Some sid"
    and arm: "\<And>s. authorized_arm (frame_server_io sp) A H (pc_name p) (server_code_into c) (enc payload) s =
              sv_respond (frame_server_io sp) reply f s"
    and rd: "answers_as sp A H p authorizer good reply rd" and ok: "good (map_ok reply (fst (f h)))"
  shows "client_call io rd c payload h = remote (authorizer p sid) f h"
proof -
  let ?st = "(h, [frame (server_code_into c) (enc payload)])"
  note run = served_once [OF sid splits arm, of authorizer h]
  have "rd ?st = (case authorizer p sid of
         Err _ \<Rightarrow> (Ok (Err ''authorization denied''), h, [])
       | Ok _ \<Rightarrow> (Ok (fst (f h)), snd (f h), []))"
  proof (cases "authorizer p sid")
    case (Inl e)
    with answers_asD [OF rd, of ?st _ _ "Err ''authorization denied''"] run denial show ?thesis by simp
  next
    case (Inr u)
    with answers_asD [OF rd, of ?st _ _ "fst (f h)"] run ok show ?thesis by simp
  qed
  then have "client_request io rd c payload h =
      (case authorizer p sid of
         Err _ \<Rightarrow> (Ok (Err ''authorization denied''), h)
       | Ok _ \<Rightarrow> (Ok (fst (f h)), snd (f h)))"
    by (simp add: client_request_def unary_request_def opens closes sends split: sum.split)
  then show ?thesis
    by (simp add: client_call_def remote_def split: sum.split prod.split)
qed

subsection \<open>Every call\<close>

lemma client_report_customer_data_deletion_served:
  assumes "decodes enc A (CPay_DeletionReport report)" and "good (map_ok (\<lambda>_. SReply_Unit) (fst (mh_report_customer_data_deletion H report h)))"
  shows "client_report_customer_data_deletion io report h =
      remote (authorizer p SERVER_CUSTOMER_DATA_DELETION_REPORT) (mh_report_customer_data_deletion H report) h"
  unfolding client_report_customer_data_deletion_def
  by (rule remote_call [OF _ _ recv_unit], simp, simp add: arm_opened assms(1) [simplified], rule assms(2))

lemma client_upload_run_model_served:
  assumes "decodes enc A (CPay_RunModel (run_id, model))" and "good (map_ok (\<lambda>_. SReply_Unit) (fst (mh_upload_run_model H (pc_name p) run_id model h)))"
  shows "client_upload_run_model io run_id model h =
      remote (authorizer p SERVER_RUN_UPLOAD_MODEL) (mh_upload_run_model H (pc_name p) run_id model) h"
  unfolding client_upload_run_model_def
  by (rule remote_call [OF _ _ recv_unit], simp, simp add: arm_opened assms(1) [simplified], rule assms(2))

lemma client_report_run_served:
  assumes "decodes enc A (CPay_RunReport (run_id, state, reason))" and "good (map_ok (\<lambda>_. SReply_Unit) (fst (mh_report_run H (pc_name p) run_id state reason h)))"
  shows "client_report_run io run_id state reason h =
      remote (authorizer p SERVER_RUN_REPORT) (mh_report_run H (pc_name p) run_id state reason) h"
  unfolding client_report_run_def
  by (rule remote_call [OF _ _ recv_unit], simp, simp add: arm_opened assms(1) [simplified], rule assms(2))

lemma client_report_active_runs_served:
  assumes "decodes enc A (CPay_U32s run_ids)" and "good (map_ok (\<lambda>_. SReply_Unit) (fst (mh_report_active_runs H (pc_name p) run_ids h)))"
  shows "client_report_active_runs io run_ids h =
      remote (authorizer p SERVER_RUN_REPORT_ACTIVE) (mh_report_active_runs H (pc_name p) run_ids) h"
  unfolding client_report_active_runs_def
  by (rule remote_call [OF _ _ recv_unit], simp, simp add: arm_opened assms(1) [simplified], rule assms(2))

lemma client_report_detector_status_served:
  assumes "decodes enc A (CPay_DetectorStatus report)" and "good (map_ok (\<lambda>_. SReply_Unit) (fst (mh_report_detector_status H (pc_name p) report h)))"
  shows "client_report_detector_status io report h =
      remote (authorizer p SERVER_DETECTOR_REPORT_STATUS) (mh_report_detector_status H (pc_name p) report) h"
  unfolding client_report_detector_status_def
  by (rule remote_call [OF _ _ recv_unit], simp, simp add: arm_opened assms(1) [simplified], rule assms(2))

lemma client_get_config_served:
  assumes "decodes enc A CPay_Unit" and "good (map_ok SReply_String (fst (mh_get_config H (pc_name p) h)))"
  shows "client_get_config io h =
      remote (authorizer p SERVER_CONFIG_GET) (mh_get_config H (pc_name p)) h"
  unfolding client_get_config_def
  by (rule remote_call [OF _ _ recv_string], simp, simp add: arm_opened assms(1) [simplified], rule assms(2))

lemma client_get_allowlist_served:
  assumes "decodes enc A CPay_Unit" and "good (map_ok SReply_NetworkGroup (fst (mh_get_allowlist H (pc_name p) h)))"
  shows "client_get_allowlist io h =
      remote (authorizer p SERVER_LIST_ALLOWLIST) (mh_get_allowlist H (pc_name p)) h"
  unfolding client_get_allowlist_def
  by (rule remote_call [OF _ _ recv_network_group], simp, simp add: arm_opened assms(1) [simplified], rule assms(2))

lemma client_get_blocklist_served:
  assumes "decodes enc A CPay_Unit" and "good (map_ok SReply_NetworkGroup (fst (mh_get_blocklist H (pc_name p) h)))"
  shows "client_get_blocklist io h =
      remote (authorizer p SERVER_LIST_BLOCKLIST) (mh_get_blocklist H (pc_name p)) h"
  unfolding client_get_blocklist_def
  by (rule remote_call [OF _ _ recv_network_group], simp, simp add: arm_opened assms(1) [simplified], rule assms(2))

lemma client_get_data_source_served:
  assumes "decodes enc A (CPay_DataSourceKey key)" and "good (map_ok SReply_DataSource (fst (mh_get_data_source H key h)))"
  shows "client_get_data_source io key h =
      (case remote (authorizer p SERVER_DATA_SOURCE_GET) (mh_get_data_source H key) h of
         (res, h) \<Rightarrow> (res_and_then res (\<lambda>res. case res of
            Some data_source \<Rightarrow> Ok data_source | None \<Rightarrow> Err (IoError_from EK_NotFound)), h))"
  unfolding client_get_data_source_def
  by (subst remote_call [OF _ _ recv_data_source], simp, simp add: arm_opened assms(1) [simplified], rule assms(2), rule refl)

lemma client_get_indicator_served:
  assumes "decodes enc A (CPay_String name)" and "good (map_ok SReply_Indicator (fst (mh_get_indicator H name h)))"
  shows "client_get_indicator io name h =
      remote (authorizer p SERVER_INDICATOR_GET) (mh_get_indicator H name) h"
  unfolding client_get_indicator_def
  by (rule remote_call [OF _ _ recv_indicator], simp, simp add: arm_opened assms(1) [simplified], rule assms(2))

lemma client_get_internal_network_list_served:
  assumes "decodes enc A CPay_Unit" and "good (map_ok SReply_NetworkGroup (fst (mh_get_internal_network_list H (pc_name p) h)))"
  shows "client_get_internal_network_list io h =
      remote (authorizer p SERVER_LIST_INTERNAL_NETWORK) (mh_get_internal_network_list H (pc_name p)) h"
  unfolding client_get_internal_network_list_def
  by (rule remote_call [OF _ _ recv_network_group], simp, simp add: arm_opened assms(1) [simplified], rule assms(2))

lemma client_get_labeldb_patterns_served:
  assumes "decodes enc A (CPay_NamePairs labeldbs)" and "good (map_ok SReply_LabelDbs (fst (mh_get_labeldb_patterns H labeldbs h)))"
  shows "client_get_labeldb_patterns io labeldbs h =
      remote (authorizer p SERVER_LABEL_GET_DB_PATTERNS) (mh_get_labeldb_patterns H labeldbs) h"
  unfolding client_get_labeldb_patterns_def
  by (rule remote_call [OF _ _ recv_label_dbs], simp, simp add: arm_opened assms(1) [simplified], rule assms(2))

lemma client_get_tor_exit_node_list_served:
  assumes "decodes enc A CPay_Unit" and "good (map_ok SReply_Strings (fst (mh_get_tor_exit_node_list H h)))"
  shows "client_get_tor_exit_node_list io h =
      remote (authorizer p SERVER_LIST_TOR_EXIT_NODE) (mh_get_tor_exit_node_list H) h"
  unfolding client_get_tor_exit_node_list_def
  by (rule remote_call [OF _ _ recv_strings], simp, simp add: arm_opened assms(1) [simplified], rule assms(2))

lemma client_get_trusted_domain_list_served:
  assumes "decodes enc A CPay_Unit" and "good (map_ok SReply_Strings (fst (mh_get_trusted_domain_list H h)))"
  shows "client_get_trusted_domain_list io h =
      remote (authorizer p SERVER_LIST_TRUSTED_DOMAIN) (mh_get_trusted_domain_list H) h"
  unfolding client_get_trusted_domain_list_def
  by (rule remote_call [OF _ _ recv_strings], simp, simp add: arm_opened assms(1) [simplified], rule assms(2))

lemma client_get_trusted_user_agent_list_served:
  assumes "decodes enc A CPay_Unit" and "good (map_ok SReply_Strings (fst (mh_get_trusted_user_agent_list H h)))"
  shows "client_get_trusted_user_agent_list io h =
      remote (authorizer p SERVER_LIST_TRUSTED_USER_AGENT) (mh_get_trusted_user_agent_list H) h"
  unfolding client_get_trusted_user_agent_list_def
  by (rule remote_call [OF _ _ recv_strings], simp, simp add: arm_opened assms(1) [simplified], rule assms(2))

lemma client_get_sampling_policy_list_served:
  assumes "decodes enc A CPay_Unit" and "good (map_ok SReply_SamplingPolicies (fst (mh_get_sampling_policy_list H (pc_name p) h)))"
  shows "client_get_sampling_policy_list io h =
      remote (authorizer p SERVER_LIST_SAMPLING_POLICY) (mh_get_sampling_policy_list H (pc_name p)) h"
  unfolding client_get_sampling_policy_list_def
  by (rule remote_call [OF _ _ recv_sampling_policies], simp, simp add: arm_opened assms(1) [simplified], rule assms(2))

lemma client_get_pretrained_model_served:
  assumes "decodes enc A (CPay_String name)" and "good (map_ok SReply_Bytes (fst (mh_get_pretrained_model H name h)))"
  shows "client_get_pretrained_model io name h =
      remote (authorizer p SERVER_MODEL_GET_PRETRAINED) (mh_get_pretrained_model H name) h"
  unfolding client_get_pretrained_model_def
  by (rule remote_call [OF _ _ recv_bytes], simp, simp add: arm_opened assms(1) [simplified], rule assms(2))

lemma client_renew_certificate_served:
  assumes "decodes enc A CPay_Unit" and "good (map_ok SReply_Certificate (fst (mh_renew_certificate H (pc_name p) h)))"
  shows "client_renew_certificate io h =
      remote (authorizer p SERVER_CERTIFICATE_RENEW) (mh_renew_certificate H (pc_name p)) h"
  unfolding client_renew_certificate_def
  by (rule remote_call [OF _ _ recv_certificate], simp, simp add: arm_opened assms(1) [simplified], rule assms(2))

lemma client_get_model_served:
  assumes "decodes enc A (CPay_String name)" and "good (map_ok SReply_Bytes (fst (mh_get_model H name h)))"
  shows "client_get_model io name h =
      remote (authorizer p SERVER_MODEL_GET) (mh_get_model H name) h"
  unfolding client_get_model_def
  by (rule remote_call [OF _ _ recv_bytes], simp, simp add: arm_opened assms(1) [simplified], rule assms(2))

lemma client_get_model_names_served:
  assumes "decodes enc A CPay_Unit" and "good (map_ok SReply_Strings (fst (mh_get_model_names H h)))"
  shows "client_get_model_names io h =
      remote (authorizer p SERVER_MODEL_GET_NAMES) (mh_get_model_names H) h"
  unfolding client_get_model_names_def
  by (rule remote_call [OF _ _ recv_strings], simp, simp add: arm_opened assms(1) [simplified], rule assms(2))

lemma client_insert_column_statistics_served:
  assumes "decodes enc A (CPay_ColumnStatistics (statistics, model_id, batch_ts))" and "good (map_ok (\<lambda>_. SReply_Unit) (fst (mh_insert_column_statistics H statistics model_id batch_ts h)))"
  shows "client_insert_column_statistics io statistics model_id batch_ts h =
      remote (authorizer p SERVER_STATISTICS_INSERT_COLUMN) (mh_insert_column_statistics H statistics model_id batch_ts) h"
  unfolding client_insert_column_statistics_def
  by (rule remote_call [OF _ _ recv_unit], simp, simp add: arm_opened assms(1) [simplified], rule assms(2))

lemma client_insert_model_served:
  assumes "decodes enc A (CPay_Bytes model)" and "good (map_ok SReply_U32 (fst (mh_insert_model H model h)))"
  shows "client_insert_model io model h =
      remote (authorizer p SERVER_MODEL_INSERT) (mh_insert_model H model) h"
  unfolding client_insert_model_def
  by (rule remote_call [OF _ _ recv_u32], simp, simp add: arm_opened assms(1) [simplified], rule assms(2))

lemma client_insert_time_series_served:
  assumes "decodes enc A (CPay_TimeSeries (time_series, model_id, batch_ts))" and "good (map_ok (\<lambda>_. SReply_Unit) (fst (mh_insert_time_series H time_series model_id batch_ts h)))"
  shows "client_insert_time_series io time_series model_id batch_ts h =
      remote (authorizer p SERVER_STATISTICS_INSERT_TIME_SERIES) (mh_insert_time_series H time_series model_id batch_ts) h"
  unfolding client_insert_time_series_def
  by (rule remote_call [OF _ _ recv_unit], simp, simp add: arm_opened assms(1) [simplified], rule assms(2))

lemma client_remove_model_served:
  assumes "decodes enc A (CPay_String name)" and "good (map_ok (\<lambda>_. SReply_Unit) (fst (mh_remove_model H name h)))"
  shows "client_remove_model io name h =
      remote (authorizer p SERVER_MODEL_REMOVE) (mh_remove_model H name) h"
  unfolding client_remove_model_def
  by (rule remote_call [OF _ _ recv_unit], simp, simp add: arm_opened assms(1) [simplified], rule assms(2))

lemma client_update_clusters_served:
  assumes "decodes enc A (CPay_Clusters (input, model_id))" and "good (map_ok (\<lambda>_. SReply_Unit) (fst (mh_update_clusters H input model_id h)))"
  shows "client_update_clusters io input model_id h =
      remote (authorizer p SERVER_CLUSTER_UPDATE) (mh_update_clusters H input model_id) h"
  unfolding client_update_clusters_def
  by (rule remote_call [OF _ _ recv_unit], simp, simp add: arm_opened assms(1) [simplified], rule assms(2))

lemma client_update_model_served:
  assumes "decodes enc A (CPay_Bytes model)" and "good (map_ok SReply_U32 (fst (mh_update_model H model h)))"
  shows "client_update_model io model h =
      remote (authorizer p SERVER_MODEL_UPDATE) (mh_update_model H model) h"
  unfolding client_update_model_def
  by (rule remote_call [OF _ _ recv_u32], simp, simp add: arm_opened assms(1) [simplified], rule assms(2))

lemma client_update_outliers_served:
  assumes "decodes enc A (CPay_Outliers (outliers, model_id, timestamp))" and "good (map_ok (\<lambda>_. SReply_Unit) (fst (mh_update_outliers H outliers model_id timestamp h)))"
  shows "client_update_outliers io outliers model_id timestamp h =
      remote (authorizer p SERVER_OUTLIER_UPDATE) (mh_update_outliers H outliers model_id timestamp) h"
  unfolding client_update_outliers_def
  by (rule remote_call [OF _ _ recv_unit], simp, simp add: arm_opened assms(1) [simplified], rule assms(2))

lemma client_insert_event_labels_served:
  assumes "decodes enc A (CPay_EventLabels (model_id, round, event_labels))" and "good (map_ok (\<lambda>_. SReply_Unit) (fst (mh_insert_event_labels H model_id round event_labels h)))"
  shows "client_insert_event_labels io model_id round event_labels h =
      remote (authorizer p SERVER_EVENT_INSERT_LABELS) (mh_insert_event_labels H model_id round event_labels) h"
  unfolding client_insert_event_labels_def
  by (rule remote_call [OF _ _ recv_unit], simp, simp add: arm_opened assms(1) [simplified], rule assms(2))

lemma client_insert_data_source_served:
  assumes "decodes enc A (CPay_DataSource data_source)" and "good (map_ok SReply_U32 (fst (mh_insert_data_source H data_source h)))"
  shows "client_insert_data_source io data_source h =
      remote (authorizer p SERVER_DATA_SOURCE_INSERT) (mh_insert_data_source H data_source) h"
  unfolding client_insert_data_source_def
  by (rule remote_call [OF _ _ recv_u32], simp, simp add: arm_opened assms(1) [simplified], rule assms(2))

lemma client_get_outliers_served:
  assumes "decodes enc A (CPay_U32I64 (model_id, timestamp))" and "good (map_ok SReply_Outliers (fst (mh_get_outliers H model_id timestamp h)))"
  shows "client_get_outliers io model_id timestamp h =
      remote (authorizer p SERVER_OUTLIER_GET) (mh_get_outliers H model_id timestamp) h"
  unfolding client_get_outliers_def
  by (rule remote_call [OF _ _ recv_outliers], simp, simp add: arm_opened assms(1) [simplified], rule assms(2))

lemma client_update_host_ports_served:
  assumes "decodes enc A (CPay_HostPorts hosts)" and "good (map_ok (\<lambda>_. SReply_Unit) (fst (mh_update_host_ports H (pc_name p) hosts h)))"
  shows "client_update_host_ports io hosts h =
      remote (authorizer p SERVER_HOST_UPDATE_OPENED_PORTS) (mh_update_host_ports H (pc_name p) hosts) h"
  unfolding client_update_host_ports_def
  by (rule remote_call [OF _ _ recv_unit], simp, simp add: arm_opened assms(1) [simplified], rule assms(2))

lemma client_update_host_user_agents_served:
  assumes "decodes enc A (CPay_HostAgents hosts)" and "good (map_ok (\<lambda>_. SReply_Unit) (fst (mh_update_host_user_agents H (pc_name p) hosts h)))"
  shows "client_update_host_user_agents io hosts h =
      remote (authorizer p SERVER_HOST_UPDATE_OS_AGENTS) (mh_update_host_user_agents H (pc_name p) hosts) h"
  unfolding client_update_host_user_agents_def
  by (rule remote_call [OF _ _ recv_unit], simp, simp add: arm_opened assms(1) [simplified], rule assms(2))

end

end
