(* ===== verification/Client_Server.thy ===== *)
theory Client_Server
  imports Manager_Connection
begin

text \<open>
  A connection that hands values over: requests arrive as the code and the encoded payload,
  answers as the values the manager's dispatch sent. It is a \<open>manager_connection\<close>, so each of
  the agent's calls on it is a call of the manager's handler.
\<close>

subsection \<open>A connection of values\<close>

text \<open>Reading an answer at the type the caller asks for.\<close>

fun as_unit :: "server_reply \<Rightarrow> (unit) option" where
  "as_unit SReply_Unit = Some ()"
| "as_unit _ = None"

fun as_network_group :: "server_reply \<Rightarrow> (HostNetworkGroup) option" where
  "as_network_group (SReply_NetworkGroup a) = Some a"
| "as_network_group _ = None"

fun as_string :: "server_reply \<Rightarrow> (string) option" where
  "as_string (SReply_String a) = Some a"
| "as_string _ = None"

fun as_data_source :: "server_reply \<Rightarrow> (DataSource option) option" where
  "as_data_source (SReply_DataSource a) = Some a"
| "as_data_source _ = None"

fun as_indicator :: "server_reply \<Rightarrow> (string list set) option" where
  "as_indicator (SReply_Indicator a) = Some a"
| "as_indicator _ = None"

fun as_bytes :: "server_reply \<Rightarrow> (bytes) option" where
  "as_bytes (SReply_Bytes a) = Some a"
| "as_bytes _ = None"

fun as_strings :: "server_reply \<Rightarrow> (string list) option" where
  "as_strings (SReply_Strings a) = Some a"
| "as_strings _ = None"

fun as_outliers :: "server_reply \<Rightarrow> ((string \<times> i64 list) list) option" where
  "as_outliers (SReply_Outliers a) = Some a"
| "as_outliers _ = None"

fun as_sampling_policies :: "server_reply \<Rightarrow> (SamplingPolicy list) option" where
  "as_sampling_policies (SReply_SamplingPolicies a) = Some a"
| "as_sampling_policies _ = None"

fun as_label_dbs :: "server_reply \<Rightarrow> ((string \<times> LabelDb option) list) option" where
  "as_label_dbs (SReply_LabelDbs a) = Some a"
| "as_label_dbs _ = None"

fun as_u32 :: "server_reply \<Rightarrow> (u32) option" where
  "as_u32 (SReply_U32 a) = Some a"
| "as_u32 _ = None"

fun as_certificate :: "server_reply \<Rightarrow> ((string \<times> string)) option" where
  "as_certificate (SReply_Certificate a) = Some a"
| "as_certificate _ = None"

text \<open>Reading an answer runs the manager's dispatch on the requests sent.\<close>

definition take_answer ::
  "server_args \<Rightarrow> 'h server_Handler \<Rightarrow> PeerContext \<Rightarrow> authorizer \<Rightarrow> (server_reply \<Rightarrow> 'a option)
   \<Rightarrow> 'h \<times> (u32 \<times> bytes) list \<Rightarrow> (IoError + (string + 'a)) \<times> 'h \<times> (u32 \<times> bytes) list" where
  "take_answer A H p authorizer cast st =
     (case manager_run Some A H p authorizer st of
        None \<Rightarrow> (Err (IoError_from EK_TimedOut), st)
      | Some (_, s) \<Rightarrow>
          ((case se_send s of
              [] \<Rightarrow> Err (IoError_from EK_UnexpectedEof)
            | Err m # _ \<Rightarrow> Ok (Err m)
            | Ok r # _ \<Rightarrow> (case cast r of Some a \<Rightarrow> Ok (Ok a) | None \<Rightarrow> Err (IoError_from EK_InvalidData))),
           se_handler s, se_recv s))"

lemma take_answer_reads:
  assumes "\<And>a. cast (reply a) = Some a"
  shows "answers_as Some A H p authorizer (\<lambda>_. True) reply (take_answer A H p authorizer cast)"
  unfolding answers_as_def
proof (intro allI impI, elim conjE)
  fix st out s m
  assume "manager_run Some A H p authorizer st = Some (out, s)" "se_send s = [map_ok reply m]"
  then show "take_answer A H p authorizer cast st = (Ok m, se_handler s, se_recv s)"
    using assms by (cases m) (simp_all add: take_answer_def)
qed

definition loopback ::
  "(client_payload \<Rightarrow> bytes) \<Rightarrow> server_args \<Rightarrow> 'h server_Handler \<Rightarrow> PeerContext \<Rightarrow> authorizer
   \<Rightarrow> ('h, 'h \<times> (u32 \<times> bytes) list) client_io" where
  "loopback enc A H p authorizer = \<lparr>
     cl_open_bi = (\<lambda>h. (Ok (h, []), h)),
     cl_close = (\<lambda>_ (h, _). h),
     cl_send_request = (\<lambda>(h, q) code payload. (Ok (), h, q @ [(code, enc payload)])),
     cl_recv_unit = take_answer A H p authorizer as_unit,
     cl_recv_network_group = take_answer A H p authorizer as_network_group,
     cl_recv_string = take_answer A H p authorizer as_string,
     cl_recv_data_source = take_answer A H p authorizer as_data_source,
     cl_recv_indicator = take_answer A H p authorizer as_indicator,
     cl_recv_bytes = take_answer A H p authorizer as_bytes,
     cl_recv_strings = take_answer A H p authorizer as_strings,
     cl_recv_outliers = take_answer A H p authorizer as_outliers,
     cl_recv_sampling_policies = take_answer A H p authorizer as_sampling_policies,
     cl_recv_label_dbs = take_answer A H p authorizer as_label_dbs,
     cl_recv_u32 = take_answer A H p authorizer as_u32,
     cl_recv_certificate = take_answer A H p authorizer as_certificate\<rparr>"

interpretation lb: manager_connection "loopback enc A H p authorizer" Pair Some enc A H p authorizer "\<lambda>_. True"
  by unfold_locales (auto simp: loopback_def case_prod_unfold intro!: take_answer_reads)

subsection \<open>Every call\<close>


lemmas client_report_customer_data_deletion_runs = lb.client_report_customer_data_deletion_served [OF _ TrueI]
lemmas client_upload_run_model_runs = lb.client_upload_run_model_served [OF _ TrueI]
lemmas client_report_run_runs = lb.client_report_run_served [OF _ TrueI]
lemmas client_report_active_runs_runs = lb.client_report_active_runs_served [OF _ TrueI]
lemmas client_report_detector_status_runs = lb.client_report_detector_status_served [OF _ TrueI]
lemmas client_get_config_runs = lb.client_get_config_served [OF _ TrueI]
lemmas client_get_allowlist_runs = lb.client_get_allowlist_served [OF _ TrueI]
lemmas client_get_blocklist_runs = lb.client_get_blocklist_served [OF _ TrueI]
lemmas client_get_data_source_runs = lb.client_get_data_source_served [OF _ TrueI]
lemmas client_get_indicator_runs = lb.client_get_indicator_served [OF _ TrueI]
lemmas client_get_internal_network_list_runs = lb.client_get_internal_network_list_served [OF _ TrueI]
lemmas client_get_labeldb_patterns_runs = lb.client_get_labeldb_patterns_served [OF _ TrueI]
lemmas client_get_tor_exit_node_list_runs = lb.client_get_tor_exit_node_list_served [OF _ TrueI]
lemmas client_get_trusted_domain_list_runs = lb.client_get_trusted_domain_list_served [OF _ TrueI]
lemmas client_get_trusted_user_agent_list_runs = lb.client_get_trusted_user_agent_list_served [OF _ TrueI]
lemmas client_get_sampling_policy_list_runs = lb.client_get_sampling_policy_list_served [OF _ TrueI]
lemmas client_get_pretrained_model_runs = lb.client_get_pretrained_model_served [OF _ TrueI]
lemmas client_renew_certificate_runs = lb.client_renew_certificate_served [OF _ TrueI]
lemmas client_get_model_runs = lb.client_get_model_served [OF _ TrueI]
lemmas client_get_model_names_runs = lb.client_get_model_names_served [OF _ TrueI]
lemmas client_insert_column_statistics_runs = lb.client_insert_column_statistics_served [OF _ TrueI]
lemmas client_insert_model_runs = lb.client_insert_model_served [OF _ TrueI]
lemmas client_insert_time_series_runs = lb.client_insert_time_series_served [OF _ TrueI]
lemmas client_remove_model_runs = lb.client_remove_model_served [OF _ TrueI]
lemmas client_update_clusters_runs = lb.client_update_clusters_served [OF _ TrueI]
lemmas client_update_model_runs = lb.client_update_model_served [OF _ TrueI]
lemmas client_update_outliers_runs = lb.client_update_outliers_served [OF _ TrueI]
lemmas client_insert_event_labels_runs = lb.client_insert_event_labels_served [OF _ TrueI]
lemmas client_insert_data_source_runs = lb.client_insert_data_source_served [OF _ TrueI]
lemmas client_get_outliers_runs = lb.client_get_outliers_served [OF _ TrueI]
lemmas client_update_host_ports_runs = lb.client_update_host_ports_served [OF _ TrueI]
lemmas client_update_host_user_agents_runs = lb.client_update_host_user_agents_served [OF _ TrueI]

end
