(* ===== verification/Client_Tests.thy ===== *)
theory Client_Tests
  imports Client_Server Handshake
begin

text \<open>
  The repository's own tests of the agent's calls (\<open>src/src/client/api.rs\<close>, module
  \<open>tests\<close>) with their fixture \<open>TestServerHandler\<close> (\<open>src/src/test.rs\<close>): each
  test is a predicate on the connection it runs on, and every one holds of the model, whatever
  codec carries the payloads, as long as the manager decodes what the agent encoded.
\<close>

subsection \<open>Derived debug forms used in the fixture's messages\<close>

fun debug_option :: "('a \<Rightarrow> string) \<Rightarrow> 'a option \<Rightarrow> string" where
  "debug_option f None = ''None''"
| "debug_option f (Some a) = ''Some('' @ f a @ '')''"

fun join_comma :: "string list \<Rightarrow> string" where
  "join_comma [] = []"
| "join_comma [s] = s"
| "join_comma (s # t # ss) = s @ '', '' @ join_comma (t # ss)"

definition debug_list :: "('a \<Rightarrow> string) \<Rightarrow> 'a list \<Rightarrow> string" where
  "debug_list f xs = ''['' @ join_comma (map f xs) @ '']''"

definition show_signed :: "'a::len word \<Rightarrow> string" where
  "show_signed n = (if sint n < 0 then ''-'' @ show_nat (nat (- sint n)) else show_nat (nat (sint n)))"

definition show_unsigned :: "'a::len word \<Rightarrow> string" where
  "show_unsigned n = show_nat (unat n)"

fun debug_run_state :: "ReportedRunState \<Rightarrow> string" where
  "debug_run_state Run_Started = ''Started''"
| "debug_run_state Run_Failed = ''Failed''"
| "debug_run_state Run_Cancelled = ''Cancelled''"

fun debug_detector_state :: "DetectorState \<Rightarrow> string" where
  "debug_detector_state Detector_Running = ''Running''"
| "debug_detector_state Detector_Disabled = ''Disabled''"
| "debug_detector_state Detector_NoModel = ''NoModel''"
| "debug_detector_state Detector_PausedForRun = ''PausedForRun''"

fun debug_round_outcome :: "RoundOutcome \<Rightarrow> string" where
  "debug_round_outcome Round_Succeeded = ''Succeeded''"
| "debug_round_outcome Round_Failed = ''Failed''"

fun debug_source_state :: "SourceState \<Rightarrow> string" where
  "debug_source_state Source_Served = ''Served''"
| "debug_source_state Source_ServedByNoNode = ''ServedByNoNode''"
| "debug_source_state Source_Failed = ''Failed''"

definition debug_source_status :: "SourceStatus \<Rightarrow> string" where
  "debug_source_status s =
     ''SourceStatus { source: '' @ debug_str (ss_source s) @ '', state: ''
     @ debug_source_state (ss_state s) @ '', reason: '' @ debug_option debug_str (ss_reason s) @ '' }''"

definition debug_detector_report :: "DetectorStatusReport \<Rightarrow> string" where
  "debug_detector_report r =
     ''DetectorStatusReport { detector_id: '' @ show_signed (ds_detector_id r)
     @ '', state: '' @ debug_detector_state (ds_state r)
     @ '', finished_at: '' @ debug_option show_signed (ds_finished_at r)
     @ '', outcome: '' @ debug_option debug_round_outcome (ds_outcome r)
     @ '', reason: '' @ debug_option debug_str (ds_reason r)
     @ '', events: '' @ show_unsigned (ds_events r)
     @ '', sources: '' @ debug_list debug_source_status (ds_sources r) @ '' }''"

subsection \<open>The fixture\<close>

definition RUN_ID :: u32 where "RUN_ID = 7"

definition REJECTED_RUN_ID :: u32 where "REJECTED_RUN_ID = 99"

definition RUN_MODEL :: bytes where "RUN_MODEL = [0x00, 0x01, 0xfe, 0xff]"

definition RUN_REPORTS :: "(u32 \<times> ReportedRunState \<times> string option) list" where
  "RUN_REPORTS =
     [(RUN_ID, Run_Started, None), (RUN_ID, Run_Failed, Some ''training failed''),
      (RUN_ID, Run_Cancelled, Some ''cancelled by operator'')]"

definition ACTIVE_RUN_IDS :: "u32 list" where "ACTIVE_RUN_IDS = [RUN_ID, 8, -1]"

definition REJECTED_DETECTOR_ID :: i32 where "REJECTED_DETECTOR_ID = -1"

definition detector_status_reports :: "DetectorStatusReport list" where
  "detector_status_reports =
     [\<lparr>ds_detector_id = 1, ds_state = Detector_Running, ds_finished_at = Some 1760000000000000000,
       ds_outcome = Some Round_Succeeded, ds_reason = None, ds_events = 12345,
       ds_sources =
         [\<lparr>ss_source = ''piglet.node1.example.com'', ss_state = Source_Served, ss_reason = None\<rparr>,
          \<lparr>ss_source = ''piglet.node2.example.com'', ss_state = Source_ServedByNoNode, ss_reason = None\<rparr>]\<rparr>,
      \<lparr>ds_detector_id = 2, ds_state = Detector_Disabled, ds_finished_at = Some 1760000300000000000,
       ds_outcome = Some Round_Failed, ds_reason = Some ''source piglet.node3.example.com failed'',
       ds_events = 0,
       ds_sources =
         [\<lparr>ss_source = ''piglet.node3.example.com'', ss_state = Source_Failed,
           ss_reason = Some ''connection refused''\<rparr>]\<rparr>,
      \<lparr>ds_detector_id = 3, ds_state = Detector_NoModel, ds_finished_at = None, ds_outcome = None,
       ds_reason = None, ds_events = 0, ds_sources = []\<rparr>,
      \<lparr>ds_detector_id = 2147483647, ds_state = Detector_PausedForRun, ds_finished_at = Some (-1),
       ds_outcome = Some Round_Succeeded, ds_reason = None, ds_events = -1,
       ds_sources =
         [\<lparr>ss_source = ''piglet.node1.example.com'', ss_state = Source_Served, ss_reason = None\<rparr>]\<rparr>]"

definition th_report_customer_data_deletion ::
  "CustomerDataDeletionReport \<Rightarrow> string + unit" where
  "th_report_customer_data_deletion report =
     (if cdr_host_fqdn report = ''reject.example.test'' then Err ''report rejected'' else Ok ())"

definition th_get_data_source ::
  "DataSourceKey \<Rightarrow> string + DataSource option" where
  "th_get_data_source key =
     (let ds = \<lparr>dsrc_id = 5, dsrc_name = ''name5'', dsrc_server_name = ''test-server'',
                dsrc_address = SocketAddr_V6 1 0 0 0, dsrc_data_type = DataType_Log,
                dsrc_source = ''source5'', dsrc_kind = Some ''kind5'',
                dsrc_description = ''description5''\<rparr> in
      if key = DataSourceKey_Id 5 \<or> key = DataSourceKey_Name ''test5'' then Ok (Some ds) else Ok None)"

definition th_get_labeldb_patterns ::
  "(string \<times> string) list \<Rightarrow> string + (string \<times> LabelDb option) list" where
  "th_get_labeldb_patterns db_names =
     (let db = \<lparr>ld_id = 1, ld_name = ''name1'', ld_description = Some ''description1'',
                ld_kind = LabelDb_Token, ld_category = Some Execution, ld_version = ''1.0.0'',
                ld_patterns =
                  [\<lparr>ldr_rule_id = 9, ldr_category = None, ldr_name = ''rule1'', ldr_kind = None,
                    ldr_description = Some ''description1'', ldr_references = Some [''ref1''],
                    ldr_samples = Some [''sample1''], ldr_signatures = Some [''sig1''],
                    ldr_confidence = None\<rparr>]\<rparr> in
      Ok (map (\<lambda>(name, ver).
             (name, if name = ''db1'' \<and> ver = ''1.0.0'' then Some db else None)) db_names))"

definition th_get_config ::
  "string \<Rightarrow> string + string" where
  "th_get_config peer =
     Ok ''test-config''"

definition th_get_allowlist ::
  "string \<Rightarrow> string + HostNetworkGroup" where
  "th_get_allowlist peer =
     (if peer \<noteq> ''test-peer'' then Err (''unexpected peer: '' @ peer)
      else Ok \<lparr>hng_hosts = [IpAddr_V6 1], hng_networks = [], hng_ip_ranges = []\<rparr>)"

definition th_get_blocklist ::
  "string \<Rightarrow> string + HostNetworkGroup" where
  "th_get_blocklist peer =
     (if peer \<noteq> ''test-peer'' then Err (''unexpected peer: '' @ peer)
      else Ok \<lparr>hng_hosts = [IpAddr_V4 0xC0A80101], hng_networks = [], hng_ip_ranges = []\<rparr>)"

definition th_get_indicator ::
  "string \<Rightarrow> string + string list set" where
  "th_get_indicator name =
     (if name = ''test-indicator''
      then Ok {[''indicator1'', ''value1''], [''indicator2'', ''value2'']} else Ok {})"

definition th_get_internal_network_list ::
  "string \<Rightarrow> string + HostNetworkGroup" where
  "th_get_internal_network_list peer =
     Ok \<lparr>hng_hosts = [IpAddr_V4 0x0A000001], hng_networks = [], hng_ip_ranges = []\<rparr>"

definition th_get_sampling_policy_list ::
  "string \<Rightarrow> string + SamplingPolicy list" where
  "th_get_sampling_policy_list peer =
     Ok [\<lparr>sp_id = 1, sp_kind = Sampling_Conn, sp_interval = \<lparr>secs = 60, nanos = 0\<rparr>,
          sp_period = \<lparr>secs = 3600, nanos = 0\<rparr>, sp_offset = 0, sp_src_ip = None,
          sp_dst_ip = None, sp_node = Some ''node1'', sp_column = None\<rparr>]"

definition th_get_pretrained_model ::
  "string \<Rightarrow> string + bytes" where
  "th_get_pretrained_model name =
     (if name = ''test-model'' then Ok [0x01, 0x02, 0x03, 0x04] else Err ''model not found'')"

definition th_get_tor_exit_node_list ::
  "string + string list" where
  "th_get_tor_exit_node_list =
     Ok [''192.168.1.10'', ''192.168.1.11'']"

definition th_get_trusted_domain_list ::
  "string + string list" where
  "th_get_trusted_domain_list =
     Ok [''trusted1.com'', ''trusted2.com'']"

definition th_get_trusted_user_agent_list ::
  "string + string list" where
  "th_get_trusted_user_agent_list =
     Ok [''Mozilla/5.0 (trusted)'', ''Chrome/test'']"

definition th_renew_certificate ::
  "string \<Rightarrow> string + string \<times> string" where
  "th_renew_certificate peer =
     Ok (''new-cert'', ''new-key'')"

definition th_get_model ::
  "string \<Rightarrow> string + bytes" where
  "th_get_model name =
     (if name = ''test-model'' then Ok [0x01, 0x02, 0x03, 0x04, 0x05] else Err ''model not found'')"

definition th_get_model_names ::
  "string + string list" where
  "th_get_model_names =
     Ok [''model1'', ''model2'', ''model3'']"

definition th_insert_column_statistics ::
  "ColumnStatisticsUpdate list \<Rightarrow> u32 \<Rightarrow> i64 \<Rightarrow> string + unit" where
  "th_insert_column_statistics statistics model_id batch_ts =
     Ok ()"

definition th_insert_model ::
  "bytes \<Rightarrow> string + u32" where
  "th_insert_model model =
     Ok 42"

definition th_insert_time_series ::
  "TimeSeriesUpdate list \<Rightarrow> u32 \<Rightarrow> i64 \<Rightarrow> string + unit" where
  "th_insert_time_series time_series model_id batch_ts =
     Ok ()"

definition th_remove_model ::
  "string \<Rightarrow> string + unit" where
  "th_remove_model name =
     Ok ()"

definition th_update_clusters ::
  "UpdateClusterRequest list \<Rightarrow> u32 \<Rightarrow> string + unit" where
  "th_update_clusters input model_id =
     Ok ()"

definition th_update_model ::
  "bytes \<Rightarrow> string + u32" where
  "th_update_model model =
     Ok 55"

definition th_update_outliers ::
  "OutlierInfo list \<Rightarrow> u32 \<Rightarrow> i64 \<Rightarrow> string + unit" where
  "th_update_outliers outliers model_id timestamp =
     Ok ()"

definition th_insert_event_labels ::
  "u32 \<Rightarrow> u32 \<Rightarrow> EventMessage list \<Rightarrow> string + unit" where
  "th_insert_event_labels model_id round event_labels =
     Ok ()"

definition th_insert_data_source ::
  "DataSource \<Rightarrow> string + u32" where
  "th_insert_data_source data_source =
     Ok 123"

definition th_get_outliers ::
  "u32 \<Rightarrow> i64 \<Rightarrow> string + (string \<times> i64 list) list" where
  "th_get_outliers model_id timestamp =
     (if model_id = 10 then Ok [(''sensor1'', [1, 2, 3]), (''sensor2'', [4, 5, 6])] else Ok [])"

definition th_update_host_ports ::
  "string \<Rightarrow> (IpAddr \<rightharpoonup> (u16 \<times> u8 \<rightharpoonup> u32)) \<Rightarrow> string + unit" where
  "th_update_host_ports peer hosts =
     Ok ()"

definition th_update_host_user_agents ::
  "string \<Rightarrow> (IpAddr \<times> UserAgent list \<times> string list) list \<Rightarrow> string + unit" where
  "th_update_host_user_agents peer hosts =
     Ok ()"

definition th_upload_run_model ::
  "string \<Rightarrow> u32 \<Rightarrow> bytes \<Rightarrow> string + unit" where
  "th_upload_run_model peer run_id model =
     (if peer \<noteq> ''test-peer'' then Err (''unexpected peer: '' @ peer)
      else if run_id = REJECTED_RUN_ID then Err ''report rejected''
      else if run_id = RUN_ID \<and> model = RUN_MODEL then Ok ()
      else Err (''unexpected run model upload: '' @ show_unsigned run_id @ '' ''
                @ debug_list show_unsigned model))"

definition th_report_run ::
  "string \<Rightarrow> u32 \<Rightarrow> ReportedRunState \<Rightarrow> string option \<Rightarrow> string + unit" where
  "th_report_run peer run_id state reason =
     (if peer \<noteq> ''test-peer'' then Err (''unexpected peer: '' @ peer)
      else if run_id = REJECTED_RUN_ID then Err ''report rejected''
      else if (run_id, state, reason) \<in> set RUN_REPORTS then Ok ()
      else Err (''unexpected run report: '' @ show_unsigned run_id @ '' '' @ debug_run_state state
                @ '' '' @ debug_option debug_str reason))"

definition th_report_active_runs ::
  "string \<Rightarrow> u32 list \<Rightarrow> string + unit" where
  "th_report_active_runs peer run_ids =
     (if peer \<noteq> ''test-peer'' then Err (''unexpected peer: '' @ peer)
      else if REJECTED_RUN_ID \<in> set run_ids then Err ''report rejected''
      else if run_ids = ACTIVE_RUN_IDS then Ok ()
      else Err (''unexpected active runs: '' @ debug_list show_unsigned run_ids))"

definition th_report_detector_status ::
  "string \<Rightarrow> DetectorStatusReport \<Rightarrow> string + unit" where
  "th_report_detector_status peer report =
     (if peer \<noteq> ''test-peer'' then Err (''unexpected peer: '' @ peer)
      else if ds_detector_id report = REJECTED_DETECTOR_ID then Err ''report rejected''
      else if report \<in> set detector_status_reports then Ok ()
      else Err (''unexpected detector status report: '' @ debug_detector_report report))"

text \<open>The fixture has no state: a method returns its result and nothing else changes.\<close>

definition answers :: "string + 'a \<Rightarrow> (unit, 'a) action" where
  "answers result h = (result, h)"

definition TestServerHandler :: "unit server_Handler" where
  "TestServerHandler =
     \<lparr>mh_report_customer_data_deletion = (\<lambda>a. answers (th_report_customer_data_deletion a)),
      mh_get_allowlist = (\<lambda>a. answers (th_get_allowlist a)),
      mh_get_blocklist = (\<lambda>a. answers (th_get_blocklist a)),
      mh_get_config = (\<lambda>a. answers (th_get_config a)),
      mh_get_data_source = (\<lambda>a. answers (th_get_data_source a)),
      mh_get_indicator = (\<lambda>a. answers (th_get_indicator a)),
      mh_get_internal_network_list = (\<lambda>a. answers (th_get_internal_network_list a)),
      mh_get_model = (\<lambda>a. answers (th_get_model a)),
      mh_get_model_names = (answers (th_get_model_names)),
      mh_get_outliers = (\<lambda>a b. answers (th_get_outliers a b)),
      mh_get_pretrained_model = (\<lambda>a. answers (th_get_pretrained_model a)),
      mh_get_sampling_policy_list = (\<lambda>a. answers (th_get_sampling_policy_list a)),
      mh_get_labeldb_patterns = (\<lambda>a. answers (th_get_labeldb_patterns a)),
      mh_get_tor_exit_node_list = (answers (th_get_tor_exit_node_list)),
      mh_get_trusted_domain_list = (answers (th_get_trusted_domain_list)),
      mh_get_trusted_user_agent_list = (answers (th_get_trusted_user_agent_list)),
      mh_insert_column_statistics = (\<lambda>a b c. answers (th_insert_column_statistics a b c)),
      mh_insert_data_source = (\<lambda>a. answers (th_insert_data_source a)),
      mh_insert_event_labels = (\<lambda>a b c. answers (th_insert_event_labels a b c)),
      mh_insert_model = (\<lambda>a. answers (th_insert_model a)),
      mh_insert_time_series = (\<lambda>a b c. answers (th_insert_time_series a b c)),
      mh_remove_model = (\<lambda>a. answers (th_remove_model a)),
      mh_renew_certificate = (\<lambda>a. answers (th_renew_certificate a)),
      mh_update_clusters = (\<lambda>a b. answers (th_update_clusters a b)),
      mh_update_model = (\<lambda>a. answers (th_update_model a)),
      mh_update_outliers = (\<lambda>a b c. answers (th_update_outliers a b c)),
      mh_update_host_ports = (\<lambda>a b. answers (th_update_host_ports a b)),
      mh_update_host_user_agents = (\<lambda>a b. answers (th_update_host_user_agents a b)),
      mh_upload_run_model = (\<lambda>a b c. answers (th_upload_run_model a b c)),
      mh_report_run = (\<lambda>a b c d. answers (th_report_run a b c d)),
      mh_report_active_runs = (\<lambda>a b. answers (th_report_active_runs a b)),
      mh_report_detector_status = (\<lambda>a b. answers (th_report_detector_status a b))\<rparr>"

subsection \<open>The tests\<close>

text \<open>
  \<open>run_test\<close>: the agent's side of a connection the fixture serves, for the peer
  \<open>test-peer\<close> and with every request granted, as \<open>handle\<close> does.
\<close>

type_synonym test_codec = "(client_payload \<Rightarrow> bytes) \<times> server_args"

definition run_test ::
  "test_codec \<Rightarrow> ((unit, unit \<times> (u32 \<times> bytes) list) client_io \<Rightarrow> (unit, 'a) client_call) \<Rightarrow> IoError + 'a" where
  "run_test c client_logic =
     fst (client_logic (loopback (fst c) (snd c) TestServerHandler (PeerContext_new ''test-peer'')
            NoopAuthorizer) ())"

fun is_ok :: "'e + 'a \<Rightarrow> bool" where
  "is_ok (Ok _) \<longleftrightarrow> True"
| "is_ok (Err _) \<longleftrightarrow> False"

fun ok_and :: "('a \<Rightarrow> bool) \<Rightarrow> 'e + 'a \<Rightarrow> bool" where
  "ok_and P (Ok a) \<longleftrightarrow> P a"
| "ok_and P (Err _) \<longleftrightarrow> False"

text \<open>\<open>unwrap_err\<close>, then its kind and its text.\<close>

fun rejected_with :: "string \<Rightarrow> IoError + 'a \<Rightarrow> bool" where
  "rejected_with m (Ok _) \<longleftrightarrow> False"
| "rejected_with m (Err e) \<longleftrightarrow> io_kind e = EK_Other \<and> IoError_to_string e = m"

definition deletion_report :: "CustomerDataDeletionReport" where
  "deletion_report =
     \<lparr>cdr_id = 42, cdr_host_fqdn = ''sensor.example.test'', cdr_completed_at = Some 1700000100,
       cdr_reporter = Reporter_Sensor, cdr_outcome = Outcome_Succeeded\<rparr>"

definition rejected_deletion_report :: "CustomerDataDeletionReport" where
  "rejected_deletion_report =
     \<lparr>cdr_id = 43, cdr_host_fqdn = ''reject.example.test'', cdr_completed_at = None,
       cdr_reporter = Reporter_SemiSupervised, cdr_outcome = Outcome_Failed ''deletion failed''\<rparr>"

definition rejected_detector_report :: "DetectorStatusReport" where
  "rejected_detector_report =
     \<lparr>ds_detector_id = REJECTED_DETECTOR_ID, ds_state = Detector_Running, ds_finished_at = None,
       ds_outcome = None, ds_reason = None, ds_events = 0, ds_sources = []\<rparr>"

definition test_clusters :: "UpdateClusterRequest list" where
  "test_clusters =
     [\<lparr>uc_cluster_id = 1, uc_detector_id = 1, uc_signature = ''test-sig'', uc_score = Some 0x3FE0000000000000,
       uc_size = 100, uc_event_ids = [], uc_status_id = 1, uc_labels = None\<rparr>]"

definition test_outliers :: "OutlierInfo list" where
  "test_outliers =
     [\<lparr>oi_id = 1, oi_rank = 1, oi_distance = 0x3FE0000000000000, oi_sensor = ''test-sensor''\<rparr>]"

definition test_data_source :: "DataSource" where
  "test_data_source =
     \<lparr>dsrc_id = 0, dsrc_name = ''test-source'', dsrc_server_name = ''test-server'',
       dsrc_address = SocketAddr_V4 0x7F000001 8080, dsrc_data_type = DataType_Log, dsrc_source = ''test'',
       dsrc_kind = None, dsrc_description = ''test description''\<rparr>"

definition test_host_ports :: "(IpAddr \<rightharpoonup> (u16 \<times> u8 \<rightharpoonup> u32))" where
  "test_host_ports =
     [IpAddr_V4 0xC0A80164 \<mapsto> [(80, 6) \<mapsto> 1234567890, (443, 6) \<mapsto> 1234567891]]"

definition test_host_agents :: "(IpAddr \<times> UserAgent list \<times> string list) list" where
  "test_host_agents =
     [(IpAddr_V4 0xC0A80164,
       [\<lparr>ua_name = ''Chrome'', ua_header = ''Mozilla/5.0 (Windows NT 10.0; Win64; x64)'',
         ua_kind = Rule_AgentSoftware, ua_last_modification_time = 1234567890\<rparr>,
        \<lparr>ua_name = ''Firefox'', ua_header = ''Mozilla/5.0 (X11; Linux x86_64)'',
         ua_kind = Rule_AgentSoftware, ua_last_modification_time = 1234567891\<rparr>],
       [''Windows 10'', ''Linux Ubuntu 20.04''])]"

definition test_get_data_source :: "test_codec \<Rightarrow> bool" where
  "test_get_data_source c \<longleftrightarrow>
     ok_and (\<lambda>d. dsrc_name d = ''name5'') (run_test c (\<lambda>io. client_get_data_source io (DataSourceKey_Id 5)))"

definition test_report_customer_data_deletion_returns_handler_ok :: "test_codec \<Rightarrow> bool" where
  "test_report_customer_data_deletion_returns_handler_ok c \<longleftrightarrow>
     is_ok (run_test c (\<lambda>io. client_report_customer_data_deletion io deletion_report))"

definition test_report_customer_data_deletion_converts_handler_error :: "test_codec \<Rightarrow> bool" where
  "test_report_customer_data_deletion_converts_handler_error c \<longleftrightarrow>
     rejected_with ''report rejected'' (run_test c (\<lambda>io. client_report_customer_data_deletion io rejected_deletion_report))"

definition test_upload_run_model_returns_handler_ok :: "test_codec \<Rightarrow> bool" where
  "test_upload_run_model_returns_handler_ok c \<longleftrightarrow>
     is_ok (run_test c (\<lambda>io. client_upload_run_model io RUN_ID RUN_MODEL))"

definition test_upload_run_model_converts_handler_error :: "test_codec \<Rightarrow> bool" where
  "test_upload_run_model_converts_handler_error c \<longleftrightarrow>
     rejected_with ''report rejected'' (run_test c (\<lambda>io. client_upload_run_model io REJECTED_RUN_ID RUN_MODEL))"

definition test_report_run_returns_handler_ok :: "test_codec \<Rightarrow> bool" where
  "test_report_run_returns_handler_ok c \<longleftrightarrow>
     list_all (\<lambda>(run_id, state, reason).
       is_ok (run_test c (\<lambda>io. client_report_run io run_id state reason))) RUN_REPORTS"

definition test_report_run_converts_handler_error :: "test_codec \<Rightarrow> bool" where
  "test_report_run_converts_handler_error c \<longleftrightarrow>
     rejected_with ''report rejected'' (run_test c (\<lambda>io. client_report_run io REJECTED_RUN_ID Run_Failed (Some ''failed'')))"

definition test_report_active_runs_returns_handler_ok :: "test_codec \<Rightarrow> bool" where
  "test_report_active_runs_returns_handler_ok c \<longleftrightarrow>
     is_ok (run_test c (\<lambda>io. client_report_active_runs io ACTIVE_RUN_IDS))"

definition test_report_active_runs_converts_handler_error :: "test_codec \<Rightarrow> bool" where
  "test_report_active_runs_converts_handler_error c \<longleftrightarrow>
     rejected_with ''report rejected'' (run_test c (\<lambda>io. client_report_active_runs io [RUN_ID, REJECTED_RUN_ID]))"

definition test_report_detector_status_returns_handler_ok :: "test_codec \<Rightarrow> bool" where
  "test_report_detector_status_returns_handler_ok c \<longleftrightarrow>
     list_all (\<lambda>report. is_ok (run_test c (\<lambda>io. client_report_detector_status io report)))
       detector_status_reports"

definition test_report_detector_status_converts_handler_error :: "test_codec \<Rightarrow> bool" where
  "test_report_detector_status_converts_handler_error c \<longleftrightarrow>
     rejected_with ''report rejected'' (run_test c (\<lambda>io. client_report_detector_status io rejected_detector_report))"

definition test_get_labeldb_patterns :: "test_codec \<Rightarrow> bool" where
  "test_get_labeldb_patterns c \<longleftrightarrow>
     ok_and (\<lambda>ps. length ps = 2 \<and> fst (ps ! 0) = ''db1'' \<and> snd (ps ! 0) \<noteq> None
       \<and> fst (ps ! 1) = ''db2'' \<and> snd (ps ! 1) = None) (run_test c (\<lambda>io. client_get_labeldb_patterns io [(''db1'', ''1.0.0''), (''db2'', ''2.0.0'')]))"

definition test_get_config :: "test_codec \<Rightarrow> bool" where
  "test_get_config c \<longleftrightarrow>
     ok_and (\<lambda>s. s = ''test-config'') (run_test c (\<lambda>io. client_get_config io))"

definition test_get_allowlist :: "test_codec \<Rightarrow> bool" where
  "test_get_allowlist c \<longleftrightarrow>
     ok_and (\<lambda>g. length (hng_hosts g) = 1) (run_test c (\<lambda>io. client_get_allowlist io))"

definition test_get_blocklist :: "test_codec \<Rightarrow> bool" where
  "test_get_blocklist c \<longleftrightarrow>
     ok_and (\<lambda>g. length (hng_hosts g) = 1) (run_test c (\<lambda>io. client_get_blocklist io))"

definition test_get_indicator :: "test_codec \<Rightarrow> bool" where
  "test_get_indicator c \<longleftrightarrow>
     ok_and (\<lambda>s. card s = 2) (run_test c (\<lambda>io. client_get_indicator io ''test-indicator''))"

definition test_get_internal_network_list :: "test_codec \<Rightarrow> bool" where
  "test_get_internal_network_list c \<longleftrightarrow>
     ok_and (\<lambda>g. length (hng_hosts g) = 1) (run_test c (\<lambda>io. client_get_internal_network_list io))"

definition test_get_tor_exit_node_list :: "test_codec \<Rightarrow> bool" where
  "test_get_tor_exit_node_list c \<longleftrightarrow>
     ok_and (\<lambda>l. length l = 2 \<and> l ! 0 = ''192.168.1.10'' \<and> l ! 1 = ''192.168.1.11'') (run_test c (\<lambda>io. client_get_tor_exit_node_list io))"

definition test_get_trusted_domain_list :: "test_codec \<Rightarrow> bool" where
  "test_get_trusted_domain_list c \<longleftrightarrow>
     ok_and (\<lambda>l. length l = 2 \<and> l ! 0 = ''trusted1.com'' \<and> l ! 1 = ''trusted2.com'') (run_test c (\<lambda>io. client_get_trusted_domain_list io))"

definition test_get_trusted_user_agent_list :: "test_codec \<Rightarrow> bool" where
  "test_get_trusted_user_agent_list c \<longleftrightarrow>
     ok_and (\<lambda>l. length l = 2 \<and> l ! 0 = ''Mozilla/5.0 (trusted)'' \<and> l ! 1 = ''Chrome/test'') (run_test c (\<lambda>io. client_get_trusted_user_agent_list io))"

definition test_get_sampling_policy_list :: "test_codec \<Rightarrow> bool" where
  "test_get_sampling_policy_list c \<longleftrightarrow>
     ok_and (\<lambda>l. length l = 1 \<and> sp_id (l ! 0) = 1 \<and> sp_node (l ! 0) = Some ''node1'') (run_test c (\<lambda>io. client_get_sampling_policy_list io))"

definition test_get_pretrained_model :: "test_codec \<Rightarrow> bool" where
  "test_get_pretrained_model c \<longleftrightarrow>
     ok_and (\<lambda>m. m = [0x01, 0x02, 0x03, 0x04]) (run_test c (\<lambda>io. client_get_pretrained_model io ''test-model''))"

definition test_renew_certificate :: "test_codec \<Rightarrow> bool" where
  "test_renew_certificate c \<longleftrightarrow>
     ok_and (\<lambda>(new_cert, new_key). new_cert = ''new-cert'' \<and> new_key = ''new-key'') (run_test c (\<lambda>io. client_renew_certificate io))"

definition test_get_model :: "test_codec \<Rightarrow> bool" where
  "test_get_model c \<longleftrightarrow>
     ok_and (\<lambda>m. m = [0x01, 0x02, 0x03, 0x04, 0x05]) (run_test c (\<lambda>io. client_get_model io ''test-model''))"

definition test_get_model_names :: "test_codec \<Rightarrow> bool" where
  "test_get_model_names c \<longleftrightarrow>
     ok_and (\<lambda>l. l = [''model1'', ''model2'', ''model3'']) (run_test c (\<lambda>io. client_get_model_names io))"

definition test_insert_column_statistics :: "test_codec \<Rightarrow> bool" where
  "test_insert_column_statistics c \<longleftrightarrow>
     is_ok (run_test c (\<lambda>io. client_insert_column_statistics io [\<lparr>csu_cluster_id = 1, csu_column_statistics = []\<rparr>] 1 1000))"

definition test_insert_model :: "test_codec \<Rightarrow> bool" where
  "test_insert_model c \<longleftrightarrow>
     ok_and (\<lambda>n. n = 42) (run_test c (\<lambda>io. client_insert_model io [0x01, 0x02, 0x03]))"

definition test_insert_time_series :: "test_codec \<Rightarrow> bool" where
  "test_insert_time_series c \<longleftrightarrow>
     is_ok (run_test c (\<lambda>io. client_insert_time_series io [\<lparr>tsu_cluster_id = 1, tsu_time_series = []\<rparr>] 1 1000))"

definition test_remove_model :: "test_codec \<Rightarrow> bool" where
  "test_remove_model c \<longleftrightarrow>
     is_ok (run_test c (\<lambda>io. client_remove_model io ''test-model''))"

definition test_update_clusters :: "test_codec \<Rightarrow> bool" where
  "test_update_clusters c \<longleftrightarrow>
     is_ok (run_test c (\<lambda>io. client_update_clusters io test_clusters 1))"

definition test_update_model :: "test_codec \<Rightarrow> bool" where
  "test_update_model c \<longleftrightarrow>
     ok_and (\<lambda>n. n = 55) (run_test c (\<lambda>io. client_update_model io [0x01, 0x02, 0x03]))"

definition test_update_outliers :: "test_codec \<Rightarrow> bool" where
  "test_update_outliers c \<longleftrightarrow>
     is_ok (run_test c (\<lambda>io. client_update_outliers io test_outliers 1 1000))"

text \<open>The time of the label is the clock's; any time will do.\<close>

definition test_event_labels :: "Timestamp \<Rightarrow> EventMessage list" where
  "test_event_labels now = [\<lparr>em_time = now, em_kind = ExtraThreat, em_fields = [0x01, 0x02]\<rparr>]"

definition test_insert_event_labels :: "Timestamp \<Rightarrow> test_codec \<Rightarrow> bool" where
  "test_insert_event_labels now c \<longleftrightarrow>
     is_ok (run_test c (\<lambda>io. client_insert_event_labels io 1 100 (test_event_labels now)))"

definition test_insert_data_source :: "test_codec \<Rightarrow> bool" where
  "test_insert_data_source c \<longleftrightarrow>
     ok_and (\<lambda>n. n = 123) (run_test c (\<lambda>io. client_insert_data_source io test_data_source))"

definition test_get_outliers :: "test_codec \<Rightarrow> bool" where
  "test_get_outliers c \<longleftrightarrow>
     ok_and (\<lambda>l. length l = 2 \<and> l ! 0 = (''sensor1'', [1, 2, 3]) \<and> l ! 1 = (''sensor2'', [4, 5, 6])) (run_test c (\<lambda>io. client_get_outliers io 10 1000))"

definition test_update_host_ports :: "test_codec \<Rightarrow> bool" where
  "test_update_host_ports c \<longleftrightarrow>
     is_ok (run_test c (\<lambda>io. client_update_host_ports io test_host_ports))"

definition test_update_host_user_agents :: "test_codec \<Rightarrow> bool" where
  "test_update_host_user_agents c \<longleftrightarrow>
     is_ok (run_test c (\<lambda>io. client_update_host_user_agents io test_host_agents))"

text \<open>What the tests send.\<close>

definition test_payloads :: "Timestamp \<Rightarrow> client_payload list" where
  "test_payloads now =
     map CPay_RunReport RUN_REPORTS @ map CPay_DetectorStatus detector_status_reports @
     [CPay_EventLabels (1, 100, test_event_labels now), CPay_DataSourceKey (DataSourceKey_Id 5),
      CPay_DeletionReport deletion_report,
      CPay_DeletionReport rejected_deletion_report,
      CPay_RunModel (RUN_ID, RUN_MODEL),
      CPay_RunModel (REJECTED_RUN_ID, RUN_MODEL),
      CPay_RunReport (REJECTED_RUN_ID, Run_Failed, Some ''failed''),
      CPay_U32s ACTIVE_RUN_IDS,
      CPay_U32s [RUN_ID, REJECTED_RUN_ID],
      CPay_DetectorStatus rejected_detector_report,
      CPay_NamePairs [(''db1'', ''1.0.0''), (''db2'', ''2.0.0'')],
      CPay_Unit,
      CPay_String ''test-indicator'',
      CPay_String ''test-model'',
      CPay_ColumnStatistics ([\<lparr>csu_cluster_id = 1, csu_column_statistics = []\<rparr>], 1, 1000),
      CPay_Bytes [0x01, 0x02, 0x03],
      CPay_TimeSeries ([\<lparr>tsu_cluster_id = 1, tsu_time_series = []\<rparr>], 1, 1000),
      CPay_Clusters (test_clusters, 1),
      CPay_Outliers (test_outliers, 1, 1000),
      CPay_DataSource test_data_source,
      CPay_U32I64 (10, 1000),
      CPay_HostPorts test_host_ports,
      CPay_HostAgents test_host_agents]"

subsection \<open>Every test passes\<close>

lemma TestServerHandler_simps [simp]:
  "mh_report_customer_data_deletion TestServerHandler = (\<lambda>a. answers (th_report_customer_data_deletion a))"
  "mh_get_allowlist TestServerHandler = (\<lambda>a. answers (th_get_allowlist a))"
  "mh_get_blocklist TestServerHandler = (\<lambda>a. answers (th_get_blocklist a))"
  "mh_get_config TestServerHandler = (\<lambda>a. answers (th_get_config a))"
  "mh_get_data_source TestServerHandler = (\<lambda>a. answers (th_get_data_source a))"
  "mh_get_indicator TestServerHandler = (\<lambda>a. answers (th_get_indicator a))"
  "mh_get_internal_network_list TestServerHandler = (\<lambda>a. answers (th_get_internal_network_list a))"
  "mh_get_model TestServerHandler = (\<lambda>a. answers (th_get_model a))"
  "mh_get_model_names TestServerHandler = (answers (th_get_model_names))"
  "mh_get_outliers TestServerHandler = (\<lambda>a b. answers (th_get_outliers a b))"
  "mh_get_pretrained_model TestServerHandler = (\<lambda>a. answers (th_get_pretrained_model a))"
  "mh_get_sampling_policy_list TestServerHandler = (\<lambda>a. answers (th_get_sampling_policy_list a))"
  "mh_get_labeldb_patterns TestServerHandler = (\<lambda>a. answers (th_get_labeldb_patterns a))"
  "mh_get_tor_exit_node_list TestServerHandler = (answers (th_get_tor_exit_node_list))"
  "mh_get_trusted_domain_list TestServerHandler = (answers (th_get_trusted_domain_list))"
  "mh_get_trusted_user_agent_list TestServerHandler = (answers (th_get_trusted_user_agent_list))"
  "mh_insert_column_statistics TestServerHandler = (\<lambda>a b c. answers (th_insert_column_statistics a b c))"
  "mh_insert_data_source TestServerHandler = (\<lambda>a. answers (th_insert_data_source a))"
  "mh_insert_event_labels TestServerHandler = (\<lambda>a b c. answers (th_insert_event_labels a b c))"
  "mh_insert_model TestServerHandler = (\<lambda>a. answers (th_insert_model a))"
  "mh_insert_time_series TestServerHandler = (\<lambda>a b c. answers (th_insert_time_series a b c))"
  "mh_remove_model TestServerHandler = (\<lambda>a. answers (th_remove_model a))"
  "mh_renew_certificate TestServerHandler = (\<lambda>a. answers (th_renew_certificate a))"
  "mh_update_clusters TestServerHandler = (\<lambda>a b. answers (th_update_clusters a b))"
  "mh_update_model TestServerHandler = (\<lambda>a. answers (th_update_model a))"
  "mh_update_outliers TestServerHandler = (\<lambda>a b c. answers (th_update_outliers a b c))"
  "mh_update_host_ports TestServerHandler = (\<lambda>a b. answers (th_update_host_ports a b))"
  "mh_update_host_user_agents TestServerHandler = (\<lambda>a b. answers (th_update_host_user_agents a b))"
  "mh_upload_run_model TestServerHandler = (\<lambda>a b c. answers (th_upload_run_model a b c))"
  "mh_report_run TestServerHandler = (\<lambda>a b c d. answers (th_report_run a b c d))"
  "mh_report_active_runs TestServerHandler = (\<lambda>a b. answers (th_report_active_runs a b))"
  "mh_report_detector_status TestServerHandler = (\<lambda>a b. answers (th_report_detector_status a b))"
  by (simp_all add: TestServerHandler_def)

lemma granted_answer [simp]:
  "remote (NoopAuthorizer p s) (answers r) h = (map_err IoError_other r, h)"
  by (simp add: remote_def NoopAuthorizer_def answers_def)

lemma named_peer [simp]: "pc_name (PeerContext_new n) = n"
  by (simp add: PeerContext_new_def)

lemma IoError_to_string_other [simp]: "IoError_to_string (IoError_other m) = m"
  by (simp add: IoError_other_def)

lemmas fixture_consts = RUN_ID_def ACTIVE_RUN_IDS_def REJECTED_RUN_ID_def REJECTED_DETECTOR_ID_def deletion_report_def
  rejected_deletion_report_def rejected_detector_report_def

named_theorems passes \<open>the tests that pass\<close>

lemma test_get_data_source_passes [passes]:
  "decodes (fst c) (snd c) (CPay_DataSourceKey (DataSourceKey_Id 5)) \<Longrightarrow> test_get_data_source c"
  unfolding test_get_data_source_def run_test_def
  by (simp add: client_get_data_source_runs th_get_data_source_def fixture_consts del: decodes.simps)

lemma test_report_customer_data_deletion_returns_handler_ok_passes [passes]:
  "decodes (fst c) (snd c) (CPay_DeletionReport deletion_report) \<Longrightarrow> test_report_customer_data_deletion_returns_handler_ok c"
  unfolding test_report_customer_data_deletion_returns_handler_ok_def run_test_def
  by (simp add: client_report_customer_data_deletion_runs th_report_customer_data_deletion_def fixture_consts del: decodes.simps)

lemma test_report_customer_data_deletion_converts_handler_error_passes [passes]:
  "decodes (fst c) (snd c) (CPay_DeletionReport rejected_deletion_report) \<Longrightarrow> test_report_customer_data_deletion_converts_handler_error c"
  unfolding test_report_customer_data_deletion_converts_handler_error_def run_test_def
  by (simp add: client_report_customer_data_deletion_runs th_report_customer_data_deletion_def fixture_consts del: decodes.simps)

lemma test_upload_run_model_returns_handler_ok_passes [passes]:
  "decodes (fst c) (snd c) (CPay_RunModel (RUN_ID, RUN_MODEL)) \<Longrightarrow> test_upload_run_model_returns_handler_ok c"
  unfolding test_upload_run_model_returns_handler_ok_def run_test_def
  by (simp add: client_upload_run_model_runs th_upload_run_model_def fixture_consts del: decodes.simps)

lemma test_upload_run_model_converts_handler_error_passes [passes]:
  "decodes (fst c) (snd c) (CPay_RunModel (REJECTED_RUN_ID, RUN_MODEL)) \<Longrightarrow> test_upload_run_model_converts_handler_error c"
  unfolding test_upload_run_model_converts_handler_error_def run_test_def
  by (simp add: client_upload_run_model_runs th_upload_run_model_def fixture_consts del: decodes.simps)

lemma test_report_run_converts_handler_error_passes [passes]:
  "decodes (fst c) (snd c) (CPay_RunReport (REJECTED_RUN_ID, Run_Failed, Some ''failed'')) \<Longrightarrow> test_report_run_converts_handler_error c"
  unfolding test_report_run_converts_handler_error_def run_test_def
  by (simp add: client_report_run_runs th_report_run_def fixture_consts del: decodes.simps)

lemma test_report_active_runs_returns_handler_ok_passes [passes]:
  "decodes (fst c) (snd c) (CPay_U32s ACTIVE_RUN_IDS) \<Longrightarrow> test_report_active_runs_returns_handler_ok c"
  unfolding test_report_active_runs_returns_handler_ok_def run_test_def
  by (simp add: client_report_active_runs_runs th_report_active_runs_def fixture_consts del: decodes.simps)

lemma test_report_active_runs_converts_handler_error_passes [passes]:
  "decodes (fst c) (snd c) (CPay_U32s [RUN_ID, REJECTED_RUN_ID]) \<Longrightarrow> test_report_active_runs_converts_handler_error c"
  unfolding test_report_active_runs_converts_handler_error_def run_test_def
  by (simp add: client_report_active_runs_runs th_report_active_runs_def fixture_consts del: decodes.simps)

lemma test_report_detector_status_converts_handler_error_passes [passes]:
  "decodes (fst c) (snd c) (CPay_DetectorStatus rejected_detector_report) \<Longrightarrow> test_report_detector_status_converts_handler_error c"
  unfolding test_report_detector_status_converts_handler_error_def run_test_def
  by (simp add: client_report_detector_status_runs th_report_detector_status_def fixture_consts del: decodes.simps)

lemma test_get_labeldb_patterns_passes [passes]:
  "decodes (fst c) (snd c) (CPay_NamePairs [(''db1'', ''1.0.0''), (''db2'', ''2.0.0'')]) \<Longrightarrow> test_get_labeldb_patterns c"
  unfolding test_get_labeldb_patterns_def run_test_def
  by (simp add: client_get_labeldb_patterns_runs th_get_labeldb_patterns_def fixture_consts del: decodes.simps)

lemma test_get_config_passes [passes]:
  "decodes (fst c) (snd c) CPay_Unit \<Longrightarrow> test_get_config c"
  unfolding test_get_config_def run_test_def
  by (simp add: client_get_config_runs th_get_config_def fixture_consts del: decodes.simps)

lemma test_get_allowlist_passes [passes]:
  "decodes (fst c) (snd c) CPay_Unit \<Longrightarrow> test_get_allowlist c"
  unfolding test_get_allowlist_def run_test_def
  by (simp add: client_get_allowlist_runs th_get_allowlist_def fixture_consts del: decodes.simps)

lemma test_get_blocklist_passes [passes]:
  "decodes (fst c) (snd c) CPay_Unit \<Longrightarrow> test_get_blocklist c"
  unfolding test_get_blocklist_def run_test_def
  by (simp add: client_get_blocklist_runs th_get_blocklist_def fixture_consts del: decodes.simps)

lemma test_get_indicator_passes [passes]:
  "decodes (fst c) (snd c) (CPay_String ''test-indicator'') \<Longrightarrow> test_get_indicator c"
  unfolding test_get_indicator_def run_test_def
  by (simp add: client_get_indicator_runs th_get_indicator_def fixture_consts del: decodes.simps)

lemma test_get_internal_network_list_passes [passes]:
  "decodes (fst c) (snd c) CPay_Unit \<Longrightarrow> test_get_internal_network_list c"
  unfolding test_get_internal_network_list_def run_test_def
  by (simp add: client_get_internal_network_list_runs th_get_internal_network_list_def fixture_consts del: decodes.simps)

lemma test_get_tor_exit_node_list_passes [passes]:
  "decodes (fst c) (snd c) CPay_Unit \<Longrightarrow> test_get_tor_exit_node_list c"
  unfolding test_get_tor_exit_node_list_def run_test_def
  by (simp add: client_get_tor_exit_node_list_runs th_get_tor_exit_node_list_def fixture_consts del: decodes.simps)

lemma test_get_trusted_domain_list_passes [passes]:
  "decodes (fst c) (snd c) CPay_Unit \<Longrightarrow> test_get_trusted_domain_list c"
  unfolding test_get_trusted_domain_list_def run_test_def
  by (simp add: client_get_trusted_domain_list_runs th_get_trusted_domain_list_def fixture_consts del: decodes.simps)

lemma test_get_trusted_user_agent_list_passes [passes]:
  "decodes (fst c) (snd c) CPay_Unit \<Longrightarrow> test_get_trusted_user_agent_list c"
  unfolding test_get_trusted_user_agent_list_def run_test_def
  by (simp add: client_get_trusted_user_agent_list_runs th_get_trusted_user_agent_list_def fixture_consts del: decodes.simps)

lemma test_get_sampling_policy_list_passes [passes]:
  "decodes (fst c) (snd c) CPay_Unit \<Longrightarrow> test_get_sampling_policy_list c"
  unfolding test_get_sampling_policy_list_def run_test_def
  by (simp add: client_get_sampling_policy_list_runs th_get_sampling_policy_list_def fixture_consts del: decodes.simps)

lemma test_get_pretrained_model_passes [passes]:
  "decodes (fst c) (snd c) (CPay_String ''test-model'') \<Longrightarrow> test_get_pretrained_model c"
  unfolding test_get_pretrained_model_def run_test_def
  by (simp add: client_get_pretrained_model_runs th_get_pretrained_model_def fixture_consts del: decodes.simps)

lemma test_renew_certificate_passes [passes]:
  "decodes (fst c) (snd c) CPay_Unit \<Longrightarrow> test_renew_certificate c"
  unfolding test_renew_certificate_def run_test_def
  by (simp add: client_renew_certificate_runs th_renew_certificate_def fixture_consts del: decodes.simps)

lemma test_get_model_passes [passes]:
  "decodes (fst c) (snd c) (CPay_String ''test-model'') \<Longrightarrow> test_get_model c"
  unfolding test_get_model_def run_test_def
  by (simp add: client_get_model_runs th_get_model_def fixture_consts del: decodes.simps)

lemma test_get_model_names_passes [passes]:
  "decodes (fst c) (snd c) CPay_Unit \<Longrightarrow> test_get_model_names c"
  unfolding test_get_model_names_def run_test_def
  by (simp add: client_get_model_names_runs th_get_model_names_def fixture_consts del: decodes.simps)

lemma test_insert_column_statistics_passes [passes]:
  "decodes (fst c) (snd c) (CPay_ColumnStatistics ([\<lparr>csu_cluster_id = 1, csu_column_statistics = []\<rparr>], 1, 1000)) \<Longrightarrow> test_insert_column_statistics c"
  unfolding test_insert_column_statistics_def run_test_def
  by (simp add: client_insert_column_statistics_runs th_insert_column_statistics_def fixture_consts del: decodes.simps)

lemma test_insert_model_passes [passes]:
  "decodes (fst c) (snd c) (CPay_Bytes [0x01, 0x02, 0x03]) \<Longrightarrow> test_insert_model c"
  unfolding test_insert_model_def run_test_def
  by (simp add: client_insert_model_runs th_insert_model_def fixture_consts del: decodes.simps)

lemma test_insert_time_series_passes [passes]:
  "decodes (fst c) (snd c) (CPay_TimeSeries ([\<lparr>tsu_cluster_id = 1, tsu_time_series = []\<rparr>], 1, 1000)) \<Longrightarrow> test_insert_time_series c"
  unfolding test_insert_time_series_def run_test_def
  by (simp add: client_insert_time_series_runs th_insert_time_series_def fixture_consts del: decodes.simps)

lemma test_remove_model_passes [passes]:
  "decodes (fst c) (snd c) (CPay_String ''test-model'') \<Longrightarrow> test_remove_model c"
  unfolding test_remove_model_def run_test_def
  by (simp add: client_remove_model_runs th_remove_model_def fixture_consts del: decodes.simps)

lemma test_update_clusters_passes [passes]:
  "decodes (fst c) (snd c) (CPay_Clusters (test_clusters, 1)) \<Longrightarrow> test_update_clusters c"
  unfolding test_update_clusters_def run_test_def
  by (simp add: client_update_clusters_runs th_update_clusters_def fixture_consts del: decodes.simps)

lemma test_update_model_passes [passes]:
  "decodes (fst c) (snd c) (CPay_Bytes [0x01, 0x02, 0x03]) \<Longrightarrow> test_update_model c"
  unfolding test_update_model_def run_test_def
  by (simp add: client_update_model_runs th_update_model_def fixture_consts del: decodes.simps)

lemma test_update_outliers_passes [passes]:
  "decodes (fst c) (snd c) (CPay_Outliers (test_outliers, 1, 1000)) \<Longrightarrow> test_update_outliers c"
  unfolding test_update_outliers_def run_test_def
  by (simp add: client_update_outliers_runs th_update_outliers_def fixture_consts del: decodes.simps)

lemma test_insert_data_source_passes [passes]:
  "decodes (fst c) (snd c) (CPay_DataSource test_data_source) \<Longrightarrow> test_insert_data_source c"
  unfolding test_insert_data_source_def run_test_def
  by (simp add: client_insert_data_source_runs th_insert_data_source_def fixture_consts del: decodes.simps)

lemma test_get_outliers_passes [passes]:
  "decodes (fst c) (snd c) (CPay_U32I64 (10, 1000)) \<Longrightarrow> test_get_outliers c"
  unfolding test_get_outliers_def run_test_def
  by (simp add: client_get_outliers_runs th_get_outliers_def fixture_consts del: decodes.simps)

lemma test_update_host_ports_passes [passes]:
  "decodes (fst c) (snd c) (CPay_HostPorts test_host_ports) \<Longrightarrow> test_update_host_ports c"
  unfolding test_update_host_ports_def run_test_def
  by (simp add: client_update_host_ports_runs th_update_host_ports_def fixture_consts del: decodes.simps)

lemma test_update_host_user_agents_passes [passes]:
  "decodes (fst c) (snd c) (CPay_HostAgents test_host_agents) \<Longrightarrow> test_update_host_user_agents c"
  unfolding test_update_host_user_agents_def run_test_def
  by (simp add: client_update_host_user_agents_runs th_update_host_user_agents_def fixture_consts del: decodes.simps)

lemma test_report_run_returns_handler_ok_passes [passes]:
  assumes "list_all (\<lambda>r. decodes (fst c) (snd c) (CPay_RunReport r)) RUN_REPORTS"
  shows "test_report_run_returns_handler_ok c"
  using assms
  by (auto simp: test_report_run_returns_handler_ok_def run_test_def list_all_iff client_report_run_runs
      th_report_run_def RUN_REPORTS_def fixture_consts simp del: decodes.simps)

lemma test_report_detector_status_returns_handler_ok_passes [passes]:
  assumes "list_all (\<lambda>r. decodes (fst c) (snd c) (CPay_DetectorStatus r)) detector_status_reports"
  shows "test_report_detector_status_returns_handler_ok c"
proof -
  have "\<forall>r \<in> set detector_status_reports. ds_detector_id r \<noteq> REJECTED_DETECTOR_ID"
    by (simp add: detector_status_reports_def REJECTED_DETECTOR_ID_def)
  with assms show ?thesis
    by (simp add: test_report_detector_status_returns_handler_ok_def run_test_def list_all_iff
        client_report_detector_status_runs th_report_detector_status_def del: decodes.simps)
qed

lemma test_insert_event_labels_passes [passes]:
  "decodes (fst c) (snd c) (CPay_EventLabels (1, 100, test_event_labels now)) \<Longrightarrow>
     test_insert_event_labels now c"
  unfolding test_insert_event_labels_def run_test_def
  by (simp add: client_insert_event_labels_runs th_insert_event_labels_def del: decodes.simps)

text \<open>
  The tests of the agent's calls pass: on a connection served by the repository's own test
  handler, with any codec under which the manager decodes each of the tests' payloads to what
  the agent encoded, every assertion of the 37 tests holds.
\<close>

lemma client_api_tests_pass:
  assumes "list_all (decodes (fst c) (snd c)) (test_payloads now)"
  shows "test_insert_event_labels now c
    \<and> test_get_data_source c
    \<and> test_report_customer_data_deletion_returns_handler_ok c
    \<and> test_report_customer_data_deletion_converts_handler_error c
    \<and> test_upload_run_model_returns_handler_ok c
    \<and> test_upload_run_model_converts_handler_error c
    \<and> test_report_run_returns_handler_ok c
    \<and> test_report_run_converts_handler_error c
    \<and> test_report_active_runs_returns_handler_ok c
    \<and> test_report_active_runs_converts_handler_error c
    \<and> test_report_detector_status_returns_handler_ok c
    \<and> test_report_detector_status_converts_handler_error c
    \<and> test_get_labeldb_patterns c
    \<and> test_get_config c
    \<and> test_get_allowlist c
    \<and> test_get_blocklist c
    \<and> test_get_indicator c
    \<and> test_get_internal_network_list c
    \<and> test_get_tor_exit_node_list c
    \<and> test_get_trusted_domain_list c
    \<and> test_get_trusted_user_agent_list c
    \<and> test_get_sampling_policy_list c
    \<and> test_get_pretrained_model c
    \<and> test_renew_certificate c
    \<and> test_get_model c
    \<and> test_get_model_names c
    \<and> test_insert_column_statistics c
    \<and> test_insert_model c
    \<and> test_insert_time_series c
    \<and> test_remove_model c
    \<and> test_update_clusters c
    \<and> test_update_model c
    \<and> test_update_outliers c
    \<and> test_insert_data_source c
    \<and> test_get_outliers c
    \<and> test_update_host_ports c
    \<and> test_update_host_user_agents c"
  using assms by (simp add: test_payloads_def passes list.pred_map comp_def del: decodes.simps)

subsection \<open>A codec for any list of payloads\<close>

text \<open>A payload is sent as its position in the list.\<close>

definition payload_position :: "client_payload list \<Rightarrow> client_payload \<Rightarrow> nat" where
  "payload_position ps p = length (takeWhile (\<lambda>q. q \<noteq> p) ps)"

definition table_codec :: "client_payload list \<Rightarrow> client_payload \<Rightarrow> bytes" where
  "table_codec ps p = [of_nat (payload_position ps p)]"

definition table_read :: "client_payload list \<Rightarrow> (client_payload \<Rightarrow> 'a option) \<Rightarrow> bytes \<Rightarrow> IoError + 'a" where
  "table_read ps pick b =
     (case pick (ps ! unat (hd b)) of Some a \<Rightarrow> Ok a | None \<Rightarrow> Err (IoError_from EK_InvalidData))"

definition table_args :: "client_payload list \<Rightarrow> server_args" where
  "table_args ps = rejecting_server_args
     \<lparr>sarg_unit := table_read ps (\<lambda>p. case p of CPay_Unit \<Rightarrow> Some () | _ \<Rightarrow> None),
      sarg_data_source_key := table_read ps (\<lambda>p. case p of CPay_DataSourceKey x \<Rightarrow> Some x | _ \<Rightarrow> None),
      sarg_string := table_read ps (\<lambda>p. case p of CPay_String x \<Rightarrow> Some x | _ \<Rightarrow> None),
      sarg_name_pairs := table_read ps (\<lambda>p. case p of CPay_NamePairs x \<Rightarrow> Some x | _ \<Rightarrow> None),
      sarg_u32_i64 := table_read ps (\<lambda>p. case p of CPay_U32I64 x \<Rightarrow> Some x | _ \<Rightarrow> None),
      sarg_column_statistics := table_read ps (\<lambda>p. case p of CPay_ColumnStatistics x \<Rightarrow> Some x | _ \<Rightarrow> None),
      sarg_data_source := table_read ps (\<lambda>p. case p of CPay_DataSource x \<Rightarrow> Some x | _ \<Rightarrow> None),
      sarg_event_labels := table_read ps (\<lambda>p. case p of CPay_EventLabels x \<Rightarrow> Some x | _ \<Rightarrow> None),
      sarg_bytes := table_read ps (\<lambda>p. case p of CPay_Bytes x \<Rightarrow> Some x | _ \<Rightarrow> None),
      sarg_time_series := table_read ps (\<lambda>p. case p of CPay_TimeSeries x \<Rightarrow> Some x | _ \<Rightarrow> None),
      sarg_deletion_report := table_read ps (\<lambda>p. case p of CPay_DeletionReport x \<Rightarrow> Some x | _ \<Rightarrow> None),
      sarg_clusters := table_read ps (\<lambda>p. case p of CPay_Clusters x \<Rightarrow> Some x | _ \<Rightarrow> None),
      sarg_outliers := table_read ps (\<lambda>p. case p of CPay_Outliers x \<Rightarrow> Some x | _ \<Rightarrow> None),
      sarg_host_ports := table_read ps (\<lambda>p. case p of CPay_HostPorts x \<Rightarrow> Some x | _ \<Rightarrow> None),
      sarg_host_agents := table_read ps (\<lambda>p. case p of CPay_HostAgents x \<Rightarrow> Some x | _ \<Rightarrow> None),
      sarg_run_model := table_read ps (\<lambda>p. case p of CPay_RunModel x \<Rightarrow> Some x | _ \<Rightarrow> None),
      sarg_run_report := table_read ps (\<lambda>p. case p of CPay_RunReport x \<Rightarrow> Some x | _ \<Rightarrow> None),
      sarg_u32s := table_read ps (\<lambda>p. case p of CPay_U32s x \<Rightarrow> Some x | _ \<Rightarrow> None),
      sarg_detector_status := table_read ps (\<lambda>p. case p of CPay_DetectorStatus x \<Rightarrow> Some x | _ \<Rightarrow> None)\<rparr>"

lemma nth_payload_position: "p \<in> set ps \<Longrightarrow> ps ! payload_position ps p = p"
  by (induction ps) (auto simp: payload_position_def)

lemma payload_position_less: "p \<in> set ps \<Longrightarrow> payload_position ps p < length ps"
  by (induction ps) (auto simp: payload_position_def)

lemma table_codec_decodes:
  assumes "p \<in> set ps" and "length ps < 256"
  shows "decodes (table_codec ps) (table_args ps) p"
proof -
  have "unat (of_nat (payload_position ps p) :: u8) = payload_position ps p"
    using payload_position_less [OF assms(1)] assms(2)
    by (simp add: unsigned_of_nat take_bit_nat_eq_self)
  then have "ps ! unat (hd (table_codec ps p)) = p"
    using nth_payload_position [OF assms(1)] by (simp add: table_codec_def)
  then show ?thesis
    by (cases p) (simp_all add: table_args_def table_read_def)
qed

lemma client_api_tests_pass_witness:
  "\<exists>c :: test_codec. test_get_data_source c \<and> test_report_run_converts_handler_error c
     \<and> test_get_outliers c \<and> test_update_host_user_agents c"
proof -
  let ?ps = "test_payloads undefined"
  let ?c = "(table_codec ?ps, table_args ?ps)"
  have "length ?ps < 256"
    by (simp add: test_payloads_def RUN_REPORTS_def detector_status_reports_def)
  then have "list_all (decodes (fst ?c) (snd ?c)) ?ps"
    by (simp add: list_all_iff table_codec_decodes del: decodes.simps)
  from client_api_tests_pass [OF this] show ?thesis by blast
qed

end
