(* ===== verification/Package_Reader.thy ===== *)
theory Package_Reader
  imports Agent_Transport
begin

text \<open>
  \<open>src/src/request.rs\<close> \<open>PackageReader\<close>: the reader an install handler pulls the
  package payload through, and the draining of what the handler left. The interface
  \<open>bounded_reader\<close> is what a handler may rely on, whatever the peer sends: the bytes
  handed out and the bytes still owed always add up, and a failed transfer stays failed.
\<close>

subsection \<open>The reader\<close>

record 'r PackageReader =
  pr_recv :: 'r
  pr_size :: u64
  pr_remaining :: u64
  pr_failed :: bool

definition PackageReader_new :: "'r \<Rightarrow> u64 \<Rightarrow> 'r PackageReader" where
  "PackageReader_new recv sz = \<lparr>pr_recv = recv, pr_size = sz, pr_remaining = sz, pr_failed = False\<rparr>"

definition PackageReader_size :: "'r PackageReader \<Rightarrow> u64" where
  "PackageReader_size self = pr_size self"

definition PackageReader_remaining :: "'r PackageReader \<Rightarrow> u64" where
  "PackageReader_remaining self = pr_remaining self"

text \<open>An \<open>io::Error\<close> wrapped into another is kept for its text only.\<close>

definition truncated_payload :: "IoError \<Rightarrow> IoError" where
  "truncated_payload e =
     (if io_kind e = EK_UnexpectedEof then e
      else IoError_new EK_UnexpectedEof (IoError_to_string e))"

definition overrun_message :: "u64 \<Rightarrow> u64 \<Rightarrow> string" where
  "overrun_message len remaining =
     ''package chunk of '' @ show_nat (unat len) @ '' bytes overruns the ''
     @ show_nat (unat remaining) @ '' bytes still expected''"

text \<open>\<open>buf\<close> holds the frame on success; \<open>buf.len()\<close> is converted with a check.\<close>

definition read_chunk ::
  "('s, 'r) agent_io \<Rightarrow> 'r PackageReader \<Rightarrow> (IoError + bytes) \<times> 'r PackageReader" where
  "read_chunk io self =
     (case recv_raw io (pr_recv self) of
        (Err e, recv) \<Rightarrow> (Err (truncated_payload e), self\<lparr>pr_recv := recv\<rparr>)
      | (Ok buf, recv) \<Rightarrow>
          let self = self\<lparr>pr_recv := recv\<rparr> in
          if 2 ^ 64 \<le> length buf
          then (Err (IoError_new EK_InvalidData
                  ''out of range integral type conversion attempted''), self)
          else let len = of_nat (length buf) in
               if pr_remaining self < len
               then (Err (IoError_new EK_InvalidData (overrun_message len (pr_remaining self))), self)
               else (Ok buf, self\<lparr>pr_remaining := pr_remaining self - len\<rparr>))"

text \<open>\<open>Ok (more, buf)\<close>: whether a chunk was read, and the buffer it is in.\<close>

definition next_chunk ::
  "('s, 'r) agent_io \<Rightarrow> 'r PackageReader \<Rightarrow> (IoError + bool \<times> bytes) \<times> 'r PackageReader" where
  "next_chunk io self =
     (if pr_failed self
      then (Err (IoError_new EK_InvalidData ''the package transfer already failed''), self)
      else if pr_remaining self = 0 then (Ok (False, []), self)
      else (case read_chunk io self of
              (Ok buf, self) \<Rightarrow> (Ok (True, buf), self)
            | (Err e, self) \<Rightarrow> (Err e, self\<lparr>pr_failed := True\<rparr>)))"

definition drain_step ::
  "('s, 'r) agent_io \<Rightarrow> 'r PackageReader
   \<Rightarrow> ('r PackageReader, (IoError + unit) \<times> 'r PackageReader) flow option" where
  "drain_step io self = Some
     (case next_chunk io self of
        (Err e, self) \<Rightarrow> Leave (Err e, self)
      | (Ok (True, _), self) \<Rightarrow> Again self
      | (Ok (False, _), self) \<Rightarrow> Leave (Ok (), self))"

definition drain ::
  "('s, 'r) agent_io \<Rightarrow> 'r PackageReader \<Rightarrow> ((IoError + unit) \<times> 'r PackageReader) option" where
  "drain io = iterate (drain_step io)"

subsection \<open>What a handler does with the reader\<close>

text \<open>
  An install handler is the application's code. What it does with the reader it is handed is
  a finite tree: it ends with its result, or it calls one of the reader's three methods and
  goes on with what the method returned.
\<close>

datatype 'a package_prog =
    Finish 'a
  | NextChunk "IoError + bool \<times> bytes \<Rightarrow> 'a package_prog"
  | AskSize "u64 \<Rightarrow> 'a package_prog"
  | AskRemaining "u64 \<Rightarrow> 'a package_prog"

text \<open>The three methods are \<open>nxt\<close>, \<open>sz\<close> and \<open>rem\<close>.\<close>

primrec run_prog ::
  "('p \<Rightarrow> (IoError + bool \<times> bytes) \<times> 'p) \<Rightarrow> ('p \<Rightarrow> u64) \<Rightarrow> ('p \<Rightarrow> u64)
   \<Rightarrow> 'a package_prog \<Rightarrow> 'p \<Rightarrow> 'a \<times> 'p" where
  "run_prog nxt sz rem (Finish a) = (\<lambda>p. (a, p))"
| "run_prog nxt sz rem (NextChunk k) =
     (\<lambda>p. case nxt p of (res, p') \<Rightarrow> run_prog nxt sz rem (k res) p')"
| "run_prog nxt sz rem (AskSize k) = (\<lambda>p. run_prog nxt sz rem (k (sz p)) p)"
| "run_prog nxt sz rem (AskRemaining k) = (\<lambda>p. run_prog nxt sz rem (k (rem p)) p)"

text \<open>The chunks the reader handed to the handler on the way.\<close>

primrec chunks_given ::
  "('p \<Rightarrow> (IoError + bool \<times> bytes) \<times> 'p) \<Rightarrow> ('p \<Rightarrow> u64) \<Rightarrow> ('p \<Rightarrow> u64)
   \<Rightarrow> 'a package_prog \<Rightarrow> 'p \<Rightarrow> bytes list" where
  "chunks_given nxt sz rem (Finish a) = (\<lambda>p. [])"
| "chunks_given nxt sz rem (NextChunk k) =
     (\<lambda>p. case nxt p of (res, p') \<Rightarrow>
        (case res of Ok (True, c) \<Rightarrow> [c] | _ \<Rightarrow> []) @ chunks_given nxt sz rem (k res) p')"
| "chunks_given nxt sz rem (AskSize k) = (\<lambda>p. chunks_given nxt sz rem (k (sz p)) p)"
| "chunks_given nxt sz rem (AskRemaining k) = (\<lambda>p. chunks_given nxt sz rem (k (rem p)) p)"

abbreviation run_handler ::
  "('s, 'r) agent_io \<Rightarrow> 'a package_prog \<Rightarrow> 'r PackageReader \<Rightarrow> 'a \<times> 'r PackageReader" where
  "run_handler io \<equiv> run_prog (next_chunk io) PackageReader_size PackageReader_remaining"

abbreviation chunks_to_handler ::
  "('s, 'r) agent_io \<Rightarrow> 'a package_prog \<Rightarrow> 'r PackageReader \<Rightarrow> bytes list" where
  "chunks_to_handler io \<equiv> chunks_given (next_chunk io) PackageReader_size PackageReader_remaining"

subsection \<open>The interface a handler relies on\<close>

locale bounded_reader =
  fixes nxt :: "'p \<Rightarrow> (IoError + bool \<times> bytes) \<times> 'p"
    and sz :: "'p \<Rightarrow> u64"
    and rem :: "'p \<Rightarrow> u64"
    and failed :: "'p \<Rightarrow> bool"
  assumes chunk_counted:
      "nxt p = (Ok (True, c), p') \<Longrightarrow> length c + unat (rem p') = unat (rem p) \<and> \<not> failed p'"
    and end_at_zero:
      "nxt p = (Ok (False, c), p') \<Longrightarrow> p' = p \<and> rem p = 0 \<and> \<not> failed p \<and> c = []"
    and error_fails: "nxt p = (Err e, p') \<Longrightarrow> failed p' \<and> rem p' = rem p"
    and failed_stuck: "failed p \<Longrightarrow> \<exists>e. nxt p = (Err e, p)"
    and size_fixed: "nxt p = (res, p') \<Longrightarrow> sz p' = sz p"
begin

lemma given_adds_up:
  "run_prog nxt sz rem prog p = (a, p') \<Longrightarrow>
     length (concat (chunks_given nxt sz rem prog p)) + unat (rem p') = unat (rem p)"
proof (induction prog arbitrary: p)
  case (NextChunk k)
  obtain res q where q: "nxt p = (res, q)" by (cases "nxt p")
  have IH: "length (concat (chunks_given nxt sz rem (k res) q)) + unat (rem p') = unat (rem q)"
    using NextChunk.IH [OF rangeI, of res q] NextChunk.prems q by simp
  show ?case
  proof (cases res)
    case (Inl e)
    then show ?thesis using q IH error_fails by simp
  next
    case (Inr mc)
    then show ?thesis
      using q IH chunk_counted [of p "snd mc" q] end_at_zero [of p "snd mc" q]
      by (cases mc; cases "fst mc") auto
  qed
qed auto

lemma failed_gives_nothing:
  "failed p \<Longrightarrow> chunks_given nxt sz rem prog p = [] \<and> snd (run_prog nxt sz rem prog p) = p"
proof (induction prog arbitrary: p)
  case (NextChunk k)
  then obtain e where "nxt p = (Err e, p)" using failed_stuck by blast
  with NextChunk show ?case by (simp add: range_eqI)
qed auto

end

subsection \<open>The package reader provides it\<close>

lemma read_chunk_cases:
  obtains (fail) e p' where "read_chunk io p = (Err e, p')" "pr_remaining p' = pr_remaining p"
      "pr_size p' = pr_size p" "pr_failed p' = pr_failed p"
  | (chunk) c p' where "read_chunk io p = (Ok c, p')"
      "length c + unat (pr_remaining p') = unat (pr_remaining p)"
      "pr_size p' = pr_size p" "pr_failed p' = pr_failed p"
      "recv_raw io (pr_recv p) = (Ok c, pr_recv p')"
proof (cases "recv_raw io (pr_recv p)")
  case (Pair res r)
  show ?thesis
  proof (cases res)
    case (Inl e)
    with Pair show ?thesis
      using fail [of _ "p\<lparr>pr_recv := r\<rparr>"] by (simp add: read_chunk_def)
  next
    case (Inr c)
    show ?thesis
    proof (cases "2 ^ 64 \<le> length c \<or> pr_remaining p < of_nat (length c)")
      case True
      with Pair Inr have "\<exists>e. read_chunk io p = (Err e, p\<lparr>pr_recv := r\<rparr>)"
        by (auto simp: read_chunk_def Let_def)
      then show ?thesis
        using fail [of _ "p\<lparr>pr_recv := r\<rparr>"] by auto
    next
      case False
      then have len: "length c < 2 ^ 64" "of_nat (length c) \<le> pr_remaining p" by auto
      have "unat (of_nat (length c) :: u64) = length c"
        by (rule unat_of_nat_u64 [OF len(1)])
      with len have "length c + unat (pr_remaining p - of_nat (length c)) = unat (pr_remaining p)"
        by (metis le_add_diff_inverse unat_sub_le word_le_nat_alt)
      with Pair Inr False show ?thesis
        using chunk [of c "p\<lparr>pr_recv := r, pr_remaining := pr_remaining p - of_nat (length c)\<rparr>"]
        by (auto simp: read_chunk_def Let_def)
    qed
  qed
qed

interpretation package: bounded_reader "next_chunk io" PackageReader_size PackageReader_remaining
  pr_failed for io
proof
  fix p p' c e res
  note defs = next_chunk_def PackageReader_remaining_def PackageReader_size_def
  show "length c + unat (PackageReader_remaining p') = unat (PackageReader_remaining p)
        \<and> \<not> pr_failed p'" if "next_chunk io p = (Ok (True, c), p')"
    using that by (cases rule: read_chunk_cases [of io p]) (auto simp: defs split: if_splits)
  show "p' = p \<and> PackageReader_remaining p = 0 \<and> \<not> pr_failed p \<and> c = []"
    if "next_chunk io p = (Ok (False, c), p')"
    using that by (cases rule: read_chunk_cases [of io p]) (auto simp: defs split: if_splits)
  show "pr_failed p' \<and> PackageReader_remaining p' = PackageReader_remaining p"
    if "next_chunk io p = (Err e, p')"
    using that by (cases rule: read_chunk_cases [of io p]) (auto simp: defs split: if_splits)
  show "\<exists>e. next_chunk io p = (Err e, p)" if "pr_failed p"
    using that by (simp add: defs)
  show "PackageReader_size p' = PackageReader_size p" if "next_chunk io p = (res, p')"
    using that by (cases rule: read_chunk_cases [of io p]) (auto simp: defs split: if_splits)
qed

lemma package_new [simp]:
  "pr_recv (PackageReader_new r n) = r" "pr_size (PackageReader_new r n) = n"
  "pr_remaining (PackageReader_new r n) = n" "\<not> pr_failed (PackageReader_new r n)"
  by (simp_all add: PackageReader_new_def)

subsection \<open>One call of the reader\<close>

lemma next_chunk_failed [simp]:
  "pr_failed p \<Longrightarrow>
     next_chunk io p = (Err (IoError_new EK_InvalidData ''the package transfer already failed''), p)"
  by (simp add: next_chunk_def)

lemma next_chunk_end [simp]:
  "\<not> pr_failed p \<Longrightarrow> pr_remaining p = 0 \<Longrightarrow> next_chunk io p = (Ok (False, []), p)"
  by (simp add: next_chunk_def)

lemma next_chunk_takes:
  assumes "\<not> pr_failed p" and "recv_raw io (pr_recv p) = (Ok c, r)"
    and "c \<noteq> []" and "length c \<le> unat (pr_remaining p)"
  shows "next_chunk io p =
     (Ok (True, c), p\<lparr>pr_recv := r, pr_remaining := pr_remaining p - of_nat (length c)\<rparr>)"
proof -
  have len: "unat (of_nat (length c) :: u64) = length c"
    using assms(4) by (rule unat_of_nat_le)
  have "length c < 2 ^ 64"
    using assms(4) u64_bound [of "pr_remaining p"] by linarith
  moreover have "pr_remaining p \<noteq> 0"
    using assms(3,4) by auto
  moreover have "\<not> pr_remaining p < of_nat (length c)"
    using assms(4) len by (simp add: word_less_nat_alt)
  ultimately show ?thesis
    using assms(1,2) by (simp add: next_chunk_def read_chunk_def)
qed

lemma next_chunk_error_kind:
  assumes "\<not> pr_failed p" and "next_chunk io p = (Err e, p')"
  shows "io_kind e = EK_UnexpectedEof \<and> (\<exists>e'. fst (recv_raw io (pr_recv p)) = Err e')
         \<or> io_kind e = EK_InvalidData
           \<and> (\<exists>c. fst (recv_raw io (pr_recv p)) = Ok c \<and> unat (pr_remaining p) < length c)"
proof (cases "recv_raw io (pr_recv p)")
  case (Pair res r)
  show ?thesis
  proof (cases res)
    case (Inl e')
    with Pair assms show ?thesis
      by (auto simp: next_chunk_def read_chunk_def truncated_payload_def split: if_splits)
  next
    case (Inr c)
    have "unat (pr_remaining p) < length c"
    proof (rule ccontr)
      assume *: "\<not> unat (pr_remaining p) < length c"
      show False
      proof (cases "pr_remaining p = 0 \<or> c = []")
        case True
        then show False using assms Pair Inr
          by (auto simp: next_chunk_def read_chunk_def Let_def split: if_splits)
      next
        case False
        with * assms Pair Inr show False using next_chunk_takes [of p io c r] by simp
      qed
    qed
    with Pair Inr assms show ?thesis
      by (auto simp: next_chunk_def read_chunk_def Let_def split: if_splits)
  qed
qed

subsection \<open>Draining\<close>

text \<open>
  The stream carries, up to the state \<open>r'\<close>, exactly the chunks still owed: the situation
  an install is in between its first and its last payload byte.
\<close>

definition payload_ahead :: "('s, 'r) agent_io \<Rightarrow> 'r PackageReader \<Rightarrow> bytes list \<Rightarrow> 'r \<Rightarrow> bool" where
  "payload_ahead io p chunks r' \<longleftrightarrow>
     \<not> pr_failed p \<and> delivers (recv_raw io) (pr_recv p) chunks r' \<and> [] \<notin> set chunks
     \<and> length (concat chunks) = unat (pr_remaining p)"

lemma payload_ahead_end:
  "payload_ahead io p [] r' \<Longrightarrow> next_chunk io p = (Ok (False, []), p) \<and> pr_recv p = r'"
  by (simp add: payload_ahead_def unat_eq_zero)

lemma payload_ahead_chunk:
  assumes "payload_ahead io p (c # chunks) r'"
  shows "\<exists>p'. next_chunk io p = (Ok (True, c), p') \<and> payload_ahead io p' chunks r'"
proof -
  obtain r where r: "recv_raw io (pr_recv p) = (Ok c, r)" "delivers (recv_raw io) r chunks r'"
    using assms by (auto simp: payload_ahead_def delivers_Cons)
  have len: "length c \<le> unat (pr_remaining p)" "c \<noteq> []"
    using assms by (auto simp: payload_ahead_def)
  let ?p = "p\<lparr>pr_recv := r, pr_remaining := pr_remaining p - of_nat (length c)\<rparr>"
  have "unat (pr_remaining ?p) = unat (pr_remaining p) - length c"
    using len by (simp add: unat_of_nat_le unat_sub_le word_le_nat_alt)
  then have "payload_ahead io ?p chunks r'"
    using assms r by (auto simp: payload_ahead_def)
  moreover have "next_chunk io p = (Ok (True, c), ?p)"
    using assms r len by (intro next_chunk_takes) (auto simp: payload_ahead_def)
  ultimately show ?thesis by blast
qed

lemma run_handler_ahead:
  "payload_ahead io p chunks r' \<Longrightarrow>
     \<exists>rest. chunks = chunks_to_handler io prog p @ rest
            \<and> payload_ahead io (snd (run_handler io prog p)) rest r'"
proof (induction prog arbitrary: p chunks)
  case (NextChunk k)
  show ?case
  proof (cases chunks)
    case Nil
    then have "next_chunk io p = (Ok (False, []), p)"
      using payload_ahead_end [of io p r'] NextChunk.prems by simp
    with NextChunk.IH [OF rangeI NextChunk.prems] show ?thesis by simp
  next
    case (Cons c cs)
    then obtain p' where p': "next_chunk io p = (Ok (True, c), p')" "payload_ahead io p' cs r'"
      using payload_ahead_chunk [of io p c cs r'] NextChunk.prems by blast
    with NextChunk.IH [OF rangeI p'(2)] Cons show ?thesis by simp
  qed
qed auto

lemma drain_ahead:
  "payload_ahead io p chunks r' \<Longrightarrow>
     \<exists>p'. drain io p = Some (Ok (), p') \<and> pr_recv p' = r' \<and> pr_remaining p' = 0"
proof (induction chunks arbitrary: p)
  case Nil
  then have "drain_step io p = Some (Leave (Ok (), p))"
    using payload_ahead_end [of io p r'] by (simp add: drain_step_def)
  then have "drain io p = Some (Ok (), p)"
    unfolding drain_def by (rule iterate_Leave)
  with Nil show ?case by (simp add: payload_ahead_def unat_eq_zero)
next
  case (Cons c chunks)
  then obtain p' where p': "next_chunk io p = (Ok (True, c), p')" "payload_ahead io p' chunks r'"
    using payload_ahead_chunk [of io p c chunks r'] by blast
  then have "drain_step io p = Some (Again p')"
    by (simp add: drain_step_def)
  then have "drain io p = drain io p'"
    unfolding drain_def by (rule iterate_Again)
  with Cons.IH [OF p'(2)] show ?case by simp
qed

lemma drain_step_Again:
  "drain_step io p = Some (Again p') \<longleftrightarrow> (\<exists>c. next_chunk io p = (Ok (True, c), p'))"
  by (auto simp: drain_step_def split: prod.splits sum.splits bool.splits)

lemma drain_step_Leave:
  "drain_step io p = Some (Leave (res, p')) \<longleftrightarrow>
     (\<exists>e. next_chunk io p = (Err e, p') \<and> res = Err e)
     \<or> (\<exists>c. next_chunk io p = (Ok (False, c), p') \<and> res = Ok ())"
  by (auto simp: drain_step_def split: prod.splits sum.splits bool.splits)

lemma next_chunk_recv:
  "next_chunk io p = (Ok (True, c), p') \<Longrightarrow> recv_raw io (pr_recv p) = (Ok c, pr_recv p')"
  by (cases rule: read_chunk_cases [of io p]) (auto simp: next_chunk_def split: if_splits)

lemma drain_loop:
  "finite_backlog (recv_raw io) \<mu> \<Longrightarrow>
     loop_variant (drain_step io) (\<lambda>_. True) (\<lambda>p. \<mu> (pr_recv p))"
proof (rule loop_variant.intro)
  fix s s'
  assume "finite_backlog (recv_raw io) \<mu>" and "drain_step io s = Some (Again s')"
  then show "\<mu> (pr_recv s') < \<mu> (pr_recv s)"
    unfolding drain_step_Again by (metis finite_backlogD(1) next_chunk_recv)
qed (simp_all add: drain_step_def)

subsection \<open>What the reader guarantees\<close>

text \<open>
  C27. Whatever a handler does with the reader and whatever the peer sends, the bytes the
  handler was given and the bytes still owed add up to the announced size: the reader never
  hands out a byte beyond the package, and never loses count of one.
\<close>

theorem package_reader_adds_up:
  "length (concat (chunks_to_handler io prog (PackageReader_new r n)))
   + unat (pr_remaining (snd (run_handler io prog (PackageReader_new r n)))) = unat n"
  using package.given_adds_up [of io prog "PackageReader_new r n"]
  by (cases "run_handler io prog (PackageReader_new r n)") (simp add: PackageReader_remaining_def)

text \<open>
  When the stream carries the announced number of bytes in non-empty chunks, the payload is
  consumed exactly: whatever part of it the handler reads, draining the rest succeeds and
  leaves the stream right after the last chunk, at the next request; the chunks the handler saw
  are the first ones, unchanged and in order.
\<close>

lemma package_payload_aligned:
  assumes "delivers (recv_raw io) r chunks r'" and "[] \<notin> set chunks"
    and "length (concat chunks) = unat n"
  shows "\<exists>rest p'. chunks = chunks_to_handler io prog (PackageReader_new r n) @ rest
           \<and> drain io (snd (run_handler io prog (PackageReader_new r n))) = Some (Ok (), p')
           \<and> pr_recv p' = r' \<and> pr_remaining p' = 0"
proof -
  have "payload_ahead io (PackageReader_new r n) chunks r'"
    using assms by (simp add: payload_ahead_def)
  from run_handler_ahead [OF this, of prog] obtain rest where
      "chunks = chunks_to_handler io prog (PackageReader_new r n) @ rest"
      "payload_ahead io (snd (run_handler io prog (PackageReader_new r n))) rest r'"
    by blast
  then show ?thesis
    using drain_ahead [of io _ rest r'] by metis
qed

text \<open>
  C28. A transfer that failed stays failed: the failing call reports a broken stream as an
  unexpected end of file and a chunk larger than what is owed as invalid data, and from then on
  every call and every drain returns the same error without touching the stream, so nothing
  past the failure is ever taken for payload.
\<close>

theorem package_failure_sticks:
  assumes "next_chunk io p = (Err e, p')" and "\<not> pr_failed p"
  shows "(case fst (recv_raw io (pr_recv p)) of
            Err _ \<Rightarrow> io_kind e = EK_UnexpectedEof
          | Ok c \<Rightarrow> io_kind e = EK_InvalidData \<and> unat (pr_remaining p) < length c)
         \<and> (\<forall>q. snd (run_handler io q p') = p' \<and> chunks_to_handler io q p' = [])
         \<and> (\<exists>e'. io_kind e' = EK_InvalidData \<and> next_chunk io p' = (Err e', p')
              \<and> drain io p' = Some (Err e', p'))"
proof -
  have failed: "pr_failed p'"
    using assms(1) package.error_fails by blast
  let ?e = "IoError_new EK_InvalidData ''the package transfer already failed''"
  have "drain_step io p' = Some (Leave (Err ?e, p'))"
    using failed by (simp add: drain_step_def)
  then have "drain io p' = Some (Err ?e, p')"
    unfolding drain_def by (rule iterate_Leave)
  moreover have "\<forall>q. snd (run_handler io q p') = p' \<and> chunks_to_handler io q p' = []"
    by (simp add: package.failed_gives_nothing [OF failed])
  moreover have "case fst (recv_raw io (pr_recv p)) of
            Err _ \<Rightarrow> io_kind e = EK_UnexpectedEof
          | Ok c \<Rightarrow> io_kind e = EK_InvalidData \<and> unat (pr_remaining p) < length c"
    using next_chunk_error_kind [OF assms(2,1)] by (auto split: sum.splits)
  ultimately show ?thesis
    using failed by (intro conjI exI [of _ ?e]) simp_all
qed

text \<open>
  Draining always ends on a stream with a finite backlog, whatever the peer put on it,
  chunks of length zero included; when it succeeds nothing is owed any more, and when it does
  not the transfer is marked failed.
\<close>

lemma drain_returns:
  assumes "finite_backlog (recv_raw io) \<mu>"
  shows "\<exists>res p'. drain io p = Some (res, p')
           \<and> (case res of Ok _ \<Rightarrow> pr_remaining p' = 0 \<and> \<not> pr_failed p' | Err _ \<Rightarrow> pr_failed p')"
proof -
  obtain t r where leave: "drain_step io t = Some (Leave r)" "drain io p = Some r"
    using loop_variant.leaves [OF drain_loop [OF assms], of p] by (auto simp: drain_def)
  obtain res p' where r: "r = (res, p')" by (cases r)
  with leave(1) consider
      (failed) e where "next_chunk io t = (Err e, p')" "res = Err e"
    | (complete) c where "next_chunk io t = (Ok (False, c), p')" "res = Ok ()"
    by (auto simp: drain_step_Leave)
  then show ?thesis
  proof cases
    case failed
    then show ?thesis using leave(2) r package.error_fails [OF failed(1)] by simp
  next
    case complete
    then show ?thesis
      using leave(2) r package.end_at_zero [OF complete(1)] by (simp add: PackageReader_remaining_def)
  qed
qed

subsection \<open>Instances\<close>

definition two_chunks :: "wire_frame list" where
  "two_chunks = [Raw_Frame [1, 2], Raw_Frame [3], Request_Frame 17 []]"

definition read_one :: "unit package_prog" where
  "read_one = NextChunk (\<lambda>_. Finish ())"

lemma two_chunks_delivered:
  "delivers (recv_raw list_io) two_chunks [[1, 2], [3]] [Request_Frame 17 []]"
  by (simp add: two_chunks_def delivers_Cons)

lemma package_payload_aligned_instance:
  "delivers (recv_raw list_io) two_chunks [[1, 2], [3]] [Request_Frame 17 []]
   \<and> (\<exists>rest p'. [[1, 2], [3]] = chunks_to_handler list_io read_one (PackageReader_new two_chunks 3) @ rest
        \<and> drain list_io (snd (run_handler list_io read_one (PackageReader_new two_chunks 3))) =
            Some (Ok (), p')
        \<and> pr_recv p' = [Request_Frame 17 []] \<and> pr_remaining p' = 0)"
  using two_chunks_delivered package_payload_aligned [OF two_chunks_delivered, of 3 read_one]
  by simp

lemma two_chunks_overrun:
  "next_chunk list_io (PackageReader_new two_chunks 1) =
     (Err (IoError_new EK_InvalidData (overrun_message 2 1)),
      (PackageReader_new two_chunks 1)\<lparr>pr_recv := tl two_chunks, pr_failed := True\<rparr>)"
  by (simp add: next_chunk_def read_chunk_def PackageReader_new_def two_chunks_def)

theorem package_failure_sticks_witness:
  "\<exists>p' e'. next_chunk list_io p' = (Err e', p') \<and> drain list_io p' = Some (Err e', p')
           \<and> pr_recv p' = tl two_chunks"
proof -
  let ?p = "(PackageReader_new two_chunks 1)\<lparr>pr_recv := tl two_chunks, pr_failed := True\<rparr>"
  have "\<exists>e'. next_chunk list_io ?p = (Err e', ?p) \<and> drain list_io ?p = Some (Err e', ?p)"
    using package_failure_sticks [OF two_chunks_overrun] by auto
  then show ?thesis by (intro exI [of _ ?p]) auto
qed

lemma drain_returns_instance:
  "finite_backlog (recv_raw list_io) length
   \<and> (\<exists>res p'. drain list_io (PackageReader_new [Raw_Frame [], Raw_Frame [7]] 1) = Some (res, p')
        \<and> (case res of Ok _ \<Rightarrow> pr_remaining p' = 0 \<and> \<not> pr_failed p' | Err _ \<Rightarrow> pr_failed p'))"
  using list_backlog_raw drain_returns [of list_io length] by simp

end
