(* ===== verification/Agent_Handlers.thy ===== *)
theory Agent_Handlers
  imports Package_Reader
begin

text \<open>
  \<open>src/src/request.rs\<close>: the agent's two handler traits and their default methods. A
  handler is the application's code: a trait is a record with one function per method, which
  takes \<open>&mut self\<close> as a state \<open>'h\<close> and returns its result with the new state.
  The install method also drives the package reader, so it returns the tree of what it does
  with the reader.
\<close>

subsection \<open>\<open>NodeHandler\<close>\<close>

record 'h NodeHandler =
  nh_service :: "NodeServiceRequest \<Rightarrow> ('h, NodeServiceResponse) action"
  nh_network_interface :: "NodeNetworkInterfaceRequest \<Rightarrow> ('h, NodeNetworkInterfaceResponse) action"
  nh_hostname :: "NodeHostnameRequest \<Rightarrow> ('h, NodeHostnameResponse) action"
  nh_time_sync :: "NodeTimeSyncRequest \<Rightarrow> ('h, NodeTimeSyncResponse) action"
  nh_logging :: "NodeLoggingRequest \<Rightarrow> ('h, NodeLoggingResponse) action"
  nh_remote_access :: "NodeRemoteAccessRequest \<Rightarrow> ('h, NodeRemoteAccessResponse) action"
  nh_power :: "NodePowerRequest \<Rightarrow> ('h, NodePowerResponse) action"
  nh_observation :: "NodeObservationRequest \<Rightarrow> ('h, NodeObservationResponse) action"
  nh_version :: "NodeVersionRequest \<Rightarrow> ('h, NodeVersionResponse) action"
  nh_package :: "NodePackageRequest \<Rightarrow> ('h, NodePackageResponse) action"
  nh_package_install_preflight :: "NodePackageRequest \<Rightarrow> ('h, InstallPreflight) action"
  nh_package_install ::
    "NodePackageRequest \<Rightarrow> 'h \<Rightarrow> ((string + NodePackageResponse) \<times> 'h) package_prog"
  nh_enroll :: "NodeEnrollRequest \<Rightarrow> ('h, NodeEnrollResponse) action"

text \<open>Every method of the trait defaults to the error \<open>not supported\<close>; the install
  default reads nothing of the payload.\<close>

definition NodeHandler_default :: "'h NodeHandler" where
  "NodeHandler_default =
     \<lparr>nh_service = (\<lambda>_. not_supported),
      nh_network_interface = (\<lambda>_. not_supported),
      nh_hostname = (\<lambda>_. not_supported),
      nh_time_sync = (\<lambda>_. not_supported),
      nh_logging = (\<lambda>_. not_supported),
      nh_remote_access = (\<lambda>_. not_supported),
      nh_power = (\<lambda>_. not_supported),
      nh_observation = (\<lambda>_. not_supported),
      nh_version = (\<lambda>_. not_supported),
      nh_package = (\<lambda>_. not_supported),
      nh_package_install_preflight = (\<lambda>_. not_supported),
      nh_package_install = (\<lambda>_ h. Finish (not_supported h)),
      nh_enroll = (\<lambda>_. not_supported)\<rparr>"

subsection \<open>\<open>Handler\<close>\<close>

text \<open>
  The full trait has the flat methods and, under the same names as \<open>NodeHandler\<close>, the
  grouped node methods.
\<close>

record 'h Handler = "'h NodeHandler" +
  h_dns_start :: "('h, unit) action"
  h_dns_stop :: "('h, unit) action"
  h_forward :: "string \<Rightarrow> bytes \<Rightarrow> ('h, bytes) action"
  h_reboot :: "('h, unit) action"
  h_reload_config :: "('h, unit) action"
  h_update_config :: "('h, unit) action"
  h_delete_customer_data :: "CustomerDataDeletionRequest \<Rightarrow> ('h, unit) action"
  h_reload_ti :: "string \<Rightarrow> ('h, unit) action"
  h_resource_usage :: "('h, (string \<times> ResourceUsage)) action"
  h_tor_exit_node_list :: "string list \<Rightarrow> ('h, unit) action"
  h_trusted_domain_list :: "string list \<Rightarrow> ('h, unit) action"
  h_sampling_policy_list :: "SamplingPolicy list \<Rightarrow> ('h, unit) action"
  h_update_traffic_filter_rules :: "TrafficFilterRule list \<Rightarrow> ('h, unit) action"
  h_delete_sampling_policy :: "u32 list \<Rightarrow> ('h, unit) action"
  h_internal_network_list :: "HostNetworkGroup \<Rightarrow> ('h, unit) action"
  h_allowlist :: "HostNetworkGroup \<Rightarrow> ('h, unit) action"
  h_blocklist :: "HostNetworkGroup \<Rightarrow> ('h, unit) action"
  h_trusted_user_agent_list :: "string list \<Rightarrow> ('h, unit) action"
  h_process_list :: "('h, Process list) action"
  h_update_semi_supervised_models :: "bytes \<Rightarrow> ('h, unit) action"
  h_shutdown :: "('h, unit) action"
  h_train_model :: "TrainModelRequest \<Rightarrow> ('h, unit) action"
  h_clone_model :: "CloneModelRequest \<Rightarrow> ('h, unit) action"
  h_cancel_run :: "u32 \<Rightarrow> ('h, unit) action"
  h_run_detector_once :: "i32 \<Rightarrow> ('h, unit) action"

text \<open>
  \<open>Handler::node_power\<close> and \<open>Handler::node_observation\<close> by default call the flat
  methods of the same handler and wrap their results.
\<close>

fun Handler_node_power :: "('h, 'z) Handler_scheme \<Rightarrow> NodePowerRequest \<Rightarrow> ('h, NodePowerResponse) action" where
  "Handler_node_power H Power_Reboot h = apfst (map_ok (\<lambda>_. PowerR_Initiated)) (h_reboot H h)"
| "Handler_node_power H Power_Shutdown h = apfst (map_ok (\<lambda>_. PowerR_Initiated)) (h_shutdown H h)"
| "Handler_node_power H Power_GracefulReboot h = (Err ''not supported'', h)"
| "Handler_node_power H Power_GracefulShutdown h = (Err ''not supported'', h)"

fun Handler_node_observation ::
  "('h, 'z) Handler_scheme \<Rightarrow> NodeObservationRequest \<Rightarrow> ('h, NodeObservationResponse) action" where
  "Handler_node_observation H Observe_ProcessList h =
     apfst (map_ok ObserveR_ProcessList) (h_process_list H h)"
| "Handler_node_observation H Observe_ResourceUsage h =
     apfst (map_ok (\<lambda>(hostname, resource_usage). ObserveR_ResourceUsage hostname resource_usage))
       (h_resource_usage H h)"
| "Handler_node_observation H Observe_Uptime h = (Err ''not supported'', h)"

text \<open>
  A handler that implements the flat methods and inherits those two. The trait's other
  methods default to \<open>not supported\<close>.
\<close>

definition inherit_grouped :: "'h Handler \<Rightarrow> 'h Handler" where
  "inherit_grouped H =
     H\<lparr>nh_power := Handler_node_power H, nh_observation := Handler_node_observation H\<rparr>"

definition Handler_default :: "'h Handler" where
  "Handler_default = inherit_grouped (NodeHandler.extend NodeHandler_default (Handler.fields
     not_supported
     not_supported
     (\<lambda>_ _. not_supported)
     not_supported
     not_supported
     not_supported
     (\<lambda>_. not_supported)
     (\<lambda>_. not_supported)
     not_supported
     (\<lambda>_. not_supported)
     (\<lambda>_. not_supported)
     (\<lambda>_. not_supported)
     (\<lambda>_. not_supported)
     (\<lambda>_. not_supported)
     (\<lambda>_. not_supported)
     (\<lambda>_. not_supported)
     (\<lambda>_. not_supported)
     (\<lambda>_. not_supported)
     not_supported
     (\<lambda>_. not_supported)
     not_supported
     (\<lambda>_. not_supported)
     (\<lambda>_. not_supported)
     (\<lambda>_. not_supported)
     (\<lambda>_. not_supported)))"

subsection \<open>A full handler is a node handler\<close>

text \<open>The blanket \<open>impl<T: Handler> NodeHandler for T\<close>: each method forwards.\<close>

definition as_node_handler :: "('h, 'z) Handler_scheme \<Rightarrow> 'h NodeHandler" where
  "as_node_handler H =
     \<lparr>nh_service = nh_service H,
      nh_network_interface = nh_network_interface H,
      nh_hostname = nh_hostname H,
      nh_time_sync = nh_time_sync H,
      nh_logging = nh_logging H,
      nh_remote_access = nh_remote_access H,
      nh_power = nh_power H,
      nh_observation = nh_observation H,
      nh_version = nh_version H,
      nh_package = nh_package H,
      nh_package_install_preflight = nh_package_install_preflight H,
      nh_package_install = nh_package_install H,
      nh_enroll = nh_enroll H\<rparr>"

lemma as_node_handler_simps [simp]:
  "nh_service (as_node_handler H) = nh_service H"
  "nh_network_interface (as_node_handler H) = nh_network_interface H"
  "nh_hostname (as_node_handler H) = nh_hostname H"
  "nh_time_sync (as_node_handler H) = nh_time_sync H"
  "nh_logging (as_node_handler H) = nh_logging H"
  "nh_remote_access (as_node_handler H) = nh_remote_access H"
  "nh_power (as_node_handler H) = nh_power H"
  "nh_observation (as_node_handler H) = nh_observation H"
  "nh_version (as_node_handler H) = nh_version H"
  "nh_package (as_node_handler H) = nh_package H"
  "nh_package_install_preflight (as_node_handler H) = nh_package_install_preflight H"
  "nh_package_install (as_node_handler H) = nh_package_install H"
  "nh_enroll (as_node_handler H) = nh_enroll H"
  by (simp_all add: as_node_handler_def)

end
