(* ===== verification/Agent_Request.thy ===== *)
theory Agent_Request
  imports Agent_Handlers Request_Codes
begin

text \<open>
  \<open>src/src/request.rs\<close>: the agent's dispatch. A session is the handler's state and the
  two halves of the stream; \<open>handle_node\<close> and \<open>handle\<close> are loops over it that
  receive a request, decode its arguments, call the handler and answer. Decoding the arguments
  is oinq's \<open>parse_args\<close>: \<open>agent_args\<close> has one function for each type the
  dispatchers decode, and the text the derived \<open>Debug\<close> of an observation response prints.
\<close>

subsection \<open>Errors\<close>

datatype HandlerError = RecvError IoError | SendError IoError

fun HandlerError_kind :: "HandlerError \<Rightarrow> ProtocolErrorKind" where
  "HandlerError_kind (RecvError e) = of_io_error e"
| "HandlerError_kind (SendError _) = PEK_Other"

fun node_power_expects_response :: "NodePowerRequest \<Rightarrow> bool" where
  "node_power_expects_response Power_GracefulReboot = True"
| "node_power_expects_response Power_GracefulShutdown = True"
| "node_power_expects_response _ = False"

definition undecodable_args_message :: "u32 \<Rightarrow> string" where
  "undecodable_args_message code =
     ''request code '' @ show_nat (unat code)
     @ '': the arguments could not be decoded; the manager and the agent may ''
     @ ''be built against different review-protocol releases''"

definition unknown_code_message :: "u32 \<Rightarrow> string" where
  "unknown_code_message code = ''unknown request code: '' @ show_nat (unat code)"

subsection \<open>Decoding, calling and answering\<close>

record agent_args =
  arg_service :: "bytes \<Rightarrow> IoError + NodeServiceRequest"
  arg_network_interface :: "bytes \<Rightarrow> IoError + NodeNetworkInterfaceRequest"
  arg_hostname :: "bytes \<Rightarrow> IoError + NodeHostnameRequest"
  arg_time_sync :: "bytes \<Rightarrow> IoError + NodeTimeSyncRequest"
  arg_logging :: "bytes \<Rightarrow> IoError + NodeLoggingRequest"
  arg_remote_access :: "bytes \<Rightarrow> IoError + NodeRemoteAccessRequest"
  arg_power :: "bytes \<Rightarrow> IoError + NodePowerRequest"
  arg_observation :: "bytes \<Rightarrow> IoError + NodeObservationRequest"
  arg_version :: "bytes \<Rightarrow> IoError + NodeVersionRequest"
  arg_package :: "bytes \<Rightarrow> IoError + NodePackageRequest"
  arg_enroll :: "bytes \<Rightarrow> IoError + NodeEnrollRequest"
  arg_str :: "bytes \<Rightarrow> IoError + string"
  arg_strs :: "bytes \<Rightarrow> IoError + string list"
  arg_sampling_policies :: "bytes \<Rightarrow> IoError + SamplingPolicy list"
  arg_u32s :: "bytes \<Rightarrow> IoError + u32 list"
  arg_network_group :: "bytes \<Rightarrow> IoError + HostNetworkGroup"
  arg_filter_rules :: "bytes \<Rightarrow> IoError + TrafficFilterRule list"
  arg_delete_customer_data :: "bytes \<Rightarrow> IoError + CustomerDataDeletionRequest"
  arg_train_model :: "bytes \<Rightarrow> IoError + TrainModelRequest"
  arg_clone_model :: "bytes \<Rightarrow> IoError + CloneModelRequest"
  arg_u32 :: "bytes \<Rightarrow> IoError + u32"
  arg_i32 :: "bytes \<Rightarrow> IoError + i32"
  debug_observation :: "NodeObservationResponse \<Rightarrow> string"

text \<open>\<open>send_response(...).await.map_err(HandlerError::SendError)\<close>.\<close>

definition answer ::
  "('s, 'x) agent_io \<Rightarrow> string + agent_reply \<Rightarrow> ('h, 's, 'r) session
   \<Rightarrow> (HandlerError + unit) \<times> ('h, 's, 'r) session" where
  "answer io m s =
     (case send_response io (se_send s) m of (res, send) \<Rightarrow>
        (map_err SendError res, s\<lparr>se_send := send\<rparr>))"

text \<open>Call a handler method and send its result.\<close>

definition respond ::
  "('s, 'x) agent_io \<Rightarrow> ('a \<Rightarrow> agent_reply) \<Rightarrow> ('h, 'a) action \<Rightarrow> ('h, 's, 'r) session
   \<Rightarrow> (HandlerError + unit) \<times> ('h, 's, 'r) session" where
  "respond io reply f s =
     (case call_handler f s of (result, s) \<Rightarrow> answer io (map_ok reply result) s)"

text \<open>
  On undecodable arguments one error frame is sent, whose own failure is discarded, and the
  decode error is returned, classified when a classification is given.
\<close>

definition decode_args ::
  "('s, 'x) agent_io \<Rightarrow> (bytes \<Rightarrow> IoError + 'a) \<Rightarrow> u32 \<Rightarrow> bytes \<Rightarrow> ProtocolErrorKind option
   \<Rightarrow> ('h, 's, 'r) session \<Rightarrow> (HandlerError + 'a) \<times> ('h, 's, 'r) session" where
  "decode_args io parse_args code body classify s =
     (case parse_args body of
        Ok args \<Rightarrow> (Ok args, s)
      | Err e \<Rightarrow>
          let e = (case classify of Some kind \<Rightarrow> from_io kind e | None \<Rightarrow> e);
              send = snd (send_err io (se_send s) (undecodable_args_message code))
          in (Err (RecvError e), s\<lparr>se_send := send\<rparr>))"

definition reject_unknown ::
  "('s, 'x) agent_io \<Rightarrow> u32 \<Rightarrow> ('h, 's, 'r) session
   \<Rightarrow> (HandlerError + unit) \<times> ('h, 's, 'r) session" where
  "reject_unknown io code s =
     (case send_err io (se_send s) (unknown_code_message code) of (res, send) \<Rightarrow>
        (map_err SendError res, s\<lparr>se_send := send\<rparr>))"

subsection \<open>The package family\<close>

text \<open>The result sent after the payload: the handler's own, unless the drain failed.\<close>

fun install_result ::
  "string + NodePackageResponse \<Rightarrow> IoError + unit \<Rightarrow> string + NodePackageResponse" where
  "install_result res (Ok ()) = res"
| "install_result (Err e) (Err _) = Err e"
| "install_result (Ok _) (Err e) =
     Err (''failed to receive the package payload: '' @ IoError_to_string e)"

text \<open>The step after a \<open>Proceed\<close> verdict: the handler reads, the rest is drained, one answer.\<close>

definition receive_package ::
  "('s, 'r) agent_io \<Rightarrow> 'h NodeHandler \<Rightarrow> NodePackageRequest \<Rightarrow> u64 \<Rightarrow> ('h, 's, 'r) session
   \<Rightarrow> ((HandlerError + unit) \<times> ('h, 's, 'r) session) option" where
  "receive_package io H req sz s =
     (case run_handler io (nh_package_install H req (se_handler s))
             (PackageReader_new (se_recv s) sz) of
        ((result, h), pkg) \<Rightarrow>
          (case drain io pkg of
             None \<Rightarrow> None
           | Some (drained, pkg) \<Rightarrow>
               Some (answer io (map_ok Reply_NodePackage (install_result result drained))
                       (s\<lparr>se_handler := h, se_recv := pr_recv pkg\<rparr>))))"

fun dispatch_node_package ::
  "('s, 'r) agent_io \<Rightarrow> 'h NodeHandler \<Rightarrow> NodePackageRequest \<Rightarrow> ('h, 's, 'r) session
   \<Rightarrow> ((HandlerError + unit) \<times> ('h, 's, 'r) session) option" where
  "dispatch_node_package io H (Package_Install f) s =
     (let req = Package_Install f; sz = in_size f in
      case call_handler (nh_package_install_preflight H req) s of (verdict, s) \<Rightarrow>
      let proceed = (verdict = Ok Preflight_Proceed) in
      case answer io (map_ok Reply_Preflight verdict) s of
        (Err e, s) \<Rightarrow> Some (Err e, s)
      | (Ok _, s) \<Rightarrow>
          if \<not> proceed then Some (Ok (), s) else receive_package io H req sz s)"
| "dispatch_node_package io H req s = Some (respond io Reply_NodePackage (nh_package H req) s)"

subsection \<open>The two dispatchers' arms\<close>

definition serve_power ::
  "('s, 'x) agent_io \<Rightarrow> 'h NodeHandler \<Rightarrow> NodePowerRequest \<Rightarrow> ('h, 's, 'r) session
   \<Rightarrow> (HandlerError + unit) \<times> ('h, 's, 'r) session" where
  "serve_power io H req s =
     (let expects_response = node_power_expects_response req in
      case call_handler (nh_power H req) s of (result, s) \<Rightarrow>
        if expects_response then answer io (map_ok Reply_NodePower result) s else (Ok (), s))"

fun option_try ::
  "(HandlerError + 'a) \<times> 's \<Rightarrow> ('a \<Rightarrow> 's \<Rightarrow> ((HandlerError + 'b) \<times> 's) option)
   \<Rightarrow> ((HandlerError + 'b) \<times> 's) option" where
  "option_try (Err e, s) k = Some (Err e, s)"
| "option_try (Ok a, s) k = k a s"

definition handle_node_arm ::
  "('s, 'r) agent_io \<Rightarrow> agent_args \<Rightarrow> 'h NodeHandler \<Rightarrow> u32 \<Rightarrow> bytes \<Rightarrow> ('h, 's, 'r) session
   \<Rightarrow> ((HandlerError + unit) \<times> ('h, 's, 'r) session) option" where
  "handle_node_arm io A H code body s =
     (case client_code_from code of
        RC_NodeService \<Rightarrow>
          Some (try_with (decode_args io (arg_service A) code body None s)
            (\<lambda>req. respond io Reply_NodeService (nh_service H req)))
      | RC_NodeNetworkInterface \<Rightarrow>
          Some (try_with (decode_args io (arg_network_interface A) code body None s)
            (\<lambda>req. respond io Reply_NodeNetworkInterface (nh_network_interface H req)))
      | RC_NodeHostname \<Rightarrow>
          Some (try_with (decode_args io (arg_hostname A) code body None s)
            (\<lambda>req. respond io Reply_NodeHostname (nh_hostname H req)))
      | RC_NodeTimeSync \<Rightarrow>
          Some (try_with (decode_args io (arg_time_sync A) code body None s)
            (\<lambda>req. respond io Reply_NodeTimeSync (nh_time_sync H req)))
      | RC_NodeLogging \<Rightarrow>
          Some (try_with (decode_args io (arg_logging A) code body None s)
            (\<lambda>req. respond io Reply_NodeLogging (nh_logging H req)))
      | RC_NodeRemoteAccess \<Rightarrow>
          Some (try_with (decode_args io (arg_remote_access A) code body None s)
            (\<lambda>req. respond io Reply_NodeRemoteAccess (nh_remote_access H req)))
      | RC_NodePower \<Rightarrow>
          Some (try_with (decode_args io (arg_power A) code body (Some PEK_InvalidArgs) s)
            (serve_power io H))
      | RC_NodeObservation \<Rightarrow>
          Some (try_with (decode_args io (arg_observation A) code body None s)
            (\<lambda>req. respond io Reply_NodeObservation (nh_observation H req)))
      | RC_NodeVersion \<Rightarrow>
          Some (try_with (decode_args io (arg_version A) code body None s)
            (\<lambda>req. respond io Reply_NodeVersion (nh_version H req)))
      | RC_NodePackage \<Rightarrow>
          option_try (decode_args io (arg_package A) code body None s)
            (dispatch_node_package io H)
      | RC_NodeEnroll \<Rightarrow>
          Some (try_with (decode_args io (arg_enroll A) code body None s)
            (\<lambda>req. respond io Reply_NodeEnroll (nh_enroll H req)))
      | _ \<Rightarrow> Some (reject_unknown io code s))"

text \<open>The translations of a grouped response back to a legacy one.\<close>

definition legacy_resource_usage :: "agent_args \<Rightarrow> NodeObservationResponse \<Rightarrow> string + string \<times> ResourceUsage" where
  "legacy_resource_usage A resp =
     (case resp of
        ObserveR_ResourceUsage hostname resource_usage \<Rightarrow> Ok (hostname, resource_usage)
      | other \<Rightarrow> Err (''unexpected node_observation response: '' @ debug_observation A other))"

definition legacy_process_list :: "agent_args \<Rightarrow> NodeObservationResponse \<Rightarrow> string + Process list" where
  "legacy_process_list A resp =
     (case resp of
        ObserveR_ProcessList processes \<Rightarrow> Ok processes
      | other \<Rightarrow> Err (''unexpected node_observation response: '' @ debug_observation A other))"

definition handle_arm ::
  "('s, 'r) agent_io \<Rightarrow> agent_args \<Rightarrow> 'h Handler \<Rightarrow> u32 \<Rightarrow> bytes \<Rightarrow> ('h, 's, 'r) session
   \<Rightarrow> ((HandlerError + unit) \<times> ('h, 's, 'r) session) option" where
  "handle_arm io A H code body s =
     (case client_code_from code of
        RC_DnsStart \<Rightarrow> Some (respond io (\<lambda>_. Reply_Unit) (h_dns_start H) s)
      | RC_DnsStop \<Rightarrow> Some (respond io (\<lambda>_. Reply_Unit) (h_dns_stop H) s)
      | RC_Reboot \<Rightarrow>
          Some (respond io (\<lambda>_. Reply_Unit)
            (\<lambda>h. apfst (map_ok (\<lambda>_. ())) (nh_power H Power_Reboot h)) s)
      | RC_ReloadConfig \<Rightarrow> Some (respond io (\<lambda>_. Reply_Unit) (h_reload_config H) s)
      | RC_ReloadTi \<Rightarrow>
          Some (try_with (decode_args io (arg_str A) code body (Some PEK_InvalidArgs) s)
            (\<lambda>args. respond io (\<lambda>_. Reply_Unit) (h_reload_ti H args)))
      | RC_ResourceUsage \<Rightarrow>
          Some (respond io (\<lambda>(hostname, usage). Reply_ResourceUsage hostname usage)
            (\<lambda>h. apfst (\<lambda>r. res_and_then r (legacy_resource_usage A))
                   (nh_observation H Observe_ResourceUsage h)) s)
      | RC_TorExitNodeList \<Rightarrow>
          Some (try_with (decode_args io (arg_strs A) code body None s)
            (\<lambda>args. respond io (\<lambda>_. Reply_Unit) (h_tor_exit_node_list H args)))
      | RC_SamplingPolicyList \<Rightarrow>
          Some (try_with (decode_args io (arg_sampling_policies A) code body None s)
            (\<lambda>args. respond io (\<lambda>_. Reply_Unit) (h_sampling_policy_list H args)))
      | RC_DeleteSamplingPolicy \<Rightarrow>
          Some (try_with (decode_args io (arg_u32s A) code body None s)
            (\<lambda>args. respond io (\<lambda>_. Reply_Unit) (h_delete_sampling_policy H args)))
      | RC_TrustedDomainList \<Rightarrow>
          Some (try_with (decode_args io (arg_strs A) code body None s)
            (\<lambda>args. respond io (\<lambda>_. Reply_Unit) (h_trusted_domain_list H args)))
      | RC_InternalNetworkList \<Rightarrow>
          Some (try_with (decode_args io (arg_network_group A) code body None s)
            (\<lambda>args. respond io (\<lambda>_. Reply_Unit) (h_internal_network_list H args)))
      | RC_Allowlist \<Rightarrow>
          Some (try_with (decode_args io (arg_network_group A) code body None s)
            (\<lambda>args. respond io (\<lambda>_. Reply_Unit) (h_allowlist H args)))
      | RC_Blocklist \<Rightarrow>
          Some (try_with (decode_args io (arg_network_group A) code body None s)
            (\<lambda>args. respond io (\<lambda>_. Reply_Unit) (h_blocklist H args)))
      | RC_EchoRequest \<Rightarrow> Some (answer io (Ok Reply_Unit) s)
      | RC_TrustedUserAgentList \<Rightarrow>
          Some (try_with (decode_args io (arg_strs A) code body None s)
            (\<lambda>args. respond io (\<lambda>_. Reply_Unit) (h_trusted_user_agent_list H args)))
      | RC_ReloadFilterRule \<Rightarrow>
          Some (try_with (decode_args io (arg_filter_rules A) code body None s)
            (\<lambda>args. respond io (\<lambda>_. Reply_Unit) (h_update_traffic_filter_rules H args)))
      | RC_UpdateConfig \<Rightarrow> Some (respond io (\<lambda>_. Reply_Unit) (h_update_config H) s)
      | RC_DeleteCustomerData \<Rightarrow>
          Some (try_with (decode_args io (arg_delete_customer_data A) code body None s)
            (\<lambda>args. respond io (\<lambda>_. Reply_Unit) (h_delete_customer_data H args)))
      | RC_ProcessList \<Rightarrow>
          Some (respond io Reply_ProcessList
            (\<lambda>h. apfst (\<lambda>r. res_and_then r (legacy_process_list A))
                   (nh_observation H Observe_ProcessList h)) s)
      | RC_SemiSupervisedModels \<Rightarrow>
          Some (respond io (\<lambda>_. Reply_Unit) (h_update_semi_supervised_models H body) s)
      | RC_Shutdown \<Rightarrow>
          Some (respond io (\<lambda>_. Reply_Unit)
            (\<lambda>h. apfst (map_ok (\<lambda>_. ())) (nh_power H Power_Shutdown h)) s)
      | RC_NodeService \<Rightarrow>
          Some (try_with (decode_args io (arg_service A) code body None s)
            (\<lambda>req. respond io Reply_NodeService (nh_service H req)))
      | RC_NodeNetworkInterface \<Rightarrow>
          Some (try_with (decode_args io (arg_network_interface A) code body None s)
            (\<lambda>req. respond io Reply_NodeNetworkInterface (nh_network_interface H req)))
      | RC_NodeHostname \<Rightarrow>
          Some (try_with (decode_args io (arg_hostname A) code body None s)
            (\<lambda>req. respond io Reply_NodeHostname (nh_hostname H req)))
      | RC_NodeTimeSync \<Rightarrow>
          Some (try_with (decode_args io (arg_time_sync A) code body None s)
            (\<lambda>req. respond io Reply_NodeTimeSync (nh_time_sync H req)))
      | RC_NodeLogging \<Rightarrow>
          Some (try_with (decode_args io (arg_logging A) code body None s)
            (\<lambda>req. respond io Reply_NodeLogging (nh_logging H req)))
      | RC_NodeRemoteAccess \<Rightarrow>
          Some (try_with (decode_args io (arg_remote_access A) code body None s)
            (\<lambda>req. respond io Reply_NodeRemoteAccess (nh_remote_access H req)))
      | RC_NodePower \<Rightarrow>
          Some (try_with (decode_args io (arg_power A) code body (Some PEK_InvalidArgs) s)
            (serve_power io (as_node_handler H)))
      | RC_NodeObservation \<Rightarrow>
          Some (try_with (decode_args io (arg_observation A) code body None s)
            (\<lambda>req. respond io Reply_NodeObservation (nh_observation H req)))
      | RC_NodeVersion \<Rightarrow>
          Some (try_with (decode_args io (arg_version A) code body None s)
            (\<lambda>req. respond io Reply_NodeVersion (nh_version H req)))
      | RC_NodePackage \<Rightarrow>
          option_try (decode_args io (arg_package A) code body None s)
            (dispatch_node_package io (as_node_handler H))
      | RC_NodeEnroll \<Rightarrow>
          Some (try_with (decode_args io (arg_enroll A) code body None s)
            (\<lambda>req. respond io Reply_NodeEnroll (nh_enroll H req)))
      | RC_TrainModel \<Rightarrow>
          Some (try_with (decode_args io (arg_train_model A) code body None s)
            (\<lambda>args. respond io (\<lambda>_. Reply_Unit) (h_train_model H args)))
      | RC_CloneModel \<Rightarrow>
          Some (try_with (decode_args io (arg_clone_model A) code body None s)
            (\<lambda>args. respond io (\<lambda>_. Reply_Unit) (h_clone_model H args)))
      | RC_CancelRun \<Rightarrow>
          Some (try_with (decode_args io (arg_u32 A) code body None s)
            (\<lambda>args. respond io (\<lambda>_. Reply_Unit) (h_cancel_run H args)))
      | RC_RunDetectorOnce \<Rightarrow>
          Some (try_with (decode_args io (arg_i32 A) code body None s)
            (\<lambda>args. respond io (\<lambda>_. Reply_Unit) (h_run_detector_once H args)))
      | RC_Unknown \<Rightarrow> Some (reject_unknown io code s))"

subsection \<open>The loops\<close>

text \<open>
  The head of both loops: the end of the stream ends the loop without an error, any other
  receive error is returned, and a request goes to its arm, whose error ends the loop.
\<close>

definition serve_step ::
  "('s, 'r) agent_io
   \<Rightarrow> (u32 \<Rightarrow> bytes \<Rightarrow> ('h, 's, 'r) session \<Rightarrow> ((HandlerError + unit) \<times> ('h, 's, 'r) session) option)
   \<Rightarrow> ('h, 's, 'r) session
   \<Rightarrow> (('h, 's, 'r) session, (HandlerError + unit) \<times> ('h, 's, 'r) session) flow option" where
  "serve_step io arm s =
     (case recv_request_raw io (se_recv s) of
        (Err e, recv) \<Rightarrow>
          Some (Leave (if io_kind e = EK_UnexpectedEof then Ok () else Err (RecvError e),
                       s\<lparr>se_recv := recv\<rparr>))
      | (Ok (code, body), recv) \<Rightarrow>
          (case arm code body (s\<lparr>se_recv := recv\<rparr>) of
             None \<Rightarrow> None
           | Some (Ok _, s) \<Rightarrow> Some (Again s)
           | Some (Err e, s) \<Rightarrow> Some (Leave (Err e, s))))"

definition handle_node ::
  "('s, 'r) agent_io \<Rightarrow> agent_args \<Rightarrow> 'h NodeHandler \<Rightarrow> ('h, 's, 'r) session
   \<Rightarrow> ((HandlerError + unit) \<times> ('h, 's, 'r) session) option" where
  "handle_node io A H = iterate (serve_step io (handle_node_arm io A H))"

definition handle ::
  "('s, 'r) agent_io \<Rightarrow> agent_args \<Rightarrow> 'h Handler \<Rightarrow> ('h, 's, 'r) session
   \<Rightarrow> ((HandlerError + unit) \<times> ('h, 's, 'r) session) option" where
  "handle io A H = iterate (serve_step io (handle_arm io A H))"

subsection \<open>The pieces of an arm\<close>

lemma answer_parts [simp]:
  "se_handler (snd (answer io m s)) = se_handler s"
  "se_recv (snd (answer io m s)) = se_recv s"
  "se_send (snd (answer io m s)) = snd (send_response io (se_send s) m)"
  "fst (answer io m s) = map_err SendError (fst (send_response io (se_send s) m))"
  by (simp_all add: answer_def split: prod.split)

lemma respond_parts [simp]:
  "se_handler (snd (respond io reply f s)) = snd (f (se_handler s))"
  "se_recv (snd (respond io reply f s)) = se_recv s"
  "se_send (snd (respond io reply f s)) =
     snd (send_response io (se_send s) (map_ok reply (fst (f (se_handler s)))))"
  "fst (respond io reply f s) =
     map_err SendError (fst (send_response io (se_send s) (map_ok reply (fst (f (se_handler s))))))"
  by (simp_all add: respond_def call_handler_def split: prod.split)

lemma reject_unknown_parts [simp]:
  "se_handler (snd (reject_unknown io code s)) = se_handler s"
  "se_recv (snd (reject_unknown io code s)) = se_recv s"
  "se_send (snd (reject_unknown io code s)) = snd (send_err io (se_send s) (unknown_code_message code))"
  "fst (reject_unknown io code s) =
     map_err SendError (fst (send_err io (se_send s) (unknown_code_message code)))"
  by (simp_all add: reject_unknown_def split: prod.split)

lemma decode_args_Ok [simp]:
  "parse body = Ok a \<Longrightarrow> decode_args io parse code body classify s = (Ok a, s)"
  by (simp add: decode_args_def)

lemma decode_args_Err [simp]:
  "parse body = Err e \<Longrightarrow> decode_args io parse code body classify s =
     (Err (RecvError (case classify of Some kind \<Rightarrow> from_io kind e | None \<Rightarrow> e)),
      s\<lparr>se_send := snd (send_err io (se_send s) (undecodable_args_message code))\<rparr>)"
  by (simp add: decode_args_def Let_def)

lemma option_try_eq_try: "option_try m (\<lambda>a s. Some (k a s)) = Some (try_with m k)"
  by (cases m; cases "fst m") auto

text \<open>Calling and answering never yield a receive error.\<close>

lemma answer_not_recv [simp]: "answer io m s \<noteq> (Err (RecvError e), s')"
  by (cases "fst (send_response io (se_send s) m)") (auto simp: answer_def split: prod.splits)

lemma respond_not_recv [simp]: "respond io reply f s \<noteq> (Err (RecvError e), s')"
  by (simp add: respond_def split: prod.splits)

lemma reject_unknown_not_recv [simp]: "reject_unknown io code s \<noteq> (Err (RecvError e), s')"
  by (cases "fst (send_err io (se_send s) (unknown_code_message code))")
    (auto simp: reject_unknown_def split: prod.splits)

lemma serve_power_not_recv [simp]: "serve_power io H req s \<noteq> (Err (RecvError e), s')"
  by (simp add: serve_power_def Let_def split: prod.splits)

lemma receive_package_not_recv [simp]:
  "receive_package io H req n s \<noteq> Some (Err (RecvError e), s')"
  by (simp add: receive_package_def split: prod.splits option.splits)

lemma dispatch_not_recv [simp]: "dispatch_node_package io H req s \<noteq> Some (Err (RecvError e), s')"
proof (cases req)
  case (Package_Install f)
  then show ?thesis
    by (auto simp: Let_def split: prod.splits sum.splits if_splits)
qed simp_all

lemma decode_args_keeps:
  "decode_args io parse code body classify s = (Ok a, s') \<Longrightarrow> parse body = Ok a \<and> s' = s"
  by (auto simp: decode_args_def Let_def split: sum.splits)

end
