(* ===== verification/Agent_Dispatch.thy ===== *)
theory Agent_Dispatch
  imports Agent_Request
begin

text \<open>
  The properties of the agent's dispatch: what every request is answered with, what a
  rejected request leaves behind, that the node-only dispatcher is the full one restricted to
  the node families, that the legacy host-control codes reach the flat methods, that the loops
  end, and that an install leaves the stream at the next request.
\<close>

subsection \<open>The node-only dispatcher\<close>

definition node_codes :: "client_RequestCode list" where
  "node_codes =
     [RC_NodeService, RC_NodeNetworkInterface, RC_NodeHostname, RC_NodeTimeSync, RC_NodeLogging,
      RC_NodeRemoteAccess, RC_NodePower, RC_NodeObservation, RC_NodeVersion, RC_NodePackage,
      RC_NodeEnroll]"

lemma node_arm_agrees:
  "client_code_from code \<in> set (RC_Unknown # node_codes) \<Longrightarrow>
     handle_arm io A H code body s = handle_node_arm io A (as_node_handler H) code body s"
  by (auto simp: node_codes_def handle_arm_def handle_node_arm_def)

lemma node_arm_rejects:
  "client_code_from code \<notin> set node_codes \<Longrightarrow>
     handle_node_arm io A H code body s = Some (reject_unknown io code s)"
  by (cases "client_code_from code") (simp_all add: node_codes_def handle_node_arm_def)

lemma serve_step_cong:
  assumes "\<And>code body r. recv_request_raw io (se_recv s) = (Ok (code, body), r) \<Longrightarrow>
             arm code body (s\<lparr>se_recv := r\<rparr>) = arm' code body (s\<lparr>se_recv := r\<rparr>)"
  shows "serve_step io arm s = serve_step io arm' s"
proof (cases "recv_request_raw io (se_recv s)")
  case (Pair res r)
  then show ?thesis
    using assms by (cases res) (auto simp: serve_step_def)
qed

text \<open>
  C16. The two dispatch loops of the agent are one on the node families: when the peer sends
  only node requests and codes nobody assigned, serving a full handler with \<open>handle\<close> and
  serving it as a node handler with \<open>handle_node\<close> have the same effect on the handler and
  on both halves of the stream and return the same result, or both never return; and every code
  outside the node families is refused by \<open>handle_node\<close> without reaching the handler.
\<close>

theorem handle_node_is_handle_on_node_codes:
  assumes "\<And>r code body r'. recv_request_raw io r = (Ok (code, body), r') \<Longrightarrow>
             client_code_from code \<in> set (RC_Unknown # node_codes)"
  shows "handle io A H s = handle_node io A (as_node_handler H) s
    \<and> (client_code_from c \<notin> set node_codes \<longrightarrow>
         handle_node_arm io A (as_node_handler H) c b s = Some (reject_unknown io c s))"
proof -
  have "serve_step io (handle_arm io A H) t = serve_step io (handle_node_arm io A (as_node_handler H)) t"
    for t
    by (rule serve_step_cong) (rule node_arm_agrees [OF assms])
  then have "serve_step io (handle_arm io A H) = serve_step io (handle_node_arm io A (as_node_handler H))"
    by (rule ext)
  then show ?thesis
    by (simp add: handle_def handle_node_def node_arm_rejects)
qed

subsection \<open>Undecodable arguments\<close>

text \<open>
  The type the arguments of each code are sent at, as the failure of its decoder. The legacy
  host-control codes, the echo and the models, whose body is taken as it is, have none.
\<close>

fun args_error :: "agent_args \<Rightarrow> client_RequestCode \<Rightarrow> bytes \<Rightarrow> IoError option" where
  "args_error A RC_ReloadTi = parse_error (arg_str A)"
| "args_error A RC_TorExitNodeList = parse_error (arg_strs A)"
| "args_error A RC_SamplingPolicyList = parse_error (arg_sampling_policies A)"
| "args_error A RC_DeleteSamplingPolicy = parse_error (arg_u32s A)"
| "args_error A RC_TrustedDomainList = parse_error (arg_strs A)"
| "args_error A RC_InternalNetworkList = parse_error (arg_network_group A)"
| "args_error A RC_Allowlist = parse_error (arg_network_group A)"
| "args_error A RC_Blocklist = parse_error (arg_network_group A)"
| "args_error A RC_TrustedUserAgentList = parse_error (arg_strs A)"
| "args_error A RC_ReloadFilterRule = parse_error (arg_filter_rules A)"
| "args_error A RC_DeleteCustomerData = parse_error (arg_delete_customer_data A)"
| "args_error A RC_NodeService = parse_error (arg_service A)"
| "args_error A RC_NodeNetworkInterface = parse_error (arg_network_interface A)"
| "args_error A RC_NodeHostname = parse_error (arg_hostname A)"
| "args_error A RC_NodeTimeSync = parse_error (arg_time_sync A)"
| "args_error A RC_NodeLogging = parse_error (arg_logging A)"
| "args_error A RC_NodeRemoteAccess = parse_error (arg_remote_access A)"
| "args_error A RC_NodePower = parse_error (arg_power A)"
| "args_error A RC_NodeObservation = parse_error (arg_observation A)"
| "args_error A RC_NodeVersion = parse_error (arg_version A)"
| "args_error A RC_NodePackage = parse_error (arg_package A)"
| "args_error A RC_NodeEnroll = parse_error (arg_enroll A)"
| "args_error A RC_TrainModel = parse_error (arg_train_model A)"
| "args_error A RC_CloneModel = parse_error (arg_clone_model A)"
| "args_error A RC_CancelRun = parse_error (arg_u32 A)"
| "args_error A RC_RunDetectorOnce = parse_error (arg_i32 A)"
| "args_error A _ = (\<lambda>_. None)"

definition args_refusal :: "client_RequestCode \<Rightarrow> IoError \<Rightarrow> IoError" where
  "args_refusal c e = (if c \<in> {RC_NodePower, RC_ReloadTi} then from_io PEK_InvalidArgs e else e)"

lemma arm_refuses:
  assumes "args_error A (client_code_from code) body = Some e"
  shows "handle_arm io A H code body s =
    Some (Err (RecvError (args_refusal (client_code_from code) e)),
          s\<lparr>se_send := snd (send_err io (se_send s) (undecodable_args_message code))\<rparr>)"
  using assms unfolding handle_arm_def args_refusal_def
  by (cases "client_code_from code") simp_all

lemma node_arm_refuses:
  assumes "args_error A (client_code_from code) body = Some e" and "client_code_from code \<in> set node_codes"
  shows "handle_node_arm io A N code body s =
    Some (Err (RecvError (args_refusal (client_code_from code) e)),
          s\<lparr>se_send := snd (send_err io (se_send s) (undecodable_args_message code))\<rparr>)"
  using assms unfolding handle_node_arm_def args_refusal_def node_codes_def
  by (cases "client_code_from code") simp_all

lemma arm_accepts:
  assumes "args_error A (client_code_from code) body = None"
  shows "handle_arm io A H code body s \<noteq> Some (Err (RecvError e), s')"
  using assms unfolding handle_arm_def
  by (cases "client_code_from code") auto

text \<open>
  C26. A request whose arguments cannot be decoded never reaches the handler: both dispatch loops
  answer it with one error frame that names its code, whether or not that frame could be sent,
  leave the handler's state alone, read nothing further and return the decoder's error, which
  for power control and threat-list reloads is classified as invalid arguments. Such a return
  means nothing else: arguments that decode are never refused in this way.
\<close>

theorem undecodable_args_leave_handler_alone:
  assumes request: "recv_request_raw io (se_recv s) = (Ok (code, body), recv)"
    and error: "args_error A (client_code_from code) body = Some e"
  shows "let refused = Some (Err (RecvError (args_refusal (client_code_from code) e)),
           s\<lparr>se_recv := recv, se_send := snd (send_err io (se_send s) (undecodable_args_message code))\<rparr>)
    in handle io A H s = refused
       \<and> (client_code_from code \<in> set node_codes \<longrightarrow> handle_node io A N s = refused)
       \<and> (client_code_from code \<in> {RC_NodePower, RC_ReloadTi} \<longrightarrow>
            HandlerError_kind (RecvError (args_refusal (client_code_from code) e)) = PEK_InvalidArgs)
       \<and> inj undecodable_args_message
       \<and> (\<forall>code' body' t e' t'. args_error A (client_code_from code') body' = None \<longrightarrow>
            handle_arm io A H code' body' t \<noteq> Some (Err (RecvError e'), t'))"
proof -
  have loop: "iterate (serve_step io arm) s = Some (Err err, t)"
    if "arm code body (s\<lparr>se_recv := recv\<rparr>) = Some (Err err, t)" for arm err t
    by (rule iterate_Leave) (use request that in \<open>simp add: serve_step_def\<close>)
  have "inj undecodable_args_message"
    by (simp add: inj_def undecodable_args_message_def word_unat_eq_iff)
  moreover have "HandlerError_kind (RecvError (args_refusal c e)) = PEK_InvalidArgs"
    if "c \<in> {RC_NodePower, RC_ReloadTi}" for c
    using that by (simp add: args_refusal_def from_io_def)
  moreover have "\<forall>code' body' t e' t'. args_error A (client_code_from code') body' = None \<longrightarrow>
      handle_arm io A H code' body' t \<noteq> Some (Err (RecvError e'), t')"
    by (intro allI impI arm_accepts)
  ultimately show ?thesis
    using loop [where arm = "handle_arm io A H", OF arm_refuses [OF error]]
      loop [where arm = "handle_node_arm io A N", OF node_arm_refuses [OF error]]
    by (simp add: handle_def handle_node_def Let_def)
qed

subsection \<open>Every request is answered\<close>

text \<open>
  How many frames a request that was served is answered with: immediate power control is not
  answered at all, an install that may proceed gets its verdict and then its result, and every
  other request gets one.
\<close>

definition frames_due :: "agent_args \<Rightarrow> 'h Handler \<Rightarrow> u32 \<Rightarrow> bytes \<Rightarrow> 'h \<Rightarrow> nat" where
  "frames_due A H code body h =
     (case client_code_from code of
        RC_NodePower \<Rightarrow>
          (case arg_power A body of Ok req \<Rightarrow> if node_power_expects_response req then 1 else 0
                                  | Err _ \<Rightarrow> 1)
      | RC_NodePackage \<Rightarrow>
          (case arg_package A body of
             Ok (Package_Install f) \<Rightarrow>
               if fst (nh_package_install_preflight H (Package_Install f) h) = Ok Preflight_Proceed
               then 2 else 1
           | _ \<Rightarrow> 1)
      | _ \<Rightarrow> 1)"

text \<open>An outcome that left \<open>n\<close> frames, or the one error frame of undecodable arguments.\<close>

definition left_frames ::
  "('s \<Rightarrow> (string + agent_reply) list) \<Rightarrow> nat \<Rightarrow> u32 \<Rightarrow> ('h, 's, 'r) session
   \<Rightarrow> (HandlerError + unit) \<times> ('h, 's, 'r) session \<Rightarrow> bool" where
  "left_frames log n code s out \<longleftrightarrow>
     (case fst out of
        Ok _ \<Rightarrow> (\<exists>ms. log (se_send (snd out)) = log (se_send s) @ ms \<and> length ms = n)
      | Err _ \<Rightarrow> se_handler (snd out) = se_handler s
          \<and> log (se_send (snd out)) = log (se_send s) @ [Err (undecodable_args_message code)])"

lemma sends_loggedD [simp]:
  assumes "sends_logged io log"
  shows "fst (send_response io s m) = Ok ()" "log (snd (send_response io s m)) = log s @ [m]"
    "fst (send_err io s e) = Ok ()" "log (snd (send_err io s e)) = log s @ [Err e]"
  using assms by (simp_all add: sends_logged_def)

lemma answer_leaves_one: "sends_logged io log \<Longrightarrow> left_frames log (Suc 0) code s (answer io m s)"
  by (simp add: left_frames_def)

lemma respond_leaves_one: "sends_logged io log \<Longrightarrow> left_frames log (Suc 0) code s (respond io reply f s)"
  by (simp add: left_frames_def)

lemma reject_leaves_one: "sends_logged io log \<Longrightarrow> left_frames log (Suc 0) code s (reject_unknown io c s)"
  by (simp add: left_frames_def)

lemma args_leave:
  assumes "sends_logged io log" and "\<And>a. parse body = Ok a \<Longrightarrow> left_frames log n code s (k a s)"
  shows "left_frames log n code s (try_with (decode_args io parse code body classify s) k)"
  using assms by (cases "parse body") (simp_all add: left_frames_def)

lemma serve_power_leaves:
  "sends_logged io log \<Longrightarrow>
     left_frames log (if node_power_expects_response req then 1 else 0) code s (serve_power io H req s)"
  by (simp add: left_frames_def serve_power_def call_handler_def Let_def split: prod.split)

lemma dispatch_leaves:
  assumes "sends_logged io log" and "dispatch_node_package io H req s = Some out"
  shows "left_frames log
    (case req of
       Package_Install f \<Rightarrow>
         if fst (nh_package_install_preflight H req (se_handler s)) = Ok Preflight_Proceed
         then 2 else 1
     | _ \<Rightarrow> 1) code s out"
proof (cases req)
  case (Package_Install f)
  obtain verdict h where v: "nh_package_install_preflight H req (se_handler s) = (verdict, h)"
    by (cases "nh_package_install_preflight H req (se_handler s)")
  obtain res t where a: "answer io (map_ok Reply_Preflight verdict) (s\<lparr>se_handler := h\<rparr>) = (res, t)"
    by (cases "answer io (map_ok Reply_Preflight verdict) (s\<lparr>se_handler := h\<rparr>)")
  then have t: "res = Ok ()"
      "log (se_send t) = log (se_send s) @ [map_ok Reply_Preflight verdict]"
    using assms(1) answer_parts [of io "map_ok Reply_Preflight verdict" "s\<lparr>se_handler := h\<rparr>"]
    by auto
  show ?thesis
  proof (cases "verdict = Ok Preflight_Proceed")
    case True
    then have "receive_package io H req (in_size f) t = Some out"
      using assms(2) Package_Install v a t by (simp add: call_handler_def Let_def)
    then obtain m t' where "out = answer io m t'" "se_send t' = se_send t"
      by (auto simp: receive_package_def split: prod.splits option.splits)
    then show ?thesis
      using True Package_Install v t assms(1) by (simp add: left_frames_def)
  next
    case False
    then have "out = (Ok (), t)"
      using assms(2) Package_Install v a t by (simp add: call_handler_def Let_def)
    then show ?thesis
      using False Package_Install v t by (simp add: left_frames_def)
  qed
qed (use assms in \<open>auto simp: respond_leaves_one\<close>)

text \<open>
  C6. On a sending half that works, a served request is answered with exactly the frames it is
  due and a refused one with exactly one error frame: a manager that reads that many frames is
  never left waiting, and no frame of one request is ever left for the next.
\<close>

theorem every_request_answered:
  assumes "sends_logged io log" and "handle_arm io A H code body s = Some out"
  shows "left_frames log (frames_due A H code body (se_handler s)) code s out"
proof -
  have pkg: "left_frames log (frames_due A H code body (se_handler s)) code s out"
    if "client_code_from code = RC_NodePackage"
  proof (cases "arg_package A body")
    case (Inl e)
    then show ?thesis
      using that assms by (auto simp: handle_arm_def frames_due_def left_frames_def)
  next
    case (Inr req)
    then have "dispatch_node_package io (as_node_handler H) req s = Some out"
      using that assms(2) by (simp add: handle_arm_def)
    from dispatch_leaves [OF assms(1) this, of code] show ?thesis
      using that Inr by (cases req) (simp_all add: frames_due_def)
  qed
  have pow: "left_frames log (frames_due A H code body (se_handler s)) code s out"
    if "client_code_from code = RC_NodePower"
  proof (cases "arg_power A body")
    case (Inl e)
    then show ?thesis
      using that assms by (auto simp: handle_arm_def frames_due_def left_frames_def)
  next
    case (Inr req)
    then have "out = serve_power io (as_node_handler H) req s"
      using that assms(2) by (simp add: handle_arm_def)
    with serve_power_leaves [OF assms(1), of req code s] show ?thesis
      using that Inr by (simp add: frames_due_def)
  qed
  show ?thesis
    using assms pkg pow unfolding handle_arm_def
    by (cases "client_code_from code")
      (auto simp: frames_due_def intro!: answer_leaves_one respond_leaves_one reject_leaves_one args_leave)
qed

subsection \<open>Legacy host-control codes\<close>

lemma res_and_then_legacy [simp]:
  "res_and_then (map_ok ObserveR_ProcessList r) (legacy_process_list A) = r"
  "res_and_then (map_ok (\<lambda>(n, u). ObserveR_ResourceUsage n u) r') (legacy_resource_usage A) = r'"
  by (cases r; simp add: legacy_process_list_def)
    (cases r'; auto simp: legacy_resource_usage_def)

lemma map_ok_unit [simp]: "map_ok (\<lambda>_. ()) (map_ok f r) = (r :: 'e + unit)"
  by (cases r) auto

lemma legacy_translations [simp]:
  "apfst (map_ok (\<lambda>_. ())) (apfst (map_ok f) p) = (p :: (string + unit) \<times> 'h)"
  "apfst (\<lambda>r. res_and_then r (legacy_process_list A)) (apfst (map_ok ObserveR_ProcessList) q) = q"
  "apfst (\<lambda>r. res_and_then r (legacy_resource_usage A))
     (apfst (map_ok (\<lambda>(n, u). ObserveR_ResourceUsage n u)) u) = u"
  by (cases p, simp, cases q, simp, cases u, simp)

lemma inherit_grouped_simps [simp]:
  "nh_power (inherit_grouped H) = Handler_node_power H"
  "nh_observation (inherit_grouped H) = Handler_node_observation H"
  by (simp_all add: inherit_grouped_def)

text \<open>
  C31. For a handler that implements only the flat host-control methods, the legacy codes still
  reach exactly those methods although the dispatcher routes them through the grouped ones:
  each legacy request calls its flat method once and answers with its very result, and the
  matching node request reports the same result in the grouped form.
\<close>

theorem legacy_codes_reach_flat_methods:
  "handle_arm io A (inherit_grouped H) (client_code_into RC_Reboot) body s =
     Some (respond io (\<lambda>_. Reply_Unit) (h_reboot H) s)
   \<and> handle_arm io A (inherit_grouped H) (client_code_into RC_Shutdown) body s =
       Some (respond io (\<lambda>_. Reply_Unit) (h_shutdown H) s)
   \<and> handle_arm io A (inherit_grouped H) (client_code_into RC_ProcessList) body s =
       Some (respond io Reply_ProcessList (h_process_list H) s)
   \<and> handle_arm io A (inherit_grouped H) (client_code_into RC_ResourceUsage) body s =
       Some (respond io (\<lambda>(hostname, usage). Reply_ResourceUsage hostname usage)
               (h_resource_usage H) s)
   \<and> nh_observation (inherit_grouped H) Observe_ProcessList h =
       apfst (map_ok ObserveR_ProcessList) (h_process_list H h)
   \<and> nh_power (inherit_grouped H) Power_Reboot h =
       apfst (map_ok (\<lambda>_. PowerR_Initiated)) (h_reboot H h)"
  unfolding handle_arm_def client_code_round by simp

subsection \<open>The loops end\<close>

lemma arm_ends:
  assumes "finite_backlog (recv_raw io) \<mu>"
  shows "handle_arm io A H code body s \<noteq> None"
    and "handle_node_arm io A N code body s \<noteq> None"
proof -
  have receive: "receive_package io N req n t \<noteq> None" for N :: "'h NodeHandler" and req n t
  proof -
    obtain a p where "run_handler io (nh_package_install N req (se_handler t))
        (PackageReader_new (se_recv t) n) = (a, p)"
      by fastforce
    moreover obtain res p' where "drain io p = Some (res, p')"
      using loop_variant.returns [OF drain_loop [OF assms], of p] by (auto simp: drain_def)
    ultimately show ?thesis by (auto simp: receive_package_def split: prod.splits)
  qed
  have "dispatch_node_package io N req t \<noteq> None" for N :: "'h NodeHandler" and req t
    using receive by (cases req) (auto simp: Let_def split: prod.splits sum.splits)
  then have pkg: "option_try m (dispatch_node_package io N) \<noteq> None" for m and N :: "'h NodeHandler"
    by (cases m; cases "fst m") auto
  show "handle_arm io A H code body s \<noteq> None"
    using pkg unfolding handle_arm_def by (cases "client_code_from code") simp_all
  show "handle_node_arm io A N code body s \<noteq> None"
    using pkg unfolding handle_node_arm_def by (cases "client_code_from code") simp_all
qed

lemma next_chunk_backlog:
  assumes "finite_backlog (recv_raw io) \<mu>" and "next_chunk io p = (res, p')"
  shows "\<mu> (pr_recv p') \<le> \<mu> (pr_recv p)"
proof (cases "recv_raw io (pr_recv p)")
  case (Pair x r)
  with assms(1) have "\<mu> r \<le> \<mu> (pr_recv p)"
    by (cases x) (auto dest: finite_backlogD)
  with Pair assms(2) show ?thesis
    by (auto simp: next_chunk_def read_chunk_def Let_def split: sum.splits if_splits prod.splits)
qed

lemma run_handler_backlog:
  assumes "finite_backlog (recv_raw io) \<mu>"
  shows "\<mu> (pr_recv (snd (run_handler io prog p))) \<le> \<mu> (pr_recv p)"
proof (induction prog arbitrary: p)
  case (NextChunk k)
  obtain res q where q: "next_chunk io p = (res, q)" by (cases "next_chunk io p")
  then have "\<mu> (pr_recv q) \<le> \<mu> (pr_recv p)"
    by (rule next_chunk_backlog [OF assms])
  with NextChunk.IH [OF rangeI, of res q] q show ?case by simp
qed simp_all

lemma drain_backlog:
  assumes fin: "finite_backlog (recv_raw io) \<mu>" and "drain io p = Some (res, p')"
  shows "\<mu> (pr_recv p') \<le> \<mu> (pr_recv p)"
proof -
  have "\<exists>t. \<mu> (pr_recv t) \<le> \<mu> (pr_recv p) \<and> drain_step io t = Some (Leave (res, p'))"
  proof (rule iterate_invariant [where I = "\<lambda>t. \<mu> (pr_recv t) \<le> \<mu> (pr_recv p)"])
    show "iterate (drain_step io) p = Some (res, p')"
      using assms(2) by (simp add: drain_def)
    show "\<mu> (pr_recv s') \<le> \<mu> (pr_recv p)"
      if "\<mu> (pr_recv s) \<le> \<mu> (pr_recv p)" "drain_step io s = Some (Again s')" for s s'
      using that next_chunk_backlog [OF fin] by (fastforce simp: drain_step_Again)
  qed simp
  then obtain t where t: "\<mu> (pr_recv t) \<le> \<mu> (pr_recv p)" "drain_step io t = Some (Leave (res, p'))"
    by blast
  then show ?thesis
    using next_chunk_backlog [OF fin, of t] unfolding drain_step_Leave by fastforce
qed

lemma dispatch_backlog:
  assumes fin: "finite_backlog (recv_raw io) \<mu>" and "dispatch_node_package io H req s = Some out"
  shows "\<mu> (se_recv (snd out)) \<le> \<mu> (se_recv s)"
proof -
  have receive: "\<mu> (se_recv (snd out)) \<le> \<mu> (se_recv t)"
    if "receive_package io H req n t = Some out" for n t
  proof -
    obtain a h p where run: "run_handler io (nh_package_install H req (se_handler t))
        (PackageReader_new (se_recv t) n) = ((a, h), p)"
      by (metis old.prod.exhaust)
    then have "\<mu> (pr_recv p) \<le> \<mu> (se_recv t)"
      using run_handler_backlog [OF fin, of "nh_package_install H req (se_handler t)"
          "PackageReader_new (se_recv t) n"] by simp
    with that run show ?thesis
      by (auto simp: receive_package_def split: option.splits prod.splits
          dest!: drain_backlog [OF fin])
  qed
  have keep: "se_recv t = se_recv s"
    if "answer io m (s\<lparr>se_handler := h\<rparr>) = (r, t)" for m h r t
    using that answer_parts(2) [of io m "s\<lparr>se_handler := h\<rparr>"] by simp
  show ?thesis
    using assms(2) receive
    by (cases req)
      (fastforce simp: Let_def call_handler_def dest: keep split: prod.splits sum.splits if_splits)+
qed

lemma try_decode_backlog:
  fixes \<mu> :: "'r \<Rightarrow> nat"
  assumes "try_with (decode_args io parse code body classify s) k = out"
    and "\<And>a. \<mu> (se_recv (snd (k a s))) \<le> \<mu> (se_recv s)"
  shows "\<mu> (se_recv (snd out)) \<le> \<mu> (se_recv s)"
  using assms by (cases "parse body") auto

lemma serve_power_recv [simp]: "se_recv (snd (serve_power io H req s)) = se_recv s"
  by (simp add: serve_power_def call_handler_def Let_def split: prod.split)

lemma package_arm_backlog:
  assumes "finite_backlog (recv_raw io) \<mu>"
    and "option_try (decode_args io parse code body None s) (dispatch_node_package io H) = Some out"
  shows "\<mu> (se_recv (snd out)) \<le> \<mu> (se_recv s)"
  using assms by (cases "parse body") (auto dest: dispatch_backlog)

lemma arm_backlog:
  fixes \<mu> :: "'r \<Rightarrow> nat"
  assumes "finite_backlog (recv_raw io) \<mu>"
  shows "handle_arm io A H code body s = Some out \<Longrightarrow> \<mu> (se_recv (snd out)) \<le> \<mu> (se_recv s)"
    and "handle_node_arm io A N code body s = Some out \<Longrightarrow> \<mu> (se_recv (snd out)) \<le> \<mu> (se_recv s)"
  unfolding handle_arm_def handle_node_arm_def
  by (cases "client_code_from code";
      auto intro: try_decode_backlog [where \<mu> = \<mu>] package_arm_backlog [OF assms])+

lemma serve_loop:
  assumes fin: "finite_backlog (recv_request_raw io) \<mu>"
    and ends: "\<And>code body s. arm code body s \<noteq> None"
    and keep: "\<And>code body s out. arm code body s = Some out \<Longrightarrow> \<mu> (se_recv (snd out)) \<le> \<mu> (se_recv s)"
  shows "loop_variant (serve_step io arm) (\<lambda>_. True) (\<lambda>s. \<mu> (se_recv s))"
proof (rule loop_variant.intro)
  show "serve_step io arm s \<noteq> None" for s
  proof -
    obtain res r where "recv_request_raw io (se_recv s) = (res, r)"
      by fastforce
    then show ?thesis
      using ends by (cases res) (auto simp: serve_step_def split: sum.splits option.splits)
  qed
  fix s s'
  assume "serve_step io arm s = Some (Again s')"
  then obtain code body r x where "recv_request_raw io (se_recv s) = (Ok (code, body), r)"
      "arm code body (s\<lparr>se_recv := r\<rparr>) = Some (Ok x, s')"
    by (auto simp: serve_step_def split: prod.splits sum.splits option.splits)
  then show "\<mu> (se_recv s') < \<mu> (se_recv s)"
    using finite_backlogD(1) [OF fin] keep by fastforce
qed simp

text \<open>
  C29. Both dispatch loops return on every stream with a finite backlog, whatever the peer
  sent and whatever the handler does; and a stream that has ended is a success, not an error.
\<close>

theorem agent_loops_return:
  assumes "finite_backlog (recv_request_raw io) \<mu>" and "finite_backlog (recv_raw io) \<mu>"
  shows "(\<exists>out. handle io A H s = Some out) \<and> (\<exists>out. handle_node io A N s' = Some out)
    \<and> (\<forall>e r t. recv_request_raw io (se_recv t) = (Err e, r) \<and> io_kind e = EK_UnexpectedEof \<longrightarrow>
         handle io A H t = Some (Ok (), t\<lparr>se_recv := r\<rparr>)
         \<and> handle_node io A N t = Some (Ok (), t\<lparr>se_recv := r\<rparr>))"
proof -
  have "\<exists>out. handle io A H s = Some out"
    unfolding handle_def
    by (rule loop_variant.returns [OF serve_loop [OF assms(1)]])
      (simp_all add: arm_ends [OF assms(2)] arm_backlog [OF assms(2)])
  moreover have "\<exists>out. handle_node io A N s' = Some out"
    unfolding handle_node_def
    by (rule loop_variant.returns [OF serve_loop [OF assms(1)]])
      (simp_all add: arm_ends [OF assms(2)] arm_backlog [OF assms(2)])
  moreover have "handle io A H t = Some (Ok (), t\<lparr>se_recv := r\<rparr>)"
      "handle_node io A N t = Some (Ok (), t\<lparr>se_recv := r\<rparr>)"
    if "recv_request_raw io (se_recv t) = (Err e, r)" "io_kind e = EK_UnexpectedEof" for e r t
    unfolding handle_def handle_node_def
    by (rule iterate_Leave; use that in \<open>simp add: serve_step_def\<close>)+
  ultimately show ?thesis by blast
qed

subsection \<open>Installing a package\<close>

text \<open>
  C30. An install moves package bytes only after a \<open>Proceed\<close>: on every other verdict, and
  when the verdict could not be sent, the receiving half is untouched, the install method is
  not called (the handler's state is the one the preflight left) and the verdict is the only
  frame.
\<close>

theorem no_payload_without_proceed:
  assumes "nh_package_install_preflight H (Package_Install f) (se_handler s) = (verdict, h)"
    and "verdict \<noteq> Ok Preflight_Proceed
         \<or> fst (send_response io (se_send s) (map_ok Reply_Preflight verdict)) \<noteq> Ok ()"
  shows "dispatch_node_package io H (Package_Install f) s =
    Some (map_err SendError (fst (send_response io (se_send s) (map_ok Reply_Preflight verdict))),
          s\<lparr>se_handler := h,
            se_send := snd (send_response io (se_send s) (map_ok Reply_Preflight verdict))\<rparr>)"
  using assms
  by (cases "send_response io (se_send s) (map_ok Reply_Preflight verdict)";
      cases "fst (send_response io (se_send s) (map_ok Reply_Preflight verdict))")
    (auto simp: call_handler_def answer_def Let_def)

lemma install_result_Ok [simp]: "install_result r (Ok u) = r"
  by (cases r; cases u) simp_all

lemma install_served:
  assumes log: "sends_logged io log"
    and verdict: "nh_package_install_preflight H (Package_Install f) (se_handler s) =
                    (Ok Preflight_Proceed, h)"
    and payload: "delivers (recv_raw io) (se_recv s) chunks r'" "[] \<notin> set chunks"
      "length (concat chunks) = unat (in_size f)"
  shows "\<exists>result h' s' rest.
      fst (run_handler io (nh_package_install H (Package_Install f) h)
             (PackageReader_new (se_recv s) (in_size f))) = (result, h')
    \<and> chunks = chunks_to_handler io (nh_package_install H (Package_Install f) h)
                 (PackageReader_new (se_recv s) (in_size f)) @ rest
    \<and> dispatch_node_package io H (Package_Install f) s = Some (Ok (), s')
    \<and> se_recv s' = r' \<and> se_handler s' = h'
    \<and> log (se_send s') = log (se_send s) @ [Ok (Reply_Preflight Preflight_Proceed),
                                            map_ok Reply_NodePackage result]"
proof -
  let ?prog = "nh_package_install H (Package_Install f) h"
  let ?p = "PackageReader_new (se_recv s) (in_size f)"
  have ahead: "payload_ahead io ?p chunks r'"
    using payload by (simp add: payload_ahead_def)
  obtain result h' p where run: "run_handler io ?prog ?p = ((result, h'), p)"
    by (metis old.prod.exhaust)
  obtain rest where rest: "chunks = chunks_to_handler io ?prog ?p @ rest" "payload_ahead io p rest r'"
    using run_handler_ahead [OF ahead, of ?prog] run by auto
  obtain p' where drained: "drain io p = Some (Ok (), p')" "pr_recv p' = r'"
    using drain_ahead [OF rest(2)] by blast
  obtain send where sent: "send_response io (se_send s) (Ok (Reply_Preflight Preflight_Proceed)) = (Ok (), send)"
      "log send = log (se_send s) @ [Ok (Reply_Preflight Preflight_Proceed)]"
    using log by (metis prod.collapse sends_loggedD(1,2))
  let ?m = "map_ok Reply_NodePackage result"
  obtain send' where sent': "send_response io send ?m = (Ok (), send')" "log send' = log send @ [?m]"
    using log by (metis prod.collapse sends_loggedD(1,2))
  have "dispatch_node_package io H (Package_Install f) s =
      Some (Ok (), s\<lparr>se_handler := h', se_send := send', se_recv := r'\<rparr>)"
    using verdict sent(1) sent'(1) run drained
    by (simp add: call_handler_def answer_def Let_def receive_package_def)
  then show ?thesis
    using run rest(1) sent(2) sent'(2) by (intro exI [of _ result]) simp
qed

text \<open>
  C5. An install whose payload arrives complete is served whole: after the verdict the handler
  sees a prefix of the chunks, unchanged and in order; its own result, whatever it read, is the
  terminal answer; and the receiving half is left right after the last chunk, so the dispatch
  loop goes on with the next request.
\<close>

theorem install_keeps_stream_aligned:
  assumes log: "sends_logged io log"
    and verdict: "nh_package_install_preflight H (Package_Install f) (se_handler s) =
                    (Ok Preflight_Proceed, h)"
    and payload: "delivers (recv_raw io) (se_recv s) chunks r'" "[] \<notin> set chunks"
      "length (concat chunks) = unat (in_size f)"
  shows "\<exists>result h' s' rest.
      fst (run_handler io (nh_package_install H (Package_Install f) h)
             (PackageReader_new (se_recv s) (in_size f))) = (result, h')
    \<and> chunks = chunks_to_handler io (nh_package_install H (Package_Install f) h)
                 (PackageReader_new (se_recv s) (in_size f)) @ rest
    \<and> dispatch_node_package io H (Package_Install f) s = Some (Ok (), s')
    \<and> se_recv s' = r' \<and> se_handler s' = h'
    \<and> log (se_send s') = log (se_send s) @ [Ok (Reply_Preflight Preflight_Proceed),
                                            map_ok Reply_NodePackage result]"
  by (rule install_served [OF assms])

subsection \<open>Instances\<close>

text \<open>A codec that rejects every argument, a handler that counts its calls of
  \<open>dns_start\<close>, an installing handler and a peer that only sends node requests.\<close>

definition bad_args :: IoError where
  "bad_args = IoError_new EK_InvalidData ''truncated''"

definition rejecting_args :: agent_args where
  "rejecting_args =
     \<lparr>arg_service = (\<lambda>_. Err bad_args),
      arg_network_interface = (\<lambda>_. Err bad_args),
      arg_hostname = (\<lambda>_. Err bad_args),
      arg_time_sync = (\<lambda>_. Err bad_args),
      arg_logging = (\<lambda>_. Err bad_args),
      arg_remote_access = (\<lambda>_. Err bad_args),
      arg_power = (\<lambda>_. Err bad_args),
      arg_observation = (\<lambda>_. Err bad_args),
      arg_version = (\<lambda>_. Err bad_args),
      arg_package = (\<lambda>_. Err bad_args),
      arg_enroll = (\<lambda>_. Err bad_args),
      arg_str = (\<lambda>_. Err bad_args),
      arg_strs = (\<lambda>_. Err bad_args),
      arg_sampling_policies = (\<lambda>_. Err bad_args),
      arg_u32s = (\<lambda>_. Err bad_args),
      arg_network_group = (\<lambda>_. Err bad_args),
      arg_filter_rules = (\<lambda>_. Err bad_args),
      arg_delete_customer_data = (\<lambda>_. Err bad_args),
      arg_train_model = (\<lambda>_. Err bad_args),
      arg_clone_model = (\<lambda>_. Err bad_args),
      arg_u32 = (\<lambda>_. Err bad_args),
      arg_i32 = (\<lambda>_. Err bad_args),
      debug_observation = (\<lambda>_. [])\<rparr>"

definition counting_handler :: "nat Handler" where
  "counting_handler = Handler_default\<lparr>h_dns_start := (\<lambda>n. (Ok (), Suc n))\<rparr>"

definition installer :: "InstallPreflight \<Rightarrow> nat NodeHandler" where
  "installer v = NodeHandler_default
     \<lparr>nh_package_install_preflight := (\<lambda>_ n. (Ok v, n)),
      nh_package_install := (\<lambda>_ n. NextChunk (\<lambda>_. Finish (Ok PackageR_Done, Suc n)))\<rparr>"

definition sample_install :: InstallFields where
  "sample_install =
     \<lparr>in_target = ''sensor'', in_instance = None, in_version = ''1.0'', in_commit = ''c0'',
      in_size = 3, in_idempotency_key = ''k'', in_bootstrap_material = None,
      in_on_failure = OnFailure_Hold, in_bind_addrs = None, in_config_template = None,
      in_privilege_profile = None\<rparr>"

definition sample_session ::
  "wire_frame list \<Rightarrow> (nat, (string + agent_reply) list, wire_frame list) session" where
  "sample_session fs = \<lparr>se_handler = 0, se_send = [], se_recv = fs\<rparr>"

fun node_peer :: "wire_frame list \<Rightarrow> (IoError + u32 \<times> bytes) \<times> wire_frame list" where
  "node_peer [] = (Err (IoError_from EK_UnexpectedEof), [])"
| "node_peer (_ # fs) = (Ok (100, []), fs)"

lemma node_peer_codes:
  assumes "recv_request_raw (list_io\<lparr>recv_request_raw := node_peer\<rparr>) r = (Ok (code, body), r')"
  shows "client_code_from code \<in> set (RC_Unknown # node_codes)"
proof -
  have "client_code_from (client_code_into RC_NodeService) = RC_NodeService"
    by (rule client_code_round)
  then show ?thesis
    using assms by (cases r) (auto simp: node_codes_def)
qed

theorem handle_node_is_handle_on_node_codes_witness:
  "handle (list_io\<lparr>recv_request_raw := node_peer\<rparr>) rejecting_args counting_handler
     (sample_session [Raw_Frame []]) =
   handle_node (list_io\<lparr>recv_request_raw := node_peer\<rparr>) rejecting_args
     (as_node_handler counting_handler) (sample_session [Raw_Frame []])"
  using handle_node_is_handle_on_node_codes
    [of "list_io\<lparr>recv_request_raw := node_peer\<rparr>" rejecting_args counting_handler
      "sample_session [Raw_Frame []]"] node_peer_codes
  by metis

theorem undecodable_args_leave_handler_alone_witness:
  "handle list_io rejecting_args counting_handler
     (sample_session [Request_Frame (client_code_into RC_NodePower) [], Request_Frame 1 []]) =
   Some (Err (RecvError (from_io PEK_InvalidArgs bad_args)),
     (sample_session [Request_Frame 1 []])
       \<lparr>se_send := [Err (undecodable_args_message (client_code_into RC_NodePower))]\<rparr>)"
proof -
  have "args_error rejecting_args (client_code_from (client_code_into RC_NodePower)) [] = Some bad_args"
    unfolding client_code_round by (simp add: rejecting_args_def)
  then show ?thesis
    using undecodable_args_leave_handler_alone [of list_io
        "sample_session [Request_Frame (client_code_into RC_NodePower) [], Request_Frame 1 []]"
        "client_code_into RC_NodePower" "[]" "[Request_Frame 1 []]" rejecting_args bad_args counting_handler]
    unfolding client_code_round args_refusal_def
    by (simp add: sample_session_def Let_def)
qed

lemma counted_dns_start:
  "handle_arm list_io rejecting_args counting_handler (client_code_into RC_DnsStart) []
     (sample_session []) =
   Some (Ok (), (sample_session [])\<lparr>se_handler := 1, se_send := [Ok Reply_Unit]\<rparr>)"
  unfolding handle_arm_def client_code_round
  by (simp add: sample_session_def counting_handler_def respond_def call_handler_def answer_def)

theorem every_request_answered_witness:
  "sends_logged list_io id
   \<and> left_frames id (frames_due rejecting_args counting_handler (client_code_into RC_DnsStart) [] 0)
       (client_code_into RC_DnsStart) (sample_session [])
       (Ok (), (sample_session [])\<lparr>se_handler := 1, se_send := [Ok Reply_Unit]\<rparr>)"
  using list_sends_logged every_request_answered [OF list_sends_logged counted_dns_start]
  by (simp add: sample_session_def)

theorem agent_loops_return_witness:
  "finite_backlog (recv_request_raw list_io) length \<and> finite_backlog (recv_raw list_io) length
   \<and> (\<exists>out. handle list_io rejecting_args counting_handler
              (sample_session [Request_Frame 1 [], Request_Frame 106 []]) = Some out)"
  using agent_loops_return [of list_io length rejecting_args counting_handler
      "sample_session [Request_Frame 1 [], Request_Frame 106 []]"
      "as_node_handler counting_handler" "sample_session []"]
  by (simp add: list_backlog_request list_backlog_raw)

theorem no_payload_without_proceed_witness:
  "dispatch_node_package list_io (installer Preflight_AlreadyApplied) (Package_Install sample_install)
     (sample_session two_chunks) =
   Some (Ok (), (sample_session two_chunks)
     \<lparr>se_send := [Ok (Reply_Preflight Preflight_AlreadyApplied)]\<rparr>)"
  using no_payload_without_proceed
    [of "installer Preflight_AlreadyApplied" sample_install "sample_session two_chunks"
      "Ok Preflight_AlreadyApplied" 0 list_io]
  by (simp add: installer_def sample_session_def)

theorem install_keeps_stream_aligned_witness:
  "\<exists>s'. dispatch_node_package list_io (installer Preflight_Proceed) (Package_Install sample_install)
          (sample_session two_chunks) = Some (Ok (), s')
        \<and> se_recv s' = [Request_Frame 17 []]"
proof -
  have "nh_package_install_preflight (installer Preflight_Proceed) (Package_Install sample_install)
          (se_handler (sample_session two_chunks)) = (Ok Preflight_Proceed, 0)"
    by (simp add: installer_def sample_session_def)
  moreover have "delivers (recv_raw list_io) (se_recv (sample_session two_chunks)) [[1, 2], [3]]
      [Request_Frame 17 []]"
    using two_chunks_delivered by (simp add: sample_session_def)
  moreover have "length (concat [[1, 2], [3 :: u8]]) = unat (in_size sample_install)"
    by (simp add: sample_install_def)
  ultimately show ?thesis
    using install_keeps_stream_aligned [OF list_sends_logged] by fastforce
qed

end
