(* ===== verification/Agent_Connection.thy ===== *)
theory Agent_Connection
  imports Manager_Package Agent_Dispatch
begin

text \<open>
  The manager's calls of \<open>src/src/server/api.rs\<close> joined to the agent's dispatch of
  \<open>src/src/request.rs\<close>: a connection on which each stream is served by the agent's
  \<open>handle\<close>. What the calls rely on of such a connection is the locale \<open>agent_connection\<close>:
  frames are sent as they are, requests are encoded by the two codecs, and an answer the agent
  sent is received at its type. In it every call runs the agent's method of its name, and an
  install hands the agent the manager's bytes.
\<close>

subsection \<open>A connection served by an agent\<close>

text \<open>
  The agent reads the frames the manager sent; at their end it sees the end of the stream, or
  a reset when the manager ended it so.
\<close>

definition at_end :: "bool \<Rightarrow> IoError" where
  "at_end rst = IoError_from (if rst then EK_ConnectionReset else EK_UnexpectedEof)"

definition frame_io ::
  "(bytes \<Rightarrow> (u32 \<times> bytes) option) \<Rightarrow> ((string + agent_reply) list, bytes list \<times> bool) agent_io" where
  "frame_io dec =
     \<lparr>recv_request_raw = (\<lambda>(fs, rst). case fs of
        [] \<Rightarrow> (Err (at_end rst), fs, rst)
      | f # fs \<Rightarrow> (case dec f of
           Some request \<Rightarrow> (Ok request, fs, rst)
         | None \<Rightarrow> (Err (IoError_from EK_InvalidData), fs, rst))),
      recv_raw = (\<lambda>(fs, rst). case fs of [] \<Rightarrow> (Err (at_end rst), fs, rst) | f # fs \<Rightarrow> (Ok f, fs, rst)),
      send_response = (\<lambda>s m. (Ok (), s @ [m])),
      send_err = (\<lambda>s e. (Ok (), s @ [Err e]))\<rparr>"

text \<open>
  A stream is the agent's state when it was opened, the frames sent, whether it was reset and
  how many answers were read. What the agent did is its run over the frames sent so far: its
  answer to what it has read does not depend on what comes later.
\<close>

record 'h link =
  li_start :: 'h
  li_frames :: "bytes list"
  li_cut :: bool
  li_read :: nat

definition agent_run ::
  "(bytes \<Rightarrow> (u32 \<times> bytes) option) \<Rightarrow> agent_args \<Rightarrow> 'h Handler \<Rightarrow> 'h link
   \<Rightarrow> ((HandlerError + unit) \<times> ('h, (string + agent_reply) list, bytes list \<times> bool) session) option" where
  "agent_run dec A H st =
     handle (frame_io dec) A H
       \<lparr>se_handler = li_start st, se_send = [], se_recv = (li_frames st, li_cut st)\<rparr>"

text \<open>
  The codecs agree on a payload: the agent splits the frame into the code and the payload, and
  decodes the payload to what the manager encoded.
\<close>

fun agent_reads :: "agent_args \<Rightarrow> manager_payload \<Rightarrow> bytes \<Rightarrow> bool" where
  "agent_reads A Pay_Unit b \<longleftrightarrow> True"
| "agent_reads A (Pay_NetworkGroup x) b \<longleftrightarrow> arg_network_group A b = Ok x"
| "agent_reads A (Pay_DeleteCustomerData x) b \<longleftrightarrow> arg_delete_customer_data A b = Ok x"
| "agent_reads A (Pay_TrainModel x) b \<longleftrightarrow> arg_train_model A b = Ok x"
| "agent_reads A (Pay_CloneModel x) b \<longleftrightarrow> arg_clone_model A b = Ok x"
| "agent_reads A (Pay_U32 x) b \<longleftrightarrow> arg_u32 A b = Ok x"
| "agent_reads A (Pay_I32 x) b \<longleftrightarrow> arg_i32 A b = Ok x"
| "agent_reads A (Pay_FilterRules x) b \<longleftrightarrow> arg_filter_rules A b = Ok x"
| "agent_reads A (Pay_SamplingPolicies x) b \<longleftrightarrow> arg_sampling_policies A b = Ok x"
| "agent_reads A (Pay_Strings x) b \<longleftrightarrow> arg_strs A b = Ok x"
| "agent_reads A (Pay_NodeService x) b \<longleftrightarrow> arg_service A b = Ok x"
| "agent_reads A (Pay_NodeNetworkInterface x) b \<longleftrightarrow> arg_network_interface A b = Ok x"
| "agent_reads A (Pay_NodeHostname x) b \<longleftrightarrow> arg_hostname A b = Ok x"
| "agent_reads A (Pay_NodeTimeSync x) b \<longleftrightarrow> arg_time_sync A b = Ok x"
| "agent_reads A (Pay_NodeLogging x) b \<longleftrightarrow> arg_logging A b = Ok x"
| "agent_reads A (Pay_NodeRemoteAccess x) b \<longleftrightarrow> arg_remote_access A b = Ok x"
| "agent_reads A (Pay_NodePower x) b \<longleftrightarrow> arg_power A b = Ok x"
| "agent_reads A (Pay_NodeObservation x) b \<longleftrightarrow> arg_observation A b = Ok x"
| "agent_reads A (Pay_NodeVersion x) b \<longleftrightarrow> arg_version A b = Ok x"
| "agent_reads A (Pay_NodePackage x) b \<longleftrightarrow> arg_package A b = Ok x"
| "agent_reads A (Pay_NodeEnroll x) b \<longleftrightarrow> arg_enroll A b = Ok x"

definition carries ::
  "(u32 \<Rightarrow> bytes) \<Rightarrow> (manager_payload \<Rightarrow> string + bytes) \<Rightarrow> (bytes \<Rightarrow> (u32 \<times> bytes) option) \<Rightarrow> agent_args
   \<Rightarrow> manager_payload \<Rightarrow> bool" where
  "carries encode_code encode dec A payload \<longleftrightarrow>
     (case encode payload of
        Err _ \<Rightarrow> False
      | Ok b \<Rightarrow> agent_reads A payload b \<and> (\<forall>code. dec (encode_code code @ b) = Some (code, b)))"

text \<open>
  What a call should amount to: the agent's method, run once on the agent's state, its result
  the caller's, its error's text the caller's error.
\<close>

definition runs_on_agent ::
  "(bytes \<Rightarrow> (u32 \<times> bytes) option) \<Rightarrow> agent_args \<Rightarrow> 'h Handler \<Rightarrow> ('h, 'a) action \<Rightarrow> 'h
   \<Rightarrow> (AnyError + 'a) \<times> 'h \<times> 'h link option \<Rightarrow> bool" where
  "runs_on_agent dec A H f h out \<longleftrightarrow>
     (\<exists>st s. out = (map_err Any_Msg (fst (f h)), h, Some st)
        \<and> agent_run dec A H st = Some (Ok (), s) \<and> se_handler s = snd (f h)
        \<and> length (se_send s) = li_read st)"

subsection \<open>One call\<close>

lemma frame_io_simps [simp]:
  "recv_request_raw (frame_io dec) ([], rst) = (Err (at_end rst), [], rst)"
  "dec f = Some request \<Longrightarrow> recv_request_raw (frame_io dec) (f # fs, rst) = (Ok request, fs, rst)"
  "recv_raw (frame_io dec) (f # fs, rst) = (Ok f, fs, rst)"
  "send_response (frame_io dec) sent m = (Ok (), sent @ [m])"
  by (simp_all add: frame_io_def)

lemma frame_sends_logged: "sends_logged (frame_io dec) id"
  by (simp add: sends_logged_def frame_io_def)

lemma served_alone:
  assumes "dec frame = Some (code, body)"
    and "handle_arm (frame_io dec) A H code body
           \<lparr>se_handler = h, se_send = [], se_recv = (rest, False)\<rparr> = Some (Ok (), s)"
    and "se_recv s = ([], False)"
  shows "handle (frame_io dec) A H \<lparr>se_handler = h, se_send = [], se_recv = (frame # rest, False)\<rparr> =
    Some (Ok (), s)"
proof -
  have "serve_step (frame_io dec) (handle_arm (frame_io dec) A H)
      \<lparr>se_handler = h, se_send = [], se_recv = (frame # rest, False)\<rparr> = Some (Again s)"
    using assms(1,2) by (simp add: serve_step_def)
  moreover have "serve_step (frame_io dec) (handle_arm (frame_io dec) A H) s = Some (Leave (Ok (), s))"
    using assms(3) by (cases s) (simp add: serve_step_def at_end_def IoError_from_def)
  ultimately show ?thesis
    unfolding handle_def by (metis iterate_Again iterate_Leave)
qed


text \<open>
  A receiver reads what the agent sent, when the answer is one the connection can carry: the
  next answer, at the type of \<open>reply\<close>.
\<close>

definition reads_as ::
  "(bytes \<Rightarrow> (u32 \<times> bytes) option) \<Rightarrow> agent_args \<Rightarrow> 'h Handler \<Rightarrow> (string + agent_reply \<Rightarrow> bool)
   \<Rightarrow> ('a \<Rightarrow> agent_reply) \<Rightarrow> ('h link \<Rightarrow> (IoError + (string + 'a)) \<times> 'h link) \<Rightarrow> bool" where
  "reads_as dec A H good reply rd \<longleftrightarrow>
     (\<forall>st out s m. agent_run dec A H st = Some (out, s) \<and> li_read st < length (se_send s)
        \<and> se_send s ! li_read st = map_ok reply m \<and> good (map_ok reply m)
        \<longrightarrow> rd st = (Ok m, st\<lparr>li_read := Suc (li_read st)\<rparr>))"

lemma reads_asD:
  "reads_as dec A H good reply rd \<Longrightarrow> agent_run dec A H st = Some (out, s) \<Longrightarrow>
     li_read st < length (se_send s) \<Longrightarrow> se_send s ! li_read st = map_ok reply m \<Longrightarrow>
     good (map_ok reply m) \<Longrightarrow> rd st = (Ok m, st\<lparr>li_read := Suc (li_read st)\<rparr>)"
  unfolding reads_as_def by blast

declare client_code_into.simps [simp del]

lemmas agent_arm_opened = handle_arm_def client_code_round try_with.simps decode_args_Ok


subsection \<open>The agent's side of an install\<close>

lemma frame_backlog: "finite_backlog (recv_raw (frame_io dec)) (\<lambda>r. length (fst r))"
  unfolding finite_backlog_def frame_io_def by (auto split: list.split)

lemma frames_delivered: "delivers (recv_raw (frame_io dec)) (fs, rst) fs ([], rst)"
  by (induction fs) (simp_all add: delivers_Cons)

lemma answered_first:
  assumes "dec frame = Some (code, body)"
    and "handle_arm (frame_io dec) A H code body
           \<lparr>se_handler = h, se_send = [], se_recv = ([], False)\<rparr> = Some (Ok (), s)"
    and "fst (se_recv s) = []"
  shows "\<exists>res s'. handle (frame_io dec) A H
      \<lparr>se_handler = h, se_send = [], se_recv = ([frame], False)\<rparr> = Some (res, s') \<and> se_send s' = se_send s"
proof -
  let ?step = "serve_step (frame_io dec) (handle_arm (frame_io dec) A H)"
  have first: "?step \<lparr>se_handler = h, se_send = [], se_recv = ([frame], False)\<rparr> = Some (Again s)"
    using assms(1,2) by (simp add: serve_step_def)
  obtain rst where rst: "se_recv s = ([], rst)"
    using assms(3) by (cases "se_recv s") simp
  let ?out = "(if rst then Err (RecvError (at_end rst)) else Ok (), s\<lparr>se_recv := ([], rst)\<rparr>)"
  have "?step s = Some (Leave ?out)"
    using rst by (simp add: serve_step_def at_end_def IoError_from_def)
  then show ?thesis
    unfolding handle_def iterate_Again [of ?step, OF first] iterate_Leave [of ?step, OF \<open>?step s = _\<close>]
    by simp
qed

lemma package_arm:
  assumes "arg_package A b = Ok req"
  shows "handle_arm (frame_io dec) A H (client_code_into RC_NodePackage) b s =
    dispatch_node_package (frame_io dec) (as_node_handler H) req s"
  using assms by (simp add: handle_arm_def client_code_round)

lemma proceed_first:
  assumes "arg_package A b = Ok (Package_Install f)" and "dec frame = Some (client_code_into RC_NodePackage, b)"
    and "nh_package_install_preflight H (Package_Install f) h = (Ok Preflight_Proceed, h1)"
  shows "\<exists>out s m. agent_run dec A H \<lparr>li_start = h, li_frames = [frame], li_cut = False, li_read = 0\<rparr> =
      Some (out, s) \<and> se_send s = [Ok (Reply_Preflight Preflight_Proceed), m]"
proof -
  let ?s0 = "\<lparr>se_handler = h, se_send = [], se_recv = ([], False)\<rparr>"
  let ?t = "\<lparr>se_handler = h1, se_send = [Ok (Reply_Preflight Preflight_Proceed)], se_recv = ([], False)\<rparr>"
  have disp: "handle_arm (frame_io dec) A H (client_code_into RC_NodePackage) b ?s0 =
      receive_package (frame_io dec) (as_node_handler H) (Package_Install f) (in_size f) ?t"
    using assms(3) unfolding package_arm [OF assms(1)]
    by (simp add: call_handler_def answer_def as_node_handler_def Let_def)
  then obtain out where out: "receive_package (frame_io dec) (as_node_handler H) (Package_Install f)
      (in_size f) ?t = Some out"
    using arm_ends(1) [OF frame_backlog, of dec A H "client_code_into RC_NodePackage" b ?s0] by auto
  then obtain m t' where m: "out = answer (frame_io dec) m t'" "se_send t' = se_send ?t"
    by (auto simp: receive_package_def split: prod.splits option.splits)
  then obtain s where s: "out = (Ok (), s)" "se_send s = [Ok (Reply_Preflight Preflight_Proceed), m]"
    by (simp add: answer_def)
  have "length (fst (se_recv (snd out))) \<le> length (fst (se_recv ?s0))"
    using dispatch_backlog [OF frame_backlog, of dec "as_node_handler H" "Package_Install f" ?s0 out]
      disp out package_arm [OF assms(1), of dec H ?s0] by simp
  with s(1) have "fst (se_recv s) = []" by simp
  with answered_first [where dec = dec and frame = frame, OF assms(2), of A H h s] disp out s show ?thesis
    by (auto simp: agent_run_def)
qed

lemma served_whole:
  assumes args: "arg_package A b = Ok (Package_Install f)"
    and dec: "dec frame = Some (client_code_into RC_NodePackage, b)"
    and verdict: "nh_package_install_preflight H (Package_Install f) h = (Ok Preflight_Proceed, h1)"
    and chunks: "[] \<notin> set chunks" "length (concat chunks) = unat (in_size f)"
  shows "\<exists>result h2 given rest.
      fst (run_handler (frame_io dec) (nh_package_install H (Package_Install f) h1)
             (PackageReader_new (chunks, False) (in_size f))) = (result, h2)
    \<and> given = chunks_to_handler (frame_io dec) (nh_package_install H (Package_Install f) h1)
                 (PackageReader_new (chunks, False) (in_size f))
    \<and> chunks = given @ rest
    \<and> (\<forall>n. agent_run dec A H
         \<lparr>li_start = h, li_frames = frame # chunks, li_cut = False, li_read = n\<rparr> =
       Some (Ok (), \<lparr>se_handler = h2, se_send = [Ok (Reply_Preflight Preflight_Proceed),
               map_ok Reply_NodePackage result], se_recv = ([], False)\<rparr>))"
proof -
  let ?s0 = "\<lparr>se_handler = h, se_send = [], se_recv = (chunks, False)\<rparr>"
  have "nh_package_install_preflight (as_node_handler H) (Package_Install f) (se_handler ?s0) =
      (Ok Preflight_Proceed, h1)"
    using verdict by (simp add: as_node_handler_def)
  from install_served [OF frame_sends_logged this, of dec chunks "([], False)"]
  obtain result h2 s rest where served:
      "fst (run_handler (frame_io dec) (nh_package_install H (Package_Install f) h1)
             (PackageReader_new (chunks, False) (in_size f))) = (result, h2)"
      "chunks = chunks_to_handler (frame_io dec) (nh_package_install H (Package_Install f) h1)
                 (PackageReader_new (chunks, False) (in_size f)) @ rest"
      "dispatch_node_package (frame_io dec) (as_node_handler H) (Package_Install f) ?s0 = Some (Ok (), s)"
      "se_recv s = ([], False)" "se_handler s = h2"
      "se_send s = [Ok (Reply_Preflight Preflight_Proceed), map_ok Reply_NodePackage result]"
    using chunks frames_delivered [of dec chunks False] by (auto simp: as_node_handler_def)
  have s: "s = \<lparr>se_handler = h2, se_send = [Ok (Reply_Preflight Preflight_Proceed),
               map_ok Reply_NodePackage result], se_recv = ([], False)\<rparr>"
    using served(4-6) by (cases s) simp
  have "agent_run dec A H \<lparr>li_start = h, li_frames = frame # chunks, li_cut = False, li_read = n\<rparr> =
      Some (Ok (), s)" for n
    unfolding agent_run_def using served_alone [where dec = dec and frame = frame, OF dec, of A H h chunks s] served(3,4)
    by (simp add: package_arm [OF args])
  with served(1,2) s show ?thesis by blast
qed



subsection \<open>What a call relies on\<close>

locale agent_connection =
  fixes io :: "('h, 'h link) manager_io"
    and encode_code :: "u32 \<Rightarrow> bytes"
    and encode :: "manager_payload \<Rightarrow> string + bytes"
    and dec :: "bytes \<Rightarrow> (u32 \<times> bytes) option"
    and A :: agent_args
    and H :: "'h Handler"
    and good :: "string + agent_reply \<Rightarrow> bool"
  assumes opens: "mg_open io h = (Ok \<lparr>li_start = h, li_frames = [], li_cut = False, li_read = 0\<rparr>, h)"
    and sends: "mg_send_raw io st b = (Ok (), st\<lparr>li_frames := li_frames st @ [b]\<rparr>)"
    and finishes: "mg_finish io st = st"
    and encodes: "mg_encode_code io = encode_code" "mg_encode io = encode"
    and recv_unit: "reads_as dec A H good (\<lambda>_. Reply_Unit) (mg_recv_unit io)"
    and recv_preflight: "reads_as dec A H good Reply_Preflight (mg_recv_preflight io)"
    and recv_service: "reads_as dec A H good Reply_NodeService (mg_recv_service io)"
    and recv_network_interface: "reads_as dec A H good Reply_NodeNetworkInterface (mg_recv_network_interface io)"
    and recv_hostname: "reads_as dec A H good Reply_NodeHostname (mg_recv_hostname io)"
    and recv_time_sync: "reads_as dec A H good Reply_NodeTimeSync (mg_recv_time_sync io)"
    and recv_logging: "reads_as dec A H good Reply_NodeLogging (mg_recv_logging io)"
    and recv_remote_access: "reads_as dec A H good Reply_NodeRemoteAccess (mg_recv_remote_access io)"
    and recv_power: "reads_as dec A H good Reply_NodePower (mg_recv_power io)"
    and recv_observation: "reads_as dec A H good Reply_NodeObservation (mg_recv_observation io)"
    and recv_version: "reads_as dec A H good Reply_NodeVersion (mg_recv_version io)"
    and recv_package: "reads_as dec A H good Reply_NodePackage (mg_recv_package io)"
    and recv_enroll: "reads_as dec A H good Reply_NodeEnroll (mg_recv_enroll io)"
begin

lemma encoded:
  assumes "carries encode_code encode dec A payload"
  obtains b where "encode_request io c payload = Ok (encode_code (client_code_into c) @ b)"
    "agent_reads A payload b" "dec (encode_code (client_code_into c) @ b) = Some (client_code_into c, b)"
  using assms by (auto simp: carries_def encode_request_def encodes split: sum.splits)

lemma call_runs:
  assumes carried: "carries encode_code encode dec A payload"
    and arm: "\<And>b s. agent_reads A payload b \<Longrightarrow>
           handle_arm (frame_io dec) A H (client_code_into c) b s = Some (respond (frame_io dec) reply f s)"
    and rd: "reads_as dec A H good reply rd" and ok: "good (map_ok reply (fst (f h)))"
  shows "runs_on_agent dec A H f h (send_request io rd c payload h)"
proof -
  obtain b where b: "encode_request io c payload = Ok (encode_code (client_code_into c) @ b)"
      "agent_reads A payload b" "dec (encode_code (client_code_into c) @ b) = Some (client_code_into c, b)"
    by (rule encoded [OF carried])
  let ?st = "\<lparr>li_start = h, li_frames = [encode_code (client_code_into c) @ b], li_cut = False, li_read = 0\<rparr>"
  let ?s = "\<lparr>se_handler = snd (f h), se_send = [map_ok reply (fst (f h))], se_recv = ([], False)\<rparr>"
  have "respond (frame_io dec) reply f \<lparr>se_handler = h, se_send = [], se_recv = ([], False)\<rparr> = (Ok (), ?s)"
    by (simp add: respond_def call_handler_def answer_def split: prod.split)
  then have run: "agent_run dec A H (?st\<lparr>li_read := n\<rparr>) = Some (Ok (), ?s)" for n
    unfolding agent_run_def
    using served_alone [of dec "encode_code (client_code_into c) @ b" "client_code_into c" b A H h "[]" ?s]
      b(3) arm [OF b(2)]
    by simp
  have "rd ?st = (Ok (fst (f h)), ?st\<lparr>li_read := 1\<rparr>)"
    using reads_asD [OF rd _ _ _ ok, of ?st "Ok ()" ?s] run [of 0] by simp
  then have "send_request io rd c payload h =
      (map_err Any_Msg (fst (f h)), h, Some (?st\<lparr>li_read := 1\<rparr>))"
    using b(1)
    by (cases "fst (f h)") (simp_all add: send_request_def open_and_send_def await_answer_def opens sends Let_def)
  then show ?thesis
    unfolding runs_on_agent_def using run [of 1] by auto
qed

subsection \<open>Every call\<close>

lemma send_allowlist_served:
  assumes "carries encode_code encode dec A (Pay_NetworkGroup allowlist)"
    and "good (map_ok (\<lambda>_. Reply_Unit) (fst (h_allowlist H allowlist h)))"
  shows "runs_on_agent dec A H (h_allowlist H allowlist) h (send_allowlist io allowlist h)"
  unfolding send_allowlist_def
  by (rule call_runs [OF assms(1) _ recv_unit]) (use assms(2) in \<open>simp_all add: agent_arm_opened\<close>)

lemma send_blocklist_served:
  assumes "carries encode_code encode dec A (Pay_NetworkGroup blocklist)"
    and "good (map_ok (\<lambda>_. Reply_Unit) (fst (h_blocklist H blocklist h)))"
  shows "runs_on_agent dec A H (h_blocklist H blocklist) h (send_blocklist io blocklist h)"
  unfolding send_blocklist_def
  by (rule call_runs [OF assms(1) _ recv_unit]) (use assms(2) in \<open>simp_all add: agent_arm_opened\<close>)

lemma send_config_update_cmd_served:
  assumes "carries encode_code encode dec A Pay_Unit"
    and "good (map_ok (\<lambda>_. Reply_Unit) (fst (h_update_config H h)))"
  shows "runs_on_agent dec A H (h_update_config H) h (send_config_update_cmd io h)"
  unfolding send_config_update_cmd_def
  by (rule call_runs [OF assms(1) _ recv_unit]) (use assms(2) in \<open>simp_all add: agent_arm_opened\<close>)

lemma send_delete_customer_data_cmd_served:
  assumes "carries encode_code encode dec A (Pay_DeleteCustomerData request)"
    and "good (map_ok (\<lambda>_. Reply_Unit) (fst (h_delete_customer_data H request h)))"
  shows "runs_on_agent dec A H (h_delete_customer_data H request) h (send_delete_customer_data_cmd io request h)"
  unfolding send_delete_customer_data_cmd_def
  by (rule call_runs [OF assms(1) _ recv_unit]) (use assms(2) in \<open>simp_all add: agent_arm_opened\<close>)

lemma send_train_model_served:
  assumes "carries encode_code encode dec A (Pay_TrainModel request)"
    and "good (map_ok (\<lambda>_. Reply_Unit) (fst (h_train_model H request h)))"
  shows "runs_on_agent dec A H (h_train_model H request) h (send_train_model io request h)"
  unfolding send_train_model_def
  by (rule call_runs [OF assms(1) _ recv_unit]) (use assms(2) in \<open>simp_all add: agent_arm_opened\<close>)

lemma send_clone_model_served:
  assumes "carries encode_code encode dec A (Pay_CloneModel request)"
    and "good (map_ok (\<lambda>_. Reply_Unit) (fst (h_clone_model H request h)))"
  shows "runs_on_agent dec A H (h_clone_model H request) h (send_clone_model io request h)"
  unfolding send_clone_model_def
  by (rule call_runs [OF assms(1) _ recv_unit]) (use assms(2) in \<open>simp_all add: agent_arm_opened\<close>)

lemma send_cancel_run_served:
  assumes "carries encode_code encode dec A (Pay_U32 run_id)"
    and "good (map_ok (\<lambda>_. Reply_Unit) (fst (h_cancel_run H run_id h)))"
  shows "runs_on_agent dec A H (h_cancel_run H run_id) h (send_cancel_run io run_id h)"
  unfolding send_cancel_run_def
  by (rule call_runs [OF assms(1) _ recv_unit]) (use assms(2) in \<open>simp_all add: agent_arm_opened\<close>)

lemma send_run_detector_once_served:
  assumes "carries encode_code encode dec A (Pay_I32 detector_id)"
    and "good (map_ok (\<lambda>_. Reply_Unit) (fst (h_run_detector_once H detector_id h)))"
  shows "runs_on_agent dec A H (h_run_detector_once H detector_id) h (send_run_detector_once io detector_id h)"
  unfolding send_run_detector_once_def
  by (rule call_runs [OF assms(1) _ recv_unit]) (use assms(2) in \<open>simp_all add: agent_arm_opened\<close>)

lemma send_filtering_rules_served:
  assumes "carries encode_code encode dec A (Pay_FilterRules list)"
    and "good (map_ok (\<lambda>_. Reply_Unit) (fst (h_update_traffic_filter_rules H list h)))"
  shows "runs_on_agent dec A H (h_update_traffic_filter_rules H list) h (send_filtering_rules io list h)"
  unfolding send_filtering_rules_def
  by (rule call_runs [OF assms(1) _ recv_unit]) (use assms(2) in \<open>simp_all add: agent_arm_opened\<close>)

lemma send_internal_network_list_served:
  assumes "carries encode_code encode dec A (Pay_NetworkGroup list)"
    and "good (map_ok (\<lambda>_. Reply_Unit) (fst (h_internal_network_list H list h)))"
  shows "runs_on_agent dec A H (h_internal_network_list H list) h (send_internal_network_list io list h)"
  unfolding send_internal_network_list_def
  by (rule call_runs [OF assms(1) _ recv_unit]) (use assms(2) in \<open>simp_all add: agent_arm_opened\<close>)

lemma send_ping_served:
  assumes "carries encode_code encode dec A Pay_Unit"
    and "good (Ok Reply_Unit)"
  shows "runs_on_agent dec A H (\<lambda>h. (Ok (), h)) h (send_ping io h)"
  unfolding send_ping_def
  by (rule call_runs [OF assms(1) _ recv_unit])
    (use assms(2) in \<open>simp_all add: agent_arm_opened respond_def call_handler_def\<close>)

lemma send_sampling_policies_served:
  assumes "carries encode_code encode dec A (Pay_SamplingPolicies list)"
    and "good (map_ok (\<lambda>_. Reply_Unit) (fst (h_sampling_policy_list H list h)))"
  shows "runs_on_agent dec A H (h_sampling_policy_list H list) h (send_sampling_policies io list h)"
  unfolding send_sampling_policies_def
  by (rule call_runs [OF assms(1) _ recv_unit]) (use assms(2) in \<open>simp_all add: agent_arm_opened\<close>)

lemma send_tor_exit_node_list_served:
  assumes "carries encode_code encode dec A (Pay_Strings list)"
    and "good (map_ok (\<lambda>_. Reply_Unit) (fst (h_tor_exit_node_list H list h)))"
  shows "runs_on_agent dec A H (h_tor_exit_node_list H list) h (send_tor_exit_node_list io list h)"
  unfolding send_tor_exit_node_list_def
  by (rule call_runs [OF assms(1) _ recv_unit]) (use assms(2) in \<open>simp_all add: agent_arm_opened\<close>)

lemma send_trusted_domain_list_served:
  assumes "carries encode_code encode dec A (Pay_Strings list)"
    and "good (map_ok (\<lambda>_. Reply_Unit) (fst (h_trusted_domain_list H list h)))"
  shows "runs_on_agent dec A H (h_trusted_domain_list H list) h (send_trusted_domain_list io list h)"
  unfolding send_trusted_domain_list_def
  by (rule call_runs [OF assms(1) _ recv_unit]) (use assms(2) in \<open>simp_all add: agent_arm_opened\<close>)

lemma send_trusted_user_agent_list_served:
  assumes "carries encode_code encode dec A (Pay_Strings list)"
    and "good (map_ok (\<lambda>_. Reply_Unit) (fst (h_trusted_user_agent_list H list h)))"
  shows "runs_on_agent dec A H (h_trusted_user_agent_list H list) h (send_trusted_user_agent_list io list h)"
  unfolding send_trusted_user_agent_list_def
  by (rule call_runs [OF assms(1) _ recv_unit]) (use assms(2) in \<open>simp_all add: agent_arm_opened\<close>)

lemma node_service_served:
  assumes "carries encode_code encode dec A (Pay_NodeService req)"
    and "good (map_ok Reply_NodeService (fst (nh_service H req h)))"
  shows "runs_on_agent dec A H (nh_service H req) h (node_service io req h)"
  unfolding node_service_def
  by (rule call_runs [OF assms(1) _ recv_service]) (use assms(2) in \<open>simp_all add: agent_arm_opened\<close>)

lemma node_network_interface_served:
  assumes "carries encode_code encode dec A (Pay_NodeNetworkInterface req)"
    and "good (map_ok Reply_NodeNetworkInterface (fst (nh_network_interface H req h)))"
  shows "runs_on_agent dec A H (nh_network_interface H req) h (node_network_interface io req h)"
  unfolding node_network_interface_def
  by (rule call_runs [OF assms(1) _ recv_network_interface]) (use assms(2) in \<open>simp_all add: agent_arm_opened\<close>)

lemma node_hostname_served:
  assumes "carries encode_code encode dec A (Pay_NodeHostname req)"
    and "good (map_ok Reply_NodeHostname (fst (nh_hostname H req h)))"
  shows "runs_on_agent dec A H (nh_hostname H req) h (node_hostname io req h)"
  unfolding node_hostname_def
  by (rule call_runs [OF assms(1) _ recv_hostname]) (use assms(2) in \<open>simp_all add: agent_arm_opened\<close>)

lemma node_time_sync_served:
  assumes "carries encode_code encode dec A (Pay_NodeTimeSync req)"
    and "good (map_ok Reply_NodeTimeSync (fst (nh_time_sync H req h)))"
  shows "runs_on_agent dec A H (nh_time_sync H req) h (node_time_sync io req h)"
  unfolding node_time_sync_def
  by (rule call_runs [OF assms(1) _ recv_time_sync]) (use assms(2) in \<open>simp_all add: agent_arm_opened\<close>)

lemma node_logging_served:
  assumes "carries encode_code encode dec A (Pay_NodeLogging req)"
    and "good (map_ok Reply_NodeLogging (fst (nh_logging H req h)))"
  shows "runs_on_agent dec A H (nh_logging H req) h (node_logging io req h)"
  unfolding node_logging_def
  by (rule call_runs [OF assms(1) _ recv_logging]) (use assms(2) in \<open>simp_all add: agent_arm_opened\<close>)

lemma node_remote_access_served:
  assumes "carries encode_code encode dec A (Pay_NodeRemoteAccess req)"
    and "good (map_ok Reply_NodeRemoteAccess (fst (nh_remote_access H req h)))"
  shows "runs_on_agent dec A H (nh_remote_access H req) h (node_remote_access io req h)"
  unfolding node_remote_access_def
  by (rule call_runs [OF assms(1) _ recv_remote_access]) (use assms(2) in \<open>simp_all add: agent_arm_opened\<close>)

lemma node_observation_served:
  assumes "carries encode_code encode dec A (Pay_NodeObservation req)"
    and "good (map_ok Reply_NodeObservation (fst (nh_observation H req h)))"
  shows "runs_on_agent dec A H (nh_observation H req) h (node_observation io req h)"
  unfolding node_observation_def
  by (rule call_runs [OF assms(1) _ recv_observation]) (use assms(2) in \<open>simp_all add: agent_arm_opened\<close>)

lemma node_version_served:
  assumes "carries encode_code encode dec A (Pay_NodeVersion req)"
    and "good (map_ok Reply_NodeVersion (fst (nh_version H req h)))"
  shows "runs_on_agent dec A H (nh_version H req) h (node_version io req h)"
  unfolding node_version_def
  by (rule call_runs [OF assms(1) _ recv_version]) (use assms(2) in \<open>simp_all add: agent_arm_opened\<close>)

lemma node_package_served:
  assumes "carries encode_code encode dec A (Pay_NodePackage req)"
    and "good (map_ok Reply_NodePackage (fst (nh_package H req h)))"
    and "reject_install req = Ok ()"
  shows "runs_on_agent dec A H (nh_package H req) h (node_package io req h)"
proof -
  have "runs_on_agent dec A H (nh_package H req) h
      (send_request io (mg_recv_package io) RC_NodePackage (Pay_NodePackage req) h)"
    by (rule call_runs [OF assms(1) _ recv_package])
      (use assms(2,3) in \<open>cases req; simp add: agent_arm_opened as_node_handler_def\<close>)+
  then show ?thesis using assms(3) by (simp add: node_package_def checked_def)
qed

lemma node_enroll_served:
  assumes "carries encode_code encode dec A (Pay_NodeEnroll req)"
    and "good (map_ok Reply_NodeEnroll (fst (nh_enroll H req h)))"
  shows "runs_on_agent dec A H (nh_enroll H req) h (node_enroll io req h)"
  unfolding node_enroll_def
  by (rule call_runs [OF assms(1) _ recv_enroll]) (use assms(2) in \<open>simp_all add: agent_arm_opened\<close>)

subsection \<open>Power requests\<close>

lemma node_power_answered:
  assumes "carries encode_code encode dec A (Pay_NodePower req)" and "node_power_expects_response req"
    and "good (map_ok Reply_NodePower (fst (nh_power H req h)))"
  shows "runs_on_agent dec A H (\<lambda>h. apfst (map_ok PowerOutcome_Response) (nh_power H req h)) h
    (node_power io req h)"
proof -
  have power: "node_power io req h = map_call PowerOutcome_Response (send_request io
        (mg_recv_power io) RC_NodePower (Pay_NodePower req)) h"
    using assms(2) by (cases req) (simp_all add: node_power_def)
  have "runs_on_agent dec A H (nh_power H req) h
      (send_request io (mg_recv_power io) RC_NodePower (Pay_NodePower req) h)"
    by (rule call_runs [OF assms(1) _ recv_power])
      (use assms(2,3) in \<open>simp_all add: agent_arm_opened serve_power_def respond_def call_handler_def
        as_node_handler_def split: prod.split\<close>)
  moreover have "map_ok g (map_err Any_Msg r) = map_err Any_Msg (map_ok g r)"
    for g :: "NodePowerResponse \<Rightarrow> NodePowerOutcome" and r
    by (cases r) simp_all
  ultimately show ?thesis
    using power by (auto simp: runs_on_agent_def map_call_def)
qed

lemma node_power_sent:
  assumes "carries encode_code encode dec A (Pay_NodePower req)" and "\<not> node_power_expects_response req"
  shows "\<exists>st s. node_power io req h = (Ok PowerOutcome_Sent, h, Some st)
    \<and> agent_run dec A H st = Some (Ok (), s) \<and> se_handler s = snd (nh_power H req h) \<and> se_send s = []"
proof -
  obtain b where b: "encode_request io RC_NodePower (Pay_NodePower req) =
        Ok (encode_code (client_code_into RC_NodePower) @ b)" "agent_reads A (Pay_NodePower req) b"
      "dec (encode_code (client_code_into RC_NodePower) @ b) = Some (client_code_into RC_NodePower, b)"
    by (rule encoded [OF assms(1)])
  let ?frame = "encode_code (client_code_into RC_NodePower) @ b"
  let ?st = "\<lparr>li_start = h, li_frames = [?frame], li_cut = False, li_read = 0\<rparr>"
  let ?s = "\<lparr>se_handler = snd (nh_power H req h), se_send = [], se_recv = ([], False)\<rparr>"
  have "handle_arm (frame_io dec) A H (client_code_into RC_NodePower) b
      \<lparr>se_handler = h, se_send = [], se_recv = ([], False)\<rparr> = Some (Ok (), ?s)"
    using assms(2) b(2)
    by (simp add: agent_arm_opened serve_power_def call_handler_def as_node_handler_def split: prod.split)
  then have "agent_run dec A H ?st = Some (Ok (), ?s)"
    unfolding agent_run_def
    using served_alone [of dec ?frame "client_code_into RC_NodePower" b A H h "[]" ?s] b(3) by simp
  moreover have "node_power io req h = (Ok PowerOutcome_Sent, h, Some ?st)"
    using assms(2) b(1)
    by (cases req) (simp_all add: node_power_def map_call_def send_request_no_response_def
        open_and_send_def opens sends finishes Let_def)
  ultimately show ?thesis by auto
qed

subsection \<open>Installs\<close>

lemma frames_log: "frames_logged io li_frames"
  by (simp add: frames_logged_def sends)

lemma send_keeps:
  assumes "send_package io rd st pkg sz = Some (res, pkg', st')"
  shows "li_start st' = li_start st" "li_cut st' = li_cut st" "li_read st' = li_read st"
  by (rule send_package_keeps [OF assms]; simp add: sends)+

text \<open>The exchange up to the verdict, whatever the agent does after it.\<close>

lemma install_opened:
  assumes enc: "encode_request io RC_NodePackage (Pay_NodePackage (Package_Install f)) = Ok frame"
    and run: "agent_run dec A H \<lparr>li_start = h, li_frames = [frame], li_cut = False, li_read = 0\<rparr> =
      Some (out, s)" "se_send s = map_ok Reply_Preflight m # later"
    and ok: "good (map_ok Reply_Preflight m)"
  shows "node_package_install io rd (Package_Install f) h pkg =
    (case m of
       Err e \<Rightarrow> Some ((Err (Any_Msg e), h, Some \<lparr>li_start = h, li_frames = [frame], li_cut = False, li_read = 1\<rparr>), pkg)
     | Ok v \<Rightarrow> (case terminal_preflight v of
         Some verdict \<Rightarrow> Some ((Ok (Install_Preflight verdict), h,
           Some \<lparr>li_start = h, li_frames = [frame], li_cut = False, li_read = 1\<rparr>), pkg)
       | None \<Rightarrow> map_option (\<lambda>((res, st), pkg). ((res, h, Some st), pkg))
           (transfer_package io rd (in_size f) pkg
             \<lparr>li_start = h, li_frames = [frame], li_cut = False, li_read = 1\<rparr>)))"
proof -
  have "mg_recv_preflight io \<lparr>li_start = h, li_frames = [frame], li_cut = False, li_read = 0\<rparr> =
      (Ok m, \<lparr>li_start = h, li_frames = [frame], li_cut = False, li_read = 1\<rparr>)"
    using reads_asD [OF recv_preflight run(1) _ _ ok] run(2) by simp
  then show ?thesis
    using enc by (cases m) (simp_all add: node_package_install_def checked_install_def
        install_exchange_def await_answer_def opens sends split: option.split)
qed

text \<open>A verdict that settles the install: the agent ran its preflight method and nothing else.\<close>

lemma install_settled:
  assumes carried: "carries encode_code encode dec A (Pay_NodePackage (Package_Install f))"
    and verdict: "nh_package_install_preflight H (Package_Install f) h = (m, h1)"
    and over: "m \<noteq> Ok Preflight_Proceed" and ok: "good (map_ok Reply_Preflight m)"
  shows "\<exists>st s. node_package_install io rd (Package_Install f) h pkg =
      Some ((map_err Any_Msg (map_ok (\<lambda>v. Install_Preflight (the (terminal_preflight v))) m), h, Some st), pkg)
    \<and> agent_run dec A H st = Some (Ok (), s) \<and> se_handler s = h1"
proof -
  obtain b where b: "encode_request io RC_NodePackage (Pay_NodePackage (Package_Install f)) =
        Ok (encode_code (client_code_into RC_NodePackage) @ b)"
      "agent_reads A (Pay_NodePackage (Package_Install f)) b"
      "dec (encode_code (client_code_into RC_NodePackage) @ b) = Some (client_code_into RC_NodePackage, b)"
    by (rule encoded [OF carried])
  let ?frame = "encode_code (client_code_into RC_NodePackage) @ b"
  let ?s = "\<lparr>se_handler = h1, se_send = [map_ok Reply_Preflight m], se_recv = ([], False)\<rparr>"
  have "handle_arm (frame_io dec) A H (client_code_into RC_NodePackage) b
      \<lparr>se_handler = h, se_send = [], se_recv = ([], False)\<rparr> = Some (Ok (), ?s)"
    using verdict over b(2)
    by (simp add: package_arm as_node_handler_def call_handler_def answer_def Let_def)
  then have run: "agent_run dec A H \<lparr>li_start = h, li_frames = [?frame], li_cut = False, li_read = n\<rparr> =
      Some (Ok (), ?s)" for n
    unfolding agent_run_def
    using served_alone [of dec ?frame "client_code_into RC_NodePackage" b A H h "[]" ?s] b(3) by simp
  have "m = Ok v \<Longrightarrow> terminal_preflight v \<noteq> None" for v
    using over by (cases v) simp_all
  then have "node_package_install io rd (Package_Install f) h pkg =
      Some ((map_err Any_Msg (map_ok (\<lambda>v. Install_Preflight (the (terminal_preflight v))) m), h,
        Some \<lparr>li_start = h, li_frames = [?frame], li_cut = False, li_read = 1\<rparr>), pkg)"
    using install_opened [OF b(1) run _ ok, of "[]" rd pkg] by (cases m) auto
  with run show ?thesis by force
qed

lemma transfer_served:
  assumes args: "arg_package A b = Ok (Package_Install f)"
    and dec: "dec frame = Some (client_code_into RC_NodePackage, b)"
    and verdict: "nh_package_install_preflight H (Package_Install f) h = (Ok Preflight_Proceed, h1)"
    and src: "reads_from rd content" and size: "unat (in_size f) \<le> length (content pkg)"
    and ok: "\<forall>chunks. good_chunks chunks \<and> concat chunks = take (unat (in_size f)) (content pkg) \<longrightarrow>
         good (map_ok Reply_NodePackage (fst (fst (run_handler (frame_io dec)
           (nh_package_install H (Package_Install f) h1) (PackageReader_new (chunks, False) (in_size f))))))"
  shows "\<exists>chunks given rest result h2 st pkg' s.
      transfer_package io rd (in_size f) pkg \<lparr>li_start = h, li_frames = [frame], li_cut = False, li_read = 1\<rparr> =
        Some ((map_err Any_Msg (map_ok Install_Applied result), st), pkg')
    \<and> fst (run_handler (frame_io dec) (nh_package_install H (Package_Install f) h1)
             (PackageReader_new (chunks, False) (in_size f))) = (result, h2)
    \<and> given = chunks_to_handler (frame_io dec) (nh_package_install H (Package_Install f) h1)
                 (PackageReader_new (chunks, False) (in_size f))
    \<and> good_chunks chunks \<and> chunks = given @ rest \<and> concat chunks = take (unat (in_size f)) (content pkg)
    \<and> content pkg' = drop (unat (in_size f)) (content pkg)
    \<and> agent_run dec A H st = Some (Ok (), s) \<and> se_handler s = h2"
proof -
  let ?st = "\<lambda>fs n. \<lparr>li_start = h, li_frames = fs, li_cut = False, li_read = n\<rparr>"
  obtain pkg' st' chunks where
    loop: "send_package io rd (?st [frame] 1) pkg (in_size f) = Some (Ok (), pkg', st')"
      "li_frames st' = [frame] @ chunks" "good_chunks chunks"
      "concat chunks = take (unat (in_size f)) (content pkg)"
      "content pkg' = drop (unat (in_size f)) (content pkg)"
    using package_sent [OF src frames_log, of "?st [frame] 1" pkg "in_size f"] size by fastforce
  have st': "st' = ?st (frame # chunks) 1"
    using send_keeps [OF loop(1)] loop(2) by (cases st') simp
  have "[] \<notin> set chunks" "length (concat chunks) = unat (in_size f)"
    using loop(3,4) size by (auto simp: good_chunks_def)
  from served_whole [where dec = dec and frame = frame, OF args dec verdict this] obtain result h2 given rest where served:
      "fst (run_handler (frame_io dec) (nh_package_install H (Package_Install f) h1)
             (PackageReader_new (chunks, False) (in_size f))) = (result, h2)"
      "given = chunks_to_handler (frame_io dec) (nh_package_install H (Package_Install f) h1)
                 (PackageReader_new (chunks, False) (in_size f))"
      "chunks = given @ rest"
      "\<And>n. agent_run dec A H (?st (frame # chunks) n) =
       Some (Ok (), \<lparr>se_handler = h2, se_send = [Ok (Reply_Preflight Preflight_Proceed),
               map_ok Reply_NodePackage result], se_recv = ([], False)\<rparr>)"
    by blast
  have "mg_recv_package io st' = (Ok result, ?st (frame # chunks) 2)"
    using reads_asD [OF recv_package served(4) [of 1] _ _, of result] ok loop(3,4) served(1) st' by auto
  then have "transfer_package io rd (in_size f) pkg (?st [frame] 1) =
      Some ((map_err Any_Msg (map_ok Install_Applied result), ?st (frame # chunks) 2), pkg')"
    using loop(1) by (cases result) (simp_all add: transfer_package_def await_answer_def)
  with served(1-3) served(4) [of 2] loop(3-5) show ?thesis
    by (metis session.select_convs(1))
qed

lemma install_handed_over:
  assumes carried: "carries encode_code encode dec A (Pay_NodePackage (Package_Install f))"
    and src: "reads_from rd content" and size: "unat (in_size f) \<le> length (content pkg)"
    and verdict: "nh_package_install_preflight H (Package_Install f) h = (Ok Preflight_Proceed, h1)"
    and ok: "good (Ok (Reply_Preflight Preflight_Proceed))"
      "\<forall>chunks. good_chunks chunks \<and> concat chunks = take (unat (in_size f)) (content pkg) \<longrightarrow>
         good (map_ok Reply_NodePackage (fst (fst (run_handler (frame_io dec)
           (nh_package_install H (Package_Install f) h1) (PackageReader_new (chunks, False) (in_size f))))))"
  shows "\<exists>chunks given rest result h2 st pkg' s.
      node_package_install io rd (Package_Install f) h pkg =
        Some ((map_err Any_Msg (map_ok Install_Applied result), h, Some st), pkg')
    \<and> fst (run_handler (frame_io dec) (nh_package_install H (Package_Install f) h1)
             (PackageReader_new (chunks, False) (in_size f))) = (result, h2)
    \<and> given = chunks_to_handler (frame_io dec) (nh_package_install H (Package_Install f) h1)
                 (PackageReader_new (chunks, False) (in_size f))
    \<and> good_chunks chunks \<and> chunks = given @ rest \<and> concat chunks = take (unat (in_size f)) (content pkg)
    \<and> content pkg' = drop (unat (in_size f)) (content pkg)
    \<and> agent_run dec A H st = Some (Ok (), s) \<and> se_handler s = h2"
proof -
  obtain b where b: "encode_request io RC_NodePackage (Pay_NodePackage (Package_Install f)) =
        Ok (encode_code (client_code_into RC_NodePackage) @ b)"
      "agent_reads A (Pay_NodePackage (Package_Install f)) b"
      "dec (encode_code (client_code_into RC_NodePackage) @ b) = Some (client_code_into RC_NodePackage, b)"
    by (rule encoded [OF carried])
  let ?frame = "encode_code (client_code_into RC_NodePackage) @ b"
  have args: "arg_package A b = Ok (Package_Install f)" using b(2) by simp
  obtain out s m where run:
      "agent_run dec A H \<lparr>li_start = h, li_frames = [?frame], li_cut = False, li_read = 0\<rparr> = Some (out, s)"
      "se_send s = [Ok (Reply_Preflight Preflight_Proceed), m]"
    using proceed_first [where dec = dec and frame = ?frame, OF args b(3) verdict] by blast
  have opened: "node_package_install io rd (Package_Install f) h pkg =
      map_option (\<lambda>((res, st), pkg). ((res, h, Some st), pkg)) (transfer_package io rd (in_size f) pkg
        \<lparr>li_start = h, li_frames = [?frame], li_cut = False, li_read = 1\<rparr>)"
    using install_opened [OF b(1) run(1), of "Ok Preflight_Proceed" "[m]" rd pkg] run(2) ok(1) by simp
  from transfer_served [where frame = ?frame, OF args b(3) verdict src size ok(2)]
  show ?thesis
  proof (elim exE conjE)
    fix chunks given rest result h2 st pkg' s
    assume moved: "transfer_package io rd (in_size f) pkg
        \<lparr>li_start = h, li_frames = [?frame], li_cut = False, li_read = 1\<rparr> =
          Some ((map_err Any_Msg (map_ok Install_Applied result), st), pkg')"
      and rest: "fst (run_handler (frame_io dec) (nh_package_install H (Package_Install f) h1)
             (PackageReader_new (chunks, False) (in_size f))) = (result, h2)"
        "given = chunks_to_handler (frame_io dec) (nh_package_install H (Package_Install f) h1)
                 (PackageReader_new (chunks, False) (in_size f))"
        "good_chunks chunks" "chunks = given @ rest" "concat chunks = take (unat (in_size f)) (content pkg)"
        "content pkg' = drop (unat (in_size f)) (content pkg)"
        "agent_run dec A H st = Some (Ok (), s)" "se_handler s = h2"
    have "node_package_install io rd (Package_Install f) h pkg =
        Some ((map_err Any_Msg (map_ok Install_Applied result), h, Some st), pkg')"
      using opened moved by simp
    with rest show ?thesis by blast
  qed
qed

end

end
