(* ===== verification/Manager_Agent.thy ===== *)
theory Manager_Agent
  imports Agent_Connection
begin

text \<open>
  The manager's calls joined to the agent's dispatch of \<open>src/src/request.rs\<close> on a connection
  that hands the agent's answers over as values, an interpretation of \<open>agent_connection\<close>.
  The connection of \<open>Wire_Link\<close> carries them as bytes.
\<close>

subsection \<open>Answers as values\<close>

definition take_reply ::
  "(bytes \<Rightarrow> (u32 \<times> bytes) option) \<Rightarrow> agent_args \<Rightarrow> 'h Handler \<Rightarrow> (agent_reply \<Rightarrow> 'a option)
   \<Rightarrow> 'h link \<Rightarrow> (IoError + (string + 'a)) \<times> 'h link" where
  "take_reply dec A H cast st =
     (case agent_run dec A H st of
        None \<Rightarrow> (Err (IoError_from EK_TimedOut), st)
      | Some (_, s) \<Rightarrow>
          (if length (se_send s) \<le> li_read st then (Err (IoError_from EK_UnexpectedEof), st)
           else ((case se_send s ! li_read st of
                    Err m \<Rightarrow> Ok (Err m)
                  | Ok r \<Rightarrow> (case cast r of
                       Some a \<Rightarrow> Ok (Ok a) | None \<Rightarrow> Err (IoError_from EK_InvalidData))),
                 st\<lparr>li_read := Suc (li_read st)\<rparr>)))"

text \<open>Reading an answer at the type the caller asks for.\<close>

fun reply_unit :: "agent_reply \<Rightarrow> unit option" where
  "reply_unit Reply_Unit = Some ()"
| "reply_unit _ = None"

fun reply_preflight :: "agent_reply \<Rightarrow> InstallPreflight option" where
  "reply_preflight (Reply_Preflight a) = Some a"
| "reply_preflight _ = None"

fun reply_service :: "agent_reply \<Rightarrow> NodeServiceResponse option" where
  "reply_service (Reply_NodeService a) = Some a"
| "reply_service _ = None"

fun reply_network_interface :: "agent_reply \<Rightarrow> NodeNetworkInterfaceResponse option" where
  "reply_network_interface (Reply_NodeNetworkInterface a) = Some a"
| "reply_network_interface _ = None"

fun reply_hostname :: "agent_reply \<Rightarrow> NodeHostnameResponse option" where
  "reply_hostname (Reply_NodeHostname a) = Some a"
| "reply_hostname _ = None"

fun reply_time_sync :: "agent_reply \<Rightarrow> NodeTimeSyncResponse option" where
  "reply_time_sync (Reply_NodeTimeSync a) = Some a"
| "reply_time_sync _ = None"

fun reply_logging :: "agent_reply \<Rightarrow> NodeLoggingResponse option" where
  "reply_logging (Reply_NodeLogging a) = Some a"
| "reply_logging _ = None"

fun reply_remote_access :: "agent_reply \<Rightarrow> NodeRemoteAccessResponse option" where
  "reply_remote_access (Reply_NodeRemoteAccess a) = Some a"
| "reply_remote_access _ = None"

fun reply_power :: "agent_reply \<Rightarrow> NodePowerResponse option" where
  "reply_power (Reply_NodePower a) = Some a"
| "reply_power _ = None"

fun reply_observation :: "agent_reply \<Rightarrow> NodeObservationResponse option" where
  "reply_observation (Reply_NodeObservation a) = Some a"
| "reply_observation _ = None"

fun reply_version :: "agent_reply \<Rightarrow> NodeVersionResponse option" where
  "reply_version (Reply_NodeVersion a) = Some a"
| "reply_version _ = None"

fun reply_package :: "agent_reply \<Rightarrow> NodePackageResponse option" where
  "reply_package (Reply_NodePackage a) = Some a"
| "reply_package _ = None"

fun reply_enroll :: "agent_reply \<Rightarrow> NodeEnrollResponse option" where
  "reply_enroll (Reply_NodeEnroll a) = Some a"
| "reply_enroll _ = None"

definition agent_link ::
  "(u32 \<Rightarrow> bytes) \<Rightarrow> (manager_payload \<Rightarrow> string + bytes) \<Rightarrow> (bytes \<Rightarrow> (u32 \<times> bytes) option) \<Rightarrow> agent_args
   \<Rightarrow> 'h Handler \<Rightarrow> ('h, 'h link) manager_io" where
  "agent_link encode_code encode dec A H = \<lparr>
     mg_open = (\<lambda>h. (Ok \<lparr>li_start = h, li_frames = [], li_cut = False, li_read = 0\<rparr>, h)),
     mg_send_raw = (\<lambda>st b. (Ok (), st\<lparr>li_frames := li_frames st @ [b]\<rparr>)),
     mg_finish = id,
     mg_reset = (\<lambda>st _. st\<lparr>li_cut := True\<rparr>),
     mg_encode_code = encode_code,
     mg_encode = encode,
     mg_recv_unit = take_reply dec A H reply_unit,
     mg_recv_preflight = take_reply dec A H reply_preflight,
     mg_recv_service = take_reply dec A H reply_service,
     mg_recv_network_interface = take_reply dec A H reply_network_interface,
     mg_recv_hostname = take_reply dec A H reply_hostname,
     mg_recv_time_sync = take_reply dec A H reply_time_sync,
     mg_recv_logging = take_reply dec A H reply_logging,
     mg_recv_remote_access = take_reply dec A H reply_remote_access,
     mg_recv_power = take_reply dec A H reply_power,
     mg_recv_observation = take_reply dec A H reply_observation,
     mg_recv_version = take_reply dec A H reply_version,
     mg_recv_package = take_reply dec A H reply_package,
     mg_recv_enroll = take_reply dec A H reply_enroll\<rparr>"


lemma take_reply_reads:
  assumes "\<And>a. cast (reply a) = Some a"
  shows "reads_as dec A H (\<lambda>_. True) reply (take_reply dec A H cast)"
  unfolding reads_as_def
proof (intro allI impI, elim conjE)
  fix st out s m
  assume "agent_run dec A H st = Some (out, s)" "li_read st < length (se_send s)"
    "se_send s ! li_read st = map_ok reply m"
  then show "take_reply dec A H cast st = (Ok m, st\<lparr>li_read := Suc (li_read st)\<rparr>)"
    using assms by (cases m) (simp_all add: take_reply_def)
qed

interpretation al: agent_connection "agent_link encode_code encode dec A H" encode_code encode dec A H "\<lambda>_. True"
  for encode_code encode dec A H
  by unfold_locales (simp_all add: agent_link_def take_reply_reads)

subsection \<open>An install, end to end\<close>

text \<open>
  An install hands the agent the manager's package: when the source holds the announced
  size and the agent lets it proceed, the agent's install method is given a prefix of chunks
  whose whole, the part it did not ask for included, is exactly the first \<open>size\<close> bytes of
  the source; its result is the manager's outcome, the rest of the source is left unread, and
  the agent goes on at the end of the payload.
\<close>

lemma install_hands_over_package:
  assumes carried: "carries encode_code encode dec A (Pay_NodePackage (Package_Install f))"
    and src: "reads_from rd content" and size: "unat (in_size f) \<le> length (content pkg)"
    and verdict: "nh_package_install_preflight H (Package_Install f) h = (Ok Preflight_Proceed, h1)"
  shows "\<exists>chunks given rest result h2 st pkg' s.
      node_package_install (agent_link encode_code encode dec A H) rd (Package_Install f) h pkg =
        Some ((map_err Any_Msg (map_ok Install_Applied result), h, Some st), pkg')
    \<and> fst (run_handler (frame_io dec) (nh_package_install H (Package_Install f) h1)
             (PackageReader_new (chunks, False) (in_size f))) = (result, h2)
    \<and> given = chunks_to_handler (frame_io dec) (nh_package_install H (Package_Install f) h1)
                 (PackageReader_new (chunks, False) (in_size f))
    \<and> good_chunks chunks \<and> chunks = given @ rest \<and> concat chunks = take (unat (in_size f)) (content pkg)
    \<and> content pkg' = drop (unat (in_size f)) (content pkg)
    \<and> agent_run dec A H st = Some (Ok (), s) \<and> se_handler s = h2"
  by (rule al.install_handed_over [OF carried src size verdict TrueI]) simp

subsection \<open>An instance\<close>

text \<open>
  A request code in unary, ended by a zero byte; a codec with one payload per type and a
  handler that counts its calls and installs after one chunk.
\<close>

definition unary_code :: "u32 \<Rightarrow> bytes" where
  "unary_code code = replicate (unat code) 1 @ [0]"

definition split_unary :: "bytes \<Rightarrow> (u32 \<times> bytes) option" where
  "split_unary f = Some (of_nat (length (takeWhile ((=) 1) f)), tl (dropWhile ((=) 1) f))"

lemma split_unary_code: "split_unary (unary_code code @ b) = Some (code, b)"
proof -
  have "takeWhile ((=) 1) (replicate n 1 @ 0 # b) = replicate n (1 :: u8)"
    "dropWhile ((=) 1) (replicate n 1 @ 0 # b) = (0 :: u8) # b" for n
    by (induction n) simp_all
  then show ?thesis by (simp add: split_unary_def unary_code_def)
qed

definition one_payload :: "manager_payload \<Rightarrow> string + bytes" where
  "one_payload p = Ok []"

definition one_args :: agent_args where
  "one_args = rejecting_args
     \<lparr>arg_strs := \<lambda>_. Ok [''10.0.0.1''], arg_power := \<lambda>_. Ok Power_GracefulReboot,
      arg_package := \<lambda>_. Ok (Package_Install sample_install)\<rparr>"

definition counting_agent :: "nat Handler" where
  "counting_agent = Handler_default
     \<lparr>h_tor_exit_node_list := \<lambda>_ n. (Ok (), Suc n),
      nh_power := \<lambda>_ n. (Ok PowerR_Initiated, Suc n),
      nh_package_install_preflight := \<lambda>_ n. (Ok Preflight_Proceed, n),
      nh_package_install := \<lambda>_ n. NextChunk (\<lambda>_. Finish (Ok PackageR_Done, Suc n))\<rparr>"

lemma one_payload_carried:
  "carries unary_code one_payload split_unary one_args (Pay_Strings [''10.0.0.1''])"
  "carries unary_code one_payload split_unary one_args (Pay_NodePower Power_GracefulReboot)"
  "carries unary_code one_payload split_unary one_args (Pay_NodePackage (Package_Install sample_install))"
  by (simp_all add: carries_def one_payload_def one_args_def split_unary_code [of _ "[]", simplified])

lemma install_hands_over_package_witness:
  "\<exists>st pkg' s. node_package_install (agent_link unary_code one_payload split_unary one_args counting_agent)
      read_bytes (Package_Install sample_install) 0 [1, 2, 3, 4] =
        Some ((Ok (Install_Applied PackageR_Done), 0, Some st), pkg')
    \<and> pkg' = drop (unat (in_size sample_install)) [1, 2, 3, 4]
    \<and> agent_run split_unary one_args counting_agent st = Some (Ok (), s) \<and> se_handler s = 1"
proof -
  have size: "unat (in_size sample_install) \<le> length (id [1, 2, 3, 4 :: u8])"
    by (simp add: sample_install_def)
  have verdict: "nh_package_install_preflight counting_agent (Package_Install sample_install) 0 =
      (Ok Preflight_Proceed, 0)"
    by (simp add: counting_agent_def)
  have "fst (run_handler io (nh_package_install counting_agent (Package_Install sample_install) 0) p) =
      (Ok PackageR_Done, 1)" for io :: "((string + agent_reply) list, bytes list \<times> bool) agent_io" and p
    by (simp add: counting_agent_def split: prod.split)
  then show ?thesis
    using install_hands_over_package [OF one_payload_carried(3) read_bytes_reads_from size verdict]
    by fastforce
qed

end
