(* ===== verification/Install_Moves.thy ===== *)
theory Install_Moves
  imports Manager_Agent
begin

text \<open>
  The install exchange with both sides running at once, cut into moves. The manager's
  \<open>install_exchange\<close> (\<open>src/src/server/api.rs\<close>) and the agent's
  \<open>dispatch_node_package\<close> inside its dispatch loop (\<open>src/src/request.rs\<close>) are cut at
  the operations they wait on; a step of the exchange is one move of either side or one event
  of the connection between them. The stream holds a bounded number of frames, a read waits
  for a frame, and the connection may be lost at any moment. Run alone, the moves of a side
  are its function.
\<close>

subsection \<open>The stream between the two sides\<close>

text \<open>
  How a direction of a stream stands: open; ended cleanly by its sender; no longer wanted by
  its receiver; reset by its sender; or gone with the connection.
\<close>

datatype ending = Open | Finished | Stopped | Aborted | Lost

record stream =
  st_up :: "bytes list"
  st_up_end :: ending
  st_down :: "(string + agent_reply) list"
  st_down_end :: ending

type_synonym agent_recv = "bytes list \<times> ending"
type_synonym agent_send = "(string + agent_reply) list \<times> ending"
type_synonym wire_agent = "(agent_send, agent_recv) agent_io"
type_synonym 'k wire_manager = "('k, stream) manager_io"

definition recv_half :: "stream \<Rightarrow> agent_recv" where
  "recv_half st = (st_up st, st_up_end st)"

definition send_half :: "stream \<Rightarrow> agent_send" where
  "send_half st = (st_down st, st_down_end st)"

definition with_recv :: "stream \<Rightarrow> agent_recv \<Rightarrow> stream" where
  "with_recv st r = st\<lparr>st_up := fst r, st_up_end := snd r\<rparr>"

definition with_send :: "stream \<Rightarrow> agent_send \<Rightarrow> stream" where
  "with_send st d = st\<lparr>st_down := fst d, st_down_end := snd d\<rparr>"

subsection \<open>The manager, cut at the operations it waits on\<close>

datatype manager_pc =
    Await_Verdict
  | Streaming u64
  | Await_Answer
  | Returned "AnyError + InstallOutcome"

fun manager_move ::
  "'k wire_manager \<Rightarrow> ('p \<Rightarrow> nat \<Rightarrow> (IoError + bytes) \<times> 'p) \<Rightarrow> u64
   \<Rightarrow> manager_pc \<times> 'p \<times> stream \<Rightarrow> manager_pc \<times> 'p \<times> stream" where
  "manager_move io rd sz (Await_Verdict, pkg, st) =
     (case await_answer (mg_recv_preflight io)
             (Any_Context ''receiving the install preflight verdict'') st of
        (Err e, st) \<Rightarrow> (Returned (Err e), pkg, st)
      | (Ok preflight, st) \<Rightarrow>
          (case terminal_preflight preflight of
             Some verdict \<Rightarrow> (Returned (Ok (Install_Preflight verdict)), pkg, st)
           | None \<Rightarrow> (Streaming sz, pkg, st)))"
| "manager_move io rd sz (Streaming remaining, pkg, st) =
     (case the (send_package_step io rd sz (remaining, pkg, st)) of
        Again (remaining, pkg, st) \<Rightarrow> (Streaming remaining, pkg, st)
      | Leave (Ok _, pkg, st) \<Rightarrow> (Await_Answer, pkg, st)
      | Leave (Err e, pkg, st) \<Rightarrow>
          (Returned (Err e), pkg, mg_reset io st PACKAGE_TRANSFER_ABORTED))"
| "manager_move io rd sz (Await_Answer, pkg, st) =
     (case await_answer (mg_recv_package io)
             (Any_Context ''receiving the install response'') st of
        (res, st) \<Rightarrow> (Returned (map_ok Install_Applied res), pkg, st))"
| "manager_move io rd sz (Returned res, pkg, st) = (Returned res, pkg, st)"

text \<open>
  What one round of the streaming loop does apart from the stream it writes to: the chunk it
  sends with the source and count it goes on with, or how it ends.
\<close>

definition package_round ::
  "('p \<Rightarrow> nat \<Rightarrow> (IoError + bytes) \<times> 'p) \<Rightarrow> u64 \<Rightarrow> u64 \<Rightarrow> 'p
   \<Rightarrow> (u64 \<times> 'p \<times> bytes) + (AnyError + unit) \<times> 'p" where
  "package_round rd sz remaining pkg =
     (if remaining = 0 then Inr (Ok (), pkg)
      else let want = unat (min remaining PACKAGE_CHUNK_LEN) in
        (case rd pkg want of
           (Err e, pkg) \<Rightarrow> Inr (Err (Any_Context ''reading the package payload'' (Any_Io e)), pkg)
         | (Ok bs, pkg) \<Rightarrow>
             let chunk = take want bs in
             if chunk = []
             then Inr (Err (Any_Msg (''the package source ended after ''
                    @ show_nat (unat (sz - remaining)) @ '' of '' @ show_nat (unat sz) @ '' bytes'')), pkg)
             else Inl (remaining - of_nat (length chunk), pkg, chunk)))"

text \<open>
  A read waits for a frame or the end; a round of the loop that has a chunk to send waits for
  room, and \<open>cap\<close> is the room there is.
\<close>

fun manager_ready ::
  "('p \<Rightarrow> nat \<Rightarrow> (IoError + bytes) \<times> 'p) \<Rightarrow> u64 \<Rightarrow> nat \<Rightarrow> manager_pc \<Rightarrow> 'p \<Rightarrow> stream \<Rightarrow> bool" where
  "manager_ready rd sz cap (Streaming remaining) pkg st \<longleftrightarrow>
     (case package_round rd sz remaining pkg of
        Inl _ \<Rightarrow> length (st_up st) < cap \<or> st_up_end st \<noteq> Open
      | Inr _ \<Rightarrow> True)"
| "manager_ready rd sz cap (Returned _) pkg st \<longleftrightarrow> False"
| "manager_ready rd sz cap _ pkg st \<longleftrightarrow> st_down st \<noteq> [] \<or> st_down_end st \<noteq> Open"

subsection \<open>The agent, cut the same way\<close>

text \<open>
  After the install the agent's dispatch loop is \<open>Serving\<close>: it waits for the next
  request on the stream and leaves when there is none.
\<close>

datatype 'h agent_pc =
    Preflight
  | Reading "((string + NodePackageResponse) \<times> 'h) package_prog" "agent_recv PackageReader"
  | Draining "string + NodePackageResponse" "agent_recv PackageReader"
  | Answering "string + NodePackageResponse"
  | Serving
  | Left "HandlerError + unit"

definition send_reply ::
  "wire_agent \<Rightarrow> string + agent_reply \<Rightarrow> 'h agent_pc \<Rightarrow> stream \<Rightarrow> 'h agent_pc \<times> stream" where
  "send_reply aio m pc st =
     (case send_response aio (send_half st) m of
        (Err e, d) \<Rightarrow> (Left (Err (SendError e)), with_send st d)
      | (Ok _, d) \<Rightarrow> (pc, with_send st d))"

text \<open>The reader shares the stream: before each use it is given the half as it is now.\<close>

definition on_stream :: "agent_recv PackageReader \<Rightarrow> stream \<Rightarrow> agent_recv PackageReader" where
  "on_stream p st = p\<lparr>pr_recv := recv_half st\<rparr>"

fun agent_move ::
  "wire_agent \<Rightarrow> 'h NodeHandler \<Rightarrow> InstallFields \<Rightarrow> 'h agent_pc \<times> 'h \<times> stream
   \<Rightarrow> 'h agent_pc \<times> 'h \<times> stream" where
  "agent_move aio H f (Preflight, h, st) =
     (case nh_package_install_preflight H (Package_Install f) h of
        (verdict, h) \<Rightarrow>
          (case send_reply aio (map_ok Reply_Preflight verdict)
                  (if verdict = Ok Preflight_Proceed
                   then Reading (nh_package_install H (Package_Install f) h)
                          (PackageReader_new (recv_half st) (in_size f))
                   else Serving) st of
             (pc, st) \<Rightarrow> (pc, h, st)))"
| "agent_move aio H f (Reading (Finish (result, h')) p, h, st) = (Draining result p, h', st)"
| "agent_move aio H f (Reading (AskSize k) p, h, st) = (Reading (k (PackageReader_size p)) p, h, st)"
| "agent_move aio H f (Reading (AskRemaining k) p, h, st) =
     (Reading (k (PackageReader_remaining p)) p, h, st)"
| "agent_move aio H f (Reading (NextChunk k) p, h, st) =
     (case next_chunk aio (on_stream p st) of
        (res, p) \<Rightarrow> (Reading (k res) p, h, with_recv st (pr_recv p)))"
| "agent_move aio H f (Draining result p, h, st) =
     (case the (drain_step aio (on_stream p st)) of
        Again p \<Rightarrow> (Draining result p, h, with_recv st (pr_recv p))
      | Leave (drained, p) \<Rightarrow>
          (Answering (install_result result drained), h, with_recv st (pr_recv p)))"
| "agent_move aio H f (Answering result, h, st) =
     (case send_reply aio (map_ok Reply_NodePackage result) Serving st of (pc, st) \<Rightarrow> (pc, h, st))"
| "agent_move aio H f (Serving, h, st) =
     (case recv_request_raw aio (recv_half st) of
        (Err e, r) \<Rightarrow>
          (Left (if io_kind e = EK_UnexpectedEof then Ok () else Err (RecvError e)), h, with_recv st r)
      | (Ok _, r) \<Rightarrow> (Serving, h, with_recv st r))"
| "agent_move aio H f (Left res, h, st) = (Left res, h, st)"

text \<open>A chunk is waited for only while one is owed and the transfer has not failed.\<close>

fun agent_ready :: "nat \<Rightarrow> 'h agent_pc \<Rightarrow> stream \<Rightarrow> bool" where
  "agent_ready cap (Reading (NextChunk _) p) st \<longleftrightarrow>
     pr_failed p \<or> pr_remaining p = 0 \<or> st_up st \<noteq> [] \<or> st_up_end st \<noteq> Open"
| "agent_ready cap (Reading _ _) st \<longleftrightarrow> True"
| "agent_ready cap (Draining _ p) st \<longleftrightarrow>
     pr_failed p \<or> pr_remaining p = 0 \<or> st_up st \<noteq> [] \<or> st_up_end st \<noteq> Open"
| "agent_ready cap Serving st \<longleftrightarrow> st_up st = [] \<and> st_up_end st \<noteq> Open"
| "agent_ready cap (Left _) st \<longleftrightarrow> False"
| "agent_ready cap _ st \<longleftrightarrow> length (st_down st) < cap \<or> st_down_end st \<noteq> Open"

subsection \<open>The exchange\<close>

record ('h, 'p) exchange =
  ex_manager :: manager_pc
  ex_source :: 'p
  ex_agent :: "'h agent_pc"
  ex_handler :: 'h
  ex_stream :: stream

text \<open>
  The events of the connection: a call that returned drops its two halves, the agent learning
  of each at some later time; frames in flight on a direction that was reset or lost need not
  arrive; and, when \<open>lossy\<close>, the connection may go at any moment.
\<close>

inductive exchange_step ::
  "'k wire_manager \<Rightarrow> wire_agent \<Rightarrow> ('p \<Rightarrow> nat \<Rightarrow> (IoError + bytes) \<times> 'p) \<Rightarrow> 'h NodeHandler
   \<Rightarrow> InstallFields \<Rightarrow> nat \<Rightarrow> bool \<Rightarrow> ('h, 'p) exchange \<Rightarrow> ('h, 'p) exchange \<Rightarrow> bool"
  for io aio rd H f cap lossy where
  manager: "manager_ready rd (in_size f) cap (ex_manager s) (ex_source s) (ex_stream s) \<Longrightarrow>
     manager_move io rd (in_size f) (ex_manager s, ex_source s, ex_stream s) = (pc, pkg, st) \<Longrightarrow>
     exchange_step io aio rd H f cap lossy s (s\<lparr>ex_manager := pc, ex_source := pkg, ex_stream := st\<rparr>)"
| agent: "agent_ready cap (ex_agent s) (ex_stream s) \<Longrightarrow>
     agent_move aio H f (ex_agent s, ex_handler s, ex_stream s) = (pc', h, st) \<Longrightarrow>
     exchange_step io aio rd H f cap lossy s (s\<lparr>ex_agent := pc', ex_handler := h, ex_stream := st\<rparr>)"
| drop_send: "ex_manager s = Returned res \<Longrightarrow> st_up_end (ex_stream s) = Open \<Longrightarrow>
     exchange_step io aio rd H f cap lossy s (s\<lparr>ex_stream := (ex_stream s)\<lparr>st_up_end := Finished\<rparr>\<rparr>)"
| drop_recv: "ex_manager s = Returned res \<Longrightarrow> st_down_end (ex_stream s) = Open \<Longrightarrow>
     exchange_step io aio rd H f cap lossy s (s\<lparr>ex_stream := (ex_stream s)\<lparr>st_down_end := Stopped\<rparr>\<rparr>)"
| discard_up: "st_up_end (ex_stream s) \<in> {Aborted, Lost} \<Longrightarrow> st_up (ex_stream s) \<noteq> [] \<Longrightarrow>
     exchange_step io aio rd H f cap lossy s
       (s\<lparr>ex_stream := (ex_stream s)\<lparr>st_up := butlast (st_up (ex_stream s))\<rparr>\<rparr>)"
| discard_down: "st_down_end (ex_stream s) = Lost \<Longrightarrow> st_down (ex_stream s) \<noteq> [] \<Longrightarrow>
     exchange_step io aio rd H f cap lossy s
       (s\<lparr>ex_stream := (ex_stream s)\<lparr>st_down := butlast (st_down (ex_stream s))\<rparr>\<rparr>)"
| lose: "lossy \<Longrightarrow> st_up_end (ex_stream s) \<noteq> Lost \<Longrightarrow>
     exchange_step io aio rd H f cap lossy s
       (s\<lparr>ex_stream := (ex_stream s)\<lparr>st_up_end := Lost, st_down_end := Lost\<rparr>\<rparr>)"

definition exchange_start :: "'p \<Rightarrow> 'h \<Rightarrow> ('h, 'p) exchange" where
  "exchange_start pkg h =
     \<lparr>ex_manager = Await_Verdict, ex_source = pkg, ex_agent = Preflight, ex_handler = h,
      ex_stream = \<lparr>st_up = [], st_up_end = Open, st_down = [], st_down_end = Open\<rparr>\<rparr>"

fun exchange_over :: "('h, 'p) exchange \<Rightarrow> bool" where
  "exchange_over s \<longleftrightarrow>
     (case (ex_manager s, ex_agent s) of (Returned _, Left _) \<Rightarrow> True | _ \<Rightarrow> False)"

subsection \<open>What the framing layer does on such a stream\<close>

definition takes_reply ::
  "('a \<Rightarrow> agent_reply) \<Rightarrow> (stream \<Rightarrow> (IoError + (string + 'a)) \<times> stream) \<Rightarrow> bool" where
  "takes_reply mk rcv \<longleftrightarrow>
     (\<forall>st v d. st_down st = map_ok mk v # d \<longrightarrow> rcv st = (Ok v, st\<lparr>st_down := d\<rparr>))
     \<and> (\<forall>st m d. st_down st = m # d \<longrightarrow> snd (rcv st) = st\<lparr>st_down := d\<rparr>)
     \<and> (\<forall>st. st_down st = [] \<and> st_down_end st \<noteq> Open \<longrightarrow> (\<exists>e. rcv st = (Err e, st)))"

text \<open>
  A frame sent on an open direction is appended to what is in flight and on any other is
  refused; a receive takes the first frame in flight, and at an end reports an error; a reset
  ends a direction that is still open.
\<close>

definition wired :: "'k wire_manager \<Rightarrow> wire_agent \<Rightarrow> bool" where
  "wired io aio \<longleftrightarrow>
     (\<forall>st b. if st_up_end st = Open then mg_send_raw io st b = (Ok (), st\<lparr>st_up := st_up st @ [b]\<rparr>)
             else \<exists>e. mg_send_raw io st b = (Err e, st))
     \<and> (\<forall>st c. mg_reset io st c = (if st_up_end st = Open then st\<lparr>st_up_end := Aborted\<rparr> else st))
     \<and> takes_reply Reply_Preflight (mg_recv_preflight io)
     \<and> takes_reply Reply_NodePackage (mg_recv_package io)
     \<and> (\<forall>b fs e. recv_raw aio (b # fs, e) = (Ok b, fs, e))
     \<and> (\<forall>e. e \<noteq> Open \<longrightarrow> (\<exists>err. recv_raw aio ([], e) = (Err err, [], e)))
     \<and> (\<forall>e. e \<noteq> Open \<longrightarrow> (\<exists>err. recv_request_raw aio ([], e) = (Err err, [], e)))
     \<and> (\<forall>d e m. if e = Open then send_response aio (d, e) m = (Ok (), d @ [m], e)
                else \<exists>err. send_response aio (d, e) m = (Err err, d, e))"

subsection \<open>The moves are the program\<close>

text \<open>Run alone, a side's moves one after the other are its function.\<close>

definition manager_round ::
  "'k wire_manager \<Rightarrow> ('p \<Rightarrow> nat \<Rightarrow> (IoError + bytes) \<times> 'p) \<Rightarrow> u64 \<Rightarrow> manager_pc \<times> 'p \<times> stream
   \<Rightarrow> (manager_pc \<times> 'p \<times> stream, (AnyError + InstallOutcome) \<times> 'p \<times> stream) flow option" where
  "manager_round io rd sz s =
     (case s of (Returned res, pkg, st) \<Rightarrow> Some (Leave (res, pkg, st))
      | _ \<Rightarrow> Some (Again (manager_move io rd sz s)))"

definition session_of :: "'h \<Rightarrow> stream \<Rightarrow> ('h, agent_send, agent_recv) session" where
  "session_of h st = \<lparr>se_handler = h, se_send = send_half st, se_recv = recv_half st\<rparr>"

definition agent_round ::
  "wire_agent \<Rightarrow> 'h NodeHandler \<Rightarrow> InstallFields \<Rightarrow> 'h agent_pc \<times> 'h \<times> stream
   \<Rightarrow> ('h agent_pc \<times> 'h \<times> stream, (HandlerError + unit) \<times> ('h, agent_send, agent_recv) session) flow option" where
  "agent_round aio H f s =
     (case s of (Serving, h, st) \<Rightarrow> Some (Leave (Ok (), session_of h st))
      | (Left res, h, st) \<Rightarrow> Some (Leave (res, session_of h st))
      | _ \<Rightarrow> Some (Again (agent_move aio H f s)))"

lemma halves [simp]:
  "recv_half (with_recv st r) = r" "send_half (with_recv st r) = send_half st"
  "send_half (with_send st d) = d" "recv_half (with_send st d) = recv_half st"
  "with_recv (with_recv st r) r' = with_recv st r'"
  "st_down (with_recv st r) = st_down st" "st_down_end (with_recv st r) = st_down_end st"
  "st_up (with_send st d) = st_up st" "st_up_end (with_send st d) = st_up_end st"
  "st_up (with_recv st r) = fst r" "st_up_end (with_recv st r) = snd r"
  "st_down (with_send st d) = fst d" "st_down_end (with_send st d) = snd d"
  by (simp_all add: recv_half_def send_half_def with_recv_def with_send_def)

lemma with_own_recv [simp]: "with_recv st (recv_half st) = st"
  by (simp add: recv_half_def with_recv_def)

lemma on_stream_simps [simp]:
  "on_stream p (with_recv st (pr_recv p)) = p" "pr_recv (on_stream p st) = recv_half st"
  "pr_remaining (on_stream p st) = pr_remaining p" "pr_failed (on_stream p st) = pr_failed p"
  "pr_size (on_stream p st) = pr_size p" "on_stream (on_stream p st) st = on_stream p st"
  "PackageReader_size (on_stream p st) = PackageReader_size p"
  "PackageReader_remaining (on_stream p st) = PackageReader_remaining p"
  "on_stream (PackageReader_new (recv_half st) n) st = PackageReader_new (recv_half st) n"
  by (simp_all add: on_stream_def PackageReader_new_def PackageReader_size_def
      PackageReader_remaining_def)

lemma manager_alone_streams:
  "iterate (manager_round io rd sz) (Streaming remaining, pkg, st) =
     (case iterate (send_package_step io rd sz) (remaining, pkg, st) of
        None \<Rightarrow> None
      | Some (Err e, pkg, st) \<Rightarrow> Some (Err e, pkg, mg_reset io st PACKAGE_TRANSFER_ABORTED)
      | Some (Ok _, pkg, st) \<Rightarrow>
          (case await_answer (mg_recv_package io)
                  (Any_Context ''receiving the install response'') st of
             (res, st) \<Rightarrow> Some (map_ok Install_Applied res, pkg, st)))"
proof (induction "unat remaining" arbitrary: remaining pkg st rule: less_induct)
  case less
  have go: "iterate (manager_round io rd sz) (Streaming remaining, pkg, st) =
      iterate (manager_round io rd sz) (manager_move io rd sz (Streaming remaining, pkg, st))"
    by (rule iterate_Again) (simp add: manager_round_def)
  obtain fl where fl: "send_package_step io rd sz (remaining, pkg, st) = Some fl"
    by (simp add: send_package_step_def)
  show ?case
  proof (cases fl)
    case (Again s')
    obtain rem' pkg' st' where s': "s' = (rem', pkg', st')" by (cases s')
    have step: "send_package_step io rd sz (remaining, pkg, st) = Some (Again (rem', pkg', st'))"
      using fl Again s' by simp
    with less send_package_decreases [OF step] go show ?thesis
      by (simp add: iterate_Again [of "send_package_step io rd sz", OF step])
  next
    case (Leave r)
    obtain res pkg' st' where r: "r = (res, pkg', st')" by (cases r)
    have step: "send_package_step io rd sz (remaining, pkg, st) = Some (Leave (res, pkg', st'))"
      using fl Leave r by simp
    then show ?thesis
      unfolding go iterate_Leave [of "send_package_step io rd sz", OF step]
      by (cases res) (auto simp: iterate.simps [of "manager_round io rd sz"] manager_round_def
          split: prod.split)
  qed
qed

lemma manager_alone:
  "iterate (manager_round io rd sz) (Await_Verdict, pkg, st) =
     (case await_answer (mg_recv_preflight io)
             (Any_Context ''receiving the install preflight verdict'') st of
        (Err e, st) \<Rightarrow> Some (Err e, pkg, st)
      | (Ok preflight, st) \<Rightarrow>
          (case terminal_preflight preflight of
             Some verdict \<Rightarrow> Some (Ok (Install_Preflight verdict), pkg, st)
           | None \<Rightarrow> map_option (\<lambda>((res, st), pkg). (res, pkg, st)) (transfer_package io rd sz pkg st)))"
proof -
  have "iterate (manager_round io rd sz) (Await_Verdict, pkg, st) =
      iterate (manager_round io rd sz) (manager_move io rd sz (Await_Verdict, pkg, st))"
    by (rule iterate_Again) (simp add: manager_round_def)
  then show ?thesis
    by (auto simp: manager_alone_streams transfer_package_def send_package_def
        iterate.simps [of "manager_round io rd sz" "(Returned _, _, _)"] manager_round_def
        split: prod.splits sum.splits option.splits)
qed

lemma agent_alone_answers:
  "iterate (agent_round aio H f) (Answering r, h, st) =
     Some (answer aio (map_ok Reply_NodePackage r) (session_of h st))"
  by (auto simp: iterate.simps [of "agent_round aio H f"] agent_round_def send_reply_def answer_def
      session_of_def split: prod.split sum.split)

lemma agent_alone_move:
  assumes "pc \<noteq> Serving" "\<And>r. pc \<noteq> Left r"
  shows "iterate (agent_round aio H f) (pc, h, st) =
    iterate (agent_round aio H f) (agent_move aio H f (pc, h, st))"
  by (rule iterate_Again) (use assms in \<open>simp add: agent_round_def split: agent_pc.split\<close>)

lemma agent_alone_drained:
  assumes "drain aio (on_stream p st) = Some (drained, p')"
  shows "iterate (agent_round aio H f) (Draining result p, h, st) =
     Some (answer aio (map_ok Reply_NodePackage (install_result result drained))
             (session_of h (with_recv st (pr_recv p'))))"
proof -
  have "\<forall>p st. q = on_stream p st \<longrightarrow>
      iterate (agent_round aio H f) (Draining result p, h, st) =
        Some (answer aio (map_ok Reply_NodePackage (install_result result (fst r)))
               (session_of h (with_recv st (pr_recv (snd r)))))"
    if "iterate (drain_step aio) q = Some r" for q r
    using that
  proof (induction rule: iterate_induct)
    case (Again q q' r)
    show ?case
    proof (intro allI impI)
      fix p st
      assume "q = on_stream p st"
      with Again.hyps(1) have "iterate (agent_round aio H f) (Draining result p, h, st) =
          iterate (agent_round aio H f) (Draining result q', h, with_recv st (pr_recv q'))"
        by (subst agent_alone_move) simp_all
      then show "iterate (agent_round aio H f) (Draining result p, h, st) =
          Some (answer aio (map_ok Reply_NodePackage (install_result result (fst r)))
                 (session_of h (with_recv st (pr_recv (snd r)))))"
        using Again.IH [rule_format, of q' "with_recv st (pr_recv q')"] by simp
    qed
  next
    case (Leave q r)
    then show ?case by (cases r) (auto simp: agent_alone_move agent_alone_answers)
  qed
  from this [of "on_stream p st" "(drained, p')"] assms show ?thesis
    by (simp add: drain_def)
qed

lemma agent_alone_drains:
  assumes "iterate (agent_round aio H f) (Draining result p, h, st) = Some r"
  shows "drain aio (on_stream p st) \<noteq> None"
proof -
  have "\<forall>p st. s = (Draining result p, h, st) \<longrightarrow> iterate (drain_step aio) (on_stream p st) \<noteq> None"
    if "iterate (agent_round aio H f) s = Some r" for s r
    using that
  proof (induction rule: iterate_induct)
    case (Again s s' r)
    show ?case
    proof (intro allI impI)
      fix p st
      assume s: "s = (Draining result p, h, st)"
      obtain fl where fl: "drain_step aio (on_stream p st) = Some fl"
        by (simp add: drain_step_def)
      then show "iterate (drain_step aio) (on_stream p st) \<noteq> None"
      proof (cases fl)
        case (Again p')
        then have "s' = (Draining result p', h, with_recv st (pr_recv p'))"
          using Again.hyps(1) s fl by (simp add: agent_round_def)
        with Again.IH fl Again show ?thesis
          by (fastforce simp: iterate_Again [of "drain_step aio"])
      qed (simp add: iterate_Leave [of "drain_step aio"])
    qed
  next
    case (Leave s r)
    then show ?case by (auto simp: agent_round_def)
  qed
  from this [OF assms] show ?thesis by (simp add: drain_def)
qed

lemma agent_alone_reads:
  "iterate (agent_round aio H f) (Reading prog p, h, st) =
     (case run_handler aio prog (on_stream p st) of
        ((result, h'), q) \<Rightarrow> iterate (agent_round aio H f) (Draining result q, h', with_recv st (pr_recv q)))"
proof (induction prog arbitrary: p st)
  case (Finish a)
  have "iterate (agent_round aio H f) (Draining result p, h', st) =
      iterate (agent_round aio H f) (Draining result (on_stream p st), h', st)" for result h'
    by (simp add: agent_alone_move)
  moreover have "with_recv st (pr_recv (on_stream p st)) = st" by simp
  ultimately show ?case
    by (cases a) (subst agent_alone_move, simp_all del: on_stream_simps(2))
next
  case (NextChunk k)
  obtain res q where q: "next_chunk aio (on_stream p st) = (res, q)" by (cases "next_chunk aio (on_stream p st)")
  then show ?case
    using NextChunk [OF rangeI, of res q "with_recv st (pr_recv q)"]
    by (simp add: agent_alone_move split: prod.splits)
next
  case (AskSize k)
  then show ?case using AskSize [OF rangeI, of "PackageReader_size p" p st]
    by (simp add: agent_alone_move)
next
  case (AskRemaining k)
  then show ?case using AskRemaining [OF rangeI, of "PackageReader_remaining p" p st]
    by (simp add: agent_alone_move)
qed

lemma receive_package_moves:
  "receive_package aio H (Package_Install f) (in_size f) (session_of h st) =
     iterate (agent_round aio H f)
       (Reading (nh_package_install H (Package_Install f) h) (PackageReader_new (recv_half st) (in_size f)), h, st)"
proof -
  obtain result h' q where run: "run_handler aio (nh_package_install H (Package_Install f) h)
      (PackageReader_new (recv_half st) (in_size f)) = ((result, h'), q)"
    by (metis surj_pair)
  have set_up: "session_of h st\<lparr>se_handler := h', se_recv := pr_recv p'\<rparr> =
      session_of h' (with_recv st (pr_recv p'))" for p'
    by (simp add: session_of_def)
  show ?thesis
  proof (cases "drain aio q")
    case None
    then have "iterate (agent_round aio H f) (Draining result q, h', with_recv st (pr_recv q)) = None"
      using agent_alone_drains [of aio H f result q h' "with_recv st (pr_recv q)"]
      by (metis not_None_eq on_stream_simps(1))
    with None run show ?thesis
      by (simp add: receive_package_def agent_alone_reads session_of_def)
  next
    case (Some dp)
    then show ?thesis
      using run agent_alone_drained [of aio q "with_recv st (pr_recv q)" "fst dp" "snd dp" H f result h']
      by (cases dp) (simp add: receive_package_def agent_alone_reads set_up [symmetric] session_of_def)
  qed
qed

text \<open>
  The moves are the program. Run on its own, the manager's moves after the request is
  sent are the rest of \<open>install_exchange\<close>, and the agent's moves up to its dispatch loop
  are \<open>dispatch_node_package\<close>, on any framing layer, any source and any handler.
\<close>

lemma moves_are_the_program:
  "install_exchange io rd req sz k pkg =
     (case encode_request io RC_NodePackage (Pay_NodePackage req) of
        Err e \<Rightarrow> Some ((Err e, k, None), pkg)
      | Ok buf \<Rightarrow>
     (case mg_open io k of
        (Err e, k) \<Rightarrow> Some ((Err (Any_Connection e), k, None), pkg)
      | (Ok st, k) \<Rightarrow>
     (case mg_send_raw io st buf of
        (Err e, st) \<Rightarrow> Some ((Err (Any_Io e), k, Some st), pkg)
      | (Ok _, st) \<Rightarrow>
          map_option (\<lambda>(res, pkg, st). ((res, k, Some st), pkg))
            (iterate (manager_round io rd sz) (Await_Verdict, pkg, st)))))
   \<and> dispatch_node_package aio H (Package_Install f) (session_of h s) =
       iterate (agent_round aio H f) (Preflight, h, s)"
proof
  show "dispatch_node_package aio H (Package_Install f) (session_of h s) =
      iterate (agent_round aio H f) (Preflight, h, s)"
  proof (cases "nh_package_install_preflight H (Package_Install f) h")
    case (Pair verdict h')
    let ?m = "map_ok Reply_Preflight verdict"
    obtain res d where d: "send_response aio (send_half s) ?m = (res, d)"
      by (cases "send_response aio (send_half s) ?m")
    have answered: "answer aio ?m (session_of h' s) =
        (map_err SendError res, session_of h' (with_send s d))"
      using d by (simp add: answer_def session_of_def)
    show ?thesis
      using Pair d answered receive_package_moves [of aio H f h' "with_send s d"]
      by (subst agent_alone_move) (auto simp: call_handler_def session_of_def send_reply_def Let_def
          agent_round_def iterate.simps [of "agent_round aio H f" "(Serving, _)"]
          iterate.simps [of "agent_round aio H f" "(Left _, _)"] split: sum.splits)
  qed
qed (auto simp: install_exchange_def manager_alone option.map_comp comp_def case_prod_unfold
    split: sum.split option.split)

end
