(* ===== verification/Install_Protocol.thy ===== *)
theory Install_Protocol
  imports Install_Moves
begin

text \<open>
  What holds in every state the exchange of \<open>Install_Moves\<close> can reach, under every
  interleaving: the bytes promised, in flight and owed add up; no state is stuck; every run
  ends; an aborted transfer is never taken for a success.
\<close>

subsection \<open>What holds in every state\<close>

text \<open>The bytes the manager has yet to send.\<close>

fun promised :: "u64 \<Rightarrow> manager_pc \<Rightarrow> nat" where
  "promised sz Await_Verdict = unat sz"
| "promised sz (Streaming remaining) = unat remaining"
| "promised sz _ = 0"

fun returned :: "manager_pc \<Rightarrow> bool" where
  "returned (Returned _) \<longleftrightarrow> True"
| "returned _ \<longleftrightarrow> False"

lemma returned_promised [simp]: "returned M \<Longrightarrow> promised sz M = 0"
  by (cases M) simp_all

definition verdict_left :: "manager_pc \<Rightarrow> (string + agent_reply) list" where
  "verdict_left M = (if M = Await_Verdict then [Ok (Reply_Preflight Preflight_Proceed)] else [])"

text \<open>
  Between the verdict and the last payload byte: on an open stream the bytes in flight and the
  bytes promised are exactly the bytes owed; once the manager aborted they no longer suffice,
  and on a lost connection they never exceed them.
\<close>

fun transferring :: "u64 \<Rightarrow> manager_pc \<Rightarrow> 'r PackageReader \<Rightarrow> stream \<Rightarrow> bool" where
  "transferring sz M p st \<longleftrightarrow>
     pr_remaining p \<le> sz \<and> (pr_failed p \<longrightarrow> st_up st = [])
     \<and> (case st_up_end st of
          Open \<Rightarrow> length (concat (st_up st)) + promised sz M = unat (pr_remaining p)
                  \<and> \<not> pr_failed p \<and> \<not> returned M \<and> st_down_end st = Open
                  \<and> st_down st = verdict_left M
        | Aborted \<Rightarrow> length (concat (st_up st)) < unat (pr_remaining p)
                  \<and> (\<exists>e. M = Returned (Err e)) \<and> st_down st = []
        | Lost \<Rightarrow> length (concat (st_up st)) + promised sz M \<le> unat (pr_remaining p)
        | _ \<Rightarrow> False)"

fun answered_or_over :: "u64 \<Rightarrow> manager_pc \<Rightarrow> stream \<Rightarrow> bool" where
  "answered_or_over sz M st \<longleftrightarrow>
     st_up st = []
     \<and> (if returned M then st_up_end st = Aborted \<longrightarrow>
            (\<exists>e. M = Returned (Err e)) \<and> (\<forall>r. Ok (Reply_NodePackage r) \<notin> set (st_down st))
        else st_up_end st = Open \<and> st_down_end st = Open
          \<and> (M = Await_Verdict
               \<and> (\<exists>v. v \<noteq> Ok Preflight_Proceed \<and> st_down st = [map_ok Reply_Preflight v])
             \<or> promised sz M = 0
               \<and> (\<exists>r. st_down st = verdict_left M @ [map_ok Reply_NodePackage r])))"

fun in_step :: "u64 \<Rightarrow> manager_pc \<Rightarrow> 'h agent_pc \<Rightarrow> stream \<Rightarrow> bool" where
  "in_step sz M Preflight st \<longleftrightarrow>
     st_up st = [] \<and> (st_up_end st = Lost \<or>
       M = Await_Verdict \<and> st_down st = [] \<and> st_up_end st = Open \<and> st_down_end st = Open)"
| "in_step sz M (Reading _ p) st \<longleftrightarrow> transferring sz M p st"
| "in_step sz M (Draining _ p) st \<longleftrightarrow> transferring sz M p st"
| "in_step sz M (Answering r) st \<longleftrightarrow>
     st_up st = [] \<and>
     (st_up_end st = Lost
      \<or> st_up_end st = Open \<and> promised sz M = 0 \<and> \<not> returned M
        \<and> st_down_end st = Open \<and> st_down st = verdict_left M
      \<or> st_up_end st = Aborted \<and> (\<exists>e. M = Returned (Err e)) \<and> (\<exists>e. r = Err e)
        \<and> st_down st = [])"
| "in_step sz M Serving st \<longleftrightarrow> st_up st = [] \<and> (st_up_end st = Lost \<or> answered_or_over sz M st)"
| "in_step sz M (Left _) st \<longleftrightarrow>
     st_up st = [] \<and> (st_up_end st = Lost \<or> returned M \<and> answered_or_over sz M st)"

definition exchange_inv :: "InstallFields \<Rightarrow> nat \<Rightarrow> ('h, 'p) exchange \<Rightarrow> bool" where
  "exchange_inv f cap s \<longleftrightarrow>
     good_chunks (st_up (ex_stream s)) \<and> length (st_up (ex_stream s)) \<le> cap
     \<and> (st_up_end (ex_stream s) = Lost \<longleftrightarrow> st_down_end (ex_stream s) = Lost)
     \<and> in_step (in_size f) (ex_manager s) (ex_agent s) (ex_stream s)"

lemma exchange_inv_start: "exchange_inv f cap (exchange_start pkg h)"
  by (simp add: exchange_inv_def exchange_start_def good_chunks_def)

lemma good_chunks_simps [simp]:
  "good_chunks []" "good_chunks (c # cs) \<longleftrightarrow> c \<noteq> [] \<and> length c \<le> 65536 \<and> good_chunks cs"
  "good_chunks (cs @ ds) \<longleftrightarrow> good_chunks cs \<and> good_chunks ds"
  by (auto simp: good_chunks_def)

lemma good_chunks_butlast: "good_chunks cs \<Longrightarrow> good_chunks (butlast cs)"
  by (auto simp: good_chunks_def dest: in_set_butlastD)

lemma good_chunks_empty: "good_chunks cs \<Longrightarrow> length (concat cs) = 0 \<Longrightarrow> cs = []"
  by (cases cs) auto

lemma butlast_concat_le: "length (concat (butlast cs)) \<le> length (concat cs)"
  by (cases cs rule: rev_cases) simp_all

lemma wired_send:
  "wired io aio \<Longrightarrow> st_up_end st = Open \<Longrightarrow> mg_send_raw io st b = (Ok (), st\<lparr>st_up := st_up st @ [b]\<rparr>)"
  "wired io aio \<Longrightarrow> st_up_end st \<noteq> Open \<Longrightarrow> \<exists>e. mg_send_raw io st b = (Err e, st)"
  "wired io aio \<Longrightarrow> mg_reset io st c = (if st_up_end st = Open then st\<lparr>st_up_end := Aborted\<rparr> else st)"
  by (auto simp: wired_def split: if_splits)

lemma wired_takes:
  "wired io aio \<Longrightarrow> takes_reply Reply_Preflight (mg_recv_preflight io)"
  "wired io aio \<Longrightarrow> takes_reply Reply_NodePackage (mg_recv_package io)"
  by (simp_all add: wired_def)

lemma wired_agent:
  "wired io aio \<Longrightarrow> recv_raw aio (b # fs, e) = (Ok b, fs, e)"
  "wired io aio \<Longrightarrow> e \<noteq> Open \<Longrightarrow> \<exists>err. recv_raw aio ([], e) = (Err err, [], e)"
  "wired io aio \<Longrightarrow> e \<noteq> Open \<Longrightarrow> \<exists>err. recv_request_raw aio ([], e) = (Err err, [], e)"
  "wired io aio \<Longrightarrow> send_response aio (d, Open) m = (Ok (), d @ [m], Open)"
  "wired io aio \<Longrightarrow> e \<noteq> Open \<Longrightarrow> \<exists>err. send_response aio (d, e) m = (Err err, d, e)"
  by (auto simp: wired_def split: if_splits)

text \<open>Waiting for a reply: the first frame in flight, or an error at the end.\<close>

lemma await_cases [consumes 3]:
  assumes "takes_reply mk rcv" and "st_down st \<noteq> [] \<or> st_down_end st \<noteq> Open"
    and "await_answer rcv ctx st = (res, st')"
  obtains (frame) m d where "st_down st = m # d" "st' = st\<lparr>st_down := d\<rparr>"
      "\<And>v. m = map_ok mk v \<Longrightarrow> res = map_err Any_Msg v"
  | (over) e where "st_down st = []" "st' = st" "res = Err e"
proof (cases "st_down st")
  case Nil
  with assms(1,2) obtain e where "rcv st = (Err e, st)" by (auto simp: takes_reply_def)
  with Nil assms(3) show ?thesis by (auto simp: await_answer_def intro: over)
next
  case (Cons m d)
  have "snd (rcv st) = st\<lparr>st_down := d\<rparr>" "\<And>v. m = map_ok mk v \<Longrightarrow> fst (rcv st) = Ok v"
    using assms(1) Cons by (auto simp: takes_reply_def)
  moreover have "fst (rcv st) = Ok v \<Longrightarrow> res = map_err Any_Msg v" "st' = snd (rcv st)" for v
    using assms(3) by (cases "rcv st"; auto simp: await_answer_def split: sum.splits)+
  ultimately show ?thesis using Cons frame by metis
qed

lemma send_package_step_round:
  assumes "wired io aio" and "st_up_end st = Open"
  shows "send_package_step io rd sz (remaining, pkg, st) = Some
    (case package_round rd sz remaining pkg of
       Inl (remaining', pkg', chunk) \<Rightarrow> Again (remaining', pkg', st\<lparr>st_up := st_up st @ [chunk]\<rparr>)
     | Inr (res, pkg') \<Rightarrow> Leave (res, pkg', st))"
  using wired_send(1) [OF assms]
  by (simp add: send_package_step_def package_round_def Let_def split: prod.split sum.split)

lemma manager_move_cases:
  assumes wired: "wired io aio" and ready: "manager_ready rd sz cap M pkg st"
    and move: "manager_move io rd sz (M, pkg, st) = (M', pkg', st')"
  obtains (verdict) m d where "M = Await_Verdict" "st_down st = m # d" "st' = st\<lparr>st_down := d\<rparr>"
      "promised sz M' \<le> unat sz" "pkg' = pkg"
      "m = Ok (Reply_Preflight Preflight_Proceed) \<Longrightarrow> M' = Streaming sz"
      "\<And>v. m = map_ok Reply_Preflight v \<Longrightarrow> v \<noteq> Ok Preflight_Proceed \<Longrightarrow> returned M'"
  | (chunk) remaining c where "M = Streaming remaining" "c \<noteq> []" "length c \<le> 65536"
      "length c \<le> unat remaining" "st_up_end st = Open" "length (st_up st) < cap"
      "M' = Streaming (remaining - of_nat (length c))" "st' = st\<lparr>st_up := st_up st @ [c]\<rparr>"
      "send_package_step io rd sz (remaining, pkg, st) = Some (Again (remaining - of_nat (length c), pkg', st'))"
      "unat (remaining - of_nat (length c)) = unat remaining - length c"
  | (sent) "M = Streaming 0" "M' = Await_Answer" "st' = st" "pkg' = pkg"
  | (broken) remaining e where "M = Streaming remaining" "remaining \<noteq> 0" "M' = Returned (Err e)"
      "st' = (if st_up_end st = Open then st\<lparr>st_up_end := Aborted\<rparr> else st)"
      "send_package_step io rd sz (remaining, pkg, st) = Some (Leave (Err e, pkg', st))"
  | (response) m d where "M = Await_Answer" "st_down st = m # d" "st' = st\<lparr>st_down := d\<rparr>" "returned M'"
      "pkg' = pkg" "\<And>v. m = map_ok Reply_NodePackage v \<Longrightarrow> M' = Returned (map_ok Install_Applied (map_err Any_Msg v))"
  | (ended) e where "M = Await_Verdict \<or> M = Await_Answer" "st_down st = []" "st_down_end st \<noteq> Open"
      "M' = Returned (Err e)" "st' = st" "pkg' = pkg"
proof (cases M)
  case Await_Verdict
  obtain res st1 where a: "await_answer (mg_recv_preflight io)
      (Any_Context ''receiving the install preflight verdict'') st = (res, st1)"
    by (metis surj_pair)
  have st1: "st_down st \<noteq> [] \<or> st_down_end st \<noteq> Open" using ready Await_Verdict by simp
  show ?thesis
  using wired_takes(1) [OF wired] st1 a
  proof (cases rule: await_cases)
    case (frame m d)
    have M': "M' = (case res of Err e \<Rightarrow> Returned (Err e)
        | Ok v \<Rightarrow> (case terminal_preflight v of Some t \<Rightarrow> Returned (Ok (Install_Preflight t))
           | None \<Rightarrow> Streaming sz))" "st' = st\<lparr>st_down := d\<rparr>" "pkg' = pkg"
      using move Await_Verdict a frame(2) by (auto split: sum.splits option.splits)
    show ?thesis
    proof (rule verdict [OF Await_Verdict frame(1) M'(2)])
      show "promised sz M' \<le> unat sz"
        by (simp add: M'(1) split: sum.split option.split)
      show "pkg' = pkg" by (rule M'(3))
      show "M' = Streaming sz" if "m = Ok (Reply_Preflight Preflight_Proceed)"
        using frame(3) [of "Ok Preflight_Proceed"] that by (simp add: M'(1))
      show "returned M'" if "m = map_ok Reply_Preflight v" "v \<noteq> Ok Preflight_Proceed" for v
      proof (cases v)
        case (Inr p)
        with that frame(3) [of v] show ?thesis by (cases p) (simp_all add: M'(1))
      qed (use that frame(3) [of v] in \<open>simp add: M'(1)\<close>)
    qed
  next
    case (over e)
    with move Await_Verdict a st1 show ?thesis by (intro ended [of e]) simp_all
  qed
next
  case (Streaming remaining)
  show ?thesis
  proof (cases "remaining = 0")
    case True
    then show ?thesis using sent Streaming move by (simp add: send_package_step_def)
  next
    case False
    obtain fl where fl: "send_package_step io rd sz (remaining, pkg, st) = Some fl"
      by (simp add: send_package_step_def)
    show ?thesis
    proof (cases fl)
      case (Again s1)
      obtain rem1 pkg1 st1 where s1: "s1 = (rem1, pkg1, st1)" by (cases s1)
      obtain bs c where c: "c = take (unat (min remaining PACKAGE_CHUNK_LEN)) bs" "c \<noteq> []"
          "mg_send_raw io st c = (Ok (), st1)" "rem1 = remaining - of_nat (length c)"
        using send_package_step_Again [OF fl [unfolded Again s1]] by metis
      have opn: "st_up_end st = Open"
        using c(3) wired_send(2) [OF wired, of st c] by fastforce
      have "st1 = st\<lparr>st_up := st_up st @ [c]\<rparr>"
        using c(3) wired_send(1) [OF wired opn] by simp
      moreover have "length (st_up st) < cap"
        using ready Streaming opn fl Again send_package_step_round [OF wired opn, of rd sz remaining pkg]
        by (auto split: sum.splits)
      moreover have "M' = Streaming rem1" "st' = st1" "pkg' = pkg1"
        using move Streaming fl Again s1 by simp_all
      ultimately show ?thesis
        using c(4) fl Again s1 by (intro chunk [OF Streaming c(2) chunk_word(2,1) [OF c(1)] opn _ _ _ _
          chunk_word(3) [OF c(1)]]) simp_all
    next
      case (Leave r)
      have refused: "st1 = st" if "mg_send_raw io st c = (Err e, st1)" for c e st1
        using that wired_send(1,2) [OF wired, of st c] by (cases "st_up_end st = Open") auto
      obtain e pkg1 st1 where r: "r = (Err e, pkg1, st1)" "st1 = st"
        using fl Leave False
        by (auto simp: send_package_step_def Let_def split: if_splits prod.splits sum.splits
            dest: refused)
      with move Streaming fl Leave False show ?thesis
        by (intro broken [of remaining e]) (auto simp: wired_send(3) [OF wired])
    qed
  qed
next
  case Await_Answer
  obtain res st1 where a: "await_answer (mg_recv_package io)
      (Any_Context ''receiving the install response'') st = (res, st1)"
    by (metis surj_pair)
  have st1: "st_down st \<noteq> [] \<or> st_down_end st \<noteq> Open" using ready Await_Answer by simp
  show ?thesis
    using wired_takes(2) [OF wired] st1 a
  proof (cases rule: await_cases)
    case (frame m d)
    with move Await_Answer a show ?thesis by (intro response [of m d]) auto
  next
    case (over e)
    with move Await_Answer a st1 show ?thesis by (intro ended [of e]) simp_all
  qed
qed (use ready in simp)

text \<open>A move of the manager keeps the invariant.\<close>

lemma manager_keeps:
  assumes wired: "wired io aio" and ready: "manager_ready rd sz cap M pkg st"
    and move: "manager_move io rd sz (M, pkg, st) = (M', pkg', st')"
    and inv: "good_chunks (st_up st)" "length (st_up st) \<le> cap"
      "st_up_end st = Lost \<longleftrightarrow> st_down_end st = Lost" "in_step sz M A st"
  shows "good_chunks (st_up st') \<and> length (st_up st') \<le> cap
    \<and> (st_up_end st' = Lost \<longleftrightarrow> st_down_end st' = Lost) \<and> in_step sz M' A st'"
  using wired ready move
proof (cases rule: manager_move_cases)
  case (verdict m d)
  have "in_step sz M' A st'"
  proof (cases "returned M'")
    case True
    then show ?thesis using inv verdict
      by (cases A) (auto simp: verdict_left_def split: ending.splits if_splits)
  next
    case False
    then have "m \<noteq> map_ok Reply_Preflight v" if "v \<noteq> Ok Preflight_Proceed" for v
      using verdict(7) that by blast
    with False inv verdict(1-6) show ?thesis
      by (cases A) (auto simp: verdict_left_def split: ending.splits if_splits)
  qed
  then show ?thesis using inv verdict by simp
next
  case (chunk remaining c)
  have "in_step sz M' A st'"
    using inv chunk
    by (cases A) (auto simp: verdict_left_def split: ending.splits if_splits)
  then show ?thesis using inv chunk by simp
next
  case sent
  then show ?thesis using inv
    by (cases A) (auto simp: verdict_left_def split: ending.splits if_splits)
next
  case (broken remaining e)
  have "0 < unat remaining" using broken(2) by (simp add: unat_gt_0)
  with broken inv show ?thesis
    by (cases A) (auto simp: verdict_left_def split: ending.splits if_splits)
next
  case (response m d)
  then show ?thesis using inv
    by (cases A) (auto simp: verdict_left_def split: ending.splits if_splits)
next
  case (ended e)
  then show ?thesis using inv
    by (cases A) (auto simp: verdict_left_def split: ending.splits if_splits)
qed

text \<open>One chunk: the reader takes what is in flight and never meets an overrun.\<close>

lemma next_chunk_keeps:
  assumes wired: "wired io aio" and good: "good_chunks (st_up st)"
    and tr: "transferring sz M p st"
    and ready: "pr_failed p \<or> pr_remaining p = 0 \<or> st_up st \<noteq> [] \<or> st_up_end st \<noteq> Open"
    and nxt: "next_chunk aio (on_stream p st) = (res, p')"
  shows "transferring sz M p' (with_recv st (pr_recv p'))"
    and "st_up st = fst (pr_recv p') \<or> (\<exists>c. res = Ok (True, c) \<and> st_up st = c # fst (pr_recv p'))"
    and "snd (pr_recv p') = st_up_end st"
    and "res = Ok (False, c) \<Longrightarrow> pr_remaining p' = 0"
    and "res = Err e \<Longrightarrow> pr_failed p'"
proof -
  have "transferring sz M p' (with_recv st (pr_recv p'))
    \<and> (st_up st = fst (pr_recv p') \<or> (\<exists>c. res = Ok (True, c) \<and> st_up st = c # fst (pr_recv p')))
    \<and> snd (pr_recv p') = st_up_end st \<and> (res = Ok (False, c) \<longrightarrow> pr_remaining p' = 0)
    \<and> (res = Err e \<longrightarrow> pr_failed p')"
  proof (cases "pr_failed p \<or> pr_remaining p = 0")
    case True
    then have "p' = on_stream p st" "res = Ok (False, c) \<Longrightarrow> pr_remaining p = 0"
        "res = Err e \<Longrightarrow> pr_failed p"
      using nxt by (auto simp: next_chunk_def split: if_splits)
    with tr show ?thesis by (auto simp: recv_half_def split: ending.splits)
  next
    case False
    show ?thesis
    proof (cases "st_up st")
      case Nil
      then obtain err where "recv_raw aio (recv_half st) = (Err err, recv_half st)"
        using ready False wired_agent(2) [OF wired] by (auto simp: recv_half_def)
      then have p': "p' = (on_stream p st)\<lparr>pr_recv := recv_half st, pr_failed := True\<rparr>"
          "res = Err (truncated_payload err)"
        using nxt False by (auto simp: next_chunk_def read_chunk_def)
      have "st_up_end st \<noteq> Open" using ready False Nil by simp
      with tr p' Nil show ?thesis by (auto simp: recv_half_def split: ending.splits)
    next
      case (Cons c cs)
      have len: "length (concat (c # cs)) \<le> unat (pr_remaining p)"
        using tr Cons by (auto split: ending.splits)
      then have le: "length c \<le> unat (pr_remaining p)" "c \<noteq> []"
        using good Cons by auto
      have "recv_raw aio (pr_recv (on_stream p st)) = (Ok c, cs, st_up_end st)"
        using Cons wired_agent(1) [OF wired] by (simp add: recv_half_def)
      then have p': "res = Ok (True, c)" "p' = (on_stream p st)\<lparr>pr_recv := (cs, st_up_end st),
          pr_remaining := pr_remaining p - of_nat (length c)\<rparr>"
        using nxt next_chunk_takes [of "on_stream p st" aio c "(cs, st_up_end st)"] le False by auto
      have u: "unat (pr_remaining p - of_nat (length c)) = unat (pr_remaining p) - length c"
        using le by (simp add: unat_of_nat_le unat_sub_le word_le_nat_alt)
      then have "pr_remaining p - of_nat (length c) \<le> sz"
        using tr by (auto simp: word_le_nat_alt)
      with u tr Cons p' le len False show ?thesis by (auto split: ending.splits)
    qed
  qed
  then show "transferring sz M p' (with_recv st (pr_recv p'))"
    and "st_up st = fst (pr_recv p') \<or> (\<exists>c. res = Ok (True, c) \<and> st_up st = c # fst (pr_recv p'))"
    and "snd (pr_recv p') = st_up_end st"
    and "res = Ok (False, c) \<Longrightarrow> pr_remaining p' = 0" and "res = Err e \<Longrightarrow> pr_failed p'"
    by blast+
qed

lemma send_reply_cases:
  assumes wired: "wired io aio" and reply: "send_reply aio m pc st = (pc', st')"
  obtains (sent) "st_down_end st = Open" "pc' = pc" "st' = st\<lparr>st_down := st_down st @ [m]\<rparr>"
  | (refused) e where "st_down_end st \<noteq> Open" "pc' = Left (Err (SendError e))" "st' = st"
proof (cases "st_down_end st = Open")
  case True
  with reply wired_agent(4) [OF wired, of "st_down st" m] show ?thesis
    by (intro that(1)) (auto simp: send_reply_def send_half_def with_send_def)
next
  case False
  with wired_agent(5) [OF wired this, of "st_down st" m] reply show ?thesis
    by (auto simp: send_reply_def send_half_def with_send_def intro: that(2))
qed

lemma install_result_Err: "\<exists>e'. install_result r (Err e) = Err e'"
  by (cases r) simp_all

text \<open>A move of the agent keeps the invariant and never ends or reopens a direction.\<close>

lemma drain_keeps:
  assumes "wired io aio" and "good_chunks (st_up st)" and "transferring sz M p st"
    and "agent_ready cap (Draining result p) st"
    and "agent_move aio H f (Draining result p, h, st) = (pc, h', st')"
  shows "good_chunks (st_up st') \<and> length (st_up st') \<le> length (st_up st)
    \<and> st_up_end st' = st_up_end st \<and> st_down_end st' = st_down_end st \<and> in_step sz M pc st'"
proof -
  obtain res q where q: "next_chunk aio (on_stream p st) = (res, q)"
    by (cases "next_chunk aio (on_stream p st)")
  have ready: "pr_failed p \<or> pr_remaining p = 0 \<or> st_up st \<noteq> [] \<or> st_up_end st \<noteq> Open"
    using assms(4) by simp
  note keeps = next_chunk_keeps [OF assms(1-3) ready q]
  have st': "st' = with_recv st (pr_recv q)"
    using assms(5) q by (auto simp: drain_step_def split: sum.splits prod.splits bool.splits)
  have good: "good_chunks (fst (pr_recv q))" "length (fst (pr_recv q)) \<le> length (st_up st)"
    using keeps(2) assms(2) by auto
  have "in_step sz M pc st'"
  proof (cases res)
    case (Inl e)
    then have "pr_failed q" "pc = Answering (install_result result (Err e))"
      using keeps(5) q assms(5) by (auto simp: drain_step_def)
    with keeps(1) show ?thesis
      using install_result_Err [of result e] unfolding st' by (auto split: ending.splits)
  next
    case (Inr mc)
    show ?thesis
    proof (cases "fst mc")
      case True
      then have "pc = Draining result q"
        using Inr q assms(5) by (cases mc) (simp add: drain_step_def)
      with keeps(1) show ?thesis by (simp add: st')
    next
      case False
      then have "res = Ok (False, snd mc)" using Inr by (metis prod.collapse)
      then have "pr_remaining q = 0" "pc = Answering (install_result result (Ok ()))"
        using keeps(4) q assms(5) by (auto simp: drain_step_def)
      with keeps(1) good good_chunks_empty [OF good(1)] show ?thesis
        unfolding st' by (auto split: ending.splits)
    qed
  qed
  with good keeps(3) st' show ?thesis by simp
qed

lemma agent_keeps:
  assumes wired: "wired io aio" and ready: "agent_ready cap A st"
    and move: "agent_move aio H f (A, h, st) = (A', h', st')"
    and inv: "good_chunks (st_up st)" "in_step (in_size f) M A st"
      "st_up_end st = Lost \<longleftrightarrow> st_down_end st = Lost"
  shows "good_chunks (st_up st') \<and> length (st_up st') \<le> length (st_up st)
    \<and> st_up_end st' = st_up_end st \<and> st_down_end st' = st_down_end st \<and> in_step (in_size f) M A' st'"
proof (cases A)
  case Preflight
  obtain verdict h1 where pre: "nh_package_install_preflight H (Package_Install f) h = (verdict, h1)"
    by (cases "nh_package_install_preflight H (Package_Install f) h")
  let ?pc = "if verdict = Ok Preflight_Proceed
    then Reading (nh_package_install H (Package_Install f) h1) (PackageReader_new (recv_half st) (in_size f))
    else Serving"
  have "send_reply aio (map_ok Reply_Preflight verdict) ?pc st = (A', st')"
    using move pre Preflight by (auto split: prod.splits)
  with wired show ?thesis
  proof (cases rule: send_reply_cases)
    case sent
    then show ?thesis using inv Preflight
      by (auto simp: verdict_left_def)
  next
    case (refused e)
    then show ?thesis using inv Preflight by auto
  qed
next
  case (Reading prog p)
  show ?thesis
  proof (cases prog)
    case (NextChunk k)
    obtain res q where q: "next_chunk aio (on_stream p st) = (res, q)"
      by (cases "next_chunk aio (on_stream p st)")
    have tr: "transferring (in_size f) M p st" using inv Reading by simp
    have rdy: "pr_failed p \<or> pr_remaining p = 0 \<or> st_up st \<noteq> [] \<or> st_up_end st \<noteq> Open"
      using ready Reading NextChunk by simp
    have "A' = Reading (k res) q" "st' = with_recv st (pr_recv q)"
      using move Reading NextChunk q by auto
    then show ?thesis
      using next_chunk_keeps(1-3) [OF wired inv(1) tr rdy q] inv(1) by (auto simp del: transferring.simps)
  next
    case (Finish a)
    then show ?thesis using move inv Reading by (cases a) auto
  qed (use move inv Reading in auto)
next
  case (Draining result p)
  show ?thesis
    by (rule drain_keeps [OF wired inv(1)])
      (use inv(2) ready move Draining in simp_all)
next
  case (Answering r)
  have "send_reply aio (map_ok Reply_NodePackage r) Serving st = (A', st')"
    using move Answering by (auto split: prod.splits)
  with wired show ?thesis
  proof (cases rule: send_reply_cases)
    case sent
    then show ?thesis using inv Answering
      by auto
  next
    case (refused e)
    then show ?thesis using inv Answering by auto
  qed
next
  case Serving
  then have st: "st_up st = []" "st_up_end st \<noteq> Open" using ready by simp_all
  then obtain e where "recv_request_raw aio (recv_half st) = (Err e, recv_half st)"
    using wired_agent(3) [OF wired] by (auto simp: recv_half_def)
  with move Serving have "\<exists>r. A' = Left r" "st' = st" by auto
  with inv Serving st show ?thesis by (auto split: if_splits)
qed (use ready in simp)

lemma exchange_step_keeps:
  assumes "exchange_step io aio rd H f cap lossy s s'" and wired: "wired io aio"
    and inv: "exchange_inv f cap s"
  shows "exchange_inv f cap s'"
  using assms(1)
proof cases
  case (manager pc pkg st)
  then show ?thesis
    using manager_keeps [OF wired manager(2,3), of "ex_agent s"] inv
    by (simp add: exchange_inv_def)
next
  case (agent pc h st)
  then show ?thesis
    using agent_keeps [OF wired, of cap "ex_agent s" "ex_stream s"] inv
    by (fastforce simp: exchange_inv_def)
next
  case (drop_send res)
  with inv show ?thesis
    by (cases "ex_agent s") (auto simp: exchange_inv_def)
next
  case (drop_recv res)
  with inv show ?thesis
    by (cases "ex_agent s") (auto simp: exchange_inv_def split: ending.splits)
next
  case discard_up
  with inv show ?thesis
    using butlast_concat_le [of "st_up (ex_stream s)"]
    by (cases "ex_agent s")
      (auto simp: exchange_inv_def good_chunks_butlast simp del: length_concat split: ending.splits if_splits)
next
  case discard_down
  with inv show ?thesis
    by (cases "ex_agent s") (auto simp: exchange_inv_def split: ending.splits)
next
  case lose
  with inv show ?thesis
    by (cases "ex_agent s") (auto simp: exchange_inv_def split: ending.splits)
qed

lemma reachable_inv:
  assumes "(exchange_step io aio rd H f cap lossy)\<^sup>*\<^sup>* s t" and "wired io aio" and "exchange_inv f cap s"
  shows "exchange_inv f cap t"
  using assms(1,3) by induction (auto intro: exchange_step_keeps [OF _ assms(2)])

subsection \<open>No state is stuck\<close>

lemma manager_enabled:
  "manager_ready rd (in_size f) cap (ex_manager s) (ex_source s) (ex_stream s) \<Longrightarrow> \<exists>t. exchange_step io aio rd H f cap lossy s t"
  by (metis exchange_step.manager surj_pair)

lemma agent_enabled:
  "agent_ready cap (ex_agent s) (ex_stream s) \<Longrightarrow> \<exists>t. exchange_step io aio rd H f cap lossy s t"
  by (metis exchange_step.agent surj_pair)

lemma lost_not_stuck:
  assumes "st_up_end (ex_stream s) = Lost" "st_down_end (ex_stream s) = Lost" and "\<not> exchange_over s"
  shows "\<exists>t. exchange_step io aio rd H f cap lossy s t"
proof (cases "returned (ex_manager s)")
  case False
  then have "manager_ready rd (in_size f) cap (ex_manager s) (ex_source s) (ex_stream s)"
    using assms(1,2) by (cases "ex_manager s") (simp_all split: sum.split)
  then show ?thesis by (rule manager_enabled)
next
  case True
  show ?thesis
  proof (cases "agent_ready cap (ex_agent s) (ex_stream s)")
    case False
    with True assms have "st_up (ex_stream s) \<noteq> []"
      by (cases "(cap, ex_agent s, ex_stream s)" rule: agent_ready.cases)
        (auto split: manager_pc.splits)
    with assms(1) show ?thesis using exchange_step.discard_up by fastforce
  qed (rule agent_enabled)
qed

text \<open>A side that waits for payload has it in flight, or the manager is about to send it.\<close>

lemma transfer_not_stuck:
  assumes "transferring sz (ex_manager s) p (ex_stream s)" and "0 < cap"
    and "st_up_end (ex_stream s) \<noteq> Lost"
    and "pr_failed p \<or> pr_remaining p = 0 \<or> st_up (ex_stream s) \<noteq> [] \<or> st_up_end (ex_stream s) \<noteq> Open
         \<Longrightarrow> agent_ready cap (ex_agent s) (ex_stream s)"
  shows "\<exists>t. exchange_step io aio rd H f cap lossy s t"
proof (cases "agent_ready cap (ex_agent s) (ex_stream s)")
  case False
  with assms(4) have "st_up (ex_stream s) = []" "st_up_end (ex_stream s) = Open" "pr_remaining p \<noteq> 0"
    by auto
  with assms(1,2) have "manager_ready rd (in_size f) cap (ex_manager s) (ex_source s) (ex_stream s)"
    by (cases "ex_manager s") (auto simp: verdict_left_def unat_eq_zero split: sum.split)
  then show ?thesis by (rule manager_enabled)
qed (rule agent_enabled)

lemma answer_not_stuck:
  assumes "ex_agent s = Answering r" and "in_step sz (ex_manager s) (ex_agent s) (ex_stream s)"
    and "0 < cap" and "st_up_end (ex_stream s) \<noteq> Lost"
  shows "\<exists>t. exchange_step io aio rd H f cap lossy s t"
proof (cases "agent_ready cap (ex_agent s) (ex_stream s)")
  case False
  with assms have "manager_ready rd (in_size f) cap (ex_manager s) (ex_source s) (ex_stream s)"
    by (auto simp: verdict_left_def split: if_splits)
  then show ?thesis by (rule manager_enabled)
qed (rule agent_enabled)

lemma serving_not_stuck:
  assumes "ex_agent s = Serving" and "answered_or_over sz (ex_manager s) (ex_stream s)"
  shows "\<exists>t. exchange_step io aio rd H f cap lossy s t"
proof (cases "returned (ex_manager s)")
  case True
  then obtain res where res: "ex_manager s = Returned res" by (cases "ex_manager s") auto
  show ?thesis
  proof (cases "st_up_end (ex_stream s) = Open")
    case True
    with res show ?thesis using exchange_step.drop_send by blast
  next
    case False
    with assms show ?thesis by (intro agent_enabled) simp
  qed
next
  case False
  with assms(2) have "manager_ready rd (in_size f) cap (ex_manager s) (ex_source s) (ex_stream s)"
    by (cases "ex_manager s") (auto simp: unat_eq_zero package_round_def)
  then show ?thesis by (rule manager_enabled)
qed

lemma exchange_not_stuck:
  assumes inv: "exchange_inv f cap s" and "0 < cap" and "\<not> exchange_over s"
  shows "\<exists>t. exchange_step io aio rd H f cap lossy s t"
proof (cases "st_up_end (ex_stream s) = Lost")
  case True
  with inv assms(3) show ?thesis by (intro lost_not_stuck) (simp_all add: exchange_inv_def)
next
  case live: False
  have step: "in_step (in_size f) (ex_manager s) (ex_agent s) (ex_stream s)"
    using inv by (simp add: exchange_inv_def)
  show ?thesis
  proof (cases "ex_agent s")
    case Preflight
    with step live assms(2) show ?thesis by (intro agent_enabled) simp
  next
    case (Reading prog p)
    show ?thesis
      by (rule transfer_not_stuck [OF _ assms(2) live, of "in_size f" p])
        (use step Reading in \<open>simp; cases prog; simp\<close>)+
  next
    case (Draining r p)
    show ?thesis
      by (rule transfer_not_stuck [OF _ assms(2) live, of "in_size f" p])
        (use step Draining in simp_all)
  next
    case (Answering r)
    show ?thesis by (rule answer_not_stuck [OF Answering step assms(2) live])
  next
    case Serving
    with step live show ?thesis by (intro serving_not_stuck [of s "in_size f"]) simp_all
  next
    case (Left r)
    with step live assms(3) show ?thesis by (cases "ex_manager s") simp_all
  qed
qed

subsection \<open>Every run ends\<close>

text \<open>
  What a step uses up: an ending of the stream or a move of the manager; then a phase of the
  agent; then a call of the install method, whose tree is well founded; then a frame.
\<close>

inductive_set prog_less :: "('a package_prog \<times> 'a package_prog) set" where
  "(k r, NextChunk k) \<in> prog_less"
| "(k' n, AskSize k') \<in> prog_less"
| "(k' n, AskRemaining k') \<in> prog_less"

inductive_cases prog_lessE:
  "(q, Finish a) \<in> prog_less" "(q, NextChunk k) \<in> prog_less"
  "(q, AskSize k') \<in> prog_less" "(q, AskRemaining k') \<in> prog_less"

lemma wf_prog_less: "wf (prog_less :: ('a package_prog \<times> 'a package_prog) set)"
proof (rule wfUNIVI)
  fix P :: "'a package_prog \<Rightarrow> bool" and x :: "'a package_prog"
  assume "\<forall>x. (\<forall>y. (y, x) \<in> prog_less \<longrightarrow> P y) \<longrightarrow> P x"
  then have step: "(\<And>y. (y, x) \<in> prog_less \<Longrightarrow> P y) \<Longrightarrow> P x" for x by blast
  show "P x"
    by (induction x; rule step) (auto elim: prog_lessE)
qed

fun ending_left :: "ending \<Rightarrow> nat" where
  "ending_left Open = 2"
| "ending_left Lost = 0"
| "ending_left _ = 1"

fun manager_left :: "manager_pc \<Rightarrow> nat" where
  "manager_left Await_Verdict = 2 ^ 64 + 2"
| "manager_left (Streaming remaining) = unat remaining + 2"
| "manager_left Await_Answer = 1"
| "manager_left (Returned _) = 0"

fun agent_left :: "'h agent_pc \<Rightarrow> nat" where
  "agent_left Preflight = 5"
| "agent_left (Reading _ _) = 4"
| "agent_left (Draining _ _) = 3"
| "agent_left (Answering _) = 2"
| "agent_left Serving = 1"
| "agent_left (Left _) = 0"

fun agent_prog :: "'h agent_pc \<Rightarrow> unit package_prog + ((string + NodePackageResponse) \<times> 'h) package_prog" where
  "agent_prog (Reading prog _) = Inr prog"
| "agent_prog _ = Inl (Finish ())"

definition frames_left :: "stream \<Rightarrow> nat" where
  "frames_left st = length (st_up st) + length (st_down st)"

definition exchange_less :: "(('h, 'p) exchange \<times> ('h, 'p) exchange) set" where
  "exchange_less =
     inv_image (less_than <*lex*> less_than <*lex*> inv_image prog_less projr <*lex*> less_than)
       (\<lambda>s. (ending_left (st_up_end (ex_stream s)) + ending_left (st_down_end (ex_stream s))
              + manager_left (ex_manager s),
             agent_left (ex_agent s), agent_prog (ex_agent s), frames_left (ex_stream s)))"

lemma wf_exchange_less: "wf exchange_less"
  by (auto simp: exchange_less_def intro!: wf_inv_image wf_lex_prod wf_prog_less)

lemma manager_uses_up:
  assumes "wired io aio" and "manager_ready rd sz cap M pkg st"
    and "manager_move io rd sz (M, pkg, st) = (M', pkg', st')"
  shows "ending_left (st_up_end st') + ending_left (st_down_end st') + manager_left M'
       < ending_left (st_up_end st) + ending_left (st_down_end st) + manager_left M"
  using assms
proof (cases rule: manager_move_cases)
  case (verdict m d)
  moreover have "manager_left M' < 2 ^ 64 + 2"
  proof (cases M')
    case (Streaming r)
    then show ?thesis using u64_bound [of r] by simp
  qed (use assms(3) verdict(1) in \<open>auto simp: await_answer_def split: prod.splits sum.splits option.splits\<close>)
  ultimately show ?thesis by simp
next
  case (chunk remaining c)
  then show ?thesis by (cases c) simp_all
next
  case (response m d)
  then show ?thesis by (cases M') simp_all
qed (auto split: if_splits)

lemma agent_uses_up:
  assumes wired: "wired io aio" and ready: "agent_ready cap A st"
    and move: "agent_move aio H f (A, h, st) = (A', h', st')"
    and inv: "good_chunks (st_up st)" "in_step (in_size f) M A st"
  shows "agent_left A' < agent_left A
    \<or> agent_left A' = agent_left A \<and> (projr (agent_prog A'), projr (agent_prog A)) \<in> prog_less
    \<or> (\<exists>r p p'. A = Draining r p \<and> A' = Draining r p' \<and> frames_left st' < frames_left st)"
proof (cases A)
  case Preflight
  then show ?thesis
    using move by (auto simp: send_reply_def split: prod.splits sum.splits if_splits)
next
  case (Reading prog p)
  then show ?thesis
    using move by (cases prog) (auto split: prod.splits intro: prog_less.intros)
next
  case (Draining r p)
  have tr: "transferring (in_size f) M p st" using inv Draining by simp
  have rdy: "pr_failed p \<or> pr_remaining p = 0 \<or> st_up st \<noteq> [] \<or> st_up_end st \<noteq> Open"
    using ready Draining by simp
  obtain res q where q: "next_chunk aio (on_stream p st) = (res, q)"
    by (cases "next_chunk aio (on_stream p st)")
  show ?thesis
  proof (cases "\<exists>c. res = Ok (True, c)")
    case True
    then obtain c where c: "recv_raw aio (recv_half st) = (Ok c, pr_recv q)" "res = Ok (True, c)"
      using next_chunk_recv [of aio "on_stream p st"] q by auto
    have "st_up st = c # fst (pr_recv q)"
    proof (cases "st_up st")
      case Nil
      then show ?thesis
        using next_chunk_keeps(2) [OF wired inv(1) tr rdy q] rdy c True q
          wired_agent(2) [OF wired, of "st_up_end st"]
        by (auto simp: recv_half_def next_chunk_def split: if_splits)
    next
      case (Cons b bs)
      with c(1) wired_agent(1) [OF wired] show ?thesis
        by (cases "pr_recv q") (simp add: recv_half_def)
    qed
    with c q move Draining show ?thesis
      by (auto simp: drain_step_def frames_left_def)
  next
    case False
    with q move Draining show ?thesis
      by (auto simp: drain_step_def split: sum.splits prod.splits bool.splits)
  qed
next
  case (Answering r)
  then show ?thesis
    using move by (auto simp: send_reply_def split: prod.splits sum.splits)
next
  case Serving
  then have "st_up st = []" "st_up_end st \<noteq> Open" using ready by simp_all
  then show ?thesis
    using Serving move wired_agent(3) [OF wired, of "st_up_end st"] by (auto simp: recv_half_def)
qed (use ready in simp)

lemma exchange_step_uses_up:
  assumes "exchange_step io aio rd H f cap lossy s t" and wired: "wired io aio"
    and inv: "exchange_inv f cap s"
  shows "(t, s) \<in> exchange_less"
  using assms(1)
proof cases
  case (manager pc pkg st)
  then show ?thesis
    using manager_uses_up [OF wired manager(2,3)] by (simp add: exchange_less_def)
next
  case (agent pc h st)
  have good: "good_chunks (st_up (ex_stream s))"
      "in_step (in_size f) (ex_manager s) (ex_agent s) (ex_stream s)"
      "st_up_end (ex_stream s) = Lost \<longleftrightarrow> st_down_end (ex_stream s) = Lost"
    using inv by (simp_all add: exchange_inv_def)
  show ?thesis
    using agent_uses_up [OF wired agent(2,3) good(1,2)] agent_keeps [OF wired agent(2,3) good] agent(1)
    by (auto simp: exchange_less_def)
next
  case drop_send
  then show ?thesis by (simp add: exchange_less_def)
next
  case drop_recv
  then show ?thesis by (simp add: exchange_less_def)
next
  case discard_up
  then show ?thesis
    by (cases "st_up (ex_stream s)") (simp_all add: exchange_less_def frames_left_def)
next
  case discard_down
  then show ?thesis
    by (cases "st_down (ex_stream s)") (simp_all add: exchange_less_def frames_left_def)
next
  case lose
  then show ?thesis
    by (cases "st_up_end (ex_stream s)") (simp_all add: exchange_less_def)
qed

lemma no_endless_run:
  assumes "wired io aio" and "exchange_inv f cap (run 0)"
    and "\<And>i. exchange_step io aio rd H f cap lossy (run i) (run (Suc i))"
  shows False
proof -
  have inv: "exchange_inv f cap (run i)" for i
    by (induction i) (auto intro: assms(2) exchange_step_keeps [OF assms(3,1)])
  have "(run (Suc i), run i) \<in> exchange_less" for i
    by (rule exchange_step_uses_up [OF assms(3,1) inv])
  with wf_exchange_less show False
    unfolding wf_iff_no_infinite_down_chain by blast
qed

text \<open>
  C3. An install always comes to an end on both sides. Whatever the source and the install
  method do, however the two sides' moves and the connection's events interleave, and even if
  the connection is lost on the way: no run goes on for ever, and a run that cannot go on has
  the manager's call returned and the agent out of its dispatch loop. Room for one frame in
  each direction is enough.
\<close>

theorem install_always_ends:
  assumes "wired io aio" and "0 < cap"
  shows "(\<nexists>run. run 0 = exchange_start pkg h
            \<and> (\<forall>i. exchange_step io aio rd H f cap lossy (run i) (run (Suc i))))
    \<and> (\<forall>s. (exchange_step io aio rd H f cap lossy)\<^sup>*\<^sup>* (exchange_start pkg h) s
           \<longrightarrow> (\<exists>t. exchange_step io aio rd H f cap lossy s t) \<or> exchange_over s)"
proof (intro conjI notI allI impI)
  assume "\<exists>run. run 0 = exchange_start pkg h
      \<and> (\<forall>i. exchange_step io aio rd H f cap lossy (run i) (run (Suc i)))"
  then show False
    using no_endless_run [OF assms(1)] exchange_inv_start by metis
next
  fix s
  assume "(exchange_step io aio rd H f cap lossy)\<^sup>*\<^sup>* (exchange_start pkg h) s"
  then have "exchange_inv f cap s"
    by (rule reachable_inv [OF _ assms(1) exchange_inv_start])
  from exchange_not_stuck [OF this assms(2)]
  show "(\<exists>t. exchange_step io aio rd H f cap lossy s t) \<or> exchange_over s"
    by blast
qed

text \<open>The reader of an agent in the middle of a transfer.\<close>

fun transfer_reader :: "'h agent_pc \<Rightarrow> agent_recv PackageReader option" where
  "transfer_reader (Reading _ p) = Some p"
| "transfer_reader (Draining _ p) = Some p"
| "transfer_reader _ = None"

lemma good_chunks_bound: "good_chunks cs \<Longrightarrow> length (concat cs) \<le> length cs * 65536"
  by (induction cs) auto

text \<open>
  C8. At every moment of an install what is in flight is bounded and accounted for: at most
  \<open>cap\<close> frames of one to 65536 bytes; while the agent receives the payload, the bytes in
  flight and the bytes the manager has yet to send never exceed what the agent's reader still
  expects, which never exceeds the announced size, so no chunk can overrun; and while the
  stream is open they are equal, so no byte is ever missing.
\<close>

theorem transfer_stays_in_bounds:
  assumes "wired io aio"
    and "(exchange_step io aio rd H f cap lossy)\<^sup>*\<^sup>* (exchange_start pkg h) s"
  shows "(\<forall>c \<in> set (st_up (ex_stream s)). c \<noteq> [] \<and> length c \<le> 65536)
    \<and> length (st_up (ex_stream s)) \<le> cap
    \<and> length (concat (st_up (ex_stream s))) \<le> cap * 65536
    \<and> (case transfer_reader (ex_agent s) of
         None \<Rightarrow> True
       | Some p \<Rightarrow>
           length (concat (st_up (ex_stream s))) + promised (in_size f) (ex_manager s) \<le> unat (pr_remaining p)
           \<and> unat (pr_remaining p) \<le> unat (in_size f)
           \<and> (st_up_end (ex_stream s) = Open \<longrightarrow> \<not> pr_failed p \<and>
                length (concat (st_up (ex_stream s))) + promised (in_size f) (ex_manager s) =
                unat (pr_remaining p)))"
proof -
  have inv: "exchange_inv f cap s"
    by (rule reachable_inv [OF assms(2,1) exchange_inv_start])
  then have "length (concat (st_up (ex_stream s))) \<le> cap * 65536"
    using good_chunks_bound [of "st_up (ex_stream s)"] unfolding exchange_inv_def
    by (meson le_trans mult_le_mono1)
  moreover have "case transfer_reader (ex_agent s) of
         None \<Rightarrow> True
       | Some p \<Rightarrow>
           length (concat (st_up (ex_stream s))) + promised (in_size f) (ex_manager s) \<le> unat (pr_remaining p)
           \<and> unat (pr_remaining p) \<le> unat (in_size f)
           \<and> (st_up_end (ex_stream s) = Open \<longrightarrow> \<not> pr_failed p \<and>
                length (concat (st_up (ex_stream s))) + promised (in_size f) (ex_manager s) =
                unat (pr_remaining p))"
    using inv unfolding exchange_inv_def
    by (cases "ex_agent s") (auto simp: word_le_nat_alt simp del: length_concat split: ending.splits)
  ultimately show ?thesis
    using inv by (simp add: exchange_inv_def good_chunks_def del: length_concat)
qed

text \<open>
  C9. An aborted install is never taken for a success: once the manager has reset the stream
  its call has failed, the agent does not hold a successful result ready to send and no success
  is on its way back, whatever the install method returned.
\<close>

theorem aborted_install_never_succeeds:
  assumes "wired io aio"
    and "(exchange_step io aio rd H f cap lossy)\<^sup>*\<^sup>* (exchange_start pkg h) s"
    and "st_up_end (ex_stream s) = Aborted"
  shows "(\<exists>e. ex_manager s = Returned (Err e))
    \<and> (\<forall>r. ex_agent s \<noteq> Answering (Ok r))
    \<and> (\<forall>r. Ok (Reply_NodePackage r) \<notin> set (st_down (ex_stream s)))"
  using reachable_inv [OF assms(2,1) exchange_inv_start] assms(3) unfolding exchange_inv_def
  by (cases "ex_agent s") (auto split: if_splits)

subsection \<open>A framing layer in memory, and the properties on it\<close>

text \<open>A schedule plays one move after the other and fails when a side would wait.\<close>

datatype mover = Manager_Moves | Agent_Moves | Send_Dropped

fun exchange_play ::
  "'k wire_manager \<Rightarrow> wire_agent \<Rightarrow> ('p \<Rightarrow> nat \<Rightarrow> (IoError + bytes) \<times> 'p) \<Rightarrow> 'h NodeHandler
   \<Rightarrow> InstallFields \<Rightarrow> nat \<Rightarrow> mover list \<Rightarrow> ('h, 'p) exchange \<Rightarrow> ('h, 'p) exchange option" where
  "exchange_play io aio rd H f cap [] s = Some s"
| "exchange_play io aio rd H f cap (Manager_Moves # ms) s =
     (if manager_ready rd (in_size f) cap (ex_manager s) (ex_source s) (ex_stream s)
      then case manager_move io rd (in_size f) (ex_manager s, ex_source s, ex_stream s) of
        (pc, pkg, st) \<Rightarrow>
          exchange_play io aio rd H f cap ms (s\<lparr>ex_manager := pc, ex_source := pkg, ex_stream := st\<rparr>)
      else None)"
| "exchange_play io aio rd H f cap (Agent_Moves # ms) s =
     (if agent_ready cap (ex_agent s) (ex_stream s)
      then case agent_move aio H f (ex_agent s, ex_handler s, ex_stream s) of
        (pc, h, st) \<Rightarrow>
          exchange_play io aio rd H f cap ms (s\<lparr>ex_agent := pc, ex_handler := h, ex_stream := st\<rparr>)
      else None)"
| "exchange_play io aio rd H f cap (Send_Dropped # ms) s =
     (if returned (ex_manager s) \<and> st_up_end (ex_stream s) = Open
      then exchange_play io aio rd H f cap ms (s\<lparr>ex_stream := (ex_stream s)\<lparr>st_up_end := Finished\<rparr>\<rparr>)
      else None)"

lemma play_reaches:
  "exchange_play io aio rd H f cap ms s = Some t \<Longrightarrow> (exchange_step io aio rd H f cap lossy)\<^sup>*\<^sup>* s t"
proof (induction io aio rd H f cap ms s rule: exchange_play.induct)
  case (4 io aio rd H f cap ms s)
  then obtain res where "ex_manager s = Returned res" "st_up_end (ex_stream s) = Open"
    by (cases "ex_manager s") (auto split: if_splits)
  with 4 show ?case
    by (auto intro: converse_rtranclp_into_rtranclp exchange_step.drop_send)
qed (auto split: if_splits prod.splits
    intro: converse_rtranclp_into_rtranclp exchange_step.manager exchange_step.agent)

definition pipe_take ::
  "(agent_reply \<Rightarrow> 'a option) \<Rightarrow> stream \<Rightarrow> (IoError + (string + 'a)) \<times> stream" where
  "pipe_take cast st =
     (case st_down st of
        [] \<Rightarrow> (Err (IoError_from EK_UnexpectedEof), st)
      | m # d \<Rightarrow>
          (case m of
             Err e \<Rightarrow> Ok (Err e)
           | Ok r \<Rightarrow> (case cast r of Some a \<Rightarrow> Ok (Ok a) | None \<Rightarrow> Err (IoError_from EK_InvalidData)),
           st\<lparr>st_down := d\<rparr>))"

definition pipe_manager :: "unit wire_manager" where
  "pipe_manager = \<lparr>
     mg_open = (\<lambda>k. (Ok (ex_stream (exchange_start () ())), k)),
     mg_send_raw = (\<lambda>st b. if st_up_end st = Open then (Ok (), st\<lparr>st_up := st_up st @ [b]\<rparr>)
                     else (Err (IoError_from EK_ConnectionReset), st)),
     mg_finish = (\<lambda>st. if st_up_end st = Open then st\<lparr>st_up_end := Finished\<rparr> else st),
     mg_reset = (\<lambda>st _. if st_up_end st = Open then st\<lparr>st_up_end := Aborted\<rparr> else st),
     mg_encode_code = (\<lambda>c. [ucast c]),
     mg_encode = (\<lambda>_. Ok [0]),
     mg_recv_unit = pipe_take reply_unit, mg_recv_preflight = pipe_take reply_preflight,
     mg_recv_service = pipe_take reply_service,
     mg_recv_network_interface = pipe_take reply_network_interface,
     mg_recv_hostname = pipe_take reply_hostname, mg_recv_time_sync = pipe_take reply_time_sync,
     mg_recv_logging = pipe_take reply_logging, mg_recv_remote_access = pipe_take reply_remote_access,
     mg_recv_power = pipe_take reply_power, mg_recv_observation = pipe_take reply_observation,
     mg_recv_version = pipe_take reply_version, mg_recv_package = pipe_take reply_package,
     mg_recv_enroll = pipe_take reply_enroll\<rparr>"

definition pipe_agent :: wire_agent where
  "pipe_agent = \<lparr>
     recv_request_raw = (\<lambda>(fs, e). case fs of
        [] \<Rightarrow> (Err (at_end (e \<noteq> Finished)), fs, e) | f # fs \<Rightarrow> (Ok (0, f), fs, e)),
     recv_raw = (\<lambda>(fs, e). case fs of
        [] \<Rightarrow> (Err (at_end (e \<noteq> Finished)), fs, e) | f # fs \<Rightarrow> (Ok f, fs, e)),
     send_response = (\<lambda>(d, e) m. if e = Open then (Ok (), d @ [m], e)
                       else (Err (IoError_from EK_ConnectionReset), d, e)),
     send_err = (\<lambda>(d, e) m. if e = Open then (Ok (), d @ [Err m], e)
                   else (Err (IoError_from EK_ConnectionReset), d, e))\<rparr>"

lemma pipe_takes:
  assumes "\<And>a. cast (mk a) = Some a"
  shows "takes_reply mk (pipe_take cast)"
  unfolding takes_reply_def
proof (intro conjI allI impI)
  fix st :: stream and v d
  assume "st_down st = map_ok mk v # d"
  with assms show "pipe_take cast st = (Ok v, st\<lparr>st_down := d\<rparr>)"
    by (cases v) (simp_all add: pipe_take_def)
qed (auto simp: pipe_take_def)

lemma pipe_wired: "wired pipe_manager pipe_agent"
  using pipe_takes [of reply_preflight Reply_Preflight] pipe_takes [of reply_package Reply_NodePackage]
  by (simp add: wired_def pipe_manager_def pipe_agent_def)

lemmas pipe_simps = pipe_manager_def pipe_agent_def pipe_take_def exchange_start_def
  send_reply_def send_half_def recv_half_def with_send_def with_recv_def await_answer_def
  send_package_step_def package_round_def read_bytes_def PACKAGE_CHUNK_LEN_def

abbreviation pipe_play ::
  "mover list \<Rightarrow> bytes \<Rightarrow> (nat, bytes) exchange option" where
  "pipe_play ms pkg \<equiv> exchange_play pipe_manager pipe_agent read_bytes (installer Preflight_Proceed)
     three_byte_install 1 ms (exchange_start pkg 0)"

lemma short_source_aborts:
  "\<exists>s. pipe_play [Agent_Moves, Manager_Moves, Manager_Moves, Manager_Moves] [1, 2] = Some s
       \<and> st_up_end (ex_stream s) = Aborted \<and> st_up (ex_stream s) = [[1, 2]]
       \<and> (\<exists>p. transfer_reader (ex_agent s) = Some p)"
  by (simp add: pipe_simps installer_def three_byte_install_def)

abbreviation pipe_step :: "(nat, bytes) exchange \<Rightarrow> (nat, bytes) exchange \<Rightarrow> bool" where
  "pipe_step \<equiv> exchange_step pipe_manager pipe_agent read_bytes (installer Preflight_Proceed)
     three_byte_install 1 True"

theorem install_always_ends_witness:
  "(\<nexists>run. run 0 = exchange_start [1, 2] 0 \<and> (\<forall>i. pipe_step (run i) (run (Suc i))))
   \<and> (\<exists>t. pipe_step (exchange_start [1, 2] 0) t)"
proof -
  note ends = install_always_ends [OF pipe_wired, of 1 "[1, 2]" 0 read_bytes
      "installer Preflight_Proceed" three_byte_install True]
  have "\<not> exchange_over (exchange_start ([1, 2] :: bytes) (0 :: nat))"
    by (simp add: exchange_start_def)
  with ends show ?thesis by (meson rtranclp.rtrancl_refl zero_less_one)
qed

theorem transfer_stays_in_bounds_witness:
  "\<exists>s p. (exchange_step pipe_manager pipe_agent read_bytes (installer Preflight_Proceed)
          three_byte_install 1 True)\<^sup>*\<^sup>* (exchange_start [1, 2] 0) s
     \<and> transfer_reader (ex_agent s) = Some p \<and> length (concat (st_up (ex_stream s))) = 2
     \<and> 2 + promised 3 (ex_manager s) \<le> unat (pr_remaining p) \<and> unat (pr_remaining p) \<le> 3"
proof -
  obtain s p where s: "pipe_play [Agent_Moves, Manager_Moves, Manager_Moves, Manager_Moves] [1, 2] = Some s"
      "st_up (ex_stream s) = [[1, 2]]" "transfer_reader (ex_agent s) = Some p"
    using short_source_aborts by blast
  note reach = play_reaches [OF s(1), where lossy = True]
  have "in_size three_byte_install = 3" by (simp add: three_byte_install_def)
  with transfer_stays_in_bounds [OF pipe_wired reach] s(2,3) reach show ?thesis
    by (intro exI [of _ s] exI [of _ p]) simp
qed

theorem aborted_install_never_succeeds_witness:
  "\<exists>s e. (exchange_step pipe_manager pipe_agent read_bytes (installer Preflight_Proceed)
          three_byte_install 1 True)\<^sup>*\<^sup>* (exchange_start [1, 2] 0) s
     \<and> st_up_end (ex_stream s) = Aborted \<and> ex_manager s = Returned (Err e)"
proof -
  obtain s where s: "pipe_play [Agent_Moves, Manager_Moves, Manager_Moves, Manager_Moves] [1, 2] = Some s"
      "st_up_end (ex_stream s) = Aborted"
    using short_source_aborts by blast
  note reach = play_reaches [OF s(1), where lossy = True]
  from aborted_install_never_succeeds [OF pipe_wired reach s(2)] reach s(2) show ?thesis by blast
qed

end
