(* ===== verification/Install_Sequential.thy ===== *)
theory Install_Sequential
  imports Install_Protocol
begin

text \<open>
  The interleaved exchange of \<open>Install_Moves\<close> refines the plain sequence the other
  theories reason about: the manager sends the whole package, then the agent serves all of it.
\<close>

subsection \<open>The interleaving makes no difference\<close>

text \<open>The chunks the loop sends from a source to its end, and the source it leaves.\<close>

inductive sends_on ::
  "('p \<Rightarrow> nat \<Rightarrow> (IoError + bytes) \<times> 'p) \<Rightarrow> u64 \<Rightarrow> u64 \<Rightarrow> 'p \<Rightarrow> bytes list \<Rightarrow> 'p \<Rightarrow> bool"
  for rd sz where
  complete: "package_round rd sz remaining pkg = Inr (Ok (), pkg') \<Longrightarrow> sends_on rd sz remaining pkg [] pkg'"
| chunk: "package_round rd sz remaining pkg = Inl (remaining', pkg1, c) \<Longrightarrow>
    sends_on rd sz remaining' pkg1 cs pkg' \<Longrightarrow> sends_on rd sz remaining pkg (c # cs) pkg'"

lemma package_round_ok:
  "package_round rd sz remaining pkg = Inr (Ok (), pkg') \<longleftrightarrow> remaining = 0 \<and> pkg' = pkg"
  by (auto simp: package_round_def Let_def split: if_splits prod.splits sum.splits)

lemma sends_on_again:
  assumes "sends_on rd sz remaining pkg cs pkg'" and "package_round rd sz remaining pkg = Inl (r, pkg1, c)"
  obtains cs' where "cs = c # cs'" "sends_on rd sz r pkg1 cs' pkg'"
  using assms by cases auto

lemma sends_on_no_error:
  "sends_on rd sz remaining pkg cs pkg' \<Longrightarrow> package_round rd sz remaining pkg \<noteq> Inr (Err e, pkg1)"
  by (cases rule: sends_on.cases) auto

lemma sends_on_zero: "sends_on rd sz 0 pkg cs pkg' \<Longrightarrow> cs = [] \<and> pkg' = pkg"
  by (cases rule: sends_on.cases) (auto simp: package_round_def)

lemma send_package_sends_on:
  assumes wired: "wired io aio" and "st_up_end st = Open"
    and "send_package io rd st pkg sz = Some (Ok (), pkg', st')"
  shows "\<exists>cs. sends_on rd sz sz pkg cs pkg' \<and> st' = st\<lparr>st_up := st_up st @ cs\<rparr>"
proof -
  have "\<forall>remaining pkg st pkg' st'. s = (remaining, pkg, st) \<longrightarrow> r = (Ok (), pkg', st') \<longrightarrow>
      st_up_end st = Open \<longrightarrow>
      (\<exists>cs. sends_on rd sz remaining pkg cs pkg' \<and> st' = st\<lparr>st_up := st_up st @ cs\<rparr>)"
    if "iterate (send_package_step io rd sz) s = Some r" for s r
    using that
  proof (induction rule: iterate_induct)
    case (Again s s' r)
    show ?case
    proof (intro allI impI)
      fix remaining pkg st pkg' st'
      assume s: "s = (remaining, pkg, st)" "r = (Ok (), pkg', st')" "st_up_end st = Open"
      obtain rem1 pkg1 c where c: "package_round rd sz remaining pkg = Inl (rem1, pkg1, c)"
          "s' = (rem1, pkg1, st\<lparr>st_up := st_up st @ [c]\<rparr>)"
        using Again.hyps(1) s(1) send_package_step_round [OF wired s(3), of rd sz remaining pkg]
        by (auto split: sum.splits)
      obtain cs where "sends_on rd sz rem1 pkg1 cs pkg'" "st' = st\<lparr>st_up := (st_up st @ [c]) @ cs\<rparr>"
        using Again.IH [rule_format, OF c(2) s(2)] s(3) by auto
      with c(1) show "\<exists>cs. sends_on rd sz remaining pkg cs pkg' \<and> st' = st\<lparr>st_up := st_up st @ cs\<rparr>"
        by (intro exI [of _ "c # cs"]) (auto intro: sends_on.chunk)
    qed
  next
    case (Leave s r)
    show ?case
    proof (intro allI impI)
      fix remaining pkg st pkg' st'
      assume s: "s = (remaining, pkg, st)" "r = (Ok (), pkg', st')" "st_up_end st = Open"
      then have "package_round rd sz remaining pkg = Inr (Ok (), pkg')" "st' = st"
        using Leave send_package_step_round [OF wired s(3), of rd sz remaining pkg]
        by (auto split: sum.splits)
      then show "\<exists>cs. sends_on rd sz remaining pkg cs pkg' \<and> st' = st\<lparr>st_up := st_up st @ cs\<rparr>"
        by (intro exI [of _ "[]"]) (auto intro: sends_on.complete)
    qed
  qed
  from this [of "(sz, pkg, st)" "(Ok (), pkg', st')"] assms(2,3) show ?thesis
    by (simp add: send_package_def)
qed

text \<open>
  What is still to be sent; and, of a reader, what it would read if all of it had arrived.
\<close>

fun coming ::
  "('p \<Rightarrow> nat \<Rightarrow> (IoError + bytes) \<times> 'p) \<Rightarrow> u64 \<Rightarrow> 'p \<Rightarrow> manager_pc \<Rightarrow> 'p \<Rightarrow> bytes list \<Rightarrow> bool" where
  "coming rd sz pkg' Await_Verdict pkg cs \<longleftrightarrow> sends_on rd sz sz pkg cs pkg'"
| "coming rd sz pkg' (Streaming remaining) pkg cs \<longleftrightarrow> sends_on rd sz remaining pkg cs pkg'"
| "coming rd sz pkg' _ pkg cs \<longleftrightarrow> cs = [] \<and> pkg = pkg'"

definition all_arrived :: "agent_recv PackageReader \<Rightarrow> bytes list \<Rightarrow> agent_recv PackageReader" where
  "all_arrived p fs = p\<lparr>pr_recv := (fs, Finished)\<rparr>"

lemma next_chunk_as_arrived:
  assumes wired: "wired io aio"
    and "\<not> pr_failed p" and "pr_remaining p = 0 \<or> fs \<noteq> []"
    and nxt: "next_chunk aio (p\<lparr>pr_recv := (fs, e)\<rparr>) = (res, q)"
  shows "next_chunk aio (all_arrived p (fs @ gs)) = (res, all_arrived q (fst (pr_recv q) @ gs))"
proof (cases "pr_remaining p = 0")
  case True
  with assms(2) nxt show ?thesis by (auto simp: next_chunk_def all_arrived_def)
next
  case False
  with assms(3) obtain c cs where "fs = c # cs" by (cases fs) auto
  with False assms(2) nxt show ?thesis
    by (auto simp: next_chunk_def read_chunk_def all_arrived_def wired_agent(1) [OF wired] Let_def
        split: if_splits)
qed

fun agent_on_course ::
  "wire_agent \<Rightarrow> (string + NodePackageResponse) \<times> 'h \<Rightarrow> 'h \<Rightarrow> bytes list \<Rightarrow> bytes list \<Rightarrow> 'h agent_pc \<Rightarrow> 'h \<Rightarrow> bool" where
  "agent_on_course aio out h0 chunks fs Preflight h \<longleftrightarrow> h = h0 \<and> fs = chunks"
| "agent_on_course aio out h0 chunks fs (Reading prog p) h \<longleftrightarrow>
     fst (run_handler aio prog (all_arrived p fs)) = out"
| "agent_on_course aio out h0 chunks fs (Draining r _) h \<longleftrightarrow> (r, h) = out"
| "agent_on_course aio out h0 chunks fs (Answering r) h \<longleftrightarrow> (r, h) = out"
| "agent_on_course aio out h0 chunks fs _ h \<longleftrightarrow> h = snd out"

definition applied :: "string + NodePackageResponse \<Rightarrow> AnyError + InstallOutcome" where
  "applied r = map_ok Install_Applied (map_err Any_Msg r)"

definition on_course ::
  "wire_agent \<Rightarrow> ('p \<Rightarrow> nat \<Rightarrow> (IoError + bytes) \<times> 'p) \<Rightarrow> InstallFields \<Rightarrow> 'h \<Rightarrow> bytes list \<Rightarrow> 'p
   \<Rightarrow> (string + NodePackageResponse) \<times> 'h \<Rightarrow> ('h, 'p) exchange \<Rightarrow> bool" where
  "on_course aio rd f h0 chunks pkg' out s \<longleftrightarrow>
     st_up_end (ex_stream s) \<notin> {Aborted, Lost}
     \<and> (\<exists>cs. coming rd (in_size f) pkg' (ex_manager s) (ex_source s) cs
            \<and> agent_on_course aio out h0 chunks (st_up (ex_stream s) @ cs) (ex_agent s) (ex_handler s))
     \<and> (ex_agent s = Serving \<and> \<not> returned (ex_manager s)
          \<longrightarrow> st_down (ex_stream s) = verdict_left (ex_manager s) @ [map_ok Reply_NodePackage (fst out)])
     \<and> (\<forall>res. ex_manager s = Returned res \<longrightarrow> res = applied (fst out))"

lemma reply_inject [simp]:
  "map_ok Reply_NodePackage r = map_ok Reply_NodePackage r' \<longleftrightarrow> r = r'"
  "map_ok Reply_NodePackage r \<noteq> Ok (Reply_Preflight v)"
  by (cases r; cases r'; simp) (cases r; simp)

text \<open>Off the two broken endings, a manager that still runs has both directions open.\<close>

lemma running_open:
  assumes "exchange_inv f cap s" and "st_up_end (ex_stream s) \<notin> {Aborted, Lost}"
    and "\<not> returned (ex_manager s)"
  shows "st_up_end (ex_stream s) = Open \<and> st_down_end (ex_stream s) = Open"
  using assms by (cases "ex_agent s") (auto simp: exchange_inv_def split: ending.splits)

text \<open>What is in flight towards such a manager.\<close>

lemma running_down:
  assumes "exchange_inv f cap s" and "on_course aio rd f h0 chunks pkg' out s"
    and "\<not> returned (ex_manager s)"
  shows "st_down (ex_stream s) = verdict_left (ex_manager s) \<and> ex_agent s \<noteq> Serving
    \<or> st_down (ex_stream s) = verdict_left (ex_manager s) @ [map_ok Reply_NodePackage (fst out)]
      \<and> ex_agent s = Serving
    \<or> st_down (ex_stream s) = [] \<and> ex_agent s = Preflight"
  using assms running_open [OF assms(1) _ assms(3)]
  by (cases "ex_agent s") (auto simp: exchange_inv_def on_course_def verdict_left_def split: if_splits)

lemma manager_on_course:
  assumes wired: "wired io aio" and inv: "exchange_inv f cap s"
    and course: "on_course aio rd f h0 chunks pkg' out s"
    and ready: "manager_ready rd (in_size f) cap (ex_manager s) (ex_source s) (ex_stream s)"
    and move: "manager_move io rd (in_size f) (ex_manager s, ex_source s, ex_stream s) = (M, pkg, st)"
  shows "on_course aio rd f h0 chunks pkg' out (s\<lparr>ex_manager := M, ex_source := pkg, ex_stream := st\<rparr>)"
proof -
  let ?M = "ex_manager s" and ?st = "ex_stream s"
  have run: "\<not> returned ?M" using ready by (cases ?M) simp_all
  obtain cs where cs: "coming rd (in_size f) pkg' ?M (ex_source s) cs"
      "agent_on_course aio out h0 chunks (st_up ?st @ cs) (ex_agent s) (ex_handler s)"
    using course by (auto simp: on_course_def)
  have opn: "st_up_end ?st = Open" "st_down_end ?st = Open"
    using running_open [OF inv _ run] course by (auto simp: on_course_def)
  note down = running_down [OF inv course run]
  note round = send_package_step_round [OF wired opn(1)]
  from wired ready move show ?thesis
  proof (cases rule: manager_move_cases)
    case (verdict m d)
    then have "m = Ok (Reply_Preflight Preflight_Proceed)" using down by (auto simp: verdict_left_def)
    with verdict cs opn down show ?thesis by (auto simp: on_course_def verdict_left_def)
  next
    case (chunk remaining c)
    have "package_round rd (in_size f) remaining (ex_source s) =
        Inl (remaining - of_nat (length c), pkg, c)"
      using chunk(9) round [of rd "in_size f" remaining "ex_source s"] chunk(8)
      by (auto split: sum.splits dest: arg_cong [where f = st_up])
    with cs(1) chunk(1) obtain cs' where cs': "cs = c # cs'"
        "sends_on rd (in_size f) (remaining - of_nat (length c)) pkg cs' pkg'"
      by (auto elim: sends_on_again)
    with chunk(1,7,8) cs(2) opn course show ?thesis
      by (auto simp: on_course_def verdict_left_def intro!: exI [of _ cs'])
  next
    case sent
    with cs have "cs = [] \<and> pkg' = ex_source s" by (auto dest: sends_on_zero)
    with sent cs opn course show ?thesis by (auto simp: on_course_def verdict_left_def)
  next
    case (broken remaining e)
    then have "package_round rd (in_size f) remaining (ex_source s) = Inr (Err e, pkg)"
      using round [of rd "in_size f" remaining "ex_source s"] by (auto split: sum.splits)
    with cs(1) broken(1) show ?thesis using sends_on_no_error by fastforce
  next
    case (response m d)
    then have "m = map_ok Reply_NodePackage (fst out)" "ex_agent s = Serving"
      using down by (auto simp: verdict_left_def)
    with response cs opn show ?thesis by (auto simp: on_course_def applied_def)
  next
    case (ended e)
    with opn show ?thesis by simp
  qed
qed

lemma reading_on_course:
  assumes wired: "wired io aio" and opn: "st_up_end st = Open" "\<not> pr_failed p"
    and ready: "agent_ready cap (Reading prog p) st"
    and course: "fst (run_handler aio prog (all_arrived p (st_up st @ cs))) = out"
    and move: "agent_move aio H f (Reading prog p, h, st) = (A, h', st')"
  shows "agent_on_course aio out h0 chunks (st_up st' @ cs) A h' \<and> A \<noteq> Serving"
proof (cases prog)
  case (NextChunk k)
  obtain res q where q: "next_chunk aio (on_stream p st) = (res, q)"
    by (cases "next_chunk aio (on_stream p st)")
  have "pr_remaining p = 0 \<or> st_up st \<noteq> []"
    using ready NextChunk opn by simp
  from next_chunk_as_arrived [OF wired opn(2) this, of "st_up_end st" res q cs]
  have "next_chunk aio (all_arrived p (st_up st @ cs)) = (res, all_arrived q (fst (pr_recv q) @ cs))"
    using q by (simp add: on_stream_def recv_half_def)
  with course NextChunk move q show ?thesis by auto
next
  case (Finish a)
  then show ?thesis using course move by (cases a) auto
qed (use course move in \<open>auto simp: all_arrived_def PackageReader_size_def PackageReader_remaining_def\<close>)

lemma draining_on_course:
  assumes wired: "wired io aio" and good: "good_chunks (st_up st)" and tr: "transferring sz M p st"
    and live: "st_up_end st \<notin> {Aborted, Lost}"
    and ready: "agent_ready cap (Draining r p) st"
    and move: "agent_move aio H f (Draining r p, h, st) = (A, h', st')"
  shows "agent_on_course aio (r, h) h0 chunks fs A h' \<and> A \<noteq> Serving"
proof -
  obtain res q where q: "next_chunk aio (on_stream p st) = (res, q)"
    by (cases "next_chunk aio (on_stream p st)")
  have rdy: "pr_failed p \<or> pr_remaining p = 0 \<or> st_up st \<noteq> [] \<or> st_up_end st \<noteq> Open"
    using ready by simp
  note kept = next_chunk_keeps [OF wired good tr rdy q]
  have "\<nexists>e. res = Err e"
    using kept(1,3,5) live by (auto split: ending.splits)
  with q move show ?thesis
    by (auto simp: drain_step_def split: sum.splits prod.splits bool.splits)
qed

lemma agent_reaches:
  assumes wired: "wired io aio" and good: "good_chunks (st_up st)" "in_step (in_size f) M A st"
    and live: "st_up_end st \<notin> {Aborted, Lost}" and ready: "agent_ready cap A st"
    and verdict: "nh_package_install_preflight H (Package_Install f) h0 = (Ok Preflight_Proceed, h1)"
    and out: "fst (run_handler aio (nh_package_install H (Package_Install f) h1)
                (PackageReader_new (chunks, Finished) (in_size f))) = out"
    and course: "agent_on_course aio out h0 chunks (st_up st @ cs) A h"
    and move: "agent_move aio H f (A, h, st) = (A', h', st')"
  shows "agent_on_course aio out h0 chunks (st_up st' @ cs) A' h'
    \<and> (A' = Serving \<longrightarrow> st_down st' = verdict_left M @ [map_ok Reply_NodePackage (fst out)])"
proof (cases A)
  case Preflight
  then have "st_up st = []" "st_down_end st = Open" "cs = chunks" "h = h0"
    using good(2) live course by auto
  with Preflight move verdict wired_agent(4) [OF wired, of "st_down st"] out show ?thesis
    by (auto simp: send_reply_def send_half_def with_send_def all_arrived_def PackageReader_new_def)
next
  case (Reading prog p)
  then have "transferring (in_size f) M p st" using good(2) by simp
  then have "st_up_end st = Open" "\<not> pr_failed p"
    using live by (auto split: ending.splits)
  then show ?thesis
    using reading_on_course [OF wired] ready course move Reading by (metis agent_on_course.simps(2))
next
  case (Draining r p)
  then have "transferring (in_size f) M p st" using good(2) by simp
  with Draining show ?thesis
    using draining_on_course [OF wired good(1) _ live] ready move course by (metis agent_on_course.simps(3))
next
  case (Answering r)
  then have "st_down_end st = Open" "st_down st = verdict_left M"
    using good(2) live by auto
  with Answering move wired_agent(4) [OF wired, of "st_down st"] course show ?thesis
    by (auto simp: send_reply_def send_half_def with_send_def)
next
  case Serving
  then have "st_up st = []" "st_up_end st \<noteq> Open" using ready by simp_all
  then show ?thesis
    using Serving move wired_agent(3) [OF wired, of "st_up_end st"] course by (auto simp: recv_half_def)
qed (use ready in simp)

lemma exchange_stays_on_course:
  assumes step: "exchange_step io aio rd H f cap False s t" and wired: "wired io aio"
    and inv: "exchange_inv f cap s" and course: "on_course aio rd f h0 chunks pkg' out s"
    and verdict: "nh_package_install_preflight H (Package_Install f) h0 = (Ok Preflight_Proceed, h1)"
    and out: "fst (run_handler aio (nh_package_install H (Package_Install f) h1)
                (PackageReader_new (chunks, Finished) (in_size f))) = out"
  shows "on_course aio rd f h0 chunks pkg' out t"
  using step
proof cases
  case (manager pc pkg st)
  with manager_on_course [OF wired inv course manager(2,3)] show ?thesis by simp
next
  case (agent A h st)
  obtain cs where cs: "coming rd (in_size f) pkg' (ex_manager s) (ex_source s) cs"
      "agent_on_course aio out h0 chunks (st_up (ex_stream s) @ cs) (ex_agent s) (ex_handler s)"
    using course by (auto simp: on_course_def)
  have live: "st_up_end (ex_stream s) \<notin> {Aborted, Lost}"
    using course by (simp add: on_course_def)
  have good: "good_chunks (st_up (ex_stream s))"
      "in_step (in_size f) (ex_manager s) (ex_agent s) (ex_stream s)"
      "st_up_end (ex_stream s) = Lost \<longleftrightarrow> st_down_end (ex_stream s) = Lost"
    using inv by (simp_all add: exchange_inv_def)
  show ?thesis
    using agent_reaches [OF wired good(1,2) live agent(2) verdict out cs(2) agent(3)]
      agent_keeps [OF wired agent(2,3) good] cs(1) live course agent(1)
    by (auto simp: on_course_def)
next
  case discard_up
  with course show ?thesis by (simp add: on_course_def)
next
  case discard_down
  with course inv show ?thesis by (simp add: on_course_def exchange_inv_def)
qed (use course in \<open>auto simp: on_course_def\<close>)

lemma run_on_course:
  assumes "(exchange_step io aio rd H f cap False)\<^sup>*\<^sup>* s t" and "wired io aio" and "exchange_inv f cap s"
    and "on_course aio rd f h0 chunks pkg' out s"
    and "nh_package_install_preflight H (Package_Install f) h0 = (Ok Preflight_Proceed, h1)"
    and "fst (run_handler aio (nh_package_install H (Package_Install f) h1)
           (PackageReader_new (chunks, Finished) (in_size f))) = out"
  shows "on_course aio rd f h0 chunks pkg' out t"
  using assms(1)
proof induction
  case (step t u)
  from reachable_inv [OF step.hyps(1) assms(2,3)] show ?case
    by (rule exchange_stays_on_course [OF step.hyps(2) assms(2) _ step.IH assms(5,6)])
qed (rule assms(4))

lemma sends_on_chunks:
  "sends_on rd sz remaining pkg cs pkg' \<Longrightarrow> good_chunks cs \<and> length (concat cs) = unat remaining"
proof (induction rule: sends_on.induct)
  case (complete remaining pkg pkg')
  then show ?case by (simp add: package_round_ok)
next
  case (chunk remaining pkg remaining' pkg1 c cs pkg')
  obtain bs where c: "c = take (unat (min remaining PACKAGE_CHUNK_LEN)) bs" "c \<noteq> []"
      "remaining' = remaining - of_nat (length c)"
    using chunk.hyps(1)
    by (auto simp: package_round_def Let_def split: if_splits prod.splits sum.splits)
  with chunk.IH chunk_word [OF c(1)] show ?case by (simp del: length_concat)
qed

lemma wired_delivers: "wired io aio \<Longrightarrow> delivers (recv_raw aio) (cs, e) cs ([], e)"
  by (induction cs) (simp_all add: delivers_Cons wired_agent(1))

text \<open>The agent on a stream that already holds the whole payload.\<close>

lemma dispatched_at_once:
  assumes wired: "wired io aio"
    and verdict: "nh_package_install_preflight H (Package_Install f) h = (Ok Preflight_Proceed, h1)"
    and out: "fst (run_handler aio (nh_package_install H (Package_Install f) h1)
                (PackageReader_new (cs, Finished) (in_size f))) = (result, h2)"
    and cs: "good_chunks cs \<and> length (concat cs) = unat (in_size f)"
  shows "\<exists>s. dispatch_node_package aio H (Package_Install f)
        \<lparr>se_handler = h, se_send = ([], Open), se_recv = (cs, Finished)\<rparr> = Some (Ok (), s)
    \<and> se_send s = ([Ok (Reply_Preflight Preflight_Proceed), map_ok Reply_NodePackage result], Open)
    \<and> se_handler s = h2"
proof -
  let ?prog = "nh_package_install H (Package_Install f) h1"
  let ?p = "PackageReader_new (cs, Finished) (in_size f)"
  have "payload_ahead aio ?p cs ([], Finished)"
    using cs wired_delivers [OF wired] by (auto simp: payload_ahead_def good_chunks_def)
  from run_handler_ahead [OF this, of ?prog] obtain rest where
    "payload_ahead aio (snd (run_handler aio ?prog ?p)) rest ([], Finished)"
    by blast
  from drain_ahead [OF this] obtain p' where
    drained: "drain aio (snd (run_handler aio ?prog ?p)) = Some (Ok (), p')"
    by blast
  show ?thesis
    using verdict drained wired_agent(4) [OF wired]
    by (simp add: call_handler_def answer_def Let_def receive_package_def case_prod_unfold out)
qed

text \<open>
  C4. The order in which the two sides move makes no difference. On a connection that is not
  lost, when the agent lets an install proceed and the source holds the package, every run that
  is over has the outcome of the plain sequence \<open>send_package\<close>, then
  \<open>dispatch_node_package\<close> on all that was sent: the same source left over, the same handler
  state, and the manager returns the answer the agent sends there.
\<close>

theorem interleaving_is_sequential:
  assumes wired: "wired io aio"
    and verdict: "nh_package_install_preflight H (Package_Install f) h = (Ok Preflight_Proceed, h1)"
    and source: "send_package io rd (ex_stream (exchange_start pkg h)) pkg (in_size f) = Some (Ok (), pkg', st)"
    and run: "(exchange_step io aio rd H f cap False)\<^sup>*\<^sup>* (exchange_start pkg h) t"
    and over: "exchange_over t"
  shows "\<exists>result s. dispatch_node_package aio H (Package_Install f)
        (session_of h (st\<lparr>st_up_end := Finished\<rparr>)) = Some (Ok (), s)
    \<and> se_send s = ([Ok (Reply_Preflight Preflight_Proceed), map_ok Reply_NodePackage result], Open)
    \<and> ex_manager t = Returned (applied result) \<and> ex_handler t = se_handler s \<and> ex_source t = pkg'"
proof -
  let ?st0 = "ex_stream (exchange_start pkg h)"
  let ?run = "run_handler aio (nh_package_install H (Package_Install f) h1)"
  have "st_up_end ?st0 = Open" by (simp add: exchange_start_def)
  from send_package_sends_on [OF wired this source] obtain cs where
    cs: "sends_on rd (in_size f) (in_size f) pkg cs pkg'" and st: "st = ?st0\<lparr>st_up := st_up ?st0 @ cs\<rparr>"
    by blast
  obtain result h2 where out: "fst (?run (PackageReader_new (cs, Finished) (in_size f))) = (result, h2)"
    by (metis surj_pair)
  have "on_course aio rd f h cs pkg' (result, h2) (exchange_start pkg h)"
    using cs by (simp add: on_course_def exchange_start_def)
  from run_on_course [OF run wired exchange_inv_start this verdict out]
  have "on_course aio rd f h cs pkg' (result, h2) t" .
  with over have "ex_manager t = Returned (applied result)" "ex_handler t = h2" "ex_source t = pkg'"
    by (auto simp: on_course_def split: manager_pc.splits agent_pc.splits)
  moreover have "session_of h (st\<lparr>st_up_end := Finished\<rparr>) =
      \<lparr>se_handler = h, se_send = ([], Open), se_recv = (cs, Finished)\<rparr>"
    by (simp add: st session_of_def send_half_def recv_half_def exchange_start_def)
  ultimately show ?thesis
    using dispatched_at_once [OF wired verdict out sends_on_chunks [OF cs]] by auto
qed

subsection \<open>An instance\<close>

lemma whole_source_installs:
  "\<exists>s. pipe_play [Agent_Moves, Manager_Moves, Manager_Moves, Agent_Moves, Manager_Moves, Agent_Moves,
         Agent_Moves, Agent_Moves, Manager_Moves, Send_Dropped, Agent_Moves] [1, 2, 3, 4] = Some s
       \<and> exchange_over s"
  by (simp add: pipe_simps installer_def three_byte_install_def on_stream_def next_chunk_def
      read_chunk_def drain_step_def PackageReader_new_def at_end_def)

lemma pipe_source:
  "\<exists>st. send_package pipe_manager read_bytes (ex_stream (exchange_start ([1, 2, 3, 4] :: bytes) (0 :: nat)))
     [1, 2, 3, 4] (in_size three_byte_install) = Some (Ok (), [4], st)"
proof -
  let ?step = "send_package_step pipe_manager read_bytes 3"
  let ?st = "ex_stream (exchange_start ([1, 2, 3, 4] :: bytes) (0 :: nat))"
  have "?step (3, [1, 2, 3, 4], ?st) = Some (Again (0, [4], ?st\<lparr>st_up := [[1, 2, 3]]\<rparr>))"
    "?step (0, [4], ?st\<lparr>st_up := [[1, 2, 3]]\<rparr>) = Some (Leave (Ok (), [4], ?st\<lparr>st_up := [[1, 2, 3]]\<rparr>))"
    by (simp_all add: pipe_simps)
  then show ?thesis
    by (simp add: send_package_def three_byte_install_def iterate_Again [of ?step] iterate_Leave [of ?step])
qed

theorem interleaving_is_sequential_witness:
  "\<exists>t result. (exchange_step pipe_manager pipe_agent read_bytes (installer Preflight_Proceed)
          three_byte_install 1 False)\<^sup>*\<^sup>* (exchange_start [1, 2, 3, 4] 0) t
     \<and> ex_manager t = Returned (applied result) \<and> ex_source t = [4]"
proof -
  obtain t where t: "pipe_play [Agent_Moves, Manager_Moves, Manager_Moves, Agent_Moves, Manager_Moves,
        Agent_Moves, Agent_Moves, Agent_Moves, Manager_Moves, Send_Dropped, Agent_Moves] [1, 2, 3, 4] = Some t"
      "exchange_over t"
    using whole_source_installs by blast
  note reach = play_reaches [OF t(1), where lossy = False]
  obtain st where source: "send_package pipe_manager read_bytes
      (ex_stream (exchange_start ([1, 2, 3, 4] :: bytes) (0 :: nat))) [1, 2, 3, 4] (in_size three_byte_install) =
      Some (Ok (), [4], st)"
    using pipe_source by blast
  have "nh_package_install_preflight (installer Preflight_Proceed) (Package_Install three_byte_install) 0 =
      (Ok Preflight_Proceed, 0)"
    by (simp add: installer_def)
  from interleaving_is_sequential [OF pipe_wired this source reach t(2)] reach show ?thesis by blast
qed

end
