(* ===== verification/Install_Session.thy ===== *)
theory Install_Session
  imports Install_Protocol
begin

text \<open>
  The session type of the install exchange (\<open>install_exchange\<close> of
  \<open>src/src/server/api.rs\<close> against \<open>dispatch_node_package\<close> of
  \<open>src/src/request.rs\<close>). The wire carries no tags: a frame is decoded at the type its
  reader expects, so the two sides must agree, move by move, on which type comes next, even
  after the connection is lost with frames in flight.
\<close>

subsection \<open>What may be on its way to the manager\<close>

definition answers_due :: "(string + agent_reply) list \<Rightarrow> bool" where
  "answers_due d \<longleftrightarrow> d = [] \<or> (\<exists>r. d = [map_ok Reply_NodePackage r])"

fun well_typed :: "manager_pc \<Rightarrow> (string + agent_reply) list \<Rightarrow> bool" where
  "well_typed Await_Verdict [] \<longleftrightarrow> True"
| "well_typed Await_Verdict (m # d) \<longleftrightarrow>
     (if m = Ok (Reply_Preflight Preflight_Proceed) then answers_due d
      else (\<exists>v. m = map_ok Reply_Preflight v) \<and> d = [])"
| "well_typed _ d \<longleftrightarrow> answers_due d"

text \<open>
  How the agent's place bounds what it has sent: nothing before the verdict; during the
  transfer at most the verdict, which an open direction still holds unless the manager read it.
\<close>

fun sent_so_far :: "manager_pc \<Rightarrow> 'h agent_pc \<Rightarrow> stream \<Rightarrow> bool" where
  "sent_so_far M Preflight st \<longleftrightarrow> st_down st = [] \<and> (st_down_end st = Open \<longrightarrow> M = Await_Verdict)"
| "sent_so_far M Serving st \<longleftrightarrow> True"
| "sent_so_far M (Left _) st \<longleftrightarrow> True"
| "sent_so_far M _ st \<longleftrightarrow>
     (if st_down_end st = Open then st_down st = verdict_left M
      else st_down st = [] \<or> st_down st = verdict_left M)"

definition session :: "('h, 'p) exchange \<Rightarrow> bool" where
  "session s \<longleftrightarrow> well_typed (ex_manager s) (st_down (ex_stream s))
     \<and> sent_so_far (ex_manager s) (ex_agent s) (ex_stream s)"

lemma session_start: "session (exchange_start pkg h)"
  by (simp add: session_def exchange_start_def)

lemma answers_due_simps [simp]:
  "answers_due []" "answers_due [map_ok Reply_NodePackage r]"
  "answers_due (m # d) \<longleftrightarrow> (\<exists>r. m = map_ok Reply_NodePackage r) \<and> d = []"
  by (auto simp: answers_due_def)

lemma returned_well_typed [simp]: "returned M \<Longrightarrow> well_typed M d = answers_due d"
  by (cases M) simp_all

lemma verdict_left_simps [simp]:
  "verdict_left Await_Verdict = [Ok (Reply_Preflight Preflight_Proceed)]"
  "M \<noteq> Await_Verdict \<Longrightarrow> verdict_left M = []" "returned M \<Longrightarrow> verdict_left M = []"
  by (auto simp: verdict_left_def)

lemma well_typed_butlast: "well_typed M d \<Longrightarrow> well_typed M (butlast d)"
  by (cases "(M, d)" rule: well_typed.cases) (auto simp: answers_due_def split: if_splits)

text \<open>Ending a direction, and losing the frames at its end, change nothing the place promises.\<close>

lemma session_closed:
  assumes "session s" and "st_down st = st_down (ex_stream s)"
    and "st_down_end st = Open \<Longrightarrow> st_down_end (ex_stream s) = Open"
  shows "session (s\<lparr>ex_stream := st\<rparr>)"
  using assms by (cases "ex_agent s") (auto simp: session_def split: if_splits)

lemma sent_butlast:
  assumes "sent_so_far M A st" and "st_down_end st = Lost"
  shows "sent_so_far M A (st\<lparr>st_down := butlast (st_down st)\<rparr>)"
  using assms by (cases A) (auto simp: verdict_left_def split: if_splits)

lemma map_ok_Proceed:
  "Ok (Reply_Preflight Preflight_Proceed) = map_ok Reply_Preflight v \<longleftrightarrow> v = Ok Preflight_Proceed"
  by (cases v) auto

subsection \<open>Every move keeps to it\<close>

lemma manager_keeps_session:
  assumes wired: "wired io aio" and ready: "manager_ready rd sz cap M pkg st"
    and move: "manager_move io rd sz (M, pkg, st) = (M', pkg', st')"
    and inv: "well_typed M (st_down st)" "sent_so_far M A st"
  shows "well_typed M' (st_down st') \<and> sent_so_far M' A st'"
  using wired ready move
proof (cases rule: manager_move_cases)
  case (verdict m d)
  show ?thesis
  proof (cases "m = Ok (Reply_Preflight Preflight_Proceed)")
    case True
    with verdict inv show ?thesis by (cases A) (auto split: if_splits)
  next
    case False
    with verdict inv obtain v where v: "m = map_ok Reply_Preflight v" "d = []" by auto
    with False verdict(7) have "returned M'" by auto
    with v False verdict(1-5) inv show ?thesis by (cases A) (auto split: if_splits)
  qed
next
  case (broken remaining e)
  with inv show ?thesis by (cases A) (auto split: if_splits)
next
  case (response m d)
  with inv show ?thesis by (cases A) (auto split: if_splits)
next
  case (ended e)
  with inv show ?thesis by (cases A) auto
qed (use inv in \<open>cases A; auto split: if_splits\<close>)+

lemma agent_keeps_session:
  assumes wired: "wired io aio" and ready: "agent_ready cap A st"
    and move: "agent_move aio H f (A, h, st) = (A', h', st')"
    and inv: "well_typed M (st_down st)" "sent_so_far M A st"
  shows "well_typed M (st_down st') \<and> sent_so_far M A' st'"
proof (cases A)
  case Preflight
  obtain verdict h1 where pre: "nh_package_install_preflight H (Package_Install f) h = (verdict, h1)"
    by (cases "nh_package_install_preflight H (Package_Install f) h")
  have "send_reply aio (map_ok Reply_Preflight verdict)
      (if verdict = Ok Preflight_Proceed
       then Reading (nh_package_install H (Package_Install f) h1) (PackageReader_new (recv_half st) (in_size f))
       else Serving) st = (A', st')"
    using move pre Preflight by (auto split: prod.splits)
  with wired show ?thesis
    by (cases rule: send_reply_cases) (use inv Preflight in \<open>auto simp: map_ok_Proceed\<close>)
next
  case (Reading prog p)
  then show ?thesis
    using move inv by (cases prog) (auto simp: with_recv_def split: prod.splits)
next
  case (Draining result p)
  then show ?thesis
    using move inv by (auto simp: with_recv_def split: prod.splits flow.splits)
next
  case (Answering r)
  have "send_reply aio (map_ok Reply_NodePackage r) Serving st = (A', st')"
    using move Answering by (auto split: prod.splits)
  with wired show ?thesis
    by (cases rule: send_reply_cases) (use inv Answering in \<open>cases M; auto\<close>)+
next
  case Serving
  then show ?thesis
    using move inv ready by (auto simp: with_recv_def split: prod.splits sum.splits)
qed (use ready in simp)

lemma exchange_step_session:
  assumes "exchange_step io aio rd H f cap lossy s s'" and wired: "wired io aio" and inv: "session s"
  shows "session s'"
  using assms(1)
proof cases
  case (manager pc pkg st)
  then show ?thesis
    using manager_keeps_session [OF wired manager(2,3), of "ex_agent s"] inv by (simp add: session_def)
next
  case (agent pc h st)
  then show ?thesis
    using agent_keeps_session [OF wired agent(2,3), of "ex_manager s"] inv by (simp add: session_def)
next
  case discard_down
  with inv show ?thesis by (simp add: session_def well_typed_butlast sent_butlast)
qed (use inv in \<open>auto intro!: session_closed\<close>)

lemma reachable_session:
  assumes "(exchange_step io aio rd H f cap lossy)\<^sup>*\<^sup>* s t" and "wired io aio" and "session s"
  shows "session t"
  using assms(1,3) by induction (auto intro: exchange_step_session [OF _ assms(2)])

lemma serving_read_payload:
  assumes "exchange_inv f cap s" and "ex_agent s = Serving \<or> (\<exists>res. ex_agent s = Left res)"
  shows "st_up (ex_stream s) = []"
  using assms by (auto simp: exchange_inv_def)

text \<open>
  C7. Neither side ever reads a frame at a type it was not sent at. In every reachable state,
  a lost connection included, the frames on their way to the manager are the ones its place in
  the exchange expects, so a verdict or an answer that arrives always decodes; and an agent that
  is back in its dispatch loop has no package byte left in front of it to take for a request.
\<close>

theorem install_frames_well_typed:
  assumes "wired io aio"
    and "(exchange_step io aio rd H f cap lossy)\<^sup>*\<^sup>* (exchange_start pkg h) s"
  shows "well_typed (ex_manager s) (st_down (ex_stream s))
    \<and> (ex_manager s = Await_Verdict \<and> st_down (ex_stream s) \<noteq> [] \<longrightarrow>
         (\<exists>v. fst (mg_recv_preflight io (ex_stream s)) = Ok v))
    \<and> (ex_manager s = Await_Answer \<and> st_down (ex_stream s) \<noteq> [] \<longrightarrow>
         (\<exists>r. fst (mg_recv_package io (ex_stream s)) = Ok r))
    \<and> (ex_agent s = Serving \<or> (\<exists>res. ex_agent s = Left res) \<longrightarrow> st_up (ex_stream s) = [])"
proof -
  have ty: "well_typed (ex_manager s) (st_down (ex_stream s))"
    using reachable_session [OF assms(2,1) session_start] by (simp add: session_def)
  have "\<exists>v. fst (mg_recv_preflight io (ex_stream s)) = Ok v"
    if M: "ex_manager s = Await_Verdict" and ne: "st_down (ex_stream s) \<noteq> []"
  proof -
    obtain m d where md: "st_down (ex_stream s) = m # d" using ne by (meson neq_Nil_conv)
    then obtain v where "m = map_ok Reply_Preflight v"
      using ty M map_ok_Proceed by (auto split: if_splits)
    with md wired_takes(1) [OF assms(1)] show ?thesis by (auto simp: takes_reply_def)
  qed
  moreover have "\<exists>r. fst (mg_recv_package io (ex_stream s)) = Ok r"
    if "ex_manager s = Await_Answer" and "st_down (ex_stream s) \<noteq> []"
    using ty that wired_takes(2) [OF assms(1)] by (auto simp: answers_due_def takes_reply_def)
  ultimately show ?thesis
    using ty serving_read_payload [OF reachable_inv [OF assms(2,1) exchange_inv_start]] by blast
qed

text \<open>The verdict of a package that may proceed, on its way to the manager.\<close>

theorem install_frames_well_typed_witness:
  "\<exists>s v. (exchange_step pipe_manager pipe_agent read_bytes (installer Preflight_Proceed)
          three_byte_install 1 True)\<^sup>*\<^sup>* (exchange_start [1, 2, 3] 0) s
     \<and> ex_manager s = Await_Verdict \<and> st_down (ex_stream s) = [Ok (Reply_Preflight Preflight_Proceed)]
     \<and> fst (mg_recv_preflight pipe_manager (ex_stream s)) = Ok v"
proof -
  obtain s where s: "pipe_play [Agent_Moves] [1, 2, 3] = Some s" "ex_manager s = Await_Verdict"
      "st_down (ex_stream s) = [Ok (Reply_Preflight Preflight_Proceed)]"
    by (simp add: pipe_simps installer_def three_byte_install_def)
  note reach = play_reaches [OF s(1), where lossy = True]
  from install_frames_well_typed [OF pipe_wired reach] s reach show ?thesis by auto
qed

end
