(* ===== verification/Endpoint.thy ===== *)
theory Endpoint
  imports Handshake Manager_Api
begin

text \<open>
  The edges of a connection: the endpoint a builder makes (\<open>build_endpoint\<close> of
  \<open>src/src/client.rs\<close>), the methods of the two \<open>Connection\<close> types that hand a call
  to quinn (\<open>src/src/client.rs\<close>, \<open>src/src/server.rs\<close>), the generic framing of
  \<open>src/src/frame.rs\<close>, the deprecated label-database response, and the agent's bare
  handshake, which is shown to be the exchange inside \<open>connect\<close>.
\<close>

subsection \<open>The endpoint\<close>

text \<open>
  rustls and quinn as \<open>build_endpoint\<close> uses them: \<open>'tb\<close> is a configuration builder
  with the default protocol versions, \<open>'tc\<close> a client configuration, \<open>'qc\<close> its QUIC
  form, \<open>'ep\<close> an endpoint. Errors that are wrapped are kept by their text.
\<close>

record TransportConfig =
  keep_alive_interval :: "Duration option"

record ('ct, 'ky, 'rt, 'tb, 'tc, 'qc, 'ep) endpoint_ops =
  safe_default_protocol_versions :: "string + 'tb"
  with_client_auth_cert :: "'tb \<Rightarrow> 'rt \<Rightarrow> 'ct list \<Rightarrow> 'ky \<Rightarrow> string + 'tc"
  quic_client_config :: "'tc \<Rightarrow> string + 'qc"
  transport_default :: TransportConfig
  endpoint_client :: "SocketAddr \<Rightarrow> IoError + 'ep"
  set_default_client_config :: "'ep \<Rightarrow> 'qc \<times> TransportConfig \<Rightarrow> 'ep"

definition KEEP_ALIVE_INTERVAL :: Duration where
  "KEEP_ALIVE_INTERVAL = \<lparr>secs = 5, nanos = 0\<rparr>"

fun SocketAddr_new :: "IpAddr \<Rightarrow> u16 \<Rightarrow> SocketAddr" where
  "SocketAddr_new (IpAddr_V4 ip) port = SocketAddr_V4 ip port"
| "SocketAddr_new (IpAddr_V6 ip) port = SocketAddr_V6 ip port 0 0"

definition client_config ::
  "('ct, 'ky, 'rt, 'tb, 'tc, 'qc, 'ep) endpoint_ops \<Rightarrow> ('ct, 'ky, 'rt) ConnectionBuilder
   \<Rightarrow> IoError + 'qc \<times> TransportConfig" where
  "client_config ops self = map_err (IoError_new EK_InvalidInput)
     (res_and_then (safe_default_protocol_versions ops) (\<lambda>builder.
      res_and_then (with_client_auth_cert ops builder (cb_roots self) (cb_certs self) (cb_key self))
        (\<lambda>tls_cfg. map_ok
           (\<lambda>cfg. (cfg, (transport_default ops)\<lparr>keep_alive_interval := Some KEEP_ALIVE_INTERVAL\<rparr>))
           (quic_client_config ops tls_cfg))))"

definition builder_build_endpoint ::
  "('ct, 'ky, 'rt, 'tb, 'tc, 'qc, 'ep) endpoint_ops \<Rightarrow> ('ct, 'ky, 'rt) ConnectionBuilder
   \<Rightarrow> IoError + 'ep" where
  "builder_build_endpoint ops self =
     res_and_then (client_config ops self) (\<lambda>config.
     res_and_then (endpoint_client ops (SocketAddr_new (cb_local_addr self) 0)) (\<lambda>endpoint.
       Ok (set_default_client_config ops endpoint config)))"

text \<open>
  A configuration that rustls or quinn rejects is reported before a socket is bound: the
  outcome of \<open>connect\<close> does not depend on what binding would have done.
\<close>

lemma rejected_config_before_bind:
  assumes "client_config ops self = Err e"
  shows "connect (io\<lparr>build_endpoint := builder_build_endpoint (ops\<lparr>endpoint_client := bind\<rparr>)\<rparr>) self =
    (Err e, None)" and "io_kind e = EK_InvalidInput"
proof -
  have "client_config (ops\<lparr>endpoint_client := bind\<rparr>) self = client_config ops self"
    by (simp add: client_config_def)
  with assms show "connect (io\<lparr>build_endpoint := builder_build_endpoint (ops\<lparr>endpoint_client := bind\<rparr>)\<rparr>) self =
      (Err e, None)"
    by (simp add: connect_def builder_build_endpoint_def)
  show "io_kind e = EK_InvalidInput"
    using assms by (auto simp: client_config_def)
qed

lemma res_and_then_Ok: "res_and_then r k = Ok b \<longleftrightarrow> (\<exists>a. r = Ok a \<and> k a = Ok b)"
  by (cases r) simp_all

lemma config_keeps_alive:
  "client_config ops self = Ok cfg \<Longrightarrow> keep_alive_interval (snd cfg) = Some KEEP_ALIVE_INTERVAL"
  by (auto simp: client_config_def res_and_then_Ok)

lemma endpoint_keeps_alive:
  assumes "builder_build_endpoint ops self = Ok ep"
  obtains fresh cfg where "endpoint_client ops (SocketAddr_new (cb_local_addr self) 0) = Ok fresh"
    "client_config ops self = Ok cfg" "keep_alive_interval (snd cfg) = Some KEEP_ALIVE_INTERVAL"
    "ep = set_default_client_config ops fresh cfg"
  using assms config_keeps_alive [of ops self]
  by (auto simp: builder_build_endpoint_def res_and_then_Ok)

subsection \<open>Methods that hand the call to quinn\<close>

text \<open>The futures of \<open>open_bi\<close> and the like are what quinn returns for the connection.\<close>

record ('ep, 'k, 'ob, 'ou, 'ab, 'au, 'id) quinn_ops =
  q_local_addr :: "'ep \<Rightarrow> IoError + SocketAddr"
  q_remote_address :: "'k \<Rightarrow> SocketAddr"
  q_close_reason :: "'k \<Rightarrow> ConnectionError option"
  q_error_into_io :: "ConnectionError \<Rightarrow> IoError"
  q_open_bi :: "'k \<Rightarrow> 'ob"
  q_open_uni :: "'k \<Rightarrow> 'ou"
  q_accept_bi :: "'k \<Rightarrow> 'ab"
  q_accept_uni :: "'k \<Rightarrow> 'au"
  q_peer_identity :: "'k \<Rightarrow> 'id option"
  q_close :: "'k \<Rightarrow> u64 \<Rightarrow> bytes \<Rightarrow> 'k"

definition client_local_addr ::
  "('ep, 'k, 'ob, 'ou, 'ab, 'au, 'id) quinn_ops \<Rightarrow> ('ep, 'k) Connection \<Rightarrow> IoError + SocketAddr" where
  "client_local_addr q self = q_local_addr q (conn_endpoint self)"

definition client_remote_addr ::
  "('ep, 'k, 'ob, 'ou, 'ab, 'au, 'id) quinn_ops \<Rightarrow> ('ep, 'k) Connection \<Rightarrow> SocketAddr" where
  "client_remote_addr q self = q_remote_address q (conn_connection self)"

definition client_close_reason ::
  "('ep, 'k, 'ob, 'ou, 'ab, 'au, 'id) quinn_ops \<Rightarrow> ('ep, 'k) Connection \<Rightarrow> IoError option" where
  "client_close_reason q self = map_option (q_error_into_io q) (q_close_reason q (conn_connection self))"

definition client_open_bi ::
  "('ep, 'k, 'ob, 'ou, 'ab, 'au, 'id) quinn_ops \<Rightarrow> ('ep, 'k) Connection \<Rightarrow> 'ob" where
  "client_open_bi q self = q_open_bi q (conn_connection self)"

definition client_open_uni ::
  "('ep, 'k, 'ob, 'ou, 'ab, 'au, 'id) quinn_ops \<Rightarrow> ('ep, 'k) Connection \<Rightarrow> 'ou" where
  "client_open_uni q self = q_open_uni q (conn_connection self)"

definition client_accept_bi ::
  "('ep, 'k, 'ob, 'ou, 'ab, 'au, 'id) quinn_ops \<Rightarrow> ('ep, 'k) Connection \<Rightarrow> 'ab" where
  "client_accept_bi q self = q_accept_bi q (conn_connection self)"

definition client_close ::
  "('ep, 'k, 'ob, 'ou, 'ab, 'au, 'id) quinn_ops \<Rightarrow> u64 \<Rightarrow> bytes \<Rightarrow> ('ep, 'k) Connection
   \<Rightarrow> ('ep, 'k) Connection" where
  "client_close q error_code reason self =
     self\<lparr>conn_connection := q_close q (conn_connection self) error_code reason\<rparr>"

record 'k server_Connection =
  sc_conn :: 'k

definition from_quinn :: "'k \<Rightarrow> 'k server_Connection" where
  "from_quinn conn = \<lparr>sc_conn = conn\<rparr>"

definition as_quinn :: "'k server_Connection \<Rightarrow> 'k" where
  "as_quinn self = sc_conn self"

definition server_peer_identity ::
  "('ep, 'k, 'ob, 'ou, 'ab, 'au, 'id) quinn_ops \<Rightarrow> 'k server_Connection \<Rightarrow> 'id option" where
  "server_peer_identity q self = q_peer_identity q (sc_conn self)"

definition server_open_bi ::
  "('ep, 'k, 'ob, 'ou, 'ab, 'au, 'id) quinn_ops \<Rightarrow> 'k server_Connection \<Rightarrow> 'ob" where
  "server_open_bi q self = q_open_bi q (sc_conn self)"

definition server_accept_uni ::
  "('ep, 'k, 'ob, 'ou, 'ab, 'au, 'id) quinn_ops \<Rightarrow> 'k server_Connection \<Rightarrow> 'au" where
  "server_accept_uni q self = q_accept_uni q (sc_conn self)"

definition server_close ::
  "('ep, 'k, 'ob, 'ou, 'ab, 'au, 'id) quinn_ops \<Rightarrow> 'k server_Connection \<Rightarrow> 'k server_Connection" where
  "server_close q self = self\<lparr>sc_conn := q_close q (sc_conn self) 0 []\<rparr>"

subsection \<open>Generic framing\<close>

text \<open>oinq's \<open>frame\<close> functions leave the frame in the buffer they are given.\<close>

type_synonym ('r, 'a) frame_recv = "'r \<Rightarrow> bytes \<Rightarrow> (IoError + 'a) \<times> bytes \<times> 'r"
type_synonym ('s, 'a) frame_send = "'s \<Rightarrow> bytes \<Rightarrow> 'a \<Rightarrow> (IoError + unit) \<times> bytes \<times> 's"

definition recv_msg :: "('r, 'a) frame_recv \<Rightarrow> 'r \<Rightarrow> (IoError + 'a) \<times> 'r" where
  "recv_msg frame_recv recv = (case frame_recv recv [] of (res, buf, recv) \<Rightarrow> (res, recv))"

definition send_msg :: "('s, 'a) frame_send \<Rightarrow> 's \<Rightarrow> 'a \<Rightarrow> (IoError + unit) \<times> 's" where
  "send_msg frame_send send msg = (case frame_send send [] msg of (res, buf, send) \<Rightarrow> (res, send))"

definition respond_with_labeldb_patterns ::
  "('s, string + (string \<times> LabelDb option) list) frame_send \<Rightarrow> 's
   \<Rightarrow> (string \<times> LabelDb option) list \<Rightarrow> (AnyError + unit) \<times> 's" where
  "respond_with_labeldb_patterns frame_send send patterns =
     (case frame_send send [] (Ok patterns) of (res, buf, send) \<Rightarrow>
        (map_err (\<lambda>e. Any_Context ''failed to send response'' (Any_Io e)) res, send))"

text \<open>A message sent with \<open>send_msg\<close> over a channel that keeps frames is read back.\<close>

lemma recv_msg_after_send_msg:
  assumes "\<And>s buf m. \<exists>b. fs s buf m = (Ok (), b, s @ [enc m])"
    and "\<And>m s buf. \<exists>b. fr (enc m # s) buf = (Ok m, b, s)"
  shows "send_msg fs [] m = (Ok (), [enc m]) \<and> recv_msg fr (snd (send_msg fs [] m)) = (Ok m, [])"
proof -
  obtain b where "fs [] [] m = (Ok (), b, [enc m])" using assms(1) [of "[]" "[]" m] by auto
  moreover obtain c where "fr [enc m] [] = (Ok m, c, [])" using assms(2) [of m "[]" "[]"] by auto
  ultimately show ?thesis by (simp add: send_msg_def recv_msg_def)
qed

subsection \<open>The agent's bare handshake\<close>

text \<open>
  \<open>opn\<close> is \<open>conn.open_bi()\<close> with quinn's own error; the frames are those of
  \<open>connect\<close>.
\<close>

definition agent_handshake_with ::
  "('k \<Rightarrow> ConnectionError + 's \<times> 'r) \<Rightarrow> ('b, 'ep, 'g, 'k, 's, 'r) connect_io \<Rightarrow> 'k \<Rightarrow> AgentInfo
   \<Rightarrow> (ConnectionError HandshakeError + unit) \<times> ('s \<times> 'r) option" where
  "agent_handshake_with opn io conn agent_info =
     (case opn conn of
        Err e \<Rightarrow> (Err (HE_ConnectionLost e), None)
      | Ok (send, recv) \<Rightarrow>
     (case send_agent_info io send agent_info of
        (Err e, send) \<Rightarrow> (Err (handle_handshake_send_io_error e), Some (send, recv))
      | (Ok _, send) \<Rightarrow>
     (case recv_reply io recv of
        (Ok (Ok _), recv) \<Rightarrow> (Ok (), Some (send, recv))
      | (Ok (Err e), recv) \<Rightarrow>
          (Err (HE_IncompatibleProtocol (ai_protocol_version agent_info) e), Some (send, recv))
      | (Err e, recv) \<Rightarrow> (Err (handle_handshake_recv_io_error e), Some (send, recv)))))"

definition agent_handshake ::
  "('k \<Rightarrow> ConnectionError + 's \<times> 'r) \<Rightarrow> ('b, 'ep, 'g, 'k, 's, 'r) connect_io \<Rightarrow> 'k
   \<Rightarrow> string \<Rightarrow> string \<Rightarrow> string \<Rightarrow> Status
   \<Rightarrow> (ConnectionError HandshakeError + unit) \<times> ('s \<times> 'r) option" where
  "agent_handshake opn io conn agent_name agent_version protocol_version status =
     agent_handshake_with opn io conn
       \<lparr>ai_agent_name = agent_name, ai_agent_version = agent_version,
        ai_protocol_version = protocol_version, ai_addr = placeholder_addr (remote_address io conn),
        ai_status = status, ai_capabilities = {}, ai_active_trust_epoch = None,
        ai_manifest_formats = None, ai_provisioning_fingerprint = None, ai_audit_health = None\<rparr>"

lemma handshake_with_is_exchange:
  assumes "open_bi io conn = map_err into_io (opn conn)"
  shows "snd (agent_handshake_with opn io conn info) = snd (exchange_agent_info io conn info)"
    and "fst (agent_handshake_with opn io conn info) = Ok () \<longleftrightarrow> fst (exchange_agent_info io conn info) = Ok ()"
    and "fst (agent_handshake_with opn io conn info) = Err (HE_IncompatibleProtocol v r) \<Longrightarrow>
      fst (exchange_agent_info io conn info) =
        Err (IoError_new EK_ConnectionRefused (''server requires protocol version '' @ r))"
  using assms
  by (auto simp: agent_handshake_with_def exchange_agent_info_def handle_handshake_send_io_error_def
      handle_handshake_recv_io_error_def split: sum.splits prod.splits if_splits ErrorKind.splits)

lemma fresh_builder_info:
  assumes "ConnectionBuilder_new tls rn ra agent_name agent_version protocol_version status cert key = Ok b"
  shows "agent_handshake opn io conn agent_name agent_version protocol_version status =
    agent_handshake_with opn io conn (builder_agent_info b (placeholder_addr (remote_address io conn)))"
proof -
  obtain certs k where "read_certs tls cert = Ok certs" "read_key tls key = Ok k"
    using assms by (cases "read_certs tls cert"; cases "read_key tls key")
      (auto simp: ConnectionBuilder_new_def Let_def)
  with assms show ?thesis
    by (auto simp: ConnectionBuilder_new_def Let_def agent_handshake_def builder_agent_info_def)
qed

end
