(* ===== verification/Unit_Tests.thy ===== *)
theory Unit_Tests
  imports Auth Agent_Info "HOL-Library.Sublist"
begin

text \<open>
  The unit tests of \<open>src/src/service_id.rs\<close>, \<open>src/src/auth.rs\<close>,
  \<open>src/src/protocol_error.rs\<close> and of the request codes in \<open>src/src/server.rs\<close>, as the
  assertions they make on the model. They tie the model to what the authors of the crate expect of
  the tables, the printed forms and the classification of errors. The derived equality, hashing,
  copying and debug printing that some tests exercise are the language's own and are left out,
  as is the one test whose authorizer writes to a shared variable.
\<close>

subsection \<open>Service identifiers\<close>

definition test_display_format :: bool where
  "test_display_format \<longleftrightarrow>
     ServiceId_fmt NODE_POWER_REBOOT = ''node.power.reboot''
     \<and> ServiceId_fmt NODE_OBSERVATION_PROCESS_LIST = ''node.observation.process_list''
     \<and> ServiceId_fmt COMMON_RENEW_CERTIFICATE = ''common.renew_certificate''
     \<and> ServiceId_fmt COMMON_ECHO = ''common.echo''
     \<and> ServiceId_fmt SERVER_MODEL_GET = ''server.model.get''"

definition test_display_format_family_level :: bool where
  "test_display_format_family_level \<longleftrightarrow>
     ServiceId_fmt NODE_POWER = ''node.power''
     \<and> ServiceId_fmt NODE_SERVICE = ''node.service''
     \<and> ServiceId_fmt NODE_OBSERVATION = ''node.observation''
     \<and> ServiceId_fmt NODE_PACKAGE = ''node.package''
     \<and> ServiceId_fmt NODE_ENROLL = ''node.enroll''"

definition test_node_package_display_format :: bool where
  "test_node_package_display_format \<longleftrightarrow>
     ServiceId_fmt NODE_PACKAGE_INSTALL = ''node.package.install''
     \<and> ServiceId_fmt NODE_PACKAGE_REMOVE = ''node.package.remove''
     \<and> ServiceId_fmt NODE_PACKAGE_LIST = ''node.package.list''
     \<and> ServiceId_fmt NODE_PACKAGE_STATUS = ''node.package.status''
     \<and> ServiceId_fmt NODE_PACKAGE_LIST_HOST_PORTS = ''node.package.list_host_ports''"

definition test_node_enroll_display_format :: bool where
  "test_node_enroll_display_format \<longleftrightarrow>
     ServiceId_fmt NODE_ENROLL_REGISTER = ''node.enroll.register''
     \<and> ServiceId_fmt NODE_ENROLL_DEREGISTER = ''node.enroll.deregister''"

definition test_is_family :: bool where
  "test_is_family \<longleftrightarrow>
     is_family NODE_POWER
     \<and> is_family NODE_SERVICE
     \<and> \<not> is_family NODE_POWER_REBOOT
     \<and> \<not> is_family COMMON_ECHO
     \<and> \<not> is_family SERVER_MODEL_GET"

definition test_equality_and_hash :: bool where
  "test_equality_and_hash \<longleftrightarrow>
     ServiceId_new ''node.power'' ''reboot'' = NODE_POWER_REBOOT
     \<and> ServiceId_new ''node.power'' ''reboot'' \<in> {NODE_POWER_REBOOT}"

definition test_client_from_request_code_legacy :: bool where
  "test_client_from_request_code_legacy \<longleftrightarrow>
     from_client_request_code RC_DnsStart = Some COMMON_DNS_START
     \<and> from_client_request_code RC_Reboot = Some NODE_POWER_REBOOT
     \<and> from_client_request_code RC_Shutdown = Some NODE_POWER_SHUTDOWN
     \<and> from_client_request_code RC_ResourceUsage = Some NODE_OBSERVATION_RESOURCE_USAGE
     \<and> from_client_request_code RC_ProcessList = Some NODE_OBSERVATION_PROCESS_LIST
     \<and> from_client_request_code RC_EchoRequest = Some COMMON_ECHO"

definition test_client_from_request_code_node_families :: bool where
  "test_client_from_request_code_node_families \<longleftrightarrow>
     from_client_request_code RC_NodePower = Some NODE_POWER
     \<and> is_family (the (from_client_request_code RC_NodePower))
     \<and> from_client_request_code RC_NodeService = Some NODE_SERVICE
     \<and> from_client_request_code RC_NodeNetworkInterface = Some NODE_NETWORK_INTERFACE
     \<and> from_client_request_code RC_NodeHostname = Some NODE_HOSTNAME
     \<and> from_client_request_code RC_NodeTimeSync = Some NODE_TIME_SYNC
     \<and> from_client_request_code RC_NodeLogging = Some NODE_LOGGING
     \<and> from_client_request_code RC_NodeRemoteAccess = Some NODE_REMOTE_ACCESS
     \<and> from_client_request_code RC_NodeObservation = Some NODE_OBSERVATION
     \<and> from_client_request_code RC_NodeVersion = Some NODE_VERSION
     \<and> from_client_request_code RC_NodePackage = Some NODE_PACKAGE
     \<and> from_client_request_code RC_NodeEnroll = Some NODE_ENROLL"

definition test_client_from_request_code_unknown :: bool where
  "test_client_from_request_code_unknown \<longleftrightarrow>
     from_client_request_code RC_Unknown = None"

definition test_all_known_client_request_codes_are_mapped :: bool where
  "test_all_known_client_request_codes_are_mapped \<longleftrightarrow>
     list_all (\<lambda>code. from_client_request_code code \<noteq> None)
       [
        RC_DnsStart, RC_DnsStop, RC_Reboot, RC_ReloadConfig, RC_ReloadTi, RC_ResourceUsage,
        RC_TorExitNodeList, RC_SamplingPolicyList, RC_ReloadFilterRule, RC_UpdateConfig,
        RC_DeleteCustomerData, RC_DeleteSamplingPolicy, RC_InternalNetworkList, RC_Allowlist,
        RC_Blocklist, RC_EchoRequest, RC_TrustedUserAgentList, RC_TrustedDomainList,
        RC_ProcessList, RC_SemiSupervisedModels, RC_Shutdown, RC_NodeService,
        RC_NodeNetworkInterface, RC_NodeHostname, RC_NodeTimeSync, RC_NodeLogging,
        RC_NodeRemoteAccess, RC_NodePower, RC_NodeObservation, RC_NodeVersion, RC_NodePackage,
        RC_NodeEnroll, RC_TrainModel, RC_CloneModel, RC_CancelRun, RC_RunDetectorOnce]"

definition test_all_known_server_request_codes_are_mapped :: bool where
  "test_all_known_server_request_codes_are_mapped \<longleftrightarrow>
     list_all (\<lambda>code. from_server_request_code code \<noteq> None)
       [
        SC_GetDataSource, SC_GetIndicator, SC_GetMaxEventIdNum, SC_GetModel, SC_GetModelNames,
        SC_InsertColumnStatistics, SC_InsertModel, SC_InsertTimeSeries, SC_RemoveModel,
        SC_RemoveOutliers, SC_UpdateClusters, SC_UpdateModel, SC_UpdateOutliers,
        SC_InsertEventLabels, SC_GetDataSourceList, SC_GetLabelDbPatterns, SC_InsertDataSource,
        SC_RenewCertificate, SC_GetTrustedDomainList, SC_GetOutliers, SC_GetTorExitNodeList,
        SC_GetInternalNetworkList, SC_GetAllowlist, SC_GetBlocklist, SC_GetPretrainedModel,
        SC_GetTrustedUserAgentList, SC_GetConfig, SC_UpdateHostOpenedPorts,
        SC_UpdateHostOsAgents, SC_GetSamplingPolicyList, SC_ReportCustomerDataDeletion,
        SC_UploadRunModel, SC_ReportRun, SC_ReportActiveRuns, SC_ReportDetectorStatus]"

definition test_server_from_request_code_unknown :: bool where
  "test_server_from_request_code_unknown \<longleftrightarrow>
     from_server_request_code SC_Unknown = None"

definition test_server_from_request_code_samples :: bool where
  "test_server_from_request_code_samples \<longleftrightarrow>
     from_server_request_code SC_GetDataSource = Some SERVER_DATA_SOURCE_GET
     \<and> from_server_request_code SC_InsertModel = Some SERVER_MODEL_INSERT
     \<and> from_server_request_code SC_GetConfig = Some SERVER_CONFIG_GET
     \<and> from_server_request_code SC_RenewCertificate = Some SERVER_CERTIFICATE_RENEW
     \<and> from_server_request_code SC_ReportCustomerDataDeletion = Some SERVER_CUSTOMER_DATA_DELETION_REPORT"

definition test_all_ids_are_unique :: bool where
  "test_all_ids_are_unique \<longleftrightarrow>
     length all_ids = length (remdups (map ServiceId_fmt all_ids))"

definition test_all_covers_families :: bool where
  "test_all_covers_families \<longleftrightarrow>
     all_ids \<noteq> []
     \<and> NODE_POWER \<in> set all_ids
     \<and> NODE_POWER_REBOOT \<in> set all_ids
     \<and> COMMON_RENEW_CERTIFICATE \<in> set all_ids
     \<and> NODE_OBSERVATION_PROCESS_LIST \<in> set all_ids
     \<and> SERVER_MODEL_GET \<in> set all_ids
     \<and> SERVER_DATA_SOURCE_LIST \<in> set all_ids
     \<and> SERVER_CUSTOMER_DATA_DELETION_REPORT \<in> set all_ids
     \<and> ENGINE_TRAIN_MODEL \<in> set all_ids
     \<and> SERVER_RUN_UPLOAD_MODEL \<in> set all_ids
     \<and> SERVER_DETECTOR_REPORT_STATUS \<in> set all_ids"

definition test_unsupervised_engine_request_codes_map_to_their_ids :: bool where
  "test_unsupervised_engine_request_codes_map_to_their_ids \<longleftrightarrow>
     list_all (\<lambda>(code, id). from_client_request_code code = Some id \<and> id \<in> set all_ids)
       [(RC_TrainModel, ENGINE_TRAIN_MODEL), (RC_CloneModel, ENGINE_CLONE_MODEL),
        (RC_CancelRun, ENGINE_CANCEL_RUN), (RC_RunDetectorOnce, ENGINE_RUN_DETECTOR_ONCE)]
     \<and> list_all (\<lambda>(code, id). from_server_request_code code = Some id \<and> id \<in> set all_ids)
       [(SC_UploadRunModel, SERVER_RUN_UPLOAD_MODEL), (SC_ReportRun, SERVER_RUN_REPORT),
        (SC_ReportActiveRuns, SERVER_RUN_REPORT_ACTIVE), (SC_ReportDetectorStatus, SERVER_DETECTOR_REPORT_STATUS)]
     \<and> ServiceId_fmt ENGINE_TRAIN_MODEL = ''engine.train_model''
     \<and> ServiceId_fmt ENGINE_CLONE_MODEL = ''engine.clone_model''
     \<and> ServiceId_fmt ENGINE_CANCEL_RUN = ''engine.cancel_run''
     \<and> ServiceId_fmt ENGINE_RUN_DETECTOR_ONCE = ''engine.run_detector_once''
     \<and> ServiceId_fmt SERVER_RUN_UPLOAD_MODEL = ''server.run.upload_model''
     \<and> ServiceId_fmt SERVER_RUN_REPORT = ''server.run.report''
     \<and> ServiceId_fmt SERVER_RUN_REPORT_ACTIVE = ''server.run.report_active''
     \<and> ServiceId_fmt SERVER_DETECTOR_REPORT_STATUS = ''server.detector.report_status''"

definition test_node_request_service_ids :: bool where
  "test_node_request_service_ids \<longleftrightarrow>
     NodePowerRequest_service_id Power_Reboot = NODE_POWER_REBOOT
     \<and> NodePowerRequest_service_id Power_Shutdown = NODE_POWER_SHUTDOWN
     \<and> NodePowerRequest_service_id Power_GracefulReboot = NODE_POWER_GRACEFUL_REBOOT
     \<and> NodePowerRequest_service_id Power_GracefulShutdown = NODE_POWER_GRACEFUL_SHUTDOWN
     \<and> NodeObservationRequest_service_id Observe_ProcessList = NODE_OBSERVATION_PROCESS_LIST
     \<and> NodeObservationRequest_service_id Observe_ResourceUsage = NODE_OBSERVATION_RESOURCE_USAGE
     \<and> NodeObservationRequest_service_id Observe_Uptime = NODE_OBSERVATION_UPTIME
     \<and> NodeServiceRequest_service_id (Service_Start ''x'') = NODE_SERVICE_START
     \<and> NodeServiceRequest_service_id (Service_Stop ''x'') = NODE_SERVICE_STOP
     \<and> NodeHostnameRequest_service_id Hostname_Get = NODE_HOSTNAME_GET
     \<and> NodeHostnameRequest_service_id (Hostname_Set ''h'') = NODE_HOSTNAME_SET
     \<and> NodeVersionRequest_service_id Version_Get = NODE_VERSION_GET
     \<and> NodeVersionRequest_service_id (Version_SetOsVersion ''v'') = NODE_VERSION_SET_OS
     \<and> NodeVersionRequest_service_id (Version_SetProductVersion ''v'') = NODE_VERSION_SET_PRODUCT"

definition test_node_package_request_service_ids :: bool where
  "test_node_package_request_service_ids \<longleftrightarrow>
     NodePackageRequest_service_id (Package_Install
       \<lparr>in_target = ''sensor'', in_instance = Some 1, in_version = ''1.2.3'', in_commit = ''0123456789abcdef'',
        in_size = 1024, in_idempotency_key = ''k'', in_bootstrap_material = None,
        in_on_failure = OnFailure_Rollback, in_bind_addrs = None, in_config_template = None,
        in_privilege_profile = None\<rparr>) = NODE_PACKAGE_INSTALL
     \<and> NodePackageRequest_service_id (Package_Remove ''sensor'' None ''k'') = NODE_PACKAGE_REMOVE
     \<and> NodePackageRequest_service_id Package_ListInstalled = NODE_PACKAGE_LIST
     \<and> NodePackageRequest_service_id (Package_Status ''sensor'' (Some 2)) = NODE_PACKAGE_STATUS
     \<and> NodePackageRequest_service_id Package_ListHostPorts = NODE_PACKAGE_LIST_HOST_PORTS
     \<and> list_all (\<lambda>id. \<not> is_family id \<and> id \<in> set all_ids)
       [NODE_PACKAGE_INSTALL, NODE_PACKAGE_REMOVE, NODE_PACKAGE_LIST, NODE_PACKAGE_STATUS,
        NODE_PACKAGE_LIST_HOST_PORTS]
     \<and> is_family NODE_PACKAGE
     \<and> NODE_PACKAGE \<in> set all_ids"

definition test_node_enroll_request_service_ids :: bool where
  "test_node_enroll_request_service_ids \<longleftrightarrow>
     NodeEnrollRequest_service_id (Enroll_Register
       \<lparr>rg_service_name = ''sensor'', rg_delivery_mode = Delivery_RemoteBootstrap, rg_host = ''host01'',
        rg_instance = Some 1,
        rg_spec = \<lparr>svc_component = ''sensor'', svc_service_name = ''sensor'',
          svc_reload = ReloadHook ''reload-sensor'', svc_cert_group = Some (CertGroup ''internal'')\<rparr>,
        rg_wrap_ttl = \<lparr>secs = 600, nanos = 0\<rparr>, rg_idempotency_key = ''k''\<rparr>) = NODE_ENROLL_REGISTER
     \<and> NodeEnrollRequest_service_id (Enroll_Deregister ''sensor'' ''host01'' None ''k'') = NODE_ENROLL_DEREGISTER
     \<and> list_all (\<lambda>id. \<not> is_family id \<and> id \<in> set all_ids) [NODE_ENROLL_REGISTER, NODE_ENROLL_DEREGISTER]
     \<and> is_family NODE_ENROLL
     \<and> NODE_ENROLL \<in> set all_ids"

definition test_node_request_service_ids_are_method_level :: bool where
  "test_node_request_service_ids_are_method_level \<longleftrightarrow>
     \<not> is_family (NodePowerRequest_service_id Power_Reboot)
     \<and> \<not> is_family (NodeObservationRequest_service_id Observe_ProcessList)
     \<and> \<not> is_family (NodeServiceRequest_service_id (Service_Start ''x''))
     \<and> \<not> is_family (NodeHostnameRequest_service_id Hostname_Get)
     \<and> \<not> is_family (NodeTimeSyncRequest_service_id TimeSync_Get)
     \<and> \<not> is_family (NodeLoggingRequest_service_id Logging_Get)
     \<and> \<not> is_family (NodeRemoteAccessRequest_service_id RemoteAccess_Get)
     \<and> \<not> is_family (NodeVersionRequest_service_id Version_Get)
     \<and> \<not> is_family (NodePackageRequest_service_id Package_ListInstalled)"

subsection \<open>Request codes of the manager\<close>

definition test_customer_data_deletion_report_uses_code_40 :: bool where
  "test_customer_data_deletion_report_uses_code_40 \<longleftrightarrow>
     server_code_into SC_ReportCustomerDataDeletion = 40
     \<and> server_code_from 40 = SC_ReportCustomerDataDeletion"

definition test_unsupervised_engine_report_codes :: bool where
  "test_unsupervised_engine_report_codes \<longleftrightarrow>
     list_all (\<lambda>(code, num). server_code_into code = num \<and> server_code_from num = code)
       [(SC_UploadRunModel, 41), (SC_ReportRun, 42), (SC_ReportActiveRuns, 43), (SC_ReportDetectorStatus, 44)]
     \<and> server_code_from 45 = SC_Unknown"

subsection \<open>Classification of errors\<close>

definition test_display :: bool where
  "test_display \<longleftrightarrow>
     ProtocolErrorKind_fmt PEK_NotSupported = ''not supported''
     \<and> ProtocolErrorKind_fmt PEK_Forbidden = ''forbidden''
     \<and> ProtocolErrorKind_fmt PEK_InvalidArgs = ''invalid arguments''
     \<and> ProtocolErrorKind_fmt PEK_VersionMismatch = ''version mismatch''
     \<and> ProtocolErrorKind_fmt PEK_Other = ''other error''"

definition test_from_authorization_error :: bool where
  "test_from_authorization_error \<longleftrightarrow>
     of_authorization_error (AuthorizationError_new ''denied'') = PEK_Forbidden"

definition test_from_handshake_error_version_mismatch :: bool where
  "test_from_handshake_error_version_mismatch \<longleftrightarrow>
     of_handshake_error (HE_IncompatibleProtocol ''1.0.0'' ''2.0.0'' :: unit HandshakeError) = PEK_VersionMismatch"

definition test_from_handshake_error_other_variants :: bool where
  "test_from_handshake_error_other_variants \<longleftrightarrow>
     list_all (\<lambda>err. of_handshake_error err = PEK_Other)
       [HE_ConnectionClosed, HE_MessageTooLarge, HE_InvalidMessage :: unit HandshakeError]"

definition test_of_io_error_with_dispatch_error :: bool where
  "test_of_io_error_with_dispatch_error \<longleftrightarrow>
     of_io_error (IoError_new_dispatch EK_PermissionDenied
       (DispatchError_new PEK_Forbidden ''authorization denied: test'')) = PEK_Forbidden
     \<and> of_io_error (IoError_new_dispatch EK_InvalidData
       (DispatchError_new PEK_NotSupported ''unknown request code'')) = PEK_NotSupported"

definition test_of_io_error_fallback_mappings :: bool where
  "test_of_io_error_fallback_mappings \<longleftrightarrow>
     of_io_error (IoError_new EK_PermissionDenied ''authorization denied: test'') = PEK_Forbidden
     \<and> of_io_error (IoError_new EK_InvalidData ''unknown request code'') = PEK_NotSupported
     \<and> of_io_error (IoError_new EK_InvalidInput ''bad arguments'') = PEK_InvalidArgs
     \<and> of_io_error (IoError_new EK_ConnectionReset ''connection lost'') = PEK_Other"

definition test_from_io_preserves_kind_and_classifies :: bool where
  "test_from_io_preserves_kind_and_classifies \<longleftrightarrow>
     (let wrapped = from_io PEK_InvalidArgs (IoError_new EK_InvalidData ''bad payload'')
      in io_kind wrapped = EK_InvalidData \<and> of_io_error wrapped = PEK_InvalidArgs)"

subsection \<open>Authorization\<close>

text \<open>The authorizers the tests bring.\<close>

definition DenyAll :: authorizer where
  "DenyAll peer service = Err (AuthorizationError_new ''denied'')"

definition NodeOnly :: "string \<Rightarrow> authorizer" where
  "NodeOnly reason peer service =
     (if take 5 (sid_family service) = ''node.'' then Ok () else Err (AuthorizationError_new reason))"

definition RoleAdmin :: authorizer_v2 where
  "RoleAdmin ctx service =
     (if (case ac_roles ctx of None \<Rightarrow> False | Some r \<Rightarrow> ''admin'' \<in> set r) then Ok ()
      else Err (AuthorizationError_new ''admin role required''))"

definition agent_peer :: PeerContext where
  "agent_peer = with_fingerprint ''aa:bb:cc'' (with_subject ''CN=agent-1,O=Acme'' (PeerContext_new ''agent-1''))"

definition reader_context :: AuthorizationContext where
  "reader_context = from_authenticated_inputs
     (with_fingerprint ''11:22:33'' (with_subject ''CN=proxy-1,O=Corp'' (PeerContext_new ''proxy-1'')))
     (Some AgentKind_Proxy) (Some [''reader''])
     (Some \<lparr>pm_version = Some ''0.17.0'', pm_capabilities = [''streaming'']\<rparr>)
     (Some [''tenant'' \<mapsto> ''acme''])"

definition test_peer_context_builder :: bool where
  "test_peer_context_builder \<longleftrightarrow>
     (let ctx = with_fingerprint ''aa:bb:cc'' (with_subject ''CN=agent-1'' (PeerContext_new ''agent-1'')) in
      pc_name ctx = ''agent-1''
      \<and> pc_subject ctx = Some ''CN=agent-1''
      \<and> pc_fingerprint ctx = Some ''aa:bb:cc'')"

definition test_peer_context_minimal :: bool where
  "test_peer_context_minimal \<longleftrightarrow>
     (let ctx = PeerContext_new ''agent-2'' in
      pc_name ctx = ''agent-2''
      \<and> pc_subject ctx = None
      \<and> pc_fingerprint ctx = None)"

definition test_noop_authorizer_allows_all :: bool where
  "test_noop_authorizer_allows_all \<longleftrightarrow>
     NoopAuthorizer (PeerContext_new ''any-peer'') NODE_POWER_REBOOT = Ok ()
     \<and> NoopAuthorizer (PeerContext_new ''any-peer'') SERVER_CONFIG_GET = Ok ()
     \<and> NoopAuthorizer (PeerContext_new ''any-peer'') COMMON_ECHO = Ok ()"

definition test_deny_authorizer :: bool where
  "test_deny_authorizer \<longleftrightarrow>
     (case DenyAll (PeerContext_new ''any-peer'') NODE_POWER_REBOOT of
        Ok _ \<Rightarrow> False
      | Err err \<Rightarrow> ae_reason err = ''denied'' \<and> sublist ''authorization denied'' (AuthorizationError_fmt err))"

definition test_selective_authorizer :: bool where
  "test_selective_authorizer \<longleftrightarrow>
     NodeOnly ''only node APIs allowed'' (PeerContext_new ''node-agent'') NODE_POWER_REBOOT = Ok ()
     \<and> NodeOnly ''only node APIs allowed'' (PeerContext_new ''node-agent'') SERVER_CONFIG_GET \<noteq> Ok ()"

definition test_authorization_context_from_peer_context :: bool where
  "test_authorization_context_from_peer_context \<longleftrightarrow>
     (let ctx = from_peer_context agent_peer in
      pid_name (ac_peer_identity ctx) = ''agent-1''
      \<and> pid_subject (ac_peer_identity ctx) = Some ''CN=agent-1,O=Acme''
      \<and> pid_fingerprint (ac_peer_identity ctx) = Some ''aa:bb:cc''
      \<and> ac_agent_kind ctx = None
      \<and> ac_roles ctx = None
      \<and> ac_protocol_metadata ctx = None
      \<and> ac_attributes ctx = None)"

definition test_authorization_context_from_trait :: bool where
  "test_authorization_context_from_trait \<longleftrightarrow>
     (let ctx = from_peer_context (PeerContext_new ''agent-2'') in
      pid_name (ac_peer_identity ctx) = ''agent-2''
      \<and> ac_agent_kind ctx = None)"

definition test_authorization_context_with_authenticated_inputs :: bool where
  "test_authorization_context_with_authenticated_inputs \<longleftrightarrow>
     (let ctx = from_authenticated_inputs
         (with_subject ''CN=proxy-1,O=Acme'' (PeerContext_new ''proxy-1'')) (Some AgentKind_Proxy)
         (Some [''admin'', ''reader'']) (Some \<lparr>pm_version = Some ''0.17.0'', pm_capabilities = [''streaming'']\<rparr>)
         (Some [''tenant'' \<mapsto> ''acme-corp'']) in
      pid_name (ac_peer_identity ctx) = ''proxy-1''
      \<and> ac_agent_kind ctx = Some AgentKind_Proxy
      \<and> map_option length (ac_roles ctx) = Some 2
      \<and> map_option pm_version (ac_protocol_metadata ctx) = Some (Some ''0.17.0'')
      \<and> map_option pm_capabilities (ac_protocol_metadata ctx) = Some [''streaming'']
      \<and> Option.bind (ac_attributes ctx) (\<lambda>a. a ''tenant'') = Some ''acme-corp'')"

definition test_authenticated_only_constraints :: bool where
  "test_authenticated_only_constraints \<longleftrightarrow>
     (let ctx = from_peer_context (PeerContext_new ''real-agent'') in
      pid_name (ac_peer_identity ctx) \<noteq> ''evil-peer''
      \<and> pid_name (ac_peer_identity ctx) = ''real-agent''
      \<and> ac_roles ctx = None)
     \<and> pid_name (ac_peer_identity (from_authenticated_inputs (PeerContext_new ''real-agent'') None
       (Some [''superadmin'']) None None)) = ''real-agent''"

definition test_peer_identity_from_peer_context :: bool where
  "test_peer_identity_from_peer_context \<longleftrightarrow>
     (let id = PeerIdentity_from (with_fingerprint ''dd:ee:ff'' (with_subject ''CN=node-3'' (PeerContext_new ''node-3''))) in
      pid_name id = ''node-3''
      \<and> pid_subject id = Some ''CN=node-3''
      \<and> pid_fingerprint id = Some ''dd:ee:ff'')"

definition test_agent_kind_display :: bool where
  "test_agent_kind_display \<longleftrightarrow>
     AgentKind_fmt AgentKind_Agent = ''agent''
     \<and> AgentKind_fmt AgentKind_Proxy = ''proxy''
     \<and> AgentKind_fmt (AgentKind_Other ''scanner'') = ''scanner''"

definition test_authorization_error_display :: bool where
  "test_authorization_error_display \<longleftrightarrow>
     AuthorizationError_fmt (AuthorizationError_new ''policy violation'') = ''authorization denied: policy violation''"

definition test_authorization_error_kind_is_forbidden :: bool where
  "test_authorization_error_kind_is_forbidden \<longleftrightarrow>
     AuthorizationError_kind (AuthorizationError_new ''denied'') = PEK_Forbidden"

definition test_authorization_context_to_peer_context_round_trip :: bool where
  "test_authorization_context_to_peer_context_round_trip \<longleftrightarrow>
     (let derived = to_peer_context (from_peer_context agent_peer) in
      pc_name derived = ''agent-1''
      \<and> pc_subject derived = Some ''CN=agent-1,O=Acme''
      \<and> pc_fingerprint derived = Some ''aa:bb:cc'')"

definition test_authorization_context_to_peer_context_minimal :: bool where
  "test_authorization_context_to_peer_context_minimal \<longleftrightarrow>
     (let derived = to_peer_context (from_peer_context (PeerContext_new ''agent-2'')) in
      pc_name derived = ''agent-2''
      \<and> pc_subject derived = None
      \<and> pc_fingerprint derived = None)"

definition test_authorizer_v2_direct_implementation :: bool where
  "test_authorizer_v2_direct_implementation \<longleftrightarrow>
     RoleAdmin (from_peer_context (PeerContext_new ''agent-1'')) NODE_POWER_REBOOT \<noteq> Ok ()
     \<and> RoleAdmin (from_authenticated_inputs (PeerContext_new ''agent-1'') None (Some [''admin'']) None None)
       NODE_POWER_REBOOT = Ok ()"

definition test_authorizer_v2_adapter_delegates_to_legacy :: bool where
  "test_authorizer_v2_adapter_delegates_to_legacy \<longleftrightarrow>
     (let adapter = authorize_with_context (AuthorizerV2Adapter_new (NodeOnly ''only node APIs''));
          ctx = from_peer_context (with_subject ''CN=agent-1'' (PeerContext_new ''agent-1''))
      in adapter ctx NODE_POWER_REBOOT = Ok () \<and> adapter ctx SERVER_CONFIG_GET \<noteq> Ok ())"

definition test_migration_legacy_and_richer_context_side_by_side :: bool where
  "test_migration_legacy_and_richer_context_side_by_side \<longleftrightarrow>
     (let peer = with_subject ''CN=agent-1,O=Acme'' (PeerContext_new ''agent-1'');
          legacy = NodeOnly ''only node services''
      in legacy peer NODE_POWER_REBOOT = Ok ()
         \<and> legacy peer SERVER_CONFIG_GET \<noteq> Ok ()
         \<and> authorize_with_context (AuthorizerV2Adapter_new legacy) (from_peer_context peer)
              NODE_POWER_REBOOT = Ok ()
         \<and> RoleAdmin (from_authenticated_inputs peer (Some AgentKind_Agent) (Some [''admin'']) None None)
              NODE_POWER_REBOOT = Ok ()
         \<and> RoleAdmin (from_peer_context peer) NODE_POWER_REBOOT \<noteq> Ok ())"

definition test_context_from_authenticated_connection_helper :: bool where
  "test_context_from_authenticated_connection_helper \<longleftrightarrow>
     (let derived = to_peer_context reader_context in
      pc_name derived = ''proxy-1''
      \<and> pc_subject derived = Some ''CN=proxy-1,O=Corp''
      \<and> pc_fingerprint derived = Some ''11:22:33'')
     \<and> ac_agent_kind reader_context = Some AgentKind_Proxy
     \<and> map_option length (ac_roles reader_context) = Some 1
     \<and> Option.bind (ac_attributes reader_context) (\<lambda>a. a ''tenant'') = Some ''acme''"

subsection \<open>They hold\<close>

named_theorems unit_passes \<open>the tests that hold\<close>

lemmas unit_defs = PeerContext_new_def with_subject_def with_fingerprint_def PeerIdentity_from_def
  from_peer_context_def from_authenticated_inputs_def to_peer_context_def AuthorizationError_new_def
  AuthorizationError_fmt_def AuthorizationError_kind_def of_authorization_error_def NoopAuthorizer_def
  AuthorizerV2Adapter_new_def authorize_with_context_def DenyAll_def NodeOnly_def RoleAdmin_def
  agent_peer_def reader_context_def of_io_error_def io_error_defs from_io_def service_consts

lemma display_format_passes [unit_passes]: test_display_format
  by code_simp

lemma display_format_family_level_passes [unit_passes]: test_display_format_family_level
  by code_simp

lemma node_package_display_format_passes [unit_passes]: test_node_package_display_format
  by code_simp

lemma node_enroll_display_format_passes [unit_passes]: test_node_enroll_display_format
  by code_simp

lemma is_family_passes [unit_passes]: test_is_family
  by code_simp

lemma equality_and_hash_passes [unit_passes]: test_equality_and_hash
  by code_simp

lemma client_from_request_code_legacy_passes [unit_passes]: test_client_from_request_code_legacy
  by code_simp

lemma client_from_request_code_node_families_passes [unit_passes]: test_client_from_request_code_node_families
  by code_simp

lemma client_from_request_code_unknown_passes [unit_passes]: test_client_from_request_code_unknown
  by code_simp

lemma all_known_client_request_codes_are_mapped_passes [unit_passes]: test_all_known_client_request_codes_are_mapped
  by code_simp

lemma all_known_server_request_codes_are_mapped_passes [unit_passes]: test_all_known_server_request_codes_are_mapped
  by code_simp

lemma server_from_request_code_unknown_passes [unit_passes]: test_server_from_request_code_unknown
  by code_simp

lemma server_from_request_code_samples_passes [unit_passes]: test_server_from_request_code_samples
  by code_simp

lemma all_ids_are_unique_passes [unit_passes]: test_all_ids_are_unique
  using all_ids_print_distinct
  by (simp add: test_all_ids_are_unique_def remdups_id_iff_distinct [THEN iffD2])

lemma all_covers_families_passes [unit_passes]: test_all_covers_families
  by code_simp

lemma unsupervised_engine_request_codes_map_to_their_ids_passes [unit_passes]: test_unsupervised_engine_request_codes_map_to_their_ids
  by code_simp

lemma node_request_service_ids_passes [unit_passes]: test_node_request_service_ids
  by code_simp

lemma node_package_request_service_ids_passes [unit_passes]: test_node_package_request_service_ids
  by code_simp

lemma node_enroll_request_service_ids_passes [unit_passes]: test_node_enroll_request_service_ids
  by code_simp

lemma node_request_service_ids_are_method_level_passes [unit_passes]: test_node_request_service_ids_are_method_level
  by code_simp

lemma customer_data_deletion_report_uses_code_40_passes [unit_passes]: test_customer_data_deletion_report_uses_code_40
  by code_simp

lemma unsupervised_engine_report_codes_passes [unit_passes]: test_unsupervised_engine_report_codes
  by code_simp

lemma display_passes [unit_passes]: test_display
  by (simp add: test_display_def unit_defs Let_def)

lemma from_authorization_error_passes [unit_passes]: test_from_authorization_error
  by (simp add: test_from_authorization_error_def unit_defs Let_def)

lemma from_handshake_error_version_mismatch_passes [unit_passes]: test_from_handshake_error_version_mismatch
  by (simp add: test_from_handshake_error_version_mismatch_def unit_defs Let_def)

lemma from_handshake_error_other_variants_passes [unit_passes]: test_from_handshake_error_other_variants
  by (simp add: test_from_handshake_error_other_variants_def unit_defs Let_def)

lemma of_io_error_with_dispatch_error_passes [unit_passes]: test_of_io_error_with_dispatch_error
  by (simp add: test_of_io_error_with_dispatch_error_def unit_defs Let_def)

lemma of_io_error_fallback_mappings_passes [unit_passes]: test_of_io_error_fallback_mappings
  by (simp add: test_of_io_error_fallback_mappings_def unit_defs Let_def)

lemma from_io_preserves_kind_and_classifies_passes [unit_passes]: test_from_io_preserves_kind_and_classifies
  by (simp add: test_from_io_preserves_kind_and_classifies_def unit_defs Let_def)

lemma peer_context_builder_passes [unit_passes]: test_peer_context_builder
  by (simp add: test_peer_context_builder_def unit_defs Let_def)

lemma peer_context_minimal_passes [unit_passes]: test_peer_context_minimal
  by (simp add: test_peer_context_minimal_def unit_defs Let_def)

lemma noop_authorizer_allows_all_passes [unit_passes]: test_noop_authorizer_allows_all
  by (simp add: test_noop_authorizer_allows_all_def unit_defs Let_def)

lemma deny_authorizer_passes [unit_passes]: test_deny_authorizer
  by code_simp

lemma selective_authorizer_passes [unit_passes]: test_selective_authorizer
  by (simp add: test_selective_authorizer_def unit_defs Let_def)

lemma authorization_context_from_peer_context_passes [unit_passes]: test_authorization_context_from_peer_context
  by (simp add: test_authorization_context_from_peer_context_def unit_defs Let_def)

lemma authorization_context_from_trait_passes [unit_passes]: test_authorization_context_from_trait
  by (simp add: test_authorization_context_from_trait_def unit_defs Let_def)

lemma authorization_context_with_authenticated_inputs_passes [unit_passes]: test_authorization_context_with_authenticated_inputs
  by (simp add: test_authorization_context_with_authenticated_inputs_def unit_defs Let_def)

lemma authenticated_only_constraints_passes [unit_passes]: test_authenticated_only_constraints
  by (simp add: test_authenticated_only_constraints_def unit_defs Let_def)

lemma peer_identity_from_peer_context_passes [unit_passes]: test_peer_identity_from_peer_context
  by (simp add: test_peer_identity_from_peer_context_def unit_defs Let_def)

lemma agent_kind_display_passes [unit_passes]: test_agent_kind_display
  by (simp add: test_agent_kind_display_def unit_defs Let_def)

lemma authorization_error_display_passes [unit_passes]: test_authorization_error_display
  by (simp add: test_authorization_error_display_def unit_defs Let_def)

lemma authorization_error_kind_is_forbidden_passes [unit_passes]: test_authorization_error_kind_is_forbidden
  by (simp add: test_authorization_error_kind_is_forbidden_def unit_defs Let_def)

lemma authorization_context_to_peer_context_round_trip_passes [unit_passes]: test_authorization_context_to_peer_context_round_trip
  by (simp add: test_authorization_context_to_peer_context_round_trip_def unit_defs Let_def)

lemma authorization_context_to_peer_context_minimal_passes [unit_passes]: test_authorization_context_to_peer_context_minimal
  by (simp add: test_authorization_context_to_peer_context_minimal_def unit_defs Let_def)

lemma authorizer_v2_direct_implementation_passes [unit_passes]: test_authorizer_v2_direct_implementation
  by (simp add: test_authorizer_v2_direct_implementation_def unit_defs Let_def)

lemma authorizer_v2_adapter_delegates_to_legacy_passes [unit_passes]: test_authorizer_v2_adapter_delegates_to_legacy
  by (simp add: test_authorizer_v2_adapter_delegates_to_legacy_def unit_defs Let_def)

lemma migration_legacy_and_richer_context_side_by_side_passes [unit_passes]: test_migration_legacy_and_richer_context_side_by_side
  by (simp add: test_migration_legacy_and_richer_context_side_by_side_def unit_defs Let_def)

lemma context_from_authenticated_connection_helper_passes [unit_passes]: test_context_from_authenticated_connection_helper
  by (simp add: test_context_from_authenticated_connection_helper_def unit_defs Let_def)

text \<open>
  The model meets the unit tests the crate ships for its identifiers, its codes, its error
  classification and its authorization: every assertion of the translated tests holds.
\<close>

lemma unit_tests_pass:
  "test_display_format
   \<and> test_display_format_family_level
   \<and> test_node_package_display_format
   \<and> test_node_enroll_display_format
   \<and> test_is_family
   \<and> test_equality_and_hash
   \<and> test_client_from_request_code_legacy
   \<and> test_client_from_request_code_node_families
   \<and> test_client_from_request_code_unknown
   \<and> test_all_known_client_request_codes_are_mapped
   \<and> test_all_known_server_request_codes_are_mapped
   \<and> test_server_from_request_code_unknown
   \<and> test_server_from_request_code_samples
   \<and> test_all_ids_are_unique
   \<and> test_all_covers_families
   \<and> test_unsupervised_engine_request_codes_map_to_their_ids
   \<and> test_node_request_service_ids
   \<and> test_node_package_request_service_ids
   \<and> test_node_enroll_request_service_ids
   \<and> test_node_request_service_ids_are_method_level
   \<and> test_customer_data_deletion_report_uses_code_40
   \<and> test_unsupervised_engine_report_codes
   \<and> test_display
   \<and> test_from_authorization_error
   \<and> test_from_handshake_error_version_mismatch
   \<and> test_from_handshake_error_other_variants
   \<and> test_of_io_error_with_dispatch_error
   \<and> test_of_io_error_fallback_mappings
   \<and> test_from_io_preserves_kind_and_classifies
   \<and> test_peer_context_builder
   \<and> test_peer_context_minimal
   \<and> test_noop_authorizer_allows_all
   \<and> test_deny_authorizer
   \<and> test_selective_authorizer
   \<and> test_authorization_context_from_peer_context
   \<and> test_authorization_context_from_trait
   \<and> test_authorization_context_with_authenticated_inputs
   \<and> test_authenticated_only_constraints
   \<and> test_peer_identity_from_peer_context
   \<and> test_agent_kind_display
   \<and> test_authorization_error_display
   \<and> test_authorization_error_kind_is_forbidden
   \<and> test_authorization_context_to_peer_context_round_trip
   \<and> test_authorization_context_to_peer_context_minimal
   \<and> test_authorizer_v2_direct_implementation
   \<and> test_authorizer_v2_adapter_delegates_to_legacy
   \<and> test_migration_legacy_and_richer_context_side_by_side
   \<and> test_context_from_authenticated_connection_helper"
  by (simp add: unit_passes)

end
