(* ===== verification/Wire_Codec.thy ===== *)
theory Wire_Codec
  imports Node_Types
begin

text \<open>
  How serde's derived \<open>Serialize\<close> and \<open>Deserialize\<close> lay a type out: a struct is its
  fields in declaration order, an enum is the index of the variant and the variant's fields, an
  \<open>Option\<close> a tag and the value, a sequence or map its length and its elements. What the
  format under it (bincode, in whichever configuration) writes for a number, a tag, a string or a
  type of the standard library is a parameter, the record \<open>format\<close>; what the crate relies on
  is \<open>lawful_format\<close>. A codec carries its own domain, \<open>fits\<close>, which follows the
  structure: the lengths and values that exist in the program.
\<close>

subsection \<open>Codecs and their laws\<close>

type_synonym 'a prim = "('a \<Rightarrow> bytes) \<times> (bytes \<Rightarrow> ('a \<times> bytes) option)"

record 'a codec =
  enc :: "'a \<Rightarrow> bytes"
  dec :: "bytes \<Rightarrow> ('a \<times> bytes) option"
  fits :: "'a \<Rightarrow> bool"

text \<open>
  A codec reads back what it wrote and leaves the rest; and it decides on the bytes it consumes
  alone, whatever follows them.
\<close>

definition reads_back :: "'a codec \<Rightarrow> bool" where
  "reads_back c \<longleftrightarrow> (\<forall>a rest. fits c a \<longrightarrow> dec c (enc c a @ rest) = Some (a, rest))"

definition streams :: "(bytes \<Rightarrow> ('a \<times> bytes) option) \<Rightarrow> bool" where
  "streams d \<longleftrightarrow> (\<forall>b a rest. d b = Some (a, rest) \<longrightarrow>
     (\<exists>used. b = used @ rest \<and> (\<forall>rest'. d (used @ rest') = Some (a, rest'))))"

definition lawful :: "'a codec \<Rightarrow> bool" where
  "lawful c \<longleftrightarrow> reads_back c \<and> streams (dec c)"

lemma lawfulI:
  assumes "\<And>a rest. fits c a \<Longrightarrow> dec c (enc c a @ rest) = Some (a, rest)" and "streams (dec c)"
  shows "lawful c"
  using assms by (simp add: lawful_def reads_back_def)

lemma lawful_reads: "lawful c \<Longrightarrow> fits c a \<Longrightarrow> dec c (enc c a @ rest) = Some (a, rest)"
  by (simp add: lawful_def reads_back_def)

lemma lawful_reads_all: "lawful c \<Longrightarrow> fits c a \<Longrightarrow> dec c (enc c a) = Some (a, [])"
  using lawful_reads [of c a "[]"] by simp

lemma lawful_streams: "lawful c \<Longrightarrow> streams (dec c)"
  by (simp add: lawful_def)

lemma streamsE:
  assumes "streams d" and "d b = Some (a, rest)"
  obtains used where "b = used @ rest" "\<And>rest'. d (used @ rest') = Some (a, rest')"
  using assms unfolding streams_def by metis

text \<open>No encoding is the beginning of another, and an encoding cut short is refused.\<close>

lemma lawful_prefix_free:
  assumes "lawful c" and "fits c a" and "fits c b" and "enc c b = enc c a @ rest"
  shows "a = b" and "rest = []"
  using lawful_reads [OF assms(1,2), of rest] lawful_reads_all [OF assms(1,3)] assms(4) by simp_all

lemma lawful_truncated:
  assumes "lawful c" and "fits c a" and "enc c a = kept @ lost" and "lost \<noteq> []"
  shows "dec c kept = None"
proof (rule ccontr)
  assume "dec c kept \<noteq> None"
  then obtain b rest where b: "dec c kept = Some (b, rest)" by auto
  from lawful_streams [OF assms(1)] b obtain used where
    used: "kept = used @ rest" "\<And>rest'. dec c (used @ rest') = Some (b, rest')"
    by (rule streamsE) blast
  from used(2) [of "rest @ lost"] used(1) assms(3) have "dec c (enc c a) = Some (b, rest @ lost)"
    by simp
  with lawful_reads_all [OF assms(1,2)] assms(4) show False by simp
qed

subsection \<open>Streaming decoders compose\<close>

lemma streams_return [simp]: "streams (\<lambda>b. Some (a, b))"
  by (auto simp: streams_def)

lemma streams_fail [simp]: "streams (\<lambda>b. None)"
  by (auto simp: streams_def)

lemma streams_bind:
  assumes "streams d" and "\<And>a. streams (e a)"
  shows "streams (\<lambda>b. Option.bind (d b) (\<lambda>(a, r). e a r))"
  unfolding streams_def
proof (intro allI impI)
  fix b y rest
  assume "Option.bind (d b) (\<lambda>(a, r). e a r) = Some (y, rest)"
  then obtain a r where a: "d b = Some (a, r)" "e a r = Some (y, rest)"
    by (auto simp: bind_eq_Some_conv)
  obtain u where u: "b = u @ r" "\<And>rest'. d (u @ rest') = Some (a, rest')"
    using streamsE [OF assms(1) a(1)] by blast
  obtain v where v: "r = v @ rest" "\<And>rest'. e a (v @ rest') = Some (y, rest')"
    using streamsE [OF assms(2) a(2)] by blast
  have "Option.bind (d ((u @ v) @ rest')) (\<lambda>(a, r). e a r) = Some (y, rest')" for rest'
    using u(2) [of "v @ rest'"] v(2) by simp
  with u(1) v(1) show "\<exists>used. b = used @ rest \<and>
      (\<forall>rest'. Option.bind (d (used @ rest')) (\<lambda>(a, r). e a r) = Some (y, rest'))"
    by (intro exI [of _ "u @ v"]) simp
qed

lemma streams_map: "streams d \<Longrightarrow> streams (\<lambda>b. map_option (apfst f) (d b))"
  unfolding streams_def by (fastforce simp: apfst_def map_prod_def)

subsection \<open>Structs\<close>

definition prim_codec :: "('a \<Rightarrow> bool) \<Rightarrow> 'a prim \<Rightarrow> 'a codec" where
  "prim_codec P p = \<lparr>enc = fst p, dec = snd p, fits = P\<rparr>"

definition unit_codec :: "unit codec" where
  "unit_codec = \<lparr>enc = (\<lambda>_. []), dec = (\<lambda>b. Some ((), b)), fits = (\<lambda>_. True)\<rparr>"

definition pair_codec :: "'a codec \<Rightarrow> 'b codec \<Rightarrow> ('a \<times> 'b) codec" where
  "pair_codec c d =
     \<lparr>enc = (\<lambda>p. enc c (fst p) @ enc d (snd p)),
      dec = (\<lambda>b. Option.bind (dec c b) (\<lambda>(x, r). Option.bind (dec d r) (\<lambda>(y, r). Some ((x, y), r)))),
      fits = (\<lambda>p. fits c (fst p) \<and> fits d (snd p))\<rparr>"

text \<open>
  A type sent as another one: \<open>into\<close> what is sent, and back with a conversion that may
  refuse (\<open>try_from\<close>) or not (\<open>from\<close>, and a struct from its fields).
\<close>

definition via_codec :: "('a \<Rightarrow> bool) \<Rightarrow> ('b \<Rightarrow> 'a option) \<Rightarrow> ('a \<Rightarrow> 'b) \<Rightarrow> 'b codec \<Rightarrow> 'a codec" where
  "via_codec P try_from into c =
     \<lparr>enc = (\<lambda>a. enc c (into a)),
      dec = (\<lambda>b. Option.bind (dec c b) (\<lambda>(x, r). map_option (\<lambda>a. (a, r)) (try_from x))),
      fits = (\<lambda>a. P a \<and> fits c (into a))\<rparr>"

definition struct_codec :: "('b \<Rightarrow> 'a) \<Rightarrow> ('a \<Rightarrow> 'b) \<Rightarrow> 'b codec \<Rightarrow> 'a codec" where
  "struct_codec build parts c = via_codec (\<lambda>_. True) (\<lambda>x. Some (build x)) parts c"

subsection \<open>Enums\<close>

text \<open>A variant: its fields as a codec, how it is built and how it is told.\<close>

record 'a arm =
  arm_enc :: "'a \<Rightarrow> bytes option"
  arm_dec :: "bytes \<Rightarrow> ('a \<times> bytes) option"
  arm_fits :: "'a \<Rightarrow> bool"

definition arm :: "'b codec \<Rightarrow> ('b \<Rightarrow> 'a) \<Rightarrow> ('a \<Rightarrow> 'b option) \<Rightarrow> 'a arm" where
  "arm c build told =
     \<lparr>arm_enc = (\<lambda>a. map_option (enc c) (told a)),
      arm_dec = (\<lambda>b. map_option (apfst build) (dec c b)),
      arm_fits = (\<lambda>a. case told a of None \<Rightarrow> False | Some x \<Rightarrow> fits c x)\<rparr>"

definition unit_arm :: "'a \<Rightarrow> 'a arm" where
  "unit_arm k = arm unit_codec (\<lambda>_. k) (\<lambda>a. if a = k then Some () else None)"

fun arm_index :: "'a arm list \<Rightarrow> 'a \<Rightarrow> nat option" where
  "arm_index [] a = None"
| "arm_index (A # As) a = (if arm_enc A a \<noteq> None then Some 0 else map_option Suc (arm_index As a))"

definition enum_codec :: "u32 prim \<Rightarrow> 'a arm list \<Rightarrow> 'a codec" where
  "enum_codec variant arms =
     \<lparr>enc = (\<lambda>a. case arm_index arms a of
               None \<Rightarrow> []
             | Some i \<Rightarrow> fst variant (of_nat i) @ the (arm_enc (arms ! i) a)),
      dec = (\<lambda>b. Option.bind (snd variant b) (\<lambda>(v, r).
               if unat v < length arms then arm_dec (arms ! unat v) r else None)),
      fits = (\<lambda>a. case arm_index arms a of None \<Rightarrow> False | Some i \<Rightarrow> arm_fits (arms ! i) a)\<rparr>"

subsection \<open>Options, sequences, maps and sets\<close>

definition option_codec :: "bool prim \<Rightarrow> 'a codec \<Rightarrow> 'a option codec" where
  "option_codec tag c =
     \<lparr>enc = (\<lambda>a. case a of None \<Rightarrow> fst tag False | Some x \<Rightarrow> fst tag True @ enc c x),
      dec = (\<lambda>b. Option.bind (snd tag b) (\<lambda>(t, r).
               if t then map_option (apfst Some) (dec c r) else Some (None, r))),
      fits = (\<lambda>a. case a of None \<Rightarrow> True | Some x \<Rightarrow> fits c x)\<rparr>"

fun dec_times :: "(bytes \<Rightarrow> ('a \<times> bytes) option) \<Rightarrow> nat \<Rightarrow> bytes \<Rightarrow> ('a list \<times> bytes) option" where
  "dec_times d 0 b = Some ([], b)"
| "dec_times d (Suc n) b = Option.bind (d b) (\<lambda>(x, r).
     Option.bind (dec_times d n r) (\<lambda>(xs, r). Some (x # xs, r)))"

text \<open>No allocation of the program exceeds \<open>isize::MAX\<close> bytes.\<close>

definition MAX_LEN :: nat where "MAX_LEN = 2 ^ 63 - 1"

definition list_codec :: "u64 prim \<Rightarrow> 'a codec \<Rightarrow> 'a list codec" where
  "list_codec len c =
     \<lparr>enc = (\<lambda>xs. fst len (of_nat (length xs)) @ concat (map (enc c) xs)),
      dec = (\<lambda>b. Option.bind (snd len b) (\<lambda>(n, r). dec_times (dec c) (unat n) r)),
      fits = (\<lambda>xs. length xs \<le> MAX_LEN \<and> list_all (fits c) xs)\<rparr>"

text \<open>
  A map is the sequence of its entries in the order it iterates in, and is read by inserting
  one entry after the other; a set likewise.
\<close>

definition map_codec ::
  "u64 prim \<Rightarrow> ('k set \<Rightarrow> 'k list) \<Rightarrow> 'k codec \<Rightarrow> 'v codec \<Rightarrow> ('k \<rightharpoonup> 'v) codec" where
  "map_codec len order ck cv =
     via_codec (\<lambda>m. finite (dom m)) (\<lambda>es. Some (map_of (rev es)))
       (\<lambda>m. map (\<lambda>k. (k, the (m k))) (order (dom m))) (list_codec len (pair_codec ck cv))"

definition set_codec :: "u64 prim \<Rightarrow> ('k set \<Rightarrow> 'k list) \<Rightarrow> 'k codec \<Rightarrow> 'k set codec" where
  "set_codec len order c = via_codec finite (\<lambda>xs. Some (set xs)) order (list_codec len c)"

subsection \<open>Each constructor keeps the laws\<close>

named_theorems lawful_rules \<open>how a codec is lawful when its parts are\<close>
named_theorems codec_simps \<open>what a codec writes and what fits it\<close>

lemma prim_codec_sel [simp]:
  "enc (prim_codec P p) = fst p" "dec (prim_codec P p) = snd p" "fits (prim_codec P p) = P"
  by (simp_all add: prim_codec_def)

lemma unit_codec_sel [codec_simps]:
  "enc unit_codec a = []" "fits unit_codec a"
  by (simp_all add: unit_codec_def)

lemma pair_codec_sel [codec_simps]:
  "enc (pair_codec c d) (x, y) = enc c x @ enc d y"
  "fits (pair_codec c d) (x, y) \<longleftrightarrow> fits c x \<and> fits d y"
  by (simp_all add: pair_codec_def)

lemma struct_codec_sel [codec_simps]:
  "enc (struct_codec build parts c) a = enc c (parts a)"
  "fits (struct_codec build parts c) a = fits c (parts a)"
  by (simp_all add: struct_codec_def via_codec_def)

lemma option_codec_sel [codec_simps]:
  "enc (option_codec tag c) None = fst tag False"
  "enc (option_codec tag c) (Some x) = fst tag True @ enc c x"
  "fits (option_codec tag c) None" "fits (option_codec tag c) (Some x) = fits c x"
  by (simp_all add: option_codec_def)

lemma list_codec_sel [codec_simps]:
  "enc (list_codec len c) xs = fst len (of_nat (length xs)) @ concat (map (enc c) xs)"
  "fits (list_codec len c) xs \<longleftrightarrow> length xs \<le> MAX_LEN \<and> list_all (fits c) xs"
  by (simp_all add: list_codec_def)

lemma lawful_unit [lawful_rules]: "lawful unit_codec"
  by (rule lawfulI) (simp_all add: unit_codec_def)

lemma lawful_pair [lawful_rules]:
  assumes "lawful c" and "lawful d"
  shows "lawful (pair_codec c d)"
proof (rule lawfulI)
  fix a :: "'a \<times> 'b" and rest
  assume "fits (pair_codec c d) a"
  then have "dec c (enc c (fst a) @ enc d (snd a) @ rest) = Some (fst a, enc d (snd a) @ rest)"
      "dec d (enc d (snd a) @ rest) = Some (snd a, rest)"
    by (simp_all add: pair_codec_def lawful_reads [OF assms(1)] lawful_reads [OF assms(2)])
  then show "dec (pair_codec c d) (enc (pair_codec c d) a @ rest) = Some (a, rest)"
    by (simp add: pair_codec_def)
next
  show "streams (dec (pair_codec c d))"
    unfolding pair_codec_def codec.simps
    by (intro streams_bind lawful_streams streams_return assms)
qed

lemma lawful_via:
  assumes "lawful c" and "\<And>a. P a \<Longrightarrow> try_from (into a) = Some a"
  shows "lawful (via_codec P try_from into c)"
proof (rule lawfulI)
  fix a rest
  assume "fits (via_codec P try_from into c) a"
  then show "dec (via_codec P try_from into c) (enc (via_codec P try_from into c) a @ rest) = Some (a, rest)"
    using lawful_reads [OF assms(1)] assms(2) by (simp add: via_codec_def)
next
  have "streams (\<lambda>r. map_option (\<lambda>a. (a, r)) (try_from x))" for x
    by (cases "try_from x") simp_all
  then show "streams (dec (via_codec P try_from into c))"
    by (simp add: via_codec_def streams_bind lawful_streams [OF assms(1)])
qed

lemma lawful_struct [lawful_rules]:
  "lawful c \<Longrightarrow> (\<And>a. build (parts a) = a) \<Longrightarrow> lawful (struct_codec build parts c)"
  unfolding struct_codec_def by (rule lawful_via) simp_all

definition lawful_arm :: "'a arm \<Rightarrow> bool" where
  "lawful_arm A \<longleftrightarrow>
     (\<forall>a rest. arm_fits A a \<longrightarrow> (\<exists>bs. arm_enc A a = Some bs \<and> arm_dec A (bs @ rest) = Some (a, rest)))
     \<and> streams (arm_dec A)"

lemma lawful_arm [lawful_rules]:
  assumes "lawful c" and "\<And>a x. told a = Some x \<Longrightarrow> build x = a"
  shows "lawful_arm (arm c build told)"
  using assms lawful_reads [OF assms(1)] streams_map [OF lawful_streams [OF assms(1)]]
  by (auto simp: lawful_arm_def arm_def split: option.splits)

lemma lawful_unit_arm [lawful_rules]: "lawful_arm (unit_arm k)"
  unfolding unit_arm_def by (rule lawful_arm) (auto intro: lawful_unit split: if_splits)

lemma arm_index_less: "arm_index arms a = Some i \<Longrightarrow> i < length arms"
  by (induction arms arbitrary: i) (auto split: if_splits)

lemma lawful_enum [lawful_rules]:
  assumes "lawful (prim_codec (\<lambda>_. True) variant)" and "list_all lawful_arm arms"
    and "length arms < 2 ^ 32"
  shows "lawful (enum_codec variant arms)"
proof (rule lawfulI)
  fix a rest
  assume "fits (enum_codec variant arms) a"
  then obtain i where i: "arm_index arms a = Some i" "arm_fits (arms ! i) a"
    by (auto simp: enum_codec_def split: option.splits)
  from arm_index_less [OF i(1)] assms(3) have "unat (of_nat i :: u32) = i" "i < length arms"
    by (simp_all add: unsigned_of_nat take_bit_nat_eq_self)
  moreover from this assms(2) have "lawful_arm (arms ! i)" by (simp add: list_all_length)
  with i(2) obtain bs where "arm_enc (arms ! i) a = Some bs" "arm_dec (arms ! i) (bs @ rest) = Some (a, rest)"
    by (auto simp: lawful_arm_def)
  moreover have "snd variant (fst variant (of_nat i) @ b) = Some (of_nat i, b)" for b
    using lawful_reads [OF assms(1)] by simp
  ultimately show "dec (enum_codec variant arms) (enc (enum_codec variant arms) a @ rest) = Some (a, rest)"
    using i(1) by (simp add: enum_codec_def)
next
  have "streams (\<lambda>r. if unat v < length arms then arm_dec (arms ! unat v) r else None)" for v
    using assms(2) by (cases "unat v < length arms") (simp_all add: list_all_length lawful_arm_def)
  then show "streams (dec (enum_codec variant arms))"
    unfolding enum_codec_def codec.simps
    by (rule streams_bind [OF lawful_streams [OF assms(1), unfolded prim_codec_sel]])
qed

lemma lawful_option [lawful_rules]:
  assumes "lawful (prim_codec (\<lambda>_. True) tag)" and "lawful c"
  shows "lawful (option_codec tag c)"
proof (rule lawfulI)
  fix a rest
  assume "fits (option_codec tag c) a"
  moreover have "snd tag (fst tag t @ b) = Some (t, b)" for t b
    using lawful_reads [OF assms(1)] by simp
  ultimately show "dec (option_codec tag c) (enc (option_codec tag c) a @ rest) = Some (a, rest)"
    using lawful_reads [OF assms(2)] by (auto simp: option_codec_def split: option.splits)
next
  have "streams (\<lambda>r. if t then map_option (apfst Some) (dec c r) else Some (None, r))" for t
    by (cases t) (simp_all add: streams_map lawful_streams [OF assms(2)])
  then show "streams (dec (option_codec tag c))"
    unfolding option_codec_def codec.simps
    by (rule streams_bind [OF lawful_streams [OF assms(1), unfolded prim_codec_sel]])
qed

lemma dec_times_reads:
  assumes "lawful c" and "list_all (fits c) xs"
  shows "dec_times (dec c) (length xs) (concat (map (enc c) xs) @ rest) = Some (xs, rest)"
  using assms(2) by (induction xs) (simp_all add: lawful_reads [OF assms(1)])

lemma streams_times: "streams d \<Longrightarrow> streams (dec_times d n)"
proof (induction n)
  case (Suc n)
  have "streams (\<lambda>r. Option.bind (dec_times d n r) (\<lambda>(xs, r). Some (x # xs, r)))" for x
    by (rule streams_bind) (simp_all add: Suc)
  then show ?case unfolding dec_times.simps by (rule streams_bind [OF Suc.prems])
qed (simp add: streams_def)

lemma lawful_list [lawful_rules]:
  assumes "lawful (prim_codec (\<lambda>_. True) len)" and "lawful c"
  shows "lawful (list_codec len c)"
proof (rule lawfulI)
  fix xs rest
  assume xs: "fits (list_codec len c) xs"
  then have "unat (of_nat (length xs) :: u64) = length xs"
    by (simp add: list_codec_def MAX_LEN_def unsigned_of_nat take_bit_nat_eq_self)
  moreover have "snd len (fst len n @ b) = Some (n, b)" for n b
    using lawful_reads [OF assms(1)] by simp
  ultimately show "dec (list_codec len c) (enc (list_codec len c) xs @ rest) = Some (xs, rest)"
    using xs dec_times_reads [OF assms(2)] by (simp add: list_codec_def)
next
  show "streams (dec (list_codec len c))"
    using streams_bind [OF _ streams_times] lawful_streams [OF assms(1)] lawful_streams [OF assms(2)]
    by (simp add: list_codec_def)
qed

text \<open>An iteration visits each element of a finite collection once.\<close>

definition orders :: "('k set \<Rightarrow> 'k list) \<Rightarrow> bool" where
  "orders order \<longleftrightarrow> (\<forall>S. finite S \<longrightarrow> set (order S) = S \<and> distinct (order S))"

lemma map_of_entries:
  assumes "set ks = dom m" and "distinct ks"
  shows "map_of (rev (map (\<lambda>k. (k, the (m k))) ks)) = m"
proof
  fix k
  show "map_of (rev (map (\<lambda>k. (k, the (m k))) ks)) k = m k"
  proof (cases "k \<in> dom m")
    case True
    with assms have "(k, the (m k)) \<in> set (map (\<lambda>k. (k, the (m k))) ks)" by auto
    moreover have "distinct (map fst (rev (map (\<lambda>k. (k, the (m k))) ks)))"
      using assms(2) by (simp add: rev_map [symmetric] comp_def)
    ultimately show ?thesis using True by auto
  next
    case False
    then show ?thesis using assms(1) by (auto simp: map_of_eq_None_iff domIff image_iff)
  qed
qed

lemma lawful_map [lawful_rules]:
  assumes "lawful (prim_codec (\<lambda>_. True) len)" and "orders order" and "lawful ck" and "lawful cv"
  shows "lawful (map_codec len order ck cv)"
  unfolding map_codec_def using assms(2)
  by (intro lawful_via lawful_list lawful_pair assms) (simp add: orders_def map_of_entries)

lemma lawful_set [lawful_rules]:
  assumes "lawful (prim_codec (\<lambda>_. True) len)" and "orders order" and "lawful c"
  shows "lawful (set_codec len order c)"
  unfolding set_codec_def using assms(2)
  by (intro lawful_via lawful_list assms) (simp add: orders_def)

lemma fits_map [codec_simps]:
  assumes "orders order"
  shows "fits (map_codec len order ck cv) m \<longleftrightarrow>
    finite (dom m) \<and> card (dom m) \<le> MAX_LEN \<and> (\<forall>k \<in> dom m. fits ck k \<and> fits cv (the (m k)))"
  using assms distinct_card [of "order (dom m)"]
  by (auto simp: map_codec_def via_codec_def list_codec_def pair_codec_def orders_def list_all_iff)

lemma fits_set [codec_simps]:
  assumes "orders order"
  shows "fits (set_codec len order c) S \<longleftrightarrow> finite S \<and> card S \<le> MAX_LEN \<and> (\<forall>k \<in> S. fits c k)"
  using assms distinct_card [of "order S"]
  by (auto simp: set_codec_def via_codec_def list_codec_def orders_def list_all_iff)

subsection \<open>The format\<close>

record format =
  fm_variant :: "u32 prim"
  fm_option :: "bool prim"
  fm_len :: "u64 prim"
  fm_bool :: "bool prim"
  fm_u8 :: "u8 prim"
  fm_u16 :: "u16 prim"
  fm_u32 :: "u32 prim"
  fm_u64 :: "u64 prim"
  fm_i32 :: "i32 prim"
  fm_i64 :: "i64 prim"
  fm_f32 :: "f32 prim"
  fm_f64 :: "f64 prim"
  fm_str :: "string prim"
  fm_bytes :: "bytes prim"
  fm_ip :: "IpAddr prim"
  fm_socket :: "SocketAddr prim"
  fm_duration :: "Duration prim"
  fm_i128 :: "128 word prim"
  fm_valid_timestamp :: "Timestamp \<Rightarrow> bool"
  fm_ipnet :: "IpNet prim"
  fm_civil :: "CivilDateTime prim"
  fm_statistics :: "ColumnStatistics prim"
  fm_order_str :: "string set \<Rightarrow> string list"
  fm_order_ip :: "IpAddr set \<Rightarrow> IpAddr list"
  fm_order_port :: "(u16 \<times> u8) set \<Rightarrow> (u16 \<times> u8) list"

definition codec_str :: "format \<Rightarrow> string codec" where
  "codec_str F = prim_codec (\<lambda>s. length s \<le> MAX_LEN) (fm_str F)"

definition codec_bytes :: "format \<Rightarrow> bytes codec" where
  "codec_bytes F = prim_codec (\<lambda>b. length b \<le> MAX_LEN) (fm_bytes F)"

definition codec_duration :: "format \<Rightarrow> Duration codec" where
  "codec_duration F = prim_codec (\<lambda>d. nanos d < 1000000000) (fm_duration F)"

text \<open>
  A timestamp is sent as its nanoseconds, an \<open>i128\<close>
  (\<open>jiff::fmt::serde::timestamp::nanosecond\<close>); a number outside jiff's range is refused.
\<close>

definition codec_timestamp :: "format \<Rightarrow> Timestamp codec" where
  "codec_timestamp F = via_codec (fm_valid_timestamp F)
     (\<lambda>n. if fm_valid_timestamp F (Timestamp n) then Some (Timestamp n) else None)
     as_nanosecond (prim_codec (\<lambda>_. True) (fm_i128 F))"

text \<open>Of an IPv6 socket address, serde carries the address and the port.\<close>

definition codec_socket :: "format \<Rightarrow> SocketAddr codec" where
  "codec_socket F = prim_codec
     (\<lambda>a. case a of SocketAddr_V4 _ _ \<Rightarrow> True | SocketAddr_V6 _ _ flow scope \<Rightarrow> flow = 0 \<and> scope = 0) (fm_socket F)"

definition plain :: "'a prim \<Rightarrow> 'a codec" where
  "plain p = prim_codec (\<lambda>_. True) p"

lemma plain_sel [codec_simps]: "enc (plain p) a = fst p a" "fits (plain p) a"
  by (simp_all add: plain_def)

lemma sized_codec_sel [codec_simps]:
  "enc (codec_str F) s = fst (fm_str F) s" "fits (codec_str F) s \<longleftrightarrow> length s \<le> MAX_LEN"
  "enc (codec_bytes F) b = fst (fm_bytes F) b" "fits (codec_bytes F) b \<longleftrightarrow> length b \<le> MAX_LEN"
  "enc (codec_duration F) d = fst (fm_duration F) d" "fits (codec_duration F) d \<longleftrightarrow> nanos d < 1000000000"
  "enc (codec_timestamp F) t = fst (fm_i128 F) (as_nanosecond t)" "fits (codec_timestamp F) t = fm_valid_timestamp F t"
  "enc (codec_socket F) a = fst (fm_socket F) a" "fits (codec_socket F) (SocketAddr_V4 ip port)"
  "fits (codec_socket F) (SocketAddr_V6 ip6 port flow scope) \<longleftrightarrow> flow = 0 \<and> scope = 0"
  by (simp_all add: codec_str_def codec_bytes_def codec_duration_def codec_timestamp_def codec_socket_def via_codec_def)

text \<open>What the crate relies on: the format carries the values the program has.\<close>

definition lawful_format :: "format \<Rightarrow> bool" where
  "lawful_format F \<longleftrightarrow>
     lawful (plain (fm_variant F)) \<and> lawful (plain (fm_option F)) \<and> lawful (plain (fm_len F))
     \<and> lawful (plain (fm_bool F)) \<and> lawful (plain (fm_u8 F)) \<and> lawful (plain (fm_u16 F))
     \<and> lawful (plain (fm_u32 F)) \<and> lawful (plain (fm_u64 F)) \<and> lawful (plain (fm_i32 F))
     \<and> lawful (plain (fm_i64 F)) \<and> lawful (plain (fm_f32 F)) \<and> lawful (plain (fm_f64 F))
     \<and> lawful (codec_str F) \<and> lawful (codec_bytes F) \<and> lawful (plain (fm_ip F))
     \<and> lawful (codec_socket F) \<and> lawful (codec_duration F) \<and> lawful (plain (fm_i128 F))
     \<and> lawful (plain (fm_ipnet F)) \<and> lawful (plain (fm_civil F)) \<and> lawful (plain (fm_statistics F))
     \<and> orders (fm_order_str F) \<and> orders (fm_order_ip F) \<and> orders (fm_order_port F)"

lemma lawful_format_parts [lawful_rules]:
  assumes "lawful_format F"
  shows "lawful (prim_codec (\<lambda>_. True) (fm_variant F))" "lawful (prim_codec (\<lambda>_. True) (fm_option F))"
    "lawful (prim_codec (\<lambda>_. True) (fm_len F))" "lawful (plain (fm_bool F))" "lawful (plain (fm_u8 F))"
    "lawful (plain (fm_u16 F))" "lawful (plain (fm_u32 F))" "lawful (plain (fm_u64 F))"
    "lawful (plain (fm_i32 F))" "lawful (plain (fm_i64 F))" "lawful (plain (fm_f32 F))"
    "lawful (plain (fm_f64 F))" "lawful (codec_str F)" "lawful (codec_bytes F)" "lawful (plain (fm_ip F))"
    "lawful (codec_socket F)" "lawful (codec_duration F)" "lawful (plain (fm_i128 F))"
    "lawful (plain (fm_ipnet F))" "lawful (plain (fm_civil F))" "lawful (plain (fm_statistics F))"
    "orders (fm_order_str F)" "orders (fm_order_ip F)" "orders (fm_order_port F)"
  using assms by (simp_all add: lawful_format_def plain_def)

lemma lawful_timestamp [lawful_rules]: "lawful_format F \<Longrightarrow> lawful (codec_timestamp F)"
  unfolding codec_timestamp_def
  by (rule lawful_via) (simp_all add: lawful_format_def plain_def)

end
