(* ===== verification/Wire_Derive.thy ===== *)
theory Wire_Derive
  imports Wire_Codec
begin

text \<open>
  The wire form of every type of \<open>src/src/types.rs\<close> that is sent: what
  \<open>derive(Serialize, Deserialize)\<close> makes of its declaration, with the attributes that change
  it. \<open>DataType\<close> and \<open>Lifecycle\<close> travel as numbers (\<open>serde(into, try_from)\<close>,
  \<open>serde(into, from)\<close>), \<open>EventMessage::fields\<close> as a byte string
  (\<open>serde_bytes\<close>), a newtype as what it wraps. Each codec is lawful whenever the format is.
\<close>

named_theorems codec_defs \<open>the codecs of the types\<close>

lemma lawful_unit_arms [lawful_rules]: "list_all lawful_arm (map unit_arm ks)"
  by (induction ks) (simp_all add: lawful_unit_arm)

subsection \<open>Types outside the node families\<close>

definition codec_CustomerDataDeletionRequest :: "format \<Rightarrow> CustomerDataDeletionRequest codec" where [codec_defs]:
  "codec_CustomerDataDeletionRequest F =
     struct_codec
       (\<lambda>(a1, a2).
        \<lparr>cdd_id = a1, cdd_host_fqdn = a2\<rparr>)
       (\<lambda>r.
        (cdd_id r, cdd_host_fqdn r))
       (pair_codec (plain (fm_u32 F)) (codec_str F))"

lemma lawful_CustomerDataDeletionRequest [lawful_rules]: "lawful_format F \<Longrightarrow> lawful (codec_CustomerDataDeletionRequest F)"
  unfolding codec_CustomerDataDeletionRequest_def by (intro lawful_rules) simp_all

definition codec_CustomerDataDeletionReporter :: "format \<Rightarrow> CustomerDataDeletionReporter codec" where [codec_defs]:
  "codec_CustomerDataDeletionReporter F =
     enum_codec (fm_variant F) (map unit_arm
       [Reporter_Sensor, Reporter_SemiSupervised])"

lemma lawful_CustomerDataDeletionReporter [lawful_rules]: "lawful_format F \<Longrightarrow> lawful (codec_CustomerDataDeletionReporter F)"
  by (simp add: codec_CustomerDataDeletionReporter_def lawful_rules)

definition codec_CustomerDataDeletionOutcome :: "format \<Rightarrow> CustomerDataDeletionOutcome codec" where [codec_defs]:
  "codec_CustomerDataDeletionOutcome F =
     enum_codec (fm_variant F)
       [unit_arm Outcome_Succeeded,
        arm (codec_str F) Outcome_Failed
          (\<lambda>r. case r of Outcome_Failed a \<Rightarrow> Some a | _ \<Rightarrow> None)]"

lemma lawful_CustomerDataDeletionOutcome [lawful_rules]: "lawful_format F \<Longrightarrow> lawful (codec_CustomerDataDeletionOutcome F)"
  unfolding codec_CustomerDataDeletionOutcome_def
  by (intro lawful_rules) (auto intro!: lawful_rules split: CustomerDataDeletionOutcome.splits)

definition codec_CustomerDataDeletionReport :: "format \<Rightarrow> CustomerDataDeletionReport codec" where [codec_defs]:
  "codec_CustomerDataDeletionReport F =
     struct_codec
       (\<lambda>(a1, a2, a3, a4, a5).
        \<lparr>cdr_id = a1, cdr_host_fqdn = a2, cdr_completed_at = a3, cdr_reporter = a4,
          cdr_outcome = a5\<rparr>)
       (\<lambda>r.
        (cdr_id r, cdr_host_fqdn r, cdr_completed_at r, cdr_reporter r, cdr_outcome r))
       (pair_codec (plain (fm_u32 F))
       (pair_codec (codec_str F)
       (pair_codec (option_codec (fm_option F) (plain (fm_i64 F)))
       (pair_codec (codec_CustomerDataDeletionReporter F) (codec_CustomerDataDeletionOutcome F)))))"

lemma lawful_CustomerDataDeletionReport [lawful_rules]: "lawful_format F \<Longrightarrow> lawful (codec_CustomerDataDeletionReport F)"
  unfolding codec_CustomerDataDeletionReport_def by (intro lawful_rules) simp_all

definition codec_TrainModelRequest :: "format \<Rightarrow> TrainModelRequest codec" where [codec_defs]:
  "codec_TrainModelRequest F =
     struct_codec
       (\<lambda>(a1, a2, a3).
        \<lparr>tm_run_id = a1, tm_model = a2, tm_definition = a3\<rparr>)
       (\<lambda>r.
        (tm_run_id r, tm_model r, tm_definition r))
       (pair_codec (plain (fm_u32 F))
       (pair_codec (codec_str F) (codec_str F)))"

lemma lawful_TrainModelRequest [lawful_rules]: "lawful_format F \<Longrightarrow> lawful (codec_TrainModelRequest F)"
  unfolding codec_TrainModelRequest_def by (intro lawful_rules) simp_all

definition codec_CloneModelRequest :: "format \<Rightarrow> CloneModelRequest codec" where [codec_defs]:
  "codec_CloneModelRequest F =
     struct_codec
       (\<lambda>(a1, a2, a3, a4).
        \<lparr>cm_run_id = a1, cm_source = a2, cm_target_name = a3, cm_strip_events = a4\<rparr>)
       (\<lambda>r.
        (cm_run_id r, cm_source r, cm_target_name r, cm_strip_events r))
       (pair_codec (plain (fm_u32 F))
       (pair_codec (codec_str F)
       (pair_codec (codec_str F) (plain (fm_bool F)))))"

lemma lawful_CloneModelRequest [lawful_rules]: "lawful_format F \<Longrightarrow> lawful (codec_CloneModelRequest F)"
  unfolding codec_CloneModelRequest_def by (intro lawful_rules) simp_all

definition codec_ReportedRunState :: "format \<Rightarrow> ReportedRunState codec" where [codec_defs]:
  "codec_ReportedRunState F =
     enum_codec (fm_variant F) (map unit_arm
       [Run_Started, Run_Failed, Run_Cancelled])"

lemma lawful_ReportedRunState [lawful_rules]: "lawful_format F \<Longrightarrow> lawful (codec_ReportedRunState F)"
  by (simp add: codec_ReportedRunState_def lawful_rules)

definition codec_DetectorState :: "format \<Rightarrow> DetectorState codec" where [codec_defs]:
  "codec_DetectorState F =
     enum_codec (fm_variant F) (map unit_arm
       [Detector_Running, Detector_Disabled, Detector_NoModel, Detector_PausedForRun])"

lemma lawful_DetectorState [lawful_rules]: "lawful_format F \<Longrightarrow> lawful (codec_DetectorState F)"
  by (simp add: codec_DetectorState_def lawful_rules)

definition codec_RoundOutcome :: "format \<Rightarrow> RoundOutcome codec" where [codec_defs]:
  "codec_RoundOutcome F =
     enum_codec (fm_variant F) (map unit_arm
       [Round_Succeeded, Round_Failed])"

lemma lawful_RoundOutcome [lawful_rules]: "lawful_format F \<Longrightarrow> lawful (codec_RoundOutcome F)"
  by (simp add: codec_RoundOutcome_def lawful_rules)

definition codec_SourceState :: "format \<Rightarrow> SourceState codec" where [codec_defs]:
  "codec_SourceState F =
     enum_codec (fm_variant F) (map unit_arm
       [Source_Served, Source_ServedByNoNode, Source_Failed])"

lemma lawful_SourceState [lawful_rules]: "lawful_format F \<Longrightarrow> lawful (codec_SourceState F)"
  by (simp add: codec_SourceState_def lawful_rules)

definition codec_SourceStatus :: "format \<Rightarrow> SourceStatus codec" where [codec_defs]:
  "codec_SourceStatus F =
     struct_codec
       (\<lambda>(a1, a2, a3).
        \<lparr>ss_source = a1, ss_state = a2, ss_reason = a3\<rparr>)
       (\<lambda>r.
        (ss_source r, ss_state r, ss_reason r))
       (pair_codec (codec_str F)
       (pair_codec (codec_SourceState F) (option_codec (fm_option F) (codec_str F))))"

lemma lawful_SourceStatus [lawful_rules]: "lawful_format F \<Longrightarrow> lawful (codec_SourceStatus F)"
  unfolding codec_SourceStatus_def by (intro lawful_rules) simp_all

definition codec_DetectorStatusReport :: "format \<Rightarrow> DetectorStatusReport codec" where [codec_defs]:
  "codec_DetectorStatusReport F =
     struct_codec
       (\<lambda>(a1, a2, a3, a4, a5, a6, a7).
        \<lparr>ds_detector_id = a1, ds_state = a2, ds_finished_at = a3, ds_outcome = a4,
          ds_reason = a5, ds_events = a6, ds_sources = a7\<rparr>)
       (\<lambda>r.
        (ds_detector_id r, ds_state r, ds_finished_at r, ds_outcome r, ds_reason r, ds_events r,
         ds_sources r))
       (pair_codec (plain (fm_i32 F))
       (pair_codec (codec_DetectorState F)
       (pair_codec (option_codec (fm_option F) (plain (fm_i64 F)))
       (pair_codec (option_codec (fm_option F) (codec_RoundOutcome F))
       (pair_codec (option_codec (fm_option F) (codec_str F))
       (pair_codec (plain (fm_u64 F)) (list_codec (fm_len F) (codec_SourceStatus F))))))))"

lemma lawful_DetectorStatusReport [lawful_rules]: "lawful_format F \<Longrightarrow> lawful (codec_DetectorStatusReport F)"
  unfolding codec_DetectorStatusReport_def by (intro lawful_rules) simp_all

definition codec_DataSourceKey :: "format \<Rightarrow> DataSourceKey codec" where [codec_defs]:
  "codec_DataSourceKey F =
     enum_codec (fm_variant F)
       [arm (plain (fm_u32 F)) DataSourceKey_Id
          (\<lambda>r. case r of DataSourceKey_Id a \<Rightarrow> Some a | _ \<Rightarrow> None),
        arm (codec_str F) DataSourceKey_Name
          (\<lambda>r. case r of DataSourceKey_Name a \<Rightarrow> Some a | _ \<Rightarrow> None)]"

lemma lawful_DataSourceKey [lawful_rules]: "lawful_format F \<Longrightarrow> lawful (codec_DataSourceKey F)"
  unfolding codec_DataSourceKey_def
  by (intro lawful_rules) (auto intro!: lawful_rules split: DataSourceKey.splits)

definition codec_DataType :: "format \<Rightarrow> DataType codec" where [codec_defs]:
  "codec_DataType F =
     via_codec (\<lambda>_. True) DataType_try_from DataType_into (plain (fm_u16 F))"

lemma lawful_DataType [lawful_rules]: "lawful_format F \<Longrightarrow> lawful (codec_DataType F)"
  by (auto simp: codec_DataType_def intro!: lawful_via lawful_rules)

definition codec_DataSource :: "format \<Rightarrow> DataSource codec" where [codec_defs]:
  "codec_DataSource F =
     struct_codec
       (\<lambda>(a1, a2, a3, a4, a5, a6, a7, a8).
        \<lparr>dsrc_id = a1, dsrc_name = a2, dsrc_server_name = a3, dsrc_address = a4,
          dsrc_data_type = a5, dsrc_source = a6, dsrc_kind = a7, dsrc_description = a8\<rparr>)
       (\<lambda>r.
        (dsrc_id r, dsrc_name r, dsrc_server_name r, dsrc_address r, dsrc_data_type r,
         dsrc_source r, dsrc_kind r, dsrc_description r))
       (pair_codec (plain (fm_u32 F))
       (pair_codec (codec_str F)
       (pair_codec (codec_str F)
       (pair_codec (codec_socket F)
       (pair_codec (codec_DataType F)
       (pair_codec (codec_str F)
       (pair_codec (option_codec (fm_option F) (codec_str F)) (codec_str F))))))))"

lemma lawful_DataSource [lawful_rules]: "lawful_format F \<Longrightarrow> lawful (codec_DataSource F)"
  unfolding codec_DataSource_def by (intro lawful_rules) simp_all

definition codec_ResourceUsage :: "format \<Rightarrow> ResourceUsage codec" where [codec_defs]:
  "codec_ResourceUsage F =
     struct_codec
       (\<lambda>(a1, a2, a3, a4, a5).
        \<lparr>ru_cpu_usage = a1, ru_total_memory = a2, ru_used_memory = a3, ru_disk_used_bytes = a4,
          ru_disk_available_bytes = a5\<rparr>)
       (\<lambda>r.
        (ru_cpu_usage r, ru_total_memory r, ru_used_memory r, ru_disk_used_bytes r,
         ru_disk_available_bytes r))
       (pair_codec (plain (fm_f32 F))
       (pair_codec (plain (fm_u64 F))
       (pair_codec (plain (fm_u64 F))
       (pair_codec (plain (fm_u64 F)) (plain (fm_u64 F))))))"

lemma lawful_ResourceUsage [lawful_rules]: "lawful_format F \<Longrightarrow> lawful (codec_ResourceUsage F)"
  unfolding codec_ResourceUsage_def by (intro lawful_rules) simp_all

definition codec_Process :: "format \<Rightarrow> Process codec" where [codec_defs]:
  "codec_Process F =
     struct_codec
       (\<lambda>(a1, a2, a3, a4, a5).
        \<lparr>proc_user = a1, proc_cpu_usage = a2, proc_mem_usage = a3, proc_start_time = a4,
          proc_command = a5\<rparr>)
       (\<lambda>r.
        (proc_user r, proc_cpu_usage r, proc_mem_usage r, proc_start_time r, proc_command r))
       (pair_codec (codec_str F)
       (pair_codec (plain (fm_f32 F))
       (pair_codec (plain (fm_f64 F))
       (pair_codec (plain (fm_i64 F)) (codec_str F)))))"

lemma lawful_Process [lawful_rules]: "lawful_format F \<Longrightarrow> lawful (codec_Process F)"
  unfolding codec_Process_def by (intro lawful_rules) simp_all

definition codec_HostNetworkGroup :: "format \<Rightarrow> HostNetworkGroup codec" where [codec_defs]:
  "codec_HostNetworkGroup F =
     struct_codec
       (\<lambda>(a1, a2, a3).
        \<lparr>hng_hosts = a1, hng_networks = a2, hng_ip_ranges = a3\<rparr>)
       (\<lambda>r.
        (hng_hosts r, hng_networks r, hng_ip_ranges r))
       (pair_codec (list_codec (fm_len F) (plain (fm_ip F)))
       (pair_codec (list_codec (fm_len F) (plain (fm_ipnet F))) (list_codec (fm_len F) (pair_codec (plain (fm_ip F)) (plain (fm_ip F))))))"

lemma lawful_HostNetworkGroup [lawful_rules]: "lawful_format F \<Longrightarrow> lawful (codec_HostNetworkGroup F)"
  unfolding codec_HostNetworkGroup_def by (intro lawful_rules) simp_all

definition codec_SamplingKind :: "format \<Rightarrow> SamplingKind codec" where [codec_defs]:
  "codec_SamplingKind F =
     enum_codec (fm_variant F) (map unit_arm
       [Sampling_Conn, Sampling_Dns, Sampling_Http, Sampling_Rdp])"

lemma lawful_SamplingKind [lawful_rules]: "lawful_format F \<Longrightarrow> lawful (codec_SamplingKind F)"
  by (simp add: codec_SamplingKind_def lawful_rules)

definition codec_SamplingPolicy :: "format \<Rightarrow> SamplingPolicy codec" where [codec_defs]:
  "codec_SamplingPolicy F =
     struct_codec
       (\<lambda>(a1, a2, a3, a4, a5, a6, a7, a8, a9).
        \<lparr>sp_id = a1, sp_kind = a2, sp_interval = a3, sp_period = a4, sp_offset = a5,
          sp_src_ip = a6, sp_dst_ip = a7, sp_node = a8, sp_column = a9\<rparr>)
       (\<lambda>r.
        (sp_id r, sp_kind r, sp_interval r, sp_period r, sp_offset r, sp_src_ip r, sp_dst_ip r,
         sp_node r, sp_column r))
       (pair_codec (plain (fm_u32 F))
       (pair_codec (codec_SamplingKind F)
       (pair_codec (codec_duration F)
       (pair_codec (codec_duration F)
       (pair_codec (plain (fm_i32 F))
       (pair_codec (option_codec (fm_option F) (plain (fm_ip F)))
       (pair_codec (option_codec (fm_option F) (plain (fm_ip F)))
       (pair_codec (option_codec (fm_option F) (codec_str F)) (option_codec (fm_option F) (plain (fm_u32 F)))))))))))"

lemma lawful_SamplingPolicy [lawful_rules]: "lawful_format F \<Longrightarrow> lawful (codec_SamplingPolicy F)"
  unfolding codec_SamplingPolicy_def by (intro lawful_rules) simp_all

definition codec_TrafficFilterRule :: "format \<Rightarrow> TrafficFilterRule codec" where [codec_defs]:
  "codec_TrafficFilterRule F =
     pair_codec (plain (fm_ipnet F)) (pair_codec (option_codec (fm_option F) (list_codec (fm_len F) (plain (fm_u16 F)))) (option_codec (fm_option F) (list_codec (fm_len F) (plain (fm_u16 F)))))"

lemma lawful_TrafficFilterRule [lawful_rules]: "lawful_format F \<Longrightarrow> lawful (codec_TrafficFilterRule F)"
  unfolding codec_TrafficFilterRule_def by (intro lawful_rules)

definition codec_EventCategory :: "format \<Rightarrow> EventCategory codec" where [codec_defs]:
  "codec_EventCategory F =
     enum_codec (fm_variant F) (map unit_arm
       [Reconnaissance, InitialAccess, Execution, CredentialAccess, Discovery, LateralMovement,
        CommandAndControl, Exfiltration, Impact, Collection, DefenseEvasion, Persistence,
        PrivilegeEscalation, ResourceDevelopment])"

lemma lawful_EventCategory [lawful_rules]: "lawful_format F \<Longrightarrow> lawful (codec_EventCategory F)"
  by (simp add: codec_EventCategory_def lawful_rules)

definition codec_LabelDbKind :: "format \<Rightarrow> LabelDbKind codec" where [codec_defs]:
  "codec_LabelDbKind F =
     via_codec (\<lambda>_. True) LabelDbKind_try_from LabelDbKind_into (plain (fm_u8 F))"

lemma lawful_LabelDbKind [lawful_rules]: "lawful_format F \<Longrightarrow> lawful (codec_LabelDbKind F)"
  by (auto simp: codec_LabelDbKind_def intro!: lawful_via lawful_rules)

definition codec_RuleKind :: "format \<Rightarrow> RuleKind codec" where [codec_defs]:
  "codec_RuleKind F =
     enum_codec (fm_variant F) (map unit_arm
       [Rule_Os, Rule_AgentSoftware])"

lemma lawful_RuleKind [lawful_rules]: "lawful_format F \<Longrightarrow> lawful (codec_RuleKind F)"
  by (simp add: codec_RuleKind_def lawful_rules)

definition codec_UserAgent :: "format \<Rightarrow> UserAgent codec" where [codec_defs]:
  "codec_UserAgent F =
     struct_codec
       (\<lambda>(a1, a2, a3, a4).
        \<lparr>ua_name = a1, ua_header = a2, ua_kind = a3, ua_last_modification_time = a4\<rparr>)
       (\<lambda>r.
        (ua_name r, ua_header r, ua_kind r, ua_last_modification_time r))
       (pair_codec (codec_str F)
       (pair_codec (codec_str F)
       (pair_codec (codec_RuleKind F) (plain (fm_i64 F)))))"

lemma lawful_UserAgent [lawful_rules]: "lawful_format F \<Longrightarrow> lawful (codec_UserAgent F)"
  unfolding codec_UserAgent_def by (intro lawful_rules) simp_all

definition codec_LabelDbRule :: "format \<Rightarrow> LabelDbRule codec" where [codec_defs]:
  "codec_LabelDbRule F =
     struct_codec
       (\<lambda>(a1, a2, a3, a4, a5, a6, a7, a8, a9).
        \<lparr>ldr_rule_id = a1, ldr_category = a2, ldr_name = a3, ldr_kind = a4,
          ldr_description = a5, ldr_references = a6, ldr_samples = a7, ldr_signatures = a8,
          ldr_confidence = a9\<rparr>)
       (\<lambda>r.
        (ldr_rule_id r, ldr_category r, ldr_name r, ldr_kind r, ldr_description r,
         ldr_references r, ldr_samples r, ldr_signatures r, ldr_confidence r))
       (pair_codec (plain (fm_u32 F))
       (pair_codec (option_codec (fm_option F) (codec_EventCategory F))
       (pair_codec (codec_str F)
       (pair_codec (option_codec (fm_option F) (codec_RuleKind F))
       (pair_codec (option_codec (fm_option F) (codec_str F))
       (pair_codec (option_codec (fm_option F) (list_codec (fm_len F) (codec_str F)))
       (pair_codec (option_codec (fm_option F) (list_codec (fm_len F) (codec_str F)))
       (pair_codec (option_codec (fm_option F) (list_codec (fm_len F) (codec_str F))) (option_codec (fm_option F) (plain (fm_f32 F)))))))))))"

lemma lawful_LabelDbRule [lawful_rules]: "lawful_format F \<Longrightarrow> lawful (codec_LabelDbRule F)"
  unfolding codec_LabelDbRule_def by (intro lawful_rules) simp_all

definition codec_LabelDb :: "format \<Rightarrow> LabelDb codec" where [codec_defs]:
  "codec_LabelDb F =
     struct_codec
       (\<lambda>(a1, a2, a3, a4, a5, a6, a7).
        \<lparr>ld_id = a1, ld_name = a2, ld_description = a3, ld_kind = a4, ld_category = a5,
          ld_version = a6, ld_patterns = a7\<rparr>)
       (\<lambda>r.
        (ld_id r, ld_name r, ld_description r, ld_kind r, ld_category r, ld_version r,
         ld_patterns r))
       (pair_codec (plain (fm_u32 F))
       (pair_codec (codec_str F)
       (pair_codec (option_codec (fm_option F) (codec_str F))
       (pair_codec (codec_LabelDbKind F)
       (pair_codec (option_codec (fm_option F) (codec_EventCategory F))
       (pair_codec (codec_str F) (list_codec (fm_len F) (codec_LabelDbRule F))))))))"

lemma lawful_LabelDb [lawful_rules]: "lawful_format F \<Longrightarrow> lawful (codec_LabelDb F)"
  unfolding codec_LabelDb_def by (intro lawful_rules) simp_all

definition codec_Status :: "format \<Rightarrow> Status codec" where [codec_defs]:
  "codec_Status F =
     enum_codec (fm_variant F) (map unit_arm
       [Status_Ready, Status_Idle])"

lemma lawful_Status [lawful_rules]: "lawful_format F \<Longrightarrow> lawful (codec_Status F)"
  by (simp add: codec_Status_def lawful_rules)

definition codec_ManifestFormatRange :: "format \<Rightarrow> ManifestFormatRange codec" where [codec_defs]:
  "codec_ManifestFormatRange F =
     struct_codec
       (\<lambda>(a1, a2).
        \<lparr>mf_min = a1, mf_max = a2\<rparr>)
       (\<lambda>r.
        (mf_min r, mf_max r))
       (pair_codec (plain (fm_u32 F)) (plain (fm_u32 F)))"

lemma lawful_ManifestFormatRange [lawful_rules]: "lawful_format F \<Longrightarrow> lawful (codec_ManifestFormatRange F)"
  unfolding codec_ManifestFormatRange_def by (intro lawful_rules) simp_all

definition codec_ProvisioningFingerprint :: "format \<Rightarrow> ProvisioningFingerprint codec" where [codec_defs]:
  "codec_ProvisioningFingerprint F =
     struct_codec
       (\<lambda>(a1, a2).
        \<lparr>pf_components = a1, pf_domain = a2\<rparr>)
       (\<lambda>r.
        (pf_components r, pf_domain r))
       (pair_codec (map_codec (fm_len F) (fm_order_str F) (codec_str F) (codec_str F)) (codec_str F))"

lemma lawful_ProvisioningFingerprint [lawful_rules]: "lawful_format F \<Longrightarrow> lawful (codec_ProvisioningFingerprint F)"
  unfolding codec_ProvisioningFingerprint_def by (intro lawful_rules) simp_all

definition codec_AuditHealth :: "format \<Rightarrow> AuditHealth codec" where [codec_defs]:
  "codec_AuditHealth F =
     struct_codec
       (\<lambda>(a1, a2).
        \<lparr>ah_below_low_water = a1, ah_intent_without_outcome = a2\<rparr>)
       (\<lambda>r.
        (ah_below_low_water r, ah_intent_without_outcome r))
       (pair_codec (plain (fm_bool F)) (plain (fm_u64 F)))"

lemma lawful_AuditHealth [lawful_rules]: "lawful_format F \<Longrightarrow> lawful (codec_AuditHealth F)"
  unfolding codec_AuditHealth_def by (intro lawful_rules) simp_all

definition codec_ThreatLevel :: "format \<Rightarrow> ThreatLevel codec" where [codec_defs]:
  "codec_ThreatLevel F =
     enum_codec (fm_variant F) (map unit_arm
       [VeryLow, Low, Medium, High, VeryHigh])"

lemma lawful_ThreatLevel [lawful_rules]: "lawful_format F \<Longrightarrow> lawful (codec_ThreatLevel F)"
  by (simp add: codec_ThreatLevel_def lawful_rules)

definition codec_ColumnStatisticsUpdate :: "format \<Rightarrow> ColumnStatisticsUpdate codec" where [codec_defs]:
  "codec_ColumnStatisticsUpdate F =
     struct_codec
       (\<lambda>(a1, a2).
        \<lparr>csu_cluster_id = a1, csu_column_statistics = a2\<rparr>)
       (\<lambda>r.
        (csu_cluster_id r, csu_column_statistics r))
       (pair_codec (plain (fm_u32 F)) (list_codec (fm_len F) (plain (fm_statistics F))))"

lemma lawful_ColumnStatisticsUpdate [lawful_rules]: "lawful_format F \<Longrightarrow> lawful (codec_ColumnStatisticsUpdate F)"
  unfolding codec_ColumnStatisticsUpdate_def by (intro lawful_rules) simp_all

definition codec_TimeCount :: "format \<Rightarrow> TimeCount codec" where [codec_defs]:
  "codec_TimeCount F =
     struct_codec
       (\<lambda>(a1, a2).
        \<lparr>tc_time = a1, tc_count = a2\<rparr>)
       (\<lambda>r.
        (tc_time r, tc_count r))
       (pair_codec (plain (fm_civil F)) (plain (fm_u64 F)))"

lemma lawful_TimeCount [lawful_rules]: "lawful_format F \<Longrightarrow> lawful (codec_TimeCount F)"
  unfolding codec_TimeCount_def by (intro lawful_rules) simp_all

definition codec_TimeSeries :: "format \<Rightarrow> TimeSeries codec" where [codec_defs]:
  "codec_TimeSeries F =
     struct_codec
       (\<lambda>(a1, a2).
        \<lparr>ts_count_index = a1, ts_series = a2\<rparr>)
       (\<lambda>r.
        (ts_count_index r, ts_series r))
       (pair_codec (option_codec (fm_option F) (plain (fm_u64 F))) (list_codec (fm_len F) (codec_TimeCount F)))"

lemma lawful_TimeSeries [lawful_rules]: "lawful_format F \<Longrightarrow> lawful (codec_TimeSeries F)"
  unfolding codec_TimeSeries_def by (intro lawful_rules) simp_all

definition codec_TimeSeriesUpdate :: "format \<Rightarrow> TimeSeriesUpdate codec" where [codec_defs]:
  "codec_TimeSeriesUpdate F =
     struct_codec
       (\<lambda>(a1, a2).
        \<lparr>tsu_cluster_id = a1, tsu_time_series = a2\<rparr>)
       (\<lambda>r.
        (tsu_cluster_id r, tsu_time_series r))
       (pair_codec (plain (fm_u32 F)) (list_codec (fm_len F) (codec_TimeSeries F)))"

lemma lawful_TimeSeriesUpdate [lawful_rules]: "lawful_format F \<Longrightarrow> lawful (codec_TimeSeriesUpdate F)"
  unfolding codec_TimeSeriesUpdate_def by (intro lawful_rules) simp_all

definition codec_UpdateClusterRequest :: "format \<Rightarrow> UpdateClusterRequest codec" where [codec_defs]:
  "codec_UpdateClusterRequest F =
     struct_codec
       (\<lambda>(a1, a2, a3, a4, a5, a6, a7, a8).
        \<lparr>uc_cluster_id = a1, uc_detector_id = a2, uc_signature = a3, uc_score = a4,
          uc_size = a5, uc_event_ids = a6, uc_status_id = a7, uc_labels = a8\<rparr>)
       (\<lambda>r.
        (uc_cluster_id r, uc_detector_id r, uc_signature r, uc_score r, uc_size r,
         uc_event_ids r, uc_status_id r, uc_labels r))
       (pair_codec (plain (fm_u32 F))
       (pair_codec (plain (fm_i32 F))
       (pair_codec (codec_str F)
       (pair_codec (option_codec (fm_option F) (plain (fm_f64 F)))
       (pair_codec (plain (fm_i64 F))
       (pair_codec (list_codec (fm_len F) (pair_codec (plain (fm_i64 F)) (codec_str F)))
       (pair_codec (plain (fm_i32 F)) (option_codec (fm_option F) (list_codec (fm_len F) (codec_str F))))))))))"

lemma lawful_UpdateClusterRequest [lawful_rules]: "lawful_format F \<Longrightarrow> lawful (codec_UpdateClusterRequest F)"
  unfolding codec_UpdateClusterRequest_def by (intro lawful_rules) simp_all

definition codec_OutlierInfo :: "format \<Rightarrow> OutlierInfo codec" where [codec_defs]:
  "codec_OutlierInfo F =
     struct_codec
       (\<lambda>(a1, a2, a3, a4).
        \<lparr>oi_id = a1, oi_rank = a2, oi_distance = a3, oi_sensor = a4\<rparr>)
       (\<lambda>r.
        (oi_id r, oi_rank r, oi_distance r, oi_sensor r))
       (pair_codec (plain (fm_i64 F))
       (pair_codec (plain (fm_i64 F))
       (pair_codec (plain (fm_f64 F)) (codec_str F))))"

lemma lawful_OutlierInfo [lawful_rules]: "lawful_format F \<Longrightarrow> lawful (codec_OutlierInfo F)"
  unfolding codec_OutlierInfo_def by (intro lawful_rules) simp_all

definition codec_EventKind :: "format \<Rightarrow> EventKind codec" where [codec_defs]:
  "codec_EventKind F =
     enum_codec (fm_variant F) (map unit_arm
       [DnsCovertChannel, HttpThreat, RdpBruteForce, RepeatedHttpSessions, ExtraThreat,
        TorConnection, DomainGenerationAlgorithm, FtpBruteForce, FtpPlainText, PortScan,
        MultiHostPortScan, NonBrowser, LdapBruteForce, LdapPlainText, ExternalDdos,
        CryptocurrencyMiningPool, BlocklistConn, BlocklistDns, BlocklistDceRpc, BlocklistFtp,
        BlocklistHttp, BlocklistKerberos, BlocklistLdap, BlocklistMqtt, BlocklistNfs,
        BlocklistNtlm, BlocklistRdp, BlocklistSmb, BlocklistSmtp, BlocklistSsh, BlocklistTls,
        WindowsThreat, NetworkThreat, LockyRansomware, SuspiciousTlsTraffic, BlocklistBootp,
        BlocklistDhcp, TorConnectionConn, BlocklistRadius, BlocklistMalformedDns,
        UnusualDestinationPattern])"

lemma lawful_EventKind [lawful_rules]: "lawful_format F \<Longrightarrow> lawful (codec_EventKind F)"
  by (simp add: codec_EventKind_def lawful_rules)

definition codec_EventMessage :: "format \<Rightarrow> EventMessage codec" where [codec_defs]:
  "codec_EventMessage F =
     struct_codec
       (\<lambda>(a1, a2, a3).
        \<lparr>em_time = a1, em_kind = a2, em_fields = a3\<rparr>)
       (\<lambda>r.
        (em_time r, em_kind r, em_fields r))
       (pair_codec (codec_timestamp F)
       (pair_codec (codec_EventKind F) (codec_bytes F)))"

lemma lawful_EventMessage [lawful_rules]: "lawful_format F \<Longrightarrow> lawful (codec_EventMessage F)"
  unfolding codec_EventMessage_def by (intro lawful_rules) simp_all

subsection \<open>Types of the node families\<close>

definition codec_NodeServiceRequest :: "format \<Rightarrow> NodeServiceRequest codec" where [codec_defs]:
  "codec_NodeServiceRequest F =
     enum_codec (fm_variant F)
       [arm (codec_str F) Service_Start
          (\<lambda>r. case r of Service_Start a \<Rightarrow> Some a | _ \<Rightarrow> None),
        arm (codec_str F) Service_Stop
          (\<lambda>r. case r of Service_Stop a \<Rightarrow> Some a | _ \<Rightarrow> None),
        arm (codec_str F) Service_Status
          (\<lambda>r. case r of Service_Status a \<Rightarrow> Some a | _ \<Rightarrow> None),
        arm (codec_str F) Service_Restart
          (\<lambda>r. case r of Service_Restart a \<Rightarrow> Some a | _ \<Rightarrow> None)]"

lemma lawful_NodeServiceRequest [lawful_rules]: "lawful_format F \<Longrightarrow> lawful (codec_NodeServiceRequest F)"
  unfolding codec_NodeServiceRequest_def
  by (intro lawful_rules) (auto intro!: lawful_rules split: NodeServiceRequest.splits)

definition codec_NodeServiceResponse :: "format \<Rightarrow> NodeServiceResponse codec" where [codec_defs]:
  "codec_NodeServiceResponse F =
     enum_codec (fm_variant F)
       [arm (plain (fm_bool F)) ServiceR_Status
          (\<lambda>r. case r of ServiceR_Status a \<Rightarrow> Some a | _ \<Rightarrow> None),
        unit_arm ServiceR_Done]"

lemma lawful_NodeServiceResponse [lawful_rules]: "lawful_format F \<Longrightarrow> lawful (codec_NodeServiceResponse F)"
  unfolding codec_NodeServiceResponse_def
  by (intro lawful_rules) (auto intro!: lawful_rules split: NodeServiceResponse.splits)

definition codec_NodeNetworkInterfaceConfig :: "format \<Rightarrow> NodeNetworkInterfaceConfig codec" where [codec_defs]:
  "codec_NodeNetworkInterfaceConfig F =
     struct_codec
       (\<lambda>(a1, a2, a3, a4).
        \<lparr>nic_addresses = a1, nic_dhcp4 = a2, nic_gateway4 = a3, nic_nameservers = a4\<rparr>)
       (\<lambda>r.
        (nic_addresses r, nic_dhcp4 r, nic_gateway4 r, nic_nameservers r))
       (pair_codec (option_codec (fm_option F) (list_codec (fm_len F) (codec_str F)))
       (pair_codec (option_codec (fm_option F) (plain (fm_bool F)))
       (pair_codec (option_codec (fm_option F) (codec_str F)) (option_codec (fm_option F) (list_codec (fm_len F) (codec_str F))))))"

lemma lawful_NodeNetworkInterfaceConfig [lawful_rules]: "lawful_format F \<Longrightarrow> lawful (codec_NodeNetworkInterfaceConfig F)"
  unfolding codec_NodeNetworkInterfaceConfig_def by (intro lawful_rules) simp_all

definition codec_NodeNetworkInterface :: "format \<Rightarrow> NodeNetworkInterface codec" where [codec_defs]:
  "codec_NodeNetworkInterface F =
     struct_codec
       (\<lambda>(a1, a2).
        \<lparr>ni_device = a1, ni_config = a2\<rparr>)
       (\<lambda>r.
        (ni_device r, ni_config r))
       (pair_codec (codec_str F) (codec_NodeNetworkInterfaceConfig F))"

lemma lawful_NodeNetworkInterface [lawful_rules]: "lawful_format F \<Longrightarrow> lawful (codec_NodeNetworkInterface F)"
  unfolding codec_NodeNetworkInterface_def by (intro lawful_rules) simp_all

definition codec_NodeNetworkInterfaceRequest :: "format \<Rightarrow> NodeNetworkInterfaceRequest codec" where [codec_defs]:
  "codec_NodeNetworkInterfaceRequest F =
     enum_codec (fm_variant F)
       [arm (option_codec (fm_option F) (codec_str F)) Interface_List
          (\<lambda>r. case r of Interface_List a \<Rightarrow> Some a | _ \<Rightarrow> None),
        arm (codec_str F) Interface_Get
          (\<lambda>r. case r of Interface_Get a \<Rightarrow> Some a | _ \<Rightarrow> None),
        arm (codec_str F) Interface_ResetConfig
          (\<lambda>r. case r of Interface_ResetConfig a \<Rightarrow> Some a | _ \<Rightarrow> None),
        arm (pair_codec (codec_str F) (codec_NodeNetworkInterfaceConfig F)) (\<lambda>(a, b). Interface_Set a b)
          (\<lambda>r. case r of Interface_Set a b \<Rightarrow> Some (a, b) | _ \<Rightarrow> None),
        arm (pair_codec (codec_str F) (codec_NodeNetworkInterfaceConfig F)) (\<lambda>(a, b). Interface_Remove a b)
          (\<lambda>r. case r of Interface_Remove a b \<Rightarrow> Some (a, b) | _ \<Rightarrow> None)]"

lemma lawful_NodeNetworkInterfaceRequest [lawful_rules]: "lawful_format F \<Longrightarrow> lawful (codec_NodeNetworkInterfaceRequest F)"
  unfolding codec_NodeNetworkInterfaceRequest_def
  by (intro lawful_rules) (auto intro!: lawful_rules split: NodeNetworkInterfaceRequest.splits)

definition codec_NodeNetworkInterfaceResponse :: "format \<Rightarrow> NodeNetworkInterfaceResponse codec" where [codec_defs]:
  "codec_NodeNetworkInterfaceResponse F =
     enum_codec (fm_variant F)
       [arm (list_codec (fm_len F) (codec_str F)) InterfaceR_List
          (\<lambda>r. case r of InterfaceR_List a \<Rightarrow> Some a | _ \<Rightarrow> None),
        arm (option_codec (fm_option F) (codec_NodeNetworkInterface F)) InterfaceR_Get
          (\<lambda>r. case r of InterfaceR_Get a \<Rightarrow> Some a | _ \<Rightarrow> None),
        unit_arm InterfaceR_Done]"

lemma lawful_NodeNetworkInterfaceResponse [lawful_rules]: "lawful_format F \<Longrightarrow> lawful (codec_NodeNetworkInterfaceResponse F)"
  unfolding codec_NodeNetworkInterfaceResponse_def
  by (intro lawful_rules) (auto intro!: lawful_rules split: NodeNetworkInterfaceResponse.splits)

definition codec_NodeHostnameRequest :: "format \<Rightarrow> NodeHostnameRequest codec" where [codec_defs]:
  "codec_NodeHostnameRequest F =
     enum_codec (fm_variant F)
       [unit_arm Hostname_Get,
        arm (codec_str F) Hostname_Set
          (\<lambda>r. case r of Hostname_Set a \<Rightarrow> Some a | _ \<Rightarrow> None)]"

lemma lawful_NodeHostnameRequest [lawful_rules]: "lawful_format F \<Longrightarrow> lawful (codec_NodeHostnameRequest F)"
  unfolding codec_NodeHostnameRequest_def
  by (intro lawful_rules) (auto intro!: lawful_rules split: NodeHostnameRequest.splits)

definition codec_NodeHostnameResponse :: "format \<Rightarrow> NodeHostnameResponse codec" where [codec_defs]:
  "codec_NodeHostnameResponse F =
     enum_codec (fm_variant F)
       [arm (codec_str F) HostnameR_Get
          (\<lambda>r. case r of HostnameR_Get a \<Rightarrow> Some a | _ \<Rightarrow> None),
        unit_arm HostnameR_Done]"

lemma lawful_NodeHostnameResponse [lawful_rules]: "lawful_format F \<Longrightarrow> lawful (codec_NodeHostnameResponse F)"
  unfolding codec_NodeHostnameResponse_def
  by (intro lawful_rules) (auto intro!: lawful_rules split: NodeHostnameResponse.splits)

definition codec_NodeTimeSyncRequest :: "format \<Rightarrow> NodeTimeSyncRequest codec" where [codec_defs]:
  "codec_NodeTimeSyncRequest F =
     enum_codec (fm_variant F)
       [unit_arm TimeSync_Get,
        arm (list_codec (fm_len F) (codec_str F)) TimeSync_Set
          (\<lambda>r. case r of TimeSync_Set a \<Rightarrow> Some a | _ \<Rightarrow> None),
        unit_arm TimeSync_Enable,
        unit_arm TimeSync_Disable,
        unit_arm TimeSync_Status]"

lemma lawful_NodeTimeSyncRequest [lawful_rules]: "lawful_format F \<Longrightarrow> lawful (codec_NodeTimeSyncRequest F)"
  unfolding codec_NodeTimeSyncRequest_def
  by (intro lawful_rules) (auto intro!: lawful_rules split: NodeTimeSyncRequest.splits)

definition codec_NodeTimeSyncResponse :: "format \<Rightarrow> NodeTimeSyncResponse codec" where [codec_defs]:
  "codec_NodeTimeSyncResponse F =
     enum_codec (fm_variant F)
       [arm (option_codec (fm_option F) (list_codec (fm_len F) (codec_str F))) TimeSyncR_Get
          (\<lambda>r. case r of TimeSyncR_Get a \<Rightarrow> Some a | _ \<Rightarrow> None),
        arm (pair_codec (plain (fm_bool F)) (pair_codec (plain (fm_bool F)) (pair_codec (option_codec (fm_option F) (codec_str F)) (option_codec (fm_option F) (plain (fm_i64 F)))))) (\<lambda>(a, b, c, d). TimeSyncR_Status a b c d)
          (\<lambda>r. case r of TimeSyncR_Status a b c d \<Rightarrow> Some (a, b, c, d) | _ \<Rightarrow> None),
        unit_arm TimeSyncR_Done]"

lemma lawful_NodeTimeSyncResponse [lawful_rules]: "lawful_format F \<Longrightarrow> lawful (codec_NodeTimeSyncResponse F)"
  unfolding codec_NodeTimeSyncResponse_def
  by (intro lawful_rules) (auto intro!: lawful_rules split: NodeTimeSyncResponse.splits)

definition codec_NodeLoggingProtocol :: "format \<Rightarrow> NodeLoggingProtocol codec" where [codec_defs]:
  "codec_NodeLoggingProtocol F =
     enum_codec (fm_variant F) (map unit_arm
       [Logging_Tcp, Logging_Udp])"

lemma lawful_NodeLoggingProtocol [lawful_rules]: "lawful_format F \<Longrightarrow> lawful (codec_NodeLoggingProtocol F)"
  by (simp add: codec_NodeLoggingProtocol_def lawful_rules)

definition codec_NodeLoggingEndpoint :: "format \<Rightarrow> NodeLoggingEndpoint codec" where [codec_defs]:
  "codec_NodeLoggingEndpoint F =
     struct_codec
       (\<lambda>(a1, a2, a3).
        \<lparr>nle_protocol = a1, nle_address = a2, nle_port = a3\<rparr>)
       (\<lambda>r.
        (nle_protocol r, nle_address r, nle_port r))
       (pair_codec (codec_NodeLoggingProtocol F)
       (pair_codec (codec_str F) (plain (fm_u16 F))))"

lemma lawful_NodeLoggingEndpoint [lawful_rules]: "lawful_format F \<Longrightarrow> lawful (codec_NodeLoggingEndpoint F)"
  unfolding codec_NodeLoggingEndpoint_def by (intro lawful_rules) simp_all

definition codec_NodeLoggingRequest :: "format \<Rightarrow> NodeLoggingRequest codec" where [codec_defs]:
  "codec_NodeLoggingRequest F =
     enum_codec (fm_variant F)
       [unit_arm Logging_Get,
        arm (list_codec (fm_len F) (codec_NodeLoggingEndpoint F)) Logging_Set
          (\<lambda>r. case r of Logging_Set a \<Rightarrow> Some a | _ \<Rightarrow> None),
        unit_arm Logging_Clear,
        unit_arm Logging_Restart]"

lemma lawful_NodeLoggingRequest [lawful_rules]: "lawful_format F \<Longrightarrow> lawful (codec_NodeLoggingRequest F)"
  unfolding codec_NodeLoggingRequest_def
  by (intro lawful_rules) (auto intro!: lawful_rules split: NodeLoggingRequest.splits)

definition codec_NodeLoggingResponse :: "format \<Rightarrow> NodeLoggingResponse codec" where [codec_defs]:
  "codec_NodeLoggingResponse F =
     enum_codec (fm_variant F)
       [arm (option_codec (fm_option F) (list_codec (fm_len F) (codec_NodeLoggingEndpoint F))) LoggingR_Get
          (\<lambda>r. case r of LoggingR_Get a \<Rightarrow> Some a | _ \<Rightarrow> None),
        unit_arm LoggingR_Done]"

lemma lawful_NodeLoggingResponse [lawful_rules]: "lawful_format F \<Longrightarrow> lawful (codec_NodeLoggingResponse F)"
  unfolding codec_NodeLoggingResponse_def
  by (intro lawful_rules) (auto intro!: lawful_rules split: NodeLoggingResponse.splits)

definition codec_NodeRemoteAccessConfig :: "format \<Rightarrow> NodeRemoteAccessConfig codec" where [codec_defs]:
  "codec_NodeRemoteAccessConfig F =
     struct_codec
       (\<lambda>a1.
        \<lparr>nra_port = a1\<rparr>)
       (\<lambda>r.
        (nra_port r))
       (plain (fm_u16 F))"

lemma lawful_NodeRemoteAccessConfig [lawful_rules]: "lawful_format F \<Longrightarrow> lawful (codec_NodeRemoteAccessConfig F)"
  unfolding codec_NodeRemoteAccessConfig_def by (intro lawful_rules) simp_all

definition codec_NodeRemoteAccessRequest :: "format \<Rightarrow> NodeRemoteAccessRequest codec" where [codec_defs]:
  "codec_NodeRemoteAccessRequest F =
     enum_codec (fm_variant F)
       [unit_arm RemoteAccess_Get,
        arm (codec_NodeRemoteAccessConfig F) RemoteAccess_Set
          (\<lambda>r. case r of RemoteAccess_Set a \<Rightarrow> Some a | _ \<Rightarrow> None),
        unit_arm RemoteAccess_Restart]"

lemma lawful_NodeRemoteAccessRequest [lawful_rules]: "lawful_format F \<Longrightarrow> lawful (codec_NodeRemoteAccessRequest F)"
  unfolding codec_NodeRemoteAccessRequest_def
  by (intro lawful_rules) (auto intro!: lawful_rules split: NodeRemoteAccessRequest.splits)

definition codec_NodeRemoteAccessResponse :: "format \<Rightarrow> NodeRemoteAccessResponse codec" where [codec_defs]:
  "codec_NodeRemoteAccessResponse F =
     enum_codec (fm_variant F)
       [arm (codec_NodeRemoteAccessConfig F) RemoteAccessR_Get
          (\<lambda>r. case r of RemoteAccessR_Get a \<Rightarrow> Some a | _ \<Rightarrow> None),
        unit_arm RemoteAccessR_Done]"

lemma lawful_NodeRemoteAccessResponse [lawful_rules]: "lawful_format F \<Longrightarrow> lawful (codec_NodeRemoteAccessResponse F)"
  unfolding codec_NodeRemoteAccessResponse_def
  by (intro lawful_rules) (auto intro!: lawful_rules split: NodeRemoteAccessResponse.splits)

definition codec_NodePowerRequest :: "format \<Rightarrow> NodePowerRequest codec" where [codec_defs]:
  "codec_NodePowerRequest F =
     enum_codec (fm_variant F) (map unit_arm
       [Power_Reboot, Power_Shutdown, Power_GracefulReboot, Power_GracefulShutdown])"

lemma lawful_NodePowerRequest [lawful_rules]: "lawful_format F \<Longrightarrow> lawful (codec_NodePowerRequest F)"
  by (simp add: codec_NodePowerRequest_def lawful_rules)

definition codec_NodePowerResponse :: "format \<Rightarrow> NodePowerResponse codec" where [codec_defs]:
  "codec_NodePowerResponse F =
     enum_codec (fm_variant F) (map unit_arm
       [PowerR_Initiated])"

lemma lawful_NodePowerResponse [lawful_rules]: "lawful_format F \<Longrightarrow> lawful (codec_NodePowerResponse F)"
  by (simp add: codec_NodePowerResponse_def lawful_rules)

definition codec_NodeObservationRequest :: "format \<Rightarrow> NodeObservationRequest codec" where [codec_defs]:
  "codec_NodeObservationRequest F =
     enum_codec (fm_variant F) (map unit_arm
       [Observe_ProcessList, Observe_ResourceUsage, Observe_Uptime])"

lemma lawful_NodeObservationRequest [lawful_rules]: "lawful_format F \<Longrightarrow> lawful (codec_NodeObservationRequest F)"
  by (simp add: codec_NodeObservationRequest_def lawful_rules)

definition codec_NodeObservationResponse :: "format \<Rightarrow> NodeObservationResponse codec" where [codec_defs]:
  "codec_NodeObservationResponse F =
     enum_codec (fm_variant F)
       [arm (list_codec (fm_len F) (codec_Process F)) ObserveR_ProcessList
          (\<lambda>r. case r of ObserveR_ProcessList a \<Rightarrow> Some a | _ \<Rightarrow> None),
        arm (pair_codec (codec_str F) (codec_ResourceUsage F)) (\<lambda>(a, b). ObserveR_ResourceUsage a b)
          (\<lambda>r. case r of ObserveR_ResourceUsage a b \<Rightarrow> Some (a, b) | _ \<Rightarrow> None),
        arm (codec_duration F) ObserveR_Uptime
          (\<lambda>r. case r of ObserveR_Uptime a \<Rightarrow> Some a | _ \<Rightarrow> None)]"

lemma lawful_NodeObservationResponse [lawful_rules]: "lawful_format F \<Longrightarrow> lawful (codec_NodeObservationResponse F)"
  unfolding codec_NodeObservationResponse_def
  by (intro lawful_rules) (auto intro!: lawful_rules split: NodeObservationResponse.splits)

definition codec_NodeVersionRequest :: "format \<Rightarrow> NodeVersionRequest codec" where [codec_defs]:
  "codec_NodeVersionRequest F =
     enum_codec (fm_variant F)
       [unit_arm Version_Get,
        arm (codec_str F) Version_SetOsVersion
          (\<lambda>r. case r of Version_SetOsVersion a \<Rightarrow> Some a | _ \<Rightarrow> None),
        arm (codec_str F) Version_SetProductVersion
          (\<lambda>r. case r of Version_SetProductVersion a \<Rightarrow> Some a | _ \<Rightarrow> None)]"

lemma lawful_NodeVersionRequest [lawful_rules]: "lawful_format F \<Longrightarrow> lawful (codec_NodeVersionRequest F)"
  unfolding codec_NodeVersionRequest_def
  by (intro lawful_rules) (auto intro!: lawful_rules split: NodeVersionRequest.splits)

definition codec_NodeVersionResponse :: "format \<Rightarrow> NodeVersionResponse codec" where [codec_defs]:
  "codec_NodeVersionResponse F =
     enum_codec (fm_variant F)
       [arm (pair_codec (codec_str F) (codec_str F)) (\<lambda>(a, b). VersionR_Get a b)
          (\<lambda>r. case r of VersionR_Get a b \<Rightarrow> Some (a, b) | _ \<Rightarrow> None),
        unit_arm VersionR_Done]"

lemma lawful_NodeVersionResponse [lawful_rules]: "lawful_format F \<Longrightarrow> lawful (codec_NodeVersionResponse F)"
  unfolding codec_NodeVersionResponse_def
  by (intro lawful_rules) (auto intro!: lawful_rules split: NodeVersionResponse.splits)

definition codec_BootstrapMaterial :: "format \<Rightarrow> BootstrapMaterial codec" where [codec_defs]:
  "codec_BootstrapMaterial F =
     struct_codec
       (\<lambda>(a1, a2, a3, a4, a5).
        \<lparr>bm_role_id = a1, bm_wrapped_secret_id = a2, bm_ca_anchor = a3, bm_expires_at = a4,
          bm_bootstrap_artifact = a5\<rparr>)
       (\<lambda>r.
        (bm_role_id r, bm_wrapped_secret_id r, bm_ca_anchor r, bm_expires_at r,
         bm_bootstrap_artifact r))
       (pair_codec (codec_str F)
       (pair_codec (codec_str F)
       (pair_codec (list_codec (fm_len F) (plain (fm_u8 F)))
       (pair_codec (codec_timestamp F) (list_codec (fm_len F) (plain (fm_u8 F)))))))"

lemma lawful_BootstrapMaterial [lawful_rules]: "lawful_format F \<Longrightarrow> lawful (codec_BootstrapMaterial F)"
  unfolding codec_BootstrapMaterial_def by (intro lawful_rules) simp_all

definition codec_FailurePolicy :: "format \<Rightarrow> FailurePolicy codec" where [codec_defs]:
  "codec_FailurePolicy F =
     enum_codec (fm_variant F) (map unit_arm
       [OnFailure_Rollback, OnFailure_Hold])"

lemma lawful_FailurePolicy [lawful_rules]: "lawful_format F \<Longrightarrow> lawful (codec_FailurePolicy F)"
  by (simp add: codec_FailurePolicy_def lawful_rules)

definition codec_InstallFields :: "format \<Rightarrow> InstallFields codec" where [codec_defs]:
  "codec_InstallFields F =
     struct_codec
       (\<lambda>(a1, a2, a3, a4, a5, a6, a7, a8, a9, a10, a11).
        \<lparr>in_target = a1, in_instance = a2, in_version = a3, in_commit = a4, in_size = a5,
          in_idempotency_key = a6, in_bootstrap_material = a7, in_on_failure = a8,
          in_bind_addrs = a9, in_config_template = a10, in_privilege_profile = a11\<rparr>)
       (\<lambda>r.
        (in_target r, in_instance r, in_version r, in_commit r, in_size r, in_idempotency_key r,
         in_bootstrap_material r, in_on_failure r, in_bind_addrs r, in_config_template r,
         in_privilege_profile r))
       (pair_codec (codec_str F)
       (pair_codec (option_codec (fm_option F) (plain (fm_u32 F)))
       (pair_codec (codec_str F)
       (pair_codec (codec_str F)
       (pair_codec (plain (fm_u64 F))
       (pair_codec (codec_str F)
       (pair_codec (option_codec (fm_option F) (codec_BootstrapMaterial F))
       (pair_codec (codec_FailurePolicy F)
       (pair_codec (option_codec (fm_option F) (map_codec (fm_len F) (fm_order_str F) (codec_str F) (codec_socket F)))
       (pair_codec (option_codec (fm_option F) (codec_str F)) (option_codec (fm_option F) (codec_str F))))))))))))"

lemma lawful_InstallFields [lawful_rules]: "lawful_format F \<Longrightarrow> lawful (codec_InstallFields F)"
  unfolding codec_InstallFields_def by (intro lawful_rules) simp_all

definition codec_NodePackageRequest :: "format \<Rightarrow> NodePackageRequest codec" where [codec_defs]:
  "codec_NodePackageRequest F =
     enum_codec (fm_variant F)
       [arm (codec_InstallFields F) Package_Install
          (\<lambda>r. case r of Package_Install a \<Rightarrow> Some a | _ \<Rightarrow> None),
        arm (pair_codec (codec_str F) (pair_codec (option_codec (fm_option F) (plain (fm_u32 F))) (codec_str F))) (\<lambda>(a, b, c). Package_Remove a b c)
          (\<lambda>r. case r of Package_Remove a b c \<Rightarrow> Some (a, b, c) | _ \<Rightarrow> None),
        unit_arm Package_ListInstalled,
        arm (pair_codec (codec_str F) (option_codec (fm_option F) (plain (fm_u32 F)))) (\<lambda>(a, b). Package_Status a b)
          (\<lambda>r. case r of Package_Status a b \<Rightarrow> Some (a, b) | _ \<Rightarrow> None),
        unit_arm Package_ListHostPorts]"

lemma lawful_NodePackageRequest [lawful_rules]: "lawful_format F \<Longrightarrow> lawful (codec_NodePackageRequest F)"
  unfolding codec_NodePackageRequest_def
  by (intro lawful_rules) (auto intro!: lawful_rules split: NodePackageRequest.splits)

definition codec_InstallPreflight :: "format \<Rightarrow> InstallPreflight codec" where [codec_defs]:
  "codec_InstallPreflight F =
     enum_codec (fm_variant F)
       [unit_arm Preflight_Proceed,
        unit_arm Preflight_AlreadyApplied,
        arm (pair_codec (codec_str F) (pair_codec (plain (fm_u64 F)) (plain (fm_u64 F)))) (\<lambda>(a, b, c). Preflight_InsufficientDiskSpace a b c)
          (\<lambda>r. case r of Preflight_InsufficientDiskSpace a b c \<Rightarrow> Some (a, b, c) | _ \<Rightarrow> None),
        unit_arm Preflight_BindAddrsOnUpdate,
        unit_arm Preflight_NamespaceUnconfigured,
        unit_arm Preflight_EnrollmentUnsupported,
        unit_arm Preflight_ConfigTemplateOnUpdate,
        arm (codec_str F) Preflight_UnknownConfigTemplate
          (\<lambda>r. case r of Preflight_UnknownConfigTemplate a \<Rightarrow> Some a | _ \<Rightarrow> None)]"

lemma lawful_InstallPreflight [lawful_rules]: "lawful_format F \<Longrightarrow> lawful (codec_InstallPreflight F)"
  unfolding codec_InstallPreflight_def
  by (intro lawful_rules) (auto intro!: lawful_rules split: InstallPreflight.splits)

definition codec_Transport :: "format \<Rightarrow> Transport codec" where [codec_defs]:
  "codec_Transport F =
     enum_codec (fm_variant F) (map unit_arm
       [Transport_Tcp, Transport_Udp])"

lemma lawful_Transport [lawful_rules]: "lawful_format F \<Longrightarrow> lawful (codec_Transport F)"
  by (simp add: codec_Transport_def lawful_rules)

definition codec_HostPort :: "format \<Rightarrow> HostPort codec" where [codec_defs]:
  "codec_HostPort F =
     struct_codec
       (\<lambda>(a1, a2).
        \<lparr>hp_transport = a1, hp_port = a2\<rparr>)
       (\<lambda>r.
        (hp_transport r, hp_port r))
       (pair_codec (codec_Transport F) (plain (fm_u16 F)))"

lemma lawful_HostPort [lawful_rules]: "lawful_format F \<Longrightarrow> lawful (codec_HostPort F)"
  unfolding codec_HostPort_def by (intro lawful_rules) simp_all

definition codec_Lifecycle :: "format \<Rightarrow> Lifecycle codec" where [codec_defs]:
  "codec_Lifecycle F =
     via_codec (\<lambda>_. True) (\<lambda>n. Some (Lifecycle_from n)) Lifecycle_into (plain (fm_u8 F))"

lemma lawful_Lifecycle [lawful_rules]: "lawful_format F \<Longrightarrow> lawful (codec_Lifecycle F)"
  by (auto simp: codec_Lifecycle_def lifecycle.from_into intro!: lawful_via lawful_rules)

definition codec_BoundAddr :: "format \<Rightarrow> BoundAddr codec" where [codec_defs]:
  "codec_BoundAddr F =
     struct_codec
       (\<lambda>(a1, a2).
        \<lparr>ba_name = a1, ba_addr = a2\<rparr>)
       (\<lambda>r.
        (ba_name r, ba_addr r))
       (pair_codec (codec_str F) (codec_str F))"

lemma lawful_BoundAddr [lawful_rules]: "lawful_format F \<Longrightarrow> lawful (codec_BoundAddr F)"
  unfolding codec_BoundAddr_def by (intro lawful_rules) simp_all

definition codec_PackageState :: "format \<Rightarrow> PackageState codec" where [codec_defs]:
  "codec_PackageState F =
     struct_codec
       (\<lambda>(a1, a2, a3, a4, a5).
        \<lparr>ps_version = a1, ps_commit = a2, ps_lifecycle = a3, ps_bound_addrs = a4,
          ps_privilege_profile = a5\<rparr>)
       (\<lambda>r.
        (ps_version r, ps_commit r, ps_lifecycle r, ps_bound_addrs r, ps_privilege_profile r))
       (pair_codec (codec_str F)
       (pair_codec (codec_str F)
       (pair_codec (codec_Lifecycle F)
       (pair_codec (list_codec (fm_len F) (codec_BoundAddr F)) (option_codec (fm_option F) (codec_str F))))))"

lemma lawful_PackageState [lawful_rules]: "lawful_format F \<Longrightarrow> lawful (codec_PackageState F)"
  unfolding codec_PackageState_def by (intro lawful_rules) simp_all

definition codec_InstalledPackage :: "format \<Rightarrow> InstalledPackage codec" where [codec_defs]:
  "codec_InstalledPackage F =
     struct_codec
       (\<lambda>(a1, a2, a3).
        \<lparr>ip_target = a1, ip_instance = a2, ip_state = a3\<rparr>)
       (\<lambda>r.
        (ip_target r, ip_instance r, ip_state r))
       (pair_codec (codec_str F)
       (pair_codec (option_codec (fm_option F) (plain (fm_u32 F))) (codec_PackageState F)))"

lemma lawful_InstalledPackage [lawful_rules]: "lawful_format F \<Longrightarrow> lawful (codec_InstalledPackage F)"
  unfolding codec_InstalledPackage_def by (intro lawful_rules) simp_all

definition codec_PackageIdentity :: "format \<Rightarrow> PackageIdentity codec" where [codec_defs]:
  "codec_PackageIdentity F =
     struct_codec
       (\<lambda>(a1, a2, a3).
        \<lparr>pi_target = a1, pi_version = a2, pi_commit = a3\<rparr>)
       (\<lambda>r.
        (pi_target r, pi_version r, pi_commit r))
       (pair_codec (codec_str F)
       (pair_codec (codec_str F) (codec_str F)))"

lemma lawful_PackageIdentity [lawful_rules]: "lawful_format F \<Longrightarrow> lawful (codec_PackageIdentity F)"
  unfolding codec_PackageIdentity_def by (intro lawful_rules) simp_all

definition codec_NodePackageError :: "format \<Rightarrow> NodePackageError codec" where [codec_defs]:
  "codec_NodePackageError F =
     enum_codec (fm_variant F)
       [arm (pair_codec (codec_PackageIdentity F) (codec_PackageIdentity F)) (\<lambda>(a, b). PkgErr_TargetMismatch a b)
          (\<lambda>r. case r of PkgErr_TargetMismatch a b \<Rightarrow> Some (a, b) | _ \<Rightarrow> None),
        unit_arm PkgErr_MissingBootstrapMaterial,
        unit_arm PkgErr_BootstrapMaterialExpired,
        arm (pair_codec (codec_str F) (pair_codec (plain (fm_u64 F)) (plain (fm_u64 F)))) (\<lambda>(a, b, c). PkgErr_InsufficientDiskSpace a b c)
          (\<lambda>r. case r of PkgErr_InsufficientDiskSpace a b c \<Rightarrow> Some (a, b, c) | _ \<Rightarrow> None),
        arm (plain (fm_u64 F)) PkgErr_StaleTrustSet
          (\<lambda>r. case r of PkgErr_StaleTrustSet a \<Rightarrow> Some a | _ \<Rightarrow> None),
        arm (pair_codec (plain (fm_u64 F)) (codec_ManifestFormatRange F)) (\<lambda>(a, b). PkgErr_UnsupportedManifestFormat a b)
          (\<lambda>r. case r of PkgErr_UnsupportedManifestFormat a b \<Rightarrow> Some (a, b) | _ \<Rightarrow> None),
        unit_arm PkgErr_ObservationUnavailable,
        unit_arm PkgErr_UnmanagedInstancePresent,
        arm (pair_codec (codec_str F) (list_codec (fm_len F) (codec_str F))) (\<lambda>(a, b). PkgErr_UndeclaredPrivilegeProfile a b)
          (\<lambda>r. case r of PkgErr_UndeclaredPrivilegeProfile a b \<Rightarrow> Some (a, b) | _ \<Rightarrow> None),
        arm (codec_str F) PkgErr_UnexpectedPrivilegeProfile
          (\<lambda>r. case r of PkgErr_UnexpectedPrivilegeProfile a \<Rightarrow> Some a | _ \<Rightarrow> None),
        unit_arm PkgErr_MissingPrivilegeProfile]"

lemma lawful_NodePackageError [lawful_rules]: "lawful_format F \<Longrightarrow> lawful (codec_NodePackageError F)"
  unfolding codec_NodePackageError_def
  by (intro lawful_rules) (auto intro!: lawful_rules split: NodePackageError.splits)

definition codec_NodePackageResponse :: "format \<Rightarrow> NodePackageResponse codec" where [codec_defs]:
  "codec_NodePackageResponse F =
     enum_codec (fm_variant F)
       [unit_arm PackageR_Done,
        unit_arm PackageR_Accepted,
        arm (list_codec (fm_len F) (codec_InstalledPackage F)) PackageR_Installed
          (\<lambda>r. case r of PackageR_Installed a \<Rightarrow> Some a | _ \<Rightarrow> None),
        arm (codec_PackageState F) PackageR_State
          (\<lambda>r. case r of PackageR_State a \<Rightarrow> Some a | _ \<Rightarrow> None),
        arm (codec_NodePackageError F) PackageR_Failed
          (\<lambda>r. case r of PackageR_Failed a \<Rightarrow> Some a | _ \<Rightarrow> None),
        arm (plain (fm_u64 F)) PackageR_TrustActive
          (\<lambda>r. case r of PackageR_TrustActive a \<Rightarrow> Some a | _ \<Rightarrow> None),
        arm (list_codec (fm_len F) (codec_HostPort F)) PackageR_HostPorts
          (\<lambda>r. case r of PackageR_HostPorts a \<Rightarrow> Some a | _ \<Rightarrow> None)]"

lemma lawful_NodePackageResponse [lawful_rules]: "lawful_format F \<Longrightarrow> lawful (codec_NodePackageResponse F)"
  unfolding codec_NodePackageResponse_def
  by (intro lawful_rules) (auto intro!: lawful_rules split: NodePackageResponse.splits)

definition codec_ReloadHook :: "format \<Rightarrow> ReloadHook codec" where [codec_defs]:
  "codec_ReloadHook F =
     struct_codec ReloadHook (\<lambda>r. case r of ReloadHook s \<Rightarrow> s) (codec_str F)"

lemma lawful_ReloadHook [lawful_rules]: "lawful_format F \<Longrightarrow> lawful (codec_ReloadHook F)"
  by (auto simp: codec_ReloadHook_def intro!: lawful_rules split: ReloadHook.split)

definition codec_CertGroup :: "format \<Rightarrow> CertGroup codec" where [codec_defs]:
  "codec_CertGroup F =
     struct_codec CertGroup (\<lambda>r. case r of CertGroup s \<Rightarrow> s) (codec_str F)"

lemma lawful_CertGroup [lawful_rules]: "lawful_format F \<Longrightarrow> lawful (codec_CertGroup F)"
  by (auto simp: codec_CertGroup_def intro!: lawful_rules split: CertGroup.split)

definition codec_ServiceSpec :: "format \<Rightarrow> ServiceSpec codec" where [codec_defs]:
  "codec_ServiceSpec F =
     struct_codec
       (\<lambda>(a1, a2, a3, a4).
        \<lparr>svc_component = a1, svc_service_name = a2, svc_reload = a3, svc_cert_group = a4\<rparr>)
       (\<lambda>r.
        (svc_component r, svc_service_name r, svc_reload r, svc_cert_group r))
       (pair_codec (codec_str F)
       (pair_codec (codec_str F)
       (pair_codec (codec_ReloadHook F) (option_codec (fm_option F) (codec_CertGroup F)))))"

lemma lawful_ServiceSpec [lawful_rules]: "lawful_format F \<Longrightarrow> lawful (codec_ServiceSpec F)"
  unfolding codec_ServiceSpec_def by (intro lawful_rules) simp_all

definition codec_DeliveryMode :: "format \<Rightarrow> DeliveryMode codec" where [codec_defs]:
  "codec_DeliveryMode F =
     enum_codec (fm_variant F) (map unit_arm
       [Delivery_LocalFile, Delivery_RemoteBootstrap])"

lemma lawful_DeliveryMode [lawful_rules]: "lawful_format F \<Longrightarrow> lawful (codec_DeliveryMode F)"
  by (simp add: codec_DeliveryMode_def lawful_rules)

definition codec_RegisterFields :: "format \<Rightarrow> RegisterFields codec" where [codec_defs]:
  "codec_RegisterFields F =
     struct_codec
       (\<lambda>(a1, a2, a3, a4, a5, a6, a7).
        \<lparr>rg_service_name = a1, rg_delivery_mode = a2, rg_host = a3, rg_instance = a4,
          rg_spec = a5, rg_wrap_ttl = a6, rg_idempotency_key = a7\<rparr>)
       (\<lambda>r.
        (rg_service_name r, rg_delivery_mode r, rg_host r, rg_instance r, rg_spec r,
         rg_wrap_ttl r, rg_idempotency_key r))
       (pair_codec (codec_str F)
       (pair_codec (codec_DeliveryMode F)
       (pair_codec (codec_str F)
       (pair_codec (option_codec (fm_option F) (plain (fm_u32 F)))
       (pair_codec (codec_ServiceSpec F)
       (pair_codec (codec_duration F) (codec_str F)))))))"

lemma lawful_RegisterFields [lawful_rules]: "lawful_format F \<Longrightarrow> lawful (codec_RegisterFields F)"
  unfolding codec_RegisterFields_def by (intro lawful_rules) simp_all

definition codec_NodeEnrollRequest :: "format \<Rightarrow> NodeEnrollRequest codec" where [codec_defs]:
  "codec_NodeEnrollRequest F =
     enum_codec (fm_variant F)
       [arm (codec_RegisterFields F) Enroll_Register
          (\<lambda>r. case r of Enroll_Register a \<Rightarrow> Some a | _ \<Rightarrow> None),
        arm (pair_codec (codec_str F) (pair_codec (codec_str F) (pair_codec (option_codec (fm_option F) (plain (fm_u32 F))) (codec_str F)))) (\<lambda>(a, b, c, d). Enroll_Deregister a b c d)
          (\<lambda>r. case r of Enroll_Deregister a b c d \<Rightarrow> Some (a, b, c, d) | _ \<Rightarrow> None)]"

lemma lawful_NodeEnrollRequest [lawful_rules]: "lawful_format F \<Longrightarrow> lawful (codec_NodeEnrollRequest F)"
  unfolding codec_NodeEnrollRequest_def
  by (intro lawful_rules) (auto intro!: lawful_rules split: NodeEnrollRequest.splits)

definition codec_RegistrarUnavailableReason :: "format \<Rightarrow> RegistrarUnavailableReason codec" where [codec_defs]:
  "codec_RegistrarUnavailableReason F =
     enum_codec (fm_variant F) (map unit_arm
       [Reason_CredentialInvalid, Reason_NotProvisioned, Reason_AuditUnwritable,
        Reason_EndpointUnreachable, Reason_PostMintUnrecordable, Reason_RegistrarUnreachable])"

lemma lawful_RegistrarUnavailableReason [lawful_rules]: "lawful_format F \<Longrightarrow> lawful (codec_RegistrarUnavailableReason F)"
  by (simp add: codec_RegistrarUnavailableReason_def lawful_rules)

definition codec_NodeEnrollError :: "format \<Rightarrow> NodeEnrollError codec" where [codec_defs]:
  "codec_NodeEnrollError F =
     enum_codec (fm_variant F)
       [unit_arm EnrollErr_ServiceSpecConflict,
        unit_arm EnrollErr_ServiceNameCollision,
        unit_arm EnrollErr_ServiceInstanceMismatch,
        unit_arm EnrollErr_ServiceHostMismatch,
        arm (codec_RegistrarUnavailableReason F) EnrollErr_RegistrarUnavailable
          (\<lambda>r. case r of EnrollErr_RegistrarUnavailable a \<Rightarrow> Some a | _ \<Rightarrow> None),
        arm (codec_duration F) EnrollErr_RegistrarBusy
          (\<lambda>r. case r of EnrollErr_RegistrarBusy a \<Rightarrow> Some a | _ \<Rightarrow> None),
        unit_arm EnrollErr_ServiceLabelInvalid]"

lemma lawful_NodeEnrollError [lawful_rules]: "lawful_format F \<Longrightarrow> lawful (codec_NodeEnrollError F)"
  unfolding codec_NodeEnrollError_def
  by (intro lawful_rules) (auto intro!: lawful_rules split: NodeEnrollError.splits)

definition codec_NodeEnrollResponse :: "format \<Rightarrow> NodeEnrollResponse codec" where [codec_defs]:
  "codec_NodeEnrollResponse F =
     enum_codec (fm_variant F)
       [arm (codec_BootstrapMaterial F) EnrollR_Material
          (\<lambda>r. case r of EnrollR_Material a \<Rightarrow> Some a | _ \<Rightarrow> None),
        unit_arm EnrollR_Done,
        arm (codec_NodeEnrollError F) EnrollR_Failed
          (\<lambda>r. case r of EnrollR_Failed a \<Rightarrow> Some a | _ \<Rightarrow> None)]"

lemma lawful_NodeEnrollResponse [lawful_rules]: "lawful_format F \<Longrightarrow> lawful (codec_NodeEnrollResponse F)"
  unfolding codec_NodeEnrollResponse_def
  by (intro lawful_rules) (auto intro!: lawful_rules split: NodeEnrollResponse.splits)

end
