(* ===== verification/Wire_Formats.thy ===== *)
theory Wire_Formats
  imports Wire_Codec "HOL-Library.List_Lexorder"
begin

text \<open>
  Two formats in full, the two configurations of bincode the crate uses, by their documented
  layout: integers in their own width, least significant byte first
  (\<open>with_fixed_int_encoding\<close>: the request code and the layouts the crate pins), and integers
  in as few bytes as they need (\<open>standard\<close>: the payloads). Both are lawful, so the hypothesis
  under which the development speaks about formats holds of them, and codecs can be evaluated on
  them.
\<close>

subsection \<open>Integers\<close>

primrec le_bytes :: "nat \<Rightarrow> nat \<Rightarrow> bytes" where
  "le_bytes 0 v = []"
| "le_bytes (Suc n) v = of_nat (v mod 256) # le_bytes n (v div 256)"

primrec le_nat :: "bytes \<Rightarrow> nat" where
  "le_nat [] = 0"
| "le_nat (b # bs) = unat b + 256 * le_nat bs"

lemma length_le_bytes [simp]: "length (le_bytes n v) = n"
  by (induction n arbitrary: v) simp_all

lemma le_nat_bytes: "v < 256 ^ n \<Longrightarrow> le_nat (le_bytes n v) = v"
proof (induction n arbitrary: v)
  case (Suc n)
  then have "v div 256 < 256 ^ n" by (simp add: less_mult_imp_div_less mult.commute)
  with Suc.IH show ?case by (simp add: unsigned_of_nat take_bit_nat_eq_self)
qed simp

lemma streams_taking:
  "streams (\<lambda>b. if length b < n then None else Some (f (take n b), drop n b))"
  unfolding streams_def
proof (intro allI impI)
  fix b a rest
  assume "(if length b < n then None else Some (f (take n b), drop n b)) = Some (a, rest)"
  then have "n \<le> length b" "a = f (take n b)" "rest = drop n b" by (auto split: if_splits)
  then show "\<exists>used. b = used @ rest \<and> (\<forall>rest'.
      (if length (used @ rest') < n then None else Some (f (take n (used @ rest')), drop n (used @ rest')))
      = Some (a, rest'))"
    by (intro exI [of _ "take n b"]) simp
qed

definition le_prim :: "nat \<Rightarrow> 'w::len word prim" where
  "le_prim n = (\<lambda>w. le_bytes n (unat w),
     \<lambda>b. if length b < n then None else Some (of_nat (le_nat (take n b)), drop n b))"

text \<open>The octets of an address are in network order.\<close>

definition be_prim :: "nat \<Rightarrow> 'w::len word prim" where
  "be_prim n = (\<lambda>w. rev (le_bytes n (unat w)),
     \<lambda>b. if length b < n then None else Some (of_nat (le_nat (rev (take n b))), drop n b))"

lemma unat_in_bytes:
  fixes w :: "'w::len word"
  assumes "LENGTH('w) = 8 * n"
  shows "unat w < 256 ^ n"
proof -
  have "unat w < 2 ^ LENGTH('w)" by (rule unsigned_less)
  then show ?thesis by (simp add: assms power_mult)
qed

lemma lawful_le_prim [lawful_rules]:
  assumes "LENGTH('w) = 8 * n"
  shows "lawful (plain (le_prim n :: 'w::len word prim))"
  using le_nat_bytes [OF unat_in_bytes [OF assms]] streams_taking [of n "\<lambda>b. of_nat (le_nat b)"]
  by (intro lawfulI) (simp_all add: plain_def le_prim_def)

lemma lawful_be_prim [lawful_rules]:
  assumes "LENGTH('w) = 8 * n"
  shows "lawful (plain (be_prim n :: 'w::len word prim))"
  using le_nat_bytes [OF unat_in_bytes [OF assms]] streams_taking [of n "\<lambda>b. of_nat (le_nat (rev b))"]
  by (intro lawfulI) (simp_all add: plain_def be_prim_def)

text \<open>The variable encoding: a small number in one byte, a marker and the number otherwise.\<close>

definition var_width :: "u8 \<Rightarrow> nat option" where
  "var_width m = (if m = 251 then Some 2 else if m = 252 then Some 4 else if m = 253 then Some 8
     else if m = 254 then Some 16 else None)"

definition var_write :: "nat \<Rightarrow> bytes" where
  "var_write v =
     (if v < 251 then [of_nat v]
      else if v < 2 ^ 16 then 251 # le_bytes 2 v
      else if v < 2 ^ 32 then 252 # le_bytes 4 v
      else if v < 2 ^ 64 then 253 # le_bytes 8 v
      else 254 # le_bytes 16 v)"

definition var_read :: "nat \<Rightarrow> bytes \<Rightarrow> (nat \<times> bytes) option" where
  "var_read n b = Option.bind (snd (le_prim 1) b) (\<lambda>(m, r).
     if unat m < 251 then Some (unat m, r)
     else (case var_width m of
             None \<Rightarrow> None
           | Some k \<Rightarrow> if n < k then None
               else if length r < k then None else Some (le_nat (take k r), drop k r)))"

definition var_prim :: "nat \<Rightarrow> 'w::len word prim" where
  "var_prim n = (\<lambda>w. var_write (unat w), \<lambda>b. map_option (apfst of_nat) (var_read n b))"

lemma le_prim_1: "snd (le_prim 1) (m # r) = Some (m, r)" for m :: u8
  by (simp add: le_prim_def)

lemma streams_var_read: "streams (var_read n)"
proof -
  have "streams (\<lambda>r. if unat m < 251 then Some (unat m, r)
     else (case var_width m of
             None \<Rightarrow> None
           | Some k \<Rightarrow> if n < k then None
               else if length r < k then None else Some (le_nat (take k r), drop k r)))" for m
  proof (cases "var_width m")
    case (Some k)
    then show ?thesis
      using streams_taking [of k le_nat] by (cases "unat m < 251"; cases "n < k"; simp)
  qed (cases "unat m < 251"; simp)
  then show ?thesis
    using lawful_streams [OF lawful_le_prim [where ?'w = 8 and n = 1]]
    unfolding var_read_def by (intro streams_bind) (simp_all add: plain_def)
qed

lemma var_reads:
  assumes "v < 256 ^ n" and "n \<in> {2, 4, 8, 16}"
  shows "var_read n (var_write v @ rest) = Some (v, rest)"
proof -
  have marked: "var_read n ((m # le_bytes k v) @ rest) = Some (v, rest)"
    if "251 \<le> unat m" "var_width m = Some k" "k \<le> n" "v < 256 ^ k" for m k
    using that by (simp add: var_read_def le_prim_1 le_nat_bytes del: One_nat_def)
  consider "v < 251" | "251 \<le> v" "v < 2 ^ 16" | "2 ^ 16 \<le> v" "v < 2 ^ 32"
    | "2 ^ 32 \<le> v" "v < 2 ^ 64" | "2 ^ 64 \<le> v"
    by linarith
  then show ?thesis
  proof cases
    case 1
    then show ?thesis
      by (simp add: var_read_def var_write_def le_prim_1 unsigned_of_nat take_bit_nat_eq_self
          del: One_nat_def)
  next
    case 2
    then show ?thesis
      using marked [of 251 2] assms(2) by (auto simp: var_write_def var_width_def)
  next
    case 3
    then have "4 \<le> n" using assms by auto
    with 3 show ?thesis using marked [of 252 4] by (simp add: var_write_def var_width_def)
  next
    case 4
    then have "8 \<le> n" using assms by auto
    with 4 show ?thesis using marked [of 253 8] by (simp add: var_write_def var_width_def)
  next
    case 5
    then have "n = 16" using assms by auto
    with 5 assms(1) show ?thesis using marked [of 254 16] by (simp add: var_write_def var_width_def)
  qed
qed

lemma lawful_var_prim [lawful_rules]:
  assumes "LENGTH('w) = 8 * n" and "n \<in> {2, 4, 8, 16}"
  shows "lawful (plain (var_prim n :: 'w::len word prim))"
  using var_reads [OF unat_in_bytes [OF assms(1)] assms(2)] streams_map [OF streams_var_read]
  by (intro lawfulI) (simp_all add: plain_def var_prim_def)

text \<open>A signed number is written as an unsigned one, its sign in the lowest bit.\<close>

definition zigzag :: "'w::len word \<Rightarrow> 'w word" where
  "zigzag w = (if sint w < 0 then word_of_int (- 2 * sint w - 1) else word_of_int (2 * sint w))"

definition unzigzag :: "'w::len word \<Rightarrow> 'w word" where
  "unzigzag u = (if even (uint u) then word_of_int (uint u div 2) else word_of_int (- (uint u div 2) - 1))"

lemma unzigzag_zigzag: "unzigzag (zigzag w) = w" for w :: "'w::len word"
proof -
  define s where "s = sint w"
  have bounds: "- (2 ^ (LENGTH('w) - 1)) \<le> s" "s < 2 ^ (LENGTH('w) - 1)"
    unfolding s_def using sint_range_size [of w] by (simp_all add: word_size)
  have two: "(2 :: int) ^ LENGTH('w) = 2 * 2 ^ (LENGTH('w) - 1)"
    using power_Suc [of "2 :: int" "LENGTH('w) - 1"] by simp
  have w: "word_of_int s = w" by (simp add: s_def)
  show ?thesis
  proof (cases "s < 0")
    case True
    then have "uint (word_of_int (- 2 * s - 1) :: 'w word) = - 2 * s - 1"
      using bounds two by (subst uint_word_of_int_eq) (rule take_bit_int_eq_self; linarith)
    moreover have "(- 2 * s - 1) div 2 = - s - 1" by linarith
    ultimately show ?thesis using True w
      by (simp add: zigzag_def unzigzag_def s_def [symmetric])
  next
    case False
    then have "uint (word_of_int (2 * s) :: 'w word) = 2 * s"
      using bounds two by (subst uint_word_of_int_eq) (rule take_bit_int_eq_self; linarith)
    with False w show ?thesis by (simp add: zigzag_def unzigzag_def s_def [symmetric])
  qed
qed

definition zig_codec :: "nat \<Rightarrow> 'w::len word codec" where
  "zig_codec n = struct_codec unzigzag zigzag (plain (var_prim n))"

subsection \<open>The types built on them\<close>

definition prim_of :: "'a codec \<Rightarrow> 'a prim" where
  "prim_of c = (enc c, dec c)"

lemma lawful_prim_of:
  "lawful c \<Longrightarrow> (\<And>a. P a \<Longrightarrow> fits c a) \<Longrightarrow> lawful (prim_codec P (prim_of c))"
  by (simp add: prim_of_def lawful_def reads_back_def)

definition bool_codec :: "bool codec" where
  "bool_codec = via_codec (\<lambda>_. True)
     (\<lambda>n :: u8. if n = 0 then Some False else if n = 1 then Some True else None)
     (\<lambda>t. if t then 1 else 0) (plain (le_prim 1))"

definition bytes_codec :: "u64 prim \<Rightarrow> bytes codec" where
  "bytes_codec len = list_codec len (plain (le_prim 1))"

definition str_codec :: "u64 prim \<Rightarrow> string codec" where
  "str_codec len = via_codec (\<lambda>_. True) (\<lambda>b. Some (map (\<lambda>n. char_of (unat n)) b))
     (map (\<lambda>c. of_nat (of_char c))) (bytes_codec len)"

definition ip_codec :: "u32 prim \<Rightarrow> IpAddr codec" where
  "ip_codec variant = enum_codec variant
     [arm (plain (be_prim 4)) IpAddr_V4 (\<lambda>a. case a of IpAddr_V4 q \<Rightarrow> Some q | _ \<Rightarrow> None),
      arm (plain (be_prim 16)) IpAddr_V6 (\<lambda>a. case a of IpAddr_V6 q \<Rightarrow> Some q | _ \<Rightarrow> None)]"

definition socket_codec :: "u32 prim \<Rightarrow> u16 prim \<Rightarrow> SocketAddr codec" where
  "socket_codec variant w16 = enum_codec variant
     [arm (pair_codec (plain (be_prim 4)) (plain w16)) (\<lambda>(q, p). SocketAddr_V4 q p)
        (\<lambda>a. case a of SocketAddr_V4 q p \<Rightarrow> Some (q, p) | _ \<Rightarrow> None),
      arm (pair_codec (plain (be_prim 16)) (plain w16)) (\<lambda>(q, p). SocketAddr_V6 q p 0 0)
        (\<lambda>a. case a of SocketAddr_V6 q p f s \<Rightarrow> if f = 0 \<and> s = 0 then Some (q, p) else None | _ \<Rightarrow> None)]"

definition duration_codec :: "u64 prim \<Rightarrow> u32 prim \<Rightarrow> Duration codec" where
  "duration_codec w64 w32 = struct_codec (\<lambda>(s, n). \<lparr>secs = s, nanos = n\<rparr>) (\<lambda>d. (secs d, nanos d))
     (pair_codec (plain w64) (plain w32))"

text \<open>Values of other libraries, whose content the crate never looks at: bytes up to a mark.\<close>

fun fenced :: "bytes \<Rightarrow> bytes" where
  "fenced [] = [0]"
| "fenced (b # bs) = 1 # b # fenced bs"

fun unfenced :: "bytes \<Rightarrow> (bytes \<times> bytes) option" where
  "unfenced [] = None"
| "unfenced [m] = (if m = 0 then Some ([], []) else None)"
| "unfenced (m # b # bs) = (if m = 0 then Some ([], b # bs)
     else if m = 1 then map_option (apfst ((#) b)) (unfenced bs) else None)"

lemma unfenced_fenced: "unfenced (fenced b @ rest) = Some (b, rest)"
  by (induction b) (cases rest, simp_all)

lemma streams_unfenced: "streams unfenced"
proof -
  have "\<exists>used. b = used @ rest \<and> (\<forall>rest'. unfenced (used @ rest') = Some (a, rest'))"
    if "unfenced b = Some (a, rest)" for b a rest
    using that
  proof (induction b arbitrary: a rest rule: unfenced.induct)
    case (2 m)
    then have "unfenced (m # rest') = Some (a, rest')" for rest' by (cases rest') (auto split: if_splits)
    with 2 show ?case by (intro exI [of _ "[m]"]) (auto split: if_splits)
  next
    case (3 m b bs)
    show ?case
    proof (cases "m = 0")
      case True
      have "unfenced (m # rest') = Some ([], rest')" for rest' using True by (cases rest') simp_all
      with 3 True show ?thesis by (intro exI [of _ "[m]"]) auto
    next
      case False
      with 3(2) have m: "m = 1" by (auto split: if_splits)
      with 3(2) obtain a' where a': "unfenced bs = Some (a', rest)" "a = b # a'" by auto
      from 3(1) [OF False m a'(1)] obtain used where
        "bs = used @ rest" "\<And>rest'. unfenced (used @ rest') = Some (a', rest')" by blast
      with m a'(2) show ?thesis by (intro exI [of _ "m # b # used"]) simp
    qed
  qed simp
  then show ?thesis unfolding streams_def by blast
qed

definition opaque_codec :: "(bytes \<Rightarrow> 'a) \<Rightarrow> ('a \<Rightarrow> bytes) \<Rightarrow> 'a codec" where
  "opaque_codec build content = struct_codec build content (plain (fenced, unfenced))"

text \<open>Collections are written in the order of a key.\<close>

definition by_key :: "('k \<Rightarrow> 'o::linorder) \<Rightarrow> ('o \<Rightarrow> 'k) \<Rightarrow> 'k set \<Rightarrow> 'k list" where
  "by_key key unkey S = map unkey (sorted_list_of_set (key ` S))"

lemma orders_by_key:
  assumes "\<And>k. unkey (key k) = k"
  shows "orders (by_key key unkey)"
proof -
  have "inj_on unkey (key ` S)" for S by (auto simp: inj_on_def assms)
  then show ?thesis
    by (simp add: orders_def by_key_def distinct_map image_image assms)
qed

fun ip_key :: "IpAddr \<Rightarrow> nat list" where
  "ip_key (IpAddr_V4 o4) = [0, unat o4]"
| "ip_key (IpAddr_V6 o6) = [1, unat o6]"

definition ip_unkey :: "nat list \<Rightarrow> IpAddr" where
  "ip_unkey k = (if k ! 0 = 0 then IpAddr_V4 (of_nat (k ! 1)) else IpAddr_V6 (of_nat (k ! 1)))"

subsection \<open>The formats\<close>

definition bincode_format ::
  "u16 prim \<Rightarrow> u32 prim \<Rightarrow> u64 prim \<Rightarrow> i32 prim \<Rightarrow> i64 prim \<Rightarrow> 128 word prim \<Rightarrow> format" where
  "bincode_format w16 w32 w64 s32 s64 s128 =
     \<lparr>fm_variant = w32, fm_option = prim_of bool_codec, fm_len = w64,
      fm_bool = prim_of bool_codec, fm_u8 = le_prim 1, fm_u16 = w16, fm_u32 = w32,
      fm_u64 = w64, fm_i32 = s32, fm_i64 = s64, fm_f32 = le_prim 4, fm_f64 = le_prim 8,
      fm_str = prim_of (str_codec w64), fm_bytes = prim_of (bytes_codec w64),
      fm_ip = prim_of (ip_codec w32), fm_socket = prim_of (socket_codec w32 w16),
      fm_duration = prim_of (duration_codec w64 w32), fm_i128 = s128,
      fm_valid_timestamp = (\<lambda>t. - 377705023201000000000 \<le> sint (as_nanosecond t)
        \<and> sint (as_nanosecond t) \<le> 253402207200999999999),
      fm_ipnet = prim_of (opaque_codec IpNet (\<lambda>n. case n of IpNet b \<Rightarrow> b)),
      fm_civil = prim_of (opaque_codec CivilDateTime (\<lambda>t. case t of CivilDateTime b \<Rightarrow> b)),
      fm_statistics = prim_of (opaque_codec ColumnStatistics (\<lambda>s. case s of ColumnStatistics b \<Rightarrow> b)),
      fm_order_str = by_key (map of_char :: string \<Rightarrow> nat list) (map char_of),
      fm_order_ip = by_key ip_key ip_unkey,
      fm_order_port = by_key (\<lambda>(p, q). [unat p, unat q] :: nat list) (\<lambda>k. (of_nat (k ! 0), of_nat (k ! 1)))\<rparr>"

definition fixint_format :: format where
  "fixint_format = bincode_format (le_prim 2) (le_prim 4) (le_prim 8) (le_prim 4) (le_prim 8) (le_prim 16)"

definition standard_format :: format where
  "standard_format = bincode_format (var_prim 2) (var_prim 4) (var_prim 8)
     (prim_of (zig_codec 4)) (prim_of (zig_codec 8)) (prim_of (zig_codec 16))"

lemma bincode_sel:
  "fm_variant (bincode_format w16 w32 w64 s32 s64 s128) = w32"
  "fm_option (bincode_format w16 w32 w64 s32 s64 s128) = prim_of bool_codec"
  "fm_len (bincode_format w16 w32 w64 s32 s64 s128) = w64"
  "fm_bool (bincode_format w16 w32 w64 s32 s64 s128) = prim_of bool_codec"
  "fm_u8 (bincode_format w16 w32 w64 s32 s64 s128) = le_prim 1"
  "fm_u16 (bincode_format w16 w32 w64 s32 s64 s128) = w16"
  "fm_u32 (bincode_format w16 w32 w64 s32 s64 s128) = w32"
  "fm_u64 (bincode_format w16 w32 w64 s32 s64 s128) = w64"
  "fm_i32 (bincode_format w16 w32 w64 s32 s64 s128) = s32"
  "fm_i64 (bincode_format w16 w32 w64 s32 s64 s128) = s64"
  "fm_i128 (bincode_format w16 w32 w64 s32 s64 s128) = s128"
  "fm_f32 (bincode_format w16 w32 w64 s32 s64 s128) = le_prim 4"
  "fm_f64 (bincode_format w16 w32 w64 s32 s64 s128) = le_prim 8"
  "fm_str (bincode_format w16 w32 w64 s32 s64 s128) = prim_of (str_codec w64)"
  "fm_bytes (bincode_format w16 w32 w64 s32 s64 s128) = prim_of (bytes_codec w64)"
  "fm_ip (bincode_format w16 w32 w64 s32 s64 s128) = prim_of (ip_codec w32)"
  "fm_socket (bincode_format w16 w32 w64 s32 s64 s128) = prim_of (socket_codec w32 w16)"
  "fm_duration (bincode_format w16 w32 w64 s32 s64 s128) = prim_of (duration_codec w64 w32)"
  "fm_valid_timestamp (bincode_format w16 w32 w64 s32 s64 s128) t \<longleftrightarrow>
     - 377705023201000000000 \<le> sint (as_nanosecond t) \<and> sint (as_nanosecond t) \<le> 253402207200999999999"
  by (simp_all add: bincode_format_def)

text \<open>What it takes to evaluate them.\<close>

lemma le_bytes_numeral:
  "le_bytes (numeral k) v = of_nat (v mod 256) # le_bytes (pred_numeral k) (v div 256)"
  by (subst numeral_eq_Suc [of k]) (rule le_bytes.simps)

lemma le_prim_write: "fst (le_prim n) w = le_bytes n (unat w)"
  by (simp add: le_prim_def)

lemma var_prim_write: "fst (var_prim n) w = var_write (unat w)"
  by (simp add: var_prim_def)

lemma bytes_write: "enc (bytes_codec len) b = fst len (of_nat (length b)) @ b"
proof -
  have "unat w mod 256 = unat w" for w :: u8
    using unat_in_bytes [of 1 w] by simp
  then have "concat (map (\<lambda>w :: u8. le_bytes 1 (unat w)) b) = b"
    by (induction b) simp_all
  moreover have "enc (plain (le_prim 1)) = (\<lambda>w :: u8. le_bytes 1 (unat w))"
    by (simp add: fun_eq_iff codec_simps le_prim_write)
  ultimately show ?thesis by (simp only: bytes_codec_def list_codec_sel)
qed

lemma str_write:
  "fst (prim_of (str_codec len)) s = fst len (of_nat (length s)) @ map (\<lambda>c. of_nat (of_char c)) s"
  by (simp add: prim_of_def str_codec_def via_codec_def bytes_write)

lemma bool_write: "fst (prim_of bool_codec) t = [if t then 1 else 0]"
  by (simp add: prim_of_def bool_codec_def via_codec_def codec_simps le_prim_write)

lemmas fixint_simps = codec_simps le_bytes_numeral le_prim_write str_write bool_write
lemmas standard_simps = codec_simps var_prim_write var_write_def le_bytes_numeral le_prim_write str_write bool_write

subsection \<open>They are lawful\<close>

lemma lawful_plain: "lawful (plain p) \<Longrightarrow> lawful (prim_codec (\<lambda>_. True) p)"
  by (simp add: plain_def)

lemma lawful_plain_of: "lawful c \<Longrightarrow> (\<And>a. fits c a) \<Longrightarrow> lawful (plain (prim_of c))"
  unfolding plain_def by (rule lawful_prim_of)

lemma lawful_bool: "lawful (plain (prim_of bool_codec))"
  unfolding bool_codec_def
  by (intro lawful_plain_of lawful_via lawful_le_prim) (simp_all add: via_codec_def plain_def)

lemma lawful_bytes: "lawful (plain len) \<Longrightarrow> lawful (bytes_codec len)"
  unfolding bytes_codec_def by (intro lawful_list lawful_plain lawful_le_prim) simp_all

lemma fits_bytes: "fits (bytes_codec len) b \<longleftrightarrow> length b \<le> MAX_LEN"
  by (simp add: bytes_codec_def codec_simps list_all_iff)

lemma lawful_str: "lawful (plain len) \<Longrightarrow> lawful (str_codec len)"
  unfolding str_codec_def
  by (intro lawful_via lawful_bytes) (simp_all add: map_idI unsigned_of_nat take_bit_nat_eq_self)

lemma lawful_ip: "lawful (plain variant) \<Longrightarrow> lawful (plain (prim_of (ip_codec variant)))"
proof (rule lawful_plain_of)
  show "lawful (plain variant) \<Longrightarrow> lawful (ip_codec variant)"
    unfolding ip_codec_def
    by (intro lawful_enum lawful_plain) (auto intro!: lawful_arm lawful_be_prim split: IpAddr.splits)
qed (auto simp: ip_codec_def enum_codec_def arm_def codec_simps split: IpAddr.splits)

lemma lawful_socket: "lawful (plain variant) \<Longrightarrow> lawful (plain w16) \<Longrightarrow> lawful (socket_codec variant w16)"
  unfolding socket_codec_def
  by (intro lawful_enum lawful_plain)
    (auto intro!: lawful_arm lawful_pair lawful_be_prim split: SocketAddr.splits if_splits)

lemma lawful_dur: "lawful (plain w64) \<Longrightarrow> lawful (plain w32) \<Longrightarrow> lawful (duration_codec w64 w32)"
  unfolding duration_codec_def by (intro lawful_struct lawful_pair) auto

lemma lawful_zig:
  assumes "LENGTH('w) = 8 * n" and "n \<in> {2, 4, 8, 16}"
  shows "lawful (plain (prim_of (zig_codec n :: 'w::len word codec)))"
  unfolding zig_codec_def using unzigzag_zigzag
  by (intro lawful_plain_of lawful_struct lawful_var_prim assms) (simp_all add: codec_simps)

lemma lawful_opaque:
  assumes "\<And>a. build (content a) = a"
  shows "lawful (plain (prim_of (opaque_codec build content)))"
proof (rule lawful_plain_of)
  have "lawful (plain (fenced, unfenced))"
    by (rule lawfulI) (simp_all add: plain_def unfenced_fenced streams_unfenced)
  with assms show "lawful (opaque_codec build content)"
    unfolding opaque_codec_def by (intro lawful_struct)
qed (simp add: opaque_codec_def codec_simps)

lemma orders_bincode:
  "orders (fm_order_str (bincode_format w16 w32 w64 s32 s64 s128))"
  "orders (fm_order_ip (bincode_format w16 w32 w64 s32 s64 s128))"
  "orders (fm_order_port (bincode_format w16 w32 w64 s32 s64 s128))"
proof -
  have "ip_unkey (ip_key a) = a" for a by (cases a) (simp_all add: ip_unkey_def)
  then show "orders (fm_order_ip (bincode_format w16 w32 w64 s32 s64 s128))"
    by (simp add: bincode_format_def orders_by_key)
  have "map char_of (map of_char s :: nat list) = s" for s :: string by (simp add: map_idI)
  then show "orders (fm_order_str (bincode_format w16 w32 w64 s32 s64 s128))"
    unfolding bincode_format_def format.simps by (rule orders_by_key)
  show "orders (fm_order_port (bincode_format w16 w32 w64 s32 s64 s128))"
    unfolding bincode_format_def format.simps by (rule orders_by_key) auto
qed

lemma lawful_bincode:
  fixes w16 w32 w64 s32 s64 s128
  defines "F \<equiv> bincode_format w16 w32 w64 s32 s64 s128"
  assumes ints: "lawful (plain w16)" "lawful (plain w32)" "lawful (plain w64)" "lawful (plain s32)"
      "lawful (plain s64)" "lawful (plain s128)"
  shows "lawful_format F"
proof -
  have "fits (str_codec w64) s" if "length s \<le> MAX_LEN" for s
    using that by (simp add: str_codec_def via_codec_def fits_bytes)
  then have "lawful (codec_str F)"
    unfolding codec_str_def F_def bincode_sel by (rule lawful_prim_of [OF lawful_str [OF ints(3)]])
  moreover have "lawful (codec_bytes F)"
    unfolding codec_bytes_def F_def bincode_sel
    by (rule lawful_prim_of [OF lawful_bytes [OF ints(3)]]) (simp add: fits_bytes)
  moreover have "lawful (codec_duration F)"
    unfolding codec_duration_def F_def bincode_sel
    by (rule lawful_prim_of [OF lawful_dur [OF ints(3,2)]]) (simp add: duration_codec_def codec_simps)
  moreover have "lawful (codec_socket F)"
    unfolding codec_socket_def F_def bincode_sel
    by (rule lawful_prim_of [OF lawful_socket [OF ints(2,1)]])
      (auto simp: socket_codec_def enum_codec_def arm_def codec_simps split: SocketAddr.splits)
  moreover have "lawful (plain (prim_of (opaque_codec IpNet (\<lambda>n. case n of IpNet b \<Rightarrow> b))))"
      "lawful (plain (prim_of (opaque_codec CivilDateTime (\<lambda>t. case t of CivilDateTime b \<Rightarrow> b))))"
      "lawful (plain (prim_of (opaque_codec ColumnStatistics (\<lambda>s. case s of ColumnStatistics b \<Rightarrow> b))))"
    by (rule lawful_opaque, simp split: IpNet.splits CivilDateTime.splits ColumnStatistics.splits)+
  moreover have "fm_ipnet F = prim_of (opaque_codec IpNet (\<lambda>n. case n of IpNet b \<Rightarrow> b))"
      "fm_civil F = prim_of (opaque_codec CivilDateTime (\<lambda>t. case t of CivilDateTime b \<Rightarrow> b))"
      "fm_statistics F = prim_of (opaque_codec ColumnStatistics (\<lambda>s. case s of ColumnStatistics b \<Rightarrow> b))"
    by (simp_all add: F_def bincode_format_def)
  moreover have "lawful (plain (fm_ip F))" using lawful_ip [OF ints(2)] by (simp add: F_def bincode_sel)
  ultimately show ?thesis
    using ints lawful_bool orders_bincode
    by (simp add: lawful_format_def F_def bincode_sel lawful_le_prim)
qed

lemma lawful_fixint: "lawful_format fixint_format"
  unfolding fixint_format_def by (rule lawful_bincode; rule lawful_le_prim; simp)

lemma lawful_standard: "lawful_format standard_format"
  unfolding standard_format_def by (rule lawful_bincode; (rule lawful_var_prim lawful_zig; simp))

lemmas fixint_sel [simp] = bincode_sel [of "le_prim 2" "le_prim 4" "le_prim 8" "le_prim 4" "le_prim 8" "le_prim 16",
  folded fixint_format_def]
lemmas standard_sel [simp] = bincode_sel [of "var_prim 2" "var_prim 4" "var_prim 8" "prim_of (zig_codec 4)"
  "prim_of (zig_codec 8)" "prim_of (zig_codec 16)", folded standard_format_def]

end
