(* ===== verification/Wire_Layout.thy ===== *)
theory Wire_Layout
  imports Wire_Derive Wire_Formats
begin

text \<open>
  The bytes of each type of \<open>src/src/types.rs\<close>, constructor by constructor: declaration
  order is the wire contract, of variants and of fields. From them follow what fits a value and
  what a side makes of a variant or a byte it does not know.
\<close>

named_theorems wire_layout \<open>the bytes of a value\<close>
named_theorems wire_fits \<open>the domain of a codec\<close>

lemma arm_sel [simp]:
  "arm_enc (arm c build told) a = map_option (enc c) (told a)"
  "arm_fits (arm c build told) a = (case told a of None \<Rightarrow> False | Some x \<Rightarrow> fits c x)"
  "arm_enc (unit_arm k) a = (if a = k then Some [] else None)"
  "arm_fits (unit_arm k) a \<longleftrightarrow> a = k"
  by (simp_all add: arm_def unit_arm_def unit_codec_def)

lemma enum_codec_sel:
  "enc (enum_codec variant arms) a =
     (case arm_index arms a of None \<Rightarrow> []
      | Some i \<Rightarrow> fst variant (of_nat i) @ the (arm_enc (arms ! i) a))"
  "fits (enum_codec variant arms) a =
     (case arm_index arms a of None \<Rightarrow> False | Some i \<Rightarrow> arm_fits (arms ! i) a)"
  by (simp_all add: enum_codec_def)

lemma via_codec_sel:
  "enc (via_codec P try_from into c) a = enc c (into a)"
  "fits (via_codec P try_from into c) a \<longleftrightarrow> P a \<and> fits c (into a)"
  by (simp_all add: via_codec_def)

lemmas layout_rules = codec_simps enum_codec_sel via_codec_sel

subsection \<open>Types outside the node families\<close>

lemma layout_CustomerDataDeletionRequest [wire_layout]:
  "enc (codec_CustomerDataDeletionRequest F) a =
     enc (plain (fm_u32 F)) (cdd_id a) @ enc (codec_str F) (cdd_host_fqdn a)"
  by (simp_all add: codec_CustomerDataDeletionRequest_def layout_rules)

lemma fits_CustomerDataDeletionRequest [wire_fits]:
  "fits (codec_CustomerDataDeletionRequest F) a \<longleftrightarrow>
     fits (plain (fm_u32 F)) (cdd_id a) \<and> fits (codec_str F) (cdd_host_fqdn a)"
  by (simp_all add: codec_CustomerDataDeletionRequest_def layout_rules)

lemma layout_CustomerDataDeletionReporter [wire_layout]:
  "enc (codec_CustomerDataDeletionReporter F) Reporter_Sensor = fst (fm_variant F) 0"
  "enc (codec_CustomerDataDeletionReporter F) Reporter_SemiSupervised = fst (fm_variant F) 1"
  by (simp_all add: codec_CustomerDataDeletionReporter_def layout_rules)

lemma fits_CustomerDataDeletionReporter [wire_fits]:
  "fits (codec_CustomerDataDeletionReporter F) a"
  by (cases a) (simp_all add: codec_CustomerDataDeletionReporter_def layout_rules)

lemma layout_CustomerDataDeletionOutcome [wire_layout]:
  "enc (codec_CustomerDataDeletionOutcome F) Outcome_Succeeded = fst (fm_variant F) 0"
  "enc (codec_CustomerDataDeletionOutcome F) (Outcome_Failed a1) = fst (fm_variant F) 1 @ enc (codec_str F) a1"
  by (simp_all add: codec_CustomerDataDeletionOutcome_def layout_rules)

lemma fits_CustomerDataDeletionOutcome [wire_fits]:
  "fits (codec_CustomerDataDeletionOutcome F) Outcome_Succeeded"
  "fits (codec_CustomerDataDeletionOutcome F) (Outcome_Failed a1) \<longleftrightarrow> fits (codec_str F) a1"
  by (simp_all add: codec_CustomerDataDeletionOutcome_def layout_rules)

lemma layout_CustomerDataDeletionReport [wire_layout]:
  "enc (codec_CustomerDataDeletionReport F) a =
     enc (plain (fm_u32 F)) (cdr_id a) @ enc (codec_str F) (cdr_host_fqdn a) @ enc (option_codec (fm_option F) (plain (fm_i64 F))) (cdr_completed_at a) @ enc (codec_CustomerDataDeletionReporter F) (cdr_reporter a) @ enc (codec_CustomerDataDeletionOutcome F) (cdr_outcome a)"
  by (simp_all add: codec_CustomerDataDeletionReport_def layout_rules)

lemma fits_CustomerDataDeletionReport [wire_fits]:
  "fits (codec_CustomerDataDeletionReport F) a \<longleftrightarrow>
     fits (plain (fm_u32 F)) (cdr_id a) \<and> fits (codec_str F) (cdr_host_fqdn a) \<and> fits (option_codec (fm_option F) (plain (fm_i64 F))) (cdr_completed_at a) \<and> fits (codec_CustomerDataDeletionReporter F) (cdr_reporter a) \<and> fits (codec_CustomerDataDeletionOutcome F) (cdr_outcome a)"
  by (simp_all add: codec_CustomerDataDeletionReport_def layout_rules)

lemma layout_TrainModelRequest [wire_layout]:
  "enc (codec_TrainModelRequest F) a =
     enc (plain (fm_u32 F)) (tm_run_id a) @ enc (codec_str F) (tm_model a) @ enc (codec_str F) (tm_definition a)"
  by (simp_all add: codec_TrainModelRequest_def layout_rules)

lemma fits_TrainModelRequest [wire_fits]:
  "fits (codec_TrainModelRequest F) a \<longleftrightarrow>
     fits (plain (fm_u32 F)) (tm_run_id a) \<and> fits (codec_str F) (tm_model a) \<and> fits (codec_str F) (tm_definition a)"
  by (simp_all add: codec_TrainModelRequest_def layout_rules)

lemma layout_CloneModelRequest [wire_layout]:
  "enc (codec_CloneModelRequest F) a =
     enc (plain (fm_u32 F)) (cm_run_id a) @ enc (codec_str F) (cm_source a) @ enc (codec_str F) (cm_target_name a) @ enc (plain (fm_bool F)) (cm_strip_events a)"
  by (simp_all add: codec_CloneModelRequest_def layout_rules)

lemma fits_CloneModelRequest [wire_fits]:
  "fits (codec_CloneModelRequest F) a \<longleftrightarrow>
     fits (plain (fm_u32 F)) (cm_run_id a) \<and> fits (codec_str F) (cm_source a) \<and> fits (codec_str F) (cm_target_name a) \<and> fits (plain (fm_bool F)) (cm_strip_events a)"
  by (simp_all add: codec_CloneModelRequest_def layout_rules)

lemma layout_ReportedRunState [wire_layout]:
  "enc (codec_ReportedRunState F) Run_Started = fst (fm_variant F) 0"
  "enc (codec_ReportedRunState F) Run_Failed = fst (fm_variant F) 1"
  "enc (codec_ReportedRunState F) Run_Cancelled = fst (fm_variant F) 2"
  by (simp_all add: codec_ReportedRunState_def layout_rules)

lemma fits_ReportedRunState [wire_fits]:
  "fits (codec_ReportedRunState F) a"
  by (cases a) (simp_all add: codec_ReportedRunState_def layout_rules)

lemma layout_DetectorState [wire_layout]:
  "enc (codec_DetectorState F) Detector_Running = fst (fm_variant F) 0"
  "enc (codec_DetectorState F) Detector_Disabled = fst (fm_variant F) 1"
  "enc (codec_DetectorState F) Detector_NoModel = fst (fm_variant F) 2"
  "enc (codec_DetectorState F) Detector_PausedForRun = fst (fm_variant F) 3"
  by (simp_all add: codec_DetectorState_def layout_rules)

lemma fits_DetectorState [wire_fits]:
  "fits (codec_DetectorState F) a"
  by (cases a) (simp_all add: codec_DetectorState_def layout_rules)

lemma layout_RoundOutcome [wire_layout]:
  "enc (codec_RoundOutcome F) Round_Succeeded = fst (fm_variant F) 0"
  "enc (codec_RoundOutcome F) Round_Failed = fst (fm_variant F) 1"
  by (simp_all add: codec_RoundOutcome_def layout_rules)

lemma fits_RoundOutcome [wire_fits]:
  "fits (codec_RoundOutcome F) a"
  by (cases a) (simp_all add: codec_RoundOutcome_def layout_rules)

lemma layout_SourceState [wire_layout]:
  "enc (codec_SourceState F) Source_Served = fst (fm_variant F) 0"
  "enc (codec_SourceState F) Source_ServedByNoNode = fst (fm_variant F) 1"
  "enc (codec_SourceState F) Source_Failed = fst (fm_variant F) 2"
  by (simp_all add: codec_SourceState_def layout_rules)

lemma fits_SourceState [wire_fits]:
  "fits (codec_SourceState F) a"
  by (cases a) (simp_all add: codec_SourceState_def layout_rules)

lemma layout_SourceStatus [wire_layout]:
  "enc (codec_SourceStatus F) a =
     enc (codec_str F) (ss_source a) @ enc (codec_SourceState F) (ss_state a) @ enc (option_codec (fm_option F) (codec_str F)) (ss_reason a)"
  by (simp_all add: codec_SourceStatus_def layout_rules)

lemma fits_SourceStatus [wire_fits]:
  "fits (codec_SourceStatus F) a \<longleftrightarrow>
     fits (codec_str F) (ss_source a) \<and> fits (codec_SourceState F) (ss_state a) \<and> fits (option_codec (fm_option F) (codec_str F)) (ss_reason a)"
  by (simp_all add: codec_SourceStatus_def layout_rules)

lemma layout_DetectorStatusReport [wire_layout]:
  "enc (codec_DetectorStatusReport F) a =
     enc (plain (fm_i32 F)) (ds_detector_id a) @ enc (codec_DetectorState F) (ds_state a) @ enc (option_codec (fm_option F) (plain (fm_i64 F))) (ds_finished_at a) @ enc (option_codec (fm_option F) (codec_RoundOutcome F)) (ds_outcome a) @ enc (option_codec (fm_option F) (codec_str F)) (ds_reason a) @ enc (plain (fm_u64 F)) (ds_events a) @ enc (list_codec (fm_len F) (codec_SourceStatus F)) (ds_sources a)"
  by (simp_all add: codec_DetectorStatusReport_def layout_rules)

lemma fits_DetectorStatusReport [wire_fits]:
  "fits (codec_DetectorStatusReport F) a \<longleftrightarrow>
     fits (plain (fm_i32 F)) (ds_detector_id a) \<and> fits (codec_DetectorState F) (ds_state a) \<and> fits (option_codec (fm_option F) (plain (fm_i64 F))) (ds_finished_at a) \<and> fits (option_codec (fm_option F) (codec_RoundOutcome F)) (ds_outcome a) \<and> fits (option_codec (fm_option F) (codec_str F)) (ds_reason a) \<and> fits (plain (fm_u64 F)) (ds_events a) \<and> fits (list_codec (fm_len F) (codec_SourceStatus F)) (ds_sources a)"
  by (simp_all add: codec_DetectorStatusReport_def layout_rules)

lemma layout_DataSourceKey [wire_layout]:
  "enc (codec_DataSourceKey F) (DataSourceKey_Id a0) = fst (fm_variant F) 0 @ enc (plain (fm_u32 F)) a0"
  "enc (codec_DataSourceKey F) (DataSourceKey_Name a1) = fst (fm_variant F) 1 @ enc (codec_str F) a1"
  by (simp_all add: codec_DataSourceKey_def layout_rules)

lemma fits_DataSourceKey [wire_fits]:
  "fits (codec_DataSourceKey F) (DataSourceKey_Id a0) \<longleftrightarrow> fits (plain (fm_u32 F)) a0"
  "fits (codec_DataSourceKey F) (DataSourceKey_Name a1) \<longleftrightarrow> fits (codec_str F) a1"
  by (simp_all add: codec_DataSourceKey_def layout_rules)

lemma layout_DataType [wire_layout]:
  "enc (codec_DataType F) a = fst (fm_u16 F) (DataType_into a)"
  by (simp_all add: codec_DataType_def layout_rules)

lemma fits_DataType [wire_fits]:
  "fits (codec_DataType F) a"
  by (simp_all add: codec_DataType_def layout_rules)

lemma layout_DataSource [wire_layout]:
  "enc (codec_DataSource F) a =
     enc (plain (fm_u32 F)) (dsrc_id a) @ enc (codec_str F) (dsrc_name a) @ enc (codec_str F) (dsrc_server_name a) @ enc (codec_socket F) (dsrc_address a) @ enc (codec_DataType F) (dsrc_data_type a) @ enc (codec_str F) (dsrc_source a) @ enc (option_codec (fm_option F) (codec_str F)) (dsrc_kind a) @ enc (codec_str F) (dsrc_description a)"
  by (simp_all add: codec_DataSource_def layout_rules)

lemma fits_DataSource [wire_fits]:
  "fits (codec_DataSource F) a \<longleftrightarrow>
     fits (plain (fm_u32 F)) (dsrc_id a) \<and> fits (codec_str F) (dsrc_name a) \<and> fits (codec_str F) (dsrc_server_name a) \<and> fits (codec_socket F) (dsrc_address a) \<and> fits (codec_DataType F) (dsrc_data_type a) \<and> fits (codec_str F) (dsrc_source a) \<and> fits (option_codec (fm_option F) (codec_str F)) (dsrc_kind a) \<and> fits (codec_str F) (dsrc_description a)"
  by (simp_all add: codec_DataSource_def layout_rules)

lemma layout_ResourceUsage [wire_layout]:
  "enc (codec_ResourceUsage F) a =
     enc (plain (fm_f32 F)) (ru_cpu_usage a) @ enc (plain (fm_u64 F)) (ru_total_memory a) @ enc (plain (fm_u64 F)) (ru_used_memory a) @ enc (plain (fm_u64 F)) (ru_disk_used_bytes a) @ enc (plain (fm_u64 F)) (ru_disk_available_bytes a)"
  by (simp_all add: codec_ResourceUsage_def layout_rules)

lemma fits_ResourceUsage [wire_fits]:
  "fits (codec_ResourceUsage F) a \<longleftrightarrow>
     fits (plain (fm_f32 F)) (ru_cpu_usage a) \<and> fits (plain (fm_u64 F)) (ru_total_memory a) \<and> fits (plain (fm_u64 F)) (ru_used_memory a) \<and> fits (plain (fm_u64 F)) (ru_disk_used_bytes a) \<and> fits (plain (fm_u64 F)) (ru_disk_available_bytes a)"
  by (simp_all add: codec_ResourceUsage_def layout_rules)

lemma layout_Process [wire_layout]:
  "enc (codec_Process F) a =
     enc (codec_str F) (proc_user a) @ enc (plain (fm_f32 F)) (proc_cpu_usage a) @ enc (plain (fm_f64 F)) (proc_mem_usage a) @ enc (plain (fm_i64 F)) (proc_start_time a) @ enc (codec_str F) (proc_command a)"
  by (simp_all add: codec_Process_def layout_rules)

lemma fits_Process [wire_fits]:
  "fits (codec_Process F) a \<longleftrightarrow>
     fits (codec_str F) (proc_user a) \<and> fits (plain (fm_f32 F)) (proc_cpu_usage a) \<and> fits (plain (fm_f64 F)) (proc_mem_usage a) \<and> fits (plain (fm_i64 F)) (proc_start_time a) \<and> fits (codec_str F) (proc_command a)"
  by (simp_all add: codec_Process_def layout_rules)

lemma layout_HostNetworkGroup [wire_layout]:
  "enc (codec_HostNetworkGroup F) a =
     enc (list_codec (fm_len F) (plain (fm_ip F))) (hng_hosts a) @ enc (list_codec (fm_len F) (plain (fm_ipnet F))) (hng_networks a) @ enc (list_codec (fm_len F) (pair_codec (plain (fm_ip F)) (plain (fm_ip F)))) (hng_ip_ranges a)"
  by (simp_all add: codec_HostNetworkGroup_def layout_rules)

lemma fits_HostNetworkGroup [wire_fits]:
  "fits (codec_HostNetworkGroup F) a \<longleftrightarrow>
     fits (list_codec (fm_len F) (plain (fm_ip F))) (hng_hosts a) \<and> fits (list_codec (fm_len F) (plain (fm_ipnet F))) (hng_networks a) \<and> fits (list_codec (fm_len F) (pair_codec (plain (fm_ip F)) (plain (fm_ip F)))) (hng_ip_ranges a)"
  by (simp_all add: codec_HostNetworkGroup_def layout_rules)

lemma layout_SamplingKind [wire_layout]:
  "enc (codec_SamplingKind F) Sampling_Conn = fst (fm_variant F) 0"
  "enc (codec_SamplingKind F) Sampling_Dns = fst (fm_variant F) 1"
  "enc (codec_SamplingKind F) Sampling_Http = fst (fm_variant F) 2"
  "enc (codec_SamplingKind F) Sampling_Rdp = fst (fm_variant F) 3"
  by (simp_all add: codec_SamplingKind_def layout_rules)

lemma fits_SamplingKind [wire_fits]:
  "fits (codec_SamplingKind F) a"
  by (cases a) (simp_all add: codec_SamplingKind_def layout_rules)

lemma layout_SamplingPolicy [wire_layout]:
  "enc (codec_SamplingPolicy F) a =
     enc (plain (fm_u32 F)) (sp_id a) @ enc (codec_SamplingKind F) (sp_kind a) @ enc (codec_duration F) (sp_interval a) @ enc (codec_duration F) (sp_period a) @ enc (plain (fm_i32 F)) (sp_offset a) @ enc (option_codec (fm_option F) (plain (fm_ip F))) (sp_src_ip a) @ enc (option_codec (fm_option F) (plain (fm_ip F))) (sp_dst_ip a) @ enc (option_codec (fm_option F) (codec_str F)) (sp_node a) @ enc (option_codec (fm_option F) (plain (fm_u32 F))) (sp_column a)"
  by (simp_all add: codec_SamplingPolicy_def layout_rules)

lemma fits_SamplingPolicy [wire_fits]:
  "fits (codec_SamplingPolicy F) a \<longleftrightarrow>
     fits (plain (fm_u32 F)) (sp_id a) \<and> fits (codec_SamplingKind F) (sp_kind a) \<and> fits (codec_duration F) (sp_interval a) \<and> fits (codec_duration F) (sp_period a) \<and> fits (plain (fm_i32 F)) (sp_offset a) \<and> fits (option_codec (fm_option F) (plain (fm_ip F))) (sp_src_ip a) \<and> fits (option_codec (fm_option F) (plain (fm_ip F))) (sp_dst_ip a) \<and> fits (option_codec (fm_option F) (codec_str F)) (sp_node a) \<and> fits (option_codec (fm_option F) (plain (fm_u32 F))) (sp_column a)"
  by (simp_all add: codec_SamplingPolicy_def layout_rules)

lemma layout_TrafficFilterRule [wire_layout]:
  "enc (codec_TrafficFilterRule F) (a, b, c) = enc (plain (fm_ipnet F)) a @
     enc (option_codec (fm_option F) (list_codec (fm_len F) (plain (fm_u16 F)))) b @
     enc (option_codec (fm_option F) (list_codec (fm_len F) (plain (fm_u16 F)))) c"
  by (simp add: codec_TrafficFilterRule_def layout_rules)

lemma layout_EventCategory [wire_layout]:
  "enc (codec_EventCategory F) Reconnaissance = fst (fm_variant F) 0"
  "enc (codec_EventCategory F) InitialAccess = fst (fm_variant F) 1"
  "enc (codec_EventCategory F) Execution = fst (fm_variant F) 2"
  "enc (codec_EventCategory F) CredentialAccess = fst (fm_variant F) 3"
  "enc (codec_EventCategory F) Discovery = fst (fm_variant F) 4"
  "enc (codec_EventCategory F) LateralMovement = fst (fm_variant F) 5"
  "enc (codec_EventCategory F) CommandAndControl = fst (fm_variant F) 6"
  "enc (codec_EventCategory F) Exfiltration = fst (fm_variant F) 7"
  "enc (codec_EventCategory F) Impact = fst (fm_variant F) 8"
  "enc (codec_EventCategory F) Collection = fst (fm_variant F) 9"
  "enc (codec_EventCategory F) DefenseEvasion = fst (fm_variant F) 10"
  "enc (codec_EventCategory F) Persistence = fst (fm_variant F) 11"
  "enc (codec_EventCategory F) PrivilegeEscalation = fst (fm_variant F) 12"
  "enc (codec_EventCategory F) ResourceDevelopment = fst (fm_variant F) 13"
  by (simp_all add: codec_EventCategory_def layout_rules)

lemma fits_EventCategory [wire_fits]:
  "fits (codec_EventCategory F) a"
  by (cases a) (simp_all add: codec_EventCategory_def layout_rules)

lemma layout_LabelDbKind [wire_layout]:
  "enc (codec_LabelDbKind F) a = fst (fm_u8 F) (LabelDbKind_into a)"
  by (simp_all add: codec_LabelDbKind_def layout_rules)

lemma fits_LabelDbKind [wire_fits]:
  "fits (codec_LabelDbKind F) a"
  by (simp_all add: codec_LabelDbKind_def layout_rules)

lemma layout_RuleKind [wire_layout]:
  "enc (codec_RuleKind F) Rule_Os = fst (fm_variant F) 0"
  "enc (codec_RuleKind F) Rule_AgentSoftware = fst (fm_variant F) 1"
  by (simp_all add: codec_RuleKind_def layout_rules)

lemma fits_RuleKind [wire_fits]:
  "fits (codec_RuleKind F) a"
  by (cases a) (simp_all add: codec_RuleKind_def layout_rules)

lemma layout_UserAgent [wire_layout]:
  "enc (codec_UserAgent F) a =
     enc (codec_str F) (ua_name a) @ enc (codec_str F) (ua_header a) @ enc (codec_RuleKind F) (ua_kind a) @ enc (plain (fm_i64 F)) (ua_last_modification_time a)"
  by (simp_all add: codec_UserAgent_def layout_rules)

lemma fits_UserAgent [wire_fits]:
  "fits (codec_UserAgent F) a \<longleftrightarrow>
     fits (codec_str F) (ua_name a) \<and> fits (codec_str F) (ua_header a) \<and> fits (codec_RuleKind F) (ua_kind a) \<and> fits (plain (fm_i64 F)) (ua_last_modification_time a)"
  by (simp_all add: codec_UserAgent_def layout_rules)

lemma layout_LabelDbRule [wire_layout]:
  "enc (codec_LabelDbRule F) a =
     enc (plain (fm_u32 F)) (ldr_rule_id a) @ enc (option_codec (fm_option F) (codec_EventCategory F)) (ldr_category a) @ enc (codec_str F) (ldr_name a) @ enc (option_codec (fm_option F) (codec_RuleKind F)) (ldr_kind a) @ enc (option_codec (fm_option F) (codec_str F)) (ldr_description a) @ enc (option_codec (fm_option F) (list_codec (fm_len F) (codec_str F))) (ldr_references a) @ enc (option_codec (fm_option F) (list_codec (fm_len F) (codec_str F))) (ldr_samples a) @ enc (option_codec (fm_option F) (list_codec (fm_len F) (codec_str F))) (ldr_signatures a) @ enc (option_codec (fm_option F) (plain (fm_f32 F))) (ldr_confidence a)"
  by (simp_all add: codec_LabelDbRule_def layout_rules)

lemma fits_LabelDbRule [wire_fits]:
  "fits (codec_LabelDbRule F) a \<longleftrightarrow>
     fits (plain (fm_u32 F)) (ldr_rule_id a) \<and> fits (option_codec (fm_option F) (codec_EventCategory F)) (ldr_category a) \<and> fits (codec_str F) (ldr_name a) \<and> fits (option_codec (fm_option F) (codec_RuleKind F)) (ldr_kind a) \<and> fits (option_codec (fm_option F) (codec_str F)) (ldr_description a) \<and> fits (option_codec (fm_option F) (list_codec (fm_len F) (codec_str F))) (ldr_references a) \<and> fits (option_codec (fm_option F) (list_codec (fm_len F) (codec_str F))) (ldr_samples a) \<and> fits (option_codec (fm_option F) (list_codec (fm_len F) (codec_str F))) (ldr_signatures a) \<and> fits (option_codec (fm_option F) (plain (fm_f32 F))) (ldr_confidence a)"
  by (simp_all add: codec_LabelDbRule_def layout_rules)

lemma layout_LabelDb [wire_layout]:
  "enc (codec_LabelDb F) a =
     enc (plain (fm_u32 F)) (ld_id a) @ enc (codec_str F) (ld_name a) @ enc (option_codec (fm_option F) (codec_str F)) (ld_description a) @ enc (codec_LabelDbKind F) (ld_kind a) @ enc (option_codec (fm_option F) (codec_EventCategory F)) (ld_category a) @ enc (codec_str F) (ld_version a) @ enc (list_codec (fm_len F) (codec_LabelDbRule F)) (ld_patterns a)"
  by (simp_all add: codec_LabelDb_def layout_rules)

lemma fits_LabelDb [wire_fits]:
  "fits (codec_LabelDb F) a \<longleftrightarrow>
     fits (plain (fm_u32 F)) (ld_id a) \<and> fits (codec_str F) (ld_name a) \<and> fits (option_codec (fm_option F) (codec_str F)) (ld_description a) \<and> fits (codec_LabelDbKind F) (ld_kind a) \<and> fits (option_codec (fm_option F) (codec_EventCategory F)) (ld_category a) \<and> fits (codec_str F) (ld_version a) \<and> fits (list_codec (fm_len F) (codec_LabelDbRule F)) (ld_patterns a)"
  by (simp_all add: codec_LabelDb_def layout_rules)

lemma layout_Status [wire_layout]:
  "enc (codec_Status F) Status_Ready = fst (fm_variant F) 0"
  "enc (codec_Status F) Status_Idle = fst (fm_variant F) 1"
  by (simp_all add: codec_Status_def layout_rules)

lemma fits_Status [wire_fits]:
  "fits (codec_Status F) a"
  by (cases a) (simp_all add: codec_Status_def layout_rules)

lemma layout_ManifestFormatRange [wire_layout]:
  "enc (codec_ManifestFormatRange F) a =
     enc (plain (fm_u32 F)) (mf_min a) @ enc (plain (fm_u32 F)) (mf_max a)"
  by (simp_all add: codec_ManifestFormatRange_def layout_rules)

lemma fits_ManifestFormatRange [wire_fits]:
  "fits (codec_ManifestFormatRange F) a \<longleftrightarrow>
     fits (plain (fm_u32 F)) (mf_min a) \<and> fits (plain (fm_u32 F)) (mf_max a)"
  by (simp_all add: codec_ManifestFormatRange_def layout_rules)

lemma layout_ProvisioningFingerprint [wire_layout]:
  "enc (codec_ProvisioningFingerprint F) a =
     enc (map_codec (fm_len F) (fm_order_str F) (codec_str F) (codec_str F)) (pf_components a) @ enc (codec_str F) (pf_domain a)"
  by (simp_all add: codec_ProvisioningFingerprint_def layout_rules)

lemma fits_ProvisioningFingerprint [wire_fits]:
  "fits (codec_ProvisioningFingerprint F) a \<longleftrightarrow>
     fits (map_codec (fm_len F) (fm_order_str F) (codec_str F) (codec_str F)) (pf_components a) \<and> fits (codec_str F) (pf_domain a)"
  by (simp_all add: codec_ProvisioningFingerprint_def layout_rules)

lemma layout_AuditHealth [wire_layout]:
  "enc (codec_AuditHealth F) a =
     enc (plain (fm_bool F)) (ah_below_low_water a) @ enc (plain (fm_u64 F)) (ah_intent_without_outcome a)"
  by (simp_all add: codec_AuditHealth_def layout_rules)

lemma fits_AuditHealth [wire_fits]:
  "fits (codec_AuditHealth F) a \<longleftrightarrow>
     fits (plain (fm_bool F)) (ah_below_low_water a) \<and> fits (plain (fm_u64 F)) (ah_intent_without_outcome a)"
  by (simp_all add: codec_AuditHealth_def layout_rules)

lemma layout_ThreatLevel [wire_layout]:
  "enc (codec_ThreatLevel F) VeryLow = fst (fm_variant F) 0"
  "enc (codec_ThreatLevel F) Low = fst (fm_variant F) 1"
  "enc (codec_ThreatLevel F) Medium = fst (fm_variant F) 2"
  "enc (codec_ThreatLevel F) High = fst (fm_variant F) 3"
  "enc (codec_ThreatLevel F) VeryHigh = fst (fm_variant F) 4"
  by (simp_all add: codec_ThreatLevel_def layout_rules)

lemma fits_ThreatLevel [wire_fits]:
  "fits (codec_ThreatLevel F) a"
  by (cases a) (simp_all add: codec_ThreatLevel_def layout_rules)

lemma layout_ColumnStatisticsUpdate [wire_layout]:
  "enc (codec_ColumnStatisticsUpdate F) a =
     enc (plain (fm_u32 F)) (csu_cluster_id a) @ enc (list_codec (fm_len F) (plain (fm_statistics F))) (csu_column_statistics a)"
  by (simp_all add: codec_ColumnStatisticsUpdate_def layout_rules)

lemma fits_ColumnStatisticsUpdate [wire_fits]:
  "fits (codec_ColumnStatisticsUpdate F) a \<longleftrightarrow>
     fits (plain (fm_u32 F)) (csu_cluster_id a) \<and> fits (list_codec (fm_len F) (plain (fm_statistics F))) (csu_column_statistics a)"
  by (simp_all add: codec_ColumnStatisticsUpdate_def layout_rules)

lemma layout_TimeCount [wire_layout]:
  "enc (codec_TimeCount F) a =
     enc (plain (fm_civil F)) (tc_time a) @ enc (plain (fm_u64 F)) (tc_count a)"
  by (simp_all add: codec_TimeCount_def layout_rules)

lemma fits_TimeCount [wire_fits]:
  "fits (codec_TimeCount F) a \<longleftrightarrow>
     fits (plain (fm_civil F)) (tc_time a) \<and> fits (plain (fm_u64 F)) (tc_count a)"
  by (simp_all add: codec_TimeCount_def layout_rules)

lemma layout_TimeSeries [wire_layout]:
  "enc (codec_TimeSeries F) a =
     enc (option_codec (fm_option F) (plain (fm_u64 F))) (ts_count_index a) @ enc (list_codec (fm_len F) (codec_TimeCount F)) (ts_series a)"
  by (simp_all add: codec_TimeSeries_def layout_rules)

lemma fits_TimeSeries [wire_fits]:
  "fits (codec_TimeSeries F) a \<longleftrightarrow>
     fits (option_codec (fm_option F) (plain (fm_u64 F))) (ts_count_index a) \<and> fits (list_codec (fm_len F) (codec_TimeCount F)) (ts_series a)"
  by (simp_all add: codec_TimeSeries_def layout_rules)

lemma layout_TimeSeriesUpdate [wire_layout]:
  "enc (codec_TimeSeriesUpdate F) a =
     enc (plain (fm_u32 F)) (tsu_cluster_id a) @ enc (list_codec (fm_len F) (codec_TimeSeries F)) (tsu_time_series a)"
  by (simp_all add: codec_TimeSeriesUpdate_def layout_rules)

lemma fits_TimeSeriesUpdate [wire_fits]:
  "fits (codec_TimeSeriesUpdate F) a \<longleftrightarrow>
     fits (plain (fm_u32 F)) (tsu_cluster_id a) \<and> fits (list_codec (fm_len F) (codec_TimeSeries F)) (tsu_time_series a)"
  by (simp_all add: codec_TimeSeriesUpdate_def layout_rules)

lemma layout_UpdateClusterRequest [wire_layout]:
  "enc (codec_UpdateClusterRequest F) a =
     enc (plain (fm_u32 F)) (uc_cluster_id a) @ enc (plain (fm_i32 F)) (uc_detector_id a) @ enc (codec_str F) (uc_signature a) @ enc (option_codec (fm_option F) (plain (fm_f64 F))) (uc_score a) @ enc (plain (fm_i64 F)) (uc_size a) @ enc (list_codec (fm_len F) (pair_codec (plain (fm_i64 F)) (codec_str F))) (uc_event_ids a) @ enc (plain (fm_i32 F)) (uc_status_id a) @ enc (option_codec (fm_option F) (list_codec (fm_len F) (codec_str F))) (uc_labels a)"
  by (simp_all add: codec_UpdateClusterRequest_def layout_rules)

lemma fits_UpdateClusterRequest [wire_fits]:
  "fits (codec_UpdateClusterRequest F) a \<longleftrightarrow>
     fits (plain (fm_u32 F)) (uc_cluster_id a) \<and> fits (plain (fm_i32 F)) (uc_detector_id a) \<and> fits (codec_str F) (uc_signature a) \<and> fits (option_codec (fm_option F) (plain (fm_f64 F))) (uc_score a) \<and> fits (plain (fm_i64 F)) (uc_size a) \<and> fits (list_codec (fm_len F) (pair_codec (plain (fm_i64 F)) (codec_str F))) (uc_event_ids a) \<and> fits (plain (fm_i32 F)) (uc_status_id a) \<and> fits (option_codec (fm_option F) (list_codec (fm_len F) (codec_str F))) (uc_labels a)"
  by (simp_all add: codec_UpdateClusterRequest_def layout_rules)

lemma layout_OutlierInfo [wire_layout]:
  "enc (codec_OutlierInfo F) a =
     enc (plain (fm_i64 F)) (oi_id a) @ enc (plain (fm_i64 F)) (oi_rank a) @ enc (plain (fm_f64 F)) (oi_distance a) @ enc (codec_str F) (oi_sensor a)"
  by (simp_all add: codec_OutlierInfo_def layout_rules)

lemma fits_OutlierInfo [wire_fits]:
  "fits (codec_OutlierInfo F) a \<longleftrightarrow>
     fits (plain (fm_i64 F)) (oi_id a) \<and> fits (plain (fm_i64 F)) (oi_rank a) \<and> fits (plain (fm_f64 F)) (oi_distance a) \<and> fits (codec_str F) (oi_sensor a)"
  by (simp_all add: codec_OutlierInfo_def layout_rules)

lemma layout_EventKind [wire_layout]:
  "enc (codec_EventKind F) DnsCovertChannel = fst (fm_variant F) 0"
  "enc (codec_EventKind F) HttpThreat = fst (fm_variant F) 1"
  "enc (codec_EventKind F) RdpBruteForce = fst (fm_variant F) 2"
  "enc (codec_EventKind F) RepeatedHttpSessions = fst (fm_variant F) 3"
  "enc (codec_EventKind F) ExtraThreat = fst (fm_variant F) 4"
  "enc (codec_EventKind F) TorConnection = fst (fm_variant F) 5"
  "enc (codec_EventKind F) DomainGenerationAlgorithm = fst (fm_variant F) 6"
  "enc (codec_EventKind F) FtpBruteForce = fst (fm_variant F) 7"
  "enc (codec_EventKind F) FtpPlainText = fst (fm_variant F) 8"
  "enc (codec_EventKind F) PortScan = fst (fm_variant F) 9"
  "enc (codec_EventKind F) MultiHostPortScan = fst (fm_variant F) 10"
  "enc (codec_EventKind F) NonBrowser = fst (fm_variant F) 11"
  "enc (codec_EventKind F) LdapBruteForce = fst (fm_variant F) 12"
  "enc (codec_EventKind F) LdapPlainText = fst (fm_variant F) 13"
  "enc (codec_EventKind F) ExternalDdos = fst (fm_variant F) 14"
  "enc (codec_EventKind F) CryptocurrencyMiningPool = fst (fm_variant F) 15"
  "enc (codec_EventKind F) BlocklistConn = fst (fm_variant F) 16"
  "enc (codec_EventKind F) BlocklistDns = fst (fm_variant F) 17"
  "enc (codec_EventKind F) BlocklistDceRpc = fst (fm_variant F) 18"
  "enc (codec_EventKind F) BlocklistFtp = fst (fm_variant F) 19"
  "enc (codec_EventKind F) BlocklistHttp = fst (fm_variant F) 20"
  "enc (codec_EventKind F) BlocklistKerberos = fst (fm_variant F) 21"
  "enc (codec_EventKind F) BlocklistLdap = fst (fm_variant F) 22"
  "enc (codec_EventKind F) BlocklistMqtt = fst (fm_variant F) 23"
  "enc (codec_EventKind F) BlocklistNfs = fst (fm_variant F) 24"
  "enc (codec_EventKind F) BlocklistNtlm = fst (fm_variant F) 25"
  "enc (codec_EventKind F) BlocklistRdp = fst (fm_variant F) 26"
  "enc (codec_EventKind F) BlocklistSmb = fst (fm_variant F) 27"
  "enc (codec_EventKind F) BlocklistSmtp = fst (fm_variant F) 28"
  "enc (codec_EventKind F) BlocklistSsh = fst (fm_variant F) 29"
  "enc (codec_EventKind F) BlocklistTls = fst (fm_variant F) 30"
  "enc (codec_EventKind F) WindowsThreat = fst (fm_variant F) 31"
  "enc (codec_EventKind F) NetworkThreat = fst (fm_variant F) 32"
  "enc (codec_EventKind F) LockyRansomware = fst (fm_variant F) 33"
  "enc (codec_EventKind F) SuspiciousTlsTraffic = fst (fm_variant F) 34"
  "enc (codec_EventKind F) BlocklistBootp = fst (fm_variant F) 35"
  "enc (codec_EventKind F) BlocklistDhcp = fst (fm_variant F) 36"
  "enc (codec_EventKind F) TorConnectionConn = fst (fm_variant F) 37"
  "enc (codec_EventKind F) BlocklistRadius = fst (fm_variant F) 38"
  "enc (codec_EventKind F) BlocklistMalformedDns = fst (fm_variant F) 39"
  "enc (codec_EventKind F) UnusualDestinationPattern = fst (fm_variant F) 40"
  by (simp_all add: codec_EventKind_def layout_rules)

lemma fits_EventKind [wire_fits]:
  "fits (codec_EventKind F) a"
  by (cases a) (simp_all add: codec_EventKind_def layout_rules)

lemma layout_EventMessage [wire_layout]:
  "enc (codec_EventMessage F) a =
     enc (codec_timestamp F) (em_time a) @ enc (codec_EventKind F) (em_kind a) @ enc (codec_bytes F) (em_fields a)"
  by (simp_all add: codec_EventMessage_def layout_rules)

lemma fits_EventMessage [wire_fits]:
  "fits (codec_EventMessage F) a \<longleftrightarrow>
     fits (codec_timestamp F) (em_time a) \<and> fits (codec_EventKind F) (em_kind a) \<and> fits (codec_bytes F) (em_fields a)"
  by (simp_all add: codec_EventMessage_def layout_rules)

subsection \<open>Types of the node families\<close>

lemma layout_NodeServiceRequest [wire_layout]:
  "enc (codec_NodeServiceRequest F) (Service_Start a0) = fst (fm_variant F) 0 @ enc (codec_str F) a0"
  "enc (codec_NodeServiceRequest F) (Service_Stop a1) = fst (fm_variant F) 1 @ enc (codec_str F) a1"
  "enc (codec_NodeServiceRequest F) (Service_Status a2) = fst (fm_variant F) 2 @ enc (codec_str F) a2"
  "enc (codec_NodeServiceRequest F) (Service_Restart a3) = fst (fm_variant F) 3 @ enc (codec_str F) a3"
  by (simp_all add: codec_NodeServiceRequest_def layout_rules)

lemma fits_NodeServiceRequest [wire_fits]:
  "fits (codec_NodeServiceRequest F) (Service_Start a0) \<longleftrightarrow> fits (codec_str F) a0"
  "fits (codec_NodeServiceRequest F) (Service_Stop a1) \<longleftrightarrow> fits (codec_str F) a1"
  "fits (codec_NodeServiceRequest F) (Service_Status a2) \<longleftrightarrow> fits (codec_str F) a2"
  "fits (codec_NodeServiceRequest F) (Service_Restart a3) \<longleftrightarrow> fits (codec_str F) a3"
  by (simp_all add: codec_NodeServiceRequest_def layout_rules)

lemma layout_NodeServiceResponse [wire_layout]:
  "enc (codec_NodeServiceResponse F) (ServiceR_Status a0) = fst (fm_variant F) 0 @ enc (plain (fm_bool F)) a0"
  "enc (codec_NodeServiceResponse F) ServiceR_Done = fst (fm_variant F) 1"
  by (simp_all add: codec_NodeServiceResponse_def layout_rules)

lemma fits_NodeServiceResponse [wire_fits]:
  "fits (codec_NodeServiceResponse F) (ServiceR_Status a0) \<longleftrightarrow> fits (plain (fm_bool F)) a0"
  "fits (codec_NodeServiceResponse F) ServiceR_Done"
  by (simp_all add: codec_NodeServiceResponse_def layout_rules)

lemma layout_NodeNetworkInterfaceConfig [wire_layout]:
  "enc (codec_NodeNetworkInterfaceConfig F) a =
     enc (option_codec (fm_option F) (list_codec (fm_len F) (codec_str F))) (nic_addresses a) @ enc (option_codec (fm_option F) (plain (fm_bool F))) (nic_dhcp4 a) @ enc (option_codec (fm_option F) (codec_str F)) (nic_gateway4 a) @ enc (option_codec (fm_option F) (list_codec (fm_len F) (codec_str F))) (nic_nameservers a)"
  by (simp_all add: codec_NodeNetworkInterfaceConfig_def layout_rules)

lemma fits_NodeNetworkInterfaceConfig [wire_fits]:
  "fits (codec_NodeNetworkInterfaceConfig F) a \<longleftrightarrow>
     fits (option_codec (fm_option F) (list_codec (fm_len F) (codec_str F))) (nic_addresses a) \<and> fits (option_codec (fm_option F) (plain (fm_bool F))) (nic_dhcp4 a) \<and> fits (option_codec (fm_option F) (codec_str F)) (nic_gateway4 a) \<and> fits (option_codec (fm_option F) (list_codec (fm_len F) (codec_str F))) (nic_nameservers a)"
  by (simp_all add: codec_NodeNetworkInterfaceConfig_def layout_rules)

lemma layout_NodeNetworkInterface [wire_layout]:
  "enc (codec_NodeNetworkInterface F) a =
     enc (codec_str F) (ni_device a) @ enc (codec_NodeNetworkInterfaceConfig F) (ni_config a)"
  by (simp_all add: codec_NodeNetworkInterface_def layout_rules)

lemma fits_NodeNetworkInterface [wire_fits]:
  "fits (codec_NodeNetworkInterface F) a \<longleftrightarrow>
     fits (codec_str F) (ni_device a) \<and> fits (codec_NodeNetworkInterfaceConfig F) (ni_config a)"
  by (simp_all add: codec_NodeNetworkInterface_def layout_rules)

lemma layout_NodeNetworkInterfaceRequest [wire_layout]:
  "enc (codec_NodeNetworkInterfaceRequest F) (Interface_List a0) = fst (fm_variant F) 0 @ enc (option_codec (fm_option F) (codec_str F)) a0"
  "enc (codec_NodeNetworkInterfaceRequest F) (Interface_Get a1) = fst (fm_variant F) 1 @ enc (codec_str F) a1"
  "enc (codec_NodeNetworkInterfaceRequest F) (Interface_ResetConfig a2) = fst (fm_variant F) 2 @ enc (codec_str F) a2"
  "enc (codec_NodeNetworkInterfaceRequest F) (Interface_Set a3 b3) = fst (fm_variant F) 3 @ enc (codec_str F) a3 @ enc (codec_NodeNetworkInterfaceConfig F) b3"
  "enc (codec_NodeNetworkInterfaceRequest F) (Interface_Remove a4 b4) = fst (fm_variant F) 4 @ enc (codec_str F) a4 @ enc (codec_NodeNetworkInterfaceConfig F) b4"
  by (simp_all add: codec_NodeNetworkInterfaceRequest_def layout_rules)

lemma fits_NodeNetworkInterfaceRequest [wire_fits]:
  "fits (codec_NodeNetworkInterfaceRequest F) (Interface_List a0) \<longleftrightarrow> fits (option_codec (fm_option F) (codec_str F)) a0"
  "fits (codec_NodeNetworkInterfaceRequest F) (Interface_Get a1) \<longleftrightarrow> fits (codec_str F) a1"
  "fits (codec_NodeNetworkInterfaceRequest F) (Interface_ResetConfig a2) \<longleftrightarrow> fits (codec_str F) a2"
  "fits (codec_NodeNetworkInterfaceRequest F) (Interface_Set a3 b3) \<longleftrightarrow> fits (codec_str F) a3 \<and> fits (codec_NodeNetworkInterfaceConfig F) b3"
  "fits (codec_NodeNetworkInterfaceRequest F) (Interface_Remove a4 b4) \<longleftrightarrow> fits (codec_str F) a4 \<and> fits (codec_NodeNetworkInterfaceConfig F) b4"
  by (simp_all add: codec_NodeNetworkInterfaceRequest_def layout_rules)

lemma layout_NodeNetworkInterfaceResponse [wire_layout]:
  "enc (codec_NodeNetworkInterfaceResponse F) (InterfaceR_List a0) = fst (fm_variant F) 0 @ enc (list_codec (fm_len F) (codec_str F)) a0"
  "enc (codec_NodeNetworkInterfaceResponse F) (InterfaceR_Get a1) = fst (fm_variant F) 1 @ enc (option_codec (fm_option F) (codec_NodeNetworkInterface F)) a1"
  "enc (codec_NodeNetworkInterfaceResponse F) InterfaceR_Done = fst (fm_variant F) 2"
  by (simp_all add: codec_NodeNetworkInterfaceResponse_def layout_rules)

lemma fits_NodeNetworkInterfaceResponse [wire_fits]:
  "fits (codec_NodeNetworkInterfaceResponse F) (InterfaceR_List a0) \<longleftrightarrow> fits (list_codec (fm_len F) (codec_str F)) a0"
  "fits (codec_NodeNetworkInterfaceResponse F) (InterfaceR_Get a1) \<longleftrightarrow> fits (option_codec (fm_option F) (codec_NodeNetworkInterface F)) a1"
  "fits (codec_NodeNetworkInterfaceResponse F) InterfaceR_Done"
  by (simp_all add: codec_NodeNetworkInterfaceResponse_def layout_rules)

lemma layout_NodeHostnameRequest [wire_layout]:
  "enc (codec_NodeHostnameRequest F) Hostname_Get = fst (fm_variant F) 0"
  "enc (codec_NodeHostnameRequest F) (Hostname_Set a1) = fst (fm_variant F) 1 @ enc (codec_str F) a1"
  by (simp_all add: codec_NodeHostnameRequest_def layout_rules)

lemma fits_NodeHostnameRequest [wire_fits]:
  "fits (codec_NodeHostnameRequest F) Hostname_Get"
  "fits (codec_NodeHostnameRequest F) (Hostname_Set a1) \<longleftrightarrow> fits (codec_str F) a1"
  by (simp_all add: codec_NodeHostnameRequest_def layout_rules)

lemma layout_NodeHostnameResponse [wire_layout]:
  "enc (codec_NodeHostnameResponse F) (HostnameR_Get a0) = fst (fm_variant F) 0 @ enc (codec_str F) a0"
  "enc (codec_NodeHostnameResponse F) HostnameR_Done = fst (fm_variant F) 1"
  by (simp_all add: codec_NodeHostnameResponse_def layout_rules)

lemma fits_NodeHostnameResponse [wire_fits]:
  "fits (codec_NodeHostnameResponse F) (HostnameR_Get a0) \<longleftrightarrow> fits (codec_str F) a0"
  "fits (codec_NodeHostnameResponse F) HostnameR_Done"
  by (simp_all add: codec_NodeHostnameResponse_def layout_rules)

lemma layout_NodeTimeSyncRequest [wire_layout]:
  "enc (codec_NodeTimeSyncRequest F) TimeSync_Get = fst (fm_variant F) 0"
  "enc (codec_NodeTimeSyncRequest F) (TimeSync_Set a1) = fst (fm_variant F) 1 @ enc (list_codec (fm_len F) (codec_str F)) a1"
  "enc (codec_NodeTimeSyncRequest F) TimeSync_Enable = fst (fm_variant F) 2"
  "enc (codec_NodeTimeSyncRequest F) TimeSync_Disable = fst (fm_variant F) 3"
  "enc (codec_NodeTimeSyncRequest F) TimeSync_Status = fst (fm_variant F) 4"
  by (simp_all add: codec_NodeTimeSyncRequest_def layout_rules)

lemma fits_NodeTimeSyncRequest [wire_fits]:
  "fits (codec_NodeTimeSyncRequest F) TimeSync_Get"
  "fits (codec_NodeTimeSyncRequest F) (TimeSync_Set a1) \<longleftrightarrow> fits (list_codec (fm_len F) (codec_str F)) a1"
  "fits (codec_NodeTimeSyncRequest F) TimeSync_Enable"
  "fits (codec_NodeTimeSyncRequest F) TimeSync_Disable"
  "fits (codec_NodeTimeSyncRequest F) TimeSync_Status"
  by (simp_all add: codec_NodeTimeSyncRequest_def layout_rules)

lemma layout_NodeTimeSyncResponse [wire_layout]:
  "enc (codec_NodeTimeSyncResponse F) (TimeSyncR_Get a0) = fst (fm_variant F) 0 @ enc (option_codec (fm_option F) (list_codec (fm_len F) (codec_str F))) a0"
  "enc (codec_NodeTimeSyncResponse F) (TimeSyncR_Status a1 b1 c1 d1) = fst (fm_variant F) 1 @ enc (plain (fm_bool F)) a1 @ enc (plain (fm_bool F)) b1 @ enc (option_codec (fm_option F) (codec_str F)) c1 @ enc (option_codec (fm_option F) (plain (fm_i64 F))) d1"
  "enc (codec_NodeTimeSyncResponse F) TimeSyncR_Done = fst (fm_variant F) 2"
  by (simp_all add: codec_NodeTimeSyncResponse_def layout_rules)

lemma fits_NodeTimeSyncResponse [wire_fits]:
  "fits (codec_NodeTimeSyncResponse F) (TimeSyncR_Get a0) \<longleftrightarrow> fits (option_codec (fm_option F) (list_codec (fm_len F) (codec_str F))) a0"
  "fits (codec_NodeTimeSyncResponse F) (TimeSyncR_Status a1 b1 c1 d1) \<longleftrightarrow> fits (plain (fm_bool F)) a1 \<and> fits (plain (fm_bool F)) b1 \<and> fits (option_codec (fm_option F) (codec_str F)) c1 \<and> fits (option_codec (fm_option F) (plain (fm_i64 F))) d1"
  "fits (codec_NodeTimeSyncResponse F) TimeSyncR_Done"
  by (simp_all add: codec_NodeTimeSyncResponse_def layout_rules)

lemma layout_NodeLoggingProtocol [wire_layout]:
  "enc (codec_NodeLoggingProtocol F) Logging_Tcp = fst (fm_variant F) 0"
  "enc (codec_NodeLoggingProtocol F) Logging_Udp = fst (fm_variant F) 1"
  by (simp_all add: codec_NodeLoggingProtocol_def layout_rules)

lemma fits_NodeLoggingProtocol [wire_fits]:
  "fits (codec_NodeLoggingProtocol F) a"
  by (cases a) (simp_all add: codec_NodeLoggingProtocol_def layout_rules)

lemma layout_NodeLoggingEndpoint [wire_layout]:
  "enc (codec_NodeLoggingEndpoint F) a =
     enc (codec_NodeLoggingProtocol F) (nle_protocol a) @ enc (codec_str F) (nle_address a) @ enc (plain (fm_u16 F)) (nle_port a)"
  by (simp_all add: codec_NodeLoggingEndpoint_def layout_rules)

lemma fits_NodeLoggingEndpoint [wire_fits]:
  "fits (codec_NodeLoggingEndpoint F) a \<longleftrightarrow>
     fits (codec_NodeLoggingProtocol F) (nle_protocol a) \<and> fits (codec_str F) (nle_address a) \<and> fits (plain (fm_u16 F)) (nle_port a)"
  by (simp_all add: codec_NodeLoggingEndpoint_def layout_rules)

lemma layout_NodeLoggingRequest [wire_layout]:
  "enc (codec_NodeLoggingRequest F) Logging_Get = fst (fm_variant F) 0"
  "enc (codec_NodeLoggingRequest F) (Logging_Set a1) = fst (fm_variant F) 1 @ enc (list_codec (fm_len F) (codec_NodeLoggingEndpoint F)) a1"
  "enc (codec_NodeLoggingRequest F) Logging_Clear = fst (fm_variant F) 2"
  "enc (codec_NodeLoggingRequest F) Logging_Restart = fst (fm_variant F) 3"
  by (simp_all add: codec_NodeLoggingRequest_def layout_rules)

lemma fits_NodeLoggingRequest [wire_fits]:
  "fits (codec_NodeLoggingRequest F) Logging_Get"
  "fits (codec_NodeLoggingRequest F) (Logging_Set a1) \<longleftrightarrow> fits (list_codec (fm_len F) (codec_NodeLoggingEndpoint F)) a1"
  "fits (codec_NodeLoggingRequest F) Logging_Clear"
  "fits (codec_NodeLoggingRequest F) Logging_Restart"
  by (simp_all add: codec_NodeLoggingRequest_def layout_rules)

lemma layout_NodeLoggingResponse [wire_layout]:
  "enc (codec_NodeLoggingResponse F) (LoggingR_Get a0) = fst (fm_variant F) 0 @ enc (option_codec (fm_option F) (list_codec (fm_len F) (codec_NodeLoggingEndpoint F))) a0"
  "enc (codec_NodeLoggingResponse F) LoggingR_Done = fst (fm_variant F) 1"
  by (simp_all add: codec_NodeLoggingResponse_def layout_rules)

lemma fits_NodeLoggingResponse [wire_fits]:
  "fits (codec_NodeLoggingResponse F) (LoggingR_Get a0) \<longleftrightarrow> fits (option_codec (fm_option F) (list_codec (fm_len F) (codec_NodeLoggingEndpoint F))) a0"
  "fits (codec_NodeLoggingResponse F) LoggingR_Done"
  by (simp_all add: codec_NodeLoggingResponse_def layout_rules)

lemma layout_NodeRemoteAccessConfig [wire_layout]:
  "enc (codec_NodeRemoteAccessConfig F) a =
     enc (plain (fm_u16 F)) (nra_port a)"
  by (simp_all add: codec_NodeRemoteAccessConfig_def layout_rules)

lemma fits_NodeRemoteAccessConfig [wire_fits]:
  "fits (codec_NodeRemoteAccessConfig F) a \<longleftrightarrow>
     fits (plain (fm_u16 F)) (nra_port a)"
  by (simp_all add: codec_NodeRemoteAccessConfig_def layout_rules)

lemma layout_NodeRemoteAccessRequest [wire_layout]:
  "enc (codec_NodeRemoteAccessRequest F) RemoteAccess_Get = fst (fm_variant F) 0"
  "enc (codec_NodeRemoteAccessRequest F) (RemoteAccess_Set a1) = fst (fm_variant F) 1 @ enc (codec_NodeRemoteAccessConfig F) a1"
  "enc (codec_NodeRemoteAccessRequest F) RemoteAccess_Restart = fst (fm_variant F) 2"
  by (simp_all add: codec_NodeRemoteAccessRequest_def layout_rules)

lemma fits_NodeRemoteAccessRequest [wire_fits]:
  "fits (codec_NodeRemoteAccessRequest F) RemoteAccess_Get"
  "fits (codec_NodeRemoteAccessRequest F) (RemoteAccess_Set a1) \<longleftrightarrow> fits (codec_NodeRemoteAccessConfig F) a1"
  "fits (codec_NodeRemoteAccessRequest F) RemoteAccess_Restart"
  by (simp_all add: codec_NodeRemoteAccessRequest_def layout_rules)

lemma layout_NodeRemoteAccessResponse [wire_layout]:
  "enc (codec_NodeRemoteAccessResponse F) (RemoteAccessR_Get a0) = fst (fm_variant F) 0 @ enc (codec_NodeRemoteAccessConfig F) a0"
  "enc (codec_NodeRemoteAccessResponse F) RemoteAccessR_Done = fst (fm_variant F) 1"
  by (simp_all add: codec_NodeRemoteAccessResponse_def layout_rules)

lemma fits_NodeRemoteAccessResponse [wire_fits]:
  "fits (codec_NodeRemoteAccessResponse F) (RemoteAccessR_Get a0) \<longleftrightarrow> fits (codec_NodeRemoteAccessConfig F) a0"
  "fits (codec_NodeRemoteAccessResponse F) RemoteAccessR_Done"
  by (simp_all add: codec_NodeRemoteAccessResponse_def layout_rules)

lemma layout_NodePowerRequest [wire_layout]:
  "enc (codec_NodePowerRequest F) Power_Reboot = fst (fm_variant F) 0"
  "enc (codec_NodePowerRequest F) Power_Shutdown = fst (fm_variant F) 1"
  "enc (codec_NodePowerRequest F) Power_GracefulReboot = fst (fm_variant F) 2"
  "enc (codec_NodePowerRequest F) Power_GracefulShutdown = fst (fm_variant F) 3"
  by (simp_all add: codec_NodePowerRequest_def layout_rules)

lemma fits_NodePowerRequest [wire_fits]:
  "fits (codec_NodePowerRequest F) a"
  by (cases a) (simp_all add: codec_NodePowerRequest_def layout_rules)

lemma layout_NodePowerResponse [wire_layout]:
  "enc (codec_NodePowerResponse F) PowerR_Initiated = fst (fm_variant F) 0"
  by (simp_all add: codec_NodePowerResponse_def layout_rules)

lemma fits_NodePowerResponse [wire_fits]:
  "fits (codec_NodePowerResponse F) a"
  by (cases a) (simp_all add: codec_NodePowerResponse_def layout_rules)

lemma layout_NodeObservationRequest [wire_layout]:
  "enc (codec_NodeObservationRequest F) Observe_ProcessList = fst (fm_variant F) 0"
  "enc (codec_NodeObservationRequest F) Observe_ResourceUsage = fst (fm_variant F) 1"
  "enc (codec_NodeObservationRequest F) Observe_Uptime = fst (fm_variant F) 2"
  by (simp_all add: codec_NodeObservationRequest_def layout_rules)

lemma fits_NodeObservationRequest [wire_fits]:
  "fits (codec_NodeObservationRequest F) a"
  by (cases a) (simp_all add: codec_NodeObservationRequest_def layout_rules)

lemma layout_NodeObservationResponse [wire_layout]:
  "enc (codec_NodeObservationResponse F) (ObserveR_ProcessList a0) = fst (fm_variant F) 0 @ enc (list_codec (fm_len F) (codec_Process F)) a0"
  "enc (codec_NodeObservationResponse F) (ObserveR_ResourceUsage a1 b1) = fst (fm_variant F) 1 @ enc (codec_str F) a1 @ enc (codec_ResourceUsage F) b1"
  "enc (codec_NodeObservationResponse F) (ObserveR_Uptime a2) = fst (fm_variant F) 2 @ enc (codec_duration F) a2"
  by (simp_all add: codec_NodeObservationResponse_def layout_rules)

lemma fits_NodeObservationResponse [wire_fits]:
  "fits (codec_NodeObservationResponse F) (ObserveR_ProcessList a0) \<longleftrightarrow> fits (list_codec (fm_len F) (codec_Process F)) a0"
  "fits (codec_NodeObservationResponse F) (ObserveR_ResourceUsage a1 b1) \<longleftrightarrow> fits (codec_str F) a1 \<and> fits (codec_ResourceUsage F) b1"
  "fits (codec_NodeObservationResponse F) (ObserveR_Uptime a2) \<longleftrightarrow> fits (codec_duration F) a2"
  by (simp_all add: codec_NodeObservationResponse_def layout_rules)

lemma layout_NodeVersionRequest [wire_layout]:
  "enc (codec_NodeVersionRequest F) Version_Get = fst (fm_variant F) 0"
  "enc (codec_NodeVersionRequest F) (Version_SetOsVersion a1) = fst (fm_variant F) 1 @ enc (codec_str F) a1"
  "enc (codec_NodeVersionRequest F) (Version_SetProductVersion a2) = fst (fm_variant F) 2 @ enc (codec_str F) a2"
  by (simp_all add: codec_NodeVersionRequest_def layout_rules)

lemma fits_NodeVersionRequest [wire_fits]:
  "fits (codec_NodeVersionRequest F) Version_Get"
  "fits (codec_NodeVersionRequest F) (Version_SetOsVersion a1) \<longleftrightarrow> fits (codec_str F) a1"
  "fits (codec_NodeVersionRequest F) (Version_SetProductVersion a2) \<longleftrightarrow> fits (codec_str F) a2"
  by (simp_all add: codec_NodeVersionRequest_def layout_rules)

lemma layout_NodeVersionResponse [wire_layout]:
  "enc (codec_NodeVersionResponse F) (VersionR_Get a0 b0) = fst (fm_variant F) 0 @ enc (codec_str F) a0 @ enc (codec_str F) b0"
  "enc (codec_NodeVersionResponse F) VersionR_Done = fst (fm_variant F) 1"
  by (simp_all add: codec_NodeVersionResponse_def layout_rules)

lemma fits_NodeVersionResponse [wire_fits]:
  "fits (codec_NodeVersionResponse F) (VersionR_Get a0 b0) \<longleftrightarrow> fits (codec_str F) a0 \<and> fits (codec_str F) b0"
  "fits (codec_NodeVersionResponse F) VersionR_Done"
  by (simp_all add: codec_NodeVersionResponse_def layout_rules)

lemma layout_BootstrapMaterial [wire_layout]:
  "enc (codec_BootstrapMaterial F) a =
     enc (codec_str F) (bm_role_id a) @ enc (codec_str F) (bm_wrapped_secret_id a) @ enc (list_codec (fm_len F) (plain (fm_u8 F))) (bm_ca_anchor a) @ enc (codec_timestamp F) (bm_expires_at a) @ enc (list_codec (fm_len F) (plain (fm_u8 F))) (bm_bootstrap_artifact a)"
  by (simp_all add: codec_BootstrapMaterial_def layout_rules)

lemma fits_BootstrapMaterial [wire_fits]:
  "fits (codec_BootstrapMaterial F) a \<longleftrightarrow>
     fits (codec_str F) (bm_role_id a) \<and> fits (codec_str F) (bm_wrapped_secret_id a) \<and> fits (list_codec (fm_len F) (plain (fm_u8 F))) (bm_ca_anchor a) \<and> fits (codec_timestamp F) (bm_expires_at a) \<and> fits (list_codec (fm_len F) (plain (fm_u8 F))) (bm_bootstrap_artifact a)"
  by (simp_all add: codec_BootstrapMaterial_def layout_rules)

lemma layout_FailurePolicy [wire_layout]:
  "enc (codec_FailurePolicy F) OnFailure_Rollback = fst (fm_variant F) 0"
  "enc (codec_FailurePolicy F) OnFailure_Hold = fst (fm_variant F) 1"
  by (simp_all add: codec_FailurePolicy_def layout_rules)

lemma fits_FailurePolicy [wire_fits]:
  "fits (codec_FailurePolicy F) a"
  by (cases a) (simp_all add: codec_FailurePolicy_def layout_rules)

lemma layout_InstallFields [wire_layout]:
  "enc (codec_InstallFields F) a =
     enc (codec_str F) (in_target a) @ enc (option_codec (fm_option F) (plain (fm_u32 F))) (in_instance a) @ enc (codec_str F) (in_version a) @ enc (codec_str F) (in_commit a) @ enc (plain (fm_u64 F)) (in_size a) @ enc (codec_str F) (in_idempotency_key a) @ enc (option_codec (fm_option F) (codec_BootstrapMaterial F)) (in_bootstrap_material a) @ enc (codec_FailurePolicy F) (in_on_failure a) @ enc (option_codec (fm_option F) (map_codec (fm_len F) (fm_order_str F) (codec_str F) (codec_socket F))) (in_bind_addrs a) @ enc (option_codec (fm_option F) (codec_str F)) (in_config_template a) @ enc (option_codec (fm_option F) (codec_str F)) (in_privilege_profile a)"
  by (simp_all add: codec_InstallFields_def layout_rules)

lemma fits_InstallFields [wire_fits]:
  "fits (codec_InstallFields F) a \<longleftrightarrow>
     fits (codec_str F) (in_target a) \<and> fits (option_codec (fm_option F) (plain (fm_u32 F))) (in_instance a) \<and> fits (codec_str F) (in_version a) \<and> fits (codec_str F) (in_commit a) \<and> fits (plain (fm_u64 F)) (in_size a) \<and> fits (codec_str F) (in_idempotency_key a) \<and> fits (option_codec (fm_option F) (codec_BootstrapMaterial F)) (in_bootstrap_material a) \<and> fits (codec_FailurePolicy F) (in_on_failure a) \<and> fits (option_codec (fm_option F) (map_codec (fm_len F) (fm_order_str F) (codec_str F) (codec_socket F))) (in_bind_addrs a) \<and> fits (option_codec (fm_option F) (codec_str F)) (in_config_template a) \<and> fits (option_codec (fm_option F) (codec_str F)) (in_privilege_profile a)"
  by (simp_all add: codec_InstallFields_def layout_rules)

lemma layout_NodePackageRequest [wire_layout]:
  "enc (codec_NodePackageRequest F) (Package_Install a0) = fst (fm_variant F) 0 @ enc (codec_InstallFields F) a0"
  "enc (codec_NodePackageRequest F) (Package_Remove a1 b1 c1) = fst (fm_variant F) 1 @ enc (codec_str F) a1 @ enc (option_codec (fm_option F) (plain (fm_u32 F))) b1 @ enc (codec_str F) c1"
  "enc (codec_NodePackageRequest F) Package_ListInstalled = fst (fm_variant F) 2"
  "enc (codec_NodePackageRequest F) (Package_Status a3 b3) = fst (fm_variant F) 3 @ enc (codec_str F) a3 @ enc (option_codec (fm_option F) (plain (fm_u32 F))) b3"
  "enc (codec_NodePackageRequest F) Package_ListHostPorts = fst (fm_variant F) 4"
  by (simp_all add: codec_NodePackageRequest_def layout_rules)

lemma fits_NodePackageRequest [wire_fits]:
  "fits (codec_NodePackageRequest F) (Package_Install a0) \<longleftrightarrow> fits (codec_InstallFields F) a0"
  "fits (codec_NodePackageRequest F) (Package_Remove a1 b1 c1) \<longleftrightarrow> fits (codec_str F) a1 \<and> fits (option_codec (fm_option F) (plain (fm_u32 F))) b1 \<and> fits (codec_str F) c1"
  "fits (codec_NodePackageRequest F) Package_ListInstalled"
  "fits (codec_NodePackageRequest F) (Package_Status a3 b3) \<longleftrightarrow> fits (codec_str F) a3 \<and> fits (option_codec (fm_option F) (plain (fm_u32 F))) b3"
  "fits (codec_NodePackageRequest F) Package_ListHostPorts"
  by (simp_all add: codec_NodePackageRequest_def layout_rules)

lemma layout_InstallPreflight [wire_layout]:
  "enc (codec_InstallPreflight F) Preflight_Proceed = fst (fm_variant F) 0"
  "enc (codec_InstallPreflight F) Preflight_AlreadyApplied = fst (fm_variant F) 1"
  "enc (codec_InstallPreflight F) (Preflight_InsufficientDiskSpace a2 b2 c2) = fst (fm_variant F) 2 @ enc (codec_str F) a2 @ enc (plain (fm_u64 F)) b2 @ enc (plain (fm_u64 F)) c2"
  "enc (codec_InstallPreflight F) Preflight_BindAddrsOnUpdate = fst (fm_variant F) 3"
  "enc (codec_InstallPreflight F) Preflight_NamespaceUnconfigured = fst (fm_variant F) 4"
  "enc (codec_InstallPreflight F) Preflight_EnrollmentUnsupported = fst (fm_variant F) 5"
  "enc (codec_InstallPreflight F) Preflight_ConfigTemplateOnUpdate = fst (fm_variant F) 6"
  "enc (codec_InstallPreflight F) (Preflight_UnknownConfigTemplate a7) = fst (fm_variant F) 7 @ enc (codec_str F) a7"
  by (simp_all add: codec_InstallPreflight_def layout_rules)

lemma fits_InstallPreflight [wire_fits]:
  "fits (codec_InstallPreflight F) Preflight_Proceed"
  "fits (codec_InstallPreflight F) Preflight_AlreadyApplied"
  "fits (codec_InstallPreflight F) (Preflight_InsufficientDiskSpace a2 b2 c2) \<longleftrightarrow> fits (codec_str F) a2 \<and> fits (plain (fm_u64 F)) b2 \<and> fits (plain (fm_u64 F)) c2"
  "fits (codec_InstallPreflight F) Preflight_BindAddrsOnUpdate"
  "fits (codec_InstallPreflight F) Preflight_NamespaceUnconfigured"
  "fits (codec_InstallPreflight F) Preflight_EnrollmentUnsupported"
  "fits (codec_InstallPreflight F) Preflight_ConfigTemplateOnUpdate"
  "fits (codec_InstallPreflight F) (Preflight_UnknownConfigTemplate a7) \<longleftrightarrow> fits (codec_str F) a7"
  by (simp_all add: codec_InstallPreflight_def layout_rules)

lemma layout_Transport [wire_layout]:
  "enc (codec_Transport F) Transport_Tcp = fst (fm_variant F) 0"
  "enc (codec_Transport F) Transport_Udp = fst (fm_variant F) 1"
  by (simp_all add: codec_Transport_def layout_rules)

lemma fits_Transport [wire_fits]:
  "fits (codec_Transport F) a"
  by (cases a) (simp_all add: codec_Transport_def layout_rules)

lemma layout_HostPort [wire_layout]:
  "enc (codec_HostPort F) a =
     enc (codec_Transport F) (hp_transport a) @ enc (plain (fm_u16 F)) (hp_port a)"
  by (simp_all add: codec_HostPort_def layout_rules)

lemma fits_HostPort [wire_fits]:
  "fits (codec_HostPort F) a \<longleftrightarrow>
     fits (codec_Transport F) (hp_transport a) \<and> fits (plain (fm_u16 F)) (hp_port a)"
  by (simp_all add: codec_HostPort_def layout_rules)

lemma layout_Lifecycle [wire_layout]:
  "enc (codec_Lifecycle F) a = fst (fm_u8 F) (Lifecycle_into a)"
  by (simp_all add: codec_Lifecycle_def layout_rules)

lemma fits_Lifecycle [wire_fits]:
  "fits (codec_Lifecycle F) a"
  by (simp_all add: codec_Lifecycle_def layout_rules)

lemma layout_BoundAddr [wire_layout]:
  "enc (codec_BoundAddr F) a =
     enc (codec_str F) (ba_name a) @ enc (codec_str F) (ba_addr a)"
  by (simp_all add: codec_BoundAddr_def layout_rules)

lemma fits_BoundAddr [wire_fits]:
  "fits (codec_BoundAddr F) a \<longleftrightarrow>
     fits (codec_str F) (ba_name a) \<and> fits (codec_str F) (ba_addr a)"
  by (simp_all add: codec_BoundAddr_def layout_rules)

lemma layout_PackageState [wire_layout]:
  "enc (codec_PackageState F) a =
     enc (codec_str F) (ps_version a) @ enc (codec_str F) (ps_commit a) @ enc (codec_Lifecycle F) (ps_lifecycle a) @ enc (list_codec (fm_len F) (codec_BoundAddr F)) (ps_bound_addrs a) @ enc (option_codec (fm_option F) (codec_str F)) (ps_privilege_profile a)"
  by (simp_all add: codec_PackageState_def layout_rules)

lemma fits_PackageState [wire_fits]:
  "fits (codec_PackageState F) a \<longleftrightarrow>
     fits (codec_str F) (ps_version a) \<and> fits (codec_str F) (ps_commit a) \<and> fits (codec_Lifecycle F) (ps_lifecycle a) \<and> fits (list_codec (fm_len F) (codec_BoundAddr F)) (ps_bound_addrs a) \<and> fits (option_codec (fm_option F) (codec_str F)) (ps_privilege_profile a)"
  by (simp_all add: codec_PackageState_def layout_rules)

lemma layout_InstalledPackage [wire_layout]:
  "enc (codec_InstalledPackage F) a =
     enc (codec_str F) (ip_target a) @ enc (option_codec (fm_option F) (plain (fm_u32 F))) (ip_instance a) @ enc (codec_PackageState F) (ip_state a)"
  by (simp_all add: codec_InstalledPackage_def layout_rules)

lemma fits_InstalledPackage [wire_fits]:
  "fits (codec_InstalledPackage F) a \<longleftrightarrow>
     fits (codec_str F) (ip_target a) \<and> fits (option_codec (fm_option F) (plain (fm_u32 F))) (ip_instance a) \<and> fits (codec_PackageState F) (ip_state a)"
  by (simp_all add: codec_InstalledPackage_def layout_rules)

lemma layout_PackageIdentity [wire_layout]:
  "enc (codec_PackageIdentity F) a =
     enc (codec_str F) (pi_target a) @ enc (codec_str F) (pi_version a) @ enc (codec_str F) (pi_commit a)"
  by (simp_all add: codec_PackageIdentity_def layout_rules)

lemma fits_PackageIdentity [wire_fits]:
  "fits (codec_PackageIdentity F) a \<longleftrightarrow>
     fits (codec_str F) (pi_target a) \<and> fits (codec_str F) (pi_version a) \<and> fits (codec_str F) (pi_commit a)"
  by (simp_all add: codec_PackageIdentity_def layout_rules)

lemma layout_NodePackageError [wire_layout]:
  "enc (codec_NodePackageError F) (PkgErr_TargetMismatch a0 b0) = fst (fm_variant F) 0 @ enc (codec_PackageIdentity F) a0 @ enc (codec_PackageIdentity F) b0"
  "enc (codec_NodePackageError F) PkgErr_MissingBootstrapMaterial = fst (fm_variant F) 1"
  "enc (codec_NodePackageError F) PkgErr_BootstrapMaterialExpired = fst (fm_variant F) 2"
  "enc (codec_NodePackageError F) (PkgErr_InsufficientDiskSpace a3 b3 c3) = fst (fm_variant F) 3 @ enc (codec_str F) a3 @ enc (plain (fm_u64 F)) b3 @ enc (plain (fm_u64 F)) c3"
  "enc (codec_NodePackageError F) (PkgErr_StaleTrustSet a4) = fst (fm_variant F) 4 @ enc (plain (fm_u64 F)) a4"
  "enc (codec_NodePackageError F) (PkgErr_UnsupportedManifestFormat a5 b5) = fst (fm_variant F) 5 @ enc (plain (fm_u64 F)) a5 @ enc (codec_ManifestFormatRange F) b5"
  "enc (codec_NodePackageError F) PkgErr_ObservationUnavailable = fst (fm_variant F) 6"
  "enc (codec_NodePackageError F) PkgErr_UnmanagedInstancePresent = fst (fm_variant F) 7"
  "enc (codec_NodePackageError F) (PkgErr_UndeclaredPrivilegeProfile a8 b8) = fst (fm_variant F) 8 @ enc (codec_str F) a8 @ enc (list_codec (fm_len F) (codec_str F)) b8"
  "enc (codec_NodePackageError F) (PkgErr_UnexpectedPrivilegeProfile a9) = fst (fm_variant F) 9 @ enc (codec_str F) a9"
  "enc (codec_NodePackageError F) PkgErr_MissingPrivilegeProfile = fst (fm_variant F) 10"
  by (simp_all add: codec_NodePackageError_def layout_rules)

lemma fits_NodePackageError [wire_fits]:
  "fits (codec_NodePackageError F) (PkgErr_TargetMismatch a0 b0) \<longleftrightarrow> fits (codec_PackageIdentity F) a0 \<and> fits (codec_PackageIdentity F) b0"
  "fits (codec_NodePackageError F) PkgErr_MissingBootstrapMaterial"
  "fits (codec_NodePackageError F) PkgErr_BootstrapMaterialExpired"
  "fits (codec_NodePackageError F) (PkgErr_InsufficientDiskSpace a3 b3 c3) \<longleftrightarrow> fits (codec_str F) a3 \<and> fits (plain (fm_u64 F)) b3 \<and> fits (plain (fm_u64 F)) c3"
  "fits (codec_NodePackageError F) (PkgErr_StaleTrustSet a4) \<longleftrightarrow> fits (plain (fm_u64 F)) a4"
  "fits (codec_NodePackageError F) (PkgErr_UnsupportedManifestFormat a5 b5) \<longleftrightarrow> fits (plain (fm_u64 F)) a5 \<and> fits (codec_ManifestFormatRange F) b5"
  "fits (codec_NodePackageError F) PkgErr_ObservationUnavailable"
  "fits (codec_NodePackageError F) PkgErr_UnmanagedInstancePresent"
  "fits (codec_NodePackageError F) (PkgErr_UndeclaredPrivilegeProfile a8 b8) \<longleftrightarrow> fits (codec_str F) a8 \<and> fits (list_codec (fm_len F) (codec_str F)) b8"
  "fits (codec_NodePackageError F) (PkgErr_UnexpectedPrivilegeProfile a9) \<longleftrightarrow> fits (codec_str F) a9"
  "fits (codec_NodePackageError F) PkgErr_MissingPrivilegeProfile"
  by (simp_all add: codec_NodePackageError_def layout_rules)

lemma layout_NodePackageResponse [wire_layout]:
  "enc (codec_NodePackageResponse F) PackageR_Done = fst (fm_variant F) 0"
  "enc (codec_NodePackageResponse F) PackageR_Accepted = fst (fm_variant F) 1"
  "enc (codec_NodePackageResponse F) (PackageR_Installed a2) = fst (fm_variant F) 2 @ enc (list_codec (fm_len F) (codec_InstalledPackage F)) a2"
  "enc (codec_NodePackageResponse F) (PackageR_State a3) = fst (fm_variant F) 3 @ enc (codec_PackageState F) a3"
  "enc (codec_NodePackageResponse F) (PackageR_Failed a4) = fst (fm_variant F) 4 @ enc (codec_NodePackageError F) a4"
  "enc (codec_NodePackageResponse F) (PackageR_TrustActive a5) = fst (fm_variant F) 5 @ enc (plain (fm_u64 F)) a5"
  "enc (codec_NodePackageResponse F) (PackageR_HostPorts a6) = fst (fm_variant F) 6 @ enc (list_codec (fm_len F) (codec_HostPort F)) a6"
  by (simp_all add: codec_NodePackageResponse_def layout_rules)

lemma fits_NodePackageResponse [wire_fits]:
  "fits (codec_NodePackageResponse F) PackageR_Done"
  "fits (codec_NodePackageResponse F) PackageR_Accepted"
  "fits (codec_NodePackageResponse F) (PackageR_Installed a2) \<longleftrightarrow> fits (list_codec (fm_len F) (codec_InstalledPackage F)) a2"
  "fits (codec_NodePackageResponse F) (PackageR_State a3) \<longleftrightarrow> fits (codec_PackageState F) a3"
  "fits (codec_NodePackageResponse F) (PackageR_Failed a4) \<longleftrightarrow> fits (codec_NodePackageError F) a4"
  "fits (codec_NodePackageResponse F) (PackageR_TrustActive a5) \<longleftrightarrow> fits (plain (fm_u64 F)) a5"
  "fits (codec_NodePackageResponse F) (PackageR_HostPorts a6) \<longleftrightarrow> fits (list_codec (fm_len F) (codec_HostPort F)) a6"
  by (simp_all add: codec_NodePackageResponse_def layout_rules)

lemma layout_ReloadHook [wire_layout]:
  "enc (codec_ReloadHook F) (ReloadHook s) = enc (codec_str F) s"
  by (simp_all add: codec_ReloadHook_def layout_rules)

lemma fits_ReloadHook [wire_fits]:
  "fits (codec_ReloadHook F) (ReloadHook s) = fits (codec_str F) s"
  by (simp_all add: codec_ReloadHook_def layout_rules)

lemma layout_CertGroup [wire_layout]:
  "enc (codec_CertGroup F) (CertGroup s) = enc (codec_str F) s"
  by (simp_all add: codec_CertGroup_def layout_rules)

lemma fits_CertGroup [wire_fits]:
  "fits (codec_CertGroup F) (CertGroup s) = fits (codec_str F) s"
  by (simp_all add: codec_CertGroup_def layout_rules)

lemma layout_ServiceSpec [wire_layout]:
  "enc (codec_ServiceSpec F) a =
     enc (codec_str F) (svc_component a) @ enc (codec_str F) (svc_service_name a) @ enc (codec_ReloadHook F) (svc_reload a) @ enc (option_codec (fm_option F) (codec_CertGroup F)) (svc_cert_group a)"
  by (simp_all add: codec_ServiceSpec_def layout_rules)

lemma fits_ServiceSpec [wire_fits]:
  "fits (codec_ServiceSpec F) a \<longleftrightarrow>
     fits (codec_str F) (svc_component a) \<and> fits (codec_str F) (svc_service_name a) \<and> fits (codec_ReloadHook F) (svc_reload a) \<and> fits (option_codec (fm_option F) (codec_CertGroup F)) (svc_cert_group a)"
  by (simp_all add: codec_ServiceSpec_def layout_rules)

lemma layout_DeliveryMode [wire_layout]:
  "enc (codec_DeliveryMode F) Delivery_LocalFile = fst (fm_variant F) 0"
  "enc (codec_DeliveryMode F) Delivery_RemoteBootstrap = fst (fm_variant F) 1"
  by (simp_all add: codec_DeliveryMode_def layout_rules)

lemma fits_DeliveryMode [wire_fits]:
  "fits (codec_DeliveryMode F) a"
  by (cases a) (simp_all add: codec_DeliveryMode_def layout_rules)

lemma layout_RegisterFields [wire_layout]:
  "enc (codec_RegisterFields F) a =
     enc (codec_str F) (rg_service_name a) @ enc (codec_DeliveryMode F) (rg_delivery_mode a) @ enc (codec_str F) (rg_host a) @ enc (option_codec (fm_option F) (plain (fm_u32 F))) (rg_instance a) @ enc (codec_ServiceSpec F) (rg_spec a) @ enc (codec_duration F) (rg_wrap_ttl a) @ enc (codec_str F) (rg_idempotency_key a)"
  by (simp_all add: codec_RegisterFields_def layout_rules)

lemma fits_RegisterFields [wire_fits]:
  "fits (codec_RegisterFields F) a \<longleftrightarrow>
     fits (codec_str F) (rg_service_name a) \<and> fits (codec_DeliveryMode F) (rg_delivery_mode a) \<and> fits (codec_str F) (rg_host a) \<and> fits (option_codec (fm_option F) (plain (fm_u32 F))) (rg_instance a) \<and> fits (codec_ServiceSpec F) (rg_spec a) \<and> fits (codec_duration F) (rg_wrap_ttl a) \<and> fits (codec_str F) (rg_idempotency_key a)"
  by (simp_all add: codec_RegisterFields_def layout_rules)

lemma layout_NodeEnrollRequest [wire_layout]:
  "enc (codec_NodeEnrollRequest F) (Enroll_Register a0) = fst (fm_variant F) 0 @ enc (codec_RegisterFields F) a0"
  "enc (codec_NodeEnrollRequest F) (Enroll_Deregister a1 b1 c1 d1) = fst (fm_variant F) 1 @ enc (codec_str F) a1 @ enc (codec_str F) b1 @ enc (option_codec (fm_option F) (plain (fm_u32 F))) c1 @ enc (codec_str F) d1"
  by (simp_all add: codec_NodeEnrollRequest_def layout_rules)

lemma fits_NodeEnrollRequest [wire_fits]:
  "fits (codec_NodeEnrollRequest F) (Enroll_Register a0) \<longleftrightarrow> fits (codec_RegisterFields F) a0"
  "fits (codec_NodeEnrollRequest F) (Enroll_Deregister a1 b1 c1 d1) \<longleftrightarrow> fits (codec_str F) a1 \<and> fits (codec_str F) b1 \<and> fits (option_codec (fm_option F) (plain (fm_u32 F))) c1 \<and> fits (codec_str F) d1"
  by (simp_all add: codec_NodeEnrollRequest_def layout_rules)

lemma layout_RegistrarUnavailableReason [wire_layout]:
  "enc (codec_RegistrarUnavailableReason F) Reason_CredentialInvalid = fst (fm_variant F) 0"
  "enc (codec_RegistrarUnavailableReason F) Reason_NotProvisioned = fst (fm_variant F) 1"
  "enc (codec_RegistrarUnavailableReason F) Reason_AuditUnwritable = fst (fm_variant F) 2"
  "enc (codec_RegistrarUnavailableReason F) Reason_EndpointUnreachable = fst (fm_variant F) 3"
  "enc (codec_RegistrarUnavailableReason F) Reason_PostMintUnrecordable = fst (fm_variant F) 4"
  "enc (codec_RegistrarUnavailableReason F) Reason_RegistrarUnreachable = fst (fm_variant F) 5"
  by (simp_all add: codec_RegistrarUnavailableReason_def layout_rules)

lemma fits_RegistrarUnavailableReason [wire_fits]:
  "fits (codec_RegistrarUnavailableReason F) a"
  by (cases a) (simp_all add: codec_RegistrarUnavailableReason_def layout_rules)

lemma layout_NodeEnrollError [wire_layout]:
  "enc (codec_NodeEnrollError F) EnrollErr_ServiceSpecConflict = fst (fm_variant F) 0"
  "enc (codec_NodeEnrollError F) EnrollErr_ServiceNameCollision = fst (fm_variant F) 1"
  "enc (codec_NodeEnrollError F) EnrollErr_ServiceInstanceMismatch = fst (fm_variant F) 2"
  "enc (codec_NodeEnrollError F) EnrollErr_ServiceHostMismatch = fst (fm_variant F) 3"
  "enc (codec_NodeEnrollError F) (EnrollErr_RegistrarUnavailable a4) = fst (fm_variant F) 4 @ enc (codec_RegistrarUnavailableReason F) a4"
  "enc (codec_NodeEnrollError F) (EnrollErr_RegistrarBusy a5) = fst (fm_variant F) 5 @ enc (codec_duration F) a5"
  "enc (codec_NodeEnrollError F) EnrollErr_ServiceLabelInvalid = fst (fm_variant F) 6"
  by (simp_all add: codec_NodeEnrollError_def layout_rules)

lemma fits_NodeEnrollError [wire_fits]:
  "fits (codec_NodeEnrollError F) EnrollErr_ServiceSpecConflict"
  "fits (codec_NodeEnrollError F) EnrollErr_ServiceNameCollision"
  "fits (codec_NodeEnrollError F) EnrollErr_ServiceInstanceMismatch"
  "fits (codec_NodeEnrollError F) EnrollErr_ServiceHostMismatch"
  "fits (codec_NodeEnrollError F) (EnrollErr_RegistrarUnavailable a4) \<longleftrightarrow> fits (codec_RegistrarUnavailableReason F) a4"
  "fits (codec_NodeEnrollError F) (EnrollErr_RegistrarBusy a5) \<longleftrightarrow> fits (codec_duration F) a5"
  "fits (codec_NodeEnrollError F) EnrollErr_ServiceLabelInvalid"
  by (simp_all add: codec_NodeEnrollError_def layout_rules)

lemma layout_NodeEnrollResponse [wire_layout]:
  "enc (codec_NodeEnrollResponse F) (EnrollR_Material a0) = fst (fm_variant F) 0 @ enc (codec_BootstrapMaterial F) a0"
  "enc (codec_NodeEnrollResponse F) EnrollR_Done = fst (fm_variant F) 1"
  "enc (codec_NodeEnrollResponse F) (EnrollR_Failed a2) = fst (fm_variant F) 2 @ enc (codec_NodeEnrollError F) a2"
  by (simp_all add: codec_NodeEnrollResponse_def layout_rules)

lemma fits_NodeEnrollResponse [wire_fits]:
  "fits (codec_NodeEnrollResponse F) (EnrollR_Material a0) \<longleftrightarrow> fits (codec_BootstrapMaterial F) a0"
  "fits (codec_NodeEnrollResponse F) EnrollR_Done"
  "fits (codec_NodeEnrollResponse F) (EnrollR_Failed a2) \<longleftrightarrow> fits (codec_NodeEnrollError F) a2"
  by (simp_all add: codec_NodeEnrollResponse_def layout_rules)

subsection \<open>Values this release does not know\<close>

lemma enum_foreign:
  assumes "lawful (prim_codec (\<lambda>_. True) variant)" and "length arms \<le> unat v"
  shows "dec (enum_codec variant arms) (fst variant v @ rest) = None"
  using lawful_reads [OF assms(1), of v rest] assms(2) by (simp add: enum_codec_def)

lemma via_reads:
  assumes "lawful c" and "fits c x"
  shows "dec (via_codec P try_from into c) (enc c x @ rest) = map_option (\<lambda>a. (a, rest)) (try_from x)"
  using lawful_reads [OF assms] by (simp add: via_codec_def)

lemma Lifecycle_reads:
  assumes "lawful_format F"
  shows "dec (codec_Lifecycle F) (fst (fm_u8 F) n @ rest) = Some (Lifecycle_from n, rest)"
  using via_reads [OF lawful_format_parts(5) [OF assms], of n "\<lambda>_. True" "\<lambda>n. Some (Lifecycle_from n)"
    Lifecycle_into rest]
  by (simp add: codec_Lifecycle_def plain_def)

lemma DataType_reads:
  assumes "lawful_format F"
  shows "dec (codec_DataType F) (fst (fm_u16 F) n @ rest) = map_option (\<lambda>d. (d, rest)) (DataType_try_from n)"
  using via_reads [of "plain (fm_u16 F)" n] lawful_format_parts [OF assms]
  by (simp add: codec_DataType_def codec_simps)

lemma LabelDbKind_reads:
  assumes "lawful_format F"
  shows "dec (codec_LabelDbKind F) (fst (fm_u8 F) n @ rest) = map_option (\<lambda>k. (k, rest)) (LabelDbKind_try_from n)"
  using via_reads [of "plain (fm_u8 F)" n] lawful_format_parts [OF assms]
  by (simp add: codec_LabelDbKind_def codec_simps)

lemma PackageState_reads:
  assumes F: "lawful_format F"
    and "fits (codec_PackageState F) s"
  shows "dec (codec_PackageState F)
      (enc (codec_str F) (ps_version s) @ enc (codec_str F) (ps_commit s) @ fst (fm_u8 F) n
       @ enc (list_codec (fm_len F) (codec_BoundAddr F)) (ps_bound_addrs s)
       @ enc (option_codec (fm_option F) (codec_str F)) (ps_privilege_profile s) @ rest) =
    Some (s\<lparr>ps_lifecycle := Lifecycle_from n\<rparr>, rest)"
proof -
  have "lawful (codec_str F)" "lawful (list_codec (fm_len F) (codec_BoundAddr F))"
      "lawful (option_codec (fm_option F) (codec_str F))"
    using F by (auto intro!: lawful_rules)
  with assms(2) show ?thesis
    by (simp add: codec_PackageState_def struct_codec_def via_codec_def pair_codec_def
        lawful_reads Lifecycle_reads [OF F])
qed

text \<open>
  C34. How a value only a newer release knows is taken: a lifecycle byte of any value is read,
  as the unknown state when it names none, and leaves every other field of the package state as
  it was sent; but an index past the last variant of a closed vocabulary (a refusal, a reason, an
  answer, a verdict, a request) is refused, and so is a number that names no data type or no
  kind of label database. Nothing falls back in silence to a known value.
\<close>

theorem foreign_values_on_wire:
  assumes "lawful_format F"
  shows "(fits (codec_PackageState F) s \<longrightarrow>
      dec (codec_PackageState F)
        (enc (codec_str F) (ps_version s) @ enc (codec_str F) (ps_commit s) @ fst (fm_u8 F) n
         @ enc (list_codec (fm_len F) (codec_BoundAddr F)) (ps_bound_addrs s)
         @ enc (option_codec (fm_option F) (codec_str F)) (ps_privilege_profile s)) =
      Some (s\<lparr>ps_lifecycle := (if n \<in> range Lifecycle_into then Lifecycle_from n else Life_Unknown)\<rparr>, []))
    \<and> (6 \<le> v \<longrightarrow> dec (codec_RegistrarUnavailableReason F) (fst (fm_variant F) v @ rest) = None)
    \<and> (7 \<le> v \<longrightarrow> dec (codec_NodeEnrollError F) (fst (fm_variant F) v @ rest) = None)
    \<and> (3 \<le> v \<longrightarrow> dec (codec_NodeEnrollResponse F) (fst (fm_variant F) v @ rest) = None)
    \<and> (2 \<le> v \<longrightarrow> dec (codec_NodeEnrollRequest F) (fst (fm_variant F) v @ rest) = None)
    \<and> (11 \<le> v \<longrightarrow> dec (codec_NodePackageError F) (fst (fm_variant F) v @ rest) = None)
    \<and> (7 \<le> v \<longrightarrow> dec (codec_NodePackageResponse F) (fst (fm_variant F) v @ rest) = None)
    \<and> (8 \<le> v \<longrightarrow> dec (codec_InstallPreflight F) (fst (fm_variant F) v @ rest) = None)
    \<and> (5 \<le> v \<longrightarrow> dec (codec_NodePackageRequest F) (fst (fm_variant F) v @ rest) = None)
    \<and> (3 \<le> w \<longrightarrow> dec (codec_DataType F) (fst (fm_u16 F) w @ rest) = None)
    \<and> (4 \<le> b \<longrightarrow> dec (codec_LabelDbKind F) (fst (fm_u8 F) b @ rest) = None)"
proof -
  note variant = lawful_format_parts(1) [OF assms]
  have w: "DataType_try_from w = None" if "3 \<le> w"
    using that by (auto simp: DataType_try_from_def word_le_nat_alt)
  have b: "LabelDbKind_try_from b = None" if "4 \<le> b"
    using that by (auto simp: LabelDbKind_try_from_def word_le_nat_alt)
  have life: "(if n \<in> range Lifecycle_into then Lifecycle_from n else Life_Unknown) = Lifecycle_from n"
    using lifecycle.from_other by simp
  show ?thesis
    unfolding life
    using PackageState_reads [OF assms, of s n "[]"] DataType_reads [OF assms, of w rest] w
      LabelDbKind_reads [OF assms, of b rest] b
    by (auto simp: codec_defs word_le_nat_alt intro!: enum_foreign [OF variant])
qed

theorem foreign_values_on_wire_witness:
  "dec (codec_PackageState fixint_format)
     (enc (codec_str fixint_format) ''1.2.0'' @ enc (codec_str fixint_format) ''c0ffee'' @ [200]
      @ enc (list_codec (le_prim 8) (codec_BoundAddr fixint_format)) []
      @ enc (option_codec (fm_option fixint_format) (codec_str fixint_format)) None) =
   Some (\<lparr>ps_version = ''1.2.0'', ps_commit = ''c0ffee'', ps_lifecycle = Life_Unknown,
     ps_bound_addrs = [], ps_privilege_profile = None\<rparr>, [])
   \<and> dec (codec_NodeEnrollError fixint_format) [11, 0, 0, 0] = None
   \<and> dec (codec_DataType fixint_format) [3, 0] = None
   \<and> dec (codec_LabelDbKind fixint_format) [4] = None"
proof -
  define s where "s = \<lparr>ps_version = ''1.2.0'', ps_commit = ''c0ffee'', ps_lifecycle = Life_Running,
     ps_bound_addrs = [], ps_privilege_profile = None\<rparr>"
  have "fits (codec_PackageState fixint_format) s"
    by (simp add: s_def wire_fits codec_simps MAX_LEN_def)
  moreover have "Lifecycle_into l \<noteq> 200" for l by (cases l) simp_all
  then have "200 \<notin> range Lifecycle_into" by (metis rangeE)
  moreover have "fst (le_prim 1) (200 :: u8) = [200]" "fst (le_prim 4) (11 :: u32) = [11, 0, 0, 0]"
      "fst (le_prim 2) (3 :: u16) = [3, 0]" "fst (le_prim 1) (4 :: u8) = [4]"
    by (simp_all add: fixint_simps)
  ultimately show ?thesis
    using foreign_values_on_wire [OF lawful_fixint, of s 200 11 "[]" 3 4] by (simp add: s_def)
qed

end
