(* ===== verification/Wire_Calls.thy ===== *)
theory Wire_Calls
  imports Wire_Layout Client_Server Manager_Agent
begin

text \<open>
  The requests of both directions on the wire. The payloads of \<open>Client_Api\<close> and
  \<open>Manager_Api\<close> are written with the codecs of their types and read with them on the other
  side; the hypotheses under which \<open>Client_Server\<close> and \<open>Manager_Agent\<close> join the two
  sides, that a payload is read as it was written, follow from the laws of the format alone.
\<close>

subsection \<open>Reading arguments\<close>

text \<open>
  Arguments are decoded from the front of the body; a failure is an I/O error \<open>e\<close> of the
  library's.
\<close>

definition from_front :: "IoError \<Rightarrow> 'a codec \<Rightarrow> bytes \<Rightarrow> IoError + 'a" where
  "from_front e c b = (case dec c b of Some (a, _) \<Rightarrow> Ok a | None \<Rightarrow> Err e)"

lemma from_front_reads: "lawful c \<Longrightarrow> fits c a \<Longrightarrow> from_front e c (enc c a) = Ok a"
  by (simp add: from_front_def lawful_reads_all)

lemma from_front_unit [simp]: "from_front e unit_codec b = Ok ()"
  by (simp add: from_front_def unit_codec_def)

lemma from_front_truncated:
  "lawful c \<Longrightarrow> fits c a \<Longrightarrow> enc c a = kept @ lost \<Longrightarrow> lost \<noteq> [] \<Longrightarrow> from_front e c kept = Err e"
  by (simp add: from_front_def lawful_truncated)

subsection \<open>Payloads of more than one type\<close>

definition pay_NamePairs :: "format \<Rightarrow> ((string \<times> string) list) codec" where [codec_defs]:
  "pay_NamePairs F = list_codec (fm_len F) (pair_codec (codec_str F) (codec_str F))"

lemma lawful_pay_NamePairs [lawful_rules]: "lawful_format F \<Longrightarrow> lawful (pay_NamePairs F)"
  unfolding pay_NamePairs_def by (intro lawful_rules)

definition pay_U32I64 :: "format \<Rightarrow> (u32 \<times> i64) codec" where [codec_defs]:
  "pay_U32I64 F = pair_codec (plain (fm_u32 F)) (plain (fm_i64 F))"

lemma lawful_pay_U32I64 [lawful_rules]: "lawful_format F \<Longrightarrow> lawful (pay_U32I64 F)"
  unfolding pay_U32I64_def by (intro lawful_rules)

definition pay_ColumnStatistics :: "format \<Rightarrow> (ColumnStatisticsUpdate list \<times> u32 \<times> i64) codec" where [codec_defs]:
  "pay_ColumnStatistics F = pair_codec (list_codec (fm_len F) (codec_ColumnStatisticsUpdate F)) (pair_codec (plain (fm_u32 F)) (plain (fm_i64 F)))"

lemma lawful_pay_ColumnStatistics [lawful_rules]: "lawful_format F \<Longrightarrow> lawful (pay_ColumnStatistics F)"
  unfolding pay_ColumnStatistics_def by (intro lawful_rules)

definition pay_EventLabels :: "format \<Rightarrow> (u32 \<times> u32 \<times> EventMessage list) codec" where [codec_defs]:
  "pay_EventLabels F = pair_codec (plain (fm_u32 F)) (pair_codec (plain (fm_u32 F)) (list_codec (fm_len F) (codec_EventMessage F)))"

lemma lawful_pay_EventLabels [lawful_rules]: "lawful_format F \<Longrightarrow> lawful (pay_EventLabels F)"
  unfolding pay_EventLabels_def by (intro lawful_rules)

definition pay_Bytes :: "format \<Rightarrow> (bytes) codec" where [codec_defs]:
  "pay_Bytes F = list_codec (fm_len F) (plain (fm_u8 F))"

lemma lawful_pay_Bytes [lawful_rules]: "lawful_format F \<Longrightarrow> lawful (pay_Bytes F)"
  unfolding pay_Bytes_def by (intro lawful_rules)

definition pay_TimeSeries :: "format \<Rightarrow> (TimeSeriesUpdate list \<times> u32 \<times> i64) codec" where [codec_defs]:
  "pay_TimeSeries F = pair_codec (list_codec (fm_len F) (codec_TimeSeriesUpdate F)) (pair_codec (plain (fm_u32 F)) (plain (fm_i64 F)))"

lemma lawful_pay_TimeSeries [lawful_rules]: "lawful_format F \<Longrightarrow> lawful (pay_TimeSeries F)"
  unfolding pay_TimeSeries_def by (intro lawful_rules)

definition pay_Clusters :: "format \<Rightarrow> (UpdateClusterRequest list \<times> u32) codec" where [codec_defs]:
  "pay_Clusters F = pair_codec (list_codec (fm_len F) (codec_UpdateClusterRequest F)) (plain (fm_u32 F))"

lemma lawful_pay_Clusters [lawful_rules]: "lawful_format F \<Longrightarrow> lawful (pay_Clusters F)"
  unfolding pay_Clusters_def by (intro lawful_rules)

definition pay_Outliers :: "format \<Rightarrow> (OutlierInfo list \<times> u32 \<times> i64) codec" where [codec_defs]:
  "pay_Outliers F = pair_codec (list_codec (fm_len F) (codec_OutlierInfo F)) (pair_codec (plain (fm_u32 F)) (plain (fm_i64 F)))"

lemma lawful_pay_Outliers [lawful_rules]: "lawful_format F \<Longrightarrow> lawful (pay_Outliers F)"
  unfolding pay_Outliers_def by (intro lawful_rules)

definition pay_HostPorts :: "format \<Rightarrow> (IpAddr \<rightharpoonup> (u16 \<times> u8 \<rightharpoonup> u32)) codec" where [codec_defs]:
  "pay_HostPorts F = map_codec (fm_len F) (fm_order_ip F) (plain (fm_ip F)) (map_codec (fm_len F) (fm_order_port F) (pair_codec (plain (fm_u16 F)) (plain (fm_u8 F))) (plain (fm_u32 F)))"

lemma lawful_pay_HostPorts [lawful_rules]: "lawful_format F \<Longrightarrow> lawful (pay_HostPorts F)"
  unfolding pay_HostPorts_def by (intro lawful_rules)

definition pay_HostAgents :: "format \<Rightarrow> ((IpAddr \<times> UserAgent list \<times> string list) list) codec" where [codec_defs]:
  "pay_HostAgents F = list_codec (fm_len F) (pair_codec (plain (fm_ip F)) (pair_codec (list_codec (fm_len F) (codec_UserAgent F)) (list_codec (fm_len F) (codec_str F))))"

lemma lawful_pay_HostAgents [lawful_rules]: "lawful_format F \<Longrightarrow> lawful (pay_HostAgents F)"
  unfolding pay_HostAgents_def by (intro lawful_rules)

definition pay_RunModel :: "format \<Rightarrow> (u32 \<times> bytes) codec" where [codec_defs]:
  "pay_RunModel F = pair_codec (plain (fm_u32 F)) (list_codec (fm_len F) (plain (fm_u8 F)))"

lemma lawful_pay_RunModel [lawful_rules]: "lawful_format F \<Longrightarrow> lawful (pay_RunModel F)"
  unfolding pay_RunModel_def by (intro lawful_rules)

definition pay_RunReport :: "format \<Rightarrow> (u32 \<times> ReportedRunState \<times> string option) codec" where [codec_defs]:
  "pay_RunReport F = pair_codec (plain (fm_u32 F)) (pair_codec (codec_ReportedRunState F) (option_codec (fm_option F) (codec_str F)))"

lemma lawful_pay_RunReport [lawful_rules]: "lawful_format F \<Longrightarrow> lawful (pay_RunReport F)"
  unfolding pay_RunReport_def by (intro lawful_rules)

definition pay_U32s :: "format \<Rightarrow> (u32 list) codec" where [codec_defs]:
  "pay_U32s F = list_codec (fm_len F) (plain (fm_u32 F))"

lemma lawful_pay_U32s [lawful_rules]: "lawful_format F \<Longrightarrow> lawful (pay_U32s F)"
  unfolding pay_U32s_def by (intro lawful_rules)

definition pay_FilterRules :: "format \<Rightarrow> (TrafficFilterRule list) codec" where [codec_defs]:
  "pay_FilterRules F = list_codec (fm_len F) (codec_TrafficFilterRule F)"

lemma lawful_pay_FilterRules [lawful_rules]: "lawful_format F \<Longrightarrow> lawful (pay_FilterRules F)"
  unfolding pay_FilterRules_def by (intro lawful_rules)

definition pay_SamplingPolicies :: "format \<Rightarrow> (SamplingPolicy list) codec" where [codec_defs]:
  "pay_SamplingPolicies F = list_codec (fm_len F) (codec_SamplingPolicy F)"

lemma lawful_pay_SamplingPolicies [lawful_rules]: "lawful_format F \<Longrightarrow> lawful (pay_SamplingPolicies F)"
  unfolding pay_SamplingPolicies_def by (intro lawful_rules)

definition pay_Strings :: "format \<Rightarrow> (string list) codec" where [codec_defs]:
  "pay_Strings F = list_codec (fm_len F) (codec_str F)"

lemma lawful_pay_Strings [lawful_rules]: "lawful_format F \<Longrightarrow> lawful (pay_Strings F)"
  unfolding pay_Strings_def by (intro lawful_rules)

subsection \<open>What an agent asks\<close>

fun ask_bytes :: "format \<Rightarrow> client_payload \<Rightarrow> bytes" where
  "ask_bytes F CPay_Unit = enc unit_codec ()"
| "ask_bytes F (CPay_DataSourceKey x) = enc (codec_DataSourceKey F) x"
| "ask_bytes F (CPay_String x) = enc (codec_str F) x"
| "ask_bytes F (CPay_NamePairs x) = enc (pay_NamePairs F) x"
| "ask_bytes F (CPay_U32I64 x) = enc (pay_U32I64 F) x"
| "ask_bytes F (CPay_ColumnStatistics x) = enc (pay_ColumnStatistics F) x"
| "ask_bytes F (CPay_DataSource x) = enc (codec_DataSource F) x"
| "ask_bytes F (CPay_EventLabels x) = enc (pay_EventLabels F) x"
| "ask_bytes F (CPay_Bytes x) = enc (pay_Bytes F) x"
| "ask_bytes F (CPay_TimeSeries x) = enc (pay_TimeSeries F) x"
| "ask_bytes F (CPay_DeletionReport x) = enc (codec_CustomerDataDeletionReport F) x"
| "ask_bytes F (CPay_Clusters x) = enc (pay_Clusters F) x"
| "ask_bytes F (CPay_Outliers x) = enc (pay_Outliers F) x"
| "ask_bytes F (CPay_HostPorts x) = enc (pay_HostPorts F) x"
| "ask_bytes F (CPay_HostAgents x) = enc (pay_HostAgents F) x"
| "ask_bytes F (CPay_RunModel x) = enc (pay_RunModel F) x"
| "ask_bytes F (CPay_RunReport x) = enc (pay_RunReport F) x"
| "ask_bytes F (CPay_U32s x) = enc (pay_U32s F) x"
| "ask_bytes F (CPay_DetectorStatus x) = enc (codec_DetectorStatusReport F) x"

fun ask_fits :: "format \<Rightarrow> client_payload \<Rightarrow> bool" where
  "ask_fits F CPay_Unit \<longleftrightarrow> True"
| "ask_fits F (CPay_DataSourceKey x) \<longleftrightarrow> fits (codec_DataSourceKey F) x"
| "ask_fits F (CPay_String x) \<longleftrightarrow> fits (codec_str F) x"
| "ask_fits F (CPay_NamePairs x) \<longleftrightarrow> fits (pay_NamePairs F) x"
| "ask_fits F (CPay_U32I64 x) \<longleftrightarrow> fits (pay_U32I64 F) x"
| "ask_fits F (CPay_ColumnStatistics x) \<longleftrightarrow> fits (pay_ColumnStatistics F) x"
| "ask_fits F (CPay_DataSource x) \<longleftrightarrow> fits (codec_DataSource F) x"
| "ask_fits F (CPay_EventLabels x) \<longleftrightarrow> fits (pay_EventLabels F) x"
| "ask_fits F (CPay_Bytes x) \<longleftrightarrow> fits (pay_Bytes F) x"
| "ask_fits F (CPay_TimeSeries x) \<longleftrightarrow> fits (pay_TimeSeries F) x"
| "ask_fits F (CPay_DeletionReport x) \<longleftrightarrow> fits (codec_CustomerDataDeletionReport F) x"
| "ask_fits F (CPay_Clusters x) \<longleftrightarrow> fits (pay_Clusters F) x"
| "ask_fits F (CPay_Outliers x) \<longleftrightarrow> fits (pay_Outliers F) x"
| "ask_fits F (CPay_HostPorts x) \<longleftrightarrow> fits (pay_HostPorts F) x"
| "ask_fits F (CPay_HostAgents x) \<longleftrightarrow> fits (pay_HostAgents F) x"
| "ask_fits F (CPay_RunModel x) \<longleftrightarrow> fits (pay_RunModel F) x"
| "ask_fits F (CPay_RunReport x) \<longleftrightarrow> fits (pay_RunReport F) x"
| "ask_fits F (CPay_U32s x) \<longleftrightarrow> fits (pay_U32s F) x"
| "ask_fits F (CPay_DetectorStatus x) \<longleftrightarrow> fits (codec_DetectorStatusReport F) x"

definition manager_decoders :: "format \<Rightarrow> IoError \<Rightarrow> server_args" where
  "manager_decoders F e =
     \<lparr>sarg_unit = from_front e unit_codec,
      sarg_data_source_key = from_front e (codec_DataSourceKey F),
      sarg_string = from_front e (codec_str F),
      sarg_name_pairs = from_front e (pay_NamePairs F),
      sarg_u32_i64 = from_front e (pay_U32I64 F),
      sarg_column_statistics = from_front e (pay_ColumnStatistics F),
      sarg_data_source = from_front e (codec_DataSource F),
      sarg_event_labels = from_front e (pay_EventLabels F),
      sarg_bytes = from_front e (pay_Bytes F),
      sarg_time_series = from_front e (pay_TimeSeries F),
      sarg_deletion_report = from_front e (codec_CustomerDataDeletionReport F),
      sarg_clusters = from_front e (pay_Clusters F),
      sarg_outliers = from_front e (pay_Outliers F),
      sarg_host_ports = from_front e (pay_HostPorts F),
      sarg_host_agents = from_front e (pay_HostAgents F),
      sarg_run_model = from_front e (pay_RunModel F),
      sarg_run_report = from_front e (pay_RunReport F),
      sarg_u32s = from_front e (pay_U32s F),
      sarg_detector_status = from_front e (codec_DetectorStatusReport F)\<rparr>"

lemma ask_decodes:
  assumes "lawful_format F" and "ask_fits F p"
  shows "decodes (ask_bytes F) (manager_decoders F e) p"
  using assms by (cases p) (auto simp: manager_decoders_def intro!: from_front_reads lawful_rules)

subsection \<open>What the manager asks\<close>

fun order_bytes :: "format \<Rightarrow> manager_payload \<Rightarrow> bytes" where
  "order_bytes F Pay_Unit = enc unit_codec ()"
| "order_bytes F (Pay_NetworkGroup x) = enc (codec_HostNetworkGroup F) x"
| "order_bytes F (Pay_DeleteCustomerData x) = enc (codec_CustomerDataDeletionRequest F) x"
| "order_bytes F (Pay_TrainModel x) = enc (codec_TrainModelRequest F) x"
| "order_bytes F (Pay_CloneModel x) = enc (codec_CloneModelRequest F) x"
| "order_bytes F (Pay_U32 x) = enc (plain (fm_u32 F)) x"
| "order_bytes F (Pay_I32 x) = enc (plain (fm_i32 F)) x"
| "order_bytes F (Pay_FilterRules x) = enc (pay_FilterRules F) x"
| "order_bytes F (Pay_SamplingPolicies x) = enc (pay_SamplingPolicies F) x"
| "order_bytes F (Pay_Strings x) = enc (pay_Strings F) x"
| "order_bytes F (Pay_NodeService x) = enc (codec_NodeServiceRequest F) x"
| "order_bytes F (Pay_NodeNetworkInterface x) = enc (codec_NodeNetworkInterfaceRequest F) x"
| "order_bytes F (Pay_NodeHostname x) = enc (codec_NodeHostnameRequest F) x"
| "order_bytes F (Pay_NodeTimeSync x) = enc (codec_NodeTimeSyncRequest F) x"
| "order_bytes F (Pay_NodeLogging x) = enc (codec_NodeLoggingRequest F) x"
| "order_bytes F (Pay_NodeRemoteAccess x) = enc (codec_NodeRemoteAccessRequest F) x"
| "order_bytes F (Pay_NodePower x) = enc (codec_NodePowerRequest F) x"
| "order_bytes F (Pay_NodeObservation x) = enc (codec_NodeObservationRequest F) x"
| "order_bytes F (Pay_NodeVersion x) = enc (codec_NodeVersionRequest F) x"
| "order_bytes F (Pay_NodePackage x) = enc (codec_NodePackageRequest F) x"
| "order_bytes F (Pay_NodeEnroll x) = enc (codec_NodeEnrollRequest F) x"

fun order_fits :: "format \<Rightarrow> manager_payload \<Rightarrow> bool" where
  "order_fits F Pay_Unit \<longleftrightarrow> True"
| "order_fits F (Pay_NetworkGroup x) \<longleftrightarrow> fits (codec_HostNetworkGroup F) x"
| "order_fits F (Pay_DeleteCustomerData x) \<longleftrightarrow> fits (codec_CustomerDataDeletionRequest F) x"
| "order_fits F (Pay_TrainModel x) \<longleftrightarrow> fits (codec_TrainModelRequest F) x"
| "order_fits F (Pay_CloneModel x) \<longleftrightarrow> fits (codec_CloneModelRequest F) x"
| "order_fits F (Pay_U32 x) \<longleftrightarrow> fits (plain (fm_u32 F)) x"
| "order_fits F (Pay_I32 x) \<longleftrightarrow> fits (plain (fm_i32 F)) x"
| "order_fits F (Pay_FilterRules x) \<longleftrightarrow> fits (pay_FilterRules F) x"
| "order_fits F (Pay_SamplingPolicies x) \<longleftrightarrow> fits (pay_SamplingPolicies F) x"
| "order_fits F (Pay_Strings x) \<longleftrightarrow> fits (pay_Strings F) x"
| "order_fits F (Pay_NodeService x) \<longleftrightarrow> fits (codec_NodeServiceRequest F) x"
| "order_fits F (Pay_NodeNetworkInterface x) \<longleftrightarrow> fits (codec_NodeNetworkInterfaceRequest F) x"
| "order_fits F (Pay_NodeHostname x) \<longleftrightarrow> fits (codec_NodeHostnameRequest F) x"
| "order_fits F (Pay_NodeTimeSync x) \<longleftrightarrow> fits (codec_NodeTimeSyncRequest F) x"
| "order_fits F (Pay_NodeLogging x) \<longleftrightarrow> fits (codec_NodeLoggingRequest F) x"
| "order_fits F (Pay_NodeRemoteAccess x) \<longleftrightarrow> fits (codec_NodeRemoteAccessRequest F) x"
| "order_fits F (Pay_NodePower x) \<longleftrightarrow> fits (codec_NodePowerRequest F) x"
| "order_fits F (Pay_NodeObservation x) \<longleftrightarrow> fits (codec_NodeObservationRequest F) x"
| "order_fits F (Pay_NodeVersion x) \<longleftrightarrow> fits (codec_NodeVersionRequest F) x"
| "order_fits F (Pay_NodePackage x) \<longleftrightarrow> fits (codec_NodePackageRequest F) x"
| "order_fits F (Pay_NodeEnroll x) \<longleftrightarrow> fits (codec_NodeEnrollRequest F) x"

definition agent_decoders :: "format \<Rightarrow> IoError \<Rightarrow> (NodeObservationResponse \<Rightarrow> string) \<Rightarrow> agent_args" where
  "agent_decoders F e dbg =
     \<lparr>arg_service = from_front e (codec_NodeServiceRequest F),
      arg_network_interface = from_front e (codec_NodeNetworkInterfaceRequest F),
      arg_hostname = from_front e (codec_NodeHostnameRequest F),
      arg_time_sync = from_front e (codec_NodeTimeSyncRequest F),
      arg_logging = from_front e (codec_NodeLoggingRequest F),
      arg_remote_access = from_front e (codec_NodeRemoteAccessRequest F),
      arg_power = from_front e (codec_NodePowerRequest F),
      arg_observation = from_front e (codec_NodeObservationRequest F),
      arg_version = from_front e (codec_NodeVersionRequest F),
      arg_package = from_front e (codec_NodePackageRequest F),
      arg_enroll = from_front e (codec_NodeEnrollRequest F),
      arg_str = from_front e (codec_str F),
      arg_strs = from_front e (pay_Strings F),
      arg_sampling_policies = from_front e (pay_SamplingPolicies F),
      arg_u32s = from_front e (pay_U32s F),
      arg_network_group = from_front e (codec_HostNetworkGroup F),
      arg_filter_rules = from_front e (pay_FilterRules F),
      arg_delete_customer_data = from_front e (codec_CustomerDataDeletionRequest F),
      arg_train_model = from_front e (codec_TrainModelRequest F),
      arg_clone_model = from_front e (codec_CloneModelRequest F),
      arg_u32 = from_front e (plain (fm_u32 F)),
      arg_i32 = from_front e (plain (fm_i32 F)),
      debug_observation = dbg\<rparr>"

text \<open>A frame is the code in its fixed width, \<open>code\<close>, and the payload.\<close>

definition split_frame :: "u32 prim \<Rightarrow> bytes \<Rightarrow> (u32 \<times> bytes) option" where
  "split_frame code b = snd code b"

lemma order_reads:
  assumes "lawful_format F" and "order_fits F p"
  shows "agent_reads (agent_decoders F e dbg) p (order_bytes F p)"
  using assms by (cases p) (auto simp: agent_decoders_def intro!: from_front_reads lawful_rules)

lemma order_carried:
  assumes "lawful_format F" and "lawful (plain code)" and "order_fits F p"
  shows "carries (fst code) (\<lambda>p. Ok (order_bytes F p)) (split_frame code) (agent_decoders F e dbg) p"
  using order_reads [OF assms(1,3)] lawful_reads [OF assms(2)]
  by (simp add: carries_def split_frame_def plain_def)

text \<open>
  C24. Every request survives the wire. Whatever the format's configuration, as long as it reads
  back what it writes of a number, a tag and a string: a payload of either direction that exists
  in the program (no length beyond what can be allocated, finite maps, real durations and
  timestamps) is decoded by the other side to exactly what was sent, and a request frame splits
  into the code and the payload it was put together from.
\<close>

theorem requests_survive_wire:
  assumes "lawful_format F" and "lawful (plain code)"
  shows "(ask_fits F p \<longrightarrow> decodes (ask_bytes F) (manager_decoders F e) p)
    \<and> (order_fits F q \<longrightarrow>
         carries (fst code) (\<lambda>q. Ok (order_bytes F q)) (split_frame code) (agent_decoders F e dbg) q)"
  using assms ask_decodes order_carried by blast

theorem requests_survive_wire_witness:
  "decodes (ask_bytes fixint_format) (manager_decoders fixint_format (IoError_new EK_InvalidData []))
     (CPay_RunReport (7, Run_Failed, Some ''out of memory''))
   \<and> carries (fst (le_prim 4)) (\<lambda>q. Ok (order_bytes fixint_format q)) (split_frame (le_prim 4))
       (agent_decoders fixint_format (IoError_new EK_InvalidData []) (\<lambda>_. []))
       (Pay_NodeHostname (Hostname_Set ''sensor-7''))"
proof -
  have fit: "ask_fits fixint_format (CPay_RunReport (7, Run_Failed, Some ''out of memory''))"
      "order_fits fixint_format (Pay_NodeHostname (Hostname_Set ''sensor-7''))"
    by (simp_all add: pay_RunReport_def wire_fits codec_simps MAX_LEN_def)
  have "lawful (plain (le_prim 4 :: u32 prim))" by (rule lawful_le_prim) simp
  from requests_survive_wire [OF lawful_fixint this] fit show ?thesis by blast
qed

subsection \<open>Requests cut short\<close>

text \<open>What a side makes of a body when it reads it as the arguments a payload is made of.\<close>

fun ask_refused :: "server_args \<Rightarrow> client_payload \<Rightarrow> IoError \<Rightarrow> bytes \<Rightarrow> bool" where
  "ask_refused A CPay_Unit e b \<longleftrightarrow> sarg_unit A b = Err e"
| "ask_refused A (CPay_DataSourceKey _) e b \<longleftrightarrow> sarg_data_source_key A b = Err e"
| "ask_refused A (CPay_String _) e b \<longleftrightarrow> sarg_string A b = Err e"
| "ask_refused A (CPay_NamePairs _) e b \<longleftrightarrow> sarg_name_pairs A b = Err e"
| "ask_refused A (CPay_U32I64 _) e b \<longleftrightarrow> sarg_u32_i64 A b = Err e"
| "ask_refused A (CPay_ColumnStatistics _) e b \<longleftrightarrow> sarg_column_statistics A b = Err e"
| "ask_refused A (CPay_DataSource _) e b \<longleftrightarrow> sarg_data_source A b = Err e"
| "ask_refused A (CPay_EventLabels _) e b \<longleftrightarrow> sarg_event_labels A b = Err e"
| "ask_refused A (CPay_Bytes _) e b \<longleftrightarrow> sarg_bytes A b = Err e"
| "ask_refused A (CPay_TimeSeries _) e b \<longleftrightarrow> sarg_time_series A b = Err e"
| "ask_refused A (CPay_DeletionReport _) e b \<longleftrightarrow> sarg_deletion_report A b = Err e"
| "ask_refused A (CPay_Clusters _) e b \<longleftrightarrow> sarg_clusters A b = Err e"
| "ask_refused A (CPay_Outliers _) e b \<longleftrightarrow> sarg_outliers A b = Err e"
| "ask_refused A (CPay_HostPorts _) e b \<longleftrightarrow> sarg_host_ports A b = Err e"
| "ask_refused A (CPay_HostAgents _) e b \<longleftrightarrow> sarg_host_agents A b = Err e"
| "ask_refused A (CPay_RunModel _) e b \<longleftrightarrow> sarg_run_model A b = Err e"
| "ask_refused A (CPay_RunReport _) e b \<longleftrightarrow> sarg_run_report A b = Err e"
| "ask_refused A (CPay_U32s _) e b \<longleftrightarrow> sarg_u32s A b = Err e"
| "ask_refused A (CPay_DetectorStatus _) e b \<longleftrightarrow> sarg_detector_status A b = Err e"

fun order_refused :: "agent_args \<Rightarrow> manager_payload \<Rightarrow> IoError \<Rightarrow> bytes \<Rightarrow> bool" where
  "order_refused A Pay_Unit e b \<longleftrightarrow> False"
| "order_refused A (Pay_NetworkGroup _) e b \<longleftrightarrow> arg_network_group A b = Err e"
| "order_refused A (Pay_DeleteCustomerData _) e b \<longleftrightarrow> arg_delete_customer_data A b = Err e"
| "order_refused A (Pay_TrainModel _) e b \<longleftrightarrow> arg_train_model A b = Err e"
| "order_refused A (Pay_CloneModel _) e b \<longleftrightarrow> arg_clone_model A b = Err e"
| "order_refused A (Pay_U32 _) e b \<longleftrightarrow> arg_u32 A b = Err e"
| "order_refused A (Pay_I32 _) e b \<longleftrightarrow> arg_i32 A b = Err e"
| "order_refused A (Pay_FilterRules _) e b \<longleftrightarrow> arg_filter_rules A b = Err e"
| "order_refused A (Pay_SamplingPolicies _) e b \<longleftrightarrow> arg_sampling_policies A b = Err e"
| "order_refused A (Pay_Strings _) e b \<longleftrightarrow> arg_strs A b = Err e"
| "order_refused A (Pay_NodeService _) e b \<longleftrightarrow> arg_service A b = Err e"
| "order_refused A (Pay_NodeNetworkInterface _) e b \<longleftrightarrow> arg_network_interface A b = Err e"
| "order_refused A (Pay_NodeHostname _) e b \<longleftrightarrow> arg_hostname A b = Err e"
| "order_refused A (Pay_NodeTimeSync _) e b \<longleftrightarrow> arg_time_sync A b = Err e"
| "order_refused A (Pay_NodeLogging _) e b \<longleftrightarrow> arg_logging A b = Err e"
| "order_refused A (Pay_NodeRemoteAccess _) e b \<longleftrightarrow> arg_remote_access A b = Err e"
| "order_refused A (Pay_NodePower _) e b \<longleftrightarrow> arg_power A b = Err e"
| "order_refused A (Pay_NodeObservation _) e b \<longleftrightarrow> arg_observation A b = Err e"
| "order_refused A (Pay_NodeVersion _) e b \<longleftrightarrow> arg_version A b = Err e"
| "order_refused A (Pay_NodePackage _) e b \<longleftrightarrow> arg_package A b = Err e"
| "order_refused A (Pay_NodeEnroll _) e b \<longleftrightarrow> arg_enroll A b = Err e"

lemma ask_cut_refused:
  assumes "lawful_format F" and "ask_fits F p" and "ask_bytes F p = kept @ lost" and "lost \<noteq> []"
  shows "ask_refused (manager_decoders F e) p e kept"
  using assms
  by (cases p) (auto simp: manager_decoders_def unit_codec_def
      intro!: from_front_truncated [where lost = lost] lawful_rules)

lemma order_cut_refused:
  assumes "lawful_format F" and "order_fits F p" and "order_bytes F p = kept @ lost" and "lost \<noteq> []"
  shows "order_refused (agent_decoders F e dbg) p e kept"
  using assms
  by (cases p) (auto simp: agent_decoders_def unit_codec_def
      intro!: from_front_truncated [where lost = lost] lawful_rules)

text \<open>
  C33. A request whose payload arrives cut short, at any byte, is refused by the decoder of its
  arguments, with the decoder's
  error: no shorter value of the same type is ever read in its place.
\<close>

theorem cut_requests_refused:
  assumes "lawful_format F"
  shows "(ask_fits F p \<and> ask_bytes F p = kept @ lost \<and> lost \<noteq> [] \<longrightarrow>
      ask_refused (manager_decoders F e) p e kept)
    \<and> (order_fits F q \<and> order_bytes F q = kept' @ lost' \<and> lost' \<noteq> [] \<longrightarrow>
      order_refused (agent_decoders F e dbg) q e kept')"
  using assms ask_cut_refused order_cut_refused by blast

theorem cut_requests_refused_witness:
  "ask_bytes fixint_format (CPay_U32I64 (7, 1)) = [7, 0, 0, 0, 1, 0, 0] @ [0, 0, 0, 0, 0]
   \<and> ask_refused (manager_decoders fixint_format (IoError_new EK_InvalidData [])) (CPay_U32I64 (7, 1)) (IoError_new EK_InvalidData [])
       [7, 0, 0, 0, 1, 0, 0]
   \<and> order_bytes fixint_format (Pay_NodeHostname (Hostname_Set ''ab'')) =
       [1, 0, 0, 0, 2, 0, 0, 0, 0, 0, 0, 0, 97] @ [98]
   \<and> order_refused (agent_decoders fixint_format (IoError_new EK_InvalidData []) (\<lambda>_. []))
       (Pay_NodeHostname (Hostname_Set ''ab'')) (IoError_new EK_InvalidData []) [1, 0, 0, 0, 2, 0, 0, 0, 0, 0, 0, 0, 97]"
proof -
  have fit: "ask_fits fixint_format (CPay_U32I64 (7, 1))"
      "order_fits fixint_format (Pay_NodeHostname (Hostname_Set ''ab''))"
    by (simp_all add: pay_U32I64_def wire_fits codec_simps MAX_LEN_def)
  have sent: "ask_bytes fixint_format (CPay_U32I64 (7, 1)) = [7, 0, 0, 0, 1, 0, 0] @ [0, 0, 0, 0, 0]"
      "order_bytes fixint_format (Pay_NodeHostname (Hostname_Set ''ab'')) =
         [1, 0, 0, 0, 2, 0, 0, 0, 0, 0, 0, 0, 97] @ [98]"
    by (simp_all add: pay_U32I64_def wire_layout fixint_simps)
  from cut_requests_refused [OF lawful_fixint, of "CPay_U32I64 (7, 1)" _ _ "IoError_new EK_InvalidData []"
      "Pay_NodeHostname (Hostname_Set ''ab'')" _ _ "\<lambda>_. []"] fit sent
  show ?thesis by blast
qed

end
