(* ===== verification/Types_Tests.thy ===== *)
theory Types_Tests
  imports Wire_Layout
begin

text \<open>
  The tests of \<open>src/src/types.rs\<close>, module \<open>node\<close>, over the codecs of the types: each is a
  predicate of the format, which the tests run with
  \<open>bincode::config::standard().with_fixed_int_encoding()\<close>. What they rely on of it is
  \<open>fixed_int\<close>: it is lawful, an index and a length have their own width, a byte and a tag are a
  byte, and timestamps of the common era are in range. The two tests of \<open>Debug\<close> renderings are
  left out: the text is the formatter's.
\<close>

subsection \<open>The configuration\<close>

definition fixed_int :: "format \<Rightarrow> bool" where
  "fixed_int F \<longleftrightarrow> lawful_format F \<and> fm_u32 F = fm_variant F
     \<and> (\<forall>v. fst (fm_variant F) v = le_bytes 4 (unat v)) \<and> (\<forall>v. fst (fm_u8 F) v = [v])
     \<and> (\<forall>n. fst (fm_len F) n = le_bytes 8 (unat n))
     \<and> (\<forall>t. fst (fm_option F) t = [if t then 1 else 0])
     \<and> (\<forall>t. 0 \<le> sint (as_nanosecond t) \<and> sint (as_nanosecond t) \<le> 253402207200999999999
           \<longrightarrow> fm_valid_timestamp F t)"

lemma fixed_int_fixint: "fixed_int fixint_format"
proof -
  have "unat v mod 256 = unat v" for v :: u8 using unat_in_bytes [of 1 v] by simp
  then show ?thesis
    by (simp add: fixed_int_def lawful_fixint le_prim_write bool_write)
qed

subsection \<open>Helpers\<close>

definition encode :: "'a codec \<Rightarrow> 'a \<Rightarrow> bytes" where
  "encode c value = enc c value"

definition decode :: "'a codec \<Rightarrow> bytes \<Rightarrow> 'a option" where
  "decode c bytes = map_option fst (dec c bytes)"

definition roundtrip :: "'a codec \<Rightarrow> 'a \<Rightarrow> 'a option" where
  "roundtrip c value = map_option fst (dec c (enc c value))"

definition survives :: "'a codec \<Rightarrow> 'a \<Rightarrow> bool" where
  "survives c value \<longleftrightarrow> roundtrip c value = Some value"

definition variant_index :: "bytes \<Rightarrow> u32 option" where
  "variant_index bytes = (if length bytes < 4 then None else Some (of_nat (le_nat (take 4 bytes))))"

lemma roundtrip_ok: "lawful c \<Longrightarrow> fits c v \<Longrightarrow> roundtrip c v = Some v"
  by (simp add: roundtrip_def lawful_reads_all)

lemma survives_ok: "lawful c \<Longrightarrow> fits c v \<Longrightarrow> survives c v"
  by (simp add: survives_def roundtrip_ok)

lemma variant_index_ok:
  assumes "fixed_int F"
  shows "variant_index (fst (fm_variant F) v @ rest) = Some v" "variant_index (fst (fm_variant F) v) = Some v"
proof -
  have "le_nat (le_bytes 4 (unat v)) = unat v"
    using le_nat_bytes [of "unat v" 4] unat_in_bytes [of 4 v] by simp
  then show "variant_index (fst (fm_variant F) v @ rest) = Some v" "variant_index (fst (fm_variant F) v) = Some v"
    using assms by (simp_all add: fixed_int_def variant_index_def)
qed

lemma fixed_int_parts:
  assumes "fixed_int F"
  shows "lawful_format F" "fm_u32 F = fm_variant F" "fst (fm_u8 F) b = [b]"
    "length (fst (fm_variant F) v) = 4" "length (fst (fm_len F) n) = 8" "length (fst (fm_option F) t) = 1"
    "orders (fm_order_str F)"
    "0 \<le> sint (as_nanosecond t') \<Longrightarrow> sint (as_nanosecond t') \<le> 253402207200999999999 \<Longrightarrow> fm_valid_timestamp F t'"
  using assms lawful_format_parts(22) [of F] by (simp_all add: fixed_int_def)

named_theorems types_passes \<open>the tests hold\<close>

lemmas wire_rules = roundtrip_ok survives_ok lawful_rules wire_fits codec_simps MAX_LEN_def

text \<open>The standard library's constructors of durations.\<close>

definition Duration_from_secs :: "nat \<Rightarrow> Duration" where
  "Duration_from_secs s = \<lparr>secs = of_nat s, nanos = 0\<rparr>"

definition Duration_from_millis :: "nat \<Rightarrow> Duration" where
  "Duration_from_millis ms = \<lparr>secs = of_nat (ms div 1000), nanos = of_nat (ms mod 1000 * 1000000)\<rparr>"

subsection \<open>The host-control families\<close>

definition test_serde_roundtrip_node_service :: "format \<Rightarrow> bool" where
  "test_serde_roundtrip_node_service F \<longleftrightarrow>
     survives (codec_NodeServiceRequest F) (Service_Start ''nginx'')
     \<and> survives (codec_NodeServiceRequest F) (Service_Status ''nginx'')
     \<and> survives (codec_NodeServiceResponse F) (ServiceR_Status True)
     \<and> survives (codec_NodeServiceResponse F) ServiceR_Done"

definition eth0_config :: NodeNetworkInterfaceConfig where
  "eth0_config =
     \<lparr>nic_addresses = Some [''192.168.1.10/24''], nic_dhcp4 = Some False,
      nic_gateway4 = Some ''192.168.1.1'', nic_nameservers = Some [''8.8.8.8'']\<rparr>"

definition test_serde_roundtrip_node_network_interface :: "format \<Rightarrow> bool" where
  "test_serde_roundtrip_node_network_interface F \<longleftrightarrow>
     survives (codec_NodeNetworkInterfaceRequest F) (Interface_List (Some ''eth''))
     \<and> survives (codec_NodeNetworkInterfaceRequest F) (Interface_Set ''eth0'' eth0_config)
     \<and> survives (codec_NodeNetworkInterfaceResponse F)
         (InterfaceR_Get (Some \<lparr>ni_device = ''eth0'', ni_config = eth0_config\<rparr>))
     \<and> survives (codec_NodeNetworkInterfaceResponse F) (InterfaceR_List [''eth0'', ''eth1''])"

definition test_serde_roundtrip_node_hostname :: "format \<Rightarrow> bool" where
  "test_serde_roundtrip_node_hostname F \<longleftrightarrow>
     survives (codec_NodeHostnameRequest F) (Hostname_Set ''node-1'')
     \<and> survives (codec_NodeHostnameResponse F) (HostnameR_Get ''node-1'')
     \<and> survives (codec_NodeHostnameResponse F) HostnameR_Done"

definition test_serde_roundtrip_node_time_sync :: "format \<Rightarrow> bool" where
  "test_serde_roundtrip_node_time_sync F \<longleftrightarrow>
     survives (codec_NodeTimeSyncRequest F) (TimeSync_Set [''0.pool.ntp.org'', ''1.pool.ntp.org''])
     \<and> survives (codec_NodeTimeSyncResponse F) (TimeSyncR_Get (Some [''0.pool.ntp.org'']))
     \<and> survives (codec_NodeTimeSyncResponse F)
         (TimeSyncR_Status True True (Some ''cm.example.com'') (Some (- 1234)))
     \<and> survives (codec_NodeTimeSyncResponse F) (TimeSyncR_Status False False None None)
     \<and> survives (codec_NodeTimeSyncResponse F) TimeSyncR_Done"

definition test_serde_roundtrip_node_logging :: "format \<Rightarrow> bool" where
  "test_serde_roundtrip_node_logging F \<longleftrightarrow>
     survives (codec_NodeLoggingRequest F)
       (Logging_Set [\<lparr>nle_protocol = Logging_Tcp, nle_address = ''192.168.1.100'', nle_port = 514\<rparr>])
     \<and> survives (codec_NodeLoggingRequest F) Logging_Clear
     \<and> survives (codec_NodeLoggingResponse F)
         (LoggingR_Get (Some [\<lparr>nle_protocol = Logging_Udp, nle_address = ''10.0.0.1'', nle_port = 514\<rparr>]))
     \<and> survives (codec_NodeLoggingResponse F) LoggingR_Done"

definition test_serde_roundtrip_node_remote_access :: "format \<Rightarrow> bool" where
  "test_serde_roundtrip_node_remote_access F \<longleftrightarrow>
     survives (codec_NodeRemoteAccessRequest F) (RemoteAccess_Set \<lparr>nra_port = 22\<rparr>)
     \<and> survives (codec_NodeRemoteAccessResponse F) (RemoteAccessR_Get \<lparr>nra_port = 2222\<rparr>)
     \<and> survives (codec_NodeRemoteAccessResponse F) RemoteAccessR_Done"

definition test_serde_roundtrip_node_power :: "format \<Rightarrow> bool" where
  "test_serde_roundtrip_node_power F \<longleftrightarrow>
     survives (codec_NodePowerRequest F) Power_Reboot
     \<and> survives (codec_NodePowerRequest F) Power_GracefulShutdown
     \<and> survives (codec_NodePowerResponse F) PowerR_Initiated"

text \<open>The floats by their bits: 1.5 and 45.2 as \<open>f32\<close>, 0.8 as \<open>f64\<close>.\<close>

definition test_serde_roundtrip_node_observation :: "format \<Rightarrow> bool" where
  "test_serde_roundtrip_node_observation F \<longleftrightarrow>
     survives (codec_NodeObservationRequest F) Observe_Uptime
     \<and> survives (codec_NodeObservationResponse F)
         (ObserveR_ProcessList
            [\<lparr>proc_user = ''root'', proc_cpu_usage = 1069547520, proc_mem_usage = 4605380978949069210,
              proc_start_time = 1700000000, proc_command = ''/usr/sbin/sshd''\<rparr>])
     \<and> survives (codec_NodeObservationResponse F)
         (ObserveR_ResourceUsage ''node-1''
            \<lparr>ru_cpu_usage = 1110756557, ru_total_memory = 16000000000, ru_used_memory = 8000000000,
             ru_disk_used_bytes = 100000000000, ru_disk_available_bytes = 400000000000\<rparr>)
     \<and> survives (codec_NodeObservationResponse F) (ObserveR_Uptime (Duration_from_secs (24 * 3600)))"

definition test_serde_roundtrip_node_version :: "format \<Rightarrow> bool" where
  "test_serde_roundtrip_node_version F \<longleftrightarrow>
     survives (codec_NodeVersionRequest F) (Version_SetOsVersion ''22.04'')
     \<and> survives (codec_NodeVersionResponse F) (VersionR_Get ''22.04'' ''2.0.0'')
     \<and> survives (codec_NodeVersionResponse F) VersionR_Done"

subsection \<open>Fixtures of the package family\<close>

definition ARTIFACT_MARKER :: string where "ARTIFACT_MARKER = ''svc-7f2a''"

definition into_bytes :: "string \<Rightarrow> bytes" where
  "into_bytes s = map (\<lambda>c. of_nat (of_char c)) s"

text \<open>Whether bytes are UTF-8, as \<open>std::str::from_utf8\<close> decides it.\<close>

definition utf8_follows :: "u8 \<Rightarrow> u8 \<Rightarrow> bytes \<Rightarrow> nat \<Rightarrow> bool" where
  "utf8_follows lo hi r n \<longleftrightarrow> n \<le> length r \<and> lo \<le> r ! 0 \<and> r ! 0 \<le> hi
     \<and> list_all (\<lambda>b. 128 \<le> b \<and> b \<le> 191) (take (n - 1) (drop 1 r))"

fun from_utf8 :: "bytes \<Rightarrow> bool" where
  "from_utf8 [] \<longleftrightarrow> True"
| "from_utf8 (b # r) \<longleftrightarrow>
     (if b < 128 then from_utf8 r
      else if 194 \<le> b \<and> b \<le> 223 then utf8_follows 128 191 r 1 \<and> from_utf8 (drop 1 r)
      else if b = 224 then utf8_follows 160 191 r 2 \<and> from_utf8 (drop 2 r)
      else if b = 237 then utf8_follows 128 159 r 2 \<and> from_utf8 (drop 2 r)
      else if 225 \<le> b \<and> b \<le> 239 then utf8_follows 128 191 r 2 \<and> from_utf8 (drop 2 r)
      else if b = 240 then utf8_follows 144 191 r 3 \<and> from_utf8 (drop 3 r)
      else if 241 \<le> b \<and> b \<le> 243 then utf8_follows 128 191 r 3 \<and> from_utf8 (drop 3 r)
      else if b = 244 then utf8_follows 128 143 r 3 \<and> from_utf8 (drop 3 r)
      else False)"

definition bootstrap_artifact :: bytes where
  "bootstrap_artifact =
     into_bytes (''{'' @ [CHR 0x22] @ ''registration_id'' @ [CHR 0x22] @ '':'' @ [CHR 0x22] @ ARTIFACT_MARKER
       @ [CHR 0x22] @ ''}'')
     @ [255, 254, 0, 195, 40]"

text \<open>2026-01-02T03:04:05.123456789Z.\<close>

definition bootstrap_material :: BootstrapMaterial where
  "bootstrap_material =
     \<lparr>bm_role_id = ''sensor-installer'', bm_wrapped_secret_id = ''s.9f3c1b'',
      bm_ca_anchor = [48, 130, 1, 10], bm_expires_at = Timestamp 1767323045123456789,
      bm_bootstrap_artifact = bootstrap_artifact\<rparr>"

definition package_state :: "Lifecycle \<Rightarrow> BoundAddr list \<Rightarrow> PackageState" where
  "package_state lifecycle bound_addrs =
     \<lparr>ps_version = ''1.2.3'', ps_commit = ''0123456789abcdef'', ps_lifecycle = lifecycle,
      ps_bound_addrs = bound_addrs, ps_privilege_profile = None\<rparr>"

text \<open>The helper of the fixture checks that the artifact is not text.\<close>

lemma bootstrap_artifact_is_not_text: "\<not> from_utf8 bootstrap_artifact"
  by (simp add: bootstrap_artifact_def into_bytes_def ARTIFACT_MARKER_def)

lemma fixture_fits:
  assumes "fixed_int F"
  shows "fits (codec_BootstrapMaterial F) bootstrap_material"
    "fits (codec_PackageState F) (package_state l as) \<longleftrightarrow> fits (list_codec (fm_len F) (codec_BoundAddr F)) as"
  using fixed_int_parts [OF assms]
  by (simp_all add: bootstrap_material_def package_state_def bootstrap_artifact_def into_bytes_def
      ARTIFACT_MARKER_def wire_fits codec_simps MAX_LEN_def)

subsection \<open>The tests of these families hold\<close>

lemma node_families_roundtrip_pass [types_passes]:
  assumes "fixed_int F"
  shows "test_serde_roundtrip_node_service F" "test_serde_roundtrip_node_network_interface F"
    "test_serde_roundtrip_node_hostname F" "test_serde_roundtrip_node_time_sync F"
    "test_serde_roundtrip_node_logging F" "test_serde_roundtrip_node_remote_access F"
    "test_serde_roundtrip_node_power F" "test_serde_roundtrip_node_observation F"
    "test_serde_roundtrip_node_version F"
  using fixed_int_parts(1) [OF assms]
  by (simp_all add: wire_rules test_serde_roundtrip_node_service_def
      test_serde_roundtrip_node_network_interface_def eth0_config_def
      test_serde_roundtrip_node_hostname_def test_serde_roundtrip_node_time_sync_def
      test_serde_roundtrip_node_logging_def test_serde_roundtrip_node_remote_access_def
      test_serde_roundtrip_node_power_def test_serde_roundtrip_node_observation_def
      Duration_from_secs_def test_serde_roundtrip_node_version_def)

subsection \<open>Package requests\<close>

definition sensor_install ::
  "u32 option \<Rightarrow> BootstrapMaterial option \<Rightarrow> FailurePolicy \<Rightarrow> string option \<Rightarrow> InstallFields" where
  "sensor_install inst material on_failure template =
     \<lparr>in_target = ''sensor'', in_instance = inst, in_version = ''1.2.3'',
      in_commit = ''0123456789abcdef'', in_size = 4194304, in_idempotency_key = ''b6f0'',
      in_bootstrap_material = material, in_on_failure = on_failure, in_bind_addrs = None,
      in_config_template = template, in_privilege_profile = None\<rparr>"

definition test_serde_roundtrip_node_package_request :: "format \<Rightarrow> bool" where
  "test_serde_roundtrip_node_package_request F \<longleftrightarrow>
     list_all (\<lambda>inst.
       list_all (\<lambda>material. list_all (\<lambda>on_failure.
           survives (codec_NodePackageRequest F)
             (Package_Install (sensor_install inst material on_failure (Some ''reconverge-baseline''))))
         [OnFailure_Rollback, OnFailure_Hold]) [None, Some bootstrap_material]
       \<and> survives (codec_NodePackageRequest F) (Package_Remove ''sensor'' inst ''b6f0'')
       \<and> survives (codec_NodePackageRequest F) (Package_Status ''sensor'' inst)) [None, Some 7]
     \<and> survives (codec_NodePackageRequest F) Package_ListInstalled
     \<and> survives (codec_NodePackageRequest F) Package_ListHostPorts"

definition install_with_config_template ::
  "(string \<rightharpoonup> SocketAddr) option \<Rightarrow> string option \<Rightarrow> string option \<Rightarrow> NodePackageRequest" where
  "install_with_config_template bind_addrs config_template privilege_profile =
     Package_Install
       \<lparr>in_target = ''giganto'', in_instance = Some 1, in_version = ''1.2.3'',
        in_commit = ''0123456789abcdef'', in_size = 4194304, in_idempotency_key = ''b6f0'',
        in_bootstrap_material = None, in_on_failure = OnFailure_Rollback, in_bind_addrs = bind_addrs,
        in_config_template = config_template, in_privilege_profile = privilege_profile\<rparr>"

definition install_with_bind_addrs :: "(string \<rightharpoonup> SocketAddr) option \<Rightarrow> NodePackageRequest" where
  "install_with_bind_addrs bind_addrs = install_with_config_template bind_addrs None None"

text \<open>\<open>None\<close> is the panic on a request that is not an install.\<close>

fun bind_addrs_of :: "NodePackageRequest \<Rightarrow> (string \<rightharpoonup> SocketAddr) option option" where
  "bind_addrs_of (Package_Install i) = Some (in_bind_addrs i)"
| "bind_addrs_of _ = None"

text \<open>Addresses by their number: 0.0.0.0 is 0, 10.1.2.3 is 0x0a010203, ::1 is 1.\<close>

definition any_port :: "u16 \<Rightarrow> SocketAddr" where "any_port p = SocketAddr_V4 0 p"

definition bind_addrs_kept :: "format \<Rightarrow> (string \<rightharpoonup> SocketAddr) option \<Rightarrow> bool" where
  "bind_addrs_kept F addrs \<longleftrightarrow>
     survives (codec_NodePackageRequest F) (install_with_bind_addrs addrs)
     \<and> Option.bind (roundtrip (codec_NodePackageRequest F) (install_with_bind_addrs addrs)) bind_addrs_of
         = Some addrs"

definition test_node_package_install_bind_addrs_roundtrip :: "format \<Rightarrow> bool" where
  "test_node_package_install_bind_addrs_roundtrip F \<longleftrightarrow>
     bind_addrs_kept F None \<and> bind_addrs_kept F (Some Map.empty)
     \<and> bind_addrs_kept F (Some [''graphql_srv_addr'' \<mapsto> any_port 8442, ''ingest_srv_addr'' \<mapsto> any_port 38370])
     \<and> bind_addrs_kept F (Some [''graphql_srv_addr'' \<mapsto> any_port 8442, ''publish_srv_addr'' \<mapsto> any_port 8442])
     \<and> (case Option.bind (roundtrip (codec_NodePackageRequest F) (install_with_bind_addrs
            (Some [''graphql_srv_addr'' \<mapsto> any_port 8442, ''publish_srv_addr'' \<mapsto> any_port 8442]))) bind_addrs_of
        of Some (Some m) \<Rightarrow> card (dom m) = 2 | _ \<Rightarrow> False)
     \<and> bind_addrs_kept F (Some [''graphql_srv_addr'' \<mapsto> SocketAddr_V6 1 8442 0 0,
          ''ingest_srv_addr'' \<mapsto> SocketAddr_V4 0x0a010203 38370])"

fun config_template_of :: "NodePackageRequest \<Rightarrow> string option option" where
  "config_template_of (Package_Install i) = Some (in_config_template i)"
| "config_template_of _ = None"

fun privilege_profile_of :: "NodePackageRequest \<Rightarrow> string option option" where
  "privilege_profile_of (Package_Install i) = Some (in_privilege_profile i)"
| "privilege_profile_of _ = None"

definition test_node_package_install_config_template_roundtrip :: "format \<Rightarrow> bool" where
  "test_node_package_install_config_template_roundtrip F \<longleftrightarrow>
     list_all (\<lambda>config_template. list_all (\<lambda>bind_addrs.
       let req = install_with_config_template bind_addrs config_template None;
           decoded = roundtrip (codec_NodePackageRequest F) req
       in decoded = Some req \<and> Option.bind decoded config_template_of = Some config_template)
       [None, Some [''graphql_srv_addr'' \<mapsto> any_port 8442]])
     [None, Some ''reconverge-baseline'', Some []]"

definition test_node_package_install_privilege_profile_roundtrip :: "format \<Rightarrow> bool" where
  "test_node_package_install_privilege_profile_roundtrip F \<longleftrightarrow>
     list_all (\<lambda>privilege_profile. list_all (\<lambda>config_template.
       let req = install_with_config_template None config_template privilege_profile;
           decoded = roundtrip (codec_NodePackageRequest F) req
       in decoded = Some req \<and> Option.bind decoded config_template_of = Some config_template
          \<and> Option.bind decoded privilege_profile_of = Some privilege_profile)
       [None, Some ''reconverge-baseline''])
     [None, Some ''dpdk'', Some [], Some ''Root'', Some ''no-such-profile'']"

definition test_node_package_install_field_order_is_pinned :: "format \<Rightarrow> bool" where
  "test_node_package_install_field_order_is_pinned F \<longleftrightarrow>
     (let bind_addrs = [''graphql_srv_addr'' \<mapsto> any_port 8442]; ident = ''reconverge-baseline'';
          text = option_codec (fm_option F) (codec_str F);
          expected = concat
            [encode (plain (fm_u32 F)) 0,
             encode (codec_str F) ''giganto'',
             encode (option_codec (fm_option F) (plain (fm_u32 F))) (Some 1),
             encode (codec_str F) ''1.2.3'',
             encode (codec_str F) ''0123456789abcdef'',
             encode (plain (fm_u64 F)) 4194304,
             encode (codec_str F) ''b6f0'',
             encode (option_codec (fm_option F) (codec_BootstrapMaterial F)) None,
             encode (codec_FailurePolicy F) OnFailure_Rollback,
             encode (option_codec (fm_option F)
               (map_codec (fm_len F) (fm_order_str F) (codec_str F) (codec_socket F))) (Some bind_addrs),
             encode text (Some ident),
             encode text (Some ''af-packet'')]
      in encode (codec_NodePackageRequest F)
           (install_with_config_template (Some bind_addrs) (Some ident) (Some ''af-packet'')) = expected)"

definition test_node_package_install_instance_is_payload_only :: "format \<Rightarrow> bool" where
  "test_node_package_install_instance_is_payload_only F \<longleftrightarrow>
     (let install = (\<lambda>n. Package_Install (sensor_install (Some n) None OnFailure_Rollback None));
          c = codec_NodePackageRequest F
      in survives c (install 1) \<and> survives c (install 2)
         \<and> length (encode c (install 1)) = length (encode c (install 2))
         \<and> encode c (install 1) \<noteq> encode c (install 2))"

lemma install_fits:
  assumes "fixed_int F"
  shows "fits (codec_NodePackageRequest F) (Package_Install (sensor_install inst material on_failure template)) \<longleftrightarrow>
      (case material of None \<Rightarrow> True | Some m \<Rightarrow> fits (codec_BootstrapMaterial F) m)
      \<and> (case template of None \<Rightarrow> True | Some s \<Rightarrow> length s \<le> MAX_LEN)"
    "fits (codec_NodePackageRequest F) (install_with_config_template addrs template profile) \<longleftrightarrow>
      fits (option_codec (fm_option F) (map_codec (fm_len F) (fm_order_str F) (codec_str F) (codec_socket F))) addrs
      \<and> (case template of None \<Rightarrow> True | Some s \<Rightarrow> length s \<le> MAX_LEN)
      \<and> (case profile of None \<Rightarrow> True | Some s \<Rightarrow> length s \<le> MAX_LEN)"
  by (cases inst; cases material; cases template;
      simp add: sensor_install_def wire_fits codec_simps MAX_LEN_def)
    (cases template; cases profile;
      simp add: install_with_config_template_def wire_fits codec_simps MAX_LEN_def)

lemma node_package_request_roundtrip_passes [types_passes]:
  assumes "fixed_int F"
  shows "test_serde_roundtrip_node_package_request F"
proof -
  note F = fixed_int_parts(1) [OF assms]
  have "survives (codec_NodePackageRequest F) (Package_Remove ''sensor'' inst ''b6f0'')"
      "survives (codec_NodePackageRequest F) (Package_Status ''sensor'' inst)"
      "survives (codec_NodePackageRequest F) Package_ListInstalled"
      "survives (codec_NodePackageRequest F) Package_ListHostPorts" for inst
    using F by (cases inst; simp add: wire_rules)+
  moreover have "survives (codec_NodePackageRequest F)
      (Package_Install (sensor_install inst material on_failure (Some ''reconverge-baseline'')))"
    if "material \<in> {None, Some bootstrap_material}" for inst material on_failure
    using that F fixture_fits(1) [OF assms]
    by (auto simp: survives_ok lawful_NodePackageRequest install_fits [OF assms] MAX_LEN_def)
  ultimately show ?thesis by (simp add: test_serde_roundtrip_node_package_request_def)
qed

lemma bind_addrs_kept_ok:
  assumes "fixed_int F"
    and "fits (option_codec (fm_option F) (map_codec (fm_len F) (fm_order_str F) (codec_str F) (codec_socket F))) addrs"
  shows "bind_addrs_kept F addrs"
    "roundtrip (codec_NodePackageRequest F) (install_with_bind_addrs addrs) = Some (install_with_bind_addrs addrs)"
    "bind_addrs_of (install_with_bind_addrs addrs) = Some addrs"
  using assms fixed_int_parts(1) [OF assms(1)]
  by (simp_all add: bind_addrs_kept_def survives_def install_with_bind_addrs_def roundtrip_ok
      lawful_NodePackageRequest install_fits)
    (simp_all add: install_with_config_template_def)

lemma install_maps_roundtrip_pass [types_passes]:
  assumes "fixed_int F"
  shows "test_node_package_install_bind_addrs_roundtrip F"
    "test_node_package_install_config_template_roundtrip F"
    "test_node_package_install_privilege_profile_roundtrip F"
proof -
  note F = fixed_int_parts(1,7) [OF assms]
  show "test_node_package_install_bind_addrs_roundtrip F"
    using F assms
    by (simp add: test_node_package_install_bind_addrs_roundtrip_def bind_addrs_kept_ok codec_simps any_port_def
        MAX_LEN_def card_insert_if)
  show "test_node_package_install_config_template_roundtrip F"
    using F assms
    by (simp add: test_node_package_install_config_template_roundtrip_def roundtrip_ok lawful_NodePackageRequest
        install_fits codec_simps any_port_def MAX_LEN_def)
      (simp add: install_with_config_template_def)
  show "test_node_package_install_privilege_profile_roundtrip F"
    using F assms
    by (simp add: test_node_package_install_privilege_profile_roundtrip_def roundtrip_ok lawful_NodePackageRequest
        install_fits codec_simps MAX_LEN_def)
      (simp add: install_with_config_template_def)
qed

lemma install_layout_pass [types_passes]:
  assumes "fixed_int F"
  shows "test_node_package_install_field_order_is_pinned F"
    "test_node_package_install_instance_is_payload_only F"
proof -
  note F = fixed_int_parts [OF assms]
  show "test_node_package_install_field_order_is_pinned F"
    using F(2)
    by (simp add: test_node_package_install_field_order_is_pinned_def encode_def Let_def
        install_with_config_template_def wire_layout codec_simps)
  let ?req = "\<lambda>n. Package_Install (sensor_install (Some n) None OnFailure_Rollback None)"
  have fit: "fits (codec_NodePackageRequest F) (?req n)" for n by (simp add: install_fits [OF assms])
  have "enc (codec_NodePackageRequest F) (?req 1) \<noteq> enc (codec_NodePackageRequest F) (?req 2)"
    using lawful_prefix_free(1) [OF lawful_NodePackageRequest [OF F(1)] fit fit, of 2 1 "[]"]
    by (auto simp: sensor_install_def)
  moreover have "length (enc (codec_NodePackageRequest F) (?req n)) = length (enc (codec_NodePackageRequest F) (?req m))"
    for n m using F(2,4) by (simp add: sensor_install_def wire_layout codec_simps)
  ultimately show "test_node_package_install_instance_is_payload_only F"
    using F(1) fit
    by (simp add: test_node_package_install_instance_is_payload_only_def encode_def survives_ok
        lawful_NodePackageRequest)
qed

subsection \<open>Verdicts and answers\<close>

definition test_serde_roundtrip_install_preflight :: "format \<Rightarrow> bool" where
  "test_serde_roundtrip_install_preflight F \<longleftrightarrow>
     survives (codec_InstallPreflight F) Preflight_Proceed
     \<and> survives (codec_InstallPreflight F) Preflight_AlreadyApplied
     \<and> survives (codec_InstallPreflight F) (Preflight_InsufficientDiskSpace ''/var'' 8388608 1048576)
     \<and> list_all (survives (codec_InstallPreflight F))
         [Preflight_BindAddrsOnUpdate, Preflight_NamespaceUnconfigured, Preflight_EnrollmentUnsupported,
          Preflight_ConfigTemplateOnUpdate, Preflight_UnknownConfigTemplate ''no-such-template'',
          Preflight_UnknownConfigTemplate []]"

definition at_index :: "'a codec \<Rightarrow> 'a \<Rightarrow> u32 \<Rightarrow> bool" where
  "at_index c value n \<longleftrightarrow> variant_index (encode c value) = Some n"

definition test_install_preflight_variant_order_is_pinned :: "format \<Rightarrow> bool" where
  "test_install_preflight_variant_order_is_pinned F \<longleftrightarrow>
     (let c = codec_InstallPreflight F in
      at_index c Preflight_Proceed 0 \<and> at_index c Preflight_AlreadyApplied 1
      \<and> at_index c (Preflight_InsufficientDiskSpace ''/var'' 8388608 1048576) 2
      \<and> at_index c Preflight_BindAddrsOnUpdate 3 \<and> at_index c Preflight_NamespaceUnconfigured 4
      \<and> at_index c Preflight_EnrollmentUnsupported 5 \<and> at_index c Preflight_ConfigTemplateOnUpdate 6
      \<and> at_index c (Preflight_UnknownConfigTemplate ''no-such-template'') 7)"

definition test_node_package_request_variant_order_is_pinned :: "format \<Rightarrow> bool" where
  "test_node_package_request_variant_order_is_pinned F \<longleftrightarrow>
     (let c = codec_NodePackageRequest F in
      at_index c (install_with_bind_addrs None) 0
      \<and> at_index c (Package_Remove ''sensor'' (Some 1) ''b6f0'') 1
      \<and> at_index c Package_ListInstalled 2
      \<and> at_index c (Package_Status ''sensor'' (Some 1)) 3
      \<and> at_index c Package_ListHostPorts 4)"

definition ingest_address :: BoundAddr where
  "ingest_address = \<lparr>ba_name = ''ingest_address'', ba_addr = ''0.0.0.0:38370''\<rparr>"

definition test_serde_roundtrip_node_package_response :: "format \<Rightarrow> bool" where
  "test_serde_roundtrip_node_package_response F \<longleftrightarrow>
     list_all (survives (codec_NodePackageResponse F))
       [PackageR_Done, PackageR_Accepted,
        PackageR_Installed [\<lparr>ip_target = ''sensor'', ip_instance = Some 1,
          ip_state = package_state Life_Running [ingest_address]\<rparr>],
        PackageR_Installed [],
        PackageR_State (package_state Life_Stopped []),
        PackageR_Failed PkgErr_MissingBootstrapMaterial,
        PackageR_HostPorts []]"

definition test_package_state_field_order_is_pinned :: "format \<Rightarrow> bool" where
  "test_package_state_field_order_is_pinned F \<longleftrightarrow>
     (let bound_addrs = [ingest_address];
          state = (package_state Life_Running bound_addrs)\<lparr>ps_privilege_profile := Some ''replay''\<rparr>;
          expected = concat
            [encode (codec_str F) ''1.2.3'',
             encode (codec_str F) ''0123456789abcdef'',
             encode (codec_Lifecycle F) Life_Running,
             encode (list_codec (fm_len F) (codec_BoundAddr F)) bound_addrs,
             encode (option_codec (fm_option F) (codec_str F)) (Some ''replay'')]
      in encode (codec_PackageState F) state = expected
         \<and> list_all (\<lambda>privilege_profile.
              let state = (package_state Life_Running bound_addrs)\<lparr>ps_privilege_profile := privilege_profile\<rparr>;
                  decoded = roundtrip (codec_PackageState F) state
              in decoded = Some state
                 \<and> map_option ps_privilege_profile decoded = Some privilege_profile
                 \<and> survives (codec_NodePackageResponse F) (PackageR_State state)
                 \<and> survives (codec_NodePackageResponse F) (PackageR_Installed
                      [\<lparr>ip_target = ''sensor'', ip_instance = Some 1, ip_state = state\<rparr>,
                       \<lparr>ip_target = ''sensor'', ip_instance = Some 2, ip_state = state\<rparr>]))
            [None, Some ''replay''])"

definition test_serde_roundtrip_node_package_payload_types :: "format \<Rightarrow> bool" where
  "test_serde_roundtrip_node_package_payload_types F \<longleftrightarrow>
     (let state = package_state Life_Running
            [ingest_address, \<lparr>ba_name = ''publish_address'', ba_addr = ''0.0.0.0:38371''\<rparr>];
          decoded = roundtrip (codec_PackageState F) state
      in survives (codec_BoundAddr F) ingest_address
         \<and> survives (codec_PackageState F) (package_state Life_Running [])
         \<and> decoded = Some state
         \<and> Option.bind decoded (\<lambda>s. map_option ba_addr (find (\<lambda>a. ba_name a = ''publish_address'') (ps_bound_addrs s)))
             = Some ''0.0.0.0:38371''
         \<and> survives (codec_InstalledPackage F) \<lparr>ip_target = ''sensor'', ip_instance = None, ip_state = state\<rparr>
         \<and> survives (codec_BootstrapMaterial F) bootstrap_material
         \<and> survives (codec_PackageIdentity F)
             \<lparr>pi_target = ''sensor'', pi_version = ''1.2.3'', pi_commit = ''0123456789abcdef''\<rparr>)"

definition subsec_nanosecond :: "Timestamp \<Rightarrow> int" where
  "subsec_nanosecond t = (let n = sint (as_nanosecond t) in if 0 \<le> n then n mod 1000000000 else - ((- n) mod 1000000000))"

definition test_bootstrap_material_subsecond_precision_survives :: "format \<Rightarrow> bool" where
  "test_bootstrap_material_subsecond_precision_survives F \<longleftrightarrow>
     (case roundtrip (codec_BootstrapMaterial F) bootstrap_material of
        None \<Rightarrow> False
      | Some decoded \<Rightarrow> decoded = bootstrap_material
          \<and> as_nanosecond (bm_expires_at decoded) = as_nanosecond (bm_expires_at bootstrap_material)
          \<and> subsec_nanosecond (bm_expires_at decoded) = 123456789)"

definition test_bootstrap_material_artifact_survives_byte_identical :: "format \<Rightarrow> bool" where
  "test_bootstrap_material_artifact_survives_byte_identical F \<longleftrightarrow>
     (case roundtrip (codec_BootstrapMaterial F) bootstrap_material of
        None \<Rightarrow> False
      | Some decoded \<Rightarrow> bm_bootstrap_artifact decoded = bootstrap_artifact
          \<and> encode (codec_BootstrapMaterial F) decoded = encode (codec_BootstrapMaterial F) bootstrap_material)"

definition test_bootstrap_material_without_artifact_is_refused :: "format \<Rightarrow> bool" where
  "test_bootstrap_material_without_artifact_is_refused F \<longleftrightarrow>
     (let material = bootstrap_material; bytes_of = list_codec (fm_len F) (plain (fm_u8 F));
          without_artifact = concat
            [encode (codec_str F) (bm_role_id material),
             encode (codec_str F) (bm_wrapped_secret_id material),
             encode bytes_of (bm_ca_anchor material),
             encode (plain (fm_i128 F)) (as_nanosecond (bm_expires_at material))];
          with_artifact = concat [without_artifact, encode bytes_of (bm_bootstrap_artifact material)]
      in encode (codec_BootstrapMaterial F) material = with_artifact
         \<and> decode (codec_BootstrapMaterial F) without_artifact = None)"

lemma at_index_ok:
  assumes "fixed_int F"
  shows "encode c x = fst (fm_variant F) n \<Longrightarrow> at_index c x n"
    "encode c x = fst (fm_variant F) n @ rest \<Longrightarrow> at_index c x n"
  using variant_index_ok [OF assms] by (simp_all add: at_index_def)

lemmas index_rules = at_index_def encode_def variant_index_ok wire_layout

lemma preflight_pass [types_passes]:
  assumes "fixed_int F"
  shows "test_serde_roundtrip_install_preflight F" "test_install_preflight_variant_order_is_pinned F"
    "test_node_package_request_variant_order_is_pinned F"
  using fixed_int_parts(1) [OF assms] assms
  by (simp_all add: test_serde_roundtrip_install_preflight_def wire_rules)
    (simp_all add: test_install_preflight_variant_order_is_pinned_def
      test_node_package_request_variant_order_is_pinned_def index_rules install_with_bind_addrs_def
      install_with_config_template_def)

lemma package_states_pass [types_passes]:
  assumes "fixed_int F"
  shows "test_serde_roundtrip_node_package_response F" "test_package_state_field_order_is_pinned F"
    "test_serde_roundtrip_node_package_payload_types F"
  using fixed_int_parts(1) [OF assms] fixture_fits(1) [OF assms]
  by (simp_all add: test_serde_roundtrip_node_package_response_def test_package_state_field_order_is_pinned_def
      test_serde_roundtrip_node_package_payload_types_def package_state_def ingest_address_def encode_def
      Let_def wire_layout wire_rules)

lemma bootstrap_materials_pass [types_passes]:
  assumes "fixed_int F"
  shows "test_bootstrap_material_subsecond_precision_survives F"
    "test_bootstrap_material_artifact_survives_byte_identical F"
    "test_bootstrap_material_without_artifact_is_refused F"
proof -
  note F = fixed_int_parts [OF assms]
  have "roundtrip (codec_BootstrapMaterial F) bootstrap_material = Some bootstrap_material"
    by (intro roundtrip_ok lawful_BootstrapMaterial F fixture_fits assms)
  then show "test_bootstrap_material_subsecond_precision_survives F"
      "test_bootstrap_material_artifact_survives_byte_identical F"
    by (simp_all add: test_bootstrap_material_subsecond_precision_survives_def subsec_nanosecond_def
        test_bootstrap_material_artifact_survives_byte_identical_def)
      (simp_all add: bootstrap_material_def)
  let ?cut = "enc (codec_str F) (bm_role_id bootstrap_material) @ enc (codec_str F) (bm_wrapped_secret_id bootstrap_material)
    @ enc (list_codec (fm_len F) (plain (fm_u8 F))) (bm_ca_anchor bootstrap_material)
    @ enc (codec_timestamp F) (bm_expires_at bootstrap_material)"
  let ?rest = "enc (list_codec (fm_len F) (plain (fm_u8 F))) (bm_bootstrap_artifact bootstrap_material)"
  have "length ?rest \<noteq> 0" using F(5) by (simp add: list_codec_sel)
  then have "dec (codec_BootstrapMaterial F) ?cut = None"
    by (intro lawful_truncated [where lost = ?rest, OF lawful_BootstrapMaterial [OF F(1)] fixture_fits(1) [OF assms]])
      (auto simp: wire_layout)
  then show "test_bootstrap_material_without_artifact_is_refused F"
    by (simp add: test_bootstrap_material_without_artifact_is_refused_def encode_def decode_def Let_def
        layout_BootstrapMaterial sized_codec_sel plain_sel)
qed

end
