(* ===== verification/Types_Tests_More.thy ===== *)
theory Types_Tests_More
  imports Types_Tests
begin

text \<open>
  The rest of the tests of \<open>src/src/types.rs\<close>: the apply errors and the trust outcomes, the
  taken ports, the lifecycle byte, the enrollment family, and the types outside the node families.
\<close>

subsection \<open>Apply errors and trust outcomes\<close>

definition sensor_identity :: PackageIdentity where
  "sensor_identity = \<lparr>pi_target = ''sensor'', pi_version = ''1.2.3'', pi_commit = ''0123456789abcdef''\<rparr>"

definition collector_identity :: PackageIdentity where
  "collector_identity = \<lparr>pi_target = ''collector'', pi_version = ''9.8.7'', pi_commit = ''fedcba9876543210''\<rparr>"

definition test_serde_roundtrip_node_package_error :: "format \<Rightarrow> bool" where
  "test_serde_roundtrip_node_package_error F \<longleftrightarrow>
     list_all (survives (codec_NodePackageError F))
       [PkgErr_TargetMismatch sensor_identity collector_identity, PkgErr_MissingBootstrapMaterial,
        PkgErr_BootstrapMaterialExpired, PkgErr_InsufficientDiskSpace ''/var'' 8388608 1048576,
        PkgErr_StaleTrustSet 43, PkgErr_UnsupportedManifestFormat 43 \<lparr>mf_min = 1, mf_max = 3\<rparr>]
     \<and> list_all (\<lambda>err. NodePackageError_active_trust_epoch err = None
           \<and> survives (codec_NodePackageError F) err
           \<and> survives (codec_NodePackageResponse F) (PackageR_Failed err)
           \<and> NodePackageResponse_active_trust_epoch (PackageR_Failed err) = None)
         [PkgErr_ObservationUnavailable, PkgErr_UnmanagedInstancePresent,
          PkgErr_UndeclaredPrivilegeProfile ''Root'' [],
          PkgErr_UndeclaredPrivilegeProfile [] [''root'', ''replay''],
          PkgErr_UnexpectedPrivilegeProfile ''dpdk'', PkgErr_MissingPrivilegeProfile]"

definition pre_existing_apply_errors :: "NodePackageError list" where
  "pre_existing_apply_errors =
     [PkgErr_TargetMismatch sensor_identity collector_identity, PkgErr_MissingBootstrapMaterial,
      PkgErr_BootstrapMaterialExpired, PkgErr_InsufficientDiskSpace ''/var'' 8388608 1048576]"

fun is_stale :: "NodePackageError \<Rightarrow> bool" where
  "is_stale (PkgErr_StaleTrustSet _) \<longleftrightarrow> True"
| "is_stale _ \<longleftrightarrow> False"

fun is_unsupported_format :: "NodePackageError \<Rightarrow> bool" where
  "is_unsupported_format (PkgErr_UnsupportedManifestFormat _ _) \<longleftrightarrow> True"
| "is_unsupported_format _ \<longleftrightarrow> False"

fun failed_with :: "(NodePackageError \<Rightarrow> bool) \<Rightarrow> NodePackageResponse \<Rightarrow> bool" where
  "failed_with P (PackageR_Failed err) \<longleftrightarrow> P err"
| "failed_with P _ \<longleftrightarrow> False"

fun supported_of :: "NodePackageResponse \<Rightarrow> ManifestFormatRange option" where
  "supported_of (PackageR_Failed (PkgErr_UnsupportedManifestFormat _ supported)) = Some supported"
| "supported_of _ = None"

definition test_serde_roundtrip_trust_outcomes :: "format \<Rightarrow> bool" where
  "test_serde_roundtrip_trust_outcomes F \<longleftrightarrow>
     (let c = codec_NodePackageResponse F;
          stale = PackageR_Failed (PkgErr_StaleTrustSet 42);
          unsupported = PackageR_Failed (PkgErr_UnsupportedManifestFormat 42 \<lparr>mf_min = 1, mf_max = 3\<rparr>)
      in survives c (PackageR_TrustActive 43)
         \<and> (case (roundtrip c stale, roundtrip c unsupported) of
              (Some decoded_stale, Some decoded_unsupported) \<Rightarrow>
                stale = decoded_stale \<and> unsupported = decoded_unsupported
                \<and> map_option mf_min (supported_of decoded_unsupported) = Some 1
                \<and> map_option mf_max (supported_of decoded_unsupported) = Some 3
                \<and> failed_with is_stale decoded_stale
                \<and> \<not> failed_with is_unsupported_format decoded_stale
                \<and> \<not> failed_with is_stale decoded_unsupported
            | _ \<Rightarrow> False)
         \<and> list_all (\<lambda>err. case roundtrip (codec_NodePackageError F) err of
                None \<Rightarrow> False
              | Some decoded \<Rightarrow> decoded = err \<and> \<not> is_stale decoded \<and> \<not> is_unsupported_format decoded)
            pre_existing_apply_errors)"

definition test_active_trust_epoch_is_read_from_the_outcome_alone :: "format \<Rightarrow> bool" where
  "test_active_trust_epoch_is_read_from_the_outcome_alone F \<longleftrightarrow>
     list_all (\<lambda>resp. map_option NodePackageResponse_active_trust_epoch
           (roundtrip (codec_NodePackageResponse F) resp) = Some (Some 43))
       [PackageR_TrustActive 43, PackageR_Failed (PkgErr_StaleTrustSet 43),
        PackageR_Failed (PkgErr_UnsupportedManifestFormat 43 \<lparr>mf_min = 1, mf_max = 3\<rparr>)]
     \<and> list_all (\<lambda>err. NodePackageError_active_trust_epoch err = Some 43)
         [PkgErr_StaleTrustSet 43, PkgErr_UnsupportedManifestFormat 43 \<lparr>mf_min = 1, mf_max = 3\<rparr>]
     \<and> list_all (\<lambda>resp. NodePackageResponse_active_trust_epoch resp = None)
         ([PackageR_Done, PackageR_Accepted, PackageR_Installed [],
           PackageR_State (package_state Life_Running []), PackageR_HostPorts []]
          @ map PackageR_Failed pre_existing_apply_errors)
     \<and> list_all (\<lambda>err. NodePackageError_active_trust_epoch err = None) pre_existing_apply_errors"

definition test_stale_trust_set_on_equal_epoch_confirms_the_host_is_already_there :: "format \<Rightarrow> bool" where
  "test_stale_trust_set_on_equal_epoch_confirms_the_host_is_already_there F \<longleftrightarrow>
     (let DELIVERED_EPOCH = 43;
          read = (\<lambda>epoch. Option.bind (roundtrip (codec_NodePackageResponse F) (PackageR_Failed (PkgErr_StaleTrustSet epoch)))
            NodePackageResponse_active_trust_epoch)
      in read DELIVERED_EPOCH = Some DELIVERED_EPOCH \<and> read (DELIVERED_EPOCH + 1) = Some (DELIVERED_EPOCH + 1))"

fun mismatch_of :: "NodePackageResponse \<Rightarrow> (PackageIdentity \<times> PackageIdentity) option" where
  "mismatch_of (PackageR_Failed (PkgErr_TargetMismatch expected found)) = Some (expected, found)"
| "mismatch_of _ = None"

fun is_disk_space :: "NodePackageError \<Rightarrow> bool" where
  "is_disk_space (PkgErr_InsufficientDiskSpace _ _ _) \<longleftrightarrow> True"
| "is_disk_space _ \<longleftrightarrow> False"

definition test_node_package_failed_carries_distinguishable_errors :: "format \<Rightarrow> bool" where
  "test_node_package_failed_carries_distinguishable_errors F \<longleftrightarrow>
     (let c = codec_NodePackageResponse F;
          resp = PackageR_Failed (PkgErr_TargetMismatch sensor_identity collector_identity);
          disk = PackageR_Failed (PkgErr_InsufficientDiskSpace ''/var'' 8388608 1048576)
      in (case roundtrip c resp of
            None \<Rightarrow> False
          | Some decoded \<Rightarrow> decoded = resp
              \<and> mismatch_of decoded = Some (sensor_identity, collector_identity)
              \<and> sensor_identity \<noteq> collector_identity)
         \<and> (case roundtrip c disk of
              None \<Rightarrow> False
            | Some decoded_disk \<Rightarrow> failed_with is_disk_space decoded_disk \<and> mismatch_of decoded_disk = None)
         \<and> list_all (\<lambda>err. roundtrip c (PackageR_Failed err) = Some (PackageR_Failed err))
            [PkgErr_MissingBootstrapMaterial, PkgErr_BootstrapMaterialExpired])"

definition test_node_package_response_variant_order_is_pinned :: "format \<Rightarrow> bool" where
  "test_node_package_response_variant_order_is_pinned F \<longleftrightarrow>
     (let c = codec_NodePackageResponse F in
      at_index c PackageR_Done 0 \<and> at_index c PackageR_Accepted 1 \<and> at_index c (PackageR_Installed []) 2
      \<and> at_index c (PackageR_State (package_state Life_Running [])) 3
      \<and> at_index c (PackageR_Failed PkgErr_MissingBootstrapMaterial) 4
      \<and> at_index c (PackageR_TrustActive 43) 5 \<and> at_index c (PackageR_HostPorts []) 6)"

definition test_transport_variant_order_is_pinned :: "format \<Rightarrow> bool" where
  "test_transport_variant_order_is_pinned F \<longleftrightarrow>
     at_index (codec_Transport F) Transport_Tcp 0 \<and> at_index (codec_Transport F) Transport_Udp 1"

definition test_host_port_carries_transport_and_port_only :: "format \<Rightarrow> bool" where
  "test_host_port_carries_transport_and_port_only F \<longleftrightarrow>
     (let host_port = \<lparr>hp_transport = Transport_Tcp, hp_port = 8442\<rparr>
      in hp_transport host_port = Transport_Tcp \<and> hp_port host_port = 8442
         \<and> survives (codec_HostPort F) host_port
         \<and> length (encode (codec_HostPort F) host_port) =
             length (encode (pair_codec (codec_Transport F) (plain (fm_u16 F))) (Transport_Tcp, 8442)))"

fun host_ports_of :: "NodePackageResponse \<Rightarrow> HostPort list option" where
  "host_ports_of (PackageR_HostPorts ports) = Some ports"
| "host_ports_of _ = None"

definition test_host_ports_response_roundtrip_keeps_both_transports :: "format \<Rightarrow> bool" where
  "test_host_ports_response_roundtrip_keeps_both_transports F \<longleftrightarrow>
     (let ports = [\<lparr>hp_transport = Transport_Tcp, hp_port = 8442\<rparr>, \<lparr>hp_transport = Transport_Udp, hp_port = 8442\<rparr>,
            \<lparr>hp_transport = Transport_Tcp, hp_port = 38370\<rparr>];
          resp = PackageR_HostPorts ports; c = codec_NodePackageResponse F
      in survives c resp
         \<and> (case Option.bind (roundtrip c resp) host_ports_of of
              None \<Rightarrow> False
            | Some decoded_ports \<Rightarrow> decoded_ports = ports
                \<and> length (filter (\<lambda>p. hp_port p = 8442) decoded_ports) = 2
                \<and> card (set decoded_ports) = length ports)
         \<and> survives c (PackageR_HostPorts []))"

definition test_node_package_error_variant_order_is_pinned :: "format \<Rightarrow> bool" where
  "test_node_package_error_variant_order_is_pinned F \<longleftrightarrow>
     (let c = codec_NodePackageError F in
      at_index c (PkgErr_TargetMismatch sensor_identity sensor_identity) 0
      \<and> at_index c PkgErr_MissingBootstrapMaterial 1 \<and> at_index c PkgErr_BootstrapMaterialExpired 2
      \<and> at_index c (PkgErr_InsufficientDiskSpace ''/var'' 8388608 1048576) 3
      \<and> at_index c (PkgErr_StaleTrustSet 43) 4
      \<and> at_index c (PkgErr_UnsupportedManifestFormat 43 \<lparr>mf_min = 1, mf_max = 3\<rparr>) 5
      \<and> at_index c PkgErr_ObservationUnavailable 6 \<and> at_index c PkgErr_UnmanagedInstancePresent 7
      \<and> at_index c (PkgErr_UndeclaredPrivilegeProfile ''dpdk'' [''root'', ''replay'']) 8
      \<and> at_index c (PkgErr_UnexpectedPrivilegeProfile ''dpdk'') 9
      \<and> at_index c PkgErr_MissingPrivilegeProfile 10)"

definition test_lifecycle_encodes_discriminant_and_tolerates_unknown :: "format \<Rightarrow> bool" where
  "test_lifecycle_encodes_discriminant_and_tolerates_unknown F \<longleftrightarrow>
     list_all (\<lambda>(lifecycle, discriminant).
         encode (codec_Lifecycle F) lifecycle = [discriminant] \<and> survives (codec_Lifecycle F) lifecycle)
       [(Life_NotInstalled, 0), (Life_Installing, 1), (Life_Running, 2), (Life_Stopped, 3), (Life_Failed, 4),
        (Life_Removing, 5), (Life_Unknown, 255)]
     \<and> decode (codec_Lifecycle F) [200] = Some Life_Unknown
     \<and> (let bytes = encode (codec_PackageState F) (package_state Life_Running []);
             position = length bytes - 10
         in 10 \<le> length bytes \<and> bytes ! position = 2
            \<and> map_option ps_lifecycle (decode (codec_PackageState F) (bytes[position := 200])) = Some Life_Unknown)"

subsection \<open>They hold\<close>

lemmas identity_defs = sensor_identity_def collector_identity_def

lemma apply_errors_pass [types_passes]:
  assumes "fixed_int F"
  shows "test_serde_roundtrip_node_package_error F" "test_serde_roundtrip_trust_outcomes F"
    "test_active_trust_epoch_is_read_from_the_outcome_alone F"
    "test_stale_trust_set_on_equal_epoch_confirms_the_host_is_already_there F"
    "test_node_package_failed_carries_distinguishable_errors F"
  using fixed_int_parts(1) [OF assms]
  by (simp_all add: test_serde_roundtrip_node_package_error_def test_serde_roundtrip_trust_outcomes_def
      test_active_trust_epoch_is_read_from_the_outcome_alone_def pre_existing_apply_errors_def
      test_stale_trust_set_on_equal_epoch_confirms_the_host_is_already_there_def
      test_node_package_failed_carries_distinguishable_errors_def identity_defs Let_def wire_rules)

lemma package_orders_pass [types_passes]:
  assumes "fixed_int F"
  shows "test_node_package_response_variant_order_is_pinned F" "test_transport_variant_order_is_pinned F"
    "test_node_package_error_variant_order_is_pinned F"
  using assms
  by (simp_all add: test_node_package_response_variant_order_is_pinned_def
      test_transport_variant_order_is_pinned_def test_node_package_error_variant_order_is_pinned_def
      Let_def index_rules)

lemma host_ports_pass [types_passes]:
  assumes "fixed_int F"
  shows "test_host_port_carries_transport_and_port_only F"
    "test_host_ports_response_roundtrip_keeps_both_transports F"
  using fixed_int_parts(1) [OF assms]
  by (simp_all add: test_host_port_carries_transport_and_port_only_def encode_def wire_layout wire_rules)
    (simp_all add: test_host_ports_response_roundtrip_keeps_both_transports_def Let_def card_insert_if wire_rules)

lemma lifecycle_passes [types_passes]:
  assumes "fixed_int F"
  shows "test_lifecycle_encodes_discriminant_and_tolerates_unknown F"
proof -
  note F = fixed_int_parts [OF assms]
  have foreign: "Lifecycle_from 200 = Life_Unknown"
    by (simp add: Lifecycle_from_def Lifecycle_table_def from_discriminant_def)
  let ?front = "fst (fm_str F) ''1.2.3'' @ fst (fm_str F) ''0123456789abcdef''"
  let ?rear = "fst (fm_len F) 0 @ fst (fm_option F) False"
  have bytes: "enc (codec_PackageState F) (package_state Life_Running []) = ?front @ [2] @ ?rear"
    using F(3) by (simp add: package_state_def wire_layout codec_simps)
  have rear: "length ?rear = 9" using F(5,6) by simp
  have patched: "(?front @ [2] @ ?rear)[length (?front @ [2] @ ?rear) - 10 := 200] = ?front @ [200] @ ?rear"
    using rear by (simp add: list_update_append)
  have "dec (codec_PackageState F) (?front @ [200] @ ?rear) =
      Some ((package_state Life_Running [])\<lparr>ps_lifecycle := Life_Unknown\<rparr>, [])"
    using PackageState_reads [OF F(1), of "package_state Life_Running []" 200 "[]"] F(3) fixture_fits(2) [OF assms]
    by (simp add: package_state_def codec_simps foreign)
  moreover have "dec (codec_Lifecycle F) [200] = Some (Life_Unknown, [])"
    using Lifecycle_reads [OF F(1), of 200 "[]"] F(3) by (simp add: foreign)
  ultimately show ?thesis
    using F(1,3) rear patched
    by (simp add: test_lifecycle_encodes_discriminant_and_tolerates_unknown_def encode_def decode_def Let_def bytes
        nth_append wire_layout wire_rules package_state_def)
qed

subsection \<open>Enrollment\<close>

definition service_spec :: "CertGroup option \<Rightarrow> ServiceSpec" where
  "service_spec cert_group =
     \<lparr>svc_component = ''sensor'', svc_service_name = ''sensor'', svc_reload = ReloadHook ''reload-sensor'',
      svc_cert_group = cert_group\<rparr>"

definition register :: "u32 option \<Rightarrow> DeliveryMode \<Rightarrow> Duration \<Rightarrow> NodeEnrollRequest" where
  "register inst delivery_mode wrap_ttl = Enroll_Register
     \<lparr>rg_service_name = ''sensor'', rg_delivery_mode = delivery_mode, rg_host = ''host01'',
      rg_instance = inst, rg_spec = service_spec (Some (CertGroup ''internal'')), rg_wrap_ttl = wrap_ttl,
      rg_idempotency_key = ''b6f0''\<rparr>"

definition every_enroll_error :: "NodeEnrollError list" where
  "every_enroll_error =
     [EnrollErr_ServiceSpecConflict, EnrollErr_ServiceNameCollision, EnrollErr_ServiceInstanceMismatch,
      EnrollErr_ServiceHostMismatch, EnrollErr_RegistrarUnavailable Reason_CredentialInvalid,
      EnrollErr_RegistrarBusy (Duration_from_secs 30), EnrollErr_ServiceLabelInvalid]"

definition every_unavailable_reason :: "RegistrarUnavailableReason list" where
  "every_unavailable_reason =
     [Reason_CredentialInvalid, Reason_NotProvisioned, Reason_AuditUnwritable, Reason_EndpointUnreachable,
      Reason_PostMintUnrecordable, Reason_RegistrarUnreachable]"

text \<open>The fields of a decoded \<open>Register\<close>; \<open>None\<close> is the panic on another request.\<close>

fun register_of :: "NodeEnrollRequest \<Rightarrow> RegisterFields option" where
  "register_of (Enroll_Register fs) = Some fs"
| "register_of _ = None"

definition test_serde_roundtrip_node_enroll_request :: "format \<Rightarrow> bool" where
  "test_serde_roundtrip_node_enroll_request F \<longleftrightarrow>
     list_all (\<lambda>inst.
       list_all (\<lambda>delivery_mode.
           let wrap_ttl = Duration_from_millis 90500; req = register inst delivery_mode wrap_ttl;
               decoded = roundtrip (codec_NodeEnrollRequest F) req
           in decoded = Some req
              \<and> map_option rg_wrap_ttl (Option.bind decoded register_of) = Some wrap_ttl
              \<and> map_option rg_instance (Option.bind decoded register_of) = Some inst)
         [Delivery_LocalFile, Delivery_RemoteBootstrap]
       \<and> survives (codec_NodeEnrollRequest F) (Enroll_Deregister ''sensor'' ''host01'' inst ''b6f0''))
     [None, Some 7]"

definition two_names :: NodeEnrollRequest where
  "two_names = Enroll_Register
     \<lparr>rg_service_name = ''sensor'', rg_delivery_mode = Delivery_RemoteBootstrap, rg_host = ''host01'',
      rg_instance = Some 1,
      rg_spec = \<lparr>svc_component = ''sensor-pkg'', svc_service_name = ''collector'',
        svc_reload = ReloadHook ''reload-sensor'', svc_cert_group = None\<rparr>,
      rg_wrap_ttl = Duration_from_secs 600, rg_idempotency_key = ''b6f0''\<rparr>"

definition test_node_enroll_register_keeps_both_service_names :: "format \<Rightarrow> bool" where
  "test_node_enroll_register_keeps_both_service_names F \<longleftrightarrow>
     (let decoded = roundtrip (codec_NodeEnrollRequest F) two_names
      in decoded = Some two_names
         \<and> (case Option.bind decoded register_of of
              None \<Rightarrow> False
            | Some fs \<Rightarrow> rg_service_name fs = ''sensor'' \<and> svc_service_name (rg_spec fs) = ''collector''
                \<and> rg_service_name fs \<noteq> svc_service_name (rg_spec fs)))"

definition test_serde_roundtrip_service_spec :: "format \<Rightarrow> bool" where
  "test_serde_roundtrip_service_spec F \<longleftrightarrow>
     list_all (\<lambda>cert_group. survives (codec_ServiceSpec F) (service_spec cert_group))
       [None, Some (CertGroup ''internal'')]"

definition test_reload_hook_and_cert_group_encode_as_bare_strings :: "format \<Rightarrow> bool" where
  "test_reload_hook_and_cert_group_encode_as_bare_strings F \<longleftrightarrow>
     survives (codec_ReloadHook F) (ReloadHook ''reload-sensor'')
     \<and> encode (codec_ReloadHook F) (ReloadHook ''reload-sensor'') = encode (codec_str F) ''reload-sensor''
     \<and> survives (codec_CertGroup F) (CertGroup ''internal'')
     \<and> encode (codec_CertGroup F) (CertGroup ''internal'') = encode (codec_str F) ''internal''"

fun enroll_failure_of :: "NodeEnrollResponse \<Rightarrow> NodeEnrollError option" where
  "enroll_failure_of (EnrollR_Failed err) = Some err"
| "enroll_failure_of _ = None"

fun reason_of :: "NodeEnrollError \<Rightarrow> RegistrarUnavailableReason option" where
  "reason_of (EnrollErr_RegistrarUnavailable reason) = Some reason"
| "reason_of _ = None"

fun busy_of :: "NodeEnrollError \<Rightarrow> Duration option" where
  "busy_of (EnrollErr_RegistrarBusy retry_after) = Some retry_after"
| "busy_of _ = None"

definition test_serde_roundtrip_node_enroll_response :: "format \<Rightarrow> bool" where
  "test_serde_roundtrip_node_enroll_response F \<longleftrightarrow>
     (let c = codec_NodeEnrollResponse F;
          unavailable = EnrollErr_RegistrarUnavailable Reason_PostMintUnrecordable;
          busy = EnrollErr_RegistrarBusy (Duration_from_millis 2500)
      in survives c (EnrollR_Material bootstrap_material) \<and> survives c EnrollR_Done
         \<and> list_all (\<lambda>err. let decoded = roundtrip c (EnrollR_Failed err)
              in decoded = Some (EnrollR_Failed err) \<and> Option.bind decoded enroll_failure_of \<noteq> None)
            [unavailable, busy]
         \<and> Option.bind (Option.bind (roundtrip c (EnrollR_Failed unavailable)) enroll_failure_of) reason_of
             = Some Reason_PostMintUnrecordable
         \<and> Option.bind (Option.bind (roundtrip c (EnrollR_Failed busy)) enroll_failure_of) busy_of
             = Some (Duration_from_millis 2500))"

text \<open>2026-01-02T03:00:00Z, an hour later, and the ten minutes the registrar granted.\<close>

definition requested_at :: Timestamp where "requested_at = Timestamp 1767322800000000000"

definition granted :: Timestamp where "granted = Timestamp 1767323400000000000"

definition timestamp_less :: "Timestamp \<Rightarrow> Timestamp \<Rightarrow> bool" where
  "timestamp_less a b \<longleftrightarrow> sint (as_nanosecond a) < sint (as_nanosecond b)"

fun material_of :: "NodeEnrollResponse \<Rightarrow> BootstrapMaterial option" where
  "material_of (EnrollR_Material material) = Some material"
| "material_of _ = None"

definition test_node_enroll_material_carries_the_granted_deadline :: "format \<Rightarrow> bool" where
  "test_node_enroll_material_carries_the_granted_deadline F \<longleftrightarrow>
     (let WRAP_TTL = Duration_from_secs 3600;
          requested_deadline = Timestamp (as_nanosecond requested_at + ucast (secs WRAP_TTL) * 1000000000);
          resp = EnrollR_Material (bootstrap_material\<lparr>bm_expires_at := granted\<rparr>);
          decoded = roundtrip (codec_NodeEnrollResponse F) resp
      in timestamp_less granted requested_deadline
         \<and> decoded = Some resp
         \<and> (case Option.bind decoded material_of of
              None \<Rightarrow> False
            | Some material \<Rightarrow> bm_expires_at material = granted
                \<and> timestamp_less (bm_expires_at material) requested_deadline))"

definition test_serde_roundtrip_node_enroll_error :: "format \<Rightarrow> bool" where
  "test_serde_roundtrip_node_enroll_error F \<longleftrightarrow>
     list_all (\<lambda>err. case roundtrip (codec_NodeEnrollError F) err of
         None \<Rightarrow> False
       | Some decoded \<Rightarrow> decoded = err
           \<and> list_all (\<lambda>other. (decoded = other) = (err = other)) every_enroll_error)
       every_enroll_error
     \<and> list_all (\<lambda>reason. survives (codec_NodeEnrollError F) (EnrollErr_RegistrarUnavailable reason))
         every_unavailable_reason
     \<and> survives (codec_NodeEnrollError F) (EnrollErr_RegistrarBusy (Duration_from_millis 1250))"

definition test_node_enroll_retry_after_is_registrar_busy_alone :: "format \<Rightarrow> bool" where
  "test_node_enroll_retry_after_is_registrar_busy_alone F \<longleftrightarrow>
     list_all (\<lambda>err. let expected = busy_of err
         in NodeEnrollError_retry_after err = expected
            \<and> map_option NodeEnrollError_retry_after (roundtrip (codec_NodeEnrollError F) err) = Some expected
            \<and> NodeEnrollResponse_retry_after (EnrollR_Failed err) = expected)
       every_enroll_error
     \<and> NodeEnrollError_retry_after (EnrollErr_RegistrarBusy (Duration_from_millis 4500))
         = Some (Duration_from_millis 4500)
     \<and> list_all (\<lambda>reason. NodeEnrollError_retry_after (EnrollErr_RegistrarUnavailable reason) = None)
         every_unavailable_reason
     \<and> NodeEnrollResponse_retry_after EnrollR_Done = None
     \<and> NodeEnrollResponse_retry_after (EnrollR_Material bootstrap_material) = None"

definition test_node_enroll_teardown_is_owed_only_after_a_mint :: "format \<Rightarrow> bool" where
  "test_node_enroll_teardown_is_owed_only_after_a_mint F \<longleftrightarrow>
     list_all (\<lambda>err. \<not> NodeEnrollError_leaves_teardown_owed err
         \<and> \<not> NodeEnrollResponse_leaves_teardown_owed (EnrollR_Failed err)) every_enroll_error
     \<and> list_all (\<lambda>reason.
         let err = EnrollErr_RegistrarUnavailable reason; owed = (reason = Reason_PostMintUnrecordable)
         in NodeEnrollError_leaves_teardown_owed err = owed
            \<and> map_option NodeEnrollError_leaves_teardown_owed (roundtrip (codec_NodeEnrollError F) err) = Some owed
            \<and> NodeEnrollResponse_leaves_teardown_owed (EnrollR_Failed err) = owed)
       every_unavailable_reason
     \<and> \<not> NodeEnrollError_leaves_teardown_owed EnrollErr_ServiceLabelInvalid
     \<and> \<not> NodeEnrollResponse_leaves_teardown_owed EnrollR_Done
     \<and> \<not> NodeEnrollResponse_leaves_teardown_owed (EnrollR_Material bootstrap_material)"

definition test_registrar_unavailable_reason_roundtrips_and_rejects_unknown :: "format \<Rightarrow> bool" where
  "test_registrar_unavailable_reason_roundtrips_and_rejects_unknown F \<longleftrightarrow>
     list_all (survives (codec_RegistrarUnavailableReason F)) every_unavailable_reason
     \<and> decode (codec_RegistrarUnavailableReason F) (le_bytes 4 6) = None"

definition test_node_enroll_error_variant_order_is_pinned :: "format \<Rightarrow> bool" where
  "test_node_enroll_error_variant_order_is_pinned F \<longleftrightarrow>
     list_all (\<lambda>(position, err). at_index (codec_NodeEnrollError F) err (of_nat position))
       (enumerate 0 every_enroll_error)
     \<and> at_index (codec_NodeEnrollError F) EnrollErr_ServiceLabelInvalid 6"

definition test_registrar_unavailable_reason_variant_order_is_pinned :: "format \<Rightarrow> bool" where
  "test_registrar_unavailable_reason_variant_order_is_pinned F \<longleftrightarrow>
     list_all (\<lambda>(position, reason). at_index (codec_RegistrarUnavailableReason F) reason (of_nat position))
       (enumerate 0 every_unavailable_reason)"

definition test_node_enroll_response_variant_order_is_pinned :: "format \<Rightarrow> bool" where
  "test_node_enroll_response_variant_order_is_pinned F \<longleftrightarrow>
     (let c = codec_NodeEnrollResponse F in
      at_index c (EnrollR_Material bootstrap_material) 0 \<and> at_index c EnrollR_Done 1
      \<and> at_index c (EnrollR_Failed EnrollErr_ServiceSpecConflict) 2)"

definition test_registrar_unreachable_is_constructed_without_a_response :: bool where
  "test_registrar_unreachable_is_constructed_without_a_response \<longleftrightarrow>
     (let err = EnrollErr_RegistrarUnavailable Reason_RegistrarUnreachable
      in reason_of err = Some Reason_RegistrarUnreachable
         \<and> NodeEnrollError_retry_after err = None \<and> \<not> NodeEnrollError_leaves_teardown_owed err)"

lemmas enroll_fixtures =
  service_spec_def register_def every_enroll_error_def every_unavailable_reason_def two_names_def
  Duration_from_secs_def Duration_from_millis_def

lemma enroll_requests_pass [types_passes]:
  assumes "fixed_int F"
  shows "test_serde_roundtrip_node_enroll_request F" "test_node_enroll_register_keeps_both_service_names F"
    "test_serde_roundtrip_service_spec F" "test_reload_hook_and_cert_group_encode_as_bare_strings F"
  using fixed_int_parts(1) [OF assms]
  by (simp_all add: test_serde_roundtrip_node_enroll_request_def test_serde_roundtrip_service_spec_def
      test_node_enroll_register_keeps_both_service_names_def
      test_reload_hook_and_cert_group_encode_as_bare_strings_def encode_def wire_layout enroll_fixtures
      Let_def wire_rules)

lemma enroll_answers_pass [types_passes]:
  assumes "fixed_int F"
  shows "test_serde_roundtrip_node_enroll_response F"
    "test_node_enroll_material_carries_the_granted_deadline F"
proof -
  note F = fixed_int_parts [OF assms]
  have kept: "roundtrip (codec_NodeEnrollResponse F) (EnrollR_Material m) = Some (EnrollR_Material m)"
      "survives (codec_NodeEnrollResponse F) (EnrollR_Material m)" if "fits (codec_BootstrapMaterial F) m" for m
    using that F(1) by (simp_all add: roundtrip_ok survives_ok lawful_NodeEnrollResponse fits_NodeEnrollResponse)
  show "test_serde_roundtrip_node_enroll_response F"
    using F(1) kept(2) [OF fixture_fits(1) [OF assms]]
    by (simp add: test_serde_roundtrip_node_enroll_response_def enroll_fixtures Let_def wire_rules)
  have "fits (codec_BootstrapMaterial F) (bootstrap_material\<lparr>bm_expires_at := granted\<rparr>)"
    using fixture_fits(1) [OF assms] F(8) [of granted] by (simp add: fits_BootstrapMaterial granted_def codec_simps)
  from kept(1) [OF this] show "test_node_enroll_material_carries_the_granted_deadline F"
    by (simp add: test_node_enroll_material_carries_the_granted_deadline_def Let_def timestamp_less_def
        granted_def requested_at_def Duration_from_secs_def)
qed

lemma enroll_errors_pass [types_passes]:
  assumes "fixed_int F"
  shows "test_serde_roundtrip_node_enroll_error F" "test_node_enroll_retry_after_is_registrar_busy_alone F"
    "test_node_enroll_teardown_is_owed_only_after_a_mint F"
    "test_registrar_unreachable_is_constructed_without_a_response"
  using fixed_int_parts(1) [OF assms]
  by (simp_all add: test_serde_roundtrip_node_enroll_error_def
      test_node_enroll_retry_after_is_registrar_busy_alone_def
      test_node_enroll_teardown_is_owed_only_after_a_mint_def
      test_registrar_unreachable_is_constructed_without_a_response_def enroll_fixtures Let_def wire_rules)

lemma enroll_orders_pass [types_passes]:
  assumes "fixed_int F"
  shows "test_node_enroll_error_variant_order_is_pinned F"
    "test_registrar_unavailable_reason_variant_order_is_pinned F"
    "test_node_enroll_response_variant_order_is_pinned F"
  using assms
  by (simp_all add: test_node_enroll_error_variant_order_is_pinned_def
      test_registrar_unavailable_reason_variant_order_is_pinned_def
      test_node_enroll_response_variant_order_is_pinned_def every_enroll_error_def every_unavailable_reason_def
      Let_def index_rules)

lemma reason_rejects_unknown_passes [types_passes]:
  assumes "fixed_int F"
  shows "test_registrar_unavailable_reason_roundtrips_and_rejects_unknown F"
proof -
  note F = fixed_int_parts(1) [OF assms]
  have "dec (codec_RegistrarUnavailableReason F) (fst (fm_variant F) 6 @ []) = None"
    unfolding codec_RegistrarUnavailableReason_def
    by (rule enum_foreign [OF lawful_format_parts(1) [OF F]]) simp
  with assms show ?thesis
    using F by (simp add: test_registrar_unavailable_reason_roundtrips_and_rejects_unknown_def
        every_unavailable_reason_def decode_def fixed_int_def wire_rules)
qed

subsection \<open>The types outside the node families\<close>

definition test_event_kind_serialization_round_trip :: "format \<Rightarrow> bool" where
  "test_event_kind_serialization_round_trip F \<longleftrightarrow>
     list_all (survives (codec_EventKind F))
       [DnsCovertChannel, HttpThreat, RdpBruteForce, RepeatedHttpSessions, ExtraThreat,
      TorConnection, DomainGenerationAlgorithm, FtpBruteForce, FtpPlainText, PortScan,
      MultiHostPortScan, NonBrowser, LdapBruteForce, LdapPlainText, ExternalDdos,
      CryptocurrencyMiningPool, BlocklistConn, BlocklistDns, BlocklistDceRpc, BlocklistFtp,
      BlocklistHttp, BlocklistKerberos, BlocklistLdap, BlocklistMqtt, BlocklistNfs,
      BlocklistNtlm, BlocklistRdp, BlocklistSmb, BlocklistSmtp, BlocklistSsh, BlocklistTls,
      WindowsThreat, NetworkThreat, LockyRansomware, SuspiciousTlsTraffic, BlocklistBootp,
      BlocklistDhcp, TorConnectionConn, BlocklistRadius, BlocklistMalformedDns,
      UnusualDestinationPattern]"

text \<open>The time of the test is the clock's.\<close>

definition test_event_message_with_blocklist_radius_serialization :: "format \<Rightarrow> Timestamp \<Rightarrow> bool" where
  "test_event_message_with_blocklist_radius_serialization F now \<longleftrightarrow>
     (let event = \<lparr>em_time = now, em_kind = BlocklistRadius, em_fields = [1, 2, 3, 4, 5]\<rparr>
      in case roundtrip (codec_EventMessage F) event of
           None \<Rightarrow> False
         | Some deserialized \<Rightarrow> em_kind event = em_kind deserialized \<and> em_fields event = em_fields deserialized)"

definition test_threat_level_serialization_round_trip :: "format \<Rightarrow> bool" where
  "test_threat_level_serialization_round_trip F \<longleftrightarrow>
     list_all (survives (codec_ThreatLevel F)) [VeryLow, Low, Medium, High, VeryHigh]"

definition count_level :: "(ThreatLevel \<rightharpoonup> nat) \<Rightarrow> ThreatLevel \<Rightarrow> (ThreatLevel \<rightharpoonup> nat)" where
  "count_level counts level = counts(level \<mapsto> (case counts level of None \<Rightarrow> 0 | Some n \<Rightarrow> n) + 1)"

definition test_threat_level_as_hash_key :: bool where
  "test_threat_level_as_hash_key \<longleftrightarrow>
     (let counts = foldl count_level Map.empty [Low, High, Low, Medium, High, High]
      in counts Low = Some 2 \<and> counts High = Some 3 \<and> counts Medium = Some 1 \<and> counts VeryLow = None)"

definition test_manifest_format_range_contains_both_ends :: bool where
  "test_manifest_format_range_contains_both_ends \<longleftrightarrow>
     (let range = \<lparr>mf_min = 2, mf_max = 4\<rparr>; single = \<lparr>mf_min = 1, mf_max = 1\<rparr>
      in \<not> ManifestFormatRange_contains range 1 \<and> ManifestFormatRange_contains range 2
         \<and> ManifestFormatRange_contains range 3 \<and> ManifestFormatRange_contains range 4
         \<and> \<not> ManifestFormatRange_contains range 5 \<and> ManifestFormatRange_contains single 1
         \<and> \<not> ManifestFormatRange_contains single 0 \<and> \<not> ManifestFormatRange_contains single 2)"

text \<open>These run under the standard configuration; any lawful format will do.\<close>

definition test_manifest_format_range_round_trip :: "format \<Rightarrow> bool" where
  "test_manifest_format_range_round_trip F \<longleftrightarrow>
     (let range = \<lparr>mf_min = 1, mf_max = 3\<rparr>; encoded = encode (codec_ManifestFormatRange F) range
      in case dec (codec_ManifestFormatRange F) encoded of
           None \<Rightarrow> False
         | Some (decoded, rest) \<Rightarrow> decoded = range \<and> length encoded - length rest = length encoded)"

definition test_provisioning_fingerprint_round_trip :: "format \<Rightarrow> bool" where
  "test_provisioning_fingerprint_round_trip F \<longleftrightarrow>
     (let empty = \<lparr>pf_components = Map.empty, pf_domain = []\<rparr>;
          multi = \<lparr>pf_components = [''review'' \<mapsto> ''sha256:aaa'', ''roxyd'' \<mapsto> ''sha256:bbb''],
            pf_domain = ''example.test''\<rparr>
      in roundtrip (codec_ProvisioningFingerprint F) empty = Some empty
         \<and> map_option (\<lambda>d. dom (pf_components d)) (roundtrip (codec_ProvisioningFingerprint F) empty) = Some {}
         \<and> roundtrip (codec_ProvisioningFingerprint F) multi = Some multi)"

definition AuditHealth_default :: AuditHealth where
  "AuditHealth_default = \<lparr>ah_below_low_water = False, ah_intent_without_outcome = 0\<rparr>"

definition test_audit_health_round_trip :: "format \<Rightarrow> bool" where
  "test_audit_health_round_trip F \<longleftrightarrow>
     survives (codec_AuditHealth F) \<lparr>ah_below_low_water = True, ah_intent_without_outcome = 7\<rparr>
     \<and> ah_intent_without_outcome AuditHealth_default = 0 \<and> \<not> ah_below_low_water AuditHealth_default"

lemma crate_types_pass [types_passes]:
  assumes "lawful_format F"
  shows "test_event_kind_serialization_round_trip F" "test_threat_level_serialization_round_trip F"
    "test_manifest_format_range_round_trip F" "test_provisioning_fingerprint_round_trip F"
    "test_audit_health_round_trip F"
  using assms lawful_format_parts(22) [OF assms]
  by (simp_all add: test_event_kind_serialization_round_trip_def test_threat_level_serialization_round_trip_def
      test_manifest_format_range_round_trip_def test_provisioning_fingerprint_round_trip_def
      test_audit_health_round_trip_def AuditHealth_default_def encode_def Let_def lawful_reads_all wire_rules)

lemma crate_values_pass [types_passes]:
  "test_threat_level_as_hash_key" "test_manifest_format_range_contains_both_ends"
  by (simp_all add: test_threat_level_as_hash_key_def count_level_def
      test_manifest_format_range_contains_both_ends_def ManifestFormatRange_contains_def word_le_nat_alt)

lemma event_message_passes [types_passes]:
  "lawful_format F \<Longrightarrow> fm_valid_timestamp F now \<Longrightarrow> test_event_message_with_blocklist_radius_serialization F now"
  by (simp add: test_event_message_with_blocklist_radius_serialization_def wire_rules)

end
