(* ===== verification/Wire_Agent_Info.thy ===== *)
theory Wire_Agent_Info
  imports Wire_Layout Agent_Info
begin

text \<open>
  \<open>AgentInfo\<close> on the wire (\<open>src/src/lib.rs\<close>). Its derived \<open>Serialize\<close> and
  \<open>Deserialize\<close>, the type the manager decodes the base with, and the decoders and encoders the
  conditional tail is read and written with, all from the codecs of their types: that a tail can
  be cut at any field boundary, that a tail cut anywhere else is an error naming the field, and
  that the derived \<open>Deserialize\<close> demands the whole of it follow from the laws of the format.
\<close>

subsection \<open>The types\<close>

definition codec_AgentInfoBase :: "format \<Rightarrow> AgentInfoBase codec" where [codec_defs]:
  "codec_AgentInfoBase F = struct_codec
     (\<lambda>(n, v, p, a, s). \<lparr>ab_agent_name = n, ab_agent_version = v, ab_protocol_version = p, ab_addr = a, ab_status = s\<rparr>)
     (\<lambda>b. (ab_agent_name b, ab_agent_version b, ab_protocol_version b, ab_addr b, ab_status b))
     (pair_codec (codec_str F) (pair_codec (codec_str F) (pair_codec (codec_str F)
       (pair_codec (codec_socket F) (codec_Status F)))))"

definition codec_capabilities :: "format \<Rightarrow> string set codec" where
  "codec_capabilities F = set_codec (fm_len F) (fm_order_str F) (codec_str F)"

definition codec_AgentInfo :: "format \<Rightarrow> AgentInfo codec" where [codec_defs]:
  "codec_AgentInfo F = struct_codec
     (\<lambda>(n, v, p, a, s, c, e, m, f, h).
        \<lparr>ai_agent_name = n, ai_agent_version = v, ai_protocol_version = p, ai_addr = a, ai_status = s,
         ai_capabilities = c, ai_active_trust_epoch = e, ai_manifest_formats = m,
         ai_provisioning_fingerprint = f, ai_audit_health = h\<rparr>)
     (\<lambda>i. (ai_agent_name i, ai_agent_version i, ai_protocol_version i, ai_addr i, ai_status i,
        ai_capabilities i, ai_active_trust_epoch i, ai_manifest_formats i,
        ai_provisioning_fingerprint i, ai_audit_health i))
     (pair_codec (codec_str F) (pair_codec (codec_str F) (pair_codec (codec_str F)
       (pair_codec (codec_socket F) (pair_codec (codec_Status F)
       (pair_codec (codec_capabilities F)
       (pair_codec (option_codec (fm_option F) (plain (fm_u64 F)))
       (pair_codec (option_codec (fm_option F) (codec_ManifestFormatRange F))
       (pair_codec (option_codec (fm_option F) (codec_ProvisioningFingerprint F))
         (option_codec (fm_option F) (codec_AuditHealth F)))))))))))"

lemma lawful_AgentInfo [lawful_rules]:
  assumes "lawful_format F"
  shows "lawful (codec_AgentInfoBase F)" "lawful (codec_capabilities F)" "lawful (codec_AgentInfo F)"
  unfolding codec_AgentInfoBase_def codec_capabilities_def codec_AgentInfo_def
  by (intro lawful_rules assms; simp)+

text \<open>\<open>borrow_decode_from_slice\<close> reports how many bytes the value took.\<close>

definition consumed :: "'e \<Rightarrow> 'a codec \<Rightarrow> ('e, 'a) decoder" where
  "consumed e c b = (case dec c b of None \<Rightarrow> Err e | Some (a, rest) \<Rightarrow> Ok (a, length b - length rest))"

definition wire_decoder :: "format \<Rightarrow> 'e \<Rightarrow> 'e agent_info_decoder" where
  "wire_decoder F e =
     \<lparr>dec_base = consumed e (codec_AgentInfoBase F),
      dec_capabilities = consumed e (codec_capabilities F),
      dec_active_trust_epoch = consumed e (option_codec (fm_option F) (plain (fm_u64 F))),
      dec_manifest_formats = consumed e (option_codec (fm_option F) (codec_ManifestFormatRange F)),
      dec_provisioning_fingerprint = consumed e (option_codec (fm_option F) (codec_ProvisioningFingerprint F)),
      dec_audit_health = consumed e (option_codec (fm_option F) (codec_AuditHealth F))\<rparr>"

definition wire_encoder :: "format \<Rightarrow> agent_info_encoder" where
  "wire_encoder F =
     \<lparr>enc_base = enc (codec_AgentInfoBase F),
      enc_capabilities = enc (codec_capabilities F),
      enc_active_trust_epoch = enc (option_codec (fm_option F) (plain (fm_u64 F))),
      enc_manifest_formats = enc (option_codec (fm_option F) (codec_ManifestFormatRange F)),
      enc_provisioning_fingerprint = enc (option_codec (fm_option F) (codec_ProvisioningFingerprint F)),
      enc_audit_health = enc (option_codec (fm_option F) (codec_AuditHealth F))\<rparr>"

subsection \<open>The laws of the tail\<close>

lemma consumed_reads: "lawful c \<Longrightarrow> fits c a \<Longrightarrow> decodes_at (consumed e c) (enc c) a"
  by (simp add: decodes_at_def consumed_def lawful_reads)

lemma consumed_cut:
  "lawful c \<Longrightarrow> fits c a \<Longrightarrow> n < length (enc c a) \<Longrightarrow> consumed e c (take n (enc c a)) = Err e"
  using lawful_truncated [of c a "take n (enc c a)" "drop n (enc c a)"] by (simp add: consumed_def)

text \<open>A value with another beside it takes at least a byte.\<close>

lemma lawful_nonempty:
  assumes "lawful c" and "fits c a" and "fits c b" and "a \<noteq> b"
  shows "enc c a \<noteq> []"
  using lawful_prefix_free(1) [OF assms(1-3), of "enc c b"] assms(4) by auto

lemma option_nonempty:
  assumes "lawful (prim_codec (\<lambda>_. True) tag)"
  shows "enc (option_codec tag c) a \<noteq> []"
proof -
  have "fst tag t \<noteq> []" for t using lawful_nonempty [OF assms, of t "\<not> t"] by simp
  then show ?thesis by (cases a) (simp_all add: codec_simps)
qed

lemma set_nonempty:
  assumes "lawful (prim_codec (\<lambda>_. True) len)"
  shows "enc (set_codec len order c) S \<noteq> []"
proof -
  have "fst len n \<noteq> []" for n using lawful_nonempty [OF assms, of n "n + 1"] by simp
  then show ?thesis by (simp add: set_codec_def via_codec_def codec_simps)
qed

lemma fits_AgentInfo:
  "fits (codec_AgentInfo F) i \<longleftrightarrow>
     fits (codec_AgentInfoBase F) (base_of i) \<and> fits (codec_capabilities F) (ai_capabilities i)
     \<and> fits (option_codec (fm_option F) (plain (fm_u64 F))) (ai_active_trust_epoch i)
     \<and> fits (option_codec (fm_option F) (codec_ManifestFormatRange F)) (ai_manifest_formats i)
     \<and> fits (option_codec (fm_option F) (codec_ProvisioningFingerprint F)) (ai_provisioning_fingerprint i)
     \<and> fits (option_codec (fm_option F) (codec_AuditHealth F)) (ai_audit_health i)"
  by (simp add: codec_AgentInfo_def codec_AgentInfoBase_def base_of_def codec_simps)

lemma layout_AgentInfo: "enc (codec_AgentInfo F) i = encode_agent_info (wire_encoder F) 5 i"
  by (simp add: codec_AgentInfo_def codec_AgentInfoBase_def wire_encoder_def encode_agent_info_def
      tail_fields_def base_of_def codec_simps)

lemma wire_agent_info_codec:
  assumes "lawful_format F" and "fits (codec_AgentInfo F) i"
  shows "agent_info_codec (wire_decoder F e) (wire_encoder F) i"
proof -
  note parts = lawful_format_parts(1-3) [OF assms(1)]
  show ?thesis
    unfolding agent_info_codec_def
    using assms(2)
    by (auto simp: option_nonempty [OF parts(2)] set_nonempty [OF parts(3)] fits_AgentInfo wire_decoder_def wire_encoder_def tail_fields_def codec_capabilities_def
        intro!: consumed_reads lawful_rules assms(1))
qed

text \<open>A field of the tail, cut inside, is refused by its decoder.\<close>

lemma wire_tail_rejects:
  assumes "lawful_format F" and "fits (codec_AgentInfo F) i" and "j < 5"
    and "m < length (tail_fields (wire_encoder F) i ! j)"
  shows "tail_rejects (wire_decoder F e) j (take m (tail_fields (wire_encoder F) i ! j)) e"
proof -
  from assms(3) have "j = 0 \<or> j = Suc 0 \<or> j = Suc (Suc 0) \<or> j = Suc (Suc (Suc 0))
      \<or> j = Suc (Suc (Suc (Suc 0)))" by arith
  with assms(2,4) show ?thesis
    by (elim disjE) (auto simp: fits_AgentInfo wire_decoder_def wire_encoder_def tail_fields_def
        intro!: consumed_cut lawful_rules assms(1))
qed

lemma wire_prefix_reads:
  assumes "lawful_format F" and "fits (codec_AgentInfo F) i" and "k \<le> 5" and "k < 5 \<Longrightarrow> extra = []"
  shows "decode_agent_info (wire_decoder F e) (encode_agent_info (wire_encoder F) k i @ extra) = Ok (known_tail k i)"
  using assms(3,4) by (rule tail_prefix_reads [OF wire_agent_info_codec [OF assms(1,2)]])

lemma wire_base_reads:
  assumes "lawful_format F" and "fits (codec_AgentInfo F) i"
  shows "dec_base (wire_decoder F e) (enc (codec_AgentInfo F) i) =
    Ok (base_of i, length (enc (codec_AgentInfoBase F) (base_of i)))"
  using wire_agent_info_codec [OF assms, of e]
  by (simp add: agent_info_codec_def decodes_at_def layout_AgentInfo encode_agent_info_def wire_encoder_def)

lemma wire_base_cut:
  assumes "lawful_format F" and "fits (codec_AgentInfo F) i"
    and "n < length (enc (codec_AgentInfoBase F) (base_of i))"
  shows "decode_agent_info (wire_decoder F e) (take n (enc (codec_AgentInfo F) i)) = Err (Decode_Base e)"
  using consumed_cut [OF lawful_AgentInfo(1) [OF assms(1)] _ assms(3), of e] assms(2,3)
  by (simp add: fits_AgentInfo layout_AgentInfo encode_agent_info_def decode_agent_info_def
      wire_encoder_def wire_decoder_def)

lemma wire_tail_cut:
  assumes "lawful_format F" and "fits (codec_AgentInfo F) i" and "j < 5" and "0 < m"
    and "m < length (tail_fields (wire_encoder F) i ! j)"
  shows "decode_agent_info (wire_decoder F e)
      (encode_agent_info (wire_encoder F) j i @ take m (tail_fields (wire_encoder F) i ! j)) =
    Err (Decode_Tail (tail_names ! j) e)"
proof -
  from assms(4,5) have "take m (tail_fields (wire_encoder F) i ! j) \<noteq> []" by auto
  from tail_corrupt_refused [OF wire_agent_info_codec [OF assms(1,2)] assms(3) this
      wire_tail_rejects [OF assms(1,2,3,5)]]
  show ?thesis .
qed

lemma derived_cut:
  assumes "lawful_format F" and "fits (codec_AgentInfo F) i" and "n < length (enc (codec_AgentInfo F) i)"
  shows "dec (codec_AgentInfo F) (take n (enc (codec_AgentInfo F) i)) = None"
  using lawful_truncated [OF lawful_AgentInfo(3) [OF assms(1)] assms(2),
      of "take n (enc (codec_AgentInfo F) i)" "drop n (enc (codec_AgentInfo F) i)"] assms(3)
  by simp

text \<open>
  C23. The agent information on the wire, for every lawful format: what an agent's derived
  \<open>Serialize\<close> writes is the base and the tail in the contractual order; a manager reads it back
  as it was, and ignores the bytes of fields from the future; from an agent that knows only some
  first fields of the tail it reads those, and nothing advertised for the others; and an older
  manager, which knows the base alone, reads the base of a full frame and stops where it ends.
\<close>

theorem agent_info_over_wire:
  assumes "lawful_format F" and "fits (codec_AgentInfo F) i"
  shows "enc (codec_AgentInfo F) i = encode_agent_info (wire_encoder F) 5 i
    \<and> decode_agent_info (wire_decoder F e) (enc (codec_AgentInfo F) i @ future) = Ok i
    \<and> (k \<le> 5 \<longrightarrow>
        decode_agent_info (wire_decoder F e) (encode_agent_info (wire_encoder F) k i) = Ok (known_tail k i))
    \<and> dec_base (wire_decoder F e) (enc (codec_AgentInfo F) i) =
        Ok (base_of i, length (enc (codec_AgentInfoBase F) (base_of i)))"
proof -
  have "known_tail 5 i = i" by (simp add: known_tail_def)
  then show ?thesis
    using wire_prefix_reads [OF assms, of 5 future] wire_prefix_reads [OF assms, of k "[]"]
      wire_base_reads [OF assms] by (auto simp: layout_AgentInfo)
qed

text \<open>
  C32. An agent's information that arrives cut is never read as one that says less, unless it
  ends where a field ends: cut inside the base it is an error of the base, cut inside a tail
  field an error that names the field. The derived \<open>Deserialize\<close>, which is positional, refuses
  every frame without the whole tail, so a manager that used it would refuse every older agent.
\<close>

theorem cut_agent_info_refused:
  assumes "lawful_format F" and "fits (codec_AgentInfo F) i"
  shows "(n < length (enc (codec_AgentInfoBase F) (base_of i)) \<longrightarrow>
      decode_agent_info (wire_decoder F e) (take n (enc (codec_AgentInfo F) i)) = Err (Decode_Base e))
    \<and> (j < 5 \<and> 0 < m \<and> m < length (tail_fields (wire_encoder F) i ! j) \<longrightarrow>
      decode_agent_info (wire_decoder F e)
        (encode_agent_info (wire_encoder F) j i @ take m (tail_fields (wire_encoder F) i ! j)) =
      Err (Decode_Tail (tail_names ! j) e))
    \<and> (n' < length (enc (codec_AgentInfo F) i) \<longrightarrow>
      dec (codec_AgentInfo F) (take n' (enc (codec_AgentInfo F) i)) = None)"
  by (intro conjI impI; (elim conjE)?; rule wire_base_cut wire_tail_cut derived_cut; (rule assms | assumption))

subsection \<open>An agent under the standard configuration\<close>

lemma sample_fits: "fits (codec_AgentInfo standard_format) sample_info"
proof -
  note orders = lawful_format_parts(22) [OF lawful_standard]
  have "fits (codec_capabilities standard_format) {CAP_NODE_PACKAGE}"
    using orders by (simp add: codec_capabilities_def codec_simps MAX_LEN_def CAP_NODE_PACKAGE_def)
  moreover have "fits (codec_ProvisioningFingerprint standard_format)
      \<lparr>pf_components = Map.empty, pf_domain = ''example''\<rparr>"
    using orders by (simp add: wire_fits codec_simps MAX_LEN_def)
  moreover have "fits (codec_AgentInfoBase standard_format) (base_of sample_info)"
    by (simp add: sample_info_def base_of_def codec_AgentInfoBase_def wire_fits codec_simps MAX_LEN_def)
  ultimately show ?thesis
    by (simp add: fits_AgentInfo, simp add: sample_info_def wire_fits codec_simps)
qed

lemma sample_epoch: "tail_fields (wire_encoder standard_format) sample_info ! 1 = [1, 42]"
  by (simp add: tail_fields_def wire_encoder_def sample_info_def standard_simps)

theorem agent_info_over_wire_witness:
  "decode_agent_info (wire_decoder standard_format ()) (enc (codec_AgentInfo standard_format) sample_info @ [1, 7]) =
     Ok sample_info
   \<and> decode_agent_info (wire_decoder standard_format ())
       (encode_agent_info (wire_encoder standard_format) 2 sample_info) = Ok (known_tail 2 sample_info)"
  using agent_info_over_wire [OF lawful_standard sample_fits, of "()" "[1, 7]" 2] by force

theorem cut_agent_info_refused_witness:
  "decode_agent_info (wire_decoder standard_format ())
     (encode_agent_info (wire_encoder standard_format) 1 sample_info @ [1]) =
   Err (Decode_Tail ''active_trust_epoch'' ())"
  using cut_agent_info_refused [OF lawful_standard sample_fits, of 0 "()" 1 1] sample_epoch
  by (simp add: tail_names_def)

end
