(* ===== verification/Agent_Info_Tests.thy ===== *)
theory Agent_Info_Tests
  imports Wire_Agent_Info Wire_Calls
begin

text \<open>
  The tests of \<open>src/src/lib.rs\<close>, module \<open>agent_info_tail\<close>, and the test of a receiver that
  knows the base alone, over the codecs of the types. What they rely on of
  \<open>bincode::config::standard()\<close> and of \<open>BTreeSet\<close> is \<open>standard_config\<close>: the format is lawful, a
  small length and a tag are a byte, a string is its length and its bytes, and a set iterates in
  ascending order.
\<close>

subsection \<open>The configuration\<close>

definition standard_config :: "format \<Rightarrow> bool" where
  "standard_config F \<longleftrightarrow> lawful_format F \<and> fst (fm_len F) 2 = [2] \<and> fst (fm_option F) True = [1]
     \<and> fst (fm_str F) ''a'' = [1, 97] \<and> fm_order_str F = by_key (map of_char :: string \<Rightarrow> nat list) (map char_of)"

lemma standard_config_standard: "standard_config standard_format"
  by (simp add: standard_config_def lawful_standard standard_simps)
    (simp add: standard_format_def bincode_format_def)

subsection \<open>Fixtures\<close>

definition AGENT_NAME :: string where "AGENT_NAME = ''test-agent''"
definition AGENT_VERSION :: string where "AGENT_VERSION = ''1.0.0''"
definition TEST_PROTOCOL_VERSION :: string where "TEST_PROTOCOL_VERSION = ''0.19.0''"
definition TRUST_EPOCH :: u64 where "TRUST_EPOCH = 42"

text \<open>127.0.0.1:8080.\<close>

definition test_addr :: SocketAddr where "test_addr = SocketAddr_V4 0x7f000001 8080"

definition without_tail :: AgentInfo where
  "without_tail =
     \<lparr>ai_agent_name = AGENT_NAME, ai_agent_version = AGENT_VERSION, ai_protocol_version = TEST_PROTOCOL_VERSION,
      ai_addr = test_addr, ai_status = Status_Ready, ai_capabilities = {}, ai_active_trust_epoch = None,
      ai_manifest_formats = None, ai_provisioning_fingerprint = None, ai_audit_health = None\<rparr>"

definition test_capabilities :: "string set" where
  "test_capabilities = {REGISTRAR, CAP_NODE_PACKAGE}"

definition test_manifest_formats :: ManifestFormatRange where
  "test_manifest_formats = \<lparr>mf_min = 1, mf_max = 2\<rparr>"

definition test_provisioning_fingerprint :: ProvisioningFingerprint where
  "test_provisioning_fingerprint = \<lparr>pf_components = [''roxyd'' \<mapsto> ''sha256:abc''], pf_domain = ''example.test''\<rparr>"

definition test_audit_health :: AuditHealth where
  "test_audit_health = \<lparr>ah_below_low_water = True, ah_intent_without_outcome = 3\<rparr>"

definition with_full_tail :: AgentInfo where
  "with_full_tail = without_tail
     \<lparr>ai_capabilities := test_capabilities, ai_active_trust_epoch := Some TRUST_EPOCH,
      ai_manifest_formats := Some test_manifest_formats,
      ai_provisioning_fingerprint := Some test_provisioning_fingerprint, ai_audit_health := Some test_audit_health\<rparr>"

definition encode_info :: "format \<Rightarrow> AgentInfo \<Rightarrow> bytes" where
  "encode_info F info = enc (codec_AgentInfo F) info"

definition base_bytes :: "format \<Rightarrow> bytes" where
  "base_bytes F =
     (let info = without_tail in
      enc (pair_codec (codec_str F) (pair_codec (codec_str F) (pair_codec (codec_str F)
            (pair_codec (codec_socket F) (codec_Status F)))))
        (ai_agent_name info, ai_agent_version info, ai_protocol_version info, ai_addr info, ai_status info))"

definition tail_bytes :: "format \<Rightarrow> bytes list" where
  "tail_bytes F =
     [enc (codec_capabilities F) test_capabilities,
      enc (option_codec (fm_option F) (plain (fm_u64 F))) (Some TRUST_EPOCH),
      enc (option_codec (fm_option F) (codec_ManifestFormatRange F)) (Some test_manifest_formats),
      enc (option_codec (fm_option F) (codec_ProvisioningFingerprint F)) (Some test_provisioning_fingerprint),
      enc (option_codec (fm_option F) (codec_AuditHealth F)) (Some test_audit_health)]"

definition payload_with_tail_prefix :: "format \<Rightarrow> nat \<Rightarrow> bytes" where
  "payload_with_tail_prefix F field_count = foldl (\<lambda>buf field. buf @ field) (base_bytes F) (take field_count (tail_bytes F))"

abbreviation read_info :: "format \<Rightarrow> bytes \<Rightarrow> unit AgentInfoDecodeError + AgentInfo" where
  "read_info F b \<equiv> decode_agent_info (wire_decoder F ()) b"

subsection \<open>The tests\<close>

definition test_agent_info_encodes_base_then_tail :: "format \<Rightarrow> bool" where
  "test_agent_info_encodes_base_then_tail F \<longleftrightarrow> encode_info F with_full_tail = payload_with_tail_prefix F 5"

definition test_decodes_payload_without_tail :: "format \<Rightarrow> bool" where
  "test_decodes_payload_without_tail F \<longleftrightarrow>
     (case read_info F (base_bytes F) of
        Err _ \<Rightarrow> False
      | Ok info \<Rightarrow> ai_agent_name info = AGENT_NAME \<and> ai_agent_version info = AGENT_VERSION
          \<and> ai_protocol_version info = TEST_PROTOCOL_VERSION \<and> ai_addr info = test_addr
          \<and> ai_capabilities info = {} \<and> ai_active_trust_epoch info = None \<and> ai_manifest_formats info = None
          \<and> ai_provisioning_fingerprint info = None \<and> ai_audit_health info = None)"

definition test_decodes_payload_with_full_tail :: "format \<Rightarrow> bool" where
  "test_decodes_payload_with_full_tail F \<longleftrightarrow> read_info F (encode_info F with_full_tail) = Ok with_full_tail"

definition test_base_only_decoder_ignores_the_tail :: "format \<Rightarrow> bool" where
  "test_base_only_decoder_ignores_the_tail F \<longleftrightarrow>
     (let payload = encode_info F with_full_tail
      in case consumed () (codec_AgentInfoBase F) payload of
           Err _ \<Rightarrow> False
         | Ok (base, used) \<Rightarrow> ab_agent_name base = AGENT_NAME \<and> ab_agent_version base = AGENT_VERSION
             \<and> ab_protocol_version base = TEST_PROTOCOL_VERSION \<and> ab_addr base = test_addr
             \<and> ab_status base = Status_Ready \<and> used = length (base_bytes F) \<and> used < length payload)"

definition test_capabilities_only_decoder_ignores_later_fields :: "format \<Rightarrow> bool" where
  "test_capabilities_only_decoder_ignores_later_fields F \<longleftrightarrow>
     (let payload = payload_with_tail_prefix F 2
      in case decode_tail_field (dec_capabilities (wire_decoder F ())) payload ''capabilities'' (length (base_bytes F)) of
           (decoded, offset) \<Rightarrow> decoded = Ok (Some test_capabilities) \<and> offset < length payload)"

definition test_decodes_every_tail_prefix :: "format \<Rightarrow> bool" where
  "test_decodes_every_tail_prefix F \<longleftrightarrow>
     list_all (\<lambda>field_count. case read_info F (payload_with_tail_prefix F field_count) of
         Err _ \<Rightarrow> False
       | Ok info \<Rightarrow>
           ai_capabilities info = (if field_count \<ge> 1 then test_capabilities else {})
           \<and> ai_active_trust_epoch info = (if field_count \<ge> 2 then Some TRUST_EPOCH else None)
           \<and> ai_manifest_formats info = (if field_count \<ge> 3 then Some test_manifest_formats else None)
           \<and> ai_provisioning_fingerprint info = (if field_count \<ge> 4 then Some test_provisioning_fingerprint else None)
           \<and> ai_audit_health info = (if field_count \<ge> 5 then Some test_audit_health else None)) [0..<6]"

definition interleaved :: AgentInfo where
  "interleaved = without_tail
     \<lparr>ai_capabilities := test_capabilities, ai_active_trust_epoch := None,
      ai_manifest_formats := Some test_manifest_formats, ai_provisioning_fingerprint := None,
      ai_audit_health := Some test_audit_health\<rparr>"

definition test_absent_tail_field_does_not_end_the_tail :: "format \<Rightarrow> bool" where
  "test_absent_tail_field_does_not_end_the_tail F \<longleftrightarrow>
     (let payload = base_bytes F
            @ enc (codec_capabilities F) (ai_capabilities interleaved)
            @ enc (option_codec (fm_option F) (plain (fm_u64 F))) None
            @ enc (option_codec (fm_option F) (codec_ManifestFormatRange F)) (ai_manifest_formats interleaved)
            @ enc (option_codec (fm_option F) (codec_ProvisioningFingerprint F)) None
            @ enc (option_codec (fm_option F) (codec_AuditHealth F)) (ai_audit_health interleaved)
      in encode_info F interleaved = payload \<and> read_info F payload = Ok interleaved)"

definition test_ignores_a_future_tail_field :: "format \<Rightarrow> bool" where
  "test_ignores_a_future_tail_field F \<longleftrightarrow>
     read_info F (payload_with_tail_prefix F 5
       @ enc (option_codec (fm_option F) (codec_str F)) (Some ''a field from the future'')) = Ok with_full_tail"

fun failed_at :: "'e AgentInfoDecodeError + AgentInfo \<Rightarrow> string \<Rightarrow> bool" where
  "failed_at (Err (Decode_Tail field _)) name \<longleftrightarrow> field = name"
| "failed_at _ name \<longleftrightarrow> False"

fun failed_at_base :: "'e AgentInfoDecodeError + AgentInfo \<Rightarrow> bool" where
  "failed_at_base (Err (Decode_Base _)) \<longleftrightarrow> True"
| "failed_at_base _ \<longleftrightarrow> False"

definition test_truncated_tail_fails :: "format \<Rightarrow> bool" where
  "test_truncated_tail_fails F \<longleftrightarrow>
     failed_at (read_info F (base_bytes F @ [2, 1, 97])) ''capabilities''
     \<and> failed_at (read_info F (payload_with_tail_prefix F 1 @ [1])) ''active_trust_epoch''
     \<and> \<not> isl (read_info F (base_bytes F))
     \<and> \<not> isl (read_info F (payload_with_tail_prefix F 1))"

definition test_truncated_base_fails :: "format \<Rightarrow> bool" where
  "test_truncated_base_fails F \<longleftrightarrow>
     failed_at_base (read_info F (take (length (base_bytes F) - 1) (base_bytes F)))"

definition unknown_tags :: AgentInfo where
  "unknown_tags = without_tail\<lparr>ai_capabilities := {''future:thing'', ROLLBACK_SUPERVISOR, COLOCATED_REVIEW}\<rparr>"

definition test_preserves_unknown_capability_tags :: "format \<Rightarrow> bool" where
  "test_preserves_unknown_capability_tags F \<longleftrightarrow>
     (case read_info F (encode_info F unknown_tags) of
        Err _ \<Rightarrow> False
      | Ok decoded \<Rightarrow> ai_capabilities decoded = ai_capabilities unknown_tags
          \<and> ''future:thing'' \<in> ai_capabilities decoded
          \<and> fm_order_str F (ai_capabilities decoded) = [''colocated:review'', ''future:thing'', ''rollback-supervisor''])"

text \<open>
  \<open>oinq::frame::recv\<close> decodes from the front of the frame and drops the count: the receiver
  that knows the base alone, over a channel that delivers the frame. The crate's version stands
  for \<open>CARGO_PKG_VERSION\<close>.
\<close>

definition wire_info :: "string \<Rightarrow> AgentInfo" where
  "wire_info crate_version =
     \<lparr>ai_agent_name = AGENT_NAME, ai_agent_version = AGENT_VERSION, ai_protocol_version = crate_version,
      ai_addr = SocketAddr_V4 0x7f000001 1234, ai_status = Status_Ready, ai_capabilities = {REGISTRAR},
      ai_active_trust_epoch = Some 7, ai_manifest_formats = Some \<lparr>mf_min = 1, mf_max = 2\<rparr>,
      ai_provisioning_fingerprint = Some \<lparr>pf_components = Map.empty, pf_domain = []\<rparr>,
      ai_audit_health = Some \<lparr>ah_below_low_water = False, ah_intent_without_outcome = 0\<rparr>\<rparr>"

definition test_base_only_receiver_ignores_the_tail_over_the_wire :: "format \<Rightarrow> IoError \<Rightarrow> string \<Rightarrow> bool" where
  "test_base_only_receiver_ignores_the_tail_over_the_wire F e crate_version \<longleftrightarrow>
     (case from_front e (codec_AgentInfoBase F) (encode_info F (wire_info crate_version)) of
        Err _ \<Rightarrow> False
      | Ok base \<Rightarrow> ab_agent_name base = AGENT_NAME \<and> ab_agent_version base = AGENT_VERSION
          \<and> ab_protocol_version base = crate_version \<and> ab_addr base = SocketAddr_V4 0x7f000001 1234
          \<and> ab_status base = Status_Ready)"

subsection \<open>They hold\<close>

named_theorems tail_passes \<open>the tests hold\<close>

lemmas tail_fixtures =
  without_tail_def AGENT_NAME_def AGENT_VERSION_def TEST_PROTOCOL_VERSION_def TRUST_EPOCH_def test_addr_def
  test_capabilities_def test_manifest_formats_def test_provisioning_fingerprint_def test_audit_health_def
  REGISTRAR_def CAP_NODE_PACKAGE_def ROLLBACK_SUPERVISOR_def COLOCATED_REVIEW_def

lemma base_bytes_eq: "base_bytes F = enc (codec_AgentInfoBase F) (base_of with_full_tail)"
  by (simp add: base_bytes_def codec_AgentInfoBase_def base_of_def with_full_tail_def without_tail_def codec_simps)

lemma payload_eq: "payload_with_tail_prefix F k = encode_agent_info (wire_encoder F) k with_full_tail"
proof -
  have "foldl (\<lambda>buf field. buf @ field) b fs = b @ concat fs" for b :: bytes and fs
    by (induction fs arbitrary: b) simp_all
  moreover have "tail_bytes F = tail_fields (wire_encoder F) with_full_tail"
    by (simp add: tail_bytes_def tail_fields_def wire_encoder_def with_full_tail_def)
  ultimately show ?thesis
    by (simp add: payload_with_tail_prefix_def encode_agent_info_def base_bytes_eq wire_encoder_def)
qed

lemma test_infos_fit:
  assumes "lawful_format F"
  shows "fits (codec_AgentInfo F) with_full_tail" "fits (codec_AgentInfo F) interleaved"
    "fits (codec_AgentInfo F) unknown_tags"
    "length v \<le> MAX_LEN \<Longrightarrow> fits (codec_AgentInfo F) (wire_info v)"
  using lawful_format_parts(22) [OF assms]
  by (simp_all add: with_full_tail_def interleaved_def unknown_tags_def wire_info_def fits_AgentInfo base_of_def
      codec_AgentInfoBase_def codec_capabilities_def tail_fixtures wire_fits codec_simps MAX_LEN_def card_insert_if)

lemma tail_layout_pass [tail_passes]:
  "test_agent_info_encodes_base_then_tail F"
  by (simp add: test_agent_info_encodes_base_then_tail_def encode_info_def layout_AgentInfo payload_eq)

lemma prefixes_read:
  "lawful_format F \<Longrightarrow> k \<le> 5 \<Longrightarrow> (k < 5 \<Longrightarrow> extra = []) \<Longrightarrow>
     read_info F (payload_with_tail_prefix F k @ extra) = Ok (known_tail k with_full_tail)"
  unfolding payload_eq by (rule wire_prefix_reads [OF _ test_infos_fit(1)])

lemma payload_0: "payload_with_tail_prefix F 0 = base_bytes F"
  by (simp add: payload_with_tail_prefix_def)

lemma full_known: "known_tail 5 i = i"
  by (simp add: known_tail_def)

lemma info_reads:
  assumes "lawful_format F" and "fits (codec_AgentInfo F) i"
  shows "read_info F (enc (codec_AgentInfo F) i) = Ok i"
  using wire_prefix_reads [OF assms, of 5 "[]" "()"] by (simp add: layout_AgentInfo full_known)

lemma prefixes_pass [tail_passes]:
  assumes "lawful_format F"
  shows "test_decodes_payload_without_tail F" "test_decodes_payload_with_full_tail F"
    "test_decodes_every_tail_prefix F" "test_ignores_a_future_tail_field F"
proof -
  have "read_info F (payload_with_tail_prefix F k) = Ok (known_tail k with_full_tail)" if "k \<le> 5" for k
    using prefixes_read [OF assms that, of "[]"] by simp
  moreover from this [of 0] have "read_info F (base_bytes F) = Ok (known_tail 0 with_full_tail)"
    by (simp add: payload_0)
  ultimately show "test_decodes_payload_without_tail F" "test_decodes_every_tail_prefix F"
    by (simp_all add: test_decodes_payload_without_tail_def test_decodes_every_tail_prefix_def list_all_iff
        known_tail_def with_full_tail_def without_tail_def)
  show "test_decodes_payload_with_full_tail F"
    by (simp add: test_decodes_payload_with_full_tail_def encode_info_def info_reads assms test_infos_fit)
  show "test_ignores_a_future_tail_field F"
    using prefixes_read [OF assms, of 5]
    by (simp add: test_ignores_a_future_tail_field_def full_known)
qed

lemma base_only_pass [tail_passes]:
  assumes "lawful_format F"
  shows "test_base_only_decoder_ignores_the_tail F"
proof -
  have "consumed () (codec_AgentInfoBase F) (enc (codec_AgentInfo F) with_full_tail) =
      Ok (base_of with_full_tail, length (base_bytes F))"
    using wire_base_reads [OF assms test_infos_fit(1) [OF assms], of "()"] by (simp add: wire_decoder_def base_bytes_eq)
  moreover have "length (base_bytes F) < length (enc (codec_AgentInfo F) with_full_tail)"
    by (simp add: set_nonempty [OF lawful_format_parts(3) [OF assms]] layout_AgentInfo encode_agent_info_def base_bytes_eq wire_encoder_def tail_fields_def
        codec_capabilities_def)
  ultimately show ?thesis
    by (simp add: test_base_only_decoder_ignores_the_tail_def encode_info_def)
      (simp add: base_of_def with_full_tail_def without_tail_def)
qed

lemma capabilities_only_pass [tail_passes]:
  assumes "lawful_format F"
  shows "test_capabilities_only_decoder_ignores_later_fields F"
proof -
  let ?caps = "enc (codec_capabilities F) test_capabilities"
  let ?epoch = "enc (option_codec (fm_option F) (plain (fm_u64 F))) (Some TRUST_EPOCH)"
  have payload: "payload_with_tail_prefix F 2 = base_bytes F @ ?caps @ ?epoch"
    by (simp add: payload_with_tail_prefix_def tail_bytes_def numeral_2_eq_2)
  have "fits (codec_capabilities F) test_capabilities"
    using test_infos_fit(1) [OF assms] by (simp add: fits_AgentInfo with_full_tail_def)
  from lawful_reads [OF lawful_AgentInfo(2) [OF assms] this]
  have "consumed () (codec_capabilities F) (?caps @ ?epoch) = Ok (test_capabilities, length ?caps)"
    by (simp add: consumed_def)
  moreover have "?caps \<noteq> []" "?epoch \<noteq> []"
    using set_nonempty [OF lawful_format_parts(3) [OF assms]] option_nonempty [OF lawful_format_parts(2) [OF assms]]
    by (simp_all add: codec_capabilities_def)
  ultimately show ?thesis
    by (simp add: test_capabilities_only_decoder_ignores_later_fields_def payload decode_tail_field_def
        wire_decoder_def)
qed

lemma absent_field_pass [tail_passes]:
  assumes "lawful_format F"
  shows "test_absent_tail_field_does_not_end_the_tail F"
proof -
  have "encode_info F interleaved = base_bytes F
      @ enc (codec_capabilities F) (ai_capabilities interleaved)
      @ enc (option_codec (fm_option F) (plain (fm_u64 F))) None
      @ enc (option_codec (fm_option F) (codec_ManifestFormatRange F)) (ai_manifest_formats interleaved)
      @ enc (option_codec (fm_option F) (codec_ProvisioningFingerprint F)) None
      @ enc (option_codec (fm_option F) (codec_AuditHealth F)) (ai_audit_health interleaved)"
    by (simp add: encode_info_def layout_AgentInfo encode_agent_info_def tail_fields_def wire_encoder_def
        base_bytes_eq base_of_def interleaved_def with_full_tail_def without_tail_def)
  with info_reads [OF assms test_infos_fit(2) [OF assms]] show ?thesis
    by (simp add: test_absent_tail_field_does_not_end_the_tail_def encode_info_def)
qed

lemma cut_set_refused:
  assumes "standard_config F"
  shows "consumed () (codec_capabilities F) [2, 1, 97] = Err ()"
proof -
  from assms have F: "lawful_format F" and small: "fst (fm_len F) 2 = [2]" "fst (fm_str F) ''a'' = [1, 97]"
    by (simp_all add: standard_config_def)
  have two: "snd (fm_len F) ([2] @ r) = Some (2, r)" for r
    using lawful_reads [OF lawful_format_parts(3) [OF F], of 2 r] small by simp
  have fit: "fits (codec_str F) ''a''" by (simp add: codec_simps MAX_LEN_def)
  have a: "dec (codec_str F) ([1, 97] @ r) = Some (''a'', r)" for r
    using lawful_reads [OF lawful_format_parts(13) [OF F] fit, of r] small by (simp add: codec_simps)
  have none: "dec (codec_str F) [] = None"
    using lawful_truncated [OF lawful_format_parts(13) [OF F] fit, of "[]" "[1, 97]"] small
    by (simp add: codec_simps)
  have "dec_times (dec (codec_str F)) 2 [1, 97] = None"
    using a [of "[]"] none by (simp add: numeral_2_eq_2)
  then show ?thesis
    using two [of "[1, 97]"]
    by (simp add: consumed_def codec_capabilities_def set_codec_def via_codec_def list_codec_def)
qed

lemma cut_tail_pass [tail_passes]:
  assumes "standard_config F"
  shows "test_truncated_tail_fails F"
proof -
  from assms have F: "lawful_format F" and tag: "fst (fm_option F) True = [1]" by (simp_all add: standard_config_def)
  note fit = test_infos_fit(1) [OF F]
  have "read_info F (encode_agent_info (wire_encoder F) 0 with_full_tail @ [2, 1, 97]) =
      Err (Decode_Tail ''capabilities'' ())"
    using tail_corrupt_refused [OF wire_agent_info_codec [OF F fit], of 0 "[2, 1, 97]" "()" "()"] cut_set_refused [OF assms]
    by (simp add: tail_names_def wire_decoder_def)
  then have first: "read_info F (base_bytes F @ [2, 1, 97]) = Err (Decode_Tail ''capabilities'' ())"
    by (simp add: payload_eq [symmetric] payload_0)
  have "fst (fm_u64 F) TRUST_EPOCH \<noteq> []"
    using lawful_nonempty [OF lawful_format_parts(8) [OF F], of TRUST_EPOCH "TRUST_EPOCH + 1"] by (simp add: codec_simps)
  moreover have "tail_fields (wire_encoder F) with_full_tail ! 1 = 1 # fst (fm_u64 F) TRUST_EPOCH"
    by (simp add: tail_fields_def wire_encoder_def with_full_tail_def codec_simps tag)
  ultimately have "read_info F (encode_agent_info (wire_encoder F) 1 with_full_tail @ [1]) =
      Err (Decode_Tail ''active_trust_epoch'' ())"
    using wire_tail_cut [OF F fit, of 1 1 "()"] by (simp add: tail_names_def)
  then have second: "read_info F (payload_with_tail_prefix F 1 @ [1]) = Err (Decode_Tail ''active_trust_epoch'' ())"
    by (simp add: payload_eq)
  from first second prefixes_read [OF F, of 0 "[]"] prefixes_read [OF F, of 1 "[]"] show ?thesis
    by (simp add: test_truncated_tail_fails_def payload_0)
qed

lemma cut_base_pass [tail_passes]:
  assumes "lawful_format F"
  shows "test_truncated_base_fails F"
proof -
  have "fits (codec_AgentInfoBase F) (base_of with_full_tail)"
    using test_infos_fit(1) [OF assms] by (simp add: fits_AgentInfo)
  moreover from this have "fits (codec_AgentInfoBase F) ((base_of with_full_tail)\<lparr>ab_agent_name := []\<rparr>)"
    by (simp add: codec_AgentInfoBase_def codec_simps)
  moreover have "base_of with_full_tail \<noteq> (base_of with_full_tail)\<lparr>ab_agent_name := []\<rparr>"
    by (simp add: base_of_def with_full_tail_def without_tail_def AGENT_NAME_def)
  ultimately have "base_bytes F \<noteq> []"
    unfolding base_bytes_eq by (intro lawful_nonempty [OF lawful_AgentInfo(1) [OF assms]])
  then have "length (base_bytes F) - 1 < length (enc (codec_AgentInfoBase F) (base_of with_full_tail))"
    by (simp add: base_bytes_eq)
  from wire_base_cut [OF assms test_infos_fit(1) [OF assms] this, of "()"] show ?thesis
    by (simp add: test_truncated_base_fails_def layout_AgentInfo encode_agent_info_def wire_encoder_def base_bytes_eq)
qed

lemma tags_pass [tail_passes]:
  assumes "standard_config F"
  shows "test_preserves_unknown_capability_tags F"
proof -
  from assms have F: "lawful_format F" and order: "fm_order_str F = by_key (map of_char :: string \<Rightarrow> nat list) (map char_of)"
    by (simp_all add: standard_config_def)
  let ?S = "{''future:thing'', ROLLBACK_SUPERVISOR, COLOCATED_REVIEW}"
  let ?sorted = "map (map of_char) [''colocated:review'', ''future:thing'', ''rollback-supervisor''] :: nat list list"
  have "sorted_list_of_set (map of_char ` ?S) = ?sorted"
    by (rule sorted_distinct_set_unique) (auto simp: ROLLBACK_SUPERVISOR_def COLOCATED_REVIEW_def)
  then have "fm_order_str F ?S = map (map char_of) ?sorted"
    by (simp only: order by_key_def)
  moreover have "map (map char_of) (map (map of_char) xs :: nat list list) = xs" for xs :: "string list"
    by (simp add: comp_def map_idI)
  ultimately have "fm_order_str F ?S = [''colocated:review'', ''future:thing'', ''rollback-supervisor'']"
    by metis
  with info_reads [OF F test_infos_fit(3) [OF F]] show ?thesis
    by (simp add: test_preserves_unknown_capability_tags_def encode_info_def) (simp add: unknown_tags_def)
qed

lemma base_receiver_pass [tail_passes]:
  assumes "lawful_format F" and "length crate_version \<le> MAX_LEN"
  shows "test_base_only_receiver_ignores_the_tail_over_the_wire F e crate_version"
proof -
  have "fits (codec_AgentInfoBase F) (base_of (wire_info crate_version))"
    using test_infos_fit(4) [OF assms] by (simp add: fits_AgentInfo)
  from lawful_reads [OF lawful_AgentInfo(1) [OF assms(1)] this]
  have "from_front e (codec_AgentInfoBase F) (enc (codec_AgentInfo F) (wire_info crate_version)) =
      Ok (base_of (wire_info crate_version))"
    by (simp add: from_front_def layout_AgentInfo encode_agent_info_def wire_encoder_def)
  then show ?thesis
    by (simp add: test_base_only_receiver_ignores_the_tail_over_the_wire_def encode_info_def)
      (simp add: base_of_def wire_info_def)
qed

end
