(* ===== verification/Wire_Answers.thy ===== *)
theory Wire_Answers
  imports Wire_Calls
begin

text \<open>
  The agent's answers on the wire. An answer is a \<open>Result<T, String>\<close>, the variant's index and
  what it carries; the manager reads it with the \<open>T\<close> of the call it made. What was sent is read,
  an error whatever \<open>T\<close> is, and an answer cut short is refused.
\<close>

subsection \<open>Results\<close>

definition codec_result :: "format \<Rightarrow> 'a codec \<Rightarrow> (string + 'a) codec" where
  "codec_result F c = enum_codec (fm_variant F)
     [arm c Inr (case_sum (\<lambda>_. None) Some), arm (codec_str F) Inl (case_sum Some (\<lambda>_. None))]"

lemma lawful_result [lawful_rules]:
  "lawful_format F \<Longrightarrow> lawful c \<Longrightarrow> lawful (codec_result F c)"
  unfolding codec_result_def
  by (intro lawful_enum lawful_format_parts(1)) (auto intro!: lawful_arm lawful_format_parts(13) split: sum.splits)

lemma codec_result_sel [codec_simps]:
  "enc (codec_result F c) (Ok a) = fst (fm_variant F) 0 @ enc c a"
  "enc (codec_result F c) (Err e) = fst (fm_variant F) 1 @ fst (fm_str F) e"
  "fits (codec_result F c) (Ok a) = fits c a"
  "fits (codec_result F c) (Err e) \<longleftrightarrow> length e \<le> MAX_LEN"
  by (simp_all add: codec_result_def enum_codec_def arm_def codec_simps)

subsection \<open>Answers\<close>

fun answer_bytes :: "format \<Rightarrow> string + agent_reply \<Rightarrow> bytes" where
  "answer_bytes F (Ok Reply_Unit) = enc (codec_result F unit_codec) (Ok ())"
| "answer_bytes F (Ok (Reply_ResourceUsage hostname usage)) =
     enc (codec_result F (pair_codec (codec_str F) (codec_ResourceUsage F))) (Ok (hostname, usage))"
| "answer_bytes F (Ok (Reply_ProcessList x)) = enc (codec_result F (list_codec (fm_len F) (codec_Process F))) (Ok x)"
| "answer_bytes F (Ok (Reply_NodeService x)) = enc (codec_result F (codec_NodeServiceResponse F)) (Ok x)"
| "answer_bytes F (Ok (Reply_NodeNetworkInterface x)) = enc (codec_result F (codec_NodeNetworkInterfaceResponse F)) (Ok x)"
| "answer_bytes F (Ok (Reply_NodeHostname x)) = enc (codec_result F (codec_NodeHostnameResponse F)) (Ok x)"
| "answer_bytes F (Ok (Reply_NodeTimeSync x)) = enc (codec_result F (codec_NodeTimeSyncResponse F)) (Ok x)"
| "answer_bytes F (Ok (Reply_NodeLogging x)) = enc (codec_result F (codec_NodeLoggingResponse F)) (Ok x)"
| "answer_bytes F (Ok (Reply_NodeRemoteAccess x)) = enc (codec_result F (codec_NodeRemoteAccessResponse F)) (Ok x)"
| "answer_bytes F (Ok (Reply_NodePower x)) = enc (codec_result F (codec_NodePowerResponse F)) (Ok x)"
| "answer_bytes F (Ok (Reply_NodeObservation x)) = enc (codec_result F (codec_NodeObservationResponse F)) (Ok x)"
| "answer_bytes F (Ok (Reply_NodeVersion x)) = enc (codec_result F (codec_NodeVersionResponse F)) (Ok x)"
| "answer_bytes F (Ok (Reply_Preflight x)) = enc (codec_result F (codec_InstallPreflight F)) (Ok x)"
| "answer_bytes F (Ok (Reply_NodePackage x)) = enc (codec_result F (codec_NodePackageResponse F)) (Ok x)"
| "answer_bytes F (Ok (Reply_NodeEnroll x)) = enc (codec_result F (codec_NodeEnrollResponse F)) (Ok x)"
| "answer_bytes F (Err e) = enc (codec_result F unit_codec) (Err e)"

fun answer_fits :: "format \<Rightarrow> string + agent_reply \<Rightarrow> bool" where
  "answer_fits F (Ok Reply_Unit) \<longleftrightarrow> True"
| "answer_fits F (Ok (Reply_ResourceUsage hostname usage)) \<longleftrightarrow>
     fits (pair_codec (codec_str F) (codec_ResourceUsage F)) (hostname, usage)"
| "answer_fits F (Ok (Reply_ProcessList x)) \<longleftrightarrow> fits (list_codec (fm_len F) (codec_Process F)) x"
| "answer_fits F (Ok (Reply_NodeService x)) \<longleftrightarrow> fits (codec_NodeServiceResponse F) x"
| "answer_fits F (Ok (Reply_NodeNetworkInterface x)) \<longleftrightarrow> fits (codec_NodeNetworkInterfaceResponse F) x"
| "answer_fits F (Ok (Reply_NodeHostname x)) \<longleftrightarrow> fits (codec_NodeHostnameResponse F) x"
| "answer_fits F (Ok (Reply_NodeTimeSync x)) \<longleftrightarrow> fits (codec_NodeTimeSyncResponse F) x"
| "answer_fits F (Ok (Reply_NodeLogging x)) \<longleftrightarrow> fits (codec_NodeLoggingResponse F) x"
| "answer_fits F (Ok (Reply_NodeRemoteAccess x)) \<longleftrightarrow> fits (codec_NodeRemoteAccessResponse F) x"
| "answer_fits F (Ok (Reply_NodePower x)) \<longleftrightarrow> fits (codec_NodePowerResponse F) x"
| "answer_fits F (Ok (Reply_NodeObservation x)) \<longleftrightarrow> fits (codec_NodeObservationResponse F) x"
| "answer_fits F (Ok (Reply_NodeVersion x)) \<longleftrightarrow> fits (codec_NodeVersionResponse F) x"
| "answer_fits F (Ok (Reply_Preflight x)) \<longleftrightarrow> fits (codec_InstallPreflight F) x"
| "answer_fits F (Ok (Reply_NodePackage x)) \<longleftrightarrow> fits (codec_NodePackageResponse F) x"
| "answer_fits F (Ok (Reply_NodeEnroll x)) \<longleftrightarrow> fits (codec_NodeEnrollResponse F) x"
| "answer_fits F (Err e) \<longleftrightarrow> length e \<le> MAX_LEN"

text \<open>\<open>frame::recv::<Result<T, String>>\<close>: what the manager makes of a frame.\<close>

definition read_answer :: "format \<Rightarrow> IoError \<Rightarrow> 'a codec \<Rightarrow> bytes \<Rightarrow> IoError + (string + 'a)" where
  "read_answer F e c = from_front e (codec_result F c)"

lemma read_answer_ok [simp]:
  "lawful_format F \<Longrightarrow> lawful c \<Longrightarrow> fits c a \<Longrightarrow>
     read_answer F e c (enc (codec_result F c) (Ok a)) = Ok (Ok a)"
  by (simp add: read_answer_def from_front_reads lawful_result codec_result_sel(3))

lemma read_answer_err [simp]:
  assumes "lawful_format F" and "lawful c" and "length m \<le> MAX_LEN"
  shows "read_answer F e c (enc (codec_result F d) (Err m)) = Ok (Err m)"
proof -
  have "enc (codec_result F d) (Err m) = enc (codec_result F c) (Err m)" by (simp add: codec_simps)
  then show ?thesis
    using assms by (simp add: read_answer_def from_front_reads lawful_result codec_result_sel(4))
qed

text \<open>Each answer is read as it was sent, and an error whatever the call asked for.\<close>

lemma answers_survive_wire:
  assumes "lawful_format F"
  shows "read_answer F e unit_codec (answer_bytes F (Ok Reply_Unit)) = Ok (Ok ())"
    "answer_fits F (Ok (Reply_ResourceUsage hostname usage)) \<Longrightarrow>
       read_answer F e (pair_codec (codec_str F) (codec_ResourceUsage F))
         (answer_bytes F (Ok (Reply_ResourceUsage hostname usage))) = Ok (Ok (hostname, usage))"
    "answer_fits F (Ok (Reply_ProcessList x1)) \<Longrightarrow>
       read_answer F e (list_codec (fm_len F) (codec_Process F)) (answer_bytes F (Ok (Reply_ProcessList x1))) = Ok (Ok x1)"
    "answer_fits F (Ok (Reply_NodeService x2)) \<Longrightarrow>
       read_answer F e (codec_NodeServiceResponse F) (answer_bytes F (Ok (Reply_NodeService x2))) = Ok (Ok x2)"
    "answer_fits F (Ok (Reply_NodeNetworkInterface x3)) \<Longrightarrow>
       read_answer F e (codec_NodeNetworkInterfaceResponse F) (answer_bytes F (Ok (Reply_NodeNetworkInterface x3))) = Ok (Ok x3)"
    "answer_fits F (Ok (Reply_NodeHostname x4)) \<Longrightarrow>
       read_answer F e (codec_NodeHostnameResponse F) (answer_bytes F (Ok (Reply_NodeHostname x4))) = Ok (Ok x4)"
    "answer_fits F (Ok (Reply_NodeTimeSync x5)) \<Longrightarrow>
       read_answer F e (codec_NodeTimeSyncResponse F) (answer_bytes F (Ok (Reply_NodeTimeSync x5))) = Ok (Ok x5)"
    "answer_fits F (Ok (Reply_NodeLogging x6)) \<Longrightarrow>
       read_answer F e (codec_NodeLoggingResponse F) (answer_bytes F (Ok (Reply_NodeLogging x6))) = Ok (Ok x6)"
    "answer_fits F (Ok (Reply_NodeRemoteAccess x7)) \<Longrightarrow>
       read_answer F e (codec_NodeRemoteAccessResponse F) (answer_bytes F (Ok (Reply_NodeRemoteAccess x7))) = Ok (Ok x7)"
    "answer_fits F (Ok (Reply_NodePower x8)) \<Longrightarrow>
       read_answer F e (codec_NodePowerResponse F) (answer_bytes F (Ok (Reply_NodePower x8))) = Ok (Ok x8)"
    "answer_fits F (Ok (Reply_NodeObservation x9)) \<Longrightarrow>
       read_answer F e (codec_NodeObservationResponse F) (answer_bytes F (Ok (Reply_NodeObservation x9))) = Ok (Ok x9)"
    "answer_fits F (Ok (Reply_NodeVersion x10)) \<Longrightarrow>
       read_answer F e (codec_NodeVersionResponse F) (answer_bytes F (Ok (Reply_NodeVersion x10))) = Ok (Ok x10)"
    "answer_fits F (Ok (Reply_Preflight x11)) \<Longrightarrow>
       read_answer F e (codec_InstallPreflight F) (answer_bytes F (Ok (Reply_Preflight x11))) = Ok (Ok x11)"
    "answer_fits F (Ok (Reply_NodePackage x12)) \<Longrightarrow>
       read_answer F e (codec_NodePackageResponse F) (answer_bytes F (Ok (Reply_NodePackage x12))) = Ok (Ok x12)"
    "answer_fits F (Ok (Reply_NodeEnroll x13)) \<Longrightarrow>
       read_answer F e (codec_NodeEnrollResponse F) (answer_bytes F (Ok (Reply_NodeEnroll x13))) = Ok (Ok x13)"
    "answer_fits F (Err m) \<Longrightarrow> lawful c \<Longrightarrow> read_answer F e c (answer_bytes F (Err m)) = Ok (Err m)"
  using assms by (simp_all add: lawful_rules unit_codec_sel)

lemma read_answer_cut:
  assumes "lawful_format F" and "lawful c" and "fits c a"
    and "enc (codec_result F c) (Ok a) = kept @ lost" and "lost \<noteq> []"
  shows "read_answer F e c kept = Err e"
  using from_front_truncated [OF lawful_result [OF assms(1,2)], of "Ok a"] assms(3-5)
  by (simp add: read_answer_def codec_simps)

end
