(* ===== verification/Request_Harness.thy ===== *)
theory Request_Harness
  imports Wire_Answers Agent_Dispatch
begin

text \<open>
  What the tests of \<open>src/src/request.rs\<close> run on: the dispatch loops over a stream of listed
  frames, the requests as the manager's codecs write them and the answers as bytes. A test's
  client writes a request only after it has read the answer to the one before; the dispatcher
  reads one request at a time, so that all of them are listed at once makes no difference to it.
  The end of the list is the end of the stream, which a dropped client leaves.
\<close>

text \<open>\<open>str::str_bytes\<close>.\<close>

definition str_bytes :: "string \<Rightarrow> bytes" where
  "str_bytes s = map (\<lambda>c. of_nat (of_char c)) s"

lemma length_str_bytes [simp]: "length (str_bytes s) = length s"
  by (simp add: str_bytes_def)

subsection \<open>Runs\<close>

definition request_frame :: "format \<Rightarrow> client_RequestCode \<Rightarrow> manager_payload \<Rightarrow> wire_frame" where
  "request_frame F code p = Request_Frame (client_code_into code) (order_bytes F p)"

definition start :: "'h \<Rightarrow> wire_frame list \<Rightarrow> ('h, (string + agent_reply) list, wire_frame list) session" where
  "start h frames = \<lparr>se_handler = h, se_send = [], se_recv = frames\<rparr>"

definition outcome ::
  "format \<Rightarrow> (HandlerError + unit) \<times> ('h, (string + agent_reply) list, 'r) session
   \<Rightarrow> (HandlerError + unit) \<times> 'h \<times> bytes list" where
  "outcome F out = (fst out, se_handler (snd out), map (answer_bytes F) (se_send (snd out)))"

definition served ::
  "format \<Rightarrow> IoError \<Rightarrow> 'h Handler \<Rightarrow> 'h \<Rightarrow> wire_frame list
   \<Rightarrow> ((HandlerError + unit) \<times> 'h \<times> bytes list) option" where
  "served F e H h frames =
     map_option (outcome F) (handle list_io (agent_decoders F e (\<lambda>_. [])) H (start h frames))"

definition served_node ::
  "format \<Rightarrow> IoError \<Rightarrow> 'h NodeHandler \<Rightarrow> 'h \<Rightarrow> wire_frame list
   \<Rightarrow> ((HandlerError + unit) \<times> 'h \<times> bytes list) option" where
  "served_node F e H h frames =
     map_option (outcome F) (handle_node list_io (agent_decoders F e (\<lambda>_. [])) H (start h frames))"

text \<open>The answer to a single request, when the loop then ended without an error.\<close>

fun unary_answer ::
  "format \<Rightarrow> IoError \<Rightarrow> 'a codec \<Rightarrow> ((HandlerError + unit) \<times> 'h \<times> bytes list) option
   \<Rightarrow> (IoError + (string + 'a)) option" where
  "unary_answer F e c (Some (Ok _, _, [bs])) = Some (read_answer F e c bs)"
| "unary_answer F e c _ = None"

subsection \<open>The loops, frame by frame\<close>

lemma handle_end [simp]:
  "handle list_io A H \<lparr>se_handler = h, se_send = ms, se_recv = []\<rparr> =
     Some (Ok (), \<lparr>se_handler = h, se_send = ms, se_recv = []\<rparr>)"
  "handle_node list_io A N \<lparr>se_handler = h, se_send = ms, se_recv = []\<rparr> =
     Some (Ok (), \<lparr>se_handler = h, se_send = ms, se_recv = []\<rparr>)"
  unfolding handle_def handle_node_def
  by (rule iterate_Leave, simp add: serve_step_def)+

lemma handle_request [simp]:
  "handle list_io A H \<lparr>se_handler = h, se_send = ms, se_recv = Request_Frame c b # fs\<rparr> =
     (case handle_arm list_io A H c b \<lparr>se_handler = h, se_send = ms, se_recv = fs\<rparr> of
        None \<Rightarrow> None | Some (Ok _, s) \<Rightarrow> handle list_io A H s | Some (Err e, s) \<Rightarrow> Some (Err e, s))"
  "handle_node list_io A N \<lparr>se_handler = h, se_send = ms, se_recv = Request_Frame c b # fs\<rparr> =
     (case handle_node_arm list_io A N c b \<lparr>se_handler = h, se_send = ms, se_recv = fs\<rparr> of
        None \<Rightarrow> None | Some (Ok _, s) \<Rightarrow> handle_node list_io A N s | Some (Err e, s) \<Rightarrow> Some (Err e, s))"
  unfolding handle_def handle_node_def
  by (subst iterate.simps, simp add: serve_step_def split: option.splits sum.splits prod.splits)+

lemma respond_list [simp]:
  "respond list_io reply f s =
     (Ok (), s\<lparr>se_handler := snd (f (se_handler s)),
                se_send := se_send s @ [map_ok reply (fst (f (se_handler s)))]\<rparr>)"
  by (simp add: respond_def call_handler_def answer_def split: prod.split)

lemma serve_power_list [simp]:
  "serve_power list_io H req s =
     (Ok (), s\<lparr>se_handler := snd (nh_power H req (se_handler s)),
                se_send := se_send s @ (if node_power_expects_response req
                  then [map_ok Reply_NodePower (fst (nh_power H req (se_handler s)))] else [])\<rparr>)"
  by (simp add: serve_power_def call_handler_def answer_def Let_def split: prod.split)

lemma reject_list [simp]:
  "reject_unknown list_io code s =
     (Ok (), s\<lparr>se_send := se_send s @ [Err (unknown_code_message code)]\<rparr>)"
  by (simp add: reject_unknown_def)

subsection \<open>The arms on what the manager writes\<close>

lemma client_codes_read [simp]:
  "client_code_from 1 = RC_DnsStart"
  "client_code_from 4 = RC_Reboot"
  "client_code_from 5 = RC_ReloadTi"
  "client_code_from 7 = RC_ResourceUsage"
  "client_code_from 19 = RC_ProcessList"
  "client_code_from 21 = RC_Shutdown"
  "client_code_from 23 = RC_TrainModel"
  "client_code_from 24 = RC_CloneModel"
  "client_code_from 25 = RC_CancelRun"
  "client_code_from 26 = RC_RunDetectorOnce"
  "client_code_from 100 = RC_NodeService"
  "client_code_from 101 = RC_NodeNetworkInterface"
  "client_code_from 102 = RC_NodeHostname"
  "client_code_from 103 = RC_NodeTimeSync"
  "client_code_from 104 = RC_NodeLogging"
  "client_code_from 105 = RC_NodeRemoteAccess"
  "client_code_from 107 = RC_NodeObservation"
  "client_code_from 108 = RC_NodeVersion"
  "client_code_from 110 = RC_NodeEnroll"
  "client_code_from 106 = RC_NodePower"
  "client_code_from 109 = RC_NodePackage"
  using client_code_round [of RC_DnsStart] client_code_round [of RC_Reboot] client_code_round [of RC_ReloadTi] client_code_round [of RC_ResourceUsage] client_code_round [of RC_ProcessList] client_code_round [of RC_Shutdown] client_code_round [of RC_TrainModel] client_code_round [of RC_CloneModel] client_code_round [of RC_CancelRun] client_code_round [of RC_RunDetectorOnce] client_code_round [of RC_NodeService] client_code_round [of RC_NodeNetworkInterface] client_code_round [of RC_NodeHostname] client_code_round [of RC_NodeTimeSync] client_code_round [of RC_NodeLogging] client_code_round [of RC_NodeRemoteAccess] client_code_round [of RC_NodeObservation] client_code_round [of RC_NodeVersion] client_code_round [of RC_NodeEnroll] client_code_round [of RC_NodePower] client_code_round [of RC_NodePackage]
  by simp_all

lemma node_arms [simp]:
  assumes "lawful_format F"
  shows "fits (codec_NodeServiceRequest F) x0 \<Longrightarrow>
       handle_node_arm list_io (agent_decoders F e d) H 100 (enc (codec_NodeServiceRequest F) x0) s =
       Some (respond list_io Reply_NodeService (nh_service H x0) s)"
    "fits (codec_NodeNetworkInterfaceRequest F) x1 \<Longrightarrow>
       handle_node_arm list_io (agent_decoders F e d) H 101 (enc (codec_NodeNetworkInterfaceRequest F) x1) s =
       Some (respond list_io Reply_NodeNetworkInterface (nh_network_interface H x1) s)"
    "fits (codec_NodeHostnameRequest F) x2 \<Longrightarrow>
       handle_node_arm list_io (agent_decoders F e d) H 102 (enc (codec_NodeHostnameRequest F) x2) s =
       Some (respond list_io Reply_NodeHostname (nh_hostname H x2) s)"
    "fits (codec_NodeTimeSyncRequest F) x3 \<Longrightarrow>
       handle_node_arm list_io (agent_decoders F e d) H 103 (enc (codec_NodeTimeSyncRequest F) x3) s =
       Some (respond list_io Reply_NodeTimeSync (nh_time_sync H x3) s)"
    "fits (codec_NodeLoggingRequest F) x4 \<Longrightarrow>
       handle_node_arm list_io (agent_decoders F e d) H 104 (enc (codec_NodeLoggingRequest F) x4) s =
       Some (respond list_io Reply_NodeLogging (nh_logging H x4) s)"
    "fits (codec_NodeRemoteAccessRequest F) x5 \<Longrightarrow>
       handle_node_arm list_io (agent_decoders F e d) H 105 (enc (codec_NodeRemoteAccessRequest F) x5) s =
       Some (respond list_io Reply_NodeRemoteAccess (nh_remote_access H x5) s)"
    "fits (codec_NodeObservationRequest F) x6 \<Longrightarrow>
       handle_node_arm list_io (agent_decoders F e d) H 107 (enc (codec_NodeObservationRequest F) x6) s =
       Some (respond list_io Reply_NodeObservation (nh_observation H x6) s)"
    "fits (codec_NodeVersionRequest F) x7 \<Longrightarrow>
       handle_node_arm list_io (agent_decoders F e d) H 108 (enc (codec_NodeVersionRequest F) x7) s =
       Some (respond list_io Reply_NodeVersion (nh_version H x7) s)"
    "fits (codec_NodeEnrollRequest F) x8 \<Longrightarrow>
       handle_node_arm list_io (agent_decoders F e d) H 110 (enc (codec_NodeEnrollRequest F) x8) s =
       Some (respond list_io Reply_NodeEnroll (nh_enroll H x8) s)"
    "fits (codec_NodePowerRequest F) p \<Longrightarrow>
       handle_node_arm list_io (agent_decoders F e d) H 106 (enc (codec_NodePowerRequest F) p) s =
       Some (serve_power list_io H p s)"
    "fits (codec_NodePackageRequest F) r \<Longrightarrow>
       handle_node_arm io (agent_decoders F e d) H 109 (enc (codec_NodePackageRequest F) r) t =
       dispatch_node_package io H r t"
  using assms
  by (simp_all add: handle_node_arm_def agent_decoders_def from_front_reads lawful_rules
      del: respond_list serve_power_list)

lemma handle_arm_on_node_codes [simp]:
  "code \<in> {100, 101, 102, 103, 104, 105, 106, 107, 108, 109, 110} \<Longrightarrow>
     handle_arm io A H code b s = handle_node_arm io A (as_node_handler H) code b s"
  by (rule node_arm_agrees) (auto simp: node_codes_def)

lemma flat_arms [simp]:
  assumes "lawful_format F"
  shows "fits (codec_TrainModelRequest F) x0 \<Longrightarrow>
       handle_arm list_io (agent_decoders F e d) H 23 (enc (codec_TrainModelRequest F) x0) s =
       Some (respond list_io (\<lambda>_. Reply_Unit) (h_train_model H x0) s)"
    "fits (codec_CloneModelRequest F) x1 \<Longrightarrow>
       handle_arm list_io (agent_decoders F e d) H 24 (enc (codec_CloneModelRequest F) x1) s =
       Some (respond list_io (\<lambda>_. Reply_Unit) (h_clone_model H x1) s)"
    "fits (plain (fm_u32 F)) x2 \<Longrightarrow>
       handle_arm list_io (agent_decoders F e d) H 25 (enc (plain (fm_u32 F)) x2) s =
       Some (respond list_io (\<lambda>_. Reply_Unit) (h_cancel_run H x2) s)"
    "fits (plain (fm_i32 F)) x3 \<Longrightarrow>
       handle_arm list_io (agent_decoders F e d) H 26 (enc (plain (fm_i32 F)) x3) s =
       Some (respond list_io (\<lambda>_. Reply_Unit) (h_run_detector_once H x3) s)"
  using assms
  by (simp_all add: handle_arm_def agent_decoders_def from_front_reads lawful_rules
      del: respond_list handle_arm_on_node_codes)

lemma legacy_arms [simp]:
  "handle_arm list_io A H 4 b s =
     Some (respond list_io (\<lambda>_. Reply_Unit) (\<lambda>h. apfst (map_ok (\<lambda>_. ())) (nh_power H Power_Reboot h)) s)"
  "handle_arm list_io A H 21 b s =
     Some (respond list_io (\<lambda>_. Reply_Unit) (\<lambda>h. apfst (map_ok (\<lambda>_. ())) (nh_power H Power_Shutdown h)) s)"
  "handle_arm list_io A H 7 b s =
     Some (respond list_io (\<lambda>(hostname, usage). Reply_ResourceUsage hostname usage)
       (\<lambda>h. apfst (\<lambda>r. res_and_then r (legacy_resource_usage A)) (nh_observation H Observe_ResourceUsage h)) s)"
  "handle_arm list_io A H 19 b s =
     Some (respond list_io Reply_ProcessList
       (\<lambda>h. apfst (\<lambda>r. res_and_then r (legacy_process_list A)) (nh_observation H Observe_ProcessList h)) s)"
  by (simp_all add: handle_arm_def del: respond_list handle_arm_on_node_codes)

lemma unassigned_code [simp]: "client_code_from 111 = RC_Unknown"
  by (simp add: client_code_from_def client_code_table_def from_discriminant_def)

lemma unassigned_arms [simp]:
  "handle_arm list_io A H 111 b s = Some (reject_unknown list_io 111 s)"
  "handle_node_arm list_io A N 111 b s = Some (reject_unknown list_io 111 s)"
  by (simp_all add: handle_arm_def handle_node_arm_def del: reject_list handle_arm_on_node_codes)

lemma non_node_arms [simp]:
  "code \<in> {1, 23, 24, 25, 26} \<Longrightarrow>
     handle_node_arm list_io A N code b s = Some (reject_unknown list_io code s)"
  by (rule node_arm_rejects) (auto simp: node_codes_def)

subsection \<open>What fits\<close>

lemma length_show_nat: "length (show_nat n) \<le> Suc n"
proof (induction n rule: show_nat.induct)
  case (1 n)
  then show ?case by (cases "n < 10") (simp_all add: show_nat.simps [of n])
qed

lemma unknown_message_fits [simp]: "unat code < 1000 \<Longrightarrow> length (unknown_code_message code) \<le> 9223372036854775807"
  using length_show_nat [of "unat code"] by (simp add: unknown_code_message_def)

lemma undecodable_message_fits [simp]:
  "unat code < 1000 \<Longrightarrow> length (undecodable_args_message code) \<le> 9223372036854775807"
  using length_show_nat [of "unat code"] by (simp add: undecodable_args_message_def)

text \<open>The domain of a codec, without opening what it writes.\<close>

lemmas fit_rules = wire_fits pair_codec_sel(2) struct_codec_sel(2) option_codec_sel(3,4) list_codec_sel(2)
  unit_codec_sel(2) plain_sel(2) sized_codec_sel(2,4,6,8,10,11) codec_result_sel(3,4) MAX_LEN_def

lemmas run_rules = request_frame_def served_def served_node_def start_def outcome_def fit_rules lawful_rules

end
