(* ===== verification/Request_Tests.thy ===== *)
theory Request_Tests
  imports Request_Harness
begin

text \<open>
  The tests of \<open>src/src/request.rs\<close> but for the package family's: the request codes, the
  default methods, every node family through \<open>handle\<close> and \<open>handle_node\<close>, the routing of the
  legacy host-control codes, the blanket implementation and the refusal of codes outside the node
  families. Each is a predicate of the format; all of them hold of every lawful one. Floats are
  given by their bits.
\<close>

subsection \<open>Request codes\<close>

definition maps_to :: "client_RequestCode \<times> u32 \<Rightarrow> bool" where
  "maps_to entry \<longleftrightarrow> client_code_into (fst entry) = snd entry \<and> client_code_from (snd entry) = fst entry"

definition test_request_code_serde :: bool where
  "test_request_code_serde \<longleftrightarrow>
     7 = client_code_into RC_ResourceUsage \<and> RC_ResourceUsage = client_code_from 7
     \<and> 22 = client_code_into RC_DeleteCustomerData \<and> RC_DeleteCustomerData = client_code_from 22"

definition test_unsupervised_engine_request_codes :: bool where
  "test_unsupervised_engine_request_codes \<longleftrightarrow>
     list_all maps_to [(RC_TrainModel, 23), (RC_CloneModel, 24), (RC_CancelRun, 25), (RC_RunDetectorOnce, 26)]"

definition test_node_request_code_mapping :: bool where
  "test_node_request_code_mapping \<longleftrightarrow> list_all maps_to
     [(RC_NodeService, 100), (RC_NodeNetworkInterface, 101), (RC_NodeHostname, 102), (RC_NodeTimeSync, 103),
      (RC_NodeLogging, 104), (RC_NodeRemoteAccess, 105), (RC_NodePower, 106), (RC_NodeObservation, 107),
      (RC_NodeVersion, 108), (RC_NodePackage, 109), (RC_NodeEnroll, 110)]"

definition test_node_request_codes_no_collision :: bool where
  "test_node_request_codes_no_collision \<longleftrightarrow>
     client_code_from 26 = RC_RunDetectorOnce \<and> client_code_from 27 = RC_Unknown
     \<and> client_code_from 50 = RC_Unknown \<and> client_code_from 99 = RC_Unknown
     \<and> client_code_from 109 = RC_NodePackage \<and> client_code_from 110 = RC_NodeEnroll
     \<and> client_code_from 111 = RC_Unknown"

lemma request_code_tests_pass:
  "test_request_code_serde" "test_unsupervised_engine_request_codes" "test_node_request_code_mapping"
  "test_node_request_codes_no_collision"
  unfolding test_request_code_serde_def test_unsupervised_engine_request_codes_def
    test_node_request_code_mapping_def test_node_request_codes_no_collision_def maps_to_def
  using client_code_round [of RC_DeleteCustomerData]
  by (simp_all, simp_all add: client_code_from_def client_code_table_def from_discriminant_def)

subsection \<open>Default methods\<close>

definition NoopHandler :: "unit Handler" where "NoopHandler = Handler_default"

definition test_delete_customer_data_default_not_supported :: bool where
  "test_delete_customer_data_default_not_supported \<longleftrightarrow>
     fst (h_delete_customer_data NoopHandler \<lparr>cdd_id = 42, cdd_host_fqdn = ''sensor.example.com''\<rparr> ())
       = Err ''not supported''"

definition train_request :: "string \<Rightarrow> TrainModelRequest" where
  "train_request text = \<lparr>tm_run_id = 7, tm_model = ''http-baseline'', tm_definition = text\<rparr>"

definition clone_request :: "bool \<Rightarrow> CloneModelRequest" where
  "clone_request strip = \<lparr>cm_run_id = 8, cm_source = ''http-baseline'',
     cm_target_name = ''http-baseline-copy'', cm_strip_events = strip\<rparr>"

definition test_unsupervised_engine_methods_default_not_supported :: bool where
  "test_unsupervised_engine_methods_default_not_supported \<longleftrightarrow>
     list_all (\<lambda>result. result = Err ''not supported'')
       [fst (h_train_model NoopHandler (train_request '''') ()),
        fst (h_clone_model NoopHandler (clone_request False) ()),
        fst (h_cancel_run NoopHandler 7 ()), fst (h_run_detector_once NoopHandler 1 ())]"

definition node_dispatch_roundtrip ::
  "format \<Rightarrow> IoError \<Rightarrow> client_RequestCode \<Rightarrow> manager_payload \<Rightarrow> 'a codec \<Rightarrow> bool" where
  "node_dispatch_roundtrip F e code req resp \<longleftrightarrow>
     unary_answer F e resp (served F e NoopHandler () [request_frame F code req])
       = Some (Ok (Err ''not supported''))"

definition test_unsupervised_engine_dispatch_default_not_supported :: "format \<Rightarrow> IoError \<Rightarrow> bool" where
  "test_unsupervised_engine_dispatch_default_not_supported F e \<longleftrightarrow>
     node_dispatch_roundtrip F e RC_TrainModel
       (Pay_TrainModel (train_request (''event_kind = '' @ [CHR 0x22] @ ''http'' @ [CHR 0x22]))) unit_codec
     \<and> node_dispatch_roundtrip F e RC_CloneModel (Pay_CloneModel (clone_request True)) unit_codec
     \<and> node_dispatch_roundtrip F e RC_CancelRun (Pay_U32 7) unit_codec
     \<and> node_dispatch_roundtrip F e RC_RunDetectorOnce (Pay_I32 (- 1)) unit_codec"

definition test_node_service_wire_roundtrip :: "format \<Rightarrow> IoError \<Rightarrow> bool" where
  "test_node_service_wire_roundtrip F e \<longleftrightarrow>
     node_dispatch_roundtrip F e RC_NodeService (Pay_NodeService (Service_Status ''nginx''))
       (codec_NodeServiceResponse F)"

definition test_node_network_interface_wire_roundtrip :: "format \<Rightarrow> IoError \<Rightarrow> bool" where
  "test_node_network_interface_wire_roundtrip F e \<longleftrightarrow>
     node_dispatch_roundtrip F e RC_NodeNetworkInterface (Pay_NodeNetworkInterface (Interface_List (Some ''eth'')))
       (codec_NodeNetworkInterfaceResponse F)"

definition test_node_hostname_wire_roundtrip :: "format \<Rightarrow> IoError \<Rightarrow> bool" where
  "test_node_hostname_wire_roundtrip F e \<longleftrightarrow>
     node_dispatch_roundtrip F e RC_NodeHostname (Pay_NodeHostname Hostname_Get)
       (codec_NodeHostnameResponse F)"

definition test_node_time_sync_wire_roundtrip :: "format \<Rightarrow> IoError \<Rightarrow> bool" where
  "test_node_time_sync_wire_roundtrip F e \<longleftrightarrow>
     node_dispatch_roundtrip F e RC_NodeTimeSync (Pay_NodeTimeSync (TimeSync_Set [''0.pool.ntp.org'']))
       (codec_NodeTimeSyncResponse F)"

definition test_node_logging_wire_roundtrip :: "format \<Rightarrow> IoError \<Rightarrow> bool" where
  "test_node_logging_wire_roundtrip F e \<longleftrightarrow>
     node_dispatch_roundtrip F e RC_NodeLogging (Pay_NodeLogging Logging_Get)
       (codec_NodeLoggingResponse F)"

definition test_node_remote_access_wire_roundtrip :: "format \<Rightarrow> IoError \<Rightarrow> bool" where
  "test_node_remote_access_wire_roundtrip F e \<longleftrightarrow>
     node_dispatch_roundtrip F e RC_NodeRemoteAccess (Pay_NodeRemoteAccess (RemoteAccess_Set \<lparr>nra_port = 22\<rparr>))
       (codec_NodeRemoteAccessResponse F)"

definition test_node_power_wire_roundtrip :: "format \<Rightarrow> IoError \<Rightarrow> bool" where
  "test_node_power_wire_roundtrip F e \<longleftrightarrow>
     node_dispatch_roundtrip F e RC_NodePower (Pay_NodePower Power_GracefulReboot)
       (codec_NodePowerResponse F)"

definition test_node_observation_wire_roundtrip :: "format \<Rightarrow> IoError \<Rightarrow> bool" where
  "test_node_observation_wire_roundtrip F e \<longleftrightarrow>
     node_dispatch_roundtrip F e RC_NodeObservation (Pay_NodeObservation Observe_ResourceUsage)
       (codec_NodeObservationResponse F)"

definition test_node_version_wire_roundtrip :: "format \<Rightarrow> IoError \<Rightarrow> bool" where
  "test_node_version_wire_roundtrip F e \<longleftrightarrow>
     node_dispatch_roundtrip F e RC_NodeVersion (Pay_NodeVersion (Version_SetOsVersion ''22.04''))
       (codec_NodeVersionResponse F)"

lemmas default_simps = NoopHandler_def Handler_default_def NodeHandler_default_def inherit_grouped_def
  not_supported_def NodeHandler.defs Handler.defs

lemma default_tests_pass:
  "test_delete_customer_data_default_not_supported"
  "test_unsupervised_engine_methods_default_not_supported"
  by (simp_all add: test_delete_customer_data_default_not_supported_def
      test_unsupervised_engine_methods_default_not_supported_def default_simps)

lemma wire_roundtrip_tests_pass:
  assumes "lawful_format F"
  shows "test_unsupervised_engine_dispatch_default_not_supported F e"
    "test_node_service_wire_roundtrip F e"
    "test_node_network_interface_wire_roundtrip F e"
    "test_node_hostname_wire_roundtrip F e"
    "test_node_time_sync_wire_roundtrip F e"
    "test_node_logging_wire_roundtrip F e"
    "test_node_remote_access_wire_roundtrip F e"
    "test_node_power_wire_roundtrip F e"
    "test_node_observation_wire_roundtrip F e"
    "test_node_version_wire_roundtrip F e"
  using assms
  by (simp_all add: test_unsupervised_engine_dispatch_default_not_supported_def train_request_def clone_request_def
      node_dispatch_roundtrip_def run_rules default_simps
      test_node_service_wire_roundtrip_def
      test_node_network_interface_wire_roundtrip_def
      test_node_hostname_wire_roundtrip_def
      test_node_time_sync_wire_roundtrip_def
      test_node_logging_wire_roundtrip_def
      test_node_remote_access_wire_roundtrip_def
      test_node_power_wire_roundtrip_def
      test_node_observation_wire_roundtrip_def
      test_node_version_wire_roundtrip_def)

subsection \<open>Success answers\<close>

text \<open>The server side of these tests takes the request off the stream and answers by hand.\<close>

definition node_success_roundtrip ::
  "format \<Rightarrow> IoError \<Rightarrow> client_RequestCode \<Rightarrow> manager_payload \<Rightarrow> 'a codec \<Rightarrow> 'a \<Rightarrow> bool" where
  "node_success_roundtrip F e code req resp expected \<longleftrightarrow>
     (case list_recv_request [request_frame F code req] of
        (Ok _, _) \<Rightarrow> read_answer F e resp (enc (codec_result F resp) (Ok expected)) = Ok (Ok expected)
      | (Err _, _) \<Rightarrow> False)"

definition usage_45 :: ResourceUsage where
  "usage_45 = \<lparr>ru_cpu_usage = 1110756557, ru_total_memory = 16000000000, ru_used_memory = 8000000000,
     ru_disk_used_bytes = 100000000000, ru_disk_available_bytes = 400000000000\<rparr>"

definition test_node_service_success_roundtrip :: "format \<Rightarrow> IoError \<Rightarrow> bool" where
  "test_node_service_success_roundtrip F e \<longleftrightarrow>
     node_success_roundtrip F e RC_NodeService (Pay_NodeService (Service_Status ''nginx'')) (codec_NodeServiceResponse F)
         (ServiceR_Status True)"

definition test_node_network_interface_success_roundtrip :: "format \<Rightarrow> IoError \<Rightarrow> bool" where
  "test_node_network_interface_success_roundtrip F e \<longleftrightarrow>
     node_success_roundtrip F e RC_NodeNetworkInterface (Pay_NodeNetworkInterface (Interface_List (Some ''eth''))) (codec_NodeNetworkInterfaceResponse F)
         (InterfaceR_List [''eth0'', ''eth1''])"

definition test_node_hostname_success_roundtrip :: "format \<Rightarrow> IoError \<Rightarrow> bool" where
  "test_node_hostname_success_roundtrip F e \<longleftrightarrow>
     node_success_roundtrip F e RC_NodeHostname (Pay_NodeHostname Hostname_Get) (codec_NodeHostnameResponse F)
         (HostnameR_Get ''node-1'')"

definition test_node_time_sync_success_roundtrip :: "format \<Rightarrow> IoError \<Rightarrow> bool" where
  "test_node_time_sync_success_roundtrip F e \<longleftrightarrow>
     node_success_roundtrip F e RC_NodeTimeSync (Pay_NodeTimeSync (TimeSync_Set [''0.pool.ntp.org''])) (codec_NodeTimeSyncResponse F)
         TimeSyncR_Done"

definition test_node_time_sync_status_success_roundtrip :: "format \<Rightarrow> IoError \<Rightarrow> bool" where
  "test_node_time_sync_status_success_roundtrip F e \<longleftrightarrow>
     node_success_roundtrip F e RC_NodeTimeSync (Pay_NodeTimeSync TimeSync_Status) (codec_NodeTimeSyncResponse F)
         (TimeSyncR_Status True True (Some ''cm.example.com'') (Some (- 1234)))
     \<and> node_success_roundtrip F e RC_NodeTimeSync (Pay_NodeTimeSync TimeSync_Status) (codec_NodeTimeSyncResponse F)
         (TimeSyncR_Status False False None None)"

definition test_node_logging_success_roundtrip :: "format \<Rightarrow> IoError \<Rightarrow> bool" where
  "test_node_logging_success_roundtrip F e \<longleftrightarrow>
     node_success_roundtrip F e RC_NodeLogging (Pay_NodeLogging Logging_Get) (codec_NodeLoggingResponse F)
         (LoggingR_Get (Some [\<lparr>nle_protocol = Logging_Tcp, nle_address = ''192.168.1.100'', nle_port = 514\<rparr>]))"

definition test_node_remote_access_success_roundtrip :: "format \<Rightarrow> IoError \<Rightarrow> bool" where
  "test_node_remote_access_success_roundtrip F e \<longleftrightarrow>
     node_success_roundtrip F e RC_NodeRemoteAccess (Pay_NodeRemoteAccess (RemoteAccess_Set \<lparr>nra_port = 22\<rparr>)) (codec_NodeRemoteAccessResponse F)
         RemoteAccessR_Done"

definition test_node_power_success_roundtrip :: "format \<Rightarrow> IoError \<Rightarrow> bool" where
  "test_node_power_success_roundtrip F e \<longleftrightarrow>
     node_success_roundtrip F e RC_NodePower (Pay_NodePower Power_GracefulReboot) (codec_NodePowerResponse F)
         PowerR_Initiated"

definition test_node_observation_success_roundtrip :: "format \<Rightarrow> IoError \<Rightarrow> bool" where
  "test_node_observation_success_roundtrip F e \<longleftrightarrow>
     node_success_roundtrip F e RC_NodeObservation (Pay_NodeObservation Observe_ResourceUsage) (codec_NodeObservationResponse F)
         (ObserveR_ResourceUsage ''node-1'' usage_45)"

definition test_node_version_success_roundtrip :: "format \<Rightarrow> IoError \<Rightarrow> bool" where
  "test_node_version_success_roundtrip F e \<longleftrightarrow>
     node_success_roundtrip F e RC_NodeVersion (Pay_NodeVersion (Version_SetOsVersion ''22.04'')) (codec_NodeVersionResponse F)
         VersionR_Done"

lemma success_roundtrip_tests_pass:
  assumes "lawful_format F"
  shows "test_node_service_success_roundtrip F e"
    "test_node_network_interface_success_roundtrip F e"
    "test_node_hostname_success_roundtrip F e"
    "test_node_time_sync_success_roundtrip F e"
    "test_node_time_sync_status_success_roundtrip F e"
    "test_node_logging_success_roundtrip F e"
    "test_node_remote_access_success_roundtrip F e"
    "test_node_power_success_roundtrip F e"
    "test_node_observation_success_roundtrip F e"
    "test_node_version_success_roundtrip F e"
  using assms
  by (simp_all add: node_success_roundtrip_def request_frame_def usage_45_def fit_rules lawful_rules
      test_node_service_success_roundtrip_def
      test_node_network_interface_success_roundtrip_def
      test_node_hostname_success_roundtrip_def
      test_node_time_sync_success_roundtrip_def
      test_node_time_sync_status_success_roundtrip_def
      test_node_logging_success_roundtrip_def
      test_node_remote_access_success_roundtrip_def
      test_node_power_success_roundtrip_def
      test_node_observation_success_roundtrip_def
      test_node_version_success_roundtrip_def)

subsection \<open>A handler of every family\<close>

text \<open>The tests' timestamp is 2026-01-02T03:04:05.123456789Z.\<close>

definition enroll_material :: BootstrapMaterial where
  "enroll_material =
     \<lparr>bm_role_id = ''sensor-installer'', bm_wrapped_secret_id = ''s.9f3c1b'',
      bm_ca_anchor = [0x30, 0x82, 0x01, 0x0a], bm_expires_at = Timestamp 1767323045123456789,
      bm_bootstrap_artifact =
        str_bytes (''{'' @ [CHR 0x22] @ ''registration_id'' @ [CHR 0x22] @ '':'' @ [CHR 0x22]
          @ ''sensor-7f2a'' @ [CHR 0x22] @ ''}'')\<rparr>"

definition enroll_register :: NodeEnrollRequest where
  "enroll_register = Enroll_Register
     \<lparr>rg_service_name = ''sensor'', rg_delivery_mode = Delivery_RemoteBootstrap, rg_host = ''host01'',
      rg_instance = Some 1,
      rg_spec = \<lparr>svc_component = ''sensor'', svc_service_name = ''sensor'',
                 svc_reload = ReloadHook ''reload-sensor'', svc_cert_group = Some (CertGroup ''internal'')\<rparr>,
      rg_wrap_ttl = \<lparr>secs = 10 * 60, nanos = 0\<rparr>, rg_idempotency_key = ''b6f0''\<rparr>"

definition enroll_deregister :: NodeEnrollRequest where
  "enroll_deregister = Enroll_Deregister ''sensor'' ''host01'' (Some 1) ''b6f0''"

fun enroll_response :: "NodeEnrollRequest \<Rightarrow> NodeEnrollResponse" where
  "enroll_response (Enroll_Register _) = EnrollR_Material enroll_material"
| "enroll_response (Enroll_Deregister _ _ _ _) = EnrollR_Done"

definition usage_10 :: ResourceUsage where
  "usage_10 = \<lparr>ru_cpu_usage = 1092616192, ru_total_memory = 8000000000, ru_used_memory = 4000000000,
     ru_disk_used_bytes = 50000000000, ru_disk_available_bytes = 200000000000\<rparr>"

text \<open>The tests' struct \<open>NodeHandler\<close>.\<close>

definition test_NodeHandler :: "unit Handler" where
  "test_NodeHandler = Handler_default
     \<lparr>nh_service := \<lambda>_ h. (Ok (ServiceR_Status True), h),
      nh_network_interface := \<lambda>_ h. (Ok (InterfaceR_List [''eth0'']), h),
      nh_hostname := \<lambda>_ h. (Ok (HostnameR_Get ''node-1''), h),
      nh_time_sync := \<lambda>_ h. (Ok TimeSyncR_Done, h),
      nh_logging := \<lambda>_ h. (Ok LoggingR_Done, h),
      nh_remote_access := \<lambda>_ h. (Ok RemoteAccessR_Done, h),
      nh_power := \<lambda>_ h. (Ok PowerR_Initiated, h),
      nh_observation := \<lambda>_ h. (Ok (ObserveR_ResourceUsage ''node-1'' usage_10), h),
      nh_version := \<lambda>_ h. (Ok (VersionR_Get ''22.04'' ''1.0.0''), h),
      nh_enroll := \<lambda>req h. (Ok (enroll_response req), h)\<rparr>"

definition node_handler_roundtrip ::
  "format \<Rightarrow> IoError \<Rightarrow> client_RequestCode \<Rightarrow> manager_payload \<Rightarrow> 'a codec \<Rightarrow> 'a \<Rightarrow> bool" where
  "node_handler_roundtrip F e code req resp expected \<longleftrightarrow>
     unary_answer F e resp (served F e test_NodeHandler () [request_frame F code req]) = Some (Ok (Ok expected))"

definition test_node_service_handler_dispatch :: "format \<Rightarrow> IoError \<Rightarrow> bool" where
  "test_node_service_handler_dispatch F e \<longleftrightarrow>
     node_handler_roundtrip F e RC_NodeService (Pay_NodeService (Service_Status ''nginx'')) (codec_NodeServiceResponse F)
       (ServiceR_Status True)"

definition test_node_network_interface_handler_dispatch :: "format \<Rightarrow> IoError \<Rightarrow> bool" where
  "test_node_network_interface_handler_dispatch F e \<longleftrightarrow>
     node_handler_roundtrip F e RC_NodeNetworkInterface (Pay_NodeNetworkInterface (Interface_List (Some ''eth''))) (codec_NodeNetworkInterfaceResponse F)
       (InterfaceR_List [''eth0''])"

definition test_node_hostname_handler_dispatch :: "format \<Rightarrow> IoError \<Rightarrow> bool" where
  "test_node_hostname_handler_dispatch F e \<longleftrightarrow>
     node_handler_roundtrip F e RC_NodeHostname (Pay_NodeHostname Hostname_Get) (codec_NodeHostnameResponse F)
       (HostnameR_Get ''node-1'')"

definition test_node_time_sync_handler_dispatch :: "format \<Rightarrow> IoError \<Rightarrow> bool" where
  "test_node_time_sync_handler_dispatch F e \<longleftrightarrow>
     node_handler_roundtrip F e RC_NodeTimeSync (Pay_NodeTimeSync (TimeSync_Set [''0.pool.ntp.org''])) (codec_NodeTimeSyncResponse F)
       TimeSyncR_Done"

definition test_node_logging_handler_dispatch :: "format \<Rightarrow> IoError \<Rightarrow> bool" where
  "test_node_logging_handler_dispatch F e \<longleftrightarrow>
     node_handler_roundtrip F e RC_NodeLogging (Pay_NodeLogging Logging_Get) (codec_NodeLoggingResponse F)
       LoggingR_Done"

definition test_node_remote_access_handler_dispatch :: "format \<Rightarrow> IoError \<Rightarrow> bool" where
  "test_node_remote_access_handler_dispatch F e \<longleftrightarrow>
     node_handler_roundtrip F e RC_NodeRemoteAccess (Pay_NodeRemoteAccess (RemoteAccess_Set \<lparr>nra_port = 22\<rparr>)) (codec_NodeRemoteAccessResponse F)
       RemoteAccessR_Done"

definition test_node_power_handler_dispatch :: "format \<Rightarrow> IoError \<Rightarrow> bool" where
  "test_node_power_handler_dispatch F e \<longleftrightarrow>
     node_handler_roundtrip F e RC_NodePower (Pay_NodePower Power_GracefulReboot) (codec_NodePowerResponse F)
       PowerR_Initiated"

definition test_node_observation_handler_dispatch :: "format \<Rightarrow> IoError \<Rightarrow> bool" where
  "test_node_observation_handler_dispatch F e \<longleftrightarrow>
     node_handler_roundtrip F e RC_NodeObservation (Pay_NodeObservation Observe_ResourceUsage) (codec_NodeObservationResponse F)
       (ObserveR_ResourceUsage ''node-1'' usage_10)"

definition test_node_version_handler_dispatch :: "format \<Rightarrow> IoError \<Rightarrow> bool" where
  "test_node_version_handler_dispatch F e \<longleftrightarrow>
     node_handler_roundtrip F e RC_NodeVersion (Pay_NodeVersion (Version_SetOsVersion ''22.04'')) (codec_NodeVersionResponse F)
       (VersionR_Get ''22.04'' ''1.0.0'')"

definition test_node_enroll_register_roundtrip :: "format \<Rightarrow> IoError \<Rightarrow> bool" where
  "test_node_enroll_register_roundtrip F e \<longleftrightarrow>
     node_handler_roundtrip F e RC_NodeEnroll (Pay_NodeEnroll enroll_register) (codec_NodeEnrollResponse F)
       (EnrollR_Material enroll_material)"

definition test_node_enroll_deregister_roundtrip :: "format \<Rightarrow> IoError \<Rightarrow> bool" where
  "test_node_enroll_deregister_roundtrip F e \<longleftrightarrow>
     node_handler_roundtrip F e RC_NodeEnroll (Pay_NodeEnroll enroll_deregister) (codec_NodeEnrollResponse F)
       EnrollR_Done"

text \<open>The material's expiry has to be a timestamp the format takes.\<close>

definition dates_enrollment :: "format \<Rightarrow> bool" where
  "dates_enrollment F \<longleftrightarrow> fm_valid_timestamp F (bm_expires_at enroll_material)"

lemma enroll_fits:
  "dates_enrollment F \<Longrightarrow> fits (codec_BootstrapMaterial F) enroll_material"
  "fits (codec_NodeEnrollRequest F) enroll_register" "fits (codec_NodeEnrollRequest F) enroll_deregister"
  by (simp_all add: dates_enrollment_def enroll_material_def enroll_register_def enroll_deregister_def str_bytes_def
      fit_rules)

lemmas node_handler_simps = node_handler_roundtrip_def test_NodeHandler_def default_simps usage_10_def

lemma handler_dispatch_tests_pass:
  assumes "lawful_format F"
  shows "test_node_service_handler_dispatch F e"
    "test_node_network_interface_handler_dispatch F e"
    "test_node_hostname_handler_dispatch F e"
    "test_node_time_sync_handler_dispatch F e"
    "test_node_logging_handler_dispatch F e"
    "test_node_remote_access_handler_dispatch F e"
    "test_node_power_handler_dispatch F e"
    "test_node_observation_handler_dispatch F e"
    "test_node_version_handler_dispatch F e"
  using assms
  by (simp_all add: node_handler_simps run_rules
      test_node_service_handler_dispatch_def
      test_node_network_interface_handler_dispatch_def
      test_node_hostname_handler_dispatch_def
      test_node_time_sync_handler_dispatch_def
      test_node_logging_handler_dispatch_def
      test_node_remote_access_handler_dispatch_def
      test_node_power_handler_dispatch_def
      test_node_observation_handler_dispatch_def
      test_node_version_handler_dispatch_def)

lemma enroll_dispatch_tests_pass:
  assumes "lawful_format F" and "dates_enrollment F"
  shows "test_node_enroll_register_roundtrip F e" "test_node_enroll_deregister_roundtrip F e"
  using assms enroll_fits [of F]
  by (simp_all add: test_node_enroll_register_roundtrip_def test_node_enroll_deregister_roundtrip_def
      node_handler_simps run_rules)
    (simp_all add: enroll_register_def enroll_deregister_def fit_rules lawful_rules)

subsection \<open>Legacy codes reach the grouped methods\<close>

definition init_process :: Process where
  "init_process = \<lparr>proc_user = ''root'', proc_cpu_usage = 1065353216, proc_mem_usage = 4611686018427387904,
     proc_start_time = 100, proc_command = ''init''\<rparr>"

definition usage_50 :: ResourceUsage where
  "usage_50 = \<lparr>ru_cpu_usage = 1112014848, ru_total_memory = 16000, ru_used_memory = 8000,
     ru_disk_used_bytes = 100000, ru_disk_available_bytes = 400000\<rparr>"

fun observe_node :: "NodeObservationRequest \<Rightarrow> (unit, NodeObservationResponse) action" where
  "observe_node Observe_ProcessList h = (Ok (ObserveR_ProcessList [init_process]), h)"
| "observe_node Observe_ResourceUsage h = (Ok (ObserveR_ResourceUsage ''node-1'' usage_50), h)"
| "observe_node Observe_Uptime h = (Err ''not supported'', h)"

definition NodeOnlyHandler :: "unit Handler" where
  "NodeOnlyHandler = Handler_default
     \<lparr>nh_power := \<lambda>_ h. (Ok PowerR_Initiated, h), nh_observation := observe_node\<rparr>"

definition flat_compat_roundtrip ::
  "format \<Rightarrow> IoError \<Rightarrow> client_RequestCode \<Rightarrow> manager_payload \<Rightarrow> 'a codec \<Rightarrow> 'a \<Rightarrow> bool" where
  "flat_compat_roundtrip F e code req resp expected \<longleftrightarrow>
     unary_answer F e resp (served F e NodeOnlyHandler () [request_frame F code req]) = Some (Ok (Ok expected))"

definition test_flat_reboot_routes_through_node_power :: "format \<Rightarrow> IoError \<Rightarrow> bool" where
  "test_flat_reboot_routes_through_node_power F e \<longleftrightarrow> flat_compat_roundtrip F e RC_Reboot Pay_Unit unit_codec ()"

definition test_flat_shutdown_routes_through_node_power :: "format \<Rightarrow> IoError \<Rightarrow> bool" where
  "test_flat_shutdown_routes_through_node_power F e \<longleftrightarrow>
     flat_compat_roundtrip F e RC_Shutdown Pay_Unit unit_codec ()"

definition test_flat_process_list_routes_through_node_observation :: "format \<Rightarrow> IoError \<Rightarrow> bool" where
  "test_flat_process_list_routes_through_node_observation F e \<longleftrightarrow>
     flat_compat_roundtrip F e RC_ProcessList Pay_Unit (list_codec (fm_len F) (codec_Process F)) [init_process]"

definition test_flat_resource_usage_routes_through_node_observation :: "format \<Rightarrow> IoError \<Rightarrow> bool" where
  "test_flat_resource_usage_routes_through_node_observation F e \<longleftrightarrow>
     flat_compat_roundtrip F e RC_ResourceUsage Pay_Unit (pair_codec (codec_str F) (codec_ResourceUsage F))
       (''node-1'', usage_50)"

lemma flat_compat_tests_pass:
  assumes "lawful_format F"
  shows "test_flat_reboot_routes_through_node_power F e" "test_flat_shutdown_routes_through_node_power F e"
    "test_flat_process_list_routes_through_node_observation F e"
    "test_flat_resource_usage_routes_through_node_observation F e"
  using assms
  by (simp_all add: test_flat_reboot_routes_through_node_power_def test_flat_shutdown_routes_through_node_power_def
      test_flat_process_list_routes_through_node_observation_def
      test_flat_resource_usage_routes_through_node_observation_def flat_compat_roundtrip_def NodeOnlyHandler_def
      run_rules legacy_process_list_def legacy_resource_usage_def init_process_def usage_50_def)

subsection \<open>Grouped methods default to the flat ones\<close>

definition flat_process :: Process where
  "flat_process = \<lparr>proc_user = ''flat-user'', proc_cpu_usage = 1084227584, proc_mem_usage = 4621819117588971520,
     proc_start_time = 200, proc_command = ''flat-cmd''\<rparr>"

definition usage_25 :: ResourceUsage where
  "usage_25 = \<lparr>ru_cpu_usage = 1103626240, ru_total_memory = 1000, ru_used_memory = 500,
     ru_disk_used_bytes = 10000, ru_disk_available_bytes = 90000\<rparr>"

definition FlatOnlyHandler :: "unit Handler" where
  "FlatOnlyHandler = inherit_grouped (Handler_default
     \<lparr>h_reboot := \<lambda>h. (Ok (), h), h_shutdown := \<lambda>h. (Ok (), h),
      h_process_list := \<lambda>h. (Ok [flat_process], h),
      h_resource_usage := \<lambda>h. (Ok (''flat-host'', usage_25), h)\<rparr>)"

definition flat_delegation_roundtrip ::
  "format \<Rightarrow> IoError \<Rightarrow> client_RequestCode \<Rightarrow> manager_payload \<Rightarrow> 'a codec \<Rightarrow> 'a \<Rightarrow> bool" where
  "flat_delegation_roundtrip F e code req resp expected \<longleftrightarrow>
     unary_answer F e resp (served F e FlatOnlyHandler () [request_frame F code req]) = Some (Ok (Ok expected))"

text \<open>No answer at all: the 200 milliseconds the test waits for one pass.\<close>

definition node_power_immediate_no_response_handle :: "format \<Rightarrow> IoError \<Rightarrow> NodePowerRequest \<Rightarrow> bool" where
  "node_power_immediate_no_response_handle F e req \<longleftrightarrow>
     served F e FlatOnlyHandler () [request_frame F RC_NodePower (Pay_NodePower req)] = Some (Ok (), (), [])"

definition test_node_power_reboot_delegates_to_flat :: "format \<Rightarrow> IoError \<Rightarrow> bool" where
  "test_node_power_reboot_delegates_to_flat F e \<longleftrightarrow> node_power_immediate_no_response_handle F e Power_Reboot"

definition test_node_power_shutdown_delegates_to_flat :: "format \<Rightarrow> IoError \<Rightarrow> bool" where
  "test_node_power_shutdown_delegates_to_flat F e \<longleftrightarrow> node_power_immediate_no_response_handle F e Power_Shutdown"

definition test_node_observation_process_list_delegates_to_flat :: "format \<Rightarrow> IoError \<Rightarrow> bool" where
  "test_node_observation_process_list_delegates_to_flat F e \<longleftrightarrow>
     flat_delegation_roundtrip F e RC_NodeObservation (Pay_NodeObservation Observe_ProcessList)
       (codec_NodeObservationResponse F) (ObserveR_ProcessList [flat_process])"

definition test_node_observation_resource_usage_delegates_to_flat :: "format \<Rightarrow> IoError \<Rightarrow> bool" where
  "test_node_observation_resource_usage_delegates_to_flat F e \<longleftrightarrow>
     flat_delegation_roundtrip F e RC_NodeObservation (Pay_NodeObservation Observe_ResourceUsage)
       (codec_NodeObservationResponse F) (ObserveR_ResourceUsage ''flat-host'' usage_25)"

lemma flat_delegation_tests_pass:
  assumes "lawful_format F"
  shows "test_node_power_reboot_delegates_to_flat F e" "test_node_power_shutdown_delegates_to_flat F e"
    "test_node_observation_process_list_delegates_to_flat F e"
    "test_node_observation_resource_usage_delegates_to_flat F e"
  using assms
  by (simp_all add: test_node_power_reboot_delegates_to_flat_def test_node_power_shutdown_delegates_to_flat_def
      test_node_observation_process_list_delegates_to_flat_def
      test_node_observation_resource_usage_delegates_to_flat_def node_power_immediate_no_response_handle_def
      flat_delegation_roundtrip_def FlatOnlyHandler_def inherit_grouped_def run_rules flat_process_def usage_25_def)

subsection \<open>The blanket implementation\<close>

definition BlanketTestHandler :: "unit Handler" where
  "BlanketTestHandler = Handler_default
     \<lparr>nh_service := \<lambda>_ h. (Ok (ServiceR_Status True), h), nh_power := \<lambda>_ h. (Ok PowerR_Initiated, h)\<rparr>"

definition test_blanket_node_handler_forwards_to_handler :: bool where
  "test_blanket_node_handler_forwards_to_handler \<longleftrightarrow>
     fst (nh_service (as_node_handler BlanketTestHandler) (Service_Status ''test'') ()) = Ok (ServiceR_Status True)
     \<and> fst (nh_power (as_node_handler BlanketTestHandler) Power_Reboot ()) = Ok PowerR_Initiated"

definition test_blanket_node_handler_defaults_not_supported :: bool where
  "test_blanket_node_handler_defaults_not_supported \<longleftrightarrow>
     fst (nh_hostname (as_node_handler BlanketTestHandler) Hostname_Get ()) = Err ''not supported''
     \<and> fst (nh_version (as_node_handler BlanketTestHandler) (Version_SetOsVersion ''1.0'') ()) = Err ''not supported''"

lemma blanket_tests_pass:
  "test_blanket_node_handler_forwards_to_handler" "test_blanket_node_handler_defaults_not_supported"
  by (simp_all add: test_blanket_node_handler_forwards_to_handler_def
      test_blanket_node_handler_defaults_not_supported_def BlanketTestHandler_def default_simps)

definition test_unsupported_handler_preserves_wire_error :: "format \<Rightarrow> IoError \<Rightarrow> bool" where
  "test_unsupported_handler_preserves_wire_error F e \<longleftrightarrow>
     unary_answer F e (codec_NodePowerResponse F)
       (served F e NoopHandler () [request_frame F RC_NodePower (Pay_NodePower Power_GracefulReboot)])
     = Some (Ok (Err ''not supported''))"

subsection \<open>A node handler that is no handler\<close>

fun standalone_hostname :: "NodeHostnameRequest \<Rightarrow> (unit, NodeHostnameResponse) action" where
  "standalone_hostname Hostname_Get h = (Ok (HostnameR_Get ''standalone-node''), h)"
| "standalone_hostname (Hostname_Set hostname) h = (Ok HostnameR_Done, h)"

definition StandaloneNodeHandler :: "unit NodeHandler" where
  "StandaloneNodeHandler = NodeHandler_default
     \<lparr>nh_hostname := standalone_hostname, nh_power := \<lambda>_ h. (Ok PowerR_Initiated, h),
      nh_enroll := \<lambda>req h. (Ok (enroll_response req), h)\<rparr>"

definition handle_node_roundtrip ::
  "format \<Rightarrow> IoError \<Rightarrow> client_RequestCode \<Rightarrow> manager_payload \<Rightarrow> 'a codec \<Rightarrow> 'a \<Rightarrow> bool" where
  "handle_node_roundtrip F e code req resp expected \<longleftrightarrow>
     unary_answer F e resp (served_node F e StandaloneNodeHandler () [request_frame F code req])
       = Some (Ok (Ok expected))"

definition test_handle_node_hostname_dispatch :: "format \<Rightarrow> IoError \<Rightarrow> bool" where
  "test_handle_node_hostname_dispatch F e \<longleftrightarrow>
     handle_node_roundtrip F e RC_NodeHostname (Pay_NodeHostname Hostname_Get) (codec_NodeHostnameResponse F)
       (HostnameR_Get ''standalone-node'')"

definition test_handle_node_power_dispatch :: "format \<Rightarrow> IoError \<Rightarrow> bool" where
  "test_handle_node_power_dispatch F e \<longleftrightarrow>
     handle_node_roundtrip F e RC_NodePower (Pay_NodePower Power_GracefulReboot) (codec_NodePowerResponse F)
       PowerR_Initiated"

definition node_power_immediate_no_response_handle_node :: "format \<Rightarrow> IoError \<Rightarrow> NodePowerRequest \<Rightarrow> bool" where
  "node_power_immediate_no_response_handle_node F e req \<longleftrightarrow>
     served_node F e StandaloneNodeHandler () [request_frame F RC_NodePower (Pay_NodePower req)]
       = Some (Ok (), (), [])"

definition test_handle_node_power_reboot_no_response :: "format \<Rightarrow> IoError \<Rightarrow> bool" where
  "test_handle_node_power_reboot_no_response F e \<longleftrightarrow> node_power_immediate_no_response_handle_node F e Power_Reboot"

definition test_handle_node_power_shutdown_no_response :: "format \<Rightarrow> IoError \<Rightarrow> bool" where
  "test_handle_node_power_shutdown_no_response F e \<longleftrightarrow>
     node_power_immediate_no_response_handle_node F e Power_Shutdown"

definition test_handle_node_default_not_supported :: "format \<Rightarrow> IoError \<Rightarrow> bool" where
  "test_handle_node_default_not_supported F e \<longleftrightarrow>
     unary_answer F e (codec_NodeServiceResponse F)
       (served_node F e StandaloneNodeHandler ()
          [request_frame F RC_NodeService (Pay_NodeService (Service_Status ''test''))])
     = Some (Ok (Err ''not supported''))"

text \<open>\<open>str::contains\<close>.\<close>

fun contains :: "string \<Rightarrow> string \<Rightarrow> bool" where
  "contains [] sub \<longleftrightarrow> sub = []"
| "contains (c # s) sub \<longleftrightarrow> take (length sub) (c # s) = sub \<or> contains s sub"

lemma contains_front: "contains (b @ c) b"
  by (cases "b @ c") (simp_all add: append_eq_conv_conj [symmetric], metis append_eq_conv_conj)

lemma contains_middle: "contains (a @ b @ c) b"
  by (induction a) (simp_all add: contains_front)

definition test_handle_node_rejects_non_node_codes :: "format \<Rightarrow> IoError \<Rightarrow> bool" where
  "test_handle_node_rejects_non_node_codes F e \<longleftrightarrow>
     (case unary_answer F e unit_codec
             (served_node F e StandaloneNodeHandler () [request_frame F RC_DnsStart Pay_Unit]) of
        Some (Ok (Err m)) \<Rightarrow> contains m ''unknown request code''
      | _ \<Rightarrow> False)"

definition test_handle_node_rejects_unsupervised_engine_codes :: "format \<Rightarrow> IoError \<Rightarrow> bool" where
  "test_handle_node_rejects_unsupervised_engine_codes F e \<longleftrightarrow>
     (case served_node F e StandaloneNodeHandler ()
             [request_frame F RC_TrainModel (Pay_TrainModel (train_request '''')),
              request_frame F RC_CloneModel (Pay_CloneModel (clone_request False)),
              request_frame F RC_CancelRun (Pay_U32 7), request_frame F RC_RunDetectorOnce (Pay_I32 1)] of
        Some (res, _, answers) \<Rightarrow>
          res = Ok () \<and> map (read_answer F e unit_codec) answers
            = map (\<lambda>code. Ok (Err (''unknown request code: '' @ show_nat code))) [23, 24, 25, 26]
      | None \<Rightarrow> False)"

definition test_handle_node_enroll_register_roundtrip :: "format \<Rightarrow> IoError \<Rightarrow> bool" where
  "test_handle_node_enroll_register_roundtrip F e \<longleftrightarrow>
     handle_node_roundtrip F e RC_NodeEnroll (Pay_NodeEnroll enroll_register) (codec_NodeEnrollResponse F)
       (EnrollR_Material enroll_material)"

definition test_handle_node_enroll_deregister_roundtrip :: "format \<Rightarrow> IoError \<Rightarrow> bool" where
  "test_handle_node_enroll_deregister_roundtrip F e \<longleftrightarrow>
     handle_node_roundtrip F e RC_NodeEnroll (Pay_NodeEnroll enroll_deregister) (codec_NodeEnrollResponse F)
       EnrollR_Done"

lemmas standalone_simps = handle_node_roundtrip_def StandaloneNodeHandler_def NodeHandler_default_def
  not_supported_def node_power_immediate_no_response_handle_node_def

lemma handle_node_tests_pass:
  assumes "lawful_format F"
  shows "test_unsupported_handler_preserves_wire_error F e"
    "test_handle_node_hostname_dispatch F e" "test_handle_node_power_dispatch F e"
    "test_handle_node_power_reboot_no_response F e" "test_handle_node_power_shutdown_no_response F e"
    "test_handle_node_default_not_supported F e"
  using assms
  by (simp_all add: standalone_simps default_simps run_rules test_unsupported_handler_preserves_wire_error_def
      test_handle_node_hostname_dispatch_def test_handle_node_power_dispatch_def
      test_handle_node_power_reboot_no_response_def test_handle_node_power_shutdown_no_response_def
      test_handle_node_default_not_supported_def)

lemma unknown_message_contains: "contains (unknown_code_message code) ''unknown request code''"
  using contains_middle [of "[]" "''unknown request code''"] by (simp add: unknown_code_message_def)

lemma handle_node_rejection_tests_pass:
  assumes "lawful_format F"
  shows "test_handle_node_rejects_non_node_codes F e"
    "test_handle_node_rejects_unsupervised_engine_codes F e"
  using assms
  by (simp_all add: test_handle_node_rejects_non_node_codes_def test_handle_node_rejects_unsupervised_engine_codes_def
      train_request_def clone_request_def run_rules unknown_message_contains)
    (simp_all add: unknown_code_message_def)

lemma handle_node_enroll_tests_pass:
  assumes "lawful_format F" and "dates_enrollment F"
  shows "test_handle_node_enroll_register_roundtrip F e" "test_handle_node_enroll_deregister_roundtrip F e"
  using assms enroll_fits [of F]
  by (simp_all add: test_handle_node_enroll_register_roundtrip_def test_handle_node_enroll_deregister_roundtrip_def
      standalone_simps run_rules)
    (simp_all add: enroll_register_def enroll_deregister_def fit_rules lawful_rules)

subsection \<open>Codes nobody assigned\<close>

definition UNASSIGNED :: u32 where "UNASSIGNED = 111"

definition test_handle_unassigned_code_is_unknown :: "format \<Rightarrow> IoError \<Rightarrow> bool" where
  "test_handle_unassigned_code_is_unknown F e \<longleftrightarrow>
     client_code_from UNASSIGNED = RC_Unknown
     \<and> unary_answer F e unit_codec (served F e NoopHandler () [Request_Frame UNASSIGNED (order_bytes F Pay_Unit)])
       = Some (Ok (Err ''unknown request code: 111''))"

definition test_handle_node_unassigned_code_is_unknown :: "format \<Rightarrow> IoError \<Rightarrow> bool" where
  "test_handle_node_unassigned_code_is_unknown F e \<longleftrightarrow>
     unary_answer F e unit_codec
       (served_node F e StandaloneNodeHandler () [Request_Frame UNASSIGNED (order_bytes F Pay_Unit)])
     = Some (Ok (Err ''unknown request code: 111''))"

lemma unassigned_message: "unknown_code_message 111 = ''unknown request code: 111''"
  unfolding unknown_code_message_def by code_simp

lemma unassigned_code_tests_pass:
  assumes "lawful_format F"
  shows "test_handle_unassigned_code_is_unknown F e" "test_handle_node_unassigned_code_is_unknown F e"
  using assms
  by (simp_all add: test_handle_unassigned_code_is_unknown_def test_handle_node_unassigned_code_is_unknown_def
      UNASSIGNED_def run_rules unassigned_message)

subsection \<open>Enrollment without a registrar\<close>

definition BusyRegistrar :: "unit Handler" where
  "BusyRegistrar = Handler_default
     \<lparr>nh_enroll := \<lambda>_ h. (Ok (EnrollR_Failed (EnrollErr_RegistrarBusy \<lparr>secs = 30, nanos = 0\<rparr>)), h)\<rparr>"

definition test_node_enroll_typed_failure_rides_the_response :: "format \<Rightarrow> IoError \<Rightarrow> bool" where
  "test_node_enroll_typed_failure_rides_the_response F e \<longleftrightarrow>
     (case unary_answer F e (codec_NodeEnrollResponse F)
             (served F e BusyRegistrar () [request_frame F RC_NodeEnroll (Pay_NodeEnroll enroll_register)]) of
        Some (Ok (Ok resp)) \<Rightarrow>
          NodeEnrollResponse_retry_after resp = Some \<lparr>secs = 30, nanos = 0\<rparr>
          \<and> \<not> NodeEnrollResponse_leaves_teardown_owed resp
          \<and> (case resp of EnrollR_Failed (EnrollErr_RegistrarBusy _) \<Rightarrow> True | _ \<Rightarrow> False)
      | _ \<Rightarrow> False)"

definition test_node_enroll_default_not_supported :: "format \<Rightarrow> IoError \<Rightarrow> bool" where
  "test_node_enroll_default_not_supported F e \<longleftrightarrow>
     unary_answer F e (codec_NodeEnrollResponse F)
       (served F e NoopHandler () [request_frame F RC_NodeEnroll (Pay_NodeEnroll enroll_deregister)])
     = Some (Ok (Err ''not supported''))"

definition BareNodeHandler :: "unit NodeHandler" where "BareNodeHandler = NodeHandler_default"

definition test_handle_node_enroll_default_not_supported :: "format \<Rightarrow> IoError \<Rightarrow> bool" where
  "test_handle_node_enroll_default_not_supported F e \<longleftrightarrow>
     unary_answer F e (codec_NodeEnrollResponse F)
       (served_node F e BareNodeHandler () [request_frame F RC_NodeEnroll (Pay_NodeEnroll enroll_register)])
     = Some (Ok (Err ''not supported''))"

lemma enroll_default_tests_pass:
  assumes "lawful_format F"
  shows "test_node_enroll_typed_failure_rides_the_response F e" "test_node_enroll_default_not_supported F e"
    "test_handle_node_enroll_default_not_supported F e"
  using assms
  by (simp_all add: test_node_enroll_typed_failure_rides_the_response_def test_node_enroll_default_not_supported_def
      test_handle_node_enroll_default_not_supported_def BusyRegistrar_def BareNodeHandler_def default_simps
      enroll_register_def enroll_deregister_def run_rules)

end
