(* ===== verification/Install_Tests.thy ===== *)
theory Install_Tests
  imports Request_Tests
begin

text \<open>
  The tests of \<open>src/src/request.rs\<close> for the package family and for undecodable arguments: the
  unary package requests, the install exchange on every verdict and on a payload that is whole,
  short, reset or too long, what is drained of it, and the error frame that answers arguments
  that cannot be decoded. A test handler reads the payload in a loop until the reader says it is
  complete; a payload of \<open>size\<close> bytes is at most \<open>size\<close> chunks that are not empty, which is how
  often the loop is unrolled.
\<close>

subsection \<open>Fixtures\<close>

definition install_request :: "string \<Rightarrow> u64 \<Rightarrow> InstallFields" where
  "install_request target sz =
     \<lparr>in_target = target, in_instance = Some 1, in_version = ''1.2.3'', in_commit = ''0123456789abcdef'',
      in_size = sz, in_idempotency_key = ''idem-1'', in_bootstrap_material = None,
      in_on_failure = OnFailure_Rollback, in_bind_addrs = None, in_config_template = None,
      in_privilege_profile = None\<rparr>"

definition installed_pair :: "InstalledPackage list" where
  "installed_pair =
     (let state = \<lparr>ps_version = ''1.2.3'', ps_commit = ''0123456789abcdef'', ps_lifecycle = Life_Running,
                   ps_bound_addrs = [], ps_privilege_profile = None\<rparr>
      in [\<lparr>ip_target = ''sensor'', ip_instance = Some 1, ip_state = state\<rparr>,
          \<lparr>ip_target = ''sensor'', ip_instance = Some 2, ip_state = state\<rparr>])"

definition host_ports :: "HostPort list" where
  "host_ports =
     [\<lparr>hp_transport = Transport_Tcp, hp_port = 8442\<rparr>, \<lparr>hp_transport = Transport_Udp, hp_port = 8442\<rparr>,
      \<lparr>hp_transport = Transport_Tcp, hp_port = 38371\<rparr>]"

definition stopped_state :: PackageState where
  "stopped_state = \<lparr>ps_version = ''1.2.3'', ps_commit = ''0123456789abcdef'', ps_lifecycle = Life_Stopped,
     ps_bound_addrs = [], ps_privilege_profile = None\<rparr>"

definition payload :: "nat \<Rightarrow> bytes" where
  "payload len = map (\<lambda>i. of_nat (i mod 251)) [0 ..< len]"

text \<open>\<open>slice::chunks\<close>.\<close>

fun chunks_of :: "nat \<Rightarrow> bytes \<Rightarrow> bytes list" where
  "chunks_of n bs = (if n = 0 \<or> bs = [] then [] else take n bs # chunks_of n (drop n bs))"

declare chunks_of.simps [simp del]

lemma chunks_of_whole: "0 < n \<Longrightarrow> concat (chunks_of n bs) = bs" "[] \<notin> set (chunks_of n bs)"
proof -
  show "0 < n \<Longrightarrow> concat (chunks_of n bs) = bs"
  proof (induction n bs rule: chunks_of.induct)
    case (1 n bs)
    then show ?case by (subst chunks_of.simps) simp
  qed
  show "[] \<notin> set (chunks_of n bs)"
  proof (induction n bs rule: chunks_of.induct)
    case (1 n bs)
    then show ?case by (subst chunks_of.simps) auto
  qed
qed

lemma length_payload [simp]: "length (payload n) = n"
  by (simp add: payload_def)

lemma payload_Nil [simp]: "payload n = [] \<longleftrightarrow> n = 0" "[] = payload n \<longleftrightarrow> n = 0"
  using length_payload [of n] by (metis length_0_conv)+

lemma few_chunks: "[] \<notin> set cs \<Longrightarrow> length cs \<le> length (concat cs)"
proof (induction cs)
  case (Cons c cs)
  then show ?case by (cases c) auto
qed simp

subsection \<open>The package handler\<close>

text \<open>
  The loop of the install methods, with at most \<open>n\<close> calls of the reader, and what follows it:
  the text of the error or the bytes.
\<close>

primrec read_payload :: "nat \<Rightarrow> bytes \<Rightarrow> (string + bytes \<Rightarrow> 'a package_prog) \<Rightarrow> 'a package_prog" where
  "read_payload 0 acc k = k (Err ''the payload has more chunks than bytes'')"
| "read_payload (Suc n) acc k = NextChunk (\<lambda>res. case res of
     Err e \<Rightarrow> k (Err (''failed to read the payload: '' @ IoError_to_string e))
   | Ok (True, chunk) \<Rightarrow> read_payload n (acc @ chunk) k
   | Ok (False, _) \<Rightarrow> k (Ok acc))"

fun package_unary :: "NodePackageRequest \<Rightarrow> (bytes, NodePackageResponse) action" where
  "package_unary (Package_Remove _ _ _) h = (Ok PackageR_Done, h)"
| "package_unary Package_ListInstalled h = (Ok (PackageR_Installed installed_pair), h)"
| "package_unary (Package_Status _ _) h = (Ok (PackageR_State stopped_state), h)"
| "package_unary Package_ListHostPorts h = (Ok (PackageR_HostPorts host_ports), h)"
| "package_unary (Package_Install _) h = (Err ''an install must never reach the unary method'', h)"

definition verdict_for :: "string \<Rightarrow> InstallPreflight" where
  "verdict_for target =
     (if target = ''already'' then Preflight_AlreadyApplied
      else if target = ''nospace'' then Preflight_InsufficientDiskSpace ''/opt'' 4194304 1024
      else if target = ''bindonupdate'' then Preflight_BindAddrsOnUpdate
      else if target = ''nonamespace'' then Preflight_NamespaceUnconfigured
      else if target = ''noenroll'' then Preflight_EnrollmentUnsupported
      else if target = ''templateonupdate'' then Preflight_ConfigTemplateOnUpdate
      else if target = ''unknowntemplate'' then Preflight_UnknownConfigTemplate ''no-such-template''
      else Preflight_Proceed)"

fun package_preflight :: "NodePackageRequest \<Rightarrow> (bytes, InstallPreflight) action" where
  "package_preflight (Package_Install f) h = (Ok (verdict_for (in_target f)), h)"
| "package_preflight _ h = (Err ''the preflight must only see an install'', h)"

text \<open>The state is what was received. A failed assertion of the method is an error no test expects.\<close>

fun package_install ::
  "NodePackageRequest \<Rightarrow> bytes \<Rightarrow> ((string + NodePackageResponse) \<times> bytes) package_prog" where
  "package_install (Package_Install f) h = read_payload (Suc (unat (in_size f))) [] (\<lambda>res. case res of
     Err m \<Rightarrow> Finish (Err m, h)
   | Ok received \<Rightarrow> AskRemaining (\<lambda>remaining. AskSize (\<lambda>sz.
       if remaining = 0 \<and> length received = unat sz
       then Finish (Ok (if in_target f = ''selfdisrupting'' then PackageR_Accepted else PackageR_Done), received)
       else Finish (Err ''assertion failed'', h))))"
| "package_install _ h = Finish (Err ''the install path must only see an install'', h)"

definition PackageHandler :: "bytes Handler" where
  "PackageHandler = Handler_default
     \<lparr>nh_package := package_unary, nh_package_install_preflight := package_preflight,
      nh_package_install := package_install\<rparr>"

lemma PackageHandler_sel [simp]:
  "nh_package PackageHandler = package_unary" "nh_package_install_preflight PackageHandler = package_preflight"
  "nh_package_install PackageHandler = package_install" "nh_service PackageHandler = (\<lambda>_. not_supported)"
  by (simp_all add: PackageHandler_def default_simps not_supported_def [abs_def])

subsection \<open>Unary package requests\<close>

definition package_unary_roundtrip :: "format \<Rightarrow> IoError \<Rightarrow> NodePackageRequest \<Rightarrow> NodePackageResponse \<Rightarrow> bool" where
  "package_unary_roundtrip F e req expected \<longleftrightarrow>
     unary_answer F e (codec_NodePackageResponse F)
       (served F e PackageHandler [] [request_frame F RC_NodePackage (Pay_NodePackage req)])
     = Some (Ok (Ok expected))"

definition package_unary_roundtrip_handle_node ::
  "format \<Rightarrow> IoError \<Rightarrow> NodePackageRequest \<Rightarrow> NodePackageResponse \<Rightarrow> bool" where
  "package_unary_roundtrip_handle_node F e req expected \<longleftrightarrow>
     unary_answer F e (codec_NodePackageResponse F)
       (served_node F e (as_node_handler PackageHandler) [] [request_frame F RC_NodePackage (Pay_NodePackage req)])
     = Some (Ok (Ok expected))"

definition test_node_package_remove_roundtrip :: "format \<Rightarrow> IoError \<Rightarrow> bool" where
  "test_node_package_remove_roundtrip F e \<longleftrightarrow>
     package_unary_roundtrip F e (Package_Remove ''sensor'' (Some 1) ''idem-1'') PackageR_Done"

definition test_node_package_list_installed_roundtrip :: "format \<Rightarrow> IoError \<Rightarrow> bool" where
  "test_node_package_list_installed_roundtrip F e \<longleftrightarrow>
     package_unary_roundtrip F e Package_ListInstalled (PackageR_Installed installed_pair)"

definition test_node_package_status_roundtrip :: "format \<Rightarrow> IoError \<Rightarrow> bool" where
  "test_node_package_status_roundtrip F e \<longleftrightarrow>
     package_unary_roundtrip F e (Package_Status ''sensor'' (Some 1)) (PackageR_State stopped_state)"

definition test_handle_node_package_remove_roundtrip :: "format \<Rightarrow> IoError \<Rightarrow> bool" where
  "test_handle_node_package_remove_roundtrip F e \<longleftrightarrow>
     package_unary_roundtrip_handle_node F e (Package_Remove ''sensor'' None ''idem-2'') PackageR_Done"

definition test_handle_node_package_list_installed_roundtrip :: "format \<Rightarrow> IoError \<Rightarrow> bool" where
  "test_handle_node_package_list_installed_roundtrip F e \<longleftrightarrow>
     package_unary_roundtrip_handle_node F e Package_ListInstalled (PackageR_Installed installed_pair)"

definition test_handle_node_package_status_roundtrip :: "format \<Rightarrow> IoError \<Rightarrow> bool" where
  "test_handle_node_package_status_roundtrip F e \<longleftrightarrow>
     package_unary_roundtrip_handle_node F e (Package_Status ''sensor'' (Some 7)) (PackageR_State stopped_state)"

definition test_node_package_list_host_ports_roundtrip :: "format \<Rightarrow> IoError \<Rightarrow> bool" where
  "test_node_package_list_host_ports_roundtrip F e \<longleftrightarrow>
     package_unary_roundtrip F e Package_ListHostPorts (PackageR_HostPorts host_ports)"

definition test_handle_node_package_list_host_ports_roundtrip :: "format \<Rightarrow> IoError \<Rightarrow> bool" where
  "test_handle_node_package_list_host_ports_roundtrip F e \<longleftrightarrow>
     package_unary_roundtrip_handle_node F e Package_ListHostPorts (PackageR_HostPorts host_ports)"

definition RefusingHandler :: "unit Handler" where
  "RefusingHandler = Handler_default
     \<lparr>nh_package := \<lambda>_ h. (Ok (PackageR_Failed PkgErr_ObservationUnavailable), h)\<rparr>"

definition test_node_package_list_host_ports_observation_unavailable :: "format \<Rightarrow> IoError \<Rightarrow> bool" where
  "test_node_package_list_host_ports_observation_unavailable F e \<longleftrightarrow>
     (case unary_answer F e (codec_NodePackageResponse F)
             (served F e RefusingHandler () [request_frame F RC_NodePackage (Pay_NodePackage Package_ListHostPorts)]) of
        Some (Ok (Ok resp)) \<Rightarrow> resp = PackageR_Failed PkgErr_ObservationUnavailable
          \<and> NodePackageResponse_active_trust_epoch resp = None
      | _ \<Rightarrow> False)"

definition test_node_package_default_not_supported :: "format \<Rightarrow> IoError \<Rightarrow> bool" where
  "test_node_package_default_not_supported F e \<longleftrightarrow>
     unary_answer F e (codec_NodePackageResponse F)
       (served F e NoopHandler () [request_frame F RC_NodePackage (Pay_NodePackage (Package_Status ''sensor'' (Some 1)))])
     = Some (Ok (Err ''not supported''))"

definition test_handle_node_package_default_not_supported :: "format \<Rightarrow> IoError \<Rightarrow> bool" where
  "test_handle_node_package_default_not_supported F e \<longleftrightarrow>
     unary_answer F e (codec_NodePackageResponse F)
       (served_node F e StandaloneNodeHandler () [request_frame F RC_NodePackage (Pay_NodePackage Package_ListInstalled)])
     = Some (Ok (Err ''not supported''))"

lemmas package_fixtures = installed_pair_def host_ports_def stopped_state_def Let_def

lemma package_unary_tests_pass:
  assumes "lawful_format F"
  shows "test_node_package_remove_roundtrip F e" "test_node_package_list_installed_roundtrip F e"
    "test_node_package_status_roundtrip F e" "test_handle_node_package_remove_roundtrip F e"
    "test_handle_node_package_list_installed_roundtrip F e" "test_handle_node_package_status_roundtrip F e"
    "test_node_package_list_host_ports_roundtrip F e" "test_handle_node_package_list_host_ports_roundtrip F e"
  using assms
  by (simp_all add: test_node_package_remove_roundtrip_def test_node_package_list_installed_roundtrip_def
      test_node_package_status_roundtrip_def test_handle_node_package_remove_roundtrip_def
      test_handle_node_package_list_installed_roundtrip_def test_handle_node_package_status_roundtrip_def
      test_node_package_list_host_ports_roundtrip_def test_handle_node_package_list_host_ports_roundtrip_def
      package_unary_roundtrip_def package_unary_roundtrip_handle_node_def run_rules package_fixtures)

lemma package_default_tests_pass:
  assumes "lawful_format F"
  shows "test_node_package_list_host_ports_observation_unavailable F e"
    "test_node_package_default_not_supported F e" "test_handle_node_package_default_not_supported F e"
  using assms
  by (simp_all add: test_node_package_list_host_ports_observation_unavailable_def
      test_node_package_default_not_supported_def test_handle_node_package_default_not_supported_def
      RefusingHandler_def default_simps standalone_simps run_rules)

end
