(* ===== verification/Install_Exchange_Tests.thy ===== *)
theory Install_Exchange_Tests
  imports Install_Tests
begin

text \<open>
  The tests of \<open>src/src/request.rs\<close> that drive the install exchange: on every verdict, on a
  payload that is whole, short, reset or too long, and on what a handler leaves unread.
\<close>

subsection \<open>The exchange\<close>

definition install_frames :: "format \<Rightarrow> string \<Rightarrow> u64 \<Rightarrow> bytes list \<Rightarrow> wire_frame list" where
  "install_frames F target sz payload_chunks =
     request_frame F RC_NodePackage (Pay_NodePackage (Package_Install (install_request target sz)))
       # map Raw_Frame payload_chunks"

text \<open>The verdict, and the frames after it.\<close>

fun install_answers ::
  "format \<Rightarrow> IoError \<Rightarrow> bytes list
   \<Rightarrow> ((IoError + (string + InstallPreflight)) \<times> (IoError + (string + NodePackageResponse)) list) option" where
  "install_answers F e [] = None"
| "install_answers F e (v # rest) =
     Some (read_answer F e (codec_InstallPreflight F) v,
           map (read_answer F e (codec_NodePackageResponse F)) rest)"

definition test_node_package_install_proceed :: "format \<Rightarrow> IoError \<Rightarrow> bool" where
  "test_node_package_install_proceed F e \<longleftrightarrow>
     (let sent = payload 2431 in
      case served F e PackageHandler []
             (install_frames F ''sensor'' (of_nat (length sent)) (chunks_of 1000 sent)) of
        Some (res, received, answers) \<Rightarrow> res = Ok () \<and> received = sent
          \<and> install_answers F e answers = Some (Ok (Ok Preflight_Proceed), [Ok (Ok PackageR_Done)])
      | None \<Rightarrow> False)"

definition test_node_package_install_accepted_is_terminal :: "format \<Rightarrow> IoError \<Rightarrow> bool" where
  "test_node_package_install_accepted_is_terminal F e \<longleftrightarrow>
     (let sent = payload 600 in
      case served F e PackageHandler [] (install_frames F ''selfdisrupting'' (of_nat (length sent)) [sent]) of
        Some (res, _, answers) \<Rightarrow> res = Ok ()
          \<and> install_answers F e answers = Some (Ok (Ok Preflight_Proceed), [Ok (Ok PackageR_Accepted)])
      | None \<Rightarrow> False)"

text \<open>A verdict other than \<open>Proceed\<close> is the only frame, and nothing is received.\<close>

definition install_refused :: "format \<Rightarrow> IoError \<Rightarrow> string \<Rightarrow> InstallPreflight \<Rightarrow> bool" where
  "install_refused F e target verdict \<longleftrightarrow>
     (case served F e PackageHandler [] (install_frames F target 4194304 []) of
        Some (res, received, answers) \<Rightarrow> res = Ok () \<and> received = []
          \<and> install_answers F e answers = Some (Ok (Ok verdict), [])
      | None \<Rightarrow> False)"

definition test_node_package_install_already_applied_is_terminal :: "format \<Rightarrow> IoError \<Rightarrow> bool" where
  "test_node_package_install_already_applied_is_terminal F e \<longleftrightarrow>
     install_refused F e ''already'' Preflight_AlreadyApplied"

definition test_node_package_install_insufficient_disk_space_is_terminal :: "format \<Rightarrow> IoError \<Rightarrow> bool" where
  "test_node_package_install_insufficient_disk_space_is_terminal F e \<longleftrightarrow>
     install_refused F e ''nospace'' (Preflight_InsufficientDiskSpace ''/opt'' 4194304 1024)"

definition test_node_package_install_new_refusals_are_terminal :: "format \<Rightarrow> IoError \<Rightarrow> bool" where
  "test_node_package_install_new_refusals_are_terminal F e \<longleftrightarrow>
     list_all (\<lambda>(target, expected). install_refused F e target expected)
       [(''bindonupdate'', Preflight_BindAddrsOnUpdate), (''nonamespace'', Preflight_NamespaceUnconfigured),
        (''noenroll'', Preflight_EnrollmentUnsupported), (''templateonupdate'', Preflight_ConfigTemplateOnUpdate),
        (''unknowntemplate'', Preflight_UnknownConfigTemplate ''no-such-template'')]"

definition test_node_package_install_default_not_supported :: "format \<Rightarrow> IoError \<Rightarrow> bool" where
  "test_node_package_install_default_not_supported F e \<longleftrightarrow>
     (case served F e NoopHandler () (install_frames F ''sensor'' 4194304 []) of
        Some (res, _, answers) \<Rightarrow> res = Ok ()
          \<and> install_answers F e answers = Some (Ok (Err ''not supported''), [])
      | None \<Rightarrow> False)"

definition test_node_package_install_truncated_payload :: "format \<Rightarrow> IoError \<Rightarrow> bool" where
  "test_node_package_install_truncated_payload F e \<longleftrightarrow>
     (case served F e PackageHandler [] (install_frames F ''sensor'' 4096 [payload 2048]) of
        Some (res, _, answers) \<Rightarrow> res = Ok ()
          \<and> (case install_answers F e answers of
               Some (Ok (Ok Preflight_Proceed), [Ok (Err m)]) \<Rightarrow> contains m ''failed to read the payload''
             | _ \<Rightarrow> False)
      | None \<Rightarrow> False)"

text \<open>A stream whose frames are followed by the error \<open>reset\<close> of the peer's reset.\<close>

definition reset_io :: "IoError \<Rightarrow> ((string + agent_reply) list, wire_frame list) agent_io" where
  "reset_io reset = list_io
     \<lparr>recv_request_raw := \<lambda>r. if r = [] then (Err reset, []) else list_recv_request r,
      recv_raw := \<lambda>r. if r = [] then (Err reset, []) else list_recv_raw r\<rparr>"

definition test_node_package_install_reset_payload :: "format \<Rightarrow> IoError \<Rightarrow> IoError \<Rightarrow> bool" where
  "test_node_package_install_reset_payload F e reset \<longleftrightarrow>
     (case map_option (outcome F) (handle (reset_io reset) (agent_decoders F e (\<lambda>_. [])) PackageHandler
             (start [] (install_frames F ''sensor'' 4096 [payload 1024]))) of
        Some (_, _, answers) \<Rightarrow>
          (case install_answers F e answers of
             Some (Ok (Ok Preflight_Proceed), [Ok (Err _)]) \<Rightarrow> True
           | _ \<Rightarrow> False)
      | None \<Rightarrow> False)"

definition test_node_package_install_chunk_overruns_size :: "format \<Rightarrow> IoError \<Rightarrow> bool" where
  "test_node_package_install_chunk_overruns_size F e \<longleftrightarrow>
     (case served F e PackageHandler [] (install_frames F ''sensor'' 1000 [payload 2000]) of
        Some (_, _, answers) \<Rightarrow>
          (case install_answers F e answers of
             Some (Ok (Ok Preflight_Proceed), [Ok (Err m)]) \<Rightarrow> contains m ''overruns''
           | _ \<Rightarrow> False)
      | None \<Rightarrow> False)"

definition LazyPackageHandler :: "unit Handler" where
  "LazyPackageHandler = Handler_default
     \<lparr>nh_package_install_preflight := \<lambda>_ h. (Ok Preflight_Proceed, h),
      nh_package_install := \<lambda>_ h. NextChunk (\<lambda>res. case res of
        Err e \<Rightarrow> Finish (Err (''failed to read the payload: '' @ IoError_to_string e), h)
      | Ok _ \<Rightarrow> AskRemaining (\<lambda>remaining.
          if 0 < remaining then Finish (Ok PackageR_Done, h) else Finish (Err ''assertion failed'', h)))\<rparr>"

text \<open>An install and, after it, a request of another family.\<close>

definition then_service :: "format \<Rightarrow> wire_frame list \<Rightarrow> wire_frame list" where
  "then_service F frames =
     frames @ [request_frame F RC_NodeService (Pay_NodeService (Service_Status ''nginx''))]"

definition installed_then_not_supported ::
  "format \<Rightarrow> IoError \<Rightarrow> ((HandlerError + unit) \<times> 'h \<times> bytes list) option \<Rightarrow> bool" where
  "installed_then_not_supported F e run \<longleftrightarrow>
     (case run of
        Some (res, _, [verdict, terminal, service]) \<Rightarrow> res = Ok ()
          \<and> install_answers F e [verdict, terminal] = Some (Ok (Ok Preflight_Proceed), [Ok (Ok PackageR_Done)])
          \<and> read_answer F e (codec_NodeServiceResponse F) service = Ok (Err ''not supported'')
      | _ \<Rightarrow> False)"

definition test_node_package_install_unread_payload_is_drained :: "format \<Rightarrow> IoError \<Rightarrow> bool" where
  "test_node_package_install_unread_payload_is_drained F e \<longleftrightarrow>
     (let sent = payload 1500 in
      installed_then_not_supported F e (served F e LazyPackageHandler ()
        (then_service F (install_frames F ''sensor'' (of_nat (length sent)) (chunks_of 500 sent)))))"

definition test_node_package_install_leaves_the_loop_aligned :: "format \<Rightarrow> IoError \<Rightarrow> bool" where
  "test_node_package_install_leaves_the_loop_aligned F e \<longleftrightarrow>
     (let sent = payload 1500 in
      installed_then_not_supported F e (served F e PackageHandler []
        (then_service F (install_frames F ''sensor'' (of_nat (length sent)) (chunks_of 512 sent)))))"

fun standalone_install ::
  "NodePackageRequest \<Rightarrow> bytes \<Rightarrow> ((string + NodePackageResponse) \<times> bytes) package_prog" where
  "standalone_install (Package_Install f) h = read_payload (Suc (unat (in_size f))) [] (\<lambda>res. case res of
     Err m \<Rightarrow> Finish (Err m, h) | Ok received \<Rightarrow> Finish (Ok PackageR_Done, received))"
| "standalone_install _ h = Finish (Ok PackageR_Done, h)"

definition StandalonePackageHandler :: "bytes NodeHandler" where
  "StandalonePackageHandler = NodeHandler_default
     \<lparr>nh_package_install_preflight := \<lambda>_ h. (Ok Preflight_Proceed, h), nh_package_install := standalone_install\<rparr>"

definition test_handle_node_package_install_proceed :: "format \<Rightarrow> IoError \<Rightarrow> bool" where
  "test_handle_node_package_install_proceed F e \<longleftrightarrow>
     (let sent = payload 2431 in
      case served_node F e StandalonePackageHandler []
             (install_frames F ''sensor'' (of_nat (length sent)) (chunks_of 1000 sent)) of
        Some (res, received, answers) \<Rightarrow> res = Ok () \<and> received = sent
          \<and> install_answers F e answers = Some (Ok (Ok Preflight_Proceed), [Ok (Ok PackageR_Done)])
      | None \<Rightarrow> False)"

subsection \<open>Running the readers\<close>

lemma read_payload_whole:
  assumes "payload_ahead io p cs r'" and "length cs < n"
  shows "\<exists>q. run_handler io (read_payload n acc k) p = run_handler io (k (Ok (acc @ concat cs))) q
           \<and> pr_remaining q = 0 \<and> pr_size q = pr_size p"
  using assms
proof (induction cs arbitrary: p n acc)
  case Nil
  then obtain m where "n = Suc m" by (cases n) auto
  with payload_ahead_end [OF Nil.prems(1)] Nil.prems(1) show ?case
    by (intro exI [of _ p]) (simp add: payload_ahead_def unat_eq_zero)
next
  case (Cons c cs)
  then obtain m where m: "n = Suc m" by (cases n) auto
  from payload_ahead_chunk [OF Cons.prems(1)] obtain q where
    q: "next_chunk io p = (Ok (True, c), q)" "payload_ahead io q cs r'" by blast
  have "pr_size q = pr_size p"
    using package.size_fixed [OF q(1)] by (simp add: PackageReader_size_def)
  with Cons.IH [OF q(2), of m "acc @ c"] Cons.prems(2) m q(1) show ?case by simp
qed

lemma read_payload_result:
  assumes "payload_ahead io p cs r'" and "length cs < n"
    and "\<And>q. pr_remaining q = 0 \<Longrightarrow> pr_size q = pr_size p \<Longrightarrow>
           fst (run_handler io (k (Ok (acc @ concat cs))) q) = a"
  shows "fst (run_handler io (read_payload n acc k) p) = a"
  using read_payload_whole [OF assms(1,2), of acc k] assms(3) by auto

lemma raw_frames_delivered: "delivers list_recv_raw (map Raw_Frame cs @ fs) cs fs"
  by (induction cs) (simp_all add: delivers_Cons)

lemma payload_starts:
  assumes "[] \<notin> set cs" and "length (concat cs) = unat sz"
  shows "payload_ahead list_io (PackageReader_new (map Raw_Frame cs @ fs) sz) cs fs"
  using assms raw_frames_delivered by (simp add: payload_ahead_def)

lemma package_install_whole:
  assumes "[] \<notin> set cs" and "length (concat cs) = unat (in_size f)"
  shows "fst (run_handler list_io (package_install (Package_Install f) h)
           (PackageReader_new (map Raw_Frame cs @ fs) (in_size f)))
         = (Ok (if in_target f = ''selfdisrupting'' then PackageR_Accepted else PackageR_Done), concat cs)"
    and "fst (run_handler list_io (standalone_install (Package_Install f) h)
           (PackageReader_new (map Raw_Frame cs @ fs) (in_size f))) = (Ok PackageR_Done, concat cs)"
proof -
  have n: "length cs < Suc (unat (in_size f))"
    using few_chunks [OF assms(1)] assms(2) by simp
  note result = read_payload_result [OF payload_starts [OF assms] n]
  show "fst (run_handler list_io (package_install (Package_Install f) h)
           (PackageReader_new (map Raw_Frame cs @ fs) (in_size f)))
         = (Ok (if in_target f = ''selfdisrupting'' then PackageR_Accepted else PackageR_Done), concat cs)"
    unfolding package_install.simps using assms(2)
    by (intro result) (simp add: PackageReader_size_def PackageReader_remaining_def)
  show "fst (run_handler list_io (standalone_install (Package_Install f) h)
           (PackageReader_new (map Raw_Frame cs @ fs) (in_size f))) = (Ok PackageR_Done, concat cs)"
    unfolding standalone_install.simps by (intro result) simp
qed

text \<open>A payload that arrives whole is served whole, and the loop goes on after it.\<close>

lemma install_whole:
  assumes "nh_package_install_preflight H (Package_Install f) h = (Ok Preflight_Proceed, h)"
    and "[] \<notin> set cs" and "length (concat cs) = unat (in_size f)"
    and "fst (run_handler list_io (nh_package_install H (Package_Install f) h)
               (PackageReader_new (map Raw_Frame cs @ fs) (in_size f))) = (result, h')"
  shows "dispatch_node_package list_io H (Package_Install f)
      \<lparr>se_handler = h, se_send = ms, se_recv = map Raw_Frame cs @ fs\<rparr> =
    Some (Ok (), \<lparr>se_handler = h',
      se_send = ms @ [Ok (Reply_Preflight Preflight_Proceed), map_ok Reply_NodePackage result], se_recv = fs\<rparr>)"
proof -
  let ?s = "\<lparr>se_handler = h, se_send = ms, se_recv = map Raw_Frame cs @ fs\<rparr>"
  have "delivers (recv_raw list_io) (se_recv ?s) cs fs"
    using raw_frames_delivered by simp
  from install_served [OF list_sends_logged _ this assms(2,3), where H = H and h = h] assms(1,4)
  obtain s' where s': "dispatch_node_package list_io H (Package_Install f) ?s = Some (Ok (), s')"
    "se_recv s' = fs" "se_handler s' = h'"
    "se_send s' = ms @ [Ok (Reply_Preflight Preflight_Proceed), map_ok Reply_NodePackage result]"
    by auto
  then show ?thesis by (cases s') simp
qed

text \<open>A handler that gave up on a failed transfer has its own error sent.\<close>

lemma install_given_up:
  assumes "nh_package_install_preflight H (Package_Install f) h = (Ok Preflight_Proceed, h)"
    and "run_handler io (nh_package_install H (Package_Install f) h) (PackageReader_new r (in_size f)) = ((Err m, h'), p)"
    and "pr_failed p" and "\<And>s m. send_response io s m = (Ok (), s @ [m])"
  shows "dispatch_node_package io H (Package_Install f) \<lparr>se_handler = h, se_send = ms, se_recv = r\<rparr> =
    Some (Ok (), \<lparr>se_handler = h', se_send = ms @ [Ok (Reply_Preflight Preflight_Proceed), Err m],
                  se_recv = pr_recv p\<rparr>)"
proof -
  have "drain_step io p = Some (Leave (Err (IoError_new EK_InvalidData ''the package transfer already failed''), p))"
    using assms(3) by (simp add: drain_step_def)
  then have "drain io p = Some (Err (IoError_new EK_InvalidData ''the package transfer already failed''), p)"
    unfolding drain_def by (rule iterate_Leave)
  with assms show ?thesis
    by (simp add: call_handler_def answer_def Let_def receive_package_def)
qed

subsection \<open>The tests hold\<close>

lemma install_request_sel [simp]:
  "in_target (install_request t sz) = t" "in_instance (install_request t sz) = Some 1"
  "in_version (install_request t sz) = ''1.2.3''" "in_commit (install_request t sz) = ''0123456789abcdef''"
  "in_size (install_request t sz) = sz" "in_idempotency_key (install_request t sz) = ''idem-1''"
  "in_bootstrap_material (install_request t sz) = None" "in_on_failure (install_request t sz) = OnFailure_Rollback"
  "in_bind_addrs (install_request t sz) = None" "in_config_template (install_request t sz) = None"
  "in_privilege_profile (install_request t sz) = None"
  by (simp_all add: install_request_def)

lemma package_whole:
  assumes "verdict_for (in_target f) = Preflight_Proceed"
    and "[] \<notin> set cs" and "length (concat cs) = unat (in_size f)"
  shows "dispatch_node_package list_io (as_node_handler PackageHandler) (Package_Install f)
      \<lparr>se_handler = h, se_send = ms, se_recv = map Raw_Frame cs @ fs\<rparr> =
    Some (Ok (), \<lparr>se_handler = concat cs,
      se_send = ms @ [Ok (Reply_Preflight Preflight_Proceed),
        Ok (Reply_NodePackage (if in_target f = ''selfdisrupting'' then PackageR_Accepted else PackageR_Done))],
      se_recv = fs\<rparr>)"
proof -
  let ?H = "as_node_handler PackageHandler"
  have run: "fst (run_handler list_io (nh_package_install ?H (Package_Install f) h)
      (PackageReader_new (map Raw_Frame cs @ fs) (in_size f))) =
    (Ok (if in_target f = ''selfdisrupting'' then PackageR_Accepted else PackageR_Done), concat cs)"
    using package_install_whole(1) [OF assms(2,3)] by (simp del: package_install.simps)
  have "nh_package_install_preflight ?H (Package_Install f) h = (Ok Preflight_Proceed, h)"
    using assms(1) by simp
  from install_whole [OF this assms(2,3) run, of ms] show ?thesis
    by (simp del: dispatch_node_package.simps)
qed

lemma standalone_whole:
  assumes "[] \<notin> set cs" and "length (concat cs) = unat (in_size f)"
  shows "dispatch_node_package list_io StandalonePackageHandler (Package_Install f)
      \<lparr>se_handler = h, se_send = ms, se_recv = map Raw_Frame cs @ fs\<rparr> =
    Some (Ok (), \<lparr>se_handler = concat cs,
      se_send = ms @ [Ok (Reply_Preflight Preflight_Proceed), Ok (Reply_NodePackage PackageR_Done)], se_recv = fs\<rparr>)"
proof -
  have "nh_package_install_preflight StandalonePackageHandler (Package_Install f) h = (Ok Preflight_Proceed, h)"
      "nh_package_install StandalonePackageHandler = standalone_install"
    by (simp_all add: StandalonePackageHandler_def)
  with install_whole [OF _ assms, of StandalonePackageHandler] package_install_whole(2) [OF assms]
  show ?thesis by (simp del: dispatch_node_package.simps standalone_install.simps)
qed

lemma lazy_whole:
  assumes "[] \<notin> set (c # cs)" and "length (concat (c # cs)) = unat (in_size f)" and "cs \<noteq> []"
  shows "dispatch_node_package list_io (as_node_handler LazyPackageHandler) (Package_Install f)
      \<lparr>se_handler = h, se_send = ms, se_recv = map Raw_Frame (c # cs) @ fs\<rparr> =
    Some (Ok (), \<lparr>se_handler = h,
      se_send = ms @ [Ok (Reply_Preflight Preflight_Proceed), Ok (Reply_NodePackage PackageR_Done)], se_recv = fs\<rparr>)"
proof -
  let ?H = "as_node_handler LazyPackageHandler"
  from payload_ahead_chunk [OF payload_starts [OF assms(1,2), of fs]] obtain q where
    q: "next_chunk list_io (PackageReader_new (map Raw_Frame (c # cs) @ fs) (in_size f)) = (Ok (True, c), q)"
      "payload_ahead list_io q cs fs"
    by blast
  have "0 < unat (pr_remaining q)"
    using few_chunks [of cs] q(2) assms(1,3) by (cases cs) (auto simp: payload_ahead_def)
  then have "0 < PackageReader_remaining q"
    by (simp add: PackageReader_remaining_def word_less_nat_alt)
  with q(1) have run: "fst (run_handler list_io (nh_package_install ?H (Package_Install f) h)
      (PackageReader_new (map Raw_Frame (c # cs) @ fs) (in_size f))) = (Ok PackageR_Done, h)"
    by (simp add: LazyPackageHandler_def)
  have "nh_package_install_preflight ?H (Package_Install f) h = (Ok Preflight_Proceed, h)"
    by (simp add: LazyPackageHandler_def)
  from install_whole [OF this assms(1,2) run, of ms] show ?thesis
    by (simp del: dispatch_node_package.simps)
qed

lemmas exchange_rules = run_rules install_frames_def then_service_def installed_then_not_supported_def

lemma whole_install_tests_pass:
  assumes "lawful_format F"
  shows "test_node_package_install_proceed F e" "test_node_package_install_accepted_is_terminal F e"
    "test_handle_node_package_install_proceed F e" "test_node_package_install_leaves_the_loop_aligned F e"
proof -
  have whole: "dispatch_node_package list_io (as_node_handler PackageHandler)
        (Package_Install (install_request ''sensor'' 2431))
        \<lparr>se_handler = [], se_send = [], se_recv = map Raw_Frame (chunks_of 1000 (payload 2431))\<rparr> =
      Some (Ok (), \<lparr>se_handler = payload 2431,
        se_send = [Ok (Reply_Preflight Preflight_Proceed), Ok (Reply_NodePackage PackageR_Done)], se_recv = []\<rparr>)"
    using package_whole [of "install_request ''sensor'' 2431" "chunks_of 1000 (payload 2431)" "[]" "[]" "[]"]
    by (simp add: verdict_for_def chunks_of_whole del: dispatch_node_package.simps)
  with assms show "test_node_package_install_proceed F e"
    by (simp add: test_node_package_install_proceed_def exchange_rules del: dispatch_node_package.simps)
  show "test_node_package_install_accepted_is_terminal F e"
    using assms package_whole [of "install_request ''selfdisrupting'' 600" "[payload 600]" "[]" "[]" "[]"]
    by (simp add: test_node_package_install_accepted_is_terminal_def exchange_rules verdict_for_def
        del: dispatch_node_package.simps)
  show "test_handle_node_package_install_proceed F e"
    using assms standalone_whole [of "chunks_of 1000 (payload 2431)" "install_request ''sensor'' 2431" "[]" "[]" "[]"]
    by (simp add: test_handle_node_package_install_proceed_def exchange_rules chunks_of_whole
        del: dispatch_node_package.simps)
  show "test_node_package_install_leaves_the_loop_aligned F e"
    using assms package_whole [of "install_request ''sensor'' 1500" "chunks_of 512 (payload 1500)" "[]" "[]"]
    by (simp add: test_node_package_install_leaves_the_loop_aligned_def exchange_rules verdict_for_def
        chunks_of_whole not_supported_def del: dispatch_node_package.simps)
qed

lemma drained_install_test_passes:
  assumes "lawful_format F"
  shows "test_node_package_install_unread_payload_is_drained F e"
proof -
  let ?c = "take 500 (payload 1500)" and ?cs = "chunks_of 500 (drop 500 (payload 1500))"
  have split: "chunks_of 500 (payload 1500) = ?c # ?cs" "?cs \<noteq> []"
    by (subst chunks_of.simps, simp)+
  then have "[] \<notin> set (?c # ?cs)" "length (concat (?c # ?cs)) = 1500"
    using chunks_of_whole [of 500 "payload 1500"] by (simp_all only: split) simp_all
  with split(2) assms show ?thesis
    using lazy_whole [of ?c ?cs "install_request ''sensor'' 1500" "()" "[]"]
    by (simp add: test_node_package_install_unread_payload_is_drained_def exchange_rules split(1)
        LazyPackageHandler_def default_simps del: dispatch_node_package.simps)
qed

lemma refused_install_tests_pass:
  assumes "lawful_format F"
  shows "test_node_package_install_already_applied_is_terminal F e"
    "test_node_package_install_insufficient_disk_space_is_terminal F e"
    "test_node_package_install_new_refusals_are_terminal F e"
    "test_node_package_install_default_not_supported F e"
  using assms
  by (simp_all add: test_node_package_install_already_applied_is_terminal_def
      test_node_package_install_insufficient_disk_space_is_terminal_def
      test_node_package_install_new_refusals_are_terminal_def test_node_package_install_default_not_supported_def
      install_refused_def exchange_rules verdict_for_def call_handler_def answer_def Let_def default_simps)

subsection \<open>Transfers that fail\<close>

lemma read_payload_takes:
  "0 < n \<Longrightarrow> next_chunk io p = (Ok (True, c), q) \<Longrightarrow>
     run_handler io (read_payload n acc k) p = run_handler io (read_payload (n - 1) (acc @ c) k) q"
  by (cases n) simp_all

lemma read_payload_fails:
  "0 < n \<Longrightarrow> next_chunk io p = (Err e, q) \<Longrightarrow>
     run_handler io (read_payload n acc k) p =
     run_handler io (k (Err (''failed to read the payload: '' @ IoError_to_string e))) q"
  by (cases n) simp_all

lemma package_install_broken:
  assumes "recv_raw io r = (Ok c, r1)" and "recv_raw io r1 = (Err e, r2)"
    and "c \<noteq> []" and "length c < unat (in_size f)"
  shows "\<exists>p. run_handler io (package_install (Package_Install f) h) (PackageReader_new r (in_size f)) =
      ((Err (''failed to read the payload: '' @ IoError_to_string (truncated_payload e)), h), p)
    \<and> pr_failed p \<and> pr_recv p = r2"
proof -
  let ?q = "(PackageReader_new r (in_size f))\<lparr>pr_recv := r1, pr_remaining := in_size f - of_nat (length c)\<rparr>"
  have first: "next_chunk io (PackageReader_new r (in_size f)) = (Ok (True, c), ?q)"
    using next_chunk_takes [of "PackageReader_new r (in_size f)" io c r1] assms by simp
  have "in_size f \<noteq> of_nat (length c)"
    using assms(4) by (metis nat_less_le unat_of_nat_le)
  then have second: "next_chunk io ?q = (Err (truncated_payload e), ?q\<lparr>pr_recv := r2, pr_failed := True\<rparr>)"
    using assms(2) by (simp add: next_chunk_def read_chunk_def)
  have "0 < unat (in_size f)" using assms(4) by simp
  then show ?thesis
    unfolding package_install.simps
    by (simp add: read_payload_takes [OF _ first] read_payload_fails [OF _ second] del: read_payload.simps)
qed

lemma package_install_overrun:
  assumes "recv_raw io r = (Ok c, r1)" and "0 < in_size f" and "unat (in_size f) < length c" and "length c < 2 ^ 64"
  shows "\<exists>p. run_handler io (package_install (Package_Install f) h) (PackageReader_new r (in_size f)) =
      ((Err (''failed to read the payload: '' @ overrun_message (of_nat (length c)) (in_size f)), h), p)
    \<and> pr_failed p \<and> pr_recv p = r1"
proof -
  let ?p = "PackageReader_new r (in_size f)"
  have "in_size f < of_nat (length c)"
    using assms(3,4) by (simp add: word_less_nat_alt unsigned_of_nat take_bit_nat_eq_self)
  then have "next_chunk io ?p =
      (Err (IoError_new EK_InvalidData (overrun_message (of_nat (length c)) (in_size f))),
       ?p\<lparr>pr_recv := r1, pr_failed := True\<rparr>)"
    using assms(1,2,4) by (simp add: next_chunk_def read_chunk_def)
  then show ?thesis
    unfolding package_install.simps by (simp add: read_payload_fails del: read_payload.simps)
qed

lemma package_given_up:
  assumes "\<exists>p. run_handler io (package_install (Package_Install f) h) (PackageReader_new r (in_size f)) = ((Err m, h), p)
      \<and> pr_failed p \<and> pr_recv p = r'"
    and "verdict_for (in_target f) = Preflight_Proceed" and "\<And>s m. send_response io s m = (Ok (), s @ [m])"
  shows "dispatch_node_package io (as_node_handler PackageHandler) (Package_Install f)
      \<lparr>se_handler = h, se_send = ms, se_recv = r\<rparr> =
    Some (Ok (), \<lparr>se_handler = h, se_send = ms @ [Ok (Reply_Preflight Preflight_Proceed), Err m], se_recv = r'\<rparr>)"
proof -
  obtain p where p: "run_handler io (nh_package_install (as_node_handler PackageHandler) (Package_Install f) h)
      (PackageReader_new r (in_size f)) = ((Err m, h), p)" "pr_failed p" "pr_recv p = r'"
    using assms(1) by (auto simp del: package_install.simps)
  have "nh_package_install_preflight (as_node_handler PackageHandler) (Package_Install f) h = (Ok Preflight_Proceed, h)"
    using assms(2) by simp
  from install_given_up [OF this p(1,2) assms(3), of ms] p(3) show ?thesis
    by (simp del: dispatch_node_package.simps)
qed

lemma failed_install_tests_pass:
  assumes "lawful_format F"
  shows "test_node_package_install_truncated_payload F e" "test_node_package_install_chunk_overruns_size F e"
proof -
  let ?m = "''failed to read the payload: '' @ IoError_to_string (truncated_payload (IoError_from EK_UnexpectedEof))"
  have "dispatch_node_package list_io (as_node_handler PackageHandler) (Package_Install (install_request ''sensor'' 4096))
      \<lparr>se_handler = [], se_send = [], se_recv = [Raw_Frame (payload 2048)]\<rparr> =
    Some (Ok (), \<lparr>se_handler = [], se_send = [Ok (Reply_Preflight Preflight_Proceed), Err ?m], se_recv = []\<rparr>)"
    using package_given_up [OF package_install_broken [of list_io "[Raw_Frame (payload 2048)]" "payload 2048" "[]"
        "IoError_from EK_UnexpectedEof" "[]" "install_request ''sensor'' 4096" "[]"], of "[]"]
    by (simp add: verdict_for_def del: dispatch_node_package.simps package_install.simps)
  moreover have "length ?m \<le> MAX_LEN"
    by (simp add: truncated_payload_def io_error_defs MAX_LEN_def)
  moreover have "contains ?m ''failed to read the payload''"
    using contains_middle [of "[]" "''failed to read the payload''"] by simp
  ultimately show "test_node_package_install_truncated_payload F e"
    using assms by (simp add: test_node_package_install_truncated_payload_def exchange_rules
        del: dispatch_node_package.simps append.simps)
  let ?o = "''failed to read the payload: '' @ overrun_message 2000 1000"
  have "dispatch_node_package list_io (as_node_handler PackageHandler) (Package_Install (install_request ''sensor'' 1000))
      \<lparr>se_handler = [], se_send = [], se_recv = [Raw_Frame (payload 2000)]\<rparr> =
    Some (Ok (), \<lparr>se_handler = [], se_send = [Ok (Reply_Preflight Preflight_Proceed), Err ?o], se_recv = []\<rparr>)"
    using package_given_up [OF package_install_overrun [of list_io "[Raw_Frame (payload 2000)]" "payload 2000" "[]"
        "install_request ''sensor'' 1000" "[]"], of "[]"]
    by (simp add: verdict_for_def del: dispatch_node_package.simps package_install.simps)
  moreover have "length ?o \<le> MAX_LEN"
    using length_show_nat [of 2000] length_show_nat [of 1000] by (simp add: overrun_message_def MAX_LEN_def)
  moreover have "contains ?o ''overruns''"
    using contains_middle [of "''failed to read the payload: package chunk of '' @ show_nat 2000 @ '' bytes ''" "''overruns''"
        "'' the '' @ show_nat 1000 @ '' bytes still expected''"] by (simp add: overrun_message_def)
  ultimately show "test_node_package_install_chunk_overruns_size F e"
    using assms by (simp add: test_node_package_install_chunk_overruns_size_def exchange_rules
        del: dispatch_node_package.simps append.simps)
qed

text \<open>
  The reset is some error of the stream; its text, in the answer, is a string of the program.
\<close>

lemma reset_install_test_passes:
  assumes "lawful_format F"
    and "length (''failed to read the payload: '' @ IoError_to_string (truncated_payload reset)) \<le> MAX_LEN"
  shows "test_node_package_install_reset_payload F e reset"
proof -
  let ?io = "reset_io reset" and ?A = "agent_decoders F e (\<lambda>_. [])"
  let ?m = "''failed to read the payload: '' @ IoError_to_string (truncated_payload reset)"
  let ?f = "install_request ''sensor'' 4096"
  let ?body = "enc (codec_NodePackageRequest F) (Package_Install ?f)"
  let ?left = "\<lparr>se_handler = [], se_send = [Ok (Reply_Preflight Preflight_Proceed), Err ?m], se_recv = []\<rparr>"
  have io: "send_response ?io s m = (Ok (), s @ [m])" "recv_raw ?io [Raw_Frame c] = (Ok c, [])"
    "recv_raw ?io [] = (Err reset, [])" "recv_request_raw ?io [] = (Err reset, [])"
    "recv_request_raw ?io (Request_Frame n b # fs) = (Ok (n, b), fs)" for s m c n b fs
    by (simp_all add: reset_io_def)
  have "dispatch_node_package ?io (as_node_handler PackageHandler) (Package_Install ?f)
      \<lparr>se_handler = [], se_send = [], se_recv = [Raw_Frame (payload 1024)]\<rparr> = Some (Ok (), ?left)"
    using package_given_up [OF package_install_broken [of ?io "[Raw_Frame (payload 1024)]" "payload 1024" "[]"
        reset "[]" ?f "[]"], of "[]"]
    by (simp add: io verdict_for_def del: dispatch_node_package.simps package_install.simps append.simps)
  then have "serve_step ?io (handle_arm ?io ?A PackageHandler)
      (start [] [Request_Frame 109 ?body, Raw_Frame (payload 1024)]) = Some (Again ?left)"
    using assms(1) by (simp add: serve_step_def start_def io fit_rules del: dispatch_node_package.simps append.simps)
  then have "handle ?io ?A PackageHandler (start [] [Request_Frame 109 ?body, Raw_Frame (payload 1024)]) =
      handle ?io ?A PackageHandler ?left"
    unfolding handle_def by (rule iterate_Again)
  also have "\<dots> = Some (if io_kind reset = EK_UnexpectedEof then Ok () else Err (RecvError reset), ?left)"
    unfolding handle_def by (rule iterate_Leave) (simp add: serve_step_def io)
  finally show ?thesis
    using assms by (simp add: test_node_package_install_reset_payload_def install_frames_def request_frame_def
        outcome_def lawful_rules fit_rules del: append.simps)
qed

end
