(* ===== verification/Undecodable_Tests.thy ===== *)
theory Undecodable_Tests
  imports Install_Exchange_Tests Wire_Formats
begin

text \<open>
  The tests of \<open>src/src/request.rs\<close> that send arguments no dispatcher can decode: each is answered
  with the fixed text, and the dispatcher returns the decoder's error. What they rely on of
  \<open>bincode::config::standard()\<close> is \<open>undecodable_config\<close>: an absent option is a zero byte, a string is
  its length and its bytes, small numbers are a byte, and the bytes of a string may not be missing.
\<close>

subsection \<open>The configuration\<close>

definition undecodable_config :: "format \<Rightarrow> bool" where
  "undecodable_config F \<longleftrightarrow> lawful_format F \<and> fst (fm_option F) False = [0]
     \<and> (\<forall>s. \<exists>len. fst (fm_str F) s = len @ str_bytes s)
     \<and> fst (fm_u32 F) 42 = [42] \<and> snd (fm_str F) [42] = None
     \<and> (\<exists>rest. fst (fm_str F) ''not-a-power-request'' = 19 # rest)
     \<and> (\<forall>rest. snd (fm_variant F) (19 # rest) = Some (19, rest))
     \<and> dates_enrollment F"

subsection \<open>Helpers\<close>

definition undecodable_text :: "u32 \<Rightarrow> string" where
  "undecodable_text code =
     ''request code '' @ show_nat (unat code)
     @ '': the arguments could not be decoded; the manager and the agent ''
     @ ''may be built against different review-protocol releases''"

definition truncated_install :: "format \<Rightarrow> NodePackageRequest \<Rightarrow> bytes option" where
  "truncated_install F req =
     (let body = enc (codec_NodePackageRequest F) req in
      if body \<noteq> [] \<and> last body = 0 then Some (butlast body) else None)"

text \<open>The error frame, and no frame after it.\<close>

fun undecodable_answer ::
  "format \<Rightarrow> IoError \<Rightarrow> 'a codec \<Rightarrow> u32 \<Rightarrow> ((HandlerError + unit) \<times> 'h \<times> bytes list) option \<Rightarrow> bool" where
  "undecodable_answer F e c code (Some (_, _, [bs])) \<longleftrightarrow> read_answer F e c bs = Ok (Err (undecodable_text code))"
| "undecodable_answer F e c code _ \<longleftrightarrow> False"

fun decode_error :: "((HandlerError + unit) \<times> 'h \<times> bytes list) option \<Rightarrow> bool" where
  "decode_error (Some (Err (RecvError e), _)) \<longleftrightarrow> io_kind e = EK_InvalidData"
| "decode_error _ \<longleftrightarrow> False"

fun server_err_kind :: "((HandlerError + unit) \<times> 'h \<times> bytes list) option \<Rightarrow> ProtocolErrorKind option" where
  "server_err_kind (Some (Err err, _)) = Some (HandlerError_kind err)"
| "server_err_kind _ = None"

subsection \<open>The tests\<close>

definition test_reload_ti_parse_failure_is_invalid_args :: "format \<Rightarrow> IoError \<Rightarrow> bool" where
  "test_reload_ti_parse_failure_is_invalid_args F e \<longleftrightarrow>
     server_err_kind (served F e NoopHandler () [request_frame F RC_ReloadTi (Pay_U32 42)]) = Some PEK_InvalidArgs"

text \<open>No manager call sends a string under this code; the payload is the string's encoding.\<close>

definition not_a_power_request :: "format \<Rightarrow> wire_frame" where
  "not_a_power_request F =
     Request_Frame (client_code_into RC_NodePower) (enc (codec_str F) ''not-a-power-request'')"

definition test_node_power_parse_failure_is_invalid_args :: "format \<Rightarrow> IoError \<Rightarrow> bool" where
  "test_node_power_parse_failure_is_invalid_args F e \<longleftrightarrow>
     server_err_kind (served F e NoopHandler () [not_a_power_request F]) = Some PEK_InvalidArgs"

definition install_of_previous_release :: "format \<Rightarrow> bytes option" where
  "install_of_previous_release F = truncated_install F (Package_Install (install_request ''sensor'' 4194304))"

definition test_handle_undecodable_install_answers_error_frame :: "format \<Rightarrow> IoError \<Rightarrow> bool" where
  "test_handle_undecodable_install_answers_error_frame F e \<longleftrightarrow>
     (case install_of_previous_release F of None \<Rightarrow> False | Some body \<Rightarrow>
        let code = client_code_into RC_NodePackage; run = served F e NoopHandler () [Request_Frame code body] in
        undecodable_answer F e (codec_InstallPreflight F) code run \<and> decode_error run)"

definition test_handle_node_undecodable_install_answers_error_frame :: "format \<Rightarrow> IoError \<Rightarrow> bool" where
  "test_handle_node_undecodable_install_answers_error_frame F e \<longleftrightarrow>
     (case install_of_previous_release F of None \<Rightarrow> False | Some body \<Rightarrow>
        let code = client_code_into RC_NodePackage;
            run = served_node F e StandaloneNodeHandler () [Request_Frame code body] in
        undecodable_answer F e (codec_InstallPreflight F) code run \<and> decode_error run)"

text \<open>\<open>body.windows(n).position(|w| w == marker)\<close>.\<close>

fun position_of :: "bytes \<Rightarrow> bytes \<Rightarrow> nat option" where
  "position_of marker [] = (if marker = [] then Some 0 else None)"
| "position_of marker (b # bs) =
     (if take (length marker) (b # bs) = marker then Some 0 else map_option Suc (position_of marker bs))"

definition MARKER :: string where "MARKER = ''s.MARKER-must-not-be-echoed''"

definition install_with_secret :: NodePackageRequest where
  "install_with_secret = Package_Install ((install_request ''sensor'' 4194304)
     \<lparr>in_bootstrap_material := Some (enroll_material\<lparr>bm_wrapped_secret_id := MARKER\<rparr>)\<rparr>)"

definition test_handle_node_undecodable_install_echoes_no_secret :: "format \<Rightarrow> IoError \<Rightarrow> bool" where
  "test_handle_node_undecodable_install_echoes_no_secret F e \<longleftrightarrow>
     (let body = enc (codec_NodePackageRequest F) install_with_secret in
      case position_of (str_bytes MARKER) body of None \<Rightarrow> False | Some at \<Rightarrow>
        let code = client_code_into RC_NodePackage;
            run = served_node F e StandaloneNodeHandler ()
              [Request_Frame code (take (at + length MARKER div 2) body)] in
        undecodable_answer F e (codec_InstallPreflight F) code run \<and> decode_error run)"

definition test_handle_node_undecodable_node_power_answers_error_frame :: "format \<Rightarrow> IoError \<Rightarrow> bool" where
  "test_handle_node_undecodable_node_power_answers_error_frame F e \<longleftrightarrow>
     (let run = served_node F e StandaloneNodeHandler () [not_a_power_request F] in
      undecodable_answer F e (codec_NodePowerResponse F) (client_code_into RC_NodePower) run
      \<and> server_err_kind run = Some PEK_InvalidArgs)"

definition test_handle_undecodable_node_power_answers_error_frame :: "format \<Rightarrow> IoError \<Rightarrow> bool" where
  "test_handle_undecodable_node_power_answers_error_frame F e \<longleftrightarrow>
     (let run = served F e NoopHandler () [not_a_power_request F] in
      undecodable_answer F e (codec_NodePowerResponse F) (client_code_into RC_NodePower) run
      \<and> server_err_kind run = Some PEK_InvalidArgs)"

definition test_handle_undecodable_reload_ti_answers_error_frame :: "format \<Rightarrow> IoError \<Rightarrow> bool" where
  "test_handle_undecodable_reload_ti_answers_error_frame F e \<longleftrightarrow>
     (let run = served F e NoopHandler () [request_frame F RC_ReloadTi (Pay_U32 42)] in
      undecodable_answer F e unit_codec (client_code_into RC_ReloadTi) run
      \<and> server_err_kind run = Some PEK_InvalidArgs)"

subsection \<open>The arms on undecodable arguments\<close>

lemma undecodable_arms:
  "dec (codec_NodePackageRequest F) b = None \<Longrightarrow>
     handle_node_arm list_io (agent_decoders F e d) H 109 b s =
     Some (Err (RecvError e), s\<lparr>se_send := se_send s @ [Err (undecodable_args_message 109)]\<rparr>)"
  "dec (codec_NodePowerRequest F) b = None \<Longrightarrow>
     handle_node_arm list_io (agent_decoders F e d) H 106 b s =
     Some (Err (RecvError (from_io PEK_InvalidArgs e)),
       s\<lparr>se_send := se_send s @ [Err (undecodable_args_message 106)]\<rparr>)"
  "dec (codec_str F) b = None \<Longrightarrow>
     handle_arm list_io (agent_decoders F e d) HH 5 b s =
     Some (Err (RecvError (from_io PEK_InvalidArgs e)),
       s\<lparr>se_send := se_send s @ [Err (undecodable_args_message 5)]\<rparr>)"
  by (simp_all add: handle_node_arm_def handle_arm_def agent_decoders_def from_front_def
      del: handle_arm_on_node_codes)

lemma undecodable_text_sent: "undecodable_args_message code = undecodable_text code"
  by (simp add: undecodable_args_message_def undecodable_text_def)

subsection \<open>The tests hold\<close>

lemmas undecodable_simps = run_rules undecodable_arms undecodable_text_sent [symmetric] from_io_classifies Let_def

lemma config_parts:
  assumes "undecodable_config F"
  shows "lawful_format F" "fst (fm_option F) False = [0]" "fst (fm_u32 F) 42 = [42]" "dates_enrollment F"
    "dec (codec_str F) [42] = None" "dec (codec_NodePowerRequest F) (fst (fm_str F) ''not-a-power-request'') = None"
  using assms
  by (auto simp: undecodable_config_def codec_str_def codec_NodePowerRequest_def enum_codec_def)

lemma bad_argument_tests_pass:
  assumes "undecodable_config F"
  shows "test_reload_ti_parse_failure_is_invalid_args F e" "test_node_power_parse_failure_is_invalid_args F e"
    "test_handle_node_undecodable_node_power_answers_error_frame F e"
    "test_handle_undecodable_node_power_answers_error_frame F e"
    "test_handle_undecodable_reload_ti_answers_error_frame F e"
  using config_parts [OF assms]
  by (simp_all add: test_reload_ti_parse_failure_is_invalid_args_def test_node_power_parse_failure_is_invalid_args_def
      test_handle_node_undecodable_node_power_answers_error_frame_def
      test_handle_undecodable_node_power_answers_error_frame_def
      test_handle_undecodable_reload_ti_answers_error_frame_def not_a_power_request_def undecodable_simps
      plain_sel(1) sized_codec_sel(1))

lemma previous_release_refused:
  assumes "undecodable_config F"
  obtains body where "install_of_previous_release F = Some body" "dec (codec_NodePackageRequest F) body = None"
proof -
  let ?req = "Package_Install (install_request ''sensor'' 4194304)"
  obtain body where body: "enc (codec_NodePackageRequest F) ?req = body @ [0]"
    using config_parts(2) [OF assms] by (simp add: wire_layout option_codec_sel(1))
  have "fits (codec_NodePackageRequest F) ?req" by (simp add: fit_rules)
  from lawful_truncated [OF _ this body] have "dec (codec_NodePackageRequest F) body = None"
    using config_parts(1) [OF assms] by (simp add: lawful_rules)
  moreover have "install_of_previous_release F = Some body"
    by (simp add: install_of_previous_release_def truncated_install_def body)
  ultimately show thesis using that by blast
qed

lemma undecodable_install_tests_pass:
  assumes "undecodable_config F" and "io_kind e = EK_InvalidData"
  shows "test_handle_undecodable_install_answers_error_frame F e"
    "test_handle_node_undecodable_install_answers_error_frame F e"
proof -
  obtain body where "install_of_previous_release F = Some body" "dec (codec_NodePackageRequest F) body = None"
    by (rule previous_release_refused [OF assms(1)])
  with config_parts(1) [OF assms(1)] assms(2)
  show "test_handle_undecodable_install_answers_error_frame F e"
    "test_handle_node_undecodable_install_answers_error_frame F e"
    by (simp_all add: test_handle_undecodable_install_answers_error_frame_def
        test_handle_node_undecodable_install_answers_error_frame_def undecodable_simps)
qed

lemma position_of_found: "position_of m (p @ m @ q) \<noteq> None"
proof (induction p)
  case Nil
  then show ?case by (cases m; cases q) simp_all
qed simp

lemma position_of_inside: "position_of m bs = Some i \<Longrightarrow> i + length m \<le> length bs"
proof (induction bs arbitrary: i)
  case (Cons b bs)
  then show ?case
    by (auto split: if_splits) (metis length_Cons length_take min.cobounded1 min.commute)
qed (auto split: if_splits)

lemma secret_in_body:
  assumes "undecodable_config F"
  obtains p q where "enc (codec_NodePackageRequest F) install_with_secret = p @ str_bytes MARKER @ q"
proof -
  obtain len where "fst (fm_str F) MARKER = len @ str_bytes MARKER"
    using assms unfolding undecodable_config_def by blast
  then have "\<exists>p q. enc (codec_NodePackageRequest F) install_with_secret = p @ str_bytes MARKER @ q"
    by (simp add: install_with_secret_def wire_layout option_codec_sel(2) sized_codec_sel(1))
      (metis append.assoc append_Nil2)
  then show thesis using that by blast
qed

lemma echoed_secret_test_passes:
  assumes "undecodable_config F" and "io_kind e = EK_InvalidData"
  shows "test_handle_node_undecodable_install_echoes_no_secret F e"
proof -
  let ?c = "codec_NodePackageRequest F" and ?body = "enc (codec_NodePackageRequest F) install_with_secret"
  obtain at where at: "position_of (str_bytes MARKER) ?body = Some at"
    using secret_in_body [OF assms(1)] position_of_found by (metis not_None_eq)
  let ?kept = "take (at + length MARKER div 2) ?body" and ?lost = "drop (at + length MARKER div 2) ?body"
  have "fits (codec_BootstrapMaterial F) (enroll_material\<lparr>bm_wrapped_secret_id := MARKER\<rparr>)"
    using config_parts(4) [OF assms(1)]
    by (simp add: dates_enrollment_def enroll_material_def MARKER_def str_bytes_def fit_rules)
  then have "fits ?c install_with_secret"
    by (simp add: install_with_secret_def fit_rules)
  moreover have "?lost \<noteq> []"
    using position_of_inside [OF at] by (simp add: MARKER_def)
  ultimately have "dec ?c ?kept = None"
    using lawful_truncated [of ?c install_with_secret ?kept ?lost] config_parts(1) [OF assms(1)]
    by (simp add: lawful_rules)
  with at config_parts(1) [OF assms(1)] assms(2) show ?thesis
    by (simp add: test_handle_node_undecodable_install_echoes_no_secret_def undecodable_simps)
qed

lemma undecodable_config_standard: "undecodable_config standard_format"
proof -
  have "fst (fm_str standard_format) s = var_write (unat (of_nat (length s) :: u64)) @ str_bytes s" for s
    by (simp add: standard_format_def bincode_sel standard_simps str_bytes_def)
  moreover have "dec_times d n [] = None" if "d [] = None" "0 < n" for d :: "bytes \<Rightarrow> (u8 \<times> bytes) option" and n
    using that by (cases n) simp_all
  then have "snd (fm_str standard_format) [42] = None"
    by (simp add: standard_format_def bincode_sel prim_of_def str_codec_def via_codec_def bytes_codec_def
        list_codec_def var_prim_def var_read_def le_prim_def plain_def)
  moreover have "snd (fm_variant standard_format) (19 # rest) = Some (19, rest)" for rest
    by (simp add: standard_format_def bincode_sel var_prim_def var_read_def le_prim_1 del: One_nat_def)
  moreover have "dates_enrollment standard_format"
    by (simp add: dates_enrollment_def standard_format_def bincode_format_def enroll_material_def)
  ultimately show ?thesis
    by (simp add: undecodable_config_def lawful_standard)
     (simp add: standard_format_def bincode_sel standard_simps)
qed

end
