(* ===== verification/Wire_Link.thy ===== *)
theory Wire_Link
  imports Wire_Answers
begin

text \<open>
  The manager and the agent joined by bytes. The link of \<open>Manager_Agent\<close> with the codecs of the
  wire on both directions: requests are written by the manager's \<open>send_request\<close> and read by the
  agent's dispatch, answers are written as \<open>Result<T, String>\<close> and read with the \<open>T\<close> of the call.
  A lawful format makes this link an \<open>agent_connection\<close>, so that every call over it is a call of
  the agent's method.
\<close>

subsection \<open>Answers as bytes\<close>

definition take_bytes ::
  "format \<Rightarrow> IoError \<Rightarrow> 'a codec \<Rightarrow> (bytes \<Rightarrow> (u32 \<times> bytes) option) \<Rightarrow> agent_args \<Rightarrow> 'h Handler
   \<Rightarrow> 'h link \<Rightarrow> (IoError + (string + 'a)) \<times> 'h link" where
  "take_bytes F e c sp A H st =
     (case agent_run sp A H st of
        None \<Rightarrow> (Err (IoError_from EK_TimedOut), st)
      | Some (_, s) \<Rightarrow>
          (if length (se_send s) \<le> li_read st then (Err (IoError_from EK_UnexpectedEof), st)
           else (read_answer F e c (answer_bytes F (se_send s ! li_read st)),
                 st\<lparr>li_read := Suc (li_read st)\<rparr>)))"

lemma take_bytes_reads:
  assumes "lawful_format F" and "lawful c"
    and "\<And>a. answer_fits F (Ok (reply a)) \<Longrightarrow>
           read_answer F e c (answer_bytes F (Ok (reply a))) = Ok (Ok a)"
  shows "reads_as sp A H (answer_fits F) reply (take_bytes F e c sp A H)"
  unfolding reads_as_def
proof (intro allI impI, elim conjE)
  fix st out s m
  assume "agent_run sp A H st = Some (out, s)" "li_read st < length (se_send s)"
    "se_send s ! li_read st = map_ok reply m" "answer_fits F (map_ok reply m)"
  then show "take_bytes F e c sp A H st = (Ok m, st\<lparr>li_read := Suc (li_read st)\<rparr>)"
    using assms by (cases m) (simp_all add: take_bytes_def)
qed

text \<open>
  \<open>e\<close> is the decoder's error, \<open>code\<close> the encoding of a request code and \<open>dbg\<close> the
  \<open>Debug\<close> output the legacy calls put into an error.
\<close>

definition wire_link ::
  "format \<Rightarrow> IoError \<Rightarrow> u32 prim \<Rightarrow> (NodeObservationResponse \<Rightarrow> string) \<Rightarrow> 'h Handler
   \<Rightarrow> ('h, 'h link) manager_io" where
  "wire_link F e code dbg H =
     (let sp = split_frame code; A = agent_decoders F e dbg in
      agent_link (fst code) (\<lambda>p. Ok (order_bytes F p)) sp A H
        \<lparr>mg_recv_unit := take_bytes F e unit_codec sp A H,
         mg_recv_preflight := take_bytes F e (codec_InstallPreflight F) sp A H,
         mg_recv_service := take_bytes F e (codec_NodeServiceResponse F) sp A H,
         mg_recv_network_interface := take_bytes F e (codec_NodeNetworkInterfaceResponse F) sp A H,
         mg_recv_hostname := take_bytes F e (codec_NodeHostnameResponse F) sp A H,
         mg_recv_time_sync := take_bytes F e (codec_NodeTimeSyncResponse F) sp A H,
         mg_recv_logging := take_bytes F e (codec_NodeLoggingResponse F) sp A H,
         mg_recv_remote_access := take_bytes F e (codec_NodeRemoteAccessResponse F) sp A H,
         mg_recv_power := take_bytes F e (codec_NodePowerResponse F) sp A H,
         mg_recv_observation := take_bytes F e (codec_NodeObservationResponse F) sp A H,
         mg_recv_version := take_bytes F e (codec_NodeVersionResponse F) sp A H,
         mg_recv_package := take_bytes F e (codec_NodePackageResponse F) sp A H,
         mg_recv_enroll := take_bytes F e (codec_NodeEnrollResponse F) sp A H\<rparr>)"

text \<open>What the wire needs of a format: it reads back what it writes.\<close>

locale wire_format =
  fixes F :: format and code :: "u32 prim"
  assumes format_lawful: "lawful_format F" and code_lawful: "lawful (plain code)"
begin

lemma carried:
  "order_fits F p \<Longrightarrow>
     carries (fst code) (\<lambda>p. Ok (order_bytes F p)) (split_frame code) (agent_decoders F e dbg) p"
  by (rule order_carried [OF format_lawful code_lawful])

lemma answers_read:
  "reads_as sp A H (answer_fits F) (\<lambda>_. Reply_Unit) (take_bytes F e unit_codec sp A H)"
  "reads_as sp A H (answer_fits F) Reply_Preflight (take_bytes F e (codec_InstallPreflight F) sp A H)"
  "reads_as sp A H (answer_fits F) Reply_NodeService (take_bytes F e (codec_NodeServiceResponse F) sp A H)"
  "reads_as sp A H (answer_fits F) Reply_NodeNetworkInterface (take_bytes F e (codec_NodeNetworkInterfaceResponse F) sp A H)"
  "reads_as sp A H (answer_fits F) Reply_NodeHostname (take_bytes F e (codec_NodeHostnameResponse F) sp A H)"
  "reads_as sp A H (answer_fits F) Reply_NodeTimeSync (take_bytes F e (codec_NodeTimeSyncResponse F) sp A H)"
  "reads_as sp A H (answer_fits F) Reply_NodeLogging (take_bytes F e (codec_NodeLoggingResponse F) sp A H)"
  "reads_as sp A H (answer_fits F) Reply_NodeRemoteAccess (take_bytes F e (codec_NodeRemoteAccessResponse F) sp A H)"
  "reads_as sp A H (answer_fits F) Reply_NodePower (take_bytes F e (codec_NodePowerResponse F) sp A H)"
  "reads_as sp A H (answer_fits F) Reply_NodeObservation (take_bytes F e (codec_NodeObservationResponse F) sp A H)"
  "reads_as sp A H (answer_fits F) Reply_NodeVersion (take_bytes F e (codec_NodeVersionResponse F) sp A H)"
  "reads_as sp A H (answer_fits F) Reply_NodePackage (take_bytes F e (codec_NodePackageResponse F) sp A H)"
  "reads_as sp A H (answer_fits F) Reply_NodeEnroll (take_bytes F e (codec_NodeEnrollResponse F) sp A H)"
  using format_lawful
  by - (rule take_bytes_reads; simp add: lawful_rules unit_codec_sel)+

end

sublocale wire_format \<subseteq> wl: agent_connection "wire_link F e code dbg H" "fst code"
  "\<lambda>p. Ok (order_bytes F p)" "split_frame code" "agent_decoders F e dbg" H "answer_fits F"
  for e :: IoError and dbg :: "NodeObservationResponse \<Rightarrow> string" and H :: "'h Handler"
  by unfold_locales (simp_all add: wire_link_def agent_link_def Let_def answers_read)

interpretation fixint: wire_format fixint_format "le_prim 4"
  by unfold_locales (simp_all add: lawful_fixint lawful_le_prim)

subsection \<open>Every call over the wire\<close>

context wire_format
begin

lemma all_calls:
  "(order_fits F (Pay_NetworkGroup allowlist_a) \<and> answer_fits F (map_ok (\<lambda>_. Reply_Unit) (fst (h_allowlist H allowlist_a h))) \<longrightarrow>
       runs_on_agent (split_frame code) (agent_decoders F e dbg) H (h_allowlist H allowlist_a) h
         (send_allowlist (wire_link F e code dbg H) allowlist_a h))
   \<and> (order_fits F (Pay_NetworkGroup blocklist_b) \<and> answer_fits F (map_ok (\<lambda>_. Reply_Unit) (fst (h_blocklist H blocklist_b h))) \<longrightarrow>
       runs_on_agent (split_frame code) (agent_decoders F e dbg) H (h_blocklist H blocklist_b) h
         (send_blocklist (wire_link F e code dbg H) blocklist_b h))
   \<and> (answer_fits F (map_ok (\<lambda>_. Reply_Unit) (fst (h_update_config H h))) \<longrightarrow>
       runs_on_agent (split_frame code) (agent_decoders F e dbg) H (h_update_config H) h
         (send_config_update_cmd (wire_link F e code dbg H) h))
   \<and> (order_fits F (Pay_DeleteCustomerData request_d) \<and> answer_fits F (map_ok (\<lambda>_. Reply_Unit) (fst (h_delete_customer_data H request_d h))) \<longrightarrow>
       runs_on_agent (split_frame code) (agent_decoders F e dbg) H (h_delete_customer_data H request_d) h
         (send_delete_customer_data_cmd (wire_link F e code dbg H) request_d h))
   \<and> (order_fits F (Pay_TrainModel request_e) \<and> answer_fits F (map_ok (\<lambda>_. Reply_Unit) (fst (h_train_model H request_e h))) \<longrightarrow>
       runs_on_agent (split_frame code) (agent_decoders F e dbg) H (h_train_model H request_e) h
         (send_train_model (wire_link F e code dbg H) request_e h))
   \<and> (order_fits F (Pay_CloneModel request_f) \<and> answer_fits F (map_ok (\<lambda>_. Reply_Unit) (fst (h_clone_model H request_f h))) \<longrightarrow>
       runs_on_agent (split_frame code) (agent_decoders F e dbg) H (h_clone_model H request_f) h
         (send_clone_model (wire_link F e code dbg H) request_f h))
   \<and> (order_fits F (Pay_U32 run_id_g) \<and> answer_fits F (map_ok (\<lambda>_. Reply_Unit) (fst (h_cancel_run H run_id_g h))) \<longrightarrow>
       runs_on_agent (split_frame code) (agent_decoders F e dbg) H (h_cancel_run H run_id_g) h
         (send_cancel_run (wire_link F e code dbg H) run_id_g h))
   \<and> (order_fits F (Pay_I32 detector_id_h) \<and> answer_fits F (map_ok (\<lambda>_. Reply_Unit) (fst (h_run_detector_once H detector_id_h h))) \<longrightarrow>
       runs_on_agent (split_frame code) (agent_decoders F e dbg) H (h_run_detector_once H detector_id_h) h
         (send_run_detector_once (wire_link F e code dbg H) detector_id_h h))
   \<and> (order_fits F (Pay_FilterRules list_i) \<and> answer_fits F (map_ok (\<lambda>_. Reply_Unit) (fst (h_update_traffic_filter_rules H list_i h))) \<longrightarrow>
       runs_on_agent (split_frame code) (agent_decoders F e dbg) H (h_update_traffic_filter_rules H list_i) h
         (send_filtering_rules (wire_link F e code dbg H) list_i h))
   \<and> (order_fits F (Pay_NetworkGroup list_j) \<and> answer_fits F (map_ok (\<lambda>_. Reply_Unit) (fst (h_internal_network_list H list_j h))) \<longrightarrow>
       runs_on_agent (split_frame code) (agent_decoders F e dbg) H (h_internal_network_list H list_j) h
         (send_internal_network_list (wire_link F e code dbg H) list_j h))
   \<and> (runs_on_agent (split_frame code) (agent_decoders F e dbg) H (\<lambda>h. (Ok (), h)) h
         (send_ping (wire_link F e code dbg H) h))
   \<and> (order_fits F (Pay_SamplingPolicies list_l) \<and> answer_fits F (map_ok (\<lambda>_. Reply_Unit) (fst (h_sampling_policy_list H list_l h))) \<longrightarrow>
       runs_on_agent (split_frame code) (agent_decoders F e dbg) H (h_sampling_policy_list H list_l) h
         (send_sampling_policies (wire_link F e code dbg H) list_l h))
   \<and> (order_fits F (Pay_Strings list_m) \<and> answer_fits F (map_ok (\<lambda>_. Reply_Unit) (fst (h_tor_exit_node_list H list_m h))) \<longrightarrow>
       runs_on_agent (split_frame code) (agent_decoders F e dbg) H (h_tor_exit_node_list H list_m) h
         (send_tor_exit_node_list (wire_link F e code dbg H) list_m h))
   \<and> (order_fits F (Pay_Strings list_n) \<and> answer_fits F (map_ok (\<lambda>_. Reply_Unit) (fst (h_trusted_domain_list H list_n h))) \<longrightarrow>
       runs_on_agent (split_frame code) (agent_decoders F e dbg) H (h_trusted_domain_list H list_n) h
         (send_trusted_domain_list (wire_link F e code dbg H) list_n h))
   \<and> (order_fits F (Pay_Strings list_o) \<and> answer_fits F (map_ok (\<lambda>_. Reply_Unit) (fst (h_trusted_user_agent_list H list_o h))) \<longrightarrow>
       runs_on_agent (split_frame code) (agent_decoders F e dbg) H (h_trusted_user_agent_list H list_o) h
         (send_trusted_user_agent_list (wire_link F e code dbg H) list_o h))
   \<and> (order_fits F (Pay_NodeService req_a) \<and> answer_fits F (map_ok Reply_NodeService (fst (nh_service H req_a h))) \<longrightarrow>
       runs_on_agent (split_frame code) (agent_decoders F e dbg) H (nh_service H req_a) h
         (node_service (wire_link F e code dbg H) req_a h))
   \<and> (order_fits F (Pay_NodeNetworkInterface req_b) \<and> answer_fits F (map_ok Reply_NodeNetworkInterface (fst (nh_network_interface H req_b h))) \<longrightarrow>
       runs_on_agent (split_frame code) (agent_decoders F e dbg) H (nh_network_interface H req_b) h
         (node_network_interface (wire_link F e code dbg H) req_b h))
   \<and> (order_fits F (Pay_NodeHostname req_c) \<and> answer_fits F (map_ok Reply_NodeHostname (fst (nh_hostname H req_c h))) \<longrightarrow>
       runs_on_agent (split_frame code) (agent_decoders F e dbg) H (nh_hostname H req_c) h
         (node_hostname (wire_link F e code dbg H) req_c h))
   \<and> (order_fits F (Pay_NodeTimeSync req_d) \<and> answer_fits F (map_ok Reply_NodeTimeSync (fst (nh_time_sync H req_d h))) \<longrightarrow>
       runs_on_agent (split_frame code) (agent_decoders F e dbg) H (nh_time_sync H req_d) h
         (node_time_sync (wire_link F e code dbg H) req_d h))
   \<and> (order_fits F (Pay_NodeLogging req_e) \<and> answer_fits F (map_ok Reply_NodeLogging (fst (nh_logging H req_e h))) \<longrightarrow>
       runs_on_agent (split_frame code) (agent_decoders F e dbg) H (nh_logging H req_e) h
         (node_logging (wire_link F e code dbg H) req_e h))
   \<and> (order_fits F (Pay_NodeRemoteAccess req_f) \<and> answer_fits F (map_ok Reply_NodeRemoteAccess (fst (nh_remote_access H req_f h))) \<longrightarrow>
       runs_on_agent (split_frame code) (agent_decoders F e dbg) H (nh_remote_access H req_f) h
         (node_remote_access (wire_link F e code dbg H) req_f h))
   \<and> (order_fits F (Pay_NodeObservation req_h) \<and> answer_fits F (map_ok Reply_NodeObservation (fst (nh_observation H req_h h))) \<longrightarrow>
       runs_on_agent (split_frame code) (agent_decoders F e dbg) H (nh_observation H req_h) h
         (node_observation (wire_link F e code dbg H) req_h h))
   \<and> (order_fits F (Pay_NodeVersion req_i) \<and> answer_fits F (map_ok Reply_NodeVersion (fst (nh_version H req_i h))) \<longrightarrow>
       runs_on_agent (split_frame code) (agent_decoders F e dbg) H (nh_version H req_i) h
         (node_version (wire_link F e code dbg H) req_i h))
   \<and> (order_fits F (Pay_NodePackage req_j) \<and> answer_fits F (map_ok Reply_NodePackage (fst (nh_package H req_j h))) \<and> reject_install req_j = Ok () \<longrightarrow>
       runs_on_agent (split_frame code) (agent_decoders F e dbg) H (nh_package H req_j) h
         (node_package (wire_link F e code dbg H) req_j h))
   \<and> (order_fits F (Pay_NodeEnroll req_k) \<and> answer_fits F (map_ok Reply_NodeEnroll (fst (nh_enroll H req_k h))) \<longrightarrow>
       runs_on_agent (split_frame code) (agent_decoders F e dbg) H (nh_enroll H req_k) h
         (node_enroll (wire_link F e code dbg H) req_k h))
   \<and> (order_fits F (Pay_NodePower req_g) \<and> node_power_expects_response req_g
          \<and> answer_fits F (map_ok Reply_NodePower (fst (nh_power H req_g h))) \<longrightarrow>
       runs_on_agent (split_frame code) (agent_decoders F e dbg) H
         (\<lambda>h. apfst (map_ok PowerOutcome_Response) (nh_power H req_g h)) h
         (node_power (wire_link F e code dbg H) req_g h))
   \<and> (order_fits F (Pay_NodePower req_g) \<and> \<not> node_power_expects_response req_g \<longrightarrow>
       (\<exists>st s. node_power (wire_link F e code dbg H) req_g h = (Ok PowerOutcome_Sent, h, Some st)
          \<and> agent_run (split_frame code) (agent_decoders F e dbg) H st = Some (Ok (), s)
          \<and> se_handler s = snd (nh_power H req_g h) \<and> se_send s = []))"
  by (intro conjI impI; (elim conjE)?; rule wl.send_allowlist_served
      wl.send_blocklist_served
      wl.send_config_update_cmd_served
      wl.send_delete_customer_data_cmd_served
      wl.send_train_model_served
      wl.send_clone_model_served
      wl.send_cancel_run_served
      wl.send_run_detector_once_served
      wl.send_filtering_rules_served
      wl.send_internal_network_list_served
      wl.send_ping_served
      wl.send_sampling_policies_served
      wl.send_tor_exit_node_list_served
      wl.send_trusted_domain_list_served
      wl.send_trusted_user_agent_list_served
      wl.node_service_served
      wl.node_network_interface_served
      wl.node_hostname_served
      wl.node_time_sync_served
      wl.node_logging_served
      wl.node_remote_access_served
      wl.node_observation_served
      wl.node_version_served
      wl.node_package_served
      wl.node_enroll_served
      wl.node_power_answered wl.node_power_sent;
      (assumption | rule carried | simp)+)

lemmas installs = wl.install_handed_over [OF carried]

end

text \<open>
  C11. The manager's calls, with bytes both ways. In every lawful format, a call whose request
  and whose answer exist in the program runs the agent's method it is named for once, with the
  caller's arguments: request code and payload are written, split and decoded, the result or the
  error is written and read back at the type the caller asked for, and the stream ends with
  nothing left on it. A power request waits for an answer exactly when the agent writes one.
\<close>

theorem calls_over_wire:
  assumes "lawful_format F" and "lawful (plain code)"
  shows "(order_fits F (Pay_NetworkGroup allowlist_a) \<and> answer_fits F (map_ok (\<lambda>_. Reply_Unit) (fst (h_allowlist H allowlist_a h))) \<longrightarrow>
       runs_on_agent (split_frame code) (agent_decoders F e dbg) H (h_allowlist H allowlist_a) h
         (send_allowlist (wire_link F e code dbg H) allowlist_a h))
   \<and> (order_fits F (Pay_NetworkGroup blocklist_b) \<and> answer_fits F (map_ok (\<lambda>_. Reply_Unit) (fst (h_blocklist H blocklist_b h))) \<longrightarrow>
       runs_on_agent (split_frame code) (agent_decoders F e dbg) H (h_blocklist H blocklist_b) h
         (send_blocklist (wire_link F e code dbg H) blocklist_b h))
   \<and> (answer_fits F (map_ok (\<lambda>_. Reply_Unit) (fst (h_update_config H h))) \<longrightarrow>
       runs_on_agent (split_frame code) (agent_decoders F e dbg) H (h_update_config H) h
         (send_config_update_cmd (wire_link F e code dbg H) h))
   \<and> (order_fits F (Pay_DeleteCustomerData request_d) \<and> answer_fits F (map_ok (\<lambda>_. Reply_Unit) (fst (h_delete_customer_data H request_d h))) \<longrightarrow>
       runs_on_agent (split_frame code) (agent_decoders F e dbg) H (h_delete_customer_data H request_d) h
         (send_delete_customer_data_cmd (wire_link F e code dbg H) request_d h))
   \<and> (order_fits F (Pay_TrainModel request_e) \<and> answer_fits F (map_ok (\<lambda>_. Reply_Unit) (fst (h_train_model H request_e h))) \<longrightarrow>
       runs_on_agent (split_frame code) (agent_decoders F e dbg) H (h_train_model H request_e) h
         (send_train_model (wire_link F e code dbg H) request_e h))
   \<and> (order_fits F (Pay_CloneModel request_f) \<and> answer_fits F (map_ok (\<lambda>_. Reply_Unit) (fst (h_clone_model H request_f h))) \<longrightarrow>
       runs_on_agent (split_frame code) (agent_decoders F e dbg) H (h_clone_model H request_f) h
         (send_clone_model (wire_link F e code dbg H) request_f h))
   \<and> (order_fits F (Pay_U32 run_id_g) \<and> answer_fits F (map_ok (\<lambda>_. Reply_Unit) (fst (h_cancel_run H run_id_g h))) \<longrightarrow>
       runs_on_agent (split_frame code) (agent_decoders F e dbg) H (h_cancel_run H run_id_g) h
         (send_cancel_run (wire_link F e code dbg H) run_id_g h))
   \<and> (order_fits F (Pay_I32 detector_id_h) \<and> answer_fits F (map_ok (\<lambda>_. Reply_Unit) (fst (h_run_detector_once H detector_id_h h))) \<longrightarrow>
       runs_on_agent (split_frame code) (agent_decoders F e dbg) H (h_run_detector_once H detector_id_h) h
         (send_run_detector_once (wire_link F e code dbg H) detector_id_h h))
   \<and> (order_fits F (Pay_FilterRules list_i) \<and> answer_fits F (map_ok (\<lambda>_. Reply_Unit) (fst (h_update_traffic_filter_rules H list_i h))) \<longrightarrow>
       runs_on_agent (split_frame code) (agent_decoders F e dbg) H (h_update_traffic_filter_rules H list_i) h
         (send_filtering_rules (wire_link F e code dbg H) list_i h))
   \<and> (order_fits F (Pay_NetworkGroup list_j) \<and> answer_fits F (map_ok (\<lambda>_. Reply_Unit) (fst (h_internal_network_list H list_j h))) \<longrightarrow>
       runs_on_agent (split_frame code) (agent_decoders F e dbg) H (h_internal_network_list H list_j) h
         (send_internal_network_list (wire_link F e code dbg H) list_j h))
   \<and> (runs_on_agent (split_frame code) (agent_decoders F e dbg) H (\<lambda>h. (Ok (), h)) h
         (send_ping (wire_link F e code dbg H) h))
   \<and> (order_fits F (Pay_SamplingPolicies list_l) \<and> answer_fits F (map_ok (\<lambda>_. Reply_Unit) (fst (h_sampling_policy_list H list_l h))) \<longrightarrow>
       runs_on_agent (split_frame code) (agent_decoders F e dbg) H (h_sampling_policy_list H list_l) h
         (send_sampling_policies (wire_link F e code dbg H) list_l h))
   \<and> (order_fits F (Pay_Strings list_m) \<and> answer_fits F (map_ok (\<lambda>_. Reply_Unit) (fst (h_tor_exit_node_list H list_m h))) \<longrightarrow>
       runs_on_agent (split_frame code) (agent_decoders F e dbg) H (h_tor_exit_node_list H list_m) h
         (send_tor_exit_node_list (wire_link F e code dbg H) list_m h))
   \<and> (order_fits F (Pay_Strings list_n) \<and> answer_fits F (map_ok (\<lambda>_. Reply_Unit) (fst (h_trusted_domain_list H list_n h))) \<longrightarrow>
       runs_on_agent (split_frame code) (agent_decoders F e dbg) H (h_trusted_domain_list H list_n) h
         (send_trusted_domain_list (wire_link F e code dbg H) list_n h))
   \<and> (order_fits F (Pay_Strings list_o) \<and> answer_fits F (map_ok (\<lambda>_. Reply_Unit) (fst (h_trusted_user_agent_list H list_o h))) \<longrightarrow>
       runs_on_agent (split_frame code) (agent_decoders F e dbg) H (h_trusted_user_agent_list H list_o) h
         (send_trusted_user_agent_list (wire_link F e code dbg H) list_o h))
   \<and> (order_fits F (Pay_NodeService req_a) \<and> answer_fits F (map_ok Reply_NodeService (fst (nh_service H req_a h))) \<longrightarrow>
       runs_on_agent (split_frame code) (agent_decoders F e dbg) H (nh_service H req_a) h
         (node_service (wire_link F e code dbg H) req_a h))
   \<and> (order_fits F (Pay_NodeNetworkInterface req_b) \<and> answer_fits F (map_ok Reply_NodeNetworkInterface (fst (nh_network_interface H req_b h))) \<longrightarrow>
       runs_on_agent (split_frame code) (agent_decoders F e dbg) H (nh_network_interface H req_b) h
         (node_network_interface (wire_link F e code dbg H) req_b h))
   \<and> (order_fits F (Pay_NodeHostname req_c) \<and> answer_fits F (map_ok Reply_NodeHostname (fst (nh_hostname H req_c h))) \<longrightarrow>
       runs_on_agent (split_frame code) (agent_decoders F e dbg) H (nh_hostname H req_c) h
         (node_hostname (wire_link F e code dbg H) req_c h))
   \<and> (order_fits F (Pay_NodeTimeSync req_d) \<and> answer_fits F (map_ok Reply_NodeTimeSync (fst (nh_time_sync H req_d h))) \<longrightarrow>
       runs_on_agent (split_frame code) (agent_decoders F e dbg) H (nh_time_sync H req_d) h
         (node_time_sync (wire_link F e code dbg H) req_d h))
   \<and> (order_fits F (Pay_NodeLogging req_e) \<and> answer_fits F (map_ok Reply_NodeLogging (fst (nh_logging H req_e h))) \<longrightarrow>
       runs_on_agent (split_frame code) (agent_decoders F e dbg) H (nh_logging H req_e) h
         (node_logging (wire_link F e code dbg H) req_e h))
   \<and> (order_fits F (Pay_NodeRemoteAccess req_f) \<and> answer_fits F (map_ok Reply_NodeRemoteAccess (fst (nh_remote_access H req_f h))) \<longrightarrow>
       runs_on_agent (split_frame code) (agent_decoders F e dbg) H (nh_remote_access H req_f) h
         (node_remote_access (wire_link F e code dbg H) req_f h))
   \<and> (order_fits F (Pay_NodeObservation req_h) \<and> answer_fits F (map_ok Reply_NodeObservation (fst (nh_observation H req_h h))) \<longrightarrow>
       runs_on_agent (split_frame code) (agent_decoders F e dbg) H (nh_observation H req_h) h
         (node_observation (wire_link F e code dbg H) req_h h))
   \<and> (order_fits F (Pay_NodeVersion req_i) \<and> answer_fits F (map_ok Reply_NodeVersion (fst (nh_version H req_i h))) \<longrightarrow>
       runs_on_agent (split_frame code) (agent_decoders F e dbg) H (nh_version H req_i) h
         (node_version (wire_link F e code dbg H) req_i h))
   \<and> (order_fits F (Pay_NodePackage req_j) \<and> answer_fits F (map_ok Reply_NodePackage (fst (nh_package H req_j h))) \<and> reject_install req_j = Ok () \<longrightarrow>
       runs_on_agent (split_frame code) (agent_decoders F e dbg) H (nh_package H req_j) h
         (node_package (wire_link F e code dbg H) req_j h))
   \<and> (order_fits F (Pay_NodeEnroll req_k) \<and> answer_fits F (map_ok Reply_NodeEnroll (fst (nh_enroll H req_k h))) \<longrightarrow>
       runs_on_agent (split_frame code) (agent_decoders F e dbg) H (nh_enroll H req_k) h
         (node_enroll (wire_link F e code dbg H) req_k h))
   \<and> (order_fits F (Pay_NodePower req_g) \<and> node_power_expects_response req_g
          \<and> answer_fits F (map_ok Reply_NodePower (fst (nh_power H req_g h))) \<longrightarrow>
       runs_on_agent (split_frame code) (agent_decoders F e dbg) H
         (\<lambda>h. apfst (map_ok PowerOutcome_Response) (nh_power H req_g h)) h
         (node_power (wire_link F e code dbg H) req_g h))
   \<and> (order_fits F (Pay_NodePower req_g) \<and> \<not> node_power_expects_response req_g \<longrightarrow>
       (\<exists>st s. node_power (wire_link F e code dbg H) req_g h = (Ok PowerOutcome_Sent, h, Some st)
          \<and> agent_run (split_frame code) (agent_decoders F e dbg) H st = Some (Ok (), s)
          \<and> se_handler s = snd (nh_power H req_g h) \<and> se_send s = []))"
  by (rule wire_format.all_calls [OF wire_format.intro [OF assms]])

subsection \<open>An install over the wire\<close>

text \<open>
  C1. An install with bytes both ways. In every lawful format, when the source holds the
  announced size and the agent lets it proceed, the agent's install method is given a prefix of
  chunks of 1 to 65536 bytes whose whole is exactly the first \<open>size\<close> bytes of the manager's source; the verdict and
  the result are written by the agent and read by the manager at their types, the result is the
  manager's outcome, the rest of the source is left unread, and the agent goes on at the end of
  the payload.
\<close>

theorem install_over_wire:
  assumes "lawful_format F" and "lawful (plain code)"
    and "order_fits F (Pay_NodePackage (Package_Install f))"
    and "reads_from rd content" and "unat (in_size f) \<le> length (content pkg)"
    and "nh_package_install_preflight H (Package_Install f) h = (Ok Preflight_Proceed, h1)"
    and "\<forall>chunks. good_chunks chunks \<and> concat chunks = take (unat (in_size f)) (content pkg) \<longrightarrow>
           answer_fits F (map_ok Reply_NodePackage (fst (fst (run_handler
             (frame_io (split_frame code)) (nh_package_install H (Package_Install f) h1)
             (PackageReader_new (chunks, False) (in_size f))))))"
  shows "\<exists>chunks given rest result h2 st pkg' s.
      node_package_install (wire_link F e code dbg H) rd (Package_Install f) h pkg =
        Some ((map_err Any_Msg (map_ok Install_Applied result), h, Some st), pkg')
    \<and> fst (run_handler (frame_io (split_frame code)) (nh_package_install H (Package_Install f) h1)
             (PackageReader_new (chunks, False) (in_size f))) = (result, h2)
    \<and> given = chunks_to_handler (frame_io (split_frame code)) (nh_package_install H (Package_Install f) h1)
                 (PackageReader_new (chunks, False) (in_size f))
    \<and> good_chunks chunks \<and> chunks = given @ rest \<and> concat chunks = take (unat (in_size f)) (content pkg)
    \<and> content pkg' = drop (unat (in_size f)) (content pkg)
    \<and> agent_run (split_frame code) (agent_decoders F e dbg) H st = Some (Ok (), s) \<and> se_handler s = h2"
proof -
  have "answer_fits F (Ok (Reply_Preflight Preflight_Proceed))" by (simp add: wire_fits)
  with assms(3-7) show ?thesis
    by (intro wire_format.installs [OF wire_format.intro [OF assms(1,2)]])
qed

subsection \<open>An instance\<close>

theorem calls_over_wire_witness:
  "runs_on_agent (split_frame (le_prim 4)) (agent_decoders fixint_format (IoError_from EK_InvalidData) (\<lambda>_. []))
     counting_agent (h_tor_exit_node_list counting_agent [''10.0.0.1'']) 4
     (send_tor_exit_node_list (wire_link fixint_format (IoError_from EK_InvalidData) (le_prim 4) (\<lambda>_. []) counting_agent)
       [''10.0.0.1''] 4)"
proof -
  have "order_fits fixint_format (Pay_Strings [''10.0.0.1''])"
    by (simp add: pay_Strings_def wire_fits codec_simps MAX_LEN_def)
  moreover have "answer_fits fixint_format
      (map_ok (\<lambda>_. Reply_Unit) (fst (h_tor_exit_node_list counting_agent [''10.0.0.1''] 4)))"
    by (simp add: counting_agent_def)
  ultimately show ?thesis
    using calls_over_wire [where code = "le_prim 4" and H = counting_agent and h = 4
        and e = "IoError_from EK_InvalidData" and dbg = "\<lambda>_. []" and list_m = "[''10.0.0.1'']",
        OF fixint.format_lawful fixint.code_lawful]
    by simp
qed

theorem install_over_wire_witness:
  "\<exists>st pkg' s. node_package_install (wire_link fixint_format (IoError_from EK_InvalidData) (le_prim 4) (\<lambda>_. [])
        counting_agent) read_bytes (Package_Install sample_install) 0 [1, 2, 3, 4] =
        Some ((Ok (Install_Applied PackageR_Done), 0, Some st), pkg')
    \<and> pkg' = drop (unat (in_size sample_install)) [1, 2, 3, 4]
    \<and> agent_run (split_frame (le_prim 4)) (agent_decoders fixint_format (IoError_from EK_InvalidData) (\<lambda>_. []))
        counting_agent st = Some (Ok (), s) \<and> se_handler s = 1"
proof -
  have size: "unat (in_size sample_install) \<le> length (id [1, 2, 3, 4 :: u8])"
    by (simp add: sample_install_def)
  have verdict: "nh_package_install_preflight counting_agent (Package_Install sample_install) 0 =
      (Ok Preflight_Proceed, 0)"
    by (simp add: counting_agent_def)
  have fit: "order_fits fixint_format (Pay_NodePackage (Package_Install sample_install))"
    by (simp add: sample_install_def wire_fits codec_simps MAX_LEN_def)
  have run: "fst (run_handler io (nh_package_install counting_agent (Package_Install sample_install) 0) p) =
      (Ok PackageR_Done, 1)" for io :: "((string + agent_reply) list, bytes list \<times> bool) agent_io" and p
    by (simp add: counting_agent_def split: prod.split)
  then have "answer_fits fixint_format (map_ok Reply_NodePackage (fst (fst (run_handler
      (frame_io (split_frame (le_prim 4))) (nh_package_install counting_agent (Package_Install sample_install) 0)
      (PackageReader_new (chunks, False) (in_size sample_install))))))" for chunks
    by (simp add: wire_fits codec_simps)
  then show ?thesis
    using install_over_wire [OF fixint.format_lawful fixint.code_lawful fit read_bytes_reads_from size verdict] run
    by fastforce
qed


end
