(* ===== verification/Wire_Client.thy ===== *)
theory Wire_Client
  imports Wire_Link
begin

text \<open>
  The agent's calls with bytes both ways: requests are written as the code and the payload and
  taken apart by the manager's dispatch, answers are written as \<open>Result<T, String>\<close> and read
  with the \<open>T\<close> of the call. A lawful format makes this connection a \<open>manager_connection\<close>.
\<close>

subsection \<open>The manager's answers as bytes\<close>

text \<open>
  \<open>ord\<close> is the order a \<open>HashSet<Vec<String>>\<close>, the tokens of an indicator, iterates in.
\<close>

fun reply_bytes :: "format \<Rightarrow> (string list set \<Rightarrow> string list list) \<Rightarrow> string + server_reply \<Rightarrow> bytes" where
  "reply_bytes F ord (Ok SReply_Unit) = enc (codec_result F unit_codec) (Ok ())"
| "reply_bytes F ord (Ok (SReply_NetworkGroup x)) = enc (codec_result F (codec_HostNetworkGroup F)) (Ok x)"
| "reply_bytes F ord (Ok (SReply_String x)) = enc (codec_result F (codec_str F)) (Ok x)"
| "reply_bytes F ord (Ok (SReply_DataSource x)) = enc (codec_result F (option_codec (fm_option F) (codec_DataSource F))) (Ok x)"
| "reply_bytes F ord (Ok (SReply_Indicator x)) = enc (codec_result F (set_codec (fm_len F) ord (pay_Strings F))) (Ok x)"
| "reply_bytes F ord (Ok (SReply_Bytes x)) = enc (codec_result F (pay_Bytes F)) (Ok x)"
| "reply_bytes F ord (Ok (SReply_Strings x)) = enc (codec_result F (pay_Strings F)) (Ok x)"
| "reply_bytes F ord (Ok (SReply_Outliers x)) = enc (codec_result F (list_codec (fm_len F) (pair_codec (codec_str F) (list_codec (fm_len F) (plain (fm_i64 F)))))) (Ok x)"
| "reply_bytes F ord (Ok (SReply_SamplingPolicies x)) = enc (codec_result F (pay_SamplingPolicies F)) (Ok x)"
| "reply_bytes F ord (Ok (SReply_LabelDbs x)) = enc (codec_result F (list_codec (fm_len F) (pair_codec (codec_str F) (option_codec (fm_option F) (codec_LabelDb F))))) (Ok x)"
| "reply_bytes F ord (Ok (SReply_U32 x)) = enc (codec_result F (plain (fm_u32 F))) (Ok x)"
| "reply_bytes F ord (Ok (SReply_Certificate x)) = enc (codec_result F (pair_codec (codec_str F) (codec_str F))) (Ok x)"
| "reply_bytes F ord (Err e) = enc (codec_result F unit_codec) (Err e)"

fun reply_fits :: "format \<Rightarrow> (string list set \<Rightarrow> string list list) \<Rightarrow> string + server_reply \<Rightarrow> bool" where
  "reply_fits F ord (Ok SReply_Unit) \<longleftrightarrow> True"
| "reply_fits F ord (Ok (SReply_NetworkGroup x)) \<longleftrightarrow> fits (codec_HostNetworkGroup F) x"
| "reply_fits F ord (Ok (SReply_String x)) \<longleftrightarrow> fits (codec_str F) x"
| "reply_fits F ord (Ok (SReply_DataSource x)) \<longleftrightarrow> fits (option_codec (fm_option F) (codec_DataSource F)) x"
| "reply_fits F ord (Ok (SReply_Indicator x)) \<longleftrightarrow> fits (set_codec (fm_len F) ord (pay_Strings F)) x"
| "reply_fits F ord (Ok (SReply_Bytes x)) \<longleftrightarrow> fits (pay_Bytes F) x"
| "reply_fits F ord (Ok (SReply_Strings x)) \<longleftrightarrow> fits (pay_Strings F) x"
| "reply_fits F ord (Ok (SReply_Outliers x)) \<longleftrightarrow> fits (list_codec (fm_len F) (pair_codec (codec_str F) (list_codec (fm_len F) (plain (fm_i64 F))))) x"
| "reply_fits F ord (Ok (SReply_SamplingPolicies x)) \<longleftrightarrow> fits (pay_SamplingPolicies F) x"
| "reply_fits F ord (Ok (SReply_LabelDbs x)) \<longleftrightarrow> fits (list_codec (fm_len F) (pair_codec (codec_str F) (option_codec (fm_option F) (codec_LabelDb F)))) x"
| "reply_fits F ord (Ok (SReply_U32 x)) \<longleftrightarrow> fits (plain (fm_u32 F)) x"
| "reply_fits F ord (Ok (SReply_Certificate x)) \<longleftrightarrow> fits (pair_codec (codec_str F) (codec_str F)) x"
| "reply_fits F ord (Err e) \<longleftrightarrow> length e \<le> MAX_LEN"

subsection \<open>A connection of bytes\<close>

definition take_reply_bytes ::
  "format \<Rightarrow> (string list set \<Rightarrow> string list list) \<Rightarrow> IoError \<Rightarrow> 'a codec
   \<Rightarrow> (bytes \<Rightarrow> (u32 \<times> bytes) option) \<Rightarrow> server_args \<Rightarrow> 'h server_Handler \<Rightarrow> PeerContext \<Rightarrow> authorizer
   \<Rightarrow> 'h \<times> bytes list \<Rightarrow> (IoError + (string + 'a)) \<times> 'h \<times> bytes list" where
  "take_reply_bytes F ord e c sp A H p authorizer st =
     (case manager_run sp A H p authorizer st of
        None \<Rightarrow> (Err (IoError_from EK_TimedOut), st)
      | Some (_, s) \<Rightarrow>
          ((case se_send s of
              [] \<Rightarrow> Err (IoError_from EK_UnexpectedEof)
            | m # _ \<Rightarrow> read_answer F e c (reply_bytes F ord m)),
           se_handler s, se_recv s))"

lemma take_reply_bytes_reads:
  assumes "lawful_format F" and "lawful c"
    and "\<And>a. reply_fits F ord (Ok (reply a)) \<Longrightarrow>
           read_answer F e c (reply_bytes F ord (Ok (reply a))) = Ok (Ok a)"
  shows "answers_as sp A H p authorizer (reply_fits F ord) reply
      (take_reply_bytes F ord e c sp A H p authorizer)"
  unfolding answers_as_def
proof (intro allI impI, elim conjE)
  fix st out s m
  assume "manager_run sp A H p authorizer st = Some (out, s)" "se_send s = [map_ok reply m]"
    "reply_fits F ord (map_ok reply m)"
  then show "take_reply_bytes F ord e c sp A H p authorizer st = (Ok m, se_handler s, se_recv s)"
    using assms by (cases m) (simp_all add: take_reply_bytes_def)
qed

definition wire_client ::
  "format \<Rightarrow> u32 prim \<Rightarrow> (string list set \<Rightarrow> string list list) \<Rightarrow> IoError \<Rightarrow> 'h server_Handler
   \<Rightarrow> PeerContext \<Rightarrow> authorizer \<Rightarrow> ('h, 'h \<times> bytes list) client_io" where
  "wire_client F code ord e H p authorizer =
     (let sp = split_frame code; A = manager_decoders F e in
      \<lparr>cl_open_bi = (\<lambda>h. (Ok (h, []), h)),
       cl_close = (\<lambda>_ st. fst st),
       cl_send_request = (\<lambda>st c payload. (Ok (), fst st, snd st @ [fst code c @ ask_bytes F payload])),
       cl_recv_unit = take_reply_bytes F ord e unit_codec sp A H p authorizer,
       cl_recv_network_group = take_reply_bytes F ord e (codec_HostNetworkGroup F) sp A H p authorizer,
       cl_recv_string = take_reply_bytes F ord e (codec_str F) sp A H p authorizer,
       cl_recv_data_source = take_reply_bytes F ord e (option_codec (fm_option F) (codec_DataSource F)) sp A H p authorizer,
       cl_recv_indicator = take_reply_bytes F ord e (set_codec (fm_len F) ord (pay_Strings F)) sp A H p authorizer,
       cl_recv_bytes = take_reply_bytes F ord e (pay_Bytes F) sp A H p authorizer,
       cl_recv_strings = take_reply_bytes F ord e (pay_Strings F) sp A H p authorizer,
       cl_recv_outliers = take_reply_bytes F ord e (list_codec (fm_len F) (pair_codec (codec_str F) (list_codec (fm_len F) (plain (fm_i64 F))))) sp A H p authorizer,
       cl_recv_sampling_policies = take_reply_bytes F ord e (pay_SamplingPolicies F) sp A H p authorizer,
       cl_recv_label_dbs = take_reply_bytes F ord e (list_codec (fm_len F) (pair_codec (codec_str F) (option_codec (fm_option F) (codec_LabelDb F)))) sp A H p authorizer,
       cl_recv_u32 = take_reply_bytes F ord e (plain (fm_u32 F)) sp A H p authorizer,
       cl_recv_certificate = take_reply_bytes F ord e (pair_codec (codec_str F) (codec_str F)) sp A H p authorizer\<rparr>)"

text \<open>The wire of requests and agents' answers, and an order for the set among the manager's.\<close>

locale reply_format = wire_format +
  fixes ord :: "string list set \<Rightarrow> string list list"
  assumes set_order: "orders ord"
begin

lemma frame_split: "split_frame code (fst code c @ b) = Some (c, b)"
  using lawful_reads [OF code_lawful] by (simp add: split_frame_def plain_def)

lemma replies_read:
  "answers_as sp A H p authorizer (reply_fits F ord) (\<lambda>_. SReply_Unit)
     (take_reply_bytes F ord e unit_codec sp A H p authorizer)"
  "answers_as sp A H p authorizer (reply_fits F ord) SReply_NetworkGroup
     (take_reply_bytes F ord e (codec_HostNetworkGroup F) sp A H p authorizer)"
  "answers_as sp A H p authorizer (reply_fits F ord) SReply_String
     (take_reply_bytes F ord e (codec_str F) sp A H p authorizer)"
  "answers_as sp A H p authorizer (reply_fits F ord) SReply_DataSource
     (take_reply_bytes F ord e (option_codec (fm_option F) (codec_DataSource F)) sp A H p authorizer)"
  "answers_as sp A H p authorizer (reply_fits F ord) SReply_Indicator
     (take_reply_bytes F ord e (set_codec (fm_len F) ord (pay_Strings F)) sp A H p authorizer)"
  "answers_as sp A H p authorizer (reply_fits F ord) SReply_Bytes
     (take_reply_bytes F ord e (pay_Bytes F) sp A H p authorizer)"
  "answers_as sp A H p authorizer (reply_fits F ord) SReply_Strings
     (take_reply_bytes F ord e (pay_Strings F) sp A H p authorizer)"
  "answers_as sp A H p authorizer (reply_fits F ord) SReply_Outliers
     (take_reply_bytes F ord e (list_codec (fm_len F) (pair_codec (codec_str F) (list_codec (fm_len F) (plain (fm_i64 F))))) sp A H p authorizer)"
  "answers_as sp A H p authorizer (reply_fits F ord) SReply_SamplingPolicies
     (take_reply_bytes F ord e (pay_SamplingPolicies F) sp A H p authorizer)"
  "answers_as sp A H p authorizer (reply_fits F ord) SReply_LabelDbs
     (take_reply_bytes F ord e (list_codec (fm_len F) (pair_codec (codec_str F) (option_codec (fm_option F) (codec_LabelDb F)))) sp A H p authorizer)"
  "answers_as sp A H p authorizer (reply_fits F ord) SReply_U32
     (take_reply_bytes F ord e (plain (fm_u32 F)) sp A H p authorizer)"
  "answers_as sp A H p authorizer (reply_fits F ord) SReply_Certificate
     (take_reply_bytes F ord e (pair_codec (codec_str F) (codec_str F)) sp A H p authorizer)"
  using format_lawful set_order
  by - (rule take_reply_bytes_reads; simp add: lawful_rules unit_codec_sel)+

end

sublocale reply_format \<subseteq> wc: manager_connection "wire_client F code ord e H p authorizer"
  "\<lambda>c b. fst code c @ b" "split_frame code" "ask_bytes F" "manager_decoders F e" H p authorizer
  "reply_fits F ord"
  for e :: IoError and H :: "'h server_Handler" and p :: PeerContext and authorizer :: authorizer
  by unfold_locales
    (simp_all add: wire_client_def Let_def replies_read frame_split MAX_LEN_def)

definition lexical :: "string list set \<Rightarrow> string list list" where
  "lexical = by_key (map (map of_char) :: string list \<Rightarrow> nat list list) (map (map char_of))"

lemma lexical_orders: "orders lexical"
  unfolding lexical_def by (rule orders_by_key) (simp add: o_def)

interpretation fixint_replies: reply_format fixint_format "le_prim 4" lexical
  by unfold_locales (rule lexical_orders)

subsection \<open>Every call over the wire\<close>

context reply_format
begin

lemma asked: "ask_fits F payload \<Longrightarrow> decodes (ask_bytes F) (manager_decoders F e) payload"
  by (rule ask_decodes [OF format_lawful])

lemma all_client_calls:

  "(ask_fits F (CPay_DeletionReport report_a) \<and> reply_fits F ord (map_ok (\<lambda>_. SReply_Unit) (fst (mh_report_customer_data_deletion H report_a h))) \<longrightarrow>
     client_report_customer_data_deletion (wire_client F code ord e H p authorizer) report_a h =
      remote (authorizer p SERVER_CUSTOMER_DATA_DELETION_REPORT) (mh_report_customer_data_deletion H report_a) h)
     \<and> (ask_fits F (CPay_RunModel (run_id_b, model_b)) \<and> reply_fits F ord (map_ok (\<lambda>_. SReply_Unit) (fst (mh_upload_run_model H (pc_name p) run_id_b model_b h))) \<longrightarrow>
     client_upload_run_model (wire_client F code ord e H p authorizer) run_id_b model_b h =
      remote (authorizer p SERVER_RUN_UPLOAD_MODEL) (mh_upload_run_model H (pc_name p) run_id_b model_b) h)
     \<and> (ask_fits F (CPay_RunReport (run_id_c, state_c, reason_c)) \<and> reply_fits F ord (map_ok (\<lambda>_. SReply_Unit) (fst (mh_report_run H (pc_name p) run_id_c state_c reason_c h))) \<longrightarrow>
     client_report_run (wire_client F code ord e H p authorizer) run_id_c state_c reason_c h =
      remote (authorizer p SERVER_RUN_REPORT) (mh_report_run H (pc_name p) run_id_c state_c reason_c) h)
     \<and> (ask_fits F (CPay_U32s run_ids_d) \<and> reply_fits F ord (map_ok (\<lambda>_. SReply_Unit) (fst (mh_report_active_runs H (pc_name p) run_ids_d h))) \<longrightarrow>
     client_report_active_runs (wire_client F code ord e H p authorizer) run_ids_d h =
      remote (authorizer p SERVER_RUN_REPORT_ACTIVE) (mh_report_active_runs H (pc_name p) run_ids_d) h)
     \<and> (ask_fits F (CPay_DetectorStatus report_e) \<and> reply_fits F ord (map_ok (\<lambda>_. SReply_Unit) (fst (mh_report_detector_status H (pc_name p) report_e h))) \<longrightarrow>
     client_report_detector_status (wire_client F code ord e H p authorizer) report_e h =
      remote (authorizer p SERVER_DETECTOR_REPORT_STATUS) (mh_report_detector_status H (pc_name p) report_e) h)
     \<and> (reply_fits F ord (map_ok SReply_String (fst (mh_get_config H (pc_name p) h))) \<longrightarrow>
     client_get_config (wire_client F code ord e H p authorizer) h =
      remote (authorizer p SERVER_CONFIG_GET) (mh_get_config H (pc_name p)) h)
     \<and> (reply_fits F ord (map_ok SReply_NetworkGroup (fst (mh_get_allowlist H (pc_name p) h))) \<longrightarrow>
     client_get_allowlist (wire_client F code ord e H p authorizer) h =
      remote (authorizer p SERVER_LIST_ALLOWLIST) (mh_get_allowlist H (pc_name p)) h)
     \<and> (reply_fits F ord (map_ok SReply_NetworkGroup (fst (mh_get_blocklist H (pc_name p) h))) \<longrightarrow>
     client_get_blocklist (wire_client F code ord e H p authorizer) h =
      remote (authorizer p SERVER_LIST_BLOCKLIST) (mh_get_blocklist H (pc_name p)) h)
     \<and> (ask_fits F (CPay_DataSourceKey key_i) \<and> reply_fits F ord (map_ok SReply_DataSource (fst (mh_get_data_source H key_i h))) \<longrightarrow>
     client_get_data_source (wire_client F code ord e H p authorizer) key_i h =
      (case remote (authorizer p SERVER_DATA_SOURCE_GET) (mh_get_data_source H key_i) h of
         (res, h) \<Rightarrow> (res_and_then res (\<lambda>res. case res of
            Some data_source \<Rightarrow> Ok data_source | None \<Rightarrow> Err (IoError_from EK_NotFound)), h)))
     \<and> (ask_fits F (CPay_String name_j) \<and> reply_fits F ord (map_ok SReply_Indicator (fst (mh_get_indicator H name_j h))) \<longrightarrow>
     client_get_indicator (wire_client F code ord e H p authorizer) name_j h =
      remote (authorizer p SERVER_INDICATOR_GET) (mh_get_indicator H name_j) h)
     \<and> (reply_fits F ord (map_ok SReply_NetworkGroup (fst (mh_get_internal_network_list H (pc_name p) h))) \<longrightarrow>
     client_get_internal_network_list (wire_client F code ord e H p authorizer) h =
      remote (authorizer p SERVER_LIST_INTERNAL_NETWORK) (mh_get_internal_network_list H (pc_name p)) h)
     \<and> (ask_fits F (CPay_NamePairs labeldbs_l) \<and> reply_fits F ord (map_ok SReply_LabelDbs (fst (mh_get_labeldb_patterns H labeldbs_l h))) \<longrightarrow>
     client_get_labeldb_patterns (wire_client F code ord e H p authorizer) labeldbs_l h =
      remote (authorizer p SERVER_LABEL_GET_DB_PATTERNS) (mh_get_labeldb_patterns H labeldbs_l) h)
     \<and> (reply_fits F ord (map_ok SReply_Strings (fst (mh_get_tor_exit_node_list H h))) \<longrightarrow>
     client_get_tor_exit_node_list (wire_client F code ord e H p authorizer) h =
      remote (authorizer p SERVER_LIST_TOR_EXIT_NODE) (mh_get_tor_exit_node_list H) h)
     \<and> (reply_fits F ord (map_ok SReply_Strings (fst (mh_get_trusted_domain_list H h))) \<longrightarrow>
     client_get_trusted_domain_list (wire_client F code ord e H p authorizer) h =
      remote (authorizer p SERVER_LIST_TRUSTED_DOMAIN) (mh_get_trusted_domain_list H) h)
     \<and> (reply_fits F ord (map_ok SReply_Strings (fst (mh_get_trusted_user_agent_list H h))) \<longrightarrow>
     client_get_trusted_user_agent_list (wire_client F code ord e H p authorizer) h =
      remote (authorizer p SERVER_LIST_TRUSTED_USER_AGENT) (mh_get_trusted_user_agent_list H) h)
     \<and> (reply_fits F ord (map_ok SReply_SamplingPolicies (fst (mh_get_sampling_policy_list H (pc_name p) h))) \<longrightarrow>
     client_get_sampling_policy_list (wire_client F code ord e H p authorizer) h =
      remote (authorizer p SERVER_LIST_SAMPLING_POLICY) (mh_get_sampling_policy_list H (pc_name p)) h)
     \<and> (ask_fits F (CPay_String name_q) \<and> reply_fits F ord (map_ok SReply_Bytes (fst (mh_get_pretrained_model H name_q h))) \<longrightarrow>
     client_get_pretrained_model (wire_client F code ord e H p authorizer) name_q h =
      remote (authorizer p SERVER_MODEL_GET_PRETRAINED) (mh_get_pretrained_model H name_q) h)
     \<and> (reply_fits F ord (map_ok SReply_Certificate (fst (mh_renew_certificate H (pc_name p) h))) \<longrightarrow>
     client_renew_certificate (wire_client F code ord e H p authorizer) h =
      remote (authorizer p SERVER_CERTIFICATE_RENEW) (mh_renew_certificate H (pc_name p)) h)
     \<and> (ask_fits F (CPay_String name_s) \<and> reply_fits F ord (map_ok SReply_Bytes (fst (mh_get_model H name_s h))) \<longrightarrow>
     client_get_model (wire_client F code ord e H p authorizer) name_s h =
      remote (authorizer p SERVER_MODEL_GET) (mh_get_model H name_s) h)
     \<and> (reply_fits F ord (map_ok SReply_Strings (fst (mh_get_model_names H h))) \<longrightarrow>
     client_get_model_names (wire_client F code ord e H p authorizer) h =
      remote (authorizer p SERVER_MODEL_GET_NAMES) (mh_get_model_names H) h)
     \<and> (ask_fits F (CPay_ColumnStatistics (statistics_u, model_id_u, batch_ts_u)) \<and> reply_fits F ord (map_ok (\<lambda>_. SReply_Unit) (fst (mh_insert_column_statistics H statistics_u model_id_u batch_ts_u h))) \<longrightarrow>
     client_insert_column_statistics (wire_client F code ord e H p authorizer) statistics_u model_id_u batch_ts_u h =
      remote (authorizer p SERVER_STATISTICS_INSERT_COLUMN) (mh_insert_column_statistics H statistics_u model_id_u batch_ts_u) h)
     \<and> (ask_fits F (CPay_Bytes model_v) \<and> reply_fits F ord (map_ok SReply_U32 (fst (mh_insert_model H model_v h))) \<longrightarrow>
     client_insert_model (wire_client F code ord e H p authorizer) model_v h =
      remote (authorizer p SERVER_MODEL_INSERT) (mh_insert_model H model_v) h)
     \<and> (ask_fits F (CPay_TimeSeries (time_series_w, model_id_w, batch_ts_w)) \<and> reply_fits F ord (map_ok (\<lambda>_. SReply_Unit) (fst (mh_insert_time_series H time_series_w model_id_w batch_ts_w h))) \<longrightarrow>
     client_insert_time_series (wire_client F code ord e H p authorizer) time_series_w model_id_w batch_ts_w h =
      remote (authorizer p SERVER_STATISTICS_INSERT_TIME_SERIES) (mh_insert_time_series H time_series_w model_id_w batch_ts_w) h)
     \<and> (ask_fits F (CPay_String name_x) \<and> reply_fits F ord (map_ok (\<lambda>_. SReply_Unit) (fst (mh_remove_model H name_x h))) \<longrightarrow>
     client_remove_model (wire_client F code ord e H p authorizer) name_x h =
      remote (authorizer p SERVER_MODEL_REMOVE) (mh_remove_model H name_x) h)
     \<and> (ask_fits F (CPay_Clusters (input_y, model_id_y)) \<and> reply_fits F ord (map_ok (\<lambda>_. SReply_Unit) (fst (mh_update_clusters H input_y model_id_y h))) \<longrightarrow>
     client_update_clusters (wire_client F code ord e H p authorizer) input_y model_id_y h =
      remote (authorizer p SERVER_CLUSTER_UPDATE) (mh_update_clusters H input_y model_id_y) h)
     \<and> (ask_fits F (CPay_Bytes model_z) \<and> reply_fits F ord (map_ok SReply_U32 (fst (mh_update_model H model_z h))) \<longrightarrow>
     client_update_model (wire_client F code ord e H p authorizer) model_z h =
      remote (authorizer p SERVER_MODEL_UPDATE) (mh_update_model H model_z) h)
     \<and> (ask_fits F (CPay_Outliers (outliers_za, model_id_za, timestamp_za)) \<and> reply_fits F ord (map_ok (\<lambda>_. SReply_Unit) (fst (mh_update_outliers H outliers_za model_id_za timestamp_za h))) \<longrightarrow>
     client_update_outliers (wire_client F code ord e H p authorizer) outliers_za model_id_za timestamp_za h =
      remote (authorizer p SERVER_OUTLIER_UPDATE) (mh_update_outliers H outliers_za model_id_za timestamp_za) h)
     \<and> (ask_fits F (CPay_EventLabels (model_id_zb, round_zb, event_labels_zb)) \<and> reply_fits F ord (map_ok (\<lambda>_. SReply_Unit) (fst (mh_insert_event_labels H model_id_zb round_zb event_labels_zb h))) \<longrightarrow>
     client_insert_event_labels (wire_client F code ord e H p authorizer) model_id_zb round_zb event_labels_zb h =
      remote (authorizer p SERVER_EVENT_INSERT_LABELS) (mh_insert_event_labels H model_id_zb round_zb event_labels_zb) h)
     \<and> (ask_fits F (CPay_DataSource data_source_zc) \<and> reply_fits F ord (map_ok SReply_U32 (fst (mh_insert_data_source H data_source_zc h))) \<longrightarrow>
     client_insert_data_source (wire_client F code ord e H p authorizer) data_source_zc h =
      remote (authorizer p SERVER_DATA_SOURCE_INSERT) (mh_insert_data_source H data_source_zc) h)
     \<and> (ask_fits F (CPay_U32I64 (model_id_zd, timestamp_zd)) \<and> reply_fits F ord (map_ok SReply_Outliers (fst (mh_get_outliers H model_id_zd timestamp_zd h))) \<longrightarrow>
     client_get_outliers (wire_client F code ord e H p authorizer) model_id_zd timestamp_zd h =
      remote (authorizer p SERVER_OUTLIER_GET) (mh_get_outliers H model_id_zd timestamp_zd) h)
     \<and> (ask_fits F (CPay_HostPorts hosts_ze) \<and> reply_fits F ord (map_ok (\<lambda>_. SReply_Unit) (fst (mh_update_host_ports H (pc_name p) hosts_ze h))) \<longrightarrow>
     client_update_host_ports (wire_client F code ord e H p authorizer) hosts_ze h =
      remote (authorizer p SERVER_HOST_UPDATE_OPENED_PORTS) (mh_update_host_ports H (pc_name p) hosts_ze) h)
     \<and> (ask_fits F (CPay_HostAgents hosts_zf) \<and> reply_fits F ord (map_ok (\<lambda>_. SReply_Unit) (fst (mh_update_host_user_agents H (pc_name p) hosts_zf h))) \<longrightarrow>
     client_update_host_user_agents (wire_client F code ord e H p authorizer) hosts_zf h =
      remote (authorizer p SERVER_HOST_UPDATE_OS_AGENTS) (mh_update_host_user_agents H (pc_name p) hosts_zf) h)"
  by (intro conjI impI; (elim conjE)?; rule wc.client_report_customer_data_deletion_served
      wc.client_upload_run_model_served
      wc.client_report_run_served
      wc.client_report_active_runs_served
      wc.client_report_detector_status_served
      wc.client_get_config_served
      wc.client_get_allowlist_served
      wc.client_get_blocklist_served
      wc.client_get_data_source_served
      wc.client_get_indicator_served
      wc.client_get_internal_network_list_served
      wc.client_get_labeldb_patterns_served
      wc.client_get_tor_exit_node_list_served
      wc.client_get_trusted_domain_list_served
      wc.client_get_trusted_user_agent_list_served
      wc.client_get_sampling_policy_list_served
      wc.client_get_pretrained_model_served
      wc.client_renew_certificate_served
      wc.client_get_model_served
      wc.client_get_model_names_served
      wc.client_insert_column_statistics_served
      wc.client_insert_model_served
      wc.client_insert_time_series_served
      wc.client_remove_model_served
      wc.client_update_clusters_served
      wc.client_update_model_served
      wc.client_update_outliers_served
      wc.client_insert_event_labels_served
      wc.client_insert_data_source_served
      wc.client_get_outliers_served
      wc.client_update_host_ports_served
      wc.client_update_host_user_agents_served;
      (assumption | rule asked | simp)+)

end

text \<open>
  C2. The agent's calls, with bytes both ways. In every lawful format, a call whose request and
  whose answer exist in the program is a call of the manager's method it is named for: when the
  authorizer grants the service the call is listed under, the method runs once, with the agent's
  name where it takes one and the caller's arguments as they were before they were written, split
  off their code and read, and its result is the caller's; a method's error becomes an I/O error
  with its text. When the authorizer denies that service the method does not run and the caller
  reads the denial. A data source the manager does not have is \<open>NotFound\<close>.
\<close>

theorem client_calls_over_wire:
  assumes "lawful_format F" and "lawful (plain code)" and "orders ord"
  shows
    "(ask_fits F (CPay_DeletionReport report_a) \<and> reply_fits F ord (map_ok (\<lambda>_. SReply_Unit) (fst (mh_report_customer_data_deletion H report_a h))) \<longrightarrow>
     client_report_customer_data_deletion (wire_client F code ord e H p authorizer) report_a h =
      remote (authorizer p SERVER_CUSTOMER_DATA_DELETION_REPORT) (mh_report_customer_data_deletion H report_a) h)
     \<and> (ask_fits F (CPay_RunModel (run_id_b, model_b)) \<and> reply_fits F ord (map_ok (\<lambda>_. SReply_Unit) (fst (mh_upload_run_model H (pc_name p) run_id_b model_b h))) \<longrightarrow>
     client_upload_run_model (wire_client F code ord e H p authorizer) run_id_b model_b h =
      remote (authorizer p SERVER_RUN_UPLOAD_MODEL) (mh_upload_run_model H (pc_name p) run_id_b model_b) h)
     \<and> (ask_fits F (CPay_RunReport (run_id_c, state_c, reason_c)) \<and> reply_fits F ord (map_ok (\<lambda>_. SReply_Unit) (fst (mh_report_run H (pc_name p) run_id_c state_c reason_c h))) \<longrightarrow>
     client_report_run (wire_client F code ord e H p authorizer) run_id_c state_c reason_c h =
      remote (authorizer p SERVER_RUN_REPORT) (mh_report_run H (pc_name p) run_id_c state_c reason_c) h)
     \<and> (ask_fits F (CPay_U32s run_ids_d) \<and> reply_fits F ord (map_ok (\<lambda>_. SReply_Unit) (fst (mh_report_active_runs H (pc_name p) run_ids_d h))) \<longrightarrow>
     client_report_active_runs (wire_client F code ord e H p authorizer) run_ids_d h =
      remote (authorizer p SERVER_RUN_REPORT_ACTIVE) (mh_report_active_runs H (pc_name p) run_ids_d) h)
     \<and> (ask_fits F (CPay_DetectorStatus report_e) \<and> reply_fits F ord (map_ok (\<lambda>_. SReply_Unit) (fst (mh_report_detector_status H (pc_name p) report_e h))) \<longrightarrow>
     client_report_detector_status (wire_client F code ord e H p authorizer) report_e h =
      remote (authorizer p SERVER_DETECTOR_REPORT_STATUS) (mh_report_detector_status H (pc_name p) report_e) h)
     \<and> (reply_fits F ord (map_ok SReply_String (fst (mh_get_config H (pc_name p) h))) \<longrightarrow>
     client_get_config (wire_client F code ord e H p authorizer) h =
      remote (authorizer p SERVER_CONFIG_GET) (mh_get_config H (pc_name p)) h)
     \<and> (reply_fits F ord (map_ok SReply_NetworkGroup (fst (mh_get_allowlist H (pc_name p) h))) \<longrightarrow>
     client_get_allowlist (wire_client F code ord e H p authorizer) h =
      remote (authorizer p SERVER_LIST_ALLOWLIST) (mh_get_allowlist H (pc_name p)) h)
     \<and> (reply_fits F ord (map_ok SReply_NetworkGroup (fst (mh_get_blocklist H (pc_name p) h))) \<longrightarrow>
     client_get_blocklist (wire_client F code ord e H p authorizer) h =
      remote (authorizer p SERVER_LIST_BLOCKLIST) (mh_get_blocklist H (pc_name p)) h)
     \<and> (ask_fits F (CPay_DataSourceKey key_i) \<and> reply_fits F ord (map_ok SReply_DataSource (fst (mh_get_data_source H key_i h))) \<longrightarrow>
     client_get_data_source (wire_client F code ord e H p authorizer) key_i h =
      (case remote (authorizer p SERVER_DATA_SOURCE_GET) (mh_get_data_source H key_i) h of
         (res, h) \<Rightarrow> (res_and_then res (\<lambda>res. case res of
            Some data_source \<Rightarrow> Ok data_source | None \<Rightarrow> Err (IoError_from EK_NotFound)), h)))
     \<and> (ask_fits F (CPay_String name_j) \<and> reply_fits F ord (map_ok SReply_Indicator (fst (mh_get_indicator H name_j h))) \<longrightarrow>
     client_get_indicator (wire_client F code ord e H p authorizer) name_j h =
      remote (authorizer p SERVER_INDICATOR_GET) (mh_get_indicator H name_j) h)
     \<and> (reply_fits F ord (map_ok SReply_NetworkGroup (fst (mh_get_internal_network_list H (pc_name p) h))) \<longrightarrow>
     client_get_internal_network_list (wire_client F code ord e H p authorizer) h =
      remote (authorizer p SERVER_LIST_INTERNAL_NETWORK) (mh_get_internal_network_list H (pc_name p)) h)
     \<and> (ask_fits F (CPay_NamePairs labeldbs_l) \<and> reply_fits F ord (map_ok SReply_LabelDbs (fst (mh_get_labeldb_patterns H labeldbs_l h))) \<longrightarrow>
     client_get_labeldb_patterns (wire_client F code ord e H p authorizer) labeldbs_l h =
      remote (authorizer p SERVER_LABEL_GET_DB_PATTERNS) (mh_get_labeldb_patterns H labeldbs_l) h)
     \<and> (reply_fits F ord (map_ok SReply_Strings (fst (mh_get_tor_exit_node_list H h))) \<longrightarrow>
     client_get_tor_exit_node_list (wire_client F code ord e H p authorizer) h =
      remote (authorizer p SERVER_LIST_TOR_EXIT_NODE) (mh_get_tor_exit_node_list H) h)
     \<and> (reply_fits F ord (map_ok SReply_Strings (fst (mh_get_trusted_domain_list H h))) \<longrightarrow>
     client_get_trusted_domain_list (wire_client F code ord e H p authorizer) h =
      remote (authorizer p SERVER_LIST_TRUSTED_DOMAIN) (mh_get_trusted_domain_list H) h)
     \<and> (reply_fits F ord (map_ok SReply_Strings (fst (mh_get_trusted_user_agent_list H h))) \<longrightarrow>
     client_get_trusted_user_agent_list (wire_client F code ord e H p authorizer) h =
      remote (authorizer p SERVER_LIST_TRUSTED_USER_AGENT) (mh_get_trusted_user_agent_list H) h)
     \<and> (reply_fits F ord (map_ok SReply_SamplingPolicies (fst (mh_get_sampling_policy_list H (pc_name p) h))) \<longrightarrow>
     client_get_sampling_policy_list (wire_client F code ord e H p authorizer) h =
      remote (authorizer p SERVER_LIST_SAMPLING_POLICY) (mh_get_sampling_policy_list H (pc_name p)) h)
     \<and> (ask_fits F (CPay_String name_q) \<and> reply_fits F ord (map_ok SReply_Bytes (fst (mh_get_pretrained_model H name_q h))) \<longrightarrow>
     client_get_pretrained_model (wire_client F code ord e H p authorizer) name_q h =
      remote (authorizer p SERVER_MODEL_GET_PRETRAINED) (mh_get_pretrained_model H name_q) h)
     \<and> (reply_fits F ord (map_ok SReply_Certificate (fst (mh_renew_certificate H (pc_name p) h))) \<longrightarrow>
     client_renew_certificate (wire_client F code ord e H p authorizer) h =
      remote (authorizer p SERVER_CERTIFICATE_RENEW) (mh_renew_certificate H (pc_name p)) h)
     \<and> (ask_fits F (CPay_String name_s) \<and> reply_fits F ord (map_ok SReply_Bytes (fst (mh_get_model H name_s h))) \<longrightarrow>
     client_get_model (wire_client F code ord e H p authorizer) name_s h =
      remote (authorizer p SERVER_MODEL_GET) (mh_get_model H name_s) h)
     \<and> (reply_fits F ord (map_ok SReply_Strings (fst (mh_get_model_names H h))) \<longrightarrow>
     client_get_model_names (wire_client F code ord e H p authorizer) h =
      remote (authorizer p SERVER_MODEL_GET_NAMES) (mh_get_model_names H) h)
     \<and> (ask_fits F (CPay_ColumnStatistics (statistics_u, model_id_u, batch_ts_u)) \<and> reply_fits F ord (map_ok (\<lambda>_. SReply_Unit) (fst (mh_insert_column_statistics H statistics_u model_id_u batch_ts_u h))) \<longrightarrow>
     client_insert_column_statistics (wire_client F code ord e H p authorizer) statistics_u model_id_u batch_ts_u h =
      remote (authorizer p SERVER_STATISTICS_INSERT_COLUMN) (mh_insert_column_statistics H statistics_u model_id_u batch_ts_u) h)
     \<and> (ask_fits F (CPay_Bytes model_v) \<and> reply_fits F ord (map_ok SReply_U32 (fst (mh_insert_model H model_v h))) \<longrightarrow>
     client_insert_model (wire_client F code ord e H p authorizer) model_v h =
      remote (authorizer p SERVER_MODEL_INSERT) (mh_insert_model H model_v) h)
     \<and> (ask_fits F (CPay_TimeSeries (time_series_w, model_id_w, batch_ts_w)) \<and> reply_fits F ord (map_ok (\<lambda>_. SReply_Unit) (fst (mh_insert_time_series H time_series_w model_id_w batch_ts_w h))) \<longrightarrow>
     client_insert_time_series (wire_client F code ord e H p authorizer) time_series_w model_id_w batch_ts_w h =
      remote (authorizer p SERVER_STATISTICS_INSERT_TIME_SERIES) (mh_insert_time_series H time_series_w model_id_w batch_ts_w) h)
     \<and> (ask_fits F (CPay_String name_x) \<and> reply_fits F ord (map_ok (\<lambda>_. SReply_Unit) (fst (mh_remove_model H name_x h))) \<longrightarrow>
     client_remove_model (wire_client F code ord e H p authorizer) name_x h =
      remote (authorizer p SERVER_MODEL_REMOVE) (mh_remove_model H name_x) h)
     \<and> (ask_fits F (CPay_Clusters (input_y, model_id_y)) \<and> reply_fits F ord (map_ok (\<lambda>_. SReply_Unit) (fst (mh_update_clusters H input_y model_id_y h))) \<longrightarrow>
     client_update_clusters (wire_client F code ord e H p authorizer) input_y model_id_y h =
      remote (authorizer p SERVER_CLUSTER_UPDATE) (mh_update_clusters H input_y model_id_y) h)
     \<and> (ask_fits F (CPay_Bytes model_z) \<and> reply_fits F ord (map_ok SReply_U32 (fst (mh_update_model H model_z h))) \<longrightarrow>
     client_update_model (wire_client F code ord e H p authorizer) model_z h =
      remote (authorizer p SERVER_MODEL_UPDATE) (mh_update_model H model_z) h)
     \<and> (ask_fits F (CPay_Outliers (outliers_za, model_id_za, timestamp_za)) \<and> reply_fits F ord (map_ok (\<lambda>_. SReply_Unit) (fst (mh_update_outliers H outliers_za model_id_za timestamp_za h))) \<longrightarrow>
     client_update_outliers (wire_client F code ord e H p authorizer) outliers_za model_id_za timestamp_za h =
      remote (authorizer p SERVER_OUTLIER_UPDATE) (mh_update_outliers H outliers_za model_id_za timestamp_za) h)
     \<and> (ask_fits F (CPay_EventLabels (model_id_zb, round_zb, event_labels_zb)) \<and> reply_fits F ord (map_ok (\<lambda>_. SReply_Unit) (fst (mh_insert_event_labels H model_id_zb round_zb event_labels_zb h))) \<longrightarrow>
     client_insert_event_labels (wire_client F code ord e H p authorizer) model_id_zb round_zb event_labels_zb h =
      remote (authorizer p SERVER_EVENT_INSERT_LABELS) (mh_insert_event_labels H model_id_zb round_zb event_labels_zb) h)
     \<and> (ask_fits F (CPay_DataSource data_source_zc) \<and> reply_fits F ord (map_ok SReply_U32 (fst (mh_insert_data_source H data_source_zc h))) \<longrightarrow>
     client_insert_data_source (wire_client F code ord e H p authorizer) data_source_zc h =
      remote (authorizer p SERVER_DATA_SOURCE_INSERT) (mh_insert_data_source H data_source_zc) h)
     \<and> (ask_fits F (CPay_U32I64 (model_id_zd, timestamp_zd)) \<and> reply_fits F ord (map_ok SReply_Outliers (fst (mh_get_outliers H model_id_zd timestamp_zd h))) \<longrightarrow>
     client_get_outliers (wire_client F code ord e H p authorizer) model_id_zd timestamp_zd h =
      remote (authorizer p SERVER_OUTLIER_GET) (mh_get_outliers H model_id_zd timestamp_zd) h)
     \<and> (ask_fits F (CPay_HostPorts hosts_ze) \<and> reply_fits F ord (map_ok (\<lambda>_. SReply_Unit) (fst (mh_update_host_ports H (pc_name p) hosts_ze h))) \<longrightarrow>
     client_update_host_ports (wire_client F code ord e H p authorizer) hosts_ze h =
      remote (authorizer p SERVER_HOST_UPDATE_OPENED_PORTS) (mh_update_host_ports H (pc_name p) hosts_ze) h)
     \<and> (ask_fits F (CPay_HostAgents hosts_zf) \<and> reply_fits F ord (map_ok (\<lambda>_. SReply_Unit) (fst (mh_update_host_user_agents H (pc_name p) hosts_zf h))) \<longrightarrow>
     client_update_host_user_agents (wire_client F code ord e H p authorizer) hosts_zf h =
      remote (authorizer p SERVER_HOST_UPDATE_OS_AGENTS) (mh_update_host_user_agents H (pc_name p) hosts_zf) h)"
  by (rule reply_format.all_client_calls
      [OF reply_format.intro [OF wire_format.intro [OF assms(1,2)] reply_format_axioms.intro [OF assms(3)]]])

text \<open>
  A handler with an indicator, and a call that reads it, one that is told there is none, and one
  that is denied.
\<close>

definition indicator_keeper :: "nat server_Handler" where
  "indicator_keeper = server_Handler_default
     \<lparr>mh_get_indicator := \<lambda>name n.
        (if name = ''i'' then Ok {[''a'', ''b''], [''c'']} else Err ''no such indicator'', n + 1)\<rparr>"

theorem client_calls_over_wire_witness:
  "client_get_indicator (wire_client fixint_format (le_prim 4) lexical (IoError_from EK_InvalidData)
       indicator_keeper (PeerContext_new ''a'') NoopAuthorizer) ''i'' 0 = (Ok {[''a'', ''b''], [''c'']}, 1)
   \<and> client_get_indicator (wire_client fixint_format (le_prim 4) lexical (IoError_from EK_InvalidData)
       indicator_keeper (PeerContext_new ''a'') NoopAuthorizer) ''x'' 3 =
       (Err (IoError_other ''no such indicator''), 4)
   \<and> client_get_indicator (wire_client fixint_format (le_prim 4) lexical (IoError_from EK_InvalidData)
       indicator_keeper (PeerContext_new ''a'') (\<lambda>_ _. Err (AuthorizationError_new ''no''))) ''i'' 3 =
       (Err (IoError_other ''authorization denied''), 3)"
proof (intro conjI)
  note serves = client_calls_over_wire [OF lawful_fixint lawful_le_prim lexical_orders,
      where H = indicator_keeper and p = "PeerContext_new ''a''" and e = "IoError_from EK_InvalidData"]
  have sent: "ask_fits fixint_format (CPay_String ''i'')" "ask_fits fixint_format (CPay_String ''x'')"
    by (simp_all add: codec_simps MAX_LEN_def)
  have answered: "reply_fits fixint_format lexical
      (map_ok SReply_Indicator (fst (mh_get_indicator indicator_keeper ''i'' n)))" for n
    by (simp add: indicator_keeper_def fits_set [OF lexical_orders] pay_Strings_def list_codec_sel codec_simps MAX_LEN_def)
  have refused: "reply_fits fixint_format lexical
      (map_ok SReply_Indicator (fst (mh_get_indicator indicator_keeper ''x'' n)))" for n
    by (simp add: indicator_keeper_def MAX_LEN_def)
  show "client_get_indicator (wire_client fixint_format (le_prim 4) lexical (IoError_from EK_InvalidData)
       indicator_keeper (PeerContext_new ''a'') NoopAuthorizer) ''i'' 0 = (Ok {[''a'', ''b''], [''c'']}, 1)"
    using serves [where authorizer = NoopAuthorizer and h = 0 and name_j = "''i''"] sent(1) answered [of 0]
    by (simp add: remote_def NoopAuthorizer_def indicator_keeper_def del: ask_fits.simps reply_fits.simps)
  show "client_get_indicator (wire_client fixint_format (le_prim 4) lexical (IoError_from EK_InvalidData)
       indicator_keeper (PeerContext_new ''a'') NoopAuthorizer) ''x'' 3 =
       (Err (IoError_other ''no such indicator''), 4)"
    using serves [where authorizer = NoopAuthorizer and h = 3 and name_j = "''x''"] sent(2) refused [of 3]
    by (simp add: remote_def NoopAuthorizer_def indicator_keeper_def del: ask_fits.simps reply_fits.simps)
  show "client_get_indicator (wire_client fixint_format (le_prim 4) lexical (IoError_from EK_InvalidData)
       indicator_keeper (PeerContext_new ''a'') (\<lambda>_ _. Err (AuthorizationError_new ''no''))) ''i'' 3 =
       (Err (IoError_other ''authorization denied''), 3)"
    using serves [where authorizer = "\<lambda>_ _. Err (AuthorizationError_new ''no'')" and h = 3
        and name_j = "''i''"] sent(1) answered [of 3]
    by (simp add: remote_def del: ask_fits.simps reply_fits.simps)
qed


end
