(* ===== verification/Api_Harness.thy ===== *)
theory Api_Harness
  imports Wire_Link Request_Harness
begin

text \<open>
  What the tests of \<open>src/src/server/api.rs\<close> and \<open>src/src/server/node.rs\<close> run on: a manager and
  an agent joined by the bytes of \<open>Wire_Link\<close>, the agent serving each stream with \<open>handle\<close>. A
  test passes when it passes for every lawful wire.
\<close>

record wire =
  wi_format :: format
  wi_error :: IoError
  wi_code :: "u32 prim"
  wi_debug :: "NodeObservationResponse \<Rightarrow> string"

definition lawful_wire :: "wire \<Rightarrow> bool" where
  "lawful_wire W \<longleftrightarrow> lawful_format (wi_format W) \<and> lawful (plain (wi_code W))"

abbreviation linked :: "wire \<Rightarrow> 'h Handler \<Rightarrow> ('h, 'h link) manager_io" where
  "linked W H \<equiv> wire_link (wi_format W) (wi_error W) (wi_code W) (wi_debug W) H"

abbreviation ran ::
  "wire \<Rightarrow> 'h Handler \<Rightarrow> 'h link
   \<Rightarrow> ((HandlerError + unit) \<times> ('h, (string + agent_reply) list, bytes list \<times> bool) session) option" where
  "ran W H st \<equiv> agent_run (split_frame (wi_code W)) (agent_decoders (wi_format W) (wi_error W) (wi_debug W)) H st"

text \<open>
  A call on a fresh stream: what the manager got and the agent's state when its \<open>handle\<close> has
  returned without an error.
\<close>

definition exchanged ::
  "wire \<Rightarrow> 'h Handler \<Rightarrow> (('h, 'h link) manager_io \<Rightarrow> ('h, 'h link, 'a) call) \<Rightarrow> 'h \<Rightarrow> ((AnyError + 'a) \<times> 'h) option" where
  "exchanged W H call h =
     (case call (linked W H) h of
        (res, _, Some st) \<Rightarrow> (case ran W H st of Some (Ok _, s) \<Rightarrow> Some (res, se_handler s) | _ \<Rightarrow> None)
      | _ \<Rightarrow> None)"

text \<open>An install on a fresh stream, and what is left of its source.\<close>

definition settled ::
  "wire \<Rightarrow> 'h Handler \<Rightarrow> (((AnyError + InstallOutcome) \<times> 'h \<times> 'h link option) \<times> bytes) option
   \<Rightarrow> ((AnyError + InstallOutcome) \<times> 'h \<times> bytes) option" where
  "settled W H out =
     (case out of
        Some ((res, _, Some st), pkg) \<Rightarrow>
          (case ran W H st of Some (Ok _, s) \<Rightarrow> Some (res, se_handler s, pkg) | _ \<Rightarrow> None)
      | _ \<Rightarrow> None)"

abbreviation installed ::
  "wire \<Rightarrow> 'h Handler \<Rightarrow> NodePackageRequest \<Rightarrow> 'h \<Rightarrow> bytes \<Rightarrow> ((AnyError + InstallOutcome) \<times> 'h \<times> bytes) option" where
  "installed W H req h pkg \<equiv> settled W H (node_package_install (linked W H) read_bytes req h pkg)"

lemma exchangedI:
  "runs_on_agent (split_frame (wi_code W)) (agent_decoders (wi_format W) (wi_error W) (wi_debug W)) H f h
     out \<Longrightarrow> call (linked W H) h = out \<Longrightarrow> f h = (r, h') \<Longrightarrow> exchanged W H call h = Some (map_err Any_Msg r, h')"
  by (auto simp: runs_on_agent_def exchanged_def)

lemma exchanged_result: "exchanged W H call h = Some (res, h') \<Longrightarrow> fst (call (linked W H) h) = res"
  by (auto simp: exchanged_def split: prod.splits option.splits sum.splits)

subsection \<open>Calls on a lawful wire\<close>

locale lawful_link =
  fixes W :: wire
  assumes lawful: "lawful_wire W"

sublocale lawful_link \<subseteq> wire_format "wi_format W" "wi_code W"
  using lawful by unfold_locales (simp_all add: lawful_wire_def)

definition fixint_wire :: wire where
  "fixint_wire = \<lparr>wi_format = fixint_format, wi_error = IoError_from EK_InvalidData, wi_code = le_prim 4,
     wi_debug = \<lambda>_. []\<rparr>"

interpretation fixint_link: lawful_link fixint_wire
  using fixint.format_lawful fixint.code_lawful by unfold_locales (simp add: lawful_wire_def fixint_wire_def)

context lawful_link
begin

lemma send_allowlist_exchanged:
  assumes "order_fits (wi_format W) (Pay_NetworkGroup allowlist)"
    and "answer_fits (wi_format W) (map_ok (\<lambda>_. Reply_Unit) (fst (h_allowlist H allowlist h)))"
  shows "exchanged W H (\<lambda>io. send_allowlist io allowlist) h = Some (map_err Any_Msg (fst (h_allowlist H allowlist h)), snd (h_allowlist H allowlist h))"
  by (rule exchangedI [OF wl.send_allowlist_served [OF carried [OF assms(1)] assms(2)]]) simp_all

lemma send_blocklist_exchanged:
  assumes "order_fits (wi_format W) (Pay_NetworkGroup blocklist)"
    and "answer_fits (wi_format W) (map_ok (\<lambda>_. Reply_Unit) (fst (h_blocklist H blocklist h)))"
  shows "exchanged W H (\<lambda>io. send_blocklist io blocklist) h = Some (map_err Any_Msg (fst (h_blocklist H blocklist h)), snd (h_blocklist H blocklist h))"
  by (rule exchangedI [OF wl.send_blocklist_served [OF carried [OF assms(1)] assms(2)]]) simp_all

lemma send_config_update_cmd_exchanged:
  assumes "answer_fits (wi_format W) (map_ok (\<lambda>_. Reply_Unit) (fst (h_update_config H h)))"
  shows "exchanged W H (\<lambda>io. send_config_update_cmd io) h = Some (map_err Any_Msg (fst (h_update_config H h)), snd (h_update_config H h))"
  by (rule exchangedI [OF wl.send_config_update_cmd_served [OF carried assms(1)]]) simp_all

lemma send_delete_customer_data_cmd_exchanged:
  assumes "order_fits (wi_format W) (Pay_DeleteCustomerData request)"
    and "answer_fits (wi_format W) (map_ok (\<lambda>_. Reply_Unit) (fst (h_delete_customer_data H request h)))"
  shows "exchanged W H (\<lambda>io. send_delete_customer_data_cmd io request) h = Some (map_err Any_Msg (fst (h_delete_customer_data H request h)), snd (h_delete_customer_data H request h))"
  by (rule exchangedI [OF wl.send_delete_customer_data_cmd_served [OF carried [OF assms(1)] assms(2)]]) simp_all

lemma send_train_model_exchanged:
  assumes "order_fits (wi_format W) (Pay_TrainModel request)"
    and "answer_fits (wi_format W) (map_ok (\<lambda>_. Reply_Unit) (fst (h_train_model H request h)))"
  shows "exchanged W H (\<lambda>io. send_train_model io request) h = Some (map_err Any_Msg (fst (h_train_model H request h)), snd (h_train_model H request h))"
  by (rule exchangedI [OF wl.send_train_model_served [OF carried [OF assms(1)] assms(2)]]) simp_all

lemma send_clone_model_exchanged:
  assumes "order_fits (wi_format W) (Pay_CloneModel request)"
    and "answer_fits (wi_format W) (map_ok (\<lambda>_. Reply_Unit) (fst (h_clone_model H request h)))"
  shows "exchanged W H (\<lambda>io. send_clone_model io request) h = Some (map_err Any_Msg (fst (h_clone_model H request h)), snd (h_clone_model H request h))"
  by (rule exchangedI [OF wl.send_clone_model_served [OF carried [OF assms(1)] assms(2)]]) simp_all

lemma send_cancel_run_exchanged:
  assumes "order_fits (wi_format W) (Pay_U32 run_id)"
    and "answer_fits (wi_format W) (map_ok (\<lambda>_. Reply_Unit) (fst (h_cancel_run H run_id h)))"
  shows "exchanged W H (\<lambda>io. send_cancel_run io run_id) h = Some (map_err Any_Msg (fst (h_cancel_run H run_id h)), snd (h_cancel_run H run_id h))"
  by (rule exchangedI [OF wl.send_cancel_run_served [OF carried [OF assms(1)] assms(2)]]) simp_all

lemma send_run_detector_once_exchanged:
  assumes "order_fits (wi_format W) (Pay_I32 detector_id)"
    and "answer_fits (wi_format W) (map_ok (\<lambda>_. Reply_Unit) (fst (h_run_detector_once H detector_id h)))"
  shows "exchanged W H (\<lambda>io. send_run_detector_once io detector_id) h = Some (map_err Any_Msg (fst (h_run_detector_once H detector_id h)), snd (h_run_detector_once H detector_id h))"
  by (rule exchangedI [OF wl.send_run_detector_once_served [OF carried [OF assms(1)] assms(2)]]) simp_all

lemma send_filtering_rules_exchanged:
  assumes "order_fits (wi_format W) (Pay_FilterRules list)"
    and "answer_fits (wi_format W) (map_ok (\<lambda>_. Reply_Unit) (fst (h_update_traffic_filter_rules H list h)))"
  shows "exchanged W H (\<lambda>io. send_filtering_rules io list) h = Some (map_err Any_Msg (fst (h_update_traffic_filter_rules H list h)), snd (h_update_traffic_filter_rules H list h))"
  by (rule exchangedI [OF wl.send_filtering_rules_served [OF carried [OF assms(1)] assms(2)]]) simp_all

lemma send_internal_network_list_exchanged:
  assumes "order_fits (wi_format W) (Pay_NetworkGroup list)"
    and "answer_fits (wi_format W) (map_ok (\<lambda>_. Reply_Unit) (fst (h_internal_network_list H list h)))"
  shows "exchanged W H (\<lambda>io. send_internal_network_list io list) h = Some (map_err Any_Msg (fst (h_internal_network_list H list h)), snd (h_internal_network_list H list h))"
  by (rule exchangedI [OF wl.send_internal_network_list_served [OF carried [OF assms(1)] assms(2)]]) simp_all

lemma send_ping_exchanged:
  shows "exchanged W H (\<lambda>io. send_ping io) h = Some (Ok (), h)"
  using exchangedI [where call = send_ping and r = "Ok ()" and h = h and h' = h and W = W and H = H,
      OF wl.send_ping_served [OF carried]] by simp

lemma send_sampling_policies_exchanged:
  assumes "order_fits (wi_format W) (Pay_SamplingPolicies list)"
    and "answer_fits (wi_format W) (map_ok (\<lambda>_. Reply_Unit) (fst (h_sampling_policy_list H list h)))"
  shows "exchanged W H (\<lambda>io. send_sampling_policies io list) h = Some (map_err Any_Msg (fst (h_sampling_policy_list H list h)), snd (h_sampling_policy_list H list h))"
  by (rule exchangedI [OF wl.send_sampling_policies_served [OF carried [OF assms(1)] assms(2)]]) simp_all

lemma send_tor_exit_node_list_exchanged:
  assumes "order_fits (wi_format W) (Pay_Strings list)"
    and "answer_fits (wi_format W) (map_ok (\<lambda>_. Reply_Unit) (fst (h_tor_exit_node_list H list h)))"
  shows "exchanged W H (\<lambda>io. send_tor_exit_node_list io list) h = Some (map_err Any_Msg (fst (h_tor_exit_node_list H list h)), snd (h_tor_exit_node_list H list h))"
  by (rule exchangedI [OF wl.send_tor_exit_node_list_served [OF carried [OF assms(1)] assms(2)]]) simp_all

lemma send_trusted_domain_list_exchanged:
  assumes "order_fits (wi_format W) (Pay_Strings list)"
    and "answer_fits (wi_format W) (map_ok (\<lambda>_. Reply_Unit) (fst (h_trusted_domain_list H list h)))"
  shows "exchanged W H (\<lambda>io. send_trusted_domain_list io list) h = Some (map_err Any_Msg (fst (h_trusted_domain_list H list h)), snd (h_trusted_domain_list H list h))"
  by (rule exchangedI [OF wl.send_trusted_domain_list_served [OF carried [OF assms(1)] assms(2)]]) simp_all

lemma send_trusted_user_agent_list_exchanged:
  assumes "order_fits (wi_format W) (Pay_Strings list)"
    and "answer_fits (wi_format W) (map_ok (\<lambda>_. Reply_Unit) (fst (h_trusted_user_agent_list H list h)))"
  shows "exchanged W H (\<lambda>io. send_trusted_user_agent_list io list) h = Some (map_err Any_Msg (fst (h_trusted_user_agent_list H list h)), snd (h_trusted_user_agent_list H list h))"
  by (rule exchangedI [OF wl.send_trusted_user_agent_list_served [OF carried [OF assms(1)] assms(2)]]) simp_all

lemma node_service_exchanged:
  assumes "order_fits (wi_format W) (Pay_NodeService req)"
    and "answer_fits (wi_format W) (map_ok Reply_NodeService (fst (nh_service H req h)))"
  shows "exchanged W H (\<lambda>io. node_service io req) h = Some (map_err Any_Msg (fst (nh_service H req h)), snd (nh_service H req h))"
  by (rule exchangedI [OF wl.node_service_served [OF carried [OF assms(1)] assms(2)]]) simp_all

lemma node_network_interface_exchanged:
  assumes "order_fits (wi_format W) (Pay_NodeNetworkInterface req)"
    and "answer_fits (wi_format W) (map_ok Reply_NodeNetworkInterface (fst (nh_network_interface H req h)))"
  shows "exchanged W H (\<lambda>io. node_network_interface io req) h = Some (map_err Any_Msg (fst (nh_network_interface H req h)), snd (nh_network_interface H req h))"
  by (rule exchangedI [OF wl.node_network_interface_served [OF carried [OF assms(1)] assms(2)]]) simp_all

lemma node_hostname_exchanged:
  assumes "order_fits (wi_format W) (Pay_NodeHostname req)"
    and "answer_fits (wi_format W) (map_ok Reply_NodeHostname (fst (nh_hostname H req h)))"
  shows "exchanged W H (\<lambda>io. node_hostname io req) h = Some (map_err Any_Msg (fst (nh_hostname H req h)), snd (nh_hostname H req h))"
  by (rule exchangedI [OF wl.node_hostname_served [OF carried [OF assms(1)] assms(2)]]) simp_all

lemma node_time_sync_exchanged:
  assumes "order_fits (wi_format W) (Pay_NodeTimeSync req)"
    and "answer_fits (wi_format W) (map_ok Reply_NodeTimeSync (fst (nh_time_sync H req h)))"
  shows "exchanged W H (\<lambda>io. node_time_sync io req) h = Some (map_err Any_Msg (fst (nh_time_sync H req h)), snd (nh_time_sync H req h))"
  by (rule exchangedI [OF wl.node_time_sync_served [OF carried [OF assms(1)] assms(2)]]) simp_all

lemma node_logging_exchanged:
  assumes "order_fits (wi_format W) (Pay_NodeLogging req)"
    and "answer_fits (wi_format W) (map_ok Reply_NodeLogging (fst (nh_logging H req h)))"
  shows "exchanged W H (\<lambda>io. node_logging io req) h = Some (map_err Any_Msg (fst (nh_logging H req h)), snd (nh_logging H req h))"
  by (rule exchangedI [OF wl.node_logging_served [OF carried [OF assms(1)] assms(2)]]) simp_all

lemma node_remote_access_exchanged:
  assumes "order_fits (wi_format W) (Pay_NodeRemoteAccess req)"
    and "answer_fits (wi_format W) (map_ok Reply_NodeRemoteAccess (fst (nh_remote_access H req h)))"
  shows "exchanged W H (\<lambda>io. node_remote_access io req) h = Some (map_err Any_Msg (fst (nh_remote_access H req h)), snd (nh_remote_access H req h))"
  by (rule exchangedI [OF wl.node_remote_access_served [OF carried [OF assms(1)] assms(2)]]) simp_all

lemma node_observation_exchanged:
  assumes "order_fits (wi_format W) (Pay_NodeObservation req)"
    and "answer_fits (wi_format W) (map_ok Reply_NodeObservation (fst (nh_observation H req h)))"
  shows "exchanged W H (\<lambda>io. node_observation io req) h = Some (map_err Any_Msg (fst (nh_observation H req h)), snd (nh_observation H req h))"
  by (rule exchangedI [OF wl.node_observation_served [OF carried [OF assms(1)] assms(2)]]) simp_all

lemma node_version_exchanged:
  assumes "order_fits (wi_format W) (Pay_NodeVersion req)"
    and "answer_fits (wi_format W) (map_ok Reply_NodeVersion (fst (nh_version H req h)))"
  shows "exchanged W H (\<lambda>io. node_version io req) h = Some (map_err Any_Msg (fst (nh_version H req h)), snd (nh_version H req h))"
  by (rule exchangedI [OF wl.node_version_served [OF carried [OF assms(1)] assms(2)]]) simp_all

lemma node_package_exchanged:
  assumes "order_fits (wi_format W) (Pay_NodePackage req)"
    and "answer_fits (wi_format W) (map_ok Reply_NodePackage (fst (nh_package H req h)))"
    and "reject_install req = Ok ()"
  shows "exchanged W H (\<lambda>io. node_package io req) h = Some (map_err Any_Msg (fst (nh_package H req h)), snd (nh_package H req h))"
  by (rule exchangedI [OF wl.node_package_served [OF carried [OF assms(1)] assms(2) assms(3)]]) simp_all

lemma node_enroll_exchanged:
  assumes "order_fits (wi_format W) (Pay_NodeEnroll req)"
    and "answer_fits (wi_format W) (map_ok Reply_NodeEnroll (fst (nh_enroll H req h)))"
  shows "exchanged W H (\<lambda>io. node_enroll io req) h = Some (map_err Any_Msg (fst (nh_enroll H req h)), snd (nh_enroll H req h))"
  by (rule exchangedI [OF wl.node_enroll_served [OF carried [OF assms(1)] assms(2)]]) simp_all

lemma node_power_exchanged:
  assumes "order_fits (wi_format W) (Pay_NodePower req)" and "node_power_expects_response req"
    and "answer_fits (wi_format W) (map_ok Reply_NodePower (fst (nh_power H req h)))"
  shows "exchanged W H (\<lambda>io. node_power io req) h =
    Some (map_err Any_Msg (map_ok PowerOutcome_Response (fst (nh_power H req h))), snd (nh_power H req h))"
  by (rule exchangedI [OF wl.node_power_answered [OF carried [OF assms(1)] assms(2,3)]]) (simp_all add: prod_eq_iff)

lemma node_power_sent_off:
  assumes "order_fits (wi_format W) (Pay_NodePower req)" and "\<not> node_power_expects_response req"
  shows "exchanged W H (\<lambda>io. node_power io req) h = Some (Ok PowerOutcome_Sent, snd (nh_power H req h))"
  using wl.node_power_sent [OF carried [OF assms(1)] assms(2), of "wi_error W" "wi_debug W" H h]
  by (auto simp: exchanged_def)

lemma installed_settled:
  assumes "order_fits (wi_format W) (Pay_NodePackage (Package_Install f))"
    and "nh_package_install_preflight H (Package_Install f) h = (m, h1)" and "m \<noteq> Ok Preflight_Proceed"
    and "answer_fits (wi_format W) (map_ok Reply_Preflight m)"
  shows "installed W H (Package_Install f) h pkg =
    Some (map_err Any_Msg (map_ok (\<lambda>v. Install_Preflight (the (terminal_preflight v))) m), h1, pkg)"
  using wl.install_settled [OF carried [OF assms(1)] assms(2-4), of "wi_error W" "wi_debug W" read_bytes pkg]
  by (auto simp: settled_def)

lemma installed_whole:
  assumes "order_fits (wi_format W) (Pay_NodePackage (Package_Install f))"
    and "nh_package_install_preflight H (Package_Install f) h = (Ok Preflight_Proceed, h1)"
    and "unat (in_size f) \<le> length pkg"
    and run: "\<And>chunks. good_chunks chunks \<Longrightarrow> concat chunks = take (unat (in_size f)) pkg \<Longrightarrow>
       fst (run_handler (frame_io (split_frame (wi_code W))) (nh_package_install H (Package_Install f) h1)
         (PackageReader_new (chunks, False) (in_size f))) = (result, h2)"
    and "answer_fits (wi_format W) (map_ok Reply_NodePackage result)"
  shows "installed W H (Package_Install f) h pkg =
    Some (map_err Any_Msg (map_ok Install_Applied result), h2, drop (unat (in_size f)) pkg)"
proof -
  have "answer_fits (wi_format W) (Ok (Reply_Preflight Preflight_Proceed))" by (simp add: wire_fits)
  moreover have "\<forall>chunks. good_chunks chunks \<and> concat chunks = take (unat (in_size f)) (id pkg) \<longrightarrow>
      answer_fits (wi_format W) (map_ok Reply_NodePackage (fst (fst (run_handler
        (frame_io (split_frame (wi_code W))) (nh_package_install H (Package_Install f) h1)
        (PackageReader_new (chunks, False) (in_size f))))))"
    using run assms(5) by simp
  moreover note installs [OF assms(1) read_bytes_reads_from, of pkg H h h1 "wi_error W" "wi_debug W"]
  ultimately show ?thesis
    using assms(2,3) run by (fastforce simp: settled_def)
qed

end

end
