(* ===== verification/Api_Tests.thy ===== *)
theory Api_Tests
  imports Api_Harness Install_Exchange_Tests Unit_Tests
begin

text \<open>
  The tests of \<open>src/src/server/api.rs\<close>, each manager call made over the wire to an agent that
  serves it with \<open>handle\<close>: the calls without a family, the requests to an engine, the node
  families, their authorized forms, enrollment and the unary package requests. The installs are
  in \<open>Api_Install_Tests\<close>. Fixtures that are the ones of \<open>src/src/request.rs\<close> are shared with its
  tests.
\<close>

subsection \<open>Results\<close>

definition succeeded :: "((AnyError + 'a) \<times> 'h) option \<Rightarrow> bool" where
  "succeeded out \<longleftrightarrow> (case out of Some (Ok _, _) \<Rightarrow> True | _ \<Rightarrow> False)"

definition returned :: "'a \<Rightarrow> ((AnyError + 'a) \<times> 'h) option \<Rightarrow> bool" where
  "returned a out \<longleftrightarrow> (case out of Some (Ok b, _) \<Rightarrow> b = a | _ \<Rightarrow> False)"

lemma result_simps [simp]:
  "succeeded (Some (Ok a, h))" "returned a (Some (Ok b, h)) \<longleftrightarrow> b = a"
  by (simp_all add: succeeded_def returned_def)

text \<open>\<open>anyhow::Error\<close>: what it prints, and the \<open>String\<close> it holds when it was made of one.\<close>

fun AnyError_to_string :: "AnyError \<Rightarrow> string" where
  "AnyError_to_string (Any_Connection m) = m"
| "AnyError_to_string (Any_Io e) = IoError_to_string e"
| "AnyError_to_string (Any_Encode m) = m"
| "AnyError_to_string (Any_Msg m) = m"
| "AnyError_to_string (Any_Auth e) = AuthorizationError_fmt e"
| "AnyError_to_string (Any_Context c _) = c"

fun downcast_string :: "AnyError \<Rightarrow> string option" where
  "downcast_string (Any_Msg m) = Some m"
| "downcast_string _ = None"

subsection \<open>The agent's handler\<close>

definition IP_ADDR_1 :: IpAddr where "IP_ADDR_1 = IpAddr_V4 0x7F000001"

definition HOST_FQDN :: string where "HOST_FQDN = ''sensor.example.com''"

definition DELETION_REQUEST_ID :: u32 where "DELETION_REQUEST_ID = 42"

definition deletion_request :: CustomerDataDeletionRequest where
  "deletion_request = \<lparr>cdd_id = DELETION_REQUEST_ID, cdd_host_fqdn = HOST_FQDN\<rparr>"

definition expected_if :: "bool \<Rightarrow> string \<Rightarrow> 'h \<Rightarrow> (string + unit) \<times> 'h" where
  "expected_if good what h = (if good then Ok () else Err (''unexpected '' @ what), h)"

definition api_package_state :: "Lifecycle \<Rightarrow> PackageState" where
  "api_package_state lifecycle =
     \<lparr>ps_version = ''1.2.3'', ps_commit = ''0123456789abcdef'', ps_lifecycle = lifecycle,
      ps_bound_addrs = [], ps_privilege_profile = None\<rparr>"

definition api_installed_pair :: "InstalledPackage list" where
  "api_installed_pair =
     [\<lparr>ip_target = ''sensor'', ip_instance = Some 1, ip_state = api_package_state Life_Running\<rparr>,
      \<lparr>ip_target = ''sensor'', ip_instance = Some 2, ip_state = api_package_state Life_Stopped\<rparr>]"

definition api_usage :: ResourceUsage where
  "api_usage = \<lparr>ru_cpu_usage = 0x3F000000, ru_total_memory = 100, ru_used_memory = 50,
     ru_disk_used_bytes = 500, ru_disk_available_bytes = 500\<rparr>"

fun api_observation :: "NodeObservationRequest \<Rightarrow> ('h, NodeObservationResponse) action" where
  "api_observation Observe_ProcessList h =
     (Ok (ObserveR_ProcessList
        [\<lparr>proc_user = ''test-user'', proc_cpu_usage = 0x41200000, proc_mem_usage = 0x4034000000000000,
          proc_start_time = 1234567890, proc_command = ''test-command''\<rparr>]), h)"
| "api_observation Observe_ResourceUsage h = (Ok (ObserveR_ResourceUsage ''test-host'' api_usage), h)"
| "api_observation Observe_Uptime h = (Err ''not supported'', h)"

fun api_enroll :: "NodeEnrollRequest \<Rightarrow> ('h, NodeEnrollResponse) action" where
  "api_enroll (Enroll_Register _) h = (Ok (EnrollR_Material enroll_material), h)"
| "api_enroll (Enroll_Deregister _ host _ _) h =
     (Ok (if host = ''host01'' then EnrollR_Done else EnrollR_Failed EnrollErr_ServiceHostMismatch), h)"

fun api_package :: "NodePackageRequest \<Rightarrow> ('h, NodePackageResponse) action" where
  "api_package (Package_Remove _ _ _) h = (Ok PackageR_Done, h)"
| "api_package Package_ListInstalled h = (Ok (PackageR_Installed api_installed_pair), h)"
| "api_package (Package_Status _ _) h = (Ok (PackageR_State (api_package_state Life_Running)), h)"
| "api_package Package_ListHostPorts h = (Ok (PackageR_HostPorts []), h)"
| "api_package (Package_Install _) h = (Err ''an install must never reach the unary method'', h)"

fun api_preflight :: "NodePackageRequest \<Rightarrow> ('h, InstallPreflight) action" where
  "api_preflight (Package_Install f) h = (Ok (verdict_for (in_target f)), h)"
| "api_preflight _ h = (Err ''the preflight must only see an install'', h)"

text \<open>The state is \<open>RECEIVED_PACKAGE\<close>.\<close>

fun api_install ::
  "NodePackageRequest \<Rightarrow> bytes \<Rightarrow> ((string + NodePackageResponse) \<times> bytes) package_prog" where
  "api_install (Package_Install f) h = read_payload (Suc (unat (in_size f))) [] (\<lambda>res. case res of
     Err m \<Rightarrow> Finish (Err m, h)
   | Ok received \<Rightarrow>
       Finish (Ok (if in_target f = ''selfdisrupting'' then PackageR_Accepted else PackageR_Done), received))"
| "api_install _ h = Finish (Err ''the install path must only see an install'', h)"

definition TestHandler :: "bytes Handler" where
  "TestHandler = Handler_default
     \<lparr>nh_service := \<lambda>_ h. (Ok (ServiceR_Status True), h),
      nh_network_interface := \<lambda>_ h. (Ok (InterfaceR_List [''eth0'', ''eth1'']), h),
      nh_hostname := \<lambda>_ h. (Ok (HostnameR_Get ''test-node''), h),
      nh_time_sync := \<lambda>_ h. (Ok TimeSyncR_Done, h),
      nh_logging := \<lambda>_ h. (Ok LoggingR_Done, h),
      nh_remote_access := \<lambda>_ h. (Ok RemoteAccessR_Done, h),
      nh_power := \<lambda>_ h. (Ok PowerR_Initiated, h),
      nh_observation := api_observation,
      nh_version := \<lambda>_ h. (Ok (VersionR_Get ''22.04'' ''1.0.0''), h),
      nh_enroll := api_enroll, nh_package := api_package,
      nh_package_install_preflight := api_preflight, nh_package_install := api_install,
      h_allowlist := \<lambda>list. expected_if (hng_hosts list = [IP_ADDR_1]) ''domain list'',
      h_blocklist := \<lambda>list. expected_if (hng_hosts list = [IP_ADDR_1]) ''blocklist'',
      h_update_config := \<lambda>h. (Ok (), h),
      h_delete_customer_data := \<lambda>request. expected_if (request = deletion_request)
        ''customer-data deletion request'',
      h_update_traffic_filter_rules := \<lambda>rules. expected_if (length rules = 1) ''filtering rules'',
      h_internal_network_list := \<lambda>list. expected_if (hng_hosts list = [IP_ADDR_1]) ''internal network list'',
      h_sampling_policy_list := \<lambda>policies. expected_if (length policies = 1 \<and> sp_id (hd policies) = 42)
        ''sampling policies'',
      h_tor_exit_node_list := \<lambda>nodes. expected_if (nodes = [''192.168.1.1'', ''10.0.0.1'']) ''tor exit node list'',
      h_trusted_domain_list := \<lambda>domains. expected_if (domains = [''example.com'', ''test.org''])
        ''trusted domain list'',
      h_trusted_user_agent_list := \<lambda>agents. expected_if (agents = [''Mozilla/5.0'', ''Chrome/91.0''])
        ''trusted user agent list''\<rparr>"

lemma TestHandler_sel [simp]:
  "nh_service TestHandler req h = (Ok (ServiceR_Status True), h)"
  "nh_network_interface TestHandler req1 h = (Ok (InterfaceR_List [''eth0'', ''eth1'']), h)"
  "nh_hostname TestHandler req2 h = (Ok (HostnameR_Get ''test-node''), h)"
  "nh_time_sync TestHandler req3 h = (Ok TimeSyncR_Done, h)"
  "nh_logging TestHandler req4 h = (Ok LoggingR_Done, h)"
  "nh_remote_access TestHandler req5 h = (Ok RemoteAccessR_Done, h)"
  "nh_power TestHandler req6 h = (Ok PowerR_Initiated, h)"
  "nh_observation TestHandler = api_observation"
  "nh_version TestHandler req7 h = (Ok (VersionR_Get ''22.04'' ''1.0.0''), h)"
  "nh_enroll TestHandler = api_enroll" "nh_package TestHandler = api_package"
  "nh_package_install_preflight TestHandler = api_preflight" "nh_package_install TestHandler = api_install"
  "h_allowlist TestHandler = (\<lambda>list. expected_if (hng_hosts list = [IP_ADDR_1]) ''domain list'')"
  "h_blocklist TestHandler = (\<lambda>list. expected_if (hng_hosts list = [IP_ADDR_1]) ''blocklist'')"
  "h_update_config TestHandler = (\<lambda>h. (Ok (), h))"
  "h_delete_customer_data TestHandler = (\<lambda>request. expected_if (request = deletion_request) ''customer-data deletion request'')"
  "h_update_traffic_filter_rules TestHandler = (\<lambda>rules. expected_if (length rules = 1) ''filtering rules'')"
  "h_internal_network_list TestHandler = (\<lambda>list. expected_if (hng_hosts list = [IP_ADDR_1]) ''internal network list'')"
  "h_sampling_policy_list TestHandler = (\<lambda>policies. expected_if (length policies = 1 \<and> sp_id (hd policies) = 42) ''sampling policies'')"
  "h_tor_exit_node_list TestHandler = (\<lambda>nodes. expected_if (nodes = [''192.168.1.1'', ''10.0.0.1'']) ''tor exit node list'')"
  "h_trusted_domain_list TestHandler = (\<lambda>domains. expected_if (domains = [''example.com'', ''test.org'']) ''trusted domain list'')"
  "h_trusted_user_agent_list TestHandler = (\<lambda>agents. expected_if (agents = [''Mozilla/5.0'', ''Chrome/91.0'']) ''trusted user agent list'')"
  by (simp_all add: TestHandler_def)

subsection \<open>The calls without a family\<close>

definition ip_group :: HostNetworkGroup where
  "ip_group = \<lparr>hng_hosts = [IP_ADDR_1], hng_networks = [], hng_ip_ranges = []\<rparr>"

definition test_api_send_allowlist :: "wire \<Rightarrow> bool" where
  "test_api_send_allowlist W \<longleftrightarrow> succeeded (exchanged W TestHandler (\<lambda>io. send_allowlist io ip_group) [])"

definition test_api_send_blocklist :: "wire \<Rightarrow> bool" where
  "test_api_send_blocklist W \<longleftrightarrow> succeeded (exchanged W TestHandler (\<lambda>io. send_blocklist io ip_group) [])"

definition test_api_send_config_update_cmd :: "wire \<Rightarrow> bool" where
  "test_api_send_config_update_cmd W \<longleftrightarrow> succeeded (exchanged W TestHandler (\<lambda>io. send_config_update_cmd io) [])"

definition test_api_send_delete_customer_data_cmd :: "wire \<Rightarrow> bool" where
  "test_api_send_delete_customer_data_cmd W \<longleftrightarrow>
     succeeded (exchanged W TestHandler (\<lambda>io. send_delete_customer_data_cmd io deletion_request) [])"

text \<open>\<open>net\<close> is what \<open>ipnet\<close> makes of \<open>0.0.0.0/0\<close>.\<close>

definition test_api_send_filtering_rules :: "wire \<Rightarrow> IpNet \<Rightarrow> bool" where
  "test_api_send_filtering_rules W net \<longleftrightarrow>
     succeeded (exchanged W TestHandler (\<lambda>io. send_filtering_rules io [(net, Some [80], Some [6])]) [])"

definition test_api_send_internal_network_list :: "wire \<Rightarrow> bool" where
  "test_api_send_internal_network_list W \<longleftrightarrow>
     succeeded (exchanged W TestHandler (\<lambda>io. send_internal_network_list io ip_group) [])"

definition test_api_send_sampling_policies :: "wire \<Rightarrow> bool" where
  "test_api_send_sampling_policies W \<longleftrightarrow>
     succeeded (exchanged W TestHandler (\<lambda>io. send_sampling_policies io
       [\<lparr>sp_id = 42, sp_kind = Sampling_Conn, sp_interval = \<lparr>secs = 60, nanos = 0\<rparr>,
         sp_period = \<lparr>secs = 60 * 60, nanos = 0\<rparr>, sp_offset = 0, sp_src_ip = None, sp_dst_ip = None,
         sp_node = None, sp_column = None\<rparr>]) [])"

definition test_api_send_tor_exit_node_list :: "wire \<Rightarrow> bool" where
  "test_api_send_tor_exit_node_list W \<longleftrightarrow>
     succeeded (exchanged W TestHandler (\<lambda>io. send_tor_exit_node_list io [''192.168.1.1'', ''10.0.0.1'']) [])"

definition test_api_send_trusted_domain_list :: "wire \<Rightarrow> bool" where
  "test_api_send_trusted_domain_list W \<longleftrightarrow>
     succeeded (exchanged W TestHandler (\<lambda>io. send_trusted_domain_list io [''example.com'', ''test.org'']) [])"

definition test_api_send_trusted_user_agent_list :: "wire \<Rightarrow> bool" where
  "test_api_send_trusted_user_agent_list W \<longleftrightarrow>
     succeeded (exchanged W TestHandler (\<lambda>io. send_trusted_user_agent_list io [''Mozilla/5.0'', ''Chrome/91.0'']) [])"

definition test_api_send_ping :: "wire \<Rightarrow> bool" where
  "test_api_send_ping W \<longleftrightarrow> succeeded (exchanged W TestHandler (\<lambda>io. send_ping io) [])"

lemmas flat_api_defs = test_api_send_allowlist_def test_api_send_blocklist_def
  test_api_send_config_update_cmd_def test_api_send_delete_customer_data_cmd_def
  test_api_send_filtering_rules_def test_api_send_internal_network_list_def
  test_api_send_sampling_policies_def test_api_send_tor_exit_node_list_def
  test_api_send_trusted_domain_list_def test_api_send_trusted_user_agent_list_def test_api_send_ping_def

lemmas payload_defs = codec_TrafficFilterRule_def pay_FilterRules_def pay_SamplingPolicies_def pay_Strings_def

context lawful_link
begin

lemmas flat_exchanged = send_allowlist_exchanged send_blocklist_exchanged send_config_update_cmd_exchanged
  send_delete_customer_data_cmd_exchanged send_filtering_rules_exchanged send_internal_network_list_exchanged
  send_sampling_policies_exchanged send_tor_exit_node_list_exchanged send_trusted_domain_list_exchanged
  send_trusted_user_agent_list_exchanged send_ping_exchanged

lemma flat_api_tests_pass:
  "test_api_send_allowlist W" "test_api_send_blocklist W" "test_api_send_config_update_cmd W"
  "test_api_send_delete_customer_data_cmd W" "test_api_send_filtering_rules W net"
  "test_api_send_internal_network_list W" "test_api_send_sampling_policies W"
  "test_api_send_tor_exit_node_list W" "test_api_send_trusted_domain_list W"
  "test_api_send_trusted_user_agent_list W" "test_api_send_ping W"
  unfolding flat_api_defs
  by (simp_all add: flat_exchanged expected_if_def ip_group_def deletion_request_def
      HOST_FQDN_def payload_defs fit_rules)

end

subsection \<open>Requests to an engine\<close>

datatype EngineRequest =
    Engine_TrainModel TrainModelRequest
  | Engine_CloneModel CloneModelRequest
  | Engine_CancelRun u32
  | Engine_RunDetectorOnce i32

record engine =
  en_answer :: "string + unit"
  en_received :: "EngineRequest list"

definition record_request :: "EngineRequest \<Rightarrow> (engine, unit) action" where
  "record_request r self = (en_answer self, self\<lparr>en_received := en_received self @ [r]\<rparr>)"

definition EngineHandler :: "engine Handler" where
  "EngineHandler = Handler_default
     \<lparr>h_train_model := \<lambda>request. record_request (Engine_TrainModel request),
      h_clone_model := \<lambda>request. record_request (Engine_CloneModel request),
      h_cancel_run := \<lambda>run_id. record_request (Engine_CancelRun run_id),
      h_run_detector_once := \<lambda>detector_id. record_request (Engine_RunDetectorOnce detector_id)\<rparr>"

definition toml_lines :: "string list \<Rightarrow> string" where
  "toml_lines ls = concat (map (\<lambda>l. l @ [CHR 0x0A]) ls)"

definition quoted :: "string \<Rightarrow> string" where
  "quoted s = [CHR 0x22] @ s @ [CHR 0x22]"

definition train_model_request :: TrainModelRequest where
  "train_model_request = \<lparr>tm_run_id = 7, tm_model = ''http-baseline'', tm_definition = toml_lines
     [''event_kind = '' @ quoted ''http'', ''method = '' @ quoted ''prefix'',
      ''sources = ['' @ quoted ''piglet.node2.example.com'' @ '']'',
      ''window_start = '' @ quoted ''2026-10-14T00:00:00Z'', ''window_end = '' @ quoted ''2026-10-21T00:00:00Z'',
      [], ''[data_store]'', ''address = '' @ quoted ''10.0.0.5:38371'',
      ''server_name = '' @ quoted ''001.giganto.node1.example.com'']\<rparr>"

definition clone_model_request :: CloneModelRequest where
  "clone_model_request = \<lparr>cm_run_id = - 1, cm_source = ''http-baseline'',
     cm_target_name = ''http-baseline-copy'', cm_strip_events = True\<rparr>"

text \<open>One stream for each call, one after the other.\<close>

fun exchanged_all ::
  "wire \<Rightarrow> 'h Handler \<Rightarrow> (('h, 'h link) manager_io \<Rightarrow> ('h, 'h link, 'a) call) list \<Rightarrow> 'h
   \<Rightarrow> ((AnyError + 'a) list \<times> 'h) option" where
  "exchanged_all W H [] h = Some ([], h)"
| "exchanged_all W H (call # calls) h =
     (case exchanged W H call h of
        None \<Rightarrow> None
      | Some (res, h) \<Rightarrow> map_option (apfst (Cons res)) (exchanged_all W H calls h))"

definition engine_requests_roundtrip :: "wire \<Rightarrow> 'h Handler \<Rightarrow> 'h \<Rightarrow> ((AnyError + unit) list \<times> 'h) option" where
  "engine_requests_roundtrip W H h = exchanged_all W H
     [\<lambda>io. send_train_model io train_model_request, \<lambda>io. send_clone_model io clone_model_request,
      \<lambda>io. send_cancel_run io 7, \<lambda>io. send_run_detector_once io (- 3),
      \<lambda>io. send_run_detector_once io 2147483647] h"

definition expected_engine_requests :: "EngineRequest list" where
  "expected_engine_requests =
     [Engine_TrainModel train_model_request, Engine_CloneModel clone_model_request, Engine_CancelRun 7,
      Engine_RunDetectorOnce (- 3), Engine_RunDetectorOnce 2147483647]"

definition test_api_send_engine_requests_returns_handler_ok :: "wire \<Rightarrow> bool" where
  "test_api_send_engine_requests_returns_handler_ok W \<longleftrightarrow>
     (case engine_requests_roundtrip W EngineHandler \<lparr>en_answer = Ok (), en_received = []\<rparr> of
        Some (results, self) \<Rightarrow> list_all (\<lambda>res. res = Ok ()) results
          \<and> en_received self = expected_engine_requests
      | None \<Rightarrow> False)"

definition refused_with :: "string \<Rightarrow> AnyError + unit \<Rightarrow> bool" where
  "refused_with reason res \<longleftrightarrow> (case res of Err e \<Rightarrow> downcast_string e = Some reason | Ok _ \<Rightarrow> False)"

definition test_api_send_engine_requests_returns_handler_error_as_string :: "wire \<Rightarrow> bool" where
  "test_api_send_engine_requests_returns_handler_error_as_string W \<longleftrightarrow>
     (let reason = ''another run is in progress'' in
      case engine_requests_roundtrip W EngineHandler \<lparr>en_answer = Err reason, en_received = []\<rparr> of
        Some (results, self) \<Rightarrow> list_all (refused_with reason) results
          \<and> en_received self = expected_engine_requests
      | None \<Rightarrow> False)"

definition test_api_send_engine_requests_default_not_supported :: "wire \<Rightarrow> bool" where
  "test_api_send_engine_requests_default_not_supported W \<longleftrightarrow>
     (case engine_requests_roundtrip W (Handler_default :: unit Handler) () of
        Some (results, _) \<Rightarrow> list_all (refused_with ''not supported'') results
      | None \<Rightarrow> False)"

text \<open>After the teardown no stream opens on the connection; \<open>closed\<close> is the connection's error.\<close>

definition torn_down :: "string \<Rightarrow> ('k, 's) manager_io \<Rightarrow> ('k, 's) manager_io" where
  "torn_down closed io = io\<lparr>mg_open := \<lambda>k. (Err closed, k)\<rparr>"

definition test_api_send_engine_requests_undelivered_error_is_not_a_string :: "wire \<Rightarrow> string \<Rightarrow> bool" where
  "test_api_send_engine_requests_undelivered_error_is_not_a_string W closed \<longleftrightarrow>
     (let io = torn_down closed (linked W EngineHandler); h = \<lparr>en_answer = Ok (), en_received = []\<rparr> in
      list_all (\<lambda>out. case fst out of Err e \<Rightarrow> downcast_string e = None | Ok _ \<Rightarrow> False)
        [send_train_model io train_model_request h, send_clone_model io clone_model_request h,
         send_cancel_run io 7 h, send_run_detector_once io (- 3) h])"

lemmas engine_requests = train_model_request_def clone_model_request_def toml_lines_def quoted_def

lemma engine_requests_fit [simp]:
  "fits (codec_TrainModelRequest F) train_model_request" "fits (codec_CloneModelRequest F) clone_model_request"
  by (simp_all add: engine_requests fit_rules)

lemma EngineHandler_sel [simp]:
  "h_train_model EngineHandler req = record_request (Engine_TrainModel req)"
  "h_clone_model EngineHandler req' = record_request (Engine_CloneModel req')"
  "h_cancel_run EngineHandler run_id = record_request (Engine_CancelRun run_id)"
  "h_run_detector_once EngineHandler detector_id = record_request (Engine_RunDetectorOnce detector_id)"
  by (simp_all add: EngineHandler_def)

lemma undelivered_test_passes:
  "test_api_send_engine_requests_undelivered_error_is_not_a_string W closed"
  by (simp add: test_api_send_engine_requests_undelivered_error_is_not_a_string_def torn_down_def
      send_train_model_def send_clone_model_def send_cancel_run_def send_run_detector_once_def
      send_request_def encode_request_def open_and_send_def wire_link_def agent_link_def Let_def)

context lawful_link
begin

lemmas engine_exchanged = send_train_model_exchanged send_clone_model_exchanged send_cancel_run_exchanged
  send_run_detector_once_exchanged

lemma engine_api_tests_pass:
  "test_api_send_engine_requests_returns_handler_ok W"
  "test_api_send_engine_requests_returns_handler_error_as_string W"
  "test_api_send_engine_requests_default_not_supported W"
  by (simp_all add: test_api_send_engine_requests_returns_handler_ok_def
      test_api_send_engine_requests_returns_handler_error_as_string_def
      test_api_send_engine_requests_default_not_supported_def engine_requests_roundtrip_def
      expected_engine_requests_def engine_exchanged record_request_def refused_with_def default_simps
      plain_sel(2) MAX_LEN_def)

end

subsection \<open>The node families\<close>

definition test_api_node_service :: "wire \<Rightarrow> bool" where
  "test_api_node_service W \<longleftrightarrow>
     returned (ServiceR_Status True) (exchanged W TestHandler (\<lambda>io. node_service io (Service_Status ''nginx'')) [])"

definition test_api_node_network_interface :: "wire \<Rightarrow> bool" where
  "test_api_node_network_interface W \<longleftrightarrow>
     returned (InterfaceR_List [''eth0'', ''eth1''])
       (exchanged W TestHandler (\<lambda>io. node_network_interface io (Interface_List (Some ''eth''))) [])"

definition test_api_node_hostname :: "wire \<Rightarrow> bool" where
  "test_api_node_hostname W \<longleftrightarrow>
     returned (HostnameR_Get ''test-node'') (exchanged W TestHandler (\<lambda>io. node_hostname io Hostname_Get) [])"

definition test_api_node_time_sync :: "wire \<Rightarrow> bool" where
  "test_api_node_time_sync W \<longleftrightarrow>
     returned TimeSyncR_Done
       (exchanged W TestHandler (\<lambda>io. node_time_sync io (TimeSync_Set [''0.pool.ntp.org''])) [])"

definition test_api_node_logging :: "wire \<Rightarrow> bool" where
  "test_api_node_logging W \<longleftrightarrow>
     returned LoggingR_Done (exchanged W TestHandler (\<lambda>io. node_logging io Logging_Get) [])"

definition test_api_node_remote_access :: "wire \<Rightarrow> bool" where
  "test_api_node_remote_access W \<longleftrightarrow>
     returned RemoteAccessR_Done
       (exchanged W TestHandler (\<lambda>io. node_remote_access io (RemoteAccess_Set \<lparr>nra_port = 22\<rparr>)) [])"

definition test_api_node_power :: "wire \<Rightarrow> bool" where
  "test_api_node_power W \<longleftrightarrow>
     returned (PowerOutcome_Response PowerR_Initiated)
       (exchanged W TestHandler (\<lambda>io. node_power io Power_GracefulReboot) [])"

definition test_api_node_observation :: "wire \<Rightarrow> bool" where
  "test_api_node_observation W \<longleftrightarrow>
     returned (ObserveR_ResourceUsage ''test-host'' api_usage)
       (exchanged W TestHandler (\<lambda>io. node_observation io Observe_ResourceUsage) [])"

definition test_api_node_version :: "wire \<Rightarrow> bool" where
  "test_api_node_version W \<longleftrightarrow>
     returned (VersionR_Get ''22.04'' ''1.0.0'') (exchanged W TestHandler (\<lambda>io. node_version io Version_Get) [])"

lemmas node_api_defs = test_api_node_service_def test_api_node_network_interface_def test_api_node_hostname_def
  test_api_node_time_sync_def test_api_node_logging_def test_api_node_remote_access_def test_api_node_power_def
  test_api_node_observation_def test_api_node_version_def

subsection \<open>Authorized calls\<close>

definition test_agent :: PeerContext where "test_agent = PeerContext_new ''test-agent''"

definition test_api_node_power_authorization_allowed :: "wire \<Rightarrow> bool" where
  "test_api_node_power_authorization_allowed W \<longleftrightarrow>
     returned (PowerOutcome_Response PowerR_Initiated) (exchanged W TestHandler
       (\<lambda>io. node_power_authorized io Power_GracefulReboot test_agent NoopAuthorizer) [])"

text \<open>A call that was denied returns an error and opened no stream.\<close>

definition denied_call :: "string \<Rightarrow> (AnyError + 'a) \<times> 'k \<times> 's option \<Rightarrow> bool" where
  "denied_call text out \<longleftrightarrow>
     (case out of (Err e, _, None) \<Rightarrow> contains (AnyError_to_string e) text | _ \<Rightarrow> False)"

definition test_api_node_power_authorization_denied :: "wire \<Rightarrow> bool" where
  "test_api_node_power_authorization_denied W \<longleftrightarrow>
     denied_call ''authorization denied'' (node_power_authorized (linked W TestHandler) Power_Reboot test_agent DenyAll [])"

definition ObservationOnly :: authorizer where
  "ObservationOnly peer service =
     (if sid_family service = ''node.observation'' then Ok ()
      else Err (AuthorizationError_new ''only observation allowed''))"

definition test_api_node_observation_authorization_selective :: "wire \<Rightarrow> bool" where
  "test_api_node_observation_authorization_selective W \<longleftrightarrow>
     returned (ObserveR_ResourceUsage ''test-host'' api_usage) (exchanged W TestHandler
       (\<lambda>io. node_observation_authorized io Observe_ResourceUsage test_agent ObservationOnly) [])
     \<and> denied_call [] (node_power_authorized (linked W TestHandler) Power_Reboot test_agent ObservationOnly [])"

definition RebootOnly :: authorizer where
  "RebootOnly peer service =
     (if service = NODE_POWER_REBOOT then Ok () else Err (AuthorizationError_new ''only reboot allowed''))"

text \<open>The agent of the allowed request reads it and answers nothing, which is what the manager expects.\<close>

definition test_api_node_power_authorization_method_level :: "wire \<Rightarrow> bool" where
  "test_api_node_power_authorization_method_level W \<longleftrightarrow>
     fst (node_power_authorized (linked W TestHandler) Power_Reboot test_agent RebootOnly []) = Ok PowerOutcome_Sent
     \<and> denied_call ''only reboot allowed''
         (node_power_authorized (linked W TestHandler) Power_Shutdown test_agent RebootOnly [])
     \<and> denied_call [] (node_power_authorized (linked W TestHandler) Power_GracefulReboot test_agent RebootOnly [])"

text \<open>A granted call is the plain one.\<close>

lemma granted_calls:
  "authorizer peer (NodePowerRequest_service_id req) = Ok () \<Longrightarrow>
     (\<lambda>io. node_power_authorized io req peer authorizer) = (\<lambda>io. node_power io req)"
  "authorizer peer (NodeObservationRequest_service_id obs) = Ok () \<Longrightarrow>
     (\<lambda>io. node_observation_authorized io obs peer authorizer) = (\<lambda>io. node_observation io obs)"
  by (simp_all add: fun_eq_iff node_power_authorized_def node_power_def denied_or_def checked_def
      node_observation_authorized_def node_observation_def send_request_authorized_def)

lemma denied_power:
  "authorizer peer (NodePowerRequest_service_id req) = Err e \<Longrightarrow>
     node_power_authorized io req peer authorizer h = (Err (Any_Auth e), h, None)"
  by (simp add: node_power_authorized_def denied_or_def checked_def)

lemmas authorized_api_defs = test_api_node_power_authorization_allowed_def
  test_api_node_power_authorization_denied_def test_api_node_observation_authorization_selective_def
  test_api_node_power_authorization_method_level_def

lemma contains_Nil [simp]: "contains s []"
  by (cases s) simp_all

context lawful_link
begin

lemmas node_exchanged = node_service_exchanged node_network_interface_exchanged node_hostname_exchanged
  node_time_sync_exchanged node_logging_exchanged node_remote_access_exchanged node_power_exchanged
  node_observation_exchanged node_version_exchanged

lemma node_api_tests_pass:
  "test_api_node_service W" "test_api_node_network_interface W" "test_api_node_hostname W"
  "test_api_node_time_sync W" "test_api_node_logging W" "test_api_node_remote_access W" "test_api_node_power W"
  "test_api_node_observation W" "test_api_node_version W"
  unfolding node_api_defs by (simp_all add: node_exchanged api_usage_def fit_rules)

lemma authorized_api_tests_pass:
  "test_api_node_power_authorization_allowed W" "test_api_node_power_authorization_denied W"
  "test_api_node_observation_authorization_selective W" "test_api_node_power_authorization_method_level W"
proof -
  show "test_api_node_power_authorization_allowed W"
    unfolding test_api_node_power_authorization_allowed_def
    by (subst granted_calls(1)) (simp_all add: NoopAuthorizer_def node_exchanged fit_rules)
  show "test_api_node_power_authorization_denied W"
    by (simp add: test_api_node_power_authorization_denied_def denied_power DenyAll_def denied_call_def
        AuthorizationError_fmt_def AuthorizationError_new_def)
  have "ObservationOnly test_agent (NodePowerRequest_service_id Power_Reboot) =
      Err (AuthorizationError_new ''only observation allowed'')"
    by (simp add: ObservationOnly_def service_consts ServiceId_new_def)
  then show "test_api_node_observation_authorization_selective W"
    unfolding test_api_node_observation_authorization_selective_def
    by (subst granted_calls(2)) (simp_all add: ObservationOnly_def service_consts ServiceId_new_def
        node_exchanged api_usage_def fit_rules denied_power denied_call_def)
  have "RebootOnly test_agent (NodePowerRequest_service_id Power_Shutdown) =
      Err (AuthorizationError_new ''only reboot allowed'')"
    "RebootOnly test_agent (NodePowerRequest_service_id Power_GracefulReboot) =
      Err (AuthorizationError_new ''only reboot allowed'')"
    "RebootOnly test_agent (NodePowerRequest_service_id Power_Reboot) = Ok ()"
    by (simp_all add: RebootOnly_def service_consts ServiceId_new_def)
  then show "test_api_node_power_authorization_method_level W"
    using exchanged_result [OF node_power_sent_off [of Power_Reboot TestHandler "[]"]]
    by (simp add: test_api_node_power_authorization_method_level_def denied_power denied_call_def
        AuthorizationError_fmt_def AuthorizationError_new_def granted_calls [THEN fun_cong] fit_rules)
qed

end

subsection \<open>Enrollment\<close>

definition api_enroll_register :: NodeEnrollRequest where
  "api_enroll_register = Enroll_Register
     \<lparr>rg_service_name = ''sensor'', rg_delivery_mode = Delivery_RemoteBootstrap, rg_host = ''host01'',
      rg_instance = Some 1,
      rg_spec = \<lparr>svc_component = ''sensor'', svc_service_name = ''sensor'',
                 svc_reload = ReloadHook ''reload-sensor'', svc_cert_group = Some (CertGroup ''internal'')\<rparr>,
      rg_wrap_ttl = \<lparr>secs = 10 * 60, nanos = 0\<rparr>, rg_idempotency_key = ''idem-1''\<rparr>"

definition test_api_node_enroll_register :: "wire \<Rightarrow> bool" where
  "test_api_node_enroll_register W \<longleftrightarrow>
     (case exchanged W TestHandler (\<lambda>io. node_enroll io api_enroll_register) [] of
        Some (Ok resp, _) \<Rightarrow> resp = EnrollR_Material enroll_material
          \<and> (case resp of EnrollR_Material material \<Rightarrow> bm_expires_at material = bm_expires_at enroll_material
             | _ \<Rightarrow> False)
      | _ \<Rightarrow> False)"

definition test_api_node_enroll_deregister :: "wire \<Rightarrow> bool" where
  "test_api_node_enroll_deregister W \<longleftrightarrow>
     returned EnrollR_Done (exchanged W TestHandler
       (\<lambda>io. node_enroll io (Enroll_Deregister ''sensor'' ''host01'' (Some 1) ''idem-1'')) [])"

definition test_api_node_enroll_typed_failure :: "wire \<Rightarrow> bool" where
  "test_api_node_enroll_typed_failure W \<longleftrightarrow>
     (case exchanged W TestHandler
             (\<lambda>io. node_enroll io (Enroll_Deregister ''sensor'' ''other-host'' (Some 1) ''idem-1'')) [] of
        Some (Ok resp, _) \<Rightarrow> resp = EnrollR_Failed EnrollErr_ServiceHostMismatch
          \<and> NodeEnrollResponse_retry_after resp = None \<and> \<not> NodeEnrollResponse_leaves_teardown_owed resp
      | _ \<Rightarrow> False)"

subsection \<open>Unary package requests\<close>

definition test_api_node_package_remove :: "wire \<Rightarrow> bool" where
  "test_api_node_package_remove W \<longleftrightarrow>
     returned PackageR_Done (exchanged W TestHandler
       (\<lambda>io. node_package io (Package_Remove ''sensor'' (Some 1) ''idem-1'')) [])"

definition test_api_node_package_list_installed :: "wire \<Rightarrow> bool" where
  "test_api_node_package_list_installed W \<longleftrightarrow>
     returned (PackageR_Installed api_installed_pair)
       (exchanged W TestHandler (\<lambda>io. node_package io Package_ListInstalled) [])"

definition test_api_node_package_status :: "wire \<Rightarrow> bool" where
  "test_api_node_package_status W \<longleftrightarrow>
     returned (PackageR_State (api_package_state Life_Running))
       (exchanged W TestHandler (\<lambda>io. node_package io (Package_Status ''sensor'' (Some 1))) [])"

definition test_api_node_package_list_host_ports :: "wire \<Rightarrow> bool" where
  "test_api_node_package_list_host_ports W \<longleftrightarrow>
     returned (PackageR_HostPorts []) (exchanged W TestHandler (\<lambda>io. node_package io Package_ListHostPorts) [])"

text \<open>Refused before anything goes on the wire: no stream was opened and the connection is as it was.\<close>

definition test_api_node_package_rejects_install :: "wire \<Rightarrow> bool" where
  "test_api_node_package_rejects_install W \<longleftrightarrow>
     denied_call ''node_package_install''
       (node_package (linked W TestHandler) (Package_Install (install_request ''sensor'' 4096)) [])"

context lawful_link
begin

lemma enroll_api_tests_pass:
  "dates_enrollment (wi_format W) \<Longrightarrow> test_api_node_enroll_register W"
  "test_api_node_enroll_deregister W" "test_api_node_enroll_typed_failure W"
  using enroll_fits(1) [of "wi_format W"]
  by (simp_all add: test_api_node_enroll_register_def test_api_node_enroll_deregister_def
      test_api_node_enroll_typed_failure_def api_enroll_register_def node_enroll_exchanged fit_rules)

lemma package_api_tests_pass:
  "test_api_node_package_remove W" "test_api_node_package_list_installed W" "test_api_node_package_status W"
  "test_api_node_package_list_host_ports W" "test_api_node_package_rejects_install W"
proof -
  have "contains (a @ ''node_package_install'' @ b) ''node_package_install''" for a b
    by (rule contains_middle)
  from this [of "''an install request carries a payload; use `''" "''`''"]
  show "test_api_node_package_rejects_install W"
    by (simp add: test_api_node_package_rejects_install_def node_package_def checked_def denied_call_def)
qed (simp_all add: test_api_node_package_remove_def test_api_node_package_list_installed_def
      test_api_node_package_status_def test_api_node_package_list_host_ports_def node_package_exchanged
      api_installed_pair_def api_package_state_def fit_rules)

end

end
