(* ===== verification/Api_Install_Tests.thy ===== *)
theory Api_Install_Tests
  imports Api_Tests
begin

text \<open>
  The install tests of \<open>src/src/server/api.rs\<close>: the manager streams its package over the wire to
  the agent's \<open>handle\<close>, whose handler collects what it was given. Every verdict, a source that
  holds the announced size, more and less of it, and the requests that are no installs.
\<close>

subsection \<open>The tests\<close>

text \<open>An install whose outcome is known, with what the agent's handler had received after it.\<close>

definition test_api_node_package_install_proceed :: "wire \<Rightarrow> bool" where
  "test_api_node_package_install_proceed W \<longleftrightarrow>
     (let pkg = payload 150000 in
      case installed W TestHandler (Package_Install (install_request ''sensor'' (of_nat (length pkg)))) [] pkg of
        Some (res, received, _) \<Rightarrow> res = Ok (Install_Applied PackageR_Done) \<and> received = pkg
      | None \<Rightarrow> False)"

definition test_api_node_package_install_accepted_is_terminal :: "wire \<Rightarrow> bool" where
  "test_api_node_package_install_accepted_is_terminal W \<longleftrightarrow>
     (let pkg = payload 4096 in
      case installed W TestHandler (Package_Install (install_request ''selfdisrupting'' (of_nat (length pkg)))) [] pkg of
        Some (res, _, _) \<Rightarrow> res = Ok (Install_Applied PackageR_Accepted)
      | None \<Rightarrow> False)"

text \<open>No byte of the package is read, and none received, when the verdict settles the install.\<close>

definition install_stopped :: "wire \<Rightarrow> string \<Rightarrow> TerminalPreflight \<Rightarrow> bool" where
  "install_stopped W target expected \<longleftrightarrow>
     (let pkg = payload 4096 in
      case installed W TestHandler (Package_Install (install_request target (of_nat (length pkg)))) [] pkg of
        Some (res, received, source) \<Rightarrow>
          res = Ok (Install_Preflight expected) \<and> length source = length pkg \<and> received = []
      | None \<Rightarrow> False)"

definition test_api_node_package_install_already_applied :: "wire \<Rightarrow> bool" where
  "test_api_node_package_install_already_applied W \<longleftrightarrow> install_stopped W ''already'' Terminal_AlreadyApplied"

definition test_api_node_package_install_insufficient_disk_space :: "wire \<Rightarrow> bool" where
  "test_api_node_package_install_insufficient_disk_space W \<longleftrightarrow>
     install_stopped W ''nospace'' (Terminal_InsufficientDiskSpace ''/opt'' 4194304 1024)"

definition test_api_node_package_install_new_refusals_are_preflight_outcomes :: "wire \<Rightarrow> bool" where
  "test_api_node_package_install_new_refusals_are_preflight_outcomes W \<longleftrightarrow>
     list_all (\<lambda>(target, expected). install_stopped W target expected)
       [(''bindonupdate'', Terminal_BindAddrsOnUpdate), (''nonamespace'', Terminal_NamespaceUnconfigured),
        (''noenroll'', Terminal_EnrollmentUnsupported), (''templateonupdate'', Terminal_ConfigTemplateOnUpdate),
        (''unknowntemplate'', Terminal_UnknownConfigTemplate ''no-such-template'')]"

definition test_api_node_package_install_over_long_source :: "wire \<Rightarrow> bool" where
  "test_api_node_package_install_over_long_source W \<longleftrightarrow>
     (let pkg = payload 5000; declared = 3000 in
      case installed W TestHandler (Package_Install (install_request ''sensor'' declared)) [] pkg of
        Some (res, received, source) \<Rightarrow> res = Ok (Install_Applied PackageR_Done)
          \<and> received = take (unat declared) pkg \<and> source = drop (unat declared) pkg
      | None \<Rightarrow> False)"

text \<open>
  An agent that answers \<open>Proceed\<close> and nothing more: reading the next answer is \<open>park\<close>, which the
  manager must not do.
\<close>

definition parked ::
  "('s \<Rightarrow> (IoError + (string + NodePackageResponse)) \<times> 's) \<Rightarrow> ('k, 's) manager_io \<Rightarrow> ('k, 's) manager_io" where
  "parked park io = io\<lparr>mg_recv_preflight := \<lambda>st. (Ok (Ok Preflight_Proceed), st), mg_recv_package := park\<rparr>"

definition test_api_node_package_install_short_source ::
  "wire \<Rightarrow> (bytes link \<Rightarrow> (IoError + (string + NodePackageResponse)) \<times> bytes link) \<Rightarrow> bool" where
  "test_api_node_package_install_short_source W park \<longleftrightarrow>
     (case node_package_install (parked park (linked W TestHandler)) read_bytes
             (Package_Install (install_request ''sensor'' 8000)) [] (payload 1000) of
        Some ((Err e, _, _), _) \<Rightarrow> contains (AnyError_to_string e) ''ended after 1000 of 8000 bytes''
      | _ \<Rightarrow> False)"

definition test_api_node_package_install_rejects_unary_variants :: "wire \<Rightarrow> bool" where
  "test_api_node_package_install_rejects_unary_variants W \<longleftrightarrow>
     (let pkg = payload 64 in
      list_all (\<lambda>req. case node_package_install (linked W TestHandler) read_bytes req [] pkg of
          Some ((Err e, _, None), source) \<Rightarrow>
            contains (AnyError_to_string e) ''node_package'' \<and> length source = length pkg
        | _ \<Rightarrow> False)
        [Package_Remove ''sensor'' (Some 1) ''idem-1'', Package_ListInstalled,
         Package_Status ''sensor'' (Some 1), Package_ListHostPorts])"

subsection \<open>They pass\<close>

lemma frame_payload_starts:
  "[] \<notin> set cs \<Longrightarrow> length (concat cs) = unat sz \<Longrightarrow>
     payload_ahead (frame_io sp) (PackageReader_new (cs, rst) sz) cs ([], rst)"
  using frames_delivered [of sp cs rst] by (simp add: payload_ahead_def)

lemma api_install_whole:
  assumes "good_chunks cs" and "length (concat cs) = unat (in_size f)"
  shows "fst (run_handler (frame_io sp) (api_install (Package_Install f) h)
      (PackageReader_new (cs, False) (in_size f))) =
    (Ok (if in_target f = ''selfdisrupting'' then PackageR_Accepted else PackageR_Done), concat cs)"
proof -
  have cs: "[] \<notin> set cs" using assms(1) by (auto simp: good_chunks_def)
  have "length cs < Suc (unat (in_size f))" using few_chunks [OF cs] assms(2) by simp
  note result = read_payload_result [OF frame_payload_starts [OF cs assms(2)] this]
  show ?thesis unfolding api_install.simps by (intro result) simp
qed

lemma install_request_fits [simp]:
  "length target \<le> MAX_LEN \<Longrightarrow> fits (codec_NodePackageRequest F) (Package_Install (install_request target sz))"
  by (simp add: install_request_def fit_rules)

lemma verdicts [simp]:
  "verdict_for ''sensor'' = Preflight_Proceed" "verdict_for ''selfdisrupting'' = Preflight_Proceed"
  by (simp_all add: verdict_for_def)

context lawful_link
begin

lemma api_installed_whole:
  assumes "length target \<le> MAX_LEN" and "verdict_for target = Preflight_Proceed" and "unat sz \<le> length pkg"
  shows "installed W TestHandler (Package_Install (install_request target sz)) h pkg =
    Some (Ok (Install_Applied (if target = ''selfdisrupting'' then PackageR_Accepted else PackageR_Done)),
      take (unat sz) pkg, drop (unat sz) pkg)"
proof -
  have "installed W TestHandler (Package_Install (install_request target sz)) h pkg =
      Some (map_err Any_Msg (map_ok Install_Applied
        (Ok (if target = ''selfdisrupting'' then PackageR_Accepted else PackageR_Done))),
        take (unat sz) pkg, drop (unat (in_size (install_request target sz))) pkg)"
    by (rule installed_whole [where ?h1.0 = h])
      (use assms api_install_whole [of _ "install_request target sz"] in \<open>simp_all add: fit_rules\<close>)
  then show ?thesis by simp
qed

lemma api_installed_stopped:
  assumes "length target \<le> MAX_LEN" and "terminal_preflight (verdict_for target) = Some verdict"
    and "fits (codec_InstallPreflight (wi_format W)) (verdict_for target)"
  shows "install_stopped W target verdict"
proof -
  have "verdict_for target \<noteq> Preflight_Proceed" using assms(2) by auto
  with installed_settled [of "install_request target (of_nat (length (payload 4096)))" TestHandler "[]"
      "Ok (verdict_for target)" "[]" "payload 4096"] assms
  show ?thesis by (simp add: install_stopped_def)
qed

lemma whole_install_api_tests_pass:
  "test_api_node_package_install_proceed W" "test_api_node_package_install_accepted_is_terminal W"
  "test_api_node_package_install_over_long_source W"
  by (simp_all add: test_api_node_package_install_proceed_def
      test_api_node_package_install_accepted_is_terminal_def
      test_api_node_package_install_over_long_source_def api_installed_whole MAX_LEN_def)

lemma stopped_install_api_tests_pass:
  "test_api_node_package_install_already_applied W"
  "test_api_node_package_install_insufficient_disk_space W"
  "test_api_node_package_install_new_refusals_are_preflight_outcomes W"
  by (simp_all add: test_api_node_package_install_already_applied_def
      test_api_node_package_install_insufficient_disk_space_def
      test_api_node_package_install_new_refusals_are_preflight_outcomes_def
      api_installed_stopped verdict_for_def fit_rules)

lemma short_source_test_passes: "test_api_node_package_install_short_source W park"
proof -
  let ?io = "parked park (linked W TestHandler)"
  let ?f = "install_request ''sensor'' 8000"
  let ?st = "\<lambda>fs. \<lparr>li_start = [], li_frames = fs, li_cut = False, li_read = 0\<rparr>"
  have io: "frames_logged ?io li_frames" "mg_open ?io [] = (Ok (?st []), [])"
    using wl.frames_log [of "wi_error W" "wi_debug W" TestHandler]
    by (simp_all add: frames_logged_def parked_def wl.opens)
  obtain buf where buf: "encode_request ?io RC_NodePackage (Pay_NodePackage (Package_Install ?f)) = Ok buf"
    by (simp add: encode_request_def parked_def wl.encodes)
  have "mg_send_raw ?io (?st []) buf = (Ok (), ?st [buf])"
      "mg_recv_preflight ?io (?st [buf]) = (Ok (Ok Preflight_Proceed), ?st [buf])"
    by (simp_all add: parked_def wl.sends)
  from install_outcome [OF read_bytes_reads_from io(1) buf io(2) this refl, of "payload 1000"]
  obtain st pkg' where "node_package_install ?io read_bytes (Package_Install ?f) [] (payload 1000) =
      Some ((Err (ended_early 8000 1000), [], Some st), pkg')"
    by auto
  moreover have "contains (AnyError_to_string (ended_early 8000 1000)) ''ended after 1000 of 8000 bytes''"
    using contains_middle [of "''the package source ''" "''ended after 1000 of 8000 bytes''" "[]"]
    by (simp add: ended_early_def show_nat.simps char_of_def bit_0)
  ultimately show ?thesis
    by (simp add: test_api_node_package_install_short_source_def)
qed

end

lemma unary_variants_test_passes: "test_api_node_package_install_rejects_unary_variants W"
proof -
  have "contains (''`node_package_install` accepts only an install request; use `'' @ ''node_package'' @ ''`'')
      ''node_package''"
    by (rule contains_middle)
  then show ?thesis
    by (simp add: test_api_node_package_install_rejects_unary_variants_def node_package_install_def
        checked_install_def)
qed

end
