(* ===== verification/Node_Tests.thy ===== *)
theory Node_Tests
  imports Api_Install_Tests Node_Handle
begin

text \<open>
  The tests of \<open>src/src/server/node.rs\<close>: the calls of \<open>Api_Tests\<close> made through the handle
  \<open>Node\<close>, plain, authorized and with a context, and the power requests that wait for nothing.
\<close>

subsection \<open>Handlers and authorizers\<close>

text \<open>The state of all of them is \<open>RECEIVED_PACKAGE\<close>, which only the package handler changes.\<close>

definition nd_TestHandler :: "bytes Handler" where
  "nd_TestHandler = Handler_default
     \<lparr>nh_power := \<lambda>_ h. (Ok PowerR_Initiated, h), nh_observation := api_observation,
      nh_service := \<lambda>_ h. (Ok (ServiceR_Status True), h)\<rparr>"

fun nd_package :: "NodePackageRequest \<Rightarrow> ('h, NodePackageResponse) action" where
  "nd_package (Package_Remove _ _ _) h = (Ok PackageR_Done, h)"
| "nd_package Package_ListInstalled h = (Ok (PackageR_Installed []), h)"
| "nd_package (Package_Status _ _) h = (Ok (PackageR_State (api_package_state Life_Running)), h)"
| "nd_package Package_ListHostPorts h = (Ok (PackageR_HostPorts []), h)"
| "nd_package (Package_Install _) h = (Err ''an install must never reach the unary method'', h)"

definition nd_PackageHandler :: "bytes Handler" where
  "nd_PackageHandler = Handler_default
     \<lparr>nh_package := nd_package, nh_package_install_preflight := \<lambda>_ h. (Ok Preflight_Proceed, h),
      nh_package_install := standalone_install\<rparr>"

definition EnrollHandler :: "bytes Handler" where
  "EnrollHandler = Handler_default\<lparr>nh_enroll := api_enroll\<rparr>"

definition RequireAdmin :: authorizer_v2 where
  "RequireAdmin ctx service =
     (if (case ac_roles ctx of None \<Rightarrow> False | Some r \<Rightarrow> ''admin'' \<in> set r) then Ok ()
      else Err (AuthorizationError_new ''admin required''))"

definition RegisterOnly :: authorizer where
  "RegisterOnly peer service =
     (if service = NODE_ENROLL_REGISTER then Ok () else Err (AuthorizationError_new ''denied''))"

definition noop_v2 :: authorizer_v2 where
  "noop_v2 = authorize_with_context (AuthorizerV2Adapter_new NoopAuthorizer)"

definition test_context :: AuthorizationContext where
  "test_context = from_peer_context test_agent"

lemma node_handler_sel [simp]:
  "nh_power nd_TestHandler req h = (Ok PowerR_Initiated, h)"
  "nh_observation nd_TestHandler = api_observation"
  "nh_service nd_TestHandler req' h = (Ok (ServiceR_Status True), h)"
  "nh_package nd_PackageHandler = nd_package"
  "nh_package_install_preflight nd_PackageHandler req'' b = (Ok Preflight_Proceed, b)"
  "nh_package_install nd_PackageHandler = standalone_install"
  "nh_enroll EnrollHandler = api_enroll"
  by (simp_all add: nd_TestHandler_def nd_PackageHandler_def EnrollHandler_def)

subsection \<open>Power, observation, services\<close>

definition test_power_via_node_handle :: "wire \<Rightarrow> bool" where
  "test_power_via_node_handle W \<longleftrightarrow>
     returned (PowerOutcome_Response PowerR_Initiated)
       (exchanged W nd_TestHandler (\<lambda>io k. Node_power io (Node_new k) Power_GracefulReboot) [])"

definition test_power_authorized_via_node_handle :: "wire \<Rightarrow> bool" where
  "test_power_authorized_via_node_handle W \<longleftrightarrow>
     returned (PowerOutcome_Response PowerR_Initiated) (exchanged W nd_TestHandler
       (\<lambda>io k. Node_power_authorized io (Node_new k) Power_GracefulReboot test_agent NoopAuthorizer) [])"

definition test_power_authorized_denied_via_node_handle :: "wire \<Rightarrow> bool" where
  "test_power_authorized_denied_via_node_handle W \<longleftrightarrow>
     denied_call ''authorization denied''
       (Node_power_authorized (linked W nd_TestHandler) (Node_new []) Power_Reboot test_agent DenyAll)"

definition test_observation_via_node_handle :: "wire \<Rightarrow> bool" where
  "test_observation_via_node_handle W \<longleftrightarrow>
     returned (ObserveR_ResourceUsage ''test-host'' api_usage)
       (exchanged W nd_TestHandler (\<lambda>io k. Node_observation io (Node_new k) Observe_ResourceUsage) [])"

definition test_power_with_context_via_node_handle :: "wire \<Rightarrow> bool" where
  "test_power_with_context_via_node_handle W \<longleftrightarrow>
     returned (PowerOutcome_Response PowerR_Initiated) (exchanged W nd_TestHandler
       (\<lambda>io k. Node_power_with_context io (Node_new k) Power_GracefulReboot test_context noop_v2) [])"

definition test_power_with_context_denied_by_role :: "wire \<Rightarrow> bool" where
  "test_power_with_context_denied_by_role W \<longleftrightarrow>
     denied_call ''authorization denied''
       (Node_power_with_context (linked W nd_TestHandler) (Node_new []) Power_Reboot test_context RequireAdmin)"

definition test_service_via_node_handle :: "wire \<Rightarrow> bool" where
  "test_service_via_node_handle W \<longleftrightarrow>
     returned (ServiceR_Status True)
       (exchanged W nd_TestHandler (\<lambda>io k. Node_service io (Node_new k) (Service_Status ''nginx'')) [])"

text \<open>
  In the tests of immediate power requests the agent reads the frame and closes its half without
  an answer; the manager returns whatever the agent does, so any agent stands for it.
\<close>

definition test_power_reboot_returns_sent :: "wire \<Rightarrow> bool" where
  "test_power_reboot_returns_sent W \<longleftrightarrow>
     fst (Node_power (linked W nd_TestHandler) (Node_new []) Power_Reboot) = Ok PowerOutcome_Sent"

definition test_power_shutdown_returns_sent :: "wire \<Rightarrow> bool" where
  "test_power_shutdown_returns_sent W \<longleftrightarrow>
     fst (Node_power (linked W nd_TestHandler) (Node_new []) Power_Shutdown) = Ok PowerOutcome_Sent"

definition test_reboot_no_response :: "wire \<Rightarrow> bool" where
  "test_reboot_no_response W \<longleftrightarrow> fst (Node_reboot (linked W nd_TestHandler) (Node_new [])) = Ok ()"

definition test_shutdown_no_response :: "wire \<Rightarrow> bool" where
  "test_shutdown_no_response W \<longleftrightarrow> fst (Node_shutdown (linked W nd_TestHandler) (Node_new [])) = Ok ()"

definition test_reboot_authorized_no_response :: "wire \<Rightarrow> bool" where
  "test_reboot_authorized_no_response W \<longleftrightarrow>
     fst (Node_reboot_authorized (linked W nd_TestHandler) (Node_new []) test_agent NoopAuthorizer) = Ok ()"

definition test_shutdown_authorized_no_response :: "wire \<Rightarrow> bool" where
  "test_shutdown_authorized_no_response W \<longleftrightarrow>
     fst (Node_shutdown_authorized (linked W nd_TestHandler) (Node_new []) test_agent NoopAuthorizer) = Ok ()"

subsection \<open>Packages\<close>

definition test_package_via_node_handle :: "wire \<Rightarrow> bool" where
  "test_package_via_node_handle W \<longleftrightarrow>
     returned PackageR_Done (exchanged W nd_PackageHandler
       (\<lambda>io k. Node_package io (Node_new k) (Package_Remove ''sensor'' (Some 1) ''idem-1'')) [])"

definition test_package_install_via_node_handle :: "wire \<Rightarrow> bool" where
  "test_package_install_via_node_handle W \<longleftrightarrow>
     (let pkg = payload 3333 in
      case settled W nd_PackageHandler (Node_package_install (linked W nd_PackageHandler) read_bytes (Node_new [])
             (Package_Install (install_request ''sensor'' (of_nat (length pkg)))) pkg) of
        Some (res, received, _) \<Rightarrow> res = Ok (Install_Applied PackageR_Done) \<and> received = pkg
      | None \<Rightarrow> False)"

definition test_package_authorized_denied_via_node_handle :: "wire \<Rightarrow> bool" where
  "test_package_authorized_denied_via_node_handle W \<longleftrightarrow>
     denied_call ''authorization denied''
       (Node_package_authorized (linked W nd_PackageHandler) (Node_new []) Package_ListInstalled test_agent DenyAll)"

text \<open>A denied install opened no stream and read nothing of its source.\<close>

definition denied_install :: "bytes \<Rightarrow> (((AnyError + 'a) \<times> 'k \<times> 's option) \<times> bytes) option \<Rightarrow> bool" where
  "denied_install pkg out \<longleftrightarrow>
     (case out of
        Some (call, source) \<Rightarrow> denied_call ''authorization denied'' call \<and> length source = length pkg
      | None \<Rightarrow> False)"

definition test_package_install_authorized_denied_via_node_handle :: "wire \<Rightarrow> bool" where
  "test_package_install_authorized_denied_via_node_handle W \<longleftrightarrow>
     (let pkg = replicate 512 7 in
      denied_install pkg (Node_package_install_authorized (linked W nd_PackageHandler) read_bytes (Node_new [])
        (Package_Install (install_request ''sensor'' 512)) pkg test_agent DenyAll))"

definition test_package_with_context_via_node_handle :: "wire \<Rightarrow> bool" where
  "test_package_with_context_via_node_handle W \<longleftrightarrow>
     returned (PackageR_Installed []) (exchanged W nd_PackageHandler
       (\<lambda>io k. Node_package_with_context io (Node_new k) Package_ListInstalled test_context noop_v2) [])"

definition test_package_install_with_context_denied :: "wire \<Rightarrow> bool" where
  "test_package_install_with_context_denied W \<longleftrightarrow>
     (let pkg = replicate 256 7 in
      denied_install pkg (Node_package_install_with_context (linked W nd_PackageHandler) read_bytes (Node_new [])
        (Package_Install (install_request ''sensor'' 256)) pkg test_context RequireAdmin))"

subsection \<open>Enrollment\<close>

definition enroll_request_away :: "string \<Rightarrow> NodeEnrollRequest" where
  "enroll_request_away host = Enroll_Deregister ''sensor'' host (Some 1) ''idem-1''"

text \<open>A response with no time to wait and no teardown owed.\<close>

definition settled_response :: "NodeEnrollResponse \<Rightarrow> ((AnyError + NodeEnrollResponse) \<times> 'h) option \<Rightarrow> bool" where
  "settled_response expected out \<longleftrightarrow>
     (case out of
        Some (Ok resp, _) \<Rightarrow> resp = expected \<and> NodeEnrollResponse_retry_after resp = None
          \<and> \<not> NodeEnrollResponse_leaves_teardown_owed resp
      | _ \<Rightarrow> False)"

definition test_enroll_register_via_node_handle :: "wire \<Rightarrow> bool" where
  "test_enroll_register_via_node_handle W \<longleftrightarrow>
     settled_response (EnrollR_Material enroll_material)
       (exchanged W EnrollHandler (\<lambda>io k. Node_enroll io (Node_new k) api_enroll_register) [])"

definition test_enroll_deregister_via_node_handle :: "wire \<Rightarrow> bool" where
  "test_enroll_deregister_via_node_handle W \<longleftrightarrow>
     returned EnrollR_Done
       (exchanged W EnrollHandler (\<lambda>io k. Node_enroll io (Node_new k) (enroll_request_away ''host01'')) [])"

definition test_enroll_typed_failure_via_node_handle :: "wire \<Rightarrow> bool" where
  "test_enroll_typed_failure_via_node_handle W \<longleftrightarrow>
     settled_response (EnrollR_Failed EnrollErr_ServiceHostMismatch)
       (exchanged W EnrollHandler (\<lambda>io k. Node_enroll io (Node_new k) (enroll_request_away ''other-host'')) [])"

definition test_enroll_authorized_denied_via_node_handle :: "wire \<Rightarrow> bool" where
  "test_enroll_authorized_denied_via_node_handle W \<longleftrightarrow>
     denied_call ''authorization denied''
       (Node_enroll_authorized (linked W EnrollHandler) (Node_new []) api_enroll_register test_agent DenyAll)"

definition test_enroll_authorized_uses_the_method_level_service_id :: "wire \<Rightarrow> bool" where
  "test_enroll_authorized_uses_the_method_level_service_id W \<longleftrightarrow>
     returned (EnrollR_Material enroll_material) (exchanged W EnrollHandler
       (\<lambda>io k. Node_enroll_authorized io (Node_new k) api_enroll_register test_agent RegisterOnly) [])
     \<and> denied_call ''authorization denied''
         (Node_enroll_authorized (linked W EnrollHandler) (Node_new []) (enroll_request_away ''host01'')
            test_agent RegisterOnly)"

definition test_enroll_with_context_via_node_handle :: "wire \<Rightarrow> bool" where
  "test_enroll_with_context_via_node_handle W \<longleftrightarrow>
     returned (EnrollR_Material enroll_material) (exchanged W EnrollHandler
       (\<lambda>io k. Node_enroll_with_context io (Node_new k) api_enroll_register test_context noop_v2) [])"

subsection \<open>They pass\<close>

text \<open>A call through the handle is the connection's, and a granted one the plain call.\<close>

lemma handle_calls:
  "(\<lambda>io k. Node_power io (Node_new k) p) = (\<lambda>io. node_power io p)"
  "(\<lambda>io k. Node_observation io (Node_new k) obs) = (\<lambda>io. node_observation io obs)"
  "(\<lambda>io k. Node_service io (Node_new k) s) = (\<lambda>io. node_service io s)"
  "(\<lambda>io k. Node_package io (Node_new k) pkg) = (\<lambda>io. node_package io pkg)"
  "(\<lambda>io k. Node_enroll io (Node_new k) e) = (\<lambda>io. node_enroll io e)"
  by (simp_all add: fun_eq_iff Node_new_def Node_power_def Node_observation_def Node_service_def
      Node_package_def Node_enroll_def)

lemma granted_handle_calls:
  "a peer (NodePowerRequest_service_id p) = Ok () \<Longrightarrow>
     (\<lambda>io k. Node_power_authorized io (Node_new k) p peer a) = (\<lambda>io. node_power io p)"
  "a peer (NodeEnrollRequest_service_id e) = Ok () \<Longrightarrow>
     (\<lambda>io k. Node_enroll_authorized io (Node_new k) e peer a) = (\<lambda>io. node_enroll io e)"
  "a2 ctx (NodePowerRequest_service_id p) = Ok () \<Longrightarrow>
     (\<lambda>io k. Node_power_with_context io (Node_new k) p ctx a2) = (\<lambda>io. node_power io p)"
  "a2 ctx (NodePackageRequest_service_id pkg) = Ok () \<Longrightarrow>
     (\<lambda>io k. Node_package_with_context io (Node_new k) pkg ctx a2) = (\<lambda>io. node_package io pkg)"
  "a2 ctx (NodeEnrollRequest_service_id e) = Ok () \<Longrightarrow>
     (\<lambda>io k. Node_enroll_with_context io (Node_new k) e ctx a2) = (\<lambda>io. node_enroll io e)"
  by (simp_all add: fun_eq_iff Node_new_def power_calls denied_or_def checked_def Node_enroll_authorized_def
      node_enroll_authorized_def node_enroll_def send_request_authorized_def Node_package_with_context_def
      node_package_with_context_def node_package_def send_request_authorized_with_context_def
      Node_enroll_with_context_def node_enroll_with_context_def split: sum.split)

lemma denied_by_policy [simp]: "denied_call ''authorization denied'' (Err (Any_Auth e), k, None)"
  using contains_front [of "''authorization denied''" "'': '' @ ae_reason e"]
  by (simp add: denied_call_def AuthorizationError_fmt_def)

lemmas denied_calls = Node_new_def power_calls denied_or_def checked_def Node_package_authorized_def
  node_package_authorized_def send_request_authorized_def Node_enroll_authorized_def node_enroll_authorized_def
  DenyAll_def RequireAdmin_def test_context_def from_peer_context_def

lemma denied_node_tests_pass:
  "test_power_authorized_denied_via_node_handle W" "test_power_with_context_denied_by_role W"
  "test_package_authorized_denied_via_node_handle W" "test_enroll_authorized_denied_via_node_handle W"
  "test_package_install_authorized_denied_via_node_handle W" "test_package_install_with_context_denied W"
  by (simp_all add: test_power_authorized_denied_via_node_handle_def test_power_with_context_denied_by_role_def
      test_package_authorized_denied_via_node_handle_def test_enroll_authorized_denied_via_node_handle_def
      test_package_install_authorized_denied_via_node_handle_def test_package_install_with_context_denied_def
      denied_calls denied_install_def Node_package_install_authorized_def node_package_install_authorized_def
      Node_package_install_with_context_def node_package_install_with_context_def checked_install_def Let_def)

lemma noop_v2_grants [simp]: "noop_v2 ctx service = Ok ()"
  by (simp add: noop_v2_def authorize_with_context_def AuthorizerV2Adapter_new_def NoopAuthorizer_def)

context lawful_link
begin

lemma plain_node_tests_pass:
  "test_power_via_node_handle W" "test_observation_via_node_handle W" "test_service_via_node_handle W"
  "test_power_authorized_via_node_handle W" "test_power_with_context_via_node_handle W"
  by (simp_all add: test_power_via_node_handle_def test_observation_via_node_handle_def
      test_service_via_node_handle_def test_power_authorized_via_node_handle_def
      test_power_with_context_via_node_handle_def handle_calls granted_handle_calls NoopAuthorizer_def
      node_exchanged api_usage_def fit_rules)

lemma immediate_node_tests_pass:
  "test_power_reboot_returns_sent W" "test_power_shutdown_returns_sent W" "test_reboot_no_response W"
  "test_shutdown_no_response W" "test_reboot_authorized_no_response W" "test_shutdown_authorized_no_response W"
proof -
  have "fst (node_power (linked W nd_TestHandler) req []) = Ok PowerOutcome_Sent"
    if "req = Power_Reboot \<or> req = Power_Shutdown" for req
    using that exchanged_result [OF node_power_sent_off [of req nd_TestHandler "[]"]] by (auto simp: fit_rules)
  note sent = this [of Power_Reboot, simplified] this [of Power_Shutdown, simplified]
  then have "fst (either_outcome (node_power (linked W nd_TestHandler) Power_Reboot [])) = Ok ()"
    "fst (either_outcome (node_power (linked W nd_TestHandler) Power_Shutdown [])) = Ok ()"
    by (auto simp: either_outcome_def split: prod.splits NodePowerOutcome.splits)
  with sent show "test_power_reboot_returns_sent W" "test_power_shutdown_returns_sent W"
      "test_reboot_no_response W" "test_shutdown_no_response W" "test_reboot_authorized_no_response W"
      "test_shutdown_authorized_no_response W"
    by (simp_all add: test_power_reboot_returns_sent_def test_power_shutdown_returns_sent_def
        test_reboot_no_response_def test_shutdown_no_response_def test_reboot_authorized_no_response_def
        test_shutdown_authorized_no_response_def Node_reboot_def Node_shutdown_def Node_reboot_authorized_def
        Node_shutdown_authorized_def power_calls Node_new_def denied_or_def checked_def NoopAuthorizer_def)
qed

lemma package_node_tests_pass:
  "test_package_via_node_handle W" "test_package_with_context_via_node_handle W"
  by (simp_all add: test_package_via_node_handle_def test_package_with_context_via_node_handle_def
      handle_calls granted_handle_calls node_package_exchanged fit_rules)

lemma enroll_node_tests_pass:
  "dates_enrollment (wi_format W) \<Longrightarrow> test_enroll_register_via_node_handle W"
  "test_enroll_deregister_via_node_handle W" "test_enroll_typed_failure_via_node_handle W"
  "dates_enrollment (wi_format W) \<Longrightarrow> test_enroll_with_context_via_node_handle W"
  using enroll_fits(1) [of "wi_format W"]
  by (simp_all add: test_enroll_register_via_node_handle_def test_enroll_deregister_via_node_handle_def
      test_enroll_typed_failure_via_node_handle_def test_enroll_with_context_via_node_handle_def
      settled_response_def enroll_request_away_def api_enroll_register_def handle_calls granted_handle_calls
      node_enroll_exchanged fit_rules)

lemma register_only_test_passes:
  assumes "dates_enrollment (wi_format W)"
  shows "test_enroll_authorized_uses_the_method_level_service_id W"
proof -
  have "RegisterOnly test_agent (NodeEnrollRequest_service_id api_enroll_register) = Ok ()"
    by (simp add: RegisterOnly_def api_enroll_register_def)
  moreover have "RegisterOnly test_agent (NodeEnrollRequest_service_id (enroll_request_away ''host01'')) =
      Err (AuthorizationError_new ''denied'')"
    by (simp add: RegisterOnly_def enroll_request_away_def service_consts ServiceId_new_def)
  ultimately show ?thesis
    unfolding test_enroll_authorized_uses_the_method_level_service_id_def
    using enroll_fits(1) [OF assms]
    by (subst granted_handle_calls) (simp_all add: node_enroll_exchanged api_enroll_register_def fit_rules
        Node_enroll_authorized_def node_enroll_authorized_def send_request_authorized_def)
qed

lemma install_node_test_passes: "test_package_install_via_node_handle W"
proof -
  let ?f = "install_request ''sensor'' 3333"
  have "fst (run_handler (frame_io (split_frame (wi_code W))) (standalone_install (Package_Install ?f) [])
      (PackageReader_new (chunks, False) (in_size ?f))) = (Ok PackageR_Done, payload 3333)"
    if "good_chunks chunks" "concat chunks = take (unat (in_size ?f)) (payload 3333)" for chunks
  proof -
    have whole: "[] \<notin> set chunks" "length (concat chunks) = unat (in_size ?f)"
      using that by (auto simp: good_chunks_def)
    have "length chunks < Suc (unat (in_size ?f))" using few_chunks [OF whole(1)] whole(2) by simp
    note result = read_payload_result [OF frame_payload_starts [OF whole] this]
    show ?thesis unfolding standalone_install.simps by (intro result) (use that in simp)
  qed
  then have "installed W nd_PackageHandler (Package_Install ?f) [] (payload 3333) =
      Some (map_err Any_Msg (map_ok Install_Applied (Ok PackageR_Done)), payload 3333,
        drop (unat (in_size ?f)) (payload 3333))"
    by (intro installed_whole [where ?h1.0 = "[]"]) (simp_all add: fit_rules)
  then show ?thesis
    by (simp add: test_package_install_via_node_handle_def Node_package_install_def Node_new_def)
qed

end

end
