(* ===== verification/Handler_Tests.thy ===== *)
theory Handler_Tests
  imports Wire_Client Client_Tests Node_Tests
begin

text \<open>
  The tests of \<open>src/src/server/handler.rs\<close>: frames of requests are put on a stream, one run of
  the manager's dispatch serves them, and the answers are read back as the bytes they are. Each
  holds for every lawful wire.
\<close>

subsection \<open>The fixtures\<close>

text \<open>A handler shares what it received with the test; here it is the handler's state.\<close>

record models =
  insert_model_payload :: "bytes option"
  update_model_payload :: "bytes option"

definition ModelHandler :: "models server_Handler" where
  "ModelHandler = server_Handler_default
     \<lparr>mh_insert_model := \<lambda>model self. (Ok 42, self\<lparr>insert_model_payload := Some model\<rparr>),
      mh_update_model := \<lambda>model self. (Ok 55, self\<lparr>update_model_payload := Some model\<rparr>)\<rparr>"

definition no_models :: models where
  "no_models = \<lparr>insert_model_payload = None, update_model_payload = None\<rparr>"

record deletions =
  dr_reports :: "CustomerDataDeletionReport list"
  dr_response :: "string + unit"

definition DeletionReportHandler :: "deletions server_Handler" where
  "DeletionReportHandler = server_Handler_default
     \<lparr>mh_report_customer_data_deletion := \<lambda>report self.
        (dr_response self, self\<lparr>dr_reports := dr_reports self @ [report]\<rparr>)\<rparr>"

datatype EngineReport =
    UploadRunModel string u32 bytes
  | ReportRun string u32 ReportedRunState "string option"
  | ReportActiveRuns string "u32 list"
  | ReportDetectorStatus string DetectorStatusReport

record engine_reports =
  er_received :: "EngineReport list"
  er_response :: "string + unit"

definition engine_received :: "EngineReport \<Rightarrow> (engine_reports, unit) action" where
  "engine_received r self = (er_response self, self\<lparr>er_received := er_received self @ [r]\<rparr>)"

definition EngineReportHandler :: "engine_reports server_Handler" where
  "EngineReportHandler = server_Handler_default
     \<lparr>mh_upload_run_model := \<lambda>peer run_id model. engine_received (UploadRunModel peer run_id model),
      mh_report_run := \<lambda>peer run_id state reason. engine_received (ReportRun peer run_id state reason),
      mh_report_active_runs := \<lambda>peer run_ids. engine_received (ReportActiveRuns peer run_ids),
      mh_report_detector_status := \<lambda>peer report. engine_received (ReportDetectorStatus peer report)\<rparr>"

definition TestDenial :: authorizer where
  "TestDenial peer service = Err (AuthorizationError_new ''test denial'')"

definition AllowModelsOnly :: authorizer where
  "AllowModelsOnly peer service =
     (if sid_family service = ''server.model'' then Ok ()
      else Err (AuthorizationError_new ''only model APIs allowed''))"

definition test_peer :: PeerContext where "test_peer = PeerContext_new ''test-peer''"

definition engine_peer :: PeerContext where "engine_peer = PeerContext_new ''engine.example.test''"

subsection \<open>Running the dispatch\<close>

declare server_code_into.simps [simp del]

type_synonym 'h dispatch =
  "((string + server_reply) list, bytes list) server_io \<Rightarrow> server_args
   \<Rightarrow> ('h, (string + server_reply) list, bytes list) session
   \<Rightarrow> ((IoError + (u32 \<times> bytes) option) \<times> ('h, (string + server_reply) list, bytes list) session) option"

type_synonym sent_requests = "(server_RequestCode \<times> client_payload) list"

definition ask_frame :: "wire \<Rightarrow> server_RequestCode \<times> client_payload \<Rightarrow> bytes" where
  "ask_frame W request = fst (wi_code W) (server_code_into (fst request)) @ ask_bytes (wi_format W) (snd request)"

definition dispatched ::
  "wire \<Rightarrow> 'h dispatch \<Rightarrow> 'h \<Rightarrow> sent_requests
   \<Rightarrow> ((IoError + (u32 \<times> bytes) option) \<times> (string + server_reply) list \<times> 'h) option" where
  "dispatched W serve h requests =
     (case serve (frame_server_io (split_frame (wi_code W))) (manager_decoders (wi_format W) (wi_error W))
             \<lparr>se_handler = h, se_send = [], se_recv = map (ask_frame W) requests\<rparr> of
        None \<Rightarrow> None
      | Some (out, s) \<Rightarrow> Some (out, se_send s, se_handler s))"

text \<open>What \<open>unary_request\<close> makes of an answer, at the type the test gives it.\<close>

definition answer_is ::
  "wire \<Rightarrow> (string list set \<Rightarrow> string list list) \<Rightarrow> 'a codec \<Rightarrow> string + 'a \<Rightarrow> string + server_reply \<Rightarrow> bool" where
  "answer_is W ord c expected m \<longleftrightarrow>
     read_answer (wi_format W) (wi_error W) c (reply_bytes (wi_format W) ord m) = Ok expected"

fun disconnected :: "IoError + 'a \<Rightarrow> bool" where
  "disconnected (Ok _) \<longleftrightarrow> True"
| "disconnected (Err e) \<longleftrightarrow> io_kind e = EK_NotConnected"

fun failed_with :: "ErrorKind \<Rightarrow> IoError + 'a \<Rightarrow> bool" where
  "failed_with k (Ok _) \<longleftrightarrow> False"
| "failed_with k (Err e) \<longleftrightarrow> io_kind e = k"

fun classified :: "ProtocolErrorKind \<Rightarrow> IoError + 'a \<Rightarrow> bool" where
  "classified k (Ok _) \<longleftrightarrow> False"
| "classified k (Err e) \<longleftrightarrow> of_io_error e = k"

lemma answer_is_unit [simp]:
  "lawful_format (wi_format W) \<Longrightarrow> answer_is W ord unit_codec (Ok ()) (Ok SReply_Unit)"
  by (simp add: answer_is_def lawful_rules unit_codec_sel)

lemma answer_is_u32 [simp]:
  "lawful_format (wi_format W) \<Longrightarrow> answer_is W ord (plain (fm_u32 (wi_format W))) (Ok n) (Ok (SReply_U32 n))"
  unfolding answer_is_def reply_bytes.simps by (rule read_answer_ok) (simp_all add: lawful_rules codec_simps)

lemma answer_is_err [simp]:
  "lawful_format (wi_format W) \<Longrightarrow> lawful c \<Longrightarrow> length e \<le> MAX_LEN \<Longrightarrow> answer_is W ord c (Err e) (Err e)"
  by (simp add: answer_is_def)

subsection \<open>One request at a time\<close>

context lawful_link
begin

abbreviation (input) "fio \<equiv> frame_server_io (split_frame (wi_code W))"

lemma frame_taken: "split_frame (wi_code W) (ask_frame W (c, q)) =
    Some (server_code_into c, ask_bytes (wi_format W) q)"
  using lawful_reads [OF code_lawful] by (simp add: split_frame_def plain_def ask_frame_def)

lemma authorized_Cons:
  "handle_authorized fio A H p authorizer \<lparr>se_handler = h, se_send = sent, se_recv = ask_frame W (c, q) # rest\<rparr> =
     (let s = \<lparr>se_handler = h, se_send = sent, se_recv = rest\<rparr> in
      case (case (case from_server_request_code c of None \<Rightarrow> None
              | Some sid \<Rightarrow> (case authorizer p sid of Err e \<Rightarrow> Some e | Ok _ \<Rightarrow> None)) of
              Some e \<Rightarrow> deny fio e s
            | None \<Rightarrow> authorized_arm fio A H (pc_name p) (server_code_into c) (ask_bytes (wi_format W) q) s) of
        Again s \<Rightarrow> handle_authorized fio A H p authorizer s
      | Leave out \<Rightarrow> Some out)"
  unfolding handle_authorized_def
  by (subst iterate.simps, subst handle_authorized_step_def)
    (simp add: frame_taken server_code_round Let_def)

lemma authorized_Nil:
  "handle_authorized fio A H p authorizer \<lparr>se_handler = h, se_send = sent, se_recv = []\<rparr> =
     Some (Ok None, \<lparr>se_handler = h, se_send = sent, se_recv = []\<rparr>)"
  unfolding handle_authorized_def by (rule iterate_Leave) (rule ended_step)

lemma context_is_authorized:
  "handle_authorized_with_context io A H ctx authorizer =
     handle_authorized io A H (PeerContext_new (pid_name (ac_peer_identity ctx))) (\<lambda>_. authorizer ctx)"
  unfolding handle_authorized_with_context_def handle_authorized_def
  by (subst step_agrees) (simp_all add: PeerContext_new_def)

lemma asked: "ask_fits (wi_format W) q \<Longrightarrow> decodes (ask_bytes (wi_format W)) (manager_decoders (wi_format W) e) q"
  by (rule ask_decodes [OF format_lawful])

abbreviation (input) "margs \<equiv> manager_decoders (wi_format W) (wi_error W)"

lemma arms_served:
  "ask_fits (wi_format W) (CPay_DeletionReport r) \<Longrightarrow>
     authorized_arm fio margs H peer (server_code_into SC_ReportCustomerDataDeletion)
       (ask_bytes (wi_format W) (CPay_DeletionReport r)) s =
     sv_respond fio (\<lambda>_. SReply_Unit) (mh_report_customer_data_deletion H r) s"
  "ask_fits (wi_format W) (CPay_RunModel (n, b)) \<Longrightarrow>
     authorized_arm fio margs H peer (server_code_into SC_UploadRunModel)
       (ask_bytes (wi_format W) (CPay_RunModel (n, b))) s =
     sv_respond fio (\<lambda>_. SReply_Unit) (mh_upload_run_model H peer n b) s"
  "ask_fits (wi_format W) (CPay_RunReport (n, st, why)) \<Longrightarrow>
     authorized_arm fio margs H peer (server_code_into SC_ReportRun)
       (ask_bytes (wi_format W) (CPay_RunReport (n, st, why))) s =
     sv_respond fio (\<lambda>_. SReply_Unit) (mh_report_run H peer n st why) s"
  "ask_fits (wi_format W) (CPay_U32s ns) \<Longrightarrow>
     authorized_arm fio margs H peer (server_code_into SC_ReportActiveRuns)
       (ask_bytes (wi_format W) (CPay_U32s ns)) s =
     sv_respond fio (\<lambda>_. SReply_Unit) (mh_report_active_runs H peer ns) s"
  "ask_fits (wi_format W) (CPay_DetectorStatus d) \<Longrightarrow>
     authorized_arm fio margs H peer (server_code_into SC_ReportDetectorStatus)
       (ask_bytes (wi_format W) (CPay_DetectorStatus d)) s =
     sv_respond fio (\<lambda>_. SReply_Unit) (mh_report_detector_status H peer d) s"
  "ask_fits (wi_format W) (CPay_Bytes b) \<Longrightarrow>
     authorized_arm fio margs H peer (server_code_into SC_InsertModel)
       (ask_bytes (wi_format W) (CPay_Bytes b)) s =
     sv_respond fio SReply_U32 (mh_insert_model H b) s"
  "ask_fits (wi_format W) (CPay_Bytes b) \<Longrightarrow>
     authorized_arm fio margs H peer (server_code_into SC_UpdateModel)
       (ask_bytes (wi_format W) (CPay_Bytes b)) s =
     sv_respond fio SReply_U32 (mh_update_model H b) s"
  by (drule asked [where e = "wi_error W"], simp add: arm_opened)+

lemma authorized_granted:
  assumes "from_server_request_code c = Some sid" and "authorizer p sid = Ok ()"
    and "authorized_arm fio A H (pc_name p) (server_code_into c) (ask_bytes (wi_format W) q)
           \<lparr>se_handler = h, se_send = sent, se_recv = rest\<rparr> =
         sv_respond fio reply f \<lparr>se_handler = h, se_send = sent, se_recv = rest\<rparr>"
    and "f h = (r, h')"
  shows "handle_authorized fio A H p authorizer
      \<lparr>se_handler = h, se_send = sent, se_recv = ask_frame W (c, q) # rest\<rparr> =
    handle_authorized fio A H p authorizer
      \<lparr>se_handler = h', se_send = sent @ [map_ok reply r], se_recv = rest\<rparr>"
  using assms by (simp add: authorized_Cons sv_respond_def call_handler_def Let_def)

text \<open>A request that fits is served by its arm, when the authorizer grants its service.\<close>

lemmas granted =
  authorized_granted [OF _ _ arms_served(1)] authorized_granted [OF _ _ arms_served(2)]
  authorized_granted [OF _ _ arms_served(3)] authorized_granted [OF _ _ arms_served(4)]
  authorized_granted [OF _ _ arms_served(5)] authorized_granted [OF _ _ arms_served(6)]
  authorized_granted [OF _ _ arms_served(7)]

lemma name_in_context: "pid_name (ac_peer_identity (from_peer_context p)) = pc_name p"
  by (simp add: from_peer_context_authenticated)

lemmas dispatch_steps = dispatched_def server_handle_def authorized_Nil context_is_authorized NoopAuthorizer_def
  noop_v2_grants name_in_context

end

subsection \<open>Deletion reports\<close>

definition test_deletion_report_default_is_not_supported :: bool where
  "test_deletion_report_default_is_not_supported \<longleftrightarrow>
     fst (mh_report_customer_data_deletion server_Handler_default
       \<lparr>cdr_id = 42, cdr_host_fqdn = ''sensor.example.test'', cdr_completed_at = Some 1700000100,
        cdr_reporter = Reporter_Sensor, cdr_outcome = Outcome_Succeeded\<rparr> ()) = Err ''not supported''"

definition expected_reports :: "CustomerDataDeletionReport list" where
  "expected_reports =
     [\<lparr>cdr_id = 42, cdr_host_fqdn = ''sensor.example.test'', cdr_completed_at = Some 1700000123,
       cdr_reporter = Reporter_Sensor, cdr_outcome = Outcome_Succeeded\<rparr>,
      \<lparr>cdr_id = 43, cdr_host_fqdn = ''semi-supervised.example.test'', cdr_completed_at = None,
       cdr_reporter = Reporter_SemiSupervised, cdr_outcome = Outcome_Failed ''clock unavailable''\<rparr>]"

definition test_authorized_dispatches_deletion_reports_unchanged ::
  "wire \<Rightarrow> (string list set \<Rightarrow> string list list) \<Rightarrow> bool" where
  "test_authorized_dispatches_deletion_reports_unchanged W ord \<longleftrightarrow>
     (case dispatched W (\<lambda>io A. handle_authorized io A DeletionReportHandler test_peer NoopAuthorizer)
             \<lparr>dr_reports = [], dr_response = Ok ()\<rparr>
             (map (\<lambda>report. (SC_ReportCustomerDataDeletion, CPay_DeletionReport report)) expected_reports) of
        Some (_, got, self) \<Rightarrow>
          length got = 2 \<and> list_all (answer_is W ord unit_codec (Ok ())) got \<and> dr_reports self = expected_reports
      | None \<Rightarrow> False)"

definition failed_report :: CustomerDataDeletionReport where
  "failed_report =
     \<lparr>cdr_id = 44, cdr_host_fqdn = ''semi-supervised.example.test'', cdr_completed_at = Some 1700001100,
      cdr_reporter = Reporter_SemiSupervised, cdr_outcome = Outcome_Failed ''permission denied''\<rparr>"

definition test_authorized_with_context_dispatches_report_and_returns_handler_error ::
  "wire \<Rightarrow> (string list set \<Rightarrow> string list list) \<Rightarrow> bool" where
  "test_authorized_with_context_dispatches_report_and_returns_handler_error W ord \<longleftrightarrow>
     (case dispatched W
             (\<lambda>io A. handle_authorized_with_context io A DeletionReportHandler (from_peer_context test_peer) noop_v2)
             \<lparr>dr_reports = [], dr_response = Err ''database unavailable''\<rparr>
             [(SC_ReportCustomerDataDeletion, CPay_DeletionReport failed_report)] of
        Some (_, got, self) \<Rightarrow>
          length got = 1 \<and> list_all (answer_is W ord unit_codec (Err ''database unavailable'')) got
          \<and> dr_reports self = [failed_report]
      | None \<Rightarrow> False)"

lemma test_deletion_report_default_is_not_supported_passes: test_deletion_report_default_is_not_supported
  by (simp add: test_deletion_report_default_is_not_supported_def server_Handler_default_def not_supported_def)

context lawful_link
begin

lemma reports_fit:
  "list_all (\<lambda>r. ask_fits (wi_format W) (CPay_DeletionReport r)) (failed_report # expected_reports)"
  by (simp add: failed_report_def expected_reports_def wire_fits codec_simps MAX_LEN_def)

lemma test_authorized_dispatches_deletion_reports_unchanged_passes:
  "test_authorized_dispatches_deletion_reports_unchanged W ord"
  using reports_fit format_lawful
  by (simp add: test_authorized_dispatches_deletion_reports_unchanged_def dispatch_steps granted
      DeletionReportHandler_def expected_reports_def del: ask_bytes.simps ask_fits.simps)

lemma test_authorized_with_context_dispatches_report_and_returns_handler_error_passes:
  "test_authorized_with_context_dispatches_report_and_returns_handler_error W ord"
  using reports_fit format_lawful
  by (simp add: test_authorized_with_context_dispatches_report_and_returns_handler_error_def dispatch_steps granted
      DeletionReportHandler_def lawful_rules MAX_LEN_def del: ask_bytes.simps ask_fits.simps)

end

subsection \<open>Reports of an engine\<close>

definition engine_requests :: sent_requests where
  "engine_requests =
     [(SC_UploadRunModel, CPay_RunModel (7, [0x00, 0x7f, 0xff])),
      (SC_ReportRun, CPay_RunReport (7, Run_Failed, Some ''training failed'')),
      (SC_ReportActiveRuns, CPay_U32s [7, 8, -1])]
     @ map (\<lambda>report. (SC_ReportDetectorStatus, CPay_DetectorStatus report)) detector_status_reports"

definition sent_reports :: "string \<Rightarrow> EngineReport list" where
  "sent_reports peer =
     [UploadRunModel peer 7 [0x00, 0x7f, 0xff], ReportRun peer 7 Run_Failed (Some ''training failed''),
      ReportActiveRuns peer [7, 8, -1]]
     @ map (ReportDetectorStatus peer) detector_status_reports"

text \<open>
  \<open>send_engine_reports\<close>: each request is answered with \<open>expected\<close>; the dispatch ends without
  an error.
\<close>

definition send_engine_reports ::
  "wire \<Rightarrow> (string list set \<Rightarrow> string list list) \<Rightarrow> 'h dispatch \<Rightarrow> 'h \<Rightarrow> string + unit \<Rightarrow> 'h option" where
  "send_engine_reports W ord serve h expected =
     (case dispatched W serve h engine_requests of
        Some (Ok None, got, self) \<Rightarrow>
          if length got = length engine_requests \<and> list_all (answer_is W ord unit_codec expected) got then Some self
          else None
      | _ \<Rightarrow> None)"

definition test_engine_reports_default_is_not_supported ::
  "wire \<Rightarrow> (string list set \<Rightarrow> string list list) \<Rightarrow> bool" where
  "test_engine_reports_default_is_not_supported W ord \<longleftrightarrow>
     fst (mh_upload_run_model server_Handler_default ''peer'' 7 [1] ()) = Err ''not supported''
   \<and> fst (mh_report_run server_Handler_default ''peer'' 7 Run_Started None ()) = Err ''not supported''
   \<and> fst (mh_report_active_runs server_Handler_default ''peer'' [7] ()) = Err ''not supported''
   \<and> fst (mh_report_detector_status server_Handler_default ''peer'' (hd detector_status_reports) ()) = Err ''not supported''
   \<and> send_engine_reports W ord (\<lambda>io A. server_handle io A server_Handler_default ''test-peer'') (0 :: nat)
       (Err ''not supported'') \<noteq> None"

definition test_authorized_dispatches_engine_reports_with_peer ::
  "wire \<Rightarrow> (string list set \<Rightarrow> string list list) \<Rightarrow> bool" where
  "test_authorized_dispatches_engine_reports_with_peer W ord \<longleftrightarrow>
     map_option er_received (send_engine_reports W ord
       (\<lambda>io A. handle_authorized io A EngineReportHandler engine_peer NoopAuthorizer)
       \<lparr>er_received = [], er_response = Ok ()\<rparr> (Ok ())) = Some (sent_reports ''engine.example.test'')"

definition test_authorized_with_context_dispatches_engine_reports_and_returns_handler_error ::
  "wire \<Rightarrow> (string list set \<Rightarrow> string list list) \<Rightarrow> bool" where
  "test_authorized_with_context_dispatches_engine_reports_and_returns_handler_error W ord \<longleftrightarrow>
     map_option er_received (send_engine_reports W ord
       (\<lambda>io A. handle_authorized_with_context io A EngineReportHandler (from_peer_context engine_peer) noop_v2)
       \<lparr>er_received = [], er_response = Err ''run 7 is not active''\<rparr> (Err ''run 7 is not active'')) =
     Some (sent_reports ''engine.example.test'')"

context lawful_link
begin

lemma engine_asks_fit: "list_all (\<lambda>(c, q). ask_fits (wi_format W) q) engine_requests"
  by (simp add: engine_requests_def detector_status_reports_def wire_fits codec_simps
      pay_RunModel_def pay_RunReport_def pay_U32s_def MAX_LEN_def)

lemma status_reports_served:
  assumes "list_all (\<lambda>d. ask_fits (wi_format W) (CPay_DetectorStatus d)) ds"
    and "\<And>sid. authorizer p sid = Ok ()"
    and "\<And>d h. I h \<Longrightarrow> mh_report_detector_status H (pc_name p) d h = (r, keep d h) \<and> I (keep d h)"
    and "I h"
  shows "handle_authorized fio margs H p authorizer
      \<lparr>se_handler = h, se_send = sent,
       se_recv = map (ask_frame W \<circ> (\<lambda>d. (SC_ReportDetectorStatus, CPay_DetectorStatus d))) ds\<rparr> =
    Some (Ok None, \<lparr>se_handler = fold keep ds h,
      se_send = sent @ replicate (length ds) (map_ok (\<lambda>_. SReply_Unit) r), se_recv = []\<rparr>)"
  using assms(1,4)
proof (induction ds arbitrary: h sent)
  case Nil
  then show ?case by (simp add: authorized_Nil)
next
  case (Cons d ds)
  then show ?case
    by (simp add: granted(5) assms(2,3) del: ask_bytes.simps ask_fits.simps)
qed

lemma engine_reports_served:
  assumes grants: "\<And>sid. authorizer p sid = Ok ()"
    and upload: "\<And>h. I h \<Longrightarrow> mh_upload_run_model H (pc_name p) 7 [0x00, 0x7f, 0xff] h = (r, up h) \<and> I (up h)"
    and run: "\<And>h. I h \<Longrightarrow>
      mh_report_run H (pc_name p) 7 Run_Failed (Some ''training failed'') h = (r, ru h) \<and> I (ru h)"
    and active: "\<And>h. I h \<Longrightarrow> mh_report_active_runs H (pc_name p) [7, 8, -1] h = (r, ac h) \<and> I (ac h)"
    and status: "\<And>d h. I h \<Longrightarrow> mh_report_detector_status H (pc_name p) d h = (r, keep d h) \<and> I (keep d h)"
    and start: "I h"
    and short: "r = Ok () \<or> (\<exists>m. r = Err m \<and> length m \<le> MAX_LEN)"
  shows "send_engine_reports W ord (\<lambda>io A. handle_authorized io A H p authorizer) h r =
    Some (fold keep detector_status_reports (ac (ru (up h))))"
proof -
  have fit: "ask_fits (wi_format W) (CPay_RunModel (7, [0x00, 0x7f, 0xff]))"
      "ask_fits (wi_format W) (CPay_RunReport (7, Run_Failed, Some ''training failed''))"
      "ask_fits (wi_format W) (CPay_U32s [7, 8, -1])"
      "list_all (\<lambda>d. ask_fits (wi_format W) (CPay_DetectorStatus d)) detector_status_reports"
    using engine_asks_fit by (simp_all add: engine_requests_def list.pred_map o_def del: ask_fits.simps)
  have read: "answer_is W ord unit_codec r (map_ok (\<lambda>_. SReply_Unit) r)"
    using short format_lawful by (auto simp: lawful_rules)
  show ?thesis
    unfolding send_engine_reports_def dispatched_def engine_requests_def
    by (simp add: granted(2,3,4) fit grants upload run active read list_all_iff
        status_reports_served [where keep = keep and r = r and I = I, OF fit(4)] status start del: ask_bytes.simps ask_fits.simps)
qed

lemma default_is_not_supported [simp]:
  "mh_report_customer_data_deletion server_Handler_default r h = (Err ''not supported'', h)"
  "mh_upload_run_model server_Handler_default peer n b h = (Err ''not supported'', h)"
  "mh_report_run server_Handler_default peer n st why h = (Err ''not supported'', h)"
  "mh_report_active_runs server_Handler_default peer ns h = (Err ''not supported'', h)"
  "mh_report_detector_status server_Handler_default peer d h = (Err ''not supported'', h)"
  by (simp_all add: server_Handler_default_def not_supported_def)

lemma engine_handler_sel [simp]:
  "mh_upload_run_model EngineReportHandler peer n b = engine_received (UploadRunModel peer n b)"
  "mh_report_run EngineReportHandler peer n st why = engine_received (ReportRun peer n st why)"
  "mh_report_active_runs EngineReportHandler peer ns = engine_received (ReportActiveRuns peer ns)"
  "mh_report_detector_status EngineReportHandler peer d = engine_received (ReportDetectorStatus peer d)"
  by (simp_all add: EngineReportHandler_def)

lemma test_engine_reports_default_is_not_supported_passes: "test_engine_reports_default_is_not_supported W ord"
proof -
  have "send_engine_reports W ord (\<lambda>io A. handle_authorized io A server_Handler_default
      (PeerContext_new ''test-peer'') NoopAuthorizer) (0 :: nat) (Err ''not supported'') =
      Some (fold (\<lambda>d h. h) detector_status_reports 0)"
    using engine_reports_served [where I = "\<lambda>_. True" and up = id and ru = id and ac = id and keep = "\<lambda>d h. h"
        and r = "Err ''not supported''" and authorizer = NoopAuthorizer and H = server_Handler_default]
    by (simp add: NoopAuthorizer_def MAX_LEN_def)
  then show ?thesis
    by (simp add: test_engine_reports_default_is_not_supported_def server_handle_def)
qed

lemma engine_reports_kept:
  assumes "\<And>sid. authorizer p sid = Ok ()" and "r = Ok () \<or> (\<exists>m. r = Err m \<and> length m \<le> MAX_LEN)"
  shows "map_option er_received (send_engine_reports W ord
      (\<lambda>io A. handle_authorized io A EngineReportHandler p authorizer)
      \<lparr>er_received = [], er_response = r\<rparr> r) = Some (sent_reports (pc_name p))"
proof -
  have all: "fold (\<lambda>d h. h\<lparr>er_received := er_received h @ [ReportDetectorStatus peer d]\<rparr>) ds h =
      h\<lparr>er_received := er_received h @ map (ReportDetectorStatus peer) ds\<rparr>" for peer ds h
    by (induction ds arbitrary: h) simp_all
  let ?n = "\<lambda>report h. h\<lparr>er_received := er_received h @ [report]\<rparr>"
  have "send_engine_reports W ord (\<lambda>io A. handle_authorized io A EngineReportHandler p authorizer)
      \<lparr>er_received = [], er_response = r\<rparr> r = Some (fold (\<lambda>d. ?n (ReportDetectorStatus (pc_name p) d))
        detector_status_reports (?n (ReportActiveRuns (pc_name p) [7, 8, -1])
          (?n (ReportRun (pc_name p) 7 Run_Failed (Some ''training failed''))
            (?n (UploadRunModel (pc_name p) 7 [0x00, 0x7f, 0xff]) \<lparr>er_received = [], er_response = r\<rparr>))))"
    using engine_reports_served [where I = "\<lambda>h. er_response h = r" and H = EngineReportHandler and p = p
        and authorizer = authorizer and r = r and h = "\<lparr>er_received = [], er_response = r\<rparr>"
        and up = "?n (UploadRunModel (pc_name p) 7 [0x00, 0x7f, 0xff])"
        and ru = "?n (ReportRun (pc_name p) 7 Run_Failed (Some ''training failed''))"
        and ac = "?n (ReportActiveRuns (pc_name p) [7, 8, -1])"
        and keep = "\<lambda>d. ?n (ReportDetectorStatus (pc_name p) d)"] assms
    by (simp add: engine_received_def)
  then show ?thesis by (simp add: all sent_reports_def)
qed

lemma test_authorized_dispatches_engine_reports_with_peer_passes:
  "test_authorized_dispatches_engine_reports_with_peer W ord"
  using engine_reports_kept [of NoopAuthorizer engine_peer "Ok ()" ord]
  by (simp add: test_authorized_dispatches_engine_reports_with_peer_def NoopAuthorizer_def engine_peer_def
      PeerContext_new_def)

lemma test_authorized_with_context_dispatches_engine_reports_and_returns_handler_error_passes:
  "test_authorized_with_context_dispatches_engine_reports_and_returns_handler_error W ord"
  using engine_reports_kept [of "\<lambda>_. noop_v2 (from_peer_context engine_peer)" engine_peer
      "Err ''run 7 is not active''" ord]
  by (simp add: test_authorized_with_context_dispatches_engine_reports_and_returns_handler_error_def
      context_is_authorized noop_v2_grants name_in_context engine_peer_def PeerContext_new_def MAX_LEN_def)

end

subsection \<open>Models, authorization and refusals\<close>

definition test_insert_and_update_model_deserialize_payload ::
  "wire \<Rightarrow> (string list set \<Rightarrow> string list list) \<Rightarrow> bool" where
  "test_insert_and_update_model_deserialize_payload W ord \<longleftrightarrow>
     (let insert_payload = [0x10, 0x20, 0x30, 0x40]; update_payload = [0x01, 0x02, 0x03];
          u32 = plain (fm_u32 (wi_format W)) in
      case dispatched W (\<lambda>io A. server_handle io A ModelHandler ''test-peer'') no_models
             [(SC_InsertModel, CPay_Bytes insert_payload), (SC_UpdateModel, CPay_Bytes update_payload)] of
        Some (out, [inserted, updated], self) \<Rightarrow>
          answer_is W ord u32 (Ok 42) inserted \<and> answer_is W ord u32 (Ok 55) updated \<and> disconnected out
          \<and> insert_model_payload self = Some insert_payload \<and> update_model_payload self = Some update_payload
      | _ \<Rightarrow> False)"

text \<open>One insertion, its answer, and how the dispatch ends.\<close>

definition insertion ::
  "wire \<Rightarrow> (string list set \<Rightarrow> string list list) \<Rightarrow> models dispatch \<Rightarrow> string + u32
   \<Rightarrow> (IoError + (u32 \<times> bytes) option \<Rightarrow> bool) \<Rightarrow> bool" where
  "insertion W ord serve expected ends \<longleftrightarrow>
     (case dispatched W serve no_models [(SC_InsertModel, CPay_Bytes [0x10, 0x20])] of
        Some (out, [res], _) \<Rightarrow> answer_is W ord (plain (fm_u32 (wi_format W))) expected res \<and> ends out
      | _ \<Rightarrow> False)"

definition test_authorization_allowed :: "wire \<Rightarrow> (string list set \<Rightarrow> string list list) \<Rightarrow> bool" where
  "test_authorization_allowed W ord \<longleftrightarrow>
     insertion W ord (\<lambda>io A. handle_authorized io A ModelHandler test_peer NoopAuthorizer) (Ok 42) disconnected"

definition test_authorization_denied :: "wire \<Rightarrow> (string list set \<Rightarrow> string list list) \<Rightarrow> bool" where
  "test_authorization_denied W ord \<longleftrightarrow>
     insertion W ord (\<lambda>io A. handle_authorized io A ModelHandler test_peer TestDenial)
       (Err ''authorization denied'') (failed_with EK_PermissionDenied)"

definition test_authorization_selective :: "wire \<Rightarrow> (string list set \<Rightarrow> string list list) \<Rightarrow> bool" where
  "test_authorization_selective W ord \<longleftrightarrow>
     (case dispatched W (\<lambda>io A. handle_authorized io A ModelHandler test_peer AllowModelsOnly) no_models
             [(SC_InsertModel, CPay_Bytes [0xAA, 0xBB]), (SC_GetConfig, CPay_Unit)] of
        Some (out, [inserted, config], self) \<Rightarrow>
          answer_is W ord (plain (fm_u32 (wi_format W))) (Ok 42) inserted
          \<and> answer_is W ord (codec_str (wi_format W)) (Err ''authorization denied'') config
          \<and> failed_with EK_PermissionDenied out \<and> insert_model_payload self \<noteq> None
      | _ \<Rightarrow> False)"

definition test_authorization_denied_maps_to_forbidden ::
  "wire \<Rightarrow> (string list set \<Rightarrow> string list list) \<Rightarrow> bool" where
  "test_authorization_denied_maps_to_forbidden W ord \<longleftrightarrow>
     insertion W ord (\<lambda>io A. handle_authorized io A ModelHandler test_peer TestDenial)
       (Err ''authorization denied'') (\<lambda>out. failed_with EK_PermissionDenied out \<and> classified PEK_Forbidden out)"

definition test_unknown_request_code_maps_to_not_supported ::
  "wire \<Rightarrow> (string list set \<Rightarrow> string list list) \<Rightarrow> bool" where
  "test_unknown_request_code_maps_to_not_supported W ord \<longleftrightarrow>
     (case dispatched W (\<lambda>io A. server_handle io A ModelHandler ''test-peer'') no_models [(SC_Unknown, CPay_Unit)] of
        Some (out, [res], _) \<Rightarrow>
          (\<exists>m. answer_is W ord unit_codec m res) \<and> failed_with EK_InvalidData out \<and> classified PEK_NotSupported out
      | _ \<Rightarrow> False)"

definition test_malformed_args_maps_to_invalid_args :: "wire \<Rightarrow> bool" where
  "test_malformed_args_maps_to_invalid_args W \<longleftrightarrow>
     (case dispatched W (\<lambda>io A. server_handle io A ModelHandler ''test-peer'') no_models [(SC_GetModel, CPay_Unit)] of
        Some (out, _, _) \<Rightarrow> classified PEK_InvalidArgs out
      | None \<Rightarrow> False)"

definition test_with_context_allowed_via_adapter ::
  "wire \<Rightarrow> (string list set \<Rightarrow> string list list) \<Rightarrow> bool" where
  "test_with_context_allowed_via_adapter W ord \<longleftrightarrow>
     insertion W ord
       (\<lambda>io A. handle_authorized_with_context io A ModelHandler (from_peer_context test_peer) noop_v2)
       (Ok 42) disconnected"

text \<open>The authorizers \<open>DenyNonAdmin\<close> and \<open>RequireAdmin\<close> of the next two tests have one body.\<close>

definition test_with_context_denied_by_v2_authorizer ::
  "wire \<Rightarrow> (string list set \<Rightarrow> string list list) \<Rightarrow> bool" where
  "test_with_context_denied_by_v2_authorizer W ord \<longleftrightarrow>
     insertion W ord
       (\<lambda>io A. handle_authorized_with_context io A ModelHandler (from_peer_context test_peer) RequireAdmin)
       (Err ''authorization denied'') (failed_with EK_PermissionDenied)"

definition test_with_context_allowed_by_role ::
  "wire \<Rightarrow> (string list set \<Rightarrow> string list list) \<Rightarrow> bool" where
  "test_with_context_allowed_by_role W ord \<longleftrightarrow>
     insertion W ord
       (\<lambda>io A. handle_authorized_with_context io A ModelHandler
                 (from_authenticated_inputs test_peer None (Some [''admin'']) None None) RequireAdmin)
       (Ok 42) disconnected"

text \<open>A lawful code of two values has no value it writes nothing for.\<close>

lemma written:
  assumes "lawful c" and "fits c a" and "fits c b" and "a \<noteq> b"
  shows "enc c a \<noteq> []"
proof
  assume "enc c a = []"
  then show False
    using lawful_reads [OF assms(1,2), of "enc c b"] lawful_reads_all [OF assms(1,3)] assms(4) by simp
qed

context lawful_link
begin

lemma models_fit: "length b \<le> 10 \<Longrightarrow> ask_fits (wi_format W) (CPay_Bytes b)"
  by (simp add: pay_Bytes_def codec_simps list_all_iff MAX_LEN_def)

lemma model_handler_sel [simp]:
  "mh_insert_model ModelHandler b m = (Ok 42, m\<lparr>insert_model_payload := Some b\<rparr>)"
  "mh_update_model ModelHandler b m = (Ok 55, m\<lparr>update_model_payload := Some b\<rparr>)"
  by (simp_all add: ModelHandler_def)

lemma authorized_denied:
  assumes "from_server_request_code c = Some sid" and "authorizer p sid = Err e"
  shows "handle_authorized fio A H p authorizer
      \<lparr>se_handler = h, se_send = sent, se_recv = ask_frame W (c, q) # rest\<rparr> =
    Some (Err (IoError_new_dispatch EK_PermissionDenied
                 (DispatchError_new (AuthorizationError_kind e) (AuthorizationError_fmt e))),
      \<lparr>se_handler = h, se_send = sent @ [Err ''authorization denied''], se_recv = rest\<rparr>)"
  using assms by (simp add: authorized_Cons deny_def Let_def)

lemma insertion_granted:
  assumes "authorizer p SERVER_MODEL_INSERT = Ok ()" and "ends (Ok None)"
  shows "insertion W ord (\<lambda>io A. handle_authorized io A ModelHandler p authorizer) (Ok 42) ends"
  using assms format_lawful models_fit
  by (simp add: insertion_def dispatched_def granted(6) authorized_Nil no_models_def
      del: ask_bytes.simps ask_fits.simps)

lemma insertion_denied:
  assumes "authorizer p SERVER_MODEL_INSERT = Err e"
    and "ends (Err (IoError_new_dispatch EK_PermissionDenied
                 (DispatchError_new (AuthorizationError_kind e) (AuthorizationError_fmt e))))"
  shows "insertion W ord (\<lambda>io A. handle_authorized io A ModelHandler p authorizer) (Err ''authorization denied'') ends"
  using assms format_lawful
  by (simp add: insertion_def dispatched_def authorized_denied lawful_rules MAX_LEN_def
      del: ask_bytes.simps ask_fits.simps)

lemma authorization_tests_pass:
  "test_authorization_allowed W ord" "test_authorization_denied W ord"
  "test_authorization_denied_maps_to_forbidden W ord" "test_with_context_allowed_via_adapter W ord"
  "test_with_context_denied_by_v2_authorizer W ord" "test_with_context_allowed_by_role W ord"
  unfolding test_authorization_allowed_def test_authorization_denied_def
    test_authorization_denied_maps_to_forbidden_def test_with_context_allowed_via_adapter_def
    test_with_context_denied_by_v2_authorizer_def test_with_context_allowed_by_role_def context_is_authorized
  by (rule insertion_granted insertion_denied; simp add: NoopAuthorizer_def noop_v2_grants TestDenial_def
      RequireAdmin_def from_peer_context_def from_authenticated_inputs_def AuthorizationError_new_def
      AuthorizationError_kind_def of_authorization_error_def)+

lemma test_insert_and_update_model_deserialize_payload_passes:
  "test_insert_and_update_model_deserialize_payload W ord"
  using format_lawful models_fit
  by (simp add: test_insert_and_update_model_deserialize_payload_def dispatch_steps granted(6,7) no_models_def
      del: ask_bytes.simps ask_fits.simps)

lemma test_authorization_selective_passes: "test_authorization_selective W ord"
  using format_lawful models_fit
  by (simp add: test_authorization_selective_def dispatched_def granted(6) authorized_denied AllowModelsOnly_def
      no_models_def SERVER_MODEL_INSERT_def SERVER_CONFIG_GET_def ServiceId_new_def lawful_rules MAX_LEN_def
      del: ask_bytes.simps ask_fits.simps)

lemma test_unknown_request_code_maps_to_not_supported_passes:
  "test_unknown_request_code_maps_to_not_supported W ord"
proof -
  have "answer_is W ord unit_codec (Err ''unknown request code'') (Err ''unknown request code'')"
    using format_lawful by (simp add: lawful_rules MAX_LEN_def)
  then show ?thesis
    by (auto simp: test_unknown_request_code_maps_to_not_supported_def dispatched_def server_handle_def
        authorized_Cons authorized_arm_def server_code_round refuse_unknown_def Let_def)
qed

lemma test_malformed_args_maps_to_invalid_args_passes: "test_malformed_args_maps_to_invalid_args W"
proof -
  let ?c = "codec_str (wi_format W)"
  have str: "lawful ?c" "fits ?c []" "fits ?c ''m''"
    using format_lawful by (simp_all add: lawful_rules codec_simps MAX_LEN_def)
  then have "dec ?c [] = None"
    using lawful_truncated [OF str(1,2), of "[]"] written [OF str] by simp
  then have "sarg_string margs (ask_bytes (wi_format W) CPay_Unit) = Err (wi_error W)"
    by (simp add: manager_decoders_def from_front_def unit_codec_def)
  then show ?thesis
    by (simp add: test_malformed_args_maps_to_invalid_args_def dispatched_def server_handle_def NoopAuthorizer_def
        authorized_Cons arm_opened Let_def from_io_classifies del: ask_bytes.simps)
qed

end

end
