(* ===== verification/Handshake_Tests.thy ===== *)
theory Handshake_Tests
  imports Endpoint Agent_Info_Tests Wire_Answers Request_Tests
begin

text \<open>
  The handshake tests of \<open>src/src/lib.rs\<close> and \<open>src/src/server.rs\<close>: an agent's
  \<open>handshake\<close> and the manager's, joined by the frames they exchange as bytes. The versions are
  semver's; what the tests rely on of it is the locale \<open>test_semver\<close>.
\<close>

subsection \<open>The versions of the tests\<close>

type_synonym version = "nat \<times> nat \<times> nat"

definition CRATE_VERSION :: string where "CRATE_VERSION = ''0.24.0''"
definition INVALID_VERSION :: string where "INVALID_VERSION = ''not-semver''"
definition VALID_VERSION :: string where "VALID_VERSION = ''1.0.0''"
definition VERSION_REQ :: string where "VERSION_REQ = ''>=1.0.0''"
definition PREVIOUS_PROTOCOL_VERSION :: string where "PREVIOUS_PROTOCOL_VERSION = ''0.48.0''"

definition test_versions :: "(string \<times> version) list" where
  "test_versions =
     [(''0.9.0'', 0, 9, 0), (''0.24.0'', 0, 24, 0), (''0.24.1'', 0, 24, 1), (''0.25.1'', 0, 25, 1),
      (''0.47.0'', 0, 47, 0), (''0.48.0'', 0, 48, 0), (''0.49.0'', 0, 49, 0), (''0.50.0'', 0, 50, 0),
      (''1.0.0'', 1, 0, 0)]"

fun older :: "version \<Rightarrow> version \<Rightarrow> bool" where
  "older (a, b, c) (a', b', c') \<longleftrightarrow> a < a' \<or> a = a' \<and> (b < b' \<or> b = b' \<and> c < c')"

text \<open>
  What semver documents of these: a version \<open>x.y.z\<close> is parsed and printed as it is and ordered
  by its parts, \<open>>=\<close> and \<open><\<close> requirements are printed as they are and match by that order, a
  bare version matches itself, and a word is neither a version nor a requirement.
\<close>

definition reads_req ::
  "('v, 'q) semver \<Rightarrow> (version \<Rightarrow> 'v) \<Rightarrow> string \<Rightarrow> (version \<Rightarrow> bool) \<Rightarrow> bool" where
  "reads_req sv mk text P \<longleftrightarrow>
     (\<exists>r. parse_version_req sv text = Ok r \<and> show_version_req sv r = text
        \<and> (\<forall>(_, v) \<in> set test_versions. req_matches sv r (mk v) \<longleftrightarrow> P v))"

locale test_semver =
  fixes sv :: "('v, 'q) semver" and mk :: "version \<Rightarrow> 'v"
  assumes parses: "(s, v) \<in> set test_versions \<Longrightarrow> parse_version sv s = Ok (mk v) \<and> show_version sv (mk v) = s"
    and ordered: "(s, v) \<in> set test_versions \<Longrightarrow> (t, w) \<in> set test_versions \<Longrightarrow>
      version_le sv (mk v) (mk w) \<longleftrightarrow> \<not> older w v"
    and at_least: "(s, v) \<in> set test_versions \<Longrightarrow> reads_req sv mk (''>='' @ s) (\<lambda>w. \<not> older w v)"
    and below: "(s, v) \<in> set test_versions \<Longrightarrow> reads_req sv mk (''<'' @ s) (\<lambda>w. older w v)"
    and same: "(s, v) \<in> set test_versions \<Longrightarrow>
      \<exists>r. parse_version_req sv s = Ok r \<and> req_matches sv r (mk v)"
    and no_version: "\<exists>e. parse_version sv INVALID_VERSION = Err e"
    and no_req: "\<exists>e. parse_version_req sv INVALID_VERSION = Err e"

text \<open>A table of the versions has these laws.\<close>

datatype table_req = At_Least version | Below version | Same version

definition table_parse :: "string \<Rightarrow> string + version" where
  "table_parse s = (case map_of test_versions s of Some v \<Rightarrow> Ok v | None \<Rightarrow> Err ''unexpected character'')"

definition table_show :: "version \<Rightarrow> string" where
  "table_show v = the (map_of (map (\<lambda>(s, v). (v, s)) test_versions) v)"

fun table_matches :: "table_req \<Rightarrow> version \<Rightarrow> bool" where
  "table_matches (At_Least v) w \<longleftrightarrow> \<not> older w v"
| "table_matches (Below v) w \<longleftrightarrow> older w v"
| "table_matches (Same v) w \<longleftrightarrow> w = v"

fun table_show_req :: "table_req \<Rightarrow> string" where
  "table_show_req (At_Least v) = ''>='' @ table_show v"
| "table_show_req (Below v) = ''<'' @ table_show v"
| "table_show_req (Same v) = ''^'' @ table_show v"

definition table_parse_req :: "string \<Rightarrow> string + table_req" where
  "table_parse_req s =
     (if take 2 s = ''>='' then map_ok At_Least (table_parse (drop 2 s))
      else if take 1 s = ''<'' then map_ok Below (table_parse (drop 1 s))
      else map_ok Same (table_parse s))"

definition table_semver :: "(version, table_req) semver" where
  "table_semver =
     \<lparr>parse_version_req = table_parse_req, parse_version = table_parse, req_matches = table_matches,
      version_le = (\<lambda>v w. \<not> older w v), show_version = table_show, show_version_req = table_show_req\<rparr>"

lemma table_entry:
  "list_all (\<lambda>(s, v). table_parse s = Ok v \<and> table_show v = s \<and> table_parse_req s = Ok (Same v)
     \<and> table_parse_req (''>='' @ s) = Ok (At_Least v) \<and> table_parse_req (''<'' @ s) = Ok (Below v)) test_versions"
  by code_simp

interpretation table: test_semver table_semver id
proof
  fix s :: string and v :: version
  assume sv: "(s, v) \<in> set test_versions"
  with table_entry have entry: "table_parse s = Ok v" "table_show v = s" "table_parse_req s = Ok (Same v)"
      "table_parse_req (''>='' @ s) = Ok (At_Least v)" "table_parse_req (''<'' @ s) = Ok (Below v)"
    by (auto simp: list_all_iff)
  then show "parse_version table_semver s = Ok (id v) \<and> show_version table_semver (id v) = s"
    "reads_req table_semver id (''>='' @ s) (\<lambda>w. \<not> older w v)"
    "reads_req table_semver id (''<'' @ s) (\<lambda>w. older w v)"
    "\<exists>r. parse_version_req table_semver s = Ok r \<and> req_matches table_semver r (id v)"
    by (simp_all add: table_semver_def reads_req_def case_prod_unfold)
qed (simp_all add: table_semver_def table_parse_def table_parse_req_def INVALID_VERSION_def test_versions_def)

subsection \<open>Both sides of a channel\<close>

text \<open>
  The manager's connection is the frames of the agent's stream, when it opened one; a reply is
  written as a \<open>Result<&str, &str>\<close>.
\<close>

definition manager_side :: "format \<Rightarrow> (bytes list option, ConnectionError, bytes list, bytes list) handshake_io" where
  "manager_side F =
     \<lparr>accept_bi = (\<lambda>k. (case k of Some fs \<Rightarrow> Ok ([], fs) | None \<Rightarrow> Err CE_TimedOut, k)),
      hs_recv_raw = (\<lambda>fs. case fs of [] \<Rightarrow> (Err (IoError_from EK_UnexpectedEof), []) | f # fs \<Rightarrow> (Ok f, fs)),
      hs_send_ok = (\<lambda>s m. (Ok (), s @ [enc (codec_result F (codec_str F)) (Ok m)])),
      hs_send_err = (\<lambda>s m. (Ok (), s @ [enc (codec_result F (codec_str F)) (Err m)])),
      hs_finish = (\<lambda>s. s)\<rparr>"

text \<open>The agent's stream logs what it sends and delivers the manager's replies.\<close>

definition agent_side :: "format \<Rightarrow> (unit, unit, unit, unit, bytes list, bytes list) connect_io" where
  "agent_side F =
     \<lparr>build_endpoint = (\<lambda>_. Ok ()), endpoint_connect = (\<lambda>_ _ _. Ok ()), await_connecting = (\<lambda>_. Ok ()),
      remote_address = (\<lambda>_. SocketAddr_V4 0x7f000001 0), open_bi = (\<lambda>_. Ok ([], [])),
      send_agent_info = (\<lambda>s info. (Ok (), s @ [enc (codec_AgentInfo F) info])),
      recv_reply = (\<lambda>fs. case fs of
         [] \<Rightarrow> (Err (IoError_from EK_UnexpectedEof), [])
       | f # fs \<Rightarrow> (read_answer F (IoError_from EK_InvalidData) (codec_str F) f, fs))\<rparr>"

definition unspecified_addr :: SocketAddr where "unspecified_addr = SocketAddr_V4 0 0"

definition manager_handshake ::
  "('v, 'q) semver \<Rightarrow> format \<Rightarrow> bytes list option \<Rightarrow> string \<Rightarrow> string
   \<Rightarrow> (ConnectionError HandshakeError + AgentInfo) \<times> bytes list option \<times> (bytes list \<times> bytes list) option" where
  "manager_handshake sv F k version_req highest =
     server_handshake sv (wire_decoder F ()) (manager_side F) k unspecified_addr version_req highest"

text \<open>
  Both sides: the manager reads what the agent sends, and the agent reads what the manager
  replied, which is nothing when it accepted no stream.
\<close>

definition shaken ::
  "('v, 'q) semver \<Rightarrow> format \<Rightarrow> string \<Rightarrow> string
   \<Rightarrow> ((unit \<Rightarrow> ConnectionError + bytes list \<times> bytes list)
        \<Rightarrow> (ConnectionError HandshakeError + unit) \<times> (bytes list \<times> bytes list) option)
   \<Rightarrow> (ConnectionError HandshakeError + AgentInfo) \<times> bytes list option \<times> (ConnectionError HandshakeError + unit)" where
  "shaken sv F version_req highest agent =
     (let frames = (case agent (\<lambda>_. Ok ([], [])) of (_, Some (sent, _)) \<Rightarrow> sent | _ \<Rightarrow> []);
          (res, k, halves) = manager_handshake sv F (Some frames) version_req highest;
          replies = (case halves of Some (sent, _) \<Rightarrow> sent | None \<Rightarrow> [])
      in (res, k, fst (agent (\<lambda>_. Ok ([], replies)))))"

definition test_agent_shakes ::
  "format \<Rightarrow> string \<Rightarrow> (unit \<Rightarrow> ConnectionError + bytes list \<times> bytes list)
   \<Rightarrow> (ConnectionError HandshakeError + unit) \<times> (bytes list \<times> bytes list) option" where
  "test_agent_shakes F protocol_version opn =
     agent_handshake opn (agent_side F) () AGENT_NAME AGENT_VERSION protocol_version Status_Ready"

definition test_info :: "string \<Rightarrow> AgentInfo" where
  "test_info version =
     \<lparr>ai_agent_name = AGENT_NAME, ai_agent_version = AGENT_VERSION, ai_protocol_version = version,
      ai_addr = SocketAddr_V4 0 0, ai_status = Status_Ready, ai_capabilities = {}, ai_active_trust_epoch = None,
      ai_manifest_formats = None, ai_provisioning_fingerprint = None, ai_audit_health = None\<rparr>"

lemma test_agent_is: "test_agent_shakes F version opn = agent_handshake_with opn (agent_side F) () (test_info version)"
  by (simp add: test_agent_shakes_def agent_handshake_def test_info_def agent_side_def placeholder_addr_def)

lemma test_info_fits: "lawful_format F \<Longrightarrow> length version \<le> MAX_LEN \<Longrightarrow> fits (codec_AgentInfo F) (test_info version)"
  using lawful_format_parts(22) [of F]
  by (simp add: test_info_def fits_AgentInfo base_of_def codec_AgentInfoBase_def codec_capabilities_def tail_fixtures
      wire_fits codec_simps MAX_LEN_def)

subsection \<open>How a handshake goes\<close>

lemma agent_sends:
  "agent_handshake_with (\<lambda>_. Ok ([], replies)) (agent_side F) () info =
     ((case replies of
         [] \<Rightarrow> Err HE_ConnectionClosed
       | f # _ \<Rightarrow> (case read_answer F (IoError_from EK_InvalidData) (codec_str F) f of
            Ok (Ok _) \<Rightarrow> Ok ()
          | Ok (Err e) \<Rightarrow> Err (HE_IncompatibleProtocol (ai_protocol_version info) e)
          | Err e \<Rightarrow> Err HE_InvalidMessage)),
      Some ([enc (codec_AgentInfo F) info], tl replies))"
proof (cases replies)
  case Nil
  then show ?thesis
    by (simp add: agent_handshake_with_def agent_side_def handle_handshake_recv_io_error_def IoError_from_def)
next
  case (Cons f fs)
  then show ?thesis
    by (simp add: agent_handshake_with_def agent_side_def read_answer_def from_front_def
        handle_handshake_recv_io_error_def IoError_from_def split: option.split sum.split)
qed

lemma manager_settles:
  assumes "parse_version_req sv q = Ok req" and "parse_version sv h = Ok highest"
    and "decode_agent_info (wire_decoder F ()) frame = Ok info"
  shows "manager_handshake sv F (Some (frame # fs)) q h =
    (if acceptable sv req highest (ai_protocol_version info)
     then (Ok (info\<lparr>ai_addr := unspecified_addr\<rparr>), Some (frame # fs),
           Some ([enc (codec_result F (codec_str F)) (Ok (show_version sv highest))], fs))
     else (Err (HE_IncompatibleProtocol (ai_protocol_version info)
                  (show_version_req sv req @ '', <='' @ show_version sv highest)), Some (frame # fs),
           Some ([enc (codec_result F (codec_str F))
                   (Err (show_version_req sv req @ '', <='' @ show_version sv highest))], fs)))"
  using assms
  by (simp add: manager_handshake_def server_handshake_def settle_handshake_def settle_guard manager_side_def Let_def)

lemma shaken_settles:
  assumes F: "lawful_format F" "fits (codec_AgentInfo F) info"
    and args: "parse_version_req sv q = Ok req" "parse_version sv h = Ok highest"
    and short: "length (show_version_req sv req @ '', <='' @ show_version sv highest) \<le> MAX_LEN"
  shows "shaken sv F q h (\<lambda>opn. agent_handshake_with opn (agent_side F) () info) =
    (let range = show_version_req sv req @ '', <='' @ show_version sv highest in
     if acceptable sv req highest (ai_protocol_version info)
     then (Ok (info\<lparr>ai_addr := unspecified_addr\<rparr>), Some [enc (codec_AgentInfo F) info], Ok ())
     else (Err (HE_IncompatibleProtocol (ai_protocol_version info) range), Some [enc (codec_AgentInfo F) info],
           Err (HE_IncompatibleProtocol (ai_protocol_version info) range)))"
proof -
  have "lawful (codec_str F)" by (rule lawful_format_parts(13) [OF F(1)])
  moreover have "fits (codec_str F) (show_version sv highest)"
    using short by (simp add: codec_simps)
  ultimately show ?thesis
    using short F(1)
    by (simp add: shaken_def agent_sends manager_settles [OF args info_reads [OF F]] Let_def)
qed

lemma shaken_bad_argument:
  assumes "manager_handshake sv F (Some [enc (codec_AgentInfo F) info]) q h = (Err err, k, None)"
  shows "shaken sv F q h (\<lambda>opn. agent_handshake_with opn (agent_side F) () info) =
    (Err err, k, Err HE_ConnectionClosed)"
  using assms by (simp add: shaken_def agent_sends)

lemma table_short: "(s, v) \<in> set test_versions \<Longrightarrow> length s \<le> 10"
  by (auto simp: test_versions_def)

context test_semver
begin

lemma shaken_in_window:
  assumes F: "lawful_format F"
    and q: "reads_req sv mk q P" "length q \<le> 100"
    and h: "(hs, h) \<in> set test_versions" and w: "(ws, w) \<in> set test_versions"
  shows "shaken sv F q hs (test_agent_shakes F ws) =
    (if P w \<and> \<not> older h w
     then (Ok ((test_info ws)\<lparr>ai_addr := unspecified_addr\<rparr>), Some [enc (codec_AgentInfo F) (test_info ws)], Ok ())
     else (Err (HE_IncompatibleProtocol ws (q @ '', <='' @ hs)), Some [enc (codec_AgentInfo F) (test_info ws)],
           Err (HE_IncompatibleProtocol ws (q @ '', <='' @ hs))))"
proof -
  from q(1) obtain req where req: "parse_version_req sv q = Ok req" "show_version_req sv req = q"
      "req_matches sv req (mk w) \<longleftrightarrow> P w"
    using w by (auto simp: reads_req_def)
  note hi = parses [OF h] and wi = parses [OF w]
  have fit: "fits (codec_AgentInfo F) (test_info ws)"
    using table_short [OF w] by (intro test_info_fits [OF F]) (simp add: MAX_LEN_def)
  have short: "length (show_version_req sv req @ '', <='' @ show_version sv (mk h)) \<le> MAX_LEN"
    using q(2) table_short [OF h] hi req(2) by (simp add: MAX_LEN_def)
  have "acceptable sv req (mk h) ws \<longleftrightarrow> P w \<and> \<not> older h w"
    using wi req(3) ordered [OF w h] by (simp add: acceptable_def)
  moreover have "ai_protocol_version (test_info ws) = ws" by (simp add: test_info_def)
  ultimately show ?thesis
    using shaken_settles [OF F fit req(1) conjunct1 [OF hi] short] hi req(2)
    by (simp add: test_agent_is [abs_def] Let_def)
qed

end

subsection \<open>The tests of \<open>lib.rs\<close>\<close>

definition test_handshake :: "('v, 'q) semver \<Rightarrow> format \<Rightarrow> bool" where
  "test_handshake sv F \<longleftrightarrow>
     (case shaken sv F CRATE_VERSION CRATE_VERSION (test_agent_shakes F CRATE_VERSION) of
        (Ok agent_info, _, res) \<Rightarrow> ai_agent_name agent_info = AGENT_NAME \<and> ai_agent_version agent_info = AGENT_VERSION
          \<and> ai_protocol_version agent_info = CRATE_VERSION \<and> res = Ok ()
      | _ \<Rightarrow> False)"

definition handshake_info :: AgentInfo where
  "handshake_info =
     \<lparr>ai_agent_name = AGENT_NAME, ai_agent_version = AGENT_VERSION, ai_protocol_version = CRATE_VERSION,
      ai_addr = SocketAddr_V4 0x7f000001 1234, ai_status = Status_Idle,
      ai_capabilities = {REGISTRAR, ''future:thing''}, ai_active_trust_epoch = Some 7,
      ai_manifest_formats = Some \<lparr>mf_min = 1, mf_max = 2\<rparr>,
      ai_provisioning_fingerprint =
        Some \<lparr>pf_components = [''roxyd'' \<mapsto> ''sha256:abc''], pf_domain = ''example.test''\<rparr>,
      ai_audit_health = Some \<lparr>ah_below_low_water = True, ah_intent_without_outcome = 2\<rparr>\<rparr>"

definition test_handshake_with_full_tail :: "('v, 'q) semver \<Rightarrow> format \<Rightarrow> bool" where
  "test_handshake_with_full_tail sv F \<longleftrightarrow>
     (case shaken sv F CRATE_VERSION CRATE_VERSION
             (\<lambda>opn. agent_handshake_with opn (agent_side F) () handshake_info) of
        (Ok received, _, res) \<Rightarrow> ai_capabilities received = {REGISTRAR, ''future:thing''}
          \<and> ai_active_trust_epoch received = Some 7 \<and> ai_manifest_formats received = Some \<lparr>mf_min = 1, mf_max = 2\<rparr>
          \<and> ai_provisioning_fingerprint received =
              Some \<lparr>pf_components = [''roxyd'' \<mapsto> ''sha256:abc''], pf_domain = ''example.test''\<rparr>
          \<and> ai_audit_health received = Some \<lparr>ah_below_low_water = True, ah_intent_without_outcome = 2\<rparr>
          \<and> ai_status received = Status_Idle \<and> res = Ok ()
      | _ \<Rightarrow> False)"

definition base_frame :: "format \<Rightarrow> bytes" where
  "base_frame F =
     enc (pair_codec (codec_str F) (pair_codec (codec_str F) (pair_codec (codec_str F)
           (pair_codec (codec_socket F) (codec_Status F)))))
       (AGENT_NAME, AGENT_VERSION, CRATE_VERSION, SocketAddr_V4 0 0, Status_Ready)"

definition test_handshake_without_tail :: "('v, 'q) semver \<Rightarrow> format \<Rightarrow> bool" where
  "test_handshake_without_tail sv F \<longleftrightarrow>
     (case manager_handshake sv F (Some [base_frame F]) CRATE_VERSION CRATE_VERSION of
        (Ok agent_info, _, Some (sent, _)) \<Rightarrow> ai_agent_name agent_info = AGENT_NAME \<and> ai_capabilities agent_info = {}
          \<and> ai_active_trust_epoch agent_info = None \<and> ai_manifest_formats agent_info = None
          \<and> ai_provisioning_fingerprint agent_info = None \<and> ai_audit_health agent_info = None
          \<and> (case fst (recv_reply (agent_side F) sent) of Ok (Ok _) \<Rightarrow> True | _ \<Rightarrow> False)
      | _ \<Rightarrow> False)"

definition test_handshake_corrupt_tail_err :: "('v, 'q) semver \<Rightarrow> format \<Rightarrow> bool" where
  "test_handshake_corrupt_tail_err sv F \<longleftrightarrow>
     fst (manager_handshake sv F (Some [base_frame F @ [0x02, 0x01, 97]]) CRATE_VERSION CRATE_VERSION) =
       Err HE_InvalidMessage"

definition both_fail ::
  "('e + 'a) \<times> 'k \<times> ('d + 'b) \<Rightarrow> bool" where
  "both_fail out \<longleftrightarrow> (case out of (Err _, _, Err _) \<Rightarrow> True | _ \<Rightarrow> False)"

definition test_handshake_version_incompatible_err :: "('v, 'q) semver \<Rightarrow> format \<Rightarrow> bool" where
  "test_handshake_version_incompatible_err sv F \<longleftrightarrow>
     both_fail (shaken sv F (''<'' @ CRATE_VERSION) CRATE_VERSION (test_agent_shakes F CRATE_VERSION))"

text \<open>The highest version is the crate's with the next patch, the agent's that with the next minor.\<close>

definition test_handshake_incompatible_err :: "('v, 'q) semver \<Rightarrow> (version \<Rightarrow> 'v) \<Rightarrow> format \<Rightarrow> bool" where
  "test_handshake_incompatible_err sv mk F \<longleftrightarrow>
     (let highest_version = show_version sv (mk (0, 24, 1)); protocol_version = show_version sv (mk (0, 25, 1)) in
      both_fail (shaken sv F (''>='' @ CRATE_VERSION) highest_version (test_agent_shakes F protocol_version)))"

definition test_protocol_version_constants :: "('v, 'q) semver \<Rightarrow> (version \<Rightarrow> 'v) \<Rightarrow> bool" where
  "test_protocol_version_constants sv mk \<longleftrightarrow>
     parse_version sv PROTOCOL_VERSION = Ok (mk (0, 49, 0))
   \<and> (case parse_version_req sv MIN_PROTOCOL_VERSION_REQ of
        Ok req \<Rightarrow> req_matches sv req (mk (0, 49, 0))
          \<and> (case parse_version sv ''0.48.0'' of Ok v \<Rightarrow> \<not> req_matches sv req v | Err _ \<Rightarrow> False)
      | Err _ \<Rightarrow> False)"

definition test_handshake_at_protocol_version_ok :: "('v, 'q) semver \<Rightarrow> format \<Rightarrow> bool" where
  "test_handshake_at_protocol_version_ok sv F \<longleftrightarrow>
     (case shaken sv F MIN_PROTOCOL_VERSION_REQ PROTOCOL_VERSION (test_agent_shakes F PROTOCOL_VERSION) of
        (Ok agent_info, _, res) \<Rightarrow> ai_agent_name agent_info = AGENT_NAME \<and> ai_agent_version agent_info = AGENT_VERSION
          \<and> ai_protocol_version agent_info = PROTOCOL_VERSION \<and> res = Ok ()
      | _ \<Rightarrow> False)"

text \<open>Both sides report the agent's version and the range the manager accepts.\<close>

definition incompatible ::
  "('c HandshakeError + 'a) \<times> 'k \<times> ('d HandshakeError + 'b) \<Rightarrow> string \<Rightarrow> string \<Rightarrow> bool" where
  "incompatible out version accepted \<longleftrightarrow>
     (case out of
        (Err (HE_IncompatibleProtocol v req), _, Err (HE_IncompatibleProtocol v' echoed)) \<Rightarrow>
          v = version \<and> req = accepted \<and> v' = version \<and> echoed = accepted
      | _ \<Rightarrow> False)"

definition test_handshake_below_min_protocol_version_err :: "('v, 'q) semver \<Rightarrow> format \<Rightarrow> bool" where
  "test_handshake_below_min_protocol_version_err sv F \<longleftrightarrow>
     incompatible (shaken sv F MIN_PROTOCOL_VERSION_REQ PROTOCOL_VERSION (test_agent_shakes F PREVIOUS_PROTOCOL_VERSION))
       PREVIOUS_PROTOCOL_VERSION (MIN_PROTOCOL_VERSION_REQ @ '', <='' @ PROTOCOL_VERSION)"

definition test_handshake_above_highest_protocol_version_err :: "('v, 'q) semver \<Rightarrow> format \<Rightarrow> bool" where
  "test_handshake_above_highest_protocol_version_err sv F \<longleftrightarrow>
     incompatible (shaken sv F MIN_PROTOCOL_VERSION_REQ PREVIOUS_PROTOCOL_VERSION (test_agent_shakes F PROTOCOL_VERSION))
       PROTOCOL_VERSION (MIN_PROTOCOL_VERSION_REQ @ '', <='' @ PREVIOUS_PROTOCOL_VERSION)"

subsection \<open>The tests of \<open>server.rs\<close>\<close>

definition rejected_agent :: "('v, 'q) semver \<Rightarrow> format \<Rightarrow> string \<Rightarrow> bool" where
  "rejected_agent sv F agent_version \<longleftrightarrow>
     incompatible (shaken sv F ''>=0.48.0'' ''0.49.0'' (test_agent_shakes F agent_version))
       agent_version ''>=0.48.0, <=0.49.0''"

definition test_agent_version_fails_requirement :: "('v, 'q) semver \<Rightarrow> format \<Rightarrow> bool" where
  "test_agent_version_fails_requirement sv F \<longleftrightarrow> rejected_agent sv F ''0.47.0''"

definition test_agent_version_exceeds_ceiling :: "('v, 'q) semver \<Rightarrow> format \<Rightarrow> bool" where
  "test_agent_version_exceeds_ceiling sv F \<longleftrightarrow> rejected_agent sv F ''0.50.0''"

definition test_agent_version_is_unparsable :: "('v, 'q) semver \<Rightarrow> format \<Rightarrow> bool" where
  "test_agent_version_is_unparsable sv F \<longleftrightarrow> rejected_agent sv F INVALID_VERSION"

fun invalid_argument :: "'c HandshakeError + 'a \<Rightarrow> string \<Rightarrow> bool" where
  "invalid_argument (Err (HE_InvalidVersionArgument message)) argument \<longleftrightarrow>
     contains message argument \<and> contains message INVALID_VERSION"
| "invalid_argument _ argument \<longleftrightarrow> False"

definition invalid_argument_with_agent ::
  "('v, 'q) semver \<Rightarrow> format \<Rightarrow> string \<Rightarrow> string \<Rightarrow> string \<Rightarrow> string \<Rightarrow> bool" where
  "invalid_argument_with_agent sv F version_req highest_protocol_version agent_version argument \<longleftrightarrow>
     (case shaken sv F version_req highest_protocol_version (test_agent_shakes F agent_version) of
        (res, _, agent_res) \<Rightarrow> invalid_argument res argument \<and> isl agent_res)"

definition test_invalid_version_req :: "('v, 'q) semver \<Rightarrow> format \<Rightarrow> bool" where
  "test_invalid_version_req sv F \<longleftrightarrow>
     invalid_argument_with_agent sv F INVALID_VERSION VALID_VERSION VALID_VERSION ''version_req''"

definition test_invalid_highest_protocol_version_with_compatible_agent :: "('v, 'q) semver \<Rightarrow> format \<Rightarrow> bool" where
  "test_invalid_highest_protocol_version_with_compatible_agent sv F \<longleftrightarrow>
     invalid_argument_with_agent sv F VERSION_REQ INVALID_VERSION VALID_VERSION ''highest_protocol_version''"

definition test_invalid_highest_protocol_version_with_incompatible_agent :: "('v, 'q) semver \<Rightarrow> format \<Rightarrow> bool" where
  "test_invalid_highest_protocol_version_with_incompatible_agent sv F \<longleftrightarrow>
     invalid_argument_with_agent sv F VERSION_REQ INVALID_VERSION ''0.9.0'' ''highest_protocol_version''"

text \<open>No stream was opened; the manager fails without waiting for one and leaves the connection alone.\<close>

definition invalid_argument_without_handshake_stream ::
  "('v, 'q) semver \<Rightarrow> format \<Rightarrow> string \<Rightarrow> string \<Rightarrow> string \<Rightarrow> bool" where
  "invalid_argument_without_handshake_stream sv F version_req highest_protocol_version argument \<longleftrightarrow>
     (case manager_handshake sv F None version_req highest_protocol_version of
        (res, k, halves) \<Rightarrow> invalid_argument res argument \<and> k = None \<and> halves = None)"

definition test_invalid_version_req_without_handshake_stream :: "('v, 'q) semver \<Rightarrow> format \<Rightarrow> bool" where
  "test_invalid_version_req_without_handshake_stream sv F \<longleftrightarrow>
     invalid_argument_without_handshake_stream sv F INVALID_VERSION VALID_VERSION ''version_req''"

definition test_invalid_highest_protocol_version_without_handshake_stream :: "('v, 'q) semver \<Rightarrow> format \<Rightarrow> bool" where
  "test_invalid_highest_protocol_version_without_handshake_stream sv F \<longleftrightarrow>
     invalid_argument_without_handshake_stream sv F VERSION_REQ INVALID_VERSION ''highest_protocol_version''"

subsection \<open>They hold\<close>

lemma listed:
  "(''0.9.0'', 0, 9, 0) \<in> set test_versions" "(''0.24.0'', 0, 24, 0) \<in> set test_versions"
  "(''0.24.1'', 0, 24, 1) \<in> set test_versions" "(''0.25.1'', 0, 25, 1) \<in> set test_versions"
  "(''0.47.0'', 0, 47, 0) \<in> set test_versions" "(''0.48.0'', 0, 48, 0) \<in> set test_versions"
  "(''0.49.0'', 0, 49, 0) \<in> set test_versions" "(''0.50.0'', 0, 50, 0) \<in> set test_versions"
  "(''1.0.0'', 1, 0, 0) \<in> set test_versions"
  by (simp_all add: test_versions_def)

lemmas version_consts = CRATE_VERSION_def VALID_VERSION_def VERSION_REQ_def PREVIOUS_PROTOCOL_VERSION_def
  PROTOCOL_VERSION_def MIN_PROTOCOL_VERSION_REQ_def

lemma handshake_info_fits: "lawful_format F \<Longrightarrow> fits (codec_AgentInfo F) handshake_info"
  using lawful_format_parts(22) [of F]
  by (simp add: handshake_info_def fits_AgentInfo base_of_def codec_AgentInfoBase_def codec_capabilities_def
      tail_fixtures CRATE_VERSION_def wire_fits codec_simps MAX_LEN_def card_insert_if)

lemma base_frame_eq: "base_frame F = encode_agent_info (wire_encoder F) 0 (test_info CRATE_VERSION)"
  by (simp add: base_frame_def encode_agent_info_def wire_encoder_def codec_AgentInfoBase_def base_of_def
      test_info_def codec_simps)

lemma quoted_invalid: "debug_str INVALID_VERSION = [CHR 0x22] @ INVALID_VERSION @ [CHR 0x22]"
  by code_simp

lemma names_argument:
  "contains (argument @ rest) argument"
  "contains (argument @ '' '' @ debug_str INVALID_VERSION @ rest) INVALID_VERSION"
  using contains_middle [of "argument @ '' '' @ [CHR 0x22]" INVALID_VERSION "[CHR 0x22] @ rest"]
  by (simp_all add: contains_front quoted_invalid)

context test_semver
begin

lemma crate_window:
  obtains req where "parse_version_req sv CRATE_VERSION = Ok req"
    "acceptable sv req (mk (0, 24, 0)) CRATE_VERSION" "parse_version sv CRATE_VERSION = Ok (mk (0, 24, 0))"
proof -
  obtain req where "parse_version_req sv ''0.24.0'' = Ok req" "req_matches sv req (mk (0, 24, 0))"
    using same [OF listed(2)] by blast
  then show ?thesis
    using that [of req] parses [OF listed(2)] ordered [OF listed(2) listed(2)]
    by (simp add: acceptable_def CRATE_VERSION_def)
qed

lemma window_tests_pass:
  assumes "lawful_format F"
  shows "test_handshake_version_incompatible_err sv F" "test_handshake_incompatible_err sv mk F"
    "test_handshake_at_protocol_version_ok sv F" "test_handshake_below_min_protocol_version_err sv F"
    "test_handshake_above_highest_protocol_version_err sv F" "test_agent_version_fails_requirement sv F"
    "test_agent_version_exceeds_ceiling sv F"
proof -
  note go = shaken_in_window [OF assms]
  note ge = at_least [OF listed(2)] at_least [OF listed(6)] at_least [OF listed(7)]
  show "test_handshake_version_incompatible_err sv F"
    using go [OF below [OF listed(2)] _ listed(2) listed(2)]
    by (simp add: test_handshake_version_incompatible_err_def both_fail_def CRATE_VERSION_def)
  show "test_handshake_incompatible_err sv mk F"
    using go [OF ge(1) _ listed(3) listed(4)] parses [OF listed(3)] parses [OF listed(4)]
    by (simp add: test_handshake_incompatible_err_def both_fail_def CRATE_VERSION_def)
  show "test_handshake_at_protocol_version_ok sv F"
    using go [OF ge(3) _ listed(7) listed(7)]
    by (simp add: test_handshake_at_protocol_version_ok_def version_consts test_info_def)
  show "test_handshake_below_min_protocol_version_err sv F"
    using go [OF ge(3) _ listed(7) listed(6)]
    by (simp add: test_handshake_below_min_protocol_version_err_def incompatible_def version_consts)
  show "test_handshake_above_highest_protocol_version_err sv F"
    using go [OF ge(3) _ listed(6) listed(7)]
    by (simp add: test_handshake_above_highest_protocol_version_err_def incompatible_def version_consts)
  show "test_agent_version_fails_requirement sv F"
    using go [OF ge(2) _ listed(7) listed(5)]
    by (simp add: test_agent_version_fails_requirement_def rejected_agent_def incompatible_def)
  show "test_agent_version_exceeds_ceiling sv F"
    using go [OF ge(2) _ listed(7) listed(8)]
    by (simp add: test_agent_version_exceeds_ceiling_def rejected_agent_def incompatible_def)
qed

lemma test_agent_version_is_unparsable_passes:
  assumes "lawful_format F"
  shows "test_agent_version_is_unparsable sv F"
proof -
  obtain req where req: "parse_version_req sv ''>=0.48.0'' = Ok req" "show_version_req sv req = ''>=0.48.0''"
    using at_least [OF listed(6)] by (auto simp: reads_req_def)
  have "\<not> acceptable sv req (mk (0, 49, 0)) INVALID_VERSION"
    using no_version by (auto simp: acceptable_def)
  moreover have "fits (codec_AgentInfo F) (test_info INVALID_VERSION)"
    by (rule test_info_fits [OF assms]) (simp add: INVALID_VERSION_def MAX_LEN_def)
  moreover have "ai_protocol_version (test_info v) = v" for v by (simp add: test_info_def)
  ultimately show ?thesis
    using shaken_settles [OF assms _ req(1) conjunct1 [OF parses [OF listed(7)]], of "test_info INVALID_VERSION"]
      req(2) parses [OF listed(7)]
    by (simp add: test_agent_version_is_unparsable_def rejected_agent_def incompatible_def test_agent_is [abs_def]
        Let_def MAX_LEN_def)
qed

lemma crate_tests_pass:
  assumes F: "lawful_format F"
  shows "test_handshake sv F" "test_handshake_with_full_tail sv F" "test_handshake_without_tail sv F"
proof -
  obtain req where req: "parse_version_req sv CRATE_VERSION = Ok req"
      "acceptable sv req (mk (0, 24, 0)) CRATE_VERSION" "parse_version sv CRATE_VERSION = Ok (mk (0, 24, 0))"
    by (rule crate_window)
  have shown: "show_version sv (mk (0, 24, 0)) = CRATE_VERSION" "length CRATE_VERSION = 6"
    using parses [OF listed(2)] by (simp_all add: CRATE_VERSION_def)
  have version: "ai_protocol_version (test_info v) = v" "ai_protocol_version handshake_info = CRATE_VERSION" for v
    by (simp_all add: test_info_def handshake_info_def)
  have fit: "fits (codec_AgentInfo F) (test_info CRATE_VERSION)"
    by (rule test_info_fits [OF F]) (simp add: shown MAX_LEN_def)
  have told: "read_answer F e (codec_str F) (enc (codec_result F (codec_str F)) (Ok CRATE_VERSION)) = Ok (Ok CRATE_VERSION)" for e
    by (rule read_answer_ok [OF F lawful_format_parts(13) [OF F]]) (simp add: codec_simps shown MAX_LEN_def)
  have accepts: "shaken sv F CRATE_VERSION CRATE_VERSION (\<lambda>opn. agent_handshake_with opn (agent_side F) () info) =
      (Ok (info\<lparr>ai_addr := unspecified_addr\<rparr>), Some [enc (codec_AgentInfo F) info], Ok ())"
    if "fits (codec_AgentInfo F) info" "ai_protocol_version info = CRATE_VERSION" for info
    using manager_settles [OF req(1,3) info_reads [OF F that(1)], of "[]"] that(2) req(2) told
    by (simp add: shaken_def agent_sends shown)
  show "test_handshake sv F"
    using accepts [OF fit version(1)]
    by (simp add: test_handshake_def test_agent_is [abs_def]) (simp add: test_info_def)
  show "test_handshake_with_full_tail sv F"
    using accepts [OF handshake_info_fits [OF F] version(2)]
    by (simp add: test_handshake_with_full_tail_def) (simp add: handshake_info_def)
  have "decode_agent_info (wire_decoder F ()) (base_frame F) = Ok (test_info CRATE_VERSION)"
    using wire_prefix_reads [OF F fit, of 0 "[]" "()"]
    by (simp add: base_frame_eq known_tail_def test_info_def)
  from manager_settles [OF req(1,3) this, of "[]"] show "test_handshake_without_tail sv F"
    using req(2) told by (simp add: test_handshake_without_tail_def version shown agent_side_def)
      (simp add: test_info_def)
qed

lemma test_handshake_corrupt_tail_err_passes:
  assumes "standard_config F"
  shows "test_handshake_corrupt_tail_err sv F"
proof -
  from assms have F: "lawful_format F" by (simp add: standard_config_def)
  have "fits (codec_AgentInfo F) (test_info CRATE_VERSION)"
    by (rule test_info_fits [OF F]) (simp add: CRATE_VERSION_def MAX_LEN_def)
  from tail_corrupt_refused [OF wire_agent_info_codec [OF F this], of 0 "[2, 1, 97]" "()" "()"] cut_set_refused [OF assms]
  have "decode_agent_info (wire_decoder F ()) (base_frame F @ [2, 1, 97]) = Err (Decode_Tail ''capabilities'' ())"
    by (simp add: base_frame_eq tail_names_def wire_decoder_def)
  moreover obtain req where "parse_version_req sv CRATE_VERSION = Ok req"
      "parse_version sv CRATE_VERSION = Ok (mk (0, 24, 0))"
    by (rule crate_window)
  ultimately show ?thesis
    by (simp add: test_handshake_corrupt_tail_err_def manager_handshake_def server_handshake_def manager_side_def)
qed

lemma test_protocol_version_constants_passes: "test_protocol_version_constants sv mk"
proof -
  obtain r where r: "parse_version_req sv ''>=0.49.0'' = Ok r"
      "\<And>s v. (s, v) \<in> set test_versions \<Longrightarrow> req_matches sv r (mk v) \<longleftrightarrow> \<not> older v (0, 49, 0)"
    using at_least [OF listed(7)] by (auto simp: reads_req_def)
  then show ?thesis
    using parses [OF listed(7)] parses [OF listed(6)] r(2) [OF listed(6)] r(2) [OF listed(7)]
    by (simp add: test_protocol_version_constants_def version_consts)
qed

lemma bad_arguments:
  "\<exists>e. manager_handshake sv F k INVALID_VERSION h =
     (Err (HE_InvalidVersionArgument (''version_req '' @ debug_str INVALID_VERSION @ '': '' @ e)), k, None)"
  "\<exists>e. manager_handshake sv F k VERSION_REQ INVALID_VERSION =
     (Err (HE_InvalidVersionArgument (''highest_protocol_version '' @ debug_str INVALID_VERSION @ '': '' @ e)), k, None)"
  using no_req no_version at_least [OF listed(9)]
  by (auto simp: manager_handshake_def server_handshake_def VERSION_REQ_def reads_req_def)

lemma argument_tests_pass:
  "test_invalid_version_req sv F" "test_invalid_highest_protocol_version_with_compatible_agent sv F"
  "test_invalid_highest_protocol_version_with_incompatible_agent sv F"
  "test_invalid_version_req_without_handshake_stream sv F"
  "test_invalid_highest_protocol_version_without_handshake_stream sv F"
proof -
  have told: "invalid_argument (Err (HE_InvalidVersionArgument (''version_req '' @ debug_str INVALID_VERSION @ '': '' @ e)))
        ''version_req''"
      "invalid_argument (Err (HE_InvalidVersionArgument
         (''highest_protocol_version '' @ debug_str INVALID_VERSION @ '': '' @ e))) ''highest_protocol_version''" for e
    using names_argument [of "''version_req''"] names_argument [of "''highest_protocol_version''"] by simp_all
  have away: "invalid_argument_without_handshake_stream sv F INVALID_VERSION h ''version_req''"
      "invalid_argument_without_handshake_stream sv F VERSION_REQ INVALID_VERSION ''highest_protocol_version''" for h
    using bad_arguments(1) [of F None h] bad_arguments(2) [of F None] told
    by (auto simp: invalid_argument_without_handshake_stream_def simp del: invalid_argument.simps append_Cons)
  have asked: "invalid_argument_with_agent sv F INVALID_VERSION h v ''version_req''"
      "invalid_argument_with_agent sv F VERSION_REQ INVALID_VERSION v ''highest_protocol_version''" for h v
    using bad_arguments(1) [of F "Some [enc (codec_AgentInfo F) (test_info v)]" h]
      bad_arguments(2) [of F "Some [enc (codec_AgentInfo F) (test_info v)]"] told
    by (auto simp: invalid_argument_with_agent_def test_agent_is [abs_def] shaken_bad_argument
        simp del: invalid_argument.simps append_Cons)
  show "test_invalid_version_req sv F" "test_invalid_highest_protocol_version_with_compatible_agent sv F"
    "test_invalid_highest_protocol_version_with_incompatible_agent sv F"
    "test_invalid_version_req_without_handshake_stream sv F"
    "test_invalid_highest_protocol_version_without_handshake_stream sv F"
    unfolding test_invalid_version_req_def test_invalid_highest_protocol_version_with_compatible_agent_def
      test_invalid_highest_protocol_version_with_incompatible_agent_def
      test_invalid_version_req_without_handshake_stream_def
      test_invalid_highest_protocol_version_without_handshake_stream_def
    by (rule asked away)+
qed

end

end
