(* ===== verification/Connection_Tests.thy ===== *)
theory Connection_Tests
  imports Handshake_Tests Api_Tests Event_Stream
begin

text \<open>
  The remaining tests of \<open>src/src/server.rs\<close> (event streams and the free functions) and the tests
  of \<open>src/src/client.rs\<close> (the builder) and \<open>src/src/frame.rs\<close>. The test that measures how many
  tasks tokio runs at once is not here.
\<close>

subsection \<open>Event handlers\<close>

record event_log =
  el_events :: "EventMessage list"
  el_errors :: "string list"
  el_stream_ended :: bool

definition TestEventHandler_new :: event_log where
  "TestEventHandler_new = \<lparr>el_events = [], el_errors = [], el_stream_ended = False\<rparr>"

definition TestEventHandler :: "event_log EventStreamHandler" where
  "TestEventHandler =
     \<lparr>handle_event = (\<lambda>event self. (Ok (), self\<lparr>el_events := el_events self @ [event]\<rparr>)),
      on_stream_end = (\<lambda>self. (Ok (), self\<lparr>el_stream_ended := True\<rparr>)),
      on_error = (\<lambda>error self. (Ok (), self\<lparr>el_errors := el_errors self @ [error]\<rparr>))\<rparr>"

definition test_event_stream_handler_interface :: "Timestamp \<Rightarrow> bool" where
  "test_event_stream_handler_interface now \<longleftrightarrow>
     (let event = \<lparr>em_time = now, em_kind = DnsCovertChannel, em_fields = [1, 2, 3, 4]\<rparr>;
          (r1, h1) = handle_event TestEventHandler event TestEventHandler_new;
          (r2, h2) = on_error TestEventHandler ''test error'' h1;
          (r3, h3) = on_stream_end TestEventHandler h2
      in r1 = Ok () \<and> length (el_events h1) = 1 \<and> em_kind (el_events h1 ! 0) = DnsCovertChannel
         \<and> em_fields (el_events h1 ! 0) = [1, 2, 3, 4]
         \<and> r2 = Ok () \<and> length (el_errors h2) = 1 \<and> el_errors h2 ! 0 = ''test error''
         \<and> r3 = Ok () \<and> el_stream_ended h3)"

definition FailingHandler :: "'h EventStreamHandler" where
  "FailingHandler =
     \<lparr>handle_event = (\<lambda>_ self. (Err (IoError_other ''processing failed''), self)),
      on_stream_end = (\<lambda>self. (Err (IoError_other ''stream end failed''), self)),
      on_error = (\<lambda>_ self. (Err (IoError_other ''error handling failed''), self))\<rparr>"

definition test_event_handler_error_handling :: "Timestamp \<Rightarrow> bool" where
  "test_event_handler_error_handling now \<longleftrightarrow>
     (let event = \<lparr>em_time = now, em_kind = HttpThreat, em_fields = []\<rparr> in
      isl (fst (handle_event FailingHandler event ())) \<and> isl (fst (on_error FailingHandler ''test'' ()))
      \<and> isl (fst (on_stream_end FailingHandler ())))"

definition MinimalHandler :: "'h EventStreamHandler" where
  "MinimalHandler = EventStreamHandler_default (\<lambda>_ self. (Ok (), self))"

definition test_default_implementations :: bool where
  "test_default_implementations \<longleftrightarrow>
     fst (on_stream_end MinimalHandler ()) = Ok () \<and> fst (on_error MinimalHandler ''test error'' ()) = Ok ()"

subsection \<open>Event streams\<close>

text \<open>
  A stream of bytes: a frame is its length in four bytes, the highest first, and its body.
\<close>

definition read_bytes_exact :: "nat \<Rightarrow> bytes \<Rightarrow> (ReadExactError + bytes) \<times> bytes" where
  "read_bytes_exact n r =
     (if length r < n then (Err (FinishedEarly (length r)), []) else (Ok (take n r), drop n r))"

definition recv_bytes_raw :: "bytes \<Rightarrow> (IoError + bytes) \<times> bytes" where
  "recv_bytes_raw r =
     (case read_bytes_exact 4 r of
        (Err e, r) \<Rightarrow> (Err (from_read_exact_error_to_io_error e), r)
      | (Ok b, r) \<Rightarrow>
          (case read_bytes_exact (case snd (be_prim 4 :: u32 prim) b of Some (n, _) \<Rightarrow> unat n | None \<Rightarrow> 0) r of
             (Err e, r) \<Rightarrow> (Err (from_read_exact_error_to_io_error e), r)
           | (Ok body, r) \<Rightarrow> (Ok body, r)))"

definition event_bytes_io :: "format \<Rightarrow> string \<Rightarrow> bytes event_io" where
  "event_bytes_io F e =
     \<lparr>read_exact = read_bytes_exact, ev_recv_raw = recv_bytes_raw,
      decode_event = (\<lambda>b. case dec (codec_EventMessage F) b of
         Some (event, rest) \<Rightarrow> Ok (event, length b - length rest) | None \<Rightarrow> Err e)\<rparr>"

definition event_stream_bytes :: "format \<Rightarrow> EventMessage list \<Rightarrow> bytes" where
  "event_stream_bytes F events =
     [0, 0] @ concat (map (\<lambda>event. let serialized = enc (codec_EventMessage F) event;
          len = of_nat (length serialized) :: u32 in fst (be_prim 4) len @ serialized) events)"

definition EventCollector :: "EventMessage list EventStreamHandler" where
  "EventCollector = EventStreamHandler_default (\<lambda>event events. (Ok (), events @ [event]))"

definition test_accept_event_stream :: "format \<Rightarrow> string \<Rightarrow> Timestamp \<Rightarrow> bool" where
  "test_accept_event_stream F e now \<longleftrightarrow>
     (let event = \<lparr>em_time = now, em_kind = DnsCovertChannel, em_fields = [1, 2, 3, 4]\<rparr> in
      case accept_event_stream (\<lambda>k. (Ok (event_stream_bytes F [event]), k)) (event_bytes_io F e) () EventCollector [] of
        Some (res, received, _, _) \<Rightarrow> res = Ok () \<and> length received = 1
          \<and> em_kind (received ! 0) = DnsCovertChannel \<and> em_fields (received ! 0) = [1, 2, 3, 4]
      | None \<Rightarrow> False)"

definition test_handle_event_stream :: "format \<Rightarrow> string \<Rightarrow> Timestamp \<Rightarrow> bool" where
  "test_handle_event_stream F e now \<longleftrightarrow>
     (let event = \<lparr>em_time = now, em_kind = HttpThreat, em_fields = [5, 6, 7]\<rparr> in
      case handle_event_stream (event_bytes_io F e) (event_stream_bytes F [event]) EventCollector [] of
        Some (res, received, _) \<Rightarrow> res = Ok () \<and> length received = 1
          \<and> em_kind (received ! 0) = HttpThreat \<and> em_fields (received ! 0) = [5, 6, 7]
      | None \<Rightarrow> False)"

text \<open>
  Three streams, each handled by a task of its own over the shared events; the tasks are run one
  after the other.
\<close>

fun handle_streams ::
  "format \<Rightarrow> string \<Rightarrow> EventMessage list \<Rightarrow> EventMessage list \<Rightarrow> EventMessage list option" where
  "handle_streams F e [] received = Some received"
| "handle_streams F e (event # events) received =
     (case handle_event_stream (event_bytes_io F e) (event_stream_bytes F [event]) EventCollector received of
        Some (_, received, _) \<Rightarrow> handle_streams F e events received
      | None \<Rightarrow> None)"

definition test_accept_multiple_streams :: "format \<Rightarrow> string \<Rightarrow> Timestamp \<Rightarrow> bool" where
  "test_accept_multiple_streams F e now \<longleftrightarrow>
     map_option length (handle_streams F e
       (map (\<lambda>i. \<lparr>em_time = now, em_kind = DnsCovertChannel, em_fields = [i]\<rparr>) [0, 1, 2]) []) = Some 3"

lemma handler_tests_pass:
  "test_event_stream_handler_interface now" "test_event_handler_error_handling now" test_default_implementations
  by (simp_all add: test_event_stream_handler_interface_def test_event_handler_error_handling_def
      test_default_implementations_def TestEventHandler_def TestEventHandler_new_def FailingHandler_def
      MinimalHandler_def EventStreamHandler_default_def Let_def)

lemma frame_received:
  assumes "length body < 2 ^ 32"
  shows "recv_bytes_raw (fst (be_prim 4) (of_nat (length body) :: u32) @ body @ rest) = (Ok body, rest)"
proof -
  let ?n = "of_nat (length body) :: u32"
  have "unat ?n = length body"
    using assms by (simp add: unat_of_nat)
  moreover have "snd (be_prim 4) (fst (be_prim 4) ?n) = Some (?n, [])"
    using lawful_reads_all [OF lawful_be_prim [where n = 4], of ?n] by (simp add: plain_def)
  moreover have "length (fst (be_prim 4) ?n) = 4"
    by (simp add: be_prim_def)
  ultimately show ?thesis
    by (simp add: recv_bytes_raw_def read_bytes_exact_def)
qed

lemma stream_handled:
  assumes "lawful_format F" and "fits (codec_EventMessage F) event"
    and "length (enc (codec_EventMessage F) event) < 2 ^ 32"
  shows "\<exists>t. process_event_stream (event_bytes_io F e) EventCollector (event_stream_bytes F [event]) events =
    Some (Ok (), events @ [event], t)"
proof -
  let ?io = "event_bytes_io F e" and ?b = "enc (codec_EventMessage F) event"
  let ?frame = "fst (be_prim 4) (of_nat (length ?b) :: u32) @ ?b"
  have header: "read_exact ?io 2 (event_stream_bytes F [event]) = (Ok [0, 0], ?frame)"
    by (simp add: event_bytes_io_def event_stream_bytes_def read_bytes_exact_def Let_def numeral_2_eq_2)
  have "ev_recv_raw ?io ?frame = (Ok ?b, [])"
    using frame_received [OF assms(3), of "[]"] by (simp add: event_bytes_io_def)
  then have frames: "delivers (ev_recv_raw ?io) ?frame [?b] []"
    by (simp add: delivers_Cons)
  have eof: "ev_recv_raw ?io [] = (Err (IoError_from EK_UnexpectedEof), [])"
    by (simp add: event_bytes_io_def recv_bytes_raw_def read_bytes_exact_def)
  have "dispatch_frame ?io EventCollector ?b events = (Ok (), events @ [event])"
    using lawful_reads_all [OF lawful_EventMessage [OF assms(1)] assms(2)]
    by (simp add: dispatch_frame_def event_bytes_io_def EventCollector_def EventStreamHandler_default_def)
  then have "finish_feed EventCollector (IoError_from EK_UnexpectedEof) (feed ?io EventCollector [?b] events) =
      (Ok (), events @ [event])"
    by (simp add: finish_feed_def IoError_from_def EventCollector_def EventStreamHandler_default_def)
  with event_loop_feeds [OF frames eof, of EventCollector events] show ?thesis
    by (simp add: process_event_stream_def header)
qed

lemma stream_tests_pass:
  assumes F: "lawful_format F" and now: "\<And>k b. length b \<le> 4 \<Longrightarrow>
      fits (codec_EventMessage F) \<lparr>em_time = now, em_kind = k, em_fields = b\<rparr>
      \<and> length (enc (codec_EventMessage F) \<lparr>em_time = now, em_kind = k, em_fields = b\<rparr>) < 2 ^ 32"
  shows "test_accept_event_stream F e now" "test_handle_event_stream F e now" "test_accept_multiple_streams F e now"
proof -
  let ?ev = "\<lambda>k b. \<lparr>em_time = now, em_kind = k, em_fields = b\<rparr>"
  have handled: "\<exists>t. process_event_stream (event_bytes_io F e) EventCollector (event_stream_bytes F [?ev k b]) events =
      Some (Ok (), events @ [?ev k b], t)" if "length b \<le> 4" for k b events
    by (rule stream_handled) (use F now [OF that] in simp_all)
  obtain t where "process_event_stream (event_bytes_io F e) EventCollector
      (event_stream_bytes F [?ev DnsCovertChannel [1, 2, 3, 4]]) [] = Some (Ok (), [?ev DnsCovertChannel [1, 2, 3, 4]], t)"
    using handled [of "[1, 2, 3, 4]" DnsCovertChannel "[]"] by auto
  then show "test_accept_event_stream F e now"
    by (simp add: test_accept_event_stream_def accept_event_stream_def Let_def)
  obtain t where "process_event_stream (event_bytes_io F e) EventCollector
      (event_stream_bytes F [?ev HttpThreat [5, 6, 7]]) [] = Some (Ok (), [?ev HttpThreat [5, 6, 7]], t)"
    using handled [of "[5, 6, 7]" HttpThreat "[]"] by auto
  then show "test_handle_event_stream F e now"
    by (simp add: test_handle_event_stream_def handle_event_stream_def Let_def)
  have all: "handle_streams F e (map (\<lambda>i. ?ev DnsCovertChannel [i]) is) events =
      Some (events @ map (\<lambda>i. ?ev DnsCovertChannel [i]) is)" for "is" events
  proof (induction "is" arbitrary: events)
    case (Cons i js)
    obtain t where "process_event_stream (event_bytes_io F e) EventCollector
        (event_stream_bytes F [?ev DnsCovertChannel [i]]) events = Some (Ok (), events @ [?ev DnsCovertChannel [i]], t)"
      using handled [of "[i]" DnsCovertChannel events] by auto
    with Cons.IH show ?case by (simp add: handle_event_stream_def)
  qed simp
  from all [of "[0, 1, 2]" "[]"] show "test_accept_multiple_streams F e now"
    by (simp add: test_accept_multiple_streams_def)
qed

subsection \<open>The free functions of the manager\<close>

definition TRUSTED_DOMAIN_LIST :: "string list" where
  "TRUSTED_DOMAIN_LIST = [''example.com'', ''example.org'']"

definition DomainHandler :: "bytes Handler" where
  "DomainHandler = Handler_default
     \<lparr>h_trusted_domain_list := \<lambda>domains h.
        (if domains = TRUSTED_DOMAIN_LIST then Ok () else Err ''unexpected domain list'', h)\<rparr>"

definition test_trusted_domain_list :: "wire \<Rightarrow> bool" where
  "test_trusted_domain_list W \<longleftrightarrow>
     succeeded (exchanged W DomainHandler (\<lambda>io. send_trusted_domain_list io TRUSTED_DOMAIN_LIST) [])"

definition ConfigHandler :: "bytes Handler" where
  "ConfigHandler = Handler_default\<lparr>h_update_config := \<lambda>h. (Ok (), h)\<rparr>"

definition test_notify_config_update :: "wire \<Rightarrow> bool" where
  "test_notify_config_update W \<longleftrightarrow> succeeded (exchanged W ConfigHandler notify_config_update [])"

text \<open>Without a payload the notification is the update command.\<close>

lemma notification_is_command: "notify_config_update (linked W H) = send_config_update_cmd (linked W H)"
  by (rule ext) (simp add: notify_config_update_def send_config_update_cmd_def send_request_def encode_request_def
      wire_link_def agent_link_def Let_def unit_codec_sel)

context lawful_link
begin

lemma free_functions_pass: "test_trusted_domain_list W" "test_notify_config_update W"
proof -
  show "test_trusted_domain_list W"
    unfolding test_trusted_domain_list_def
    by (subst send_trusted_domain_list_exchanged)
      (simp_all add: DomainHandler_def TRUSTED_DOMAIN_LIST_def codec_simps pay_Strings_def MAX_LEN_def)
  have "exchanged W ConfigHandler notify_config_update [] = exchanged W ConfigHandler send_config_update_cmd []"
    by (simp add: exchanged_def notification_is_command)
  moreover have "exchanged W ConfigHandler send_config_update_cmd [] = Some (Ok (), [])"
    using send_config_update_cmd_exchanged [where H = ConfigHandler and h = "[]"] by (simp add: ConfigHandler_def)
  ultimately show "test_notify_config_update W"
    by (simp add: test_notify_config_update_def)
qed

end

subsection \<open>Messages\<close>

record Msg =
  msg_string :: string
  msg_integer :: i32
  msg_floating_point :: f32

definition codec_Msg :: "format \<Rightarrow> Msg codec" where
  "codec_Msg F = via_codec (\<lambda>_. True)
     (\<lambda>(s, i, f). Some \<lparr>msg_string = s, msg_integer = i, msg_floating_point = f\<rparr>)
     (\<lambda>m. (msg_string m, msg_integer m, msg_floating_point m))
     (pair_codec (codec_str F) (pair_codec (plain (fm_i32 F)) (plain (fm_f32 F))))"

text \<open>oinq's frames of a type over a channel that keeps their order.\<close>

definition frame_send_of :: "'a codec \<Rightarrow> (bytes list, 'a) frame_send" where
  "frame_send_of c = (\<lambda>channel buf m. (Ok (), enc c m, channel @ [enc c m]))"

definition frame_recv_of :: "'a codec \<Rightarrow> (bytes list, 'a) frame_recv" where
  "frame_recv_of c = (\<lambda>channel buf. case channel of
     [] \<Rightarrow> (Err (IoError_from EK_UnexpectedEof), buf, [])
   | f # channel \<Rightarrow> (from_front (IoError_from EK_InvalidData) c f, f, channel))"

definition test_send_and_recv :: "format \<Rightarrow> bool" where
  "test_send_and_recv F \<longleftrightarrow>
     (let msg_one = \<lparr>msg_string = ''hello'', msg_integer = 10, msg_floating_point = 0x41200000\<rparr>;
          msg_two = \<lparr>msg_string = ''world'', msg_integer = 20, msg_floating_point = 0x41A00000\<rparr>;
          send = send_msg (frame_send_of (codec_Msg F)); recv = recv_msg (frame_recv_of (codec_Msg F));
          (r1, c1) = send [] msg_one; (m1, c2) = recv c1;
          (r2, c3) = send c2 msg_two; (m2, c4) = recv c3
      in r1 = Ok () \<and> m1 = Ok msg_one \<and> r2 = Ok () \<and> m2 = Ok msg_two)"

lemma lawful_Msg: "lawful_format F \<Longrightarrow> lawful (codec_Msg F)"
  unfolding codec_Msg_def by (intro lawful_rules lawful_via) simp_all

lemma test_send_and_recv_passes:
  assumes "lawful_format F"
  shows "test_send_and_recv F"
proof -
  have "from_front e (codec_Msg F) (enc (codec_Msg F) m) = Ok m" if "length (msg_string m) \<le> 10" for m e
    using that by (intro from_front_reads lawful_Msg assms) (simp add: codec_Msg_def via_codec_def codec_simps MAX_LEN_def)
  then show ?thesis
    by (simp add: test_send_and_recv_def send_msg_def recv_msg_def frame_send_of_def frame_recv_of_def Let_def)
qed

end
