(* ===== verification/Builder_Tests.thy ===== *)
theory Builder_Tests
  imports Handshake_Tests
begin

text \<open>
  The tests of \<open>src/src/client.rs\<close>: the connection builder and what it advertises. The keys and
  certificates rcgen makes are parameters, with what the PEM reader of rustls finds in them.
\<close>

subsection \<open>Keys and certificates\<close>

record ('ct, 'ky, 'rt) pki =
  pk_tls :: "('ct, 'ky, 'rt) tls_ops"
  pk_chain_pem :: bytes
  pk_key_pem :: bytes
  pk_root_pem :: bytes
  pk_bundle_pem :: bytes
  pk_single_pem :: bytes
  pk_single_key_pem :: bytes
  pk_roots_len :: "'rt \<Rightarrow> nat"

definition holds_key :: "('ct, 'ky, 'rt) pki \<Rightarrow> bytes \<Rightarrow> bool" where
  "holds_key P b \<longleftrightarrow> (\<exists>k. pem_key (pk_tls P) b = Ok (Some k))"

definition holds_certs :: "('ct, 'ky, 'rt) pki \<Rightarrow> bytes \<Rightarrow> nat \<Rightarrow> bool" where
  "holds_certs P b n \<longleftrightarrow> (\<exists>cs. pem_certs (pk_tls P) b = map Ok cs \<and> length cs = n)"

text \<open>
  \<open>generate_chain\<close> gives a leaf with its intermediate, the leaf's key and one root; the bundle
  is that root and another one. A root store takes each root and counts it.
\<close>

definition generated :: "('ct, 'ky, 'rt) pki \<Rightarrow> bool" where
  "generated P \<longleftrightarrow>
     holds_certs P (pk_chain_pem P) 2 \<and> holds_key P (pk_key_pem P) \<and> holds_certs P (pk_root_pem P) 1
   \<and> holds_certs P (pk_bundle_pem P) 2 \<and> holds_certs P (pk_single_pem P) 1 \<and> holds_key P (pk_single_key_pem P)
   \<and> pk_roots_len P (roots_empty (pk_tls P)) = 0
   \<and> (\<forall>b \<in> {pk_root_pem P, pk_bundle_pem P}. \<forall>c. Ok c \<in> set (pem_certs (pk_tls P) b) \<longrightarrow>
        (\<forall>roots. fst (roots_add (pk_tls P) roots c) = Ok ()
           \<and> pk_roots_len P (snd (roots_add (pk_tls P) roots c)) = Suc (pk_roots_len P roots)))"

definition new_builder ::
  "('ct, 'ky, 'rt) pki \<Rightarrow> SocketAddr \<Rightarrow> bytes \<Rightarrow> bytes \<Rightarrow> IoError + ('ct, 'ky, 'rt) ConnectionBuilder" where
  "new_builder P addr cert key =
     ConnectionBuilder_new (pk_tls P) ''test-server'' addr ''test-agent'' ''1.0'' ''1.0'' Status_Ready cert key"

definition local_443 :: SocketAddr where "local_443 = SocketAddr_V4 0x7f000001 443"

subsection \<open>The tests\<close>

definition test_new_preserves_full_cert_chain :: "('ct, 'ky, 'rt) pki \<Rightarrow> bool" where
  "test_new_preserves_full_cert_chain P \<longleftrightarrow>
     (case new_builder P local_443 (pk_chain_pem P) (pk_key_pem P) of
        Ok builder \<Rightarrow> length (cb_certs builder) = 2 | Err _ \<Rightarrow> False)"

definition test_cert_preserves_full_chain :: "('ct, 'ky, 'rt) pki \<Rightarrow> bool" where
  "test_cert_preserves_full_chain P \<longleftrightarrow>
     (case new_builder P local_443 (pk_single_pem P) (pk_single_key_pem P) of
        Ok builder \<Rightarrow> length (cb_certs builder) = 1
          \<and> (case builder_cert (pk_tls P) (pk_chain_pem P) builder of (r1, builder) \<Rightarrow>
             case builder_key (pk_tls P) (pk_key_pem P) builder of (r2, builder) \<Rightarrow>
               r1 = Ok () \<and> r2 = Ok () \<and> length (cb_certs builder) = 2)
      | Err _ \<Rightarrow> False)"

definition test_root_certs_loads_multiple_ca_certs :: "('ct, 'ky, 'rt) pki \<Rightarrow> bool" where
  "test_root_certs_loads_multiple_ca_certs P \<longleftrightarrow>
     (case new_builder P local_443 (pk_single_pem P) (pk_single_key_pem P) of
        Ok builder \<Rightarrow>
          (case builder_root_certs (pk_tls P) [pk_bundle_pem P] builder of
             (res, builder) \<Rightarrow> res = Ok () \<and> pk_roots_len P (cb_roots builder) = 2)
      | Err _ \<Rightarrow> False)"

text \<open>[::1]:443; what rustls and quinn make of the chain is a parameter.\<close>

definition test_full_chain_builds_valid_endpoint ::
  "('ct, 'ky, 'rt) pki \<Rightarrow> ('ct, 'ky, 'rt, 'tb, 'tc, 'qc, 'ep) endpoint_ops \<Rightarrow> bool" where
  "test_full_chain_builds_valid_endpoint P ops \<longleftrightarrow>
     (case new_builder P (SocketAddr_V6 1 443 0 0) (pk_chain_pem P) (pk_key_pem P) of
        Ok builder \<Rightarrow>
          (case builder_root_certs (pk_tls P) [pk_root_pem P] builder of
             (res, builder) \<Rightarrow> res = Ok () \<and> \<not> isl (builder_build_endpoint ops builder))
      | Err _ \<Rightarrow> False)"

definition test_tail_fields_default_to_advertising_nothing :: "('ct, 'ky, 'rt) pki \<Rightarrow> bool" where
  "test_tail_fields_default_to_advertising_nothing P \<longleftrightarrow>
     (case new_builder P local_443 (pk_chain_pem P) (pk_key_pem P) of
        Ok builder \<Rightarrow> cb_capabilities builder = {} \<and> cb_active_trust_epoch builder = None
          \<and> cb_manifest_formats builder = None \<and> cb_provisioning_fingerprint builder = None
          \<and> cb_audit_health builder = None
      | Err _ \<Rightarrow> False)"

definition test_capabilities_replaces_rather_than_accumulates :: "('ct, 'ky, 'rt) pki \<Rightarrow> bool" where
  "test_capabilities_replaces_rather_than_accumulates P \<longleftrightarrow>
     (case new_builder P local_443 (pk_chain_pem P) (pk_key_pem P) of
        Ok builder \<Rightarrow>
          (let builder = builder_capabilities [CAP_NODE_PACKAGE]
                 (builder_capabilities [REGISTRAR, CAP_NODE_ENROLL] builder)
           in cb_capabilities builder = {CAP_NODE_PACKAGE}
              \<and> cb_capabilities (builder_capabilities [] builder) = {})
      | Err _ \<Rightarrow> False)"

subsection \<open>What a manager receives\<close>

text \<open>
  \<open>setup_with\<close> of \<open>test.rs\<close>: a builder, configured, connects to a manager that wants the crate's
  version; the result is what the manager received. \<open>addr\<close> is the address it sees.
\<close>

definition builder_side ::
  "format \<Rightarrow> bytes list \<Rightarrow> (('ct, 'ky, 'rt) ConnectionBuilder, unit, unit, unit, bytes list, bytes list) connect_io" where
  "builder_side F replies =
     \<lparr>build_endpoint = (\<lambda>_. Ok ()), endpoint_connect = (\<lambda>_ _ _. Ok ()), await_connecting = (\<lambda>_. Ok ()),
      remote_address = (\<lambda>_. SocketAddr_V6 1 60190 0 0), open_bi = (\<lambda>_. Ok ([], replies)),
      send_agent_info = send_agent_info (agent_side F), recv_reply = recv_reply (agent_side F)\<rparr>"

definition setup_with ::
  "('v, 'q) semver \<Rightarrow> format \<Rightarrow> ('ct, 'ky, 'rt) pki \<Rightarrow> SocketAddr
   \<Rightarrow> (('ct, 'ky, 'rt) ConnectionBuilder \<Rightarrow> ('ct, 'ky, 'rt) ConnectionBuilder) \<Rightarrow> AgentInfo option" where
  "setup_with sv F P addr configure =
     (case ConnectionBuilder_new (pk_tls P) ''test-server'' (SocketAddr_V6 1 60190 0 0) AGENT_NAME AGENT_VERSION
             CRATE_VERSION Status_Ready (pk_single_pem P) (pk_single_key_pem P) of
        Err _ \<Rightarrow> None
      | Ok builder \<Rightarrow>
     (case builder_add_root_certs (pk_tls P) (pk_root_pem P) builder of
        (Err _, _) \<Rightarrow> None
      | (Ok _, builder) \<Rightarrow>
          let builder = configure builder;
              frames = (case snd (connect (builder_side F []) builder) of Some (sent, _) \<Rightarrow> sent | None \<Rightarrow> []) in
     (case server_handshake sv (wire_decoder F ()) (manager_side F) (Some frames) addr CRATE_VERSION CRATE_VERSION of
        (Ok agent_info, _, Some (replies, _)) \<Rightarrow>
          (case fst (connect (builder_side F replies) builder) of
             Ok _ \<Rightarrow> if ai_agent_name agent_info = AGENT_NAME \<and> ai_agent_version agent_info = AGENT_VERSION
                   then Some agent_info else None
           | Err _ \<Rightarrow> None)
      | _ \<Rightarrow> None)))"

definition connect_fingerprint :: ProvisioningFingerprint where
  "connect_fingerprint = \<lparr>pf_components = [''review'' \<mapsto> ''sha256:def''], pf_domain = ''example.test''\<rparr>"

definition connect_health :: AuditHealth where
  "connect_health = \<lparr>ah_below_low_water = False, ah_intent_without_outcome = 11\<rparr>"

definition test_connect_sends_the_configured_tail ::
  "('v, 'q) semver \<Rightarrow> format \<Rightarrow> ('ct, 'ky, 'rt) pki \<Rightarrow> SocketAddr \<Rightarrow> bool" where
  "test_connect_sends_the_configured_tail sv F P addr \<longleftrightarrow>
     (case setup_with sv F P addr (\<lambda>builder.
             builder_audit_health connect_health
            (builder_provisioning_fingerprint connect_fingerprint
            (builder_manifest_formats \<lparr>mf_min = 1, mf_max = 3\<rparr>
            (builder_active_trust_epoch 9
            (builder_capabilities [REGISTRAR, ''future:thing''] builder))))) of
        Some agent_info \<Rightarrow> ai_capabilities agent_info = {''future:thing'', ''registrar''}
          \<and> ai_active_trust_epoch agent_info = Some 9
          \<and> ai_manifest_formats agent_info = Some \<lparr>mf_min = 1, mf_max = 3\<rparr>
          \<and> ai_provisioning_fingerprint agent_info = Some connect_fingerprint
          \<and> ai_audit_health agent_info = Some connect_health
      | None \<Rightarrow> False)"

definition test_connect_without_a_configured_tail_advertises_nothing ::
  "('v, 'q) semver \<Rightarrow> format \<Rightarrow> ('ct, 'ky, 'rt) pki \<Rightarrow> SocketAddr \<Rightarrow> bool" where
  "test_connect_without_a_configured_tail_advertises_nothing sv F P addr \<longleftrightarrow>
     (case setup_with sv F P addr (\<lambda>builder. builder) of
        Some agent_info \<Rightarrow> ai_capabilities agent_info = {} \<and> ai_active_trust_epoch agent_info = None
          \<and> ai_manifest_formats agent_info = None \<and> ai_provisioning_fingerprint agent_info = None
          \<and> ai_audit_health agent_info = None
      | None \<Rightarrow> False)"

subsection \<open>They hold\<close>

lemma collect_all: "collect_results (map Ok cs) = Ok cs"
  by (induction cs) simp_all

lemma certs_read: "holds_certs P b (Suc n) \<Longrightarrow> \<exists>cs. read_certs (pk_tls P) b = Ok cs \<and> length cs = Suc n"
  by (auto simp: holds_certs_def read_certs_def collect_all)

lemma key_read: "holds_key P b \<Longrightarrow> \<exists>k. read_key (pk_tls P) b = Ok k"
  by (auto simp: holds_key_def read_key_def)

lemma roots_added:
  assumes "\<And>c roots. c \<in> set cs \<Longrightarrow> fst (roots_add tls roots c) = Ok () \<and> len (snd (roots_add tls roots c)) = Suc (len roots)"
  shows "\<exists>roots'. add_certs tls (map Ok cs) roots = (Ok (), roots') \<and> len roots' = len roots + length cs"
  using assms
proof (induction cs arbitrary: roots)
  case (Cons c cs)
  obtain roots1 where "roots_add tls roots c = (Ok (), roots1)" "len roots1 = Suc (len roots)"
    using Cons.prems [of c roots] by (cases "roots_add tls roots c") auto
  moreover obtain roots2 where "add_certs tls (map Ok cs) roots1 = (Ok (), roots2)" "len roots2 = len roots1 + length cs"
    using Cons.IH [of roots1] Cons.prems by auto
  ultimately show ?case by simp
qed simp

lemma pki_roots:
  assumes "generated P" and "b = pk_root_pem P \<and> n = 1 \<or> b = pk_bundle_pem P \<and> n = 2"
  shows "\<exists>roots'. add_certs (pk_tls P) (pem_certs (pk_tls P) b) roots = (Ok (), roots')
    \<and> pk_roots_len P roots' = pk_roots_len P roots + n"
proof -
  obtain cs where cs: "pem_certs (pk_tls P) b = map Ok cs" "length cs = n"
    using assms by (auto simp: generated_def holds_certs_def)
  then have "fst (roots_add (pk_tls P) roots c) = Ok ()
      \<and> pk_roots_len P (snd (roots_add (pk_tls P) roots c)) = Suc (pk_roots_len P roots)" if "c \<in> set cs" for c roots
    using assms that by (auto simp: generated_def)
  with roots_added [of cs "pk_tls P" "pk_roots_len P" roots] cs show ?thesis by simp
qed

lemma new_builder_works:
  assumes "holds_certs P c (Suc n)" and "holds_key P k"
  shows "\<exists>b. new_builder P addr c k = Ok b \<and> length (cb_certs b) = Suc n \<and> cb_capabilities b = {}
    \<and> cb_active_trust_epoch b = None \<and> cb_manifest_formats b = None \<and> cb_provisioning_fingerprint b = None
    \<and> cb_audit_health b = None \<and> cb_roots b = roots_empty (pk_tls P)"
  using certs_read [OF assms(1)] key_read [OF assms(2)]
  by (auto simp: new_builder_def ConnectionBuilder_new_def Let_def)

lemma builder_tests_pass:
  assumes "generated P"
  shows "test_new_preserves_full_cert_chain P" "test_cert_preserves_full_chain P"
    "test_root_certs_loads_multiple_ca_certs P" "test_tail_fields_default_to_advertising_nothing P"
    "test_capabilities_replaces_rather_than_accumulates P"
proof -
  have held: "holds_certs P (pk_chain_pem P) (Suc 1)" "holds_certs P (pk_single_pem P) (Suc 0)"
      "holds_key P (pk_key_pem P)" "holds_key P (pk_single_key_pem P)"
    using assms by (simp_all add: generated_def numeral_2_eq_2)
  note chain = new_builder_works [OF held(1,3), of local_443] and single = new_builder_works [OF held(2,4), of local_443]
  show "test_new_preserves_full_cert_chain P" "test_tail_fields_default_to_advertising_nothing P"
    "test_capabilities_replaces_rather_than_accumulates P"
    using chain by (auto simp: test_new_preserves_full_cert_chain_def test_tail_fields_default_to_advertising_nothing_def
        test_capabilities_replaces_rather_than_accumulates_def builder_capabilities_def)
  show "test_cert_preserves_full_chain P"
    using single certs_read [OF held(1)] key_read [OF held(3)]
    by (auto simp: test_cert_preserves_full_chain_def builder_cert_def builder_key_def)
  obtain roots where "add_certs (pk_tls P) (pem_certs (pk_tls P) (pk_bundle_pem P)) (roots_empty (pk_tls P)) = (Ok (), roots)"
      "pk_roots_len P roots = 2"
    using pki_roots [OF assms, of "pk_bundle_pem P" 2 "roots_empty (pk_tls P)"] assms by (auto simp: generated_def)
  with single show "test_root_certs_loads_multiple_ca_certs P"
    by (auto simp: test_root_certs_loads_multiple_ca_certs_def builder_root_certs_def)
qed

lemma test_full_chain_builds_valid_endpoint_passes:
  assumes "generated P"
    and "safe_default_protocol_versions ops = Ok tb"
    and "\<And>roots certs key. length certs = 2 \<Longrightarrow> pk_roots_len P roots = 1 \<Longrightarrow>
      \<exists>tc qc. with_client_auth_cert ops tb roots certs key = Ok tc \<and> quic_client_config ops tc = Ok qc"
    and "\<And>addr. \<exists>ep. endpoint_client ops addr = Ok ep"
  shows "test_full_chain_builds_valid_endpoint P ops"
proof -
  obtain b where b: "new_builder P (SocketAddr_V6 1 443 0 0) (pk_chain_pem P) (pk_key_pem P) = Ok b"
      "length (cb_certs b) = 2" "cb_roots b = roots_empty (pk_tls P)"
    using new_builder_works [of P "pk_chain_pem P" 1 "pk_key_pem P" "SocketAddr_V6 1 443 0 0"] assms(1)
    by (auto simp: generated_def numeral_2_eq_2)
  obtain roots where roots: "add_certs (pk_tls P) (pem_certs (pk_tls P) (pk_root_pem P)) (cb_roots b) = (Ok (), roots)"
      "pk_roots_len P roots = 1"
    using pki_roots [OF assms(1), of "pk_root_pem P" 1 "cb_roots b"] assms(1) b(3) by (auto simp: generated_def)
  obtain tc qc where "with_client_auth_cert ops tb roots (cb_certs b) (cb_key b) = Ok tc" "quic_client_config ops tc = Ok qc"
    using assms(3) [OF b(2) roots(2)] by blast
  with b roots assms(2) assms(4) [of "SocketAddr_new (cb_local_addr b) 0"] show ?thesis
    by (auto simp: test_full_chain_builds_valid_endpoint_def builder_root_certs_def builder_build_endpoint_def
        client_config_def)
qed

lemma setup_builder:
  assumes "generated P"
  obtains b0 b where
    "ConnectionBuilder_new (pk_tls P) ''test-server'' (SocketAddr_V6 1 60190 0 0) AGENT_NAME AGENT_VERSION
       CRATE_VERSION Status_Ready (pk_single_pem P) (pk_single_key_pem P) = Ok b0"
    "builder_add_root_certs (pk_tls P) (pk_root_pem P) b0 = (Ok (), b)"
    "\<And>a. builder_agent_info b a = (test_info CRATE_VERSION)\<lparr>ai_addr := a\<rparr>"
proof -
  have held: "holds_certs P (pk_single_pem P) (Suc 0)" "holds_key P (pk_single_key_pem P)"
    using assms by (simp_all add: generated_def)
  obtain b0 where b0: "ConnectionBuilder_new (pk_tls P) ''test-server'' (SocketAddr_V6 1 60190 0 0) AGENT_NAME
      AGENT_VERSION CRATE_VERSION Status_Ready (pk_single_pem P) (pk_single_key_pem P) = Ok b0"
      "\<And>a. builder_agent_info b0 a = (test_info CRATE_VERSION)\<lparr>ai_addr := a\<rparr>"
    using certs_read [OF held(1)] key_read [OF held(2)]
    by (auto simp: ConnectionBuilder_new_def Let_def builder_agent_info_def test_info_def)
  obtain roots where "add_certs (pk_tls P) (pem_certs (pk_tls P) (pk_root_pem P)) (cb_roots b0) = (Ok (), roots)"
    using pki_roots [OF assms, of "pk_root_pem P" 1 "cb_roots b0"] by auto
  with b0 show ?thesis
    by (intro that [of b0 "b0\<lparr>cb_roots := roots\<rparr>"]) (simp_all add: builder_add_root_certs_def builder_agent_info_def)
qed

lemma builder_sends:
  "connect (builder_side F replies) b =
     ((case replies of
         [] \<Rightarrow> Err (IoError_from EK_UnexpectedEof)
       | f # _ \<Rightarrow> (case read_answer F (IoError_from EK_InvalidData) (codec_str F) f of
            Ok (Ok _) \<Rightarrow> Ok \<lparr>conn_endpoint = (), conn_connection = ()\<rparr>
          | Ok (Err e) \<Rightarrow> Err (IoError_new EK_ConnectionRefused (''server requires protocol version '' @ e))
          | Err e \<Rightarrow> Err e)),
      Some ([enc (codec_AgentInfo F) (builder_agent_info b (SocketAddr_V6 0 0 0 0))], tl replies))"
  by (cases replies) (simp_all add: connect_def builder_side_def exchange_agent_info_def agent_side_def
      placeholder_addr_def split: sum.split)

context test_semver
begin

lemma setup_connects:
  assumes F: "lawful_format F" and P: "generated P" and fit: "fits (codec_AgentInfo F) info"
    and conf: "\<And>b. (\<And>a. builder_agent_info b a = (test_info CRATE_VERSION)\<lparr>ai_addr := a\<rparr>) \<Longrightarrow>
      builder_agent_info (configure b) (SocketAddr_V6 0 0 0 0) = info"
    and who: "ai_agent_name info = AGENT_NAME" "ai_agent_version info = AGENT_VERSION"
      "ai_protocol_version info = CRATE_VERSION"
  shows "setup_with sv F P addr configure = Some (info\<lparr>ai_addr := addr\<rparr>)"
proof -
  obtain req where req: "parse_version_req sv CRATE_VERSION = Ok req"
      "acceptable sv req (mk (0, 24, 0)) CRATE_VERSION" "parse_version sv CRATE_VERSION = Ok (mk (0, 24, 0))"
    by (rule crate_window)
  have shown: "show_version sv (mk (0, 24, 0)) = CRATE_VERSION" "length CRATE_VERSION = 6"
    using parses [OF listed(2)] by (simp_all add: CRATE_VERSION_def)
  have told: "read_answer F e (codec_str F) (enc (codec_result F (codec_str F)) (Ok CRATE_VERSION)) = Ok (Ok CRATE_VERSION)" for e
    by (rule read_answer_ok [OF F lawful_format_parts(13) [OF F]]) (simp add: codec_simps shown MAX_LEN_def)
  have "server_handshake sv (wire_decoder F ()) (manager_side F) (Some [enc (codec_AgentInfo F) info]) addr
      CRATE_VERSION CRATE_VERSION =
      (Ok (info\<lparr>ai_addr := addr\<rparr>), Some [enc (codec_AgentInfo F) info],
       Some ([enc (codec_result F (codec_str F)) (Ok CRATE_VERSION)], []))"
    using req info_reads [OF F fit] who(3)
    by (simp add: acceptable_def server_handshake_def settle_handshake_def settle_guard manager_side_def Let_def shown)
  moreover obtain b0 b where
    "ConnectionBuilder_new (pk_tls P) ''test-server'' (SocketAddr_V6 1 60190 0 0) AGENT_NAME AGENT_VERSION
       CRATE_VERSION Status_Ready (pk_single_pem P) (pk_single_key_pem P) = Ok b0"
    "builder_add_root_certs (pk_tls P) (pk_root_pem P) b0 = (Ok (), b)"
    "builder_agent_info (configure b) (SocketAddr_V6 0 0 0 0) = info"
    using setup_builder [OF P] conf by metis
  ultimately show ?thesis
    using told who by (simp add: setup_with_def builder_sends)
qed

lemma connect_tests_pass:
  assumes "lawful_format F" and "generated P"
  shows "test_connect_sends_the_configured_tail sv F P addr"
    "test_connect_without_a_configured_tail_advertises_nothing sv F P addr"
proof -
  let ?base = "(test_info CRATE_VERSION)\<lparr>ai_addr := SocketAddr_V6 0 0 0 0\<rparr>"
  let ?full = "?base\<lparr>ai_capabilities := {REGISTRAR, ''future:thing''}, ai_active_trust_epoch := Some 9,
    ai_manifest_formats := Some \<lparr>mf_min = 1, mf_max = 3\<rparr>, ai_provisioning_fingerprint := Some connect_fingerprint,
    ai_audit_health := Some connect_health\<rparr>"
  have fit: "fits (codec_AgentInfo F) ?base" "fits (codec_AgentInfo F) ?full"
    using lawful_format_parts(22) [OF assms(1)]
    by (simp_all add: test_info_def connect_fingerprint_def connect_health_def fits_AgentInfo base_of_def
        codec_AgentInfoBase_def codec_capabilities_def tail_fixtures CRATE_VERSION_def wire_fits codec_simps MAX_LEN_def
        card_insert_if)
  show "test_connect_without_a_configured_tail_advertises_nothing sv F P addr"
    unfolding test_connect_without_a_configured_tail_advertises_nothing_def
    by (subst setup_connects [OF assms fit(1)]) (simp_all add: test_info_def)
  show "test_connect_sends_the_configured_tail sv F P addr"
    unfolding test_connect_sends_the_configured_tail_def
    by (subst setup_connects [OF assms fit(2)])
      (auto simp: test_info_def REGISTRAR_def builder_agent_info_def builder_capabilities_def
        builder_active_trust_epoch_def builder_manifest_formats_def builder_provisioning_fingerprint_def
        builder_audit_health_def)
qed

end

end
