(* ===== verification/Spec2Isabelle.thy ===== *)
theory Spec2Isabelle
  imports Handshake Event_Stream Node_Handle Client_Tests Install_Sequential Install_Session Endpoint Unit_Tests Wire_Calls Types_Tests_More Agent_Info_Tests Undecodable_Tests Handler_Tests Connection_Tests Builder_Tests
begin

text \<open>
  A verification development of \<open>review-protocol\<close>, the crate that carries the requests
  between a manager (the crate's server side) and its agents (the client side) over QUIC.

  \<^bold>\<open>The program.\<close> An agent connects, sends an \<open>AgentInfo\<close> and is accepted when
  its protocol version lies in the manager's window. From then on either side opens a stream,
  sends a request, a 32-bit code and its arguments, and reads the answer. The manager asks
  through the calls of \<open>server/api.rs\<close> and \<open>server/node.rs\<close>, which the agent serves
  with the dispatchers of \<open>request.rs\<close>; the agent asks through \<open>client/api.rs\<close>,
  which the manager serves with the dispatcher of \<open>server/handler.rs\<close>, guarded by an
  authorizer. One request is more than a question and an answer: an install streams a package
  after a verdict. Events flow on a stream of their own, read by \<open>server/stream.rs\<close>.

  \<^bold>\<open>How it is modelled.\<close> A function of the source is a function of the same name that
  returns its result, as \<open>Ok\<close> or \<open>Err\<close>, and the state it left; a loop is an instance
  of \<open>iterate\<close>, whose value \<open>None\<close> is a loop that never ends, and no loop has fuel.
  Integers are words of their width. Parameters of the model are what lies outside the sources:
  quinn and oinq (opening a stream, sending and receiving a frame), bincode at each type it is
  used at, semver, rustls, and the application's handlers and authorizers. What a theorem needs
  of them is a named hypothesis: a receiving half has a finite backlog
  (\<open>finite_backlog\<close>), a sending half works and logs its frames (\<open>sends_logged\<close>,
  \<open>sv_logged\<close>, \<open>frames_logged\<close>), a reader delivers a byte string
  (\<open>reads_from\<close>), an encoded value decodes to itself (\<open>decodes\<close>, \<open>carries\<close>,
  which follow from \<open>lawful_format\<close>: bincode reads back what it wrote of a number, a tag or a
  string and decides on the bytes it consumes alone),
  and for two sides that run at once, a stream that keeps frames in order, refuses a frame once a
  direction is closed and reports an end to its reader (\<open>wired\<close>).
  Each such theorem is applied to a concrete instance.

  \<^bold>\<open>The theories.\<close>
  \<^item> \<open>RP_Prelude\<close>: integers, results, the question-mark operator, \<open>iterate\<close> with
    its induction, invariant and simulation rules, and the interfaces \<open>loop_variant\<close> and
    \<open>num_enum\<close>. \<open>Session\<close>: what the two dispatchers share.
  \<^item> \<open>Protocol_Error\<close> (\<open>protocol_error.rs\<close>), \<open>Wire_Types\<close> and
    \<open>Node_Types\<close> (\<open>types.rs\<close>), \<open>Request_Codes\<close> (the two \<open>RequestCode\<close>
    enums of \<open>client.rs\<close> and \<open>server.rs\<close>), \<open>Service_Id\<close>
    (\<open>service_id.rs\<close>, interfaces \<open>service_table\<close> and \<open>node_family\<close>),
    \<open>Auth\<close> (\<open>auth.rs\<close>, interface \<open>context_authorizer\<close>).
  \<^item> \<open>Agent_Info\<close> (\<open>lib.rs\<close>): the decoding of \<open>AgentInfo\<close> with its
    conditional tail. \<open>Handshake\<close> (\<open>client.rs\<close>, \<open>server.rs\<close>): the builder,
    \<open>connect\<close> and the manager's \<open>handshake\<close>; an argument error is found before any
    I/O, the window decides, and both sides agree on the outcome.
  \<^item> \<open>Agent_Transport\<close>, \<open>Package_Reader\<close>, \<open>Agent_Handlers\<close>,
    \<open>Agent_Request\<close>, \<open>Agent_Dispatch\<close> (\<open>request.rs\<close>): the package reader
    with its contract \<open>bounded_reader\<close>, the handler traits, the two dispatch loops, and
    what they promise: a request is answered with the frames it is due, undecodable arguments
    and unknown codes never reach the handler, an install leaves the stream at the next
    request, the loops return.
  \<^item> \<open>Server_Handler\<close>, \<open>Server_Dispatch\<close> (\<open>server/handler.rs\<close>): the
    manager's dispatch; denials, the equality of the two authorized entry points behind the
    adapter, arguments that do not decode, one answer for each request, the place a session keeps
    in its stream of requests, termination.
  \<^item> \<open>Event_Stream\<close> (\<open>server/stream.rs\<close>): on a stream the agent has
    ended the event loop refines \<open>feed\<close>.
  \<^item> \<open>Client_Api\<close> (\<open>client/api.rs\<close>, \<open>unary_request\<close>): the agent's calls.
    \<open>Manager_Connection\<close>: the contract \<open>manager_connection\<close> of a connection whose far end is
    the manager's guarded dispatch, in which each call is a call of the manager's method or a
    denial. \<open>Client_Server\<close> meets it with a connection of values, \<open>Wire_Client\<close> with one
    of bytes.
  \<^item> \<open>Manager_Api\<close>, \<open>Manager_Package\<close>, \<open>Manager_Guard\<close>
    (\<open>server/api.rs\<close>), \<open>Node_Handle\<close> (\<open>server/node.rs\<close>): the manager's
    calls, the streaming of a package, the guards of the eleven node families as one contract
    \<open>guarded_family\<close>, and the handle \<open>Node\<close>.
  \<^item> \<open>Agent_Connection\<close>: the contract \<open>agent_connection\<close> of a link whose far end is
    the agent's dispatch, and, once for every such link, what each of the manager's calls does to
    the agent's handler. \<open>Manager_Agent\<close> meets it with a link that hands values over, and
    \<open>Wire_Link\<close> with one that carries bytes, encoded and decoded by the derived codecs: each
    call runs the agent's method, a power request is waited for exactly when it is answered, and
    an install hands over the manager's bytes.
  \<^item> \<open>Install_Moves\<close>, \<open>Install_Protocol\<close>, \<open>Install_Session\<close>,
    \<open>Install_Sequential\<close>: the install with both sides running at once.
    \<open>install_exchange\<close> and \<open>dispatch_node_package\<close> are cut at the operations they wait
    on, and a step relation interleaves their moves with the events of a stream that holds
    \<open>cap\<close> frames and may be reset or lost; \<open>cap\<close> is any number, and one frame is enough
    for progress. Run alone the moves are the functions; the exchange always ends on both sides,
    what is in flight is bounded and accounted for, an aborted install is never a success, no frame
    is read at a type it was not sent at, and every interleaving without loss has the outcome of
    the sequential reading of \<open>Manager_Agent\<close>.
  \<^item> \<open>Endpoint\<close> (\<open>client.rs\<close>, \<open>server.rs\<close>, \<open>frame.rs\<close>): the
    endpoint a builder makes, the methods that hand a call to quinn, the generic framing and the
    agent's bare handshake, which is the exchange inside \<open>connect\<close>.
  \<^item> \<open>Wire_Codec\<close>: how serde's derives lay a struct, an enum, an \<open>Option\<close>, a sequence,
    a map or a set out, over a format that is a parameter, and that each constructor keeps the
    laws of its parts; \<open>fits\<close> is the domain, the values the program can hold (lengths up to
    \<open>isize::MAX\<close> bytes, finite maps, durations with less than a second of nanoseconds, no IPv6
    flow or scope, which serde drops). \<open>Wire_Formats\<close>: bincode's two configurations by their
    documented layout, both lawful; values of ipnet, jiff's civil times and column statistics are
    opaque bytes. \<open>Wire_Derive\<close> and \<open>Wire_Layout\<close>: the codec of each of the 86 types of
    \<open>types.rs\<close>, its law, its bytes and its domain, and what becomes of values of a newer
    release. \<open>Wire_Calls\<close>: the payload of every request in both directions survives the wire
    and is refused when cut. \<open>Wire_Answers\<close>: the agent's answers, which are
    \<open>Result\<close>s. \<open>Wire_Agent_Info\<close>: the same of \<open>AgentInfo\<close>, whose tail may
    end at a field boundary and nowhere else.
  \<^item> \<open>Client_Tests\<close> (\<open>test.rs\<close>, the tests of \<open>client/api.rs\<close>) and
    \<open>Unit_Tests\<close> (the tests of \<open>service_id.rs\<close>, \<open>auth.rs\<close>,
    \<open>protocol_error.rs\<close> and of the request codes), \<open>Types_Tests\<close> and
    \<open>Types_Tests_More\<close> (the tests of \<open>types.rs\<close>), \<open>Agent_Info_Tests\<close> (the tests of the
    conditional tail in \<open>lib.rs\<close>), \<open>Request_Tests\<close>, \<open>Install_Tests\<close>,
    \<open>Install_Exchange_Tests\<close> and \<open>Undecodable_Tests\<close> (the tests of \<open>request.rs\<close>, run by
    \<open>Request_Harness\<close> on listed frames with requests and answers as bytes), \<open>Api_Tests\<close>,
    \<open>Api_Install_Tests\<close> and \<open>Node_Tests\<close> (the tests of \<open>server/api.rs\<close> and
    \<open>server/node.rs\<close>, run by \<open>Api_Harness\<close> over the link of \<open>Wire_Link\<close> for any
    lawful format), \<open>Handler_Tests\<close> (the tests of \<open>server/handler.rs\<close>, over frames of bytes),
    \<open>Handshake_Tests\<close> (the handshakes of \<open>lib.rs\<close> and \<open>server.rs\<close>, for any semver that
    has the laws of \<open>test_semver\<close>), \<open>Connection_Tests\<close> (event streams and free functions of
    \<open>server.rs\<close>, and \<open>frame.rs\<close>) and \<open>Builder_Tests\<close> (the builder of \<open>client.rs\<close>):
    the crate's own tests, as assertions on the model, which all
    hold; the tests of encodings for every format with the few widths they pin
    (\<open>fixed_int\<close>, \<open>standard_config\<close>, \<open>undecodable_config\<close>). A test handler that reads a
    payload in a loop is unrolled once for each byte of the package, which is enough for chunks
    that are not empty.
  \<^item> This theory: what spans the tables, the ids of requests and the reading of numbers.

  \<^bold>\<open>What is not modelled.\<close> The insides of quinn, rustls, oinq, bincode and semver,
  which are parameters; of \<open>test.rs\<close> the channels and certificates, which only drive quinn
  and rcgen; the test of \<open>server.rs\<close> that measures how tokio schedules its tasks
  (\<open>test_concurrency_limiting\<close>); the tests of \<open>stream.rs\<close>, which are
  empty; the test of \<open>auth.rs\<close> whose authorizer records its peer in shared cells (an authorizer
  is a pure function here, and \<open>to_from_peer_context\<close> is what the test looks at); the tests of
  derived \<open>Copy\<close>, \<open>Hash\<close> and \<open>Debug\<close>; the text of derived \<open>Debug\<close> renderings. Outside the install exchange a call is sequential: it
  owns its stream, and calls on different streams meet only in the handler.
\<close>

section \<open>Properties that span components\<close>

subsection \<open>Service ids and wire codes\<close>

lemma directions_distinct:
  "\<forall>c \<in> set (map snd client_code_table). \<forall>d \<in> set (map snd server_code_table).
     from_client_request_code c \<noteq> from_server_request_code d"
  by code_simp

lemma directions_apart:
  assumes "from_client_request_code c = Some s" and "from_server_request_code d = Some t"
  shows "ServiceId_fmt s \<noteq> ServiceId_fmt t"
proof
  assume "ServiceId_fmt s = ServiceId_fmt t"
  then have "s = t"
    using assms client_service_in_all server_service_in_all ServiceId_fmt_inj_on
    by (blast dest: inj_onD)
  moreover have "c \<noteq> RC_Unknown" "d \<noteq> SC_Unknown"
    using assms by auto
  then have "c \<in> set (map snd client_code_table)" "d \<in> set (map snd server_code_table)"
    using client_codes_complete [of c] server_codes_complete [of d] by simp_all
  ultimately show False
    using directions_distinct assms by metis
qed

text \<open>
  C39. A printed service id identifies the request it was derived from: no two request codes of
  one direction print the same id, no id of one direction prints like one of the other, and a
  code nobody assigned has no id. An authorizer that decides on the printed id decides on the
  request.
\<close>

theorem printed_service_id_names_request:
  "(from_client_request_code (client_code_from n) = Some s
      \<and> from_client_request_code (client_code_from m) = Some t
      \<and> ServiceId_fmt s = ServiceId_fmt t \<longrightarrow> n = m)
   \<and> (from_server_request_code (server_code_from n) = Some s
      \<and> from_server_request_code (server_code_from m) = Some t
      \<and> ServiceId_fmt s = ServiceId_fmt t \<longrightarrow> n = m)
   \<and> (from_client_request_code (client_code_from n) = Some s
      \<and> from_server_request_code (server_code_from m) = Some t \<longrightarrow>
      ServiceId_fmt s \<noteq> ServiceId_fmt t)
   \<and> (n \<notin> range client_code_into \<longrightarrow> from_client_request_code (client_code_from n) = None)
   \<and> (n \<notin> range server_code_into \<longrightarrow> from_server_request_code (server_code_from n) = None)"
  using client_service.printed_id_names_wire [of n s m t] server_service.printed_id_names_wire [of n s m t]
    client_service.wire_unnamed [of n] server_service.wire_unnamed [of n]
    directions_apart [of "client_code_from n" s "server_code_from m" t]
  by blast

theorem printed_service_id_names_request_witness:
  "ServiceId_fmt NODE_POWER \<noteq> ServiceId_fmt SERVER_CONFIG_GET"
proof -
  have "from_client_request_code (client_code_from (client_code_into RC_NodePower)) = Some NODE_POWER"
    "from_server_request_code (server_code_from (server_code_into SC_GetConfig)) = Some SERVER_CONFIG_GET"
    unfolding client_code_round server_code_round by simp_all
  with printed_service_id_names_request [of "client_code_into RC_NodePower" NODE_POWER
      "server_code_into SC_GetConfig" SERVER_CONFIG_GET]
  show ?thesis by blast
qed

text \<open>
  C40. The method-level id of every typed node request lies in the family its wire code names:
  it is one of the published ids, it prints as the family's id, a dot and the method, and so it
  is never the family's id itself. A policy written for a family covers its requests, and a
  policy written for a method does not cover the family.
\<close>

theorem typed_ids_lie_in_wire_families:
  "(from_client_request_code RC_NodeService = Some NODE_SERVICE
      \<and> NodeServiceRequest_service_id ra \<in> set all_ids \<and> NodeServiceRequest_service_id ra \<noteq> NODE_SERVICE
      \<and> ServiceId_fmt (NodeServiceRequest_service_id ra) =
          ServiceId_fmt NODE_SERVICE @ ''.'' @ sid_method (NodeServiceRequest_service_id ra))
   \<and> (from_client_request_code RC_NodeNetworkInterface = Some NODE_NETWORK_INTERFACE
      \<and> NodeNetworkInterfaceRequest_service_id rb \<in> set all_ids \<and> NodeNetworkInterfaceRequest_service_id rb \<noteq> NODE_NETWORK_INTERFACE
      \<and> ServiceId_fmt (NodeNetworkInterfaceRequest_service_id rb) =
          ServiceId_fmt NODE_NETWORK_INTERFACE @ ''.'' @ sid_method (NodeNetworkInterfaceRequest_service_id rb))
   \<and> (from_client_request_code RC_NodeHostname = Some NODE_HOSTNAME
      \<and> NodeHostnameRequest_service_id rc \<in> set all_ids \<and> NodeHostnameRequest_service_id rc \<noteq> NODE_HOSTNAME
      \<and> ServiceId_fmt (NodeHostnameRequest_service_id rc) =
          ServiceId_fmt NODE_HOSTNAME @ ''.'' @ sid_method (NodeHostnameRequest_service_id rc))
   \<and> (from_client_request_code RC_NodeTimeSync = Some NODE_TIME_SYNC
      \<and> NodeTimeSyncRequest_service_id rd \<in> set all_ids \<and> NodeTimeSyncRequest_service_id rd \<noteq> NODE_TIME_SYNC
      \<and> ServiceId_fmt (NodeTimeSyncRequest_service_id rd) =
          ServiceId_fmt NODE_TIME_SYNC @ ''.'' @ sid_method (NodeTimeSyncRequest_service_id rd))
   \<and> (from_client_request_code RC_NodeLogging = Some NODE_LOGGING
      \<and> NodeLoggingRequest_service_id re \<in> set all_ids \<and> NodeLoggingRequest_service_id re \<noteq> NODE_LOGGING
      \<and> ServiceId_fmt (NodeLoggingRequest_service_id re) =
          ServiceId_fmt NODE_LOGGING @ ''.'' @ sid_method (NodeLoggingRequest_service_id re))
   \<and> (from_client_request_code RC_NodeRemoteAccess = Some NODE_REMOTE_ACCESS
      \<and> NodeRemoteAccessRequest_service_id rf \<in> set all_ids \<and> NodeRemoteAccessRequest_service_id rf \<noteq> NODE_REMOTE_ACCESS
      \<and> ServiceId_fmt (NodeRemoteAccessRequest_service_id rf) =
          ServiceId_fmt NODE_REMOTE_ACCESS @ ''.'' @ sid_method (NodeRemoteAccessRequest_service_id rf))
   \<and> (from_client_request_code RC_NodePower = Some NODE_POWER
      \<and> NodePowerRequest_service_id rg \<in> set all_ids \<and> NodePowerRequest_service_id rg \<noteq> NODE_POWER
      \<and> ServiceId_fmt (NodePowerRequest_service_id rg) =
          ServiceId_fmt NODE_POWER @ ''.'' @ sid_method (NodePowerRequest_service_id rg))
   \<and> (from_client_request_code RC_NodeObservation = Some NODE_OBSERVATION
      \<and> NodeObservationRequest_service_id rh \<in> set all_ids \<and> NodeObservationRequest_service_id rh \<noteq> NODE_OBSERVATION
      \<and> ServiceId_fmt (NodeObservationRequest_service_id rh) =
          ServiceId_fmt NODE_OBSERVATION @ ''.'' @ sid_method (NodeObservationRequest_service_id rh))
   \<and> (from_client_request_code RC_NodeVersion = Some NODE_VERSION
      \<and> NodeVersionRequest_service_id ri \<in> set all_ids \<and> NodeVersionRequest_service_id ri \<noteq> NODE_VERSION
      \<and> ServiceId_fmt (NodeVersionRequest_service_id ri) =
          ServiceId_fmt NODE_VERSION @ ''.'' @ sid_method (NodeVersionRequest_service_id ri))
   \<and> (from_client_request_code RC_NodePackage = Some NODE_PACKAGE
      \<and> NodePackageRequest_service_id rj \<in> set all_ids \<and> NodePackageRequest_service_id rj \<noteq> NODE_PACKAGE
      \<and> ServiceId_fmt (NodePackageRequest_service_id rj) =
          ServiceId_fmt NODE_PACKAGE @ ''.'' @ sid_method (NodePackageRequest_service_id rj))
   \<and> (from_client_request_code RC_NodeEnroll = Some NODE_ENROLL
      \<and> NodeEnrollRequest_service_id rk \<in> set all_ids \<and> NodeEnrollRequest_service_id rk \<noteq> NODE_ENROLL
      \<and> ServiceId_fmt (NodeEnrollRequest_service_id rk) =
          ServiceId_fmt NODE_ENROLL @ ''.'' @ sid_method (NodeEnrollRequest_service_id rk))"
  by (intro conjI service.fam_of_code service.listed service.not_the_family service.prints_under_family
      interface.fam_of_code interface.listed interface.not_the_family interface.prints_under_family
      hostname.fam_of_code hostname.listed hostname.not_the_family hostname.prints_under_family
      time_sync.fam_of_code time_sync.listed time_sync.not_the_family time_sync.prints_under_family
      logging.fam_of_code logging.listed logging.not_the_family logging.prints_under_family
      remote_access.fam_of_code remote_access.listed remote_access.not_the_family remote_access.prints_under_family
      power.fam_of_code power.listed power.not_the_family power.prints_under_family
      observation.fam_of_code observation.listed observation.not_the_family observation.prints_under_family
      version.fam_of_code version.listed version.not_the_family version.prints_under_family
      package.fam_of_code package.listed package.not_the_family package.prints_under_family
      enroll.fam_of_code enroll.listed enroll.not_the_family enroll.prints_under_family)

subsection \<open>Values a newer peer may send\<close>

text \<open>
  Every request code and every lifecycle byte survives its own number, and a number this
  release does not know, which only a newer peer sends, reads as the unknown variant instead of
  failing; no known number does. A data type, in contrast, is read only from its own number.
\<close>

lemma wire_numbers_read_tolerantly:
  "client_code_from (client_code_into c) = c \<and> server_code_from (server_code_into d) = d
   \<and> Lifecycle_from (Lifecycle_into l) = l
   \<and> (client_code_from n = RC_Unknown \<longleftrightarrow> n = client_code_into RC_Unknown \<or> n \<notin> range client_code_into)
   \<and> (server_code_from n = SC_Unknown \<longleftrightarrow> n = server_code_into SC_Unknown \<or> n \<notin> range server_code_into)
   \<and> (Lifecycle_from b = Life_Unknown \<longleftrightarrow> b = Lifecycle_into Life_Unknown \<or> b \<notin> range Lifecycle_into)
   \<and> (DataType_try_from w = Some t \<longleftrightarrow> w = DataType_into t)"
  using client_code.from_unknown_iff server_code.from_unknown_iff lifecycle.from_unknown_iff
    client_code.from_into server_code.from_into lifecycle.from_into DataType_try_from_Some
  by blast

lemma wire_numbers_read_tolerantly_instance:
  "Lifecycle_from 77 = Life_Unknown \<and> client_code_from 4000 = RC_Unknown"
proof -
  have "Lifecycle_into l \<noteq> 77" and "client_code_into c \<noteq> 4000" for l c
    by (cases l; simp) (cases c; simp add: client_code_into.simps)
  then have "77 \<notin> range Lifecycle_into" "4000 \<notin> range client_code_into"
    by auto
  with wire_numbers_read_tolerantly [of RC_Unknown SC_Unknown Life_Unknown 4000 77] show ?thesis
    by blast
qed

end
